(* ===== verification/Prelude.thy ===== *)
theory Prelude
  imports Main "HOL-Library.Word"
begin

text \<open>
  The part of the C language and its library that the sources under
  \<^verbatim>\<open>src/internal/capture\<close> use, shared by every theory.

  A C string is the \<open>string\<close> of its bytes up to, and without, the terminating NUL; a
  pointer into a string is the suffix it points to, and a null pointer is \<open>None\<close>.
  A byte is a \<open>char\<close>. Signed C integers are \<open>int\<close> with the conversion to their
  width written out (\<open>cast_int\<close>); unsigned ones are words.
  \<open>strtol\<close>, \<open>strtoul\<close> and \<open>atoi\<close> are the base-10 versions of a
  64-bit libc (saturating on overflow, as the C standard has it).
  The lemmas give the print/parse round trip for decimal numbers and the behaviour of the
  search functions; those that rewrite are collected in \<open>cstr_simps\<close>.
\<close>

named_theorems cstr_simps "rewrite rules for C strings"

type_synonym uid_t = "32 word"
type_synonym ulong = "64 word"

subsection \<open>Error numbers\<close>

definition EINTR :: int where "EINTR = 4"
definition EIO :: int where "EIO = 5"
definition EAGAIN :: int where "EAGAIN = 11"
definition ENOMEM :: int where "ENOMEM = 12"
definition EINVAL :: int where "EINVAL = 22"
definition ERANGE :: int where "ERANGE = 34"

subsection \<open>Bytes and character classes\<close>

abbreviation byte :: "char \<Rightarrow> nat" where
  "byte c \<equiv> of_char c"

abbreviation NUL :: char where
  "NUL \<equiv> CHR 0x00"

abbreviation newline :: char where
  "newline \<equiv> CHR 0x0A"

abbreviation tab :: char where
  "tab \<equiv> CHR 0x09"

abbreviation backslash :: char where
  "backslash \<equiv> CHR 0x5C"

definition isspace :: "char \<Rightarrow> bool" where
  "isspace c \<longleftrightarrow> byte c = 32 \<or> 9 \<le> byte c \<and> byte c \<le> 13"

definition isdigit :: "char \<Rightarrow> bool" where
  "isdigit c \<longleftrightarrow> 48 \<le> byte c \<and> byte c \<le> 57"

definition tolower :: "char \<Rightarrow> char" where
  "tolower c = (if 65 \<le> byte c \<and> byte c \<le> 90 then char_of (byte c + 32) else c)"

definition toupper :: "char \<Rightarrow> char" where
  "toupper c = (if 97 \<le> byte c \<and> byte c \<le> 122 then char_of (byte c - 32) else c)"

text \<open>The C string held by a byte buffer.\<close>

definition cstr :: "string \<Rightarrow> string" where
  "cstr s = takeWhile (\<lambda>c. c \<noteq> NUL) s"

lemma cstr_id [simp]: "NUL \<notin> set s \<Longrightarrow> cstr s = s"
  by (auto simp: cstr_def takeWhile_eq_all_conv)

lemma NUL_notin_cstr [simp]: "NUL \<notin> set (cstr s)"
  by (auto simp: cstr_def dest: set_takeWhileD)

lemma cstr_append_NUL [cstr_simps]: "NUL \<notin> set x \<Longrightarrow> cstr (x @ NUL # y) = x"
  by (induction x) (auto simp: cstr_def)

lemma length_cstr: "length (cstr s) \<le> length s"
  by (simp add: cstr_def length_takeWhile_le)

subsection \<open>Searching and comparing\<close>

fun strchr :: "string \<Rightarrow> char \<Rightarrow> string option" where
  "strchr [] c = None"
| "strchr (x # xs) c = (if x = c then Some (x # xs) else strchr xs c)"

fun strrchr :: "string \<Rightarrow> char \<Rightarrow> string option" where
  "strrchr [] c = None"
| "strrchr (x # xs) c =
     (case strrchr xs c of
        Some s \<Rightarrow> Some s
      | None \<Rightarrow> if x = c then Some (x # xs) else None)"

fun is_prefix :: "string \<Rightarrow> string \<Rightarrow> bool" where
  "is_prefix [] s = True"
| "is_prefix (p # ps) [] = False"
| "is_prefix (p # ps) (x # xs) = (p = x \<and> is_prefix ps xs)"

fun strstr :: "string \<Rightarrow> string \<Rightarrow> string option" where
  "strstr [] pat = (if pat = [] then Some [] else None)"
| "strstr (x # xs) pat = (if is_prefix pat (x # xs) then Some (x # xs) else strstr xs pat)"

text \<open>\<open>strncmp(s, p, strlen(p)) == 0\<close> and the case-insensitive comparisons.\<close>

definition strncmp_eq :: "string \<Rightarrow> string \<Rightarrow> nat \<Rightarrow> bool" where
  "strncmp_eq s t n \<longleftrightarrow> take n s = take n t"

fun strcasecmp :: "string \<Rightarrow> string \<Rightarrow> int" where
  "strcasecmp [] [] = 0"
| "strcasecmp [] (y # ys) = - int (byte (tolower y))"
| "strcasecmp (x # xs) [] = int (byte (tolower x))"
| "strcasecmp (x # xs) (y # ys) =
     (let d = int (byte (tolower x)) - int (byte (tolower y))
      in if d \<noteq> 0 then d else strcasecmp xs ys)"

definition strncasecmp_eq :: "string \<Rightarrow> string \<Rightarrow> nat \<Rightarrow> bool" where
  "strncasecmp_eq s t n \<longleftrightarrow> map tolower (take n s) = map tolower (take n t)"

lemma strchr_SomeD: "strchr s c = Some r \<Longrightarrow> \<exists>pre. s = pre @ r \<and> c \<notin> set pre \<and> r \<noteq> [] \<and> hd r = c"
proof (induction s)
  case Nil
  then show ?case by simp
next
  case (Cons x xs)
  show ?case
  proof (cases "x = c")
    case True
    with Cons.prems show ?thesis by (intro exI [of _ "[]"]) auto
  next
    case False
    with Cons obtain pre where "xs = pre @ r \<and> c \<notin> set pre \<and> r \<noteq> [] \<and> hd r = c" by auto
    with False show ?thesis by (intro exI [of _ "x # pre"]) auto
  qed
qed

lemma strchr_None_iff [cstr_simps]: "strchr s c = None \<longleftrightarrow> c \<notin> set s"
  by (induction s) auto

lemma strchr_append [cstr_simps]: "c \<notin> set pre \<Longrightarrow> strchr (pre @ c # r) c = Some (c # r)"
  by (induction pre) auto

lemma strchr_length: "strchr s c = Some r \<Longrightarrow> length r \<le> length s"
  by (drule strchr_SomeD) auto

lemma strrchr_None_iff [cstr_simps]: "strrchr s c = None \<longleftrightarrow> c \<notin> set s"
  by (induction s) (auto split: option.splits)

lemma strrchr_append [cstr_simps]: "c \<notin> set r \<Longrightarrow> strrchr (pre @ c # r) c = Some (c # r)"
proof (induction pre)
  case Nil
  then have "strrchr r c = None" by (simp add: strrchr_None_iff)
  then show ?case by simp
qed simp

lemma is_prefix_iff: "is_prefix p s \<longleftrightarrow> (\<exists>r. s = p @ r)"
  by (induction p s rule: is_prefix.induct) auto

lemma is_prefix_append [cstr_simps]: "is_prefix p (p @ r)"
  by (auto simp: is_prefix_iff)

lemma strstr_SomeD: "strstr s pat = Some r \<Longrightarrow> \<exists>pre. s = pre @ r \<and> is_prefix pat r"
proof (induction s)
  case Nil
  then show ?case by (auto split: if_splits)
next
  case (Cons x xs)
  show ?case
  proof (cases "is_prefix pat (x # xs)")
    case True
    with Cons.prems show ?thesis by (intro exI [of _ "[]"]) auto
  next
    case False
    with Cons obtain pre where "xs = pre @ r \<and> is_prefix pat r" by auto
    then show ?thesis by (intro exI [of _ "x # pre"]) auto
  qed
qed

lemma strstr_NoneD: "strstr s pat = None \<Longrightarrow> s \<noteq> pre @ pat @ r"
proof (induction s arbitrary: pre)
  case Nil
  then show ?case by (auto split: if_splits)
next
  case (Cons x xs)
  then have none: "strstr xs pat = None" and np: "\<not> is_prefix pat (x # xs)"
    by (auto split: if_splits)
  show ?case
  proof (cases pre)
    case Nil
    with np show ?thesis by (auto simp: is_prefix_iff)
  next
    case (Cons y ys)
    with Cons.IH [OF none, of ys] show ?thesis by simp
  qed
qed

lemma strstr_length: "strstr s pat = Some r \<Longrightarrow> length r \<le> length s"
  by (drule strstr_SomeD) auto

lemma byte_eq_0_iff: "byte c = 0 \<longleftrightarrow> c = NUL"
proof -
  have "byte NUL = 0" by simp
  then show ?thesis by (metis of_char_eq_iff)
qed

lemma byte_tolower: "byte (tolower c) = (if 65 \<le> byte c \<and> byte c \<le> 90 then byte c + 32 else byte c)"
  by (simp add: tolower_def of_char_of)

lemma byte_tolower_pos: "c \<noteq> NUL \<Longrightarrow> 0 < byte (tolower c)"
  using byte_eq_0_iff [of c] by (simp add: byte_tolower)

lemma strcasecmp_eq_0_iff:
  "NUL \<notin> set s \<Longrightarrow> NUL \<notin> set t \<Longrightarrow> strcasecmp s t = 0 \<longleftrightarrow> map tolower s = map tolower t"
proof (induction s t rule: strcasecmp.induct)
  case (2 y ys)
  then show ?case using byte_tolower_pos [of y] by auto
next
  case (3 x xs)
  then show ?case using byte_tolower_pos [of x] by auto
next
  case (4 x xs y ys)
  then show ?case by (auto simp: Let_def)
qed simp

subsection \<open>Integers of the C implementation\<close>

text \<open>Conversion to a 32-bit \<open>int\<close> (two's complement, as gcc defines it).\<close>

definition cast_int :: "int \<Rightarrow> int" where
  "cast_int x = (x + 2 ^ 31) mod 2 ^ 32 - 2 ^ 31"

definition INT_MAX :: int where
  "INT_MAX = 2147483647"

definition LONG_MAX :: int where
  "LONG_MAX = 9223372036854775807"

definition LONG_MIN :: int where
  "LONG_MIN = - 9223372036854775808"

definition ULONG_MAX :: int where
  "ULONG_MAX = 18446744073709551615"

lemma cast_int_id: "- (2 ^ 31) \<le> x \<Longrightarrow> x < 2 ^ 31 \<Longrightarrow> cast_int x = x"
  by (simp add: cast_int_def)

lemma cast_int_bounds: "- (2 ^ 31) \<le> cast_int x \<and> cast_int x < 2 ^ 31"
  by (simp add: cast_int_def)

lemma word_of_int_mod32: "(word_of_int (x mod 2 ^ 32) :: 32 word) = word_of_int x"
  by (simp add: word_of_int_eq_iff take_bit_eq_mod)

text \<open>Storing an \<open>int\<close> in a \<open>uid_t\<close> undoes the conversion to \<open>int\<close>.\<close>

lemma word_of_int_cast_int [simp]: "(word_of_int (cast_int x) :: 32 word) = word_of_int x"
proof -
  have "(word_of_int (cast_int x) :: 32 word) = word_of_int ((x + 2 ^ 31) mod 2 ^ 32) - word_of_int (2 ^ 31)"
    by (simp add: cast_int_def del: word_of_int_mod32)
  also have "\<dots> = word_of_int (x + 2 ^ 31) - word_of_int (2 ^ 31)"
    by (simp only: word_of_int_mod32)
  also have "\<dots> = word_of_int x" by simp
  finally show ?thesis .
qed

subsection \<open>Decimal output: \<open>%u\<close>, \<open>%d\<close>, \<open>%lu\<close>\<close>

definition digit_char :: "nat \<Rightarrow> char" where
  "digit_char d = char_of (48 + d)"

fun show_nat :: "nat \<Rightarrow> string" where
  "show_nat n = (if n < 10 then [digit_char n] else show_nat (n div 10) @ [digit_char (n mod 10)])"

declare show_nat.simps [simp del]

definition show_int :: "int \<Rightarrow> string" where
  "show_int i = (if i < 0 then CHR ''-'' # show_nat (nat (- i)) else show_nat (nat i))"

subsection \<open>Decimal input: \<open>strtol\<close>, \<open>strtoul\<close>, \<open>atoi\<close>\<close>

definition digits_val :: "string \<Rightarrow> nat" where
  "digits_val ds = foldl (\<lambda>a c. 10 * a + (byte c - 48)) 0 ds"

text \<open>The sign of the number at the front of a string, and what follows it.\<close>

definition split_sign :: "string \<Rightarrow> bool \<times> string" where
  "split_sign t = (case t of
      [] \<Rightarrow> (False, [])
    | c # r \<Rightarrow> if c = CHR ''-'' then (True, r) else if c = CHR ''+'' then (False, r) else (False, t))"

text \<open>
  The exact value of the number at the front of a string and the rest of the string;
  \<open>None\<close> where \<open>strtol\<close> finds no digit (\<open>endp == str\<close>).
\<close>

definition scan_number :: "string \<Rightarrow> (int \<times> string) option" where
  "scan_number s =
     (let (neg, u) = split_sign (dropWhile isspace s);
          ds = takeWhile isdigit u
      in if ds = [] then None
         else Some (if neg then - int (digits_val ds) else int (digits_val ds), dropWhile isdigit u))"

definition strtol :: "string \<Rightarrow> int \<times> string" where
  "strtol s = (case scan_number s of
      None \<Rightarrow> (0, s)
    | Some (v, r) \<Rightarrow> (max LONG_MIN (min LONG_MAX v), r))"

definition strtol_erange :: "string \<Rightarrow> bool" where
  "strtol_erange s = (case scan_number s of
      None \<Rightarrow> False
    | Some (v, r) \<Rightarrow> v < LONG_MIN \<or> LONG_MAX < v)"

definition strtoul :: "string \<Rightarrow> ulong \<times> string" where
  "strtoul s = (case scan_number s of
      None \<Rightarrow> (0, s)
    | Some (v, r) \<Rightarrow> (if ULONG_MAX < \<bar>v\<bar> then of_int ULONG_MAX else of_int v, r))"

definition strtoul_erange :: "string \<Rightarrow> bool" where
  "strtoul_erange s = (case scan_number s of None \<Rightarrow> False | Some (v, r) \<Rightarrow> ULONG_MAX < \<bar>v\<bar>)"

definition atoi :: "string \<Rightarrow> int" where
  "atoi s = cast_int (fst (strtol s))"

text \<open>\<open>snprintf(buf, n, "%s", s)\<close> for \<open>0 < n\<close>: what the buffer holds.\<close>

definition snprintf_buf :: "nat \<Rightarrow> string \<Rightarrow> string" where
  "snprintf_buf n s = take (n - 1) s"

lemma length_snprintf_buf: "0 < n \<Longrightarrow> length (snprintf_buf n s) < n"
  by (simp add: snprintf_buf_def)

subsection \<open>Print and parse are inverse\<close>

lemma byte_digit_char: "d < 10 \<Longrightarrow> byte (digit_char d) = 48 + d"
  by (simp add: digit_char_def of_char_of)

lemma digit_char_simps [simp]:
  "digit_char 0 = CHR ''0''" "digit_char (Suc 0) = CHR ''1''" "digit_char 2 = CHR ''2''"
  "digit_char 3 = CHR ''3''" "digit_char 4 = CHR ''4''" "digit_char 5 = CHR ''5''"
  "digit_char 6 = CHR ''6''" "digit_char 7 = CHR ''7''" "digit_char 8 = CHR ''8''"
  "digit_char 9 = CHR ''9''"
  by code_simp+

lemma isdigit_digit_char [simp]: "d < 10 \<Longrightarrow> isdigit (digit_char d)"
  by (simp add: isdigit_def byte_digit_char)

lemma show_nat_digits: "c \<in> set (show_nat n) \<Longrightarrow> isdigit c"
proof (induction n rule: show_nat.induct)
  case (1 n)
  then show ?case
    by (cases "n < 10") (auto simp: show_nat.simps [of n])
qed

lemma show_nat_nonempty [simp]: "show_nat n \<noteq> []"
  by (subst show_nat.simps) simp

lemma digits_val_snoc: "digits_val (ds @ [c]) = 10 * digits_val ds + (byte c - 48)"
  by (simp add: digits_val_def)

lemma digits_val_show_nat [cstr_simps]: "digits_val (show_nat n) = n"
proof (induction n rule: show_nat.induct)
  case (1 n)
  show ?case
  proof (cases "n < 10")
    case True
    then show ?thesis by (simp add: show_nat.simps [of n] digits_val_def byte_digit_char)
  next
    case False
    with 1 show ?thesis
      by (simp add: show_nat.simps [of n] digits_val_snoc byte_digit_char)
  qed
qed

lemma isdigit_not_space: "isdigit c \<Longrightarrow> \<not> isspace c"
  by (auto simp: isdigit_def isspace_def)

lemma isdigit_not_sign: "isdigit c \<Longrightarrow> c \<noteq> CHR ''-'' \<and> c \<noteq> CHR ''+''"
  by (auto simp: isdigit_def)

lemma takeWhile_isdigit_append:
  "(\<And>c. c \<in> set ds \<Longrightarrow> isdigit c) \<Longrightarrow> (r = [] \<or> \<not> isdigit (hd r)) \<Longrightarrow>
   takeWhile isdigit (ds @ r) = ds \<and> dropWhile isdigit (ds @ r) = r"
  by (induction ds) (cases r; auto)+

definition ends_number :: "string \<Rightarrow> bool" where
  "ends_number r \<longleftrightarrow> r = [] \<or> \<not> isdigit (hd r)"

lemma scan_number_digits:
  assumes "\<And>c. c \<in> set ds \<Longrightarrow> isdigit c" "ds \<noteq> []" "ends_number r"
  shows "scan_number (ds @ r) = Some (int (digits_val ds), r)"
proof -
  obtain d ds' where ds: "ds = d # ds'" using assms(2) by (cases ds) auto
  with assms(1) have d: "isdigit d" by simp
  have "dropWhile isspace (ds @ r) = ds @ r"
    using isdigit_not_space [OF d] ds by simp
  moreover have "split_sign (ds @ r) = (False, ds @ r)"
    using isdigit_not_sign [OF d] ds by (simp add: split_sign_def)
  moreover have "takeWhile isdigit (ds @ r) = ds \<and> dropWhile isdigit (ds @ r) = r"
    using assms(1,3) by (intro takeWhile_isdigit_append) (auto simp: ends_number_def)
  ultimately show ?thesis using assms(2) by (simp add: scan_number_def)
qed

lemma scan_number_show_nat [cstr_simps]:
  "ends_number r \<Longrightarrow> scan_number (show_nat n @ r) = Some (int n, r)"
  by (subst scan_number_digits) (auto simp: show_nat_digits digits_val_show_nat)

lemma scan_number_show_int [cstr_simps]:
  assumes "ends_number r"
  shows "scan_number (show_int i @ r) = Some (i, r)"
proof (cases "i < 0")
  case False
  then show ?thesis using assms by (simp add: show_int_def scan_number_show_nat)
next
  case True
  let ?ds = "show_nat (nat (- i))"
  have "takeWhile isdigit (?ds @ r) = ?ds \<and> dropWhile isdigit (?ds @ r) = r"
    using assms by (intro takeWhile_isdigit_append) (auto simp: ends_number_def show_nat_digits)
  with True show ?thesis
    by (simp add: scan_number_def show_int_def split_sign_def isspace_def digits_val_show_nat)
qed

lemma scan_number_space [cstr_simps]: "isspace c \<Longrightarrow> scan_number (c # s) = scan_number s"
  by (simp add: scan_number_def)

lemma ends_number_Nil [simp]: "ends_number []"
  by (simp add: ends_number_def)

lemma ends_number_Cons [simp]: "ends_number (c # r) \<longleftrightarrow> \<not> isdigit c"
  by (simp add: ends_number_def)

lemma atoi_show_int:
  "- (2 ^ 31) \<le> i \<Longrightarrow> i < 2 ^ 31 \<Longrightarrow> ends_number r \<Longrightarrow> atoi (show_int i @ r) = i"
  by (simp add: atoi_def strtol_def scan_number_show_int cast_int_id LONG_MIN_def LONG_MAX_def)

lemma atoi_space: "isspace c \<Longrightarrow> atoi (c # s) = atoi s"
  by (auto simp: atoi_def strtol_def scan_number_space split: option.splits)

lemma atoi_bounds: "- (2 ^ 31) \<le> atoi s \<and> atoi s < 2 ^ 31"
  unfolding atoi_def by (rule cast_int_bounds)

lemma length_split_sign: "length (snd (split_sign t)) \<le> length t"
  by (auto simp: split_sign_def split: list.splits)

lemma scan_number_length: "scan_number s = Some (v, r) \<Longrightarrow> length r \<le> length s"
proof -
  assume "scan_number s = Some (v, r)"
  then have r: "r = dropWhile isdigit (snd (split_sign (dropWhile isspace s)))"
    by (simp add: scan_number_def case_prod_beta Let_def split: if_splits)
  have "length r \<le> length (snd (split_sign (dropWhile isspace s)))"
    unfolding r by (rule length_dropWhile_le)
  also have "\<dots> \<le> length (dropWhile isspace s)" by (rule length_split_sign)
  also have "\<dots> \<le> length s" by (rule length_dropWhile_le)
  finally show ?thesis .
qed

lemma strtol_length: "length (snd (strtol s)) \<le> length s"
  by (auto simp: strtol_def dest: scan_number_length split: option.splits)

text \<open>The length of a decimal number: no longer than the bound's own digits.\<close>

lemma length_show_nat: "n < 10 ^ k \<Longrightarrow> 0 < k \<Longrightarrow> length (show_nat n) \<le> k"
proof (induction n arbitrary: k rule: show_nat.induct)
  case (1 n)
  show ?case
  proof (cases "n < 10")
    case True
    with 1 show ?thesis by (simp add: show_nat.simps [of n])
  next
    case False
    obtain j where k: "k = Suc j" using "1.prems"(2) by (cases k) auto
    with False "1.prems" have j: "0 < j" by (cases j) auto
    have "n div 10 < 10 ^ j" using "1.prems"(1) k by (simp add: less_mult_imp_div_less)
    with "1.IH" False j have "length (show_nat (n div 10)) \<le> j" by simp
    with False k show ?thesis by (simp add: show_nat.simps [of n])
  qed
qed

lemma length_show_nat_32: "length (show_nat (unat (w :: 32 word))) \<le> 10"
proof (rule length_show_nat)
  have "unat w < 2 ^ 32" using unsigned_less [of w] by simp
  then show "unat w < 10 ^ 10" by simp
qed simp

lemma NUL_notin_show_nat [simp]: "NUL \<notin> set (show_nat n)"
  using show_nat_digits [of NUL n] by (auto simp: isdigit_def)

lemma NUL_notin_show_int [simp]: "NUL \<notin> set (show_int i)"
  by (simp add: show_int_def)

lemma length_show_int_32:
  assumes "- (2 ^ 31) \<le> i" "i < 2 ^ 31"
  shows "length (show_int i) \<le> 11"
proof -
  have "nat (- i) < 10 ^ 10" "nat i < 10 ^ 10" using assms by auto
  then show ?thesis
    using length_show_nat [of "nat (- i)" 10] length_show_nat [of "nat i" 10] by (simp add: show_int_def)
qed

lemma length_ge_3E:
  assumes "3 \<le> length xs"
  obtains a b c r where "xs = a # b # c # r"
  using assms by (auto simp: numeral_eq_Suc Suc_le_length_iff)

end
