(* ===== verification/Escape.thy ===== *)
theory Escape
  imports Prelude
begin

text \<open>
  \<^verbatim>\<open>procps/linux/escape.c\<close>: making process names and command lines printable.

  The two lookup tables, the in-place rewriting loops \<open>esc_all\<close> and \<open>esc_ctl\<close>, and
  the two entry points \<open>escape_str\<close> and \<open>escape_command\<close>.
  A loop that would step over the terminating NUL of its buffer is \<open>None\<close>, so that
  memory safety is a statement about results.
  The code set of the locale (\<open>nl_langinfo(CODESET)\<close>, read once per thread) is an argument.
  Plain \<open>char\<close> is signed, as on x86-64 (\<open>UTF_tab\<close> holds \<open>-1\<close>).
\<close>

subsection \<open>Tables\<close>

definition UTF_tab :: "int list" where
  "UTF_tab = replicate 128 1 @ replicate 66 (- 1) @ replicate 30 2 @ replicate 16 3
             @ replicate 5 4 @ replicate 11 (- 1)"

definition ESC_tab :: string where
  "ESC_tab = ''@'' @ replicate 31 (CHR ''.'') @ replicate 95 (CHR ''|'') @ ''.''
             @ replicate 128 (CHR ''?'')"

definition utf_len :: "char \<Rightarrow> int" where
  "utf_len c = UTF_tab ! byte c"

definition esc_char :: "char \<Rightarrow> char" where
  "esc_char c = (let e = ESC_tab ! byte c in if e \<noteq> CHR ''|'' then e else c)"

lemma byte_less_256: "byte c < 256"
  by (rule nat_of_char_less_256)

lemma utf_len_cases: "utf_len c = - 1 \<or> utf_len c = 1 \<or> utf_len c = 2 \<or> utf_len c = 3 \<or> utf_len c = 4"
proof -
  have "byte c < length UTF_tab" using byte_less_256 [of c] by (simp add: UTF_tab_def)
  then have "utf_len c \<in> set UTF_tab" by (simp add: utf_len_def)
  then show ?thesis by (auto simp: UTF_tab_def)
qed

lemma utf_len_ascii: "byte c < 128 \<Longrightarrow> utf_len c = 1"
  by (simp add: utf_len_def UTF_tab_def nth_append)

text \<open>The bytes \<open>esc_all\<close> leaves in a string: printable ASCII.\<close>

definition printable :: "char \<Rightarrow> bool" where
  "printable c \<longleftrightarrow> 32 \<le> byte c \<and> byte c \<le> 126"

lemma ESC_tab_nth:
  "k < 256 \<Longrightarrow> ESC_tab ! k =
     (if k = 0 then CHR ''@'' else if k < 32 then CHR ''.'' else if k < 127 then CHR ''|''
      else if k = 127 then CHR ''.'' else CHR ''?'')"
  by (auto simp: ESC_tab_def nth_append nth_Cons')

lemma printable_esc_char: "printable (esc_char c)"
  using byte_less_256 [of c] by (auto simp: esc_char_def ESC_tab_nth printable_def Let_def)

lemma esc_char_id: "printable c \<Longrightarrow> esc_char c = c"
  using byte_less_256 [of c] by (auto simp: esc_char_def ESC_tab_nth printable_def Let_def)

subsection \<open>The rewriting loops\<close>

fun esc_all :: "string \<Rightarrow> string" where
  "esc_all [] = []"
| "esc_all (c # str) = esc_char c # esc_all str"

definition is_ctl :: "char \<Rightarrow> bool" where
  "is_ctl c \<longleftrightarrow> byte c < 32 \<or> byte c = 127"

function esc_ctl :: "string \<Rightarrow> nat \<Rightarrow> nat \<Rightarrow> string option" where
  "esc_ctl str i len =
     (if i < len then
        (case str of
           [] \<Rightarrow> None
         | c # cs \<Rightarrow>
             (let n = utf_len c
              in if n < 0 \<or> int len < int i + n then Some (esc_all str)
                 else if length str < nat n then None
                 else map_option
                        (\<lambda>r. (if is_ctl c then CHR ''?'' else c) # take (nat n - 1) cs @ r)
                        (esc_ctl (drop (nat n) str) (i + nat n) len)))
      else Some str)"
  by pat_completeness auto
termination
proof (relation "measure (\<lambda>(str, i, len). len - i)", goal_cases)
  case (2 str i len c cs n)
  with utf_len_cases [of c] show ?case by auto
qed simp

declare esc_ctl.simps [simp del]

lemma esc_ctl_done: "\<not> i < len \<Longrightarrow> esc_ctl str i len = Some str"
  by (simp add: esc_ctl.simps)

lemma esc_ctl_bad:
  "i < len \<Longrightarrow> utf_len c < 0 \<or> int len < int i + utf_len c \<Longrightarrow>
   esc_ctl (c # cs) i len = Some (esc_all (c # cs))"
  by (simp add: esc_ctl.simps [of "c # cs" i len] Let_def)

lemma esc_ctl_step:
  "i < len \<Longrightarrow> \<not> (utf_len c < 0 \<or> int len < int i + utf_len c) \<Longrightarrow>
   nat (utf_len c) \<le> length (c # cs) \<Longrightarrow>
   esc_ctl (c # cs) i len =
     map_option (\<lambda>r. (if is_ctl c then CHR ''?'' else c) # take (nat (utf_len c) - 1) cs @ r)
       (esc_ctl (drop (nat (utf_len c)) (c # cs)) (i + nat (utf_len c)) len)"
  by (subst esc_ctl.simps) (simp add: Let_def)

lemma esc_all_map: "esc_all s = map esc_char s"
  by (induction s) auto

lemma length_esc_all [simp]: "length (esc_all s) = length s"
  by (simp add: esc_all_map)

lemma esc_all_printable: "c \<in> set (esc_all s) \<Longrightarrow> printable c"
  by (auto simp: esc_all_map printable_esc_char)

lemma printable_not_ctl: "printable c \<Longrightarrow> \<not> is_ctl c"
  by (auto simp: printable_def is_ctl_def)

lemma printable_not_NUL: "printable c \<Longrightarrow> c \<noteq> NUL"
  by (auto simp: printable_def)

text \<open>
  Started at the front of a string of \<open>len - i\<close> bytes the loop never leaves the buffer,
  and rewrites it in place (same length, no NUL introduced).
\<close>

lemma esc_ctl_in_bounds:
  "len = i + length str \<Longrightarrow> \<exists>r. esc_ctl str i len = Some r \<and> length r = length str"
proof (induction str i len rule: esc_ctl.induct)
  case (1 str i len)
  show ?case
  proof (cases str)
    case Nil
    with "1.prems" show ?thesis by (simp add: esc_ctl_done)
  next
    case (Cons c cs)
    with "1.prems" have lt: "i < len" by simp
    show ?thesis
    proof (cases "utf_len c < 0 \<or> int len < int i + utf_len c")
      case True
      from esc_ctl_bad [OF lt this] Cons show ?thesis by simp
    next
      case False
      then have pos: "0 < nat (utf_len c)" using utf_len_cases [of c] by auto
      from False "1.prems" have le: "nat (utf_len c) \<le> length str" by auto
      have "len = i + nat (utf_len c) + length (drop (nat (utf_len c)) str)"
        using "1.prems" le by simp
      from "1.IH" [OF lt Cons refl False _ this] le obtain r where
        r: "esc_ctl (drop (nat (utf_len c)) str) (i + nat (utf_len c)) len = Some r"
        "length r = length (drop (nat (utf_len c)) str)" by auto
      have "length ((if is_ctl c then CHR ''?'' else c) # take (nat (utf_len c) - 1) cs @ r) = length str"
        using le r(2) Cons pos by simp
      with r(1) esc_ctl_step [OF lt False] le Cons show ?thesis by simp
    qed
  qed
qed

text \<open>
  Text in which every multi-byte lead byte is followed by bytes outside the ASCII range (it
  may be cut off at the end, and anything may follow an invalid lead byte).
\<close>

function seq_ok :: "string \<Rightarrow> bool" where
  "seq_ok [] = True"
| "seq_ok (c # cs) =
     (let n = nat (utf_len c) - 1
      in utf_len c < 0 \<or> (\<forall>d \<in> set (take n cs). 128 \<le> byte d) \<and> seq_ok (drop n cs))"
  by pat_completeness auto
termination
  by (relation "measure length") auto

lemma seq_ok_ascii: "(\<And>c. c \<in> set s \<Longrightarrow> byte c < 128) \<Longrightarrow> seq_ok s"
  by (induction s) (auto simp: utf_len_ascii)

lemma seq_ok_take: "seq_ok s \<Longrightarrow> seq_ok (take k s)"
proof (induction s arbitrary: k rule: seq_ok.induct)
  case (2 c cs)
  show ?case
  proof (cases k)
    case (Suc j)
    let ?n = "nat (utf_len c) - 1"
    have sub: "set (take ?n (take j cs)) \<subseteq> set (take ?n cs)"
      by (metis set_take_subset_set_take take_take min.commute min.cobounded1)
    show ?thesis
    proof (cases "utf_len c < 0")
      case True
      with Suc show ?thesis by (simp add: Let_def)
    next
      case False
      with 2 have "seq_ok (take (j - ?n) (drop ?n cs))" and "\<forall>d \<in> set (take ?n cs). 128 \<le> byte d"
        by (auto simp: Let_def)
      with sub Suc show ?thesis by (auto simp: Let_def drop_take)
    qed
  qed simp
qed simp

lemma esc_ctl_no_ctl:
  "len = i + length str \<Longrightarrow> seq_ok str \<Longrightarrow> esc_ctl str i len = Some r \<Longrightarrow> c \<in> set r \<Longrightarrow> \<not> is_ctl c"
proof (induction str i len arbitrary: r c rule: esc_ctl.induct)
  case (1 str i len)
  show ?case
  proof (cases str)
    case Nil
    with "1.prems" show ?thesis by (simp add: esc_ctl_done)
  next
    case (Cons b bs)
    with "1.prems" have lt: "i < len" by simp
    show ?thesis
    proof (cases "utf_len b < 0 \<or> int len < int i + utf_len b")
      case True
      from esc_ctl_bad [OF lt this] Cons "1.prems"(3) have "r = esc_all str" by simp
      with "1.prems"(4) show ?thesis by (metis esc_all_printable printable_not_ctl)
    next
      case False
      let ?n = "nat (utf_len b)"
      have pos: "0 < ?n" using False utf_len_cases [of b] by auto
      from False "1.prems" have le: "?n \<le> length str" by auto
      have "esc_ctl (b # bs) i len = Some r" using "1.prems"(3) Cons by simp
      then obtain r' where
        r': "esc_ctl (drop ?n str) (i + ?n) len = Some r'"
        and r: "r = (if is_ctl b then CHR ''?'' else b) # take (?n - 1) bs @ r'"
        unfolding esc_ctl_step [OF lt False le [unfolded Cons]] Cons map_option_eq_Some by blast
      have ok: "\<forall>d \<in> set (take (?n - 1) bs). 128 \<le> byte d" "seq_ok (drop ?n str)"
        using "1.prems"(2) Cons False pos by (auto simp: Let_def drop_Cons')
      have len': "len = i + ?n + length (drop ?n str)" using "1.prems"(1) le by simp
      have tl: "\<not> is_ctl d" if "d \<in> set r'" for d
        using "1.IH" [OF lt Cons refl False _ len' ok(2) r' that] le by simp
      have md: "\<not> is_ctl d" if "d \<in> set (take (?n - 1) bs)" for d
        using ok(1) that by (auto simp: is_ctl_def)
      show ?thesis using "1.prems"(4) tl md unfolding r by (auto simp: is_ctl_def split: if_splits)
    qed
  qed
qed

subsection \<open>\<open>escape_str\<close> and \<open>escape_command\<close>\<close>

text \<open>
  \<open>utf_sw\<close>: whether the code set is UTF-8. The first argument of \<open>escape_str\<close> is the
  code set, the second what \<open>dst\<close> held; the result is \<open>dst\<close> and the value
  returned. \<open>snprintf\<close> fails for a source longer than \<open>INT_MAX\<close>.
\<close>

definition utf_sw :: "string option \<Rightarrow> bool" where
  "utf_sw enc = (case enc of None \<Rightarrow> False | Some e \<Rightarrow> strcasecmp e ''UTF-8'' = 0)"

definition escape_str :: "string option \<Rightarrow> string \<Rightarrow> string \<Rightarrow> int \<Rightarrow> (string \<times> int) option" where
  "escape_str enc dst src bufsize =
     (if bufsize \<le> 0 then Some (dst, 0)
      else if INT_MAX \<le> bufsize then Some ([], 0)
      else if INT_MAX < int (length src) then Some ([], 0)
      else
        let d = snprintf_buf (nat bufsize) src;
            n = (if bufsize \<le> int (length src) then bufsize - 1 else int (length src))
        in if utf_sw enc
           then map_option (\<lambda>r. (r, n)) (esc_ctl d 0 (nat n))
           else Some (esc_all d, n))"

definition ESC_BRACKETS :: "32 word" where
  "ESC_BRACKETS = 0x2"

definition ESC_DEFUNCT :: "32 word" where
  "ESC_DEFUNCT = 0x4"

text \<open>
  \<open>pstate\<close> and \<open>cmd\<close> are the process's \<open>state\<close> and \<open>cmd\<close>; the result is what
  \<open>outbuf\<close> holds as a C string and the value returned.
\<close>

definition escape_command ::
  "string option \<Rightarrow> char \<Rightarrow> string \<Rightarrow> int \<Rightarrow> 32 word \<Rightarrow> (string \<times> int) option" where
  "escape_command enc pstate cmd bytes flags =
     (let brackets = (and flags ESC_BRACKETS \<noteq> 0);
          defunct = (and flags ESC_DEFUNCT \<noteq> 0 \<and> pstate = CHR ''Z'');
          overhead = (if brackets then 2 else 0) + (if defunct then 10 else 0)
      in if bytes \<le> overhead + 1 then Some ([], 0)
         else
           case escape_str enc [] cmd (bytes - overhead) of
             None \<Rightarrow> None
           | Some (d, n) \<Rightarrow>
               let out = (if brackets then ''['' else []) @ d @ (if brackets then '']'' else [])
                         @ (if defunct then '' <defunct>'' else [])
               in Some (out, (if brackets then 2 else 0) + n + (if defunct then 10 else 0)))"

lemma escape_str_main:
  assumes "0 < bufsize" "bufsize < INT_MAX" "int (length src) \<le> INT_MAX"
  shows "\<exists>r. escape_str enc dst src bufsize = Some (r, int (length r)) \<and>
             length r = min (length src) (nat bufsize - 1) \<and>
             (utf_sw enc \<longrightarrow> esc_ctl (take (nat bufsize - 1) src) 0 (length r) = Some r) \<and>
             (\<not> utf_sw enc \<longrightarrow> r = esc_all (take (nat bufsize - 1) src))"
proof -
  let ?d = "take (nat bufsize - 1) src"
  let ?n = "if bufsize \<le> int (length src) then bufsize - 1 else int (length src)"
  have n: "?n = int (length ?d)" using assms(1) by auto
  obtain r where r: "esc_ctl ?d 0 (length ?d) = Some r" "length r = length ?d"
    using esc_ctl_in_bounds [of "length ?d" 0 ?d] by auto
  have eq: "escape_str enc dst src bufsize =
      (if utf_sw enc then map_option (\<lambda>r. (r, ?n)) (esc_ctl ?d 0 (nat ?n)) else Some (esc_all ?d, ?n))"
    using assms by (simp add: escape_str_def snprintf_buf_def Let_def)
  show ?thesis
  proof (cases "utf_sw enc")
    case True
    with r show ?thesis unfolding eq n by auto
  next
    case False
    then show ?thesis unfolding eq n by auto
  qed
qed

lemma escape_str_bounds:
  assumes "0 < bufsize"
  shows "\<exists>r. escape_str enc dst src bufsize = Some (r, int (length r)) \<and> int (length r) < bufsize"
proof (cases "bufsize < INT_MAX \<and> int (length src) \<le> INT_MAX")
  case True
  then obtain r where "escape_str enc dst src bufsize = Some (r, int (length r))"
    and l: "length r = min (length src) (nat bufsize - 1)"
    using escape_str_main [OF assms, of src enc dst] by auto
  moreover have "int (length r) < bufsize" using l assms by linarith
  ultimately show ?thesis by blast
next
  case False
  with assms show ?thesis by (auto simp: escape_str_def)
qed

lemma escape_str_clean:
  assumes "0 < bufsize" "escape_str enc dst src bufsize = Some (r, n)" "c \<in> set r"
    and "utf_sw enc \<Longrightarrow> seq_ok src"
  shows "\<not> is_ctl c"
proof (cases "bufsize < INT_MAX \<and> int (length src) \<le> INT_MAX")
  case True
  let ?d = "take (nat bufsize - 1) src"
  from True assms(1,2) escape_str_main [of bufsize src enc dst] have
    len: "length r = length ?d" and
    utf: "utf_sw enc \<Longrightarrow> esc_ctl ?d 0 (length r) = Some r" and
    all: "\<not> utf_sw enc \<Longrightarrow> r = esc_all ?d" by auto
  show ?thesis
  proof (cases "utf_sw enc")
    case False
    with all assms(3) esc_all_printable [of c ?d] show ?thesis by (auto dest: printable_not_ctl)
  next
    case True
    with assms(4) have "seq_ok ?d" by (simp add: seq_ok_take)
    moreover have "length r = 0 + length ?d" using len by simp
    ultimately show ?thesis using esc_ctl_no_ctl [OF _ _ utf [OF True] assms(3)] by blast
  qed
next
  case False
  with assms show ?thesis by (auto simp: escape_str_def split: if_splits)
qed

text \<open>
  C8. \<open>escape_str\<close> with room for at least one byte never steps outside its buffer, always
  yields a string strictly shorter than the buffer (so the terminating NUL fits) and
  returns that string's length.
\<close>

theorem escape_str_memory_safe:
  "0 < bufsize \<Longrightarrow>
   \<exists>r. escape_str enc dst src bufsize = Some (r, int (length r)) \<and> int (length r) < bufsize"
  by (rule escape_str_bounds)

theorem escape_str_memory_safe_witness:
  "\<exists>r. escape_str (Some ''utf-8'') [] ''a very long name'' 8 = Some (r, int (length r)) \<and>
       int (length r) < 8"
  by (rule escape_str_memory_safe) simp

text \<open>
  What \<open>escape_str\<close> writes contains no control character (below 0x20, or DEL), in any
  locale, as long as under UTF-8 every multi-byte lead byte of the source is followed by
  non-ASCII bytes; the source may be cut off by the buffer in the middle of a character.
\<close>

theorem escape_str_no_control_chars:
  assumes "0 < bufsize" and "escape_str enc dst src bufsize = Some (r, n)"
    and "utf_sw enc \<Longrightarrow> seq_ok src"
  shows "list_all (\<lambda>c. \<not> is_ctl c) r"
  using escape_str_clean [OF assms(1,2) _ assms(3)] by (simp add: list_all_iff)

theorem escape_str_no_control_chars_witness:
  "list_all (\<lambda>c. \<not> is_ctl c) ''a?b''"
proof (rule escape_str_no_control_chars)
  show "escape_str (Some ''UTF-8'') [] (''a'' @ [CHR 0x1B] @ ''b'') 64 = Some (''a?b'', 3)"
    by (simp add: escape_str_def INT_MAX_def utf_sw_def snprintf_buf_def esc_ctl.simps
        utf_len_ascii is_ctl_def tolower_def Let_def)
qed (auto simp: utf_len_ascii intro: seq_ok_ascii)

text \<open>
  The lead-byte condition of the previous property is necessary: under UTF-8 the byte
  after a multi-byte lead byte is skipped unexamined, so an ESC (0x1B) right after 0xC2
  reaches the terminal, although the loop's comment says it eliminates the non-printing
  control characters even from corrupt strings.
\<close>

theorem escape_str_lets_control_char_through:
  "escape_str (Some ''UTF-8'') [] [CHR 0xC2, CHR 0x1B] 64 = Some ([CHR 0xC2, CHR 0x1B], 2)
   \<and> is_ctl (CHR 0x1B)"
proof -
  have "utf_len (CHR 0xC2) = 2" by (simp add: utf_len_def UTF_tab_def nth_append)
  then show ?thesis
    by (simp add: escape_str_def INT_MAX_def utf_sw_def snprintf_buf_def esc_ctl.simps
        is_ctl_def tolower_def Let_def)
qed

text \<open>
  \<open>escape_command\<close> never writes more than \<open>bytes - 1\<close> characters and returns the
  length of what it wrote, whatever the flags and the process state: the brackets and the
  ten characters of \<open> <defunct>\<close> are accounted for before the name is copied.
\<close>

theorem escape_command_fits:
  assumes "0 < bytes"
  shows "\<exists>out. escape_command enc pstate cmd bytes flags = Some (out, int (length out)) \<and>
               int (length out) < bytes"
proof -
  let ?b = "and flags ESC_BRACKETS \<noteq> 0"
  let ?z = "and flags ESC_DEFUNCT \<noteq> 0 \<and> pstate = CHR ''Z''"
  let ?o = "(if ?b then 2 else 0) + (if ?z then 10 else 0) :: int"
  show ?thesis
  proof (cases "bytes \<le> ?o + 1")
    case True
    with assms show ?thesis by (simp add: escape_command_def Let_def)
  next
    case False
    then have "0 < bytes - ?o" by linarith
    then obtain r where "escape_str enc [] cmd (bytes - ?o) = Some (r, int (length r))"
      and "int (length r) < bytes - ?o" using escape_str_bounds by blast
    with False show ?thesis by (auto simp: escape_command_def Let_def)
  qed
qed

theorem escape_command_fits_witness:
  "\<exists>out. escape_command None (CHR ''Z'') ''java'' 16 (or ESC_BRACKETS ESC_DEFUNCT)
           = Some (out, int (length out)) \<and> int (length out) < 16"
  by (rule escape_command_fits) simp

end
