(* ===== verification/PwCache.thy ===== *)
theory PwCache
  imports Prelude
begin

text \<open>
  \<^verbatim>\<open>procps/linux/pwcache.c\<close>: the user- and group-name caches, two hash tables of 64
  buckets, each a singly linked chain that grows at its tail.

  A chain is the list of its nodes and a table maps the bucket number to its chain. The
  password and group databases (\<open>getpwuid\<close>, \<open>getgrgid\<close>) and the success of
  \<open>malloc\<close> are arguments. The locale \<open>name_cache\<close> states what a client of either cache
  relies on; both tables are instances.
\<close>

definition P_G_SZ :: nat where
  "P_G_SZ = 33"

definition HASHSIZE :: "32 word" where
  "HASHSIZE = 64"

definition HASH :: "32 word \<Rightarrow> nat" where
  "HASH x = unat (and x (HASHSIZE - 1))"

definition ERRname :: string where
  "ERRname = ''?''"

record pwbuf =
  pw_uid :: uid_t
  pw_bufname :: string

record grpbuf =
  gr_gid :: uid_t
  gr_bufname :: string

type_synonym pwhash = "nat \<Rightarrow> pwbuf list"
type_synonym grphash = "nat \<Rightarrow> grpbuf list"

text \<open>The name put in a new node: the database's, if there is one and it fits, else the number.\<close>

definition pw_entry_name :: "(uid_t \<Rightarrow> string option) \<Rightarrow> uid_t \<Rightarrow> string" where
  "pw_entry_name getpwuid uid =
     (case getpwuid uid of
        None \<Rightarrow> show_nat (unat uid)
      | Some nm \<Rightarrow> if P_G_SZ \<le> length nm then show_nat (unat uid) else nm)"

text \<open>The walk down a chain: \<open>None\<close> when it reaches the null link at the end.\<close>

fun find_user :: "pwbuf list \<Rightarrow> uid_t \<Rightarrow> string option" where
  "find_user [] uid = None"
| "find_user (p # ps) uid = (if pw_uid p = uid then Some (pw_bufname p) else find_user ps uid)"

definition pwcache_get_user ::
  "(uid_t \<Rightarrow> string option) \<Rightarrow> bool \<Rightarrow> uid_t \<Rightarrow> pwhash \<Rightarrow> string \<times> pwhash" where
  "pwcache_get_user getpwuid malloc_ok uid pwhash =
     (case find_user (pwhash (HASH uid)) uid of
        Some nm \<Rightarrow> (nm, pwhash)
      | None \<Rightarrow>
          if \<not> malloc_ok then (ERRname, pwhash)
          else
            let nm = pw_entry_name getpwuid uid
            in (nm, pwhash (HASH uid := pwhash (HASH uid) @ [\<lparr>pw_uid = uid, pw_bufname = nm\<rparr>])))"

definition gr_entry_name :: "(uid_t \<Rightarrow> string option) \<Rightarrow> uid_t \<Rightarrow> string" where
  "gr_entry_name getgrgid gid =
     (case getgrgid gid of
        None \<Rightarrow> show_nat (unat gid)
      | Some nm \<Rightarrow> if P_G_SZ \<le> length nm then show_nat (unat gid) else nm)"

fun find_group :: "grpbuf list \<Rightarrow> uid_t \<Rightarrow> string option" where
  "find_group [] gid = None"
| "find_group (g # gs) gid = (if gr_gid g = gid then Some (gr_bufname g) else find_group gs gid)"

definition pwcache_get_group ::
  "(uid_t \<Rightarrow> string option) \<Rightarrow> bool \<Rightarrow> uid_t \<Rightarrow> grphash \<Rightarrow> string \<times> grphash" where
  "pwcache_get_group getgrgid malloc_ok gid grphash =
     (case find_group (grphash (HASH gid)) gid of
        Some nm \<Rightarrow> (nm, grphash)
      | None \<Rightarrow>
          if \<not> malloc_ok then (ERRname, grphash)
          else
            let nm = gr_entry_name getgrgid gid
            in (nm, grphash (HASH gid := grphash (HASH gid) @ [\<lparr>gr_gid = gid, gr_bufname = nm\<rparr>])))"

subsection \<open>The contract of a name cache\<close>

text \<open>A sequence of look-ups, each with its database, its memory and its key.\<close>

fun lookups ::
  "(('k \<Rightarrow> string option) \<Rightarrow> bool \<Rightarrow> 'k \<Rightarrow> 't \<Rightarrow> string \<times> 't)
   \<Rightarrow> (('k \<Rightarrow> string option) \<times> bool \<times> 'k) list \<Rightarrow> 't \<Rightarrow> 't" where
  "lookups get [] t = t"
| "lookups get ((db, m, k) # qs) t = lookups get qs (snd (get db m k t))"

text \<open>
  \<open>cached t k\<close> is the name held for key \<open>k\<close>; \<open>ok\<close> the table's invariant;
  \<open>resolve\<close> what a fresh node is given.
\<close>

locale name_cache =
  fixes get :: "('k \<Rightarrow> string option) \<Rightarrow> bool \<Rightarrow> 'k \<Rightarrow> 't \<Rightarrow> string \<times> 't"
    and cached :: "'t \<Rightarrow> 'k \<Rightarrow> string option"
    and ok :: "'t \<Rightarrow> bool"
    and resolve :: "('k \<Rightarrow> string option) \<Rightarrow> 'k \<Rightarrow> string"
    and nobody :: string
  assumes hit: "ok t \<Longrightarrow> cached t k = Some nm \<Longrightarrow> get db m k t = (nm, t)"
    and miss: "ok t \<Longrightarrow> cached t k = None \<Longrightarrow> fst (get db True k t) = resolve db k"
    and no_memory: "ok t \<Longrightarrow> cached t k = None \<Longrightarrow> get db False k t = (nobody, t)"
    and store: "ok t \<Longrightarrow> cached t k = None \<Longrightarrow>
        cached (snd (get db True k t)) = (cached t) (k \<mapsto> resolve db k)"
    and keeps_ok: "ok t \<Longrightarrow> ok (snd (get db m k t))"
begin

text \<open>The table agrees with a database where everything it holds is the database's answer.\<close>

definition agrees :: "('k \<Rightarrow> string option) \<Rightarrow> 't \<Rightarrow> bool" where
  "agrees db t \<longleftrightarrow> (\<forall>k nm. cached t k = Some nm \<longrightarrow> nm = resolve db k)"

lemma agrees_get: "ok t \<Longrightarrow> agrees db t \<Longrightarrow> agrees db (snd (get db m k t))"
proof (cases "cached t k")
  case None
  assume "ok t" "agrees db t"
  then show ?thesis
    using None store [of t k db] no_memory [of t k db]
    by (cases m) (auto simp: agrees_def)
next
  case (Some nm)
  assume "ok t" "agrees db t"
  then show ?thesis using hit [OF \<open>ok t\<close> Some] by simp
qed

lemma transparent: "ok t \<Longrightarrow> agrees db t \<Longrightarrow> fst (get db True k t) = resolve db k"
  by (cases "cached t k") (auto simp: agrees_def miss hit)

text \<open>A served key is served the same name for ever, even if the database changes.\<close>

lemma ok_gets: "ok t \<Longrightarrow> ok (lookups get qs t)"
  by (induction qs arbitrary: t) (auto simp: keeps_ok)

lemma cached_mono:
  assumes "ok t" "cached t k = Some nm"
  shows "cached (snd (get db m j t)) k = Some nm"
proof (cases "cached t j")
  case None
  with assms show ?thesis
    using store [of t j db] no_memory [of t j db] by (cases m) auto
next
  case (Some x)
  then show ?thesis using assms hit [OF assms(1) Some] by simp
qed

lemma cached_gets: "ok t \<Longrightarrow> cached t k = Some nm \<Longrightarrow> cached (lookups get qs t) k = Some nm"
  by (induction qs arbitrary: t) (auto simp: keeps_ok cached_mono)

lemma get_cached: "ok t \<Longrightarrow> cached t k = None \<Longrightarrow>
   cached (snd (get db True k t)) k = Some (fst (get db True k t))"
  by (simp add: store miss)

lemma stable:
  assumes "ok t"
  shows "fst (get db2 m k (lookups get qs (snd (get db True k t)))) = fst (get db True k t)"
proof -
  let ?t' = "snd (get db True k t)"
  have ok': "ok ?t'" using assms by (rule keeps_ok)
  have "cached ?t' k = Some (fst (get db True k t))"
  proof (cases "cached t k")
    case None
    with assms show ?thesis by (rule get_cached)
  next
    case (Some nm)
    then show ?thesis using hit [OF assms Some] by simp
  qed
  then have "cached (lookups get qs ?t') k = Some (fst (get db True k t))"
    using ok' by (intro cached_gets)
  then show ?thesis using hit [OF ok_gets [OF ok']] by simp
qed

end

subsection \<open>The two tables are name caches\<close>

text \<open>
  The invariant of a table: a node sits in the bucket its key hashes to, no key occurs
  twice in a chain, and every name fits its array of \<open>P_G_SZ\<close> bytes with the NUL.
\<close>

definition pw_ok :: "pwhash \<Rightarrow> bool" where
  "pw_ok t \<longleftrightarrow> (\<forall>h. distinct (map pw_uid (t h)) \<and>
      (\<forall>p \<in> set (t h). HASH (pw_uid p) = h \<and> length (pw_bufname p) < P_G_SZ))"

definition gr_ok :: "grphash \<Rightarrow> bool" where
  "gr_ok t \<longleftrightarrow> (\<forall>h. distinct (map gr_gid (t h)) \<and>
      (\<forall>p \<in> set (t h). HASH (gr_gid p) = h \<and> length (gr_bufname p) < P_G_SZ))"

lemma find_user_append [simp]:
  "find_user (xs @ ys) k = (case find_user xs k of None \<Rightarrow> find_user ys k | Some nm \<Rightarrow> Some nm)"
  by (induction xs) auto

lemma find_group_append [simp]:
  "find_group (xs @ ys) k = (case find_group xs k of None \<Rightarrow> find_group ys k | Some nm \<Rightarrow> Some nm)"
  by (induction xs) auto

lemma find_user_None_iff: "find_user xs k = None \<longleftrightarrow> k \<notin> pw_uid ` set xs"
  by (induction xs) auto

lemma find_group_None_iff: "find_group xs k = None \<longleftrightarrow> k \<notin> gr_gid ` set xs"
  by (induction xs) auto

lemma find_user_in: "find_user xs k = Some nm \<Longrightarrow> \<exists>p \<in> set xs. pw_uid p = k \<and> pw_bufname p = nm"
  by (induction xs) (auto split: if_splits)

lemma find_group_in: "find_group xs k = Some nm \<Longrightarrow> \<exists>p \<in> set xs. gr_gid p = k \<and> gr_bufname p = nm"
  by (induction xs) (auto split: if_splits)

lemma length_pw_entry_name: "length (pw_entry_name db k) < P_G_SZ"
  using length_show_nat_32 [of k] by (auto simp: pw_entry_name_def P_G_SZ_def split: option.splits)

lemma length_gr_entry_name: "length (gr_entry_name db k) < P_G_SZ"
  using length_show_nat_32 [of k] by (auto simp: gr_entry_name_def P_G_SZ_def split: option.splits)

interpretation user_cache: name_cache pwcache_get_user
  "\<lambda>t k. find_user (t (HASH k)) k" pw_ok pw_entry_name ERRname
proof unfold_locales
  fix t :: pwhash and k and db and m
  assume ok: "pw_ok t"
  show "pw_ok (snd (pwcache_get_user db m k t))"
  proof (cases "find_user (t (HASH k)) k")
    case None
    with ok show ?thesis
      using length_pw_entry_name [of db k] find_user_None_iff [of "t (HASH k)" k]
      by (auto simp: pwcache_get_user_def pw_ok_def Let_def)
  next
    case (Some nm)
    with ok show ?thesis by (simp add: pwcache_get_user_def)
  qed
next
  fix t :: pwhash and k and db
  assume "pw_ok t" and none: "find_user (t (HASH k)) k = None"
  show "(\<lambda>j. find_user (snd (pwcache_get_user db True k t) (HASH j)) j) =
        (\<lambda>j. find_user (t (HASH j)) j)(k \<mapsto> pw_entry_name db k)"
    using none by (auto simp: pwcache_get_user_def Let_def fun_eq_iff split: option.splits)
qed (auto simp: pwcache_get_user_def Let_def)

interpretation group_cache: name_cache pwcache_get_group
  "\<lambda>t k. find_group (t (HASH k)) k" gr_ok gr_entry_name ERRname
proof unfold_locales
  fix t :: grphash and k and db and m
  assume ok: "gr_ok t"
  show "gr_ok (snd (pwcache_get_group db m k t))"
  proof (cases "find_group (t (HASH k)) k")
    case None
    with ok show ?thesis
      using length_gr_entry_name [of db k] find_group_None_iff [of "t (HASH k)" k]
      by (auto simp: pwcache_get_group_def gr_ok_def Let_def)
  next
    case (Some nm)
    with ok show ?thesis by (simp add: pwcache_get_group_def)
  qed
next
  fix t :: grphash and k and db
  assume "gr_ok t" and none: "find_group (t (HASH k)) k = None"
  show "(\<lambda>j. find_group (snd (pwcache_get_group db True k t) (HASH j)) j) =
        (\<lambda>j. find_group (t (HASH j)) j)(k \<mapsto> gr_entry_name db k)"
    using none by (auto simp: pwcache_get_group_def Let_def fun_eq_iff split: option.splits)
qed (auto simp: pwcache_get_group_def Let_def)

lemma pw_ok_empty [simp]: "pw_ok (\<lambda>_. [])"
  by (simp add: pw_ok_def)

lemma gr_ok_empty [simp]: "gr_ok (\<lambda>_. [])"
  by (simp add: gr_ok_def)

lemma HASH_bound: "HASH k < 64"
proof -
  have "HASH k \<le> unat (63 :: 32 word)"
    using word_and_le1 [of k 63] by (simp add: HASH_def HASHSIZE_def word_le_nat_alt and.commute)
  then show ?thesis by simp
qed

lemma pwcache_get_user_length:
  "pw_ok t \<Longrightarrow> length (fst (pwcache_get_user db m k t)) < P_G_SZ"
proof (cases "find_user (t (HASH k)) k")
  case None
  then show ?thesis using length_pw_entry_name [of db k]
    by (simp add: pwcache_get_user_def Let_def ERRname_def P_G_SZ_def)
next
  case (Some nm)
  assume "pw_ok t"
  with find_user_in [OF Some] show ?thesis
    by (auto simp: pwcache_get_user_def Some pw_ok_def)
qed

lemma pwcache_get_group_length:
  "gr_ok t \<Longrightarrow> length (fst (pwcache_get_group db m k t)) < P_G_SZ"
proof (cases "find_group (t (HASH k)) k")
  case None
  then show ?thesis using length_gr_entry_name [of db k]
    by (simp add: pwcache_get_group_def Let_def ERRname_def P_G_SZ_def)
next
  case (Some nm)
  assume "gr_ok t"
  with find_group_in [OF Some] show ?thesis
    by (auto simp: pwcache_get_group_def Some gr_ok_def)
qed

subsection \<open>Properties\<close>

text \<open>
  C37. A name once served for a user id is served again for ever, whatever look-ups of any
  users happen in between, whether \<open>malloc\<close> fails in them or not and whatever the
  password database says later.
\<close>

theorem pwcache_user_stable:
  assumes "pw_ok t"
  shows "fst (pwcache_get_user db2 m uid (lookups pwcache_get_user qs (snd (pwcache_get_user db True uid t))))
         = fst (pwcache_get_user db True uid t)"
  using assms by (rule user_cache.stable)

theorem pwcache_user_stable_witness:
  "fst (pwcache_get_user (\<lambda>_. None) False 1000
          (lookups pwcache_get_user [(\<lambda>_. Some ''x'', True, 1064)]
             (snd (pwcache_get_user (\<lambda>_. Some ''ada'') True 1000 (\<lambda>_. [])))))
   = fst (pwcache_get_user (\<lambda>_. Some ''ada'') True 1000 (\<lambda>_. []))"
  by (rule pwcache_user_stable) simp

text \<open>
  Every look-up keeps the user table well formed (keys in their bucket, no duplicates in
  a chain, names of at most 32 bytes), and the name it returns fits a \<open>P_G_SZ\<close> buffer.
\<close>

theorem pwcache_user_invariant:
  assumes "pw_ok t"
  shows "pw_ok (snd (pwcache_get_user db m uid t)) \<and>
         length (fst (pwcache_get_user db m uid t)) < P_G_SZ"
  using assms user_cache.keeps_ok pwcache_get_user_length by blast

theorem pwcache_user_invariant_witness:
  "pw_ok (snd (pwcache_get_user (\<lambda>_. Some ''root'') True 0 (\<lambda>_. []))) \<and>
   length (fst (pwcache_get_user (\<lambda>_. Some ''root'') True 0 (\<lambda>_. []))) < P_G_SZ"
  by (rule pwcache_user_invariant) simp

text \<open>
  With an unchanging group database and enough memory the cache is transparent: after
  any sequence of look-ups from the empty table, asking for a group answers exactly what
  the database (or the decimal number, when there is no name or it is too long) gives.
\<close>

theorem pwcache_group_transparent:
  "fst (pwcache_get_group db True gid (lookups pwcache_get_group (map (\<lambda>(m, k). (db, m, k)) qs) (\<lambda>_. [])))
   = gr_entry_name db gid"
proof -
  have "gr_ok t \<Longrightarrow> group_cache.agrees db t \<Longrightarrow>
      group_cache.agrees db (lookups pwcache_get_group (map (\<lambda>(m, k). (db, m, k)) qs) t)" for t
    by (induction qs arbitrary: t)
      (auto simp: group_cache.keeps_ok group_cache.agrees_get)
  from this [of "\<lambda>_. []"] show ?thesis
    by (intro group_cache.transparent group_cache.ok_gets) (auto simp: group_cache.agrees_def)
qed

end
