(* ===== verification/PsUtil.thy ===== *)
theory PsUtil
  imports Prelude
begin

text \<open>
  \<^verbatim>\<open>ycattach/posix/psutil.c\<close> (its Linux branch): where the target process keeps its
  temporary files, who owns it, what its pid is inside its container, and how the agent enters
  its namespaces.

  What the kernel answers is the record \<open>ps_env\<close>: the lines \<open>getline\<close> returns for a
  file, the inode \<open>stat\<close> reports, directory listings, and whether \<open>open\<close> and
  \<open>setns\<close> succeed. Dereferencing a null pointer is \<open>None\<close>.
\<close>

record ps_env =
  getenv_JATTACH_PATH :: "string option"
  file_lines :: "string \<Rightarrow> string list option"
  stat_ino :: "string \<Rightarrow> nat option"
  dir_names :: "string \<Rightarrow> string list option"
  open_ok :: "string \<Rightarrow> bool"
  setns_ok :: "string \<Rightarrow> bool"

definition MAX_PATH :: nat where
  "MAX_PATH = 1024"

definition tmp_path_size :: nat where
  "tmp_path_size = MAX_PATH - 100"

subsection \<open>The temporary directory of the target\<close>

text \<open>The path put in the buffer, and the value returned (0 on success).\<close>

definition root_tmp :: "int \<Rightarrow> string" where
  "root_tmp pid = ''/proc/'' @ show_int pid @ ''/root/tmp''"

definition get_tmp_path_r :: "ps_env \<Rightarrow> int \<Rightarrow> nat \<Rightarrow> string \<times> int" where
  "get_tmp_path_r e pid bufsize =
     (let p = root_tmp pid; buf = snprintf_buf bufsize p
      in if bufsize \<le> length p then (buf, - 1)
         else (buf, if stat_ino e buf = None then - 1 else 0))"

definition get_tmp_path :: "ps_env \<Rightarrow> int \<Rightarrow> string" where
  "get_tmp_path e pid =
     (case getenv_JATTACH_PATH e of
        Some p \<Rightarrow>
          if length p < tmp_path_size then p
          else (case get_tmp_path_r e pid tmp_path_size of
                  (buf, rc) \<Rightarrow> if rc \<noteq> 0 then ''/tmp'' else buf)
      | None \<Rightarrow>
          (case get_tmp_path_r e pid tmp_path_size of
             (buf, rc) \<Rightarrow> if rc \<noteq> 0 then ''/tmp'' else buf))"

subsection \<open>The pid inside the container\<close>

definition sched_get_host_pid :: "ps_env \<Rightarrow> string \<Rightarrow> int" where
  "sched_get_host_pid e path =
     (case file_lines e path of
        None \<Rightarrow> - 1
      | Some [] \<Rightarrow> - 1
      | Some (line # _) \<Rightarrow>
          (case strrchr line (CHR ''('') of None \<Rightarrow> - 1 | Some c \<Rightarrow> atoi (tl c)))"

definition pid_name :: "string \<Rightarrow> bool" where
  "pid_name d = (case d of [] \<Rightarrow> False | c # _ \<Rightarrow> 49 \<le> byte c \<and> byte c \<le> 57)"

definition sched_path :: "int \<Rightarrow> string \<Rightarrow> string" where
  "sched_path pid d = snprintf_buf 300 (''/proc/'' @ show_int pid @ ''/root/proc/'' @ d @ ''/sched'')"

text \<open>The loop over the directory entries of \<^verbatim>\<open>/proc/<pid>/root/proc\<close>.\<close>

fun scan_pids :: "ps_env \<Rightarrow> int \<Rightarrow> string list \<Rightarrow> int option" where
  "scan_pids e pid [] = None"
| "scan_pids e pid (d # ds) =
     (if pid_name d \<and> sched_get_host_pid e (sched_path pid d) = pid then Some (atoi d)
      else scan_pids e pid ds)"

definition ns_path :: "int \<Rightarrow> string \<Rightarrow> string" where
  "ns_path pid type = ''/proc/'' @ show_int pid @ ''/ns/'' @ type"

definition self_ns_path :: "string \<Rightarrow> string" where
  "self_ns_path type = ''/proc/self/ns/'' @ type"

definition same_ns :: "ps_env \<Rightarrow> int \<Rightarrow> string \<Rightarrow> bool option" where
  "same_ns e pid type =
     (case (stat_ino e (self_ns_path type), stat_ino e (ns_path pid type)) of
        (Some a, Some b) \<Rightarrow> Some (a = b)
      | _ \<Rightarrow> None)"

definition alt_lookup_nspid :: "ps_env \<Rightarrow> int \<Rightarrow> int" where
  "alt_lookup_nspid e pid =
     (if same_ns e pid ''pid'' = Some True then pid
      else case dir_names e (''/proc/'' @ show_int pid @ ''/root/proc'') of
             None \<Rightarrow> pid
           | Some ds \<Rightarrow> (case scan_pids e pid ds of None \<Rightarrow> pid | Some n \<Rightarrow> n))"

subsection \<open>The credentials of the target\<close>

record proc_info =
  pi_uid :: uid_t
  pi_gid :: uid_t
  pi_nspid :: int
  nspid_found :: bool

text \<open>
  One line of \<^verbatim>\<open>/proc/<pid>/status\<close>. The code hands the result of \<open>strchr\<close> to
  \<open>atoi\<close> unchecked: a \<open>Uid\<close>, \<open>Gid\<close> or \<open>NStgid\<close> line without the tab it looks
  for is a null dereference.
\<close>

definition status_line :: "string \<Rightarrow> proc_info \<Rightarrow> proc_info option" where
  "status_line line st =
     (if strncmp_eq line ''Uid:'' 4 then
        (case strchr (drop 5 line) tab of
           None \<Rightarrow> None
         | Some t \<Rightarrow> Some (st\<lparr>pi_uid := word_of_int (atoi t)\<rparr>))
      else if strncmp_eq line ''Gid:'' 4 then
        (case strchr (drop 5 line) tab of
           None \<Rightarrow> None
         | Some t \<Rightarrow> Some (st\<lparr>pi_gid := word_of_int (atoi t)\<rparr>))
      else if strncmp_eq line ''NStgid:'' 7 then
        (case strrchr line tab of
           None \<Rightarrow> None
         | Some t \<Rightarrow> Some (st\<lparr>pi_nspid := atoi t, nspid_found := True\<rparr>))
      else Some st)"

fun status_lines :: "string list \<Rightarrow> proc_info \<Rightarrow> proc_info option" where
  "status_lines [] st = Some st"
| "status_lines (l # ls) st =
     (case status_line l st of None \<Rightarrow> None | Some st' \<Rightarrow> status_lines ls st')"

definition status_path :: "int \<Rightarrow> string" where
  "status_path pid = ''/proc/'' @ show_int pid @ ''/status''"

text \<open>The value returned and the three out-parameters (given by their old values).\<close>

definition get_process_info ::
  "ps_env \<Rightarrow> int \<Rightarrow> uid_t \<Rightarrow> uid_t \<Rightarrow> int \<Rightarrow> (int \<times> uid_t \<times> uid_t \<times> int) option" where
  "get_process_info e pid uid gid nspid =
     (case file_lines e (status_path pid) of
        None \<Rightarrow> Some (- 1, uid, gid, nspid)
      | Some ls \<Rightarrow>
          (case status_lines ls \<lparr>pi_uid = uid, pi_gid = gid, pi_nspid = nspid, nspid_found = False\<rparr> of
             None \<Rightarrow> None
           | Some st \<Rightarrow>
               Some (0, pi_uid st, pi_gid st,
                     if nspid_found st then pi_nspid st else alt_lookup_nspid e pid)))"

subsection \<open>Entering a namespace\<close>

text \<open>
  The value returned and the environment after the call: a successful \<open>setns\<close> makes the
  caller's own namespace the target's.
\<close>

definition enter_ns :: "ps_env \<Rightarrow> int \<Rightarrow> string \<Rightarrow> int \<times> ps_env" where
  "enter_ns e pid type =
     (if same_ns e pid type \<noteq> Some False then (0, e)
      else if \<not> open_ok e (ns_path pid type) then (- 1, e)
      else if \<not> setns_ok e (ns_path pid type) then (- 1, e)
      else (1, e\<lparr>stat_ino := (stat_ino e)(self_ns_path type := stat_ino e (ns_path pid type))\<rparr>))"

subsection \<open>Lemmas\<close>

lemma show_int_hd: "\<exists>c r. show_int i = c # r \<and> (c = CHR ''-'' \<or> isdigit c)"
proof (cases "i < 0")
  case True
  then show ?thesis by (simp add: show_int_def)
next
  case False
  obtain c r where "show_nat (nat i) = c # r" using show_nat_nonempty by (metis list.exhaust)
  moreover from this have "isdigit c" by (metis list.set_intros(1) show_nat_digits)
  ultimately show ?thesis using False by (simp add: show_int_def)
qed

lemma ns_path_not_self [simp]: "ns_path pid ty \<noteq> self_ns_path ty'"
proof -
  obtain c r where c: "show_int pid = c # r" "c = CHR ''-'' \<or> isdigit c"
    using show_int_hd by blast
  then have "c \<noteq> CHR ''s''" by (auto simp: isdigit_def)
  with c(1) show ?thesis by (simp add: ns_path_def self_ns_path_def)
qed

lemma tab_notin_show_nat [simp]: "tab \<notin> set (show_nat n)"
  using show_nat_digits [of tab n] by (auto simp: isdigit_def)

lemma not_isdigit_tab [simp]: "\<not> isdigit tab" "\<not> isdigit newline" "isspace tab"
  by (simp_all add: isdigit_def isspace_def)

lemma atoi_tab_number:
  assumes "n < 2 ^ 63" "ends_number r"
  shows "atoi (tab # show_nat n @ r) = cast_int (int n)"
  using assms
  by (simp add: atoi_def strtol_def scan_number_space scan_number_show_nat LONG_MAX_def LONG_MIN_def)

text \<open>The lines the kernel writes: four tab-separated ids, of which the second is the effective one.\<close>

definition ids_line :: "string \<Rightarrow> uid_t \<Rightarrow> uid_t \<Rightarrow> string \<Rightarrow> string" where
  "ids_line tag real eff rest =
     tag @ tab # show_nat (unat real) @ tab # show_nat (unat eff) @ tab # rest"

definition nstgid_line :: "string \<Rightarrow> nat \<Rightarrow> string" where
  "nstgid_line outer inner = ''NStgid:'' @ outer @ tab # show_nat inner @ [newline]"

definition other_line :: "string \<Rightarrow> bool" where
  "other_line l \<longleftrightarrow> \<not> strncmp_eq l ''Uid:'' 4 \<and> \<not> strncmp_eq l ''Gid:'' 4 \<and> \<not> strncmp_eq l ''NStgid:'' 7"

lemma unat_lt_63: "unat (w :: 32 word) < 2 ^ 63"
proof -
  have "unat w < 2 ^ 32" using unsigned_less [of w] by simp
  then show ?thesis by simp
qed

lemma atoi_tab_uid: "(word_of_int (atoi (tab # show_nat (unat (w :: 32 word)) @ tab # r)) :: 32 word) = w"
  using unat_lt_63 [of w] by (simp add: atoi_tab_number)

lemma status_line_uid:
  "status_line (ids_line ''Uid:'' r u x) st = Some (st\<lparr>pi_uid := u\<rparr>)"
  by (simp add: status_line_def ids_line_def strncmp_eq_def cstr_simps atoi_tab_uid)

lemma status_line_gid:
  "status_line (ids_line ''Gid:'' r u x) st = Some (st\<lparr>pi_gid := u\<rparr>)"
  by (simp add: status_line_def ids_line_def strncmp_eq_def cstr_simps atoi_tab_uid)

lemma status_line_nstgid:
  assumes "n < 2 ^ 31"
  shows "status_line (nstgid_line outer n) st = Some (st\<lparr>pi_nspid := int n, nspid_found := True\<rparr>)"
proof -
  have "strrchr ((''NStgid:'' @ outer) @ tab # (show_nat n @ [newline])) tab
        = Some (tab # show_nat n @ [newline])"
    by (rule strrchr_append) simp
  moreover have "atoi (tab # show_nat n @ [newline]) = int n"
    using assms by (simp add: atoi_tab_number cast_int_id)
  ultimately show ?thesis by (simp add: status_line_def nstgid_line_def strncmp_eq_def)
qed

lemma status_line_other: "other_line l \<Longrightarrow> status_line l st = Some st"
  by (simp add: status_line_def other_line_def)

lemma status_lines_other: "list_all other_line ls \<Longrightarrow> status_lines ls st = Some st"
  by (induction ls) (auto simp: status_line_other)

lemma status_lines_append:
  "status_lines (xs @ ys) st =
     (case status_lines xs st of None \<Rightarrow> None | Some st' \<Rightarrow> status_lines ys st')"
  by (induction xs arbitrary: st) (auto split: option.splits)

lemmas status_simps = status_lines_append status_lines_other status_line_uid status_line_gid
  status_line_nstgid

lemma scan_pids_SomeD:
  "scan_pids e pid ds = Some n \<Longrightarrow>
   \<exists>d \<in> set ds. pid_name d \<and> sched_get_host_pid e (sched_path pid d) = pid \<and> n = atoi d"
  by (induction ds) (auto split: if_splits)

subsection \<open>Properties\<close>

text \<open>
  On a \<^verbatim>\<open>/proc/<pid>/status\<close> in the kernel's format, \<open>get_process_info\<close> returns the
  effective user and group ids (the second number of the \<open>Uid\<close> and \<open>Gid\<close> lines, also
  above \<open>INT_MAX\<close>) and the innermost pid of the \<open>NStgid\<close> line, whatever other lines there are.
\<close>

theorem get_process_info_kernel_format:
  assumes "file_lines e (status_path pid) =
      Some (a @ [ids_line ''Uid:'' ru u x] @ b @ [ids_line ''Gid:'' rg g y] @ c @ [nstgid_line outer n] @ d)"
    and "list_all other_line (a @ b @ c @ d)" and "n < 2 ^ 31"
  shows "get_process_info e pid uid gid nspid = Some (0, u, g, int n)"
  using assms by (simp add: get_process_info_def status_simps)

theorem get_process_info_kernel_format_witness:
  "get_process_info
     \<lparr>getenv_JATTACH_PATH = None,
      file_lines = (\<lambda>_. Some ([] @ [ids_line ''Uid:'' 0 4294967294 ''0'' ] @ [] @
                               [ids_line ''Gid:'' 0 1000 ''0''] @ [''Groups:''] @
                               [nstgid_line [tab, CHR ''8''] 7] @ [])),
      stat_ino = (\<lambda>_. None), dir_names = (\<lambda>_. None), open_ok = (\<lambda>_. True),
      setns_ok = (\<lambda>_. True)\<rparr> 42 0 0 0 = Some (0, 4294967294, 1000, int 7)"
  by (rule get_process_info_kernel_format [where a = "[]" and b = "[]" and c = "[''Groups:'']" and d = "[]"])
    (simp_all add: other_line_def strncmp_eq_def)

text \<open>
  When the status file has no \<open>NStgid\<close> line, the pid used for the target is its host
  pid, or else a numeric entry of the target's own \<^verbatim>\<open>/proc\<close> whose \<open>sched\<close> file
  names the host pid.
\<close>

theorem alt_lookup_nspid_correct:
  "alt_lookup_nspid e pid = pid \<or>
   (\<exists>ds d. dir_names e (''/proc/'' @ show_int pid @ ''/root/proc'') = Some ds \<and> d \<in> set ds \<and>
      pid_name d \<and> sched_get_host_pid e (sched_path pid d) = pid \<and> alt_lookup_nspid e pid = atoi d)"
  unfolding alt_lookup_nspid_def
  by (auto split: option.splits dest!: scan_pids_SomeD)

text \<open>
  \<open>enter_ns\<close> returns 1 exactly when it changed the caller's namespace: the caller is then
  in the target's namespace and asking again returns 0 with nothing changed; with any other
  return value the caller's namespaces are untouched.
\<close>

theorem enter_ns_result:
  "(\<exists>e'. same_ns e pid ty = Some False \<and> open_ok e (ns_path pid ty) \<and> setns_ok e (ns_path pid ty) \<and>
        enter_ns e pid ty = (1, e') \<and> same_ns e' pid ty = Some True \<and> enter_ns e' pid ty = (0, e'))
   \<or> same_ns e pid ty \<in> {None, Some True} \<and> enter_ns e pid ty = (0, e)
   \<or> same_ns e pid ty = Some False \<and> enter_ns e pid ty = (- 1, e)"
proof (cases "same_ns e pid ty = Some False \<and> open_ok e (ns_path pid ty) \<and> setns_ok e (ns_path pid ty)")
  case True
  let ?e = "e\<lparr>stat_ino := (stat_ino e)(self_ns_path ty := stat_ino e (ns_path pid ty))\<rparr>"
  from True obtain x where "stat_ino e (ns_path pid ty) = Some x"
    by (auto simp: same_ns_def split: option.splits)
  then have "same_ns ?e pid ty = Some True" by (simp add: same_ns_def)
  moreover from this have "enter_ns ?e pid ty = (0, ?e)" by (simp add: enter_ns_def)
  moreover have "enter_ns e pid ty = (1, ?e)" using True by (simp add: enter_ns_def)
  ultimately show ?thesis using True by blast
next
  case False
  then show ?thesis by (cases "same_ns e pid ty") (auto simp: enter_ns_def)
qed

text \<open>
  When the target's namespace cannot be inspected (\<open>stat\<close> fails, for example without
  permission), \<open>enter_ns\<close> returns 0, the value its header documents as "the target process
  is in the same namespace as the host", and not \<open>-1\<close>.
\<close>

theorem enter_ns_stat_failure_is_zero:
  assumes "stat_ino e (ns_path pid ty) = None"
  shows "fst (enter_ns e pid ty) = 0 \<and> same_ns e pid ty \<noteq> Some True"
  using assms by (simp add: enter_ns_def same_ns_def split: option.split)

theorem enter_ns_stat_failure_is_zero_witness:
  "fst (enter_ns \<lparr>getenv_JATTACH_PATH = None, file_lines = (\<lambda>_. None),
          stat_ino = (\<lambda>p. if p = self_ns_path ''net'' then Some 5 else None),
          dir_names = (\<lambda>_. None), open_ok = (\<lambda>_. True), setns_ok = (\<lambda>_. True)\<rparr> 42 ''net'') = 0 \<and>
   same_ns \<lparr>getenv_JATTACH_PATH = None, file_lines = (\<lambda>_. None),
          stat_ino = (\<lambda>p. if p = self_ns_path ''net'' then Some 5 else None),
          dir_names = (\<lambda>_. None), open_ok = (\<lambda>_. True), setns_ok = (\<lambda>_. True)\<rparr> 42 ''net'' \<noteq> Some True"
  by (rule enter_ns_stat_failure_is_zero) simp

text \<open>
  The path stored in the global \<open>tmp_path\<close> always fits its array of \<open>MAX_PATH - 100\<close>
  bytes with the NUL, and is the user's \<open>JATTACH_PATH\<close>, the target's \<^verbatim>\<open>/tmp\<close> seen
  through \<^verbatim>\<open>/proc\<close> (then it exists, or was cut), or \<^verbatim>\<open>/tmp\<close>.
\<close>

theorem get_tmp_path_fits:
  "length (get_tmp_path e pid) < tmp_path_size \<and>
   (getenv_JATTACH_PATH e = Some (get_tmp_path e pid)
    \<or> (get_tmp_path e pid = root_tmp pid \<and> stat_ino e (root_tmp pid) \<noteq> None)
    \<or> get_tmp_path e pid = ''/tmp'')"
  by (auto simp: get_tmp_path_def get_tmp_path_r_def tmp_path_size_def MAX_PATH_def
      snprintf_buf_def Let_def split: option.splits)

end
