(* ===== verification/Transport.thy ===== *)
theory Transport
  imports Prelude
begin

text \<open>
  What the two attach protocols (\<^verbatim>\<open>jattach_hotspot.c\<close> and \<^verbatim>\<open>jattach_openj9.c\<close>)
  use of a connected stream socket.

  The bytes the JVM will send are a list of chunks, each the data of one arrival or a failed
  \<open>read\<close>; \<open>sock_read n\<close> takes at most \<open>n\<close> bytes of the next one and returns 0 at the end
  of the stream. Messages are sequences of NUL-terminated strings; \<open>frame\<close> and
  \<open>unframe\<close> are the two directions of that format.
\<close>

datatype chunk = Data string | ReadError

fun sock_read :: "nat \<Rightarrow> chunk list \<Rightarrow> int \<times> string \<times> chunk list" where
  "sock_read n [] = (0, [], [])"
| "sock_read n (ReadError # cs) = (- 1, [], cs)"
| "sock_read n (Data d # cs) =
     (int (length (take n d)), take n d, if length d \<le> n then cs else Data (drop n d) # cs)"

fun chunk_size :: "chunk \<Rightarrow> nat" where
  "chunk_size (Data d) = Suc (length d)"
| "chunk_size ReadError = 1"

definition stream_size :: "chunk list \<Rightarrow> nat" where
  "stream_size cs = sum_list (map chunk_size cs)"

lemma sock_read_size: "sock_read n cs = (b, d, cs') \<Longrightarrow> 0 < b \<Longrightarrow> stream_size cs' < stream_size cs"
  by (cases "(n, cs)" rule: sock_read.cases) (auto simp: stream_size_def split: if_splits)

lemma sock_read_length: "sock_read n cs = (b, d, cs') \<Longrightarrow> 0 < b \<Longrightarrow> b = int (length d) \<and> length d \<le> n"
  by (cases "(n, cs)" rule: sock_read.cases) (auto split: if_splits)

lemma sock_read_neg: "sock_read n cs = (b, d, cs') \<Longrightarrow> b \<le> 0 \<Longrightarrow> d = []"
  by (cases "(n, cs)" rule: sock_read.cases) (auto split: if_splits)

text \<open>The data of a stream up to its first failure or empty read.\<close>

fun stream_data :: "chunk list \<Rightarrow> string" where
  "stream_data [] = []"
| "stream_data (ReadError # cs) = []"
| "stream_data (Data d # cs) = (if d = [] then [] else d @ stream_data cs)"

text \<open>A stream that delivers its whole text: only non-empty chunks.\<close>

definition delivers :: "chunk list \<Rightarrow> string \<Rightarrow> bool" where
  "delivers cs t \<longleftrightarrow> (\<exists>ds. cs = map Data ds \<and> [] \<notin> set ds \<and> concat ds = t)"

lemma delivers_Nil [simp]: "delivers [] t \<longleftrightarrow> t = []"
  by (auto simp: delivers_def)

lemma delivers_empty: "delivers cs [] \<longleftrightarrow> cs = []"
  by (auto simp: delivers_def concat_eq_Nil_conv) (metis list.set_intros(1) list.exhaust)

lemma delivers_data: "delivers cs t \<Longrightarrow> stream_data cs = t"
proof -
  assume "delivers cs t"
  then obtain ds where "cs = map Data ds" "[] \<notin> set ds" "concat ds = t" by (auto simp: delivers_def)
  moreover have "[] \<notin> set ds \<Longrightarrow> stream_data (map Data ds) = concat ds" for ds
    by (induction ds) auto
  ultimately show ?thesis by simp
qed

lemma delivers_read:
  assumes "delivers cs t" "0 < n" "t \<noteq> []"
  shows "\<exists>d cs' t'. sock_read n cs = (int (length d), d, cs') \<and> d \<noteq> [] \<and> length d \<le> n \<and>
                    t = d @ t' \<and> delivers cs' t'"
proof -
  obtain ds where ds: "cs = map Data ds" "[] \<notin> set ds" "concat ds = t"
    using assms(1) by (auto simp: delivers_def)
  with assms(3) obtain x xs where x: "ds = x # xs" by (cases ds) auto
  with ds(2) have ne: "x \<noteq> []" "[] \<notin> set xs" by auto
  show ?thesis
  proof (cases "length x \<le> n")
    case True
    with ds x ne show ?thesis
      by (intro exI [of _ x] exI [of _ "map Data xs"] exI [of _ "concat xs"]) (auto simp: delivers_def)
  next
    case False
    have "delivers (Data (drop n x) # map Data xs) (drop n x @ concat xs)"
      unfolding delivers_def using False ne by (intro exI [of _ "drop n x # xs"]) auto
    with False ds x ne assms(2) show ?thesis
      by (intro exI [of _ "take n x"] exI [of _ "Data (drop n x) # map Data xs"]
            exI [of _ "drop n x @ concat xs"]) auto
  qed
qed

lemma delivers_eof: "delivers cs [] \<Longrightarrow> sock_read n cs = (0, [], [])"
proof -
  assume "delivers cs []"
  then obtain ds where "cs = map Data ds" "[] \<notin> set ds" "concat ds = []" by (auto simp: delivers_def)
  then show ?thesis by (cases ds) auto
qed

subsection \<open>NUL-terminated strings on the wire\<close>

text \<open>The argument an attach command sends at position \<open>i\<close>: empty past \<open>argc\<close>.\<close>

definition arg_or_empty :: "string list \<Rightarrow> nat \<Rightarrow> string" where
  "arg_or_empty argv i = (if i < length argv then argv ! i else [])"


definition frame :: "string list \<Rightarrow> string" where
  "frame xs = concat (map (\<lambda>a. a @ [NUL]) xs)"

function unframe :: "string \<Rightarrow> string list" where
  "unframe [] = []"
| "unframe (c # s) =
     takeWhile (\<lambda>x. x \<noteq> NUL) (c # s) # unframe (drop (Suc (length (takeWhile (\<lambda>x. x \<noteq> NUL) (c # s)))) (c # s))"
  by pat_completeness auto
termination
  by (relation "measure length") auto

lemma unframe_string: "NUL \<notin> set x \<Longrightarrow> unframe (x @ NUL # r) = x # unframe r"
proof -
  assume x: "NUL \<notin> set x"
  have tw: "takeWhile (\<lambda>c. c \<noteq> NUL) (x @ NUL # r) = x"
    using x by (subst takeWhile_append2) auto
  obtain c s where cs: "x @ NUL # r = c # s" by (cases "x @ NUL # r") auto
  have "unframe (c # s) = x # unframe (drop (Suc (length x)) (c # s))"
    using tw unfolding cs by (subst unframe.simps) simp
  then show ?thesis unfolding cs [symmetric] by simp
qed

lemma unframe_frame: "(\<And>a. a \<in> set xs \<Longrightarrow> NUL \<notin> set a) \<Longrightarrow> unframe (frame xs) = xs"
proof (induction xs)
  case Nil
  then show ?case by (simp add: frame_def)
next
  case (Cons x xs)
  have "unframe (frame (x # xs)) = x # unframe (frame xs)"
    using Cons.prems by (simp add: frame_def unframe_string)
  with Cons show ?case by simp
qed

end
