(* ===== verification/HotSpot.thy ===== *)
theory HotSpot
  imports PsUtil Transport
begin

text \<open>
  \<^verbatim>\<open>ycattach/posix/jattach_hotspot.c\<close>: the dynamic-attach protocol of HotSpot JVMs.
  The agent makes the JVM open its attach socket (a trigger file, SIGQUIT, then polling), connects
  to it, writes the command as NUL-terminated strings and mirrors the answer to stdout.

  The answers of the operating system are the record \<open>hs_env\<close>; time is the number of the
  poll. What the code does to the outside is a list of events.
\<close>

datatype file_kind = IsSocket | OtherFile

datatype hs_event =
    Created string
  | Unlinked string
  | Signalled int      \<comment> \<open>\<open>kill(pid, SIGQUIT)\<close>\<close>
  | Slept nat          \<comment> \<open>nanoseconds\<close>
  | SockOpened
  | SockClosed

record hs_env =
  file_at :: "nat \<Rightarrow> string \<Rightarrow> file_kind option"  \<comment> \<open>by poll number and path\<close>
  creat_ok :: "string \<Rightarrow> bool"
  close_ok :: bool
  owner_of :: "string \<Rightarrow> uid_t option"
  hs_euid :: uid_t
  socket_ok :: bool
  connect_ok :: "string \<Rightarrow> bool"
  write_ret :: "nat \<Rightarrow> string \<Rightarrow> int"   \<comment> \<open>value of the n-th \<open>write\<close>\<close>
  incoming :: "chunk list"
  stale :: string                    \<comment> \<open>what the stack buffer held before\<close>

subsection \<open>Finding and provoking the socket\<close>

definition socket_path :: "string \<Rightarrow> int \<Rightarrow> string" where
  "socket_path tmp pid = snprintf_buf MAX_PATH (tmp @ ''/.java_pid'' @ show_int pid)"

definition check_socket :: "hs_env \<Rightarrow> string \<Rightarrow> nat \<Rightarrow> int \<Rightarrow> int" where
  "check_socket e tmp t pid = (if file_at e t (socket_path tmp pid) = Some IsSocket then 0 else - 1)"

definition get_file_owner :: "hs_env \<Rightarrow> string \<Rightarrow> uid_t" where
  "get_file_owner e path = (case owner_of e path of None \<Rightarrow> - 1 | Some u \<Rightarrow> u)"

text \<open>
  The polling loop: \<open>chk k\<close> is the result of the \<open>k\<close>-th \<open>check_socket\<close>, \<open>ts\<close> the
  length of the next sleep; also returns the sleeps done.
\<close>

function poll_socket :: "(nat \<Rightarrow> int) \<Rightarrow> nat \<Rightarrow> nat \<Rightarrow> int \<times> nat list" where
  "poll_socket chk k ts =
     (let result = chk k
      in if result \<noteq> 0 \<and> ts + 20000000 < 500000000
         then (case poll_socket chk (Suc k) (ts + 20000000) of (r, sl) \<Rightarrow> (r, ts # sl))
         else (result, [ts]))"
  by pat_completeness auto
termination
  by (relation "measure (\<lambda>(chk, k, ts). 500000000 - ts)") auto

declare poll_socket.simps [simp del]

definition cwd_trigger :: "int \<Rightarrow> string" where
  "cwd_trigger nspid =
     snprintf_buf MAX_PATH (''/proc/'' @ show_int nspid @ ''/cwd/.attach_pid'' @ show_int nspid)"

definition tmp_trigger :: "string \<Rightarrow> int \<Rightarrow> string" where
  "tmp_trigger tmp nspid = snprintf_buf MAX_PATH (tmp @ ''/.attach_pid'' @ show_int nspid)"

text \<open>
  Polls are numbered from 1 (poll 0 is the check before). The trigger file in the working
  directory is given up when it cannot be created or is not owned by the agent's user.
\<close>

definition start_attach_mechanism ::
  "hs_env \<Rightarrow> string \<Rightarrow> int \<Rightarrow> int \<Rightarrow> int \<times> hs_event list" where
  "start_attach_mechanism e tmp pid nspid =
     (let p1 = cwd_trigger nspid;
          p2 = tmp_trigger tmp nspid;
          fd1 = creat_ok e p1;
          ev1 = (if fd1 then [Created p1] else []);
          retry = (\<not> fd1 \<or> (close_ok e \<and> get_file_owner e p1 \<noteq> hs_euid e));
          path = (if retry then p2 else p1);
          ev2 = (if retry then ev1 @ [Unlinked p1] else ev1)
      in if retry \<and> \<not> creat_ok e p2 then (- 1, ev2)
         else
           (case poll_socket (\<lambda>k. check_socket e tmp k nspid) 1 20000000 of
              (result, sleeps) \<Rightarrow>
                (result,
                 ev2 @ (if retry then [Created p2] else []) @ [Signalled pid]
                     @ map Slept sleeps @ [Unlinked path])))"

subsection \<open>Connecting and sending the command\<close>

text \<open>\<open>sun_path\<close> of a UNIX socket address holds 108 bytes with the NUL.\<close>

definition sun_path :: "string \<Rightarrow> int \<Rightarrow> string" where
  "sun_path tmp pid = snprintf_buf 108 (tmp @ ''/.java_pid'' @ show_int pid)"

definition connect_socket :: "hs_env \<Rightarrow> string \<Rightarrow> int \<Rightarrow> bool \<times> hs_event list" where
  "connect_socket e tmp pid =
     (if \<not> socket_ok e then (False, [])
      else if \<not> connect_ok e (sun_path tmp pid) then (False, [SockOpened, SockClosed])
      else (True, [SockOpened]))"

text \<open>
  \<open>write_command\<close>: the protocol version, then exactly four arguments. Returns the value of
  the C function and the bytes the socket has accepted.
\<close>

fun hs_write_args :: "(nat \<Rightarrow> string \<Rightarrow> int) \<Rightarrow> string list \<Rightarrow> nat list \<Rightarrow> int \<times> string" where
  "hs_write_args wr argv [] = (0, [])"
| "hs_write_args wr argv (i # is) =
     (let d = arg_or_empty argv i @ [NUL]; r = wr (Suc i) d
      in if r \<le> 0 then (- 1, [])
         else (case hs_write_args wr argv is of (rc, out) \<Rightarrow> (rc, take (nat r) d @ out)))"

definition hs_write_command :: "(nat \<Rightarrow> string \<Rightarrow> int) \<Rightarrow> string list \<Rightarrow> int \<times> string" where
  "hs_write_command wr argv =
     (let d = ''1'' @ [NUL]; r = wr 0 d
      in if r \<le> 0 then (- 1, [])
         else (case hs_write_args wr argv [0, 1, 2, 3] of (rc, out) \<Rightarrow> (rc, take (nat r) d @ out)))"

subsection \<open>Reading the answer\<close>

text \<open>The extra reads of the \<open>load\<close> command: until the buffer is full or nothing comes.\<close>

function load_reads :: "string \<Rightarrow> chunk list \<Rightarrow> string \<times> chunk list" where
  "load_reads acc cs =
     (if length acc < 8191
      then (case sock_read (8191 - length acc) cs of
              (b, d, cs') \<Rightarrow> if 0 < b then load_reads (acc @ d) cs' else (acc, cs'))
      else (acc, cs))"
  by pat_completeness auto
termination
  by (relation "measure (\<lambda>(acc, cs). stream_size cs)") (auto dest: sock_read_size [OF sym])

declare load_reads.simps [simp del]

function mirror_rest :: "chunk list \<Rightarrow> string" where
  "mirror_rest cs =
     (case sock_read 8192 cs of (b, d, cs') \<Rightarrow> if 0 < b then d @ mirror_rest cs' else [])"
  by pat_completeness auto
termination
  by (relation "measure stream_size") (auto dest: sock_read_size [OF sym])

declare mirror_rest.simps [simp del]

definition load_result :: "string \<Rightarrow> string \<Rightarrow> int" where
  "load_result buf junk =
     (let m = buf @ NUL # junk
      in atoi (if strncmp_eq (cstr (drop 2 m)) ''return code: '' 13 then cstr (drop 15 m)
               else cstr (drop 2 m)))"

text \<open>The value returned and what is printed on stdout.\<close>

definition hs_read_response :: "chunk list \<Rightarrow> string \<Rightarrow> string list \<Rightarrow> int \<times> string" where
  "hs_read_response cs junk argv =
     (case sock_read 8191 cs of
        (b, d, cs1) \<Rightarrow>
          if b \<le> 0 then (1, [])
          else
            let result = atoi (cstr d)
            in if result = 0 \<and> argv \<noteq> [] \<and> hd argv = ''load'' then
                 (case load_reads d cs1 of
                    (buf, cs2) \<Rightarrow>
                      (load_result buf junk,
                       ''JVM response code = '' @ buf @ mirror_rest cs2 @ [newline]))
               else (result, ''JVM response code = '' @ d @ mirror_rest cs1 @ [newline]))"

definition jattach_hotspot ::
  "hs_env \<Rightarrow> string \<Rightarrow> int \<Rightarrow> int \<Rightarrow> string list \<Rightarrow> int \<times> hs_event list \<times> string \<times> string" where
  "jattach_hotspot e tmp pid nspid argv =
     (let (rc0, ev0) = (if check_socket e tmp 0 nspid \<noteq> 0 then start_attach_mechanism e tmp pid nspid
                        else (0, []))
      in if rc0 \<noteq> 0 then (1, ev0, [], [])
         else
           (case connect_socket e tmp nspid of
              (False, ev1) \<Rightarrow> (1, ev0 @ ev1, [], [])
            | (True, ev1) \<Rightarrow>
                (case hs_write_command (write_ret e) argv of
                   (rc, sent) \<Rightarrow>
                     if rc \<noteq> 0
                     then (1, ev0 @ ev1 @ [SockClosed], sent, ''Connected to remote JVM'' @ [newline])
                     else
                       (case hs_read_response (incoming e) (stale e) argv of
                          (result, out) \<Rightarrow>
                            (result, ev0 @ ev1 @ [SockClosed], sent,
                             ''Connected to remote JVM'' @ [newline] @ out)))))"

subsection \<open>Lemmas: waiting\<close>

lemma poll_socket_gen:
  assumes "1 \<le> m" "m \<le> 24" "poll_socket chk k (20000000 * m) = (r, sl)"
  shows "(r = 0 \<longleftrightarrow> (\<exists>j. m + j \<le> 24 \<and> chk (k + j) = 0)) \<and>
         sl = map ((*) 20000000) [m..<m + length sl] \<and> length sl \<le> 25 - m \<and>
         (r \<noteq> 0 \<longrightarrow> length sl = 25 - m)"
  using assms
proof (induction "24 - m" arbitrary: m k r sl)
  case 0
  then have m: "m = 24" by simp
  with 0 have "r = chk k" "sl = [20000000 * m]"
    by (auto simp: poll_socket.simps [of chk k] Let_def split: if_splits prod.splits)
  with m show ?case by auto
next
  case (Suc x)
  show ?case
  proof (cases "chk k = 0")
    case True
    with Suc have "r = 0" "sl = [20000000 * m]"
      by (auto simp: poll_socket.simps [of chk k] Let_def)
    with True Suc show ?thesis by (auto intro!: exI [of _ 0])
  next
    case False
    have lt: "m < 24" using Suc by simp
    obtain sl' where rec: "poll_socket chk (Suc k) (20000000 * Suc m) = (r, sl')"
      and sl: "sl = 20000000 * m # sl'"
      using Suc.prems(3) False lt
      by (auto simp: poll_socket.simps [of chk k] Let_def add.commute split: prod.splits)
    have IH: "(r = 0 \<longleftrightarrow> (\<exists>j. Suc m + j \<le> 24 \<and> chk (Suc k + j) = 0)) \<and>
         sl' = map ((*) 20000000) [Suc m..<Suc m + length sl'] \<and> length sl' \<le> 25 - Suc m \<and>
         (r \<noteq> 0 \<longrightarrow> length sl' = 25 - Suc m)"
      using Suc lt rec by (intro Suc.hyps(1)) auto
    have "(\<exists>j. Suc m + j \<le> 24 \<and> chk (Suc k + j) = 0) \<longleftrightarrow> (\<exists>j. m + j \<le> 24 \<and> chk (k + j) = 0)"
    proof
      assume "\<exists>j. Suc m + j \<le> 24 \<and> chk (Suc k + j) = 0"
      then obtain j where "Suc m + j \<le> 24 \<and> chk (Suc k + j) = 0" ..
      then show "\<exists>j. m + j \<le> 24 \<and> chk (k + j) = 0" by (intro exI [of _ "Suc j"]) simp
    next
      assume "\<exists>j. m + j \<le> 24 \<and> chk (k + j) = 0"
      then obtain j where j: "m + j \<le> 24 \<and> chk (k + j) = 0" ..
      with False obtain i where "j = Suc i" by (cases j) auto
      with j show "\<exists>j. Suc m + j \<le> 24 \<and> chk (Suc k + j) = 0" by (intro exI [of _ i]) simp
    qed
    moreover have "sl = map ((*) 20000000) [m..<m + length sl]"
    proof -
      have "[m..<m + length sl] = m # [Suc m..<Suc m + length sl']"
        using sl by (simp add: upt_conv_Cons del: upt_Suc)
      moreover have "sl' = map ((*) 20000000) [Suc m..<Suc m + length sl']" using IH by blast
      ultimately show ?thesis using sl by (simp del: upt_Suc)
    qed
    moreover have "length sl \<le> 25 - m" "r \<noteq> 0 \<longrightarrow> length sl = 25 - m"
      using IH sl lt by auto
    ultimately show ?thesis using IH by blast
  qed
qed

lemma twice_sum_upt: "2 * sum_list [1..<Suc n] = n * (n + 1)" for n :: nat
  by (induction n) auto

lemma poll_socket_total:
  assumes "poll_socket chk k 20000000 = (r, sl)"
  shows "(r = 0 \<longleftrightarrow> (\<exists>j<24. chk (k + j) = 0)) \<and> sum_list sl \<le> 6000000000 \<and>
         (r \<noteq> 0 \<longrightarrow> length sl = 24 \<and> sum_list sl = 6000000000)"
proof -
  from poll_socket_gen [of 1 chk k r sl] assms have
    z: "r = 0 \<longleftrightarrow> (\<exists>j. 1 + j \<le> 24 \<and> chk (k + j) = 0)" and
    sl: "sl = map ((*) 20000000) [1..<1 + length sl]" and
    le: "length sl \<le> 24" and eq: "r \<noteq> 0 \<longrightarrow> length sl = 24" by auto
  let ?n = "length sl"
  have "sum_list sl = 20000000 * sum_list [1..<Suc ?n]"
    by (subst sl) (simp add: sum_list_const_mult del: upt_Suc)
  then have "2 * sum_list sl = 20000000 * (?n * (?n + 1))"
    using twice_sum_upt [of ?n] by (simp del: upt_Suc)
  moreover have "?n * (?n + 1) \<le> 24 * (24 + 1)" using le by (intro mult_le_mono) auto
  ultimately have "sum_list sl \<le> 6000000000" "r \<noteq> 0 \<longrightarrow> sum_list sl = 6000000000"
    using eq by auto
  moreover have "(\<exists>j. 1 + j \<le> 24 \<and> chk (k + j) = 0) \<longleftrightarrow> (\<exists>j<24. chk (k + j) = 0)"
    by (intro ex_cong1) auto
  ultimately show ?thesis using z eq by simp
qed

subsection \<open>Lemmas: events\<close>

text \<open>The trigger files that exist after a list of events, given those that existed before.\<close>

fun residue :: "hs_event list \<Rightarrow> string list \<Rightarrow> string list" where
  "residue [] fs = fs"
| "residue (Created p # evs) fs = residue evs (p # fs)"
| "residue (Unlinked p # evs) fs = residue evs (removeAll p fs)"
| "residue (_ # evs) fs = residue evs fs"

lemma residue_append [simp]: "residue (xs @ ys) fs = residue ys (residue xs fs)"
  by (induction xs fs rule: residue.induct) auto

lemma residue_slept [simp]: "residue (map Slept ss) fs = fs"
  by (induction ss) auto

lemma start_attach_residue: "residue (snd (start_attach_mechanism e tmp pid nspid)) [] = []"
  by (auto simp: start_attach_mechanism_def Let_def split: prod.splits)

definition balanced :: "hs_event list \<Rightarrow> bool" where
  "balanced evs \<longleftrightarrow> count_list evs SockOpened = count_list evs SockClosed"

definition signals_only :: "int \<Rightarrow> hs_event list \<Rightarrow> bool" where
  "signals_only pid evs \<longleftrightarrow>
     filter (\<lambda>ev. \<exists>q. ev = Signalled q) evs \<in> {[], [Signalled pid]}"

lemma count_list_slept [simp]:
  "count_list (map Slept ss) SockOpened = 0" "count_list (map Slept ss) SockClosed = 0"
  by (induction ss) auto

lemma filter_slept [simp]: "filter (\<lambda>ev. \<exists>q. ev = Signalled q) (map Slept ss) = []"
  by (induction ss) auto

lemma start_attach_events:
  "count_list (snd (start_attach_mechanism e tmp pid nspid)) SockOpened = 0 \<and>
   count_list (snd (start_attach_mechanism e tmp pid nspid)) SockClosed = 0 \<and>
   signals_only pid (snd (start_attach_mechanism e tmp pid nspid))"
  by (auto simp: start_attach_mechanism_def signals_only_def Let_def split: prod.splits)

subsection \<open>Lemmas: the answer\<close>

lemma mirror_rest_all: "delivers cs t \<Longrightarrow> mirror_rest cs = t"
proof (induction cs arbitrary: t rule: mirror_rest.induct)
  case (1 cs)
  show ?case
  proof (cases "t = []")
    case True
    with "1.prems" have "sock_read 8192 cs = (0, [], [])" by (simp add: delivers_eof)
    with True show ?thesis by (simp add: mirror_rest.simps [of cs])
  next
    case False
    with delivers_read [OF "1.prems", of 8192] obtain d cs' t' where
      d: "sock_read 8192 cs = (int (length d), d, cs')" "d \<noteq> []" "t = d @ t'" "delivers cs' t'"
      by auto
    then have "mirror_rest cs' = t'" by (intro "1.IH") auto
    with d show ?thesis by (simp add: mirror_rest.simps [of cs])
  qed
qed

lemma load_reads_split:
  "delivers cs t \<Longrightarrow> length acc \<le> 8191 \<Longrightarrow>
   \<exists>x y cs'. load_reads acc cs = (acc @ x, cs') \<and> t = x @ y \<and> delivers cs' y \<and>
             (length (acc @ t) \<le> 8191 \<longrightarrow> y = [])"
proof (induction acc cs arbitrary: t rule: load_reads.induct)
  case (1 acc cs)
  show ?case
  proof (cases "length acc < 8191")
    case False
    with "1.prems" show ?thesis
      by (intro exI [of _ "[]"] exI [of _ t] exI [of _ cs]) (auto simp: load_reads.simps [of acc])
  next
    case lt: True
    show ?thesis
    proof (cases "t = []")
      case True
      with "1.prems" have "sock_read (8191 - length acc) cs = (0, [], [])" by (simp add: delivers_eof)
      with True lt show ?thesis
        by (intro exI [of _ "[]"] exI [of _ "[]"] exI [of _ "[]"]) (simp add: load_reads.simps [of acc])
    next
      case False
      with delivers_read [OF "1.prems"(1), of "8191 - length acc"] lt obtain d cs1 t1 where
        d: "sock_read (8191 - length acc) cs = (int (length d), d, cs1)" "d \<noteq> []"
           "length d \<le> 8191 - length acc" "t = d @ t1" "delivers cs1 t1" by auto
      have "\<exists>x y cs'. load_reads (acc @ d) cs1 = ((acc @ d) @ x, cs') \<and> t1 = x @ y \<and> delivers cs' y \<and>
             (length ((acc @ d) @ t1) \<le> 8191 \<longrightarrow> y = [])"
        using d lt by (intro "1.IH" [OF lt d(1) [symmetric]]) auto
      then obtain x y cs' where "load_reads (acc @ d) cs1 = ((acc @ d) @ x, cs')" "t1 = x @ y"
        "delivers cs' y" "length ((acc @ d) @ t1) \<le> 8191 \<longrightarrow> y = []" by blast
      with d lt show ?thesis
        by (intro exI [of _ "d @ x"] exI [of _ y] exI [of _ cs']) (simp add: load_reads.simps [of acc])
    qed
  qed
qed

lemma atoi_zero_front: "r = [] \<or> \<not> isdigit (hd r) \<Longrightarrow> atoi (CHR ''0'' # r) = 0"
proof -
  assume "r = [] \<or> \<not> isdigit (hd r)"
  then have "scan_number (show_nat 0 @ r) = Some (int 0, r)"
    by (intro scan_number_show_nat) (simp add: ends_number_def)
  moreover have "show_nat 0 = ''0''" by (simp add: show_nat.simps)
  ultimately show ?thesis by (simp add: atoi_def strtol_def cast_int_def LONG_MIN_def LONG_MAX_def)
qed

lemma load_result_ok:
  assumes "- (2 ^ 31) \<le> n" "n < 2 ^ 31" "NUL \<notin> set r"
  shows "load_result (''0'' @ [newline] @ ''return code: '' @ show_int n @ newline # r) junk = n"
proof -
  have "cstr (''return code: '' @ (show_int n @ newline # r) @ NUL # junk)
        = ''return code: '' @ show_int n @ newline # r"
    using cstr_append_NUL [of "''return code: '' @ show_int n @ newline # r"] assms(3) by simp
  moreover have "cstr ((show_int n @ newline # r) @ NUL # junk) = show_int n @ newline # r"
    using assms(3) by (intro cstr_append_NUL) auto
  moreover have "atoi (show_int n @ newline # r) = n"
    using assms by (intro atoi_show_int) auto
  ultimately show ?thesis by (simp add: load_result_def strncmp_eq_def Let_def)
qed

lemma hs_response_output:
  assumes "delivers cs t" "t \<noteq> []"
  shows "snd (hs_read_response cs junk argv) = ''JVM response code = '' @ t @ [newline]"
proof -
  obtain d cs' t' where d: "sock_read 8191 cs = (int (length d), d, cs')" "d \<noteq> []" "length d \<le> 8191"
    "t = d @ t'" "delivers cs' t'"
    using delivers_read [OF assms(1) _ assms(2), of 8191] by auto
  obtain x y cs2 where "load_reads d cs' = (d @ x, cs2)" "t' = x @ y" "delivers cs2 y"
    using load_reads_split [OF d(5,3)] by blast
  with d show ?thesis
    by (auto simp: hs_read_response_def Let_def mirror_rest_all)
qed

subsection \<open>Properties\<close>

text \<open>
  C38. Waiting for the attach socket polls at most 24 times and sleeps at most 6 seconds in all,
  as the comment says; it reports success exactly when one of these polls finds the socket, and
  on failure all 6 seconds have been spent.
\<close>

theorem attach_wait_six_seconds:
  assumes "poll_socket chk k 20000000 = (r, sl)"
  shows "(r = 0 \<longleftrightarrow> (\<exists>j<24. chk (k + j) = 0)) \<and> sum_list sl \<le> 6000000000 \<and>
         (r = 0 \<or> length sl = 24 \<and> sum_list sl = 6000000000)"
  using poll_socket_total [OF assms] by blast

theorem attach_wait_six_seconds_witness:
  "(0 = (0::int) \<longleftrightarrow> (\<exists>j<24. (if 1 + j = (2::nat) then 0 else - 1) = (0::int))) \<and>
   sum_list [20000000, 40000000] \<le> (6000000000::nat) \<and>
   (0 = (0::int) \<or> length [20000000, 40000000::nat] = 24 \<and> sum_list [20000000, 40000000] = (6000000000::nat))"
  by (rule attach_wait_six_seconds [of "\<lambda>k. if k = 2 then 0 else - 1"])
    (simp add: poll_socket.simps)

text \<open>
  C39. Whatever fails, \<open>jattach_hotspot\<close> leaves nothing behind: every trigger file it created
  is gone, every socket it opened is closed, and at most one SIGQUIT was sent, to the host pid
  of the target and to nobody else.
\<close>

theorem hotspot_leaves_nothing:
  "(case jattach_hotspot e tmp pid nspid argv of (rc, evs, sent, out) \<Rightarrow>
      residue evs [] = [] \<and> balanced evs \<and> signals_only pid evs)"
proof -
  let ?s = "start_attach_mechanism e tmp pid nspid"
  have "residue (snd ?s) [] = []" "count_list (snd ?s) SockOpened = 0"
    "count_list (snd ?s) SockClosed = 0" "signals_only pid (snd ?s)"
    using start_attach_residue start_attach_events by auto
  then show ?thesis
    by (auto simp: jattach_hotspot_def connect_socket_def balanced_def signals_only_def Let_def
        split: prod.splits if_splits)
qed

text \<open>
  If every \<open>write\<close> takes all its data, the command reaches the JVM as five
  NUL-terminated strings, the protocol version and exactly four arguments, missing ones empty
  and further ones dropped; reading the strings back gives them unchanged.
\<close>

theorem hs_command_roundtrip:
  assumes "list_all (\<lambda>a. NUL \<notin> set a) argv"
  shows "\<exists>sent. hs_write_command (\<lambda>_ d. int (length d)) argv = (0, sent) \<and>
                unframe sent = ''1'' # take 4 (argv @ [[], [], [], []])"
proof -
  have pad: "[[], [], [], []] = replicate 4 ([] :: string)" by (simp add: numeral_eq_Suc)
  have "map (arg_or_empty argv) [0..<4] = take 4 (argv @ replicate 4 [])"
    by (rule nth_equalityI) (auto simp: arg_or_empty_def nth_append)
  then have args: "map (arg_or_empty argv) [0, 1, 2, 3] = take 4 (argv @ [[], [], [], []])"
    unfolding pad by (simp add: numeral_eq_Suc upt_rec)
  let ?xs = "''1'' # map (arg_or_empty argv) [0, 1, 2, 3]"
  have "hs_write_command (\<lambda>_ d. int (length d)) argv = (0, frame ?xs)"
    by (simp add: hs_write_command_def frame_def)
  moreover have "unframe (frame ?xs) = ?xs"
    using assms by (intro unframe_frame) (auto simp: arg_or_empty_def list_all_iff)
  ultimately show ?thesis using args by auto
qed

theorem hs_command_roundtrip_witness:
  "\<exists>sent. hs_write_command (\<lambda>_ d. int (length d)) [''jcmd'', ''help''] = (0, sent) \<and>
          unframe sent = ''1'' # take 4 ([''jcmd'', ''help''] @ [[], [], [], []])"
  by (rule hs_command_roundtrip) simp

text \<open>
  A short \<open>write\<close> (the kernel takes only part of the data) is not noticed: the function
  returns success although the JVM has received a corrupted command.
\<close>

theorem hs_short_write_unnoticed:
  "hs_write_command (\<lambda>_ _. 1) [''jcmd'', ''help''] = (0, ''1jh'' @ [NUL, NUL]) \<and>
   ''1jh'' @ [NUL, NUL] \<noteq> frame [''1'', ''jcmd'', ''help'', [], []]"
  by (simp add: hs_write_command_def arg_or_empty_def frame_def)

text \<open>
  For the \<open>load\<close> command the agent's result code is found however the answer is cut
  into packets: an answer of at most 8191 bytes with status 0 and the line
  \<open>return code: n\<close> yields \<open>n\<close>, and the whole answer is printed.
\<close>

theorem hs_load_result_any_fragmentation:
  assumes "delivers cs (''0'' @ [newline] @ ''return code: '' @ show_int n @ newline # r)"
    and "length (''0'' @ [newline] @ ''return code: '' @ show_int n @ newline # r) \<le> 8191"
    and "- (2 ^ 31) \<le> n" "n < 2 ^ 31" "NUL \<notin> set r"
  shows "hs_read_response cs junk (''load'' # args) =
         (n, ''JVM response code = '' @ (''0'' @ [newline] @ ''return code: '' @ show_int n @ newline # r)
             @ [newline])"
proof -
  define t where t: "t = ''0'' @ [newline] @ ''return code: '' @ show_int n @ newline # r"
  have dl: "delivers cs t" and len: "length t \<le> 8191" and ne: "t \<noteq> []"
    using assms(1,2) unfolding t by simp_all
  have front: "\<exists>u. t = CHR ''0'' # newline # u" unfolding t by simp
  obtain d cs' t' where d: "sock_read 8191 cs = (int (length d), d, cs')" "d \<noteq> []" "length d \<le> 8191"
    "t = d @ t'" "delivers cs' t'"
    using delivers_read [OF dl _ ne, of 8191] by auto
  obtain x y cs2 where l: "load_reads d cs' = (d @ x, cs2)" "t' = x @ y"
    "length (d @ t') \<le> 8191 \<longrightarrow> y = []"
    using load_reads_split [OF d(5,3)] by blast
  with len d(4) have load: "load_reads d cs' = (t, cs2)" by simp
  from front d(2,4) obtain d' where d': "d = CHR ''0'' # d'" "d' = [] \<or> hd d' = newline"
    by (cases d; cases "tl d") auto
  then have "cstr d' = [] \<or> \<not> isdigit (hd (cstr d'))" by (cases d') (auto simp: cstr_def isdigit_def)
  then have "atoi (cstr d) = 0" unfolding d'(1) by (auto simp: cstr_def intro: atoi_zero_front)
  with d load have "fst (hs_read_response cs junk (''load'' # args)) = load_result t junk"
    by (simp add: hs_read_response_def Let_def)
  moreover have "load_result t junk = n" unfolding t using assms(3-5) by (rule load_result_ok)
  moreover have "snd (hs_read_response cs junk (''load'' # args)) =
      ''JVM response code = '' @ t @ [newline]"
    using dl ne by (rule hs_response_output)
  ultimately show ?thesis unfolding t by (metis prod.collapse)
qed

theorem hs_load_result_any_fragmentation_witness:
  "hs_read_response [Data ''0'', Data ([newline] @ ''ret''), Data (''urn code: 42'' @ [newline])] ''junk'' [''load'']
   = (42, ''JVM response code = '' @ (''0'' @ [newline] @ ''return code: '' @ show_int 42 @ newline # [])
          @ [newline])"
proof (rule hs_load_result_any_fragmentation)
  have s: "show_int 42 = ''42''" by (simp add: show_int_def show_nat.simps)
  show "delivers [Data ''0'', Data ([newline] @ ''ret''), Data (''urn code: 42'' @ [newline])]
      (''0'' @ [newline] @ ''return code: '' @ show_int 42 @ newline # [])"
    unfolding delivers_def s
    by (intro exI [of _ "[''0'', [newline] @ ''ret'', ''urn code: 42'' @ [newline]]"]) simp
  show "length (''0'' @ [newline] @ ''return code: '' @ show_int 42 @ newline # []) \<le> 8191"
    unfolding s by simp
qed auto

text \<open>
  For every other command the result code is taken from the first packet alone, so the
  same answer, cut differently, gives a different exit status.
\<close>

theorem hs_result_depends_on_fragmentation:
  "fst (hs_read_response [Data (''12'' @ [newline])] junk [''threaddump'']) = 12 \<and>
   fst (hs_read_response [Data ''1'', Data (''2'' @ [newline])] junk [''threaddump'']) = 1"
  by (simp add: hs_read_response_def atoi_def strtol_def scan_number_def split_sign_def isspace_def
      isdigit_def digits_val_def cast_int_def cstr_def LONG_MAX_def LONG_MIN_def)

end
