(* ===== verification/OpenJ9.thy ===== *)
theory OpenJ9
  imports PsUtil Transport
begin

text \<open>
  \<^verbatim>\<open>ycattach/posix/jattach_openj9.c\<close>: the attach protocol of OpenJ9 JVMs. The agent takes
  the attach lock, listens on a TCP port, leaves the port and a random key in the target's
  \<open>replyInfo\<close> file, wakes the JVMs through their notification files and a semaphore, accepts
  the connection that knows the key, and exchanges one command and its answer.

  What the system answers is the record \<open>j9_env\<close>; a file descriptor is named by what it was
  opened for; what the code does to locks, descriptors, the semaphore and the reply file is a
  list of events. Reading past the data received is \<open>None\<close>.
\<close>

subsection \<open>Translating the command\<close>

definition known_diag :: "string \<Rightarrow> string option" where
  "known_diag cmd =
     (if cmd = ''threaddump'' then Some ''Thread.print''
      else if cmd = ''dumpheap'' then Some ''Dump.heap''
      else if cmd = ''inspectheap'' then Some ''GC.class_histogram''
      else if cmd = ''datadump'' then Some ''Dump.java''
      else None)"

definition translate_command :: "nat \<Rightarrow> string list \<Rightarrow> string option" where
  "translate_command bufsize argv =
     (case argv of
        [] \<Rightarrow> None
      | cmd # _ \<Rightarrow>
          let argc = length argv; arg = arg_or_empty argv
          in Some (snprintf_buf bufsize
               (if cmd = ''load'' \<and> 2 \<le> argc then
                  (if 2 < argc \<and> argv ! 2 = ''true''
                   then ''ATTACH_LOADAGENTPATH('' @ argv ! 1 @ '','' @ arg 3 @ '')''
                   else ''ATTACH_LOADAGENT('' @ argv ! 1 @ '','' @ arg 3 @ '')'')
                else if cmd = ''jcmd'' then
                  ''ATTACH_DIAGNOSTICS:'' @ (if 1 < argc then argv ! 1 else ''help'') @ '','' @ arg 2
                else case known_diag cmd of
                  Some d \<Rightarrow> ''ATTACH_DIAGNOSTICS:'' @ d @ '','' @ arg 1
                | None \<Rightarrow>
                    if cmd = ''properties'' then ''ATTACH_GETSYSTEMPROPERTIES''
                    else if cmd = ''agentProperties'' then ''ATTACH_GETAGENTPROPERTIES''
                    else cmd)))"

subsection \<open>Printing an escaped string\<close>

text \<open>
  \<open>m\<close> is the memory from the pointer on, NULs included, up to the last byte received.
  \<open>cut_line\<close> puts the NUL at the first newline; \<open>unescape_loop\<close> is the loop over the
  backslashes, which stops at the first NUL it meets after an escape.
\<close>

definition cut_line :: "string \<Rightarrow> string" where
  "cut_line m = (case strchr (cstr m) newline of
      None \<Rightarrow> m
    | Some p \<Rightarrow> m[length (cstr m) - length p := NUL])"

definition unescape_char :: "char \<Rightarrow> char" where
  "unescape_char c =
     (if c = NUL then backslash
      else if c = CHR ''f'' then CHR 0x0C
      else if c = CHR ''n'' then newline
      else if c = CHR ''r'' then CHR 0x0D
      else if c = CHR ''t'' then tab
      else c)"

function unescape_loop :: "string \<Rightarrow> string option" where
  "unescape_loop m =
     (if NUL \<notin> set m then None
      else case strchr (cstr m) backslash of
             None \<Rightarrow> Some (cstr m)
           | Some p \<Rightarrow>
               let k = length (cstr m) - length p
               in map_option (\<lambda>r. take k m @ unescape_char (m ! Suc k) # r)
                    (unescape_loop (drop (k + 2) m)))"
  by pat_completeness auto
termination
proof (relation "measure length", goal_cases)
  case (2 m p k)
  then have "m \<noteq> []" by auto
  then show ?case by simp
qed simp

declare unescape_loop.simps [simp del]

definition print_unescaped :: "string \<Rightarrow> string option" where
  "print_unescaped m = map_option (\<lambda>r. r @ [newline]) (unescape_loop (cut_line m))"

subsection \<open>Sending and receiving\<close>

text \<open>\<open>wr n d\<close> is the value of \<open>write\<close> of data \<open>d\<close> after \<open>n\<close> bytes have been sent.\<close>

function j9_write_loop :: "(nat \<Rightarrow> string \<Rightarrow> int) \<Rightarrow> nat \<Rightarrow> string \<Rightarrow> int \<times> string" where
  "j9_write_loop wr off rem =
     (if rem = [] then (0, [])
      else let b = wr off rem
           in if b \<le> 0 then (- 1, [])
              else (case j9_write_loop wr (off + nat b) (drop (nat b) rem) of
                      (rc, out) \<Rightarrow> (rc, take (nat b) rem @ out)))"
  by pat_completeness auto
termination
  by (relation "measure (\<lambda>(wr, off, rem). length rem)") auto

declare j9_write_loop.simps [simp del]

definition j9_write_command :: "(nat \<Rightarrow> string \<Rightarrow> int) \<Rightarrow> nat \<Rightarrow> string \<Rightarrow> int \<times> string" where
  "j9_write_command wr off cmd = j9_write_loop wr off (cmd @ [NUL])"

datatype read_result = Received string "chunk list" | ConnectionEnded | OutOfMemory

text \<open>
  The reading loop: \<open>sz\<close> is the buffer's size, \<open>acc\<close> what it holds; \<open>alloc n\<close> whether the
  \<open>realloc\<close> to \<open>n\<close> bytes succeeds.
\<close>

function j9_read_loop :: "(nat \<Rightarrow> bool) \<Rightarrow> nat \<Rightarrow> string \<Rightarrow> chunk list \<Rightarrow> read_result" where
  "j9_read_loop alloc sz acc cs =
     (case sock_read (sz - length acc) cs of
        (b, d, cs') \<Rightarrow>
          if b \<le> 0 then ConnectionEnded
          else
            let acc' = acc @ d
            in if last acc' = NUL then Received acc' cs'
               else if sz \<le> length acc' then
                 (if alloc (2 * sz) then j9_read_loop alloc (2 * sz) acc' cs' else OutOfMemory)
               else j9_read_loop alloc sz acc' cs')"
  by pat_completeness auto
termination
  by (relation "measure (\<lambda>(alloc, sz, acc, cs). stream_size cs)")
    (auto dest!: sock_read_size [OF sym])

declare j9_read_loop.simps [simp del]

text \<open>The command's result and what is printed, from the whole answer.\<close>

definition j9_answer :: "string \<Rightarrow> string \<Rightarrow> (int \<times> string) option" where
  "j9_answer cmd buf =
     (let plain = butlast buf @ [newline]
      in if strncmp_eq cmd ''ATTACH_LOADAGENT'' 16 then
           Some (if strncmp_eq (cstr buf) ''ATTACH_ACK'' 10 then 0
                 else if strncmp_eq (cstr buf) ''ATTACH_ERR AgentInitializationException'' 39
                 then atoi (drop 39 (cstr buf)) else - 1, plain)
         else if strncmp_eq cmd ''ATTACH_DIAGNOSTICS:'' 19 then
           (case strstr (cstr buf) ''openj9_diagnostics.string_result='' of
              None \<Rightarrow> Some (0, plain)
            | Some p \<Rightarrow>
                map_option (\<lambda>out. (0, out))
                  (print_unescaped (drop (length (cstr buf) - length p + 33) buf)))
         else Some (0, plain))"

text \<open>The value returned, what is printed, and what is left in the stream.\<close>

definition j9_read_response ::
  "(nat \<Rightarrow> bool) \<Rightarrow> chunk list \<Rightarrow> string \<Rightarrow> (int \<times> string \<times> chunk list) option" where
  "j9_read_response alloc cs cmd =
     (if \<not> alloc 8192 then Some (1, [], cs)
      else case j9_read_loop alloc 8192 [] cs of
             ConnectionEnded \<Rightarrow> Some (1, [], [])
           | OutOfMemory \<Rightarrow> Some (1, [], [])
           | Received buf cs' \<Rightarrow> map_option (\<lambda>(r, out). (r, out, cs')) (j9_answer cmd buf))"

text \<open>\<open>detach\<close>: the bytes it sends, and the stream left after it has read up to a NUL.\<close>

function drain_answer :: "chunk list \<Rightarrow> chunk list" where
  "drain_answer cs =
     (case sock_read 256 cs of
        (b, d, cs') \<Rightarrow> if 0 < b \<and> last d \<noteq> NUL then drain_answer cs' else cs')"
  by pat_completeness auto
termination
  by (relation "measure stream_size") (auto dest: sock_read_size [OF sym])

declare drain_answer.simps [simp del]

definition j9_detach :: "(nat \<Rightarrow> string \<Rightarrow> int) \<Rightarrow> nat \<Rightarrow> chunk list \<Rightarrow> string \<times> chunk list" where
  "j9_detach wr off cs =
     (case j9_write_command wr off ''ATTACH_DETACHED'' of
        (rc, sent) \<Rightarrow> (sent, if rc \<noteq> 0 then cs else drain_answer cs))"

subsection \<open>The handshake\<close>

definition hex_digit :: "nat \<Rightarrow> char" where
  "hex_digit d = (if d < 10 then char_of (48 + d) else char_of (87 + d))"

fun hex_digits :: "nat \<Rightarrow> nat \<Rightarrow> string" where
  "hex_digits 0 n = []"
| "hex_digits (Suc k) n = hex_digits k (n div 16) @ [hex_digit (n mod 16)]"

text \<open>\<open>%016llx\<close>.\<close>

definition hex16 :: "ulong \<Rightarrow> string" where
  "hex16 key = hex_digits 16 (unat key)"

definition expected_greeting :: "ulong \<Rightarrow> string" where
  "expected_greeting key = snprintf_buf 35 (''ATTACH_CONNECTED '' @ hex16 key @ '' '')"

definition reply_text :: "int \<Rightarrow> ulong \<Rightarrow> string" where
  "reply_text port key = hex16 key @ [newline] @ show_int port @ [newline]"

text \<open>The loop that receives exactly 35 bytes, \<open>None\<close> when the connection ends before.\<close>

function recv_greeting :: "string \<Rightarrow> chunk list \<Rightarrow> (string \<times> chunk list) option" where
  "recv_greeting acc cs =
     (if length acc < 35
      then (case sock_read (35 - length acc) cs of
              (b, d, cs') \<Rightarrow> if b \<le> 0 then None else recv_greeting (acc @ d) cs')
      else Some (acc, cs))"
  by pat_completeness auto
termination
  by (relation "measure (\<lambda>(acc, cs). stream_size cs)") (auto dest!: sock_read_size [OF sym])

declare recv_greeting.simps [simp del]

definition word_bytes :: "ulong \<Rightarrow> nat list" where
  "word_bytes w = map (\<lambda>i. (unat w div 256 ^ i) mod 256) [0..<8]"

definition bytes_word :: "nat list \<Rightarrow> ulong" where
  "bytes_word bs = of_nat (sum_list (map (\<lambda>i. bs ! i * 256 ^ i) [0..<length bs]))"

text \<open>
  \<open>random_key\<close>: the clock times a constant, overwritten (in memory order) by what
  \<^verbatim>\<open>/dev/urandom\<close> gives, if it can be opened.
\<close>

definition random_key :: "ulong \<Rightarrow> nat list option \<Rightarrow> ulong" where
  "random_key now urandom =
     (let k = now * 0xc6a4a7935bd1e995
      in case urandom of
           None \<Rightarrow> k
         | Some bs \<Rightarrow> bytes_word (take 8 bs @ drop (length (take 8 bs)) (word_bytes k)))"

definition urandom_path :: string where
  "urandom_path = ''/dev/urandom''"

subsection \<open>Locks, sockets, semaphore: the environment and the events\<close>

datatype dir_type = DT_DIR | DT_UNKNOWN | DT_OTHER

record j9_env =
  j_open_ok :: "string \<Rightarrow> bool"
  j_flock_ok :: "string \<Rightarrow> bool"
  inet6_socket :: bool
  inet6_listens :: "int option"   \<comment> \<open>the port, if \<open>bind\<close>, \<open>listen\<close> and \<open>getsockname\<close> succeed\<close>
  inet4_socket :: bool
  inet4_listens :: "int option"
  clock :: ulong
  urandom :: "nat list option"
  attach_dir :: "(string \<times> dir_type) list option"
  semget_ok :: "int \<Rightarrow> bool"       \<comment> \<open>by the value to be posted\<close>
  accept_ok :: bool
  client_in :: "chunk list"
  client_wr :: "nat \<Rightarrow> string \<Rightarrow> int"
  alloc_ok :: "nat \<Rightarrow> bool"

datatype j9_event =
    FdOpen string
  | FdClose string
  | FLock string
  | FUnlock string
  | SemOp int
  | ReplyWritten string string
  | ReplyRemoved string

definition lock_path :: "string \<Rightarrow> string \<Rightarrow> string \<Rightarrow> string" where
  "lock_path tmp subdir filename =
     snprintf_buf MAX_PATH (tmp @ ''/.com_ibm_tools_attach/'' @ subdir @ ''/'' @ filename)"

text \<open>The descriptor (the path it is open on) or \<open>None\<close> for \<open>-1\<close>.\<close>

definition acquire_lock ::
  "j9_env \<Rightarrow> string \<Rightarrow> string \<Rightarrow> string \<Rightarrow> string option \<times> j9_event list" where
  "acquire_lock e tmp subdir filename =
     (let path = lock_path tmp subdir filename
      in if \<not> j_open_ok e path then (None, [])
         else if \<not> j_flock_ok e path then (None, [FdOpen path, FdClose path])
         else (Some path, [FdOpen path, FLock path]))"

definition release_lock :: "string \<Rightarrow> j9_event list" where
  "release_lock fd = [FUnlock fd, FdClose fd]"

definition sock_name :: string where
  "sock_name = ''socket''"

definition client_name :: string where
  "client_name = ''client''"

text \<open>The port, if the socket listens: IPv6 first; IPv4 only when no IPv6 socket can be made.\<close>

definition create_attach_socket :: "j9_env \<Rightarrow> int option \<times> j9_event list" where
  "create_attach_socket e =
     (if inet6_socket e then
        (case inet6_listens e of
           Some port \<Rightarrow> (Some port, [FdOpen sock_name])
         | None \<Rightarrow> (None, [FdOpen sock_name, FdClose sock_name]))
      else if inet4_socket e then
        (case inet4_listens e of
           Some port \<Rightarrow> (Some port, [FdOpen sock_name])
         | None \<Rightarrow> (None, [FdOpen sock_name, FdClose sock_name]))
      else (None, []))"

definition random_key_events :: "j9_env \<Rightarrow> j9_event list" where
  "random_key_events e = (if urandom e = None then [] else [FdOpen urandom_path, FdClose urandom_path])"

definition reply_path :: "string \<Rightarrow> int \<Rightarrow> string" where
  "reply_path tmp pid =
     snprintf_buf MAX_PATH (tmp @ ''/.com_ibm_tools_attach/'' @ show_int pid @ ''/replyInfo'')"

definition close_attach_socket :: "string \<Rightarrow> int \<Rightarrow> j9_event list" where
  "close_attach_socket tmp pid = [ReplyRemoved (reply_path tmp pid), FdClose sock_name]"

definition write_reply_info ::
  "j9_env \<Rightarrow> string \<Rightarrow> int \<Rightarrow> int \<Rightarrow> ulong \<Rightarrow> int \<times> j9_event list" where
  "write_reply_info e tmp pid port key =
     (let path = reply_path tmp pid
      in if \<not> j_open_ok e path then (- 1, [])
         else (0, [FdOpen path, ReplyWritten path (reply_text port key), FdClose path]))"

definition notify_semaphore :: "j9_env \<Rightarrow> int \<Rightarrow> nat \<Rightarrow> int \<times> j9_event list" where
  "notify_semaphore e v notif_count =
     (if \<not> semget_ok e v then (- 1, []) else (0, replicate notif_count (SemOp v)))"

definition MAX_NOTIF_FILES :: nat where
  "MAX_NOTIF_FILES = 256"

definition notif_entry :: "string \<Rightarrow> dir_type \<Rightarrow> bool" where
  "notif_entry d ty \<longleftrightarrow>
     (case d of [] \<Rightarrow> False | c # _ \<Rightarrow> 49 \<le> byte c \<and> byte c \<le> 57) \<and> (ty = DT_DIR \<or> ty = DT_UNKNOWN)"

text \<open>The loop over the directory; \<open>locks\<close> is the array \<open>notif_lock\<close> up to \<open>count\<close>.\<close>

fun lock_entries ::
  "j9_env \<Rightarrow> string \<Rightarrow> (string \<times> dir_type) list \<Rightarrow> string option list
   \<Rightarrow> string option list \<times> j9_event list" where
  "lock_entries e tmp [] locks = (locks, [])"
| "lock_entries e tmp ((d, ty) # ds) locks =
     (if length locks < MAX_NOTIF_FILES then
        (if notif_entry d ty then
           (case acquire_lock e tmp d ''attachNotificationSync'' of
              (fd, ev) \<Rightarrow>
                (case lock_entries e tmp ds (locks @ [fd]) of (locks', ev') \<Rightarrow> (locks', ev @ ev')))
         else lock_entries e tmp ds locks)
      else (locks, []))"

definition lock_notification_files ::
  "j9_env \<Rightarrow> string \<Rightarrow> string option list \<times> j9_event list" where
  "lock_notification_files e tmp =
     (case attach_dir e of
        None \<Rightarrow> ([], [])
      | Some ds \<Rightarrow>
          let path = snprintf_buf MAX_PATH (tmp @ ''/.com_ibm_tools_attach'')
          in case lock_entries e tmp ds [] of (locks, ev) \<Rightarrow> (locks, [FdOpen path] @ ev @ [FdClose path]))"

fun unlock_notification_files :: "string option list \<Rightarrow> j9_event list" where
  "unlock_notification_files [] = []"
| "unlock_notification_files (None # ls) = unlock_notification_files ls"
| "unlock_notification_files (Some fd # ls) = release_lock fd @ unlock_notification_files ls"

text \<open>The rest of the client's stream if the client is accepted.\<close>

definition accept_client :: "j9_env \<Rightarrow> ulong \<Rightarrow> chunk list option \<times> j9_event list" where
  "accept_client e key =
     (if \<not> accept_ok e then (None, [])
      else case recv_greeting [] (client_in e) of
             None \<Rightarrow> (None, [FdOpen client_name, FdClose client_name])
           | Some (buf, cs) \<Rightarrow>
               if take 34 buf \<noteq> take 34 (expected_greeting key)
               then (None, [FdOpen client_name, FdClose client_name])
               else (Some cs, [FdOpen client_name]))"

definition attach_info_path :: "string \<Rightarrow> int \<Rightarrow> string" where
  "attach_info_path tmp pid =
     snprintf_buf MAX_PATH (tmp @ ''/.com_ibm_tools_attach/'' @ show_int pid @ ''/attachInfo'')"

definition is_openj9_process :: "ps_env \<Rightarrow> string \<Rightarrow> int \<Rightarrow> bool" where
  "is_openj9_process e tmp pid \<longleftrightarrow> stat_ino e (attach_info_path tmp pid) \<noteq> None"

subsection \<open>The whole protocol\<close>

text \<open>What runs at the label \<open>error\<close>.\<close>

definition j9_cleanup ::
  "j9_env \<Rightarrow> string \<Rightarrow> int \<Rightarrow> bool \<Rightarrow> string option list \<Rightarrow> string \<Rightarrow> j9_event list" where
  "j9_cleanup e tmp nspid s_open locks attach_lock =
     (if s_open then close_attach_socket tmp nspid else [])
     @ (if 0 < length locks
        then unlock_notification_files locks @ snd (notify_semaphore e (- 1) (length locks))
        else [])
     @ release_lock attach_lock"

text \<open>
  The exchange on the accepted connection: the value returned, the bytes sent and what is
  printed, \<open>None\<close> if the agent reads a null \<open>argv[0]\<close> or past the data received.
\<close>

definition j9_exchange :: "j9_env \<Rightarrow> chunk list \<Rightarrow> string list \<Rightarrow> (int \<times> string \<times> string) option" where
  "j9_exchange e cs argv =
     (case translate_command 8192 argv of
        None \<Rightarrow> None
      | Some cmd \<Rightarrow>
          (case j9_write_command (client_wr e) 0 cmd of
             (rc, sent) \<Rightarrow>
               if rc \<noteq> 0 then Some (1, sent, [])
               else
                 (case j9_read_response (alloc_ok e) cs cmd of
                    None \<Rightarrow> None
                  | Some (result, out, cs') \<Rightarrow>
                      Some (result,
                            sent @ (if result \<noteq> 1 then fst (j9_detach (client_wr e) (length sent) cs') else []),
                            out))))"

definition jattach_openj9 ::
  "j9_env \<Rightarrow> string \<Rightarrow> int \<Rightarrow> string list \<Rightarrow> (int \<times> string \<times> string) option \<times> j9_event list" where
  "jattach_openj9 e tmp nspid argv =
     (case acquire_lock e tmp [] ''_attachlock'' of
        (None, ev0) \<Rightarrow> (Some (1, [], []), ev0)
      | (Some attach_lock, ev0) \<Rightarrow>
          (case create_attach_socket e of
             (None, ev1) \<Rightarrow>
               (Some (1, [], []), ev0 @ ev1 @ j9_cleanup e tmp nspid False [] attach_lock)
           | (Some port, ev1) \<Rightarrow>
               let key = random_key (clock e) (urandom e) in
               (case write_reply_info e tmp nspid port key of
                  (rc2, ev) \<Rightarrow>
                    let ev2 = random_key_events e @ ev in
                    if rc2 \<noteq> 0 then
                      (Some (1, [], []), ev0 @ ev1 @ ev2 @ j9_cleanup e tmp nspid True [] attach_lock)
                    else
                      (case lock_notification_files e tmp of
                         (locks, ev3) \<Rightarrow>
                           (case notify_semaphore e 1 (length locks) of
                              (rc4, ev4) \<Rightarrow>
                                let evs = ev0 @ ev1 @ ev2 @ ev3 @ ev4 in
                                if rc4 \<noteq> 0 then
                                  (Some (1, [], []), evs @ j9_cleanup e tmp nspid True locks attach_lock)
                                else
                                  (case accept_client e key of
                                     (None, ev5) \<Rightarrow>
                                       (Some (1, [], []),
                                        evs @ ev5 @ j9_cleanup e tmp nspid True locks attach_lock)
                                   | (Some cs, ev5) \<Rightarrow>
                                       (j9_exchange e cs argv,
                                        evs @ ev5 @ close_attach_socket tmp nspid
                                        @ unlock_notification_files locks
                                        @ snd (notify_semaphore e (- 1) (length locks))
                                        @ release_lock attach_lock @ [FdClose client_name])))))))"

subsection \<open>Lemmas: unescaping\<close>

lemma unescape_loop_char:
  assumes "c \<noteq> NUL" "c \<noteq> backslash"
  shows "unescape_loop (c # m) = map_option ((#) c) (unescape_loop m)"
proof (cases "NUL \<in> set m")
  case False
  with assms show ?thesis by (simp add: unescape_loop.simps [of "c # m"] unescape_loop.simps [of m])
next
  case True
  have c: "cstr (c # m) = c # cstr m" using assms by (simp add: cstr_def)
  show ?thesis
  proof (cases "strchr (cstr m) backslash")
    case None
    with assms True c show ?thesis
      by (simp add: unescape_loop.simps [of "c # m"] unescape_loop.simps [of m])
  next
    case (Some p)
    then have "length p \<le> length (cstr m)" by (rule strchr_length)
    then have k: "length (cstr (c # m)) - length p = Suc (length (cstr m) - length p)" using c by simp
    show ?thesis
      using assms True Some k c
      by (simp add: unescape_loop.simps [of "c # m"] unescape_loop.simps [of m] option.map_comp
          comp_def Let_def)
  qed
qed

lemma unescape_loop_escape:
  "unescape_loop (backslash # d # m) = map_option ((#) (unescape_char d)) (unescape_loop m)"
proof (cases "NUL \<in> set (d # m)")
  case False
  then show ?thesis by (simp add: unescape_loop.simps [of "backslash # d # m"] unescape_loop.simps [of m])
next
  case True
  have "cstr (backslash # d # m) = backslash # cstr (d # m)" by (simp add: cstr_def)
  then have "strchr (cstr (backslash # d # m)) backslash = Some (cstr (backslash # d # m))" by simp
  with True show ?thesis by (simp add: unescape_loop.simps [of "backslash # d # m"] Let_def)
qed

lemma unescape_loop_end: "unescape_loop (NUL # m) = Some []"
  by (simp add: unescape_loop.simps cstr_def)

subsection \<open>Lemmas: transfer loops\<close>

lemma j9_write_loop_result:
  "(j9_write_loop wr off rem = (0, rem)) \<or>
   (\<exists>out t. j9_write_loop wr off rem = (- 1, out) \<and> rem = out @ t \<and> t \<noteq> [])"
proof (induction wr off rem rule: j9_write_loop.induct)
  case (1 wr off rem)
  show ?case
  proof (cases "rem = [] \<or> wr off rem \<le> 0")
    case True
    then show ?thesis by (auto simp: j9_write_loop.simps [of wr off])
  next
    case False
    let ?b = "nat (wr off rem)"
    let ?rec = "j9_write_loop wr (off + ?b) (drop ?b rem)"
    have eq: "j9_write_loop wr off rem = (case ?rec of (rc, out) \<Rightarrow> (rc, take ?b rem @ out))"
      using False by (simp add: j9_write_loop.simps [of wr off] Let_def)
    have "?rec = (0, drop ?b rem) \<or> (\<exists>out t. ?rec = (- 1, out) \<and> drop ?b rem = out @ t \<and> t \<noteq> [])"
      using False by (intro "1.IH") auto
    then show ?thesis
    proof
      assume "?rec = (0, drop ?b rem)"
      with eq show ?thesis by simp
    next
      assume "\<exists>out t. ?rec = (- 1, out) \<and> drop ?b rem = out @ t \<and> t \<noteq> []"
      then obtain out t where o: "?rec = (- 1, out)" "drop ?b rem = out @ t" "t \<noteq> []" by blast
      then have "rem = (take ?b rem @ out) @ t" by (metis append.assoc append_take_drop_id)
      with eq o show ?thesis by auto
    qed
  qed
qed

lemma j9_write_loop_ok: "(\<And>n d. 0 < wr n d) \<Longrightarrow> fst (j9_write_loop wr off rem) = 0"
proof (induction wr off rem rule: j9_write_loop.induct)
  case (1 wr off rem)
  show ?case
  proof (cases "rem = []")
    case True
    then show ?thesis by (simp add: j9_write_loop.simps)
  next
    case False
    have pos: "0 < wr off rem" using "1.prems" .
    then have np: "\<not> wr off rem \<le> 0" by simp
    have "fst (j9_write_loop wr (off + nat (wr off rem)) (drop (nat (wr off rem)) rem)) = 0"
      using "1.IH" [OF False refl np "1.prems"] .
    with False pos show ?thesis
      by (simp add: j9_write_loop.simps [of wr off rem] Let_def case_prod_beta)
  qed
qed

lemma j9_read_step:
  assumes "sock_read (sz - length acc) cs = (int (length d), d, cs')" "d \<noteq> []"
  shows "j9_read_loop alloc sz acc cs =
     (if last d = NUL then Received (acc @ d) cs'
      else if sz \<le> length (acc @ d) then
        (if alloc (2 * sz) then j9_read_loop alloc (2 * sz) (acc @ d) cs' else OutOfMemory)
      else j9_read_loop alloc sz (acc @ d) cs')"
  using assms by (subst j9_read_loop.simps) (simp add: Let_def)

lemma j9_read_loop_whole:
  assumes "delivers cs (t @ [NUL])" "NUL \<notin> set t" "length acc < sz" "\<And>n. alloc n"
  shows "\<exists>cs'. j9_read_loop alloc sz acc cs = Received (acc @ t @ [NUL]) cs'"
  using assms
proof (induction alloc sz acc cs arbitrary: t rule: j9_read_loop.induct)
  case (1 alloc sz acc cs)
  obtain d cs' t' where d: "sock_read (sz - length acc) cs = (int (length d), d, cs')" "d \<noteq> []"
    "length d \<le> sz - length acc" "t @ [NUL] = d @ t'" "delivers cs' t'"
    using delivers_read [OF "1.prems"(1), of "sz - length acc"] "1.prems"(3) by auto
  show ?case
  proof (cases "t' = []")
    case True
    with d(4) have dt: "d = t @ [NUL]" by simp
    then have "last d = NUL" by simp
    with j9_read_step [OF d(1,2), of alloc] show ?thesis unfolding dt by auto
  next
    case False
    then obtain t'' x where "t' = t'' @ [x]" by (metis rev_exhaust)
    with d(4) have t'': "t' = t'' @ [NUL]" and t: "t = d @ t''" by auto
    have "last d \<in> set d" using d(2) by simp
    with "1.prems"(2) t have nl: "last d \<noteq> NUL" by (metis UnI1 set_append)
    have nt: "NUL \<notin> set t''" using "1.prems"(2) t by simp
    have pos: "\<not> int (length d) \<le> 0" using d(2) by simp
    have last: "last (acc @ d) \<noteq> NUL" using nl d(2) by simp
    have dl: "delivers cs' (t'' @ [NUL])" using d(5) unfolding t'' .
    have step: "\<exists>cs''. j9_read_loop alloc sz' (acc @ d) cs' = Received ((acc @ d) @ t'' @ [NUL]) cs''"
      if "sz' = (if sz \<le> length (acc @ d) then 2 * sz else sz)" for sz'
    proof (cases "sz \<le> length (acc @ d)")
      case True
      have "length (acc @ d) < 2 * sz" using d(3) "1.prems"(3) by simp
      with "1.IH"(1) [OF d(1) [symmetric] refl pos refl last True "1.prems"(4) dl nt _ "1.prems"(4)] True that
      show ?thesis by simp
    next
      case False
      then have "length (acc @ d) < sz" by simp
      with "1.IH"(2) [OF d(1) [symmetric] refl pos refl last False dl nt _ "1.prems"(4)] False that
      show ?thesis by simp
    qed
    have al: "alloc (2 * sz)" by (rule "1.prems"(4))
    show ?thesis
      using step [OF refl] nl al t by (simp add: j9_read_step [OF d(1,2), of alloc] split: if_splits)
  qed
qed

subsection \<open>Lemmas: resources\<close>

definition fds_balanced :: "j9_event list \<Rightarrow> bool" where
  "fds_balanced evs \<longleftrightarrow> (\<forall>p. count_list evs (FdOpen p) = count_list evs (FdClose p))"

definition locks_balanced :: "j9_event list \<Rightarrow> bool" where
  "locks_balanced evs \<longleftrightarrow> (\<forall>p. count_list evs (FLock p) = count_list evs (FUnlock p))"

fun reply_files :: "j9_event list \<Rightarrow> string list \<Rightarrow> string list" where
  "reply_files [] fs = fs"
| "reply_files (ReplyWritten p t # evs) fs = reply_files evs (p # fs)"
| "reply_files (ReplyRemoved p # evs) fs = reply_files evs (removeAll p fs)"
| "reply_files (_ # evs) fs = reply_files evs fs"

lemma reply_files_append [simp]: "reply_files (xs @ ys) fs = reply_files ys (reply_files xs fs)"
  by (induction xs fs rule: reply_files.induct) auto

lemma replicate_SemOp [simp]:
  "count_list (replicate n (SemOp v)) (SemOp u) = (if u = v then n else 0)"
  "count_list (replicate n (SemOp v)) (FdOpen p) = 0" "count_list (replicate n (SemOp v)) (FdClose p) = 0"
  "count_list (replicate n (SemOp v)) (FLock p) = 0" "count_list (replicate n (SemOp v)) (FUnlock p) = 0"
  "reply_files (replicate n (SemOp v)) fs = fs"
  by (induction n) auto

text \<open>What locking the notification files adds, and unlocking takes back.\<close>

lemma lock_entries_counts:
  "lock_entries e tmp ds locks = (locks', ev) \<Longrightarrow>
   count_list ev (FdOpen p) + count_list locks (Some p) = count_list ev (FdClose p) + count_list locks' (Some p) \<and>
   count_list ev (FLock p) + count_list locks (Some p) = count_list ev (FUnlock p) + count_list locks' (Some p) \<and>
   count_list ev (SemOp v) = 0 \<and> reply_files ev fs = fs"
proof (induction e tmp ds locks arbitrary: locks' ev rule: lock_entries.induct)
  case (1 e tmp locks)
  then show ?case by simp
next
  case (2 e tmp d ty ds locks)
  show ?case
  proof (cases "length locks < MAX_NOTIF_FILES \<and> notif_entry d ty")
    case False
    with 2 show ?thesis by (auto split: if_splits)
  next
    case True
    obtain fd ev1 where a: "acquire_lock e tmp d ''attachNotificationSync'' = (fd, ev1)" by fastforce
    obtain l2 ev2 where r: "lock_entries e tmp ds (locks @ [fd]) = (l2, ev2)" by fastforce
    from "2.IH"(1) [OF conjunct1 [OF True] conjunct2 [OF True] a [symmetric] r] "2.prems" True a r
    show ?thesis
      by (auto simp: acquire_lock_def Let_def split: if_splits)
  qed
qed

lemma lock_entries_length:
  "length locks \<le> MAX_NOTIF_FILES \<Longrightarrow> length (fst (lock_entries e tmp ds locks)) \<le> MAX_NOTIF_FILES"
  by (induction e tmp ds locks rule: lock_entries.induct) (auto split: prod.splits)

lemma lock_notification_counts:
  "lock_notification_files e tmp = (locks, ev) \<Longrightarrow>
   count_list ev (FdOpen p) = count_list ev (FdClose p) + count_list locks (Some p) \<and>
   count_list ev (FLock p) = count_list ev (FUnlock p) + count_list locks (Some p) \<and>
   count_list ev (SemOp v) = 0 \<and> reply_files ev fs = fs"
  using lock_entries_counts [of e tmp _ "[]" _ _ p v fs]
  by (auto simp: lock_notification_files_def Let_def split: option.splits prod.splits)

lemma unlock_counts [simp]:
  "count_list (unlock_notification_files ls) (FdClose p) = count_list ls (Some p)"
  "count_list (unlock_notification_files ls) (FUnlock p) = count_list ls (Some p)"
  "count_list (unlock_notification_files ls) (FdOpen p) = 0"
  "count_list (unlock_notification_files ls) (FLock p) = 0"
  "count_list (unlock_notification_files ls) (SemOp v) = 0"
  "reply_files (unlock_notification_files ls) fs = fs"
  by (induction ls rule: unlock_notification_files.induct) (auto simp: release_lock_def)

lemma acquire_lock_cases:
  "acquire_lock e tmp d f = (None, []) \<or>
   acquire_lock e tmp d f = (None, [FdOpen (lock_path tmp d f), FdClose (lock_path tmp d f)]) \<or>
   acquire_lock e tmp d f = (Some (lock_path tmp d f), [FdOpen (lock_path tmp d f), FLock (lock_path tmp d f)])"
  by (auto simp: acquire_lock_def Let_def)

lemma create_attach_socket_cases:
  "create_attach_socket e = (None, []) \<or>
   create_attach_socket e = (None, [FdOpen sock_name, FdClose sock_name]) \<or>
   (\<exists>port. create_attach_socket e = (Some port, [FdOpen sock_name]))"
  by (auto simp: create_attach_socket_def split: option.splits)

lemma accept_client_cases:
  "accept_client e key = (None, []) \<or>
   accept_client e key = (None, [FdOpen client_name, FdClose client_name]) \<or>
   (\<exists>cs. accept_client e key = (Some cs, [FdOpen client_name]))"
  by (auto simp: accept_client_def split: option.splits)

lemma count_list_Cons_add: "count_list (x # xs) y = (if x = y then 1 else 0) + count_list xs y"
  by simp

lemmas j9_balance_defs = fds_balanced_def locks_balanced_def j9_cleanup_def close_attach_socket_def
  release_lock_def write_reply_info_def notify_semaphore_def

lemma random_key_balanced [simp]:
  "count_list (random_key_events e) (FdOpen p) = count_list (random_key_events e) (FdClose p)"
  "count_list (random_key_events e) (FLock p) = 0" "count_list (random_key_events e) (FUnlock p) = 0"
  "count_list (random_key_events e) (SemOp v) = 0" "reply_files (random_key_events e) fs = fs"
  by (simp_all add: random_key_events_def)

lemma jattach_openj9_balanced:
  "fds_balanced (snd (jattach_openj9 e tmp nspid argv)) \<and>
   locks_balanced (snd (jattach_openj9 e tmp nspid argv)) \<and>
   reply_files (snd (jattach_openj9 e tmp nspid argv)) [] = []"
  and jattach_openj9_posts:
  "\<exists>n \<in> {0, length (fst (lock_notification_files e tmp))}.
     count_list (snd (jattach_openj9 e tmp nspid argv)) (SemOp 1) = (if semget_ok e 1 then n else 0) \<and>
     count_list (snd (jattach_openj9 e tmp nspid argv)) (SemOp (- 1)) = (if semget_ok e (- 1) then n else 0)"
proof -
  define key where key: "key = random_key (clock e) (urandom e)"
  obtain locks ev3 where l: "lock_notification_files e tmp = (locks, ev3)" by fastforce
  note c = lock_notification_counts [OF l]
  have fo: "\<And>p. count_list ev3 (FdOpen p) = count_list ev3 (FdClose p) + count_list locks (Some p)"
    and fl: "\<And>p. count_list ev3 (FLock p) = count_list ev3 (FUnlock p) + count_list locks (Some p)"
    and sn: "\<And>v. count_list ev3 (SemOp v) = 0" and rf: "\<And>fs. reply_files ev3 fs = fs"
    using c by auto
  note cases = acquire_lock_cases [of e tmp "[]" "''_attachlock''"] create_attach_socket_cases [of e]
    accept_client_cases [of e key]
  show "fds_balanced (snd (jattach_openj9 e tmp nspid argv)) \<and>
     locks_balanced (snd (jattach_openj9 e tmp nspid argv)) \<and>
     reply_files (snd (jattach_openj9 e tmp nspid argv)) [] = []"
    using cases
    by (elim disjE exE)
      (simp_all add: jattach_openj9_def l fo fl rf j9_balance_defs Let_def key [symmetric]
        count_list_Cons_add del: count_list.simps(2))
  show "\<exists>n \<in> {0, length (fst (lock_notification_files e tmp))}.
     count_list (snd (jattach_openj9 e tmp nspid argv)) (SemOp 1) = (if semget_ok e 1 then n else 0) \<and>
     count_list (snd (jattach_openj9 e tmp nspid argv)) (SemOp (- 1)) = (if semget_ok e (- 1) then n else 0)"
    using cases
    by (elim disjE exE) (simp_all add: jattach_openj9_def l sn j9_balance_defs Let_def key [symmetric])
qed

subsection \<open>Lemmas: the key\<close>

definition hex_digit_val :: "char \<Rightarrow> nat" where
  "hex_digit_val c = (if byte c < 58 then byte c - 48 else byte c - 87)"

definition hex_val :: "string \<Rightarrow> nat" where
  "hex_val s = foldl (\<lambda>a c. 16 * a + hex_digit_val c) 0 s"

lemma hex_digit_val_hex_digit: "d < 16 \<Longrightarrow> hex_digit_val (hex_digit d) = d"
  by (simp add: hex_digit_val_def hex_digit_def of_char_of)

lemma hex_val_hex_digits: "hex_val (hex_digits k n) = n mod 16 ^ k"
proof (induction k arbitrary: n)
  case 0
  then show ?case by (simp add: hex_val_def)
next
  case (Suc k)
  have "hex_val (hex_digits (Suc k) n) = 16 * hex_val (hex_digits k (n div 16)) + n mod 16"
    by (simp add: hex_val_def hex_digit_val_hex_digit)
  with Suc show ?case by (simp add: mod_mult2_eq)
qed

lemma length_hex_digits [simp]: "length (hex_digits k n) = k"
  by (induction k arbitrary: n) auto

lemma hex_val_hex16: "hex_val (hex16 key) = unat key"
proof -
  have "unat key < 16 ^ 16" using unsigned_less [of key] by simp
  then show ?thesis by (simp add: hex16_def hex_val_hex_digits)
qed

lemma length_hex16 [simp]: "length (hex16 key) = 16"
  by (simp add: hex16_def)

lemma expected_greeting_eq: "expected_greeting key = ''ATTACH_CONNECTED '' @ hex16 key @ '' ''"
  by (simp add: expected_greeting_def snprintf_buf_def)

text \<open>Sixteen lower case digits are the key when their value is.\<close>

definition hex_text :: "string \<Rightarrow> bool" where
  "hex_text s \<longleftrightarrow> list_all (\<lambda>c. c \<in> set ''0123456789abcdef'') s"

lemma hex_digit_of_val: "c \<in> set ''0123456789abcdef'' \<Longrightarrow> hex_digit_val c < 16 \<and> hex_digit (hex_digit_val c) = c"
proof -
  have "list_all (\<lambda>c. hex_digit_val c < 16 \<and> hex_digit (hex_digit_val c) = c) ''0123456789abcdef''" by code_simp
  then show "c \<in> set ''0123456789abcdef'' \<Longrightarrow> hex_digit_val c < 16 \<and> hex_digit (hex_digit_val c) = c"
    unfolding list_all_iff by blast
qed

lemma hex_text_digits: "hex_text s \<Longrightarrow> hex_digits (length s) (hex_val s) = s"
proof (induction s rule: rev_induct)
  case (snoc c s)
  have c: "hex_digit_val c < 16 \<and> hex_digit (hex_digit_val c) = c" using snoc.prems by (intro hex_digit_of_val) (simp add: hex_text_def)
  have "hex_val (s @ [c]) = 16 * hex_val s + hex_digit_val c" by (simp add: hex_val_def)
  then show ?case using snoc c by (simp add: hex_text_def)
qed simp

lemma hex_text_hex16: "hex_text (hex16 key)"
proof -
  have "hex_text (hex_digits k n)" for k n
  proof (induction k arbitrary: n)
    case (Suc k)
    have "list_all (\<lambda>d. hex_digit d \<in> set ''0123456789abcdef'') [0 ..< 16]" by code_simp
    then have "hex_digit (n mod 16) \<in> set ''0123456789abcdef''" by (simp only: list_all_iff set_upt) simp
    with Suc show ?case by (simp add: hex_text_def)
  qed (simp add: hex_text_def)
  then show ?thesis by (simp add: hex16_def)
qed

lemma hex16_unique: "hex_text h \<and> length h = 16 \<and> hex_val h = unat key \<longleftrightarrow> h = hex16 key"
  using hex_text_digits [of h] by (auto simp: hex16_def [of key] hex_text_hex16 [unfolded hex16_def] hex_val_hex16 [unfolded hex16_def])

lemma length_expected_greeting: "length (expected_greeting key) = 34"
  by (simp add: expected_greeting_eq)

lemma recv_greeting_any:
  "delivers cs (g @ r) \<Longrightarrow> length (acc @ g) = 35 \<Longrightarrow>
   \<exists>cs'. recv_greeting acc cs = Some (acc @ g, cs') \<and> delivers cs' r"
proof (induction acc cs arbitrary: g rule: recv_greeting.induct)
  case (1 acc cs)
  show ?case
  proof (cases "g = []")
    case True
    with "1.prems" show ?thesis by (intro exI [of _ cs]) (auto simp: recv_greeting.simps [of acc])
  next
    case False
    with "1.prems" have lt: "length acc < 35" by (cases g) auto
    obtain d cs' t' where d: "sock_read (35 - length acc) cs = (int (length d), d, cs')" "d \<noteq> []"
      "length d \<le> 35 - length acc" "g @ r = d @ t'" "delivers cs' t'"
      using delivers_read [OF "1.prems"(1), of "35 - length acc"] lt False by auto
    define g' where "g' = drop (length d) g"
    have len: "length d \<le> length g" using d(3) "1.prems"(2) by simp
    then have g: "g = d @ g'" and t': "t' = g' @ r"
      using d(4) unfolding g'_def by (auto simp: append_eq_append_conv_if split: if_splits)
        (metis append_take_drop_id)+
    have "\<exists>cs''. recv_greeting (acc @ d) cs' = Some ((acc @ d) @ g', cs'') \<and> delivers cs'' r"
      using d(2,5) t' g "1.prems"(2) by (intro "1.IH" [OF lt d(1) [symmetric] refl]) auto
    with lt d g show ?thesis by (simp add: recv_greeting.simps [of acc cs])
  qed
qed

lemma sock_read_data:
  "sock_read n cs = (b, d, cs') \<Longrightarrow> 0 < n \<Longrightarrow>
     (if b \<le> 0 then stream_data cs = [] else d \<noteq> [] \<and> length d \<le> n \<and> stream_data cs = d @ stream_data cs')"
  by (cases "(n, cs)" rule: sock_read.cases) (auto split: if_splits)

lemma recv_greeting_data:
  "length acc \<le> 35 \<Longrightarrow>
   (case recv_greeting acc cs of
      None \<Rightarrow> length (acc @ stream_data cs) < 35
    | Some (buf, cs') \<Rightarrow> length buf = 35 \<and> acc @ stream_data cs = buf @ stream_data cs')"
proof (induction acc cs rule: recv_greeting.induct)
  case (1 acc cs)
  show ?case
  proof (cases "length acc < 35")
    case False
    then show ?thesis using "1.prems" by (simp add: recv_greeting.simps)
  next
    case True
    obtain b d cs' where r: "sock_read (35 - length acc) cs = (b, d, cs')" by (metis prod_cases3)
    note d = sock_read_data [OF r]
    show ?thesis
    proof (cases "b \<le> 0")
      case le: True
      then show ?thesis using True r d by (simp add: recv_greeting.simps [of acc cs])
    next
      case False
      have step: "recv_greeting acc cs = recv_greeting (acc @ d) cs'"
        using True False r by (simp add: recv_greeting.simps [of acc cs])
      have "length d \<le> 35 - length acc" using d True False by simp
      then have "length (acc @ d) \<le> 35" using True unfolding length_append by arith
      from "1.IH" [OF True r [symmetric] refl False this] show ?thesis
        using d True False unfolding step by (simp split: option.splits prod.splits)
    qed
  qed
qed

subsection \<open>Properties\<close>

text \<open>
  An answer whose value ends in a lone backslash makes the printing loop jump over the
  terminating NUL and read past the end of the received data.
\<close>

theorem trailing_backslash_overread:
  "j9_read_response (\<lambda>_. True)
     [Data (''openj9_diagnostics.string_result=a'' @ [backslash, NUL])]
     ''ATTACH_DIAGNOSTICS:Thread.print,'' = None"
proof -
  let ?b = "''openj9_diagnostics.string_result=a'' @ [backslash, NUL]"
  have read: "j9_read_loop (\<lambda>_. True) 8192 [] [Data ?b] = Received ?b []"
    by (simp add: j9_read_loop.simps)
  have "unescape_loop (''a'' @ [backslash, NUL]) = None"
    by (simp add: unescape_loop_char unescape_loop_escape unescape_loop.simps [of "[]"])
  then have "print_unescaped (''a'' @ [backslash, NUL]) = None"
    by (simp add: print_unescaped_def cut_line_def cstr_def)
  then have "j9_answer ''ATTACH_DIAGNOSTICS:Thread.print,'' ?b = None"
    by (simp add: j9_answer_def strncmp_eq_def cstr_def)
  with read show ?thesis by (simp add: j9_read_response_def)
qed

text \<open>
  Unicode escapes, which Java writes for every character outside ISO 8859-1, are not
  decoded: only the backslash is dropped.
\<close>

theorem unicode_escape_not_decoded:
  "print_unescaped ([backslash] @ ''u4e2d'' @ [newline, NUL]) = Some (''u4e2d'' @ [newline])"
proof -
  have "unescape_loop ([backslash] @ ''u4e2d'' @ [NUL, NUL]) = Some ''u4e2d''"
    by (simp add: unescape_loop_char unescape_loop_escape unescape_loop_end unescape_char_def)
  then show ?thesis
    by (simp add: print_unescaped_def cut_line_def cstr_def)
qed

text \<open>
  Whatever \<open>write\<close> accepts at a time, \<open>write_command\<close> returns 0 exactly when the whole
  command and its NUL have been sent, in order and once; otherwise it returns \<open>-1\<close> after a
  proper prefix. (Compare the HotSpot version.)
\<close>

theorem j9_write_command_complete:
  "j9_write_command wr off cmd = (0, cmd @ [NUL]) \<or>
   (\<exists>out t. j9_write_command wr off cmd = (- 1, out) \<and> cmd @ [NUL] = out @ t \<and> t \<noteq> [])"
  unfolding j9_write_command_def by (rule j9_write_loop_result)

text \<open>
  The answer to a plain command is received whole and printed however long it is and
  however it is cut into packets, the buffer doubling as needed, provided memory suffices.
\<close>

theorem j9_plain_answer_any_fragmentation:
  assumes "delivers cs (t @ [NUL])" "NUL \<notin> set t"
    and "\<not> strncmp_eq cmd ''ATTACH_LOADAGENT'' 16" "\<not> strncmp_eq cmd ''ATTACH_DIAGNOSTICS:'' 19"
  shows "\<exists>cs'. j9_read_response (\<lambda>_. True) cs cmd = Some (0, t @ [newline], cs')"
proof -
  obtain cs' where "j9_read_loop (\<lambda>_. True) 8192 [] cs = Received (t @ [NUL]) cs'"
    using j9_read_loop_whole [OF assms(1,2), of "[]" 8192 "\<lambda>_. True"] by auto
  with assms(3,4) show ?thesis by (simp add: j9_read_response_def j9_answer_def Let_def)
qed

theorem j9_plain_answer_any_fragmentation_witness:
  "\<exists>cs'. j9_read_response (\<lambda>_. True) [Data ''ab'', Data (''c'' @ [NUL])] ''ATTACH_GETSYSTEMPROPERTIES''
         = Some (0, ''abc'' @ [newline], cs')"
proof (rule j9_plain_answer_any_fragmentation)
  show "delivers [Data ''ab'', Data (''c'' @ [NUL])] (''abc'' @ [NUL])"
    unfolding delivers_def by (intro exI [of _ "[''ab'', ''c'' @ [NUL]]"]) simp
qed (simp_all add: strncmp_eq_def)

text \<open>
  C34. A client is let in exactly when the first 35 bytes it sends begin with \<open>ATTACH_CONNECTED\<close>, a blank, the key
  in sixteen lower case hexadecimal digits and a blank, however they are cut into packets; the bytes after those 35 are
  left for the answer, and the connection of any other client is closed.
\<close>

theorem j9_client_knows_key:
  "case accept_client e key of
     (Some cs, evs) \<Rightarrow>
       (\<exists>h c. stream_data (client_in e) = ''ATTACH_CONNECTED '' @ h @ '' '' @ c # stream_data cs
          \<and> hex_text h \<and> length h = 16 \<and> hex_val h = unat key) \<and> evs = [FdOpen client_name]
   | (None, evs) \<Rightarrow>
       \<not> (accept_ok e \<and> (\<exists>h c rest. stream_data (client_in e) = ''ATTACH_CONNECTED '' @ h @ '' '' @ c # rest
          \<and> hex_text h \<and> length h = 16 \<and> hex_val h = unat key))
       \<and> fds_balanced evs"
proof -
  note r = recv_greeting_data [of "[]" "client_in e", simplified]
  have greeting: "(\<exists>h c. t = ''ATTACH_CONNECTED '' @ h @ '' '' @ c # u \<and> hex_text h \<and> length h = 16 \<and> hex_val h = unat key)
      \<longleftrightarrow> (\<exists>c. t = expected_greeting key @ c # u)" for t u
    using hex16_unique [of _ key] unfolding expected_greeting_eq by auto
  have whole: "buf = expected_greeting key @ [last buf]" if "length buf = 35" "take 34 buf = take 34 (expected_greeting key)" for buf
  proof -
    have "buf = butlast buf @ [last buf]" using that(1) by (cases buf rule: rev_cases) auto
    moreover have "butlast buf = take 34 buf" using that(1) by (simp add: butlast_conv_take)
    ultimately show ?thesis using that(2) by (simp add: length_expected_greeting)
  qed
  show ?thesis
  proof (cases "accept_ok e")
    case False
    then show ?thesis by (simp add: accept_client_def fds_balanced_def)
  next
    case ok: True
    show ?thesis
    proof (cases "recv_greeting [] (client_in e)")
      case None
      then show ?thesis using r ok by (auto simp: accept_client_def fds_balanced_def)
    next
      case (Some q)
      obtain buf cs where q: "q = (buf, cs)" by (cases q)
      then have b: "length buf = 35" "stream_data (client_in e) = buf @ stream_data cs" using r Some by simp_all
      show ?thesis
      proof (cases "take 34 buf = take 34 (expected_greeting key)")
        case True
        then have "accept_client e key = (Some cs, [FdOpen client_name])" using ok Some q by (simp add: accept_client_def)
        moreover have "stream_data (client_in e) = expected_greeting key @ last buf # stream_data cs"
          using whole [OF b(1) True] b(2) by (metis append.assoc append_Cons append_Nil)
        ultimately show ?thesis using greeting [of "stream_data (client_in e)" "stream_data cs"] by auto
      next
        case False
        then have a: "accept_client e key = (None, [FdOpen client_name, FdClose client_name])" using ok Some q by (simp add: accept_client_def)
        have "take 34 (stream_data (client_in e)) = take 34 buf" using b by simp
        then have "stream_data (client_in e) \<noteq> expected_greeting key @ c # u" for c u
          using False by (auto simp: length_expected_greeting)
        then have "\<not> (\<exists>h c. stream_data (client_in e) = ''ATTACH_CONNECTED '' @ h @ '' '' @ c # u
            \<and> hex_text h \<and> length h = 16 \<and> hex_val h = unat key)" for u
          unfolding greeting by blast
        then show ?thesis unfolding a case_prod_conv option.case by (auto simp: fds_balanced_def)
      qed
    qed
  qed
qed

text \<open>
  A client that sends the greeting with the right key and one more byte is let in,
  however the greeting is cut into packets, and the bytes after it are left for the answer.
\<close>

theorem j9_right_key_accepted:
  assumes "accept_ok e" and "delivers (client_in e) (expected_greeting key @ [c] @ r)"
  shows "\<exists>cs. accept_client e key = (Some cs, [FdOpen client_name]) \<and> delivers cs r"
proof -
  have "length ([] @ (expected_greeting key @ [c])) = 35" by (simp add: length_expected_greeting)
  with assms(2) recv_greeting_any [of "client_in e" "expected_greeting key @ [c]" r "[]"]
  obtain cs where "recv_greeting [] (client_in e) = Some (expected_greeting key @ [c], cs)"
    and "delivers cs r" by auto
  with assms(1) show ?thesis by (simp add: accept_client_def length_expected_greeting)
qed


text \<open>
  The array of notification locks never overflows: at most \<open>MAX_NOTIF_FILES\<close> entries are
  stored, however many virtual machines there are.
\<close>

theorem notif_locks_fit:
  "length (fst (lock_notification_files e tmp)) \<le> MAX_NOTIF_FILES"
  by (auto simp: lock_notification_files_def lock_entries_length Let_def case_prod_beta split: option.split)

text \<open>
  The reply file tells the JVM the key and the port: its first 16 characters are the key
  in hexadecimal and the number on the second line is the port.
\<close>

theorem reply_text_roundtrip:
  assumes "0 \<le> port" "port < 65536"
  shows "hex_val (take 16 (reply_text port key)) = unat key \<and> atoi (drop 17 (reply_text port key)) = port"
proof -
  have "atoi (show_int port @ [newline]) = port"
    using assms by (intro atoi_show_int) (auto simp: isdigit_def)
  then show ?thesis by (simp add: reply_text_def hex_val_hex16)
qed

theorem reply_text_roundtrip_witness:
  "hex_val (take 16 (reply_text 40123 0xDEADBEEF)) = unat (0xDEADBEEF :: ulong) \<and>
   atoi (drop 17 (reply_text 40123 0xDEADBEEF)) = 40123"
  by (rule reply_text_roundtrip) simp_all

subsection \<open>Witnesses on a concrete environment\<close>

definition sample_env :: "j9_env" where
  "sample_env =
     \<lparr>j_open_ok = (\<lambda>_. True), j_flock_ok = (\<lambda>_. True), inet6_socket = True,
      inet6_listens = Some 40123, inet4_socket = True, inet4_listens = None, clock = 1,
      urandom = None, attach_dir = Some [(''7'', DT_DIR), (''_notifier'', DT_OTHER)],
      semget_ok = (\<lambda>_. True), accept_ok = True,
      client_in = [Data (expected_greeting (random_key 1 None)), Data [NUL]],
      client_wr = (\<lambda>_ d. int (length d)), alloc_ok = (\<lambda>_. True)\<rparr>"

lemma sample_delivers:
  "delivers (client_in sample_env) (expected_greeting (random_key 1 None) @ [NUL] @ [])"
proof -
  have "expected_greeting (random_key 1 None) \<noteq> []" by (simp add: expected_greeting_eq)
  then show ?thesis unfolding delivers_def sample_env_def
    by (intro exI [of _ "[expected_greeting (random_key 1 None), [NUL]]"]) simp
qed

theorem j9_right_key_accepted_witness:
  "\<exists>cs. accept_client sample_env (random_key 1 None) = (Some cs, [FdOpen client_name]) \<and> delivers cs []"
  using sample_delivers by (intro j9_right_key_accepted [where c = NUL]) (simp_all add: sample_env_def)

lemma sample_accepts: "accept_client sample_env (random_key 1 None) = (Some [], [FdOpen client_name])"
  using recv_greeting_any [of "client_in sample_env" "expected_greeting (random_key 1 None) @ [NUL]" "[]" "[]"]
    sample_delivers
  by (auto simp: length_expected_greeting accept_client_def sample_env_def delivers_empty)


end
