(* ===== verification/Jattach.thy ===== *)
theory Jattach
  imports HotSpot OpenJ9
begin

text \<open>
  \<^verbatim>\<open>ycattach/posix/jattach.c\<close> and \<^verbatim>\<open>env.c\<close>: the two entry points the agent
  calls. \<open>jattach1\<close> looks the target up, enters its namespaces and takes on its credentials;
  \<open>jattach2\<close> then sends the command with the protocol of the target's virtual machine.

  The C statics \<open>nspid\<close> and \<open>code\<close>, the global \<open>tmp_path\<close> and the parts of the
  process's state the two change (its credentials, the disposition of \<open>SIGPIPE\<close>, and through
  \<open>ps_env\<close> its namespaces) are one record. Whether the kernel grants a change of credentials
  is a function of the current effective uid and the id asked for.
\<close>

record jattach_state =
  js_nspid :: int
  js_code :: int
  js_euid :: uid_t
  js_egid :: uid_t
  js_tmp_path :: string
  js_sigpipe_ignored :: bool
  js_sys :: ps_env

record cred_env =
  setegid_ok :: "uid_t \<Rightarrow> uid_t \<Rightarrow> bool"
  seteuid_ok :: "uid_t \<Rightarrow> uid_t \<Rightarrow> bool"

definition getenv_int :: "(string \<Rightarrow> string option) \<Rightarrow> string \<Rightarrow> int" where
  "getenv_int env name =
     (case env name of
        None \<Rightarrow> - 1
      | Some v \<Rightarrow> if cstr v = [] then - 1 else cast_int (fst (strtol v)))"

text \<open>The namespaces entered, in order; what the last call returned.\<close>

definition enter_all :: "ps_env \<Rightarrow> int \<Rightarrow> int \<times> ps_env" where
  "enter_all e pid =
     (let e1 = snd (enter_ns e pid ''net''); e2 = snd (enter_ns e1 pid ''ipc'')
      in enter_ns e2 pid ''mnt'')"

definition change_credentials ::
  "cred_env \<Rightarrow> uid_t \<Rightarrow> uid_t \<Rightarrow> uid_t \<Rightarrow> uid_t \<Rightarrow> bool \<times> uid_t \<times> uid_t" where
  "change_credentials ce my_uid my_gid target_uid target_gid =
     (if my_gid \<noteq> target_gid \<and> \<not> setegid_ok ce my_uid target_gid then (False, my_uid, my_gid)
      else if my_uid \<noteq> target_uid \<and> \<not> seteuid_ok ce my_uid target_uid then (False, my_uid, target_gid)
      else (True, target_uid, target_gid))"

definition jattach1 :: "cred_env \<Rightarrow> int \<Rightarrow> jattach_state \<Rightarrow> jattach_state option" where
  "jattach1 ce pid st =
     (let my_uid = js_euid st; my_gid = js_egid st
      in case get_process_info (js_sys st) pid my_uid my_gid (js_nspid st) of
           None \<Rightarrow> None
         | Some (rc, target_uid, target_gid, nspid) \<Rightarrow>
             if rc < 0 then Some (st\<lparr>js_nspid := nspid, js_code := 1\<rparr>)
             else
               (case enter_all (js_sys st) pid of
                  (mnt_changed, e) \<Rightarrow>
                    (case change_credentials ce my_uid my_gid target_uid target_gid of
                       (ok, uid, gid) \<Rightarrow>
                         let st' = st\<lparr>js_nspid := nspid, js_sys := e, js_euid := uid, js_egid := gid\<rparr>
                         in if \<not> ok then Some (st'\<lparr>js_code := 1\<rparr>)
                            else Some (st'\<lparr>js_tmp_path := get_tmp_path e (if 0 < mnt_changed then nspid else pid),
                                           js_sigpipe_ignored := True, js_code := 0\<rparr>))))"

datatype jattach_run =
    NotAttached
  | RanOpenJ9 "(int \<times> string \<times> string) option" "j9_event list"
  | RanHotSpot int "hs_event list" string string

definition jattach2 :: "jattach_state \<Rightarrow> hs_env \<Rightarrow> j9_env \<Rightarrow> int \<Rightarrow> string list \<Rightarrow> int option \<times> jattach_run" where
  "jattach2 st he je pid argv =
     (if js_code st \<noteq> 0 then (Some (js_code st), NotAttached)
      else if is_openj9_process (js_sys st) (js_tmp_path st) (js_nspid st) then
        (case jattach_openj9 je (js_tmp_path st) (js_nspid st) argv of
           (r, evs) \<Rightarrow> (map_option fst r, RanOpenJ9 r evs))
      else
        (case jattach_hotspot he (js_tmp_path st) pid (js_nspid st) argv of
           (r, evs, sent, out) \<Rightarrow> (Some r, RanHotSpot r evs sent out)))"

subsection \<open>Lemmas\<close>

lemma get_process_info_found:
  "get_process_info e pid u g n = Some (rc, u', g', n') \<Longrightarrow>
   rc < 0 \<and> u' = u \<and> g' = g \<and> n' = n \<or> rc = 0"
  by (auto simp: get_process_info_def split: option.splits)

lemma change_credentials_ok:
  "change_credentials ce mu mg tu tg = (ok, u, g) \<Longrightarrow> ok \<Longrightarrow> u = tu \<and> g = tg"
  by (auto simp: change_credentials_def split: if_splits)

lemma get_tmp_path_length: "length (get_tmp_path e pid) < tmp_path_size"
  by (auto simp: get_tmp_path_def get_tmp_path_r_def tmp_path_size_def MAX_PATH_def
      snprintf_buf_def Let_def split: option.splits)

text \<open>What the kernel does: an effective uid of 0 may take any id, any process keeps its own.\<close>

definition linux_cred_env :: "uid_t \<Rightarrow> uid_t \<Rightarrow> cred_env" where
  "linux_cred_env ruid rgid =
     \<lparr>setegid_ok = (\<lambda>euid gid. euid = 0 \<or> gid = rgid),
      seteuid_ok = (\<lambda>euid uid. euid = 0 \<or> uid = ruid)\<rparr>"

lemma root_changes_both: "change_credentials (linux_cred_env r1 r2) 0 mg tu tg = (True, tu, tg)"
  by (auto simp: change_credentials_def linux_cred_env_def)

subsection \<open>Properties\<close>

text \<open>
  C33. After \<open>jattach1\<close> has succeeded (\<open>code\<close> is 0) the agent runs with the effective uid
  and gid found for the target, ignores \<open>SIGPIPE\<close>, and \<open>tmp_path\<close> holds a string that
  fits its array; when it has not succeeded \<open>code\<close> is 1, \<open>tmp_path\<close> is untouched, and
  \<open>jattach2\<close> only returns 1.
\<close>

theorem jattach1_outcome:
  assumes "jattach1 ce pid st = Some st'"
  shows "js_code st' = 0 \<and> js_sigpipe_ignored st' \<and> length (js_tmp_path st') < tmp_path_size \<and>
      get_process_info (js_sys st) pid (js_euid st) (js_egid st) (js_nspid st)
        = Some (0, js_euid st', js_egid st', js_nspid st')
    \<or> js_code st' = 1 \<and> js_tmp_path st' = js_tmp_path st \<and>
      jattach2 st' he je pid argv = (Some 1, NotAttached)"
proof -
  obtain rc tu tg n where g:
    "get_process_info (js_sys st) pid (js_euid st) (js_egid st) (js_nspid st) = Some (rc, tu, tg, n)"
    using assms by (cases "get_process_info (js_sys st) pid (js_euid st) (js_egid st) (js_nspid st)")
      (auto simp: jattach1_def)
  obtain mc e where e: "enter_all (js_sys st) pid = (mc, e)" by fastforce
  obtain ok u v where c: "change_credentials ce (js_euid st) (js_egid st) tu tg = (ok, u, v)"
    by (cases "change_credentials ce (js_euid st) (js_egid st) tu tg") auto
  show ?thesis
  proof (cases "rc < 0 \<or> \<not> ok")
    case True
    with assms g e c show ?thesis
      by (auto simp: jattach1_def jattach2_def Let_def split: if_splits)
  next
    case False
    with get_process_info_found [OF g] have "rc = 0" by simp
    with False assms g e c change_credentials_ok [OF c] show ?thesis
      by (auto simp: jattach1_def Let_def get_tmp_path_length)
  qed
qed

text \<open>
  Run as root, with the kernel's rule for changing credentials, \<open>jattach1\<close> never fails
  on a process it finds: the gid is set before the uid, while the privilege is still there.
\<close>

theorem jattach1_root_never_fails:
  assumes "js_euid st = 0"
    and "get_process_info (js_sys st) pid 0 (js_egid st) (js_nspid st) = Some (0, u, g, n)"
  shows "\<exists>st'. jattach1 (linux_cred_env ruid rgid) pid st = Some st' \<and> js_code st' = 0 \<and>
               js_euid st' = u \<and> js_egid st' = g \<and> js_nspid st' = n"
  using assms by (cases "enter_all (js_sys st) pid") (simp add: jattach1_def root_changes_both)

subsection \<open>Witnesses\<close>

definition sample_sys :: ps_env where
  "sample_sys =
     \<lparr>getenv_JATTACH_PATH = None,
      file_lines = (\<lambda>_. Some [ids_line ''Uid:'' 0 1000 [], ids_line ''Gid:'' 0 1001 [], nstgid_line [] 7]),
      stat_ino = (\<lambda>_. None), dir_names = (\<lambda>_. None), open_ok = (\<lambda>_. True),
      setns_ok = (\<lambda>_. True)\<rparr>"

definition sample_state :: jattach_state where
  "sample_state = \<lparr>js_nspid = 0, js_code = 0, js_euid = 0, js_egid = 0, js_tmp_path = [],
     js_sigpipe_ignored = False, js_sys = sample_sys\<rparr>"

lemma sample_info: "get_process_info sample_sys 42 0 0 0 = Some (0, 1000, 1001, 7)"
  by (simp add: get_process_info_def sample_sys_def status_simps)

theorem jattach1_root_never_fails_witness:
  "\<exists>st'. jattach1 (linux_cred_env 0 0) 42 sample_state = Some st' \<and> js_code st' = 0 \<and>
         js_euid st' = 1000 \<and> js_egid st' = 1001 \<and> js_nspid st' = 7"
  by (rule jattach1_root_never_fails) (simp_all add: sample_state_def sample_info)

definition sample_attached :: jattach_state where
  "sample_attached = the (jattach1 (linux_cred_env 0 0) 42 sample_state)"

definition sample_hs :: hs_env where
  "sample_hs =
     \<lparr>file_at = (\<lambda>_ _. Some IsSocket), creat_ok = (\<lambda>_. True), close_ok = True,
      owner_of = (\<lambda>_. None), hs_euid = 0, socket_ok = True, connect_ok = (\<lambda>_. True),
      write_ret = (\<lambda>_ d. int (length d)), incoming = [], stale = []\<rparr>"

theorem jattach1_outcome_witness:
  "js_code sample_attached = 0 \<and> js_sigpipe_ignored sample_attached \<and>
      length (js_tmp_path sample_attached) < tmp_path_size \<and>
      get_process_info (js_sys sample_state) 42 (js_euid sample_state) (js_egid sample_state) (js_nspid sample_state)
        = Some (0, js_euid sample_attached, js_egid sample_attached, js_nspid sample_attached)
    \<or> js_code sample_attached = 1 \<and> js_tmp_path sample_attached = js_tmp_path sample_state \<and>
      jattach2 sample_attached sample_hs sample_env 42 [] = (Some 1, NotAttached)"
proof (rule jattach1_outcome)
  show "jattach1 (linux_cred_env 0 0) 42 sample_state = Some sample_attached"
    by (simp add: sample_attached_def sample_state_def jattach1_def sample_info root_changes_both Let_def
        split: prod.splits)
qed

end
