(* ===== verification/WinAttach.thy ===== *)
theory WinAttach
  imports Transport
begin

text \<open>
  \<^verbatim>\<open>ycattach/windows/jattach.c\<close>: the attach client for Windows. It injects a thread
  into the virtual machine's process that calls \<open>JVM_EnqueueOperation\<close>, and mirrors the
  answer the machine writes to a named pipe.

  The answers of Windows are the record \<open>win_env\<close>; the handles, the memory in the target
  and the text printed are a list of events. A \<open>strcpy\<close> past the end of its array is
  \<open>None\<close>.
\<close>

datatype open_result = ProcessHandle | AccessDenied | OtherFailure

datatype win_event =
    PipeCreated string
  | PipeClosed
  | ProcOpened
  | ProcClosed
  | ThreadOpened
  | ThreadClosed
  | CodeAllocated
  | CodeFreed
  | DataAllocated
  | DataFreed
  | TokenOpened
  | TokenClosed
  | Printed string

definition WIN_MAX_PATH :: nat where
  "WIN_MAX_PATH = 260"

record call_data =
  strJvm :: string       \<comment> \<open>32 bytes\<close>
  strEnqueue :: string   \<comment> \<open>32 bytes\<close>
  pipeName :: string
  args :: "string list"  \<comment> \<open>4 strings\<close>

record win_env =
  open_process :: "bool \<Rightarrow> open_result"   \<comment> \<open>with the debug privilege?\<close>
  thread_token :: "bool \<Rightarrow> bool"          \<comment> \<open>after \<open>ImpersonateSelf\<close>?\<close>
  impersonate_ok :: bool
  lookup_privilege_ok :: bool
  adjust_ok :: bool
  target_wow64 :: "bool option"        \<comment> \<open>\<open>None\<close>: \<open>IsWow64Process\<close> fails\<close>
  code_alloc_ok :: bool
  data_alloc_ok :: bool
  thread_ok :: bool
  module_loaded :: "string \<Rightarrow> bool"
  proc_address :: "string \<Rightarrow> (string list \<Rightarrow> string \<Rightarrow> 32 word) option"
  pipe_handle :: int
  tick_count :: "32 word"
  last_error :: nat
  pipe_in :: "chunk list"

subsection \<open>Inside the target process\<close>

definition GET_PROC_NAME :: string where
  "GET_PROC_NAME = ''_JVM_EnqueueOperation''"

text \<open>A \<open>char[32]\<close> set by \<open>strcpy\<close>; the bytes after the NUL are whatever they were.\<close>

definition fill_array :: "nat \<Rightarrow> string \<Rightarrow> string \<Rightarrow> string option" where
  "fill_array n old s = (if length s < n then Some (s @ [NUL] @ drop (length s + 1) old) else None)"

definition remote_thread_entry :: "win_env \<Rightarrow> call_data \<Rightarrow> 32 word" where
  "remote_thread_entry e d =
     (if \<not> module_loaded e (cstr (strJvm d)) then 1001
      else case proc_address e (cstr (tl (strEnqueue d))) of
             Some f \<Rightarrow> f (args d) (pipeName d)
           | None \<Rightarrow>
               (let alt = (strEnqueue d)[21 := CHR ''@'', 22 := CHR ''2'', 23 := CHR ''0'', 24 := NUL]
                in case proc_address e (cstr alt) of
                     None \<Rightarrow> 1002
                   | Some f \<Rightarrow> f (args d) (pipeName d)))"

subsection \<open>The injecting side\<close>

text \<open>The local \<open>CallData\<close> that is copied; \<open>junk\<close> is what its arrays held before.\<close>

definition arg_string :: "string list \<Rightarrow> nat \<Rightarrow> string" where
  "arg_string argv i = (if i < length argv then argv ! i else [])"

definition allocate_data :: "string \<Rightarrow> string \<Rightarrow> string list \<Rightarrow> call_data option" where
  "allocate_data junk pipe argv =
     (case fill_array 32 junk ''jvm'' of
        None \<Rightarrow> None
      | Some jvm \<Rightarrow>
          (case fill_array 32 junk GET_PROC_NAME of
             None \<Rightarrow> None
           | Some enq \<Rightarrow>
               if length pipe < WIN_MAX_PATH \<and>
                  list_all (\<lambda>i. length (arg_string argv i) < WIN_MAX_PATH) [0..<4]
               then Some \<lparr>strJvm = jvm, strEnqueue = enq, pipeName = pipe, args = map (arg_string argv) [0..<4]\<rparr>
               else None))"

definition print_error :: "string \<Rightarrow> nat \<Rightarrow> win_event" where
  "print_error msg code = Printed (msg @ '' (error code = '' @ show_nat code @ '')'' @ [newline])"

definition enable_debug_privileges :: "win_env \<Rightarrow> bool \<times> win_event list" where
  "enable_debug_privileges e =
     (if \<not> thread_token e False \<and> (\<not> impersonate_ok e \<or> \<not> thread_token e True) then (False, [])
      else if \<not> lookup_privilege_ok e then (False, [TokenOpened])
      else (adjust_ok e, [TokenOpened, TokenClosed]))"

text \<open>The 64-bit build.\<close>

definition check_bitness :: "win_env \<Rightarrow> bool \<times> win_event list" where
  "check_bitness e =
     (if target_wow64 e = Some True
      then (False, [Printed (''Cannot attach 64-bit process to 32-bit JVM'' @ [newline])])
      else (True, []))"

definition open_target :: "win_env \<Rightarrow> bool \<times> win_event list" where
  "open_target e =
     (case open_process e False of
        ProcessHandle \<Rightarrow> (True, [ProcOpened])
      | OtherFailure \<Rightarrow> (False, [print_error ''Could not open process'' (last_error e)])
      | AccessDenied \<Rightarrow>
          (case enable_debug_privileges e of
             (False, ev) \<Rightarrow> (False, ev @ [print_error ''Not enough privileges'' (last_error e)])
           | (True, ev) \<Rightarrow>
               if open_process e True = ProcessHandle then (True, ev @ [ProcOpened])
               else (False, ev @ [print_error ''Could not open process'' (last_error e)])))"

definition run_remote :: "win_env \<Rightarrow> call_data \<Rightarrow> bool \<times> win_event list" where
  "run_remote e d =
     (if \<not> thread_ok e then (False, [print_error ''Could not create remote thread'' (last_error e)])
      else let code = remote_thread_entry e d
           in if code \<noteq> 0
              then (False, [ThreadOpened, Printed (''Connected to remote process'' @ [newline]),
                            print_error ''Attach is not supported by the target process'' (unat code),
                            ThreadClosed])
              else (True, [ThreadOpened, Printed (''Connected to remote process'' @ [newline]), ThreadClosed]))"

definition inject_thread :: "win_env \<Rightarrow> string \<Rightarrow> string \<Rightarrow> string list \<Rightarrow> (bool \<times> win_event list) option" where
  "inject_thread e junk pipe argv =
     (case open_target e of
        (False, ev1) \<Rightarrow> Some (False, ev1)
      | (True, ev1) \<Rightarrow>
          (case check_bitness e of
             (False, ev2) \<Rightarrow> Some (False, ev1 @ ev2 @ [ProcClosed])
           | (True, ev2) \<Rightarrow>
               let failed = [print_error ''Could not allocate memory in target process'' (last_error e), ProcClosed]
               in if \<not> code_alloc_ok e then Some (False, ev1 @ ev2 @ failed)
                  else (case allocate_data junk pipe argv of
                          None \<Rightarrow> None
                        | Some d \<Rightarrow>
                            if \<not> data_alloc_ok e
                            then Some (False, ev1 @ ev2 @ [CodeAllocated] @ failed)
                            else (case run_remote e d of
                                    (success, ev3) \<Rightarrow>
                                      Some (success, ev1 @ ev2 @ [CodeAllocated, DataAllocated] @ ev3
                                                     @ [CodeFreed, DataFreed, ProcClosed])))))"

subsection \<open>The answer\<close>

definition read_file :: "nat \<Rightarrow> chunk list \<Rightarrow> (string \<times> chunk list) option" where
  "read_file n cs =
     (case cs of
        [] \<Rightarrow> None
      | ReadError # _ \<Rightarrow> None
      | Data d # r \<Rightarrow> if length d \<le> n then Some (d, r) else Some (take n d, Data (drop n d) # r))"

lemma read_file_shorter:
  "0 < n \<Longrightarrow> read_file n cs = Some (d, r) \<Longrightarrow> stream_size r < stream_size cs"
  by (auto simp: read_file_def stream_size_def split: list.splits chunk.splits if_splits)

function mirror_pipe :: "string \<Rightarrow> chunk list \<Rightarrow> string" where
  "mirror_pipe buf cs =
     buf @ (case read_file 8192 cs of None \<Rightarrow> [] | Some (d, r) \<Rightarrow> mirror_pipe d r)"
  by pat_completeness auto
termination
  by (relation "measure (\<lambda>(_, cs). stream_size cs)") (auto dest: read_file_shorter [rotated])

declare mirror_pipe.simps [simp del]

definition win_read_response :: "win_env \<Rightarrow> int \<times> win_event list" where
  "win_read_response e =
     (case read_file 8191 (pipe_in e) of
        None \<Rightarrow> (1, [print_error ''Error reading response'' (last_error e)])
      | Some (buf, r) \<Rightarrow> (atoi (cstr buf), [Printed (mirror_pipe buf r)]))"

definition pipe_name :: "32 word \<Rightarrow> string" where
  "pipe_name tick = backslash # backslash # CHR ''.'' # backslash # ''pipe'' @ backslash # ''javatool'' @ show_int (sint tick)"

text \<open>\<open>CreateNamedPipe\<close> reports failure with the handle -1; the code tests for 0.\<close>

definition win_jattach :: "win_env \<Rightarrow> string \<Rightarrow> string list \<Rightarrow> (int \<times> win_event list) option" where
  "win_jattach e junk argv =
     (if length argv < 2 then Some (1, [])
      else let pipe = pipe_name (tick_count e)
           in if pipe_handle e = 0 then Some (1, [print_error ''Could not create pipe'' (last_error e)])
              else (case inject_thread e junk pipe (tl argv) of
                      None \<Rightarrow> None
                    | Some (False, ev) \<Rightarrow> Some (1, PipeCreated pipe # ev @ [PipeClosed])
                    | Some (True, ev) \<Rightarrow>
                        (case win_read_response e of
                           (result, ev') \<Rightarrow>
                             Some (result, PipeCreated pipe # ev @ [Printed ''Response code = ''] @ ev'
                                           @ [Printed [newline], PipeClosed]))))"

subsection \<open>Lemmas\<close>

lemma fill_array_cstr: "fill_array n old s = Some b \<Longrightarrow> NUL \<notin> set s \<Longrightarrow> cstr b = s"
  by (auto simp: fill_array_def cstr_append_NUL split: if_splits)

lemma pipe_name_fits: "length (pipe_name tick) < WIN_MAX_PATH"
  using length_show_int_32 [of "sint tick"] sint_ge [of tick] sint_lt [of tick]
  by (simp add: pipe_name_def WIN_MAX_PATH_def)

lemma allocate_data_cases:
  "allocate_data junk pipe argv =
     (if length pipe < WIN_MAX_PATH \<and> list_all (\<lambda>i. length (arg_string argv i) < WIN_MAX_PATH) [0..<4]
      then Some \<lparr>strJvm = ''jvm'' @ NUL # drop 4 junk,
                 strEnqueue = GET_PROC_NAME @ NUL # drop 22 junk,
                 pipeName = pipe, args = map (arg_string argv) [0..<4]\<rparr>
      else None)"
  unfolding allocate_data_def by (simp add: fill_array_def GET_PROC_NAME_def numeral_eq_Suc)

definition opens :: "win_event list \<Rightarrow> win_event \<Rightarrow> nat" where
  "opens evs ev = count_list evs ev"

lemma opens_simps [simp]:
  "opens [] x = 0" "opens (a # evs) x = (if a = x then 1 else 0) + opens evs x"
  "opens (xs @ ys) x = opens xs x + opens ys x"
  by (simp_all add: opens_def)

lemma print_error_neq [simp]: "print_error m c = x \<longleftrightarrow> x = Printed (m @ '' (error code = '' @ show_nat c @ '')'' @ [newline])"
  by (auto simp: print_error_def)

lemma open_target_events:
  "open_target e = (ok, ev) \<Longrightarrow> opens ev ProcOpened = (if ok then 1 else 0) \<and> opens ev ProcClosed = 0 \<and>
     opens ev ThreadOpened = 0 \<and> opens ev ThreadClosed = 0 \<and>
     opens ev CodeAllocated = 0 \<and> opens ev CodeFreed = 0 \<and> opens ev DataAllocated = 0 \<and> opens ev DataFreed = 0"
  by (auto simp: open_target_def enable_debug_privileges_def split: open_result.splits if_splits bool.splits)

lemma check_bitness_events:
  "check_bitness e = (ok, ev) \<Longrightarrow> opens ev ProcOpened = 0 \<and> opens ev ProcClosed = 0 \<and>
     opens ev ThreadOpened = 0 \<and> opens ev ThreadClosed = 0 \<and>
     opens ev CodeAllocated = 0 \<and> opens ev CodeFreed = 0 \<and> opens ev DataAllocated = 0 \<and> opens ev DataFreed = 0"
  by (auto simp: check_bitness_def split: if_splits)

lemma run_remote_events:
  "run_remote e d = (ok, ev) \<Longrightarrow> opens ev ProcOpened = 0 \<and> opens ev ProcClosed = 0 \<and>
     opens ev ThreadOpened = opens ev ThreadClosed \<and>
     opens ev CodeAllocated = 0 \<and> opens ev CodeFreed = 0 \<and> opens ev DataAllocated = 0 \<and> opens ev DataFreed = 0"
  by (auto simp: run_remote_def Let_def split: if_splits)

subsection \<open>Properties\<close>

text \<open>
  The injected thread looks for exactly \<open>JVM_EnqueueOperation\<close>, then, with the buffer
  patched in place, for the 32-bit export name \<open>_JVM_EnqueueOperation@20\<close>, and hands the
  function the first four arguments and the name of the pipe.
\<close>

theorem remote_entry_calls_enqueue:
  assumes "allocate_data junk pipe argv = Some d" and "length junk = 32"
  shows "remote_thread_entry e d =
    (if \<not> module_loaded e ''jvm'' then 1001
     else case proc_address e ''JVM_EnqueueOperation'' of
            Some f \<Rightarrow> f (map (arg_string argv) [0..<4]) pipe
          | None \<Rightarrow>
              (case proc_address e (''_JVM_EnqueueOperation@20'') of
                 Some f \<Rightarrow> f (map (arg_string argv) [0..<4]) pipe
               | None \<Rightarrow> 1002))"
proof -
  obtain j1 j2 where d: "strJvm d = ''jvm'' @ NUL # j1" "strEnqueue d = GET_PROC_NAME @ NUL # drop 22 junk"
     "pipeName d = pipe" "args d = map (arg_string argv) [0..<4]"
    using assms by (auto simp: allocate_data_cases split: if_splits)
  have len: "length GET_PROC_NAME = 21" by (simp add: GET_PROC_NAME_def)
  have "3 \<le> length (drop 22 junk)" using assms(2) by simp
  from length_ge_3E [OF this] obtain c1 c2 c3 r where "drop 22 junk = c1 # c2 # c3 # r" .
  then have "(GET_PROC_NAME @ NUL # drop 22 junk)[21 := CHR ''@'', 22 := CHR ''2'', 23 := CHR ''0'', 24 := NUL]
    = GET_PROC_NAME @ ''@20'' @ NUL # r"
    by (simp add: list_update_append len del: append_assoc)
  moreover have "cstr (GET_PROC_NAME @ ''@20'' @ NUL # r) = ''_JVM_EnqueueOperation@20''"
    by (simp add: GET_PROC_NAME_def cstr_def)
  ultimately have alt: "cstr ((GET_PROC_NAME @ NUL # drop 22 junk)[21 := CHR ''@'', 22 := CHR ''2'', 23 := CHR ''0'', 24 := NUL])
    = ''_JVM_EnqueueOperation@20''"
    by simp
  have "cstr (''jvm'' @ NUL # j1) = ''jvm''" "cstr (tl (GET_PROC_NAME @ NUL # drop 22 junk)) = ''JVM_EnqueueOperation''"
    by (simp_all add: GET_PROC_NAME_def cstr_def)
  then show ?thesis unfolding remote_thread_entry_def d Let_def alt by simp
qed

text \<open>
  The local \<open>CallData\<close> is filled without an overflow exactly when each of the first four
  arguments is shorter than \<open>MAX_PATH\<close>: nothing in the code checks it, and a longer argument
  is copied past its array.
\<close>

theorem win_arguments_overflow:
  "allocate_data junk (pipe_name tick) argv = None \<longleftrightarrow>
   list_ex (\<lambda>i. WIN_MAX_PATH \<le> length (arg_string argv i)) [0..<4]"
  using pipe_name_fits [of tick] by (auto simp: allocate_data_cases list_all_iff list_ex_iff not_le not_less Bex_def Ball_def)

text \<open>
  Whatever fails, \<open>inject_thread\<close> closes the process and thread handles it opened and
  frees the data block it allocated in the target; the code block is freed exactly when the data
  block was allocated too.
\<close>

theorem inject_thread_releases:
  assumes "inject_thread e junk pipe argv = Some (ok, ev)"
  shows "opens ev ProcOpened = opens ev ProcClosed \<and> opens ev ThreadOpened = opens ev ThreadClosed \<and>
         opens ev DataAllocated = opens ev DataFreed \<and> opens ev CodeFreed = opens ev DataAllocated"
proof -
  obtain o1 e1 where 1: "open_target e = (o1, e1)" by fastforce
  obtain o2 e2 where 2: "check_bitness e = (o2, e2)" by fastforce
  note ev = open_target_events [OF 1] check_bitness_events [OF 2]
  show ?thesis
  proof (cases "allocate_data junk pipe argv")
    case None
    with assms 1 2 ev show ?thesis
      by (auto simp: inject_thread_def Let_def split: bool.splits if_splits)
  next
    case (Some d)
    obtain o3 e3 where 3: "run_remote e d = (o3, e3)" by fastforce
    from assms 1 2 3 ev Some run_remote_events [OF 3] show ?thesis
      by (auto simp: inject_thread_def Let_def split: bool.splits if_splits)
  qed
qed

subsection \<open>Witnesses\<close>

definition sample_win :: win_env where
  "sample_win =
     \<lparr>open_process = (\<lambda>_. ProcessHandle), thread_token = (\<lambda>_. False), impersonate_ok = False,
      lookup_privilege_ok = False, adjust_ok = False, target_wow64 = None, code_alloc_ok = True,
      data_alloc_ok = True, thread_ok = True, module_loaded = (\<lambda>m. m = ''jvm''),
      proc_address = (\<lambda>p. if p = ''_JVM_EnqueueOperation@20'' then Some (\<lambda>as _. of_nat (length as)) else None),
      pipe_handle = 4, tick_count = 99, last_error = 0, pipe_in = []\<rparr>"

theorem remote_entry_calls_enqueue_witness:
  "remote_thread_entry sample_win
     \<lparr>strJvm = ''jvm'' @ NUL # drop 4 (replicate 32 NUL),
      strEnqueue = GET_PROC_NAME @ NUL # drop 22 (replicate 32 NUL),
      pipeName = ''p'', args = map (arg_string [''threaddump'']) [0..<4]\<rparr> = 4"
  using remote_entry_calls_enqueue [of "replicate 32 NUL" "''p''" "[''threaddump'']" _ sample_win]
  by (simp add: allocate_data_cases WIN_MAX_PATH_def arg_string_def sample_win_def upt_rec)

end
