(* ===== verification/Signals.thy ===== *)
theory Signals
  imports Prelude
begin

text \<open>
  \<^verbatim>\<open>procps/linux/signals.c\<close>: the table of signal names, the conversions between names
  and numbers, and the option parsing of \<open>skill\<close> and \<open>kill\<close>.

  The numbers are those of glibc on Linux for x86 and arm, where \<open>SIGEMT\<close> is not defined,
  \<open>SIGSTKFLT\<close> is, and \<open>SIGRTMIN\<close> is 34; the table then has the 31 rows the source's
  static assertion asks for.
\<close>

type_synonym mapstruct = "string \<times> int"

definition SIGRTMIN :: int where
  "SIGRTMIN = 34"

definition sigtable :: "mapstruct list" where
  "sigtable =
    [(''ABRT'', 6), (''ALRM'', 14), (''BUS'', 7), (''CHLD'', 17), (''CONT'', 18), (''FPE'', 8),
     (''HUP'', 1), (''ILL'', 4), (''INT'', 2), (''KILL'', 9), (''PIPE'', 13), (''POLL'', 29),
     (''PROF'', 27), (''PWR'', 30), (''QUIT'', 3), (''SEGV'', 11), (''STKFLT'', 16), (''STOP'', 19),
     (''SYS'', 31), (''TERM'', 15), (''TRAP'', 5), (''TSTP'', 20), (''TTIN'', 21), (''TTOU'', 22),
     (''URG'', 23), (''USR1'', 10), (''USR2'', 12), (''VTALRM'', 26), (''WINCH'', 28), (''XCPU'', 24),
     (''XFSZ'', 25)]"

definition number_of_signals :: nat where
  "number_of_signals = length sigtable"

definition compare_signal_names :: "mapstruct \<Rightarrow> mapstruct \<Rightarrow> int" where
  "compare_signal_names a b = strcasecmp (fst a) (fst b)"

text \<open>The C library's binary search between the rows \<open>l\<close> and \<open>u\<close>.\<close>

function bsearch :: "('a \<Rightarrow> 'a \<Rightarrow> int) \<Rightarrow> 'a \<Rightarrow> 'a list \<Rightarrow> nat \<Rightarrow> nat \<Rightarrow> 'a option" where
  "bsearch cmp key tbl l u =
     (if l < u then
        let i = (l + u) div 2; c = cmp key (tbl ! i)
        in if c < 0 then bsearch cmp key tbl l i
           else if 0 < c then bsearch cmp key tbl (i + 1) u
           else Some (tbl ! i)
      else None)"
  by pat_completeness auto
termination
  by (relation "measure (\<lambda>(cmp, key, tbl, l, u). u - l)") auto

declare bsearch.simps [simp del]

definition get_sigtable_name :: "int \<Rightarrow> string option" where
  "get_sigtable_name row =
     (if row < 0 \<or> int number_of_signals \<le> row then None else Some (fst (sigtable ! nat row)))"

definition get_sigtable_num :: "int \<Rightarrow> int" where
  "get_sigtable_num row =
     (if row < 0 \<or> int number_of_signals \<le> row then - 1 else snd (sigtable ! nat row))"

text \<open>
  The part of \<open>signal_name_to_number\<close> after the names: a number, perhaps after \<open>RTMIN+\<close>.
  The sum \<open>val+SIGRTMIN\<close> is taken exactly; in C it overflows for the 34 largest values of a
  \<open>long\<close>, which compilers turn into the comparison of \<open>val\<close> with 93 that is modelled here.
\<close>

definition signal_number_arg :: "string \<Rightarrow> int" where
  "signal_number_arg name0 =
     (let (name, offset) = (if strncasecmp_eq name0 ''RTMIN+'' 6 then (drop 6 name0, SIGRTMIN) else (name0, 0));
          (val, endp) = strtol name
      in if endp \<noteq> [] \<or> endp = name then - 1
         else if val < 0 \<or> 127 < val + SIGRTMIN then - 1
         else val + offset)"

definition signal_name_to_number :: "string \<Rightarrow> int" where
  "signal_name_to_number name0 =
     (let name = (if strncasecmp_eq name0 ''SIG'' 3 then drop 3 name0 else name0)
      in if strcasecmp name ''CLD'' = 0 then 17
         else if strcasecmp name ''IO'' = 0 then 29
         else if strcasecmp name ''IOT'' = 0 then 6
         else (case bsearch compare_signal_names (name, 0) sigtable 0 number_of_signals of
                 Some row \<Rightarrow> snd row
               | None \<Rightarrow>
                   if strcasecmp name ''RTMIN'' = 0 then SIGRTMIN
                   else if strcasecmp name ''EXIT'' = 0 then 0
                   else if strcasecmp name ''NULL'' = 0 then 0
                   else signal_number_arg name))"

text \<open>The loop counts down from the last row.\<close>

fun find_signal :: "mapstruct list \<Rightarrow> int \<Rightarrow> string option" where
  "find_signal [] signo = None"
| "find_signal (row # rows) signo = (if snd row = signo then Some (fst row) else find_signal rows signo)"

definition signal_number_to_name :: "int \<Rightarrow> string" where
  "signal_number_to_name signo0 =
     (let signo = signo0 mod 128
      in case find_signal (rev sigtable) signo of
           Some name \<Rightarrow> name
         | None \<Rightarrow>
             if signo = SIGRTMIN then ''RTMIN''
             else if signo \<noteq> 0 then ''RTMIN+'' @ show_int (signo - SIGRTMIN)
             else ''0'')"

text \<open>
  \<open>skill_sig_option\<close> from the argument \<open>i\<close> on: the arguments before it, those from it on and
  the value of the variable \<open>signo\<close>; the result and the argument vector left.
\<close>

definition skill_option :: "string \<Rightarrow> int option" where
  "skill_option a =
     (case a of [] \<Rightarrow> None
      | c # opt \<Rightarrow> if c = CHR ''-'' then Some (signal_name_to_number opt) else None)"

fun skill_scan :: "string list \<Rightarrow> string list \<Rightarrow> int \<Rightarrow> int \<times> string list" where
  "skill_scan pre [] signo = (signo, pre)"
| "skill_scan pre (a # as) signo =
     (case skill_option a of
        Some s \<Rightarrow> if - 1 < s then (s, pre @ as) else skill_scan (pre @ [a]) as s
      | None \<Rightarrow> skill_scan (pre @ [a]) as signo)"

definition skill_sig_option :: "string list \<Rightarrow> int \<times> string list" where
  "skill_sig_option argv = skill_scan (take 1 argv) (drop 1 argv) (- 1)"

text \<open>
  \<open>strtosig\<close>: the string returned. \<open>None\<close> stands for the \<open>free\<close> of a pointer into the
  middle of the copied string.
\<close>

definition strtosig :: "string \<Rightarrow> string option option" where
  "strtosig s =
     (let copy = map toupper s;
          p = (if take 3 copy = ''SIG'' then drop 3 copy else copy);
          number = (p \<noteq> [] \<and> isdigit (hd p));
          (v, endp) = strtol s;
          numsignal = (if number then cast_int v else 0)
      in if number \<and> (endp \<noteq> [] \<or> endp = s) then (if p = copy then Some None else None)
         else if numsignal \<noteq> 0 then
           Some (find_signal sigtable numsignal)
         else Some (map_option (snprintf_buf 12 \<circ> show_int) (map_of sigtable p)))"

fun unix_print_loop :: "nat \<Rightarrow> nat \<Rightarrow> nat \<Rightarrow> string" where
  "unix_print_loop pos i 0 = [newline]"
| "unix_print_loop pos i (Suc k) =
     (let name = signal_number_to_name (int i);
          (sep, pos') = (if i = 1 then ([], pos) else if 73 < pos then ([newline], 0) else ('' '', pos + 1))
      in sep @ name @ unix_print_loop (pos' + length name) (i + 1) k)"

definition unix_print_signals :: string where
  "unix_print_signals = unix_print_loop 0 1 number_of_signals"

definition pad2 :: "string \<Rightarrow> string" where
  "pad2 s = replicate (2 - length s) (CHR '' '') @ s"

definition pretty_cell :: "nat \<Rightarrow> string" where
  "pretty_cell i =
     (let s = pad2 (show_nat i) @ '' '' @ signal_number_to_name (int i); n = length s
      in s @ (if 0 < n \<and> i mod 7 \<noteq> 0
              then cstr (drop n (replicate 11 (CHR '' '') @ replicate 20 NUL))
              else [newline]))"

definition pretty_print_signals :: string where
  "pretty_print_signals =
     concat (map pretty_cell [1..<number_of_signals + 1])
     @ (if number_of_signals mod 7 \<noteq> 0 then [newline] else [])"

subsection \<open>Lemmas: comparing and searching\<close>

lemma strcasecmp_sym: "strcasecmp t s = - strcasecmp s t"
  by (induction s t rule: strcasecmp.induct) (auto simp: Let_def)

text \<open>Only the lower-case forms matter.\<close>

lemma strcasecmp_map_tolower:
  "map tolower s = map tolower s' \<Longrightarrow> map tolower t = map tolower t' \<Longrightarrow> strcasecmp s t = strcasecmp s' t'"
proof (induction s t arbitrary: s' t' rule: strcasecmp.induct)
  case (4 x xs y ys)
  from 4(2,3) obtain x' xs' y' ys' where "s' = x' # xs'" "t' = y' # ys'" by (cases s'; cases t') auto
  with 4 show ?case by (auto simp: Let_def)
qed (auto simp: map_eq_Cons_conv)

lemma strcasecmp_trans:
  "NUL \<notin> set b \<Longrightarrow> NUL \<notin> set c \<Longrightarrow> strcasecmp a b < 0 \<Longrightarrow> strcasecmp b c < 0 \<Longrightarrow> strcasecmp a c < 0"
proof (induction a b arbitrary: c rule: strcasecmp.induct)
  case (2 y ys)
  then show ?case using byte_tolower_pos by (cases c) (auto simp: Let_def split: if_splits)
next
  case (4 x xs y ys)
  then obtain z zs where c: "c = z # zs" using byte_tolower_pos [of y] by (cases c) auto
  with 4 show ?case by (auto simp: Let_def split: if_splits)
qed simp_all

definition row_less :: "mapstruct \<Rightarrow> mapstruct \<Rightarrow> bool" where
  "row_less a b \<longleftrightarrow> NUL \<notin> set (fst a) \<and> NUL \<notin> set (fst b) \<and> compare_signal_names a b < 0"

lemma transp_row_less: "transp row_less"
  by (rule transpI) (auto simp: row_less_def compare_signal_names_def intro: strcasecmp_trans)

definition names_ok :: "mapstruct list \<Rightarrow> bool" where
  "names_ok tbl \<longleftrightarrow> sorted_wrt row_less tbl \<and> list_all (\<lambda>r. NUL \<notin> set (fst r)) tbl"

lemma bsearch_sound:
  "bsearch cmp key tbl l u = Some r \<Longrightarrow> u \<le> length tbl \<Longrightarrow> r \<in> set tbl \<and> cmp key r = 0"
proof (induction cmp key tbl l u rule: bsearch.induct)
  case (1 cmp key tbl l u)
  then show ?case
    by (subst (asm) (3) bsearch.simps) (auto simp: Let_def split: if_splits)
qed

lemma bsearch_complete:
  assumes "names_ok tbl" "NUL \<notin> set (fst key)"
  shows "l \<le> k \<Longrightarrow> k < u \<Longrightarrow> u \<le> length tbl \<Longrightarrow> compare_signal_names key (tbl ! k) = 0 \<Longrightarrow>
         bsearch compare_signal_names key tbl l u = Some (tbl ! k)"
proof (induction "u - l" arbitrary: l u rule: less_induct)
  case less
  let ?i = "(l + u) div 2"
  let ?c = "compare_signal_names key (tbl ! ?i)"
  have i: "l \<le> ?i" "?i < u" using less.prems by auto
  have lt: "compare_signal_names (tbl ! a) (tbl ! b) < 0" if "a < b" "b < length tbl" for a b
    using assms(1) that by (auto simp: names_ok_def sorted_wrt_iff_nth_less row_less_def)
  have nul: "NUL \<notin> set (fst (tbl ! a))" if "a < length tbl" for a
    using assms(1) that by (auto simp: names_ok_def list_all_length)
  have klt: "k < length tbl" "?i < length tbl" using less.prems i by auto
  have eq0: "strcasecmp (fst (tbl ! k)) (fst key) = 0" "strcasecmp (fst key) (fst (tbl ! k)) = 0"
    using less.prems(4) strcasecmp_sym [of "fst (tbl ! k)" "fst key"] by (auto simp: compare_signal_names_def)
  consider "k < ?i" | "k = ?i" | "?i < k" by linarith
  then show ?case
  proof cases
    case 1
    then have "strcasecmp (fst (tbl ! k)) (fst (tbl ! ?i)) < 0"
      using lt klt by (simp add: compare_signal_names_def)
    moreover have "map tolower (fst key) = map tolower (fst (tbl ! k))"
      using strcasecmp_eq_0_iff [of "fst key" "fst (tbl ! k)"] eq0 nul klt assms(2) by simp
    ultimately have "?c < 0"
      using strcasecmp_map_tolower by (metis compare_signal_names_def)
    then show ?thesis
      using less.hyps [of ?i l] less.prems i 1
      by (subst bsearch.simps) (simp add: Let_def)
  next
    case 2
    with less.prems i show ?thesis by (subst bsearch.simps) (simp add: Let_def)
  next
    case 3
    then have "strcasecmp (fst (tbl ! ?i)) (fst (tbl ! k)) < 0"
      using lt klt by (simp add: compare_signal_names_def)
    moreover have "map tolower (fst key) = map tolower (fst (tbl ! k))"
      using strcasecmp_eq_0_iff [of "fst key" "fst (tbl ! k)"] eq0 nul klt assms(2) by simp
    ultimately have "strcasecmp (fst (tbl ! ?i)) (fst key) < 0"
      using strcasecmp_map_tolower by metis
    then have "0 < ?c" using strcasecmp_sym [of "fst key"] by (simp add: compare_signal_names_def)
    then show ?thesis
      using less.hyps [of u "?i + 1"] less.prems i 3
      by (subst bsearch.simps) (simp add: Let_def)
  qed
qed

lemma sigtable_names_ok: "names_ok sigtable"
proof -
  have "successively row_less sigtable" unfolding row_less_def by code_simp
  then have "sorted_wrt row_less sigtable"
    by (simp add: successively_conv_sorted_wrt transp_row_less transp_on_subset)
  moreover have "list_all (\<lambda>r. NUL \<notin> set (fst r)) sigtable" by code_simp
  ultimately show ?thesis by (simp add: names_ok_def)
qed

lemma bsearch_sigtable:
  assumes "NUL \<notin> set name" "(nm, n) \<in> set sigtable" "map tolower name = map tolower nm"
  shows "bsearch compare_signal_names (name, 0) sigtable 0 number_of_signals = Some (nm, n)"
proof -
  obtain k where k: "k < length sigtable" "sigtable ! k = (nm, n)"
    using assms(2) by (auto simp: in_set_conv_nth)
  have "NUL \<notin> set nm" using sigtable_names_ok assms(2) by (auto simp: names_ok_def list_all_iff)
  with assms have "compare_signal_names (name, 0) (sigtable ! k) = 0"
    by (simp add: compare_signal_names_def k(2) strcasecmp_eq_0_iff)
  with k show ?thesis
    using bsearch_complete [OF sigtable_names_ok, of "(name, 0)" 0 k number_of_signals] assms(1)
    by (simp add: number_of_signals_def)
qed

lemma bsearch_sigtable_None:
  assumes "NUL \<notin> set name" "list_all (\<lambda>r. map tolower name \<noteq> map tolower (fst r)) sigtable"
  shows "bsearch compare_signal_names (name, 0) sigtable 0 number_of_signals = None"
proof (rule ccontr)
  assume "\<not> ?thesis"
  then obtain r where r: "bsearch compare_signal_names (name, 0) sigtable 0 number_of_signals = Some r" by auto
  from bsearch_sound [OF this] have "r \<in> set sigtable" "strcasecmp name (fst r) = 0"
    by (auto simp: number_of_signals_def compare_signal_names_def)
  moreover from this have "NUL \<notin> set (fst r)"
    using sigtable_names_ok by (auto simp: names_ok_def list_all_iff)
  ultimately show False using assms by (auto simp: strcasecmp_eq_0_iff list_all_iff)
qed

subsection \<open>Lemmas: names and numbers\<close>

definition plain_name :: "string \<Rightarrow> bool" where
  "plain_name nm \<longleftrightarrow> map tolower (take 3 nm) \<noteq> ''sig'' \<and> strcasecmp nm ''CLD'' \<noteq> 0 \<and>
     strcasecmp nm ''IO'' \<noteq> 0 \<and> strcasecmp nm ''IOT'' \<noteq> 0"

lemma sigtable_plain: "list_all (\<lambda>r. plain_name (fst r)) sigtable"
  unfolding plain_name_def by code_simp

lemma map_tolower_SIG: "map tolower ''SIG'' = ''sig''"
  by code_simp

lemma strncasecmp_SIG: "strncasecmp_eq s ''SIG'' 3 \<longleftrightarrow> map tolower (take 3 s) = ''sig''"
  using map_tolower_SIG by (simp add: strncasecmp_eq_def)

lemma plain_row:
  assumes "(nm, n) \<in> set sigtable" "map tolower s = map tolower nm" "NUL \<notin> set s"
  shows "signal_name_to_number s = n"
proof -
  have p: "plain_name nm" using sigtable_plain assms(1) by (auto simp: list_all_iff)
  have "map tolower (take 3 s) = map tolower (take 3 nm)" using assms(2) by (metis take_map)
  moreover have "strcasecmp s x = strcasecmp nm x" for x
    using assms(2) by (rule strcasecmp_map_tolower) simp
  ultimately show ?thesis
    using p bsearch_sigtable [OF assms(3,1,2)]
    by (simp add: signal_name_to_number_def strncasecmp_SIG plain_name_def)
qed

lemma prefixed_row:
  assumes "(nm, n) \<in> set sigtable" "map tolower s = ''sig'' @ map tolower nm" "NUL \<notin> set s"
  shows "signal_name_to_number s = n"
proof -
  have len: "length s = 3 + length nm" using arg_cong [OF assms(2), of length] by simp
  have "map tolower (take 3 s) = ''sig''" using arg_cong [OF assms(2), of "take 3"] by (simp add: take_map)
  moreover have d: "map tolower (drop 3 s) = map tolower nm"
    using arg_cong [OF assms(2), of "drop 3"] by (simp add: drop_map)
  moreover have "NUL \<notin> set (drop 3 s)" using assms(3) by (meson in_set_dropD)
  moreover have "strcasecmp (drop 3 s) x = strcasecmp nm x" for x
    using d by (rule strcasecmp_map_tolower) simp
  moreover have "plain_name nm" using sigtable_plain assms(1) by (auto simp: list_all_iff)
  ultimately show ?thesis
    using bsearch_sigtable [OF _ assms(1), of "drop 3 s"]
    by (simp add: signal_name_to_number_def strncasecmp_SIG plain_name_def)
qed

lemma find_signal_SomeD: "find_signal rows n = Some nm \<Longrightarrow> (nm, n) \<in> set rows"
  by (induction rows) (auto split: if_splits)

lemma find_signal_low: "list_all (\<lambda>n. find_signal (rev sigtable) (int n) \<noteq> None) [1..<32]"
  by code_simp

lemma find_signal_high: "31 < n \<Longrightarrow> find_signal (rev sigtable) n = None"
  by (simp add: sigtable_def)

lemma strtol_show_nat: "n < 2 ^ 63 \<Longrightarrow> strtol (show_nat n) = (int n, [])"
  using scan_number_show_nat [of "[]" n] by (simp add: strtol_def LONG_MAX_def LONG_MIN_def)

lemma rtmin_plus:
  assumes "k \<le> 93"
  shows "signal_name_to_number (''RTMIN+'' @ show_nat k) = SIGRTMIN + int k"
proof -
  let ?s = "''RTMIN+'' @ show_nat k"
  have nul: "NUL \<notin> set ?s" by simp
  have "list_all (\<lambda>r. map tolower ''RTMIN+'' \<noteq> map tolower (take 6 (fst r))) sigtable"
    by code_simp
  then have "list_all (\<lambda>r. map tolower ?s \<noteq> map tolower (fst r)) sigtable"
    unfolding list_all_iff
  proof (intro ballI notI)
    fix r
    assume a: "\<forall>r\<in>set sigtable. map tolower ''RTMIN+'' \<noteq> map tolower (take 6 (fst r))" "r \<in> set sigtable"
      "map tolower ?s = map tolower (fst r)"
    then have "take 6 (map tolower ?s) = take 6 (map tolower (fst r))" by simp
    then have "map tolower ''RTMIN+'' = map tolower (take 6 (fst r))" by (simp add: take_map)
    with a(1,2) show False by blast
  qed
  with nul have b: "bsearch compare_signal_names (?s, 0) sigtable 0 number_of_signals = None"
    by (rule bsearch_sigtable_None)
  have "signal_number_arg ?s = SIGRTMIN + int k"
    using assms by (simp add: signal_number_arg_def strncasecmp_eq_def strtol_show_nat SIGRTMIN_def
        show_nat_nonempty [symmetric])
  with b show ?thesis
    by (simp add: signal_name_to_number_def strncasecmp_eq_def tolower_def)
qed

definition no_signal :: "string \<Rightarrow> bool" where
  "no_signal a \<longleftrightarrow> (case skill_option a of Some s \<Rightarrow> s \<le> - 1 | None \<Rightarrow> True)"

lemma skill_scan_result:
  "skill_scan pre rest s0 = (s, out) \<Longrightarrow> s0 \<le> - 1 \<Longrightarrow>
   s \<le> - 1 \<and> out = pre @ rest \<and> list_all no_signal rest \<or>
   (\<exists>a x b. rest = a @ x # b \<and> out = pre @ a @ b \<and> skill_option x = Some s \<and> - 1 < s \<and>
      list_all no_signal a)"
proof (induction pre rest s0 rule: skill_scan.induct)
  case (1 pre signo)
  then show ?case by simp
next
  case (2 pre a as signo)
  show ?case
  proof (cases "no_signal a")
    case False
    then obtain s' where "skill_option a = Some s'" "- 1 < s'"
      by (auto simp: no_signal_def split: option.splits)
    with 2(3) show ?thesis
      by (intro disjI2 exI [of _ "[]"] exI [of _ a] exI [of _ as]) auto
  next
    case True
    have "s \<le> - 1 \<and> out = (pre @ [a]) @ as \<and> list_all no_signal as \<or>
     (\<exists>c x b. as = c @ x # b \<and> out = (pre @ [a]) @ c @ b \<and> skill_option x = Some s \<and> - 1 < s \<and>
      list_all no_signal c)"
    proof (cases "skill_option a")
      case None
      with 2 show ?thesis by simp
    next
      case (Some s')
      with True have "s' \<le> - 1" by (simp add: no_signal_def)
      with 2 Some show ?thesis by simp
    qed
    then show ?thesis
    proof (elim disjE exE conjE)
      fix c x b
      assume "as = c @ x # b" "out = (pre @ [a]) @ c @ b" "skill_option x = Some s" "- 1 < s"
        "list_all no_signal c"
      with True show ?thesis
        by (intro disjI2 exI [of _ "a # c"] exI [of _ x] exI [of _ b]) simp
    qed (use True in simp)
  qed
qed

lemma signal_number_to_name_cases:
  assumes "0 \<le> n" "n < 128"
  obtains (row) nm where "signal_number_to_name n = nm" "(nm, n) \<in> set sigtable"
  | (zero) "n = 0" "signal_number_to_name n = ''0''"
  | (rtmin) "n = SIGRTMIN" "signal_number_to_name n = ''RTMIN''"
  | (rt) "31 < n" "n \<noteq> SIGRTMIN" "signal_number_to_name n = ''RTMIN+'' @ show_int (n - SIGRTMIN)"
proof (cases "find_signal (rev sigtable) n")
  case (Some nm)
  with assms row show ?thesis by (auto simp: signal_number_to_name_def dest: find_signal_SomeD)
next
  case None
  have n: "n = 0 \<or> 31 < n"
  proof (rule ccontr)
    assume "\<not> ?thesis"
    with assms have n: "nat n \<in> set [1..<32]" "int (nat n) = n" by auto
    from find_signal_low n(1) have "find_signal (rev sigtable) (int (nat n)) \<noteq> None"
      unfolding list_all_iff by blast
    with None n(2) show False by simp
  qed
  have "signal_number_to_name n = (if n = SIGRTMIN then ''RTMIN''
      else if n \<noteq> 0 then ''RTMIN+'' @ show_int (n - SIGRTMIN) else ''0'')"
    using assms None by (simp add: signal_number_to_name_def)
  with n zero rtmin rt show ?thesis by (auto split: if_splits simp: SIGRTMIN_def)
qed

lemma name_to_number_RTMIN: "signal_name_to_number ''RTMIN'' = SIGRTMIN"
proof -
  have "bsearch compare_signal_names (''RTMIN'', 0) sigtable 0 number_of_signals = None"
    by (rule bsearch_sigtable_None) (simp, code_simp)
  then show ?thesis by (simp add: signal_name_to_number_def strncasecmp_eq_def tolower_def)
qed

lemma name_to_number_0: "signal_name_to_number ''0'' = 0"
proof -
  have "bsearch compare_signal_names (''0'', 0) sigtable 0 number_of_signals = None"
    by (rule bsearch_sigtable_None) (simp, code_simp)
  moreover have "strtol ''0'' = (0, [])" using strtol_show_nat [of 0] by (simp add: show_nat.simps)
  ultimately show ?thesis
    by (simp add: signal_name_to_number_def signal_number_arg_def strncasecmp_eq_def tolower_def SIGRTMIN_def)
qed

lemma sigtable_NUL: "(nm, n) \<in> set sigtable \<Longrightarrow> NUL \<notin> set nm"
  using sigtable_names_ok by (auto simp: names_ok_def list_all_iff)

lemma scan_number_letter: "scan_number (c # r) = None" if "c = CHR ''S'' \<or> c = CHR ''s''"
  using that by (auto simp: scan_number_def split_sign_def isspace_def isdigit_def)

lemma toupper_S: "toupper c = CHR ''S'' \<Longrightarrow> c = CHR ''S'' \<or> c = CHR ''s''"
proof -
  assume a: "toupper c = CHR ''S''"
  show ?thesis
  proof (cases "97 \<le> byte c \<and> byte c \<le> 122")
    case True
    with a have "of_char (char_of (byte c - 32) :: char) = (of_char CHR ''S'' :: nat)" by (simp add: toupper_def)
    moreover have "(byte c - 32) mod 256 = (byte c - 32 :: nat)" using True by (intro mod_less) linarith
    ultimately have "byte c = 115" using True by (simp add: of_char_of)
    then have "byte c = byte CHR ''s''" by simp
    then have "c = CHR ''s''" by (simp only: of_char_eq_iff)
    then show ?thesis ..
  qed (use a in \<open>auto simp: toupper_def\<close>)
qed

subsection \<open>Properties\<close>

text \<open>
  Names and numbers are inverse: parsing the name printed for a signal number gives the number
  back, for every number up to 127 except 32 and 33 (which are printed as \<open>RTMIN+-2\<close> and
  \<open>RTMIN+-1\<close>).
\<close>

theorem signal_number_name_roundtrip:
  assumes "0 \<le> n" and "n < 128" and "n \<notin> {32, 33}"
  shows "signal_name_to_number (signal_number_to_name n) = n"
  using assms(1,2)
proof (cases n rule: signal_number_to_name_cases)
  case (row nm)
  then show ?thesis by (simp add: plain_row sigtable_NUL)
next
  case rt
  with assms(3) have "SIGRTMIN < n" by (auto simp: SIGRTMIN_def)
  then have "show_int (n - SIGRTMIN) = show_nat (nat (n - SIGRTMIN))" by (simp add: show_int_def)
  with rt \<open>SIGRTMIN < n\<close> assms(2) show ?thesis
    using rtmin_plus [of "nat (n - SIGRTMIN)"] by (simp add: SIGRTMIN_def)
qed (simp_all add: name_to_number_0 name_to_number_RTMIN)

theorem signal_number_name_roundtrip_witness:
  "signal_name_to_number (signal_number_to_name 64) = 64"
  by (rule signal_number_name_roundtrip) simp_all

text \<open>
  Every name of the table is recognised in upper, lower or mixed case, with or without
  \<open>SIG\<close> in front.
\<close>

theorem signal_names_any_case:
  assumes "(nm, n) \<in> set sigtable" and "NUL \<notin> set s"
    and "map tolower s = map tolower nm \<or> map tolower s = map tolower (''SIG'' @ nm)"
  shows "signal_name_to_number s = n"
  using assms(3)
proof
  assume "map tolower s = map tolower nm"
  with assms(1,2) show ?thesis by (intro plain_row)
next
  assume "map tolower s = map tolower (''SIG'' @ nm)"
  then have "map tolower s = ''sig'' @ map tolower nm" by (simp only: map_append map_tolower_SIG)
  with assms(1,2) show ?thesis by (intro prefixed_row)
qed

text \<open>
  \<open>skill_sig_option\<close> removes exactly the first argument after the program's name that is a
  dash followed by a signal, and returns its number; without one it changes nothing and
  returns -1.
\<close>

theorem skill_sig_option_removes_first:
  "(\<exists>s. skill_sig_option (prog # as) = (s, prog # as) \<and> s \<le> - 1 \<and> list_all no_signal as) \<or>
   (\<exists>a x b s. as = a @ x # b \<and> list_all no_signal a \<and> skill_option x = Some s \<and> - 1 < s \<and>
       skill_sig_option (prog # as) = (s, prog # a @ b))"
proof -
  obtain s out where e: "skill_scan [prog] as (- 1) = (s, out)" by fastforce
  from skill_scan_result [OF this] show ?thesis
    by (auto simp: skill_sig_option_def e) 
qed

text \<open>
  \<open>strtosig\<close> frees a pointer into the middle of its copy exactly on a string that starts with
  \<open>SIG\<close> (in any case) and a digit, such as \<open>SIG9\<close>: it has moved \<open>p\<close> past the
  prefix, and the number parsed from the whole string is invalid.
\<close>

theorem strtosig_invalid_free:
  "strtosig s = None \<longleftrightarrow>
   (\<exists>c r. map toupper s = ''SIG'' @ c # r \<and> isdigit c)"
proof (cases "take 3 (map toupper s) = ''SIG''")
  case True
  then obtain r where r: "map toupper s = ''SIG'' @ r" by (metis append_take_drop_id)
  then obtain c s' where s: "s = c # s'" "toupper c = CHR ''S''" by (cases s) auto
  then have "strtol s = (0, s)" using scan_number_letter toupper_S by (simp add: strtol_def)
  with r s(1) show ?thesis by (cases r) (auto simp: strtosig_def Let_def)
next
  case False
  then have "strtosig s \<noteq> None" by (auto simp: strtosig_def Let_def case_prod_beta)
  moreover have "\<not> (\<exists>c r. map toupper s = ''SIG'' @ c # r \<and> isdigit c)"
  proof
    assume "\<exists>c r. map toupper s = ''SIG'' @ c # r \<and> isdigit c"
    then obtain c r where "map toupper s = ''SIG'' @ c # r" by blast
    with False show False by (simp only:) simp
  qed
  ultimately show ?thesis by blast
qed

end
