(* ===== verification/Scanf.thy ===== *)
theory Scanf
  imports Complex_Main Prelude
begin

text \<open>
  The part of the C library's \<open>sscanf\<close> the procps sources use: format strings with literal
  text, white space and the conversions \<open>%c %d %u %lu %llu %lf %s\<close> and \<open>%s\<close> with a width, some with
  the assignment-suppressing star. \<open>sscanf fmt s\<close> is the list of the values assigned, in order:
  its length is what the C function returns (0 also where C returns \<open>EOF\<close>), and arguments
  beyond it keep their old value.

  A \<open>double\<close> is the rational number its decimal notation denotes; exponents, infinities and
  the rounding to 53 bits are not modelled.
\<close>

datatype conv = CChar | CInt | CUInt | CULong | CDouble | CStr | CStrW nat

datatype directive = Conv conv | Skip conv | Blank | Lit char

datatype sval = SChar char | SInt int | SUInt "32 word" | SULong ulong | SDouble rat | SStr string

function parse_format :: "string \<Rightarrow> directive list" where
  "parse_format s =
     (case s of
        [] \<Rightarrow> []
      | c # r \<Rightarrow>
          if c = CHR ''%'' then
            (if is_prefix ''c'' r then Conv CChar # parse_format (drop 1 r)
             else if is_prefix ''d'' r then Conv CInt # parse_format (drop 1 r)
             else if is_prefix ''u'' r then Conv CUInt # parse_format (drop 1 r)
             else if is_prefix ''s'' r then Conv CStr # parse_format (drop 1 r)
             else if is_prefix ''lu'' r then Conv CULong # parse_format (drop 2 r)
             else if is_prefix ''lf'' r then Conv CDouble # parse_format (drop 2 r)
             else if is_prefix ''llu'' r then Conv CULong # parse_format (drop 3 r)
             else if is_prefix ''*s'' r then Skip CStr # parse_format (drop 2 r)
             else if is_prefix ''*u'' r then Skip CUInt # parse_format (drop 2 r)
             else if is_prefix ''*d'' r then Skip CInt # parse_format (drop 2 r)
             else
               let ds = takeWhile isdigit r
               in if is_prefix ''s'' (drop (length ds) r)
                  then Conv (CStrW (digits_val ds)) # parse_format (drop (length ds + 1) r)
                  else [])
          else if isspace c then Blank # parse_format r
          else Lit c # parse_format r)"
  by pat_completeness auto
termination
  by (relation "measure length") auto

declare parse_format.simps [simp del]

text \<open>Decimal fractions: the digits before and after the point.\<close>

definition frac_val :: "string \<Rightarrow> rat" where
  "frac_val ds = of_nat (digits_val ds) / 10 ^ length ds"

definition scan_double :: "string \<Rightarrow> (rat \<times> string) option" where
  "scan_double s =
     (let (neg, u) = split_sign (dropWhile isspace s);
          ip = takeWhile isdigit u;
          r = dropWhile isdigit u;
          (fp, r') = (case r of
             [] \<Rightarrow> ([], r)
           | c # r1 \<Rightarrow> if c = CHR ''.'' then (takeWhile isdigit r1, dropWhile isdigit r1) else ([], r));
          v = of_nat (digits_val ip) + frac_val fp
      in if ip = [] \<and> fp = [] then None else Some (if neg then - v else v, r'))"

definition scan_conv :: "conv \<Rightarrow> string \<Rightarrow> (sval \<times> string) option" where
  "scan_conv k s =
     (case k of
        CChar \<Rightarrow> (case s of [] \<Rightarrow> None | c # r \<Rightarrow> Some (SChar c, r))
      | CInt \<Rightarrow> (if scan_number s = None then None else Some (SInt (atoi s), snd (strtol s)))
      | CUInt \<Rightarrow> (if scan_number s = None then None else Some (SUInt (ucast (fst (strtoul s))), snd (strtoul s)))
      | CULong \<Rightarrow> (if scan_number s = None then None else Some (SULong (fst (strtoul s)), snd (strtoul s)))
      | CDouble \<Rightarrow> map_option (\<lambda>(v, r). (SDouble v, r)) (scan_double s)
      | CStr \<Rightarrow>
          (let u = dropWhile isspace s
           in if u = [] then None
              else Some (SStr (takeWhile (\<lambda>c. \<not> isspace c) u), dropWhile (\<lambda>c. \<not> isspace c) u))
      | CStrW n \<Rightarrow>
          (let u = dropWhile isspace s; w = take n (takeWhile (\<lambda>c. \<not> isspace c) u)
           in if u = [] then None else Some (SStr w, drop (length w) u)))"

fun run_scanf :: "directive list \<Rightarrow> string \<Rightarrow> sval list" where
  "run_scanf [] s = []"
| "run_scanf (Blank # ds) s = run_scanf ds (dropWhile isspace s)"
| "run_scanf (Lit c # ds) s = (case s of [] \<Rightarrow> [] | x # r \<Rightarrow> if x = c then run_scanf ds r else [])"
| "run_scanf (Conv k # ds) s = (case scan_conv k s of None \<Rightarrow> [] | Some (v, r) \<Rightarrow> v # run_scanf ds r)"
| "run_scanf (Skip k # ds) s = (case scan_conv k s of None \<Rightarrow> [] | Some (v, r) \<Rightarrow> run_scanf ds r)"

definition sscanf :: "string \<Rightarrow> string \<Rightarrow> sval list" where
  "sscanf fmt s = run_scanf (parse_format fmt) s"

text \<open>Assigning the values: one setter for each argument of the call.\<close>

fun assign :: "(sval \<Rightarrow> 'a \<Rightarrow> 'a) list \<Rightarrow> sval list \<Rightarrow> 'a \<Rightarrow> 'a" where
  "assign (f # fs) (v # vs) x = assign fs vs (f v x)"
| "assign fs vs x = x"

definition sint_of :: "sval \<Rightarrow> int" where
  "sint_of v = (case v of SInt i \<Rightarrow> i | _ \<Rightarrow> 0)"

definition sulong_of :: "sval \<Rightarrow> ulong" where
  "sulong_of v = (case v of SULong w \<Rightarrow> w | _ \<Rightarrow> 0)"

definition schar_of :: "sval \<Rightarrow> char" where
  "schar_of v = (case v of SChar c \<Rightarrow> c | _ \<Rightarrow> NUL)"

definition sstr_of :: "sval \<Rightarrow> string" where
  "sstr_of v = (case v of SStr s \<Rightarrow> s | _ \<Rightarrow> [])"

definition suint_of :: "sval \<Rightarrow> 32 word" where
  "suint_of v = (case v of SUInt w \<Rightarrow> w | _ \<Rightarrow> 0)"

lemma sval_of [simp]:
  "sint_of (SInt i) = i" "sulong_of (SULong w) = w" "schar_of (SChar c) = c" "sstr_of (SStr s) = s" "suint_of (SUInt u) = u"
  by (simp_all add: sint_of_def sulong_of_def schar_of_def sstr_of_def suint_of_def)

subsection \<open>Scanning what \<open>printf\<close> wrote\<close>

named_theorems scanf_simps "one step of a scan"

lemma strtol_show_int:
  "- (2 ^ 63) \<le> i \<Longrightarrow> i < 2 ^ 63 \<Longrightarrow> ends_number r \<Longrightarrow> strtol (show_int i @ r) = (i, r)"
  by (simp add: strtol_def scan_number_show_int LONG_MAX_def LONG_MIN_def)

lemma strtoul_show_nat:
  "n < 2 ^ 64 \<Longrightarrow> ends_number r \<Longrightarrow> strtoul (show_nat n @ r) = (of_nat n, r)"
  by (simp add: strtoul_def scan_number_show_nat ULONG_MAX_def)

lemma scan_int [scanf_simps]:
  "- (2 ^ 31) \<le> i \<Longrightarrow> i < 2 ^ 31 \<Longrightarrow> ends_number r \<Longrightarrow>
   run_scanf (Conv CInt # ds) (show_int i @ r) = SInt i # run_scanf ds r"
  by (simp add: scan_conv_def scan_number_show_int strtol_show_int atoi_show_int)

lemma unat_lt_64: "unat (w :: ulong) < 2 ^ 64"
  using unsigned_less [of w] by simp

lemma scan_ulong [scanf_simps]:
  "ends_number r \<Longrightarrow> run_scanf (Conv CULong # ds) (show_nat (unat (w :: ulong)) @ r) = SULong w # run_scanf ds r"
  using unat_lt_64 [of w] by (simp add: scan_conv_def scan_number_show_nat strtoul_show_nat)

lemma unat32_lt_64: "unat (w :: 32 word) < 2 ^ 64"
proof -
  have "unat w < 2 ^ LENGTH(32)" by (rule unsigned_less)
  then show ?thesis by simp
qed

lemma strtoul_uint: "ends_number r \<Longrightarrow> strtoul (show_nat (unat (w :: 32 word)) @ r) = (ucast w, r)"
  using strtoul_show_nat [OF unat32_lt_64 [of w]] by simp

lemma scan_uint_space:
  "isspace c \<Longrightarrow> run_scanf (Conv CUInt # ds) (c # s) = run_scanf (Conv CUInt # ds) s"
  by (auto simp: scan_conv_def scan_number_space strtoul_def split: option.splits)

lemma scan_uint [scanf_simps]:
  "ends_number r \<Longrightarrow> run_scanf (Conv CUInt # ds) (show_nat (unat (w :: 32 word)) @ r) = SUInt w # run_scanf ds r"
proof -
  have "(ucast (ucast w :: ulong) :: 32 word) = w" by transfer simp
  moreover assume "ends_number r"
  ultimately show ?thesis by (simp add: scan_conv_def scan_number_show_nat strtoul_uint)
qed

lemma strtoul_padded:
  assumes "n < 2 ^ 64" "ends_number r"
  shows "strtoul (replicate k (CHR '' '') @ show_nat n @ r) = (of_nat n, r)"
proof -
  have "scan_number (replicate k (CHR '' '') @ show_nat n @ r) = Some (int n, r)"
    by (induction k) (simp_all add: scan_number_space scan_number_show_nat assms(2) isspace_def)
  then show ?thesis using assms(1) by (simp add: strtoul_def ULONG_MAX_def)
qed

lemma newline_notin_show_nat: "newline \<notin> set (show_nat n)"
  using show_nat_digits [of newline n] by (auto simp: isdigit_def)

lemma scan_char [scanf_simps]: "run_scanf (Conv CChar # ds) (c # r) = SChar c # run_scanf ds r"
  by (simp add: scan_conv_def)

lemma skip_uint [scanf_simps]:
  "ends_number r \<Longrightarrow> run_scanf (Skip CUInt # ds) (show_nat (unat (w :: ulong)) @ r) = run_scanf ds r"
  using unat_lt_64 [of w] by (simp add: scan_conv_def scan_number_show_nat strtoul_show_nat)

lemma show_nat_no_space: "c \<in> set (show_nat n) \<Longrightarrow> \<not> isspace c"
  using isdigit_not_space show_nat_digits by blast

lemma takeWhile_show_nat:
  "isspace b \<Longrightarrow> takeWhile (\<lambda>c. \<not> isspace c) (show_nat n @ b # r) = show_nat n"
  "isspace b \<Longrightarrow> dropWhile (\<lambda>c. \<not> isspace c) (show_nat n @ b # r) = b # r"
  using show_nat_no_space [of _ n] by (auto simp: takeWhile_append dropWhile_append)

lemma dropWhile_space_show_nat [simp]: "dropWhile isspace (show_nat n @ r) = show_nat n @ r"
proof -
  obtain d ds where "show_nat n = d # ds" using show_nat_nonempty by (cases "show_nat n") auto
  moreover from this have "\<not> isspace d" using show_nat_no_space [of d n] by simp
  ultimately show ?thesis by simp
qed

lemma dropWhile_space_show_int [simp]: "dropWhile isspace (show_int i @ r) = show_int i @ r"
  by (auto simp: show_int_def isspace_def)

lemma skip_str [scanf_simps]:
  "isspace b \<Longrightarrow> run_scanf (Skip CStr # ds) (show_nat n @ b # r) = run_scanf ds (b # r)"
  by (simp add: scan_conv_def Let_def takeWhile_show_nat)

lemma scan_blank [scanf_simps]:
  "run_scanf (Blank # ds) (CHR '' '' # s) = run_scanf ds (dropWhile isspace s)"
  by (simp add: isspace_def)

lemma isspace_blank [simp]: "isspace CHR '' ''"
  by (simp add: isspace_def)

lemma not_digit_blank [simp]: "\<not> isdigit CHR '' ''"
  by (simp add: isdigit_def)

lemma scan_word [scanf_simps]:
  assumes "w \<noteq> []" "length w \<le> n" "list_all (\<lambda>c. \<not> isspace c) w" "isspace b"
  shows "run_scanf (Conv (CStrW n) # ds) (w @ b # r) = SStr w # run_scanf ds (b # r)"
proof -
  have "dropWhile isspace (w @ b # r) = w @ b # r"
    using assms(1,3) by (cases w) auto
  moreover have "takeWhile (\<lambda>c. \<not> isspace c) (w @ b # r) = w"
    using assms(3,4) by (simp add: takeWhile_append list_all_iff)
  ultimately show ?thesis using assms(1,2) by (simp add: scan_conv_def Let_def)
qed

lemma skip_int [scanf_simps]:
  "ends_number r \<Longrightarrow> - (2 ^ 31) \<le> i \<Longrightarrow> i < 2 ^ 31 \<Longrightarrow>
   run_scanf (Skip CInt # ds) (show_int i @ r) = run_scanf ds r"
  by (simp add: scan_conv_def scan_number_show_int strtol_show_int)

subsection \<open>Reading a file line by line\<close>

text \<open>
  What successive calls of \<open>fgets\<close> with a buffer of \<open>n\<close> bytes return for a file with these
  bytes; to the string functions each is the C string it starts with.
\<close>

definition line_len :: "string \<Rightarrow> nat" where
  "line_len s = (case strchr s newline of None \<Rightarrow> length s | Some r \<Rightarrow> length s - length r + 1)"

lemma line_len_pos: "s \<noteq> [] \<Longrightarrow> 0 < line_len s"
  by (auto simp: line_len_def split: option.split)

function fgets_lines :: "nat \<Rightarrow> string \<Rightarrow> string list" where
  "fgets_lines n s =
     (if s = [] \<or> n < 2 then []
      else take (min (n - 1) (line_len s)) s # fgets_lines n (drop (min (n - 1) (line_len s)) s))"
  by pat_completeness auto
termination
  by (relation "measure (\<lambda>(n, s). length s)") (auto intro!: diff_less simp: line_len_pos)

declare fgets_lines.simps [simp del]

lemma line_len_line: "newline \<notin> set b \<Longrightarrow> line_len (b @ newline # r) = length b + 1"
  by (simp add: line_len_def strchr_append)

lemma fgets_lines_whole:
  "list_all (\<lambda>b. newline \<notin> set b \<and> length b + 1 < n) bs \<Longrightarrow>
     fgets_lines n (concat (map (\<lambda>b. b @ [newline]) bs)) = map (\<lambda>b. b @ [newline]) bs"
proof (induction bs)
  case Nil
  then show ?case by (simp add: fgets_lines.simps)
next
  case (Cons b bs)
  then have b: "newline \<notin> set b" "length b + 1 < n" by auto
  let ?r = "concat (map (\<lambda>b. b @ [newline]) bs)"
  have "fgets_lines n (b @ newline # ?r) = (b @ [newline]) # fgets_lines n ?r"
    using b by (subst fgets_lines.simps) (simp add: line_len_line)
  then show ?case using Cons by simp
qed

end
