(* ===== verification/SysInfo.thy ===== *)
theory SysInfo
  imports Scanf
begin

unbundle bit_operations_syntax

text \<open>
  The small readers of system-wide facts: \<^verbatim>\<open>procps/linux/sysinfo.c\<close> (clock ticks, load
  averages, width of a pid, number of CPUs), \<^verbatim>\<open>version.c\<close> (kernel version),
  \<^verbatim>\<open>numa.c\<close> (the hooks into libnuma) and \<^verbatim>\<open>strutils.c\<close> (checked numeric
  arguments). A file is what its first \<open>read\<close> or \<open>fgets\<close> returns; a call that ends the
  process is \<open>Inl\<close> of its exit status.
\<close>

subsection \<open>sysinfo.c\<close>

definition procps_hertz_get :: "int \<Rightarrow> int" where
  "procps_hertz_get sysconf_tck = (if 0 < sysconf_tck then sysconf_tck else 100)"

datatype proc_read = CannotOpen | CannotRead | Contents string

text \<open>\<open>FILE_TO_BUF\<close> with its 8192-byte buffer.\<close>

definition file_to_buf :: "proc_read \<Rightarrow> int + string" where
  "file_to_buf f =
     (case f of CannotOpen \<Rightarrow> Inl 102 | CannotRead \<Rightarrow> Inl 103 | Contents t \<Rightarrow> Inr (cstr (take 8191 t)))"

definition set_double :: "nat \<Rightarrow> sval \<Rightarrow> rat list \<Rightarrow> rat list" where
  "set_double i v xs = xs[i := (case v of SDouble d \<Rightarrow> d | _ \<Rightarrow> 0)]"

definition procps_loadavg :: "proc_read \<Rightarrow> int + (int \<times> rat list)" where
  "procps_loadavg f =
     (case file_to_buf f of
        Inl status \<Rightarrow> Inl status
      | Inr buf \<Rightarrow>
          let vs = sscanf ''%lf %lf %lf'' buf
          in Inr (if length vs < 3 then - ERANGE else 0,
                  assign [set_double 0, set_double 1, set_double 2] vs [0, 0, 0]))"

text \<open>What \<open>fgets\<close> stores in a buffer of \<open>n\<close> bytes.\<close>

definition fgets :: "nat \<Rightarrow> string \<Rightarrow> string option" where
  "fgets n t =
     (if t = [] then None
      else let l = takeWhile (\<lambda>c. c \<noteq> newline) t
           in Some (take (n - 1) (if length l < length t then l @ [newline] else l)))"

text \<open>
  The static \<open>pid_length\<close> before and after; \<open>None\<close> where the line starts with a NUL and the
  code looks at \<open>pidbuf[-1]\<close>.
\<close>

definition procps_pid_length :: "string option \<Rightarrow> nat \<Rightarrow> nat option" where
  "procps_pid_length pid_max pid_length =
     (if pid_length \<noteq> 0 then Some pid_length
      else case pid_max of
             None \<Rightarrow> Some 5
           | Some t \<Rightarrow>
               (case fgets 24 t of
                  None \<Rightarrow> Some 5
                | Some b \<Rightarrow>
                    let n = length (cstr b)
                    in if n = 0 then None
                       else if (cstr b) ! (n - 1) = newline then Some (n - 1) else Some n))"

definition procps_cpu_count :: "int \<Rightarrow> int" where
  "procps_cpu_count sysconf_onln = (if sysconf_onln < 1 then 1 else sysconf_onln)"

subsection \<open>version.c\<close>

definition LINUX_VERSION :: "32 word \<Rightarrow> 32 word \<Rightarrow> 32 word \<Rightarrow> 32 word" where
  "LINUX_VERSION x y z = 0x10000 * (x AND 0x7fff) + 0x100 * (y AND 0xff) + (z AND 0xff)"

definition set_uint :: "nat \<Rightarrow> sval \<Rightarrow> 32 word list \<Rightarrow> 32 word list" where
  "set_uint i v xs = xs[i := (case v of SUInt w \<Rightarrow> w | _ \<Rightarrow> 0)]"

definition procps_linux_version :: "int \<Rightarrow> string option \<Rightarrow> int" where
  "procps_linux_version errno osrelease =
     (case osrelease of
        None \<Rightarrow> - errno
      | Some t \<Rightarrow>
          (case fgets 256 t of
             None \<Rightarrow> - EIO
           | Some buf \<Rightarrow>
               let vs = sscanf ''%u.%u.%u'' (cstr buf);
                   xyz = assign [set_uint 0, set_uint 1, set_uint 2] vs [0, 0, 0]
               in if length vs < 2 \<or> length vs < 3 \<and> xyz ! 0 < 3 then - ERANGE
                  else sint (LINUX_VERSION (xyz ! 0) (xyz ! 1) (xyz ! 2))))"

subsection \<open>numa.c\<close>

definition null_max_node :: int where
  "null_max_node = - 1"

definition null_node_of_cpu :: "int \<Rightarrow> int" where
  "null_node_of_cpu n = - 1"

record numa_state =
  numa_initialized :: bool
  numa_max_node :: int
  numa_node_of_cpu :: "int \<Rightarrow> int"
  libnuma_open :: bool

text \<open>\<open>lib\<close>: the two symbols of the library that could be opened, if one could.\<close>

definition numa_init :: "(int option \<times> (int \<Rightarrow> int) option) option \<Rightarrow> numa_state \<Rightarrow> numa_state" where
  "numa_init lib st =
     (if numa_initialized st then st
      else (case lib of
              Some (Some m, Some f) \<Rightarrow> st\<lparr>numa_max_node := m, numa_node_of_cpu := f, libnuma_open := True\<rparr>
            | Some _ \<Rightarrow> st\<lparr>numa_max_node := null_max_node, numa_node_of_cpu := null_node_of_cpu, libnuma_open := False\<rparr>
            | None \<Rightarrow> st)\<lparr>numa_initialized := True\<rparr>)"

subsection \<open>strutils.c\<close>

definition strtol_or_err :: "string option \<Rightarrow> int + int" where
  "strtol_or_err str =
     (case str of
        None \<Rightarrow> Inl 1
      | Some s \<Rightarrow>
          if s \<noteq> [] \<and> \<not> strtol_erange s \<and> s \<noteq> snd (strtol s) \<and> snd (strtol s) = []
          then Inr (fst (strtol s)) else Inl 1)"

text \<open>The two digit loops of \<open>strtod_nol_or_err\<close>.\<close>

fun nol_digits :: "rat \<Rightarrow> rat \<Rightarrow> string \<Rightarrow> rat \<times> string" where
  "nol_digits num mult [] = (num, [])"
| "nol_digits num mult (c # cs) =
     (if isdigit c then nol_digits (num + of_nat (byte c - 48) * mult) (mult / 10) cs else (num, c # cs))"

definition strtod_nol_or_err :: "string option \<Rightarrow> int + rat" where
  "strtod_nol_or_err str =
     (case str of
        None \<Rightarrow> Inl 1
      | Some s \<Rightarrow>
          if s = [] then Inl 1
          else
            let (negative, cp) = split_sign (dropWhile isspace s);
                k = length (takeWhile isdigit cp);
                (num, r) = nol_digits 0 (1 / 10 * 10 ^ k) cp
            in (case r of
                  [] \<Rightarrow> Inr (if negative then - num else num)
                | c # r1 \<Rightarrow>
                    if c \<noteq> CHR ''.'' \<and> c \<noteq> CHR '','' then Inl 1
                    else (case nol_digits num (1 / 10) r1 of
                            (num', r2) \<Rightarrow> if r2 = [] then Inr (if negative then - num' else num') else Inl 1)))"

subsection \<open>Lemmas\<close>

lemma digits_val_Cons: "digits_val (c # ds) = (byte c - 48) * 10 ^ length ds + digits_val ds"
proof -
  have "foldl (\<lambda>a c. 10 * a + (byte c - 48)) a ds = a * 10 ^ length ds + digits_val ds" for a
  proof (induction ds rule: rev_induct)
    case (snoc x xs)
    then show ?case by (simp add: digits_val_def algebra_simps)
  qed (simp add: digits_val_def)
  from this [of "byte c - 48"] show ?thesis by (simp add: digits_val_def)
qed

lemma nol_digits_value:
  "list_all isdigit ds \<Longrightarrow> ends_number r \<Longrightarrow>
   nol_digits num (1 / 10 * 10 ^ length ds * m) (ds @ r) = (num + of_nat (digits_val ds) * m, r)"
proof (induction ds arbitrary: num)
  case Nil
  then show ?case by (cases r) (auto simp: digits_val_def)
next
  case (Cons c ds)
  have e: "1 / 10 * 10 ^ length (c # ds) * m / 10 = (1 / 10 * 10 ^ length ds * m :: rat)" by simp
  have "nol_digits num (1 / 10 * 10 ^ length (c # ds) * m) ((c # ds) @ r)
      = nol_digits (num + of_nat (byte c - 48) * (1 / 10 * 10 ^ length (c # ds) * m))
          (1 / 10 * 10 ^ length (c # ds) * m / 10) (ds @ r)"
    using Cons.prems by simp
  also have "\<dots> = (num + of_nat (byte c - 48) * (1 / 10 * 10 ^ length (c # ds) * m) + of_nat (digits_val ds) * m, r)"
    unfolding e using Cons by simp
  also have "\<dots> = (num + of_nat (digits_val (c # ds)) * m, r)"
  proof -
    define k where "k = byte c - 48"
    have "digits_val (c # ds) = k * 10 ^ length ds + digits_val ds" by (simp add: digits_val_Cons k_def)
    then show ?thesis unfolding k_def [symmetric] by (simp add: algebra_simps)
  qed
  finally show ?case .
qed

text \<open>
  \<open>strtod_nol_or_err\<close> reads a decimal number with a point or a comma exactly as its digits
  denote it, whatever the locale.
\<close>

lemma strtod_nol_value:
  assumes "list_all isdigit ip" "list_all isdigit fp" "ip \<noteq> []" "c = CHR ''.'' \<or> c = CHR '',''"
  shows "strtod_nol_or_err (Some (ip @ c # fp)) = Inr (of_nat (digits_val ip) + frac_val fp)"
proof -
  obtain d ds where ip: "ip = d # ds" using assms(3) by (cases ip) auto
  with assms(1) have d: "isdigit d" "\<not> isspace d" "d \<noteq> CHR ''-''" "d \<noteq> CHR ''+''"
    using isdigit_not_space isdigit_not_sign by auto
  have c: "\<not> isdigit c" using assms(4) by (auto simp: isdigit_def)
  have sign: "split_sign (dropWhile isspace (ip @ c # fp)) = (False, ip @ c # fp)"
    using d ip by (simp add: split_sign_def)
  have tw: "takeWhile isdigit (ip @ c # fp) = ip"
    using assms(1) c by (simp add: list_all_iff takeWhile_append)
  have 1: "nol_digits 0 (1 / 10 * 10 ^ length ip) (ip @ c # fp) = (of_nat (digits_val ip), c # fp)"
    using nol_digits_value [of ip "c # fp" 0 1] assms(1) c by simp
  have "1 / 10 * 10 ^ length fp * (1 / 10 ^ length fp) = (1 / 10 :: rat)" by simp
  then have 2: "nol_digits (of_nat (digits_val ip)) (1 / 10) fp = (of_nat (digits_val ip) + frac_val fp, [])"
    using nol_digits_value [of fp "[]" "of_nat (digits_val ip)" "1 / 10 ^ length fp"] assms(2)
    by (simp add: frac_val_def)
  show ?thesis using assms(4) by (simp add: strtod_nol_or_err_def sign tw 1 [simplified] 2 Let_def)
qed

end
