(* ===== verification/Floats.thy ===== *)
theory Floats
  imports Complex_Main Prelude
begin

text \<open>
  Single precision arithmetic, for the few places where the truncation of a \<open>float\<close> reaches a
  result: a finite non-negative number rounded to the nearest one with 24 bits, ties to even. The
  exponents searched cover the numbers from \<open>2^(-57)\<close> up to \<open>2^44\<close>; those of the program stay within.
\<close>

definition round_even :: "rat \<Rightarrow> int" where
  "round_even q =
     (let n = \<lfloor>q\<rfloor>; d = q - of_int n
      in if d < 1 / 2 then n else if 1 / 2 < d then n + 1 else if even n then n else n + 1)"

text \<open>The unit in the last place: halved while the number has fewer than 24 bits in it.\<close>

fun ulp_from :: "nat \<Rightarrow> rat \<Rightarrow> rat \<Rightarrow> rat" where
  "ulp_from 0 q u = u"
| "ulp_from (Suc k) q u = (if q < 2 ^ 23 * u then ulp_from k q (u / 2) else u)"

definition float_ulp :: "rat \<Rightarrow> rat" where
  "float_ulp q = ulp_from 100 q (2 ^ 20)"

definition float_of :: "rat \<Rightarrow> rat" where
  "float_of q = of_int (round_even (q / float_ulp q)) * float_ulp q"

definition float_div :: "rat \<Rightarrow> rat \<Rightarrow> rat" where
  "float_div a b = float_of (a / b)"

definition float_mult :: "rat \<Rightarrow> rat \<Rightarrow> rat" where
  "float_mult a b = float_of (a * b)"

lemma ulp_from_numeral:
  "ulp_from (numeral k) q u = (if q < 2 ^ 23 * u then ulp_from (pred_numeral k) q (u / 2) else u)"
  by (simp add: numeral_eq_Suc)

text \<open>
  Any precision, and any sign: \<open>double\<close> arithmetic has 53 bits. The units searched go from
  \<open>2^(110 - bits)\<close> down 300 halvings; the quotients of the program's counts and times stay within.
\<close>

fun ulp_bits :: "nat \<Rightarrow> nat \<Rightarrow> rat \<Rightarrow> rat \<Rightarrow> rat" where
  "ulp_bits bits 0 q u = u"
| "ulp_bits bits (Suc k) q u = (if q < 2 ^ (bits - 1) * u then ulp_bits bits k q (u / 2) else u)"

definition rounded :: "nat \<Rightarrow> rat \<Rightarrow> rat" where
  "rounded bits q =
     (let u = ulp_bits bits 300 \<bar>q\<bar> (2 ^ (110 - bits)); a = of_int (round_even (\<bar>q\<bar> / u)) * u
      in if q = 0 then 0 else if q < 0 then - a else a)"

definition sgl :: "rat \<Rightarrow> rat" where
  "sgl = rounded 24"

definition dbl :: "rat \<Rightarrow> rat" where
  "dbl = rounded 53"

subsection \<open>Rounding is monotone and leaves short numbers alone\<close>

lemma round_even_of_int [simp]: "round_even (of_int n) = n"
  by (simp add: round_even_def)

lemma round_even_mono:
  assumes "p \<le> q"
  shows "round_even p \<le> round_even q"
proof (cases "\<lfloor>p\<rfloor> = \<lfloor>q\<rfloor>")
  case True
  then show ?thesis using assms by (auto simp: round_even_def Let_def)
next
  case False
  then have "\<lfloor>p\<rfloor> + 1 \<le> \<lfloor>q\<rfloor>" using floor_mono [OF assms] by simp
  moreover have "round_even p \<le> \<lfloor>p\<rfloor> + 1" "\<lfloor>q\<rfloor> \<le> round_even q" by (simp_all add: round_even_def Let_def)
  ultimately show ?thesis by simp
qed

lemma ulp_from_spec:
  assumes "0 < u" "q < 2 ^ 24 * u" "2 ^ 23 * u \<le> 2 ^ k * q"
  shows "\<exists>j\<le>k. ulp_from k q u = u / 2 ^ j \<and> 2 ^ 23 * ulp_from k q u \<le> q \<and> q < 2 ^ 24 * ulp_from k q u"
  using assms
proof (induction k arbitrary: u)
  case (Suc k)
  show ?case
  proof (cases "q < 2 ^ 23 * u")
    case True
    have "\<exists>j\<le>k. ulp_from k q (u / 2) = u / 2 / 2 ^ j \<and> 2 ^ 23 * ulp_from k q (u / 2) \<le> q \<and> q < 2 ^ 24 * ulp_from k q (u / 2)"
      by (rule Suc.IH) (use Suc.prems True in \<open>simp_all add: mult.commute\<close>)
    then obtain j where "j \<le> k" "ulp_from k q (u / 2) = u / 2 ^ Suc j"
      "2 ^ 23 * ulp_from k q (u / 2) \<le> q \<and> q < 2 ^ 24 * ulp_from k q (u / 2)"
      by auto
    then show ?thesis using True by (intro exI [of _ "Suc j"]) simp
  next
    case False
    then show ?thesis using Suc.prems by (intro exI [of _ 0]) simp
  qed
qed auto

definition in_range :: "rat \<Rightarrow> bool" where
  "in_range q \<longleftrightarrow> 1 / 2 ^ 57 \<le> q \<and> q < 2 ^ 44"

lemma float_ulp_spec:
  assumes "in_range q"
  obtains j where "float_ulp q = 2 ^ 20 / 2 ^ j" "2 ^ 23 * float_ulp q \<le> q" "q < 2 ^ 24 * float_ulp q"
  using ulp_from_spec [of "2 ^ 20" q 100] assms that
  by (auto simp: float_ulp_def in_range_def)

lemma float_of_bounds:
  assumes "in_range q"
  shows "2 ^ 23 * float_ulp q \<le> float_of q" "float_of q \<le> 2 ^ 24 * float_ulp q"
proof -
  obtain j where j: "float_ulp q = 2 ^ 20 / 2 ^ j" "2 ^ 23 * float_ulp q \<le> q" "q < 2 ^ 24 * float_ulp q"
    by (rule float_ulp_spec [OF assms])
  have pos: "0 < float_ulp q" by (simp add: j(1))
  have "of_int (2 ^ 23) \<le> q / float_ulp q" "q / float_ulp q \<le> of_int (2 ^ 24)"
    using j(2,3) pos by (simp_all add: pos_le_divide_eq pos_divide_le_eq)
  then have "2 ^ 23 \<le> round_even (q / float_ulp q)" "round_even (q / float_ulp q) \<le> 2 ^ 24"
    using round_even_mono round_even_of_int by metis+
  then have "(2 ^ 23 :: rat) \<le> of_int (round_even (q / float_ulp q))" "of_int (round_even (q / float_ulp q)) \<le> (2 ^ 24 :: rat)"
    using of_int_le_iff [where 'a = rat, of "2 ^ 23"] of_int_le_iff [where 'a = rat, of _ "2 ^ 24"] by simp_all
  then show "2 ^ 23 * float_ulp q \<le> float_of q" "float_of q \<le> 2 ^ 24 * float_ulp q"
    using pos by (simp_all add: float_of_def)
qed

lemma float_of_mono:
  assumes "in_range p" "in_range q" "p \<le> q"
  shows "float_of p \<le> float_of q"
proof -
  obtain i where i: "float_ulp p = 2 ^ 20 / 2 ^ i" "2 ^ 23 * float_ulp p \<le> p" "p < 2 ^ 24 * float_ulp p"
    by (rule float_ulp_spec [OF assms(1)])
  obtain j where j: "float_ulp q = 2 ^ 20 / 2 ^ j" "2 ^ 23 * float_ulp q \<le> q" "q < 2 ^ 24 * float_ulp q"
    by (rule float_ulp_spec [OF assms(2)])
  have pos: "0 < float_ulp p" "0 < float_ulp q" by (simp_all add: i j)
  consider "i = j" | "j < i" | "i < j" by linarith
  then show ?thesis
  proof cases
    case 1
    then have u: "float_ulp p = float_ulp q" using i(1) j(1) by simp
    then have "p / float_ulp q \<le> q / float_ulp q" using assms(3) pos(2) by (simp add: divide_right_mono)
    from round_even_mono [OF this] show ?thesis
      using pos(2) by (simp add: float_of_def u mult_right_mono)
  next
    case 2
    then have "(2 :: rat) ^ Suc j \<le> 2 ^ i" by (intro power_increasing) simp_all
    then have "2 * float_ulp p \<le> float_ulp q" by (simp add: i(1) j(1) field_simps)
    then have "2 ^ 24 * float_ulp p \<le> 2 ^ 23 * float_ulp q" by simp
    then show ?thesis using float_of_bounds [OF assms(1)] float_of_bounds [OF assms(2)] by linarith
  next
    case 3
    then have "(2 :: rat) ^ Suc i \<le> 2 ^ j" by (intro power_increasing) simp_all
    then have "2 * float_ulp q \<le> float_ulp p" by (simp add: i(1) j(1) field_simps)
    then have "2 ^ 24 * float_ulp q \<le> 2 ^ 23 * float_ulp p" by simp
    then show ?thesis using i j assms(3) by linarith
  qed
qed

lemma float_of_0 [simp]: "float_of 0 = 0"
  using round_even_of_int [of 0] by (simp add: float_of_def)

lemma float_of_small:
  assumes "n < 2 ^ 24"
  shows "float_of (of_nat n) = of_nat n"
proof (cases "n = 0")
  case False
  have lt: "(of_nat n :: rat) < 2 ^ 24" using of_nat_less_iff [where 'a = rat, of n "2 ^ 24"] assms by simp
  have one: "1 \<le> (of_nat n :: rat)" using False by simp
  have r: "in_range (of_nat n)" using lt one by (simp add: in_range_def)
  obtain j where j: "float_ulp (of_nat n) = 2 ^ 20 / 2 ^ j" "2 ^ 23 * float_ulp (of_nat n) \<le> (of_nat n :: rat)"
      "of_nat n < 2 ^ 24 * (float_ulp (of_nat n) :: rat)"
    by (rule float_ulp_spec [OF r])
  have "20 \<le> j"
  proof (rule ccontr)
    assume "\<not> 20 \<le> j"
    then have "(2 :: rat) ^ Suc j \<le> 2 ^ 20" by (intro power_increasing) simp_all
    then have "2 \<le> (float_ulp (of_nat n) :: rat)" by (simp add: j(1) field_simps)
    then have "(2 ^ 24 :: rat) \<le> of_nat n" using j(2) by simp
    then show False using lt by linarith
  qed
  then obtain k where "j = 20 + k" using le_iff_add by blast
  then have u: "float_ulp (of_nat n) = 1 / (2 :: rat) ^ k" by (simp add: j(1) power_add)
  have "(of_nat n :: rat) / float_ulp (of_nat n) = of_int (int n * 2 ^ k)" by (simp add: u)
  then show ?thesis by (simp only: float_of_def round_even_of_int) (simp add: u)
qed simp


lemma float_of_near:
  assumes "in_range q"
  shows "q / 2 \<le> float_of q" "float_of q \<le> 2 * q"
proof -
  obtain j where j: "float_ulp q = 2 ^ 20 / 2 ^ j" "2 ^ 23 * float_ulp q \<le> q" "q < 2 ^ 24 * float_ulp q"
    by (rule float_ulp_spec [OF assms])
  then have "q / 2 \<le> 2 ^ 23 * float_ulp q" "2 ^ 24 * float_ulp q \<le> 2 * q" by simp_all
  then show "q / 2 \<le> float_of q" "float_of q \<le> 2 * q" using float_of_bounds [OF assms] by (blast intro: order_trans)+
qed

text \<open>The quotient of two whole numbers, the smaller by the larger, is at most 1, and in range.\<close>

lemma float_quotient:
  assumes "0 < a" "a \<le> b" "b < 2 ^ 32"
  shows "in_range (float_of (of_nat a) / float_of (of_nat b))" "float_of (of_nat a) / float_of (of_nat b) \<le> 1"
proof -
  have "of_nat b < (of_nat (2 ^ 32) :: rat)" using assms(3) by (simp only: of_nat_less_iff)
  then have b: "of_nat b < (2 ^ 32 :: rat)" by simp
  have ab: "1 \<le> (of_nat a :: rat)" "(of_nat a :: rat) \<le> of_nat b" using assms(1,2) by simp_all
  have r: "in_range (of_nat a)" "in_range (of_nat b)" "in_range 1" using ab b by (simp_all add: in_range_def)
  have one: "float_of 1 = 1" using float_of_small [of 1] by simp
  have fa: "1 \<le> float_of (of_nat a)" using float_of_mono [OF r(3,1) ab(1)] one by simp
  have fb: "float_of (of_nat a) \<le> float_of (of_nat b)" by (rule float_of_mono [OF r(1,2) ab(2)])
  have up: "float_of (of_nat b) \<le> 2 ^ 33" using float_of_near(2) [OF r(2)] b by simp
  show le: "float_of (of_nat a) / float_of (of_nat b) \<le> 1" using fa fb by (simp add: divide_le_eq)
  have "1 / 2 ^ 33 \<le> float_of (of_nat a) / float_of (of_nat b)" using fa fb up by (intro frac_le) simp_all
  moreover have "(1 :: rat) / 2 ^ 57 \<le> 1 / 2 ^ 33" by simp
  ultimately have "1 / 2 ^ 57 \<le> float_of (of_nat a) / float_of (of_nat b)" by (rule order_trans [rotated])
  then show "in_range (float_of (of_nat a) / float_of (of_nat b))" using le unfolding in_range_def by simp
qed

end
