(* ===== verification/Uptime.thy ===== *)
theory Uptime
  imports SysInfo Floats
begin

text \<open>
  \<^verbatim>\<open>procps/linux/uptime.c\<close>: the time since boot, read from \<^verbatim>\<open>/proc/uptime\<close>
  and printed in the long form of \<open>uptime\<close> and the short one of \<open>uptime -p\<close>.

  Seconds are rational numbers. The broken-down local time, the log-in records and the load
  averages are parameters. \<open>uphours\<close> is a local variable that the short form initialises only
  after the first hour: what it holds before is the parameter \<open>junk\<close>.
\<close>

definition count_users :: "(bool \<times> string) list \<Rightarrow> int" where
  "count_users utmp = int (length (filter (\<lambda>(user_process, name). user_process \<and> cstr name \<noteq> []) utmp))"

text \<open>\<open>Inl errno\<close>: the file cannot be opened. The value returned and the two numbers stored.\<close>

definition procps_uptime :: "int + string \<Rightarrow> int \<times> rat list" where
  "procps_uptime f =
     (case f of
        Inl errno \<Rightarrow> (- errno, [])
      | Inr t \<Rightarrow>
          let vs = sscanf ''%lf %lf'' t
          in (if length vs < 2 then - ERANGE else 0, assign [set_double 0, set_double 1] vs [0, 0]))"

definition trunc :: "rat \<Rightarrow> int" where
  "trunc x = (if x < 0 then - \<lfloor>- x\<rfloor> else \<lfloor>x\<rfloor>)"

definition pad_left :: "nat \<Rightarrow> char \<Rightarrow> string \<Rightarrow> string" where
  "pad_left n c s = replicate (n - length s) c @ s"

definition d2 :: "int \<Rightarrow> string" where
  "d2 i = pad_left 2 (CHR ''0'') (show_int i)"

definition w2 :: "int \<Rightarrow> string" where
  "w2 i = pad_left 2 (CHR '' '') (show_int i)"

text \<open>\<open>%.2f\<close>: rounded to the nearest hundredth (ties to even).\<close>

definition fixed2 :: "rat \<Rightarrow> string" where
  "fixed2 x =
     (let n = round_even (100 * \<bar>x\<bar>)
      in (if x < 0 then ''-'' else []) @ show_int (n div 100) @ ''.'' @ d2 (n mod 100))"

definition uptime_text :: "int \<Rightarrow> int \<Rightarrow> int \<Rightarrow> rat \<Rightarrow> int \<Rightarrow> rat list \<Rightarrow> string" where
  "uptime_text hour mint sec up users av =
     (let s = trunc up;
          updays = s div (60 * 60 * 24);
          uphours = s div (60 * 60) mod 24;
          upminutes = s div 60 mod 60
      in '' '' @ d2 hour @ '':'' @ d2 mint @ '':'' @ d2 sec @ '' up ''
         @ (if updays \<noteq> 0 then show_int updays @ '' '' @ (if 1 < updays then ''days'' else ''day'') @ '', '' else [])
         @ (if uphours \<noteq> 0 then w2 uphours @ '':'' @ d2 upminutes @ '', '' else show_int upminutes @ '' min, '')
         @ w2 users @ '' '' @ (if 1 < users then ''users'' else ''user'') @ '',  load average: ''
         @ fixed2 (av ! 0) @ '', '' @ fixed2 (av ! 1) @ '', '' @ fixed2 (av ! 2))"

subsection \<open>The short form\<close>

text \<open>One unit: its count, and the seconds left.\<close>

definition take_unit :: "int \<Rightarrow> int \<Rightarrow> rat \<Rightarrow> int \<times> rat" where
  "take_unit unit init secs =
     (if of_int unit < secs then (trunc secs div unit, secs - of_int (trunc secs div unit * unit))
      else (init, secs))"

record up_units =
  updecades :: int
  upyears :: int
  upweeks :: int
  updays :: int
  uphours :: int
  upminutes :: int
  uptime_secs :: rat

definition split_uptime :: "int \<Rightarrow> rat \<Rightarrow> up_units" where
  "split_uptime junk s0 =
     (case take_unit (60 * 60 * 24 * 365 * 10) 0 s0 of (dec, s1) \<Rightarrow>
      (case take_unit (60 * 60 * 24 * 365) 0 s1 of (yrs, s2) \<Rightarrow>
      (case take_unit (60 * 60 * 24 * 7) 0 s2 of (wks, s3) \<Rightarrow>
      (case take_unit (60 * 60 * 24) 0 s3 of (dys, s4) \<Rightarrow>
      (case take_unit (60 * 60) junk s4 of (hrs, s5) \<Rightarrow>
      (case take_unit 60 0 s5 of (mns, s6) \<Rightarrow>
         \<lparr>updecades = dec, upyears = yrs, upweeks = wks, updays = dys, uphours = hrs,
          upminutes = mns, uptime_secs = s6\<rparr>))))))"

definition up_part :: "bool \<Rightarrow> int \<Rightarrow> string \<Rightarrow> string \<Rightarrow> nat \<times> string \<Rightarrow> nat \<times> string" where
  "up_part present n one many st =
     (case st of
        (comma, out) \<Rightarrow>
          if present
          then (comma + 1, out @ (if 0 < comma then '', '' else []) @ show_int n @ '' '' @ (if n = 1 then one else many))
          else st)"

text \<open>
  For the first five units the plural is used above 1, for the minutes whenever the number is
  not 1.
\<close>

definition procps_uptime_sprint_short :: "int \<Rightarrow> int + string \<Rightarrow> string" where
  "procps_uptime_sprint_short junk f =
     (case procps_uptime f of
        (rc, av) \<Rightarrow>
          if rc < 0 then []
          else
            let u = split_uptime junk (av ! 0);
                plural = (\<lambda>n one many. if 1 < n then many else one);
                part = (\<lambda>n one many st. up_part (n \<noteq> 0) n (plural n one many) (plural n one many) st);
                st = part (uphours u) ''hour'' ''hours''
                      (part (updays u) ''day'' ''days''
                      (part (upweeks u) ''week'' ''weeks''
                      (part (upyears u) ''year'' ''years''
                      (part (updecades u) ''decade'' ''decades'' (0, ''up '')))))
            in snd (up_part (upminutes u \<noteq> 0 \<or> upminutes u = 0 \<and> uptime_secs u < 60)
                      (upminutes u) ''minute'' ''minutes'' st))"

definition procps_uptime_sprint ::
  "bool \<Rightarrow> int \<times> int \<times> int \<Rightarrow> int + string \<Rightarrow> (bool \<times> string) list \<Rightarrow> proc_read \<Rightarrow> int + string" where
  "procps_uptime_sprint time_ok hms f utmp load =
     (if \<not> time_ok then Inr []
      else case procps_uptime f of
             (rc, up) \<Rightarrow>
               if rc < 0 then Inr []
               else case procps_loadavg load of
                      Inl status \<Rightarrow> Inl status
                    | Inr (_, av) \<Rightarrow>
                        Inr (uptime_text (fst hms) (fst (snd hms)) (snd (snd hms)) (up ! 0) (count_users utmp) av))"

subsection \<open>Lemmas\<close>

lemma take_unit_total:
  assumes "take_unit unit 0 s = (n, s')" "0 \<le> s" "0 < unit"
  shows "s = of_int (n * unit) + s' \<and> 0 \<le> n \<and> 0 \<le> s' \<and> s' \<le> of_int unit"
proof (cases "of_int unit < s")
  case True
  let ?t = "trunc s"
  have t: "of_int ?t \<le> s" "s < of_int ?t + 1" "?t = \<lfloor>s\<rfloor>" using assms(2) floor_correct [of s] by (auto simp: trunc_def)
  have n: "n = ?t div unit" "s' = s - of_int (n * unit)" using assms(1) True by (auto simp: take_unit_def)
  have m: "?t = n * unit + ?t mod unit" "0 \<le> ?t mod unit" "?t mod unit < unit"
    using assms(3) n(1) by auto
  have "0 \<le> ?t" using t(3) assms(2) by simp
  then have "0 \<le> n" using n(1) assms(3) by (simp add: pos_imp_zdiv_nonneg_iff)
  have e: "(of_int ?t :: rat) = of_int (n * unit) + of_int (?t mod unit)" by (metis m(1) of_int_add)
  have "(of_int (?t mod unit) :: rat) \<le> of_int (unit - 1)" using m(3) by (simp only: of_int_le_iff)
  moreover have "(0 :: rat) \<le> of_int (?t mod unit)" using m(2) by (simp only: of_int_0_le_iff)
  ultimately have "0 \<le> s'" "s' \<le> of_int unit" using e t n(2) by (simp_all del: of_int_mult)
  with \<open>0 \<le> n\<close> n(2) show ?thesis by (simp del: of_int_mult)
next
  case False
  with assms show ?thesis by (auto simp: take_unit_def not_less)
qed

lemma take_unit_init: "0 < unit \<Longrightarrow> of_int unit < s \<Longrightarrow> take_unit unit i s = take_unit unit 0 s"
  by (simp add: take_unit_def)

text \<open>
  With \<open>uphours\<close> starting from 0 the six counts and the seconds left add up to the uptime
  exactly, and no count but the first exceeds what one of the next larger unit holds.
\<close>

theorem uptime_units_exact:
  assumes "0 \<le> s" and "split_uptime 0 s = u"
  shows "s = of_int (315360000 * updecades u + 31536000 * upyears u + 604800 * upweeks u + 86400 * updays u
              + 3600 * uphours u + 60 * upminutes u) + uptime_secs u \<and>
         0 \<le> updecades u \<and> 0 \<le> upyears u \<and> upyears u \<le> 10 \<and> 0 \<le> upweeks u \<and> upweeks u \<le> 52 \<and>
         0 \<le> updays u \<and> updays u \<le> 7 \<and> 0 \<le> uphours u \<and> uphours u \<le> 24 \<and>
         0 \<le> upminutes u \<and> upminutes u \<le> 60 \<and> 0 \<le> uptime_secs u \<and> uptime_secs u \<le> 60"
proof -
  obtain a s1 where 1: "take_unit 315360000 0 s = (a, s1)" by fastforce
  obtain b s2 where 2: "take_unit 31536000 0 s1 = (b, s2)" by fastforce
  obtain c s3 where 3: "take_unit 604800 0 s2 = (c, s3)" by fastforce
  obtain d s4 where 4: "take_unit 86400 0 s3 = (d, s4)" by fastforce
  obtain h s5 where 5: "take_unit 3600 0 s4 = (h, s5)" by fastforce
  obtain m s6 where 6: "take_unit 60 0 s5 = (m, s6)" by fastforce
  note u1 = take_unit_total [OF 1 assms(1), simplified]
  note u2 = take_unit_total [OF 2, simplified]
  note u3 = take_unit_total [OF 3, simplified]
  note u4 = take_unit_total [OF 4, simplified]
  note u5 = take_unit_total [OF 5, simplified]
  note u6 = take_unit_total [OF 6, simplified]
  have p: "0 \<le> s1" "0 \<le> s2" "0 \<le> s3" "0 \<le> s4" "0 \<le> s5" "0 \<le> s6"
    using u1 u2 u3 u4 u5 u6 by blast+
  have s1: "s = of_int a * 315360000 + s1" "0 \<le> a" "s1 \<le> 315360000" using u1 by simp_all
  have s2: "s1 = of_int b * 31536000 + s2" "0 \<le> b" "s2 \<le> 31536000" using u2 p by simp_all
  have s3: "s2 = of_int c * 604800 + s3" "0 \<le> c" "s3 \<le> 604800" using u3 p by simp_all
  have s4: "s3 = of_int d * 86400 + s4" "0 \<le> d" "s4 \<le> 86400" using u4 p by simp_all
  have s5: "s4 = of_int h * 3600 + s5" "0 \<le> h" "s5 \<le> 3600" using u5 p by simp_all
  have s6: "s5 = of_int m * 60 + s6" "0 \<le> m" "s6 \<le> 60" using u6 p by simp_all
  have le: "x \<le> k" if "of_int x * q + y = z" "0 \<le> y" "z < of_int (k + 1) * q" "0 < q"
    for x k :: int and y z q :: rat
  proof -
    have "of_int x * q < of_int (k + 1) * q" using that by linarith
    then have "(of_int x :: rat) < of_int (k + 1)" using that(4) by simp
    then show ?thesis by (simp only: of_int_less_iff)
  qed
  have bounds: "b \<le> 10" "c \<le> 52" "d \<le> 7" "h \<le> 24" "m \<le> 60"
    using le [of b 31536000 s2 s1 10] le [of c 604800 s3 s2 52] le [of d 86400 s4 s3 7]
      le [of h 3600 s5 s4 24] le [of m 60 s6 s5 60] s1 s2 s3 s4 s5 s6 p
    by simp_all
  have u: "u = \<lparr>updecades = a, upyears = b, upweeks = c, updays = d, uphours = h, upminutes = m, uptime_secs = s6\<rparr>"
    using assms(2) by (simp add: split_uptime_def 1 2 3 4 5 6)
  show ?thesis unfolding u using s1 s2 s3 s4 s5 s6 bounds p by simp
qed

text \<open>
  Up to one hour after boot the number of hours printed by the short form is the uninitialised
  variable: any value at all.
\<close>

theorem uphours_uninitialised:
  assumes "0 \<le> s" and "s \<le> 3600"
  shows "uphours (split_uptime junk s) = junk"
  using assms by (simp add: split_uptime_def take_unit_def case_prod_beta)

theorem uphours_uninitialised_witness:
  "uphours (split_uptime 32767 120) = 32767"
  by (rule uphours_uninitialised) simp_all

end
