(* ===== verification/Namespace.thy ===== *)
theory Namespace
  imports Prelude
begin

text \<open>
  \<^verbatim>\<open>procps/linux/namespace.c\<close> and \<^verbatim>\<open>wchan.c\<close>: the inode numbers of a process's
  namespaces, and the kernel function it sleeps in. What \<open>stat\<close> and \<open>read\<close> answer is a
  parameter.
\<close>

definition ns_names :: "string list" where
  "ns_names = [''ipc'', ''mnt'', ''net'', ''pid'', ''user'', ''uts'']"

definition PROCPS_NS_COUNT :: int where
  "PROCPS_NS_COUNT = 6"

definition procps_ns_get_name :: "int \<Rightarrow> string option" where
  "procps_ns_get_name nid =
     (if PROCPS_NS_COUNT \<le> nid \<or> nid < 0 then None else Some (ns_names ! nat nid))"

fun find_ns :: "string \<Rightarrow> int \<Rightarrow> string list \<Rightarrow> int" where
  "find_ns name i [] = - EINVAL"
| "find_ns name i (x # xs) = (if x = name then i else find_ns name (i + 1) xs)"

definition procps_ns_get_id :: "string option \<Rightarrow> int" where
  "procps_ns_get_id name = (case name of None \<Rightarrow> - EINVAL | Some s \<Rightarrow> find_ns s 0 ns_names)"

definition ns_file :: "int \<Rightarrow> string \<Rightarrow> string" where
  "ns_file pid name = snprintf_buf 64 (''/proc/'' @ show_int pid @ ''/ns/'' @ name)"

text \<open>The value returned and the numbers stored; \<open>ino\<close> is what \<open>stat\<close> says of a path.\<close>

definition procps_ns_read_pid :: "(string \<Rightarrow> ulong option) \<Rightarrow> int \<Rightarrow> ulong list option \<Rightarrow> int \<times> ulong list option" where
  "procps_ns_read_pid ino pid nsp =
     (case nsp of
        None \<Rightarrow> (- EINVAL, None)
      | Some old \<Rightarrow>
          if pid < 1 then (- EINVAL, Some old)
          else (0, Some (map (\<lambda>n. case ino (ns_file pid n) of Some i \<Rightarrow> i | None \<Rightarrow> 0) ns_names)))"

subsection \<open>Wait channels\<close>

text \<open>\<open>file p\<close>: what one \<open>read\<close> of the path returns; \<open>None\<close> if it cannot be opened.\<close>

definition lookup_wchan :: "(string \<Rightarrow> string option) \<Rightarrow> int \<Rightarrow> string" where
  "lookup_wchan file pid =
     (case file (snprintf_buf 64 (''/proc/'' @ show_int pid @ ''/wchan'')) of
        None \<Rightarrow> ''?''
      | Some t \<Rightarrow>
          let d = take 63 t
          in if d = [] then ''?''
             else let buf = cstr d
                  in if buf = ''0'' then ''-''
                     else dropWhile (\<lambda>c. c = CHR ''_'')
                            (if buf \<noteq> [] \<and> hd buf = CHR ''.'' then tl buf else buf))"

subsection \<open>Lemmas\<close>

text \<open>Names and numbers of the namespaces are inverse.\<close>

lemma ns_id_of_name:
  assumes "procps_ns_get_name nid = Some s"
  shows "procps_ns_get_id (Some s) = nid"
proof -
  have "nid \<in> set [0, 1, 2, 3, 4, 5]" using assms by (auto simp: procps_ns_get_name_def PROCPS_NS_COUNT_def split: if_splits)
  moreover have "list_all (\<lambda>i. procps_ns_get_id (procps_ns_get_name i) = i) [0, 1, 2, 3, 4, 5]"
    by code_simp
  ultimately have "procps_ns_get_id (procps_ns_get_name nid) = nid" by (simp only: list_all_iff)
  with assms show ?thesis by simp
qed

lemma ns_name_of_id: "0 \<le> procps_ns_get_id (Some s) \<Longrightarrow> procps_ns_get_name (procps_ns_get_id (Some s)) = Some s"
  by (auto simp: procps_ns_get_name_def procps_ns_get_id_def ns_names_def PROCPS_NS_COUNT_def EINVAL_def
      split: if_splits)

lemma dropWhile_clean: "dropWhile P xs = [] \<or> \<not> P (hd (dropWhile P xs))"
  by (induction xs) auto

lemma lookup_wchan_clean: "lookup_wchan file pid = [] \<or> hd (lookup_wchan file pid) \<noteq> CHR ''_''"
  using dropWhile_clean [where P = "\<lambda>c. c = CHR ''_''"]
  by (simp add: lookup_wchan_def Let_def split: option.split)

end
