(* ===== verification/ProcT.thy ===== *)
theory ProcT
  imports Namespace
begin

text \<open>
  The structure \<open>proc_t\<close> of \<^verbatim>\<open>procps/linux/proc/readproc.h\<close>: everything the
  library knows of a process. The fields have the C names with \<open>p_\<close> in front, in the C order,
  the padding left out.

  \<open>int\<close> fields are \<open>int\<close>, unsigned ones 64-bit words and ids 32-bit words. A
  \<open>char *\<close> is an optional string, a string vector an optional list of strings and the
  signal masks are the strings of their arrays. \<open>zero_proc\<close> is the structure cleared by
  \<open>memset\<close>.
\<close>

record proc_t =
  p_tid :: int
  p_ppid :: int
  p_state :: char
  p_utime :: ulong
  p_stime :: ulong
  p_cutime :: ulong
  p_cstime :: ulong
  p_start_time :: ulong
  p_blkio_tics :: ulong
  p_gtime :: ulong
  p_cgtime :: ulong
  p_pcpu :: int
  p_maj_delta :: int
  p_min_delta :: int
  p_signal :: string
  p_blocked :: string
  p_sigignore :: string
  p_sigcatch :: string
  p_sigpnd :: string
  p_start_code :: ulong
  p_end_code :: ulong
  p_start_stack :: ulong
  p_kstk_esp :: ulong
  p_kstk_eip :: ulong
  p_wchan :: ulong
  p_rss :: ulong
  p_alarm :: ulong
  p_priority :: int
  p_nice :: int
  p_size :: ulong
  p_resident :: ulong
  p_share :: ulong
  p_trs :: ulong
  p_lrs :: ulong
  p_drs :: ulong
  p_dt :: ulong
  p_vm_size :: ulong
  p_vm_lock :: ulong
  p_vm_rss :: ulong
  p_vm_rss_anon :: ulong
  p_vm_rss_file :: ulong
  p_vm_rss_shared :: ulong
  p_vm_data :: ulong
  p_vm_stack :: ulong
  p_vm_swap :: ulong
  p_vm_exe :: ulong
  p_vm_lib :: ulong
  p_vsize :: ulong
  p_rss_rlim :: ulong
  p_flags :: ulong
  p_min_flt :: ulong
  p_maj_flt :: ulong
  p_cmin_flt :: ulong
  p_cmaj_flt :: ulong
  p_rchar :: ulong
  p_wchar :: ulong
  p_syscr :: ulong
  p_syscw :: ulong
  p_read_bytes :: ulong
  p_write_bytes :: ulong
  p_cancelled_write_bytes :: ulong
  p_smap_Rss :: ulong
  p_smap_Pss :: ulong
  p_smap_Pss_Anon :: ulong
  p_smap_Pss_File :: ulong
  p_smap_Pss_Shmem :: ulong
  p_smap_Shared_Clean :: ulong
  p_smap_Shared_Dirty :: ulong
  p_smap_Private_Clean :: ulong
  p_smap_Private_Dirty :: ulong
  p_smap_Referenced :: ulong
  p_smap_Anonymous :: ulong
  p_smap_LazyFree :: ulong
  p_smap_AnonHugePages :: ulong
  p_smap_ShmemPmdMapped :: ulong
  p_smap_FilePmdMapped :: ulong
  p_smap_Shared_Hugetlb :: ulong
  p_smap_Private_Hugetlb :: ulong
  p_smap_Swap :: ulong
  p_smap_SwapPss :: ulong
  p_smap_Locked :: ulong
  p_environ :: "string option"
  p_cmdline :: "string option"
  p_cgroup :: "string option"
  p_cgname :: "string option"
  p_supgid :: "string option"
  p_supgrp :: "string option"
  p_environ_v :: "string list option"
  p_cmdline_v :: "string list option"
  p_cgroup_v :: "string list option"
  p_euser :: "string option"
  p_ruser :: "string option"
  p_suser :: "string option"
  p_fuser :: "string option"
  p_rgroup :: "string option"
  p_egroup :: "string option"
  p_sgroup :: "string option"
  p_fgroup :: "string option"
  p_cmd :: "string option"
  p_rtprio :: int
  p_sched :: int
  p_pgrp :: int
  p_session :: int
  p_nlwp :: int
  p_tgid :: int
  p_tty :: int
  p_euid :: uid_t
  p_egid :: uid_t
  p_ruid :: uid_t
  p_rgid :: uid_t
  p_suid :: uid_t
  p_sgid :: uid_t
  p_fuid :: uid_t
  p_fgid :: uid_t
  p_tpgid :: int
  p_exit_signal :: int
  p_processor :: int
  p_oom_score :: int
  p_oom_adj :: int
  p_ns :: "ulong list"
  p_sd_mach :: "string option"
  p_sd_ouid :: "string option"
  p_sd_seat :: "string option"
  p_sd_sess :: "string option"
  p_sd_slice :: "string option"
  p_sd_unit :: "string option"
  p_sd_uunit :: "string option"
  p_lxcname :: "string option"
  p_exe :: "string option"
  p_luid :: int
  p_autogrp_id :: int
  p_autogrp_nice :: int

definition zero_proc :: proc_t where
  "zero_proc =
     \<lparr>p_tid = 0, p_ppid = 0, p_state = NUL, p_utime = 0, p_stime = 0, p_cutime = 0,
      p_cstime = 0, p_start_time = 0, p_blkio_tics = 0, p_gtime = 0, p_cgtime = 0, p_pcpu = 0,
      p_maj_delta = 0, p_min_delta = 0, p_signal = [], p_blocked = [], p_sigignore = [],
      p_sigcatch = [], p_sigpnd = [], p_start_code = 0, p_end_code = 0, p_start_stack = 0,
      p_kstk_esp = 0, p_kstk_eip = 0, p_wchan = 0, p_rss = 0, p_alarm = 0, p_priority = 0,
      p_nice = 0, p_size = 0, p_resident = 0, p_share = 0, p_trs = 0, p_lrs = 0, p_drs = 0,
      p_dt = 0, p_vm_size = 0, p_vm_lock = 0, p_vm_rss = 0, p_vm_rss_anon = 0,
      p_vm_rss_file = 0, p_vm_rss_shared = 0, p_vm_data = 0, p_vm_stack = 0, p_vm_swap = 0,
      p_vm_exe = 0, p_vm_lib = 0, p_vsize = 0, p_rss_rlim = 0, p_flags = 0, p_min_flt = 0,
      p_maj_flt = 0, p_cmin_flt = 0, p_cmaj_flt = 0, p_rchar = 0, p_wchar = 0, p_syscr = 0,
      p_syscw = 0, p_read_bytes = 0, p_write_bytes = 0, p_cancelled_write_bytes = 0,
      p_smap_Rss = 0, p_smap_Pss = 0, p_smap_Pss_Anon = 0, p_smap_Pss_File = 0,
      p_smap_Pss_Shmem = 0, p_smap_Shared_Clean = 0, p_smap_Shared_Dirty = 0,
      p_smap_Private_Clean = 0, p_smap_Private_Dirty = 0, p_smap_Referenced = 0,
      p_smap_Anonymous = 0, p_smap_LazyFree = 0, p_smap_AnonHugePages = 0,
      p_smap_ShmemPmdMapped = 0, p_smap_FilePmdMapped = 0, p_smap_Shared_Hugetlb = 0,
      p_smap_Private_Hugetlb = 0, p_smap_Swap = 0, p_smap_SwapPss = 0, p_smap_Locked = 0,
      p_environ = None, p_cmdline = None, p_cgroup = None, p_cgname = None, p_supgid = None,
      p_supgrp = None, p_environ_v = None, p_cmdline_v = None, p_cgroup_v = None,
      p_euser = None, p_ruser = None, p_suser = None, p_fuser = None, p_rgroup = None,
      p_egroup = None, p_sgroup = None, p_fgroup = None, p_cmd = None, p_rtprio = 0,
      p_sched = 0, p_pgrp = 0, p_session = 0, p_nlwp = 0, p_tgid = 0, p_tty = 0, p_euid = 0,
      p_egid = 0, p_ruid = 0, p_rgid = 0, p_suid = 0, p_sgid = 0, p_fuid = 0, p_fgid = 0,
      p_tpgid = 0, p_exit_signal = 0, p_processor = 0, p_oom_score = 0, p_oom_adj = 0,
      p_ns = [0, 0, 0, 0, 0, 0], p_sd_mach = None, p_sd_ouid = None, p_sd_seat = None,
      p_sd_sess = None, p_sd_slice = None, p_sd_unit = None, p_sd_uunit = None,
      p_lxcname = None, p_exe = None, p_luid = 0, p_autogrp_id = 0, p_autogrp_nice = 0\<rparr>"

text \<open>
  What a parser does: it fills the structure (the C function returns 0), it runs out of memory
  (it returns 1), or it leaves the memory it may touch.
\<close>

datatype 'a outcome = Done 'a | NoMem | Undef

definition bind_outcome :: "'a outcome \<Rightarrow> ('a \<Rightarrow> 'b outcome) \<Rightarrow> 'b outcome" where
  "bind_outcome r f = (case r of Done x \<Rightarrow> f x | NoMem \<Rightarrow> NoMem | Undef \<Rightarrow> Undef)"

text \<open>
  \<open>free_acquired\<close>: the strings it frees are given back, in order, and the structure is cleared
  (the strings not in the list are not freed here: the caller has moved them away).
\<close>

definition free_acquired :: "proc_t \<Rightarrow> string list \<times> proc_t" where
  "free_acquired p =
     (List.map_filter (\<lambda>x. x)
        [p_cgname p, p_cgroup p, p_cmd p, p_sd_mach p, p_sd_ouid p, p_sd_seat p, p_sd_sess p,
         p_sd_slice p, p_sd_unit p, p_sd_uunit p, p_supgid p],
      zero_proc)"

end
