(* ===== verification/StatusParse.thy ===== *)
theory StatusParse
  imports ProcT Escape Scanf
begin

text \<open>
  The parser of \<^verbatim>\<open>/proc/<pid>/status\<close>: \<open>status2proc\<close> of
  \<^verbatim>\<open>procps/linux/readproc.c\<close>. It recognises the field names with a perfect hash and
  jumps to the code for the field.

  The text is the C string the buffer holds and a pointer into it is a suffix. The outcomes are
  \<open>Done\<close>, \<open>NoMem\<close> (the function returns 1) and \<open>Undef\<close>, which stands for the \<open>memcpy\<close>
  of 16 bytes of a shorter text and for the jump through the null address of an empty table
  entry (for a line that starts with a colon). \<open>mem s\<close> says whether the copy of a string can be allocated,
  \<open>enc\<close> is the locale's character set.
\<close>

subsection \<open>The hash table\<close>

definition GPERF_TABLE_SIZE :: nat where
  "GPERF_TABLE_SIZE = 128"

definition asso :: "nat list" where
  "asso =
    [101, 101, 101, 101, 101, 101, 101, 101, 101, 101, 101, 101, 101, 101, 101, 101, 101, 101,
     101, 101, 101, 101, 101, 101, 101, 101, 101, 101, 101, 101, 101, 101, 101, 101, 101, 101,
     101, 101, 101, 101, 101, 101, 101, 101, 101, 101, 101, 101, 101, 101, 101, 101, 101, 101,
     101, 101, 101, 101, 6, 101, 101, 101, 101, 101, 101, 45, 55, 25, 31, 50, 50, 10, 0, 35,
     101, 101, 21, 101, 30, 101, 20, 36, 0, 5, 0, 40, 0, 0, 101, 101, 101, 101, 101, 101, 101,
     101, 101, 30, 101, 15, 0, 1, 101, 10, 101, 10, 101, 101, 101, 25, 101, 40, 0, 101, 0, 50,
     6, 40, 101, 1, 35, 101, 101, 101, 101, 101, 101, 101]"

definition status_table :: "string list" where
  "status_table =
    [''VmHWM'', ''Threads'', [], [], [], ''VmRSS'', ''VmSwap'', [], [], [], ''Tgid'', ''VmStk'',
     [], [], [], ''VmSize'', ''Gid'', [], [], [], ''VmPTE'', ''VmPeak'', [], [], [], ''ShdPnd'',
     ''Pid'', [], [], [], ''PPid'', ''VmLib'', [], [], [], ''SigPnd'', ''VmLck'', [], [], [],
     ''SigCgt'', ''State'', [], [], [], ''CapPrm'', ''Uid'', [], [], [], ''SigIgn'', ''SigQ'',
     [], [], [], ''RssShmem'', ''Name'', [], [], [], ''CapInh'', ''VmData'', [], [], [],
     ''FDSize'', [], [], [], [], ''SigBlk'', [], [], [], [], ''CapEff'', [], [], [], [],
     ''CapBnd'', [], [], [], [], ''VmExe'', [], [], [], [], ''Groups'', [], [], [], [],
     ''RssAnon'', [], [], [], [], ''RssFile'']
    @ replicate 27 []"

definition asso_at :: "char \<Rightarrow> nat" where
  "asso_at c = asso ! (byte c mod 128)"

definition status_hash :: "string \<Rightarrow> nat" where
  "status_hash S = (asso_at (S ! 3) + asso_at (S ! 2) + asso_at (S ! 0)) mod GPERF_TABLE_SIZE"

subsection \<open>The fields\<close>

text \<open>The structure being filled and the three local variables.\<close>

record status_acc =
  sa_proc :: proc_t
  sa_Threads :: int
  sa_Tgid :: int
  sa_Pid :: int

definition upd :: "(proc_t \<Rightarrow> proc_t) \<Rightarrow> status_acc \<Rightarrow> status_acc" where
  "upd f st = st\<lparr>sa_proc := f (sa_proc st)\<rparr>"

datatype step_result = Next string status_acc | StepNoMemory | StepOverread

text \<open>
  The name: at most 63 bytes up to the newline, a backslash standing for a newline when \<open>n\<close>
  follows and for the byte after it otherwise. The text left starts at the byte that ended the
  loop, or at the last one taken (\<open>prev\<close>) when the room ran out.
\<close>

fun name_scan :: "nat \<Rightarrow> char \<Rightarrow> string \<Rightarrow> string \<times> string" where
  "name_scan 0 prev S = ([], prev # S)"
| "name_scan (Suc k) prev [] = ([], [])"
| "name_scan (Suc k) prev (c # S) =
     (if c = newline then ([], c # S)
      else if c = backslash then
        (case S of
           [] \<Rightarrow> ([], [])
         | d # S' \<Rightarrow>
             if d = newline then ([], d # S')
             else (case name_scan k d S' of
                     (raw, r) \<Rightarrow> ((if d = CHR ''n'' then newline else d) # raw, r)))
      else (case name_scan k c S of (raw, r) \<Rightarrow> (c # raw, r)))"

definition case_Name :: "string option \<Rightarrow> (string \<Rightarrow> bool) \<Rightarrow> string \<Rightarrow> status_acc \<Rightarrow> step_result" where
  "case_Name enc mem S st =
     (case name_scan 63 tab S of
        (raw, S') \<Rightarrow>
          if p_cmd (sa_proc st) = None then
            (case escape_str enc [] (cstr raw) 64 of
               None \<Rightarrow> StepOverread
             | Some (buf, _) \<Rightarrow>
                 if mem buf then Next S' (upd (\<lambda>p. p\<lparr>p_cmd := Some buf\<rparr>) st) else StepNoMemory)
          else Next S' st)"

definition copy_mask :: "(string \<Rightarrow> proc_t \<Rightarrow> proc_t) \<Rightarrow> string \<Rightarrow> status_acc \<Rightarrow> step_result" where
  "copy_mask f S st =
     (if length S < 16 then StepOverread else Next S (upd (f (take 16 S)) st))"

definition case_Groups :: "(string \<Rightarrow> bool) \<Rightarrow> string \<Rightarrow> status_acc \<Rightarrow> step_result" where
  "case_Groups mem S st =
     (let ss = dropWhile (\<lambda>c. c = CHR '' '' \<or> c = tab) S
      in case strchr S newline of
           None \<Rightarrow> Next S st
         | Some nl \<Rightarrow>
             if length ss \<le> length nl then Next S st
             else
               let j = length ss - length nl
               in if INT_MAX \<le> int j then Next S st
                  else
                    let g = take j ss;
                        g' = (if last g = CHR '' '' then butlast g else g);
                        g'' = take 1 g' @ map (\<lambda>c. if c = CHR '' '' then CHR '','' else c) (drop 1 g')
                    in if mem g then Next S (upd (\<lambda>p. p\<lparr>p_supgid := Some g''\<rparr>) st) else StepNoMemory)"

text \<open>The fields read with \<open>strtol\<close>: what each successive number is assigned to.\<close>

definition numeric_field :: "string \<Rightarrow> (int \<Rightarrow> status_acc \<Rightarrow> status_acc) list" where
  "numeric_field nm =
     (if nm = ''Tgid'' then [\<lambda>v st. st\<lparr>sa_Tgid := v\<rparr>]
      else if nm = ''Pid'' then [\<lambda>v st. st\<lparr>sa_Pid := v\<rparr>]
      else if nm = ''PPid'' then [\<lambda>v. upd (\<lambda>p. p\<lparr>p_ppid := cast_int v\<rparr>)]
      else if nm = ''Threads'' then [\<lambda>v st. st\<lparr>sa_Threads := v\<rparr>]
      else if nm = ''Uid'' then
        [\<lambda>v. upd (\<lambda>p. p\<lparr>p_ruid := word_of_int v\<rparr>), \<lambda>v. upd (\<lambda>p. p\<lparr>p_euid := word_of_int v\<rparr>),
         \<lambda>v. upd (\<lambda>p. p\<lparr>p_suid := word_of_int v\<rparr>), \<lambda>v. upd (\<lambda>p. p\<lparr>p_fuid := word_of_int v\<rparr>)]
      else if nm = ''Gid'' then
        [\<lambda>v. upd (\<lambda>p. p\<lparr>p_rgid := word_of_int v\<rparr>), \<lambda>v. upd (\<lambda>p. p\<lparr>p_egid := word_of_int v\<rparr>),
         \<lambda>v. upd (\<lambda>p. p\<lparr>p_sgid := word_of_int v\<rparr>), \<lambda>v. upd (\<lambda>p. p\<lparr>p_fgid := word_of_int v\<rparr>)]
      else if nm = ''VmData'' then [\<lambda>v. upd (\<lambda>p. p\<lparr>p_vm_data := word_of_int v\<rparr>)]
      else if nm = ''VmExe'' then [\<lambda>v. upd (\<lambda>p. p\<lparr>p_vm_exe := word_of_int v\<rparr>)]
      else if nm = ''VmLck'' then [\<lambda>v. upd (\<lambda>p. p\<lparr>p_vm_lock := word_of_int v\<rparr>)]
      else if nm = ''VmLib'' then [\<lambda>v. upd (\<lambda>p. p\<lparr>p_vm_lib := word_of_int v\<rparr>)]
      else if nm = ''VmRSS'' then [\<lambda>v. upd (\<lambda>p. p\<lparr>p_vm_rss := word_of_int v\<rparr>)]
      else if nm = ''RssAnon'' then [\<lambda>v. upd (\<lambda>p. p\<lparr>p_vm_rss_anon := word_of_int v\<rparr>)]
      else if nm = ''RssFile'' then [\<lambda>v. upd (\<lambda>p. p\<lparr>p_vm_rss_file := word_of_int v\<rparr>)]
      else if nm = ''RssShmem'' then [\<lambda>v. upd (\<lambda>p. p\<lparr>p_vm_rss_shared := word_of_int v\<rparr>)]
      else if nm = ''VmSize'' then [\<lambda>v. upd (\<lambda>p. p\<lparr>p_vm_size := word_of_int v\<rparr>)]
      else if nm = ''VmStk'' then [\<lambda>v. upd (\<lambda>p. p\<lparr>p_vm_stack := word_of_int v\<rparr>)]
      else if nm = ''VmSwap'' then [\<lambda>v. upd (\<lambda>p. p\<lparr>p_vm_swap := word_of_int v\<rparr>)]
      else [])"

fun read_longs :: "(int \<Rightarrow> 'a \<Rightarrow> 'a) list \<Rightarrow> string \<Rightarrow> 'a \<Rightarrow> string \<times> 'a" where
  "read_longs [] S st = (S, st)"
| "read_longs (f # fs) S st = (case strtol S of (v, S') \<Rightarrow> read_longs fs S' (f v st))"

text \<open>
  The code after the jump. The fields without a case of their own (\<open>CapBnd\<close>,
  \<open>CapEff\<close>, \<open>CapInh\<close>, \<open>CapPrm\<close>, \<open>FDSize\<close>, \<open>SigQ\<close>, \<open>VmHWM\<close>, \<open>VmPTE\<close>,
  \<open>VmPeak\<close>) are left alone, which is \<open>read_longs\<close> with nothing to assign.
\<close>

definition status_case ::
  "string option \<Rightarrow> (string \<Rightarrow> bool) \<Rightarrow> string \<Rightarrow> string \<Rightarrow> status_acc \<Rightarrow> step_result" where
  "status_case enc mem nm S st =
     (if nm = ''Name'' then case_Name enc mem S st
      else if nm = ''ShdPnd'' then copy_mask (\<lambda>m p. p\<lparr>p_signal := m\<rparr>) S st
      else if nm = ''SigBlk'' then copy_mask (\<lambda>m p. p\<lparr>p_blocked := m\<rparr>) S st
      else if nm = ''SigCgt'' then copy_mask (\<lambda>m p. p\<lparr>p_sigcatch := m\<rparr>) S st
      else if nm = ''SigIgn'' then copy_mask (\<lambda>m p. p\<lparr>p_sigignore := m\<rparr>) S st
      else if nm = ''SigPnd'' then copy_mask (\<lambda>m p. p\<lparr>p_sigpnd := m\<rparr>) S st
      else if nm = ''State'' then
        Next S (upd (\<lambda>p. p\<lparr>p_state := (case S of [] \<Rightarrow> NUL | c # _ \<Rightarrow> c)\<rparr>) st)
      else if nm = ''Groups'' then case_Groups mem S st
      else (case read_longs (numeric_field nm) S st of (S', st') \<Rightarrow> Next S' st'))"

lemma name_scan_length: "length (snd (name_scan k prev S)) \<le> Suc (length S)"
proof (induction k prev S rule: name_scan.induct)
  case (3 k prev c S)
  show ?case
  proof (cases "c = backslash \<and> S \<noteq> []")
    case True
    then obtain d S' where "S = d # S'" by (cases S) auto
    with 3 True show ?thesis by (auto simp: le_SucI split: prod.split)
  next
    case False
    with 3 show ?thesis by (auto split: prod.split list.split)
  qed
qed simp_all

lemma read_longs_length: "length (fst (read_longs fs S st)) \<le> length S"
proof (induction fs S st rule: read_longs.induct)
  case (2 f fs S st)
  obtain v S' where s: "strtol S = (v, S')" by fastforce
  with strtol_length [of S] have "length S' \<le> length S" by simp
  with 2 [OF s [symmetric]] s show ?case by simp
qed simp

lemma status_case_length: "status_case enc mem nm S st = Next S' st' \<Longrightarrow> length S' \<le> Suc (length S)"
  using name_scan_length [of 63 tab S] read_longs_length [of "numeric_field nm" S st]
  by (auto simp: status_case_def case_Name_def copy_mask_def case_Groups_def Let_def
      split: if_splits prod.splits option.splits)

subsection \<open>The loop over the lines\<close>

lemma strchr_tl_length: "strchr S c = Some l \<Longrightarrow> length (tl l) < length S"
  using strchr_length [of S c l] by (cases l) (auto dest: strchr_SomeD)

function status_loop ::
  "string option \<Rightarrow> (string \<Rightarrow> bool) \<Rightarrow> string \<Rightarrow> status_acc \<Rightarrow> status_acc outcome" where
  "status_loop enc mem S st =
     (if length S < 4 then Done st
      else
        let nm = status_table ! status_hash S
        in case strchr S (CHR '':'') of
             None \<Rightarrow> Done st
           | Some colon \<Rightarrow>
               (case tl colon of
                  [] \<Rightarrow> Done st
                | t # body \<Rightarrow>
                    if t \<noteq> tab then Done st
                    else if length S - length colon \<noteq> length nm \<or> take (length nm) S \<noteq> nm then
                      (case strchr S newline of
                         None \<Rightarrow> Done st
                       | Some l \<Rightarrow> status_loop enc mem (tl l) st)
                    else if nm = [] then Undef
                    else
                      (case status_case enc mem nm body st of
                         StepNoMemory \<Rightarrow> NoMem
                       | StepOverread \<Rightarrow> Undef
                       | Next S' st' \<Rightarrow>
                           (case strchr S' newline of
                              None \<Rightarrow> Done st'
                            | Some l \<Rightarrow> status_loop enc mem (tl l) st'))))"
  by pat_completeness auto
termination
proof (relation "measure (\<lambda>(enc, mem, S, st). length S)", goal_cases)
  case 1
  then show ?case by simp
next
  case (2 enc mem S st nm colon t body l)
  then show ?case using strchr_tl_length by simp
next
  case (3 enc mem S st nm colon t body S' st' l)
  have "Suc (Suc (length body)) \<le> length S"
    using strchr_length [OF 3(3)] 3(4) by (cases colon) auto
  moreover have "length S' \<le> Suc (length body)" using status_case_length [OF 3(8)] .
  ultimately show ?case using strchr_tl_length [OF 3(9)] by simp
qed

declare status_loop.simps [simp del]

text \<open>After the last line: pending signals, the ids, and the list of groups.\<close>

definition status_finish :: "(string \<Rightarrow> bool) \<Rightarrow> bool \<Rightarrow> status_acc \<Rightarrow> proc_t outcome" where
  "status_finish mem is_proc st =
     (let p0 = sa_proc st;
          p1 = (if \<not> is_proc \<or> p_signal p0 = [] then p0\<lparr>p_signal := p_sigpnd p0\<rparr> else p0);
          p2 = (if sa_Threads st \<noteq> 0
                then p1\<lparr>p_nlwp := cast_int (sa_Threads st), p_tgid := cast_int (sa_Tgid st),
                        p_tid := cast_int (sa_Pid st)\<rparr>
                else p1\<lparr>p_nlwp := 1, p_tgid := cast_int (sa_Pid st), p_tid := cast_int (sa_Pid st)\<rparr>)
      in if p_supgid p2 = None then (if mem ''-'' then Done (p2\<lparr>p_supgid := Some ''-''\<rparr>) else NoMem)
         else Done p2)"

definition status2proc ::
  "string option \<Rightarrow> (string \<Rightarrow> bool) \<Rightarrow> string \<Rightarrow> proc_t \<Rightarrow> bool \<Rightarrow> proc_t outcome" where
  "status2proc enc mem S P is_proc =
     bind_outcome (status_loop enc mem S \<lparr>sa_proc = P, sa_Threads = 0, sa_Tgid = 0, sa_Pid = 0\<rparr>)
       (status_finish mem is_proc)"

subsection \<open>Lemmas: the hash\<close>

definition field_names :: "string list" where
  "field_names = filter (\<lambda>nm. nm \<noteq> []) status_table"

lemma field_names_hash:
  "list_all (\<lambda>nm. status_table ! status_hash (nm @ '':'') = nm \<and> 3 \<le> length nm \<and>
                 CHR '':'' \<notin> set nm \<and> newline \<notin> set nm) field_names"
  by code_simp

lemma length_status_table: "length status_table = GPERF_TABLE_SIZE"
  by code_simp

lemma status_hash_append: "4 \<le> length a \<Longrightarrow> status_hash (a @ b) = status_hash a"
  by (cases a) (simp_all add: status_hash_def nth_append)

lemma status_hash_less: "status_hash S < length status_table"
  by (simp add: length_status_table status_hash_def GPERF_TABLE_SIZE_def)

lemma field_nameD:
  assumes "nm \<in> set field_names"
  shows "status_table ! status_hash (nm @ CHR '':'' # r) = nm" "3 \<le> length nm"
    "CHR '':'' \<notin> set nm" "newline \<notin> set nm"
proof -
  have a: "status_table ! status_hash (nm @ '':'') = nm \<and> 3 \<le> length nm \<and>
           CHR '':'' \<notin> set nm \<and> newline \<notin> set nm"
    using field_names_hash assms unfolding list_all_iff by blast
  then show "3 \<le> length nm" "CHR '':'' \<notin> set nm" "newline \<notin> set nm" by auto
  have "nm @ CHR '':'' # r = (nm @ '':'') @ r" by simp
  moreover have "4 \<le> length (nm @ '':'')" using a by simp
  ultimately have "status_hash (nm @ CHR '':'' # r) = status_hash (nm @ '':'')"
    using status_hash_append by metis
  with a show "status_table ! status_hash (nm @ CHR '':'' # r) = nm" by simp
qed

definition resume :: "string option \<Rightarrow> (string \<Rightarrow> bool) \<Rightarrow> step_result \<Rightarrow> status_acc outcome" where
  "resume enc mem r =
     (case r of
        StepNoMemory \<Rightarrow> NoMem
      | StepOverread \<Rightarrow> Undef
      | Next S st \<Rightarrow> (case strchr S newline of None \<Rightarrow> Done st | Some l \<Rightarrow> status_loop enc mem (tl l) st))"

lemma loop_known:
  assumes "nm \<in> set field_names"
  shows "status_loop enc mem (nm @ CHR '':'' # tab # body) st = resume enc mem (status_case enc mem nm body st)"
proof -
  note f = field_nameD [OF assms]
  have "strchr (nm @ CHR '':'' # tab # body) (CHR '':'') = Some (CHR '':'' # tab # body)"
    using f(3) by (rule strchr_append)
  moreover have "nm \<noteq> []" using f(2) by auto
  ultimately show ?thesis
    using f(1) [of "tab # body"] f(2)
    by (simp add: status_loop.simps [of _ _ "nm @ CHR '':'' # tab # body"] Let_def resume_def)
qed

lemma loop_skip:
  assumes "4 \<le> length S" "strchr S (CHR '':'') = Some (c # tab # body)" "strchr S newline = Some l"
    "length S - length (c # tab # body) \<noteq> length (status_table ! status_hash S) \<or>
     take (length (status_table ! status_hash S)) S \<noteq> status_table ! status_hash S"
  shows "status_loop enc mem S st = status_loop enc mem (tl l) st"
  using assms by (subst status_loop.simps) (simp only: Let_def, simp)

lemma loop_unknown:
  assumes "nm \<notin> set field_names" "nm \<noteq> []" "CHR '':'' \<notin> set nm" "newline \<notin> set nm" "newline \<notin> set body"
  shows "status_loop enc mem (nm @ CHR '':'' # tab # body @ newline # rest) st = status_loop enc mem rest st"
proof -
  let ?S = "nm @ CHR '':'' # tab # body @ newline # rest"
  let ?e = "status_table ! status_hash ?S"
  have c: "strchr ?S (CHR '':'') = Some (CHR '':'' # tab # body @ newline # rest)"
    using assms(3) by (rule strchr_append)
  have n: "strchr ?S newline = Some (newline # rest)"
    using strchr_append [of newline "nm @ CHR '':'' # tab # body" rest] assms(4,5) by simp
  have "?e = [] \<or> ?e \<in> set field_names"
    using status_hash_less [of ?S] by (auto simp: field_names_def)
  with assms(1,2) have ne: "length nm \<noteq> length ?e \<or> take (length ?e) ?S \<noteq> ?e" by auto
  have len: "4 \<le> length ?S" using assms(2) by (cases nm) auto
  have "length ?S - length (CHR '':'' # tab # body @ newline # rest) = length nm" by simp
  with ne have "length ?S - length (CHR '':'' # tab # body @ newline # rest) \<noteq> length ?e \<or> take (length ?e) ?S \<noteq> ?e"
    by metis
  from loop_skip [OF len c n this] show ?thesis by simp
qed

lemma resume_line:
  "newline \<notin> set a \<Longrightarrow> resume enc mem (Next (a @ newline # rest) st) = status_loop enc mem rest st"
  by (simp add: resume_def strchr_append)

subsection \<open>The kernel's format\<close>

text \<open>The lines of the file as the kernel prints them, and what each means.\<close>

datatype kline =
    KName string
  | KState char string
  | KIds bool uid_t uid_t uid_t uid_t
  | KNum string nat nat string
  | KMask string string
  | KGroups "uid_t list"
  | KOther string string

definition escape_name_char :: "char \<Rightarrow> string" where
  "escape_name_char c = (if c = newline then [backslash, CHR ''n'']
     else if c = backslash then [backslash, backslash] else [c])"

definition escape_name :: "string \<Rightarrow> string" where
  "escape_name s = concat (map escape_name_char s)"

definition status_text :: "string \<Rightarrow> string \<Rightarrow> string" where
  "status_text nm body = nm @ CHR '':'' # tab # body @ [newline]"

definition show_ids :: "uid_t \<Rightarrow> uid_t \<Rightarrow> uid_t \<Rightarrow> uid_t \<Rightarrow> string" where
  "show_ids a b c d = show_nat (unat a) @ tab # show_nat (unat b) @ tab # show_nat (unat c) @ tab # show_nat (unat d)"

definition show_groups :: "uid_t list \<Rightarrow> string" where
  "show_groups gs = (if gs = [] then '' '' else concat (map (\<lambda>g. show_nat (unat g) @ '' '') gs))"

fun kline_text :: "kline \<Rightarrow> string" where
  "kline_text (KName comm) = status_text ''Name'' (escape_name comm)"
| "kline_text (KState c r) = status_text ''State'' (c # r)"
| "kline_text (KIds u a b c d) = status_text (if u then ''Uid'' else ''Gid'') (show_ids a b c d)"
| "kline_text (KNum nm k n sfx) = status_text nm (replicate k (CHR '' '') @ show_nat n @ sfx)"
| "kline_text (KMask nm m) = status_text nm m"
| "kline_text (KGroups gs) = status_text ''Groups'' (show_groups gs)"
| "kline_text (KOther nm body) = status_text nm body"

definition mask_names :: "string list" where
  "mask_names = [''ShdPnd'', ''SigBlk'', ''SigCgt'', ''SigIgn'', ''SigPnd'']"

definition number_names :: "string list" where
  "number_names = [''Tgid'', ''Pid'', ''PPid'', ''Threads'', ''VmData'', ''VmExe'', ''VmLck'', ''VmLib'', ''VmRSS'',
     ''RssAnon'', ''RssFile'', ''RssShmem'', ''VmSize'', ''VmStk'', ''VmSwap'']"

text \<open>
  The names whose lines mean something. A line with any other name is in the format too, one that
  \<open>status2proc\<close> does not know (\<open>Umask\<close>) and one it knows and ignores (\<open>FDSize\<close>, \<open>SigQ\<close>, \<open>VmPeak\<close>) alike.
\<close>

definition taken_names :: "string list" where
  "taken_names = ''Name'' # ''State'' # ''Uid'' # ''Gid'' # ''Groups'' # mask_names @ number_names"

fun kline_ok :: "kline \<Rightarrow> bool" where
  "kline_ok (KName comm) = (length comm \<le> 63 \<and> NUL \<notin> set comm)"
| "kline_ok (KState c r) = (newline \<notin> set (c # r))"
| "kline_ok (KIds u a b c d) = True"
| "kline_ok (KNum nm k n sfx) = (nm \<in> set number_names \<and> n < 2 ^ 63 \<and> ends_number sfx \<and> newline \<notin> set sfx)"
| "kline_ok (KMask nm m) = (nm \<in> set mask_names \<and> length m = 16 \<and> newline \<notin> set m)"
| "kline_ok (KGroups gs) = (int (length (show_groups gs)) < INT_MAX)"
| "kline_ok (KOther nm body) =
     (nm \<notin> set taken_names \<and> nm \<noteq> [] \<and> CHR '':'' \<notin> set nm \<and> newline \<notin> set (nm @ body))"

definition command_of :: "string option \<Rightarrow> string \<Rightarrow> string" where
  "command_of enc raw = fst (the (escape_str enc [] raw 64))"

fun comma_groups :: "uid_t list \<Rightarrow> string" where
  "comma_groups [] = []"
| "comma_groups [g] = show_nat (unat g)"
| "comma_groups (g # g' # gs) = show_nat (unat g) @ CHR '','' # comma_groups (g' # gs)"

text \<open>What a number means: the ids, the thread count and the sizes in kB.\<close>

definition size_fields :: "(string \<times> (ulong \<Rightarrow> proc_t \<Rightarrow> proc_t)) list" where
  "size_fields =
     [(''VmData'', \<lambda>v p. p\<lparr>p_vm_data := v\<rparr>), (''VmExe'', \<lambda>v p. p\<lparr>p_vm_exe := v\<rparr>), (''VmLck'', \<lambda>v p. p\<lparr>p_vm_lock := v\<rparr>),
      (''VmLib'', \<lambda>v p. p\<lparr>p_vm_lib := v\<rparr>), (''VmRSS'', \<lambda>v p. p\<lparr>p_vm_rss := v\<rparr>), (''RssAnon'', \<lambda>v p. p\<lparr>p_vm_rss_anon := v\<rparr>),
      (''RssFile'', \<lambda>v p. p\<lparr>p_vm_rss_file := v\<rparr>), (''RssShmem'', \<lambda>v p. p\<lparr>p_vm_rss_shared := v\<rparr>),
      (''VmSize'', \<lambda>v p. p\<lparr>p_vm_size := v\<rparr>), (''VmStk'', \<lambda>v p. p\<lparr>p_vm_stack := v\<rparr>), (''VmSwap'', \<lambda>v p. p\<lparr>p_vm_swap := v\<rparr>)]"

definition number_effect :: "string \<Rightarrow> nat \<Rightarrow> status_acc \<Rightarrow> status_acc" where
  "number_effect nm n st =
     (if nm = ''Tgid'' then st\<lparr>sa_Tgid := int n\<rparr>
      else if nm = ''Pid'' then st\<lparr>sa_Pid := int n\<rparr>
      else if nm = ''Threads'' then st\<lparr>sa_Threads := int n\<rparr>
      else if nm = ''PPid'' then upd (\<lambda>p. p\<lparr>p_ppid := cast_int (int n)\<rparr>) st
      else (case map_of size_fields nm of Some f \<Rightarrow> upd (f (of_nat n)) st | None \<Rightarrow> st))"

fun kline_effect :: "string option \<Rightarrow> kline \<Rightarrow> status_acc \<Rightarrow> status_acc" where
  "kline_effect enc (KName comm) =
     upd (\<lambda>p. if p_cmd p = None then p\<lparr>p_cmd := Some (command_of enc comm)\<rparr> else p)"
| "kline_effect enc (KState c r) = upd (\<lambda>p. p\<lparr>p_state := c\<rparr>)"
| "kline_effect enc (KIds u a b c d) =
     upd (\<lambda>p. if u then p\<lparr>p_ruid := a, p_euid := b, p_suid := c, p_fuid := d\<rparr>
                   else p\<lparr>p_rgid := a, p_egid := b, p_sgid := c, p_fgid := d\<rparr>)"
| "kline_effect enc (KNum nm k n sfx) = number_effect nm n"
| "kline_effect enc (KMask nm m) =
     upd (\<lambda>p. if nm = ''ShdPnd'' then p\<lparr>p_signal := m\<rparr> else if nm = ''SigBlk'' then p\<lparr>p_blocked := m\<rparr>
              else if nm = ''SigCgt'' then p\<lparr>p_sigcatch := m\<rparr> else if nm = ''SigIgn'' then p\<lparr>p_sigignore := m\<rparr>
              else p\<lparr>p_sigpnd := m\<rparr>)"
| "kline_effect enc (KGroups gs) =
     (if gs = [] then (\<lambda>st. st) else upd (\<lambda>p. p\<lparr>p_supgid := Some (comma_groups gs)\<rparr>))"
| "kline_effect enc (KOther nm body) = (\<lambda>st. st)"

subsection \<open>Lemmas: each line\<close>

lemma name_scan_escape:
  "length comm \<le> k \<Longrightarrow> prev \<noteq> newline \<Longrightarrow>
   \<exists>r. name_scan k prev (escape_name comm @ newline # rest) = (comm, r) \<and> strchr r newline = Some (newline # rest)"
proof (induction comm arbitrary: k prev)
  case Nil
  then show ?case by (cases k) (auto simp: escape_name_def)
next
  case (Cons c comm)
  then obtain k' where k: "k = Suc k'" "length comm \<le> k'" by (cases k) auto
  have e: "escape_name (c # comm) = escape_name_char c @ escape_name comm" by (simp add: escape_name_def)
  show ?case
  proof (cases "c = newline \<or> c = backslash")
    case True
    define d where "d = (if c = newline then CHR ''n'' else backslash)"
    have "d \<noteq> newline" by (simp add: d_def)
    from Cons.IH [OF k(2) this] show ?thesis
      using True unfolding e k(1) by (auto simp: escape_name_char_def d_def)
  next
    case False
    then have "c \<noteq> newline" by simp
    from Cons.IH [OF k(2) this] False show ?thesis
      unfolding e k(1) by (auto simp: escape_name_char_def)
  qed
qed

lemma strtol_blanks: "strtol (replicate k (CHR '' '') @ show_nat n @ r) = (int n, r)"
  if "n < 2 ^ 63" "ends_number r"
proof -
  have "scan_number (replicate k (CHR '' '') @ s) = scan_number s" for s
    by (induction k) (auto simp: scan_number_space)
  with that show ?thesis by (simp add: strtol_def scan_number_show_nat LONG_MAX_def LONG_MIN_def)
qed

lemma strtol_tab: "n < 2 ^ 63 \<Longrightarrow> ends_number r \<Longrightarrow> strtol (tab # show_nat n @ r) = (int n, r)"
  by (simp add: strtol_def scan_number_space scan_number_show_nat LONG_MAX_def LONG_MIN_def isspace_def)

lemma names_in_table:
  "list_all (\<lambda>nm. nm \<in> set field_names) (''Name'' # ''State'' # ''Uid'' # ''Gid'' # ''Groups'' # mask_names @ number_names)"
  by code_simp

lemma name_in_table:
  "nm \<in> set (''Name'' # ''State'' # ''Uid'' # ''Gid'' # ''Groups'' # mask_names @ number_names) \<Longrightarrow> nm \<in> set field_names"
  using names_in_table unfolding list_all_iff by blast

lemma line_known:
  "nm \<in> set (''Name'' # ''State'' # ''Uid'' # ''Gid'' # ''Groups'' # mask_names @ number_names) \<Longrightarrow>
   status_loop enc mem (status_text nm body @ rest) st = resume enc mem (status_case enc mem nm (body @ newline # rest) st)"
  using loop_known [OF name_in_table, of nm enc mem "body @ newline # rest" st] by (simp add: status_text_def)

lemma upd_if: "upd (\<lambda>p. if b then f p else g p) st = (if b then upd f st else upd g st)"
  by (simp add: upd_def)

lemma upd_upd: "upd f (upd g st) = upd (\<lambda>p. f (g p)) st"
  by (simp add: upd_def)

lemma line_name:
  assumes "length comm \<le> 63" "NUL \<notin> set comm"
  shows "status_loop enc (\<lambda>_. True) (kline_text (KName comm) @ rest) st
       = status_loop enc (\<lambda>_. True) rest (kline_effect enc (KName comm) st)"
proof -
  obtain r where r: "name_scan 63 tab (escape_name comm @ newline # rest) = (comm, r)"
    "strchr r newline = Some (newline # rest)"
    using name_scan_escape [of comm 63 tab rest] assms(1) by auto
  obtain b n where b: "escape_str enc [] comm 64 = Some (b, n)"
    using escape_str_bounds [of 64 enc "[]" comm] by auto
  have "status_case enc (\<lambda>_. True) ''Name'' (escape_name comm @ newline # rest) st
      = Next r (kline_effect enc (KName comm) st)"
    using r(1) b assms(2) by (simp add: status_case_def case_Name_def command_of_def upd_def)
  with r(2) show ?thesis by (simp add: line_known resume_def)
qed

lemma line_state:
  assumes "newline \<notin> set (c # r)"
  shows "status_loop enc mem (kline_text (KState c r) @ rest) st
       = status_loop enc mem rest (kline_effect enc (KState c r) st)"
proof -
  have "status_case enc mem ''State'' ((c # r) @ newline # rest) st
      = Next ((c # r) @ newline # rest) (kline_effect enc (KState c r) st)"
    by (simp add: status_case_def)
  with resume_line [OF assms] show ?thesis by (simp add: line_known)
qed

lemma word_of_show: "(word_of_int (int (unat (w :: uid_t))) :: uid_t) = w"
  by simp

lemma unat_uid_63: "unat (w :: uid_t) < 2 ^ 63"
proof -
  have "unat w < 2 ^ 32" using unsigned_less [of w] by simp
  then show ?thesis by simp
qed

lemma strtol_first: "n < 2 ^ 63 \<Longrightarrow> ends_number r \<Longrightarrow> strtol (show_nat n @ r) = (int n, r)"
  using strtol_blanks [of n r 0] by simp

lemma not_digit_controls [simp]: "\<not> isdigit tab" "\<not> isdigit newline"
  by (simp_all add: isdigit_def)

lemma line_ids:
  "status_loop enc mem (kline_text (KIds u a b c d) @ rest) st
   = status_loop enc mem rest (kline_effect enc (KIds u a b c d) st)"
proof -
  note ids = show_ids_def strtol_first strtol_tab unat_uid_63 [simplified]
  have "status_case enc mem (if u then ''Uid'' else ''Gid'') (show_ids a b c d @ newline # rest) st
      = Next ([] @ newline # rest) (kline_effect enc (KIds u a b c d) st)"
    by (cases u) (simp_all add: status_case_def numeric_field_def ids upd_upd)
  moreover have "(if u then ''Uid'' else ''Gid'') \<in> set (''Name'' # ''State'' # ''Uid'' # ''Gid'' # ''Groups'' # mask_names @ number_names)"
    by simp
  ultimately show ?thesis using resume_line [of "[]"] by (simp only: kline_text.simps line_known) simp
qed

lemma number_field_single: "list_all (\<lambda>nm. length (numeric_field nm) = 1 \<and>
    nm \<notin> set (''Name'' # ''State'' # ''Groups'' # mask_names)) number_names"
  by code_simp

lemma numeric_field_effect:
  "nm \<in> set number_names \<Longrightarrow> hd (numeric_field nm) (int n) st = number_effect nm n st"
  unfolding number_names_def list.set insert_iff empty_iff
  by (elim disjE) (simp_all add: numeric_field_def number_effect_def size_fields_def)

lemma line_number:
  assumes "nm \<in> set number_names" "n < 2 ^ 63" "ends_number sfx" "newline \<notin> set sfx"
  shows "status_loop enc mem (kline_text (KNum nm k n sfx) @ rest) st
       = status_loop enc mem rest (kline_effect enc (KNum nm k n sfx) st)"
proof -
  have s: "length (numeric_field nm) = 1" "nm \<notin> set (''Name'' # ''State'' # ''Groups'' # mask_names)"
    using number_field_single assms(1) unfolding list_all_iff by blast+
  obtain f where f: "numeric_field nm = [f]" using s(1) by (cases "numeric_field nm") auto
  have "strtol (replicate k (CHR '' '') @ show_nat n @ sfx @ newline # rest) = (int n, sfx @ newline # rest)"
    using assms by (intro strtol_blanks) (cases sfx; simp add: ends_number_def)+
  then have "status_case enc mem nm ((replicate k (CHR '' '') @ show_nat n @ sfx) @ newline # rest) st
      = Next (sfx @ newline # rest) (kline_effect enc (KNum nm k n sfx) st)"
    using s(2) f numeric_field_effect [OF assms(1), of n st] by (simp add: status_case_def mask_names_def)
  moreover have "nm \<in> set (''Name'' # ''State'' # ''Uid'' # ''Gid'' # ''Groups'' # mask_names @ number_names)"
    using assms(1) by simp
  ultimately show ?thesis
    using resume_line [OF assms(4)] by (simp only: kline_text.simps line_known)
qed

lemma line_mask:
  assumes "nm \<in> set mask_names" "length m = 16" "newline \<notin> set m"
  shows "status_loop enc mem (kline_text (KMask nm m) @ rest) st
       = status_loop enc mem rest (kline_effect enc (KMask nm m) st)"
proof -
  have "status_case enc mem nm (m @ newline # rest) st
      = Next (m @ newline # rest) (kline_effect enc (KMask nm m) st)"
    using assms(1,2) by (auto simp: status_case_def mask_names_def copy_mask_def upd_def)
  moreover have "nm \<in> set (''Name'' # ''State'' # ''Uid'' # ''Gid'' # ''Groups'' # mask_names @ number_names)"
    using assms(1) by simp
  ultimately show ?thesis
    using resume_line [OF assms(3)] by (simp only: kline_text.simps line_known)
qed

definition blank_to_comma :: "char \<Rightarrow> char" where
  "blank_to_comma c = (if c = CHR '' '' then CHR '','' else c)"

lemma show_nat_no_blank: "CHR '' '' \<notin> set (show_nat n)" "tab \<notin> set (show_nat n)" "newline \<notin> set (show_nat n)"
  using show_nat_digits [of "CHR '' ''" n] show_nat_digits [of tab n] show_nat_digits [of newline n]
  by (auto simp: isdigit_def)

lemma map_blank_show_nat: "map blank_to_comma (show_nat n) = show_nat n"
proof -
  have "map blank_to_comma (show_nat n) = map (\<lambda>c. c) (show_nat n)"
    using show_nat_no_blank(1) [of n] by (intro map_cong) (auto simp: blank_to_comma_def)
  then show ?thesis by simp
qed

lemma groups_commas:
  "gs \<noteq> [] \<Longrightarrow> map blank_to_comma (butlast (concat (map (\<lambda>g. show_nat (unat g) @ '' '') gs))) = comma_groups gs"
proof (induction gs rule: comma_groups.induct)
  case (3 g g' gs)
  have "butlast (concat (map (\<lambda>g. show_nat (unat g) @ '' '') (g # g' # gs)))
      = (show_nat (unat g) @ '' '') @ butlast (concat (map (\<lambda>g. show_nat (unat g) @ '' '') (g' # gs)))"
    by (simp add: butlast_append)
  moreover have "map blank_to_comma '' '' = '',''" by (simp add: blank_to_comma_def)
  ultimately show ?case using 3 by (simp only: map_append map_blank_show_nat comma_groups.simps) simp
qed (simp_all add: map_blank_show_nat butlast_append)

lemma first_kept:
  assumes "xs \<noteq> []" "hd xs \<noteq> CHR '' ''"
  shows "take 1 xs @ map (\<lambda>c. if c = CHR '' '' then CHR '','' else c) (drop 1 xs) = map blank_to_comma xs"
  using assms by (cases xs) (auto simp: blank_to_comma_def)

lemma line_groups:
  assumes "int (length (show_groups gs)) < INT_MAX"
  shows "status_loop enc (\<lambda>_. True) (kline_text (KGroups gs) @ rest) st
       = status_loop enc (\<lambda>_. True) rest (kline_effect enc (KGroups gs) st)"
proof -
  let ?S = "show_groups gs @ newline # rest"
  have nl: "newline \<notin> set (show_groups gs)"
    using show_nat_no_blank(3) by (auto simp: show_groups_def)
  then have c: "strchr ?S newline = Some (newline # rest)" by (simp add: strchr_append)
  have "status_case enc (\<lambda>_. True) ''Groups'' ?S st = Next ?S (kline_effect enc (KGroups gs) st)"
  proof (cases "gs = []")
    case True
    then show ?thesis by (simp add: status_case_def case_Groups_def show_groups_def)
  next
    case False
    then obtain g gs' where gs: "gs = g # gs'" by (cases gs) auto
    obtain d ds where d: "show_nat (unat g) = d # ds" using show_nat_nonempty by (cases "show_nat (unat g)") auto
    with show_nat_no_blank [of "unat g"] have nb: "d \<noteq> CHR '' ''" "d \<noteq> tab" by auto
    obtain r where hd: "show_groups gs = d # r" using gs d by (simp add: show_groups_def)
    have ss: "dropWhile (\<lambda>c. c = CHR '' '' \<or> c = tab) ?S = ?S" using hd nb by simp
    have la: "show_groups gs \<noteq> []" "last (show_groups gs) = CHR '' ''"
      using False by (induction gs) (auto simp: show_groups_def)
    have b: "butlast (show_groups gs) \<noteq> []" "hd (butlast (show_groups gs)) \<noteq> CHR '' ''"
      using gs d nb by (auto simp: show_groups_def butlast_append)
    have e: "map blank_to_comma (butlast (show_groups gs)) = comma_groups gs"
      using groups_commas [OF False] False by (simp add: show_groups_def)
    have "case_Groups (\<lambda>_. True) ?S st = Next ?S (upd (\<lambda>p. p\<lparr>p_supgid := Some (comma_groups gs)\<rparr>) st)"
      using assms la first_kept [OF b] e by (simp add: case_Groups_def ss c Let_def)
    with False show ?thesis by (simp add: status_case_def)
  qed
  with resume_line [OF nl] show ?thesis by (simp add: line_known)
qed

text \<open>The names of the table that are not taken have nothing to assign.\<close>

lemma ignored_fields:
  "list_all (\<lambda>nm. nm \<in> set taken_names \<or> numeric_field nm = []) field_names"
  by code_simp

lemma line_ignored:
  assumes "nm \<in> set field_names" "nm \<notin> set taken_names" "newline \<notin> set body"
  shows "status_loop enc mem (status_text nm body @ rest) st = status_loop enc mem rest st"
proof -
  have "numeric_field nm = []" using ignored_fields assms(1,2) unfolding list_all_iff by blast
  then have "status_case enc mem nm (body @ newline # rest) st = Next (body @ newline # rest) st"
    using assms(2) by (auto simp: status_case_def taken_names_def mask_names_def)
  then show ?thesis
    using loop_known [OF assms(1), of enc mem "body @ newline # rest" st] resume_line [OF assms(3)]
    by (simp add: status_text_def)
qed

lemma line_any:
  assumes "kline_ok l"
  shows "status_loop enc (\<lambda>_. True) (kline_text l @ rest) st
       = status_loop enc (\<lambda>_. True) rest (kline_effect enc l st)"
proof (cases l)
  case (KName comm)
  with assms line_name [of comm enc rest st] show ?thesis by simp
next
  case (KState c r)
  with assms line_state [of c r enc _ rest st] show ?thesis by simp
next
  case (KIds u a b c d)
  with line_ids [of enc _ u a b c d rest st] show ?thesis by simp
next
  case (KNum nm k n sfx)
  with assms line_number [of nm n sfx enc _ k rest st] show ?thesis by simp
next
  case (KMask nm m)
  with assms line_mask [of nm m enc _ rest st] show ?thesis by simp
next
  case (KGroups gs)
  with assms line_groups [of gs enc rest st] show ?thesis by simp
next
  case (KOther nm body)
  show ?thesis
  proof (cases "nm \<in> set field_names")
    case True
    then show ?thesis using assms KOther line_ignored [of nm body enc "\<lambda>_. True" rest st] by simp
  next
    case False
    then show ?thesis using assms KOther loop_unknown [of nm body enc "\<lambda>_. True" rest st]
      by (simp add: status_text_def)
  qed
qed

lemma same_supgid: "p_supgid p = Some g \<Longrightarrow> p\<lparr>p_supgid := Some g\<rparr> = p"
proof -
  have "p\<lparr>p_supgid := p_supgid p\<rparr> = p" by simp
  then show "p_supgid p = Some g \<Longrightarrow> p\<lparr>p_supgid := Some g\<rparr> = p" by (simp only:)
qed

subsection \<open>Properties\<close>

text \<open>
  C30. The hash is perfect: for a line with any non-empty name before its colon, the table entry the
  hash selects is that name exactly when the name is one of the table's fields.
\<close>

theorem status_hash_perfect:
  assumes "nm \<noteq> []"
  shows "status_table ! status_hash (nm @ CHR '':'' # r) = nm \<longleftrightarrow> nm \<in> set field_names"
proof
  assume "status_table ! status_hash (nm @ CHR '':'' # r) = nm"
  then have "nm \<in> set status_table" by (metis nth_mem status_hash_less)
  with assms show "nm \<in> set field_names" by (simp add: field_names_def)
qed (rule field_nameD(1))

theorem status_hash_perfect_witness:
  "status_table ! status_hash (''Tgid'' @ CHR '':'' # tab # ''1'') = ''Tgid'' \<longleftrightarrow> ''Tgid'' \<in> set field_names"
  by (rule status_hash_perfect) simp

text \<open>
  C6. On a status file in the kernel's format, whatever its lines and their order, \<open>status2proc\<close>
  gives each field the meaning of its lines: the unescaped command, state, ids, sizes, signal
  masks and group list; every line the parser does not know, or knows and ignores, changes nothing. The pending signals of a process are
  those of the whole process when the kernel gives them; the thread group is \<open>Tgid\<close> when the
  kernel counts threads; a missing group list is a dash.
\<close>

theorem status2proc_kernel_text:
  assumes "list_all kline_ok ls"
    and "fold (kline_effect enc) ls \<lparr>sa_proc = P, sa_Threads = 0, sa_Tgid = 0, sa_Pid = 0\<rparr>
       = \<lparr>sa_proc = p, sa_Threads = threads, sa_Tgid = tgid, sa_Pid = pid\<rparr>"
  shows "status2proc enc (\<lambda>_. True) (concat (map kline_text ls)) P is_proc =
    Done (p\<lparr>p_signal := (if is_proc \<and> p_signal p \<noteq> [] then p_signal p else p_sigpnd p),
            p_nlwp := (if threads = 0 then 1 else cast_int threads),
            p_tgid := cast_int (if threads = 0 then pid else tgid), p_tid := cast_int pid,
            p_supgid := Some (case p_supgid p of None \<Rightarrow> ''-'' | Some gs \<Rightarrow> gs)\<rparr>)"
proof -
  have "status_loop enc (\<lambda>_. True) (concat (map kline_text ls)) st = Done (fold (kline_effect enc) ls st)" for st
    using assms(1)
  proof (induction ls arbitrary: st)
    case Nil
    then show ?case by (simp add: status_loop.simps)
  next
    case (Cons l ls)
    then show ?case by (simp add: line_any)
  qed
  then show ?thesis
    using assms(2)
    by (simp add: status2proc_def bind_outcome_def status_finish_def Let_def same_supgid split: option.split)
qed

definition sample_status :: "kline list" where
  "sample_status =
     [KName ''java'', KOther ''Umask'' ''0022'', KState (CHR ''S'') '' (sleeping)'', KNum ''Tgid'' 0 77 [],
      KOther ''Ngid'' ''0'', KNum ''Pid'' 0 78 [], KNum ''PPid'' 0 1 [], KOther ''TracerPid'' ''0'',
      KIds True 1000 1000 1000 1000, KOther ''FDSize'' ''64'', KGroups [4, 24],
      KOther ''VmPeak'' ''    9000 kB'', KOther ''VmHWM'' ''    3000 kB'', KNum ''VmRSS'' 4 2048 '' kB'',
      KOther ''VmPTE'' ''      64 kB'', KNum ''Threads'' 0 9 [], KOther ''SigQ'' ''0/63400'',
      KMask ''SigPnd'' ''0000000000000000'', KOther ''CapInh'' ''0000000000000000'', KOther ''CapEff'' ''0000000000000000'']"

theorem status2proc_kernel_text_witness:
  "status2proc None (\<lambda>_. True) (concat (map kline_text sample_status)) zero_proc True =
    Done (zero_proc\<lparr>p_cmd := Some (command_of None ''java''), p_state := CHR ''S'', p_ppid := 1, p_ruid := 1000, p_euid := 1000,
        p_suid := 1000, p_fuid := 1000, p_supgid := Some (comma_groups [4, 24]), p_vm_rss := 2048,
        p_sigpnd := ''0000000000000000'', p_signal := ''0000000000000000'', p_nlwp := 9, p_tgid := 77, p_tid := 78\<rparr>)"
proof -
  have "int (length (show_groups [4, 24])) < INT_MAX"
    by (simp add: show_groups_def INT_MAX_def show_nat.simps)
  then have ok: "list_all kline_ok sample_status"
    by (simp add: sample_status_def taken_names_def mask_names_def number_names_def isdigit_def)
  have zero: "p_cmd zero_proc = None" "p_signal zero_proc = []" "p_sigpnd zero_proc = []"
    by (simp_all add: zero_proc_def)
  have "fold (kline_effect None) sample_status \<lparr>sa_proc = zero_proc, sa_Threads = 0, sa_Tgid = 0, sa_Pid = 0\<rparr>
      = \<lparr>sa_proc = zero_proc\<lparr>p_cmd := Some (command_of None ''java''), p_state := CHR ''S'', p_ppid := 1, p_ruid := 1000, p_euid := 1000,
          p_suid := 1000, p_fuid := 1000, p_supgid := Some (comma_groups [4, 24]), p_vm_rss := 2048,
          p_sigpnd := ''0000000000000000''\<rparr>,
         sa_Threads = 9, sa_Tgid = 77, sa_Pid = 78\<rparr>"
    by (simp add: sample_status_def number_effect_def size_fields_def upd_def zero cast_int_def)
  from status2proc_kernel_text [OF ok this, of True] show ?thesis
    by (simp add: zero cast_int_def)
qed

end
