(* ===== verification/StatParse.thy ===== *)
theory StatParse
  imports StatusParse PwCache
begin

text \<open>
  The other parsers of \<^verbatim>\<open>procps/linux/readproc.c\<close> that fill a \<open>proc_t\<close> from the
  text of a file under \<^verbatim>\<open>/proc/<pid>\<close>: \<open>stat\<close>, \<open>statm\<close>, \<open>io\<close>,
  \<open>smaps_rollup\<close>, \<open>oom_score\<close>, \<open>oom_adj\<close>; and the names of the supplementary
  groups, which come from the list \<open>status2proc\<close> left and the group cache.
\<close>

text \<open>What these functions need of the rest of the world.\<close>

record lib_env =
  le_charset :: "string option"
  le_mem :: "string \<Rightarrow> bool"              \<comment> \<open>can a copy of the string be allocated\<close>
  le_passwd :: "uid_t \<Rightarrow> string option"
  le_group :: "uid_t \<Rightarrow> string option"
  le_node :: bool                       \<comment> \<open>can a cache node be allocated\<close>

subsection \<open>oom_score, oom_adj, statm, io\<close>

definition oomscore2proc :: "string \<Rightarrow> proc_t \<Rightarrow> proc_t" where
  "oomscore2proc S P = assign [\<lambda>v p. p\<lparr>p_oom_score := sint_of v\<rparr>] (sscanf ''%d'' S) P"

definition oomadj2proc :: "string \<Rightarrow> proc_t \<Rightarrow> proc_t" where
  "oomadj2proc S P = assign [\<lambda>v p. p\<lparr>p_oom_adj := sint_of v\<rparr>] (sscanf ''%d'' S) P"

definition statm2proc :: "string \<Rightarrow> proc_t \<Rightarrow> proc_t" where
  "statm2proc s P =
     assign
       [\<lambda>v p. p\<lparr>p_size := sulong_of v\<rparr>, \<lambda>v p. p\<lparr>p_resident := sulong_of v\<rparr>, \<lambda>v p. p\<lparr>p_share := sulong_of v\<rparr>,
        \<lambda>v p. p\<lparr>p_trs := sulong_of v\<rparr>, \<lambda>v p. p\<lparr>p_lrs := sulong_of v\<rparr>, \<lambda>v p. p\<lparr>p_drs := sulong_of v\<rparr>,
        \<lambda>v p. p\<lparr>p_dt := sulong_of v\<rparr>]
       (sscanf ''%lu %lu %lu %lu %lu %lu %lu'' s) P"

definition io_format :: string where
  "io_format = ''rchar: %lu wchar: %lu syscr: %lu syscw: %lu read_bytes: %lu write_bytes: %lu cancelled_write_bytes: %lu''"

definition io2proc :: "string \<Rightarrow> proc_t \<Rightarrow> proc_t" where
  "io2proc s P =
     assign
       [\<lambda>v p. p\<lparr>p_rchar := sulong_of v\<rparr>, \<lambda>v p. p\<lparr>p_wchar := sulong_of v\<rparr>, \<lambda>v p. p\<lparr>p_syscr := sulong_of v\<rparr>,
        \<lambda>v p. p\<lparr>p_syscw := sulong_of v\<rparr>, \<lambda>v p. p\<lparr>p_read_bytes := sulong_of v\<rparr>,
        \<lambda>v p. p\<lparr>p_write_bytes := sulong_of v\<rparr>, \<lambda>v p. p\<lparr>p_cancelled_write_bytes := sulong_of v\<rparr>]
       (sscanf io_format s) P"

subsection \<open>stat\<close>

definition stat_format :: string where
  "stat_format =
     ''%c '' @ ''%d %d %d %d %d '' @ ''%lu %lu %lu %lu %lu '' @ ''%llu %llu %llu %llu '' @ ''%d %d '' @ ''%d ''
     @ ''%lu '' @ ''%llu '' @ ''%lu '' @ ''%lu '' @ ''%lu %lu %lu %lu %lu %lu '' @ ''%*s %*s %*s %*s ''
     @ ''%lu %*u %*u '' @ ''%d %d '' @ ''%d %d '' @ ''%llu %llu %llu''"

definition stat_setters :: "(sval \<Rightarrow> proc_t \<Rightarrow> proc_t) list" where
  "stat_setters =
     [\<lambda>v p. p\<lparr>p_state := schar_of v\<rparr>,
      \<lambda>v p. p\<lparr>p_ppid := sint_of v\<rparr>, \<lambda>v p. p\<lparr>p_pgrp := sint_of v\<rparr>, \<lambda>v p. p\<lparr>p_session := sint_of v\<rparr>,
      \<lambda>v p. p\<lparr>p_tty := sint_of v\<rparr>, \<lambda>v p. p\<lparr>p_tpgid := sint_of v\<rparr>,
      \<lambda>v p. p\<lparr>p_flags := sulong_of v\<rparr>, \<lambda>v p. p\<lparr>p_min_flt := sulong_of v\<rparr>, \<lambda>v p. p\<lparr>p_cmin_flt := sulong_of v\<rparr>,
      \<lambda>v p. p\<lparr>p_maj_flt := sulong_of v\<rparr>, \<lambda>v p. p\<lparr>p_cmaj_flt := sulong_of v\<rparr>,
      \<lambda>v p. p\<lparr>p_utime := sulong_of v\<rparr>, \<lambda>v p. p\<lparr>p_stime := sulong_of v\<rparr>, \<lambda>v p. p\<lparr>p_cutime := sulong_of v\<rparr>,
      \<lambda>v p. p\<lparr>p_cstime := sulong_of v\<rparr>,
      \<lambda>v p. p\<lparr>p_priority := sint_of v\<rparr>, \<lambda>v p. p\<lparr>p_nice := sint_of v\<rparr>,
      \<lambda>v p. p\<lparr>p_nlwp := sint_of v\<rparr>,
      \<lambda>v p. p\<lparr>p_alarm := sulong_of v\<rparr>,
      \<lambda>v p. p\<lparr>p_start_time := sulong_of v\<rparr>,
      \<lambda>v p. p\<lparr>p_vsize := sulong_of v\<rparr>,
      \<lambda>v p. p\<lparr>p_rss := sulong_of v\<rparr>,
      \<lambda>v p. p\<lparr>p_rss_rlim := sulong_of v\<rparr>, \<lambda>v p. p\<lparr>p_start_code := sulong_of v\<rparr>,
      \<lambda>v p. p\<lparr>p_end_code := sulong_of v\<rparr>, \<lambda>v p. p\<lparr>p_start_stack := sulong_of v\<rparr>,
      \<lambda>v p. p\<lparr>p_kstk_esp := sulong_of v\<rparr>, \<lambda>v p. p\<lparr>p_kstk_eip := sulong_of v\<rparr>,
      \<lambda>v p. p\<lparr>p_wchan := sulong_of v\<rparr>,
      \<lambda>v p. p\<lparr>p_exit_signal := sint_of v\<rparr>, \<lambda>v p. p\<lparr>p_processor := sint_of v\<rparr>,
      \<lambda>v p. p\<lparr>p_rtprio := sint_of v\<rparr>, \<lambda>v p. p\<lparr>p_sched := sint_of v\<rparr>,
      \<lambda>v p. p\<lparr>p_blkio_tics := sulong_of v\<rparr>, \<lambda>v p. p\<lparr>p_gtime := sulong_of v\<rparr>, \<lambda>v p. p\<lparr>p_cgtime := sulong_of v\<rparr>]"

text \<open>
  The command is what stands between the first opening and the last closing parenthesis; a copy
  that does not fit \<open>raw[64]\<close> is \<open>Undef\<close>.
\<close>

definition stat2proc :: "lib_env \<Rightarrow> string \<Rightarrow> proc_t \<Rightarrow> proc_t outcome" where
  "stat2proc e S0 P0 =
     (let P = P0\<lparr>p_processor := 0, p_rtprio := - 1, p_sched := - 1, p_nlwp := 0\<rparr>
      in case strchr S0 (CHR ''('') of
           None \<Rightarrow> Done P
         | Some S1 \<Rightarrow>
             let S = tl S1
             in case strrchr S (CHR '')'') of
                  None \<Rightarrow> Done P
                | Some tmp \<Rightarrow>
                    if tl tmp = [] then Done P
                    else
                      let num = length S - length tmp; raw = take num S;
                          scan = (\<lambda>P. let P' = assign stat_setters (sscanf stat_format (drop 2 tmp)) P
                                      in Done (if p_nlwp P' = 0 then P'\<lparr>p_nlwp := 1\<rparr> else P'))
                      in if p_cmd P \<noteq> None then scan P
                         else if 64 \<le> num then Undef
                         else (case escape_str (le_charset e) [] raw 64 of
                                 None \<Rightarrow> Undef
                               | Some (buf, _) \<Rightarrow>
                                   if le_mem e buf then scan (P\<lparr>p_cmd := Some buf\<rparr>) else NoMem))"

subsection \<open>smaps\_rollup\<close>

definition smaptab :: "(string \<times> (ulong \<Rightarrow> proc_t \<Rightarrow> proc_t)) list" where
  "smaptab =
     [(''Rss:'', \<lambda>v p. p\<lparr>p_smap_Rss := v\<rparr>), (''Pss:'', \<lambda>v p. p\<lparr>p_smap_Pss := v\<rparr>),
      (''Pss_Anon:'', \<lambda>v p. p\<lparr>p_smap_Pss_Anon := v\<rparr>), (''Pss_File:'', \<lambda>v p. p\<lparr>p_smap_Pss_File := v\<rparr>),
      (''Pss_Shmem:'', \<lambda>v p. p\<lparr>p_smap_Pss_Shmem := v\<rparr>), (''Shared_Clean:'', \<lambda>v p. p\<lparr>p_smap_Shared_Clean := v\<rparr>),
      (''Shared_Dirty:'', \<lambda>v p. p\<lparr>p_smap_Shared_Dirty := v\<rparr>), (''Private_Clean:'', \<lambda>v p. p\<lparr>p_smap_Private_Clean := v\<rparr>),
      (''Private_Dirty:'', \<lambda>v p. p\<lparr>p_smap_Private_Dirty := v\<rparr>), (''Referenced:'', \<lambda>v p. p\<lparr>p_smap_Referenced := v\<rparr>),
      (''Anonymous:'', \<lambda>v p. p\<lparr>p_smap_Anonymous := v\<rparr>), (''LazyFree:'', \<lambda>v p. p\<lparr>p_smap_LazyFree := v\<rparr>),
      (''AnonHugePages:'', \<lambda>v p. p\<lparr>p_smap_AnonHugePages := v\<rparr>), (''ShmemPmdMapped:'', \<lambda>v p. p\<lparr>p_smap_ShmemPmdMapped := v\<rparr>),
      (''FilePmdMapped:'', \<lambda>v p. p\<lparr>p_smap_FilePmdMapped := v\<rparr>), (''Shared_Hugetlb:'', \<lambda>v p. p\<lparr>p_smap_Shared_Hugetlb := v\<rparr>),
      (''Private_Hugetlb:'', \<lambda>v p. p\<lparr>p_smap_Private_Hugetlb := v\<rparr>), (''Swap:'', \<lambda>v p. p\<lparr>p_smap_Swap := v\<rparr>),
      (''SwapPss:'', \<lambda>v p. p\<lparr>p_smap_SwapPss := v\<rparr>), (''Locked:'', \<lambda>v p. p\<lparr>p_smap_Locked := v\<rparr>)]"

fun smaps_loop :: "(string \<times> (ulong \<Rightarrow> proc_t \<Rightarrow> proc_t)) list \<Rightarrow> string \<Rightarrow> proc_t \<Rightarrow> proc_t" where
  "smaps_loop [] s P = P"
| "smaps_loop ((item, f) # tbl) s P =
     (case strstr s item of
        None \<Rightarrow> smaps_loop tbl s P
      | Some head \<Rightarrow>
          (case strtoul (drop (length item) head) of
             (v, tail) \<Rightarrow> smaps_loop tbl tail (f v P)))"

definition smaps2proc :: "string \<Rightarrow> proc_t \<Rightarrow> proc_t" where
  "smaps2proc s P = smaps_loop smaptab s P"

subsection \<open>Names of the supplementary groups\<close>

lemma scan_number_less: "scan_number s = Some (v, r) \<Longrightarrow> length r < length s"
proof -
  assume a: "scan_number s = Some (v, r)"
  define u where "u = snd (split_sign (dropWhile isspace s))"
  have r: "r = dropWhile isdigit u" "takeWhile isdigit u \<noteq> []"
    using a by (auto simp: scan_number_def u_def case_prod_beta Let_def split: if_splits)
  have "length (takeWhile isdigit u) + length r = length u"
    using r(1) by (metis length_append takeWhile_dropWhile_id)
  with r(2) have "length r < length u" by (cases "takeWhile isdigit u") auto
  also have "\<dots> \<le> length (dropWhile isspace s)" unfolding u_def by (rule length_split_sign)
  also have "\<dots> \<le> length s" by (rule length_dropWhile_le)
  finally show ?thesis .
qed

lemma strtol_progress: "snd (strtol s) \<noteq> s \<Longrightarrow> length (snd (strtol s)) < length s"
  by (auto simp: strtol_def dest: scan_number_less split: option.splits)

text \<open>
  The loop: the text left, what has been written to \<open>p->supgrp\<close> (\<open>None\<close> before the first
  group), and the group cache.
\<close>

function supgrps_loop :: "lib_env \<Rightarrow> string \<Rightarrow> string option \<Rightarrow> grphash \<Rightarrow> (string option \<times> grphash) option" where
  "supgrps_loop e s0 acc t =
     (let s = dropWhile (\<lambda>c. c = CHR '','') s0; (gid, endp) = strtol s
      in if endp = s then Some (acc, t)
         else
           case pwcache_get_group (le_group e) (le_node e) (word_of_int gid) t of
             (g, t') \<Rightarrow>
               let old = (case acc of None \<Rightarrow> [] | Some x \<Rightarrow> x);
                   new = old @ take (P_G_SZ + 1) ((if old \<noteq> [] then '','' else []) @ g)
               in if INT_MAX - int (P_G_SZ + 2) \<le> int (length old) \<or> \<not> le_mem e new then None
                  else if endp = [] then Some (Some new, t')
                  else supgrps_loop e endp (Some new) t')"
  by pat_completeness auto
termination
proof (relation "measure (\<lambda>(e, s, acc, t). length s)", goal_cases)
  case (2 e s0 acc t s xa gid endp g t' old new)
  have "length endp < length (dropWhile (\<lambda>c. c = CHR '','') s0)"
    using strtol_progress [of "dropWhile (\<lambda>c. c = CHR '','') s0"] 2(3,4)
    by (metis 2(1,2) snd_conv)
  also have "\<dots> \<le> length s0" by (rule length_dropWhile_le)
  finally show ?case by simp
qed simp

declare supgrps_loop.simps [simp del]

definition supgrps_from_supgids :: "lib_env \<Rightarrow> proc_t \<Rightarrow> grphash \<Rightarrow> (proc_t \<times> grphash) outcome" where
  "supgrps_from_supgids e p t =
     (let wrap_up = (\<lambda>supgrp t. case supgrp of
            Some x \<Rightarrow> Done (p\<lparr>p_supgrp := Some x\<rparr>, t)
          | None \<Rightarrow> if le_mem e ''-'' then Done (p\<lparr>p_supgrp := Some ''-''\<rparr>, t) else NoMem)
      in case p_supgid p of
           None \<Rightarrow> wrap_up (p_supgrp p) t
         | Some s \<Rightarrow>
             if s \<noteq> [] \<and> hd s = CHR ''-'' then wrap_up (p_supgrp p) t
             else (case supgrps_loop e s None t of
                     None \<Rightarrow> NoMem
                   | Some (None, t') \<Rightarrow> wrap_up (p_supgrp p) t'
                   | Some (Some x, t') \<Rightarrow> wrap_up (Some x) t'))"

subsection \<open>Lemmas: scanning blank-separated fields\<close>

text \<open>The fields of a line as they are printed, and the conversion that reads each.\<close>

datatype field = FInt int | FULong ulong | FSkipStr nat | FSkipU ulong

fun field_text :: "field \<Rightarrow> string" where
  "field_text (FInt i) = show_int i"
| "field_text (FULong w) = show_nat (unat w)"
| "field_text (FSkipStr n) = show_nat n"
| "field_text (FSkipU w) = show_nat (unat w)"

fun field_conv :: "field \<Rightarrow> directive" where
  "field_conv (FInt i) = Conv CInt"
| "field_conv (FULong w) = Conv CULong"
| "field_conv (FSkipStr n) = Skip CStr"
| "field_conv (FSkipU w) = Skip CUInt"

fun field_val :: "field \<Rightarrow> sval list" where
  "field_val (FInt i) = [SInt i]"
| "field_val (FULong w) = [SULong w]"
| "field_val _ = []"

fun field_ok :: "field \<Rightarrow> bool" where
  "field_ok (FInt i) = (- (2 ^ 31) \<le> i \<and> i < 2 ^ 31)"
| "field_ok _ = True"

fun blank_sep :: "field list \<Rightarrow> string" where
  "blank_sep [] = []"
| "blank_sep [f] = field_text f"
| "blank_sep (f # g # fs) = field_text f @ CHR '' '' # blank_sep (g # fs)"

fun conv_sep :: "field list \<Rightarrow> directive list" where
  "conv_sep [] = []"
| "conv_sep [f] = [field_conv f]"
| "conv_sep (f # g # fs) = field_conv f # Blank # conv_sep (g # fs)"

lemma scan_field:
  "field_ok f \<Longrightarrow> isspace b \<Longrightarrow> \<not> isdigit b \<Longrightarrow>
   run_scanf (field_conv f # ds) (field_text f @ b # r) = field_val f @ run_scanf ds (b # r)"
  by (cases f) (simp_all add: scan_int scan_ulong skip_str skip_uint del: run_scanf.simps)

lemma blank_sep_no_space: "fs \<noteq> [] \<Longrightarrow> dropWhile isspace (blank_sep fs @ r) = blank_sep fs @ r"
proof (induction fs rule: blank_sep.induct)
  case (2 f)
  then show ?case by (cases f) simp_all
next
  case (3 f g fs)
  then show ?case by (cases f) simp_all
qed simp

lemma scan_fields:
  assumes "list_all field_ok fs" "isspace b" "\<not> isdigit b"
  shows "run_scanf (conv_sep fs) (blank_sep fs @ b # r) = concat (map field_val fs)"
  using assms
proof (induction fs rule: conv_sep.induct)
  case (2 f)
  then show ?case
    using scan_field [of f b "[]" r] by simp
next
  case (3 f g fs)
  then show ?case
    using scan_field [of f "CHR '' ''" "Blank # conv_sep (g # fs)" "blank_sep (g # fs) @ b # r"]
    by (simp add: blank_sep_no_space isspace_def isdigit_def)
qed simp

subsection \<open>Lemmas: stat\<close>

lemma parse_stat_format:
  "parse_format stat_format =
     Conv CChar # Blank # Conv CInt # Blank # Conv CInt # Blank # Conv CInt # Blank # Conv CInt # Blank # Conv CInt
     # Blank # Conv CULong # Blank # Conv CULong # Blank # Conv CULong # Blank # Conv CULong # Blank # Conv CULong
     # Blank # Conv CULong # Blank # Conv CULong # Blank # Conv CULong # Blank # Conv CULong
     # Blank # Conv CInt # Blank # Conv CInt # Blank # Conv CInt
     # Blank # Conv CULong # Blank # Conv CULong # Blank # Conv CULong # Blank # Conv CULong
     # Blank # Conv CULong # Blank # Conv CULong # Blank # Conv CULong # Blank # Conv CULong # Blank # Conv CULong # Blank # Conv CULong
     # Blank # Skip CStr # Blank # Skip CStr # Blank # Skip CStr # Blank # Skip CStr
     # Blank # Conv CULong # Blank # Skip CUInt # Blank # Skip CUInt
     # Blank # Conv CInt # Blank # Conv CInt # Blank # Conv CInt # Blank # Conv CInt
     # Blank # Conv CULong # Blank # Conv CULong # Blank # [Conv CULong]"
  by code_simp

lemma field_text_chars: "c \<in> set (field_text f) \<Longrightarrow> isdigit c \<or> c = CHR ''-''"
  by (cases f) (auto simp: show_int_def dest: show_nat_digits split: if_splits)

lemma blank_sep_chars: "c \<in> set (blank_sep fs) \<Longrightarrow> isdigit c \<or> c = CHR ''-'' \<or> c = CHR '' ''"
  by (induction fs rule: blank_sep.induct) (auto dest: field_text_chars)

lemma no_paren_blank_sep: "CHR '')'' \<notin> set (blank_sep fs)"
  using blank_sep_chars [of "CHR '')''" fs] by (auto simp: isdigit_def)

text \<open>
  The line the kernel prints: the pid, the command in parentheses, the state, the numbers, and what
  follows those that are read: the end of the line, or the fields of later kernels.
\<close>

definition stat_line :: "nat \<Rightarrow> string \<Rightarrow> char \<Rightarrow> field list \<Rightarrow> string \<Rightarrow> string" where
  "stat_line pid comm state fs rest =
     show_nat pid @ '' ('' @ comm @ '') '' @ state # CHR '' '' # blank_sep fs @ rest"

fun stat_rest :: "string \<Rightarrow> bool" where
  "stat_rest [] = False"
| "stat_rest (c # r) = (isspace c \<and> CHR '')'' \<notin> set (c # r))"

lemma stat_rest_newline [simp]: "stat_rest [newline]"
  by (simp add: isspace_def)

definition stat_types :: "directive list" where
  "stat_types = map field_conv
     (replicate 5 (FInt 0) @ replicate 9 (FULong 0) @ replicate 3 (FInt 0) @ replicate 10 (FULong 0)
      @ replicate 4 (FSkipStr 0) @ [FULong 0, FSkipU 0, FSkipU 0] @ replicate 4 (FInt 0) @ replicate 3 (FULong 0))"

lemma conv_sep_map: "map field_conv fs = map field_conv gs \<Longrightarrow> conv_sep fs = conv_sep gs"
proof (induction fs arbitrary: gs rule: conv_sep.induct)
  case (2 f)
  then show ?case by (cases gs rule: conv_sep.cases) auto
next
  case (3 f f' fs)
  then show ?case by (cases gs rule: conv_sep.cases) auto
qed auto

lemma parse_stat_types:
  assumes "map field_conv fs = stat_types"
  shows "parse_format stat_format = Conv CChar # Blank # conv_sep fs"
proof -
  have "conv_sep fs = conv_sep (replicate 5 (FInt 0) @ replicate 9 (FULong 0) @ replicate 3 (FInt 0) @ replicate 10 (FULong 0)
      @ replicate 4 (FSkipStr 0) @ [FULong 0, FSkipU 0, FSkipU 0] @ replicate 4 (FInt 0) @ replicate 3 (FULong 0))"
    using assms by (intro conv_sep_map) (simp only: stat_types_def)
  then show ?thesis unfolding parse_stat_format by (simp add: numeral_eq_Suc)
qed

lemma sscanf_stat:
  assumes "map field_conv fs = stat_types" "list_all field_ok fs" "stat_rest rest"
  shows "sscanf stat_format (state # CHR '' '' # blank_sep fs @ rest) = SChar state # concat (map field_val fs)"
proof -
  have "fs \<noteq> []" using assms(1) by (auto simp: stat_types_def)
  moreover obtain b r where "rest = b # r" "isspace b" "\<not> isdigit b"
    using assms(3) by (cases rest) (auto simp: isspace_def isdigit_def)
  ultimately show ?thesis
    using scan_fields [OF assms(2), of b r]
    by (simp add: sscanf_def parse_stat_types [OF assms(1)] scan_char blank_sep_no_space del: run_scanf.simps(4))
qed

lemma stat_line_command:
  assumes "state \<noteq> CHR '')''" "stat_rest rest"
  shows "strchr (stat_line pid comm state fs rest) (CHR ''('') =
           Some (CHR ''('' # comm @ '') '' @ state # CHR '' '' # blank_sep fs @ rest)"
    and "strrchr (comm @ '') '' @ state # CHR '' '' # blank_sep fs @ rest) (CHR '')'') =
           Some ('') '' @ state # CHR '' '' # blank_sep fs @ rest)"
proof -
  have "CHR ''('' \<notin> set (show_nat pid @ '' '')" using show_nat_digits [of "CHR ''(''" pid] by (auto simp: isdigit_def)
  from strchr_append [OF this] show "strchr (stat_line pid comm state fs rest) (CHR ''('') =
           Some (CHR ''('' # comm @ '') '' @ state # CHR '' '' # blank_sep fs @ rest)"
    by (simp add: stat_line_def)
  have "CHR '')'' \<notin> set (CHR '' '' # state # CHR '' '' # blank_sep fs @ rest)"
    using assms no_paren_blank_sep by (cases rest) auto
  from strrchr_append [OF this, of comm]
  show "strrchr (comm @ '') '' @ state # CHR '' '' # blank_sep fs @ rest) (CHR '')'') =
           Some ('') '' @ state # CHR '' '' # blank_sep fs @ rest)" by simp
qed

subsection \<open>Lemmas: smaps\_rollup\<close>

lemma is_prefix_extend: "is_prefix p (a @ r) \<Longrightarrow> length p \<le> length a \<Longrightarrow> is_prefix p a"
proof -
  assume "is_prefix p (a @ r)" "length p \<le> length a"
  then have "take (length p) a = p" by (auto simp: is_prefix_iff dest: arg_cong [where f = "take (length p)"])
  then show ?thesis unfolding is_prefix_iff by (metis append_take_drop_id)
qed

lemma is_prefix_longer: "is_prefix p a \<Longrightarrow> is_prefix p (a @ r)"
  by (auto simp: is_prefix_iff)

lemma strstr_extend:
  "strstr (a @ pat) pat = Some pat \<Longrightarrow> strstr (a @ pat @ r) pat = Some (pat @ r)"
proof (induction a)
  case Nil
  show ?case using is_prefix_append [of pat r] by (cases "pat @ r") auto
next
  case (Cons c a)
  have "\<not> is_prefix pat (c # a @ pat)"
  proof
    assume "is_prefix pat (c # a @ pat)"
    with Cons.prems have "length (c # a @ pat) = length pat" by simp
    then show False by simp
  qed
  then have "\<not> is_prefix pat ((c # a @ pat) @ r)"
    using is_prefix_extend [of pat "c # a @ pat" r] by auto
  with Cons show ?case by (simp split: if_splits)
qed

lemma strtoul_blanks: "strtoul (replicate k (CHR '' '') @ show_nat (unat (w :: ulong)) @ r) = (w, r)"
  if "ends_number r"
proof -
  have "scan_number (replicate k (CHR '' '') @ s) = scan_number s" for s
    by (induction k) (auto simp: scan_number_space)
  then have "strtoul (replicate k (CHR '' '') @ show_nat (unat w) @ r) = strtoul (show_nat (unat w) @ r)"
    using that by (simp add: strtoul_def scan_number_show_nat)
  then show ?thesis using that unat_lt_64 [of w] by (simp add: strtoul_show_nat)
qed

text \<open>
  A file with all the fields in the table's order: before each field any text (the mapping's
  line, the unit of the last number, lines the code does not know), then the field's name,
  blanks and the number.
\<close>

fun rollup_text :: "string list \<Rightarrow> (string \<times> nat \<times> ulong) list \<Rightarrow> string \<Rightarrow> string" where
  "rollup_text (item # names) ((gap, k, v) # vs) rest =
     gap @ item @ replicate k (CHR '' '') @ show_nat (unat v) @ rollup_text names vs rest"
| "rollup_text _ _ rest = rest"

fun rollup_ok :: "string list \<Rightarrow> (string \<times> nat \<times> ulong) list \<Rightarrow> string \<Rightarrow> bool" where
  "rollup_ok (item # names) ((gap, k, v) # vs) rest =
     (strstr (gap @ item) item = Some item \<and> ends_number (rollup_text names vs rest) \<and> rollup_ok names vs rest)"
| "rollup_ok [] [] rest = True"
| "rollup_ok _ _ rest = False"

text \<open>The names, in the order in which the kernel prints their lines.\<close>

definition rollup_names :: "string list" where
  "rollup_names =
     [''Rss:'', ''Pss:'', ''Pss_Anon:'', ''Pss_File:'', ''Pss_Shmem:'', ''Shared_Clean:'', ''Shared_Dirty:'',
      ''Private_Clean:'', ''Private_Dirty:'', ''Referenced:'', ''Anonymous:'', ''LazyFree:'', ''AnonHugePages:'',
      ''ShmemPmdMapped:'', ''FilePmdMapped:'', ''Shared_Hugetlb:'', ''Private_Hugetlb:'', ''Swap:'', ''SwapPss:'',
      ''Locked:'']"

lemma smaps_loop_rollup:
  "rollup_ok (map fst tbl) vs rest \<Longrightarrow>
     smaps_loop tbl (rollup_text (map fst tbl) vs rest) P = fold (\<lambda>((item, f), v). f v) (zip tbl (map (snd \<circ> snd) vs)) P"
proof (induction tbl arbitrary: vs P)
  case (Cons t tbl)
  obtain item f where t: "t = (item, f)" by fastforce
  then obtain gap k v vs' where vs: "vs = (gap, k, v) # vs'" using Cons.prems by (cases vs) auto
  let ?rest = "rollup_text (map fst tbl) vs' rest"
  have "strstr (gap @ item @ replicate k (CHR '' '') @ show_nat (unat v) @ ?rest) item =
      Some (item @ replicate k (CHR '' '') @ show_nat (unat v) @ ?rest)"
    using Cons.prems t vs by (intro strstr_extend) simp
  moreover have "strtoul (replicate k (CHR '' '') @ show_nat (unat v) @ ?rest) = (v, ?rest)"
    using Cons.prems t vs by (intro strtoul_blanks) simp
  ultimately show ?case using Cons.IH [of vs' "f v P"] Cons.prems t vs by simp
qed simp

subsection \<open>Lemmas: supplementary groups\<close>

definition sgroup_names :: "(uid_t \<Rightarrow> string option) \<Rightarrow> uid_t list \<Rightarrow> string list" where
  "sgroup_names db gs = map (gr_entry_name db) gs"

fun comma_join :: "string list \<Rightarrow> string" where
  "comma_join [] = []"
| "comma_join [s] = s"
| "comma_join (s # s' # ss) = s @ CHR '','' # comma_join (s' # ss)"

definition cached_group :: "grphash \<Rightarrow> uid_t \<Rightarrow> string option" where
  "cached_group t k = find_group (t (HASH k)) k"

definition group_ready :: "(uid_t \<Rightarrow> string option) \<Rightarrow> grphash \<Rightarrow> bool" where
  "group_ready db t \<longleftrightarrow> gr_ok t \<and> group_cache.agrees db t"

lemma group_ready_get:
  assumes "group_ready db t" "pwcache_get_group db True g t = (nm, t')"
  shows "nm = gr_entry_name db g" "group_ready db t'"
proof -
  from assms show "nm = gr_entry_name db g"
    using group_cache.transparent [of t db g] by (simp add: group_ready_def)
  from assms show "group_ready db t'"
    using group_cache.keeps_ok [of t db True g] group_cache.agrees_get [of t db True g]
    by (simp add: group_ready_def)
qed

lemma group_ready_empty: "group_ready db (\<lambda>_. [])"
  by (simp add: group_ready_def group_cache.agrees_def)

lemma skip_commas_show: "dropWhile (\<lambda>c. c = CHR '','') (show_nat n @ r) = show_nat n @ r"
proof -
  obtain d ds where d: "show_nat n = d # ds" using show_nat_nonempty by (cases "show_nat n") auto
  then have "isdigit d" using show_nat_digits [of d n] by simp
  then have "d \<noteq> CHR '',''" by (auto simp: isdigit_def)
  with d show ?thesis by simp
qed

lemma supgrps_loop_groups:
  assumes "le_mem e = (\<lambda>_. True)" "le_node e"
  shows "gs \<noteq> [] \<Longrightarrow> list_all (\<lambda>g. le_group e g \<noteq> Some []) gs \<Longrightarrow> group_ready (le_group e) t \<Longrightarrow>
    int (length pre) + 34 * int (length gs) < INT_MAX - 35 \<Longrightarrow> (acc = None \<longleftrightarrow> pre = []) \<Longrightarrow>
    (case acc of None \<Rightarrow> [] | Some x \<Rightarrow> x) = pre \<Longrightarrow>
    s = comma_groups gs \<or> s = CHR '','' # comma_groups gs \<Longrightarrow>
    \<exists>t'. supgrps_loop e s acc t =
      Some (Some (pre @ (if pre \<noteq> [] then '','' else []) @ comma_join (sgroup_names (le_group e) gs)), t')"
proof (induction gs arbitrary: pre acc t s rule: comma_groups.induct)
  case 1
  then show ?case by simp
next
  case (2 g)
  obtain nm t' where g: "pwcache_get_group (le_group e) True g t = (nm, t')" by fastforce
  have s: "dropWhile (\<lambda>c. c = CHR '','') s = show_nat (unat g)"
    using 2(7) skip_commas_show [of "unat g" "[]"] by auto
  have st: "strtol (show_nat (unat g)) = (int (unat g), [])"
    using strtol_first [of "unat g" "[]"] unat_uid_63 [of g] by simp
  have len: "length nm \<le> 33"
    using pwcache_get_group_length [of t "le_group e" True g] 2(3) g by (simp add: group_ready_def P_G_SZ_def)
  have nm: "nm = gr_entry_name (le_group e) g" using group_ready_get [OF 2(3) g] by simp
  show ?case
    using assms 2(4,5,6) g s st len
    by (subst supgrps_loop.simps) (auto simp: Let_def P_G_SZ_def sgroup_names_def nm dest: sym [of "[]"])
next
  case (3 g g' gs)
  obtain nm t' where g: "pwcache_get_group (le_group e) True g t = (nm, t')" by fastforce
  let ?r = "CHR '','' # comma_groups (g' # gs)"
  have s: "dropWhile (\<lambda>c. c = CHR '','') s = show_nat (unat g) @ ?r"
    using 3(8) skip_commas_show [of "unat g" ?r] by auto
  have st: "strtol (show_nat (unat g) @ ?r) = (int (unat g), ?r)"
    using strtol_first [of "unat g" ?r] unat_uid_63 [of g] by (simp add: isdigit_def)
  have len: "length nm \<le> 33"
    using pwcache_get_group_length [of t "le_group e" True g] 3(4) g by (simp add: group_ready_def P_G_SZ_def)
  have nm: "nm = gr_entry_name (le_group e) g" "group_ready (le_group e) t'"
    using group_ready_get [OF 3(4) g] by auto
  have ne: "nm \<noteq> []"
    using 3(3) by (auto simp: nm(1) gr_entry_name_def split: option.splits)
  define new where "new = pre @ (if pre \<noteq> [] then '','' else []) @ nm"
  have "supgrps_loop e s acc t = supgrps_loop e ?r (Some new) t'"
    using assms 3(5,6,7) g s st len
    by (subst supgrps_loop.simps) (auto simp: Let_def P_G_SZ_def new_def)
  moreover have "\<exists>t''. supgrps_loop e ?r (Some new) t' =
      Some (Some (new @ (if new \<noteq> [] then '','' else []) @ comma_join (sgroup_names (le_group e) (g' # gs))), t'')"
    using 3(3,5) len ne by (intro 3(1)) (auto simp: nm new_def)
  ultimately show ?case using ne by (auto simp: new_def nm sgroup_names_def)
qed

definition stat_defaults :: "proc_t \<Rightarrow> proc_t" where
  "stat_defaults P = P\<lparr>p_processor := 0, p_rtprio := - 1, p_sched := - 1, p_nlwp := 0\<rparr>"

definition at_least_one_thread :: "proc_t \<Rightarrow> proc_t" where
  "at_least_one_thread P = (if p_nlwp P = 0 then P\<lparr>p_nlwp := 1\<rparr> else P)"

lemma stat2proc_stat_line:
  assumes "map field_conv fs = stat_types" "list_all field_ok fs" "state \<noteq> CHR '')''"
    and "p_cmd P = None" "length comm < 64" "le_mem e (command_of (le_charset e) comm)" "stat_rest rest"
  shows "stat2proc e (stat_line pid comm state fs rest) P =
    Done (at_least_one_thread (assign stat_setters (SChar state # concat (map field_val fs))
            ((stat_defaults P)\<lparr>p_cmd := Some (command_of (le_charset e) comm)\<rparr>)))"
proof -
  obtain b n where "escape_str (le_charset e) [] comm 64 = Some (b, n)"
    using escape_str_bounds [of 64 "le_charset e" "[]" comm] by auto
  then have esc: "escape_str (le_charset e) [] comm 64 = Some (command_of (le_charset e) comm, n)"
    by (simp add: command_of_def)
  show ?thesis
    using assms(4,5,6) esc
    by (simp add: stat2proc_def stat_line_command(1) [OF assms(3,7)]
        stat_line_command(2) [OF assms(3,7), simplified] sscanf_stat [OF assms(1,2,7)] Let_def
        stat_defaults_def at_least_one_thread_def)
qed

text \<open>A structure that has a command already keeps it.\<close>

lemma stat2proc_stat_line_keeps:
  assumes "map field_conv fs = stat_types" "list_all field_ok fs" "state \<noteq> CHR '')''" and "p_cmd P = Some c" "stat_rest rest"
  shows "stat2proc e (stat_line pid comm state fs rest) P =
    Done (at_least_one_thread (assign stat_setters (SChar state # concat (map field_val fs)) (stat_defaults P)))"
  using assms(4)
  by (simp add: stat2proc_def stat_line_command(1) [OF assms(3,5)]
      stat_line_command(2) [OF assms(3,5), simplified] sscanf_stat [OF assms(1,2,5)] Let_def
      stat_defaults_def at_least_one_thread_def)

subsection \<open>Properties\<close>

text \<open>
  C7. From the line the kernel prints for a process, \<open>stat2proc\<close> takes the command and every number
  correctly, whatever characters the command has, parentheses, blanks and newlines included, and
  whatever fields a later kernel prints after those.
\<close>

theorem stat2proc_kernel_line:
  assumes "fs =
      [FInt ppid, FInt pgrp, FInt sid, FInt tty, FInt tpgid, FULong flags, FULong min_flt,
       FULong cmin_flt, FULong maj_flt, FULong cmaj_flt, FULong utime, FULong stime,
       FULong cutime, FULong cstime, FInt prio, FInt nice, FInt nthreads, FULong alarm,
       FULong start, FULong vsize, FULong rss, FULong rlim, FULong start_code, FULong end_code,
       FULong start_stack, FULong esp, FULong eip, FSkipStr pending, FSkipStr blocked,
       FSkipStr ignored, FSkipStr caught, FULong wchan, FSkipU nswap, FSkipU cnswap,
       FInt exit_sig, FInt cpu, FInt rtprio, FInt policy, FULong blkio, FULong gtime,
       FULong cgtime]"
    and "list_all field_ok fs" and "nthreads \<noteq> 0" and "state \<noteq> CHR '')''"
    and "p_cmd P = None" and "length comm < 64" and "le_mem e (command_of (le_charset e) comm)" and "stat_rest rest"
  shows "stat2proc e (stat_line pid comm state fs rest) P =
    Done (P\<lparr>p_cmd := Some (command_of (le_charset e) comm), p_state := state,
       p_ppid := ppid, p_pgrp := pgrp, p_session := sid, p_tty := tty, p_tpgid := tpgid,
       p_flags := flags, p_min_flt := min_flt, p_cmin_flt := cmin_flt, p_maj_flt := maj_flt,
       p_cmaj_flt := cmaj_flt, p_utime := utime, p_stime := stime, p_cutime := cutime,
       p_cstime := cstime, p_priority := prio, p_nice := nice, p_nlwp := nthreads,
       p_alarm := alarm, p_start_time := start, p_vsize := vsize, p_rss := rss,
       p_rss_rlim := rlim, p_start_code := start_code, p_end_code := end_code,
       p_start_stack := start_stack, p_kstk_esp := esp, p_kstk_eip := eip, p_wchan := wchan,
       p_exit_signal := exit_sig, p_processor := cpu, p_rtprio := rtprio, p_sched := policy,
       p_blkio_tics := blkio, p_gtime := gtime, p_cgtime := cgtime\<rparr>)"
proof -
  have "map field_conv fs = stat_types" unfolding assms(1) stat_types_def by (simp add: numeral_eq_Suc)
  from stat2proc_stat_line [OF this assms(2,4,5,6,7,8)] assms(1,3) show ?thesis
    by (simp add: stat_setters_def stat_defaults_def at_least_one_thread_def)
qed

definition sample_lib :: lib_env where
  "sample_lib = \<lparr>le_charset = None, le_mem = (\<lambda>_. True), le_passwd = (\<lambda>_. None), le_group = (\<lambda>_. None), le_node = True\<rparr>"

definition sample_fields :: "field list" where
  "sample_fields =
     [FInt 2, FInt 3, FInt 4, FInt 5, FInt 6, FULong 7, FULong 8, FULong 9, FULong 10,
      FULong 11, FULong 12, FULong 13, FULong 14, FULong 15, FInt 16, FInt 17, FInt 18,
      FULong 19, FULong 20, FULong 21, FULong 22, FULong 23, FULong 24, FULong 25, FULong 26,
      FULong 27, FULong 28, FSkipStr 5, FSkipStr 5, FSkipStr 5, FSkipStr 5, FULong 29,
      FSkipU 6, FSkipU 6, FInt 30, FInt 31, FInt 32, FInt 33, FULong 34, FULong 35, FULong 36]"

theorem stat2proc_kernel_line_witness:
  "stat2proc sample_lib (stat_line 9 ''a) (b'' (CHR ''S'') sample_fields ('' 40 41 42 43 44 45 46 0'' @ [newline])) zero_proc =
    Done (zero_proc\<lparr>p_cmd := Some (command_of None ''a) (b''), p_state := CHR ''S'',
       p_ppid := 2, p_pgrp := 3, p_session := 4, p_tty := 5, p_tpgid := 6, p_flags := 7,
       p_min_flt := 8, p_cmin_flt := 9, p_maj_flt := 10, p_cmaj_flt := 11, p_utime := 12,
       p_stime := 13, p_cutime := 14, p_cstime := 15, p_priority := 16, p_nice := 17,
       p_nlwp := 18, p_alarm := 19, p_start_time := 20, p_vsize := 21, p_rss := 22,
       p_rss_rlim := 23, p_start_code := 24, p_end_code := 25, p_start_stack := 26,
       p_kstk_esp := 27, p_kstk_eip := 28, p_wchan := 29, p_exit_signal := 30,
       p_processor := 31, p_rtprio := 32, p_sched := 33, p_blkio_tics := 34, p_gtime := 35,
       p_cgtime := 36\<rparr>)"
  using stat2proc_kernel_line [OF sample_fields_def, of "CHR ''S''" zero_proc "''a) (b''" sample_lib "'' 40 41 42 43 44 45 46 0'' @ [newline]" 9]
  by (simp add: sample_lib_def zero_proc_def sample_fields_def isspace_def)

text \<open>
  C35. From a \<open>smaps_rollup\<close> text with the twenty lines in the kernel's order, \<open>smaps2proc\<close> gives each field of
  the structure the number after its own name, whatever stands between (unknown lines, units) as long as it
  does not contain the name that follows it.
\<close>

theorem smaps2proc_rollup:
  assumes "rollup_ok rollup_names vs rest"
    and "map (snd \<circ> snd) vs =
      [rss, pss, pss_anon, pss_file, pss_shmem, shared_clean, shared_dirty, private_clean, private_dirty, referenced,
       anonymous, lazy_free, anon_huge, shmem_pmd, file_pmd, shared_huge, private_huge, swap, swap_pss, locked]"
  shows "smaps2proc (rollup_text rollup_names vs rest) P =
    P\<lparr>p_smap_Rss := rss, p_smap_Pss := pss, p_smap_Pss_Anon := pss_anon, p_smap_Pss_File := pss_file,
      p_smap_Pss_Shmem := pss_shmem, p_smap_Shared_Clean := shared_clean, p_smap_Shared_Dirty := shared_dirty,
      p_smap_Private_Clean := private_clean, p_smap_Private_Dirty := private_dirty, p_smap_Referenced := referenced,
      p_smap_Anonymous := anonymous, p_smap_LazyFree := lazy_free, p_smap_AnonHugePages := anon_huge,
      p_smap_ShmemPmdMapped := shmem_pmd, p_smap_FilePmdMapped := file_pmd, p_smap_Shared_Hugetlb := shared_huge,
      p_smap_Private_Hugetlb := private_huge, p_smap_Swap := swap, p_smap_SwapPss := swap_pss, p_smap_Locked := locked\<rparr>"
proof -
  have names: "map fst smaptab = rollup_names" by (simp add: smaptab_def rollup_names_def)
  have "smaps2proc (rollup_text rollup_names vs rest) P = fold (\<lambda>((item, f), v). f v) (zip smaptab (map (snd \<circ> snd) vs)) P"
    using smaps_loop_rollup [of smaptab vs rest P] assms(1) by (simp add: smaps2proc_def names)
  then show ?thesis unfolding assms(2) by (simp add: smaptab_def)
qed

text \<open>
  The names of the supplementary groups are those of the group database (or the number when
  there is none), in the order of the ids and separated by commas, if the group cache agrees with
  the database and no group has an empty name.
\<close>

theorem supgrps_names:
  assumes "p_supgid P = Some (comma_groups gs)" and "gs \<noteq> []"
    and "le_mem e = (\<lambda>_. True)" and "le_node e" and "list_all (\<lambda>g. le_group e g \<noteq> Some []) gs"
    and "group_ready (le_group e) t" and "34 * int (length gs) < INT_MAX - 35"
  shows "\<exists>t'. supgrps_from_supgids e P t =
     Done (P\<lparr>p_supgrp := Some (comma_join (sgroup_names (le_group e) gs))\<rparr>, t')"
proof -
  obtain g gs' where gs: "gs = g # gs'" using assms(2) by (cases gs) auto
  have "\<exists>d r. comma_groups gs = d # r \<and> isdigit d"
  proof -
    obtain d ds where "show_nat (unat g) = d # ds" using show_nat_nonempty by (cases "show_nat (unat g)") auto
    moreover from this have "isdigit d" using show_nat_digits [of d "unat g"] by simp
    ultimately show ?thesis by (cases gs') (auto simp: gs)
  qed
  then have "hd (comma_groups gs) \<noteq> CHR ''-''" by (auto simp: isdigit_def)
  moreover obtain t' where "supgrps_loop e (comma_groups gs) None t
      = Some (Some (comma_join (sgroup_names (le_group e) gs)), t')"
    using supgrps_loop_groups [OF assms(3,4,2,5,6), of "[]" None "comma_groups gs"] assms(7) by auto
  ultimately show ?thesis using assms(1) by (simp add: supgrps_from_supgids_def)
qed

theorem supgrps_names_witness:
  "\<exists>t'. supgrps_from_supgids (sample_lib\<lparr>le_group := (\<lambda>g. if g = 24 then Some ''cdrom'' else None)\<rparr>)
      (zero_proc\<lparr>p_supgid := Some (comma_groups [4, 24])\<rparr>) (\<lambda>_. []) =
     Done ((zero_proc\<lparr>p_supgid := Some (comma_groups [4, 24])\<rparr>)
       \<lparr>p_supgrp := Some (comma_join (sgroup_names
          (le_group (sample_lib\<lparr>le_group := (\<lambda>g. if g = 24 then Some ''cdrom'' else None)\<rparr>)) [4, 24]))\<rparr>, t')"
  by (rule supgrps_names) (simp_all add: sample_lib_def group_ready_empty INT_MAX_def)

definition sample_rollup :: "(string \<times> nat \<times> ulong) list" where
  "sample_rollup =
     (''00400000-7ffd 00:00 0 [rollup]'' @ [newline], 12, 100) # ('' kB'' @ [newline], 12, 90)
     # ('' kB'' @ newline # ''Pss_Dirty: 80 kB'' @ [newline], 4, 7)
     # map (\<lambda>v. ('' kB'' @ [newline], 3, v)) [8, 9, 10, 11, 12, 13, 14, 15, 16, 17, 18, 19, 20, 21, 22, 23, 24]"

theorem smaps2proc_rollup_witness:
  "smaps2proc (rollup_text rollup_names sample_rollup ('' kB'' @ [newline])) zero_proc =
    zero_proc\<lparr>p_smap_Rss := 100, p_smap_Pss := 90, p_smap_Pss_Anon := 7, p_smap_Pss_File := 8,
      p_smap_Pss_Shmem := 9, p_smap_Shared_Clean := 10, p_smap_Shared_Dirty := 11,
      p_smap_Private_Clean := 12, p_smap_Private_Dirty := 13, p_smap_Referenced := 14,
      p_smap_Anonymous := 15, p_smap_LazyFree := 16, p_smap_AnonHugePages := 17,
      p_smap_ShmemPmdMapped := 18, p_smap_FilePmdMapped := 19, p_smap_Shared_Hugetlb := 20,
      p_smap_Private_Hugetlb := 21, p_smap_Swap := 22, p_smap_SwapPss := 23, p_smap_Locked := 24\<rparr>"
proof (rule smaps2proc_rollup)
  have "rollup_ok rollup_names sample_rollup ('' kB'' @ [newline]) \<longleftrightarrow> True"
    unfolding sample_rollup_def by code_simp
  then show "rollup_ok rollup_names sample_rollup ('' kB'' @ [newline])" by simp
qed (simp add: sample_rollup_def)

end
