(* ===== verification/ProcFiles.thy ===== *)
theory ProcFiles
  imports StatParse
begin

unbundle bit_operations_syntax

text \<open>
  Reading the files of \<^verbatim>\<open>/proc/<pid>\<close> in \<^verbatim>\<open>procps/linux/readproc.c\<close>: into a
  growing buffer (\<open>file2str\<close>), into a vector of strings (\<open>file2strvec\<close>), into one string
  with the separators replaced (\<open>read_unvectored\<close>), and the fields made from them.

  A file is the list of what successive \<open>read\<close> calls find: data, an interrupted call, an
  error; a read for \<open>n\<close> bytes takes at most \<open>n\<close> and leaves the rest for the next. \<open>None\<close>
  means that \<open>open\<close> fails. \<open>alloc n\<close> says whether \<open>n\<close> bytes can be allocated.
\<close>

datatype arrival = FData string | FIntr | FErr

datatype read_status = ReadEOF | ReadIntr | ReadErr | ReadBytes string

fun read_fd :: "nat \<Rightarrow> arrival list \<Rightarrow> read_status \<times> arrival list" where
  "read_fd n [] = (ReadEOF, [])"
| "read_fd n (FIntr # cs) = (ReadIntr, cs)"
| "read_fd n (FErr # cs) = (ReadErr, cs)"
| "read_fd n (FData d # cs) =
     (if take n d = [] then (ReadEOF, cs)
      else (ReadBytes (take n d), if length d \<le> n then cs else FData (drop n d) # cs))"

fun arrival_size :: "arrival \<Rightarrow> nat" where
  "arrival_size (FData d) = Suc (length d)"
| "arrival_size _ = 1"

definition file_size :: "arrival list \<Rightarrow> nat" where
  "file_size cs = sum_list (map arrival_size cs)"

lemma read_fd_shorter:
  "read_fd n cs = (ReadBytes d, cs') \<Longrightarrow> file_size cs' < file_size cs"
  "read_fd n cs = (ReadIntr, cs') \<Longrightarrow> file_size cs' < file_size cs"
  by (cases "(n, cs)" rule: read_fd.cases; auto simp: file_size_def split: if_splits)+

lemma read_fd_length: "read_fd n cs = (ReadBytes d, cs') \<Longrightarrow> d \<noteq> [] \<and> length d \<le> n"
  by (cases "(n, cs)" rule: read_fd.cases) (auto split: if_splits)

type_synonym proc_fs = "string \<Rightarrow> arrival list option"

definition PROCPATHLEN :: nat where
  "PROCPATHLEN = 64"

definition MAX_BUFSZ :: nat where
  "MAX_BUFSZ = 1024 * 64 * 2"

definition proc_path :: "string \<Rightarrow> string \<Rightarrow> string" where
  "proc_path directory what = directory @ ''/'' @ what"

subsection \<open>file2str\<close>

record utlbuf =
  ub_buf :: "string option"
  ub_siz :: nat

definition buffGRW :: nat where
  "buffGRW = 1024"

text \<open>The loop: the size of the buffer and the bytes in it; \<open>None\<close> when \<open>realloc\<close> fails.\<close>

function f2s_loop :: "(nat \<Rightarrow> bool) \<Rightarrow> nat \<Rightarrow> string \<Rightarrow> arrival list \<Rightarrow> string option \<times> nat" where
  "f2s_loop alloc siz acc cs =
     (case read_fd (siz - length acc) cs of
        (ReadBytes d, cs') \<Rightarrow>
          let acc' = acc @ d
          in if length acc' < siz then (Some acc', siz)
             else if INT_MAX - int buffGRW \<le> int siz then (Some (butlast acc'), siz)
             else if \<not> alloc (siz + buffGRW) then (None, siz + buffGRW)
             else f2s_loop alloc (siz + buffGRW) acc' cs'
      | _ \<Rightarrow> (Some acc, siz))"
  by pat_completeness auto
termination
  by (relation "measure (\<lambda>(alloc, siz, acc, cs). file_size cs)") (auto dest: read_fd_shorter [OF sym])

declare f2s_loop.simps [simp del]

definition file2str :: "(nat \<Rightarrow> bool) \<Rightarrow> proc_fs \<Rightarrow> string \<Rightarrow> string \<Rightarrow> utlbuf \<Rightarrow> int \<times> utlbuf" where
  "file2str alloc fs directory what ub =
     (let ub1 = (case ub_buf ub of
                   Some _ \<Rightarrow> ub\<lparr>ub_buf := Some []\<rparr>
                 | None \<Rightarrow> \<lparr>ub_buf = (if alloc buffGRW then Some [] else None), ub_siz = buffGRW\<rparr>)
      in if ub_buf ub1 = None then (- 1, ub1)
         else if PROCPATHLEN \<le> length (proc_path directory what) then (- 1, ub1)
         else (case fs (proc_path directory what) of
                 None \<Rightarrow> (- 1, ub1)
               | Some cs \<Rightarrow>
                   (case f2s_loop alloc (ub_siz ub1) [] cs of
                      (None, siz) \<Rightarrow> (- 1, \<lparr>ub_buf = None, ub_siz = siz\<rparr>)
                    | (Some acc, siz) \<Rightarrow>
                        (if acc = [] then - 1 else int (length acc), \<lparr>ub_buf = Some acc, ub_siz = siz\<rparr>))))"

definition ub_text :: "utlbuf \<Rightarrow> string" where
  "ub_text ub = (case ub_buf ub of None \<Rightarrow> [] | Some b \<Rightarrow> cstr b)"

subsection \<open>file2strvec\<close>

definition ARG_LEN :: int where
  "ARG_LEN = 64"

text \<open>Reading the whole file: the bytes read, \<open>None\<close> for an error.\<close>

function vec_read :: "(nat \<Rightarrow> bool) \<Rightarrow> string \<Rightarrow> arrival list \<Rightarrow> string option" where
  "vec_read alloc rbuf cs =
     (case read_fd 2047 cs of
        (ReadErr, _) \<Rightarrow> None
      | (ReadIntr, _) \<Rightarrow> None
      | (ReadEOF, _) \<Rightarrow>
          if rbuf = [] then None
          else if last rbuf \<noteq> NUL
               then (if alloc (length rbuf + 1) then Some (rbuf @ [NUL]) else None)
               else Some rbuf
      | (ReadBytes d, cs') \<Rightarrow>
          let big = (INT_MAX div (ARG_LEN + 8) * ARG_LEN - int (length d) \<le> int (length rbuf));
              eof = (length d < 2047 \<or> big);
              d1 = (if big then [] else d);
              d2 = (if eof \<and> (d1 \<noteq> [] \<and> last d1 \<noteq> NUL \<or> d1 = [] \<and> rbuf \<noteq> [] \<and> last rbuf \<noteq> NUL)
                    then d1 @ [NUL] else d1)
          in if d2 = [] then (if rbuf = [] then None else Some rbuf)
             else if \<not> alloc (length rbuf + length d2) then None
             else if eof then Some (rbuf @ d2)
             else vec_read alloc (rbuf @ d2) cs')"
  by pat_completeness auto
termination
  by (relation "measure (\<lambda>(alloc, rbuf, cs). file_size cs)") (auto dest: read_fd_shorter [OF sym])

declare vec_read.simps [simp del]

text \<open>Counting the space for pointers, newlines becoming NULs, up to \<open>maxc\<close> of them.\<close>

fun vec_count :: "int \<Rightarrow> int \<Rightarrow> string \<Rightarrow> int \<times> string" where
  "vec_count maxc c [] = (c, [])"
| "vec_count maxc c (x # xs) =
     (if x = NUL \<or> x = newline then
        (if maxc \<le> c then (c, x # xs)
         else case vec_count maxc (c + 8) xs of (c', ys) \<Rightarrow> (c', NUL # ys))
      else case vec_count maxc c xs of (c', ys) \<Rightarrow> (c', x # ys))"

text \<open>The pointers set: one for each NUL, while there is space for it and the final null.\<close>

fun vec_strings :: "int \<Rightarrow> string \<Rightarrow> string \<Rightarrow> string list" where
  "vec_strings c cur [] = []"
| "vec_strings c cur (x # xs) =
     (if x = NUL then (if c < 16 then [] else cur # vec_strings (c - 8) [] xs)
      else vec_strings c (cur @ [x]) xs)"

definition file2strvec :: "(nat \<Rightarrow> bool) \<Rightarrow> proc_fs \<Rightarrow> string \<Rightarrow> string \<Rightarrow> string list option" where
  "file2strvec alloc fs directory what =
     (if 2048 \<le> length (proc_path directory what) then None
      else case fs (proc_path directory what) of
             None \<Rightarrow> None
           | Some cs \<Rightarrow>
               (case vec_read alloc [] cs of
                  None \<Rightarrow> None
                | Some rbuf \<Rightarrow>
                    let tot = length rbuf; align = 7 - (tot + 7) mod 8;
                        (c, data) = vec_count (INT_MAX - int (tot + 8 + align)) 8 (rbuf[tot - 1 := NUL])
                    in if \<not> alloc (tot + nat c + align) then None
                       else Some (vec_strings c [] data)))"

subsection \<open>read\_unvectored and the strings made with it\<close>

text \<open>The reading loop fills at most \<open>sz\<close> bytes; a full buffer gives its last one up.\<close>

function unv_read :: "nat \<Rightarrow> string \<Rightarrow> arrival list \<Rightarrow> string" where
  "unv_read sz acc cs =
     (case read_fd (sz - length acc) cs of
        (ReadIntr, cs') \<Rightarrow> unv_read sz acc cs'
      | (ReadBytes d, cs') \<Rightarrow>
          if length (acc @ d) = sz then butlast (acc @ d) else unv_read sz (acc @ d) cs'
      | _ \<Rightarrow> acc)"
  by pat_completeness auto
termination
  by (relation "measure (\<lambda>(sz, acc, cs). file_size cs)") (auto dest: read_fd_shorter [OF sym])

declare unv_read.simps [simp del]

definition unv_edit :: "char \<Rightarrow> string \<Rightarrow> string" where
  "unv_edit sep bs =
     (let i = length (dropWhile (\<lambda>c. c = NUL) (rev bs));
          ed = map (\<lambda>c. if c = newline \<or> c = NUL then sep else c) (take i bs) @ drop i bs
      in if ed \<noteq> [] \<and> last ed = CHR '' '' then butlast ed @ [NUL] else ed)"

text \<open>The bytes left in \<open>dst\<close>, the value returned being their number.\<close>

definition read_unvectored :: "proc_fs \<Rightarrow> nat \<Rightarrow> string \<Rightarrow> string \<Rightarrow> char \<Rightarrow> string" where
  "read_unvectored fs sz whom what sep =
     (if sz = 0 then []
      else if PROCPATHLEN \<le> length (proc_path whom what) then []
      else case fs (proc_path whom what) of
             None \<Rightarrow> []
           | Some cs \<Rightarrow> unv_edit sep (unv_read (nat (min (int sz) (INT_MAX - 1))) [] cs))"

definition vectorize_this_str :: "(nat \<Rightarrow> bool) \<Rightarrow> string \<Rightarrow> string list option" where
  "vectorize_this_str alloc src =
     (let t0 = length src + 1;
          tot = (if INT_MAX \<le> int t0 then nat (INT_MAX - 1) else t0);
          adj = 7 - (tot + 7) mod 8
      in if alloc (tot + adj + 16) then Some [snprintf_buf tot src] else None)"

definition vectorize_dash_rc :: "(nat \<Rightarrow> bool) \<Rightarrow> string list outcome" where
  "vectorize_dash_rc alloc = (case vectorize_this_str alloc ''-'' of Some v \<Rightarrow> Done v | None \<Rightarrow> NoMem)"

text \<open>The non-empty strings of a buffer, in order.\<close>

function nul_strings :: "string \<Rightarrow> string list" where
  "nul_strings bs =
     (case bs of
        [] \<Rightarrow> []
      | c # r \<Rightarrow> if c = NUL then nul_strings r
                 else cstr bs # nul_strings (drop (length (cstr bs)) bs))"
  by pat_completeness auto
termination
  by (relation "measure length") (auto simp: cstr_def)

declare nul_strings.simps [simp del]

text \<open>The loop over the controllers: the text written to \<open>dst_buffer\<close> so far.\<close>

fun cgroup_loop :: "string option \<Rightarrow> string \<Rightarrow> string list \<Rightarrow> string outcome" where
  "cgroup_loop enc dst [] = Done dst"
| "cgroup_loop enc dst (grp # grps) =
     (if last grp = CHR ''/'' then cgroup_loop enc dst grps
      else if int MAX_BUFSZ - int (length dst) \<le> 1 then Done dst
      else
        let dst1 = dst @ (if dst \<noteq> [] then '','' else [])
        in case escape_str enc [] grp (int MAX_BUFSZ - int (length dst1)) of
             None \<Rightarrow> Undef
           | Some (t, n) \<Rightarrow> cgroup_loop enc (dst1 @ t) grps)"

definition fill_cgroup_cvt :: "lib_env \<Rightarrow> proc_fs \<Rightarrow> string \<Rightarrow> proc_t \<Rightarrow> proc_t outcome" where
  "fill_cgroup_cvt e fs directory p =
     bind_outcome
       (cgroup_loop (le_charset e) [] (nul_strings (read_unvectored fs MAX_BUFSZ directory ''cgroup'' NUL)))
       (\<lambda>dst.
          let cg = (if dst \<noteq> [] then dst else ''-'');
              name = (case strstr cg '':name='' of
                        Some s \<Rightarrow> if drop 6 s \<noteq> [] then drop 6 s else cg
                      | None \<Rightarrow> cg)
          in if le_mem e cg \<and> le_mem e name then Done (p\<lparr>p_cgroup := Some cg, p_cgname := Some name\<rparr>) else NoMem)"

definition fill_cmdline_cvt :: "lib_env \<Rightarrow> proc_fs \<Rightarrow> string \<Rightarrow> proc_t \<Rightarrow> proc_t outcome" where
  "fill_cmdline_cvt e fs directory p =
     (let src = read_unvectored fs MAX_BUFSZ directory ''cmdline'' (CHR '' '');
          dst = (if src \<noteq> [] then escape_str (le_charset e) [] (cstr src) (int MAX_BUFSZ)
                 else case p_cmd p of
                        None \<Rightarrow> None
                      | Some cmd \<Rightarrow> escape_command (le_charset e) (p_state p) cmd (int MAX_BUFSZ) (ESC_BRACKETS OR ESC_DEFUNCT))
      in case dst of
           None \<Rightarrow> Undef
         | Some (t, n) \<Rightarrow>
             let s = (if t \<noteq> [] then t else ''?'')
             in if le_mem e s then Done (p\<lparr>p_cmdline := Some s\<rparr>) else NoMem)"

definition fill_environ_cvt :: "lib_env \<Rightarrow> proc_fs \<Rightarrow> string \<Rightarrow> proc_t \<Rightarrow> proc_t outcome" where
  "fill_environ_cvt e fs directory p =
     (let src = read_unvectored fs MAX_BUFSZ directory ''environ'' (CHR '' '')
      in case (if src \<noteq> [] then escape_str (le_charset e) [] (cstr src) (int MAX_BUFSZ) else Some ([], 0)) of
           None \<Rightarrow> Undef
         | Some (t, n) \<Rightarrow>
             let s = (if t \<noteq> [] then t else ''-'')
             in if le_mem e s then Done (p\<lparr>p_environ := Some s\<rparr>) else NoMem)"

subsection \<open>Containers, log-in, executable, autogroup\<close>

text \<open>The last occurrence of the delimiter, one after the other: what follows it.\<close>

function lxc_last :: "string \<Rightarrow> string \<Rightarrow> string" where
  "lxc_last delim p2 =
     (case strstr p2 delim of
        None \<Rightarrow> p2
      | Some q \<Rightarrow> if delim = [] then p2 else lxc_last delim (drop (length delim) q))"
  by pat_completeness auto
termination
proof (relation "measure (\<lambda>(delim, p2). length p2)", goal_cases)
  case (2 delim p2 q)
  then have "is_prefix delim q" "length q \<le> length p2" using strstr_SomeD strstr_length by blast+
  with 2(2) show ?case by (cases delim) (auto simp: is_prefix_iff)
qed simp

declare lxc_last.simps [simp del]

text \<open>The name in a cgroup text: of the first controller line with one of the three delimiters.\<close>

definition lxc_find :: "string \<Rightarrow> (string \<times> string) option" where
  "lxc_find s =
     (case strstr s ''lxc.payload.'' of
        Some p1 \<Rightarrow> Some (''lxc.payload.'', p1)
      | None \<Rightarrow>
          (case strstr s ''lxc.payload/'' of
             Some p1 \<Rightarrow> Some (''lxc.payload/'', p1)
           | None \<Rightarrow> (case strstr s ''lxc/'' of Some p1 \<Rightarrow> Some (''lxc/'', p1) | None \<Rightarrow> None)))"

definition lxc_name :: "string \<Rightarrow> string option" where
  "lxc_name s =
     (case lxc_find s of
        None \<Rightarrow> None
      | Some (delim, p1) \<Rightarrow>
          let line = takeWhile (\<lambda>c. c \<noteq> newline) p1
          in Some (takeWhile (\<lambda>c. c \<noteq> CHR ''/'') (lxc_last delim (drop (length delim) line))))"

record lxc_state =
  lxc_ub :: utlbuf
  lxc_anchor :: "string list"    \<comment> \<open>the names seen, the newest first\<close>

text \<open>\<open>ele_ok\<close>: can a list element and its name be allocated.\<close>

definition lxc_containers ::
  "(nat \<Rightarrow> bool) \<Rightarrow> (string \<Rightarrow> bool) \<Rightarrow> proc_fs \<Rightarrow> string \<Rightarrow> lxc_state \<Rightarrow> string \<times> lxc_state" where
  "lxc_containers alloc ele_ok fs path st =
     (case file2str alloc fs path ''cgroup'' (lxc_ub st) of
        (rc, ub) \<Rightarrow>
          let st1 = st\<lparr>lxc_ub := ub\<rparr>
          in if rc \<le> 0 then (''-'', st1)
             else (case lxc_name (ub_text ub) of
                     None \<Rightarrow> (''-'', st1)
                   | Some name \<Rightarrow>
                       if name \<in> set (lxc_anchor st) then (name, st1)
                       else if \<not> ele_ok name then (''?'', st1)
                       else (name, st1\<lparr>lxc_anchor := name # lxc_anchor st\<rparr>)))"

text \<open>One \<open>read\<close> of a small file into a buffer of \<open>PROCPATHLEN\<close> bytes.\<close>

definition read_small :: "proc_fs \<Rightarrow> string \<Rightarrow> string option" where
  "read_small fs path =
     (case fs (snprintf_buf PROCPATHLEN path) of
        None \<Rightarrow> None
      | Some cs \<Rightarrow> (case read_fd (PROCPATHLEN - 1) cs of (ReadBytes d, _) \<Rightarrow> Some (cstr d) | _ \<Rightarrow> None))"

definition login_uid :: "proc_fs \<Rightarrow> string \<Rightarrow> int" where
  "login_uid fs path =
     (case read_small fs (proc_path path ''loginuid'') of None \<Rightarrow> - 1 | Some buf \<Rightarrow> atoi buf)"

definition readlink_exe :: "lib_env \<Rightarrow> (string \<Rightarrow> string option) \<Rightarrow> string \<Rightarrow> string option outcome" where
  "readlink_exe e readlink path =
     (case readlink (snprintf_buf PROCPATHLEN (proc_path path ''exe'')) of
        Some t \<Rightarrow>
          (if take (MAX_BUFSZ - 1) t = [] then Done (if le_mem e ''-'' then Some ''-'' else None)
           else case escape_str (le_charset e) [] (cstr (take (MAX_BUFSZ - 1) t)) (int MAX_BUFSZ) of
                  None \<Rightarrow> Undef
                | Some (buf, _) \<Rightarrow> Done (if le_mem e buf then Some buf else None))
      | None \<Rightarrow> Done (if le_mem e ''-'' then Some ''-'' else None))"

definition autogroup_fill :: "proc_fs \<Rightarrow> string \<Rightarrow> proc_t \<Rightarrow> proc_t" where
  "autogroup_fill fs path p =
     (let p1 = p\<lparr>p_autogrp_id := - 1\<rparr>
      in case read_small fs (proc_path path ''autogroup'') of
           None \<Rightarrow> p1
         | Some buf \<Rightarrow>
             assign [\<lambda>v p. p\<lparr>p_autogrp_id := sint_of v\<rparr>, \<lambda>v p. p\<lparr>p_autogrp_nice := sint_of v\<rparr>]
               (sscanf ''/autogroup-%d nice %d'' buf) p1)"

subsection \<open>Lemmas: file2str\<close>

lemma read_fd_one:
  "0 < n \<Longrightarrow> t \<noteq> [] \<Longrightarrow>
   read_fd n [FData t] = (ReadBytes (take n t), if length t \<le> n then [] else [FData (drop n t)])"
  by simp

lemma f2s_loop_one:
  "length acc < siz \<Longrightarrow> t \<noteq> [] \<Longrightarrow> int (length acc + length t) < INT_MAX - int buffGRW \<Longrightarrow>
   (\<And>n. alloc n) \<Longrightarrow>
   \<exists>siz'. f2s_loop alloc siz acc [FData t] = (Some (acc @ t), siz') \<and> length (acc @ t) < siz'"
proof (induction "length t" arbitrary: siz acc t rule: less_induct)
  case less
  let ?n = "siz - length acc"
  show ?case
  proof (cases "length t < ?n")
    case True
    with less.prems show ?thesis
      by (subst f2s_loop.simps) (auto simp: read_fd_one Let_def)
  next
    case False
    then have full: "length (acc @ take ?n t) = siz" using less.prems by simp
    have lt: "\<not> INT_MAX - int buffGRW \<le> int siz" using False less.prems(1,3) by simp
    have step: "f2s_loop alloc siz acc [FData t] =
       f2s_loop alloc (siz + buffGRW) (acc @ take ?n t) (if length t \<le> ?n then [] else [FData (drop ?n t)])"
      using less.prems False full lt
      by (subst f2s_loop.simps) (simp add: read_fd_one Let_def)
    show ?thesis
    proof (cases "length t = ?n")
      case True
      then show ?thesis unfolding step
        using full less.prems(1) by (subst f2s_loop.simps) (auto simp: buffGRW_def)
    next
      case False
      with \<open>\<not> length t < ?n\<close> have gt: "?n < length t" by simp
      have "\<exists>siz'. f2s_loop alloc (siz + buffGRW) (acc @ take ?n t) [FData (drop ?n t)] =
          (Some ((acc @ take ?n t) @ drop ?n t), siz') \<and> length ((acc @ take ?n t) @ drop ?n t) < siz'"
      proof (rule less.hyps)
        show "length (drop ?n t) < length t" "drop ?n t \<noteq> []" using gt less.prems(1) by auto
        show "length (acc @ take ?n t) < siz + buffGRW" using full by (simp add: buffGRW_def)
        show "alloc n" for n by (rule less.prems(4))
        show "int (length (acc @ take ?n t) + length (drop ?n t)) < INT_MAX - int buffGRW"
          using less.prems(3) gt by simp
      qed
      with gt show ?thesis unfolding step by simp
    qed
  qed
qed

lemma file2str_one:
  assumes "fs (proc_path d w) = Some [FData t]" "t \<noteq> []" "length (proc_path d w) < PROCPATHLEN"
    "int (length t) < INT_MAX - int buffGRW" "\<And>n. alloc n" "ub_buf ub = None \<or> 0 < ub_siz ub"
  shows "\<exists>siz. file2str alloc fs d w ub = (int (length t), \<lparr>ub_buf = Some t, ub_siz = siz\<rparr>) \<and> length t < siz"
proof -
  define s where "s = (if ub_buf ub = None then buffGRW else ub_siz ub)"
  have "0 < s" using assms(6) by (auto simp: s_def buffGRW_def)
  then obtain siz where "f2s_loop alloc s [] [FData t] = (Some t, siz)" "length t < siz"
    using f2s_loop_one [of "[]" s t alloc] assms(2,4,5) by auto
  with assms show ?thesis
    by (cases "ub_buf ub") (auto simp: file2str_def s_def Let_def)
qed

subsection \<open>Lemmas: file2strvec\<close>

lemma vec_read_one:
  "t \<noteq> [] \<Longrightarrow> (\<And>n. alloc n) \<Longrightarrow> int (length rbuf + length t) < 1000000000 \<Longrightarrow>
   vec_read alloc rbuf [FData t] = Some (rbuf @ t @ (if last t = NUL then [] else [NUL]))"
proof (induction "length t" arbitrary: rbuf t rule: less_induct)
  case less
  have big: "\<not> INT_MAX div (ARG_LEN + 8) * ARG_LEN - int (length d) \<le> int (length rbuf)"
    if "length d \<le> length t" for d :: string
    using less.prems(3) that by (simp add: INT_MAX_def ARG_LEN_def)
  show ?case
  proof (cases "length t < 2047")
    case True
    with less.prems big [of t] show ?thesis
      by (subst vec_read.simps) (auto simp: read_fd_one Let_def)
  next
    case False
    have ne: "take 2047 t \<noteq> []" using less.prems(1) by (cases t) auto
    have step: "vec_read alloc rbuf [FData t] =
        vec_read alloc (rbuf @ take 2047 t) (if length t \<le> 2047 then [] else [FData (drop 2047 t)])"
      using less.prems False big [of "take 2047 t"] ne
      by (subst vec_read.simps) (simp add: Let_def)
    show ?thesis
    proof (cases "length t = 2047")
      case True
      then have "take 2047 t = t" by simp
      then show ?thesis unfolding step
        using True less.prems(1,2) by (subst vec_read.simps) auto
    next
      case False
      with \<open>\<not> length t < 2047\<close> have gt: "2047 < length t" by simp
      have "vec_read alloc (rbuf @ take 2047 t) [FData (drop 2047 t)] =
          Some ((rbuf @ take 2047 t) @ drop 2047 t @ (if last (drop 2047 t) = NUL then [] else [NUL]))"
        by (rule less.hyps) (use less.prems gt in auto)
      moreover have "last (drop 2047 t) = last t" using gt by (simp add: last_drop)
      ultimately show ?thesis unfolding step using gt by simp
    qed
  qed
qed

definition nul_joined :: "string list \<Rightarrow> string" where
  "nul_joined ss = concat (map (\<lambda>s. s @ [NUL]) ss)"

lemma nul_joined_simps [simp]: "nul_joined [] = []" "nul_joined (s # ss) = s @ NUL # nul_joined ss"
  by (simp_all add: nul_joined_def)

text \<open>A string cut at its newlines.\<close>

fun split_newlines :: "string \<Rightarrow> string list" where
  "split_newlines [] = [[]]"
| "split_newlines (c # s) =
     (if c = newline then [] # split_newlines s
      else (c # hd (split_newlines s)) # tl (split_newlines s))"

definition cut_newlines :: "string list \<Rightarrow> string list" where
  "cut_newlines ss = concat (map split_newlines ss)"

definition nl_to_nul :: "char \<Rightarrow> char" where
  "nl_to_nul c = (if c = newline then NUL else c)"

lemma nl_to_nul_NUL [simp]: "nl_to_nul NUL = NUL"
  by (simp add: nl_to_nul_def)

lemma split_newlines_not_Nil [simp]: "split_newlines s \<noteq> []"
  by (cases s) auto

lemma split_newlines_none: "newline \<notin> set s \<Longrightarrow> split_newlines s = [s]"
  by (induction s) auto

lemma cut_newlines_none: "list_all (\<lambda>s. newline \<notin> set s) ss \<Longrightarrow> cut_newlines ss = ss"
  by (induction ss) (auto simp: cut_newlines_def split_newlines_none)

lemma joined_split: "nul_joined (split_newlines s) = map nl_to_nul s @ [NUL]"
proof (induction s)
  case (Cons c s)
  obtain w ws where "split_newlines s = w # ws" by (cases "split_newlines s") auto
  then show ?case using Cons by (simp add: nl_to_nul_def)
qed simp

lemma joined_cut: "nul_joined (cut_newlines ss) = map nl_to_nul (nul_joined ss)"
proof (induction ss)
  case (Cons s ss)
  have "nul_joined (xs @ ys) = nul_joined xs @ nul_joined ys" for xs ys by (simp add: nul_joined_def)
  then show ?case using Cons by (simp add: cut_newlines_def joined_split)
qed (simp add: cut_newlines_def)

lemma vec_count_all:
  "c + 8 * int (length (filter (\<lambda>x. x = NUL \<or> x = newline) xs)) < maxc \<Longrightarrow>
   vec_count maxc c xs = (c + 8 * int (length (filter (\<lambda>x. x = NUL \<or> x = newline) xs)), map nl_to_nul xs)"
  by (induction xs arbitrary: c) (auto simp: nl_to_nul_def)

lemma count_joined: "list_all (\<lambda>s. NUL \<notin> set s) ws \<Longrightarrow> length (filter (\<lambda>x. x = NUL) (nul_joined ws)) = length ws"
proof (induction ws)
  case (Cons w ws)
  then have "filter (\<lambda>x. x = NUL) w = []" by (auto simp: filter_empty_conv)
  then show ?case using Cons by simp
qed simp

lemma cut_no_nul: "list_all (\<lambda>s. NUL \<notin> set s) ss \<Longrightarrow> list_all (\<lambda>s. NUL \<notin> set s) (cut_newlines ss)"
proof -
  have "NUL \<notin> set w" if "NUL \<notin> set s" "w \<in> set (split_newlines s)" for s w
    using that
  proof (induction s arbitrary: w)
    case (Cons c s)
    obtain v vs where "split_newlines s = v # vs" by (cases "split_newlines s") auto
    then show ?case using Cons by (auto split: if_splits)
  qed simp
  then show "list_all (\<lambda>s. NUL \<notin> set s) ss \<Longrightarrow> list_all (\<lambda>s. NUL \<notin> set s) (cut_newlines ss)"
    by (auto simp: list_all_iff cut_newlines_def)
qed

lemma vec_count_joined:
  assumes "list_all (\<lambda>s. NUL \<notin> set s) ss" "8 + 8 * int (length (cut_newlines ss)) < m"
  shows "vec_count m 8 (nul_joined ss) = (8 + 8 * int (length (cut_newlines ss)), nul_joined (cut_newlines ss))"
proof -
  have "filter (\<lambda>x. x = NUL) (map nl_to_nul xs) = map nl_to_nul (filter (\<lambda>x. x = NUL \<or> x = newline) xs)" for xs
    by (induction xs) (auto simp: nl_to_nul_def)
  then have "length (filter (\<lambda>x. x = NUL \<or> x = newline) (nul_joined ss)) = length (cut_newlines ss)"
    using count_joined [OF cut_no_nul [OF assms(1)]] by (simp add: joined_cut)
  then show ?thesis using vec_count_all [of 8 "nul_joined ss" m] assms(2) by (simp add: joined_cut)
qed

lemma vec_strings_plain: "NUL \<notin> set s \<Longrightarrow> vec_strings c cur (s @ r) = vec_strings c (cur @ s) r"
  by (induction s arbitrary: cur) auto

lemma vec_strings_joined:
  "list_all (\<lambda>s. NUL \<notin> set s) ss \<Longrightarrow> c = 8 + 8 * int (length ss) \<Longrightarrow> vec_strings c [] (nul_joined ss) = ss"
proof (induction ss arbitrary: c)
  case (Cons s ss)
  then show ?case by (simp add: vec_strings_plain)
qed simp

lemma length_nul_joined: "length ss \<le> length (nul_joined ss)"
  by (induction ss) auto

lemma nul_joined_last: "ss \<noteq> [] \<Longrightarrow> nul_joined ss \<noteq> [] \<and> last (nul_joined ss) = NUL"
proof (induction ss)
  case (Cons s ss)
  then show ?case by (cases ss) auto
qed simp

subsection \<open>Lemmas: bounds of the fixed buffers\<close>

lemma unv_read_length: "0 < sz \<Longrightarrow> length acc < sz \<Longrightarrow> length (unv_read sz acc cs) < sz"
proof (induction sz acc cs rule: unv_read.induct)
  case (1 sz acc cs)
  obtain r cs' where r: "read_fd (sz - length acc) cs = (r, cs')" by fastforce
  show ?case
  proof (cases r)
    case ReadIntr
    with 1 r show ?thesis by (subst unv_read.simps) simp
  next
    case (ReadBytes d)
    with read_fd_length r have "length d \<le> sz - length acc" by blast
    with 1(2) [OF r [symmetric] ReadBytes] 1(3,4) r ReadBytes show ?thesis
      by (subst unv_read.simps) auto
  qed (use 1 r in \<open>subst unv_read.simps, simp\<close>)+
qed

lemma length_unv_edit [simp]: "length (unv_edit sep bs) = length bs"
proof -
  define i where "i = length (dropWhile (\<lambda>c. c = NUL) (rev bs))"
  have "i \<le> length (rev bs)" unfolding i_def by (rule length_dropWhile_le)
  then have "length (map (\<lambda>c. if c = newline \<or> c = NUL then sep else c) (take i bs) @ drop i bs) = length bs"
    by simp
  moreover have "length (if xs \<noteq> [] \<and> last xs = x then butlast xs @ [y] else xs) = length xs"
    for xs :: string and x y
    by (cases xs) auto
  ultimately show ?thesis unfolding unv_edit_def i_def [symmetric] Let_def by (simp only:)
qed

lemma cgroup_loop_fits:
  "length dst < MAX_BUFSZ \<Longrightarrow> \<exists>d. cgroup_loop enc dst grps = Done d \<and> length d < MAX_BUFSZ"
proof (induction enc dst grps rule: cgroup_loop.induct)
  case (2 enc dst grp grps)
  define dst1 where "dst1 = dst @ (if dst \<noteq> [] then '','' else [])"
  show ?case
  proof (cases "last grp = CHR ''/'' \<or> int MAX_BUFSZ - int (length dst) \<le> 1")
    case True
    with 2 show ?thesis by auto
  next
    case False
    then have "0 < int MAX_BUFSZ - int (length dst1)" by (auto simp: dst1_def)
    from escape_str_bounds [OF this] obtain t where
      t: "escape_str enc [] grp (int MAX_BUFSZ - int (length dst1)) = Some (t, int (length t))"
        "int (length t) < int MAX_BUFSZ - int (length dst1)" by blast
    have "length (dst1 @ t) < MAX_BUFSZ" using t(2) by simp
    with 2(2) [OF _ _ dst1_def t(1) refl] False t(1) show ?thesis
      by (simp add: dst1_def [symmetric] Let_def)
  qed
qed simp

lemma lxc_anchor_distinct:
  assumes "distinct (lxc_anchor st)" "lxc_containers alloc ele fs path st = (name, st')"
  shows "distinct (lxc_anchor st')"
  using assms by (auto simp: lxc_containers_def Let_def split: prod.splits if_splits option.splits)

lemma done_or_none: "(if b then Done x else NoMem) \<noteq> Undef"
  by simp

lemma escape_fits:
  "escape_str enc [] src (int MAX_BUFSZ) \<noteq> None" "escape_command enc st cmd (int MAX_BUFSZ) flags \<noteq> None"
  using escape_str_bounds [of "int MAX_BUFSZ" enc "[]" src] escape_command_fits [of "int MAX_BUFSZ" enc st cmd flags]
  by (auto simp: MAX_BUFSZ_def)

subsection \<open>Properties\<close>

text \<open>
  A file that arrives whole is read whole by \<open>file2str\<close>, however long it is (up to 2 GB):
  the buffer grows to hold it with its terminating NUL.
\<close>

theorem file2str_whole:
  assumes "fs (proc_path d w) = Some [FData t]" and "t \<noteq> []" and "length (proc_path d w) < PROCPATHLEN"
    and "int (length t) < INT_MAX - int buffGRW" and "ub_buf ub = None \<or> 0 < ub_siz ub"
  shows "\<exists>siz. file2str (\<lambda>_. True) fs d w ub = (int (length t), \<lparr>ub_buf = Some t, ub_siz = siz\<rparr>) \<and> length t < siz"
  using assms by (intro file2str_one) auto

theorem file2str_whole_witness:
  "\<exists>siz. file2str (\<lambda>_. True) (\<lambda>p. if p = ''/proc/1/stat'' then Some [FData (replicate 3000 (CHR ''x''))] else None)
     ''/proc/1'' ''stat'' \<lparr>ub_buf = None, ub_siz = 0\<rparr>
     = (int (length (replicate 3000 (CHR ''x''))), \<lparr>ub_buf = Some (replicate 3000 (CHR ''x'')), ub_siz = siz\<rparr>)
     \<and> length (replicate 3000 (CHR ''x'')) < siz"
  by (rule file2str_whole) (simp_all add: proc_path_def PROCPATHLEN_def INT_MAX_def buffGRW_def)

text \<open>
  C28. The command line and the environment come back: the vector of strings read from a file of
  NUL-terminated strings, with or without the NUL after the last one, is those strings, each cut at its
  newlines, so exactly what the process wrote when no string has a newline.
\<close>

theorem file2strvec_roundtrip:
  assumes "fs (proc_path d w) = Some [FData t]" and "length (proc_path d w) < 2048"
    and "ss \<noteq> []" and "list_all (\<lambda>s. NUL \<notin> set s) ss"
    and "t = nul_joined ss \<or> t = butlast (nul_joined ss) \<and> last ss \<noteq> []"
    and "length (nul_joined ss) < 200000000"
  shows "file2strvec (\<lambda>_. True) fs d w = Some (cut_newlines ss) \<and>
    (list_all (\<lambda>s. newline \<notin> set s) ss \<longrightarrow> file2strvec (\<lambda>_. True) fs d w = Some ss)"
proof -
  note j = nul_joined_last [OF assms(3)]
  have t: "t \<noteq> [] \<and> t @ (if last t = NUL then [] else [NUL]) = nul_joined ss"
  proof (cases "t = nul_joined ss")
    case True
    with j show ?thesis by simp
  next
    case False
    with assms(5) have t: "t = butlast (nul_joined ss)" "last ss \<noteq> []" by auto
    obtain xs s where ss: "ss = xs @ [s]" using assms(3) by (metis append_butlast_last_id)
    have "t = concat (map (\<lambda>s. s @ [NUL]) xs) @ s" using t(1) ss by (simp add: nul_joined_def butlast_append)
    moreover have "s \<noteq> []" "NUL \<notin> set s" using t(2) ss assms(4) by auto
    moreover from this have "last s \<noteq> NUL" by (metis last_in_set)
    ultimately have "t \<noteq> []" "last t \<noteq> NUL" using last_in_set [of s] by (auto simp: last_append)
    moreover have "t @ [NUL] = nul_joined ss" using t(1) j by (metis append_butlast_last_id)
    ultimately show ?thesis by simp
  qed
  have "length t \<le> length (nul_joined ss)" using assms(5) by auto
  with t assms(6) have r: "vec_read (\<lambda>_. True) [] [FData t] = Some (nul_joined ss)"
    by (subst vec_read_one) auto
  let ?n = "length (nul_joined ss)"
  have last: "(nul_joined ss)[?n - 1 := NUL] = nul_joined ss"
    using j by (metis last_conv_nth list_update_id)
  have len: "length (cut_newlines ss) \<le> ?n"
    using length_nul_joined [of "cut_newlines ss"] by (simp add: joined_cut)
  have vs: "vec_strings (8 + 8 * int (length (cut_newlines ss))) [] (nul_joined (cut_newlines ss)) = cut_newlines ss"
    using cut_no_nul [OF assms(4)] by (intro vec_strings_joined) auto
  have "file2strvec (\<lambda>_. True) fs d w = Some (cut_newlines ss)"
    using assms(1,2,6) r last len
    by (simp add: file2strvec_def Let_def vec_count_joined [OF assms(4)] vs INT_MAX_def)
  then show ?thesis using cut_newlines_none by simp
qed

theorem file2strvec_roundtrip_witness:
  "file2strvec (\<lambda>_. True) (\<lambda>_. Some [FData (''java'' @ NUL # ''-jar'' @ NUL # NUL # ''a b'')]) ''/proc/7'' ''cmdline''
     = Some [''java'', ''-jar'', [], ''a b'']
   \<and> file2strvec (\<lambda>_. True) (\<lambda>_. Some [FData (''sh'' @ NUL # ''a'' @ newline # ''b'' @ [NUL])]) ''/proc/8'' ''cmdline''
     = Some [''sh'', ''a'', ''b'']"
  using file2strvec_roundtrip [where t = "''java'' @ NUL # ''-jar'' @ NUL # NUL # ''a b''" and d = "''/proc/7''"
      and fs = "\<lambda>_. Some [FData (''java'' @ NUL # ''-jar'' @ NUL # NUL # ''a b'')]" and w = "''cmdline''"
      and ss = "[''java'', ''-jar'', [], ''a b'']"]
    file2strvec_roundtrip [where t = "''sh'' @ NUL # ''a'' @ newline # ''b'' @ [NUL]" and d = "''/proc/8''"
      and fs = "\<lambda>_. Some [FData (''sh'' @ NUL # ''a'' @ newline # ''b'' @ [NUL])]" and w = "''cmdline''"
      and ss = "[''sh'', ''a'' @ newline # ''b'']"]
  by (simp add: proc_path_def cut_newlines_def)


end
