(* ===== verification/Readproc.thy ===== *)
theory Readproc
  imports ProcFiles
begin

unbundle bit_operations_syntax

text \<open>
  The table scan of \<^verbatim>\<open>procps/linux/readproc.c\<close>: \<open>openproc\<close>, the finders that name
  the next process or task, the readers that fill its \<open>proc_t\<close> as the flags ask, and
  \<open>readproc\<close> and \<open>readeither\<close>, which put them together.

  \<open>rp_env\<close> is what the system answers, \<open>rp_state\<close> the function-local statics and caches,
  \<open>proctab\<close> the \<open>PROCTAB\<close>: a directory stream is the list of the names it has yet to
  return, the pid list the numbers not yet taken, with its terminating 0. \<open>None\<close> as the result of
  an operation means that it leaves the memory it may touch (\<open>Undef\<close> in a parser, a pid list
  read past its terminator, or a null directory stream that is read). Of \<open>errno\<close> only "equal to
  \<open>ENOMEM\<close>" is kept, and of what changes it the readers' own assignment, the allocations of
  \<open>file2str\<close>, the failing \<open>stat\<close> and \<open>open\<close> and the reset in \<open>simple_nextpid\<close>. The build has no systemd, so the \<open>sd_\<close> strings
  are question marks.
\<close>

record rp_env =
  rp_lib :: lib_env
  rp_alloc :: "nat \<Rightarrow> bool"
  rp_fs :: proc_fs
  rp_readlink :: "string \<Rightarrow> string option"
  rp_owner :: "string \<Rightarrow> (uid_t \<times> uid_t) option"
  rp_ino :: "string \<Rightarrow> ulong option"
  rp_ele :: "string \<Rightarrow> bool"
  rp_dir :: "string \<Rightarrow> string list option"

record rp_state =
  rs_ub :: utlbuf         \<comment> \<open>of \<open>simple_readproc\<close>\<close>
  rs_task_ub :: utlbuf    \<comment> \<open>of \<open>simple_readtask\<close>\<close>
  rs_listed_ub :: utlbuf  \<comment> \<open>of \<open>listed_nextpid\<close>\<close>
  rs_lxc :: lxc_state
  rs_users :: pwhash
  rs_groups :: grphash
  rs_nomem :: bool

datatype finder = SimpleNextpid | ListedNextpid

record proctab =
  pt_procfs :: "string list"
  pt_taskdir :: "string list option"
  pt_taskdir_user :: int
  pt_finder :: finder
  pt_pids :: "int list"
  pt_uids :: "uid_t list"
  pt_nuid :: nat
  pt_hide_kernel :: bool
  pt_flags :: "32 word"
  pt_path :: string
  pt_dirs :: int          \<comment> \<open>task directories opened with the table, less those closed\<close>

subsection \<open>Flags\<close>

definition PROC_FILLMEM :: "32 word" where "PROC_FILLMEM = 0x00000001"
definition PROC_FILLARG :: "32 word" where "PROC_FILLARG = 0x00000002"
definition PROC_FILLENV :: "32 word" where "PROC_FILLENV = 0x00000004"
definition PROC_FILLUSR :: "32 word" where "PROC_FILLUSR = 0x00000008"
definition PROC_FILLGRP :: "32 word" where "PROC_FILLGRP = 0x00000010"
definition PROC_FILLSTATUS :: "32 word" where "PROC_FILLSTATUS = 0x00000020"
definition PROC_FILLSTAT :: "32 word" where "PROC_FILLSTAT = 0x00000040"
definition PROC_FILLCGROUP :: "32 word" where "PROC_FILLCGROUP = 0x00000080"
definition PROC_FILLOOM :: "32 word" where "PROC_FILLOOM = 0x00000100"
definition PROC_FILLNS :: "32 word" where "PROC_FILLNS = 0x00000200"
definition PROC_FILLSYSTEMD :: "32 word" where "PROC_FILLSYSTEMD = 0x00000400"
definition PROC_FILL_LXC :: "32 word" where "PROC_FILL_LXC = 0x00000800"
definition PROC_FILL_LUID :: "32 word" where "PROC_FILL_LUID = 0x00001000"
definition PROC_FILL_EXE :: "32 word" where "PROC_FILL_EXE = 0x00002000"
definition PROC_FILLIO :: "32 word" where "PROC_FILLIO = 0x00004000"
definition PROC_FILLSMAPS :: "32 word" where "PROC_FILLSMAPS = 0x00008000"
definition PROC_PID :: "32 word" where "PROC_PID = 0x00010000"
definition PROC_UID :: "32 word" where "PROC_UID = 0x00020000"
definition PROC_EDITCGRPCVT :: "32 word" where "PROC_EDITCGRPCVT = 0x00040000"
definition PROC_EDITCMDLCVT :: "32 word" where "PROC_EDITCMDLCVT = 0x00080000"
definition PROC_EDITENVRCVT :: "32 word" where "PROC_EDITENVRCVT = 0x00100000"
definition PROC_FILL_OUSERS :: "32 word" where "PROC_FILL_OUSERS = (0x00200000 OR PROC_FILLSTATUS)"
definition PROC_FILL_OGROUPS :: "32 word" where "PROC_FILL_OGROUPS = (0x00400000 OR PROC_FILLSTATUS)"
definition PROC_FILL_SUPGRP :: "32 word" where "PROC_FILL_SUPGRP = (0x00800000 OR PROC_FILLSTATUS)"
definition PROC_FILLAUTOGRP :: "32 word" where "PROC_FILLAUTOGRP = 0x01000000"

definition has :: "32 word \<Rightarrow> 32 word \<Rightarrow> bool" where
  "has flags f \<longleftrightarrow> flags AND f \<noteq> 0"

subsection \<open>The steps of a reader\<close>

text \<open>
  A step takes the structure and the statics and returns them with what it adds to \<open>rc\<close>. When a
  parser runs out of memory the structure is kept as it was: the reader then returns no process.
\<close>

type_synonym step = "proc_t \<times> rp_state \<Rightarrow> (proc_t \<times> nat \<times> rp_state) option"

definition of_outcome :: "proc_t \<Rightarrow> rp_state \<Rightarrow> proc_t outcome \<Rightarrow> (proc_t \<times> nat \<times> rp_state) option" where
  "of_outcome p st r = (case r of Done p' \<Rightarrow> Some (p', 0, st) | NoMem \<Rightarrow> Some (p, 1, st) | Undef \<Rightarrow> None)"

definition run_step :: "bool \<Rightarrow> step \<Rightarrow> (proc_t \<times> nat \<times> rp_state) option \<Rightarrow> (proc_t \<times> nat \<times> rp_state) option" where
  "run_step on f x =
     (if \<not> on then x
      else case x of
             None \<Rightarrow> None
           | Some (p, rc, st) \<Rightarrow>
               (case f (p, st) of None \<Rightarrow> None | Some (p', k, st') \<Rightarrow> Some (p', rc + k, st')))"

definition run_steps :: "(bool \<times> step) list \<Rightarrow> proc_t \<times> rp_state \<Rightarrow> (proc_t \<times> nat \<times> rp_state) option" where
  "run_steps steps x = fold (\<lambda>(on, f). run_step on f) steps (Some (fst x, 0, snd x))"

text \<open>Which of the two buffers a reader uses.\<close>

definition get_ub :: "bool \<Rightarrow> rp_state \<Rightarrow> utlbuf" where
  "get_ub task st = (if task then rs_task_ub st else rs_ub st)"

definition put_ub :: "bool \<Rightarrow> utlbuf \<Rightarrow> rp_state \<Rightarrow> rp_state" where
  "put_ub task ub st = (if task then st\<lparr>rs_task_ub := ub\<rparr> else st\<lparr>rs_ub := ub\<rparr>)"

text \<open>What a call of \<open>file2str\<close> leaves in \<open>errno\<close>.\<close>

definition f2s_nomem :: "rp_env \<Rightarrow> string \<Rightarrow> string \<Rightarrow> utlbuf \<Rightarrow> bool \<Rightarrow> bool" where
  "f2s_nomem e path what ub old \<longleftrightarrow>
     ub_buf ub = None \<or> rp_fs e (proc_path path what) \<noteq> None \<and> old"

definition read_ub :: "rp_env \<Rightarrow> bool \<Rightarrow> string \<Rightarrow> string \<Rightarrow> rp_state \<Rightarrow> string option \<times> rp_state" where
  "read_ub e task path what st =
     (case file2str (rp_alloc e) (rp_fs e) path what (get_ub task st) of
        (rc, ub) \<Rightarrow>
          (if rc = - 1 then None else Some (ub_text ub),
           put_ub task ub (st\<lparr>rs_nomem := f2s_nomem e path what ub (rs_nomem st)\<rparr>)))"

text \<open>A file whose absence is tolerated and whose parser cannot fail.\<close>

definition text_step :: "rp_env \<Rightarrow> bool \<Rightarrow> string \<Rightarrow> string \<Rightarrow> (string \<Rightarrow> proc_t \<Rightarrow> proc_t) \<Rightarrow> step" where
  "text_step e task path what f = (\<lambda>(p, st).
     case read_ub e task path what st of
       (None, st') \<Rightarrow> Some (p, 0, st')
     | (Some t, st') \<Rightarrow> Some (f t p, 0, st'))"

definition user_name :: "rp_env \<Rightarrow> uid_t \<Rightarrow> rp_state \<Rightarrow> string option \<times> rp_state" where
  "user_name e uid st =
     (case pwcache_get_user (le_passwd (rp_lib e)) (le_node (rp_lib e)) uid (rs_users st) of
        (nm, t) \<Rightarrow> (Some nm, st\<lparr>rs_users := t\<rparr>))"

definition group_name :: "rp_env \<Rightarrow> uid_t \<Rightarrow> rp_state \<Rightarrow> string option \<times> rp_state" where
  "group_name e gid st =
     (case pwcache_get_group (le_group (rp_lib e)) (le_node (rp_lib e)) gid (rs_groups st) of
        (nm, t) \<Rightarrow> (Some nm, st\<lparr>rs_groups := t\<rparr>))"

definition other_users :: "rp_env \<Rightarrow> proc_t \<times> rp_state \<Rightarrow> proc_t \<times> rp_state" where
  "other_users e = (\<lambda>(p, st).
     case user_name e (p_ruid p) st of (r, st1) \<Rightarrow>
     case user_name e (p_suid p) st1 of (s, st2) \<Rightarrow>
     case user_name e (p_fuid p) st2 of (f, st3) \<Rightarrow> (p\<lparr>p_ruser := r, p_suser := s, p_fuser := f\<rparr>, st3))"

definition other_groups :: "rp_env \<Rightarrow> proc_t \<times> rp_state \<Rightarrow> proc_t \<times> rp_state" where
  "other_groups e = (\<lambda>(p, st).
     case group_name e (p_rgid p) st of (r, st1) \<Rightarrow>
     case group_name e (p_sgid p) st1 of (s, st2) \<Rightarrow>
     case group_name e (p_fgid p) st2 of (f, st3) \<Rightarrow> (p\<lparr>p_rgroup := r, p_sgroup := s, p_fgroup := f\<rparr>, st3))"

text \<open>The status file, and what depends on it.\<close>

definition supgrp_step :: "rp_env \<Rightarrow> step" where
  "supgrp_step e = (\<lambda>(p, st).
     case supgrps_from_supgids (rp_lib e) p (rs_groups st) of
       Done (p', t) \<Rightarrow> Some (p', 0, st\<lparr>rs_groups := t\<rparr>)
     | NoMem \<Rightarrow> Some (p, 1, st)
     | Undef \<Rightarrow> None)"

definition status_step :: "rp_env \<Rightarrow> bool \<Rightarrow> string \<Rightarrow> 32 word \<Rightarrow> step" where
  "status_step e task path flags = (\<lambda>(p, st).
     case read_ub e task path ''status'' st of
       (None, st') \<Rightarrow> Some (p, 0, st')
     | (Some t, st') \<Rightarrow>
         run_steps
           [(True, \<lambda>(p, st). of_outcome p st (status2proc (le_charset (rp_lib e)) (le_mem (rp_lib e)) t p (\<not> task))),
            (has flags (PROC_FILL_SUPGRP AND NOT PROC_FILLSTATUS), supgrp_step e),
            (has flags (PROC_FILL_OUSERS AND NOT PROC_FILLSTATUS), \<lambda>x. case other_users e x of (p, st) \<Rightarrow> Some (p, 0, st)),
            (has flags (PROC_FILL_OGROUPS AND NOT PROC_FILLSTATUS), \<lambda>x. case other_groups e x of (p, st) \<Rightarrow> Some (p, 0, st))]
           (p, st'))"

definition euser_step :: "rp_env \<Rightarrow> step" where
  "euser_step e = (\<lambda>(p, st). case user_name e (p_euid p) st of (u, st') \<Rightarrow> Some (p\<lparr>p_euser := u\<rparr>, 0, st'))"

definition egroup_step :: "rp_env \<Rightarrow> step" where
  "egroup_step e = (\<lambda>(p, st). case group_name e (p_egid p) st of (g, st') \<Rightarrow> Some (p\<lparr>p_egroup := g\<rparr>, 0, st'))"

text \<open>A string vector, with the one-element vector of a dash in place of a missing file.\<close>

definition vec_step :: "rp_env \<Rightarrow> string \<Rightarrow> string \<Rightarrow> (string list option \<Rightarrow> proc_t \<Rightarrow> proc_t) \<Rightarrow> step" where
  "vec_step e path what f = (\<lambda>(p, st).
     case file2strvec (rp_alloc e) (rp_fs e) path what of
       Some v \<Rightarrow> Some (f (Some v) p, 0, st)
     | None \<Rightarrow>
         (case vectorize_dash_rc (rp_alloc e) of
            Done v \<Rightarrow> Some (f (Some v) p, 0, st)
          | _ \<Rightarrow> Some (f None p, 1, st)))"

definition ns_step :: "rp_env \<Rightarrow> step" where
  "ns_step e = (\<lambda>(p, st).
     case procps_ns_read_pid (rp_ino e) (p_tid p) (Some (p_ns p)) of
       (_, Some ns) \<Rightarrow> Some (p\<lparr>p_ns := ns\<rparr>, 0, st)
     | (_, None) \<Rightarrow> Some (p, 0, st))"

text \<open>\<open>sd2proc\<close> without systemd: it stops at the first string it cannot copy.\<close>

definition sd2proc :: "rp_env \<Rightarrow> step" where
  "sd2proc e = (\<lambda>(p, st).
     if le_mem (rp_lib e) ''?'' then
       Some (p\<lparr>p_sd_mach := Some ''?'', p_sd_ouid := Some ''?'', p_sd_seat := Some ''?'', p_sd_sess := Some ''?'',
               p_sd_slice := Some ''?'', p_sd_unit := Some ''?'', p_sd_uunit := Some ''?''\<rparr>, 0, st)
     else Some (p, 1, st))"

definition lxc_step :: "rp_env \<Rightarrow> string \<Rightarrow> step" where
  "lxc_step e path = (\<lambda>(p, st).
     case lxc_containers (rp_alloc e) (rp_ele e) (rp_fs e) path (rs_lxc st) of
       (nm, l) \<Rightarrow> Some (p\<lparr>p_lxcname := Some nm\<rparr>, 0, st\<lparr>rs_lxc := l\<rparr>))"

definition exe_step :: "rp_env \<Rightarrow> string \<Rightarrow> step" where
  "exe_step e path = (\<lambda>(p, st).
     case readlink_exe (rp_lib e) (rp_readlink e) path of
       Done (Some x) \<Rightarrow> Some (p\<lparr>p_exe := Some x\<rparr>, 0, st)
     | Done None \<Rightarrow> Some (p\<lparr>p_exe := None\<rparr>, 1, st)
     | _ \<Rightarrow> None)"

definition pure_step :: "(proc_t \<Rightarrow> proc_t) \<Rightarrow> step" where
  "pure_step f = (\<lambda>(p, st). Some (f p, 0, st))"

definition cvt_step :: "(proc_t \<Rightarrow> proc_t outcome) \<Rightarrow> step" where
  "cvt_step f = (\<lambda>(p, st). of_outcome p st (f p))"

subsection \<open>The two readers\<close>

definition XinLN :: "uid_t \<Rightarrow> uid_t list \<Rightarrow> nat \<Rightarrow> bool" where
  "XinLN x l n \<longleftrightarrow> x \<in> set (take n l)"

text \<open>The steps of \<open>simple_readproc\<close> after the \<open>stat\<close> file, in order.\<close>

definition proc_steps :: "rp_env \<Rightarrow> 32 word \<Rightarrow> string \<Rightarrow> (bool \<times> step) list" where
  "proc_steps e flags path =
     [(has flags PROC_FILLIO, text_step e False path ''io'' io2proc),
      (has flags PROC_FILLSMAPS, text_step e False path ''smaps_rollup'' smaps2proc),
      (has flags PROC_FILLMEM, text_step e False path ''statm'' statm2proc),
      (has flags PROC_FILLSTATUS, status_step e False path flags),
      (True, pure_step (\<lambda>p. if 1 < p_nlwp p then p\<lparr>p_wchan := - 1\<rparr> else p)),
      (has flags PROC_FILLUSR, euser_step e),
      (has flags PROC_FILLGRP, egroup_step e),
      (has flags PROC_FILLENV, vec_step e path ''environ'' (\<lambda>v p. p\<lparr>p_environ_v := v\<rparr>)),
      (has flags PROC_EDITENVRCVT, cvt_step (fill_environ_cvt (rp_lib e) (rp_fs e) path)),
      (has flags PROC_FILLARG, vec_step e path ''cmdline'' (\<lambda>v p. p\<lparr>p_cmdline_v := v\<rparr>)),
      (has flags PROC_EDITCMDLCVT, cvt_step (fill_cmdline_cvt (rp_lib e) (rp_fs e) path)),
      (has flags PROC_FILLCGROUP, vec_step e path ''cgroup'' (\<lambda>v p. p\<lparr>p_cgroup_v := v\<rparr>)),
      (has flags PROC_EDITCGRPCVT, cvt_step (fill_cgroup_cvt (rp_lib e) (rp_fs e) path)),
      (has flags PROC_FILLOOM, text_step e False path ''oom_score'' oomscore2proc),
      (has flags PROC_FILLOOM, text_step e False path ''oom_score_adj'' oomadj2proc),
      (has flags PROC_FILLNS, ns_step e),
      (has flags PROC_FILLSYSTEMD, sd2proc e),
      (has flags PROC_FILL_LXC, lxc_step e path),
      (has flags PROC_FILL_LUID, pure_step (\<lambda>p. p\<lparr>p_luid := login_uid (rp_fs e) path\<rparr>)),
      (has flags PROC_FILL_EXE, exe_step e path),
      (has flags PROC_FILLAUTOGRP, pure_step (autogroup_fill (rp_fs e) path))]"

text \<open>Those of \<open>simple_readtask\<close>.\<close>

definition task_steps :: "rp_env \<Rightarrow> 32 word \<Rightarrow> string \<Rightarrow> (bool \<times> step) list" where
  "task_steps e flags path =
     [(has flags PROC_FILLIO, text_step e True path ''io'' io2proc),
      (has flags PROC_FILLSMAPS, text_step e True path ''smaps_rollup'' smaps2proc),
      (has flags PROC_FILLMEM, text_step e True path ''statm'' statm2proc),
      (has flags PROC_FILLSTATUS, status_step e True path flags),
      (has flags PROC_FILLUSR, euser_step e),
      (has flags PROC_FILLGRP, egroup_step e),
      (has flags PROC_FILLARG, vec_step e path ''cmdline'' (\<lambda>v p. p\<lparr>p_cmdline_v := v\<rparr>)),
      (has flags PROC_EDITCMDLCVT, cvt_step (fill_cmdline_cvt (rp_lib e) (rp_fs e) path)),
      (has flags PROC_FILLENV, vec_step e path ''environ'' (\<lambda>v p. p\<lparr>p_environ_v := v\<rparr>)),
      (has flags PROC_EDITENVRCVT, cvt_step (fill_environ_cvt (rp_lib e) (rp_fs e) path)),
      (has flags PROC_FILLCGROUP, vec_step e path ''cgroup'' (\<lambda>v p. p\<lparr>p_cgroup_v := v\<rparr>)),
      (has flags PROC_EDITCGRPCVT, cvt_step (fill_cgroup_cvt (rp_lib e) (rp_fs e) path)),
      (has flags PROC_FILLSYSTEMD, sd2proc e),
      (has flags PROC_FILL_EXE, exe_step e path),
      (has flags PROC_FILLOOM, text_step e True path ''oom_score'' oomscore2proc),
      (has flags PROC_FILLOOM, text_step e True path ''oom_score_adj'' oomadj2proc),
      (has flags PROC_FILLNS, ns_step e),
      (has flags PROC_FILL_LXC, lxc_step e path),
      (has flags PROC_FILL_LUID, pure_step (\<lambda>p. p\<lparr>p_luid := login_uid (rp_fs e) path\<rparr>)),
      (has flags PROC_FILLAUTOGRP, pure_step (autogroup_fill (rp_fs e) path))]"

text \<open>
  The common frame: the owner, the \<open>stat\<close> file (whose absence ends the reader), the steps.
  The result says whether the C function returns the structure or a null pointer; the structure
  is returned in either case, as it is the caller's.
\<close>

definition read_frame ::
  "rp_env \<Rightarrow> bool \<Rightarrow> 32 word \<Rightarrow> string \<Rightarrow> (bool \<times> step) list \<Rightarrow> proc_t \<times> rp_state
   \<Rightarrow> (bool \<times> proc_t \<times> rp_state) option" where
  "read_frame e task flags path steps = (\<lambda>(p1, st).
     let go = (\<lambda>x. case x of
            None \<Rightarrow> None
          | Some (p, rc, st) \<Rightarrow>
              (case run_steps steps (p, st) of
                 None \<Rightarrow> None
               | Some (p', rc', st') \<Rightarrow>
                   if rc + rc' = 0 then Some (True, p', st') else Some (False, p', st'\<lparr>rs_nomem := True\<rparr>)))
     in if has flags PROC_FILLSTAT then
          (case read_ub e task path ''stat'' st of
             (None, st') \<Rightarrow> Some (False, p1, st')
           | (Some t, st') \<Rightarrow> go (of_outcome p1 st' (stat2proc (rp_lib e) t p1)))
        else go (Some (p1, 0, st)))"

definition simple_readproc :: "rp_env \<Rightarrow> proctab \<Rightarrow> proc_t \<Rightarrow> rp_state \<Rightarrow> (bool \<times> proc_t \<times> rp_state) option" where
  "simple_readproc e PT p st =
     (let path = pt_path PT; flags = pt_flags PT
      in case rp_owner e path of
           None \<Rightarrow> Some (False, p, st\<lparr>rs_nomem := False\<rparr>)
         | Some (uid, gid) \<Rightarrow>
             if has flags PROC_UID \<and> \<not> XinLN uid (pt_uids PT) (pt_nuid PT) then Some (False, p, st)
             else
               (case read_frame e False flags path (proc_steps e flags path) (p\<lparr>p_euid := uid, p_egid := gid\<rparr>, st) of
                  None \<Rightarrow> None
                | Some (ok, p', st') \<Rightarrow>
                    Some (ok \<and> \<not> (pt_hide_kernel PT \<and> (p_ppid p' = 2 \<or> p_tid p' = 2)), p', st')))"

definition simple_readtask :: "rp_env \<Rightarrow> proctab \<Rightarrow> proc_t \<Rightarrow> string \<Rightarrow> rp_state \<Rightarrow> (bool \<times> proc_t \<times> rp_state) option" where
  "simple_readtask e PT t path st =
     (let flags = pt_flags PT
      in case rp_owner e path of
           None \<Rightarrow> Some (False, t, st\<lparr>rs_nomem := False\<rparr>)
         | Some (uid, gid) \<Rightarrow>
             read_frame e True flags path (task_steps e flags path) (t\<lparr>p_euid := uid, p_egid := gid\<rparr>, st))"

subsection \<open>The finders\<close>

definition pid_dirent :: "string \<Rightarrow> bool" where
  "pid_dirent d = (case d of [] \<Rightarrow> False | c # _ \<Rightarrow> 48 < byte c \<and> byte c \<le> 57)"

definition proc_dir :: "int \<Rightarrow> string" where
  "proc_dir pid = snprintf_buf PROCPATHLEN (''/proc/'' @ show_int pid)"

text \<open>An empty name ends the loop like the end of the directory does.\<close>

fun next_pid_name :: "string list \<Rightarrow> (string \<times> string list) option \<times> string list" where
  "next_pid_name [] = (None, [])"
| "next_pid_name (d # ds) =
     (if d = [] then (None, ds)
      else if pid_dirent d \<and> \<not> strtoul_erange d then (Some (d, ds), ds)
      else next_pid_name ds)"

definition simple_nextpid :: "proctab \<Rightarrow> proc_t \<Rightarrow> rp_state \<Rightarrow> bool \<times> proctab \<times> proc_t \<times> rp_state" where
  "simple_nextpid PT p st =
     (case next_pid_name (pt_procfs PT) of
        (None, ds) \<Rightarrow> (False, PT\<lparr>pt_procfs := ds\<rparr>, p, st)
      | (Some (d, _), ds) \<Rightarrow>
          let tgid = sint (ucast (fst (strtoul d)) :: 32 word)
          in (True, PT\<lparr>pt_procfs := ds, pt_path := proc_dir tgid\<rparr>, p\<lparr>p_tgid := tgid, p_tid := tgid\<rparr>,
              st\<lparr>rs_nomem := False\<rparr>))"

text \<open>\<open>None\<close>: the list is read past its terminating 0.\<close>

definition listed_nextpid ::
  "rp_env \<Rightarrow> proctab \<Rightarrow> proc_t \<Rightarrow> rp_state \<Rightarrow> (bool \<times> proctab \<times> proc_t \<times> rp_state) option" where
  "listed_nextpid e PT p st =
     (case pt_pids PT of
        [] \<Rightarrow> None
      | pid # pids \<Rightarrow>
          let PT1 = PT\<lparr>pt_pids := pids\<rparr>
          in if pid = 0 then Some (False, PT1, p, st)
             else
               let path = proc_dir pid; p1 = p\<lparr>p_tid := pid, p_tgid := pid\<rparr>
               in case file2str (rp_alloc e) (rp_fs e) path ''status'' (rs_listed_ub st) of
                    (rc, ub) \<Rightarrow>
                      let tgid = (if rc = - 1 then pid
                                  else case strstr (ub_text ub) ''Tgid:'' of
                                         None \<Rightarrow> pid
                                       | Some s \<Rightarrow> atoi (drop 5 s))
                      in Some (True, PT1\<lparr>pt_path := path\<rparr>, p1\<lparr>p_tgid := tgid\<rparr>,
                                st\<lparr>rs_listed_ub := ub, rs_nomem := f2s_nomem e path ''status'' ub (rs_nomem st)\<rparr>))"

definition find_next :: "rp_env \<Rightarrow> proctab \<Rightarrow> proc_t \<Rightarrow> rp_state \<Rightarrow> (bool \<times> proctab \<times> proc_t \<times> rp_state) option" where
  "find_next e PT p st =
     (case pt_finder PT of
        SimpleNextpid \<Rightarrow> Some (simple_nextpid PT p st)
      | ListedNextpid \<Rightarrow> listed_nextpid e PT p st)"

text \<open>
  The names of tasks are not checked for their range. The directory is reopened only when the
  process changes, and the old one is closed before; a process whose directory could not be opened leaves a null stream beside the
  old owner, and \<open>None\<close> is the read of that stream.
\<close>

fun next_tid_name :: "string list \<Rightarrow> string option \<times> string list" where
  "next_tid_name [] = (None, [])"
| "next_tid_name (d # ds) =
     (if d = [] then (None, ds) else if pid_dirent d then (Some d, ds) else next_tid_name ds)"

definition simple_nexttid ::
  "rp_env \<Rightarrow> proctab \<Rightarrow> proc_t \<Rightarrow> proc_t \<Rightarrow> ((string \<times> proc_t) option \<times> proctab) option" where
  "simple_nexttid e PT p t =
     (let change = (pt_taskdir_user PT \<noteq> p_tgid p);
          PT0 = (if change \<and> pt_taskdir PT \<noteq> None then PT\<lparr>pt_dirs := pt_dirs PT - 1\<rparr> else PT);
          stream = (if change then rp_dir e (snprintf_buf PROCPATHLEN (''/proc/'' @ show_int (p_tgid p) @ ''/task''))
                    else pt_taskdir PT);
          PT1 = PT0\<lparr>pt_taskdir := stream,
                    pt_taskdir_user := (if stream = None then pt_taskdir_user PT else p_tgid p),
                    pt_dirs := pt_dirs PT0 + (if change \<and> stream \<noteq> None then 1 else 0)\<rparr>
      in case stream of
           None \<Rightarrow> (if change then Some (None, PT1) else None)
         | Some ds \<Rightarrow>
             Some (case next_tid_name ds of
                (None, ds') \<Rightarrow> (None, PT1\<lparr>pt_taskdir := Some ds'\<rparr>)
              | (Some d, ds') \<Rightarrow>
                  (Some (snprintf_buf PROCPATHLEN (''/proc/'' @ show_int (p_tgid p) @ ''/task/'' @ take 10 d),
                         t\<lparr>p_tid := sint (ucast (fst (strtoul d)) :: 32 word), p_tgid := p_tgid p\<rparr>),
                   PT1\<lparr>pt_taskdir := Some ds'\<rparr>)))"

subsection \<open>readproc\<close>

definition scan_left :: "proctab \<Rightarrow> nat" where
  "scan_left PT = length (pt_procfs PT) + length (pt_pids PT)"

lemma next_pid_name_shorter: "next_pid_name ds = (Some (d, r), ds') \<Longrightarrow> length ds' < length ds \<and> pid_dirent d \<and> d \<in> set ds"
  by (induction ds) (auto split: if_splits)

lemma find_next_left: "find_next e PT p st = Some (True, PT', p', st') \<Longrightarrow> scan_left PT' < scan_left PT"
  by (auto simp: find_next_def simple_nextpid_def listed_nextpid_def scan_left_def Let_def
      split: finder.splits prod.splits option.splits list.splits if_splits dest!: next_pid_name_shorter)

text \<open>The loop. The structure is cleared before it and not in it.\<close>

function readproc_loop ::
  "rp_env \<Rightarrow> proctab \<Rightarrow> proc_t \<Rightarrow> rp_state \<Rightarrow> (bool \<times> proctab \<times> proc_t \<times> rp_state) option" where
  "readproc_loop e PT p st =
     (if rs_nomem st then Some (False, PT, p, st)
      else case find_next e PT p st of
             None \<Rightarrow> None
           | Some (False, PT1, p1, st1) \<Rightarrow> Some (False, PT1, p1, st1)
           | Some (True, PT1, p1, st1) \<Rightarrow>
               (case simple_readproc e PT1 p1 st1 of
                  None \<Rightarrow> None
                | Some (True, p2, st2) \<Rightarrow> Some (True, PT1, p2, st2)
                | Some (False, p2, st2) \<Rightarrow> readproc_loop e PT1 p2 st2))"
  by pat_completeness auto
termination
  by (relation "measure (\<lambda>(e, PT, p, st). scan_left PT)") (auto dest: find_next_left)

declare readproc_loop.simps [simp del]

definition readproc :: "rp_env \<Rightarrow> proctab \<Rightarrow> proc_t \<Rightarrow> rp_state \<Rightarrow> (bool \<times> proctab \<times> proc_t \<times> rp_state) option" where
  "readproc e PT p st = readproc_loop e PT (snd (free_acquired p)) st"

subsection \<open>readeither\<close>

text \<open>
  The statics of \<open>readeither\<close>: the skeleton process, whether \<open>new_p\<close> is set (its canary test
  only clears it on the way to \<open>next_task\<close>, where a success sets it again), and the leader.
\<close>

record either_state =
  ei_skel :: proc_t
  ei_new :: bool
  ei_leader :: int

datatype either_step =
    EitherReturn proctab proc_t rp_state either_state
  | EitherNextProc proctab proc_t rp_state either_state

text \<open>From the label \<open>next_task\<close> to the return or the jump back.\<close>

definition either_task ::
  "rp_env \<Rightarrow> proctab \<Rightarrow> proc_t \<Rightarrow> rp_state \<Rightarrow> either_state \<Rightarrow> either_step option" where
  "either_task e PT x st ei =
     (case simple_nexttid e PT (ei_skel ei) x of
        None \<Rightarrow> None
      | Some (None, PT1) \<Rightarrow> Some (EitherNextProc PT1 x st ei)
      | Some (Some (path, x1), PT1) \<Rightarrow>
          (case (if p_tid x1 = ei_leader ei then simple_readproc e PT1 x1 st
                 else simple_readtask e PT1 x1 path st) of
             None \<Rightarrow> None
           | Some (False, x2, st2) \<Rightarrow> Some (EitherNextProc PT1 x2 st2 ei)
           | Some (True, x2, st2) \<Rightarrow> Some (EitherReturn PT1 x2 st2 (ei\<lparr>ei_new := True\<rparr>))))"

lemma simple_nexttid_left: "simple_nexttid e PT p t = Some (r, PT') \<Longrightarrow> scan_left PT' = scan_left PT"
  by (auto simp: simple_nexttid_def scan_left_def Let_def split: option.splits prod.splits if_splits)

lemma either_task_left:
  "either_task e PT x st ei = Some (EitherNextProc PT' x' st' ei') \<Longrightarrow> scan_left PT' = scan_left PT"
  by (auto simp: either_task_def split: prod.splits option.splits bool.splits dest!: simple_nexttid_left)

text \<open>From the label \<open>next_proc\<close>: the value says whether a process or task was found.\<close>

function either_loop ::
  "rp_env \<Rightarrow> bool \<Rightarrow> proctab \<Rightarrow> proc_t \<Rightarrow> rp_state \<Rightarrow> either_state
   \<Rightarrow> (bool \<times> proctab \<times> proc_t \<times> rp_state \<times> either_state) option" where
  "either_loop e task_dir_missing PT x st ei =
     (let ei0 = ei\<lparr>ei_new := False\<rparr>
      in if rs_nomem st then Some (False, PT, x, st, ei0)
         else case find_next e PT (ei_skel ei) st of
                None \<Rightarrow> None
              | Some (False, PT1, sk, st1) \<Rightarrow> Some (False, PT1, x, st1, ei0\<lparr>ei_skel := sk\<rparr>)
              | Some (True, PT1, sk, st1) \<Rightarrow>
                  let ei1 = ei0\<lparr>ei_skel := sk, ei_leader := p_tid sk\<rparr>
                  in if task_dir_missing then
                       (case simple_readproc e PT1 x st1 of
                          None \<Rightarrow> None
                        | Some (True, x2, st2) \<Rightarrow> Some (True, PT1, x2, st2, ei1)
                        | Some (False, x2, st2) \<Rightarrow> either_loop e task_dir_missing PT1 x2 st2 ei1)
                     else
                       (case either_task e PT1 x st1 ei1 of
                          None \<Rightarrow> None
                        | Some (EitherReturn PT2 x2 st2 ei2) \<Rightarrow> Some (True, PT2, x2, st2, ei2)
                        | Some (EitherNextProc PT2 x2 st2 ei2) \<Rightarrow> either_loop e task_dir_missing PT2 x2 st2 ei2))"
  by pat_completeness auto
termination
  by (relation "measure (\<lambda>(e, m, PT, x, st, ei). scan_left PT)")
    (auto dest!: find_next_left either_task_left)

declare either_loop.simps [simp del]

definition readeither ::
  "rp_env \<Rightarrow> bool \<Rightarrow> proctab \<Rightarrow> proc_t \<Rightarrow> rp_state \<Rightarrow> either_state
   \<Rightarrow> (bool \<times> proctab \<times> proc_t \<times> rp_state \<times> either_state) option" where
  "readeither e task_dir_missing PT x st ei =
     (let x0 = snd (free_acquired x)
      in if ei_new ei then
           (case either_task e PT x0 st ei of
              None \<Rightarrow> None
            | Some (EitherReturn PT1 x1 st1 ei1) \<Rightarrow> Some (True, PT1, x1, st1, ei1)
            | Some (EitherNextProc PT1 x1 st1 ei1) \<Rightarrow> either_loop e task_dir_missing PT1 x1 st1 ei1)
         else either_loop e task_dir_missing PT x0 st ei)"

subsection \<open>openproc, closeproc, look\_up\_our\_self\<close>

text \<open>A static buffer: not yet allocated, usable, or freed with the pointer still set.\<close>

datatype buffer = NullBuffer | LiveBuffer | DanglingBuffer

record open_state =
  os_src :: buffer
  os_dst :: buffer
  os_hide_kernel :: "bool option"
  os_task_dir_missing :: "bool option"
  os_dirs :: int                    \<comment> \<open>directory streams open in all\<close>

record open_env =
  oe_calloc :: bool
  oe_getenv_hide :: bool
  oe_self_task :: bool              \<comment> \<open>does \<open>/proc/self/task\<close> exist\<close>
  oe_proc :: "string list option"   \<comment> \<open>what \<open>opendir\<close> makes of \<open>/proc\<close>\<close>
  oe_src_ok :: bool
  oe_dst_ok :: bool

text \<open>
  The table, or a null pointer; \<open>pids\<close> and \<open>uids\<close> are the variable arguments. \<open>opendir\<close> counts as an
  open stream, \<open>closedir\<close> takes it back, and \<open>closedir\<close> of a null pointer does nothing.
\<close>

definition openproc ::
  "open_env \<Rightarrow> 32 word \<Rightarrow> int list \<Rightarrow> uid_t list \<times> nat \<Rightarrow> open_state \<Rightarrow> proctab option \<times> open_state" where
  "openproc oe flags pids uids os0 =
     (if \<not> oe_calloc oe then (None, os0)
      else
        let hide = (case os_hide_kernel os0 of None \<Rightarrow> oe_getenv_hide oe | Some h \<Rightarrow> h);
            os1 = os0\<lparr>os_hide_kernel := Some hide,
                      os_task_dir_missing :=
                        (case os_task_dir_missing os0 of None \<Rightarrow> Some (\<not> oe_self_task oe) | Some m \<Rightarrow> Some m)\<rparr>;
            by_pid = has flags PROC_PID
        in if \<not> by_pid \<and> oe_proc oe = None then (None, os1)
           else
             let flags' = (if hide \<and> \<not> has flags (PROC_FILLSTAT OR PROC_FILLSTATUS)
                           then flags OR PROC_FILLSTAT else flags);
                 by_uid = (\<not> by_pid \<and> has flags PROC_UID);
                 PT = \<lparr>pt_procfs = (if by_pid then [] else the (oe_proc oe)), pt_taskdir = None,
                       pt_taskdir_user = - 1, pt_finder = (if by_pid then ListedNextpid else SimpleNextpid),
                       pt_pids = (if by_pid then pids else []), pt_uids = (if by_uid then fst uids else []),
                       pt_nuid = (if by_uid then snd uids else 0), pt_hide_kernel = hide,
                       pt_flags = flags', pt_path = [], pt_dirs = 0\<rparr>;
                 os2 = (if by_pid then os1 else os1\<lparr>os_dirs := os_dirs os1 + 1\<rparr>);
                 shut = (\<lambda>s. if by_pid then s else s\<lparr>os_dirs := os_dirs s - 1\<rparr>)
             in if os_src os2 = NullBuffer \<and> \<not> oe_src_ok oe then (None, shut os2)
                else
                  let os3 = os2\<lparr>os_src := (if os_src os2 = NullBuffer then LiveBuffer else os_src os2)\<rparr>
                  in if os_dst os3 = NullBuffer \<and> \<not> oe_dst_ok oe then (None, (shut os3)\<lparr>os_src := DanglingBuffer\<rparr>)
                     else (Some PT, os3\<lparr>os_dst := (if os_dst os3 = NullBuffer then LiveBuffer else os_dst os3)\<rparr>))"

text \<open>How many directory streams \<open>closeproc\<close> closes.\<close>

definition closeproc :: "proctab option \<Rightarrow> nat" where
  "closeproc PT =
     (case PT of
        None \<Rightarrow> 0
      | Some PT \<Rightarrow> (if pt_finder PT = SimpleNextpid then 1 else 0) + (if pt_taskdir PT \<noteq> None then 1 else 0))"

text \<open>The value returned and the structure; \<open>Inl 47\<close> when the process exits.\<close>

definition look_up_our_self :: "rp_env \<Rightarrow> proc_t \<Rightarrow> int + (int \<times> proc_t) outcome" where
  "look_up_our_self e p =
     (case file2str (rp_alloc e) (rp_fs e) ''/proc/self'' ''stat'' \<lparr>ub_buf = None, ub_siz = 0\<rparr> of
        (rc, ub) \<Rightarrow>
          if rc = - 1 then Inl 47
          else (case stat2proc (rp_lib e) (ub_text ub) p of
                  Done p' \<Rightarrow> Inr (Done (1, p'))
                | NoMem \<Rightarrow> Inr (Done (0, p))
                | Undef \<Rightarrow> Inr Undef))"

end
