(* ===== verification/ProcScan.thy ===== *)
theory ProcScan
  imports Readproc "HOL-Library.Sublist"
begin

unbundle bit_operations_syntax

text \<open>
  What a whole scan of \<open>readproc\<close> gives: the order and the selection of the processes
  it returns, what the table of \<open>openproc\<close> asks for, and where the scan of tasks stops
  early.
\<close>

subsection \<open>The paths a table asks for\<close>

definition entry_path :: "string \<Rightarrow> string" where
  "entry_path d = proc_dir (sint (ucast (fst (strtoul d)) :: 32 word))"

definition dir_entries :: "string list \<Rightarrow> string list" where
  "dir_entries ds = filter (\<lambda>d. pid_dirent d \<and> \<not> strtoul_erange d) (takeWhile (\<lambda>d. d \<noteq> []) ds)"

definition request_paths :: "proctab \<Rightarrow> string list" where
  "request_paths PT =
     (case pt_finder PT of
        SimpleNextpid \<Rightarrow> map entry_path (dir_entries (pt_procfs PT))
      | ListedNextpid \<Rightarrow> map proc_dir (takeWhile (\<lambda>i. i \<noteq> 0) (pt_pids PT)))"

text \<open>What no step of a scan changes.\<close>

definition request_of :: "proctab \<Rightarrow> finder \<times> uid_t list \<times> nat \<times> bool \<times> 32 word" where
  "request_of PT = (pt_finder PT, pt_uids PT, pt_nuid PT, pt_hide_kernel PT, pt_flags PT)"

lemma next_pid_name_entries:
  "next_pid_name ds = (Some (d, r), ds') \<Longrightarrow> dir_entries ds = d # dir_entries ds'"
  by (induction ds) (auto simp: dir_entries_def split: if_splits)

lemma next_pid_name_none: "next_pid_name ds = (None, ds') \<Longrightarrow> dir_entries ds = []"
  by (induction ds) (auto simp: dir_entries_def split: if_splits)

lemma find_next_paths:
  "find_next e PT p st = Some (True, PT', p', st') \<Longrightarrow>
     request_paths PT = pt_path PT' # request_paths PT' \<and> request_of PT' = request_of PT"
  by (auto simp: find_next_def simple_nextpid_def listed_nextpid_def Let_def request_paths_def
      request_of_def entry_path_def split: finder.splits prod.splits option.splits list.splits if_splits
      dest!: next_pid_name_entries)

lemma find_next_stop:
  "find_next e PT p st = Some (False, PT', p', st') \<Longrightarrow> request_paths PT = [] \<and> st' = st"
  by (auto simp: find_next_def simple_nextpid_def listed_nextpid_def Let_def request_paths_def
      split: finder.splits prod.splits option.splits list.splits if_splits dest!: next_pid_name_none)

subsection \<open>Which processes are returned\<close>

definition owner_ok :: "rp_env \<Rightarrow> proctab \<Rightarrow> string \<Rightarrow> bool" where
  "owner_ok e PT path =
     (case rp_owner e path of
        None \<Rightarrow> False
      | Some (uid, gid) \<Rightarrow> \<not> has (pt_flags PT) PROC_UID \<or> XinLN uid (pt_uids PT) (pt_nuid PT))"

definition hidden :: "proctab \<Rightarrow> proc_t \<Rightarrow> bool" where
  "hidden PT p \<longleftrightarrow> pt_hide_kernel PT \<and> (p_ppid p = 2 \<or> p_tid p = 2)"

lemma owner_ok_cong: "request_of PT' = request_of PT \<Longrightarrow> owner_ok e PT' path = owner_ok e PT path"
  by (simp add: owner_ok_def request_of_def cong: option.case_cong)

lemma hidden_cong: "request_of PT' = request_of PT \<Longrightarrow> hidden PT' p = hidden PT p"
  by (simp add: hidden_def request_of_def)

lemma simple_readproc_wanted:
  "simple_readproc e PT p st = Some (True, p', st') \<Longrightarrow> owner_ok e PT (pt_path PT) \<and> \<not> hidden PT p'"
  by (auto simp: simple_readproc_def owner_ok_def hidden_def Let_def
      split: option.splits prod.splits if_splits)

lemma readproc_loop_found:
  "readproc_loop e PT p st = Some (True, PT', p', st') \<Longrightarrow>
     (\<exists>skipped. request_paths PT = skipped @ pt_path PT' # request_paths PT') \<and>
     request_of PT' = request_of PT \<and> owner_ok e PT (pt_path PT') \<and> \<not> hidden PT p'
     \<and> scan_left PT' < scan_left PT"
proof (induction e PT p st rule: readproc_loop.induct)
  case (1 e PT p st)
  show ?case
  proof (cases "rs_nomem st")
    case True
    then show ?thesis using 1(2) by (simp add: readproc_loop.simps)
  next
    case nm: False
    then obtain PT1 p1 st1 where f: "find_next e PT p st = Some (True, PT1, p1, st1)"
      using 1(2) by (subst (asm) readproc_loop.simps) (auto split: option.splits bool.splits)
    note n = find_next_paths [OF f] find_next_left [OF f]
    obtain ok p2 st2 where r: "simple_readproc e PT1 p1 st1 = Some (ok, p2, st2)"
      using 1(2) nm f by (subst (asm) readproc_loop.simps) (auto split: option.splits)
    show ?thesis
    proof (cases ok)
      case True
      then have "PT' = PT1" "p' = p2"
        using 1(2) nm f r by (subst (asm) readproc_loop.simps, simp)+
      then show ?thesis
        using n True simple_readproc_wanted [of e PT1 p1 st1 p2 st2] r
          owner_ok_cong [of PT1 PT e] hidden_cong [of PT1 PT] by auto
    next
      case False
      then have "readproc_loop e PT1 p2 st2 = Some (True, PT', p', st')"
        using 1(2) nm f r by (subst (asm) readproc_loop.simps) simp
      from 1(1) [OF nm f _ _ _ _ r _ _ _ this] False
      have ih: "(\<exists>skipped. request_paths PT1 = skipped @ pt_path PT' # request_paths PT') \<and>
          request_of PT' = request_of PT1 \<and> owner_ok e PT1 (pt_path PT') \<and> \<not> hidden PT1 p' \<and>
          scan_left PT' < scan_left PT1" by blast
      then obtain skipped where "request_paths PT1 = skipped @ pt_path PT' # request_paths PT'" by blast
      then have "request_paths PT = (pt_path PT1 # skipped) @ pt_path PT' # request_paths PT'" using n by simp
      then show ?thesis
        using ih n owner_ok_cong [of PT1 PT e] hidden_cong [of PT1 PT] by (metis less_trans)
    qed
  qed
qed

lemma readproc_left: "readproc e PT p st = Some (True, PT', p', st') \<Longrightarrow> scan_left PT' < scan_left PT"
  unfolding readproc_def by (drule readproc_loop_found) simp

text \<open>Calling \<open>readproc\<close> until it returns a null pointer: the paths and the structures.\<close>

function scan :: "rp_env \<Rightarrow> proctab \<Rightarrow> proc_t \<Rightarrow> rp_state \<Rightarrow> (string \<times> proc_t) list option" where
  "scan e PT p st =
     (case readproc e PT p st of
        None \<Rightarrow> None
      | Some (False, _) \<Rightarrow> Some []
      | Some (True, PT', p', st') \<Rightarrow> map_option ((#) (pt_path PT', p')) (scan e PT' p' st'))"
  by pat_completeness auto
termination
  by (relation "measure (\<lambda>(e, PT, p, st). scan_left PT)") (auto dest: readproc_left)

declare scan.simps [simp del]

lemma scan_paths:
  "scan e PT p st = Some ps \<Longrightarrow>
     subseq (map fst ps) (request_paths PT) \<and>
     list_all (\<lambda>(path, p'). owner_ok e PT path \<and> \<not> hidden PT p') ps"
proof (induction e PT p st arbitrary: ps rule: scan.induct)
  case (1 e PT p st)
  show ?case
  proof (cases "\<exists>PT' p' st'. readproc e PT p st = Some (True, PT', p', st')")
    case True
    then obtain PT' p' st' where r: "readproc e PT p st = Some (True, PT', p', st')" by blast
    from r 1(2) obtain ps' where ps: "ps = (pt_path PT', p') # ps'" and s: "scan e PT' p' st' = Some ps'"
      by (subst (asm) scan.simps) auto
    have ih: "subseq (map fst ps') (request_paths PT')
        \<and> list_all (\<lambda>(path, p'). owner_ok e PT' path \<and> \<not> hidden PT' p') ps'"
      using 1(1) [OF r _ _ _ _ s] by blast
    from readproc_loop_found [OF r [unfolded readproc_def]] obtain skipped where
      l: "request_paths PT = skipped @ pt_path PT' # request_paths PT'" "request_of PT' = request_of PT"
        "owner_ok e PT (pt_path PT')" "\<not> hidden PT p'" by blast
    show ?thesis
      using ih l by (simp add: ps owner_ok_cong [of PT' PT] hidden_cong [of PT' PT] subseq_drop_many split_def)
  next
    case False
    then have "ps = []" using 1(2) by (subst (asm) scan.simps) (auto split: option.splits bool.splits)
    then show ?thesis by simp
  qed
qed

subsection \<open>A scan that asks for nothing but the owners\<close>

definition owners_only :: "proctab \<Rightarrow> bool" where
  "owners_only PT \<longleftrightarrow> pt_flags PT AND NOT (PROC_PID OR PROC_UID) = 0 \<and> \<not> pt_hide_kernel PT"

lemma has_masked: "flags AND NOT m = 0 \<Longrightarrow> x AND m = 0 \<Longrightarrow> \<not> has flags x" for flags :: "32 word"
proof -
  assume m: "flags AND NOT m = 0" "x AND m = 0"
  have "flags AND x = (flags AND (x AND m)) OR ((flags AND NOT m) AND x)"
    by (auto intro!: bit_word_eqI simp: bit_simps)
  then show ?thesis by (simp add: m has_def)
qed

lemma owners_only_flags:
  assumes "owners_only PT"
  shows "\<not> has (pt_flags PT) PROC_FILLMEM" "\<not> has (pt_flags PT) PROC_FILLARG"
    "\<not> has (pt_flags PT) PROC_FILLENV" "\<not> has (pt_flags PT) PROC_FILLUSR"
    "\<not> has (pt_flags PT) PROC_FILLGRP" "\<not> has (pt_flags PT) PROC_FILLSTATUS"
    "\<not> has (pt_flags PT) PROC_FILLSTAT" "\<not> has (pt_flags PT) PROC_FILLCGROUP"
    "\<not> has (pt_flags PT) PROC_FILLOOM" "\<not> has (pt_flags PT) PROC_FILLNS"
    "\<not> has (pt_flags PT) PROC_FILLSYSTEMD" "\<not> has (pt_flags PT) PROC_FILL_LXC"
    "\<not> has (pt_flags PT) PROC_FILL_LUID" "\<not> has (pt_flags PT) PROC_FILL_EXE"
    "\<not> has (pt_flags PT) PROC_FILLIO" "\<not> has (pt_flags PT) PROC_FILLSMAPS"
    "\<not> has (pt_flags PT) PROC_EDITCGRPCVT" "\<not> has (pt_flags PT) PROC_EDITCMDLCVT"
    "\<not> has (pt_flags PT) PROC_EDITENVRCVT" "\<not> has (pt_flags PT) PROC_FILLAUTOGRP"
proof -
  have m: "pt_flags PT AND NOT (PROC_PID OR PROC_UID) = 0" using assms by (simp add: owners_only_def)
  note d = PROC_FILLMEM_def PROC_FILLARG_def PROC_FILLENV_def PROC_FILLUSR_def PROC_FILLGRP_def
    PROC_FILLSTATUS_def PROC_FILLSTAT_def PROC_FILLCGROUP_def PROC_FILLOOM_def PROC_FILLNS_def
    PROC_FILLSYSTEMD_def PROC_FILL_LXC_def PROC_FILL_LUID_def PROC_FILL_EXE_def PROC_FILLIO_def
    PROC_FILLSMAPS_def PROC_EDITCGRPCVT_def PROC_EDITCMDLCVT_def PROC_EDITENVRCVT_def
    PROC_FILLAUTOGRP_def PROC_PID_def PROC_UID_def
  show "\<not> has (pt_flags PT) PROC_FILLMEM" by (rule has_masked [OF m]) (simp add: d)
  show "\<not> has (pt_flags PT) PROC_FILLARG" by (rule has_masked [OF m]) (simp add: d)
  show "\<not> has (pt_flags PT) PROC_FILLENV" by (rule has_masked [OF m]) (simp add: d)
  show "\<not> has (pt_flags PT) PROC_FILLUSR" by (rule has_masked [OF m]) (simp add: d)
  show "\<not> has (pt_flags PT) PROC_FILLGRP" by (rule has_masked [OF m]) (simp add: d)
  show "\<not> has (pt_flags PT) PROC_FILLSTATUS" by (rule has_masked [OF m]) (simp add: d)
  show "\<not> has (pt_flags PT) PROC_FILLSTAT" by (rule has_masked [OF m]) (simp add: d)
  show "\<not> has (pt_flags PT) PROC_FILLCGROUP" by (rule has_masked [OF m]) (simp add: d)
  show "\<not> has (pt_flags PT) PROC_FILLOOM" by (rule has_masked [OF m]) (simp add: d)
  show "\<not> has (pt_flags PT) PROC_FILLNS" by (rule has_masked [OF m]) (simp add: d)
  show "\<not> has (pt_flags PT) PROC_FILLSYSTEMD" by (rule has_masked [OF m]) (simp add: d)
  show "\<not> has (pt_flags PT) PROC_FILL_LXC" by (rule has_masked [OF m]) (simp add: d)
  show "\<not> has (pt_flags PT) PROC_FILL_LUID" by (rule has_masked [OF m]) (simp add: d)
  show "\<not> has (pt_flags PT) PROC_FILL_EXE" by (rule has_masked [OF m]) (simp add: d)
  show "\<not> has (pt_flags PT) PROC_FILLIO" by (rule has_masked [OF m]) (simp add: d)
  show "\<not> has (pt_flags PT) PROC_FILLSMAPS" by (rule has_masked [OF m]) (simp add: d)
  show "\<not> has (pt_flags PT) PROC_EDITCGRPCVT" by (rule has_masked [OF m]) (simp add: d)
  show "\<not> has (pt_flags PT) PROC_EDITCMDLCVT" by (rule has_masked [OF m]) (simp add: d)
  show "\<not> has (pt_flags PT) PROC_EDITENVRCVT" by (rule has_masked [OF m]) (simp add: d)
  show "\<not> has (pt_flags PT) PROC_FILLAUTOGRP" by (rule has_masked [OF m]) (simp add: d)
qed

lemma simple_readproc_owners_eq:
  assumes "owners_only PT"
  shows "simple_readproc e PT p st =
    (case rp_owner e (pt_path PT) of
       None \<Rightarrow> Some (False, p, st\<lparr>rs_nomem := False\<rparr>)
     | Some (uid, gid) \<Rightarrow>
         if owner_ok e PT (pt_path PT) then
           Some (True, (let p' = p\<lparr>p_euid := uid, p_egid := gid\<rparr> in if 1 < p_nlwp p then p'\<lparr>p_wchan := - 1\<rparr> else p'), st)
         else Some (False, p, st))"
  using assms owners_only_flags [OF assms]
  by (simp add: simple_readproc_def owner_ok_def read_frame_def Let_def proc_steps_def run_steps_def
      run_step_def pure_step_def owners_only_def split: option.splits prod.splits) blast

lemma simple_readtask_owners_eq:
  assumes "owners_only PT"
  shows "simple_readtask e PT t path st =
    (case rp_owner e path of
       None \<Rightarrow> Some (False, t, st\<lparr>rs_nomem := False\<rparr>)
     | Some (uid, gid) \<Rightarrow> Some (True, t\<lparr>p_euid := uid, p_egid := gid\<rparr>, st))"
  using assms owners_only_flags [OF assms]
  by (simp add: simple_readtask_def read_frame_def Let_def task_steps_def run_steps_def
      run_step_def pure_step_def owners_only_def split: option.splits prod.splits)

lemma simple_readproc_owners:
  assumes "owners_only PT"
  shows "\<exists>p' st'. simple_readproc e PT p st = Some (owner_ok e PT (pt_path PT), p', st') \<and>
    (rs_nomem st' \<longrightarrow> rs_nomem st)"
  by (simp add: simple_readproc_owners_eq [OF assms] owner_ok_def split: option.splits)

lemma file2str_allocated: "alloc = (\<lambda>_. True) \<Longrightarrow> ub_buf (snd (file2str alloc fs d what ub)) \<noteq> None"
proof -
  have loop: "alloc = (\<lambda>_. True) \<Longrightarrow> f2s_loop alloc siz acc cs \<noteq> (None, n)" for siz acc cs n
    by (induction alloc siz acc cs rule: f2s_loop.induct)
      (subst f2s_loop.simps, auto simp: Let_def split: prod.splits read_status.splits)
  assume "alloc = (\<lambda>_. True)"
  with loop show ?thesis
    by (auto simp: file2str_def Let_def split: option.splits prod.splits)
qed

text \<open>The pid list of a table has its terminating 0.\<close>

definition terminated :: "proctab \<Rightarrow> bool" where
  "terminated PT \<longleftrightarrow> pt_finder PT = SimpleNextpid \<or> 0 \<in> set (pt_pids PT)"

lemma find_next_terminated:
  assumes "terminated PT" "rp_alloc e = (\<lambda>_. True)" "\<not> rs_nomem st"
  obtains (found) PT' p' st' where "find_next e PT p st = Some (True, PT', p', st')" "terminated PT'" "\<not> rs_nomem st'"
  | (over) PT' p' st' where "find_next e PT p st = Some (False, PT', p', st')"
proof (cases "pt_finder PT")
  case SimpleNextpid
  show ?thesis
  proof (cases "next_pid_name (pt_procfs PT)")
    case (Pair r ds)
    show ?thesis
    proof (cases r)
      case None
      then show ?thesis using over Pair SimpleNextpid by (auto simp: find_next_def simple_nextpid_def)
    next
      case (Some x)
      then show ?thesis using found Pair SimpleNextpid
        by (cases x) (auto simp: find_next_def simple_nextpid_def terminated_def Let_def)
    qed
  qed
next
  case ListedNextpid
  then obtain pid pids where pids: "pt_pids PT = pid # pids"
    using assms(1) by (cases "pt_pids PT") (auto simp: terminated_def)
  show ?thesis
  proof (cases "pid = 0")
    case True
    then show ?thesis using over ListedNextpid pids by (auto simp: find_next_def listed_nextpid_def Let_def)
  next
    case False
    obtain rc ub where f: "file2str (rp_alloc e) (rp_fs e) (proc_dir pid) ''status'' (rs_listed_ub st) = (rc, ub)"
      by fastforce
    have "ub_buf ub \<noteq> None"
      using file2str_allocated [OF assms(2), of "rp_fs e" "proc_dir pid" "''status''" "rs_listed_ub st"] f by simp
    moreover have "0 \<in> set pids" using assms(1) ListedNextpid pids False by (auto simp: terminated_def)
    ultimately show ?thesis
      using found ListedNextpid pids False f assms(3)
      by (simp add: find_next_def listed_nextpid_def Let_def terminated_def f2s_nomem_def)
  qed
qed

lemma owners_only_cong: "request_of PT' = request_of PT \<Longrightarrow> owners_only PT' = owners_only PT"
  by (simp add: owners_only_def request_of_def)

lemma readproc_loop_owners:
  assumes "rp_alloc e = (\<lambda>_. True)"
  shows "owners_only PT \<Longrightarrow> terminated PT \<Longrightarrow> \<not> rs_nomem st \<Longrightarrow>
    \<exists>b PT' p' st'. readproc_loop e PT p st = Some (b, PT', p', st') \<and>
      (if b then filter (owner_ok e PT) (request_paths PT) = pt_path PT' # filter (owner_ok e PT) (request_paths PT')
              \<and> request_of PT' = request_of PT \<and> terminated PT' \<and> \<not> rs_nomem st'
       else filter (owner_ok e PT) (request_paths PT) = [])"
proof (induction "scan_left PT" arbitrary: PT p st rule: less_induct)
  case less
  consider (found) PT' p' st' where "find_next e PT p st = Some (True, PT', p', st')" "terminated PT'" "\<not> rs_nomem st'"
    | (over) PT' p' st' where "find_next e PT p st = Some (False, PT', p', st')"
    using find_next_terminated [OF less.prems(2) assms less.prems(3)] by metis
  then show ?case
  proof cases
    case (found PT1 p1 st1)
    note n = find_next_paths [OF found(1)]
    have ok: "owner_ok e PT1 = owner_ok e PT" using owner_ok_cong n by blast
    have o: "owners_only PT1" using n less.prems(1) owners_only_cong by blast
    obtain p2 st2 where r: "simple_readproc e PT1 p1 st1 = Some (owner_ok e PT (pt_path PT1), p2, st2)"
        "\<not> rs_nomem st2"
      using simple_readproc_owners [OF o, of e p1 st1] found(3) ok by auto
    show ?thesis
    proof (cases "owner_ok e PT (pt_path PT1)")
      case True
      then show ?thesis
        using found r n less.prems(3) by (subst readproc_loop.simps) (auto intro: exI [of _ True])
    next
      case False
      have "readproc_loop e PT p st = readproc_loop e PT1 p2 st2"
        using found r n less.prems(3) False by (subst readproc_loop.simps) simp
      then show ?thesis
        using less.hyps [OF find_next_left [OF found(1)] o found(2) r(2), of p2] n False ok by (auto split: if_splits)
    qed
  next
    case (over PT1 p1 st1)
    then show ?thesis
      using find_next_stop [OF over] over less.prems(3)
      by (subst readproc_loop.simps) (auto intro: exI [of _ False])
  qed
qed

lemma scan_owners:
  assumes "rp_alloc e = (\<lambda>_. True)"
  shows "owners_only PT \<Longrightarrow> terminated PT \<Longrightarrow> \<not> rs_nomem st \<Longrightarrow>
    \<exists>ps. scan e PT p st = Some ps \<and> map fst ps = filter (owner_ok e PT) (request_paths PT)"
proof (induction "scan_left PT" arbitrary: PT p st rule: less_induct)
  case less
  obtain b PT' p' st' where l: "readproc e PT p st = Some (b, PT', p', st')"
      "if b then filter (owner_ok e PT) (request_paths PT) = pt_path PT' # filter (owner_ok e PT) (request_paths PT')
              \<and> request_of PT' = request_of PT \<and> terminated PT' \<and> \<not> rs_nomem st'
       else filter (owner_ok e PT) (request_paths PT) = []"
    using readproc_loop_owners [OF assms less.prems, of "snd (free_acquired p)"] unfolding readproc_def by blast
  show ?case
  proof (cases b)
    case True
    then have t: "request_of PT' = request_of PT" "terminated PT'" "\<not> rs_nomem st'" using l(2) by auto
    have "owner_ok e PT' = owner_ok e PT" using owner_ok_cong t(1) by blast
    moreover from this obtain ps where "scan e PT' p' st' = Some ps"
        "map fst ps = filter (owner_ok e PT) (request_paths PT')"
      using less.hyps [OF _ _ t(2,3), of p'] readproc_left l(1) True less.prems(1) owners_only_cong [OF t(1)]
      by fastforce
    ultimately show ?thesis using l True by (subst scan.simps) auto
  next
    case False
    then show ?thesis using l by (subst scan.simps) auto
  qed
qed

subsection \<open>Sample systems\<close>

definition fresh_state :: rp_state where
  "fresh_state =
     \<lparr>rs_ub = \<lparr>ub_buf = None, ub_siz = 0\<rparr>, rs_task_ub = \<lparr>ub_buf = None, ub_siz = 0\<rparr>,
      rs_listed_ub = \<lparr>ub_buf = None, ub_siz = 0\<rparr>,
      rs_lxc = \<lparr>lxc_ub = \<lparr>ub_buf = None, ub_siz = 0\<rparr>, lxc_anchor = []\<rparr>,
      rs_users = (\<lambda>_. []), rs_groups = (\<lambda>_. []), rs_nomem = False\<rparr>"

definition sample_rp :: "proc_fs \<Rightarrow> string list \<Rightarrow> (string \<times> string list) list \<Rightarrow> rp_env" where
  "sample_rp fs owned dirs =
     \<lparr>rp_lib = sample_lib, rp_alloc = (\<lambda>_. True), rp_fs = fs, rp_readlink = (\<lambda>_. None),
      rp_owner = (\<lambda>path. if path \<in> set owned then Some (1000, 100) else None), rp_ino = (\<lambda>_. None),
      rp_ele = (\<lambda>_. True), rp_dir = map_of dirs\<rparr>"

definition sample_open :: "string list \<Rightarrow> open_env" where
  "sample_open names =
     \<lparr>oe_calloc = True, oe_getenv_hide = False, oe_self_task = True, oe_proc = Some names,
      oe_src_ok = True, oe_dst_ok = True\<rparr>"

definition closed :: open_state where
  "closed = \<lparr>os_src = NullBuffer, os_dst = NullBuffer, os_hide_kernel = None, os_task_dir_missing = None, os_dirs = 0\<rparr>"

definition sample_table :: "string list \<Rightarrow> 32 word \<Rightarrow> int list \<Rightarrow> uid_t list \<Rightarrow> proctab" where
  "sample_table names flags pids uids =
     (case openproc (sample_open names) flags pids (uids, length uids) closed of (Some PT, _) \<Rightarrow> PT)"

definition no_files :: proc_fs where
  "no_files = (\<lambda>_. None)"

definition drops_env :: rp_env where
  "drops_env = sample_rp no_files [''/proc/10'', ''/proc/10/task/10'', ''/proc/10/task/12'']
                 [(''/proc/10/task'', [''10'', ''11'', ''12''])]"

definition idle_either :: either_state where
  "idle_either = \<lparr>ei_skel = zero_proc, ei_new = False, ei_leader = 0\<rparr>"

fun either_tids :: "nat \<Rightarrow> rp_env \<Rightarrow> proctab \<Rightarrow> rp_state \<Rightarrow> either_state \<Rightarrow> int list option" where
  "either_tids 0 e PT st ei = Some []"
| "either_tids (Suc n) e PT st ei =
     (case readeither e False PT zero_proc st ei of
        None \<Rightarrow> None
      | Some (False, _) \<Rightarrow> Some []
      | Some (True, PT', x, st', ei') \<Rightarrow> map_option ((#) (p_tid x)) (either_tids n e PT' st' ei'))"

text \<open>The decimal names of the samples.\<close>

lemma sample_names:
  "strtoul ''5'' = (5, [])" "strtoul ''6'' = (6, [])" "strtoul ''10'' = (10, [])" "strtoul ''11'' = (11, [])"
  "strtoul ''12'' = (12, [])" "strtoul ''100'' = (100, [])"
  "\<not> strtoul_erange ''5''" "\<not> strtoul_erange ''6''" "\<not> strtoul_erange ''10''" "\<not> strtoul_erange ''11''"
  "\<not> strtoul_erange ''12''" "\<not> strtoul_erange ''100''"
  "proc_dir 5 = ''/proc/5''" "proc_dir 6 = ''/proc/6''" "proc_dir 10 = ''/proc/10''" "proc_dir 100 = ''/proc/100''"
  "show_int 5 = ''5''" "show_int 6 = ''6''" "show_int 10 = ''10''"
  "pid_dirent ''5''" "pid_dirent ''6''" "pid_dirent ''10''" "pid_dirent ''11''" "pid_dirent ''12''"
  "pid_dirent ''100''" "\<not> pid_dirent ''self''"
  by code_simp+

lemma sample_table_dir:
  "sample_table names 0 [] [] =
     \<lparr>pt_procfs = names, pt_taskdir = None, pt_taskdir_user = - 1, pt_finder = SimpleNextpid,
      pt_pids = [], pt_uids = [], pt_nuid = 0, pt_hide_kernel = False, pt_flags = 0, pt_path = [], pt_dirs = 0\<rparr>"
  by (simp add: sample_table_def sample_open_def openproc_def closed_def Let_def has_def)

lemma zero_proc_numbers [simp]: "p_nlwp zero_proc = 0" "p_tid zero_proc = 0" "p_tgid zero_proc = 0" "p_cmd zero_proc = None"
  by (simp_all add: zero_proc_def)

lemma owners_only_flags0 [simp]: "pt_flags PT = 0 \<Longrightarrow> \<not> pt_hide_kernel PT \<Longrightarrow> owners_only PT"
  by (simp add: owners_only_def)

lemma has_0 [simp]: "\<not> has 0 f"
  by (simp add: has_def)

lemmas either_simps =
  readeither_def either_loop.simps either_task_def free_acquired_def find_next_def simple_nextpid_def
  listed_nextpid_def simple_nexttid_def Let_def simple_readproc_owners_eq simple_readtask_owners_eq owner_ok_def
  sample_names PROCPATHLEN_def snprintf_buf_def

lemma either_tids_numeral:
  "either_tids (numeral k) e PT st ei =
     (case readeither e False PT zero_proc st ei of
        None \<Rightarrow> None
      | Some (False, _) \<Rightarrow> Some []
      | Some (True, PT', x, st', ei') \<Rightarrow> map_option ((#) (p_tid x)) (either_tids (pred_numeral k) e PT' st' ei'))"
  by (simp add: numeral_eq_Suc)

text \<open>A process of which only the \<open>stat\<close> file is asked for.\<close>

lemma simple_readproc_stat:
  assumes "pt_flags PT = PROC_FILLSTAT" "rp_owner e (pt_path PT) = Some (uid, gid)" "rp_alloc e = (\<lambda>_. True)"
    and "rp_fs e (proc_path (pt_path PT) ''stat'') = Some [FData t]" "t \<noteq> []" "NUL \<notin> set t"
    and "length (proc_path (pt_path PT) ''stat'') < PROCPATHLEN" "int (length t) < INT_MAX - int buffGRW"
    and "ub_buf (rs_ub st) = None \<or> 0 < ub_siz (rs_ub st)" "\<not> rs_nomem st"
    and "stat2proc (rp_lib e) t (p\<lparr>p_euid := uid, p_egid := gid\<rparr>) = Done p'"
    and "p2 = (if 1 < p_nlwp p' then p'\<lparr>p_wchan := - 1\<rparr> else p')"
  shows "\<exists>ub. simple_readproc e PT p st = Some (\<not> hidden PT p2, p2, st\<lparr>rs_ub := ub\<rparr>) \<and> 0 < ub_siz ub"
proof -
  obtain siz where f: "file2str (\<lambda>_. True) (rp_fs e) (pt_path PT) ''stat'' (rs_ub st)
      = (int (length t), \<lparr>ub_buf = Some t, ub_siz = siz\<rparr>)" "length t < siz"
    using file2str_one [of "rp_fs e" "pt_path PT" "''stat''" t "\<lambda>_. True" "rs_ub st"] assms(4-9) by auto
  let ?ub = "\<lparr>ub_buf = Some t, ub_siz = siz\<rparr>"
  have st: "put_ub False ?ub (st\<lparr>rs_nomem := f2s_nomem e (pt_path PT) ''stat'' ?ub (rs_nomem st)\<rparr>) = st\<lparr>rs_ub := ?ub\<rparr>"
    using assms(10) by (simp add: put_ub_def f2s_nomem_def)
  have "simple_readproc e PT p st = Some (\<not> hidden PT p2, p2, st\<lparr>rs_ub := ?ub\<rparr>)"
    using assms(1-3,6,11,12) f st
    by (simp add: simple_readproc_def read_frame_def Let_def read_ub_def get_ub_def ub_text_def of_outcome_def
        proc_steps_def run_steps_def run_step_def pure_step_def hidden_def has_def
        PROC_FILLMEM_def PROC_FILLARG_def PROC_FILLENV_def PROC_FILLUSR_def PROC_FILLGRP_def
        PROC_FILLSTATUS_def PROC_FILLSTAT_def PROC_FILLCGROUP_def PROC_FILLOOM_def PROC_FILLNS_def
        PROC_FILLSYSTEMD_def PROC_FILL_LXC_def PROC_FILL_LUID_def PROC_FILL_EXE_def PROC_FILLIO_def
        PROC_FILLSMAPS_def PROC_EDITCGRPCVT_def PROC_EDITCMDLCVT_def PROC_EDITENVRCVT_def
        PROC_FILLAUTOGRP_def PROC_UID_def)
  then show ?thesis using f(2) by (auto intro: exI [of _ ?ub])
qed

definition thread_line :: string where
  "thread_line = stat_line 5 ''kworker'' (CHR ''I'') sample_fields [newline]"

definition user_line :: string where
  "user_line = stat_line 100 ''bash'' (CHR ''S'') (FInt 1 # tl sample_fields) [newline]"

definition leak_env :: rp_env where
  "leak_env = sample_rp
     (\<lambda>f. if f = ''/proc/5/stat'' then Some [FData thread_line]
          else if f = ''/proc/100/stat'' then Some [FData user_line] else None)
     [''/proc/5'', ''/proc/100''] []"

definition leak_table :: "string list \<Rightarrow> proctab" where
  "leak_table names =
     (case openproc ((sample_open names)\<lparr>oe_getenv_hide := True\<rparr>) PROC_FILLSTAT [] ([], 0) closed of (Some PT, _) \<Rightarrow> PT)"

lemma sample_lines:
  "length thread_line < 1000" "length user_line < 1000" "NUL \<notin> set thread_line" "NUL \<notin> set user_line"
  "thread_line \<noteq> []" "user_line \<noteq> []"
  by code_simp+

lemma sample_commands: "command_of None ''kworker'' = ''kworker''" "command_of None ''bash'' = ''bash''"
  by code_simp+

lemma sample_fields_ok:
  "map field_conv sample_fields = stat_types" "list_all field_ok sample_fields"
  "map field_conv (FInt 1 # tl sample_fields) = stat_types" "list_all field_ok (FInt 1 # tl sample_fields)"
  by code_simp+

lemma stat2proc_thread_line:
  assumes "p_cmd P = None"
  obtains P' where "stat2proc sample_lib thread_line P = Done P'" "p_cmd P' = Some ''kworker''" "p_ppid P' = 2"
    "p_tid P' = p_tid P" "p_nlwp P' = 18"
proof -
  have "stat2proc sample_lib thread_line P =
     Done (at_least_one_thread (assign stat_setters (SChar (CHR ''I'') # concat (map field_val sample_fields))
            ((stat_defaults P)\<lparr>p_cmd := Some ''kworker''\<rparr>)))"
    using stat2proc_stat_line [OF sample_fields_ok(1,2), of "CHR ''I''" P "''kworker''" sample_lib "[newline]" 5] assms
    by (simp add: thread_line_def sample_lib_def sample_commands isspace_def)
  then show thesis using that
    by (simp add: stat_setters_def stat_defaults_def at_least_one_thread_def sample_fields_def)
qed

lemma stat2proc_user_line:
  assumes "p_cmd P = Some c"
  obtains P' where "stat2proc sample_lib user_line P = Done P'" "p_cmd P' = Some c" "p_ppid P' = 1"
    "p_tid P' = p_tid P" "p_nlwp P' = 18"
proof -
  have "stat2proc sample_lib user_line P =
     Done (at_least_one_thread (assign stat_setters
       (SChar (CHR ''S'') # concat (map field_val (FInt 1 # tl sample_fields))) (stat_defaults P)))"
    using stat2proc_stat_line_keeps [OF sample_fields_ok(3,4), of "CHR ''S''" P c "[newline]" sample_lib 100 "''bash''"] assms
    by (simp add: user_line_def isspace_def)
  then show thesis using that assms
    by (simp add: stat_setters_def stat_defaults_def at_least_one_thread_def sample_fields_def)
qed

lemma leak_table_eq:
  "leak_table names =
     \<lparr>pt_procfs = names, pt_taskdir = None, pt_taskdir_user = - 1, pt_finder = SimpleNextpid,
      pt_pids = [], pt_uids = [], pt_nuid = 0, pt_hide_kernel = True, pt_flags = PROC_FILLSTAT, pt_path = [], pt_dirs = 0\<rparr>"
  by (simp add: leak_table_def sample_open_def openproc_def closed_def Let_def has_def PROC_FILLSTAT_def
      PROC_PID_def PROC_UID_def PROC_FILLSTATUS_def)

text \<open>One step of the loop on each of the two processes.\<close>

lemma leak_first:
  "\<exists>PT' p' st'. readproc leak_env (leak_table [''5'', ''100'']) zero_proc fresh_state = readproc_loop leak_env PT' p' st' \<and>
     PT' = (leak_table [''100''])\<lparr>pt_path := ''/proc/5''\<rparr> \<and> p_cmd p' = Some ''kworker'' \<and>
     \<not> rs_nomem st' \<and> 0 < ub_siz (rs_ub st')"
proof -
  let ?PT = "(leak_table [''100''])\<lparr>pt_path := ''/proc/5''\<rparr>"
  let ?p = "zero_proc\<lparr>p_tgid := 5, p_tid := 5\<rparr>"
  have find: "find_next leak_env (leak_table [''5'', ''100'']) zero_proc fresh_state = Some (True, ?PT, ?p, fresh_state)"
    by (simp add: find_next_def simple_nextpid_def leak_table_eq sample_names fresh_state_def Let_def)
  obtain p' where p': "stat2proc sample_lib thread_line (?p\<lparr>p_euid := 1000, p_egid := 100\<rparr>) = Done p'"
      "p_cmd p' = Some ''kworker''" "p_ppid p' = 2" "p_nlwp p' = 18"
    by (rule stat2proc_thread_line [of "?p\<lparr>p_euid := 1000, p_egid := 100\<rparr>"]) auto
  have nm: "\<not> rs_nomem fresh_state" by (simp add: fresh_state_def)
  obtain ub where r: "simple_readproc leak_env ?PT ?p fresh_state
      = Some (\<not> hidden ?PT (p'\<lparr>p_wchan := - 1\<rparr>), p'\<lparr>p_wchan := - 1\<rparr>, fresh_state\<lparr>rs_ub := ub\<rparr>)" "0 < ub_siz ub"
    using simple_readproc_stat [of ?PT leak_env 1000 100 thread_line fresh_state ?p p' "p'\<lparr>p_wchan := - 1\<rparr>"] p' sample_lines
    by (auto simp: leak_table_eq leak_env_def sample_rp_def proc_path_def PROCPATHLEN_def fresh_state_def
        INT_MAX_def buffGRW_def)
  have "hidden ?PT (p'\<lparr>p_wchan := - 1\<rparr>)" using p'(3) by (simp add: hidden_def leak_table_eq)
  then have "readproc leak_env (leak_table [''5'', ''100'']) zero_proc fresh_state
      = readproc_loop leak_env ?PT (p'\<lparr>p_wchan := - 1\<rparr>) (fresh_state\<lparr>rs_ub := ub\<rparr>)"
    using find r nm unfolding readproc_def free_acquired_def snd_conv by (subst readproc_loop.simps) simp
  moreover have "p_cmd (p'\<lparr>p_wchan := - 1\<rparr>) = Some ''kworker'' \<and> \<not> rs_nomem (fresh_state\<lparr>rs_ub := ub\<rparr>)
      \<and> 0 < ub_siz (rs_ub (fresh_state\<lparr>rs_ub := ub\<rparr>))" using p'(2) nm r by simp
  ultimately show ?thesis by blast
qed

lemma leak_second:
  assumes "PT = (leak_table [''100''])\<lparr>pt_path := ''/proc/5''\<rparr>" "p_cmd p = Some c" "\<not> rs_nomem st" "0 < ub_siz (rs_ub st)"
  shows "\<exists>PT' p' st'. readproc_loop leak_env PT p st = Some (True, PT', p', st') \<and> p_tid p' = 100 \<and> p_cmd p' = Some c"
proof -
  let ?PT = "(leak_table [])\<lparr>pt_path := ''/proc/100''\<rparr>"
  let ?p = "p\<lparr>p_tgid := 100, p_tid := 100\<rparr>"
  have find: "find_next leak_env PT p st = Some (True, ?PT, ?p, st)"
    using assms(3)
    by (simp add: assms(1) find_next_def simple_nextpid_def leak_table_eq sample_names Let_def)
  obtain p' where p': "stat2proc sample_lib user_line (?p\<lparr>p_euid := 1000, p_egid := 100\<rparr>) = Done p'"
      "p_cmd p' = Some c" "p_ppid p' = 1" "p_nlwp p' = 18" "p_tid p' = 100"
    by (rule stat2proc_user_line [of "?p\<lparr>p_euid := 1000, p_egid := 100\<rparr>" c]) (use assms(2) in auto)
  obtain ub where "simple_readproc leak_env ?PT ?p st
      = Some (\<not> hidden ?PT (p'\<lparr>p_wchan := - 1\<rparr>), p'\<lparr>p_wchan := - 1\<rparr>, st\<lparr>rs_ub := ub\<rparr>)"
    using simple_readproc_stat [of ?PT leak_env 1000 100 user_line st ?p p' "p'\<lparr>p_wchan := - 1\<rparr>"] p' sample_lines assms
    by (auto simp: leak_table_eq leak_env_def sample_rp_def proc_path_def PROCPATHLEN_def
        INT_MAX_def buffGRW_def)
  moreover have "\<not> hidden ?PT (p'\<lparr>p_wchan := - 1\<rparr>)" using p'(3,5) by (simp add: hidden_def)
  ultimately have "readproc_loop leak_env PT p st = Some (True, ?PT, p'\<lparr>p_wchan := - 1\<rparr>, st\<lparr>rs_ub := ub\<rparr>)"
    using find assms(3) by (subst readproc_loop.simps) simp
  then show ?thesis using p'(2,5) by simp
qed

lemma has_or: "has flags (f OR g) \<longleftrightarrow> has flags f \<or> has flags g"
  by (auto simp: has_def bit.conj_disj_distrib or_eq_0_iff)

lemma either_tids_1:
  "either_tids 1 e PT st ei =
     (case readeither e False PT zero_proc st ei of
        None \<Rightarrow> None
      | Some (False, _) \<Rightarrow> Some []
      | Some (True, PT', x, st', ei') \<Rightarrow> Some [p_tid x])"
  by (simp add: One_nat_def split: option.splits prod.splits bool.splits)

lemma sample_table_pid:
  "sample_table names PROC_PID pids [] =
     \<lparr>pt_procfs = [], pt_taskdir = None, pt_taskdir_user = - 1, pt_finder = ListedNextpid,
      pt_pids = pids, pt_uids = [], pt_nuid = 0, pt_hide_kernel = False, pt_flags = PROC_PID, pt_path = [], pt_dirs = 0\<rparr>"
  by (simp add: sample_table_def sample_open_def openproc_def closed_def Let_def has_def PROC_PID_def PROC_UID_def)

lemma owners_only_pid [simp]: "pt_flags PT = PROC_PID \<Longrightarrow> \<not> pt_hide_kernel PT \<Longrightarrow> owners_only PT"
  by (simp add: owners_only_def PROC_PID_def PROC_UID_def)

lemma has_pid_uid [simp]: "\<not> has PROC_PID PROC_UID"
  by (simp add: has_def PROC_PID_def PROC_UID_def)

subsection \<open>Properties\<close>

text \<open>
  C24. A scan with \<open>readproc\<close> returns processes in the order of the directory \<open>/proc\<close> (of the pid list
  with \<open>PROC_PID\<close>), each entry at most once, nothing else, and whatever the files and the memory
  do: none owned by a user that was not asked for under \<open>PROC_UID\<close>, and no kernel thread
  when these are hidden.
\<close>

theorem scan_in_order:
  assumes "scan e PT p st = Some ps"
  shows "subseq (map fst ps) (request_paths PT)
    \<and> list_all (\<lambda>(path, p'). owner_ok e PT path \<and> \<not> hidden PT p') ps"
  using assms by (rule scan_paths)

theorem scan_in_order_witness:
  "\<exists>ps. scan drops_env (sample_table [''self'', ''10'', ''12''] 0 [] []) zero_proc fresh_state = Some ps
    \<and> subseq (map fst ps) [''/proc/10'', ''/proc/12'']"
proof -
  let ?PT = "sample_table [''self'', ''10'', ''12''] 0 [] []"
  obtain ps where ps: "scan drops_env ?PT zero_proc fresh_state = Some ps"
    using scan_owners [of drops_env ?PT fresh_state zero_proc]
    by (auto simp: drops_env_def sample_rp_def sample_table_dir terminated_def fresh_state_def)
  moreover have "request_paths ?PT = [''/proc/10'', ''/proc/12'']" by code_simp
  ultimately show ?thesis using scan_in_order [OF ps] by auto
qed

text \<open>
  C23. And it misses none: a scan that asks for no file returns exactly the entries whose directory
  is there and whose owner is one that was asked for, if memory can be had and a pid list has
  its terminating 0.
\<close>

theorem scan_returns_all:
  assumes "rp_alloc e = (\<lambda>_. True)" and "owners_only PT" and "terminated PT" and "\<not> rs_nomem st"
  shows "map_option (map fst) (scan e PT p st) = Some (filter (owner_ok e PT) (request_paths PT))"
  using scan_owners [OF assms] by auto

theorem scan_returns_all_witness:
  "map_option (map fst) (scan drops_env (sample_table [''self'', ''10'', ''11'', ''x''] PROC_UID [] [0, 1000])
     zero_proc fresh_state) = Some [''/proc/10'']"
proof -
  let ?PT = "sample_table [''self'', ''10'', ''11'', ''x''] PROC_UID [] [0, 1000]"
  have "filter (owner_ok drops_env ?PT) (request_paths ?PT) = [''/proc/10'']" by code_simp
  moreover have "owners_only ?PT" "terminated ?PT" by code_simp+
  ultimately show ?thesis
    using scan_returns_all [of drops_env ?PT fresh_state zero_proc]
    by (simp add: drops_env_def sample_rp_def fresh_state_def)
qed

text \<open>
  The structure is cleared before the loop of \<open>readproc\<close> and not in it: when a kernel thread
  is skipped because it is hidden, the next process is returned with the name of that thread.
\<close>

theorem hidden_thread_name_leaks:
  "\<exists>PT' p' st'. readproc leak_env (leak_table [''5'', ''100'']) zero_proc fresh_state = Some (True, PT', p', st')
     \<and> user_line = stat_line 100 ''bash'' (CHR ''S'') (FInt 1 # tl sample_fields) [newline]
     \<and> p_tid p' = 100 \<and> p_cmd p' = Some ''kworker''"
  using leak_first leak_second unfolding user_line_def by metis

text \<open>
  \<open>readeither\<close> gives up on a process when one of its tasks has gone: of the tasks 10, 11 and 12
  of a process, of which 11 has ended since the directory was opened, only the first is returned.
\<close>

theorem readeither_drops_tasks:
  "either_tids 4 drops_env (sample_table [''self'', ''10''] 0 [] []) fresh_state idle_either = Some [10]"
  by (simp add: either_tids_numeral sample_table_dir idle_either_def fresh_state_def drops_env_def sample_rp_def either_simps)

definition gone_env :: rp_env where
  "gone_env = sample_rp no_files [''/proc/5''] [(''/proc/5/task'', [''5''])]"

text \<open>
  A pid list that names a process again after one that has gone makes \<open>readeither\<close> read a null
  directory stream: the failed \<open>opendir\<close> leaves the old owner in \<open>taskdir_user\<close>.
\<close>

theorem readeither_null_stream:
  "either_tids 1 gone_env (sample_table [] PROC_PID [5, 6, 5, 0] []) fresh_state idle_either = Some [5]
   \<and> either_tids 2 gone_env (sample_table [] PROC_PID [5, 6, 5, 0] []) fresh_state idle_either = None"
  by (simp add: either_tids_numeral either_tids_1 sample_table_pid idle_either_def fresh_state_def gone_env_def
      sample_rp_def no_files_def either_simps f2s_nomem_def owners_only_pid file2str_def proc_path_def)

definition buffers_ok :: "open_state \<Rightarrow> bool" where
  "buffers_ok os \<longleftrightarrow> os_src os = LiveBuffer \<and> os_dst os = LiveBuffer"

lemma openproc_some:
  assumes "openproc oe flags pids uids os0 = (Some PT, os1)"
  shows "pt_finder PT = (if has flags PROC_PID then ListedNextpid else SimpleNextpid)"
    "pt_flags PT = (if pt_hide_kernel PT \<and> \<not> has flags (PROC_FILLSTAT OR PROC_FILLSTATUS)
                    then flags OR PROC_FILLSTAT else flags)"
  using assms by (auto simp: openproc_def Let_def split: if_splits)

lemma openproc_buffers:
  assumes "openproc oe flags pids uids os0 = (Some PT, os1)"
    and "os_src os0 \<noteq> DanglingBuffer" and "os_dst os0 \<noteq> DanglingBuffer"
  shows "buffers_ok os1"
  using assms
  by (cases "os_src os0"; cases "os_dst os0"; auto simp: openproc_def buffers_ok_def Let_def split: if_splits)

text \<open>
  The table \<open>openproc\<close> returns has both static buffers behind it, names the finder the flags ask
  for, and reads a file with the parent's pid in it whenever kernel threads are to be hidden.
\<close>

theorem openproc_table:
  assumes "openproc oe flags pids uids os0 = (Some PT, os1)" and "os_src os0 \<noteq> DanglingBuffer" and "os_dst os0 \<noteq> DanglingBuffer"
  shows "buffers_ok os1 \<and> (pt_finder PT = ListedNextpid \<longleftrightarrow> has flags PROC_PID)
    \<and> pt_flags PT AND flags = flags
    \<and> (pt_hide_kernel PT \<longrightarrow> has (pt_flags PT) PROC_FILLSTAT \<or> has (pt_flags PT) PROC_FILLSTATUS)"
proof -
  have "has (flags OR PROC_FILLSTAT) PROC_FILLSTAT"
    by (simp add: has_def PROC_FILLSTAT_def bit.conj_disj_distrib2)
  moreover have "(flags OR PROC_FILLSTAT) AND flags = flags" by (simp add: word_ao_absorbs)
  ultimately show ?thesis
    using openproc_some [OF assms(1)] openproc_buffers [OF assms] has_or [of flags PROC_FILLSTAT PROC_FILLSTATUS]
    by (auto split: if_splits)
qed

theorem openproc_table_witness:
  "\<exists>PT os1. openproc ((sample_open [])\<lparr>oe_getenv_hide := True\<rparr>) PROC_PID [5, 0] ([], 0) closed = (Some PT, os1)
    \<and> buffers_ok os1 \<and> pt_finder PT = ListedNextpid \<and> has (pt_flags PT) PROC_FILLSTAT"
proof -
  obtain PT os1 where o: "openproc ((sample_open [])\<lparr>oe_getenv_hide := True\<rparr>) PROC_PID [5, 0] ([], 0) closed = (Some PT, os1)"
    by (simp add: sample_open_def openproc_def closed_def Let_def has_def PROC_PID_def PROC_FILLSTAT_def PROC_FILLSTATUS_def)
  moreover have "pt_hide_kernel PT" "has (pt_flags PT) PROC_FILLSTAT"
    using o by (auto simp: sample_open_def openproc_def closed_def Let_def has_def PROC_PID_def PROC_FILLSTAT_def PROC_FILLSTATUS_def)
  moreover have "has PROC_PID PROC_PID" by (simp add: has_def PROC_PID_def)
  ultimately show ?thesis using openproc_table [OF o] by (auto simp: closed_def)
qed

text \<open>
  When the second static buffer cannot be allocated, \<open>openproc\<close> frees the first and keeps its
  address: the next call succeeds and leaves a freed buffer in use.
\<close>

theorem openproc_dangling_buffer:
  "\<exists>os1. openproc ((sample_open names)\<lparr>oe_dst_ok := False\<rparr>) flags pids uids closed = (None, os1)
     \<and> (\<exists>PT os2. openproc (sample_open names) flags pids uids os1 = (Some PT, os2) \<and> os_src os2 = DanglingBuffer)"
  by (simp add: sample_open_def openproc_def closed_def Let_def)

end
