(* ===== verification/Stacks.thy ===== *)
theory Stacks
  imports Complex_Main "HOL-Library.Multiset" Prelude
begin

text \<open>
  What \<^verbatim>\<open>meminfo.c\<close>, \<^verbatim>\<open>stat.c\<close>, \<^verbatim>\<open>diskstats.c\<close> and their siblings under
  \<^verbatim>\<open>procps/linux\<close> share: results, stacks of results, the table that says how each item is
  set, the extents the stacks are allocated in, the growing array of stacks that \<open>reap\<close> fills,
  sorting, and reference counting. Each file has its own copy of these functions; its theory
  defines them as instances of those here.

  An item is its enumerator's number. A result's union is the member last written; \<open>Zero\<close> is the
  zeroed memory of a fresh result, which reads as 0 (or a null pointer) whatever member is read.
  A stack is the list of its results, the one with the \<open>logical_end\<close> item included. A pointer to
  items is its address and the items found there. A string or a vector of strings is its content; a null
  pointer is \<open>Zero\<close>.
\<close>

type_synonym item = nat

datatype rval =
    Zero
  | S_int int
  | U_int "32 word"
  | Ul_int ulong
  | Ull_int ulong
  | Sl_int int
  | S_ch char
  | Str string
  | Strv "string list"
  | Real rat

text \<open>The name of the member; the zeroed memory has every type.\<close>

fun rtype :: "rval \<Rightarrow> string" where
  "rtype Zero = []"
| "rtype (S_int _) = ''s_int''"
| "rtype (U_int _) = ''u_int''"
| "rtype (Ul_int _) = ''ul_int''"
| "rtype (Ull_int _) = ''ull_int''"
| "rtype (Sl_int _) = ''sl_int''"
| "rtype (S_ch _) = ''s_ch''"
| "rtype (Str _) = ''str''"
| "rtype (Strv _) = ''strv''"
| "rtype (Real _) = ''real''"

record result_cell =
  rc_item :: item
  rc_val :: rval

type_synonym stack = "result_cell list"

text \<open>A row of an \<open>Item_table\<close>: the enumerator, its setter, the type as a string.\<close>

type_synonym 'src row = "string \<times> ('src \<Rightarrow> rval \<Rightarrow> rval) \<times> string"

definition setsfunc :: "'src row list \<Rightarrow> item \<Rightarrow> 'src \<Rightarrow> rval \<Rightarrow> rval" where
  "setsfunc rows i = fst (snd (rows ! i))"

definition type2str :: "'src row list \<Rightarrow> item \<Rightarrow> string" where
  "type2str rows i = snd (snd (rows ! i))"

definition set_noop :: "'src \<Rightarrow> rval \<Rightarrow> rval" where
  "set_noop src v = v"

subsection \<open>Results and stacks\<close>

text \<open>\<open>None\<close>: the loop runs past the end of the stack.\<close>

fun assign_results :: "'src row list \<Rightarrow> 'src \<Rightarrow> stack \<Rightarrow> stack option" where
  "assign_results rows src [] = None"
| "assign_results rows src (r # rs) =
     (if length rows \<le> rc_item r then Some (r # rs)
      else map_option ((#) (r\<lparr>rc_val := setsfunc rows (rc_item r) src (rc_val r)\<rparr>)) (assign_results rows src rs))"

definition itemize_stack :: "nat \<Rightarrow> item list \<Rightarrow> stack" where
  "itemize_stack depth items = map (\<lambda>i. \<lparr>rc_item = i, rc_val = Zero\<rparr>) (take depth items)"

definition items_check_failed :: "nat \<Rightarrow> int \<Rightarrow> nat \<times> item list \<Rightarrow> bool" where
  "items_check_failed logical_end numitems items \<longleftrightarrow>
     numitems < 1 \<or> fst items < 2 * logical_end \<or> list_ex (\<lambda>i. logical_end \<le> i) (take (nat numitems) (snd items))"

subsection \<open>Extents\<close>

text \<open>
  The items a set of stacks is configured with, and the extents, the newest first, each the list of
  its stacks. \<open>es_items = None\<close> is a null pointer.
\<close>

record ext_support =
  es_num :: nat
  es_items :: "item list option"
  es_extents :: "stack list list"

definition stacks_alloc :: "bool \<Rightarrow> nat \<Rightarrow> ext_support \<Rightarrow> ext_support option" where
  "stacks_alloc calloc_ok maxstacks es =
     (if calloc_ok
      then Some (es\<lparr>es_extents := replicate maxstacks (itemize_stack (es_num es) (the (es_items es))) # es_extents es\<rparr>)
      else None)"

definition extents_free_all :: "ext_support \<Rightarrow> ext_support" where
  "extents_free_all es = es\<lparr>es_extents := []\<rparr>"

text \<open>
  The value returned (-1, 0, 1) and the support; \<open>None\<close> when the items of the last call, lost in a
  failed \<open>realloc\<close>, are compared with the new ones.
\<close>

definition reconfig_maybe ::
  "nat \<Rightarrow> bool \<Rightarrow> nat \<times> item list \<Rightarrow> int \<Rightarrow> ext_support \<Rightarrow> (int \<times> ext_support) option" where
  "reconfig_maybe logical_end realloc_ok items numitems es =
     (if items_check_failed logical_end numitems items then Some (- 1, es)
      else
        let n = nat numitems; new = take n (snd items);
            redo = (if \<not> realloc_ok then (- 1, es\<lparr>es_items := None\<rparr>)
                    else (1, extents_free_all (es\<lparr>es_items := Some (new @ [logical_end]), es_num := n + 1\<rparr>)))
        in if es_num es \<noteq> n + 1 then Some redo
           else case es_items es of
                  None \<Rightarrow> None
                | Some old \<Rightarrow> if take n old \<noteq> new then Some redo else Some (0, es))"

subsection \<open>Reading a file, and the resources in use\<close>

text \<open>
  A file is what successive reads of it give: the bytes, of which a buffer of \<open>bufsiz\<close> bytes takes
  all but the last place, or \<open>errno\<close>. An interrupted read is repeated; when nothing follows, the
  result is \<open>EIO\<close>, as for an empty one.
\<close>

datatype rd = RdData string | RdErr int

fun slurp :: "nat \<Rightarrow> rd list \<Rightarrow> int + string" where
  "slurp bufsiz [] = Inl EIO"
| "slurp bufsiz (RdErr e # rs) = (if e = EINTR \<or> e = EAGAIN then slurp bufsiz rs else Inl e)"
| "slurp bufsiz (RdData d # rs) = (if take (bufsiz - 1) d = [] then Inl EIO else Inr (take (bufsiz - 1) d))"

record read_env =
  re_open :: "int option"     \<comment> \<open>\<open>errno\<close> if \<open>open\<close> fails\<close>
  re_lseek :: "int option"
  re_reads :: "rd list"

text \<open>The descriptors and the heap blocks in use.\<close>

record world =
  w_fds :: int
  w_blocks :: int

text \<open>The heap blocks behind a support.\<close>

definition support_blocks :: "ext_support \<Rightarrow> int" where
  "support_blocks es = (if es_items es = None then 0 else 1) + int (length (es_extents es))"

subsection \<open>The array of stacks a \<open>reap\<close> returns\<close>

definition STACKS_INCR :: nat where
  "STACKS_INCR = 64"

lemma STACKS_INCR_pos: "0 < STACKS_INCR"
  by (simp add: STACKS_INCR_def)

text \<open>
  The \<open>anchor\<close> array (\<open>None\<close>: a null pointer) with an entry for each stack (\<open>None\<close>: a null or
  uninitialised pointer), and what the caller is given. The stacks pointed to are kept here; of
  the extents only their support is threaded.
\<close>

record fetch_support =
  fs_anchor :: "stack option list option"
  fs_n_alloc :: nat
  fs_n_saved :: nat
  fs_result :: "stack list option"

definition no_ext :: ext_support where
  "no_ext = \<lparr>es_num = 0, es_items = None, es_extents = []\<rparr>"

definition no_fetch :: fetch_support where
  "no_fetch = \<lparr>fs_anchor = None, fs_n_alloc = 0, fs_n_saved = 0, fs_result = None\<rparr>"

record fetch_env =
  fe_anchor_ok :: bool             \<comment> \<open>the first \<open>calloc\<close> of the array\<close>
  fe_first_ok :: bool              \<comment> \<open>the first extent\<close>
  fe_grow_ok :: "nat \<Rightarrow> bool"      \<comment> \<open>growing the array at this stack\<close>
  fe_more_ok :: "nat \<Rightarrow> bool"      \<comment> \<open>the extent for it\<close>
  fe_save_ok :: bool               \<comment> \<open>the array for the caller\<close>

datatype fetch_outcome = Fetched nat ext_support fetch_support | FetchFailed ext_support fetch_support | FetchUndef

text \<open>The first lines: an array and an extent that fills it.\<close>

definition fetch_init :: "nat \<Rightarrow> fetch_env \<Rightarrow> ext_support \<Rightarrow> fetch_support \<Rightarrow> fetch_outcome" where
  "fetch_init incr e es fs =
     (if fs_anchor fs = None \<and> \<not> fe_anchor_ok e then FetchFailed es fs
      else
        let fs1 = (if fs_anchor fs = None
                   then fs\<lparr>fs_anchor := Some (replicate incr None), fs_n_alloc := incr\<rparr> else fs)
        in if es_extents es \<noteq> [] then Fetched 0 es fs1
           else case stacks_alloc (fe_first_ok e) (fs_n_alloc fs1) es of
                  None \<Rightarrow> FetchFailed es fs1
                | Some es1 \<Rightarrow> Fetched 0 es1 (fs1\<lparr>fs_anchor := Some (map Some (hd (es_extents es1)))\<rparr>))"

text \<open>Growing both by the increment; the new pointers are those of the new extent.\<close>

definition fetch_grow :: "nat \<Rightarrow> fetch_env \<Rightarrow> nat \<Rightarrow> ext_support \<Rightarrow> fetch_support \<Rightarrow> fetch_outcome" where
  "fetch_grow incr e i es fs =
     (let fs1 = fs\<lparr>fs_n_alloc := fs_n_alloc fs + incr\<rparr>
      in if \<not> fe_grow_ok e i then FetchFailed es (fs1\<lparr>fs_anchor := None\<rparr>)
         else
           let old = the (fs_anchor fs)
           in case stacks_alloc (fe_more_ok e i) incr es of
                None \<Rightarrow> FetchFailed es (fs1\<lparr>fs_anchor := Some (old @ replicate incr None)\<rparr>)
              | Some es1 \<Rightarrow> Fetched i es1 (fs1\<lparr>fs_anchor := Some (take i old @ map Some (hd (es_extents es1)))\<rparr>))"

text \<open>One stack for each source, from the \<open>i\<close>-th entry on.\<close>

fun fetch_loop ::
  "nat \<Rightarrow> 'src row list \<Rightarrow> fetch_env \<Rightarrow> nat \<Rightarrow> 'src list \<Rightarrow> ext_support \<Rightarrow> fetch_support \<Rightarrow> fetch_outcome" where
  "fetch_loop incr rows e i [] es fs = Fetched i es fs"
| "fetch_loop incr rows e i (src # srcs) es fs =
     (case (if i < fs_n_alloc fs then Fetched i es fs else fetch_grow incr e i es fs) of
        Fetched _ es1 fs1 \<Rightarrow>
          (case fs_anchor fs1 of
             None \<Rightarrow> FetchUndef
           | Some a \<Rightarrow>
               if length a \<le> i then FetchUndef
               else case a ! i of
                      None \<Rightarrow> FetchUndef
                    | Some s \<Rightarrow>
                        (case assign_results rows src s of
                           None \<Rightarrow> FetchUndef
                         | Some s' \<Rightarrow> fetch_loop incr rows e (i + 1) srcs es1 (fs1\<lparr>fs_anchor := Some (a[i := Some s'])\<rparr>)))
      | bad \<Rightarrow> bad)"

definition stacks_fetch ::
  "nat \<Rightarrow> 'src row list \<Rightarrow> fetch_env \<Rightarrow> 'src list \<Rightarrow> ext_support \<Rightarrow> fetch_support \<Rightarrow> fetch_outcome" where
  "stacks_fetch incr rows e srcs es fs =
     (case fetch_init incr e es fs of
        Fetched _ es1 fs1 \<Rightarrow>
          (case fetch_loop incr rows e 0 srcs es1 fs1 of
             Fetched i es2 fs2 \<Rightarrow>
               let fs3 = (if fs_n_saved fs2 < i + 1 then fs2\<lparr>fs_n_saved := i + 1\<rparr> else fs2)
               in if fs_n_saved fs2 < i + 1 \<and> \<not> fe_save_ok e then FetchFailed es2 (fs3\<lparr>fs_result := None\<rparr>)
                  else Fetched i es2 (fs3\<lparr>fs_result := Some (map the (take i (the (fs_anchor fs3))))\<rparr>)
           | bad \<Rightarrow> bad)
      | bad \<Rightarrow> bad)"

subsection \<open>Sorting\<close>

text \<open>
  The comparison functions, by the type they compare, and the order (1 or -1). The difference of
  two \<open>int\<close>s is an \<open>int\<close>, that of two \<open>long\<close>s is converted to one.
\<close>

definition compare_regs :: "int \<Rightarrow> 'a::linorder \<Rightarrow> 'a \<Rightarrow> int" where
  "compare_regs order a b =
     (if b < a then (if 0 < order then 1 else - 1) else if a < b then (if 0 < order then - 1 else 1) else 0)"

definition compare_ints :: "int \<Rightarrow> int \<Rightarrow> int \<Rightarrow> int" where
  "compare_ints order a b = cast_int (order * cast_int (a - b))"

definition compare_longs :: "int \<Rightarrow> int \<Rightarrow> int \<Rightarrow> int" where
  "compare_longs order a b = cast_int (order * (a - b))"

text \<open>
  The comparison of a table's row. An item is compared by the member its setter writes, so a value
  is of another kind only in a stack that was never filled. Strings are compared by a function of the C
  library, a parameter.
\<close>

datatype sort_kind = Q_noop | Q_s_ch | Q_s_int | Q_u_int | Q_ul_int | Q_ull_int | Q_sl_int | Q_real | Q_str

definition rd_s_int :: "rval \<Rightarrow> int" where
  "rd_s_int v = (case v of S_int i \<Rightarrow> i | _ \<Rightarrow> 0)"

definition rd_u_int :: "rval \<Rightarrow> 32 word" where
  "rd_u_int v = (case v of U_int w \<Rightarrow> w | _ \<Rightarrow> 0)"

definition rd_ul_int :: "rval \<Rightarrow> ulong" where
  "rd_ul_int v = (case v of Ul_int w \<Rightarrow> w | _ \<Rightarrow> 0)"

definition rd_ull_int :: "rval \<Rightarrow> ulong" where
  "rd_ull_int v = (case v of Ull_int w \<Rightarrow> w | _ \<Rightarrow> 0)"

definition rd_sl_int :: "rval \<Rightarrow> int" where
  "rd_sl_int v = (case v of Sl_int i \<Rightarrow> i | _ \<Rightarrow> 0)"

definition rd_s_ch :: "rval \<Rightarrow> int" where
  "rd_s_ch v = (case v of S_ch c \<Rightarrow> (if byte c < 128 then int (byte c) else int (byte c) - 256) | _ \<Rightarrow> 0)"

definition rd_str :: "rval \<Rightarrow> string" where
  "rd_str v = (case v of Str s \<Rightarrow> s | _ \<Rightarrow> [])"

definition rd_real :: "rval \<Rightarrow> rat" where
  "rd_real v = (case v of Real r \<Rightarrow> r | _ \<Rightarrow> 0)"

definition compare_kind :: "(string \<Rightarrow> string \<Rightarrow> int) \<Rightarrow> sort_kind \<Rightarrow> int \<Rightarrow> rval \<Rightarrow> rval \<Rightarrow> int" where
  "compare_kind strcmp q order a b =
     (case q of
        Q_noop \<Rightarrow> 0
      | Q_s_ch \<Rightarrow> order * (rd_s_ch a - rd_s_ch b)
      | Q_s_int \<Rightarrow> compare_ints order (rd_s_int a) (rd_s_int b)
      | Q_u_int \<Rightarrow> compare_regs order (rd_u_int a) (rd_u_int b)
      | Q_ul_int \<Rightarrow> compare_regs order (rd_ul_int a) (rd_ul_int b)
      | Q_ull_int \<Rightarrow> compare_regs order (rd_ull_int a) (rd_ull_int b)
      | Q_sl_int \<Rightarrow> compare_longs order (rd_sl_int a) (rd_sl_int b)
      | Q_real \<Rightarrow> compare_regs order (rd_real a) (rd_real b)
      | Q_str \<Rightarrow> cast_int (order * strcmp (rd_str a) (rd_str b)))"

text \<open>The C library's stable sort by a comparison function.\<close>

fun insert_by :: "('a \<Rightarrow> 'a \<Rightarrow> int) \<Rightarrow> 'a \<Rightarrow> 'a list \<Rightarrow> 'a list" where
  "insert_by cmp x [] = [x]"
| "insert_by cmp x (y # ys) = (if cmp x y \<le> 0 then x # y # ys else y # insert_by cmp x ys)"

definition qsort :: "('a \<Rightarrow> 'a \<Rightarrow> int) \<Rightarrow> 'a list \<Rightarrow> 'a list" where
  "qsort cmp xs = foldr (insert_by cmp) xs []"

text \<open>
  The position of the item in the first stack, \<open>None\<close> where the \<open>logical_end\<close> comes first (the
  outer \<open>None\<close>: neither is there).
\<close>

fun find_offset :: "nat \<Rightarrow> item \<Rightarrow> nat \<Rightarrow> stack \<Rightarrow> nat option option" where
  "find_offset logical_end it off [] = None"
| "find_offset logical_end it off (r # rs) =
     (if rc_item r = it then Some (Some off)
      else if logical_end \<le> rc_item r then Some None
      else find_offset logical_end it (off + 1) rs)"

definition cell_val :: "nat \<Rightarrow> stack \<Rightarrow> rval" where
  "cell_val off s = rc_val (s ! off)"

text \<open>
  The sort: the stacks sorted, or a null pointer; the outer \<open>None\<close> when it reads outside a stack.
  The comparison is found by the item.
\<close>

definition sort_stacks ::
  "nat \<Rightarrow> (item \<Rightarrow> int \<Rightarrow> rval \<Rightarrow> rval \<Rightarrow> int) \<Rightarrow> stack list \<Rightarrow> item \<Rightarrow> int \<Rightarrow> stack list option option" where
  "sort_stacks logical_end sortfunc stacks sortitem order =
     (if logical_end \<le> sortitem then Some None
      else if order \<noteq> 1 \<and> order \<noteq> - 1 then Some None
      else if length stacks < 2 then Some (Some stacks)
      else case find_offset logical_end sortitem 0 (stacks ! 0) of
             None \<Rightarrow> None
           | Some None \<Rightarrow> Some None
           | Some (Some off) \<Rightarrow>
               Some (Some (qsort (\<lambda>a b. sortfunc sortitem order (cell_val off a) (cell_val off b)) stacks)))"

subsection \<open>The contract of an item table\<close>

text \<open>
  A result belongs to its item: the setter of every row with a type writes the member the row
  announces, the first row leaves the result alone.
\<close>

locale item_table =
  fixes rows :: "'src row list"
  assumes typed: "(nm, f, ty) \<in> set rows \<Longrightarrow> ty \<noteq> [] \<Longrightarrow> rtype (f src v) = ty"
    and noop_first: "\<exists>nm ty rest. rows = (nm, set_noop, ty) # rest"
begin

lemma setsfunc_type:
  assumes "i < length rows" "type2str rows i \<noteq> []"
  shows "rtype (setsfunc rows i src v) = type2str rows i"
proof -
  obtain nm f ty where r: "rows ! i = (nm, f, ty)" by (cases "rows ! i")
  then have "(nm, f, ty) \<in> set rows" using assms(1) by (metis nth_mem)
  then show ?thesis using typed assms(2) r by (simp add: setsfunc_def type2str_def)
qed

lemma setsfunc_noop: "setsfunc rows 0 src v = v"
  using noop_first by (auto simp: setsfunc_def set_noop_def)

end

subsection \<open>Lemmas: stacks\<close>

text \<open>A stack for these items, and one whose results are those of the source.\<close>

definition shaped :: "'src row list \<Rightarrow> item list \<Rightarrow> stack \<Rightarrow> bool" where
  "shaped rows its s \<longleftrightarrow> map rc_item s = its @ [length rows]"

definition filled :: "'src row list \<Rightarrow> item list \<Rightarrow> 'src \<Rightarrow> stack \<Rightarrow> bool" where
  "filled rows its src s \<longleftrightarrow>
     shaped rows its s \<and> list_all2 (\<lambda>i r. \<exists>v. rc_val r = setsfunc rows i src v) its (butlast s)"

definition valid_items :: "'src row list \<Rightarrow> item list \<Rightarrow> bool" where
  "valid_items rows its \<longleftrightarrow> its \<noteq> [] \<and> list_all (\<lambda>i. i < length rows) its"

lemma filled_shaped: "filled rows its src s \<Longrightarrow> shaped rows its s"
  by (simp add: filled_def)

lemma assign_filled:
  assumes "shaped rows its s" "list_all (\<lambda>i. i < length rows) its"
  shows "\<exists>s'. assign_results rows src s = Some s' \<and> filled rows its src s'"
  using assms
proof (induction its arbitrary: s)
  case Nil
  then obtain r where "s = [r]" "rc_item r = length rows" by (auto simp: shaped_def)
  then show ?case by (auto simp: filled_def shaped_def)
next
  case (Cons i its)
  then obtain r s0 where s: "s = r # s0" "rc_item r = i" "shaped rows its s0"
    by (auto simp: shaped_def Cons_eq_map_conv)
  from Cons.IH [OF s(3)] Cons.prems(2) obtain s' where
    s': "assign_results rows src s0 = Some s'" "filled rows its src s'" by auto
  then have "s' \<noteq> []" by (auto simp: filled_def shaped_def)
  with s s' Cons.prems(2) show ?case by (auto simp: filled_def shaped_def)
qed

lemma itemize_shaped: "shaped rows its (itemize_stack (length its + 1) (its @ [length rows]))"
  by (simp add: shaped_def itemize_stack_def comp_def)

text \<open>What the caller reads in a stack at the position of an item.\<close>

lemma filled_nth:
  assumes "filled rows its src s" "k < length its"
  shows "rc_item (s ! k) = its ! k" "\<exists>v. rc_val (s ! k) = setsfunc rows (its ! k) src v"
proof -
  have l: "map rc_item s = its @ [length rows]" using assms(1) by (simp add: filled_def shaped_def)
  then have len: "length s = Suc (length its)" by (metis length_append_singleton length_map)
  have "map rc_item s ! k = its ! k" using assms(2) by (simp add: l nth_append)
  then show "rc_item (s ! k) = its ! k" using assms(2) len by simp
  show "\<exists>v. rc_val (s ! k) = setsfunc rows (its ! k) src v"
    using assms len by (auto simp: filled_def list_all2_conv_all_nth nth_butlast)
qed

subsection \<open>Lemmas: configuration\<close>

definition configured :: "'src row list \<Rightarrow> item list \<Rightarrow> ext_support \<Rightarrow> bool" where
  "configured rows its es \<longleftrightarrow> es_items es = Some (its @ [length rows]) \<and> es_num es = length its + 1"

lemma items_check_valid:
  "\<not> items_check_failed (length rows) n items \<Longrightarrow> n \<le> int (length (snd items)) \<Longrightarrow>
     valid_items rows (take (nat n) (snd items)) \<and> length (take (nat n) (snd items)) = nat n"
  by (auto simp: items_check_failed_def valid_items_def list_ex_iff list_all_iff)

text \<open>
  With memory at hand the support is configured with the items asked for, and keeps its extents
  exactly when it was so already.
\<close>

lemma reconfig_configured:
  assumes "\<not> items_check_failed (length rows) n items" "n \<le> int (length (snd items))"
    and "es_num es = 0 \<or> configured rows old es"
  shows "\<exists>rc es'. reconfig_maybe (length rows) True items n es = Some (rc, es') \<and> 0 \<le> rc
    \<and> configured rows (take (nat n) (snd items)) es'
    \<and> (rc = 0 \<longrightarrow> es' = es) \<and> (rc \<noteq> 0 \<longrightarrow> es_extents es' = [])"
proof -
  let ?new = "take (nat n) (snd items)"
  have len: "length ?new = nat n" using items_check_valid [OF assms(1,2)] by simp
  show ?thesis
  proof (cases "es_num es = nat n + 1")
    case True
    then have old: "configured rows old es" "length old = nat n"
      using assms(3) by (auto simp: configured_def)
    show ?thesis
      using assms(1) True old len
      by (cases "take (nat n) (old @ [length rows]) = ?new")
        (auto simp: reconfig_maybe_def configured_def Let_def extents_free_all_def)
  next
    case False
    then show ?thesis
      using assms(1) len by (auto simp: reconfig_maybe_def configured_def Let_def extents_free_all_def)
  qed
qed

subsection \<open>Lemmas: the array of stacks\<close>

definition all_ok :: "fetch_env \<Rightarrow> bool" where
  "all_ok e \<longleftrightarrow> fe_anchor_ok e \<and> fe_first_ok e \<and> fe_grow_ok e = (\<lambda>_. True) \<and> fe_more_ok e = (\<lambda>_. True) \<and> fe_save_ok e"

text \<open>The array agrees with the extents: every entry is a stack for the items configured.\<close>

definition anchored :: "'src row list \<Rightarrow> item list \<Rightarrow> ext_support \<Rightarrow> fetch_support \<Rightarrow> bool" where
  "anchored rows its es fs \<longleftrightarrow> configured rows its es \<and> es_extents es \<noteq> [] \<and> 0 < fs_n_alloc fs \<and>
     (\<exists>a. fs_anchor fs = Some a \<and> length a = fs_n_alloc fs \<and> list_all (\<lambda>x. \<exists>s. x = Some s \<and> shaped rows its s) a)"

text \<open>What holds between calls: before the first one, and after the extents were freed, too.\<close>

definition fetch_ready :: "'src row list \<Rightarrow> item list \<Rightarrow> ext_support \<Rightarrow> fetch_support \<Rightarrow> bool" where
  "fetch_ready rows its es fs \<longleftrightarrow> configured rows its es \<and>
     (if es_extents es = [] then fs_anchor fs = None \<or> 0 < fs_n_alloc fs else anchored rows its es fs)"

lemma stacks_alloc_shaped:
  assumes "configured rows its es"
  obtains es' where "stacks_alloc True n es = Some es'" "configured rows its es'"
    "es_extents es' \<noteq> []" "length (hd (es_extents es')) = n" "list_all (shaped rows its) (hd (es_extents es'))"
  using assms that itemize_shaped [of rows its]
  by (auto simp: stacks_alloc_def configured_def list_all_iff)

lemma fetch_init_anchored:
  assumes "fetch_ready rows its es fs" "all_ok e" "0 < incr"
  obtains es' fs' where "fetch_init incr e es fs = Fetched 0 es' fs'" "anchored rows its es' fs'" "fs_n_saved fs' = fs_n_saved fs"
proof (cases "es_extents es = []")
  case True
  let ?fs = "if fs_anchor fs = None
             then fs\<lparr>fs_anchor := Some (replicate incr None), fs_n_alloc := incr\<rparr> else fs"
  have c: "configured rows its es" using assms(1) by (simp add: fetch_ready_def)
  obtain es' where es': "stacks_alloc True (fs_n_alloc ?fs) es = Some es'" "configured rows its es'"
    "es_extents es' \<noteq> []" "length (hd (es_extents es')) = fs_n_alloc ?fs" "list_all (shaped rows its) (hd (es_extents es'))"
    by (rule stacks_alloc_shaped [OF c])
  have "fetch_init incr e es fs = Fetched 0 es' (?fs\<lparr>fs_anchor := Some (map Some (hd (es_extents es')))\<rparr>)"
    using True assms(2) es'(1) by (simp add: fetch_init_def all_ok_def Let_def)
  moreover have "anchored rows its es' (?fs\<lparr>fs_anchor := Some (map Some (hd (es_extents es')))\<rparr>)"
    using es' True assms(1,3) by (auto simp: anchored_def fetch_ready_def list_all_iff)
  ultimately show thesis using that by simp
next
  case False
  then have a: "anchored rows its es fs" using assms(1) by (simp add: fetch_ready_def)
  then have "fetch_init incr e es fs = Fetched 0 es fs"
    using False by (auto simp: fetch_init_def anchored_def Let_def)
  then show thesis using that a by simp
qed

lemma fetch_grow_anchored:
  assumes "anchored rows its es fs" "all_ok e" "i = fs_n_alloc fs" "0 < incr"
  obtains es' fs' a b where "fetch_grow incr e i es fs = Fetched i es' fs'" "anchored rows its es' fs'"
    "fs_anchor fs = Some a" "fs_anchor fs' = Some (a @ b)" "i < fs_n_alloc fs'" "fs_n_saved fs' = fs_n_saved fs"
proof -
  obtain a where a: "fs_anchor fs = Some a" "length a = fs_n_alloc fs"
      "list_all (\<lambda>x. \<exists>s. x = Some s \<and> shaped rows its s) a"
    using assms(1) by (auto simp: anchored_def)
  have c: "configured rows its es" using assms(1) by (simp add: anchored_def)
  obtain es' where es': "stacks_alloc True incr es = Some es'" "configured rows its es'"
    "es_extents es' \<noteq> []" "length (hd (es_extents es')) = incr" "list_all (shaped rows its) (hd (es_extents es'))"
    by (rule stacks_alloc_shaped [OF c])
  let ?fs' = "fs\<lparr>fs_n_alloc := fs_n_alloc fs + incr, fs_anchor := Some (a @ map Some (hd (es_extents es')))\<rparr>"
  have "fetch_grow incr e i es fs = Fetched i es' ?fs'"
    using assms(2,3) a(1,2) es'(1) by (simp add: fetch_grow_def all_ok_def Let_def)
  moreover have "anchored rows its es' ?fs'"
    using assms(4) a es' by (auto simp: anchored_def list_all_iff)
  ultimately show thesis
    using that [of es' ?fs' a "map Some (hd (es_extents es'))"] a(1) assms(3,4) by simp
qed

lemma fetch_step_ready:
  assumes "anchored rows its es fs" "all_ok e" "i \<le> fs_n_alloc fs" "0 < incr"
  obtains es1 fs1 a a1 s where
    "(if i < fs_n_alloc fs then Fetched i es fs else fetch_grow incr e i es fs) = Fetched i es1 fs1"
    "anchored rows its es1 fs1" "fs_anchor fs = Some a" "fs_anchor fs1 = Some a1" "i < length a1"
    "take i a1 = take i a" "a1 ! i = Some s" "shaped rows its s" "fs_n_saved fs1 = fs_n_saved fs"
proof -
  obtain es1 fs1 a b where
    1: "(if i < fs_n_alloc fs then Fetched i es fs else fetch_grow incr e i es fs) = Fetched i es1 fs1"
      "anchored rows its es1 fs1" "fs_anchor fs = Some a" "fs_anchor fs1 = Some (a @ b)" "i < fs_n_alloc fs1"
      "fs_n_saved fs1 = fs_n_saved fs"
  proof (cases "i < fs_n_alloc fs")
    case True
    then show thesis using assms(1) that [of es fs _ "[]"] by (auto simp: anchored_def)
  next
    case False
    then have i: "i = fs_n_alloc fs" using assms(3) by simp
    show thesis
      by (rule fetch_grow_anchored [OF assms(1,2) i assms(4)]) (use that False in auto)
  qed
  have len: "length (a @ b) = fs_n_alloc fs1" "length a = fs_n_alloc fs"
    "list_all (\<lambda>x. \<exists>s. x = Some s \<and> shaped rows its s) (a @ b)"
    using 1(2,3,4) assms(1) by (auto simp: anchored_def)
  then have lt: "i < length (a @ b)" using 1(5) by simp
  then obtain s where "(a @ b) ! i = Some s" "shaped rows its s"
    using len(3) unfolding list_all_length by blast
  then show thesis using that 1 lt len(2) assms(3) by simp
qed

lemma anchored_update:
  "anchored rows its es fs \<Longrightarrow> fs_anchor fs = Some a \<Longrightarrow> shaped rows its s \<Longrightarrow>
     anchored rows its es (fs\<lparr>fs_anchor := Some (a[i := Some s])\<rparr>)"
  by (auto simp: anchored_def list_all_iff dest!: set_update_subset_insert [THEN subsetD])

lemma fetch_loop_filled:
  assumes "all_ok e" "list_all (\<lambda>i. i < length rows) its" "0 < incr"
  shows "anchored rows its es fs \<Longrightarrow> i \<le> fs_n_alloc fs \<Longrightarrow>
    \<exists>es' fs' a a'. fetch_loop incr rows e i srcs es fs = Fetched (i + length srcs) es' fs' \<and> anchored rows its es' fs'
      \<and> fs_n_saved fs' = fs_n_saved fs \<and> fs_anchor fs = Some a \<and> fs_anchor fs' = Some a'
      \<and> i + length srcs \<le> length a' \<and> take i a' = take i a
      \<and> list_all2 (\<lambda>src x. \<exists>s. x = Some s \<and> filled rows its src s) srcs (take (length srcs) (drop i a'))"
proof (induction srcs arbitrary: i es fs)
  case Nil
  then show ?case by (auto simp: anchored_def)
next
  case (Cons src srcs)
  obtain es1 fs1 a a1 s where
    1: "(if i < fs_n_alloc fs then Fetched i es fs else fetch_grow incr e i es fs) = Fetched i es1 fs1"
      "anchored rows its es1 fs1" "fs_anchor fs = Some a" "fs_anchor fs1 = Some a1" "i < length a1"
      "take i a1 = take i a" "a1 ! i = Some s" "shaped rows its s" "fs_n_saved fs1 = fs_n_saved fs"
    by (rule fetch_step_ready [OF Cons.prems(1) assms(1) Cons.prems(2) assms(3)])
  obtain s' where s': "assign_results rows src s = Some s'" "filled rows its src s'"
    using assign_filled [OF 1(8) assms(2)] by blast
  let ?fs2 = "fs1\<lparr>fs_anchor := Some (a1[i := Some s'])\<rparr>"
  have 2: "anchored rows its es1 ?fs2" by (rule anchored_update [OF 1(2,4) filled_shaped [OF s'(2)]])
  have n: "length a1 = fs_n_alloc fs1" using 1(2,4) by (auto simp: anchored_def)
  have run: "fetch_loop incr rows e i (src # srcs) es fs = fetch_loop incr rows e (i + 1) srcs es1 ?fs2"
    using 1(1,4,5,7) s'(1) by simp
  from Cons.IH [OF 2, of "i + 1"] n 1(5) obtain es' fs' a' where
    ih: "fetch_loop incr rows e (i + 1) srcs es1 ?fs2 = Fetched (i + 1 + length srcs) es' fs'" "anchored rows its es' fs'"
      "fs_n_saved fs' = fs_n_saved fs1" "fs_anchor fs' = Some a'" "i + 1 + length srcs \<le> length a'"
      "take (i + 1) a' = take (i + 1) (a1[i := Some s'])"
      "list_all2 (\<lambda>src x. \<exists>s. x = Some s \<and> filled rows its src s) srcs (take (length srcs) (drop (i + 1) a'))"
    by auto
  have at: "a' ! i = Some s'"
  proof -
    have "a' ! i = take (i + 1) a' ! i" using ih(5) by simp
    also have "\<dots> = Some s'" using ih(6) 1(5) by simp
    finally show ?thesis .
  qed
  have "take i a' = take i (take (i + 1) a')" by simp
  also have "\<dots> = take i a" using ih(6) 1(6) by simp
  finally have front: "take i a' = take i a" .
  have "take (length (src # srcs)) (drop i a') = a' ! i # take (length srcs) (drop (i + 1) a')"
    using ih(5) by (simp add: Cons_nth_drop_Suc [symmetric])
  then show ?case
    using run ih 1(3,9) at front s'(2) by auto
qed

text \<open>
  A fetch returns one stack for each source, in order, however many there are, and leaves everything
  ready for the next call.
\<close>

lemma stacks_fetch_filled:
  assumes "fetch_ready rows its es fs" "all_ok e" "list_all (\<lambda>i. i < length rows) its" "0 < incr"
  shows "\<exists>es' fs' ss. stacks_fetch incr rows e srcs es fs = Fetched (length srcs) es' fs' \<and> fs_result fs' = Some ss
    \<and> list_all2 (filled rows its) srcs ss \<and> fetch_ready rows its es' fs'"
proof -
  obtain es1 fs1 where 1: "fetch_init incr e es fs = Fetched 0 es1 fs1" "anchored rows its es1 fs1"
    using fetch_init_anchored [OF assms(1,2,4)] by metis
  from fetch_loop_filled [OF assms(2-4) 1(2), of 0 srcs] obtain es' fs' a where
    2: "fetch_loop incr rows e 0 srcs es1 fs1 = Fetched (length srcs) es' fs'" "anchored rows its es' fs'"
      "fs_anchor fs' = Some a"
      "list_all2 (\<lambda>src x. \<exists>s. x = Some s \<and> filled rows its src s) srcs (take (length srcs) a)"
    by auto
  let ?ss = "map the (take (length srcs) a)"
  let ?fs = "(if fs_n_saved fs' < length srcs + 1 then fs'\<lparr>fs_n_saved := length srcs + 1\<rparr> else fs')
      \<lparr>fs_result := Some ?ss\<rparr>"
  have "stacks_fetch incr rows e srcs es fs = Fetched (length srcs) es' ?fs"
    using 1(1) 2(1,3) assms(2) by (simp add: stacks_fetch_def all_ok_def Let_def)
  moreover have "list_all2 (filled rows its) srcs ?ss"
    using 2(4) by (auto simp: list_all2_map2 elim!: list_all2_mono)
  moreover have "fetch_ready rows its es' ?fs"
    using 2(2) by (auto simp: fetch_ready_def anchored_def)
  ultimately show ?thesis by (intro exI [of _ es'] exI [of _ ?fs] exI [of _ ?ss]) simp
qed

text \<open>What holds before every call of \<open>reap\<close>, the first included.\<close>

definition reap_ready :: "'src row list \<Rightarrow> ext_support \<Rightarrow> fetch_support \<Rightarrow> bool" where
  "reap_ready rows es fs \<longleftrightarrow>
     (es_num es = 0 \<and> es_extents es = [] \<and> (fs_anchor fs = None \<or> 0 < fs_n_alloc fs)) \<or> (\<exists>its. fetch_ready rows its es fs)"

lemma reap_ready_start: "reap_ready rows no_ext no_fetch"
  by (simp add: reap_ready_def no_ext_def no_fetch_def)

lemma fetch_ready_alloc: "fetch_ready rows its es fs \<Longrightarrow> fs_anchor fs = None \<or> 0 < fs_n_alloc fs"
  by (auto simp: fetch_ready_def anchored_def split: if_splits)

lemma reap_reconfig:
  assumes "reap_ready rows es fs" "\<not> items_check_failed (length rows) n items" "n \<le> int (length (snd items))"
  obtains rc es' where "reconfig_maybe (length rows) True items n es = Some (rc, es')" "0 \<le> rc"
    "fetch_ready rows (take (nat n) (snd items)) es' fs"
proof -
  consider "es_num es = 0" "es_extents es = []" "fs_anchor fs = None \<or> 0 < fs_n_alloc fs"
    | old where "fetch_ready rows old es fs"
    using assms(1) by (auto simp: reap_ready_def)
  then show thesis
  proof cases
    case 1
    from reconfig_configured [OF assms(2,3), of es] 1(1) obtain rc es' where
      r: "reconfig_maybe (length rows) True items n es = Some (rc, es')" "0 \<le> rc"
        "configured rows (take (nat n) (snd items)) es'" "rc = 0 \<longrightarrow> es' = es" "rc \<noteq> 0 \<longrightarrow> es_extents es' = []"
      by auto
    then have "es_extents es' = []" using 1(2) by (cases "rc = 0") auto
    then show thesis using that r 1(3) by (auto simp: fetch_ready_def)
  next
    case (2 old)
    then have "configured rows old es" by (simp add: fetch_ready_def)
    with reconfig_configured [OF assms(2,3), of es old] obtain rc es' where
      r: "reconfig_maybe (length rows) True items n es = Some (rc, es')" "0 \<le> rc"
        "configured rows (take (nat n) (snd items)) es'" "rc = 0 \<longrightarrow> es' = es" "rc \<noteq> 0 \<longrightarrow> es_extents es' = []"
      by auto
    show thesis
    proof (cases "rc = 0")
      case True
      then have "old = take (nat n) (snd items)"
        using r(3,4) \<open>configured rows old es\<close> by (auto simp: configured_def)
      then show thesis using that r True 2 by auto
    next
      case False
      then show thesis using that r fetch_ready_alloc [OF 2] by (auto simp: fetch_ready_def)
    qed
  qed
qed

subsection \<open>Lemmas: sorting\<close>

lemma insert_by_sorted:
  assumes "\<And>x y z. cmp x y \<le> 0 \<Longrightarrow> cmp y z \<le> 0 \<Longrightarrow> cmp x z \<le> 0" "\<And>x y. \<not> cmp x y \<le> 0 \<Longrightarrow> cmp y x \<le> 0"
    "sorted_wrt (\<lambda>x y. cmp x y \<le> 0) ys"
  shows "sorted_wrt (\<lambda>x y. cmp x y \<le> 0) (insert_by cmp x ys)"
proof -
  have elems: "set (insert_by cmp x ys) = insert x (set ys)" for x ys by (induction ys) auto
  show ?thesis using assms(3)
  proof (induction ys)
    case (Cons y ys)
    show ?case
    proof (cases "cmp x y \<le> 0")
      case True
      then have "cmp x z \<le> 0" if "z \<in> set ys" for z
        using Cons.prems that assms(1) [of x y z] by simp
      then show ?thesis using True Cons.prems by simp
    next
      case False
      then show ?thesis using Cons assms(2) [of x y] by (simp add: elems)
    qed
  qed simp
qed

lemma mset_insert_by [simp]: "mset (insert_by cmp x ys) = add_mset x (mset ys)"
  by (induction ys) auto

lemma qsort_perm: "mset (qsort cmp xs) = mset xs"
  by (induction xs) (auto simp: qsort_def)

lemma qsort_sorted:
  assumes "\<And>x y z. cmp x y \<le> 0 \<Longrightarrow> cmp y z \<le> 0 \<Longrightarrow> cmp x z \<le> 0" "\<And>x y. \<not> cmp x y \<le> 0 \<Longrightarrow> cmp y x \<le> 0"
  shows "sorted_wrt (\<lambda>x y. cmp x y \<le> 0) (qsort cmp xs)"
proof (induction xs)
  case (Cons x xs)
  have "sorted_wrt (\<lambda>x y. cmp x y \<le> 0) (insert_by cmp x (qsort cmp xs))"
    by (rule insert_by_sorted) (fact assms Cons.IH)+
  then show ?case by (simp add: qsort_def)
qed (simp add: qsort_def)

text \<open>The order of two unsigned numbers that a comparison with this order gives.\<close>

lemma compare_regs_le:
  "compare_regs 1 a b \<le> 0 \<longleftrightarrow> a \<le> b" "compare_regs (- 1) a b \<le> 0 \<longleftrightarrow> b \<le> a"
  by (auto simp: compare_regs_def)

text \<open>A comparison that orders by a key.\<close>

lemma qsort_sorted_key:
  fixes key :: "'a \<Rightarrow> 'b::linorder"
  assumes "\<And>x y. cmp x y \<le> 0 \<longleftrightarrow> (if order = 1 then key x \<le> key y else key y \<le> key x)"
  shows "sorted_wrt (\<lambda>x y. if order = 1 then key x \<le> key y else key y \<le> key x) (qsort cmp xs)"
proof -
  have "sorted_wrt (\<lambda>x y. cmp x y \<le> 0) (qsort cmp xs)"
    by (rule qsort_sorted) (auto simp: assms split: if_splits)
  then show ?thesis by (simp add: assms)
qed

lemma find_offset_shaped:
  assumes "map rc_item s = its @ [logical_end]" "it \<in> set its" "list_all (\<lambda>i. i < logical_end) its"
  shows "\<exists>k. find_offset logical_end it off s = Some (Some (off + k)) \<and> k < length its \<and> its ! k = it"
  using assms
proof (induction its arbitrary: s off)
  case (Cons i its)
  then obtain r s0 where s: "s = r # s0" "rc_item r = i" "map rc_item s0 = its @ [logical_end]"
    by (auto simp: Cons_eq_map_conv)
  show ?case
  proof (cases "i = it")
    case True
    then show ?thesis using s by (intro exI [of _ 0]) simp
  next
    case False
    then have "it \<in> set its" "list_all (\<lambda>i. i < logical_end) its" using Cons.prems by auto
    from Cons.IH [OF s(3) this, of "off + 1"] obtain k where
      "find_offset logical_end it (off + 1) s0 = Some (Some (off + 1 + k))" "k < length its" "its ! k = it" by blast
    then show ?thesis using False s Cons.prems(3) by (intro exI [of _ "Suc k"]) simp
  qed
qed simp

text \<open>Sorting stacks of the same items by one of them.\<close>

lemma sort_stacks_sorted:
  fixes key :: "rval \<Rightarrow> 'b::linorder"
  assumes "ss \<noteq> []" "map rc_item (hd ss) = its @ [logical_end]" "list_all (\<lambda>i. i < logical_end) its"
    and "it \<in> set its" "order = 1 \<or> order = - 1"
    and "\<And>a b. sortfunc it order a b \<le> 0 \<longleftrightarrow> (if order = 1 then key a \<le> key b else key b \<le> key a)"
  shows "\<exists>k ss'. sort_stacks logical_end sortfunc ss it order = Some (Some ss') \<and> mset ss' = mset ss
    \<and> k < length its \<and> its ! k = it
    \<and> sorted_wrt (\<lambda>a b. if order = 1 then key (cell_val k a) \<le> key (cell_val k b) else key (cell_val k b) \<le> key (cell_val k a)) ss'"
proof -
  have s0: "ss ! 0 = hd ss" using assms(1) by (simp add: hd_conv_nth)
  have it: "it < logical_end" using assms(3,4) by (auto simp: list_all_iff)
  obtain k where k: "find_offset logical_end it 0 (ss ! 0) = Some (Some k)" "k < length its" "its ! k = it"
    using find_offset_shaped [OF assms(2,4,3), of 0] s0 by auto
  show ?thesis
  proof (cases "length ss < 2")
    case True
    then obtain s where "ss = [s]" using assms(1) by (cases ss; cases "tl ss") auto
    then show ?thesis using it assms(5) k by (intro exI [of _ k] exI [of _ ss]) (auto simp: sort_stacks_def)
  next
    case False
    let ?cmp = "\<lambda>a b. sortfunc it order (cell_val k a) (cell_val k b)"
    have "sort_stacks logical_end sortfunc ss it order = Some (Some (qsort ?cmp ss))"
      using False it assms(5) k(1) by (auto simp: sort_stacks_def)
    moreover have "sorted_wrt (\<lambda>a b. if order = 1 then key (cell_val k a) \<le> key (cell_val k b)
        else key (cell_val k b) \<le> key (cell_val k a)) (qsort ?cmp ss)"
      by (rule qsort_sorted_key) (rule assms(6))
    ultimately show ?thesis using k qsort_perm [of ?cmp ss] by blast
  qed
qed

subsection \<open>The contract of a reference count\<close>

text \<open>
  \<open>ref\<close> and \<open>unref\<close> on a state that holds the structure or nothing any more; \<open>count\<close> is the number
  of references, 0 when the structure is gone, and \<open>inv\<close> says that a structure that is there has
  one. The return values are the new count, or \<open>-EINVAL\<close> (-22).
\<close>

locale refcounted =
  fixes ref :: "'s \<Rightarrow> int \<times> 's" and unref :: "'s \<Rightarrow> int \<times> 's" and count :: "'s \<Rightarrow> int" and inv :: "'s \<Rightarrow> bool"
  assumes count_pos: "inv s \<Longrightarrow> 0 \<le> count s"
    and ref_inv: "inv s \<Longrightarrow> inv (snd (ref s))"
    and unref_inv: "inv s \<Longrightarrow> inv (snd (unref s))"
    and ref_live: "inv s \<Longrightarrow> 0 < count s \<Longrightarrow> fst (ref s) = count s + 1 \<and> count (snd (ref s)) = count s + 1"
    and ref_gone: "inv s \<Longrightarrow> count s = 0 \<Longrightarrow> ref s = (- 22, s)"
    and unref_live: "inv s \<Longrightarrow> 0 < count s \<Longrightarrow> fst (unref s) = count s - 1 \<and> count (snd (unref s)) = count s - 1"
    and unref_gone: "inv s \<Longrightarrow> count s = 0 \<Longrightarrow> unref s = (- 22, s)"

text \<open>A run of \<open>ref\<close> (true) and \<open>unref\<close> (false).\<close>

fun ref_run :: "('s \<Rightarrow> int \<times> 's) \<Rightarrow> ('s \<Rightarrow> int \<times> 's) \<Rightarrow> bool list \<Rightarrow> 's \<Rightarrow> 's" where
  "ref_run ref unref [] s = s"
| "ref_run ref unref (b # bs) s = ref_run ref unref bs (snd (if b then ref s else unref s))"

text \<open>The references left after a run, by counting; they never come back from 0.\<close>

fun refs_left :: "bool list \<Rightarrow> int \<Rightarrow> int" where
  "refs_left [] n = n"
| "refs_left (b # bs) n = (if n = 0 then 0 else refs_left bs (if b then n + 1 else n - 1))"

context refcounted begin

lemma run_gone: "inv s \<Longrightarrow> count s = 0 \<Longrightarrow> ref_run ref unref bs s = s"
  by (induction bs) (simp_all add: ref_gone unref_gone)

lemma run_inv: "inv s \<Longrightarrow> inv (ref_run ref unref bs s)"
  by (induction bs arbitrary: s) (simp_all add: ref_inv unref_inv)

lemma run_count: "inv s \<Longrightarrow> count (ref_run ref unref bs s) = refs_left bs (count s)"
proof (induction bs arbitrary: s)
  case (Cons b bs)
  show ?case
  proof (cases "count s = 0")
    case True
    then show ?thesis using run_gone [OF Cons.prems, of "b # bs"] by simp
  next
    case False
    then have "0 < count s" using count_pos [OF Cons.prems] by simp
    then show ?thesis
      using Cons.prems Cons.IH [OF ref_inv [OF Cons.prems]] Cons.IH [OF unref_inv [OF Cons.prems]]
        ref_live [of s] unref_live [of s] by simp
  qed
qed simp

end

end
