(* ===== verification/Select.thy ===== *)
theory Select
  imports Stacks
begin

text \<open>
  What \<^verbatim>\<open>meminfo.c\<close> and \<^verbatim>\<open>proc_vmstat.c\<close> under \<^verbatim>\<open>procps/linux\<close> have in common: one file
  of numbers, its numbers of now and of the read before, and the functions \<open>new\<close>, \<open>ref\<close>, \<open>unref\<close>,
  \<open>get\<close> and \<open>select\<close>. Each file has its own copy of them; its theory defines them as instances of those
  here for its \<open>file_kind\<close>: the size of its buffer, its zeroed numbers, how it reads the text, and
  its table of items.

  The second half shows what they promise of any file kind: a \<open>select\<close> returns a filled stack,
  references are counted, the heap is balanced when the structure is gone, and the descriptor of the
  file is not closed.
\<close>

record 'd file_hist =
  fh_new :: 'd
  fh_old :: 'd

record 'd file_kind =
  fk_bufsiz :: nat
  fk_zero :: 'd
  fk_parse :: "string \<Rightarrow> 'd"
  fk_rows :: "'d file_hist row list"

record 'd file_info =
  fi_refcount :: int
  fi_fd_open :: bool
  fi_hist :: "'d file_hist"
  fi_stacks :: ext_support
  fi_get_this :: result_cell
  fi_sav_secs :: int

text \<open>\<open>None\<close>, or \<open>errno\<close> when it failed.\<close>

definition file_read_failed :: "'d file_kind \<Rightarrow> read_env \<Rightarrow> 'd file_info \<Rightarrow> world \<Rightarrow> int option \<times> 'd file_info \<times> world" where
  "file_read_failed K e info w =
     (let info1 = info\<lparr>fi_hist := \<lparr>fh_new = fk_zero K, fh_old = fh_new (fi_hist info)\<rparr>\<rparr>
      in if \<not> fi_fd_open info \<and> re_open e \<noteq> None then (re_open e, info1, w)
         else
           let w2 = (if fi_fd_open info then w else w\<lparr>w_fds := w_fds w + 1\<rparr>);
               info2 = info1\<lparr>fi_fd_open := True\<rparr>
           in case re_lseek e of
                Some err \<Rightarrow> (Some err, info2, w2)
              | None \<Rightarrow>
                  (case slurp (fk_bufsiz K) (re_reads e) of
                     Inl err \<Rightarrow> (Some err, info2, w2)
                   | Inr buf \<Rightarrow> (None, info2\<lparr>fi_hist := (fi_hist info2)\<lparr>fh_new := fk_parse K buf\<rparr>\<rparr>, w2)))"

text \<open>
  The state of the caller's pointer with the world. \<open>None\<close> is a null pointer; the argument \<open>slot\<close>
  of \<open>new\<close> is \<open>None\<close> when the address passed is null.
\<close>

record new_env =
  ne_calloc_ok :: bool
  ne_hcreate :: "int option"   \<comment> \<open>\<open>errno\<close> if the hash table cannot be made\<close>
  ne_enter :: "int option"     \<comment> \<open>or a key cannot be entered\<close>
  ne_read :: read_env

definition fresh_file :: "'d file_kind \<Rightarrow> 'd file_info" where
  "fresh_file K =
     \<lparr>fi_refcount = 1, fi_fd_open = False, fi_hist = \<lparr>fh_new = fk_zero K, fh_old = fk_zero K\<rparr>,
      fi_stacks = no_ext,
      fi_get_this = \<lparr>rc_item = 0, rc_val = Zero\<rparr>, fi_sav_secs = 0\<rparr>"

definition file_ref :: "'d file_info option \<times> world \<Rightarrow> int \<times> 'd file_info option \<times> world" where
  "file_ref = (\<lambda>(p, w).
     case p of
       None \<Rightarrow> (- EINVAL, None, w)
     | Some info \<Rightarrow> (fi_refcount info + 1, Some (info\<lparr>fi_refcount := fi_refcount info + 1\<rparr>), w))"

definition file_unref :: "'d file_info option \<times> world \<Rightarrow> int \<times> 'd file_info option \<times> world" where
  "file_unref = (\<lambda>(p, w).
     case p of
       None \<Rightarrow> (- EINVAL, None, w)
     | Some info \<Rightarrow>
         let info1 = info\<lparr>fi_refcount := fi_refcount info - 1\<rparr>
         in if fi_refcount info1 < 1
            then (0, None, w\<lparr>w_blocks := w_blocks w - support_blocks (fi_stacks info1) - 2\<rparr>)
            else (fi_refcount info1, Some info1, w))"

definition file_new ::
  "'d file_kind \<Rightarrow> new_env \<Rightarrow> 'd file_info option option \<Rightarrow> world \<Rightarrow> int \<times> 'd file_info option option \<times> world" where
  "file_new K e slot w =
     (if slot \<noteq> Some None then (- EINVAL, slot, w)
      else if \<not> ne_calloc_ok e then (- ENOMEM, slot, w)
      else case ne_hcreate e of
             Some err \<Rightarrow> (- err, slot, w)
           | None \<Rightarrow>
               (case ne_enter e of
                  Some err \<Rightarrow> (- err, slot, w\<lparr>w_blocks := w_blocks w + 1\<rparr>)
                | None \<Rightarrow>
                    (case file_read_failed K (ne_read e) (fresh_file K) (w\<lparr>w_blocks := w_blocks w + 2\<rparr>) of
                       (Some err, p, w1) \<Rightarrow>
                         (case file_unref (Some p, w1) of (_, _, w2) \<Rightarrow> (- err, slot, w2))
                     | (None, p, w1) \<Rightarrow> (0, Some (Some p), w1))))"

text \<open>The result, or a null pointer.\<close>

definition file_get ::
  "'d file_kind \<Rightarrow> read_env \<Rightarrow> int \<Rightarrow> item \<Rightarrow> 'd file_info option \<times> world
   \<Rightarrow> result_cell option \<times> 'd file_info option \<times> world" where
  "file_get K e cur_secs it = (\<lambda>(p, w).
     case p of
       None \<Rightarrow> (None, None, w)
     | Some info \<Rightarrow>
         if length (fk_rows K) \<le> it then (None, Some info, w)
         else case (if 1 \<le> cur_secs - fi_sav_secs info
                    then (case file_read_failed K e info w of
                            (Some err, i, w') \<Rightarrow> (False, i, w')
                          | (None, i, w') \<Rightarrow> (True, i\<lparr>fi_sav_secs := cur_secs\<rparr>, w'))
                    else (True, info, w)) of
                (False, i, w') \<Rightarrow> (None, Some i, w')
              | (True, i, w') \<Rightarrow>
                  let r = \<lparr>rc_item = it, rc_val = setsfunc (fk_rows K) it (fi_hist i) (Ul_int 0)\<rparr>
                  in (Some r, Some (i\<lparr>fi_get_this := r\<rparr>), w'))"

text \<open>
  The stack, or a null pointer; \<open>None\<close> when a null pointer is read. \<open>items\<close> is \<open>None\<close> for a null
  pointer.
\<close>

record select_env =
  se_realloc_ok :: bool
  se_alloc_ok :: bool
  se_read :: read_env

definition file_select ::
  "'d file_kind \<Rightarrow> select_env \<Rightarrow> (nat \<times> item list) option \<Rightarrow> int \<Rightarrow> 'd file_info option \<times> world
   \<Rightarrow> (stack option \<times> 'd file_info option \<times> world) option" where
  "file_select K e items numitems = (\<lambda>(p, w).
     case (p, items) of
       (None, _) \<Rightarrow> Some (None, None, w)
     | (Some info, None) \<Rightarrow> Some (None, Some info, w)
     | (Some info, Some its) \<Rightarrow>
         (case reconfig_maybe (length (fk_rows K)) (se_realloc_ok e) its numitems (fi_stacks info) of
            None \<Rightarrow> None
          | Some (rc, es) \<Rightarrow>
              let info1 = info\<lparr>fi_stacks := es\<rparr>
              in if rc < 0 then Some (None, Some info1, w)
                 else
                   let w1 = w\<lparr>w_blocks := w_blocks w + support_blocks es - support_blocks (fi_stacks info)\<rparr>
                   in case (if es_extents es = [] then stacks_alloc (se_alloc_ok e) 1 es else Some es) of
                        None \<Rightarrow> Some (None, Some info1, w1)
                      | Some es2 \<Rightarrow>
                          let info2 = info1\<lparr>fi_stacks := es2\<rparr>;
                              w2 = w1\<lparr>w_blocks := w_blocks w1 + support_blocks es2 - support_blocks es\<rparr>
                          in case file_read_failed K (se_read e) info2 w2 of
                               (Some err, info3, w3) \<Rightarrow> Some (None, Some info3, w3)
                             | (None, info3, w3) \<Rightarrow>
                                 (case assign_results (fk_rows K) (fi_hist info3) (hd (es_extents es2) ! 0) of
                                    None \<Rightarrow> None
                                  | Some s \<Rightarrow>
                                      Some (Some s,
                                        Some (info3\<lparr>fi_stacks := es2\<lparr>es_extents := (hd (es_extents es2))[0 := s] # tl (es_extents es2)\<rparr>\<rparr>),
                                        w3))))"

subsection \<open>Select\<close>

text \<open>The environment of a read that succeeds at once.\<close>

definition reads_text :: "string \<Rightarrow> read_env \<Rightarrow> bool" where
  "reads_text txt e \<longleftrightarrow> re_open e = None \<and> re_lseek e = None \<and> re_reads e = [RdData txt]"

definition file_reads :: "'d file_kind \<Rightarrow> string \<Rightarrow> read_env \<Rightarrow> bool" where
  "file_reads K buf e \<longleftrightarrow> re_open e = None \<and> re_lseek e = None \<and> slurp (fk_bufsiz K) (re_reads e) = Inr buf"

definition hist_after :: "'d file_kind \<Rightarrow> string \<Rightarrow> 'd file_info \<Rightarrow> 'd file_hist" where
  "hist_after K buf info = \<lparr>fh_new = fk_parse K buf, fh_old = fh_new (fi_hist info)\<rparr>"

lemma file_readsD:
  "file_reads K buf e \<Longrightarrow> \<exists>w'. file_read_failed K e info w =
     (None, info\<lparr>fi_fd_open := True, fi_hist := hist_after K buf info\<rparr>, w')"
  by (simp add: file_read_failed_def file_reads_def hist_after_def Let_def)

text \<open>What holds of the stacks between two calls.\<close>

definition one_stack :: "'src row list \<Rightarrow> ext_support \<Rightarrow> bool" where
  "one_stack rows es \<longleftrightarrow>
     (es_num es = 0 \<and> es_extents es = []) \<or>
     (\<exists>its. configured rows its es
        \<and> (es_extents es = [] \<or> (\<exists>s. es_extents es = [[s]] \<and> shaped rows its s)))"

lemma stacks_one:
  assumes "configured rows its es" "es_extents es = [] \<or> (\<exists>s. es_extents es = [[s]] \<and> shaped rows its s)"
  obtains es2 s where
    "(if es_extents es = [] then stacks_alloc True 1 es else Some es) = Some es2"
    "configured rows its es2" "es_extents es2 = [[s]]" "shaped rows its s"
proof (cases "es_extents es = []")
  case True
  then show thesis
    using assms(1) that itemize_shaped [of rows its]
    by (auto simp: stacks_alloc_def stacks_alloc_def configured_def)
next
  case False
  then show thesis using assms that by auto
qed

lemma reconfig_one:
  assumes "one_stack rows es" "\<not> items_check_failed (length rows) n items" "n \<le> int (length (snd items))"
  obtains rc es' where "reconfig_maybe (length rows) True items n es = Some (rc, es')" "0 \<le> rc"
    "configured rows (take (nat n) (snd items)) es'"
    "es_extents es' = [] \<or> (\<exists>s. es_extents es' = [[s]] \<and> shaped rows (take (nat n) (snd items)) s)"
proof -
  consider "es_num es = 0" "es_extents es = []"
    | old where "configured rows old es"
        "es_extents es = [] \<or> (\<exists>s. es_extents es = [[s]] \<and> shaped rows old s)"
    using assms(1) by (auto simp: one_stack_def)
  then show thesis
  proof cases
    case 1
    from reconfig_configured [OF assms(2,3), of es] 1 that show thesis
      by fastforce
  next
    case (2 old)
    from reconfig_configured [OF assms(2,3), of es old] 2(1) obtain rc es' where
      r: "reconfig_maybe (length rows) True items n es = Some (rc, es')" "0 \<le> rc"
        "configured rows (take (nat n) (snd items)) es'"
        "rc = 0 \<longrightarrow> es' = es" "rc \<noteq> 0 \<longrightarrow> es_extents es' = []"
      by auto
    show thesis
    proof (cases "rc = 0")
      case True
      then have "old = take (nat n) (snd items)" using r(3,4) 2(1) by (auto simp: configured_def)
      then show thesis using that r 2 True by auto
    qed (use that r in auto)
  qed
qed

text \<open>
  With memory at hand and a readable file, a \<open>select\<close> returns a stack with the items asked for, in
  order, each set from the numbers just read, whatever was selected before.
\<close>

lemma file_select_fills:
  assumes "one_stack (fk_rows K) (fi_stacks info)"
    and "\<not> items_check_failed (length (fk_rows K)) n items" "n \<le> int (length (snd items))"
    and "se_realloc_ok e" "se_alloc_ok e" "file_reads K buf (se_read e)"
  shows "\<exists>s info' w'. file_select K e (Some items) n (Some info, w) = Some (Some s, Some info', w')
    \<and> fi_hist info' = hist_after K buf info
    \<and> filled (fk_rows K) (take (nat n) (snd items)) (fi_hist info') s
    \<and> one_stack (fk_rows K) (fi_stacks info')"
proof -
  let ?its = "take (nat n) (snd items)"
  obtain rc es' where r: "reconfig_maybe (length (fk_rows K)) True items n (fi_stacks info) = Some (rc, es')" "0 \<le> rc"
      "configured (fk_rows K) ?its es'"
      "es_extents es' = [] \<or> (\<exists>s. es_extents es' = [[s]] \<and> shaped (fk_rows K) ?its s)"
    using assms(1,2,3) reconfig_one by metis
  obtain es2 s where s: "(if es_extents es' = [] then stacks_alloc True 1 es' else Some es') = Some es2"
      "configured (fk_rows K) ?its es2" "es_extents es2 = [[s]]" "shaped (fk_rows K) ?its s"
    by (rule stacks_one [OF r(3,4)])
  have valid: "list_all (\<lambda>i. i < length (fk_rows K)) ?its"
    using items_check_valid [of "fk_rows K" n items] assms(2,3)
    by (simp add: valid_items_def)
  obtain s' where s': "assign_results (fk_rows K) (hist_after K buf info) s = Some s'"
      "filled (fk_rows K) ?its (hist_after K buf info) s'"
    using assign_filled [OF s(4) valid] by blast
  have fh: "hist_after K buf (info\<lparr>fi_stacks := x\<rparr>) = hist_after K buf info" for x by (simp add: hist_after_def)
  obtain W where W: "\<And>w. file_read_failed K (se_read e) (info\<lparr>fi_stacks := es2\<rparr>) w
      = (None, info\<lparr>fi_stacks := es2, fi_fd_open := True, fi_hist := hist_after K buf info\<rparr>, W w)"
    using file_readsD [OF assms(6), of "info\<lparr>fi_stacks := es2\<rparr>"] fh by metis
  have "\<exists>w3. file_select K e (Some items) n (Some info, w) =
      Some (Some s', Some (info\<lparr>fi_fd_open := True, fi_hist := hist_after K buf info,
        fi_stacks := es2\<lparr>es_extents := [[s']]\<rparr>\<rparr>), w3)"
  proof (cases "es_extents es' = []")
    case True
    then show ?thesis
      using assms(4,5) r(1,2) s(1,3) s'(1) W
      by (simp add: file_select_def Let_def)
  next
    case False
    then show ?thesis
      using assms(4,5) r(1,2) s(1,3) s'(1) W
      by (simp add: file_select_def Let_def)
  qed
  moreover have "one_stack (fk_rows K) (es2\<lparr>es_extents := [[s']]\<rparr>)"
    using s(2) filled_shaped [OF s'(2)] by (auto simp: one_stack_def configured_def)
  ultimately show ?thesis using s'(2) by auto
qed

text \<open>
  The items of the last call are lost when they cannot be given more room; a later call for as
  many items as before compares with them all the same.
\<close>

lemma file_select_null_compare:
  assumes "configured (fk_rows K) old (fi_stacks info)"
    and "\<not> items_check_failed (length (fk_rows K)) n items" "nat n \<noteq> length old" "\<not> se_realloc_ok e"
    and "\<not> items_check_failed (length (fk_rows K)) m items2" "nat m = length old"
  shows "\<exists>info'. file_select K e (Some items) n (Some info, w) = Some (None, Some info', w)
    \<and> file_select K e2 (Some items2) m (Some info', w2) = None"
proof -
  have "reconfig_maybe (length (fk_rows K)) False items n (fi_stacks info) = Some (- 1, (fi_stacks info)\<lparr>es_items := None\<rparr>)"
    using assms(1,2,3) by (simp add: reconfig_maybe_def configured_def Let_def)
  moreover have "reconfig_maybe (length (fk_rows K)) (se_realloc_ok e2) items2 m ((fi_stacks info)\<lparr>es_items := None\<rparr>) = None"
    using assms(1,5,6) by (simp add: reconfig_maybe_def configured_def Let_def)
  ultimately show ?thesis using assms(4) by (simp add: file_select_def)
qed

subsection \<open>References and resources\<close>

definition file_refs :: "'d file_info option \<times> world \<Rightarrow> int" where
  "file_refs s = (case fst s of None \<Rightarrow> 0 | Some info \<Rightarrow> fi_refcount info)"

definition file_held :: "'d file_info option \<times> world \<Rightarrow> bool" where
  "file_held s \<longleftrightarrow> (\<forall>info. fst s = Some info \<longrightarrow> 0 < fi_refcount info)"

lemmas file_counting =
  file_ref_def file_unref_def file_refs_def file_held_def Let_def EINVAL_def

interpretation file_count: refcounted file_ref file_unref file_refs file_held
  by unfold_locales (auto simp: file_counting split: option.splits prod.splits)

lemma new_info:
  assumes "file_new K e (Some None) w = (0, Some (Some info), w')"
  shows "fi_refcount info = 1 \<and> fi_stacks info = fi_stacks (fresh_file K) \<and> fi_fd_open info
    \<and> w_blocks w' = w_blocks w + 2 \<and> w_fds w' = w_fds w + 1"
  using assms
  by (auto simp: file_new_def file_read_failed_def fresh_file_def no_ext_def Let_def file_unref_def
      split: if_splits option.splits sum.splits)

text \<open>The structure lives exactly as long as references are left, and never comes back.\<close>

lemma file_released:
  assumes "file_new K e (Some None) w = (0, Some (Some info), w')"
  shows "fst (ref_run file_ref file_unref bs (Some info, w')) = None \<longleftrightarrow> refs_left bs 1 = 0"
proof -
  have i: "file_held (Some info, w')" "file_refs (Some info, w') = 1"
    using new_info [OF assms] by (simp_all add: file_held_def file_refs_def)
  let ?s = "ref_run file_ref file_unref bs (Some info, w')"
  have "file_refs ?s = refs_left bs 1" using file_count.run_count [OF i(1), of bs] i(2) by simp
  moreover have "file_held ?s" by (rule file_count.run_inv [OF i(1)])
  ultimately show ?thesis by (cases "fst ?s") (auto simp: file_refs_def file_held_def)
qed

text \<open>The calls a program may make, with memory for the items of a \<open>select\<close> at hand.\<close>

inductive file_step :: "'d file_kind \<Rightarrow> 'd file_info option \<times> world \<Rightarrow> 'd file_info option \<times> world \<Rightarrow> bool" for K where
  ref: "file_ref s = (r, s') \<Longrightarrow> file_step K s s'"
| unref: "file_unref s = (r, s') \<Longrightarrow> file_step K s s'"
| get: "file_get K e secs it s = (r, s') \<Longrightarrow> file_step K s s'"
| select: "file_select K e items n s = Some (r, s') \<Longrightarrow> se_realloc_ok e \<Longrightarrow> file_step K s s'"

text \<open>What is in use against what was before \<open>new\<close>.\<close>

definition accounted :: "world \<Rightarrow> 'd file_info option \<times> world \<Rightarrow> bool" where
  "accounted w0 s \<longleftrightarrow> w_fds (snd s) = w_fds w0 + 1
     \<and> (case fst s of None \<Rightarrow> w_blocks (snd s) = w_blocks w0
        | Some info \<Rightarrow> fi_fd_open info \<and> w_blocks (snd s) = w_blocks w0 + 2 + support_blocks (fi_stacks info))"

lemma read_keeps:
  assumes "fi_fd_open info"
  obtains r h where "file_read_failed K e info w = (r, info\<lparr>fi_hist := h\<rparr>, w)"
proof (cases "re_lseek e")
  case (Some err)
  then show thesis using assms that by (cases info) (simp add: file_read_failed_def Let_def)
next
  case None
  then show thesis
    using assms that by (cases info; cases "slurp (fk_bufsiz K) (re_reads e)") (simp_all add: file_read_failed_def Let_def)
qed

lemma support_blocks_head:
  "es_extents es \<noteq> [] \<Longrightarrow> support_blocks (es\<lparr>es_extents := x # tl (es_extents es)\<rparr>) = support_blocks es"
  by (cases "es_extents es") (auto simp: support_blocks_def)

lemma accounted_Some:
  "accounted w0 (Some info, w) \<longleftrightarrow>
     w_fds w = w_fds w0 + 1 \<and> fi_fd_open info \<and> w_blocks w = w_blocks w0 + 2 + support_blocks (fi_stacks info)"
  by (auto simp: accounted_def)

lemma get_accounted:
  assumes "file_get K e secs it s = (r, s')" "accounted w0 s"
  shows "accounted w0 s'"
proof (cases "fst s")
  case None
  then show ?thesis using assms by (cases s) (simp add: file_get_def accounted_def)
next
  case (Some info)
  then obtain w where s: "s = (Some info, w)" by (cases s) simp
  then have acc: "accounted w0 (Some info, w)" "fi_fd_open info" using assms(2) by (simp_all add: accounted_Some)
  obtain rr h where rd: "file_read_failed K e info w = (rr, info\<lparr>fi_hist := h\<rparr>, w)"
    by (rule read_keeps [OF acc(2)])
  show ?thesis
    using assms(1) acc(1) unfolding s
    by (cases rr) (auto simp: file_get_def rd Let_def accounted_Some split: if_splits)
qed

text \<open>What follows once the items are configured.\<close>

lemma select_rest_accounted:
  assumes "file_select K e (Some its) n (Some info, w) = Some (r, s')"
    and "reconfig_maybe (length (fk_rows K)) (se_realloc_ok e) its n (fi_stacks info) = Some (rc, es)" "0 \<le> rc"
    and "accounted w0 (Some info, w)"
  shows "accounted w0 s'"
proof -
  let ?w1 = "w\<lparr>w_blocks := w_blocks w + support_blocks es - support_blocks (fi_stacks info)\<rparr>"
  have a1: "accounted w0 (Some (info\<lparr>fi_stacks := es\<rparr>), ?w1)" using assms(4) by (simp add: accounted_Some)
  show ?thesis
  proof (cases "if es_extents es = [] then stacks_alloc (se_alloc_ok e) 1 es else Some es")
    case None
    then have "s' = (Some (info\<lparr>fi_stacks := es\<rparr>), ?w1)"
      using assms(1-3) by (simp add: file_select_def Let_def)
    then show ?thesis using a1 by simp
  next
    case (Some es2)
    then have ne: "es_extents es2 \<noteq> []"
      by (auto simp: stacks_alloc_def stacks_alloc_def split: if_splits)
    let ?w2 = "?w1\<lparr>w_blocks := w_blocks ?w1 + support_blocks es2 - support_blocks es\<rparr>"
    have fd: "fi_fd_open (info\<lparr>fi_stacks := es2\<rparr>)" using assms(4) by (simp add: accounted_Some)
    obtain rr h where rd: "file_read_failed K (se_read e) (info\<lparr>fi_stacks := es2\<rparr>) ?w2
        = (rr, info\<lparr>fi_stacks := es2, fi_hist := h\<rparr>, ?w2)"
      by (rule read_keeps [OF fd])
    have a2: "accounted w0 (Some (info\<lparr>fi_stacks := es2, fi_hist := h\<rparr>), ?w2)"
      using a1 by (simp add: accounted_Some)
    have "file_select K e (Some its) n (Some info, w) =
        (case rr of
           Some err \<Rightarrow> Some (None, Some (info\<lparr>fi_stacks := es2, fi_hist := h\<rparr>), ?w2)
         | None \<Rightarrow> (case assign_results (fk_rows K) h (hd (es_extents es2) ! 0) of
                None \<Rightarrow> None
              | Some st \<Rightarrow> Some (Some st,
                  Some (info\<lparr>fi_hist := h,
                    fi_stacks := es2\<lparr>es_extents := (hd (es_extents es2))[0 := st] # tl (es_extents es2)\<rparr>\<rparr>), ?w2)))"
      using assms(2,3) Some rd by (cases rr) (simp_all add: file_select_def Let_def cong: option.case_cong)
    then show ?thesis
      using assms(1) a2 by (auto simp: accounted_Some support_blocks_head [OF ne] split: option.splits)
  qed
qed

lemma select_accounted:
  assumes "file_select K e items n s = Some (r, s')" "accounted w0 s" "se_realloc_ok e"
  shows "accounted w0 s'"
proof (cases "\<exists>info its. fst s = Some info \<and> items = Some its")
  case False
  then have "s' = s"
    using assms(1) by (cases s) (auto simp: file_select_def split: option.splits)
  then show ?thesis using assms(2) by simp
next
  case True
  then obtain info its w where s: "s = (Some info, w)" "items = Some its" by (cases s) auto
  then obtain rc es where r: "reconfig_maybe (length (fk_rows K)) (se_realloc_ok e) its n (fi_stacks info) = Some (rc, es)"
    using assms(1) by (auto simp: file_select_def split: option.splits prod.splits)
  show ?thesis
  proof (cases "rc < 0")
    case True
    then have "es = fi_stacks info"
      using assms(3) r by (auto simp: reconfig_maybe_def Let_def split: if_splits option.splits)
    then have "s' = (Some (info\<lparr>fi_stacks := fi_stacks info\<rparr>), w)"
      using assms(1) s r True by (simp add: file_select_def)
    then show ?thesis using assms(2) s by simp
  next
    case False
    then show ?thesis using select_rest_accounted r assms(1,2) s by (metis linorder_not_less)
  qed
qed

lemma step_accounted: "file_step K s s' \<Longrightarrow> accounted w0 s \<Longrightarrow> accounted w0 s'"
proof (induction rule: file_step.induct)
  case (ref s r s')
  then show ?case by (cases s) (auto simp: file_ref_def accounted_def split: option.splits)
next
  case (unref s r s')
  then show ?case
    by (cases s) (auto simp: file_unref_def accounted_def Let_def split: option.splits if_splits)
next
  case (get e secs it s r s')
  then show ?case by (metis get_accounted)
next
  case (select e items n s r s')
  then show ?case by (metis select_accounted)
qed

text \<open>
  Whatever is called after \<open>new\<close>, the heap is balanced once the structure is gone, and the
  descriptor of the file stays open for good.
\<close>

lemma file_descriptor_leaks:
  assumes "file_new K e (Some None) w = (0, Some (Some info), w1)"
    and "(file_step K)\<^sup>*\<^sup>* (Some info, w1) (None, w2)"
  shows "w_blocks w2 = w_blocks w \<and> w_fds w2 = w_fds w + 1"
proof -
  have "accounted w (Some info, w1)"
    using new_info [OF assms(1)] by (simp add: accounted_def support_blocks_def fresh_file_def no_ext_def)
  moreover have "accounted w s'" if "(file_step K)\<^sup>*\<^sup>* s s'" "accounted w s" for s s'
    using that by (induction rule: rtranclp_induct) (auto intro: step_accounted)
  ultimately have "accounted w (None :: 'a file_info option, w2)" using assms(2) by blast
  then show ?thesis by (simp add: accounted_def)
qed

end
