(* ===== verification/Meminfo.thy ===== *)
theory Meminfo
  imports Select
begin

text \<open>
  \<^verbatim>\<open>procps/linux/meminfo.c\<close>: the numbers of \<^verbatim>\<open>/proc/meminfo\<close>, the values derived from
  them, the differences to the last read, and the interface \<open>new\<close>, \<open>ref\<close>, \<open>unref\<close>, \<open>get\<close>,
  \<open>select\<close>.

  The hash table of the C library is its list of keys, with the field each one points to.
\<close>

subsection \<open>Data\<close>

record meminfo_data =
  md_Active :: ulong
  md_Active_anon :: ulong
  md_Active_file :: ulong
  md_AnonHugePages :: ulong
  md_AnonPages :: ulong
  md_Bounce :: ulong
  md_Buffers :: ulong
  md_Cached :: ulong
  md_CmaFree :: ulong
  md_CmaTotal :: ulong
  md_CommitLimit :: ulong
  md_Committed_AS :: ulong
  md_DirectMap1G :: ulong
  md_DirectMap2M :: ulong
  md_DirectMap4M :: ulong
  md_DirectMap4k :: ulong
  md_Dirty :: ulong
  md_FileHugePages :: ulong
  md_FilePmdMapped :: ulong
  md_HardwareCorrupted :: ulong
  md_HighFree :: ulong
  md_HighTotal :: ulong
  md_HugePages_Free :: ulong
  md_HugePages_Rsvd :: ulong
  md_HugePages_Surp :: ulong
  md_HugePages_Total :: ulong
  md_Hugepagesize :: ulong
  md_Hugetlb :: ulong
  md_Inactive :: ulong
  md_Inactive_anon :: ulong
  md_Inactive_file :: ulong
  md_KReclaimable :: ulong
  md_KernelStack :: ulong
  md_LowFree :: ulong
  md_LowTotal :: ulong
  md_Mapped :: ulong
  md_MemAvailable :: ulong
  md_MemFree :: ulong
  md_MemTotal :: ulong
  md_Mlocked :: ulong
  md_MmapCopy :: ulong
  md_NFS_Unstable :: ulong
  md_PageTables :: ulong
  md_Percpu :: ulong
  md_SReclaimable :: ulong
  md_SUnreclaim :: ulong
  md_ShadowCallStack :: ulong
  md_Shmem :: ulong
  md_ShmemHugePages :: ulong
  md_ShmemPmdMapped :: ulong
  md_Slab :: ulong
  md_SwapCached :: ulong
  md_SwapFree :: ulong
  md_SwapTotal :: ulong
  md_Unevictable :: ulong
  md_VmallocChunk :: ulong
  md_VmallocTotal :: ulong
  md_VmallocUsed :: ulong
  md_Writeback :: ulong
  md_WritebackTmp :: ulong
  md_derived_mem_cached :: ulong
  md_derived_mem_hi_used :: ulong
  md_derived_mem_lo_used :: ulong
  md_derived_mem_used :: ulong
  md_derived_swap_used :: ulong

definition no_data :: meminfo_data where
  "no_data =
    \<lparr>md_Active = 0, md_Active_anon = 0, md_Active_file = 0, md_AnonHugePages = 0, md_AnonPages = 0,
     md_Bounce = 0, md_Buffers = 0, md_Cached = 0, md_CmaFree = 0, md_CmaTotal = 0, md_CommitLimit = 0,
     md_Committed_AS = 0, md_DirectMap1G = 0, md_DirectMap2M = 0, md_DirectMap4M = 0, md_DirectMap4k = 0,
     md_Dirty = 0, md_FileHugePages = 0, md_FilePmdMapped = 0, md_HardwareCorrupted = 0, md_HighFree = 0,
     md_HighTotal = 0, md_HugePages_Free = 0, md_HugePages_Rsvd = 0, md_HugePages_Surp = 0,
     md_HugePages_Total = 0, md_Hugepagesize = 0, md_Hugetlb = 0, md_Inactive = 0, md_Inactive_anon = 0,
     md_Inactive_file = 0, md_KReclaimable = 0, md_KernelStack = 0, md_LowFree = 0, md_LowTotal = 0,
     md_Mapped = 0, md_MemAvailable = 0, md_MemFree = 0, md_MemTotal = 0, md_Mlocked = 0, md_MmapCopy = 0,
     md_NFS_Unstable = 0, md_PageTables = 0, md_Percpu = 0, md_SReclaimable = 0, md_SUnreclaim = 0,
     md_ShadowCallStack = 0, md_Shmem = 0, md_ShmemHugePages = 0, md_ShmemPmdMapped = 0, md_Slab = 0,
     md_SwapCached = 0, md_SwapFree = 0, md_SwapTotal = 0, md_Unevictable = 0, md_VmallocChunk = 0,
     md_VmallocTotal = 0, md_VmallocUsed = 0, md_Writeback = 0, md_WritebackTmp = 0, md_derived_mem_cached = 0,
     md_derived_mem_hi_used = 0, md_derived_mem_lo_used = 0, md_derived_mem_used = 0, md_derived_swap_used = 0\<rparr>"

type_synonym mem_hist = "meminfo_data file_hist"

subsection \<open>Setting results\<close>

definition MEM_set :: "(meminfo_data \<Rightarrow> ulong) \<Rightarrow> mem_hist \<Rightarrow> rval \<Rightarrow> rval" where
  "MEM_set x H v = Ul_int (x (fh_new H))"

definition HST_set :: "(meminfo_data \<Rightarrow> ulong) \<Rightarrow> mem_hist \<Rightarrow> rval \<Rightarrow> rval" where
  "HST_set x H v = S_int (cast_int (uint (x (fh_new H) - x (fh_old H))))"

definition set_extra :: "mem_hist \<Rightarrow> rval \<Rightarrow> rval" where
  "set_extra H v = Ul_int 0"

definition meminfo_mem_sets :: "(string \<times> (mem_hist \<Rightarrow> rval \<Rightarrow> rval)) list" where
  "meminfo_mem_sets =
    [(''noop'', set_noop), (''extra'', set_extra), (''MEM_ACTIVE'', MEM_set md_Active),
     (''MEM_ACTIVE_ANON'', MEM_set md_Active_anon), (''MEM_ACTIVE_FILE'', MEM_set md_Active_file),
     (''MEM_ANON'', MEM_set md_AnonPages), (''MEM_AVAILABLE'', MEM_set md_MemAvailable),
     (''MEM_BOUNCE'', MEM_set md_Bounce), (''MEM_BUFFERS'', MEM_set md_Buffers),
     (''MEM_CACHED'', MEM_set md_Cached), (''MEM_CACHED_ALL'', MEM_set md_derived_mem_cached),
     (''MEM_CMA_FREE'', MEM_set md_CmaFree), (''MEM_CMA_TOTAL'', MEM_set md_CmaTotal),
     (''MEM_COMMITTED_AS'', MEM_set md_Committed_AS), (''MEM_COMMIT_LIMIT'', MEM_set md_CommitLimit),
     (''MEM_DIRECTMAP_1G'', MEM_set md_DirectMap1G), (''MEM_DIRECTMAP_2M'', MEM_set md_DirectMap2M),
     (''MEM_DIRECTMAP_4K'', MEM_set md_DirectMap4k), (''MEM_DIRECTMAP_4M'', MEM_set md_DirectMap4M),
     (''MEM_DIRTY'', MEM_set md_Dirty), (''MEM_FILE_HUGEPAGES'', MEM_set md_FileHugePages),
     (''MEM_FILE_PMDMAPPED'', MEM_set md_FilePmdMapped), (''MEM_FREE'', MEM_set md_MemFree),
     (''MEM_HARD_CORRUPTED'', MEM_set md_HardwareCorrupted), (''MEM_HIGH_FREE'', MEM_set md_HighFree),
     (''MEM_HIGH_TOTAL'', MEM_set md_HighTotal), (''MEM_HIGH_USED'', MEM_set md_derived_mem_hi_used),
     (''MEM_HUGETBL'', MEM_set md_Hugetlb), (''MEM_HUGE_ANON'', MEM_set md_AnonHugePages),
     (''MEM_HUGE_FREE'', MEM_set md_HugePages_Free), (''MEM_HUGE_RSVD'', MEM_set md_HugePages_Rsvd),
     (''MEM_HUGE_SIZE'', MEM_set md_Hugepagesize), (''MEM_HUGE_SURPLUS'', MEM_set md_HugePages_Surp),
     (''MEM_HUGE_TOTAL'', MEM_set md_HugePages_Total), (''MEM_INACTIVE'', MEM_set md_Inactive),
     (''MEM_INACTIVE_ANON'', MEM_set md_Inactive_anon), (''MEM_INACTIVE_FILE'', MEM_set md_Inactive_file),
     (''MEM_KERNEL_RECLAIM'', MEM_set md_KReclaimable), (''MEM_KERNEL_STACK'', MEM_set md_KernelStack),
     (''MEM_LOCKED'', MEM_set md_Mlocked), (''MEM_LOW_FREE'', MEM_set md_LowFree),
     (''MEM_LOW_TOTAL'', MEM_set md_LowTotal), (''MEM_LOW_USED'', MEM_set md_derived_mem_lo_used),
     (''MEM_MAPPED'', MEM_set md_Mapped), (''MEM_MAP_COPY'', MEM_set md_MmapCopy),
     (''MEM_NFS_UNSTABLE'', MEM_set md_NFS_Unstable), (''MEM_PAGE_TABLES'', MEM_set md_PageTables),
     (''MEM_PER_CPU'', MEM_set md_Percpu), (''MEM_SHADOWCALLSTACK'', MEM_set md_ShadowCallStack),
     (''MEM_SHARED'', MEM_set md_Shmem), (''MEM_SHMEM_HUGE'', MEM_set md_ShmemHugePages),
     (''MEM_SHMEM_HUGE_MAP'', MEM_set md_ShmemPmdMapped), (''MEM_SLAB'', MEM_set md_Slab),
     (''MEM_SLAB_RECLAIM'', MEM_set md_SReclaimable), (''MEM_SLAB_UNRECLAIM'', MEM_set md_SUnreclaim),
     (''MEM_TOTAL'', MEM_set md_MemTotal), (''MEM_UNEVICTABLE'', MEM_set md_Unevictable),
     (''MEM_USED'', MEM_set md_derived_mem_used), (''MEM_VM_ALLOC_CHUNK'', MEM_set md_VmallocChunk),
     (''MEM_VM_ALLOC_TOTAL'', MEM_set md_VmallocTotal), (''MEM_VM_ALLOC_USED'', MEM_set md_VmallocUsed),
     (''MEM_WRITEBACK'', MEM_set md_Writeback), (''MEM_WRITEBACK_TMP'', MEM_set md_WritebackTmp)]"

definition meminfo_delta_sets :: "(string \<times> (mem_hist \<Rightarrow> rval \<Rightarrow> rval)) list" where
  "meminfo_delta_sets =
    [(''DELTA_ACTIVE'', HST_set md_Active), (''DELTA_ACTIVE_ANON'', HST_set md_Active_anon),
     (''DELTA_ACTIVE_FILE'', HST_set md_Active_file), (''DELTA_ANON'', HST_set md_AnonPages),
     (''DELTA_AVAILABLE'', HST_set md_MemAvailable), (''DELTA_BOUNCE'', HST_set md_Bounce),
     (''DELTA_BUFFERS'', HST_set md_Buffers), (''DELTA_CACHED'', HST_set md_Cached),
     (''DELTA_CACHED_ALL'', HST_set md_derived_mem_cached), (''DELTA_CMA_FREE'', HST_set md_CmaFree),
     (''DELTA_CMA_TOTAL'', HST_set md_CmaTotal), (''DELTA_COMMITTED_AS'', HST_set md_Committed_AS),
     (''DELTA_COMMIT_LIMIT'', HST_set md_CommitLimit), (''DELTA_DIRECTMAP_1G'', HST_set md_DirectMap1G),
     (''DELTA_DIRECTMAP_2M'', HST_set md_DirectMap2M), (''DELTA_DIRECTMAP_4K'', HST_set md_DirectMap4k),
     (''DELTA_DIRECTMAP_4M'', HST_set md_DirectMap4M), (''DELTA_DIRTY'', HST_set md_Dirty),
     (''DELTA_FILE_HUGEPAGES'', HST_set md_FileHugePages), (''DELTA_FILE_PMDMAPPED'', HST_set md_FilePmdMapped),
     (''DELTA_FREE'', HST_set md_MemFree), (''DELTA_HARD_CORRUPTED'', HST_set md_HardwareCorrupted),
     (''DELTA_HIGH_FREE'', HST_set md_HighFree), (''DELTA_HIGH_TOTAL'', HST_set md_HighTotal),
     (''DELTA_HIGH_USED'', HST_set md_derived_mem_hi_used), (''DELTA_HUGETBL'', HST_set md_Hugetlb),
     (''DELTA_HUGE_ANON'', HST_set md_AnonHugePages), (''DELTA_HUGE_FREE'', HST_set md_HugePages_Free),
     (''DELTA_HUGE_RSVD'', HST_set md_HugePages_Rsvd), (''DELTA_HUGE_SIZE'', HST_set md_Hugepagesize),
     (''DELTA_HUGE_SURPLUS'', HST_set md_HugePages_Surp), (''DELTA_HUGE_TOTAL'', HST_set md_HugePages_Total),
     (''DELTA_INACTIVE'', HST_set md_Inactive), (''DELTA_INACTIVE_ANON'', HST_set md_Inactive_anon),
     (''DELTA_INACTIVE_FILE'', HST_set md_Inactive_file), (''DELTA_KERNEL_RECLAIM'', HST_set md_KReclaimable),
     (''DELTA_KERNEL_STACK'', HST_set md_KernelStack), (''DELTA_LOCKED'', HST_set md_Mlocked),
     (''DELTA_LOW_FREE'', HST_set md_LowFree), (''DELTA_LOW_TOTAL'', HST_set md_LowTotal),
     (''DELTA_LOW_USED'', HST_set md_derived_mem_lo_used), (''DELTA_MAPPED'', HST_set md_Mapped),
     (''DELTA_MAP_COPY'', HST_set md_MmapCopy), (''DELTA_NFS_UNSTABLE'', HST_set md_NFS_Unstable),
     (''DELTA_PAGE_TABLES'', HST_set md_PageTables), (''DELTA_PER_CPU'', HST_set md_Percpu),
     (''DELTA_SHADOWCALLSTACK'', HST_set md_ShadowCallStack), (''DELTA_SHARED'', HST_set md_Shmem),
     (''DELTA_SHMEM_HUGE'', HST_set md_ShmemHugePages), (''DELTA_SHMEM_HUGE_MAP'', HST_set md_ShmemPmdMapped),
     (''DELTA_SLAB'', HST_set md_Slab), (''DELTA_SLAB_RECLAIM'', HST_set md_SReclaimable),
     (''DELTA_SLAB_UNRECLAIM'', HST_set md_SUnreclaim), (''DELTA_TOTAL'', HST_set md_MemTotal),
     (''DELTA_UNEVICTABLE'', HST_set md_Unevictable), (''DELTA_USED'', HST_set md_derived_mem_used),
     (''DELTA_VM_ALLOC_CHUNK'', HST_set md_VmallocChunk), (''DELTA_VM_ALLOC_TOTAL'', HST_set md_VmallocTotal),
     (''DELTA_VM_ALLOC_USED'', HST_set md_VmallocUsed), (''DELTA_WRITEBACK'', HST_set md_Writeback),
     (''DELTA_WRITEBACK_TMP'', HST_set md_WritebackTmp)]"

definition meminfo_swap_sets :: "(string \<times> (mem_hist \<Rightarrow> rval \<Rightarrow> rval)) list" where
  "meminfo_swap_sets =
    [(''SWAP_CACHED'', MEM_set md_SwapCached), (''SWAP_FREE'', MEM_set md_SwapFree),
     (''SWAP_TOTAL'', MEM_set md_SwapTotal), (''SWAP_USED'', MEM_set md_derived_swap_used),
     (''SWAP_DELTA_CACHED'', HST_set md_SwapCached), (''SWAP_DELTA_FREE'', HST_set md_SwapFree),
     (''SWAP_DELTA_TOTAL'', HST_set md_SwapTotal), (''SWAP_DELTA_USED'', HST_set md_derived_swap_used)]"

text \<open>The \<open>Item_table\<close>: the name of each row's setter and its type.\<close>

definition meminfo_mem_table :: "(string \<times> string) list" where
  "meminfo_mem_table =
    [(''noop'', ''''), (''extra'', ''''), (''MEM_ACTIVE'', ''ul_int''), (''MEM_ACTIVE_ANON'', ''ul_int''),
     (''MEM_ACTIVE_FILE'', ''ul_int''), (''MEM_ANON'', ''ul_int''), (''MEM_AVAILABLE'', ''ul_int''),
     (''MEM_BOUNCE'', ''ul_int''), (''MEM_BUFFERS'', ''ul_int''), (''MEM_CACHED'', ''ul_int''),
     (''MEM_CACHED_ALL'', ''ul_int''), (''MEM_CMA_FREE'', ''ul_int''), (''MEM_CMA_TOTAL'', ''ul_int''),
     (''MEM_COMMITTED_AS'', ''ul_int''), (''MEM_COMMIT_LIMIT'', ''ul_int''), (''MEM_DIRECTMAP_1G'', ''ul_int''),
     (''MEM_DIRECTMAP_2M'', ''ul_int''), (''MEM_DIRECTMAP_4K'', ''ul_int''), (''MEM_DIRECTMAP_4M'', ''ul_int''),
     (''MEM_DIRTY'', ''ul_int''), (''MEM_FILE_HUGEPAGES'', ''ul_int''), (''MEM_FILE_PMDMAPPED'', ''ul_int''),
     (''MEM_FREE'', ''ul_int''), (''MEM_HARD_CORRUPTED'', ''ul_int''), (''MEM_HIGH_FREE'', ''ul_int''),
     (''MEM_HIGH_TOTAL'', ''ul_int''), (''MEM_HIGH_USED'', ''ul_int''), (''MEM_HUGETBL'', ''ul_int''),
     (''MEM_HUGE_ANON'', ''ul_int''), (''MEM_HUGE_FREE'', ''ul_int''), (''MEM_HUGE_RSVD'', ''ul_int''),
     (''MEM_HUGE_SIZE'', ''ul_int''), (''MEM_HUGE_SURPLUS'', ''ul_int''), (''MEM_HUGE_TOTAL'', ''ul_int''),
     (''MEM_INACTIVE'', ''ul_int''), (''MEM_INACTIVE_ANON'', ''ul_int''), (''MEM_INACTIVE_FILE'', ''ul_int''),
     (''MEM_KERNEL_RECLAIM'', ''ul_int''), (''MEM_KERNEL_STACK'', ''ul_int''), (''MEM_LOCKED'', ''ul_int''),
     (''MEM_LOW_FREE'', ''ul_int''), (''MEM_LOW_TOTAL'', ''ul_int''), (''MEM_LOW_USED'', ''ul_int''),
     (''MEM_MAPPED'', ''ul_int''), (''MEM_MAP_COPY'', ''ul_int''), (''MEM_NFS_UNSTABLE'', ''ul_int''),
     (''MEM_PAGE_TABLES'', ''ul_int''), (''MEM_PER_CPU'', ''ul_int''), (''MEM_SHADOWCALLSTACK'', ''ul_int''),
     (''MEM_SHARED'', ''ul_int''), (''MEM_SHMEM_HUGE'', ''ul_int''), (''MEM_SHMEM_HUGE_MAP'', ''ul_int''),
     (''MEM_SLAB'', ''ul_int''), (''MEM_SLAB_RECLAIM'', ''ul_int''), (''MEM_SLAB_UNRECLAIM'', ''ul_int''),
     (''MEM_TOTAL'', ''ul_int''), (''MEM_UNEVICTABLE'', ''ul_int''), (''MEM_USED'', ''ul_int''),
     (''MEM_VM_ALLOC_CHUNK'', ''ul_int''), (''MEM_VM_ALLOC_TOTAL'', ''ul_int''),
     (''MEM_VM_ALLOC_USED'', ''ul_int''), (''MEM_WRITEBACK'', ''ul_int''), (''MEM_WRITEBACK_TMP'', ''ul_int'')]"

definition meminfo_delta_table :: "(string \<times> string) list" where
  "meminfo_delta_table =
    [(''DELTA_ACTIVE'', ''s_int''), (''DELTA_ACTIVE_ANON'', ''s_int''), (''DELTA_ACTIVE_FILE'', ''s_int''),
     (''DELTA_ANON'', ''s_int''), (''DELTA_AVAILABLE'', ''s_int''), (''DELTA_BOUNCE'', ''s_int''),
     (''DELTA_BUFFERS'', ''s_int''), (''DELTA_CACHED'', ''s_int''), (''DELTA_CACHED_ALL'', ''s_int''),
     (''DELTA_CMA_FREE'', ''s_int''), (''DELTA_CMA_TOTAL'', ''s_int''), (''DELTA_COMMITTED_AS'', ''s_int''),
     (''DELTA_COMMIT_LIMIT'', ''s_int''), (''DELTA_DIRECTMAP_1G'', ''s_int''),
     (''DELTA_DIRECTMAP_2M'', ''s_int''), (''DELTA_DIRECTMAP_4K'', ''s_int''),
     (''DELTA_DIRECTMAP_4M'', ''s_int''), (''DELTA_DIRTY'', ''s_int''), (''DELTA_FILE_HUGEPAGES'', ''s_int''),
     (''DELTA_FILE_PMDMAPPED'', ''s_int''), (''DELTA_FREE'', ''s_int''), (''DELTA_HARD_CORRUPTED'', ''s_int''),
     (''DELTA_HIGH_FREE'', ''s_int''), (''DELTA_HIGH_TOTAL'', ''s_int''), (''DELTA_HIGH_USED'', ''s_int''),
     (''DELTA_HUGETBL'', ''s_int''), (''DELTA_HUGE_ANON'', ''s_int''), (''DELTA_HUGE_FREE'', ''s_int''),
     (''DELTA_HUGE_RSVD'', ''s_int''), (''DELTA_HUGE_SIZE'', ''s_int''), (''DELTA_HUGE_SURPLUS'', ''s_int''),
     (''DELTA_HUGE_TOTAL'', ''s_int''), (''DELTA_INACTIVE'', ''s_int''), (''DELTA_INACTIVE_ANON'', ''s_int''),
     (''DELTA_INACTIVE_FILE'', ''s_int''), (''DELTA_KERNEL_RECLAIM'', ''s_int''),
     (''DELTA_KERNEL_STACK'', ''s_int''), (''DELTA_LOCKED'', ''s_int''), (''DELTA_LOW_FREE'', ''s_int''),
     (''DELTA_LOW_TOTAL'', ''s_int''), (''DELTA_LOW_USED'', ''s_int''), (''DELTA_MAPPED'', ''s_int''),
     (''DELTA_MAP_COPY'', ''s_int''), (''DELTA_NFS_UNSTABLE'', ''s_int''), (''DELTA_PAGE_TABLES'', ''s_int''),
     (''DELTA_PER_CPU'', ''s_int''), (''DELTA_SHADOWCALLSTACK'', ''s_int''), (''DELTA_SHARED'', ''s_int''),
     (''DELTA_SHMEM_HUGE'', ''s_int''), (''DELTA_SHMEM_HUGE_MAP'', ''s_int''), (''DELTA_SLAB'', ''s_int''),
     (''DELTA_SLAB_RECLAIM'', ''s_int''), (''DELTA_SLAB_UNRECLAIM'', ''s_int''), (''DELTA_TOTAL'', ''s_int''),
     (''DELTA_UNEVICTABLE'', ''s_int''), (''DELTA_USED'', ''s_int''), (''DELTA_VM_ALLOC_CHUNK'', ''s_int''),
     (''DELTA_VM_ALLOC_TOTAL'', ''s_int''), (''DELTA_VM_ALLOC_USED'', ''s_int''),
     (''DELTA_WRITEBACK'', ''s_int''), (''DELTA_WRITEBACK_TMP'', ''s_int'')]"

definition meminfo_swap_table :: "(string \<times> string) list" where
  "meminfo_swap_table =
    [(''SWAP_CACHED'', ''ul_int''), (''SWAP_FREE'', ''ul_int''), (''SWAP_TOTAL'', ''ul_int''),
     (''SWAP_USED'', ''ul_int''), (''SWAP_DELTA_CACHED'', ''s_int''), (''SWAP_DELTA_FREE'', ''s_int''),
     (''SWAP_DELTA_TOTAL'', ''s_int''), (''SWAP_DELTA_USED'', ''s_int'')]"

text \<open>The enumerators of \<open>enum meminfo_item\<close>, with the type the header documents for each.\<close>

definition meminfo_item :: "(string \<times> string) list" where
  "meminfo_item =
    [(''noop'', ''''), (''extra'', ''''), (''MEM_ACTIVE'', ''ul_int''), (''MEM_ACTIVE_ANON'', ''ul_int''),
     (''MEM_ACTIVE_FILE'', ''ul_int''), (''MEM_ANON'', ''ul_int''), (''MEM_AVAILABLE'', ''ul_int''),
     (''MEM_BOUNCE'', ''ul_int''), (''MEM_BUFFERS'', ''ul_int''), (''MEM_CACHED'', ''ul_int''),
     (''MEM_CACHED_ALL'', ''ul_int''), (''MEM_CMA_FREE'', ''ul_int''), (''MEM_CMA_TOTAL'', ''ul_int''),
     (''MEM_COMMITTED_AS'', ''ul_int''), (''MEM_COMMIT_LIMIT'', ''ul_int''), (''MEM_DIRECTMAP_1G'', ''ul_int''),
     (''MEM_DIRECTMAP_2M'', ''ul_int''), (''MEM_DIRECTMAP_4K'', ''ul_int''), (''MEM_DIRECTMAP_4M'', ''ul_int''),
     (''MEM_DIRTY'', ''ul_int''), (''MEM_FILE_HUGEPAGES'', ''ul_int''), (''MEM_FILE_PMDMAPPED'', ''ul_int''),
     (''MEM_FREE'', ''ul_int''), (''MEM_HARD_CORRUPTED'', ''ul_int''), (''MEM_HIGH_FREE'', ''ul_int''),
     (''MEM_HIGH_TOTAL'', ''ul_int''), (''MEM_HIGH_USED'', ''ul_int''), (''MEM_HUGETBL'', ''ul_int''),
     (''MEM_HUGE_ANON'', ''ul_int''), (''MEM_HUGE_FREE'', ''ul_int''), (''MEM_HUGE_RSVD'', ''ul_int''),
     (''MEM_HUGE_SIZE'', ''ul_int''), (''MEM_HUGE_SURPLUS'', ''ul_int''), (''MEM_HUGE_TOTAL'', ''ul_int''),
     (''MEM_INACTIVE'', ''ul_int''), (''MEM_INACTIVE_ANON'', ''ul_int''), (''MEM_INACTIVE_FILE'', ''ul_int''),
     (''MEM_KERNEL_RECLAIM'', ''ul_int''), (''MEM_KERNEL_STACK'', ''ul_int''), (''MEM_LOCKED'', ''ul_int''),
     (''MEM_LOW_FREE'', ''ul_int''), (''MEM_LOW_TOTAL'', ''ul_int''), (''MEM_LOW_USED'', ''ul_int''),
     (''MEM_MAPPED'', ''ul_int''), (''MEM_MAP_COPY'', ''ul_int''), (''MEM_NFS_UNSTABLE'', ''ul_int''),
     (''MEM_PAGE_TABLES'', ''ul_int''), (''MEM_PER_CPU'', ''ul_int''), (''MEM_SHADOWCALLSTACK'', ''ul_int''),
     (''MEM_SHARED'', ''ul_int''), (''MEM_SHMEM_HUGE'', ''ul_int''), (''MEM_SHMEM_HUGE_MAP'', ''ul_int''),
     (''MEM_SLAB'', ''ul_int''), (''MEM_SLAB_RECLAIM'', ''ul_int''), (''MEM_SLAB_UNRECLAIM'', ''ul_int''),
     (''MEM_TOTAL'', ''ul_int''), (''MEM_UNEVICTABLE'', ''ul_int''), (''MEM_USED'', ''ul_int''),
     (''MEM_VM_ALLOC_CHUNK'', ''ul_int''), (''MEM_VM_ALLOC_TOTAL'', ''ul_int''),
     (''MEM_VM_ALLOC_USED'', ''ul_int''), (''MEM_WRITEBACK'', ''ul_int''), (''MEM_WRITEBACK_TMP'', ''ul_int''),
     (''DELTA_ACTIVE'', ''s_int''), (''DELTA_ACTIVE_ANON'', ''s_int''), (''DELTA_ACTIVE_FILE'', ''s_int''),
     (''DELTA_ANON'', ''s_int''), (''DELTA_AVAILABLE'', ''s_int''), (''DELTA_BOUNCE'', ''s_int''),
     (''DELTA_BUFFERS'', ''s_int''), (''DELTA_CACHED'', ''s_int''), (''DELTA_CACHED_ALL'', ''s_int''),
     (''DELTA_CMA_FREE'', ''s_int''), (''DELTA_CMA_TOTAL'', ''s_int''), (''DELTA_COMMITTED_AS'', ''s_int''),
     (''DELTA_COMMIT_LIMIT'', ''s_int''), (''DELTA_DIRECTMAP_1G'', ''s_int''),
     (''DELTA_DIRECTMAP_2M'', ''s_int''), (''DELTA_DIRECTMAP_4K'', ''s_int''),
     (''DELTA_DIRECTMAP_4M'', ''s_int''), (''DELTA_DIRTY'', ''s_int''), (''DELTA_FILE_HUGEPAGES'', ''s_int''),
     (''DELTA_FILE_PMDMAPPED'', ''s_int''), (''DELTA_FREE'', ''s_int''), (''DELTA_HARD_CORRUPTED'', ''s_int''),
     (''DELTA_HIGH_FREE'', ''s_int''), (''DELTA_HIGH_TOTAL'', ''s_int''), (''DELTA_HIGH_USED'', ''s_int''),
     (''DELTA_HUGETBL'', ''s_int''), (''DELTA_HUGE_ANON'', ''s_int''), (''DELTA_HUGE_FREE'', ''s_int''),
     (''DELTA_HUGE_RSVD'', ''s_int''), (''DELTA_HUGE_SIZE'', ''s_int''), (''DELTA_HUGE_SURPLUS'', ''s_int''),
     (''DELTA_HUGE_TOTAL'', ''s_int''), (''DELTA_INACTIVE'', ''s_int''), (''DELTA_INACTIVE_ANON'', ''s_int''),
     (''DELTA_INACTIVE_FILE'', ''s_int''), (''DELTA_KERNEL_RECLAIM'', ''s_int''),
     (''DELTA_KERNEL_STACK'', ''s_int''), (''DELTA_LOCKED'', ''s_int''), (''DELTA_LOW_FREE'', ''s_int''),
     (''DELTA_LOW_TOTAL'', ''s_int''), (''DELTA_LOW_USED'', ''s_int''), (''DELTA_MAPPED'', ''s_int''),
     (''DELTA_MAP_COPY'', ''s_int''), (''DELTA_NFS_UNSTABLE'', ''s_int''), (''DELTA_PAGE_TABLES'', ''s_int''),
     (''DELTA_PER_CPU'', ''s_int''), (''DELTA_SHADOWCALLSTACK'', ''s_int''), (''DELTA_SHARED'', ''s_int''),
     (''DELTA_SHMEM_HUGE'', ''s_int''), (''DELTA_SHMEM_HUGE_MAP'', ''s_int''), (''DELTA_SLAB'', ''s_int''),
     (''DELTA_SLAB_RECLAIM'', ''s_int''), (''DELTA_SLAB_UNRECLAIM'', ''s_int''), (''DELTA_TOTAL'', ''s_int''),
     (''DELTA_UNEVICTABLE'', ''s_int''), (''DELTA_USED'', ''s_int''), (''DELTA_VM_ALLOC_CHUNK'', ''s_int''),
     (''DELTA_VM_ALLOC_TOTAL'', ''s_int''), (''DELTA_VM_ALLOC_USED'', ''s_int''),
     (''DELTA_WRITEBACK'', ''s_int''), (''DELTA_WRITEBACK_TMP'', ''s_int''), (''SWAP_CACHED'', ''ul_int''),
     (''SWAP_FREE'', ''ul_int''), (''SWAP_TOTAL'', ''ul_int''), (''SWAP_USED'', ''ul_int''),
     (''SWAP_DELTA_CACHED'', ''s_int''), (''SWAP_DELTA_FREE'', ''s_int''), (''SWAP_DELTA_TOTAL'', ''s_int''),
     (''SWAP_DELTA_USED'', ''s_int'')]"

definition meminfo_sets :: "(string \<times> (mem_hist \<Rightarrow> rval \<Rightarrow> rval)) list" where
  "meminfo_sets = meminfo_mem_sets @ meminfo_delta_sets @ meminfo_swap_sets"

definition meminfo_table :: "(string \<times> string) list" where
  "meminfo_table = meminfo_mem_table @ meminfo_delta_table @ meminfo_swap_table"

text \<open>
  The rows with their setters: those are declared in the order of the table, so the setter a row
  names is the one at its place.
\<close>

definition meminfo_rows :: "mem_hist row list" where
  "meminfo_rows = map2 (\<lambda>(nm, ty) (nm', f). (nm, f, ty)) meminfo_table meminfo_sets"

definition MEMINFO_logical_end :: nat where
  "MEMINFO_logical_end = length meminfo_table"

subsection \<open>Reading\<close>

text \<open>The keys entered by \<open>meminfo_make_hash_failed\<close> and the fields they point to.\<close>

definition meminfo_hash :: "(string \<times> (ulong \<Rightarrow> meminfo_data \<Rightarrow> meminfo_data)) list" where
  "meminfo_hash =
    [(''Active'', \<lambda>v d. d\<lparr>md_Active := v\<rparr>),
     (''Active(anon)'', \<lambda>v d. d\<lparr>md_Active_anon := v\<rparr>),
     (''Active(file)'', \<lambda>v d. d\<lparr>md_Active_file := v\<rparr>),
     (''AnonHugePages'', \<lambda>v d. d\<lparr>md_AnonHugePages := v\<rparr>),
     (''AnonPages'', \<lambda>v d. d\<lparr>md_AnonPages := v\<rparr>),
     (''Bounce'', \<lambda>v d. d\<lparr>md_Bounce := v\<rparr>),
     (''Buffers'', \<lambda>v d. d\<lparr>md_Buffers := v\<rparr>),
     (''Cached'', \<lambda>v d. d\<lparr>md_Cached := v\<rparr>),
     (''CmaFree'', \<lambda>v d. d\<lparr>md_CmaFree := v\<rparr>),
     (''CmaTotal'', \<lambda>v d. d\<lparr>md_CmaTotal := v\<rparr>),
     (''CommitLimit'', \<lambda>v d. d\<lparr>md_CommitLimit := v\<rparr>),
     (''Committed_AS'', \<lambda>v d. d\<lparr>md_Committed_AS := v\<rparr>),
     (''DirectMap1G'', \<lambda>v d. d\<lparr>md_DirectMap1G := v\<rparr>),
     (''DirectMap2M'', \<lambda>v d. d\<lparr>md_DirectMap2M := v\<rparr>),
     (''DirectMap4M'', \<lambda>v d. d\<lparr>md_DirectMap4M := v\<rparr>),
     (''DirectMap4k'', \<lambda>v d. d\<lparr>md_DirectMap4k := v\<rparr>),
     (''Dirty'', \<lambda>v d. d\<lparr>md_Dirty := v\<rparr>),
     (''FileHugePages'', \<lambda>v d. d\<lparr>md_FileHugePages := v\<rparr>),
     (''FilePmdMapped'', \<lambda>v d. d\<lparr>md_FilePmdMapped := v\<rparr>),
     (''HardwareCorrupted'', \<lambda>v d. d\<lparr>md_HardwareCorrupted := v\<rparr>),
     (''HighFree'', \<lambda>v d. d\<lparr>md_HighFree := v\<rparr>),
     (''HighTotal'', \<lambda>v d. d\<lparr>md_HighTotal := v\<rparr>),
     (''HugePages_Free'', \<lambda>v d. d\<lparr>md_HugePages_Free := v\<rparr>),
     (''HugePages_Rsvd'', \<lambda>v d. d\<lparr>md_HugePages_Rsvd := v\<rparr>),
     (''HugePages_Surp'', \<lambda>v d. d\<lparr>md_HugePages_Surp := v\<rparr>),
     (''HugePages_Total'', \<lambda>v d. d\<lparr>md_HugePages_Total := v\<rparr>),
     (''Hugepagesize'', \<lambda>v d. d\<lparr>md_Hugepagesize := v\<rparr>),
     (''Hugetlb'', \<lambda>v d. d\<lparr>md_Hugetlb := v\<rparr>),
     (''Inactive'', \<lambda>v d. d\<lparr>md_Inactive := v\<rparr>),
     (''Inactive(anon)'', \<lambda>v d. d\<lparr>md_Inactive_anon := v\<rparr>),
     (''Inactive(file)'', \<lambda>v d. d\<lparr>md_Inactive_file := v\<rparr>),
     (''KReclaimable'', \<lambda>v d. d\<lparr>md_KReclaimable := v\<rparr>),
     (''KernelStack'', \<lambda>v d. d\<lparr>md_KernelStack := v\<rparr>),
     (''LowFree'', \<lambda>v d. d\<lparr>md_LowFree := v\<rparr>),
     (''LowTotal'', \<lambda>v d. d\<lparr>md_LowTotal := v\<rparr>),
     (''Mapped'', \<lambda>v d. d\<lparr>md_Mapped := v\<rparr>),
     (''MemAvailable'', \<lambda>v d. d\<lparr>md_MemAvailable := v\<rparr>),
     (''MemFree'', \<lambda>v d. d\<lparr>md_MemFree := v\<rparr>),
     (''MemTotal'', \<lambda>v d. d\<lparr>md_MemTotal := v\<rparr>),
     (''Mlocked'', \<lambda>v d. d\<lparr>md_Mlocked := v\<rparr>),
     (''MmapCopy'', \<lambda>v d. d\<lparr>md_MmapCopy := v\<rparr>),
     (''NFS_Unstable'', \<lambda>v d. d\<lparr>md_NFS_Unstable := v\<rparr>),
     (''PageTables'', \<lambda>v d. d\<lparr>md_PageTables := v\<rparr>),
     (''Percpu'', \<lambda>v d. d\<lparr>md_Percpu := v\<rparr>),
     (''SReclaimable'', \<lambda>v d. d\<lparr>md_SReclaimable := v\<rparr>),
     (''SUnreclaim'', \<lambda>v d. d\<lparr>md_SUnreclaim := v\<rparr>),
     (''ShadowCallStack'', \<lambda>v d. d\<lparr>md_ShadowCallStack := v\<rparr>),
     (''Shmem'', \<lambda>v d. d\<lparr>md_Shmem := v\<rparr>),
     (''ShmemHugePages'', \<lambda>v d. d\<lparr>md_ShmemHugePages := v\<rparr>),
     (''ShmemPmdMapped'', \<lambda>v d. d\<lparr>md_ShmemPmdMapped := v\<rparr>),
     (''Slab'', \<lambda>v d. d\<lparr>md_Slab := v\<rparr>),
     (''SwapCached'', \<lambda>v d. d\<lparr>md_SwapCached := v\<rparr>),
     (''SwapFree'', \<lambda>v d. d\<lparr>md_SwapFree := v\<rparr>),
     (''SwapTotal'', \<lambda>v d. d\<lparr>md_SwapTotal := v\<rparr>),
     (''Unevictable'', \<lambda>v d. d\<lparr>md_Unevictable := v\<rparr>),
     (''VmallocChunk'', \<lambda>v d. d\<lparr>md_VmallocChunk := v\<rparr>),
     (''VmallocTotal'', \<lambda>v d. d\<lparr>md_VmallocTotal := v\<rparr>),
     (''VmallocUsed'', \<lambda>v d. d\<lparr>md_VmallocUsed := v\<rparr>),
     (''Writeback'', \<lambda>v d. d\<lparr>md_Writeback := v\<rparr>),
     (''WritebackTmp'', \<lambda>v d. d\<lparr>md_WritebackTmp := v\<rparr>)]"

text \<open>From the key at \<open>head\<close> on.\<close>

function mem_lines :: "string \<Rightarrow> meminfo_data \<Rightarrow> meminfo_data" where
  "mem_lines head d =
     (case strchr head (CHR '':'') of
        None \<Rightarrow> d
      | Some tail \<Rightarrow>
          let key = take (length head - length tail) head;
              d' = (case map_of meminfo_hash key of None \<Rightarrow> d | Some f \<Rightarrow> f (fst (strtoul (tl tail))) d)
          in case strchr (tl tail) newline of
               None \<Rightarrow> d'
             | Some nl \<Rightarrow> mem_lines (tl nl) d')"
  by pat_completeness auto
termination
proof (relation "measure (\<lambda>(head, d). length head)", goal_cases)
  case (2 head d tail key d' nl)
  from strchr_length [OF 2(1)] strchr_length [OF 2(4)] strchr_SomeD [OF 2(1)] strchr_SomeD [OF 2(4)]
  show ?case by (cases tail; cases nl) auto
qed simp

declare mem_lines.simps [simp del]

definition derive_available :: "meminfo_data \<Rightarrow> meminfo_data" where
  "derive_available d =
     (let d1 = (if md_MemAvailable d = 0 then d\<lparr>md_MemAvailable := md_MemFree d\<rparr> else d);
          d2 = d1\<lparr>md_derived_mem_cached := md_Cached d1 + md_SReclaimable d1\<rparr>
      in if md_MemTotal d2 < md_MemAvailable d2 then d2\<lparr>md_MemAvailable := md_MemFree d2\<rparr> else d2)"

text \<open>\<open>mem_used\<close> is a signed long.\<close>

definition derive_used :: "meminfo_data \<Rightarrow> meminfo_data" where
  "derive_used d =
     (let mem_used = md_MemTotal d - md_MemFree d - md_derived_mem_cached d - md_Buffers d
      in d\<lparr>md_derived_mem_used := (if sint mem_used < 0 then md_MemTotal d - md_MemFree d else mem_used)\<rparr>)"

definition derive_high_low :: "meminfo_data \<Rightarrow> meminfo_data" where
  "derive_high_low d =
     (let d1 = (if md_HighFree d < md_HighTotal d
                then d\<lparr>md_derived_mem_hi_used := md_HighTotal d - md_HighFree d\<rparr> else d);
          d2 = (if md_LowTotal d1 = 0 then d1\<lparr>md_LowTotal := md_MemTotal d1, md_LowFree := md_MemFree d1\<rparr> else d1)
      in if md_LowFree d2 < md_LowTotal d2
         then d2\<lparr>md_derived_mem_lo_used := md_LowTotal d2 - md_LowFree d2\<rparr> else d2)"

definition derive_swap :: "meminfo_data \<Rightarrow> meminfo_data" where
  "derive_swap d =
     d\<lparr>md_derived_swap_used := (if md_SwapFree d < md_SwapTotal d then md_SwapTotal d - md_SwapFree d else 0)\<rparr>"

definition mem_derive :: "meminfo_data \<Rightarrow> meminfo_data" where
  "mem_derive d = derive_swap (derive_high_low (derive_used (derive_available d)))"

definition MEMINFO_BUFF :: nat where
  "MEMINFO_BUFF = 8192"

type_synonym meminfo_info = "meminfo_data file_info"

text \<open>
  What makes this file one of the kind of \<open>Select\<close>: the kernel's text is read line by line into zeroed
  numbers, and the others are derived from them.
\<close>

definition meminfo_kind :: "meminfo_data file_kind" where
  "meminfo_kind =
     \<lparr>fk_bufsiz = MEMINFO_BUFF, fk_zero = no_data, fk_parse = (\<lambda>buf. mem_derive (mem_lines (cstr buf) no_data)),
      fk_rows = meminfo_rows\<rparr>"

definition meminfo_read_failed :: "read_env \<Rightarrow> meminfo_info \<Rightarrow> world \<Rightarrow> int option \<times> meminfo_info \<times> world" where
  "meminfo_read_failed = file_read_failed meminfo_kind"

subsection \<open>The shared functions\<close>

definition meminfo_assign_results :: "stack \<Rightarrow> mem_hist \<Rightarrow> stack option" where
  "meminfo_assign_results s hist = assign_results meminfo_rows hist s"

definition meminfo_itemize_stack :: "nat \<Rightarrow> item list \<Rightarrow> stack" where
  "meminfo_itemize_stack = itemize_stack"

definition meminfo_items_check_failed :: "int \<Rightarrow> nat \<times> item list \<Rightarrow> bool" where
  "meminfo_items_check_failed = items_check_failed MEMINFO_logical_end"

definition meminfo_extents_free_all :: "ext_support \<Rightarrow> ext_support" where
  "meminfo_extents_free_all = extents_free_all"

definition meminfo_stacks_alloc :: "bool \<Rightarrow> nat \<Rightarrow> ext_support \<Rightarrow> ext_support option" where
  "meminfo_stacks_alloc = stacks_alloc"

subsection \<open>The interface\<close>

definition fresh_info :: meminfo_info where
  "fresh_info = fresh_file meminfo_kind"

definition procps_meminfo_ref :: "meminfo_info option \<times> world \<Rightarrow> int \<times> meminfo_info option \<times> world" where
  "procps_meminfo_ref = file_ref"

definition procps_meminfo_unref :: "meminfo_info option \<times> world \<Rightarrow> int \<times> meminfo_info option \<times> world" where
  "procps_meminfo_unref = file_unref"

definition procps_meminfo_new ::
  "new_env \<Rightarrow> meminfo_info option option \<Rightarrow> world \<Rightarrow> int \<times> meminfo_info option option \<times> world" where
  "procps_meminfo_new = file_new meminfo_kind"

definition procps_meminfo_get ::
  "read_env \<Rightarrow> int \<Rightarrow> item \<Rightarrow> meminfo_info option \<times> world \<Rightarrow> result_cell option \<times> meminfo_info option \<times> world" where
  "procps_meminfo_get = file_get meminfo_kind"

definition procps_meminfo_select ::
  "select_env \<Rightarrow> (nat \<times> item list) option \<Rightarrow> int \<Rightarrow> meminfo_info option \<times> world
   \<Rightarrow> (stack option \<times> meminfo_info option \<times> world) option" where
  "procps_meminfo_select = file_select meminfo_kind"

end
