(* ===== verification/MeminfoSpec.thy ===== *)
theory MeminfoSpec
  imports Meminfo Scanf
begin

text \<open>
  What \<^verbatim>\<open>meminfo.c\<close> promises: the table agrees with the header, every number of the
  file arrives in its field, the derived numbers add up, a \<open>select\<close> returns a stack of the items
  asked for, and the accounting of references, heap blocks and descriptors.
\<close>

subsection \<open>The item table\<close>

lemmas meminfo_tables =
  meminfo_table_def meminfo_mem_table_def meminfo_delta_table_def meminfo_swap_table_def

lemmas meminfo_setters =
  meminfo_sets_def meminfo_mem_sets_def meminfo_delta_sets_def meminfo_swap_sets_def

lemma length_meminfo_rows: "length meminfo_rows = MEMINFO_logical_end"
  by (simp add: meminfo_rows_def meminfo_setters meminfo_tables MEMINFO_logical_end_def)

text \<open>Every setter writes the member its row names.\<close>

lemma meminfo_rows_typed:
  "list_all (\<lambda>(nm, f, ty). ty \<noteq> [] \<longrightarrow> (\<forall>src v. rtype (f src v) = ty)) meminfo_rows"
  by (simp add: meminfo_rows_def meminfo_setters meminfo_tables MEM_set_def HST_set_def)

interpretation mem_items: item_table meminfo_rows
proof unfold_locales
  show "rtype (f src v) = ty" if "(nm, f, ty) \<in> set meminfo_rows" "ty \<noteq> []" for nm f ty src v
    using meminfo_rows_typed that by (auto simp: list_all_iff)
  show "\<exists>nm ty rest. meminfo_rows = (nm, set_noop, ty) # rest"
    by (simp add: meminfo_rows_def meminfo_setters meminfo_tables)
qed

text \<open>
  The table has a row for each enumerator of the header, at its number, and announces the type
  the header documents.
\<close>

theorem meminfo_table_matches_header:
  "meminfo_table = meminfo_item \<and> map fst meminfo_rows = map fst meminfo_item"
  by (simp add: meminfo_rows_def meminfo_setters meminfo_tables meminfo_item_def)

subsection \<open>The lines of the file\<close>

text \<open>A line as the kernel prints it: the key, blanks, the number, perhaps a unit.\<close>

definition kernel_line :: "string \<times> nat \<times> nat \<times> string \<Rightarrow> string" where
  "kernel_line = (\<lambda>(key, sp, n, unit). key @ '':'' @ replicate sp (CHR '' '') @ show_nat n @ unit @ [newline])"

definition kernel_line_ok :: "string \<times> nat \<times> nat \<times> string \<Rightarrow> bool" where
  "kernel_line_ok = (\<lambda>(key, sp, n, unit).
     CHR '':'' \<notin> set key \<and> NUL \<notin> set key \<and> n < 2 ^ 64 \<and> newline \<notin> set unit \<and> NUL \<notin> set unit \<and> ends_number unit)"

definition line_effect :: "string \<times> nat \<times> nat \<times> string \<Rightarrow> meminfo_data \<Rightarrow> meminfo_data" where
  "line_effect = (\<lambda>(key, sp, n, unit) d.
     case map_of meminfo_hash key of None \<Rightarrow> d | Some f \<Rightarrow> f (of_nat n) d)"

lemma mem_lines_Nil: "mem_lines [] d = d"
  by (simp add: mem_lines.simps)

lemma mem_lines_line:
  assumes "kernel_line_ok l"
  shows "mem_lines (kernel_line l @ rest) d = mem_lines rest (line_effect l d)"
proof -
  obtain key sp n unit where l: "l = (key, sp, n, unit)" by (cases l)
  with assms have ok: "CHR '':'' \<notin> set key" "n < 2 ^ 64" "newline \<notin> set unit" "ends_number unit"
    by (simp_all add: kernel_line_ok_def)
  let ?num = "replicate sp (CHR '' '') @ show_nat n @ unit"
  have "kernel_line l @ rest = key @ CHR '':'' # (?num @ newline # rest)"
    by (simp add: kernel_line_def l)
  moreover have "strchr (?num @ newline # rest) newline = Some (newline # rest)"
    using ok(3) newline_notin_show_nat [of n] by (intro strchr_append) auto
  moreover have "fst (strtoul (?num @ newline # rest)) = of_nat n"
    using ok(2,4) strtoul_padded [of n "unit @ newline # rest" sp]
    by (cases unit) (simp_all add: isdigit_def)
  moreover have "strchr (key @ CHR '':'' # (?num @ newline # rest)) (CHR '':'') = Some (CHR '':'' # (?num @ newline # rest))"
    using ok(1) by (rule strchr_append)
  ultimately have "mem_lines (kernel_line l @ rest) d
      = mem_lines rest (case map_of meminfo_hash key of None \<Rightarrow> d | Some f \<Rightarrow> f (of_nat n) d)"
    by (subst mem_lines.simps) (simp cong: option.case_cong)
  then show ?thesis by (simp add: line_effect_def l)
qed

lemma mem_lines_kernel:
  "list_all kernel_line_ok ls \<Longrightarrow> mem_lines (concat (map kernel_line ls)) d = fold line_effect ls d"
  by (induction ls arbitrary: d) (simp_all add: mem_lines_Nil mem_lines_line)

lemma NUL_notin_kernel_line: "kernel_line_ok l \<Longrightarrow> NUL \<notin> set (kernel_line l)"
  by (cases l) (auto simp: kernel_line_def kernel_line_ok_def)

lemma kernel_text_cstr:
  "list_all kernel_line_ok ls \<Longrightarrow> cstr (concat (map kernel_line ls)) = concat (map kernel_line ls)"
  using NUL_notin_kernel_line by (intro cstr_id) (fastforce simp: list_all_iff)

text \<open>
  C10. From the text the kernel prints every number goes to the field of its key, in whatever order the
  keys come and whatever others are between, and the numbers of the last read become the old ones.
\<close>

theorem meminfo_kernel_text:
  assumes "list_all kernel_line_ok ls" "ls \<noteq> []"
    and "length (concat (map kernel_line ls)) < MEMINFO_BUFF" "reads_text (concat (map kernel_line ls)) e"
  shows "\<exists>w'. meminfo_read_failed e info w =
    (None,
     info\<lparr>fi_fd_open := True,
       fi_hist := \<lparr>fh_new = mem_derive (fold line_effect ls no_data), fh_old = fh_new (fi_hist info)\<rparr>\<rparr>, w')"
proof -
  let ?t = "concat (map kernel_line ls)"
  have "?t \<noteq> []" using assms(2) by (cases ls) (auto simp: kernel_line_def)
  then have "slurp MEMINFO_BUFF (re_reads e) = Inr ?t"
    using assms(3,4) by (auto simp: reads_text_def MEMINFO_BUFF_def)
  then show ?thesis
    using assms(1,4)
    by (simp add: meminfo_read_failed_def file_read_failed_def meminfo_kind_def Let_def reads_text_def kernel_text_cstr
        mem_lines_kernel)
qed

subsection \<open>The derived numbers\<close>

lemma four_numbers:
  fixes t f c b :: int
  assumes "0 \<le> t" "t < 2 ^ 61" "0 \<le> f" "f < 2 ^ 61" "0 \<le> c" "c < 2 ^ 62" "0 \<le> b" "b < 2 ^ 61"
  shows "- (2 ^ 63) \<le> t - f - c - b \<and> t - f - c - b < 2 ^ 63"
  using assms by simp

lemma long_difference:
  fixes t f c b :: ulong
  assumes "uint t < 2 ^ 61" "uint f < 2 ^ 61" "uint c < 2 ^ 62" "uint b < 2 ^ 61"
  shows "sint (t - f - c - b) = uint t - uint f - uint c - uint b"
proof -
  let ?k = "uint t - uint f - uint c - uint b"
  have "t - f - c - b = word_of_int ?k" by simp
  moreover have "sint (word_of_int ?k :: ulong) = signed_take_bit 63 ?k"
    by (subst sint_sbintrunc') simp
  ultimately have "sint (t - f - c - b) = signed_take_bit 63 ?k" by metis
  also have "\<dots> = ?k"
    using four_numbers [of "uint t" "uint f" "uint c" "uint b"] assms
    by (intro signed_take_bit_int_eq_self) simp_all
  finally show ?thesis .
qed


lemma long_difference_pos:
  fixes t f c b :: ulong
  assumes "uint t < 2 ^ 61" "0 \<le> uint t - uint f - uint c - uint b"
  shows "uint (t - f - c - b) = uint t - uint f - uint c - uint b"
proof -
  let ?k = "uint t - uint f - uint c - uint b"
  have "t - f - c - b = word_of_int ?k" by simp
  moreover have "uint (word_of_int ?k :: ulong) = ?k mod 2 ^ 64"
    by (subst uint_word_of_int) simp
  moreover have "?k mod 2 ^ 64 = ?k"
  proof (rule mod_pos_pos_trivial)
    have "?k \<le> uint t" using uint_ge_0 [of f] uint_ge_0 [of c] uint_ge_0 [of b] by linarith
    also have "\<dots> < 2 ^ 64" by (rule less_trans [OF assms(1)]) simp
    finally show "?k < 2 ^ 64" .
  qed (fact assms(2))
  ultimately show ?thesis by metis
qed

text \<open>What each step leaves as it was.\<close>

lemma derive_available_keeps [simp]:
  "md_MemTotal (derive_available d) = md_MemTotal d"
  "md_MemFree (derive_available d) = md_MemFree d"
  "md_Buffers (derive_available d) = md_Buffers d"
  "md_Cached (derive_available d) = md_Cached d"
  "md_SReclaimable (derive_available d) = md_SReclaimable d"
  "md_SwapTotal (derive_available d) = md_SwapTotal d"
  "md_SwapFree (derive_available d) = md_SwapFree d"
  by (simp_all add: derive_available_def Let_def)

lemma derive_used_keeps [simp]:
  "md_MemTotal (derive_used d) = md_MemTotal d"
  "md_MemFree (derive_used d) = md_MemFree d"
  "md_Buffers (derive_used d) = md_Buffers d"
  "md_Cached (derive_used d) = md_Cached d"
  "md_SReclaimable (derive_used d) = md_SReclaimable d"
  "md_SwapTotal (derive_used d) = md_SwapTotal d"
  "md_SwapFree (derive_used d) = md_SwapFree d"
  "md_MemAvailable (derive_used d) = md_MemAvailable d"
  "md_derived_mem_cached (derive_used d) = md_derived_mem_cached d"
  by (simp_all add: derive_used_def Let_def)

lemma derive_high_low_keeps [simp]:
  "md_MemTotal (derive_high_low d) = md_MemTotal d"
  "md_MemFree (derive_high_low d) = md_MemFree d"
  "md_Buffers (derive_high_low d) = md_Buffers d"
  "md_Cached (derive_high_low d) = md_Cached d"
  "md_SReclaimable (derive_high_low d) = md_SReclaimable d"
  "md_SwapTotal (derive_high_low d) = md_SwapTotal d"
  "md_SwapFree (derive_high_low d) = md_SwapFree d"
  "md_MemAvailable (derive_high_low d) = md_MemAvailable d"
  "md_derived_mem_cached (derive_high_low d) = md_derived_mem_cached d"
  "md_derived_mem_used (derive_high_low d) = md_derived_mem_used d"
  by (simp_all add: derive_high_low_def Let_def)

lemma derive_swap_keeps [simp]:
  "md_MemTotal (derive_swap d) = md_MemTotal d"
  "md_MemFree (derive_swap d) = md_MemFree d"
  "md_Buffers (derive_swap d) = md_Buffers d"
  "md_Cached (derive_swap d) = md_Cached d"
  "md_SReclaimable (derive_swap d) = md_SReclaimable d"
  "md_SwapTotal (derive_swap d) = md_SwapTotal d"
  "md_SwapFree (derive_swap d) = md_SwapFree d"
  "md_MemAvailable (derive_swap d) = md_MemAvailable d"
  "md_derived_mem_cached (derive_swap d) = md_derived_mem_cached d"
  "md_derived_mem_used (derive_swap d) = md_derived_mem_used d"
  by (simp_all add: derive_swap_def Let_def)

lemma mem_derive_read [simp]:
  "md_MemTotal (mem_derive d) = md_MemTotal d" "md_MemFree (mem_derive d) = md_MemFree d"
  "md_Buffers (mem_derive d) = md_Buffers d" "md_Cached (mem_derive d) = md_Cached d"
  "md_SReclaimable (mem_derive d) = md_SReclaimable d" "md_SwapTotal (mem_derive d) = md_SwapTotal d"
  "md_SwapFree (mem_derive d) = md_SwapFree d"
  by (simp_all add: mem_derive_def)

lemma derive_available_values [simp]:
  "md_derived_mem_cached (derive_available d) = md_Cached d + md_SReclaimable d"
  "md_MemAvailable (derive_available d) =
     (if md_MemAvailable d = 0 \<or> md_MemTotal d < md_MemAvailable d then md_MemFree d else md_MemAvailable d)"
  by (simp_all add: derive_available_def Let_def)

lemma mem_derive_cached: "md_derived_mem_cached (mem_derive d) = md_Cached d + md_SReclaimable d"
  by (simp add: mem_derive_def)

lemma mem_derive_used:
  "md_derived_mem_used (mem_derive d) =
     (if sint (md_MemTotal d - md_MemFree d - (md_Cached d + md_SReclaimable d) - md_Buffers d) < 0
      then md_MemTotal d - md_MemFree d
      else md_MemTotal d - md_MemFree d - (md_Cached d + md_SReclaimable d) - md_Buffers d)"
proof -
  have "md_derived_mem_used (mem_derive d) = md_derived_mem_used (derive_used (derive_available d))"
    by (simp add: mem_derive_def)
  then show ?thesis by (simp only: derive_used_def Let_def derive_available_keeps derive_available_values) simp
qed

lemma mem_derive_available:
  "md_MemAvailable (mem_derive d) =
     (if md_MemAvailable d = 0 \<or> md_MemTotal d < md_MemAvailable d then md_MemFree d else md_MemAvailable d)"
  by (simp add: mem_derive_def)

lemma mem_derive_swap:
  "md_derived_swap_used (mem_derive d) =
     (if md_SwapFree d < md_SwapTotal d then md_SwapTotal d - md_SwapFree d else 0)"
proof -
  have "md_derived_swap_used (mem_derive d) =
      md_derived_swap_used (derive_swap (derive_high_low (derive_used (derive_available d))))"
    by (simp add: mem_derive_def)
  also have "\<dots> = (if md_SwapFree d < md_SwapTotal d then md_SwapTotal d - md_SwapFree d else 0)"
    by (simp add: derive_swap_def [of "derive_high_low _"])
  finally show ?thesis .
qed

text \<open>
  A system whose free memory is part of its total, with numbers of kilobytes far below the range
  of a \<open>long\<close>.
\<close>

definition plausible :: "meminfo_data \<Rightarrow> bool" where
  "plausible d \<longleftrightarrow> md_MemFree d \<le> md_MemTotal d \<and> uint (md_MemTotal d) < 2 ^ 61
     \<and> uint (md_Cached d) < 2 ^ 61 \<and> uint (md_SReclaimable d) < 2 ^ 61 \<and> uint (md_Buffers d) < 2 ^ 61"

lemma cached_sum:
  "plausible d \<Longrightarrow> uint (md_Cached d + md_SReclaimable d) = uint (md_Cached d) + uint (md_SReclaimable d)"
  using uint_ge_0 [of "md_Cached d"] uint_ge_0 [of "md_SReclaimable d"]
  by (simp add: plausible_def uint_word_ariths)

lemma plausible_used:
  assumes "plausible d"
  defines "k \<equiv> uint (md_MemTotal d) - uint (md_MemFree d) - (uint (md_Cached d) + uint (md_SReclaimable d)) - uint (md_Buffers d)"
  shows "uint (md_derived_mem_used (mem_derive d)) = (if k < 0 then uint (md_MemTotal d) - uint (md_MemFree d) else k)"
proof -
  let ?t = "md_MemTotal d" and ?f = "md_MemFree d" and ?c = "md_Cached d + md_SReclaimable d" and ?b = "md_Buffers d"
  have f: "uint ?f < 2 ^ 61" "uint ?f \<le> uint ?t" using assms(1) by (auto simp: plausible_def word_le_def)
  have k: "sint (?t - ?f - ?c - ?b) = k"
    using assms(1) f cached_sum [OF assms(1)] long_difference [of ?t ?f ?c ?b]
    by (simp add: plausible_def k_def)
  show ?thesis
  proof (cases "k < 0")
    case True
    moreover have "uint (?t - ?f) = uint ?t - uint ?f" using f(2) uint_sub_lem by blast
    ultimately show ?thesis using k by (simp add: mem_derive_used)
  next
    case False
    then have "uint (?t - ?f - ?c - ?b) = k"
      using long_difference_pos [of ?t ?f ?c ?b] assms(1) cached_sum [OF assms(1)]
      by (simp add: plausible_def k_def)
    then show ?thesis using False k by (simp add: mem_derive_used)
  qed
qed

text \<open>
  In a consistent system used, free, cached (with the reclaimable slabs) and buffers make the total.
\<close>

theorem meminfo_used_adds_up:
  assumes "plausible d"
    and "uint (md_MemFree d) + uint (md_Cached d) + uint (md_SReclaimable d) + uint (md_Buffers d) \<le> uint (md_MemTotal d)"
  shows "uint (md_derived_mem_used (mem_derive d)) + uint (md_MemFree (mem_derive d))
      + uint (md_derived_mem_cached (mem_derive d)) + uint (md_Buffers (mem_derive d))
    = uint (md_MemTotal (mem_derive d))"
  using plausible_used [OF assms(1)] assms(2) cached_sum [OF assms(1)] by (simp add: mem_derive_cached)

theorem meminfo_values_bounded:
  assumes "plausible d"
  shows "md_derived_mem_used (mem_derive d) \<le> md_MemTotal (mem_derive d)
    \<and> md_MemAvailable (mem_derive d) \<le> md_MemTotal (mem_derive d)
    \<and> md_derived_swap_used (mem_derive d) \<le> md_SwapTotal (mem_derive d)"
proof (intro conjI)
  note pos = uint_ge_0 [of "md_MemFree d"] uint_ge_0 [of "md_Cached d"] uint_ge_0 [of "md_SReclaimable d"]
    uint_ge_0 [of "md_Buffers d"] uint_ge_0 [of "md_SwapFree d"]
  show "md_derived_mem_used (mem_derive d) \<le> md_MemTotal (mem_derive d)"
    unfolding word_le_def plausible_used [OF assms] mem_derive_read using pos by (split if_split, intro conjI impI; linarith)
  show "md_MemAvailable (mem_derive d) \<le> md_MemTotal (mem_derive d)"
    using assms by (auto simp: mem_derive_available plausible_def)
  have "uint (md_SwapTotal d - md_SwapFree d) = uint (md_SwapTotal d) - uint (md_SwapFree d)"
    if "md_SwapFree d < md_SwapTotal d"
    using that uint_sub_lem [of "md_SwapFree d" "md_SwapTotal d"] by (auto simp: word_less_def)
  then show "md_derived_swap_used (mem_derive d) \<le> md_SwapTotal (mem_derive d)"
    using pos by (auto simp: mem_derive_swap word_le_def)
qed

subsection \<open>Differences\<close>

lemma cast_int_mod64: "cast_int (k mod 2 ^ 64) = cast_int k"
proof -
  have "k mod 2 ^ 64 mod 2 ^ 32 = k mod 2 ^ 32" by (rule mod_mod_cancel) simp
  then show ?thesis unfolding cast_int_def by (metis mod_add_left_eq)
qed

text \<open>A difference is exact precisely when it fits an \<open>int\<close>.\<close>

theorem meminfo_delta_exact_iff:
  "HST_set x H v = S_int (uint (x (fh_new H)) - uint (x (fh_old H))) \<longleftrightarrow>
     - (2 ^ 31) \<le> uint (x (fh_new H)) - uint (x (fh_old H)) \<and> uint (x (fh_new H)) - uint (x (fh_old H)) < 2 ^ 31"
proof -
  let ?k = "uint (x (fh_new H)) - uint (x (fh_old H))"
  have "uint (x (fh_new H) - x (fh_old H)) = ?k mod 2 ^ 64" by (simp add: uint_word_ariths)
  then have "HST_set x H v = S_int (cast_int ?k)" by (simp only: HST_set_def cast_int_mod64)
  moreover have "cast_int ?k = ?k \<longleftrightarrow> - (2 ^ 31) \<le> ?k \<and> ?k < 2 ^ 31"
    using cast_int_id [of ?k] cast_int_bounds [of ?k] by metis
  ultimately show ?thesis by (simp only: rval.inject)
qed

subsection \<open>Select\<close>

lemma kind_simps [simp]:
  "fk_rows meminfo_kind = meminfo_rows" "fk_bufsiz meminfo_kind = MEMINFO_BUFF" "fk_zero meminfo_kind = no_data"
  "fk_parse meminfo_kind = (\<lambda>buf. mem_derive (mem_lines (cstr buf) no_data))"
  by (simp_all add: meminfo_kind_def)

definition read_succeeds :: "string \<Rightarrow> read_env \<Rightarrow> bool" where
  "read_succeeds = file_reads meminfo_kind"

definition fresh_hist :: "string \<Rightarrow> meminfo_info \<Rightarrow> mem_hist" where
  "fresh_hist buf info = \<lparr>fh_new = mem_derive (mem_lines (cstr buf) no_data), fh_old = fh_new (fi_hist info)\<rparr>"

lemma hist_after_meminfo: "hist_after meminfo_kind = fresh_hist"
  by (simp add: fun_eq_iff hist_after_def fresh_hist_def)

text \<open>What holds of the stacks between two calls.\<close>

definition mem_stacks_ok :: "ext_support \<Rightarrow> bool" where
  "mem_stacks_ok = one_stack meminfo_rows"

text \<open>
  With memory at hand and a readable file, a \<open>select\<close> returns a stack with the items asked for, in
  order, each set from the numbers just read, whatever was selected before.
\<close>

theorem meminfo_select_fills:
  assumes "mem_stacks_ok (fi_stacks info)"
    and "\<not> meminfo_items_check_failed n items" "n \<le> int (length (snd items))"
    and "se_realloc_ok e" "se_alloc_ok e" "read_succeeds buf (se_read e)"
  shows "\<exists>s info' w'. procps_meminfo_select e (Some items) n (Some info, w) = Some (Some s, Some info', w')
    \<and> fi_hist info' = fresh_hist buf info
    \<and> filled meminfo_rows (take (nat n) (snd items)) (fi_hist info') s
    \<and> mem_stacks_ok (fi_stacks info')"
  using file_select_fills [of meminfo_kind info n items e buf w] assms
  by (simp add: mem_stacks_ok_def meminfo_items_check_failed_def read_succeeds_def procps_meminfo_select_def
      hist_after_meminfo length_meminfo_rows)

text \<open>
  The items of the last call are lost when they cannot be given more room; a later call for as
  many items as before compares with them all the same.
\<close>

theorem meminfo_select_null_compare:
  assumes "configured meminfo_rows old (fi_stacks info)"
    and "\<not> meminfo_items_check_failed n items" "nat n \<noteq> length old" "\<not> se_realloc_ok e"
    and "\<not> meminfo_items_check_failed m items2" "nat m = length old"
  shows "\<exists>info'. procps_meminfo_select e (Some items) n (Some info, w) = Some (None, Some info', w)
    \<and> procps_meminfo_select e2 (Some items2) m (Some info', w2) = None"
  using file_select_null_compare [of meminfo_kind old info n items e m items2 w e2 w2] assms
  by (simp add: meminfo_items_check_failed_def procps_meminfo_select_def length_meminfo_rows)

subsection \<open>References and resources\<close>

interpretation mem_refs: refcounted procps_meminfo_ref procps_meminfo_unref file_refs file_held
  unfolding procps_meminfo_ref_def procps_meminfo_unref_def by (rule file_count.refcounted_axioms)

text \<open>The structure lives exactly as long as references are left, and never comes back.\<close>

theorem meminfo_released_when_unreferenced:
  assumes "procps_meminfo_new e (Some None) w = (0, Some (Some info), w')"
  shows "fst (ref_run procps_meminfo_ref procps_meminfo_unref bs (Some info, w')) = None \<longleftrightarrow> refs_left bs 1 = 0"
  using assms unfolding procps_meminfo_ref_def procps_meminfo_unref_def procps_meminfo_new_def by (rule file_released)

text \<open>The calls a program may make, with memory for the items of a \<open>select\<close> at hand.\<close>

inductive meminfo_step :: "meminfo_info option \<times> world \<Rightarrow> meminfo_info option \<times> world \<Rightarrow> bool" where
  ref: "procps_meminfo_ref s = (r, s') \<Longrightarrow> meminfo_step s s'"
| unref: "procps_meminfo_unref s = (r, s') \<Longrightarrow> meminfo_step s s'"
| get: "procps_meminfo_get e secs it s = (r, s') \<Longrightarrow> meminfo_step s s'"
| select: "procps_meminfo_select e items n s = Some (r, s') \<Longrightarrow> se_realloc_ok e \<Longrightarrow> meminfo_step s s'"

lemma meminfo_step_file: "meminfo_step s s' \<Longrightarrow> file_step meminfo_kind s s'"
  by (induction rule: meminfo_step.induct)
    (simp_all only: procps_meminfo_ref_def procps_meminfo_unref_def procps_meminfo_get_def procps_meminfo_select_def,
      auto intro: file_step.intros)

text \<open>
  C27. Whatever is called after \<open>new\<close>, the heap is balanced once the structure is gone, and the
  descriptor of the file stays open for good.
\<close>

theorem meminfo_descriptor_leaks:
  assumes "procps_meminfo_new e (Some None) w = (0, Some (Some info), w1)"
    and "meminfo_step\<^sup>*\<^sup>* (Some info, w1) (None, w2)"
  shows "w_blocks w2 = w_blocks w \<and> w_fds w2 = w_fds w + 1"
proof (rule file_descriptor_leaks)
  show "file_new meminfo_kind e (Some None) w = (0, Some (Some info), w1)"
    using assms(1) by (simp only: procps_meminfo_new_def)
  show "(file_step meminfo_kind)\<^sup>*\<^sup>* (Some info, w1) (None, w2)"
    using assms(2) meminfo_step_file by (metis mono_rtranclp)
qed

subsection \<open>A small system\<close>

definition meminfo_sample :: "(string \<times> nat \<times> nat \<times> string) list" where
  "meminfo_sample =
    [(''MemTotal'', 8, 9000, '' kB''), (''MemFree'', 9, 1000, '' kB''), (''MemAvailable'', 4, 5000, '' kB''),
     (''Buffers'', 9, 500, '' kB''), (''Cached'', 10, 2500, '' kB''), (''SReclaimable'', 3, 300, '' kB''),
     (''HugePages_Total'', 3, 0, [])]"

definition sample_text :: string where
  "sample_text = concat (map kernel_line meminfo_sample)"

definition sample_read :: read_env where
  "sample_read = \<lparr>re_open = None, re_lseek = None, re_reads = [RdData sample_text]\<rparr>"

definition sample_new :: new_env where
  "sample_new = \<lparr>ne_calloc_ok = True, ne_hcreate = None, ne_enter = None, ne_read = sample_read\<rparr>"

definition sample_select :: select_env where
  "sample_select = \<lparr>se_realloc_ok = True, se_alloc_ok = True, se_read = sample_read\<rparr>"

definition sample_data :: meminfo_data where
  "sample_data = fold line_effect meminfo_sample no_data"

definition world0 :: world where
  "world0 = \<lparr>w_fds = 0, w_blocks = 0\<rparr>"

lemma meminfo_sample_ok: "list_all kernel_line_ok meminfo_sample"
  by (simp add: meminfo_sample_def kernel_line_ok_def)

lemma sample_text_bounds: "sample_text \<noteq> []" "length sample_text < MEMINFO_BUFF"
  by (simp_all add: sample_text_def meminfo_sample_def kernel_line_def MEMINFO_BUFF_def show_nat.simps)

lemma sample_keys:
  "map_of meminfo_hash ''MemTotal'' = Some (\<lambda>v d. d\<lparr>md_MemTotal := v\<rparr>)"
  "map_of meminfo_hash ''MemFree'' = Some (\<lambda>v d. d\<lparr>md_MemFree := v\<rparr>)"
  "map_of meminfo_hash ''MemAvailable'' = Some (\<lambda>v d. d\<lparr>md_MemAvailable := v\<rparr>)"
  "map_of meminfo_hash ''Buffers'' = Some (\<lambda>v d. d\<lparr>md_Buffers := v\<rparr>)"
  "map_of meminfo_hash ''Cached'' = Some (\<lambda>v d. d\<lparr>md_Cached := v\<rparr>)"
  "map_of meminfo_hash ''SReclaimable'' = Some (\<lambda>v d. d\<lparr>md_SReclaimable := v\<rparr>)"
  "map_of meminfo_hash ''HugePages_Total'' = Some (\<lambda>v d. d\<lparr>md_HugePages_Total := v\<rparr>)"
  by (simp_all add: meminfo_hash_def)

lemma sample_values:
  "md_MemTotal sample_data = 9000" "md_MemFree sample_data = 1000" "md_Cached sample_data = 2500"
  "md_SReclaimable sample_data = 300" "md_Buffers sample_data = 500"
  by (simp_all add: sample_data_def meminfo_sample_def line_effect_def sample_keys)

lemma sample_plausible: "plausible sample_data"
  by (simp add: plausible_def sample_values)

lemma sample_succeeds: "read_succeeds sample_text sample_read"
  using sample_text_bounds by (simp add: read_succeeds_def file_reads_def sample_read_def MEMINFO_BUFF_def)

theorem meminfo_kernel_text_witness:
  "\<exists>w'. meminfo_read_failed sample_read fresh_info world0 =
    (None,
     fresh_info\<lparr>fi_fd_open := True,
       fi_hist := \<lparr>fh_new = mem_derive (fold line_effect meminfo_sample no_data), fh_old = fh_new (fi_hist fresh_info)\<rparr>\<rparr>, w')"
proof (rule meminfo_kernel_text)
  show "list_all kernel_line_ok meminfo_sample" by (rule meminfo_sample_ok)
  show "meminfo_sample \<noteq> []" by (simp add: meminfo_sample_def)
  show "length (concat (map kernel_line meminfo_sample)) < MEMINFO_BUFF"
    by (rule sample_text_bounds(2) [unfolded sample_text_def])
  show "reads_text (concat (map kernel_line meminfo_sample)) sample_read"
    by (simp add: reads_text_def sample_read_def sample_text_def)
qed

theorem meminfo_used_adds_up_witness:
  "uint (md_derived_mem_used (mem_derive sample_data)) + uint (md_MemFree (mem_derive sample_data))
      + uint (md_derived_mem_cached (mem_derive sample_data)) + uint (md_Buffers (mem_derive sample_data))
    = uint (md_MemTotal (mem_derive sample_data))"
  by (rule meminfo_used_adds_up [OF sample_plausible]) (simp add: sample_values)

theorem meminfo_values_bounded_witness:
  "md_derived_mem_used (mem_derive sample_data) \<le> md_MemTotal (mem_derive sample_data)
    \<and> md_MemAvailable (mem_derive sample_data) \<le> md_MemTotal (mem_derive sample_data)
    \<and> md_derived_swap_used (mem_derive sample_data) \<le> md_SwapTotal (mem_derive sample_data)"
  by (rule meminfo_values_bounded [OF sample_plausible])

lemma fresh_stacks_ok: "mem_stacks_ok (fi_stacks fresh_info)"
  by (simp add: mem_stacks_ok_def one_stack_def fresh_info_def fresh_file_def no_ext_def)

lemma sample_items_ok: "\<not> meminfo_items_check_failed 2 (4096, [55, 22])"
  by (simp add: meminfo_items_check_failed_def items_check_failed_def MEMINFO_logical_end_def meminfo_tables)

theorem meminfo_select_fills_witness:
  "\<exists>s info' w'. procps_meminfo_select sample_select (Some (4096, [55, 22])) 2 (Some fresh_info, world0)
      = Some (Some s, Some info', w')
    \<and> fi_hist info' = fresh_hist sample_text fresh_info
    \<and> filled meminfo_rows (take (nat 2) (snd (4096 :: nat, [55, 22]))) (fi_hist info') s
    \<and> mem_stacks_ok (fi_stacks info')"
  by (rule meminfo_select_fills [OF fresh_stacks_ok sample_items_ok])
    (simp_all add: sample_select_def sample_succeeds)

text \<open>One reference, no more calls: the descriptor is still open.\<close>

lemma sample_new_runs:
  obtains info w1 where "procps_meminfo_new sample_new (Some None) world0 = (0, Some (Some info), w1)"
proof -
  have "file_reads meminfo_kind sample_text sample_read" using sample_succeeds by (simp add: read_succeeds_def)
  then obtain info w1 where "file_read_failed meminfo_kind sample_read (fresh_file meminfo_kind)
      (world0\<lparr>w_blocks := w_blocks world0 + 2\<rparr>) = (None, info, w1)"
    using file_readsD by blast
  then show thesis using that by (simp add: procps_meminfo_new_def file_new_def sample_new_def)
qed

theorem meminfo_descriptor_leaks_witness:
  "\<exists>info w1 w2. procps_meminfo_new sample_new (Some None) world0 = (0, Some (Some info), w1)
    \<and> meminfo_step\<^sup>*\<^sup>* (Some info, w1) (None, w2) \<and> w_blocks w2 = 0 \<and> w_fds w2 = 1"
proof -
  obtain info w1 where n: "procps_meminfo_new sample_new (Some None) world0 = (0, Some (Some info), w1)"
    by (rule sample_new_runs)
  obtain w2 where "procps_meminfo_unref (Some info, w1) = (0, None, w2)"
    using new_info [OF n [unfolded procps_meminfo_new_def]] by (simp add: procps_meminfo_unref_def file_unref_def Let_def)
  then have s: "meminfo_step\<^sup>*\<^sup>* (Some info, w1) (None, w2)" by (auto intro: meminfo_step.unref)
  have "w_blocks w2 = 0 \<and> w_fds w2 = 1"
    using meminfo_descriptor_leaks [OF n s] by (simp add: world0_def)
  then show ?thesis using n s by blast
qed

theorem meminfo_released_when_unreferenced_witness:
  "\<exists>info w1. procps_meminfo_new sample_new (Some None) world0 = (0, Some (Some info), w1)
    \<and> fst (ref_run procps_meminfo_ref procps_meminfo_unref [True, False, False, True] (Some info, w1)) = None"
proof -
  obtain info w1 where n: "procps_meminfo_new sample_new (Some None) world0 = (0, Some (Some info), w1)"
    by (rule sample_new_runs)
  have "fst (ref_run procps_meminfo_ref procps_meminfo_unref [True, False, False, True] (Some info, w1)) = None"
    using meminfo_released_when_unreferenced [OF n, of "[True, False, False, True]"] by simp
  then show ?thesis using n by blast
qed

text \<open>The structure after a \<open>select\<close> of two items, and one that finds no memory for a third.\<close>

definition selected_info :: meminfo_info where
  "selected_info = fresh_info\<lparr>fi_stacks :=
     \<lparr>es_num = 3, es_items = Some ([55, 22] @ [length meminfo_rows]), es_extents = []\<rparr>\<rparr>"

theorem meminfo_select_null_compare_witness:
  "\<exists>info'. procps_meminfo_select (sample_select\<lparr>se_realloc_ok := False\<rparr>) (Some (4096, [55])) 1 (Some selected_info, world0)
      = Some (None, Some info', world0)
    \<and> procps_meminfo_select sample_select (Some (4096, [55, 22])) 2 (Some info', world0) = None"
  by (rule meminfo_select_null_compare [of "[55, 22]"])
    (simp_all add: selected_info_def configured_def sample_items_ok meminfo_items_check_failed_def
      items_check_failed_def MEMINFO_logical_end_def meminfo_tables)

end
