(* ===== verification/Diskstats.thy ===== *)
theory Diskstats
  imports Stacks Scanf
begin

text \<open>
  \<^verbatim>\<open>procps/linux/diskstats.c\<close>: the table of block devices, kept from one read of
  \<^verbatim>\<open>/proc/diskstats\<close> to the next, and the interface \<open>new\<close>, \<open>ref\<close>, \<open>unref\<close>,
  \<open>get\<close>, \<open>reap\<close>, \<open>select\<close>, \<open>sort\<close>.

  The linked list of nodes is the list of their contents, a node's address its place in it. The
  file, \<^verbatim>\<open>/sys/block\<close>, the clock, the allocator and \<open>strverscmp\<close> are parameters.
\<close>

subsection \<open>Data\<close>

definition DISKSTATS_LINE_LEN :: nat where
  "DISKSTATS_LINE_LEN = 1024"

definition DISKSTATS_NAME_LEN :: nat where
  "DISKSTATS_NAME_LEN = 34"

definition DISKSTATS_TYPE_DISK :: int where
  "DISKSTATS_TYPE_DISK = - 11111"

definition DISKSTATS_TYPE_PARTITION :: int where
  "DISKSTATS_TYPE_PARTITION = - 22222"

record dev_data =
  dd_reads :: ulong
  dd_reads_merged :: ulong
  dd_read_sectors :: ulong
  dd_read_time :: ulong
  dd_writes :: ulong
  dd_writes_merged :: ulong
  dd_write_sectors :: ulong
  dd_write_time :: ulong
  dd_io_inprogress :: ulong
  dd_io_time :: ulong
  dd_io_wtime :: ulong

record dev_node =
  dn_name :: string
  dn_type :: int
  dn_major :: int
  dn_minor :: int
  dn_stamped :: int
  dn_new :: dev_data
  dn_old :: dev_data

definition zero_data :: dev_data where
  "zero_data =
     \<lparr>dd_reads = 0, dd_reads_merged = 0, dd_read_sectors = 0, dd_read_time = 0, dd_writes = 0, dd_writes_merged = 0,
      dd_write_sectors = 0, dd_write_time = 0, dd_io_inprogress = 0, dd_io_time = 0, dd_io_wtime = 0\<rparr>"

definition zero_node :: dev_node where
  "zero_node =
     \<lparr>dn_name = [], dn_type = 0, dn_major = 0, dn_minor = 0, dn_stamped = 0, dn_new = zero_data, dn_old = zero_data\<rparr>"

record diskstats_info =
  di_refcount :: int
  di_fp :: bool
  di_old_stamp :: int
  di_new_stamp :: int
  di_nodes :: "dev_node list"
  di_select_ext :: ext_support
  di_fetch_ext :: ext_support
  di_fetch :: fetch_support
  di_get_this :: result_cell

subsection \<open>Setting results\<close>

definition REG_set :: "(dev_data \<Rightarrow> ulong) \<Rightarrow> dev_node \<Rightarrow> rval \<Rightarrow> rval" where
  "REG_set x N v = Ul_int (x (dn_new N))"

definition disk_HST_set :: "(dev_data \<Rightarrow> ulong) \<Rightarrow> dev_node \<Rightarrow> rval \<Rightarrow> rval" where
  "disk_HST_set x N v = S_int (cast_int (uint (x (dn_new N) - x (dn_old N))))"

definition diskstats_sets :: "(string \<times> (dev_node \<Rightarrow> rval \<Rightarrow> rval)) list" where
  "diskstats_sets =
    [(''noop'', set_noop), (''extra'', \<lambda>N v. Ul_int 0),
     (''NAME'', \<lambda>N v. Str (dn_name N)), (''TYPE'', \<lambda>N v. S_int (dn_type N)),
     (''MAJOR'', \<lambda>N v. S_int (dn_major N)), (''MINOR'', \<lambda>N v. S_int (dn_minor N)),
     (''READS'', REG_set dd_reads), (''READS_MERGED'', REG_set dd_reads_merged),
     (''READ_SECTORS'', REG_set dd_read_sectors), (''READ_TIME'', REG_set dd_read_time),
     (''WRITES'', REG_set dd_writes), (''WRITES_MERGED'', REG_set dd_writes_merged),
     (''WRITE_SECTORS'', REG_set dd_write_sectors), (''WRITE_TIME'', REG_set dd_write_time),
     (''IO_TIME'', REG_set dd_io_time), (''WEIGHTED_TIME'', REG_set dd_io_wtime),
     (''IO_INPROGRESS'', \<lambda>N v. S_int (cast_int (uint (dd_io_inprogress (dn_new N))))),
     (''DELTA_READS'', disk_HST_set dd_reads), (''DELTA_READS_MERGED'', disk_HST_set dd_reads_merged),
     (''DELTA_READ_SECTORS'', disk_HST_set dd_read_sectors), (''DELTA_READ_TIME'', disk_HST_set dd_read_time),
     (''DELTA_WRITES'', disk_HST_set dd_writes), (''DELTA_WRITES_MERGED'', disk_HST_set dd_writes_merged),
     (''DELTA_WRITE_SECTORS'', disk_HST_set dd_write_sectors), (''DELTA_WRITE_TIME'', disk_HST_set dd_write_time),
     (''DELTA_IO_TIME'', disk_HST_set dd_io_time), (''DELTA_WEIGHTED_TIME'', disk_HST_set dd_io_wtime)]"

text \<open>The table: the name, the comparison function, the type.\<close>

definition diskstats_table :: "(string \<times> sort_kind \<times> string) list" where
  "diskstats_table =
    [(''noop'', Q_noop, ''''), (''extra'', Q_ul_int, ''''),
     (''NAME'', Q_str, ''str''), (''TYPE'', Q_s_int, ''s_int''), (''MAJOR'', Q_s_int, ''s_int''),
     (''MINOR'', Q_s_int, ''s_int''),
     (''READS'', Q_ul_int, ''ul_int''), (''READS_MERGED'', Q_ul_int, ''ul_int''),
     (''READ_SECTORS'', Q_ul_int, ''ul_int''), (''READ_TIME'', Q_ul_int, ''ul_int''),
     (''WRITES'', Q_ul_int, ''ul_int''), (''WRITES_MERGED'', Q_ul_int, ''ul_int''),
     (''WRITE_SECTORS'', Q_ul_int, ''ul_int''), (''WRITE_TIME'', Q_ul_int, ''ul_int''),
     (''IO_TIME'', Q_ul_int, ''ul_int''), (''WEIGHTED_TIME'', Q_ul_int, ''ul_int''),
     (''IO_INPROGRESS'', Q_s_int, ''s_int''),
     (''DELTA_READS'', Q_s_int, ''s_int''), (''DELTA_READS_MERGED'', Q_s_int, ''s_int''),
     (''DELTA_READ_SECTORS'', Q_s_int, ''s_int''), (''DELTA_READ_TIME'', Q_s_int, ''s_int''),
     (''DELTA_WRITES'', Q_s_int, ''s_int''), (''DELTA_WRITES_MERGED'', Q_s_int, ''s_int''),
     (''DELTA_WRITE_SECTORS'', Q_s_int, ''s_int''), (''DELTA_WRITE_TIME'', Q_s_int, ''s_int''),
     (''DELTA_IO_TIME'', Q_s_int, ''s_int''), (''DELTA_WEIGHTED_TIME'', Q_s_int, ''s_int'')]"

definition diskstats_item :: "(string \<times> string) list" where
  "diskstats_item =
    [(''noop'', ''''), (''extra'', ''''), (''NAME'', ''str''), (''TYPE'', ''s_int''), (''MAJOR'', ''s_int''),
     (''MINOR'', ''s_int''), (''READS'', ''ul_int''), (''READS_MERGED'', ''ul_int''), (''READ_SECTORS'', ''ul_int''),
     (''READ_TIME'', ''ul_int''), (''WRITES'', ''ul_int''), (''WRITES_MERGED'', ''ul_int''),
     (''WRITE_SECTORS'', ''ul_int''), (''WRITE_TIME'', ''ul_int''), (''IO_TIME'', ''ul_int''),
     (''WEIGHTED_TIME'', ''ul_int''), (''IO_INPROGRESS'', ''s_int''), (''DELTA_READS'', ''s_int''),
     (''DELTA_READS_MERGED'', ''s_int''), (''DELTA_READ_SECTORS'', ''s_int''), (''DELTA_READ_TIME'', ''s_int''),
     (''DELTA_WRITES'', ''s_int''), (''DELTA_WRITES_MERGED'', ''s_int''), (''DELTA_WRITE_SECTORS'', ''s_int''),
     (''DELTA_WRITE_TIME'', ''s_int''), (''DELTA_IO_TIME'', ''s_int''), (''DELTA_WEIGHTED_TIME'', ''s_int'')]"

definition diskstats_rows :: "dev_node row list" where
  "diskstats_rows = map2 (\<lambda>(nm, q, ty) (nm', f). (nm, f, ty)) diskstats_table diskstats_sets"

definition DISKSTATS_logical_end :: nat where
  "DISKSTATS_logical_end = length diskstats_table"

subsection \<open>Nodes\<close>

definition node_add :: "diskstats_info \<Rightarrow> dev_node \<Rightarrow> diskstats_info" where
  "node_add info this = info\<lparr>di_nodes := di_nodes info @ [this]\<rparr>"

text \<open>The entries of \<^verbatim>\<open>/sys/block\<close>, or \<open>None\<close> when it cannot be read.\<close>

definition node_classify :: "string list option \<Rightarrow> dev_node \<Rightarrow> dev_node" where
  "node_classify sysblock this =
     (case sysblock of
        None \<Rightarrow> this\<lparr>dn_type := DISKSTATS_TYPE_DISK\<rparr>
      | Some ents \<Rightarrow>
          this\<lparr>dn_type := (if dn_name this \<in> set ents then DISKSTATS_TYPE_DISK else DISKSTATS_TYPE_PARTITION)\<rparr>)"

definition node_cut :: "diskstats_info \<Rightarrow> nat \<Rightarrow> diskstats_info" where
  "node_cut info k = info\<lparr>di_nodes := take k (di_nodes info) @ drop (Suc k) (di_nodes info)\<rparr>"

fun find_node :: "string \<Rightarrow> nat \<Rightarrow> dev_node list \<Rightarrow> nat option" where
  "find_node name k [] = None"
| "find_node name k (n # ns) = (if name = dn_name n then Some k else find_node name (Suc k) ns)"

definition node_get :: "diskstats_info \<Rightarrow> string \<Rightarrow> nat option \<times> diskstats_info" where
  "node_get info name =
     (case find_node name 0 (di_nodes info) of
        None \<Rightarrow> (None, info)
      | Some k \<Rightarrow>
          if dn_stamped (di_nodes info ! k) \<noteq> di_old_stamp info \<and> dn_stamped (di_nodes info ! k) \<noteq> di_new_stamp info
          then (None, node_cut info k)
          else (Some k, info))"

record disk_env =
  de_fopen :: "int option"      \<comment> \<open>\<open>errno\<close> if \<open>fopen\<close> fails\<close>
  de_fseek :: "int option"
  de_now :: int
  de_text :: string
  de_sysblock :: "string list option"
  de_malloc_ok :: "string \<Rightarrow> bool"

text \<open>False: no memory.\<close>

definition node_update :: "disk_env \<Rightarrow> diskstats_info \<Rightarrow> dev_node \<Rightarrow> bool \<times> diskstats_info" where
  "node_update e info source =
     (case node_get info (dn_name source) of
        (None, info1) \<Rightarrow>
          if \<not> de_malloc_ok e (dn_name source) then (False, info1)
          else (True, node_add info1 (node_classify (de_sysblock e) (source\<lparr>dn_old := dn_new source\<rparr>)))
      | (Some k, info1) \<Rightarrow>
          let target = di_nodes info1 ! k
          in (True, info1\<lparr>di_nodes :=
                (di_nodes info1)[k := source\<lparr>dn_old := dn_new target, dn_type := dn_type target\<rparr>]\<rparr>))"

subsection \<open>Reading\<close>

definition diskstats_fmt :: string where
  "diskstats_fmt = ''%d %d %34s %lu %lu %lu %lu %lu %lu %lu %lu %lu %lu %lu''"

definition diskstats_setters :: "(sval \<Rightarrow> dev_node \<Rightarrow> dev_node) list" where
  "diskstats_setters =
     [\<lambda>v n. n\<lparr>dn_major := sint_of v\<rparr>, \<lambda>v n. n\<lparr>dn_minor := sint_of v\<rparr>, \<lambda>v n. n\<lparr>dn_name := sstr_of v\<rparr>]
     @ map (\<lambda>f v n. n\<lparr>dn_new := f (sulong_of v) (dn_new n)\<rparr>)
     [\<lambda>x d. d\<lparr>dd_reads := x\<rparr>, \<lambda>x d. d\<lparr>dd_reads_merged := x\<rparr>, \<lambda>x d. d\<lparr>dd_read_sectors := x\<rparr>,
      \<lambda>x d. d\<lparr>dd_read_time := x\<rparr>, \<lambda>x d. d\<lparr>dd_writes := x\<rparr>, \<lambda>x d. d\<lparr>dd_writes_merged := x\<rparr>,
      \<lambda>x d. d\<lparr>dd_write_sectors := x\<rparr>, \<lambda>x d. d\<lparr>dd_write_time := x\<rparr>, \<lambda>x d. d\<lparr>dd_io_inprogress := x\<rparr>,
      \<lambda>x d. d\<lparr>dd_io_time := x\<rparr>, \<lambda>x d. d\<lparr>dd_io_wtime := x\<rparr>]"

definition parse_disk_line :: "string \<Rightarrow> dev_node option" where
  "parse_disk_line buf =
     (let vs = sscanf diskstats_fmt (cstr buf)
      in if length vs \<noteq> 14 then None else Some (assign diskstats_setters vs zero_node))"

text \<open>\<open>None\<close>, or \<open>errno\<close>.\<close>

fun disk_lines :: "disk_env \<Rightarrow> string list \<Rightarrow> diskstats_info \<Rightarrow> int option \<times> diskstats_info" where
  "disk_lines e [] info = (None, info)"
| "disk_lines e (l # ls) info =
     (case parse_disk_line l of
        None \<Rightarrow> (Some ERANGE, info)
      | Some node \<Rightarrow>
          (case node_update e info (node\<lparr>dn_stamped := di_new_stamp info\<rparr>) of
             (False, info1) \<Rightarrow> (Some ENOMEM, info1)
           | (True, info1) \<Rightarrow> disk_lines e ls info1))"

text \<open>With the number of open streams.\<close>

definition diskstats_read_failed :: "disk_env \<Rightarrow> diskstats_info \<Rightarrow> int \<Rightarrow> int option \<times> diskstats_info \<times> int" where
  "diskstats_read_failed e info w =
     (if \<not> di_fp info \<and> de_fopen e \<noteq> None then (de_fopen e, info, w)
      else
        let w1 = (if di_fp info then w else w + 1); info1 = info\<lparr>di_fp := True\<rparr>
        in case de_fseek e of
             Some err \<Rightarrow> (Some err, info1, w1)
           | None \<Rightarrow>
               (case disk_lines e (fgets_lines DISKSTATS_LINE_LEN (de_text e))
                       (info1\<lparr>di_old_stamp := di_new_stamp info1, di_new_stamp := de_now e\<rparr>) of
                  (r, info2) \<Rightarrow> (r, info2, w1)))"

subsection \<open>The shared functions\<close>

definition diskstats_assign_results :: "stack \<Rightarrow> dev_node \<Rightarrow> stack option" where
  "diskstats_assign_results s node = assign_results diskstats_rows node s"

definition diskstats_itemize_stack :: "nat \<Rightarrow> item list \<Rightarrow> stack" where
  "diskstats_itemize_stack = itemize_stack"

definition diskstats_items_check_failed :: "nat \<times> item list \<Rightarrow> int \<Rightarrow> bool" where
  "diskstats_items_check_failed items numitems = items_check_failed DISKSTATS_logical_end numitems items"

definition diskstats_extents_free_all :: "ext_support \<Rightarrow> ext_support" where
  "diskstats_extents_free_all = extents_free_all"

definition diskstats_stacks_alloc :: "bool \<Rightarrow> nat \<Rightarrow> ext_support \<Rightarrow> ext_support option" where
  "diskstats_stacks_alloc = stacks_alloc"

definition diskstats_stacks_fetch :: "fetch_env \<Rightarrow> diskstats_info \<Rightarrow> fetch_outcome" where
  "diskstats_stacks_fetch e info = stacks_fetch STACKS_INCR diskstats_rows e (di_nodes info) (di_fetch_ext info) (di_fetch info)"

definition diskstats_stacks_reconfig_maybe ::
  "bool \<Rightarrow> ext_support \<Rightarrow> nat \<times> item list \<Rightarrow> int \<Rightarrow> (int \<times> ext_support) option" where
  "diskstats_stacks_reconfig_maybe realloc_ok es items numitems =
     reconfig_maybe DISKSTATS_logical_end realloc_ok items numitems es"

subsection \<open>The interface\<close>

definition fresh_diskstats :: diskstats_info where
  "fresh_diskstats =
     \<lparr>di_refcount = 1, di_fp = False, di_old_stamp = 0, di_new_stamp = 0, di_nodes = [], di_select_ext = no_ext,
      di_fetch_ext = no_ext, di_fetch = no_fetch, di_get_this = \<lparr>rc_item = 0, rc_val = Zero\<rparr>\<rparr>"

definition procps_diskstats_ref :: "diskstats_info option \<times> int \<Rightarrow> int \<times> diskstats_info option \<times> int" where
  "procps_diskstats_ref = (\<lambda>(p, w).
     case p of
       None \<Rightarrow> (- EINVAL, None, w)
     | Some info \<Rightarrow> (di_refcount info + 1, Some (info\<lparr>di_refcount := di_refcount info + 1\<rparr>), w))"

definition procps_diskstats_unref :: "diskstats_info option \<times> int \<Rightarrow> int \<times> diskstats_info option \<times> int" where
  "procps_diskstats_unref = (\<lambda>(p, w).
     case p of
       None \<Rightarrow> (- EINVAL, None, w)
     | Some info \<Rightarrow>
         let info1 = info\<lparr>di_refcount := di_refcount info - 1\<rparr>
         in if di_refcount info1 < 1 then (0, None, if di_fp info1 then w - 1 else w)
            else (di_refcount info1, Some info1, w))"

definition procps_diskstats_new ::
  "bool \<Rightarrow> disk_env \<Rightarrow> diskstats_info option option \<Rightarrow> int \<Rightarrow> int \<times> diskstats_info option option \<times> int" where
  "procps_diskstats_new calloc_ok e slot w =
     (if slot \<noteq> Some None then (- EINVAL, slot, w)
      else if \<not> calloc_ok then (- ENOMEM, slot, w)
      else case diskstats_read_failed e fresh_diskstats w of
             (Some err, p, w1) \<Rightarrow> (case procps_diskstats_unref (Some p, w1) of (_, _, w2) \<Rightarrow> (- err, slot, w2))
           | (None, p, w1) \<Rightarrow> (0, Some (Some p), w1))"

definition procps_diskstats_get ::
  "disk_env \<Rightarrow> string \<Rightarrow> item \<Rightarrow> diskstats_info option \<times> int \<Rightarrow> result_cell option \<times> diskstats_info option \<times> int" where
  "procps_diskstats_get e name it = (\<lambda>(p, w).
     case p of
       None \<Rightarrow> (None, None, w)
     | Some info \<Rightarrow>
         if DISKSTATS_logical_end \<le> it then (None, Some info, w)
         else case (if 1 \<le> de_now e - di_new_stamp info then diskstats_read_failed e info w else (None, info, w)) of
                (Some err, info1, w1) \<Rightarrow> (None, Some info1, w1)
              | (None, info1, w1) \<Rightarrow>
                  let info2 = info1\<lparr>di_get_this := \<lparr>rc_item = it, rc_val = Ul_int 0\<rparr>\<rparr>
                  in case node_get info2 name of
                       (None, info3) \<Rightarrow> (None, Some info3, w1)
                     | (Some k, info3) \<Rightarrow>
                         let r = \<lparr>rc_item = it, rc_val = setsfunc diskstats_rows it (di_nodes info3 ! k) (Ul_int 0)\<rparr>
                         in (Some r, Some (info3\<lparr>di_get_this := r\<rparr>), w1))"

text \<open>The total and the stacks, or a null pointer; the outer \<open>None\<close> when a null pointer is used.\<close>

record reap_env =
  pe_realloc_ok :: bool
  pe_fetch :: fetch_env
  pe_disk :: disk_env

definition procps_diskstats_reap ::
  "reap_env \<Rightarrow> (nat \<times> item list) option \<Rightarrow> int \<Rightarrow> diskstats_info option \<times> int
   \<Rightarrow> ((nat \<times> stack list) option \<times> diskstats_info option \<times> int) option" where
  "procps_diskstats_reap e items numitems = (\<lambda>(p, w).
     case (p, items) of
       (None, _) \<Rightarrow> Some (None, None, w)
     | (Some info, None) \<Rightarrow> Some (None, Some info, w)
     | (Some info, Some its) \<Rightarrow>
         (case diskstats_stacks_reconfig_maybe (pe_realloc_ok e) (di_fetch_ext info) its numitems of
            None \<Rightarrow> None
          | Some (rc, es) \<Rightarrow>
              let info1 = info\<lparr>di_fetch_ext := es\<rparr>
              in if rc < 0 then Some (None, Some info1, w)
                 else case diskstats_read_failed (pe_disk e) info1 w of
                        (Some err, info2, w1) \<Rightarrow> Some (None, Some info2, w1)
                      | (None, info2, w1) \<Rightarrow>
                          (case diskstats_stacks_fetch (pe_fetch e) info2 of
                             FetchUndef \<Rightarrow> None
                           | FetchFailed es1 fs \<Rightarrow> Some (None, Some (info2\<lparr>di_fetch_ext := es1, di_fetch := fs\<rparr>), w1)
                           | Fetched n es1 fs \<Rightarrow>
                               Some (Some (n, the (fs_result fs)), Some (info2\<lparr>di_fetch_ext := es1, di_fetch := fs\<rparr>), w1))))"

definition procps_diskstats_select ::
  "bool \<Rightarrow> bool \<Rightarrow> disk_env \<Rightarrow> string \<Rightarrow> (nat \<times> item list) option \<Rightarrow> int \<Rightarrow> diskstats_info option \<times> int
   \<Rightarrow> (stack option \<times> diskstats_info option \<times> int) option" where
  "procps_diskstats_select realloc_ok alloc_ok e name items numitems = (\<lambda>(p, w).
     case (p, items) of
       (None, _) \<Rightarrow> Some (None, None, w)
     | (Some info, None) \<Rightarrow> Some (None, Some info, w)
     | (Some info, Some its) \<Rightarrow>
         (case diskstats_stacks_reconfig_maybe realloc_ok (di_select_ext info) its numitems of
            None \<Rightarrow> None
          | Some (rc, es) \<Rightarrow>
              let info1 = info\<lparr>di_select_ext := es\<rparr>
              in if rc < 0 then Some (None, Some info1, w)
                 else case (if es_extents es = [] then diskstats_stacks_alloc alloc_ok 1 es else Some es) of
                        None \<Rightarrow> Some (None, Some info1, w)
                      | Some es2 \<Rightarrow>
                          (case diskstats_read_failed e (info1\<lparr>di_select_ext := es2\<rparr>) w of
                             (Some err, info2, w1) \<Rightarrow> Some (None, Some info2, w1)
                           | (None, info2, w1) \<Rightarrow>
                               (case node_get info2 name of
                                  (None, info3) \<Rightarrow> Some (None, Some info3, w1)
                                | (Some k, info3) \<Rightarrow>
                                    (case diskstats_assign_results (hd (es_extents es2) ! 0) (di_nodes info3 ! k) of
                                       None \<Rightarrow> None
                                     | Some s \<Rightarrow>
                                         Some (Some s,
                                           Some (info3\<lparr>di_select_ext :=
                                             es2\<lparr>es_extents := (hd (es_extents es2))[0 := s] # tl (es_extents es2)\<rparr>\<rparr>),
                                           w1))))))"

subsection \<open>Sorting\<close>

definition diskstats_sortfunc :: "(string \<Rightarrow> string \<Rightarrow> int) \<Rightarrow> item \<Rightarrow> int \<Rightarrow> rval \<Rightarrow> rval \<Rightarrow> int" where
  "diskstats_sortfunc strverscmp it = compare_kind strverscmp (fst (snd (diskstats_table ! it)))"

definition procps_diskstats_sort ::
  "(string \<Rightarrow> string \<Rightarrow> int) \<Rightarrow> diskstats_info option \<Rightarrow> stack list option \<Rightarrow> item \<Rightarrow> int \<Rightarrow> stack list option option" where
  "procps_diskstats_sort strverscmp info stacks sortitem order =
     (case (info, stacks) of
        (Some _, Some ss) \<Rightarrow> sort_stacks DISKSTATS_logical_end (diskstats_sortfunc strverscmp) ss sortitem order
      | _ \<Rightarrow> Some None)"

end
