(* ===== verification/DiskSpec.thy ===== *)
theory DiskSpec
  imports Diskstats
begin

text \<open>
  What \<^verbatim>\<open>diskstats.c\<close> promises: the table agrees with the header, a read refines the
  update of a map from device names to samples, \<open>reap\<close> returns a filled stack for each device,
  sorting and reference counting; and what becomes of a device that was removed.
\<close>

subsection \<open>The item table\<close>

lemmas diskstats_table_simps =
  diskstats_rows_def diskstats_table_def diskstats_sets_def

lemma length_diskstats_rows: "length diskstats_rows = DISKSTATS_logical_end"
  by (simp add: diskstats_table_simps DISKSTATS_logical_end_def)

lemma diskstats_rows_typed:
  "list_all (\<lambda>(nm, f, ty). ty \<noteq> [] \<longrightarrow> (\<forall>src v. rtype (f src v) = ty)) diskstats_rows"
  by (simp add: diskstats_table_simps REG_set_def disk_HST_set_def)

interpretation disk_items: item_table diskstats_rows
proof unfold_locales
  show "rtype (f src v) = ty" if "(nm, f, ty) \<in> set diskstats_rows" "ty \<noteq> []" for nm f ty src v
    using diskstats_rows_typed that by (auto simp: list_all_iff)
  show "\<exists>nm ty rest. diskstats_rows = (nm, set_noop, ty) # rest"
    by (simp add: diskstats_table_simps)
qed

text \<open>
  The table agrees with the header in order and types, and every item is compared as the
  type it has.
\<close>

theorem diskstats_table_matches_header:
  "map (\<lambda>(nm, q, ty). (nm, ty)) diskstats_table = diskstats_item \<and> map fst diskstats_rows = map fst diskstats_item
    \<and> list_all (\<lambda>(nm, q, ty). ty = [] \<or> (q, ty) \<in> {(Q_str, ''str''), (Q_s_int, ''s_int''), (Q_ul_int, ''ul_int'')})
        diskstats_table"
  by (simp add: diskstats_table_simps diskstats_item_def)

subsection \<open>The lines of the file\<close>

text \<open>A line: blanks, major, blanks, minor, name, the eleven numbers, and what newer kernels add.\<close>

type_synonym disk_row = "nat \<times> int \<times> nat \<times> int \<times> string \<times> dev_data \<times> string"

definition disk_numbers :: "dev_data \<Rightarrow> ulong list" where
  "disk_numbers d =
     [dd_reads d, dd_reads_merged d, dd_read_sectors d, dd_read_time d, dd_writes d, dd_writes_merged d,
      dd_write_sectors d, dd_write_time d, dd_io_inprogress d, dd_io_time d, dd_io_wtime d]"

definition disk_line :: "disk_row \<Rightarrow> string" where
  "disk_line = (\<lambda>(k1, maj, k2, minr, name, d, tail).
     replicate k1 (CHR '' '') @ show_int maj @ [CHR '' ''] @ replicate k2 (CHR '' '') @ show_int minr @ [CHR '' ''] @ name
     @ concat (map (\<lambda>w. '' '' @ show_nat (unat w)) (disk_numbers d)) @ tail)"

definition int_range :: "int \<Rightarrow> bool" where
  "int_range i \<longleftrightarrow> - (2 ^ 31) \<le> i \<and> i < 2 ^ 31"

definition disk_row_ok :: "disk_row \<Rightarrow> bool" where
  "disk_row_ok r = (case r of (k1, maj, k2, minr, name, d, tail) \<Rightarrow>
     int_range maj \<and> int_range minr \<and> name \<noteq> [] \<and> length name \<le> DISKSTATS_NAME_LEN
     \<and> list_all (\<lambda>c. \<not> isspace c \<and> c \<noteq> NUL) name \<and> ends_number tail \<and> newline \<notin> set tail \<and> NUL \<notin> set tail
     \<and> length (disk_line r) + 1 < DISKSTATS_LINE_LEN)"

text \<open>The node a line describes.\<close>

definition row_node :: "disk_row \<Rightarrow> dev_node" where
  "row_node = (\<lambda>(k1, maj, k2, minr, name, d, tail).
     \<lparr>dn_name = name, dn_type = 0, dn_major = maj, dn_minor = minr, dn_stamped = 0, dn_new = d, dn_old = zero_data\<rparr>)"

lemma parse_diskstats_fmt:
  "parse_format diskstats_fmt =
     [Conv CInt, Blank, Conv CInt, Blank, Conv (CStrW 34), Blank, Conv CULong, Blank, Conv CULong, Blank, Conv CULong,
      Blank, Conv CULong, Blank, Conv CULong, Blank, Conv CULong, Blank, Conv CULong, Blank, Conv CULong, Blank,
      Conv CULong, Blank, Conv CULong, Blank, Conv CULong]"
  by (simp add: diskstats_fmt_def parse_format.simps isspace_def isdigit_def digits_val_def)

lemma scan_int_space:
  "isspace c \<Longrightarrow> run_scanf (Conv CInt # ds) (c # s) = run_scanf (Conv CInt # ds) s"
  by (auto simp: scan_conv_def scan_number_space atoi_space strtol_def split: option.splits)

lemma scan_int_blanks:
  "run_scanf (Conv CInt # ds) (replicate k (CHR '' '') @ s) = run_scanf (Conv CInt # ds) s"
proof (induction k)
  case (Suc k)
  then show ?case using scan_int_space [of "CHR '' ''" ds "replicate k (CHR '' '') @ s"] by simp
qed simp

lemma dropWhile_blanks: "dropWhile isspace (replicate k (CHR '' '') @ s) = dropWhile isspace s"
  by (induction k) simp_all

lemma dropWhile_word:
  "w \<noteq> [] \<Longrightarrow> list_all (\<lambda>c. \<not> isspace c) w \<Longrightarrow> dropWhile isspace (w @ r) = w @ r"
  by (cases w) auto

lemma zero_data_fill:
  "zero_data
     \<lparr>dd_reads := dd_reads d, dd_reads_merged := dd_reads_merged d, dd_read_sectors := dd_read_sectors d,
      dd_read_time := dd_read_time d, dd_writes := dd_writes d, dd_writes_merged := dd_writes_merged d,
      dd_write_sectors := dd_write_sectors d, dd_write_time := dd_write_time d, dd_io_inprogress := dd_io_inprogress d,
      dd_io_time := dd_io_time d, dd_io_wtime := dd_io_wtime d\<rparr> = d"
  by (simp add: zero_data_def)

lemma parse_disk_row:
  assumes "disk_row_ok r"
  shows "parse_disk_line (disk_line r @ [newline]) = Some (row_node r)"
proof -
  obtain k1 maj k2 minr name d tail where r: "r = (k1, maj, k2, minr, name, d, tail)" by (cases r)
  with assms have ok: "- (2 ^ 31) \<le> maj" "maj < 2 ^ 31" "- (2 ^ 31) \<le> minr" "minr < 2 ^ 31" "name \<noteq> []" "length name \<le> 34"
      "list_all (\<lambda>c. \<not> isspace c) name" "NUL \<notin> set name" "ends_number tail" "NUL \<notin> set tail"
    by (auto simp: disk_row_ok_def int_range_def DISKSTATS_NAME_LEN_def list_all_iff)
  have tl: "ends_number (tail @ [newline])"
    using ok(9) by (cases tail) (simp_all add: isdigit_def)
  have nul: "NUL \<notin> set (disk_line r @ [newline])"
    using ok(8,10) by (auto simp: r disk_line_def disk_numbers_def)
  have "sscanf diskstats_fmt (disk_line r @ [newline]) =
      [SInt maj, SInt minr, SStr name] @ map SULong (disk_numbers d)"
    using ok tl
    by (simp add: sscanf_def parse_diskstats_fmt r disk_line_def disk_numbers_def scan_int_blanks scanf_simps
        dropWhile_blanks dropWhile_word run_scanf.simps(1) del: run_scanf.simps(2-5))
  then have "parse_disk_line (disk_line r @ [newline]) =
      Some (assign diskstats_setters ([SInt maj, SInt minr, SStr name] @ map SULong (disk_numbers d)) zero_node)"
    by (simp add: parse_disk_line_def cstr_id [OF nul] disk_numbers_def)
  also have "assign diskstats_setters ([SInt maj, SInt minr, SStr name] @ map SULong (disk_numbers d)) zero_node = row_node r"
    by (simp add: disk_numbers_def diskstats_setters_def r row_node_def zero_node_def zero_data_fill)
  finally show ?thesis .
qed

lemma disk_rows_lines:
  assumes "list_all disk_row_ok rows"
  shows "fgets_lines DISKSTATS_LINE_LEN (concat (map (\<lambda>r. disk_line r @ [newline]) rows))
    = map (\<lambda>r. disk_line r @ [newline]) rows"
proof -
  have nl: "newline \<notin> set (disk_line r)" if "disk_row_ok r" for r
  proof -
    obtain k1 maj k2 minr name d tail where r: "r = (k1, maj, k2, minr, name, d, tail)" by (cases r)
    have ok: "list_all (\<lambda>c. \<not> isspace c \<and> c \<noteq> NUL) name" "newline \<notin> set tail"
      using that by (simp_all add: disk_row_ok_def r)
    have "isspace newline" by (simp add: isspace_def)
    then have "newline \<notin> set name" using ok(1) by (auto simp: list_all_iff)
    moreover have "newline \<notin> set (show_nat n)" "newline \<notin> set (show_int i)" for n i
      using show_nat_digits [of newline] by (auto simp: show_int_def isdigit_def)
    ultimately show ?thesis using ok(2) by (simp add: r disk_line_def disk_numbers_def)
  qed
  have "list_all (\<lambda>b. newline \<notin> set b \<and> length b + 1 < DISKSTATS_LINE_LEN) (map disk_line rows)"
    using assms nl by (auto simp: list_all_iff disk_row_ok_def)
  from fgets_lines_whole [OF this] show ?thesis by (simp add: comp_def)
qed

subsection \<open>The table as a map\<close>

text \<open>
  The specification: a map from names to nodes. A sample of a device that is there and not
  stale keeps the last sample as the old one; any other starts with no differences.
\<close>

type_synonym disk_map = "string \<Rightarrow> dev_node option"

definition disk_view :: "diskstats_info \<Rightarrow> disk_map" where
  "disk_view info = map_of (map (\<lambda>n. (dn_name n, n)) (di_nodes info))"

definition stale :: "int \<Rightarrow> int \<Rightarrow> dev_node \<Rightarrow> bool" where
  "stale t0 t1 n \<longleftrightarrow> dn_stamped n \<noteq> t0 \<and> dn_stamped n \<noteq> t1"

definition spec_sample :: "string list option \<Rightarrow> int \<Rightarrow> int \<Rightarrow> dev_node \<Rightarrow> disk_map \<Rightarrow> disk_map" where
  "spec_sample sysblock t0 t1 src v =
     (let new = node_classify sysblock (src\<lparr>dn_stamped := t1, dn_old := dn_new src\<rparr>)
      in v(dn_name src \<mapsto>
           (case v (dn_name src) of
              None \<Rightarrow> new
            | Some n \<Rightarrow> if stale t0 t1 n then new
                        else src\<lparr>dn_stamped := t1, dn_old := dn_new n, dn_type := dn_type n\<rparr>)))"

definition disk_wf :: "diskstats_info \<Rightarrow> bool" where
  "disk_wf info \<longleftrightarrow> distinct (map dn_name (di_nodes info))"

lemma find_node_Some:
  "find_node name k ns = Some j \<Longrightarrow> k \<le> j \<and> j - k < length ns \<and> dn_name (ns ! (j - k)) = name"
proof (induction ns arbitrary: k)
  case (Cons n ns)
  show ?case
  proof (cases "name = dn_name n")
    case True
    then show ?thesis using Cons.prems by simp
  next
    case False
    then have "Suc k \<le> j \<and> j - Suc k < length ns \<and> dn_name (ns ! (j - Suc k)) = name"
      using Cons.IH [of "Suc k"] Cons.prems by simp
    moreover from this have "j - k = Suc (j - Suc k)" by linarith
    ultimately show ?thesis by simp
  qed
qed simp

lemma find_node_None: "find_node name k ns = None \<longleftrightarrow> name \<notin> dn_name ` set ns"
  by (induction ns arbitrary: k) auto

lemma view_nth: "disk_wf info \<Longrightarrow> j < length (di_nodes info) \<Longrightarrow> disk_view info (dn_name (di_nodes info ! j)) = Some (di_nodes info ! j)"
  unfolding disk_view_def disk_wf_def
  by (rule map_of_is_SomeI) (auto simp: comp_def intro!: image_eqI [of _ _ "di_nodes info ! j"])

lemma find_node_view:
  assumes "disk_wf info"
  shows "case find_node name 0 (di_nodes info) of
      None \<Rightarrow> disk_view info name = None
    | Some k \<Rightarrow> k < length (di_nodes info) \<and> dn_name (di_nodes info ! k) = name \<and> disk_view info name = Some (di_nodes info ! k)"
proof (cases "find_node name 0 (di_nodes info)")
  case None
  then have "name \<notin> dn_name ` set (di_nodes info)" by (simp add: find_node_None)
  then show ?thesis using None by (simp add: disk_view_def map_of_eq_None_iff image_image)
next
  case (Some k)
  then show ?thesis using find_node_Some [OF Some] view_nth [OF assms, of k] by auto
qed

text \<open>Adding, cutting and replacing nodes.\<close>

lemma view_add:
  "disk_view info (dn_name n) = None \<Longrightarrow> disk_view (node_add info n) = (disk_view info)(dn_name n \<mapsto> n)"
  by (auto simp: disk_view_def node_add_def map_add_def fun_eq_iff split: option.splits)

lemma wf_add: "disk_wf info \<Longrightarrow> disk_view info (dn_name n) = None \<Longrightarrow> disk_wf (node_add info n)"
  by (auto simp: disk_wf_def node_add_def disk_view_def map_of_eq_None_iff image_image)

lemma cut_split:
  assumes "k < length (di_nodes info)"
  obtains as bs where "di_nodes info = as @ di_nodes info ! k # bs" "di_nodes (node_cut info k) = as @ bs"
  using that [of "take k (di_nodes info)" "drop (Suc k) (di_nodes info)"] id_take_nth_drop [OF assms]
  by (simp add: node_cut_def)

lemma view_cut:
  assumes "disk_wf info" "k < length (di_nodes info)"
  shows "disk_view (node_cut info k) = (disk_view info)(dn_name (di_nodes info ! k) := None)" "disk_wf (node_cut info k)"
proof -
  obtain as bs where ab: "di_nodes info = as @ di_nodes info ! k # bs" "di_nodes (node_cut info k) = as @ bs"
    by (rule cut_split [OF assms(2)])
  let ?n = "di_nodes info ! k"
  have d: "distinct (map dn_name (as @ ?n # bs))" using assms(1) ab(1) by (simp add: disk_wf_def)
  show "disk_wf (node_cut info k)" using d ab(2) by (simp add: disk_wf_def)
  have none: "map_of (map (\<lambda>n. (dn_name n, n)) bs) (dn_name ?n) = None"
    "map_of (map (\<lambda>n. (dn_name n, n)) as) (dn_name ?n) = None"
    using d by (auto simp: map_of_eq_None_iff image_image)
  have "disk_view info = map_of (map (\<lambda>n. (dn_name n, n)) (as @ ?n # bs))"
    unfolding disk_view_def using ab(1) by simp
  then show "disk_view (node_cut info k) = (disk_view info)(dn_name ?n := None)"
    using none by (auto simp: disk_view_def ab(2) map_add_def fun_eq_iff split: option.splits)
qed

lemma view_replace:
  assumes "disk_wf info" "k < length (di_nodes info)" "dn_name n = dn_name (di_nodes info ! k)"
  shows "disk_view (info\<lparr>di_nodes := (di_nodes info)[k := n]\<rparr>) = (disk_view info)(dn_name n \<mapsto> n)"
    "disk_wf (info\<lparr>di_nodes := (di_nodes info)[k := n]\<rparr>)"
proof -
  have names: "map dn_name ((di_nodes info)[k := n]) = map dn_name (di_nodes info)"
    using assms(2,3) by (simp add: map_update list_update_same_conv)
  then show wf: "disk_wf (info\<lparr>di_nodes := (di_nodes info)[k := n]\<rparr>)" using assms(1) by (simp add: disk_wf_def)
  show "disk_view (info\<lparr>di_nodes := (di_nodes info)[k := n]\<rparr>) = (disk_view info)(dn_name n \<mapsto> n)"
  proof
    fix m
    let ?i = "info\<lparr>di_nodes := (di_nodes info)[k := n]\<rparr>"
    show "disk_view ?i m = ((disk_view info)(dn_name n \<mapsto> n)) m"
    proof (cases "m \<in> dn_name ` set (di_nodes info)")
      case False
      then have "m \<notin> set (map dn_name ((di_nodes info)[k := n]))" by (simp add: names)
      then have "disk_view ?i m = None" by (simp add: disk_view_def map_of_eq_None_iff image_image)
      moreover have "disk_view info m = None" "m \<noteq> dn_name n"
        using False assms(2,3) by (auto simp: disk_view_def map_of_eq_None_iff image_image)
      ultimately show ?thesis by simp
    next
      case True
      then obtain j where j: "j < length (di_nodes info)" "dn_name (di_nodes info ! j) = m"
        by (auto simp: in_set_conv_nth)
      have "dn_name (((di_nodes info)[k := n]) ! j) = m"
        using j assms(2,3) by (auto simp: nth_list_update)
      then have "disk_view ?i m = Some (((di_nodes info)[k := n]) ! j)"
        using view_nth [OF wf, of j] j(1) by simp
      moreover have "disk_view info m = Some (di_nodes info ! j)" using view_nth [OF assms(1) j(1)] j(2) by simp
      ultimately show ?thesis
      proof (cases "j = k")
        case True
        with \<open>disk_view ?i m = _\<close> have "disk_view ?i m = Some n" using assms(2) by simp
        moreover have "m = dn_name n" using True j(2) assms(3) by simp
        ultimately show ?thesis by simp
      next
        case False
        then have "m \<noteq> dn_name n" using j assms by (auto simp: disk_wf_def distinct_conv_nth)
        then show ?thesis
          using False \<open>disk_view ?i m = _\<close> \<open>disk_view info m = Some (di_nodes info ! j)\<close> by simp
      qed
    qed
  qed
qed

text \<open>Looking a device up loses it when it is stale.\<close>

lemma node_get_cases:
  assumes "disk_wf info"
  obtains (found) k where "node_get info name = (Some k, info)" "k < length (di_nodes info)"
      "dn_name (di_nodes info ! k) = name" "disk_view info name = Some (di_nodes info ! k)"
      "\<not> stale (di_old_stamp info) (di_new_stamp info) (di_nodes info ! k)"
  | (absent) "node_get info name = (None, info)" "disk_view info name = None"
  | (lost) k n where "node_get info name = (None, node_cut info k)" "disk_view info name = Some n"
      "stale (di_old_stamp info) (di_new_stamp info) n" "disk_wf (node_cut info k)"
      "disk_view (node_cut info k) = (disk_view info)(name := None)"
proof (cases "find_node name 0 (di_nodes info)")
  case None
  then show thesis using absent find_node_view [OF assms, of name] by (simp add: node_get_def)
next
  case (Some k)
  then have k: "k < length (di_nodes info)" "dn_name (di_nodes info ! k) = name" "disk_view info name = Some (di_nodes info ! k)"
    using find_node_view [OF assms, of name] by simp_all
  show thesis
  proof (cases "stale (di_old_stamp info) (di_new_stamp info) (di_nodes info ! k)")
    case True
    then have "node_get info name = (None, node_cut info k)" using Some by (simp add: node_get_def stale_def)
    then show thesis using lost k True view_cut [OF assms k(1)] by simp
  next
    case False
    then have "node_get info name = (Some k, info)" using Some by (auto simp: node_get_def stale_def)
    then show thesis using found k False by simp
  qed
qed

text \<open>One line of the file is one step of the specification.\<close>

definition only_nodes :: "diskstats_info \<Rightarrow> diskstats_info \<Rightarrow> bool" where
  "only_nodes info info' \<longleftrightarrow> (\<exists>ns. info' = info\<lparr>di_nodes := ns\<rparr>)"

lemma only_nodes_ops:
  "only_nodes info (node_add info n)" "only_nodes info (node_cut info k)" "only_nodes info (info\<lparr>di_nodes := ns\<rparr>)"
  "only_nodes info info"
proof -
  show "only_nodes info info" unfolding only_nodes_def by (rule exI [of _ "di_nodes info"]) simp
qed (unfold only_nodes_def node_add_def node_cut_def, (rule exI, rule refl)+)

lemma only_nodes_trans: "only_nodes a b \<Longrightarrow> only_nodes b c \<Longrightarrow> only_nodes a c"
  by (auto simp: only_nodes_def)

lemma only_nodes_stamps:
  "only_nodes a b \<Longrightarrow> di_old_stamp b = di_old_stamp a \<and> di_new_stamp b = di_new_stamp a"
  by (auto simp: only_nodes_def)

lemma node_update_refines:
  assumes "disk_wf info" "de_malloc_ok e (dn_name src)"
  obtains info' where "node_update e info (src\<lparr>dn_stamped := di_new_stamp info\<rparr>) = (True, info')" "disk_wf info'"
    "only_nodes info info'"
    "disk_view info' = spec_sample (de_sysblock e) (di_old_stamp info) (di_new_stamp info) src (disk_view info)"
proof -
  let ?src = "src\<lparr>dn_stamped := di_new_stamp info\<rparr>"
  let ?new = "node_classify (de_sysblock e) (?src\<lparr>dn_old := dn_new ?src\<rparr>)"
  have nm: "dn_name ?new = dn_name src" by (simp add: node_classify_def split: option.split)
  show thesis
    using assms(1)
  proof (cases rule: node_get_cases [where name = "dn_name src"])
    case (found k)
    let ?n = "?src\<lparr>dn_old := dn_new (di_nodes info ! k), dn_type := dn_type (di_nodes info ! k)\<rparr>"
    have "node_update e info ?src = (True, info\<lparr>di_nodes := (di_nodes info)[k := ?n]\<rparr>)"
      using found(1) by (simp add: node_update_def Let_def)
    then show thesis
      using that view_replace [OF assms(1) found(2), of ?n] found only_nodes_ops by (simp add: spec_sample_def Let_def)
  next
    case absent
    have "node_update e info ?src = (True, node_add info ?new)"
      using absent assms(2) by (simp add: node_update_def)
    moreover have "disk_view info (dn_name ?new) = None" using absent nm by simp
    ultimately show thesis
      using that [of "node_add info ?new"] view_add [of info ?new] wf_add [OF assms(1), of ?new] absent nm only_nodes_ops
      by (simp add: spec_sample_def Let_def)
  next
    case (lost k n)
    have "node_update e info ?src = (True, node_add (node_cut info k) ?new)"
      using lost assms(2) by (simp add: node_update_def)
    moreover have none: "disk_view (node_cut info k) (dn_name ?new) = None" using lost nm by simp
    moreover have "only_nodes info (node_add (node_cut info k) ?new)"
      by (rule only_nodes_trans [OF only_nodes_ops(2) only_nodes_ops(1)])
    ultimately show thesis
      using that [of "node_add (node_cut info k) ?new"] view_add [OF none] wf_add [OF lost(4) none] lost nm
      by (simp add: spec_sample_def Let_def)
  qed
qed

lemma disk_lines_refines:
  assumes "list_all disk_row_ok rows" "de_malloc_ok e = (\<lambda>_. True)"
  shows "disk_wf info \<Longrightarrow> \<exists>info'. disk_lines e (map (\<lambda>r. disk_line r @ [newline]) rows) info = (None, info')
    \<and> disk_wf info' \<and> only_nodes info info'
    \<and> disk_view info' =
        fold (\<lambda>r. spec_sample (de_sysblock e) (di_old_stamp info) (di_new_stamp info) (row_node r)) rows (disk_view info)"
  using assms(1)
proof (induction rows arbitrary: info)
  case Nil
  then show ?case by (simp add: only_nodes_ops)
next
  case (Cons r rows)
  then have p: "parse_disk_line (disk_line r @ [newline]) = Some (row_node r)" by (simp add: parse_disk_row)
  have m: "de_malloc_ok e (dn_name (row_node r))" using assms(2) by simp
  obtain info1 where u: "node_update e info ((row_node r)\<lparr>dn_stamped := di_new_stamp info\<rparr>) = (True, info1)" "disk_wf info1"
      "only_nodes info info1"
      "disk_view info1 = spec_sample (de_sysblock e) (di_old_stamp info) (di_new_stamp info) (row_node r) (disk_view info)"
    by (rule node_update_refines [OF Cons.prems(1) m])
  from Cons.IH [OF u(2)] Cons.prems(2) obtain info' where
    ih: "disk_lines e (map (\<lambda>r. disk_line r @ [newline]) rows) info1 = (None, info')" "disk_wf info'" "only_nodes info1 info'"
      "disk_view info' = fold (\<lambda>r. spec_sample (de_sysblock e) (di_old_stamp info1) (di_new_stamp info1) (row_node r)) rows
        (disk_view info1)"
    by auto
  have "disk_lines e (map (\<lambda>r. disk_line r @ [newline]) (r # rows)) info = (None, info')"
    using p u(1) ih(1) by simp
  moreover have "only_nodes info info'" by (rule only_nodes_trans [OF u(3) ih(3)])
  ultimately show ?case using ih u(4) only_nodes_stamps [OF u(3)] by auto
qed

text \<open>The environment of a read of these rows.\<close>

definition reads_rows :: "disk_row list \<Rightarrow> disk_env \<Rightarrow> bool" where
  "reads_rows rows e \<longleftrightarrow> list_all disk_row_ok rows \<and> de_fopen e = None \<and> de_fseek e = None
     \<and> de_malloc_ok e = (\<lambda>_. True) \<and> de_text e = concat (map (\<lambda>r. disk_line r @ [newline]) rows)"

lemma read_refines:
  assumes "disk_wf info" "reads_rows rows e"
  obtains ns w' where "diskstats_read_failed e info w = (None, info\<lparr>di_fp := True, di_old_stamp := di_new_stamp info,
      di_new_stamp := de_now e, di_nodes := ns\<rparr>, w')"
    "distinct (map dn_name ns)"
    "map_of (map (\<lambda>n. (dn_name n, n)) ns) =
       fold (\<lambda>r. spec_sample (de_sysblock e) (di_new_stamp info) (de_now e) (row_node r)) rows (disk_view info)"
proof -
  let ?i = "info\<lparr>di_fp := True, di_old_stamp := di_new_stamp info, di_new_stamp := de_now e\<rparr>"
  have ok: "list_all disk_row_ok rows" "de_malloc_ok e = (\<lambda>_. True)" using assms(2) by (simp_all add: reads_rows_def)
  have wf: "disk_wf ?i" using assms(1) by (simp add: disk_wf_def)
  from disk_lines_refines [OF ok wf] obtain info' where
    l: "disk_lines e (map (\<lambda>r. disk_line r @ [newline]) rows) ?i = (None, info')" "disk_wf info'" "only_nodes ?i info'"
      "disk_view info' = fold (\<lambda>r. spec_sample (de_sysblock e) (di_new_stamp info) (de_now e) (row_node r)) rows (disk_view info)"
    by (auto simp: disk_view_def)
  obtain ns where ns: "info' = ?i\<lparr>di_nodes := ns\<rparr>" using l(3) by (auto simp: only_nodes_def)
  have "fst (diskstats_read_failed e info w) = None \<and> fst (snd (diskstats_read_failed e info w)) = info'"
    using assms(2) l(1) by (simp add: diskstats_read_failed_def Let_def reads_rows_def disk_rows_lines [OF ok(1)])
  then show thesis
    using that [of ns "snd (snd (diskstats_read_failed e info w))"] l(2,4) ns
    by (simp add: disk_wf_def disk_view_def prod_eq_iff)
qed

text \<open>
  C9. A read of the rows the kernel prints is a run of the specification: the table read as a map goes
  from what it was to what the samples make of it, and keeps its names distinct.
\<close>

theorem diskstats_read_refines:
  assumes "disk_wf info" "reads_rows rows e"
  shows "\<exists>info' w'. diskstats_read_failed e info w = (None, info', w') \<and> disk_wf info'
    \<and> di_old_stamp info' = di_new_stamp info \<and> di_new_stamp info' = de_now e
    \<and> disk_view info' =
        fold (\<lambda>r. spec_sample (de_sysblock e) (di_new_stamp info) (de_now e) (row_node r)) rows (disk_view info)"
  by (rule read_refines [OF assms, of w]) (simp add: disk_wf_def disk_view_def)

subsection \<open>Reap\<close>

text \<open>The context between calls.\<close>

definition disk_ready :: "diskstats_info \<Rightarrow> bool" where
  "disk_ready info \<longleftrightarrow> disk_wf info \<and> reap_ready diskstats_rows (di_fetch_ext info) (di_fetch info)"

lemma fresh_disk_ready: "disk_ready fresh_diskstats"
  by (simp add: disk_ready_def fresh_diskstats_def disk_wf_def reap_ready_start)

text \<open>
  A \<open>reap\<close> returns, in the order of the table, a stack with the items asked for, filled from each
  device of the refined table.
\<close>

lemma reap_fills:
  assumes "disk_ready info" "reads_rows rows (pe_disk e)" "pe_realloc_ok e" "all_ok (pe_fetch e)"
    and "\<not> diskstats_items_check_failed items n" "n \<le> int (length (snd items))"
  obtains ss info' w' where
    "procps_diskstats_reap e (Some items) n (Some info, w) = Some (Some (length (di_nodes info'), ss), Some info', w')"
    "list_all2 (filled diskstats_rows (take (nat n) (snd items))) (di_nodes info') ss"
    "disk_view info' = fold (\<lambda>r. spec_sample (de_sysblock (pe_disk e)) (di_new_stamp info) (de_now (pe_disk e)) (row_node r))
       rows (disk_view info)"
    "disk_ready info'" "di_new_stamp info' = de_now (pe_disk e)"
proof -
  let ?its = "take (nat n) (snd items)"
  have wf: "disk_wf info" and rr: "reap_ready diskstats_rows (di_fetch_ext info) (di_fetch info)"
    using assms(1) by (simp_all add: disk_ready_def)
  have chk: "\<not> items_check_failed (length diskstats_rows) n items"
    using assms(5) by (simp add: diskstats_items_check_failed_def length_diskstats_rows)
  obtain rc es' where r: "reconfig_maybe (length diskstats_rows) True items n (di_fetch_ext info) = Some (rc, es')" "0 \<le> rc"
      "fetch_ready diskstats_rows ?its es' (di_fetch info)"
    by (rule reap_reconfig [OF rr chk assms(6)])
  have wf': "disk_wf (info\<lparr>di_fetch_ext := es'\<rparr>)" using wf by (simp add: disk_wf_def)
  obtain ns w' where rd: "diskstats_read_failed (pe_disk e) (info\<lparr>di_fetch_ext := es'\<rparr>) w =
      (None, info\<lparr>di_fetch_ext := es', di_fp := True, di_old_stamp := di_new_stamp info,
        di_new_stamp := de_now (pe_disk e), di_nodes := ns\<rparr>, w')"
    "distinct (map dn_name ns)"
    "map_of (map (\<lambda>n. (dn_name n, n)) ns) =
       fold (\<lambda>r. spec_sample (de_sysblock (pe_disk e)) (di_new_stamp info) (de_now (pe_disk e)) (row_node r)) rows (disk_view info)"
    by (rule read_refines [OF wf' assms(2), of w]) (simp add: disk_view_def)
  have valid: "list_all (\<lambda>i. i < length diskstats_rows) ?its"
    using items_check_valid [OF chk assms(6)] by (simp add: valid_items_def)
  obtain es2 fs2 ss where f: "stacks_fetch STACKS_INCR diskstats_rows (pe_fetch e) ns es' (di_fetch info) = Fetched (length ns) es2 fs2"
      "fs_result fs2 = Some ss" "list_all2 (filled diskstats_rows ?its) ns ss" "fetch_ready diskstats_rows ?its es2 fs2"
    using stacks_fetch_filled [OF r(3) assms(4) valid STACKS_INCR_pos] by blast
  let ?i = "info\<lparr>di_fetch_ext := es2, di_fp := True, di_old_stamp := di_new_stamp info,
        di_new_stamp := de_now (pe_disk e), di_nodes := ns, di_fetch := fs2\<rparr>"
  show thesis
  proof (rule that)
    show "procps_diskstats_reap e (Some items) n (Some info, w) = Some (Some (length (di_nodes ?i), ss), Some ?i, w')"
      using assms(3) r(1,2) rd(1) f(1,2)
      by (simp add: procps_diskstats_reap_def diskstats_stacks_reconfig_maybe_def length_diskstats_rows Let_def
          diskstats_stacks_fetch_def)
    show "disk_ready ?i" using rd(2) f(4) by (auto simp: disk_ready_def disk_wf_def reap_ready_def)
    show "disk_view ?i = fold (\<lambda>r. spec_sample (de_sysblock (pe_disk e)) (di_new_stamp info) (de_now (pe_disk e)) (row_node r))
       rows (disk_view info)" using rd(3) by (simp add: disk_view_def)
  qed (use f(3) in simp_all)
qed

text \<open>
  With memory at hand, a \<open>reap\<close> returns one stack for each device of the updated table, in order,
  filled with the items asked for, and leaves everything ready for the next call.
\<close>

theorem diskstats_reap_fills:
  assumes "disk_ready info" "reads_rows rows (pe_disk e)" "pe_realloc_ok e" "all_ok (pe_fetch e)"
    and "\<not> diskstats_items_check_failed items n" "n \<le> int (length (snd items))"
  shows "\<exists>ss info' w'.
    procps_diskstats_reap e (Some items) n (Some info, w) = Some (Some (length (di_nodes info'), ss), Some info', w')
    \<and> list_all2 (filled diskstats_rows (take (nat n) (snd items))) (di_nodes info') ss
    \<and> disk_view info' =
        fold (\<lambda>r. spec_sample (de_sysblock (pe_disk e)) (di_new_stamp info) (de_now (pe_disk e)) (row_node r)) rows (disk_view info)
    \<and> disk_ready info'"
  by (rule reap_fills [OF assms, of w]) blast

text \<open>A device the file does not name any more keeps its node.\<close>

lemma spec_sample_other: "dn_name src \<noteq> name \<Longrightarrow> spec_sample sysblock t0 t1 src v name = v name"
  by (auto simp: spec_sample_def Let_def)

lemma spec_untouched:
  assumes "list_all (\<lambda>r. dn_name (row_node r) \<noteq> name) rows"
  shows "fold (\<lambda>r. spec_sample sysblock t0 t1 (row_node r)) rows v name = v name"
  using assms
proof (induction rows arbitrary: v)
  case (Cons r rows)
  then show ?case by (simp add: spec_sample_other)
qed simp

text \<open>
  A removed device is reported by every \<open>reap\<close> for ever, with the numbers and the differences it
  had when it was last seen: only a look-up by its name notices that it is stale.
\<close>

theorem removed_disk_still_reaped:
  assumes "disk_ready info" "reads_rows rows (pe_disk e)" "pe_realloc_ok e" "all_ok (pe_fetch e)"
    and "\<not> diskstats_items_check_failed items n" "n \<le> int (length (snd items))"
    and "disk_view info name = Some d" "list_all (\<lambda>r. dn_name (row_node r) \<noteq> name) rows"
  shows "\<exists>k ss info' w'.
    procps_diskstats_reap e (Some items) n (Some info, w) = Some (Some (length (di_nodes info'), ss), Some info', w')
    \<and> k < length ss \<and> filled diskstats_rows (take (nat n) (snd items)) d (ss ! k)
    \<and> disk_ready info' \<and> disk_view info' name = Some d"
proof -
  obtain ss info' w' where r:
    "procps_diskstats_reap e (Some items) n (Some info, w) = Some (Some (length (di_nodes info'), ss), Some info', w')"
    "list_all2 (filled diskstats_rows (take (nat n) (snd items))) (di_nodes info') ss"
    "disk_view info' = fold (\<lambda>r. spec_sample (de_sysblock (pe_disk e)) (di_new_stamp info) (de_now (pe_disk e)) (row_node r))
       rows (disk_view info)"
    "disk_ready info'"
    by (rule reap_fills [OF assms(1-6), of w])
  have v: "disk_view info' name = Some d" using r(3) assms(7) spec_untouched [OF assms(8)] by simp
  then have "d \<in> set (di_nodes info')" unfolding disk_view_def by (auto dest: map_of_SomeD)
  then obtain k where "k < length (di_nodes info')" "di_nodes info' ! k = d" by (auto simp: in_set_conv_nth)
  then have "k < length ss \<and> filled diskstats_rows (take (nat n) (snd items)) d (ss ! k)"
    using r(2) by (auto simp: list_all2_conv_all_nth)
  then show ?thesis using r(1,4) v by blast
qed

text \<open>A device in the file once: the differences are those to the sample before.\<close>

theorem diskstats_deltas:
  assumes "disk_wf info" "reads_rows (rs1 @ r # rs2) e" "disk_view info (dn_name (row_node r)) = Some d"
    and "dn_stamped d = di_new_stamp info"
    and "list_all (\<lambda>x. dn_name (row_node x) \<noteq> dn_name (row_node r)) (rs1 @ rs2)"
  shows "\<exists>info' w'. diskstats_read_failed e info w = (None, info', w')
    \<and> disk_view info' (dn_name (row_node r)) =
        Some ((row_node r)\<lparr>dn_stamped := de_now e, dn_old := dn_new d, dn_type := dn_type d\<rparr>)"
proof -
  obtain info' w' where r: "diskstats_read_failed e info w = (None, info', w')"
      "disk_view info' = fold (\<lambda>r. spec_sample (de_sysblock e) (di_new_stamp info) (de_now e) (row_node r)) (rs1 @ r # rs2)
        (disk_view info)"
    by (rule read_refines [OF assms(1,2), of w]) (simp add: disk_view_def)
  let ?s = "\<lambda>r. spec_sample (de_sysblock e) (di_new_stamp info) (de_now e) (row_node r)"
  have l: "list_all (\<lambda>x. dn_name (row_node x) \<noteq> dn_name (row_node r)) rs1"
    "list_all (\<lambda>x. dn_name (row_node x) \<noteq> dn_name (row_node r)) rs2"
    using assms(5) by simp_all
  have "disk_view info' (dn_name (row_node r)) = ?s r (fold ?s rs1 (disk_view info)) (dn_name (row_node r))"
    using r(2) spec_untouched [OF l(2)] by simp
  also have "\<dots> = Some ((row_node r)\<lparr>dn_stamped := de_now e, dn_old := dn_new d, dn_type := dn_type d\<rparr>)"
    using spec_untouched [OF l(1), of "de_sysblock e" "di_new_stamp info" "de_now e" "disk_view info"] assms(3,4)
    by (simp add: spec_sample_def Let_def stale_def)
  finally show ?thesis using r(1) by blast
qed

subsection \<open>Every call\<close>

lemma node_get_keeps:
  "disk_wf info \<Longrightarrow> disk_wf (snd (node_get info name)) \<and> only_nodes info (snd (node_get info name))"
  by (cases rule: node_get_cases [where name = name]) (auto simp: only_nodes_ops)

lemma node_update_keeps:
  assumes "disk_wf info"
  shows "disk_wf (snd (node_update e info src)) \<and> only_nodes info (snd (node_update e info src))"
proof -
  let ?new = "node_classify (de_sysblock e) (src\<lparr>dn_old := dn_new src\<rparr>)"
  have nm: "dn_name ?new = dn_name src" by (simp add: node_classify_def split: option.split)
  show ?thesis
    using assms
  proof (cases rule: node_get_cases [where name = "dn_name src"])
    case (found k)
    then show ?thesis
      using view_replace(2) [OF assms found(2), of "src\<lparr>dn_old := dn_new (di_nodes info ! k), dn_type := dn_type (di_nodes info ! k)\<rparr>"]
      by (simp add: node_update_def Let_def only_nodes_ops)
  next
    case absent
    then show ?thesis using assms wf_add [OF assms, of ?new] nm by (simp add: node_update_def only_nodes_ops)
  next
    case (lost k n)
    then show ?thesis
      using wf_add [OF lost(4), of ?new] nm only_nodes_trans [OF only_nodes_ops(2) only_nodes_ops(1), of info k ?new]
      by (simp add: node_update_def only_nodes_ops)
  qed
qed

lemma disk_lines_keeps: "disk_wf info \<Longrightarrow> disk_wf (snd (disk_lines e ls info)) \<and> only_nodes info (snd (disk_lines e ls info))"
proof (induction ls arbitrary: info)
  case Nil
  then show ?case by (simp add: only_nodes_ops)
next
  case (Cons l ls)
  show ?case
  proof (cases "parse_disk_line l")
    case None
    then show ?thesis using Cons.prems by (simp add: only_nodes_ops)
  next
    case (Some node)
    obtain b info1 where u: "node_update e info (node\<lparr>dn_stamped := di_new_stamp info\<rparr>) = (b, info1)" by fastforce
    then have k: "disk_wf info1" "only_nodes info info1"
      using node_update_keeps [OF Cons.prems, of e "node\<lparr>dn_stamped := di_new_stamp info\<rparr>"] by simp_all
    show ?thesis
      using Some u k Cons.IH [OF k(1)] only_nodes_trans [OF k(2)] by (cases b) simp_all
  qed
qed

definition disk_inv :: "int \<Rightarrow> diskstats_info option \<times> int \<Rightarrow> bool" where
  "disk_inv w0 s \<longleftrightarrow>
     (case fst s of
        None \<Rightarrow> snd s = w0
      | Some info \<Rightarrow> disk_wf info \<and> 0 < di_refcount info \<and> snd s = w0 + (if di_fp info then 1 else 0))"

lemma disk_inv_Some:
  "disk_inv w0 (Some info, w) \<longleftrightarrow> disk_wf info \<and> 0 < di_refcount info \<and> w = w0 + (if di_fp info then 1 else 0)"
  by (simp add: disk_inv_def)

lemma disk_inv_only_nodes:
  "only_nodes a b \<Longrightarrow> disk_wf b \<Longrightarrow> disk_inv w0 (Some a, w) \<Longrightarrow> disk_inv w0 (Some b, w)"
  by (auto simp: only_nodes_def disk_inv_Some)

text \<open>Fields the table does not depend on.\<close>

lemma disk_inv_fields [simp]:
  "disk_inv w0 (Some (info\<lparr>di_fetch_ext := x\<rparr>), w) = disk_inv w0 (Some info, w)"
  "disk_inv w0 (Some (info\<lparr>di_select_ext := x\<rparr>), w) = disk_inv w0 (Some info, w)"
  "disk_inv w0 (Some (info\<lparr>di_fetch := y\<rparr>), w) = disk_inv w0 (Some info, w)"
  "disk_inv w0 (Some (info\<lparr>di_get_this := z\<rparr>), w) = disk_inv w0 (Some info, w)"
  by (simp_all add: disk_inv_Some disk_wf_def)

lemma read_inv:
  assumes "diskstats_read_failed e info w = (r, info', w')" "disk_inv w0 (Some info, w)"
  shows "disk_inv w0 (Some info', w')"
proof (cases "\<not> di_fp info \<and> de_fopen e \<noteq> None")
  case True
  then show ?thesis using assms by (simp add: diskstats_read_failed_def)
next
  case False
  let ?i = "info\<lparr>di_fp := True\<rparr>" and ?w = "if di_fp info then w else w + 1"
  have i: "disk_inv w0 (Some ?i, ?w)" using assms(2) by (simp add: disk_inv_Some disk_wf_def)
  show ?thesis
  proof (cases "de_fseek e")
    case (Some err)
    then have "(r, info', w') = (Some err, ?i, ?w)"
      using assms(1) False by (auto simp: diskstats_read_failed_def Let_def split: if_splits)
    then show ?thesis using i by simp
  next
    case None
    let ?j = "?i\<lparr>di_old_stamp := di_new_stamp ?i, di_new_stamp := de_now e\<rparr>"
    have j: "disk_inv w0 (Some ?j, ?w)" "disk_wf ?j" using i by (simp_all add: disk_inv_Some disk_wf_def)
    obtain q i2 where dl: "disk_lines e (fgets_lines DISKSTATS_LINE_LEN (de_text e)) ?j = (q, i2)" by (metis surj_pair)
    have "diskstats_read_failed e info w = (q, i2, ?w)"
      by (simp only: diskstats_read_failed_def Let_def if_not_P [OF False] None option.case dl prod.case)
    then have i2: "info' = i2" "w' = ?w" using assms(1) by simp_all
    have "disk_wf i2" "only_nodes ?j i2"
      using disk_lines_keeps [OF j(2), of e "fgets_lines DISKSTATS_LINE_LEN (de_text e)"] by (simp_all only: dl snd_conv)
    from disk_inv_only_nodes [OF this(2,1) j(1)] show ?thesis by (simp only: i2)
  qed
qed

lemma node_get_inv: "node_get info name = (r, info') \<Longrightarrow> disk_inv w0 (Some info, w) \<Longrightarrow> disk_inv w0 (Some info', w)"
  using node_get_keeps [of info name] disk_inv_only_nodes [of info info'] by (auto simp: disk_inv_Some)

inductive disk_step :: "diskstats_info option \<times> int \<Rightarrow> diskstats_info option \<times> int \<Rightarrow> bool" where
  ref: "procps_diskstats_ref s = (r, s') \<Longrightarrow> disk_step s s'"
| unref: "procps_diskstats_unref s = (r, s') \<Longrightarrow> disk_step s s'"
| get: "procps_diskstats_get e name it s = (r, s') \<Longrightarrow> disk_step s s'"
| reap: "procps_diskstats_reap pe items n s = Some (rs, s') \<Longrightarrow> disk_step s s'"
| select: "procps_diskstats_select ok1 ok2 e name items n s = Some (rr, s') \<Longrightarrow> disk_step s s'"

lemma get_inv:
  assumes "procps_diskstats_get e name it s = (r, s')" "disk_inv w0 s"
  shows "disk_inv w0 s'"
proof (cases "fst s")
  case None
  then show ?thesis using assms by (cases s) (simp add: procps_diskstats_get_def)
next
  case (Some info)
  then obtain w where s: "s = (Some info, w)" by (cases s) simp
  obtain q info1 w1 where q: "(if 1 \<le> de_now e - di_new_stamp info then diskstats_read_failed e info w else (None, info, w)) = (q, info1, w1)"
    by (metis prod_cases3)
  have i1: "disk_inv w0 (Some info1, w1)"
    using q assms(2) read_inv [of e info w q info1 w1 w0] s by (auto split: if_splits)
  let ?i2 = "info1\<lparr>di_get_this := \<lparr>rc_item = it, rc_val = Ul_int 0\<rparr>\<rparr>"
  obtain k info3 where g: "node_get ?i2 name = (k, info3)" by fastforce
  have i3: "disk_inv w0 (Some info3, w1)" using node_get_inv [OF g] i1 by simp
  show ?thesis
    using assms q g i1 i3 unfolding s
    by (cases q; cases k) (auto simp: procps_diskstats_get_def Let_def split: if_splits)
qed

lemma reap_inv:
  assumes "procps_diskstats_reap e items n s = Some (rs, s')" "disk_inv w0 s"
  shows "disk_inv w0 s'"
proof (cases "\<exists>info its. fst s = Some info \<and> items = Some its")
  case False
  then have "s' = s" using assms(1) by (cases s) (auto simp: procps_diskstats_reap_def split: option.splits)
  then show ?thesis using assms(2) by simp
next
  case True
  then obtain info its w where s: "s = (Some info, w)" "items = Some its" by (cases s) auto
  obtain rc es where r: "diskstats_stacks_reconfig_maybe (pe_realloc_ok e) (di_fetch_ext info) its n = Some (rc, es)"
    using assms(1) s by (auto simp: procps_diskstats_reap_def split: option.splits)
  obtain q info2 w1 where q: "diskstats_read_failed (pe_disk e) (info\<lparr>di_fetch_ext := es\<rparr>) w = (q, info2, w1)"
    by (metis prod_cases3)
  have i2: "disk_inv w0 (Some info2, w1)" using read_inv [OF q] assms(2) s by simp
  show ?thesis
    using assms s r q i2
    by (cases q) (auto simp: procps_diskstats_reap_def Let_def split: if_splits fetch_outcome.splits)
qed

lemma select_inv:
  assumes "procps_diskstats_select ok1 ok2 e name items n s = Some (rs, s')" "disk_inv w0 s"
  shows "disk_inv w0 s'"
proof (cases "\<exists>info its. fst s = Some info \<and> items = Some its")
  case False
  then have "s' = s" using assms(1) by (cases s) (auto simp: procps_diskstats_select_def split: option.splits)
  then show ?thesis using assms(2) by simp
next
  case True
  then obtain info its w where s: "s = (Some info, w)" "items = Some its" by (cases s) auto
  obtain rc es where r: "diskstats_stacks_reconfig_maybe ok1 (di_select_ext info) its n = Some (rc, es)"
    using assms(1) s by (auto simp: procps_diskstats_select_def split: option.splits)
  show ?thesis
  proof (cases "rc < 0 \<or> (if es_extents es = [] then diskstats_stacks_alloc ok2 1 es else Some es) = None")
    case True
    then show ?thesis
      using assms s r by (auto simp: procps_diskstats_select_def Let_def split: if_splits)
  next
    case False
    then obtain es2 where es2: "(if es_extents es = [] then diskstats_stacks_alloc ok2 1 es else Some es) = Some es2"
      by auto
    obtain q info2 w1 where q: "diskstats_read_failed e (info\<lparr>di_select_ext := es2\<rparr>) w = (q, info2, w1)"
      by (metis prod_cases3)
    have i2: "disk_inv w0 (Some info2, w1)" using read_inv [OF q] assms(2) s by simp
    obtain k info3 where g: "node_get info2 name = (k, info3)" by fastforce
    have i3: "disk_inv w0 (Some info3, w1)" using node_get_inv [OF g i2] .
    show ?thesis
      using assms s r False es2 q g i2 i3
      by (cases q; cases k) (auto simp: procps_diskstats_select_def Let_def split: option.splits)
  qed
qed

lemma disk_step_inv: "disk_step s s' \<Longrightarrow> disk_inv w0 s \<Longrightarrow> disk_inv w0 s'"
proof (induction rule: disk_step.induct)
  case (ref s r s')
  then show ?case
    by (cases s) (auto simp: procps_diskstats_ref_def disk_inv_def disk_wf_def split: option.splits)
next
  case (unref s r s')
  then show ?case
    by (cases s) (auto simp: procps_diskstats_unref_def disk_inv_def disk_wf_def Let_def split: option.splits if_splits)
next
  case (get e name it s r s')
  then show ?case by (metis get_inv)
next
  case (reap pe items n s rs s')
  then show ?case by (metis reap_inv)
next
  case (select ok1 ok2 e name items n s rr s')
  then show ?case by (metis select_inv)
qed

lemma new_disk_inv:
  assumes "procps_diskstats_new ok e (Some None) w = (0, Some (Some info), w1)"
  shows "disk_inv w (Some info, w1)"
proof -
  have "disk_inv w (Some fresh_diskstats, w)" by (simp add: disk_inv_def fresh_diskstats_def disk_wf_def)
  then show ?thesis
    using assms read_inv [of e fresh_diskstats w]
    by (auto simp: procps_diskstats_new_def split: if_splits prod.splits option.splits)
qed

text \<open>
  C26. Whatever is called and whatever fails, no two nodes have a name, and the stream is closed when
  the structure is gone.
\<close>

theorem diskstats_invariant:
  assumes "procps_diskstats_new ok e (Some None) w = (0, Some (Some info), w1)"
    and "disk_step\<^sup>*\<^sup>* (Some info, w1) (p, w2)"
  shows "case p of None \<Rightarrow> w2 = w | Some info' \<Rightarrow> distinct (map dn_name (di_nodes info')) \<and> 0 < di_refcount info'"
proof -
  from assms(2) new_disk_inv [OF assms(1)] have "disk_inv w (p, w2)"
    by (induction rule: rtranclp_induct) (auto intro: disk_step_inv)
  then show ?thesis by (auto simp: disk_inv_def disk_wf_def split: option.splits)
qed

definition disk_refs :: "diskstats_info option \<times> int \<Rightarrow> int" where
  "disk_refs s = (case fst s of None \<Rightarrow> 0 | Some info \<Rightarrow> di_refcount info)"

definition disk_held :: "diskstats_info option \<times> int \<Rightarrow> bool" where
  "disk_held s \<longleftrightarrow> (\<forall>info. fst s = Some info \<longrightarrow> 0 < di_refcount info)"

interpretation disk_counts: refcounted procps_diskstats_ref procps_diskstats_unref disk_refs disk_held
  by unfold_locales
    (auto simp: procps_diskstats_ref_def procps_diskstats_unref_def disk_refs_def disk_held_def Let_def EINVAL_def
      split: option.splits prod.splits)

text \<open>The structure lives as long as references are left.\<close>

lemma disk_run_gone:
  assumes "procps_diskstats_new ok e (Some None) w = (0, Some (Some info), w1)" "refs_left bs (di_refcount info) = 0"
  shows "ref_run procps_diskstats_ref procps_diskstats_unref bs (Some info, w1) = (None, w)"
proof -
  let ?s = "ref_run procps_diskstats_ref procps_diskstats_unref bs (Some info, w1)"
  have i: "disk_inv w (Some info, w1)" by (rule new_disk_inv [OF assms(1)])
  then have h: "disk_held (Some info, w1)" by (simp add: disk_held_def disk_inv_def)
  have "disk_refs ?s = 0" using disk_counts.run_count [OF h, of bs] assms(2) by (simp add: disk_refs_def)
  then have "fst ?s = None"
    using disk_counts.run_inv [OF h, of bs] by (auto simp: disk_refs_def disk_held_def split: option.splits)
  moreover have inv: "disk_inv w (ref_run procps_diskstats_ref procps_diskstats_unref bs s)" if "disk_inv w s" for s
    using that
  proof (induction bs arbitrary: s)
    case (Cons b bs)
    have "disk_step s (snd (if b then procps_diskstats_ref s else procps_diskstats_unref s))"
      using disk_step.ref [OF surjective_pairing] disk_step.unref [OF surjective_pairing] by simp
    then show ?case using Cons disk_step_inv by fastforce
  qed simp
  moreover obtain p w' where "?s = (p, w')" by (cases ?s)
  ultimately show ?thesis using inv [OF i] by (simp add: disk_inv_def)
qed

theorem diskstats_released:
  assumes "procps_diskstats_new ok e (Some None) w = (0, Some (Some info), w1)" "refs_left bs (di_refcount info) = 0"
  shows "ref_run procps_diskstats_ref procps_diskstats_unref bs (Some info, w1) = (None, w)"
  by (rule disk_run_gone [OF assms])

subsection \<open>Sort\<close>

text \<open>
  Sorting stacks of the same items by one with unsigned values gives a permutation of them, ordered
  by those values the way asked for.
\<close>

theorem diskstats_sort_sorts:
  assumes "ss \<noteq> []" "map rc_item (hd ss) = its @ [DISKSTATS_logical_end]" "list_all (\<lambda>i. i < DISKSTATS_logical_end) its"
    and "it \<in> set its" "order = 1 \<or> order = - 1" "fst (snd (diskstats_table ! it)) = Q_ul_int"
  shows "\<exists>k ss'. procps_diskstats_sort cmp (Some info) (Some ss) it order = Some (Some ss') \<and> mset ss' = mset ss
    \<and> k < length its \<and> its ! k = it
    \<and> sorted_wrt (\<lambda>a b. if order = 1 then rd_ul_int (cell_val k a) \<le> rd_ul_int (cell_val k b)
        else rd_ul_int (cell_val k b) \<le> rd_ul_int (cell_val k a)) ss'"
  unfolding procps_diskstats_sort_def
  using assms(5,6)
  by (simp only: option.case prod.case)
    (rule sort_stacks_sorted [OF assms(1-5)], auto simp: diskstats_sortfunc_def compare_kind_def compare_regs_le)

text \<open>Numbers of type \<open>int\<close> far apart are compared by a difference that does not fit.\<close>

definition delta_stack :: "int \<Rightarrow> stack" where
  "delta_stack v = [\<lparr>rc_item = 17, rc_val = S_int v\<rparr>, \<lparr>rc_item = DISKSTATS_logical_end, rc_val = Zero\<rparr>]"

theorem diskstats_sort_wraps:
  "procps_diskstats_sort cmp (Some info) (Some [delta_stack 2000000000, delta_stack (- 2000000000)]) 17 1
    = Some (Some [delta_stack 2000000000, delta_stack (- 2000000000)])"
  by (simp add: procps_diskstats_sort_def sort_stacks_def delta_stack_def DISKSTATS_logical_end_def diskstats_table_def
      qsort_def diskstats_sortfunc_def compare_kind_def cell_val_def compare_ints_def rd_s_int_def cast_int_def)

subsection \<open>A small system\<close>

definition sample_row :: "string \<Rightarrow> int \<Rightarrow> ulong \<Rightarrow> disk_row" where
  "sample_row name minr n = (3, 8, 6, minr, name, zero_data\<lparr>dd_reads := n\<rparr>, '' 0'')"

definition sample_disk :: "int \<Rightarrow> disk_row list \<Rightarrow> disk_env" where
  "sample_disk now rows = \<lparr>de_fopen = None, de_fseek = None, de_now = now,
     de_text = concat (map (\<lambda>r. disk_line r @ [newline]) rows), de_sysblock = Some [''sda'', ''sdb''],
     de_malloc_ok = (\<lambda>_. True)\<rparr>"

definition sample_reap :: "int \<Rightarrow> disk_row list \<Rightarrow> reap_env" where
  "sample_reap now rows = \<lparr>pe_realloc_ok = True,
     pe_fetch = \<lparr>fe_anchor_ok = True, fe_first_ok = True, fe_grow_ok = (\<lambda>_. True), fe_more_ok = (\<lambda>_. True), fe_save_ok = True\<rparr>,
     pe_disk = sample_disk now rows\<rparr>"

lemma sample_digits:
  "show_nat 0 = ''0''" "show_nat 1 = ''1''" "show_nat 5 = ''5''" "show_nat 7 = ''7''" "show_nat 8 = ''8''"
  "show_nat (Suc 0) = ''1''"
  by (simp_all add: show_nat.simps)

lemma sample_row_ok: "disk_row_ok (sample_row ''sda'' 0 7)" "disk_row_ok (sample_row ''sda1'' 1 5)"
  by (simp_all add: disk_row_ok_def sample_row_def int_range_def DISKSTATS_NAME_LEN_def DISKSTATS_LINE_LEN_def
      isspace_def disk_line_def disk_numbers_def zero_data_def sample_digits show_int_def)

lemma sample_reads:
  "reads_rows [sample_row ''sda'' 0 7, sample_row ''sda1'' 1 5]
     (sample_disk now [sample_row ''sda'' 0 7, sample_row ''sda1'' 1 5])"
  by (simp add: reads_rows_def sample_disk_def sample_row_ok)

lemma sample_all_ok: "all_ok (pe_fetch (sample_reap now rows))" "pe_realloc_ok (sample_reap now rows)"
  "pe_disk (sample_reap now rows) = sample_disk now rows"
  by (simp_all add: all_ok_def sample_reap_def)

lemma sample_disk_items: "\<not> diskstats_items_check_failed (4096, [2, 6, 17]) 3"
  by (simp add: diskstats_items_check_failed_def items_check_failed_def DISKSTATS_logical_end_def diskstats_table_def)

theorem diskstats_read_refines_witness:
  "\<exists>info' w'. diskstats_read_failed (sample_disk 100 [sample_row ''sda'' 0 7, sample_row ''sda1'' 1 5]) fresh_diskstats 0
      = (None, info', w') \<and> disk_wf info'
    \<and> di_old_stamp info' = di_new_stamp fresh_diskstats
    \<and> di_new_stamp info' = de_now (sample_disk 100 [sample_row ''sda'' 0 7, sample_row ''sda1'' 1 5])
    \<and> disk_view info' =
        fold (\<lambda>r. spec_sample (de_sysblock (sample_disk 100 [sample_row ''sda'' 0 7, sample_row ''sda1'' 1 5]))
           (di_new_stamp fresh_diskstats) (de_now (sample_disk 100 [sample_row ''sda'' 0 7, sample_row ''sda1'' 1 5])) (row_node r))
          [sample_row ''sda'' 0 7, sample_row ''sda1'' 1 5] (disk_view fresh_diskstats)"
  by (rule diskstats_read_refines [OF _ sample_reads]) (use fresh_disk_ready in \<open>simp add: disk_ready_def\<close>)

theorem diskstats_reap_fills_witness:
  "\<exists>ss info' w'.
    procps_diskstats_reap (sample_reap 100 [sample_row ''sda'' 0 7, sample_row ''sda1'' 1 5]) (Some (4096, [2, 6, 17])) 3
      (Some fresh_diskstats, 0) = Some (Some (length (di_nodes info'), ss), Some info', w')
    \<and> list_all2 (filled diskstats_rows (take (nat 3) (snd (4096::nat, [2, 6, 17])))) (di_nodes info') ss \<and> disk_ready info'"
proof -
  let ?rows = "[sample_row ''sda'' 0 7, sample_row ''sda1'' 1 5]"
  have "reads_rows ?rows (pe_disk (sample_reap 100 ?rows))" by (simp only: sample_all_ok sample_reads)
  from diskstats_reap_fills [OF fresh_disk_ready this sample_all_ok(2,1) sample_disk_items, of 0] show ?thesis by auto
qed

text \<open>A table with one device, seen at the last read.\<close>

definition gone_node :: dev_node where
  "gone_node = \<lparr>dn_name = ''sdb'', dn_type = DISKSTATS_TYPE_DISK, dn_major = 8, dn_minor = 16, dn_stamped = 90,
     dn_new = zero_data\<lparr>dd_reads := 50\<rparr>, dn_old = zero_data\<lparr>dd_reads := 20\<rparr>\<rparr>"

definition one_disk :: "dev_node \<Rightarrow> diskstats_info" where
  "one_disk n = fresh_diskstats\<lparr>di_nodes := [n], di_new_stamp := 90\<rparr>"

lemma one_disk_ready: "disk_ready (one_disk n)" "disk_view (one_disk n) (dn_name n) = Some n" "disk_wf (one_disk n)"
  using fresh_disk_ready by (simp_all add: disk_ready_def one_disk_def disk_wf_def disk_view_def fresh_diskstats_def)

theorem removed_disk_still_reaped_witness:
  "\<exists>k ss info' w'.
    procps_diskstats_reap (sample_reap 100 [sample_row ''sda'' 0 7, sample_row ''sda1'' 1 5]) (Some (4096, [2, 6, 17])) 3
      (Some (one_disk gone_node), 0) = Some (Some (length (di_nodes info'), ss), Some info', w')
    \<and> k < length ss \<and> filled diskstats_rows [2, 6, 17] gone_node (ss ! k)"
proof -
  let ?rows = "[sample_row ''sda'' 0 7, sample_row ''sda1'' 1 5]"
  have r: "reads_rows ?rows (pe_disk (sample_reap 100 ?rows))" by (simp only: sample_all_ok sample_reads)
  have v: "disk_view (one_disk gone_node) ''sdb'' = Some gone_node"
    using one_disk_ready(2) [of gone_node] by (simp add: gone_node_def)
  have n: "list_all (\<lambda>r. dn_name (row_node r) \<noteq> ''sdb'') ?rows" by (simp add: row_node_def sample_row_def)
  from removed_disk_still_reaped [OF one_disk_ready(1) r sample_all_ok(2,1) sample_disk_items _ v n, of 0]
  show ?thesis by (simp add: numeral_3_eq_3) blast
qed

theorem diskstats_deltas_witness:
  "\<exists>info' w'. diskstats_read_failed (sample_disk 100 [sample_row ''sda'' 0 7, sample_row ''sda1'' 1 5])
      (one_disk (gone_node\<lparr>dn_name := ''sda''\<rparr>)) 0 = (None, info', w')
    \<and> disk_view info' ''sda'' = Some ((row_node (sample_row ''sda'' 0 7))
        \<lparr>dn_stamped := 100, dn_old := zero_data\<lparr>dd_reads := 50\<rparr>, dn_type := DISKSTATS_TYPE_DISK\<rparr>)"
proof -
  have nm: "dn_name (row_node (sample_row ''sda'' 0 7)) = ''sda''" by (simp add: row_node_def sample_row_def)
  have r: "reads_rows ([] @ sample_row ''sda'' 0 7 # [sample_row ''sda1'' 1 5])
      (sample_disk 100 [sample_row ''sda'' 0 7, sample_row ''sda1'' 1 5])" using sample_reads by simp
  have v: "disk_view (one_disk (gone_node\<lparr>dn_name := ''sda''\<rparr>)) (dn_name (row_node (sample_row ''sda'' 0 7)))
      = Some (gone_node\<lparr>dn_name := ''sda''\<rparr>)"
    using one_disk_ready(2) [of "gone_node\<lparr>dn_name := ''sda''\<rparr>"] by (simp add: nm)
  have t: "dn_stamped (gone_node\<lparr>dn_name := ''sda''\<rparr>) = di_new_stamp (one_disk (gone_node\<lparr>dn_name := ''sda''\<rparr>))"
    by (simp add: gone_node_def one_disk_def)
  have o: "list_all (\<lambda>x. dn_name (row_node x) \<noteq> dn_name (row_node (sample_row ''sda'' 0 7))) ([] @ [sample_row ''sda1'' 1 5])"
    by (simp add: row_node_def sample_row_def)
  from diskstats_deltas [OF one_disk_ready(3) r v t o, of 0] show ?thesis
    by (simp add: nm gone_node_def sample_disk_def)
qed

lemma sample_new_disk:
  obtains info w1 where
    "procps_diskstats_new True (sample_disk 100 [sample_row ''sda'' 0 7, sample_row ''sda1'' 1 5]) (Some None) 0 = (0, Some (Some info), w1)"
    "di_refcount info = 1"
proof -
  have wf: "disk_wf fresh_diskstats" using fresh_disk_ready by (simp add: disk_ready_def)
  show thesis
    by (rule read_refines [OF wf sample_reads, of 100 0])
      (rule that, simp_all add: procps_diskstats_new_def, simp add: fresh_diskstats_def)
qed

theorem diskstats_invariant_witness:
  "\<exists>info w1 info' w2.
    procps_diskstats_new True (sample_disk 100 [sample_row ''sda'' 0 7, sample_row ''sda1'' 1 5]) (Some None) 0 = (0, Some (Some info), w1)
    \<and> disk_step\<^sup>*\<^sup>* (Some info, w1) (Some info', w2) \<and> distinct (map dn_name (di_nodes info')) \<and> 0 < di_refcount info'"
proof -
  obtain info w1 where n:
    "procps_diskstats_new True (sample_disk 100 [sample_row ''sda'' 0 7, sample_row ''sda1'' 1 5]) (Some None) 0 = (0, Some (Some info), w1)"
    by (rule sample_new_disk)
  have s: "disk_step\<^sup>*\<^sup>* (Some info, w1) (Some (info\<lparr>di_refcount := di_refcount info + 1\<rparr>), w1)"
    by (auto intro!: disk_step.ref simp: procps_diskstats_ref_def)
  show ?thesis using diskstats_invariant [OF n s] n s by auto
qed

theorem diskstats_released_witness:
  "\<exists>info w1.
    procps_diskstats_new True (sample_disk 100 [sample_row ''sda'' 0 7, sample_row ''sda1'' 1 5]) (Some None) 0 = (0, Some (Some info), w1)
    \<and> ref_run procps_diskstats_ref procps_diskstats_unref [True, False, False] (Some info, w1) = (None, 0)"
proof -
  obtain info w1 where n:
    "procps_diskstats_new True (sample_disk 100 [sample_row ''sda'' 0 7, sample_row ''sda1'' 1 5]) (Some None) 0 = (0, Some (Some info), w1)"
    and "di_refcount info = 1"
    by (rule sample_new_disk)
  then have "refs_left [True, False, False] (di_refcount info) = 0" by simp
  from diskstats_released [OF n this] show ?thesis using n by blast
qed

definition reads_stack :: "ulong \<Rightarrow> stack" where
  "reads_stack v = [\<lparr>rc_item = 6, rc_val = Ul_int v\<rparr>, \<lparr>rc_item = DISKSTATS_logical_end, rc_val = Zero\<rparr>]"

theorem diskstats_sort_sorts_witness:
  "\<exists>k ss'. procps_diskstats_sort (\<lambda>_ _. 0) (Some fresh_diskstats) (Some [reads_stack 9, reads_stack 3]) 6 1 = Some (Some ss')
    \<and> mset ss' = mset [reads_stack 9, reads_stack 3] \<and> k < length [6 :: nat] \<and> [6] ! k = (6 :: nat)
    \<and> sorted_wrt (\<lambda>a b. if (1 :: int) = 1 then rd_ul_int (cell_val k a) \<le> rd_ul_int (cell_val k b)
        else rd_ul_int (cell_val k b) \<le> rd_ul_int (cell_val k a)) ss'"
  by (rule diskstats_sort_sorts)
    (simp_all add: reads_stack_def DISKSTATS_logical_end_def diskstats_table_def)

end
