(* ===== verification/Stat.thy ===== *)
theory Stat
  imports Stacks Scanf SysInfo
begin

text \<open>
  \<^verbatim>\<open>procps/linux/stat.c\<close>: the jiffies of the cpus and the system counters of
  \<^verbatim>\<open>/proc/stat\<close>, the sums over numa nodes, and the interface \<open>new\<close>, \<open>ref\<close>,
  \<open>unref\<close>, \<open>get\<close>, \<open>reap\<close>, \<open>select\<close>, \<open>sort\<close>. \<open>CPU_IDLE_FORCED\<close> and \<open>ENFORCE_LOGICAL\<close> are
  not defined.

  The three sets of stacks of a \<open>reap\<close> share their items, so the structure holds the extents of each
  and the items once; \<open>ext_of\<close> puts the two together. The history of the cpus is an array that grows;
  what its new part holds is a parameter, since \<open>realloc\<close> does not clear it.
\<close>

subsection \<open>Data\<close>

definition BUFFER_INCR :: nat where
  "BUFFER_INCR = 8192"

definition NEWOLD_INCR :: nat where
  "NEWOLD_INCR = 64"

definition STAT_SUMMARY_ID :: int where
  "STAT_SUMMARY_ID = - 11111"

definition STAT_NODE_INVALID :: int where
  "STAT_NODE_INVALID = - 22222"

record stat_jifs =
  js_user :: ulong
  js_nice :: ulong
  js_system :: ulong
  js_idle :: ulong
  js_iowait :: ulong
  js_irq :: ulong
  js_sirq :: ulong
  js_stolen :: ulong
  js_guest :: ulong
  js_gnice :: ulong
  js_xusr :: ulong
  js_xsys :: ulong
  js_xidl :: ulong
  js_xbsy :: ulong
  js_xtot :: ulong

record stat_data =
  sd_intr :: ulong
  sd_ctxt :: ulong
  sd_btime :: ulong
  sd_procs_created :: ulong
  sd_procs_blocked :: ulong
  sd_procs_running :: ulong

record hist_sys =
  sy_new :: stat_data
  sy_old :: stat_data

record hist_tic =
  ti_id :: int
  ti_numa_node :: int
  ti_count :: int
  ti_new :: stat_jifs
  ti_old :: stat_jifs

definition zero_jifs :: stat_jifs where
  "zero_jifs =
     \<lparr>js_user = 0, js_nice = 0, js_system = 0, js_idle = 0, js_iowait = 0, js_irq = 0, js_sirq = 0, js_stolen = 0,
      js_guest = 0, js_gnice = 0, js_xusr = 0, js_xsys = 0, js_xidl = 0, js_xbsy = 0, js_xtot = 0\<rparr>"

definition zero_stat :: stat_data where
  "zero_stat =
     \<lparr>sd_intr = 0, sd_ctxt = 0, sd_btime = 0, sd_procs_created = 0, sd_procs_blocked = 0, sd_procs_running = 0\<rparr>"

definition zero_tic :: hist_tic where
  "zero_tic = \<lparr>ti_id = 0, ti_numa_node = 0, ti_count = 0, ti_new = zero_jifs, ti_old = zero_jifs\<rparr>"

record item_support =
  it_num :: nat
  it_enums :: "item list option"

record tic_support =
  ts_n_alloc :: nat
  ts_n_inuse :: nat
  ts_tics :: "hist_tic list option"

record reap_support =
  rs_total :: int
  rs_extents :: "stack list list"
  rs_hist :: tic_support
  rs_fetch :: fetch_support

record stat_info =
  st_refcount :: int
  st_fp :: bool
  st_buf :: bool               \<comment> \<open>false: a null pointer\<close>
  st_buf_size :: nat
  st_sys_hist :: hist_sys
  st_cpu_hist :: hist_tic
  st_cpus :: reap_support
  st_nodes :: reap_support
  st_summary_extents :: "stack list list"
  st_select_extents :: "stack list list"
  st_get_this :: result_cell
  st_reap_items :: item_support
  st_select_items :: item_support
  st_sav_secs :: int

definition ext_of :: "item_support \<Rightarrow> stack list list \<Rightarrow> ext_support" where
  "ext_of it exts = \<lparr>es_num = it_num it, es_items = it_enums it, es_extents = exts\<rparr>"

definition items_of :: "ext_support \<Rightarrow> item_support" where
  "items_of es = \<lparr>it_num = es_num es, it_enums = es_items es\<rparr>"

subsection \<open>Setting results\<close>

definition TIC_set :: "(stat_jifs \<Rightarrow> ulong) \<Rightarrow> hist_sys \<times> hist_tic \<Rightarrow> rval \<Rightarrow> rval" where
  "TIC_set x = (\<lambda>(S, T) v. Ull_int (x (ti_new T)))"

definition SYS_set :: "(stat_data \<Rightarrow> ulong) \<Rightarrow> hist_sys \<times> hist_tic \<Rightarrow> rval \<Rightarrow> rval" where
  "SYS_set x = (\<lambda>(S, T) v. Ul_int (x (sy_new S)))"

definition TICsetH :: "(stat_jifs \<Rightarrow> ulong) \<Rightarrow> hist_sys \<times> hist_tic \<Rightarrow> rval \<Rightarrow> rval" where
  "TICsetH x = (\<lambda>(S, T) v.
     let t = sint (x (ti_new T) - x (ti_old T)) in Sl_int (if t < 0 then 0 else t))"

definition SYSsetH :: "(stat_data \<Rightarrow> ulong) \<Rightarrow> hist_sys \<times> hist_tic \<Rightarrow> rval \<Rightarrow> rval" where
  "SYSsetH x = (\<lambda>(S, T) v. S_int (cast_int (uint (x (sy_new S) - x (sy_old S)))))"

definition stat_sets :: "(string \<times> (hist_sys \<times> hist_tic \<Rightarrow> rval \<Rightarrow> rval)) list" where
  "stat_sets =
    [(''noop'', set_noop), (''extra'', \<lambda>(S, T) v. Ull_int 0),
     (''TIC_ID'', \<lambda>(S, T) v. S_int (ti_id T)),
     (''TIC_NUMA_NODE'', \<lambda>(S, T) v. S_int (ti_numa_node T)),
     (''TIC_NUM_CONTRIBUTORS'', \<lambda>(S, T) v. S_int (ti_count T)), (''TIC_USER'', TIC_set js_user),
     (''TIC_NICE'', TIC_set js_nice), (''TIC_SYSTEM'', TIC_set js_system), (''TIC_IDLE'', TIC_set js_idle),
     (''TIC_IOWAIT'', TIC_set js_iowait), (''TIC_IRQ'', TIC_set js_irq), (''TIC_SOFTIRQ'', TIC_set js_sirq),
     (''TIC_STOLEN'', TIC_set js_stolen), (''TIC_GUEST'', TIC_set js_guest),
     (''TIC_GUEST_NICE'', TIC_set js_gnice), (''TIC_DELTA_USER'', TICsetH js_user),
     (''TIC_DELTA_NICE'', TICsetH js_nice), (''TIC_DELTA_SYSTEM'', TICsetH js_system),
     (''TIC_DELTA_IDLE'', TICsetH js_idle), (''TIC_DELTA_IOWAIT'', TICsetH js_iowait),
     (''TIC_DELTA_IRQ'', TICsetH js_irq), (''TIC_DELTA_SOFTIRQ'', TICsetH js_sirq),
     (''TIC_DELTA_STOLEN'', TICsetH js_stolen), (''TIC_DELTA_GUEST'', TICsetH js_guest),
     (''TIC_DELTA_GUEST_NICE'', TICsetH js_gnice), (''TIC_SUM_USER'', TIC_set js_xusr),
     (''TIC_SUM_SYSTEM'', TIC_set js_xsys), (''TIC_SUM_IDLE'', TIC_set js_xidl),
     (''TIC_SUM_BUSY'', TIC_set js_xbsy), (''TIC_SUM_TOTAL'', TIC_set js_xtot),
     (''TIC_SUM_DELTA_USER'', TICsetH js_xusr), (''TIC_SUM_DELTA_SYSTEM'', TICsetH js_xsys),
     (''TIC_SUM_DELTA_IDLE'', TICsetH js_xidl), (''TIC_SUM_DELTA_BUSY'', TICsetH js_xbsy),
     (''TIC_SUM_DELTA_TOTAL'', TICsetH js_xtot), (''SYS_CTX_SWITCHES'', SYS_set sd_ctxt),
     (''SYS_INTERRUPTS'', SYS_set sd_intr), (''SYS_PROC_BLOCKED'', SYS_set sd_procs_blocked),
     (''SYS_PROC_CREATED'', SYS_set sd_procs_created), (''SYS_PROC_RUNNING'', SYS_set sd_procs_running),
     (''SYS_TIME_OF_BOOT'', SYS_set sd_btime), (''SYS_DELTA_CTX_SWITCHES'', SYSsetH sd_ctxt),
     (''SYS_DELTA_INTERRUPTS'', SYSsetH sd_intr), (''SYS_DELTA_PROC_BLOCKED'', SYSsetH sd_procs_blocked),
     (''SYS_DELTA_PROC_CREATED'', SYSsetH sd_procs_created),
     (''SYS_DELTA_PROC_RUNNING'', SYSsetH sd_procs_running)]"

definition stat_table :: "(string \<times> sort_kind \<times> string) list" where
  "stat_table =
    [(''noop'', Q_noop, ''''), (''extra'', Q_ull_int, ''''), (''TIC_ID'', Q_s_int, ''s_int''),
     (''TIC_NUMA_NODE'', Q_s_int, ''s_int''), (''TIC_NUM_CONTRIBUTORS'', Q_s_int, ''s_int''),
     (''TIC_USER'', Q_ull_int, ''ull_int''), (''TIC_NICE'', Q_ull_int, ''ull_int''),
     (''TIC_SYSTEM'', Q_ull_int, ''ull_int''), (''TIC_IDLE'', Q_ull_int, ''ull_int''),
     (''TIC_IOWAIT'', Q_ull_int, ''ull_int''), (''TIC_IRQ'', Q_ull_int, ''ull_int''),
     (''TIC_SOFTIRQ'', Q_ull_int, ''ull_int''), (''TIC_STOLEN'', Q_ull_int, ''ull_int''),
     (''TIC_GUEST'', Q_ull_int, ''ull_int''), (''TIC_GUEST_NICE'', Q_ull_int, ''ull_int''),
     (''TIC_DELTA_USER'', Q_sl_int, ''sl_int''), (''TIC_DELTA_NICE'', Q_sl_int, ''sl_int''),
     (''TIC_DELTA_SYSTEM'', Q_sl_int, ''sl_int''), (''TIC_DELTA_IDLE'', Q_sl_int, ''sl_int''),
     (''TIC_DELTA_IOWAIT'', Q_sl_int, ''sl_int''), (''TIC_DELTA_IRQ'', Q_sl_int, ''sl_int''),
     (''TIC_DELTA_SOFTIRQ'', Q_sl_int, ''sl_int''), (''TIC_DELTA_STOLEN'', Q_sl_int, ''sl_int''),
     (''TIC_DELTA_GUEST'', Q_sl_int, ''sl_int''), (''TIC_DELTA_GUEST_NICE'', Q_sl_int, ''sl_int''),
     (''TIC_SUM_USER'', Q_ull_int, ''ull_int''), (''TIC_SUM_SYSTEM'', Q_ull_int, ''ull_int''),
     (''TIC_SUM_IDLE'', Q_ull_int, ''ull_int''), (''TIC_SUM_BUSY'', Q_ull_int, ''ull_int''),
     (''TIC_SUM_TOTAL'', Q_ull_int, ''ull_int''), (''TIC_SUM_DELTA_USER'', Q_sl_int, ''sl_int''),
     (''TIC_SUM_DELTA_SYSTEM'', Q_sl_int, ''sl_int''), (''TIC_SUM_DELTA_IDLE'', Q_sl_int, ''sl_int''),
     (''TIC_SUM_DELTA_BUSY'', Q_sl_int, ''sl_int''), (''TIC_SUM_DELTA_TOTAL'', Q_sl_int, ''sl_int''),
     (''SYS_CTX_SWITCHES'', Q_ul_int, ''ul_int''), (''SYS_INTERRUPTS'', Q_ul_int, ''ul_int''),
     (''SYS_PROC_BLOCKED'', Q_ul_int, ''ul_int''), (''SYS_PROC_CREATED'', Q_ul_int, ''ul_int''),
     (''SYS_PROC_RUNNING'', Q_ul_int, ''ul_int''), (''SYS_TIME_OF_BOOT'', Q_ul_int, ''ul_int''),
     (''SYS_DELTA_CTX_SWITCHES'', Q_s_int, ''s_int''), (''SYS_DELTA_INTERRUPTS'', Q_s_int, ''s_int''),
     (''SYS_DELTA_PROC_BLOCKED'', Q_s_int, ''s_int''), (''SYS_DELTA_PROC_CREATED'', Q_s_int, ''s_int''),
     (''SYS_DELTA_PROC_RUNNING'', Q_s_int, ''s_int'')]"

text \<open>The enumerators of \<open>enum stat_item\<close>, with the type the header documents for each.\<close>

definition stat_item :: "(string \<times> string) list" where
  "stat_item =
    [(''noop'', ''''), (''extra'', ''''), (''TIC_ID'', ''s_int''), (''TIC_NUMA_NODE'', ''s_int''),
     (''TIC_NUM_CONTRIBUTORS'', ''s_int''), (''TIC_USER'', ''ull_int''), (''TIC_NICE'', ''ull_int''),
     (''TIC_SYSTEM'', ''ull_int''), (''TIC_IDLE'', ''ull_int''), (''TIC_IOWAIT'', ''ull_int''),
     (''TIC_IRQ'', ''ull_int''), (''TIC_SOFTIRQ'', ''ull_int''), (''TIC_STOLEN'', ''ull_int''),
     (''TIC_GUEST'', ''ull_int''), (''TIC_GUEST_NICE'', ''ull_int''), (''TIC_DELTA_USER'', ''sl_int''),
     (''TIC_DELTA_NICE'', ''sl_int''), (''TIC_DELTA_SYSTEM'', ''sl_int''), (''TIC_DELTA_IDLE'', ''sl_int''),
     (''TIC_DELTA_IOWAIT'', ''sl_int''), (''TIC_DELTA_IRQ'', ''sl_int''), (''TIC_DELTA_SOFTIRQ'', ''sl_int''),
     (''TIC_DELTA_STOLEN'', ''sl_int''), (''TIC_DELTA_GUEST'', ''sl_int''),
     (''TIC_DELTA_GUEST_NICE'', ''sl_int''), (''TIC_SUM_USER'', ''ull_int''), (''TIC_SUM_SYSTEM'', ''ull_int''),
     (''TIC_SUM_IDLE'', ''ull_int''), (''TIC_SUM_BUSY'', ''ull_int''), (''TIC_SUM_TOTAL'', ''ull_int''),
     (''TIC_SUM_DELTA_USER'', ''sl_int''), (''TIC_SUM_DELTA_SYSTEM'', ''sl_int''),
     (''TIC_SUM_DELTA_IDLE'', ''sl_int''), (''TIC_SUM_DELTA_BUSY'', ''sl_int''),
     (''TIC_SUM_DELTA_TOTAL'', ''sl_int''), (''SYS_CTX_SWITCHES'', ''ul_int''),
     (''SYS_INTERRUPTS'', ''ul_int''), (''SYS_PROC_BLOCKED'', ''ul_int''), (''SYS_PROC_CREATED'', ''ul_int''),
     (''SYS_PROC_RUNNING'', ''ul_int''), (''SYS_TIME_OF_BOOT'', ''ul_int''),
     (''SYS_DELTA_CTX_SWITCHES'', ''s_int''), (''SYS_DELTA_INTERRUPTS'', ''s_int''),
     (''SYS_DELTA_PROC_BLOCKED'', ''s_int''), (''SYS_DELTA_PROC_CREATED'', ''s_int''),
     (''SYS_DELTA_PROC_RUNNING'', ''s_int'')]"

definition stat_rows :: "(hist_sys \<times> hist_tic) row list" where
  "stat_rows = map2 (\<lambda>(nm, q, ty) (nm', f). (nm, f, ty)) stat_table stat_sets"

definition STAT_logical_end :: nat where
  "STAT_logical_end = length stat_table"

subsection \<open>Derived jiffies\<close>

definition derive_sums :: "stat_jifs \<Rightarrow> stat_jifs" where
  "derive_sums j =
     (let usr = js_user j + js_nice j;
          sys = js_system j + js_irq j + js_sirq j;
          idl = js_idle j + js_iowait j;
          tot = usr + sys + idl + js_stolen j + js_guest j + js_gnice j
      in j\<lparr>js_xusr := usr, js_xsys := sys, js_xidl := idl, js_xtot := tot, js_xbsy := tot - idl\<rparr>)"

definition sums_fell :: "stat_jifs \<Rightarrow> stat_jifs \<Rightarrow> bool" where
  "sums_fell new old \<longleftrightarrow>
     js_xusr new < js_xusr old \<or> js_xsys new < js_xsys old \<or> js_xidl new < js_xidl old
     \<or> js_xbsy new < js_xbsy old \<or> js_xtot new < js_xtot old"

definition stat_derive_unique :: "hist_tic \<Rightarrow> hist_tic" where
  "stat_derive_unique this =
     (let new = derive_sums (ti_new this)
      in this\<lparr>ti_new := new, ti_old := (if sums_fell new (ti_old this) then new else ti_old this)\<rparr>)"

subsection \<open>Numa nodes\<close>

definition add_jifs :: "stat_jifs \<Rightarrow> stat_jifs \<Rightarrow> stat_jifs" where
  "add_jifs a b =
     \<lparr>js_user = js_user a + js_user b, js_nice = js_nice a + js_nice b, js_system = js_system a + js_system b,
      js_idle = js_idle a + js_idle b, js_iowait = js_iowait a + js_iowait b, js_irq = js_irq a + js_irq b,
      js_sirq = js_sirq a + js_sirq b, js_stolen = js_stolen a + js_stolen b, js_guest = js_guest a + js_guest b,
      js_gnice = js_gnice a + js_gnice b, js_xusr = js_xusr a + js_xusr b, js_xsys = js_xsys a + js_xsys b,
      js_xidl = js_xidl a + js_xidl b, js_xbsy = js_xbsy a + js_xbsy b, js_xtot = js_xtot a + js_xtot b\<rparr>"

definition node_slot :: "nat \<Rightarrow> hist_tic" where
  "node_slot i = zero_tic\<lparr>ti_numa_node := STAT_NODE_INVALID, ti_id := int i\<rparr>"

text \<open>One cpu, with the node it belongs to; \<open>None\<close> when that is outside the array.\<close>

definition numa_cpu ::
  "(int \<Rightarrow> int) \<Rightarrow> hist_tic \<times> hist_tic list \<Rightarrow> (hist_tic \<times> hist_tic list) option" where
  "numa_cpu node_of_cpu = (\<lambda>(cpu, nodes).
     let node = node_of_cpu (ti_id cpu)
     in if \<not> - 1 < node then Some (cpu, nodes)
        else if length nodes \<le> nat node then None
        else
          let n = nodes ! nat node
          in Some (cpu\<lparr>ti_numa_node := node\<rparr>,
               nodes[nat node := n\<lparr>ti_new := add_jifs (ti_new n) (ti_new cpu), ti_old := add_jifs (ti_old n) (ti_old cpu),
                 ti_numa_node := node, ti_count := ti_count n + 1\<rparr>]))"

fun numa_cpus ::
  "(int \<Rightarrow> int) \<Rightarrow> hist_tic list \<Rightarrow> hist_tic list \<Rightarrow> (hist_tic list \<times> hist_tic list) option" where
  "numa_cpus f [] nodes = Some ([], nodes)"
| "numa_cpus f (c # cs) nodes =
     (case numa_cpu f (c, nodes) of
        None \<Rightarrow> None
      | Some (c', nodes') \<Rightarrow>
          (case numa_cpus f cs nodes' of None \<Rightarrow> None | Some (cs', nodes'') \<Rightarrow> Some (c' # cs', nodes'')))"

text \<open>The number of nodes, or \<open>-ENOMEM\<close>; the outer \<open>None\<close> for a write outside an array.\<close>

definition stat_make_numa_hist :: "bool \<Rightarrow> numa_state \<Rightarrow> stat_info \<Rightarrow> (int \<times> stat_info) option" where
  "stat_make_numa_hist realloc_ok numa info =
     (let total = numa_max_node numa + 1;
          info1 = info\<lparr>st_nodes := (st_nodes info)\<lparr>rs_total := total\<rparr>\<rparr>;
          h = rs_hist (st_nodes info);
          redo = ts_n_alloc h = 0 \<or> int (ts_n_alloc h) \<le> total;
          n = (if redo then nat total + NEWOLD_INCR else ts_n_alloc h)
      in if total = 0 then Some (0, info1)
         else if redo \<and> \<not> realloc_ok
         then Some (- ENOMEM, info1\<lparr>st_nodes := (st_nodes info1)\<lparr>rs_hist := h\<lparr>ts_n_alloc := n, ts_tics := None\<rparr>\<rparr>\<rparr>)
         else if \<not> redo \<and> ts_tics h = None then None
         else
           let fresh = map node_slot [0 ..< nat total] @ replicate (n - nat total) zero_tic;
               ch = rs_hist (st_cpus info); tics = the (ts_tics ch)
           in case numa_cpus (numa_node_of_cpu numa) (take (ts_n_inuse ch) tics) fresh of
                None \<Rightarrow> None
              | Some (cs, nodes) \<Rightarrow>
                  Some (total, info1\<lparr>
                    st_cpus := (st_cpus info)\<lparr>rs_hist := ch\<lparr>ts_tics := Some (cs @ drop (ts_n_inuse ch) tics)\<rparr>\<rparr>,
                    st_nodes := (st_nodes info1)\<lparr>rs_hist :=
                      h\<lparr>ts_n_alloc := n, ts_n_inuse := nat total, ts_tics := Some nodes\<rparr>\<rparr>\<rparr>))"

subsection \<open>Reading\<close>

record stat_env =
  se_calloc_ok :: bool
  se_fopen :: "int option"           \<comment> \<open>\<open>errno\<close> if \<open>fopen\<close> fails\<close>
  se_text :: string
  se_feof :: bool                    \<comment> \<open>the stream ended, no error\<close>
  se_grow_buf :: "nat \<Rightarrow> bool"
  se_grow_tics :: "nat \<Rightarrow> bool"
  se_raw :: "nat \<Rightarrow> hist_tic"        \<comment> \<open>what new memory holds\<close>

text \<open>The size of the buffer when the text of this length is in; \<open>Inl\<close> the size that could not be had.\<close>

function buf_loop :: "(nat \<Rightarrow> bool) \<Rightarrow> nat \<Rightarrow> nat \<Rightarrow> nat \<Rightarrow> nat + nat" where
  "buf_loop ok len tot siz =
     (let num = min (siz - tot) (len - tot)
      in if num = 0 then Inr siz
         else if tot + num < siz then Inr siz
         else if \<not> ok siz then Inl (siz + BUFFER_INCR)
         else buf_loop ok len (tot + num) (siz + BUFFER_INCR))"
  by pat_completeness auto
termination
  by (relation "measure (\<lambda>(ok, len, tot, siz). len - tot)") auto

declare buf_loop.simps [simp del]

definition tic_setters :: "(sval \<Rightarrow> hist_tic \<Rightarrow> hist_tic) list" where
  "tic_setters =
     map (\<lambda>f v t. t\<lparr>ti_new := f (sulong_of v) (ti_new t)\<rparr>)
       [\<lambda>x j. j\<lparr>js_user := x\<rparr>, \<lambda>x j. j\<lparr>js_nice := x\<rparr>, \<lambda>x j. j\<lparr>js_system := x\<rparr>, \<lambda>x j. j\<lparr>js_idle := x\<rparr>,
        \<lambda>x j. j\<lparr>js_iowait := x\<rparr>, \<lambda>x j. j\<lparr>js_irq := x\<rparr>, \<lambda>x j. j\<lparr>js_sirq := x\<rparr>, \<lambda>x j. j\<lparr>js_stolen := x\<rparr>,
        \<lambda>x j. j\<lparr>js_guest := x\<rparr>, \<lambda>x j. j\<lparr>js_gnice := x\<rparr>]"

definition summary_fmt :: string where
  "summary_fmt = ''cpu %llu %llu %llu %llu %llu %llu %llu %llu %llu %llu''"

definition cpu_fmt :: string where
  "cpu_fmt = ''cpu%d %llu %llu %llu %llu %llu %llu %llu %llu %llu %llu''"

text \<open>The first line; \<open>None\<close> when it does not have eight numbers (what it has is kept).\<close>

definition read_summary :: "string \<Rightarrow> hist_tic \<Rightarrow> bool \<times> hist_tic" where
  "read_summary bp smry =
     (let t = smry\<lparr>ti_old := ti_new smry, ti_id := STAT_SUMMARY_ID, ti_numa_node := STAT_NODE_INVALID\<rparr>;
          vs = sscanf summary_fmt bp; t1 = assign tic_setters vs t
      in if length vs < 8 then (False, t1) else (True, stat_derive_unique t1))"

definition read_cpu :: "string \<Rightarrow> hist_tic \<Rightarrow> bool \<times> hist_tic" where
  "read_cpu bp cpu =
     (let t = cpu\<lparr>ti_old := ti_new cpu, ti_numa_node := STAT_NODE_INVALID, ti_count := 1\<rparr>;
          vs = sscanf cpu_fmt bp; t1 = assign ((\<lambda>v t. t\<lparr>ti_id := sint_of v\<rparr>) # tic_setters) vs t
      in if length vs < 8 then (False, t1) else (True, stat_derive_unique t1))"

text \<open>
  The lines of the cpus, from the \<open>i\<close>-th on: their number, the text from the first line that is none,
  the array. \<open>Inl\<close> when the array cannot grow. The outer \<open>None\<close> when there is no next line or no array.
\<close>

function cpu_lines ::
  "stat_env \<Rightarrow> nat \<Rightarrow> nat \<Rightarrow> string \<Rightarrow> hist_tic list \<Rightarrow> (nat + nat \<times> nat \<times> string \<times> hist_tic list) option" where
  "cpu_lines e n_alloc i bp tics =
     (case strchr bp newline of
        None \<Rightarrow> None
      | Some nl \<Rightarrow>
          let bp1 = tl nl
          in case read_cpu bp1 (tics ! i) of
               (False, t) \<Rightarrow> Some (Inr (n_alloc, i, bp1, tics[i := t]))
             | (True, t) \<Rightarrow>
                 let tics1 = tics[i := t]
                 in if i + 1 < n_alloc then cpu_lines e n_alloc (i + 1) bp1 tics1
                    else if \<not> se_grow_tics e n_alloc then Some (Inl (n_alloc + NEWOLD_INCR))
                    else cpu_lines e (n_alloc + NEWOLD_INCR) (i + 1) bp1
                           (tics1 @ map (se_raw e) [n_alloc ..< n_alloc + NEWOLD_INCR]))"
  by pat_completeness auto
termination
proof (relation "measure (\<lambda>(e, n, i, bp, tics). length bp)", goal_cases)
  case (2 e n_alloc i bp tics nl)
  from 2(2) strchr_length [OF 2(1)] strchr_SomeD [OF 2(1)] show ?case by (cases nl) auto
next
  case (3 e n_alloc i bp tics nl)
  from 3(2) strchr_length [OF 3(1)] strchr_SomeD [OF 3(1)] show ?case by (cases nl) auto
qed simp

declare cpu_lines.simps [simp del]

text \<open>A counter: the number after the key, 0 without one.\<close>

definition sys_value :: "string \<Rightarrow> string \<Rightarrow> ulong" where
  "sys_value key bp =
     (case strstr bp (key @ '' '') of
        None \<Rightarrow> 0
      | Some b \<Rightarrow> (case sscanf (key @ '' %llu'') b of v # vs \<Rightarrow> sulong_of v | [] \<Rightarrow> 0))"

definition read_sys :: "string \<Rightarrow> stat_data" where
  "read_sys bp =
     \<lparr>sd_intr = sys_value ''intr'' bp, sd_ctxt = sys_value ''ctxt'' bp, sd_btime = sys_value ''btime'' bp,
      sd_procs_created = sys_value ''processes'' bp, sd_procs_blocked = sys_value ''procs_blocked'' bp,
      sd_procs_running = sys_value ''procs_running'' bp\<rparr>"

text \<open>What is done with the text in the buffer.\<close>

definition parse_stat :: "stat_env \<Rightarrow> string \<Rightarrow> stat_info \<Rightarrow> (int option \<times> stat_info) option" where
  "parse_stat e buf info =
     (case read_summary buf (st_cpu_hist info) of
        (False, smry) \<Rightarrow> Some (Some ERANGE, info\<lparr>st_cpu_hist := smry\<rparr>)
      | (True, smry) \<Rightarrow>
          let info1 = info\<lparr>st_cpu_hist := smry\<rparr>; h = rs_hist (st_cpus info)
          in case ts_tics h of
               None \<Rightarrow> None
             | Some tics \<Rightarrow>
                 (case cpu_lines e (ts_n_alloc h) 0 buf tics of
                    None \<Rightarrow> None
                  | Some (Inl n) \<Rightarrow>
                      Some (Some ENOMEM,
                        info1\<lparr>st_cpus := (st_cpus info)\<lparr>rs_hist := h\<lparr>ts_n_alloc := n, ts_tics := None\<rparr>\<rparr>\<rparr>)
                  | Some (Inr (n, i, bp, tics1)) \<Rightarrow>
                      Some (None,
                        info1\<lparr>st_cpu_hist := smry\<lparr>ti_count := int i\<rparr>,
                          st_cpus := (st_cpus info)\<lparr>rs_total := int i,
                            rs_hist := \<lparr>ts_n_alloc = n, ts_n_inuse = i, ts_tics = Some tics1\<rparr>\<rparr>,
                          st_sys_hist := \<lparr>sy_new = read_sys bp, sy_old = sy_new (st_sys_hist info)\<rparr>\<rparr>)))"

text \<open>\<open>None\<close>, or \<open>errno\<close>; with the number of open streams. The outer \<open>None\<close> for undefined behaviour.\<close>

definition stat_read_failed :: "stat_env \<Rightarrow> stat_info \<Rightarrow> int \<Rightarrow> (int option \<times> stat_info \<times> int) option" where
  "stat_read_failed e info w =
     (let h = rs_hist (st_cpus info);
          info1 = (if ts_n_alloc h = 0
                   then info\<lparr>st_cpus := (st_cpus info)\<lparr>rs_hist :=
                          \<lparr>ts_n_alloc = NEWOLD_INCR, ts_n_inuse = 0, ts_tics = Some (replicate NEWOLD_INCR zero_tic)\<rparr>\<rparr>\<rparr>
                   else info)
      in if ts_n_alloc h = 0 \<and> \<not> se_calloc_ok e
         then Some (Some ENOMEM, info\<lparr>st_cpus := (st_cpus info)\<lparr>rs_hist := h\<lparr>ts_tics := None\<rparr>\<rparr>\<rparr>, w)
         else if \<not> st_fp info \<and> se_fopen e \<noteq> None then Some (se_fopen e, info1, w)
         else
           let w1 = (if st_fp info then w else w + 1); info2 = info1\<lparr>st_fp := True\<rparr>
           in if \<not> st_buf info then None
              else case buf_loop (se_grow_buf e) (length (se_text e)) 0 (st_buf_size info) of
                     Inl siz \<Rightarrow> Some (Some ENOMEM, info2\<lparr>st_buf := False, st_buf_size := siz\<rparr>, w1)
                   | Inr siz \<Rightarrow>
                       let info3 = info2\<lparr>st_buf_size := siz\<rparr>
                       in if \<not> se_feof e then Some (Some EIO, info3, w1)
                          else map_option (\<lambda>(r, i). (r, i, w1)) (parse_stat e (cstr (se_text e)) info3))"

subsection \<open>The shared functions\<close>

definition stat_assign_results :: "stack \<Rightarrow> hist_sys \<Rightarrow> hist_tic \<Rightarrow> stack option" where
  "stat_assign_results s S T = assign_results stat_rows (S, T) s"

definition stat_itemize_stack :: "nat \<Rightarrow> item list \<Rightarrow> stack" where
  "stat_itemize_stack = itemize_stack"

definition stat_items_check_failed :: "int \<Rightarrow> nat \<times> item list \<Rightarrow> bool" where
  "stat_items_check_failed = items_check_failed STAT_logical_end"

definition stat_extents_free_all :: "ext_support \<Rightarrow> ext_support" where
  "stat_extents_free_all = extents_free_all"

definition stat_stacks_alloc :: "bool \<Rightarrow> nat \<Rightarrow> ext_support \<Rightarrow> ext_support option" where
  "stat_stacks_alloc = stacks_alloc"

definition stat_stacks_reconfig_maybe ::
  "bool \<Rightarrow> nat \<times> item list \<Rightarrow> int \<Rightarrow> ext_support \<Rightarrow> (int \<times> ext_support) option" where
  "stat_stacks_reconfig_maybe = reconfig_maybe STAT_logical_end"

text \<open>The stacks of a set of cpus or nodes, and what becomes of the set.\<close>

definition stat_stacks_fetch ::
  "fetch_env \<Rightarrow> item_support \<Rightarrow> hist_sys \<Rightarrow> reap_support \<Rightarrow> (int \<times> reap_support) option" where
  "stat_stacks_fetch e its S this =
     (let h = rs_hist this;
          srcs = map (Pair S) (take (ts_n_inuse h) (case ts_tics h of None \<Rightarrow> [] | Some ts \<Rightarrow> ts))
      in if ts_tics h = None \<and> 0 < ts_n_inuse h then None
         else case stacks_fetch STACKS_INCR stat_rows e srcs (ext_of its (rs_extents this)) (rs_fetch this) of
           FetchUndef \<Rightarrow> None
         | FetchFailed es fs \<Rightarrow> Some (- 1, this\<lparr>rs_extents := es_extents es, rs_fetch := fs\<rparr>)
         | Fetched n es fs \<Rightarrow> Some (int n, this\<lparr>rs_extents := es_extents es, rs_fetch := fs\<rparr>))"

text \<open>A single stack, from the summary; the inner \<open>None\<close> when there is no memory.\<close>

definition stat_update_single_stack ::
  "bool \<Rightarrow> stat_info \<Rightarrow> ext_support \<Rightarrow> (stack option \<times> ext_support) option" where
  "stat_update_single_stack alloc_ok info es =
     (case (if es_extents es = [] then stat_stacks_alloc alloc_ok 1 es else Some es) of
        None \<Rightarrow> Some (None, es)
      | Some es1 \<Rightarrow>
          (case stat_assign_results (hd (es_extents es1) ! 0) (st_sys_hist info) (st_cpu_hist info) of
             None \<Rightarrow> None
           | Some s \<Rightarrow> Some (Some s, es1\<lparr>es_extents := (hd (es_extents es1))[0 := s] # tl (es_extents es1)\<rparr>)))"

subsection \<open>The interface\<close>

definition no_items :: item_support where
  "no_items = \<lparr>it_num = 0, it_enums = None\<rparr>"

definition no_reap :: reap_support where
  "no_reap = \<lparr>rs_total = 0, rs_extents = [], rs_hist = \<lparr>ts_n_alloc = 0, ts_n_inuse = 0, ts_tics = None\<rparr>, rs_fetch = no_fetch\<rparr>"

definition fresh_stat :: stat_info where
  "fresh_stat =
     \<lparr>st_refcount = 1, st_fp = False, st_buf = True, st_buf_size = BUFFER_INCR,
      st_sys_hist = \<lparr>sy_new = zero_stat, sy_old = zero_stat\<rparr>, st_cpu_hist = zero_tic, st_cpus = no_reap, st_nodes = no_reap,
      st_summary_extents = [], st_select_extents = [], st_get_this = \<lparr>rc_item = 0, rc_val = Zero\<rparr>,
      st_reap_items = no_items, st_select_items = no_items, st_sav_secs = 0\<rparr>"

definition procps_stat_ref :: "stat_info option \<times> int \<Rightarrow> int \<times> stat_info option \<times> int" where
  "procps_stat_ref = (\<lambda>(p, w).
     case p of
       None \<Rightarrow> (- EINVAL, None, w)
     | Some info \<Rightarrow> (st_refcount info + 1, Some (info\<lparr>st_refcount := st_refcount info + 1\<rparr>), w))"

definition procps_stat_unref :: "stat_info option \<times> int \<Rightarrow> int \<times> stat_info option \<times> int" where
  "procps_stat_unref = (\<lambda>(p, w).
     case p of
       None \<Rightarrow> (- EINVAL, None, w)
     | Some info \<Rightarrow>
         let info1 = info\<lparr>st_refcount := st_refcount info - 1\<rparr>
         in if st_refcount info1 < 1 then (0, None, if st_fp info1 then w - 1 else w)
            else (st_refcount info1, Some info1, w))"

text \<open>\<open>lib\<close> is what the library for numa offers.\<close>

definition procps_stat_new ::
  "bool \<Rightarrow> bool \<Rightarrow> (int option \<times> (int \<Rightarrow> int) option) option \<Rightarrow> stat_env \<Rightarrow> stat_info option option \<Rightarrow> numa_state \<times> int
   \<Rightarrow> (int \<times> stat_info option option \<times> numa_state \<times> int) option" where
  "procps_stat_new calloc_ok buf_ok lib e slot = (\<lambda>(numa, w).
     if slot \<noteq> Some None then Some (- EINVAL, slot, numa, w)
     else if \<not> calloc_ok \<or> \<not> buf_ok then Some (- ENOMEM, slot, numa, w)
     else
       let numa1 = numa_init lib numa
       in case stat_read_failed e fresh_stat w of
            None \<Rightarrow> None
          | Some (Some err, p, w1) \<Rightarrow> (case procps_stat_unref (Some p, w1) of (_, _, w2) \<Rightarrow> Some (- err, slot, numa1, w2))
          | Some (None, p, w1) \<Rightarrow> Some (0, Some (Some p), numa1, w1))"

definition procps_stat_get ::
  "stat_env \<Rightarrow> int \<Rightarrow> item \<Rightarrow> stat_info option \<times> int \<Rightarrow> (result_cell option \<times> stat_info option \<times> int) option" where
  "procps_stat_get e cur_secs it = (\<lambda>(p, w).
     case p of
       None \<Rightarrow> Some (None, None, w)
     | Some info \<Rightarrow>
         if STAT_logical_end \<le> it then Some (None, Some info, w)
         else case (if 1 \<le> cur_secs - st_sav_secs info
                    then map_option (\<lambda>(r, i, w'). (r, if r = None then i\<lparr>st_sav_secs := cur_secs\<rparr> else i, w'))
                           (stat_read_failed e info w)
                    else Some (None, info, w)) of
                None \<Rightarrow> None
              | Some (Some err, i, w') \<Rightarrow> Some (None, Some i, w')
              | Some (None, i, w') \<Rightarrow>
                  let r = \<lparr>rc_item = it, rc_val = setsfunc stat_rows it (st_sys_hist i, st_cpu_hist i) (Ull_int 0)\<rparr>
                  in Some (Some r, Some (i\<lparr>st_get_this := r\<rparr>), w'))"

datatype reap_type = STAT_REAP_CPUS_ONLY | STAT_REAP_NUMA_NODES_TOO | Reap_invalid

record stat_reap_env =
  sp_realloc_ok :: bool
  sp_read :: stat_env
  sp_summary_ok :: bool
  sp_malloc_ok :: bool
  sp_numa_ok :: bool
  sp_nodes :: fetch_env
  sp_cpus :: fetch_env

text \<open>What the caller is given: the summary (perhaps a null pointer) and the stacks of cpus and nodes.\<close>

record stat_reaped =
  sr_summary :: "stack option"
  sr_cpus :: "stack list"
  sr_numa :: "stack list"

definition fetch_set :: "stat_reap_env \<Rightarrow> stat_info \<Rightarrow> (bool \<times> stat_info) option" where
  "fetch_set e info =
     (case stat_stacks_fetch (sp_cpus e) (st_reap_items info) (st_sys_hist info) (st_cpus info) of
        None \<Rightarrow> None
      | Some (rc, cs) \<Rightarrow> Some (0 \<le> rc, info\<lparr>st_cpus := cs\<rparr>))"

definition fetch_sets :: "stat_reap_env \<Rightarrow> numa_state \<Rightarrow> reap_type \<Rightarrow> stat_info \<Rightarrow> (bool \<times> stat_info) option" where
  "fetch_sets e numa what info =
     (if what = STAT_REAP_CPUS_ONLY then fetch_set e info
      else case stat_make_numa_hist (sp_numa_ok e) numa info of
             None \<Rightarrow> None
           | Some (rc, info1) \<Rightarrow>
               if rc < 0 then Some (False, info1)
               else case stat_stacks_fetch (sp_nodes e) (st_reap_items info1) (st_sys_hist info1) (st_nodes info1) of
                      None \<Rightarrow> None
                    | Some (rc, ns) \<Rightarrow>
                        let info2 = info1\<lparr>st_nodes := ns\<rparr>
                        in if rc < 0 then Some (False, info2) else fetch_set e info2)"

definition procps_stat_reap ::
  "stat_reap_env \<Rightarrow> numa_state \<Rightarrow> reap_type \<Rightarrow> (nat \<times> item list) option \<Rightarrow> int \<Rightarrow> stat_info option \<times> int
   \<Rightarrow> (stat_reaped option \<times> stat_info option \<times> int) option" where
  "procps_stat_reap e numa what items numitems = (\<lambda>(p, w).
     case (p, items) of
       (None, _) \<Rightarrow> Some (None, None, w)
     | (Some info, None) \<Rightarrow> Some (None, Some info, w)
     | (Some info, Some its) \<Rightarrow>
         if what = Reap_invalid then Some (None, Some info, w)
         else
         (case stat_stacks_reconfig_maybe (sp_realloc_ok e) its numitems (ext_of (st_reap_items info) (st_summary_extents info)) of
            None \<Rightarrow> None
          | Some (rc, es) \<Rightarrow>
              let info1 = info\<lparr>st_reap_items := items_of es, st_summary_extents := es_extents es\<rparr>;
                  info2 = (if rc = 1
                           then info1\<lparr>st_cpus := (st_cpus info1)\<lparr>rs_extents := []\<rparr>, st_nodes := (st_nodes info1)\<lparr>rs_extents := []\<rparr>\<rparr>
                           else info1)
              in if rc < 0 then Some (None, Some info1, w)
                 else case stat_read_failed (sp_read e) info2 w of
                        None \<Rightarrow> None
                      | Some (Some err, info3, w1) \<Rightarrow> Some (None, Some info3, w1)
                      | Some (None, info3, w1) \<Rightarrow>
                          (case stat_update_single_stack (sp_summary_ok e) info3
                                  (ext_of (st_reap_items info3) (st_summary_extents info3)) of
                             None \<Rightarrow> None
                           | Some (smry, es1) \<Rightarrow>
                               let info4 = info3\<lparr>st_summary_extents := es_extents es1\<rparr>
                               in if fs_result (rs_fetch (st_nodes info4)) = None \<and> \<not> sp_malloc_ok e
                                  then Some (None, Some info4, w1)
                                  else
                                    let nodes = st_nodes info4;
                                        info5 = info4\<lparr>st_nodes := nodes\<lparr>rs_fetch := (rs_fetch nodes)\<lparr>fs_result := Some []\<rparr>\<rparr>\<rparr>
                                    in case fetch_sets e numa what info5 of
                                         None \<Rightarrow> None
                                       | Some (False, info6) \<Rightarrow> Some (None, Some info6, w1)
                                       | Some (True, info6) \<Rightarrow>
                                           Some (Some \<lparr>sr_summary = smry, sr_cpus = the (fs_result (rs_fetch (st_cpus info6))),
                                                   sr_numa = the (fs_result (rs_fetch (st_nodes info6)))\<rparr>, Some info6, w1))))"

definition procps_stat_select ::
  "bool \<Rightarrow> bool \<Rightarrow> stat_env \<Rightarrow> (nat \<times> item list) option \<Rightarrow> int \<Rightarrow> stat_info option \<times> int
   \<Rightarrow> (stack option \<times> stat_info option \<times> int) option" where
  "procps_stat_select realloc_ok alloc_ok e items numitems = (\<lambda>(p, w).
     case (p, items) of
       (None, _) \<Rightarrow> Some (None, None, w)
     | (Some info, None) \<Rightarrow> Some (None, Some info, w)
     | (Some info, Some its) \<Rightarrow>
         (case stat_stacks_reconfig_maybe realloc_ok its numitems (ext_of (st_select_items info) (st_select_extents info)) of
            None \<Rightarrow> None
          | Some (rc, es) \<Rightarrow>
              let info1 = info\<lparr>st_select_items := items_of es, st_select_extents := es_extents es\<rparr>
              in if rc < 0 then Some (None, Some info1, w)
                 else case stat_read_failed e info1 w of
                        None \<Rightarrow> None
                      | Some (Some err, info2, w1) \<Rightarrow> Some (None, Some info2, w1)
                      | Some (None, info2, w1) \<Rightarrow>
                          (case stat_update_single_stack alloc_ok info2
                                  (ext_of (st_select_items info2) (st_select_extents info2)) of
                             None \<Rightarrow> None
                           | Some (s, es1) \<Rightarrow> Some (s, Some (info2\<lparr>st_select_extents := es_extents es1\<rparr>), w1))))"

definition stat_sortfunc :: "item \<Rightarrow> int \<Rightarrow> rval \<Rightarrow> rval \<Rightarrow> int" where
  "stat_sortfunc it = compare_kind (\<lambda>_ _. 0) (fst (snd (stat_table ! it)))"

definition procps_stat_sort :: "stat_info option \<Rightarrow> stack list option \<Rightarrow> item \<Rightarrow> int \<Rightarrow> stack list option option" where
  "procps_stat_sort info stacks sortitem order =
     (case (info, stacks) of
        (Some _, Some ss) \<Rightarrow> sort_stacks STAT_logical_end stat_sortfunc ss sortitem order
      | _ \<Rightarrow> Some None)"

end
