(* ===== verification/StatSpec.thy ===== *)
theory StatSpec
  imports Stat
begin

text \<open>
  What \<^verbatim>\<open>stat.c\<close> promises: the table agrees with the header, the numbers of the file arrive
  in their places, sums never run backwards, a numa node is the sum of its cpus, a \<open>reap\<close> returns a
  filled stack for every cpu; and whose history a cpu gets when the cpus online change.
\<close>

subsection \<open>The item table\<close>

lemmas stat_table_simps = stat_rows_def stat_table_def stat_sets_def

lemma length_stat_rows: "length stat_rows = STAT_logical_end"
  by (simp add: stat_table_simps STAT_logical_end_def)

lemma stat_rows_typed:
  "list_all (\<lambda>(nm, f, ty). ty \<noteq> [] \<longrightarrow> (\<forall>src v. rtype (f src v) = ty)) stat_rows"
  by (simp add: stat_table_simps TIC_set_def TICsetH_def SYS_set_def SYSsetH_def split_def Let_def)

interpretation stat_items: item_table stat_rows
proof unfold_locales
  show "rtype (f src v) = ty" if "(nm, f, ty) \<in> set stat_rows" "ty \<noteq> []" for nm f ty src v
    using stat_rows_typed that by (cases src) (fastforce simp: list_all_iff)
  show "\<exists>nm ty rest. stat_rows = (nm, set_noop, ty) # rest"
    by (simp add: stat_table_simps)
qed

theorem stat_table_matches_header:
  "map (\<lambda>(nm, q, ty). (nm, ty)) stat_table = stat_item \<and> map fst stat_rows = map fst stat_item"
  by (simp add: stat_table_simps stat_item_def)

subsection \<open>Sums\<close>

text \<open>
  The sums of the jiffies, and that they did not run backwards since the last read: what every
  history satisfies once it went through \<open>stat_derive_unique\<close>.
\<close>

lemma derive_sums_keeps [simp]:
  "js_user (derive_sums j) = js_user j" "js_nice (derive_sums j) = js_nice j" "js_system (derive_sums j) = js_system j"
  "js_idle (derive_sums j) = js_idle j" "js_iowait (derive_sums j) = js_iowait j" "js_irq (derive_sums j) = js_irq j"
  "js_sirq (derive_sums j) = js_sirq j" "js_stolen (derive_sums j) = js_stolen j" "js_guest (derive_sums j) = js_guest j"
  "js_gnice (derive_sums j) = js_gnice j"
  by (simp_all add: derive_sums_def Let_def)

definition steady :: "hist_tic \<Rightarrow> bool" where
  "steady t \<longleftrightarrow> \<not> sums_fell (ti_new t) (ti_old t) \<and> js_xbsy (ti_new t) + js_xidl (ti_new t) = js_xtot (ti_new t)"

lemma derive_steady: "steady (stat_derive_unique t)"
  by (simp add: steady_def stat_derive_unique_def Let_def sums_fell_def derive_sums_def)

lemma derive_fields [simp]:
  "ti_id (stat_derive_unique t) = ti_id t" "ti_numa_node (stat_derive_unique t) = ti_numa_node t"
  "ti_count (stat_derive_unique t) = ti_count t" "ti_new (stat_derive_unique t) = derive_sums (ti_new t)"
  by (simp_all add: stat_derive_unique_def Let_def)

definition is_sum :: "(stat_jifs \<Rightarrow> ulong) \<Rightarrow> bool" where
  "is_sum x \<longleftrightarrow> (\<forall>j. x j = js_xusr j) \<or> (\<forall>j. x j = js_xsys j) \<or> (\<forall>j. x j = js_xidl j)
     \<or> (\<forall>j. x j = js_xbsy j) \<or> (\<forall>j. x j = js_xtot j)"

lemma steady_sums: "steady t \<Longrightarrow> is_sum x \<Longrightarrow> x (ti_old t) \<le> x (ti_new t)"
  by (auto simp: steady_def sums_fell_def is_sum_def)

text \<open>The summed differences are exact, and none is cut off at 0.\<close>

lemma steady_delta:
  assumes "steady t" "is_sum x" "uint (x (ti_new t)) - uint (x (ti_old t)) < 2 ^ 63"
  shows "TICsetH x (S, t) v = Sl_int (uint (x (ti_new t)) - uint (x (ti_old t)))"
proof -
  let ?d = "x (ti_new t) - x (ti_old t)"
  have le: "uint (x (ti_old t)) \<le> uint (x (ti_new t))" using steady_sums [OF assms(1,2)] by (simp add: word_le_def)
  then have d: "uint ?d = uint (x (ti_new t)) - uint (x (ti_old t))" using uint_sub_lem by blast
  have "sint ?d = signed_take_bit 63 (uint ?d)" by (simp add: sint_uint)
  also have "\<dots> = uint ?d"
    using assms(3) le by (intro signed_take_bit_int_eq_self) (simp_all add: d)
  finally show ?thesis using le d by (simp add: TICsetH_def Let_def)
qed

subsection \<open>The lines of the file\<close>

definition jif_numbers :: "stat_jifs \<Rightarrow> ulong list" where
  "jif_numbers j =
     [js_user j, js_nice j, js_system j, js_idle j, js_iowait j, js_irq j, js_sirq j, js_stolen j, js_guest j, js_gnice j]"

definition numbers_text :: "ulong list \<Rightarrow> string" where
  "numbers_text ws = concat (map (\<lambda>w. '' '' @ show_nat (unat w)) ws)"

definition summary_line :: "stat_jifs \<Rightarrow> string" where
  "summary_line j = ''cpu '' @ numbers_text (jif_numbers j)"

definition cpu_line :: "nat \<times> stat_jifs \<Rightarrow> string" where
  "cpu_line = (\<lambda>(n, j). ''cpu'' @ show_nat n @ numbers_text (jif_numbers j))"

text \<open>The jiffies read into those of before.\<close>

definition put_jifs :: "stat_jifs \<Rightarrow> stat_jifs \<Rightarrow> stat_jifs" where
  "put_jifs j old =
     old\<lparr>js_user := js_user j, js_nice := js_nice j, js_system := js_system j, js_idle := js_idle j,
       js_iowait := js_iowait j, js_irq := js_irq j, js_sirq := js_sirq j, js_stolen := js_stolen j,
       js_guest := js_guest j, js_gnice := js_gnice j\<rparr>"

definition summary_after :: "stat_jifs \<Rightarrow> hist_tic \<Rightarrow> hist_tic" where
  "summary_after j t =
     stat_derive_unique (t\<lparr>ti_old := ti_new t, ti_id := STAT_SUMMARY_ID, ti_numa_node := STAT_NODE_INVALID,
       ti_new := put_jifs j (ti_new t)\<rparr>)"

definition cpu_after :: "nat \<times> stat_jifs \<Rightarrow> hist_tic \<Rightarrow> hist_tic" where
  "cpu_after = (\<lambda>(n, j) t.
     stat_derive_unique (t\<lparr>ti_old := ti_new t, ti_numa_node := STAT_NODE_INVALID, ti_count := 1, ti_id := int n,
       ti_new := put_jifs j (ti_new t)\<rparr>))"

lemma parse_summary_fmt:
  "parse_format summary_fmt =
     [Lit CHR ''c'', Lit CHR ''p'', Lit CHR ''u'', Blank, Conv CULong, Blank, Conv CULong, Blank, Conv CULong, Blank,
      Conv CULong, Blank, Conv CULong, Blank, Conv CULong, Blank, Conv CULong, Blank, Conv CULong, Blank, Conv CULong,
      Blank, Conv CULong]"
  by (simp add: summary_fmt_def parse_format.simps isspace_def isdigit_def)

lemma parse_cpu_fmt:
  "parse_format cpu_fmt =
     [Lit CHR ''c'', Lit CHR ''p'', Lit CHR ''u'', Conv CInt, Blank, Conv CULong, Blank, Conv CULong, Blank, Conv CULong,
      Blank, Conv CULong, Blank, Conv CULong, Blank, Conv CULong, Blank, Conv CULong, Blank, Conv CULong, Blank,
      Conv CULong, Blank, Conv CULong]"
  by (simp add: cpu_fmt_def parse_format.simps isspace_def isdigit_def)

lemma scan_nat_int:
  "n < 2 ^ 31 \<Longrightarrow> ends_number r \<Longrightarrow> run_scanf (Conv CInt # ds) (show_nat n @ r) = SInt (int n) # run_scanf ds r"
  using scan_int [of "int n" r ds] by (simp add: show_int_def)

lemma newline_no_digit [simp]: "\<not> isdigit newline"
  by (simp add: isdigit_def)

lemma scan_summary:
  "sscanf summary_fmt (summary_line j @ newline # r) = map SULong (jif_numbers j)"
  by (simp add: sscanf_def parse_summary_fmt summary_line_def numbers_text_def jif_numbers_def scanf_simps
      run_scanf.simps(1,3) del: run_scanf.simps(2,4,5))

lemma scan_cpu:
  "n < 2 ^ 31 \<Longrightarrow> sscanf cpu_fmt (cpu_line (n, j) @ newline # r) = SInt (int n) # map SULong (jif_numbers j)"
  by (simp add: sscanf_def parse_cpu_fmt cpu_line_def numbers_text_def jif_numbers_def scanf_simps scan_nat_int
      run_scanf.simps(1,3) del: run_scanf.simps(2,4,5))

lemma read_summary_line: "read_summary (summary_line j @ newline # r) t = (True, summary_after j t)"
  by (simp add: read_summary_def scan_summary jif_numbers_def tic_setters_def summary_after_def put_jifs_def Let_def)

lemma read_cpu_line: "n < 2 ^ 31 \<Longrightarrow> read_cpu (cpu_line (n, j) @ newline # r) t = (True, cpu_after (n, j) t)"
  by (simp add: read_cpu_def scan_cpu jif_numbers_def tic_setters_def cpu_after_def put_jifs_def Let_def)

text \<open>The array of histories read as an unbounded one: beyond its end what new memory would hold.\<close>

definition slot :: "stat_env \<Rightarrow> hist_tic list \<Rightarrow> nat \<Rightarrow> hist_tic" where
  "slot e tics k = (if k < length tics then tics ! k else se_raw e k)"

lemma slot_grow: "slot e (tics @ map (se_raw e) [length tics ..< m]) k = slot e tics k"
  by (auto simp: slot_def nth_append)

text \<open>A text that is not the line of a cpu.\<close>

definition no_cpu :: "string \<Rightarrow> bool" where
  "no_cpu r \<longleftrightarrow> (\<forall>t. \<not> fst (read_cpu r t))"

lemma newline_notin_numbers: "newline \<notin> set (numbers_text ws)" "newline \<notin> set (show_nat n)"
  using show_nat_digits [of newline] by (auto simp: numbers_text_def isdigit_def)

lemma newline_notin_lines: "newline \<notin> set (cpu_line c)" "newline \<notin> set (summary_line j)"
  by (auto simp: cpu_line_def summary_line_def newline_notin_numbers split: prod.split)

definition cpus_text :: "(nat \<times> stat_jifs) list \<Rightarrow> string" where
  "cpus_text cs = concat (map (\<lambda>c. cpu_line c @ [newline]) cs)"

lemma cpu_lines_end:
  assumes "newline \<notin> set b" "no_cpu rest"
  shows "\<exists>t. cpu_lines e n i (b @ newline # rest) tics = Some (Inr (n, i, rest, tics[i := t]))"
proof -
  obtain r t where "read_cpu rest (tics ! i) = (r, t)" by fastforce
  moreover from this have "\<not> r" using assms(2) by (auto simp: no_cpu_def dest: spec [of _ "tics ! i"])
  ultimately show ?thesis
    using assms(1) by (intro exI [of _ t]) (subst cpu_lines.simps, simp add: strchr_append Let_def)
qed

lemma cpu_lines_read:
  assumes "se_grow_tics e = (\<lambda>_. True)" "no_cpu rest"
  shows "list_all (\<lambda>c. fst c < 2 ^ 31) cs \<Longrightarrow> newline \<notin> set b \<Longrightarrow> length tics = n \<Longrightarrow> i < n \<Longrightarrow>
    \<exists>n' tics'. cpu_lines e n i (b @ newline # cpus_text cs @ rest) tics = Some (Inr (n', i + length cs, rest, tics'))
      \<and> length tics' = n' \<and> i + length cs < n' \<and> take i tics' = take i tics
      \<and> (\<forall>k<length cs. tics' ! (i + k) = cpu_after (cs ! k) (slot e tics (i + k)))"
proof (induction cs arbitrary: n i b tics)
  case Nil
  obtain t where "cpu_lines e n i (b @ newline # rest) tics = Some (Inr (n, i, rest, tics[i := t]))"
    using cpu_lines_end [OF Nil.prems(2) assms(2)] by blast
  then show ?case using Nil.prems by (simp add: cpus_text_def)
next
  case (Cons c cs)
  let ?rest = "cpu_line c @ newline # cpus_text cs @ rest"
  let ?t = "cpu_after c (tics ! i)" and ?tics = "tics[i := cpu_after c (tics ! i)]"
  obtain m j where c: "c = (m, j)" by (cases c)
  have r: "read_cpu ?rest (tics ! i) = (True, ?t)" using read_cpu_line Cons.prems(1) c by simp
  have nl: "newline \<notin> set (cpu_line c)" by (rule newline_notin_lines)
  have tx: "cpus_text (c # cs) @ rest = ?rest" by (simp add: cpus_text_def)
  let ?n1 = "if i + 1 < n then n else n + NEWOLD_INCR"
  let ?tics1 = "if i + 1 < n then ?tics else ?tics @ map (se_raw e) [n ..< n + NEWOLD_INCR]"
  obtain n1 tics1 where n1_def: "n1 = ?n1" and tics1_def: "tics1 = ?tics1" by blast
  have step: "cpu_lines e n i (b @ newline # ?rest) tics = cpu_lines e n1 (i + 1) ?rest tics1"
    by (subst cpu_lines.simps) (simp add: strchr_append [OF Cons.prems(2)] r Let_def assms(1) n1_def tics1_def)
  have len: "length tics1 = n1" "i + 1 < n1"
    using Cons.prems(3,4) by (auto simp: n1_def tics1_def NEWOLD_INCR_def)
  have sl: "slot e tics1 k = slot e ?tics k" for k
    using slot_grow [of e ?tics "n + NEWOLD_INCR" k] Cons.prems(3) by (simp add: tics1_def)
  from Cons.IH [OF _ nl len] Cons.prems(1) obtain n' tics' where
    ih: "cpu_lines e n1 (i + 1) ?rest tics1 = Some (Inr (n', i + 1 + length cs, rest, tics'))" "length tics' = n'"
      "i + 1 + length cs < n'" "take (i + 1) tics' = take (i + 1) tics1"
      "\<forall>k<length cs. tics' ! (i + 1 + k) = cpu_after (cs ! k) (slot e tics1 (i + 1 + k))"
    by auto
  have at: "tics' ! i = ?t"
  proof -
    have "tics' ! i = take (i + 1) tics' ! i" using ih(3) by simp
    also have "\<dots> = tics1 ! i" using ih(4) by simp
    also have "\<dots> = ?t" using Cons.prems(3,4) by (simp add: tics1_def nth_append)
    finally show ?thesis .
  qed
  have front: "take i tics' = take i tics"
  proof -
    have "take i tics' = take i (take (i + 1) tics')" by simp
    also have "\<dots> = take i (take (i + 1) tics1)" using ih(4) by simp
    also have "\<dots> = take i tics" using Cons.prems(3,4) by (simp add: tics1_def)
    finally show ?thesis .
  qed
  have nth: "tics' ! (i + k) = cpu_after ((c # cs) ! k) (slot e tics (i + k))" if "k < length (c # cs)" for k
  proof (cases k)
    case 0
    then show ?thesis using at Cons.prems(3,4) by (simp add: slot_def)
  next
    case (Suc k')
    then have "tics' ! (i + k) = cpu_after (cs ! k') (slot e tics1 (i + k))" using ih(5) that by simp
    also have "slot e tics1 (i + k) = slot e tics (i + k)" using sl Suc by (simp add: slot_def)
    finally show ?thesis using Suc by simp
  qed
  show ?case using step ih tx front nth by auto
qed

subsection \<open>The counters\<close>

definition sys_text :: "stat_data \<Rightarrow> ulong list \<Rightarrow> string \<Rightarrow> string" where
  "sys_text d irqs tail =
     ''intr '' @ show_nat (unat (sd_intr d)) @ numbers_text irqs @ [newline]
     @ ''ctxt '' @ show_nat (unat (sd_ctxt d)) @ [newline] @ ''btime '' @ show_nat (unat (sd_btime d)) @ [newline]
     @ ''processes '' @ show_nat (unat (sd_procs_created d)) @ [newline]
     @ ''procs_running '' @ show_nat (unat (sd_procs_running d)) @ [newline]
     @ ''procs_blocked '' @ show_nat (unat (sd_procs_blocked d)) @ [newline] @ tail"

lemma no_cpu_sys: "no_cpu (sys_text d irqs tail)"
  by (simp add: no_cpu_def read_cpu_def sscanf_def parse_cpu_fmt sys_text_def Let_def)

lemma strstr_skip: "c \<notin> set pre \<Longrightarrow> strstr (pre @ s) (c # p) = strstr s (c # p)"
  by (induction pre) auto

lemma strstr_here:
  assumes "p \<noteq> []"
  shows "strstr (p @ s) p = Some (p @ s)"
proof -
  obtain a l where pl: "p @ s = a # l" using assms by (cases "p @ s") auto
  then have "is_prefix p (a # l)" using is_prefix_append [of p s] by simp
  then show ?thesis by (simp add: pl)
qed

lemma digits_chars: "c \<in> set (show_nat n) \<Longrightarrow> isdigit c" "c \<in> set (numbers_text ws) \<Longrightarrow> c = CHR '' '' \<or> isdigit c"
  using show_nat_digits by (auto simp: numbers_text_def split: if_splits)

lemma letters_notin:
  assumes "c \<in> set ''cbp''"
  shows "c \<notin> set (numbers_text ws)" "c \<notin> set (show_nat n)"
  using assms digits_chars(1) [of c n] digits_chars(2) [of c ws] by (auto simp: isdigit_def)

lemma scan_key:
  assumes "list_all (\<lambda>c. c \<noteq> CHR ''%'' \<and> \<not> isspace c) key" "ends_number r"
  shows "sscanf (key @ '' %llu'') (key @ '' '' @ show_nat (unat (w :: ulong)) @ r) = [SULong w]"
proof -
  have p: "parse_format (key @ '' %llu'') = map Lit key @ [Blank, Conv CULong]"
    using assms(1)
  proof (induction key)
    case Nil
    then show ?case by (simp add: parse_format.simps isspace_def isdigit_def)
  next
    case (Cons c key)
    then show ?case by (simp add: parse_format.simps [of "(c # key) @ _"] parse_format.simps [of "c # key @ _"])
  qed
  have l: "run_scanf (map Lit ks @ ds) (ks @ s) = run_scanf ds s" for ks ds s
    by (induction ks) simp_all
  show ?thesis
    by (simp only: sscanf_def p l)
      (simp add: scanf_simps assms(2) run_scanf.simps(1) del: run_scanf.simps(2-5))
qed

lemma sys_value_here:
  assumes "list_all (\<lambda>c. c \<noteq> CHR ''%'' \<and> \<not> isspace c) key" "key \<noteq> []"
    and "\<exists>r. strstr bp (key @ '' '') = Some (key @ '' '' @ show_nat (unat (w :: ulong)) @ r) \<and> ends_number r"
  shows "sys_value key bp = w"
  using assms(3) scan_key [OF assms(1), of _ w] by (auto simp: sys_value_def)

lemma sys_values:
  "sys_value ''intr'' (sys_text d irqs tail) = sd_intr d"
  "sys_value ''ctxt'' (sys_text d irqs tail) = sd_ctxt d"
  "sys_value ''btime'' (sys_text d irqs tail) = sd_btime d"
  "sys_value ''processes'' (sys_text d irqs tail) = sd_procs_created d"
  "sys_value ''procs_running'' (sys_text d irqs tail) = sd_procs_running d"
  "sys_value ''procs_blocked'' (sys_text d irqs tail) = sd_procs_blocked d"
proof -
  let ?c = "''ctxt '' @ show_nat (unat (sd_ctxt d)) @ newline # ''btime '' @ show_nat (unat (sd_btime d))
     @ newline # ''processes '' @ show_nat (unat (sd_procs_created d)) @ newline # ''procs_running ''
     @ show_nat (unat (sd_procs_running d)) @ newline # ''procs_blocked '' @ show_nat (unat (sd_procs_blocked d)) @ newline # tail"
  let ?i = "''intr '' @ show_nat (unat (sd_intr d)) @ numbers_text irqs @ [newline]"
  have t: "sys_text d irqs tail = ?i @ ?c" by (simp add: sys_text_def)
  have i: "CHR ''c'' \<notin> set ?i" "CHR ''b'' \<notin> set ?i" "CHR ''p'' \<notin> set ?i"
    by (simp_all add: letters_notin)
  note skip = strstr_skip [OF i(1)] strstr_skip [OF i(2)] strstr_skip [OF i(3)]
    strstr_skip [OF letters_notin(1)] strstr_skip [OF letters_notin(2)]
  have e: "ends_number (numbers_text irqs @ newline # r)" for r
    by (cases irqs) (simp_all add: numbers_text_def)
  show "sys_value ''intr'' (sys_text d irqs tail) = sd_intr d"
    by (rule sys_value_here) (simp_all add: isspace_def sys_text_def e)
  show "sys_value ''ctxt'' (sys_text d irqs tail) = sd_ctxt d"
    by (rule sys_value_here) (simp_all add: isspace_def t skip)
  show "sys_value ''btime'' (sys_text d irqs tail) = sd_btime d"
    by (rule sys_value_here) (simp_all add: isspace_def t skip)
  show "sys_value ''processes'' (sys_text d irqs tail) = sd_procs_created d"
    by (rule sys_value_here) (simp_all add: isspace_def t skip)
  show "sys_value ''procs_running'' (sys_text d irqs tail) = sd_procs_running d"
    by (rule sys_value_here) (simp_all add: isspace_def t skip)
  show "sys_value ''procs_blocked'' (sys_text d irqs tail) = sd_procs_blocked d"
    by (rule sys_value_here) (simp_all add: isspace_def t skip)
qed

lemma read_sys_text: "read_sys (sys_text d irqs tail) = d"
  by (simp add: read_sys_def sys_values)

subsection \<open>The whole file\<close>

definition stat_text :: "stat_jifs \<Rightarrow> (nat \<times> stat_jifs) list \<Rightarrow> stat_data \<Rightarrow> ulong list \<Rightarrow> string \<Rightarrow> string" where
  "stat_text j cs d irqs tail = summary_line j @ newline # cpus_text cs @ sys_text d irqs tail"

text \<open>The history of the cpus: an array of the size recorded.\<close>

definition tics_wf :: "stat_info \<Rightarrow> bool" where
  "tics_wf info \<longleftrightarrow> (\<exists>tics. ts_tics (rs_hist (st_cpus info)) = Some tics
     \<and> length tics = ts_n_alloc (rs_hist (st_cpus info)) \<and> tics \<noteq> []
     \<and> ts_n_inuse (rs_hist (st_cpus info)) \<le> length tics)"

definition cpu_tics :: "stat_info \<Rightarrow> hist_tic list" where
  "cpu_tics info = (case ts_tics (rs_hist (st_cpus info)) of None \<Rightarrow> [] | Some t \<Rightarrow> t)"

lemma parse_stat_text:
  assumes "tics_wf info" "list_all (\<lambda>c. fst c < 2 ^ 31) cs" "se_grow_tics e = (\<lambda>_. True)"
  obtains n tics where
    "parse_stat e (stat_text j cs d irqs tail) info = Some (None,
       info\<lparr>st_cpu_hist := (summary_after j (st_cpu_hist info))\<lparr>ti_count := int (length cs)\<rparr>,
         st_cpus := (st_cpus info)\<lparr>rs_total := int (length cs),
           rs_hist := \<lparr>ts_n_alloc = n, ts_n_inuse = length cs, ts_tics = Some tics\<rparr>\<rparr>,
         st_sys_hist := \<lparr>sy_new = d, sy_old = sy_new (st_sys_hist info)\<rparr>\<rparr>)"
    "length tics = n" "length cs < n"
    "\<forall>k<length cs. tics ! k = cpu_after (cs ! k) (slot e (cpu_tics info) k)"
proof -
  obtain tics0 where t0: "ts_tics (rs_hist (st_cpus info)) = Some tics0" "cpu_tics info = tics0"
      "length tics0 = ts_n_alloc (rs_hist (st_cpus info))" "tics0 \<noteq> []"
    using assms(1) by (auto simp: tics_wf_def cpu_tics_def)
  then have pos: "0 < ts_n_alloc (rs_hist (st_cpus info))" by (metis length_greater_0_conv)
  from cpu_lines_read [OF assms(3) no_cpu_sys assms(2) newline_notin_lines(2) t0(3) pos, of j d irqs tail]
  obtain n tics where
    c: "cpu_lines e (ts_n_alloc (rs_hist (st_cpus info))) 0 (stat_text j cs d irqs tail) tics0
         = Some (Inr (n, length cs, sys_text d irqs tail, tics))"
      "length tics = n" "length cs < n" "\<forall>k<length cs. tics ! k = cpu_after (cs ! k) (slot e tics0 k)"
    by (auto simp: stat_text_def)
  have s: "read_summary (stat_text j cs d irqs tail) (st_cpu_hist info) = (True, summary_after j (st_cpu_hist info))"
    by (simp add: stat_text_def read_summary_line)
  show thesis
    by (rule that [of n tics]) (use c t0 s in \<open>simp_all add: parse_stat_def Let_def read_sys_text\<close>)
qed

definition stat_reads :: "string \<Rightarrow> stat_env \<Rightarrow> bool" where
  "stat_reads buf e \<longleftrightarrow> se_calloc_ok e \<and> se_fopen e = None \<and> se_feof e \<and> se_grow_buf e = (\<lambda>_. True)
     \<and> se_grow_tics e = (\<lambda>_. True) \<and> se_text e = buf"

lemma buf_loop_ok: "\<exists>siz. buf_loop (\<lambda>_. True) len tot siz0 = Inr siz"
proof (induction "\<lambda>_ :: nat. True" len tot siz0 rule: buf_loop.induct)
  case (1 len tot siz)
  show ?case
  proof (cases "min (siz - tot) (len - tot) = 0 \<or> tot + min (siz - tot) (len - tot) < siz")
    case True
    then show ?thesis by (subst buf_loop.simps) (auto simp: Let_def)
  next
    case False
    then have "\<exists>s. buf_loop (\<lambda>_. True) len (tot + min (siz - tot) (len - tot)) (siz + BUFFER_INCR) = Inr s"
      by (intro 1) auto
    then show ?thesis using False by (subst buf_loop.simps) (auto simp: Let_def)
  qed
qed

lemma NUL_notin_numbers: "NUL \<notin> set (numbers_text ws)"
  using digits_chars(2) [of NUL ws] by (auto simp: isdigit_def)

lemma stat_text_cstr: "NUL \<notin> set tail \<Longrightarrow> cstr (stat_text j cs d irqs tail) = stat_text j cs d irqs tail"
  by (intro cstr_id)
    (auto simp: stat_text_def summary_line_def cpus_text_def cpu_line_def sys_text_def NUL_notin_numbers split: prod.splits)

text \<open>The array before the lines are read: made by the first read.\<close>

definition start_tics :: "stat_info \<Rightarrow> hist_tic list" where
  "start_tics info = (if ts_n_alloc (rs_hist (st_cpus info)) = 0 then replicate NEWOLD_INCR zero_tic else cpu_tics info)"

definition stat_ok :: "stat_info \<Rightarrow> bool" where
  "stat_ok info \<longleftrightarrow> st_buf info \<and> (ts_n_alloc (rs_hist (st_cpus info)) = 0 \<or> tics_wf info)"

lemma fresh_stat_ok: "stat_ok fresh_stat"
  by (simp add: stat_ok_def fresh_stat_def no_reap_def)

definition started :: "stat_info \<Rightarrow> stat_info" where
  "started info =
     (if ts_n_alloc (rs_hist (st_cpus info)) = 0
      then info\<lparr>st_cpus := (st_cpus info)\<lparr>rs_hist :=
             \<lparr>ts_n_alloc = NEWOLD_INCR, ts_n_inuse = 0, ts_tics = Some (replicate NEWOLD_INCR zero_tic)\<rparr>\<rparr>\<rparr>
      else info)"

lemma started_wf: "stat_ok info \<Longrightarrow> tics_wf (started info) \<and> cpu_tics (started info) = start_tics info"
  by (auto simp: stat_ok_def started_def tics_wf_def cpu_tics_def start_tics_def NEWOLD_INCR_def)

lemma started_keeps [simp]:
  "st_cpu_hist (started info) = st_cpu_hist info" "st_sys_hist (started info) = st_sys_hist info"
  "st_fp (started info) = st_fp info" "st_buf (started info) = st_buf info" "st_nodes (started info) = st_nodes info"
  "st_buf_size (started info) = st_buf_size info" "rs_fetch (st_cpus (started info)) = rs_fetch (st_cpus info)"
  "rs_extents (st_cpus (started info)) = rs_extents (st_cpus info)" "st_reap_items (started info) = st_reap_items info"
  "st_summary_extents (started info) = st_summary_extents info"
  by (simp_all add: started_def)

lemma wf_fields [simp]:
  "tics_wf (info\<lparr>st_fp := a\<rparr>) = tics_wf info" "tics_wf (info\<lparr>st_buf_size := b\<rparr>) = tics_wf info"
  "tics_wf (info\<lparr>st_cpu_hist := c\<rparr>) = tics_wf info"
  "cpu_tics (info\<lparr>st_fp := a\<rparr>) = cpu_tics info" "cpu_tics (info\<lparr>st_buf_size := b\<rparr>) = cpu_tics info"
  by (simp_all add: tics_wf_def cpu_tics_def)

text \<open>What a read does once the text is in the buffer.\<close>

lemma read_parses:
  assumes "stat_ok info" "stat_reads buf e"
  obtains siz w' where "stat_read_failed e info w =
      map_option (\<lambda>(r, i). (r, i, w')) (parse_stat e (cstr buf) ((started info)\<lparr>st_fp := True, st_buf_size := siz\<rparr>))"
proof -
  obtain siz where siz: "buf_loop (se_grow_buf e) (length (se_text e)) 0 (st_buf_size info) = Inr siz"
    using buf_loop_ok assms(2) unfolding stat_reads_def by metis
  have "stat_read_failed e info w = map_option (\<lambda>(r, i). (r, i, if st_fp info then w else w + 1))
      (parse_stat e (cstr buf) ((started info)\<lparr>st_fp := True, st_buf_size := siz\<rparr>))"
    using assms siz by (simp add: stat_read_failed_def Let_def stat_reads_def stat_ok_def started_def)
  then show thesis by (rule that)
qed

lemma read_stat_text:
  assumes "stat_ok info" "stat_reads (stat_text j cs d irqs tail) e" "list_all (\<lambda>c. fst c < 2 ^ 31) cs" "NUL \<notin> set tail"
  obtains siz n tics w' where
    "stat_read_failed e info w = Some (None,
       (started info)\<lparr>st_fp := True, st_buf_size := siz,
         st_cpu_hist := (summary_after j (st_cpu_hist info))\<lparr>ti_count := int (length cs)\<rparr>,
         st_cpus := (st_cpus (started info))\<lparr>rs_total := int (length cs),
           rs_hist := \<lparr>ts_n_alloc = n, ts_n_inuse = length cs, ts_tics = Some tics\<rparr>\<rparr>,
         st_sys_hist := \<lparr>sy_new = d, sy_old = sy_new (st_sys_hist info)\<rparr>\<rparr>, w')"
    "length tics = n" "length cs < n"
    "\<forall>k<length cs. tics ! k = cpu_after (cs ! k) (slot e (start_tics info) k)"
proof -
  obtain siz w' where r: "stat_read_failed e info w =
      map_option (\<lambda>(r, i). (r, i, w')) (parse_stat e (cstr (stat_text j cs d irqs tail))
        ((started info)\<lparr>st_fp := True, st_buf_size := siz\<rparr>))"
    by (rule read_parses [OF assms(1,2), of w])
  let ?i = "(started info)\<lparr>st_fp := True, st_buf_size := siz\<rparr>"
  have wf: "tics_wf ?i" "cpu_tics ?i = start_tics info" using started_wf [OF assms(1)] by simp_all
  have g: "se_grow_tics e = (\<lambda>_. True)" using assms(2) by (simp add: stat_reads_def)
  obtain n tics where p: "parse_stat e (stat_text j cs d irqs tail) ?i = Some (None,
       ?i\<lparr>st_cpu_hist := (summary_after j (st_cpu_hist ?i))\<lparr>ti_count := int (length cs)\<rparr>,
         st_cpus := (st_cpus ?i)\<lparr>rs_total := int (length cs),
           rs_hist := \<lparr>ts_n_alloc = n, ts_n_inuse = length cs, ts_tics = Some tics\<rparr>\<rparr>,
         st_sys_hist := \<lparr>sy_new = d, sy_old = sy_new (st_sys_hist ?i)\<rparr>\<rparr>)"
    "length tics = n" "length cs < n"
    "\<forall>k<length cs. tics ! k = cpu_after (cs ! k) (slot e (cpu_tics ?i) k)"
    by (rule parse_stat_text [OF wf(1) assms(3) g, of j d irqs tail])
  show thesis
    by (rule that [where siz = siz and n = n and tics = tics and w' = w']) (use r p wf(2) stat_text_cstr [OF assms(4)] in simp_all)
qed

text \<open>
  From the text the kernel prints the summary, every cpu and every counter get their numbers, and
  what the same place of the array held before becomes their history.
\<close>

theorem stat_kernel_text:
  assumes "stat_ok info" "stat_reads (stat_text j cs d irqs tail) e" "list_all (\<lambda>c. fst c < 2 ^ 31) cs" "NUL \<notin> set tail"
  shows "\<exists>info' w'. stat_read_failed e info w = Some (None, info', w')
    \<and> st_cpu_hist info' = (summary_after j (st_cpu_hist info))\<lparr>ti_count := int (length cs)\<rparr>
    \<and> st_sys_hist info' = \<lparr>sy_new = d, sy_old = sy_new (st_sys_hist info)\<rparr>
    \<and> ts_n_inuse (rs_hist (st_cpus info')) = length cs \<and> tics_wf info'
    \<and> (\<forall>k<length cs. cpu_tics info' ! k = cpu_after (cs ! k) (slot e (start_tics info) k))"
  by (rule read_stat_text [OF assms, of w]) (auto simp: tics_wf_def cpu_tics_def)

text \<open>
  The history belongs to the place, not to the cpu: when a cpu is taken offline the ones after it
  get the history of their neighbours, unless a sum would run backwards.
\<close>

theorem cpu_gets_history_of_another:
  assumes "stat_ok info" "stat_reads (stat_text j cs d irqs tail) e" "list_all (\<lambda>c. fst c < 2 ^ 31) cs" "NUL \<notin> set tail"
    and "k < length cs" "cs ! k = (n, jn)" "ti_id (slot e (start_tics info) k) \<noteq> int n"
    and "\<not> sums_fell (derive_sums (put_jifs jn (ti_new (slot e (start_tics info) k)))) (ti_new (slot e (start_tics info) k))"
  shows "\<exists>info' w'. stat_read_failed e info w = Some (None, info', w')
    \<and> ti_id (cpu_tics info' ! k) = int n \<and> ti_old (cpu_tics info' ! k) = ti_new (slot e (start_tics info) k)"
proof -
  obtain info' w' where r: "stat_read_failed e info w = Some (None, info', w')"
      "\<forall>k<length cs. cpu_tics info' ! k = cpu_after (cs ! k) (slot e (start_tics info) k)"
    by (rule read_stat_text [OF assms(1-4), of w]) (simp add: cpu_tics_def)
  then have "cpu_tics info' ! k = cpu_after (n, jn) (slot e (start_tics info) k)" using assms(5,6) by simp
  then show ?thesis using r(1) assms(8) by (simp add: cpu_after_def stat_derive_unique_def Let_def)
qed


text \<open>Whatever the text: when a read succeeds, no sum of the summary or of a cpu in use runs backwards.\<close>

lemma read_summary_steady: "read_summary bp t = (True, t') \<Longrightarrow> steady t'"
  by (auto simp: read_summary_def Let_def derive_steady split: if_splits)

lemma read_cpu_steady: "read_cpu bp t = (True, t') \<Longrightarrow> steady t'"
  by (auto simp: read_cpu_def Let_def derive_steady split: if_splits)

lemma cpu_lines_steady:
  "cpu_lines e n i bp tics = Some (Inr (n', i', rest, tics')) \<Longrightarrow> length tics = n \<Longrightarrow> i < n \<Longrightarrow>
     list_all steady (take i tics) \<Longrightarrow> length tics' = n' \<and> i' < n' \<and> list_all steady (take i' tics')"
proof (induction e n i bp tics rule: cpu_lines.induct)
  case (1 e n i bp tics)
  obtain nl where nl: "strchr bp newline = Some nl"
    using 1(3) by (subst (asm) cpu_lines.simps) (auto split: option.splits)
  obtain r t where rt: "read_cpu (tl nl) (tics ! i) = (r, t)" by fastforce
  let ?tics = "tics[i := t]" and ?g = "tics[i := t] @ map (se_raw e) [n ..< n + NEWOLD_INCR]"
  have step: "cpu_lines e n i bp tics =
     (if \<not> r then Some (Inr (n, i, tl nl, ?tics))
      else if i + 1 < n then cpu_lines e n (i + 1) (tl nl) ?tics
      else if \<not> se_grow_tics e n then Some (Inl (n + NEWOLD_INCR))
      else cpu_lines e (n + NEWOLD_INCR) (i + 1) (tl nl) ?g)"
    by (subst cpu_lines.simps) (simp add: nl rt Let_def)
  show ?case
  proof (cases r)
    case False
    then have "n' = n" "i' = i" "tics' = ?tics" using 1(3) step by auto
    then show ?thesis using 1(4-6) by simp
  next
    case True
    have st: "steady t" using rt True by (simp add: read_cpu_steady)
    have front: "list_all steady (take (i + 1) ?tics)" "length ?tics = n"
      using 1(4-6) st by (simp_all add: take_Suc_conv_app_nth)
    show ?thesis
    proof (cases "i + 1 < n")
      case lt: True
      then have "cpu_lines e n (i + 1) (tl nl) ?tics = Some (Inr (n', i', rest, tics'))"
        using 1(3) True step by simp
      then show ?thesis using 1(1) [OF nl refl rt [symmetric, unfolded True]] lt front True rt by simp
    next
      case False
      have g: "se_grow_tics e n" "cpu_lines e (n + NEWOLD_INCR) (i + 1) (tl nl) ?g = Some (Inr (n', i', rest, tics'))"
        using 1(3) True False step by (simp_all split: if_splits)
      have "list_all steady (take (i + 1) ?g)" "length ?g = n + NEWOLD_INCR" "i + 1 < n + NEWOLD_INCR"
        using front 1(5) by (simp_all add: NEWOLD_INCR_def)
      then show ?thesis
        using 1(2) [OF nl refl rt [symmetric] eqTrueI [OF True] refl False] g by simp
    qed
  qed
qed


lemma parse_stat_steady:
  assumes "parse_stat e buf info = Some (None, info')" "tics_wf info"
  shows "tics_wf info' \<and> steady (st_cpu_hist info') \<and> st_buf info' = st_buf info
    \<and> list_all steady (take (ts_n_inuse (rs_hist (st_cpus info'))) (cpu_tics info'))"
proof -
  let ?h = "rs_hist (st_cpus info)"
  obtain tics where t: "ts_tics ?h = Some tics" "length tics = ts_n_alloc ?h" "0 < ts_n_alloc ?h"
    using assms(2) unfolding tics_wf_def by (metis length_greater_0_conv)
  obtain r smry where s: "read_summary buf (st_cpu_hist info) = (r, smry)" by fastforce
  have r: "r" using assms(1) s by (cases r) (simp_all add: parse_stat_def)
  obtain n i bp tics1 where c: "cpu_lines e (ts_n_alloc ?h) 0 buf tics = Some (Inr (n, i, bp, tics1))"
    using assms(1) s r t(1) by (auto simp: parse_stat_def Let_def split: option.splits sum.splits)
  have i: "info' = info\<lparr>st_cpu_hist := smry\<lparr>ti_count := int i\<rparr>, st_cpus := (st_cpus info)\<lparr>rs_total := int i,
        rs_hist := \<lparr>ts_n_alloc = n, ts_n_inuse = i, ts_tics = Some tics1\<rparr>\<rparr>,
      st_sys_hist := \<lparr>sy_new = read_sys bp, sy_old = sy_new (st_sys_hist info)\<rparr>\<rparr>"
    using assms(1) s r t(1) c by (simp add: parse_stat_def Let_def)
  have "length tics1 = n \<and> i < n \<and> list_all steady (take i tics1)"
    using cpu_lines_steady [OF c t(2,3)] by simp
  moreover have "steady smry" using read_summary_steady s r by simp
  ultimately show ?thesis by (auto simp: i tics_wf_def cpu_tics_def steady_def)
qed

lemma read_steady:
  assumes "stat_read_failed e info w = Some (None, info', w')" "stat_ok info"
  shows "stat_ok info' \<and> tics_wf info' \<and> steady (st_cpu_hist info')
    \<and> list_all steady (take (ts_n_inuse (rs_hist (st_cpus info'))) (cpu_tics info'))"
proof -
  obtain siz w1 i where p: "parse_stat e (cstr (se_text e)) ((started info)\<lparr>st_fp := True, st_buf_size := siz\<rparr>) = Some (None, i)"
      "i = info'"
    using assms by (auto simp: stat_read_failed_def Let_def stat_ok_def started_def split: if_splits sum.splits)
  have wf: "tics_wf ((started info)\<lparr>st_fp := True, st_buf_size := siz\<rparr>)" using started_wf [OF assms(2)] by simp
  show ?thesis using parse_stat_steady [OF p(1) wf] p(2) assms(2) by (auto simp: stat_ok_def)
qed

text \<open>
  C25. Whatever the file holds: after a successful read the summed differences of the summary and of every
  cpu in use are the exact differences, never negative, as long as they fit.
\<close>

theorem stat_sums_never_fall:
  assumes "stat_read_failed e info w = Some (None, info', w')" "stat_ok info"
    and "t = st_cpu_hist info' \<or> k < ts_n_inuse (rs_hist (st_cpus info')) \<and> t = cpu_tics info' ! k"
    and "is_sum x" "uint (x (ti_new t)) - uint (x (ti_old t)) < 2 ^ 63"
  shows "TICsetH x (S, t) v = Sl_int (uint (x (ti_new t)) - uint (x (ti_old t))) \<and> x (ti_old t) \<le> x (ti_new t)
    \<and> js_xbsy (ti_new t) + js_xidl (ti_new t) = js_xtot (ti_new t)"
proof -
  have r: "tics_wf info'" "steady (st_cpu_hist info')"
      "list_all steady (take (ts_n_inuse (rs_hist (st_cpus info'))) (cpu_tics info'))"
    using read_steady [OF assms(1,2)] by simp_all
  then have len: "ts_n_inuse (rs_hist (st_cpus info')) \<le> length (cpu_tics info')"
    by (auto simp: tics_wf_def cpu_tics_def)
  have "steady t"
  proof (cases "t = st_cpu_hist info'")
    case False
    then have "k < ts_n_inuse (rs_hist (st_cpus info'))" "t = cpu_tics info' ! k" using assms(3) by simp_all
    then show ?thesis using r(3) len by (auto simp: list_all_length)
  qed (use r in simp)
  then show ?thesis using steady_delta [OF _ assms(4,5)] steady_sums [OF _ assms(4)] by (simp add: steady_def)
qed

subsection \<open>Numa nodes\<close>

text \<open>The cpus of a node.\<close>

definition node_cpus :: "(int \<Rightarrow> int) \<Rightarrow> nat \<Rightarrow> hist_tic list \<Rightarrow> hist_tic list" where
  "node_cpus f k cs = filter (\<lambda>c. f (ti_id c) = int k) cs"

definition with_cpus :: "(int \<Rightarrow> int) \<Rightarrow> nat \<Rightarrow> hist_tic list \<Rightarrow> hist_tic \<Rightarrow> hist_tic" where
  "with_cpus f k cs n =
     (let mine = node_cpus f k cs
      in n\<lparr>ti_new := foldl add_jifs (ti_new n) (map ti_new mine), ti_old := foldl add_jifs (ti_old n) (map ti_old mine),
           ti_numa_node := (if mine = [] then ti_numa_node n else int k), ti_count := ti_count n + int (length mine)\<rparr>)"

definition placed :: "(int \<Rightarrow> int) \<Rightarrow> hist_tic \<Rightarrow> hist_tic" where
  "placed f c = (if - 1 < f (ti_id c) then c\<lparr>ti_numa_node := f (ti_id c)\<rparr> else c)"

lemma numa_cpus_sums:
  "list_all (\<lambda>c. f (ti_id c) < int (length nodes)) cs \<Longrightarrow>
    numa_cpus f cs nodes = Some (map (placed f) cs, map (\<lambda>(k, n). with_cpus f k cs n) (enumerate 0 nodes))"
proof (induction cs arbitrary: nodes)
  case Nil
  have "map (\<lambda>(k, n). with_cpus f k [] n) (enumerate 0 nodes) = map snd (enumerate 0 nodes)"
    by (rule map_cong) (auto simp: with_cpus_def node_cpus_def)
  then show ?case by simp
next
  case (Cons c cs)
  show ?case
  proof (cases "- 1 < f (ti_id c)")
    case False
    then have "with_cpus f k (c # cs) n = with_cpus f k cs n" for k n
      by (simp add: with_cpus_def node_cpus_def)
    then show ?thesis using Cons False by (simp add: numa_cpu_def Let_def placed_def)
  next
    case True
    let ?k = "nat (f (ti_id c))"
    let ?n = "nodes ! ?k"
    let ?m = "?n\<lparr>ti_new := add_jifs (ti_new ?n) (ti_new c), ti_old := add_jifs (ti_old ?n) (ti_old c),
                 ti_numa_node := f (ti_id c), ti_count := ti_count ?n + 1\<rparr>"
    have k: "?k < length nodes" using Cons.prems True by (simp add: nat_less_iff)
    have one: "numa_cpu f (c, nodes) = Some (placed f c, nodes[?k := ?m])"
      using True k by (simp add: numa_cpu_def Let_def placed_def)
    have "map (\<lambda>(k, n). with_cpus f k cs n) (enumerate 0 (nodes[?k := ?m]))
        = map (\<lambda>(k, n). with_cpus f k (c # cs) n) (enumerate 0 nodes)"
    proof (rule nth_equalityI)
      fix j assume "j < length (map (\<lambda>(k, n). with_cpus f k cs n) (enumerate 0 (nodes[?k := ?m])))"
      then have j: "j < length nodes" by simp
      show "map (\<lambda>(k, n). with_cpus f k cs n) (enumerate 0 (nodes[?k := ?m])) ! j
          = map (\<lambda>(k, n). with_cpus f k (c # cs) n) (enumerate 0 nodes) ! j"
        using j k True by (cases "j = ?k") (auto simp: nth_enumerate_eq with_cpus_def node_cpus_def Let_def)
    qed simp
    then show ?thesis using one Cons.IH [of "nodes[?k := ?m]"] Cons.prems by simp
  qed
qed


text \<open>A node after its cpus were added up: no cpus, or those its number is given for.\<close>

definition numa_node :: "(int \<Rightarrow> int) \<Rightarrow> hist_tic list \<Rightarrow> nat \<Rightarrow> hist_tic" where
  "numa_node f cs k = with_cpus f k cs (node_slot k)"

lemma numa_made:
  assumes "tics_wf info" "0 \<le> numa_max_node numa"
    and "list_all (\<lambda>c. numa_node_of_cpu numa (ti_id c) \<le> numa_max_node numa)
      (take (ts_n_inuse (rs_hist (st_cpus info))) (cpu_tics info))"
    and "0 < ts_n_alloc (rs_hist (st_nodes info)) \<longrightarrow> ts_tics (rs_hist (st_nodes info)) \<noteq> None"
  shows "\<exists>info' ns. stat_make_numa_hist True numa info = Some (numa_max_node numa + 1, info')
    \<and> ts_n_inuse (rs_hist (st_nodes info')) = nat (numa_max_node numa + 1) \<and> ts_tics (rs_hist (st_nodes info')) = Some ns
    \<and> take (ts_n_inuse (rs_hist (st_nodes info'))) ns =
        map (numa_node (numa_node_of_cpu numa) (take (ts_n_inuse (rs_hist (st_cpus info))) (cpu_tics info)))
          [0 ..< nat (numa_max_node numa + 1)]
    \<and> take (ts_n_inuse (rs_hist (st_cpus info'))) (cpu_tics info')
        = map (placed (numa_node_of_cpu numa)) (take (ts_n_inuse (rs_hist (st_cpus info))) (cpu_tics info))"
proof -
  let ?f = "numa_node_of_cpu numa" and ?cs = "take (ts_n_inuse (rs_hist (st_cpus info))) (cpu_tics info)"
  let ?t = "nat (numa_max_node numa + 1)" and ?h = "rs_hist (st_nodes info)"
  obtain redo where redo: "redo \<longleftrightarrow> ts_n_alloc ?h = 0 \<or> int (ts_n_alloc ?h) \<le> numa_max_node numa + 1" by blast
  obtain n where n: "n = (if redo then ?t + NEWOLD_INCR else ts_n_alloc ?h)" by blast
  obtain nodes where nodes: "nodes = map node_slot [0 ..< ?t] @ replicate (n - ?t) zero_tic" by blast
  have le: "?t \<le> n" using n redo by (auto simp: not_le)
  then have len: "length nodes = n" by (simp add: nodes)
  obtain tics where t: "ts_tics (rs_hist (st_cpus info)) = Some tics" "cpu_tics info = tics"
      "ts_n_inuse (rs_hist (st_cpus info)) \<le> length tics"
    using assms(1) by (auto simp: tics_wf_def cpu_tics_def)
  have "list_all (\<lambda>c. ?f (ti_id c) < int (length nodes)) ?cs"
    using assms(2,3) le len by (auto simp: list_all_iff)
  from numa_cpus_sums [OF this] have sums:
    "numa_cpus ?f ?cs nodes = Some (map (placed ?f) ?cs, map (\<lambda>(k, n). with_cpus ?f k ?cs n) (enumerate 0 nodes))" .
  have first: "take ?t (map (\<lambda>(k, n). with_cpus ?f k ?cs n) (enumerate 0 nodes)) = map (numa_node ?f ?cs) [0 ..< ?t]"
    using len le by (intro nth_equalityI) (simp_all add: nth_enumerate_eq numa_node_def nodes nth_append)
  have tot: "numa_max_node numa + 1 \<noteq> 0" using assms(2) by simp
  have ok: "\<not> (\<not> redo \<and> ts_tics ?h = None)" using assms(4) redo by auto
  have "stat_make_numa_hist True numa info = Some (numa_max_node numa + 1, info\<lparr>
      st_cpus := (st_cpus info)\<lparr>rs_hist := (rs_hist (st_cpus info))
        \<lparr>ts_tics := Some (map (placed ?f) ?cs @ drop (ts_n_inuse (rs_hist (st_cpus info))) tics)\<rparr>\<rparr>,
      st_nodes := (st_nodes info)\<lparr>rs_total := numa_max_node numa + 1, rs_hist :=
        ?h\<lparr>ts_n_alloc := n, ts_n_inuse := ?t, ts_tics := Some (map (\<lambda>(k, n). with_cpus ?f k ?cs n) (enumerate 0 nodes))\<rparr>\<rparr>\<rparr>)"
    using sums ok t tot by (simp add: stat_make_numa_hist_def Let_def n [symmetric] redo [symmetric] nodes [symmetric])
  then show ?thesis using first t by (simp add: cpu_tics_def)
qed


text \<open>All the jiffies, the sums included.\<close>

definition jif_fields :: "(stat_jifs \<Rightarrow> ulong) list" where
  "jif_fields =
     [js_user, js_nice, js_system, js_idle, js_iowait, js_irq, js_sirq, js_stolen, js_guest, js_gnice,
      js_xusr, js_xsys, js_xidl, js_xbsy, js_xtot]"

lemma add_jifs_field: "x \<in> set jif_fields \<Longrightarrow> x (add_jifs a b) = x a + x b" "x \<in> set jif_fields \<Longrightarrow> x zero_jifs = 0"
  by (auto simp: jif_fields_def add_jifs_def zero_jifs_def)

lemma foldl_jifs: "x \<in> set jif_fields \<Longrightarrow> x (foldl add_jifs a js) = x a + sum_list (map x js)"
  by (induction js arbitrary: a) (simp_all add: add_jifs_field)

lemma numa_node_fields:
  assumes "x \<in> set jif_fields"
  shows "x (ti_new (numa_node f cs k)) = (\<Sum>c\<leftarrow>node_cpus f k cs. x (ti_new c))"
    "x (ti_old (numa_node f cs k)) = (\<Sum>c\<leftarrow>node_cpus f k cs. x (ti_old c))"
    "ti_count (numa_node f cs k) = int (length (node_cpus f k cs))" "ti_id (numa_node f cs k) = int k"
  using foldl_jifs [OF assms] add_jifs_field(2) [OF assms]
  by (simp_all add: numa_node_def with_cpus_def node_slot_def zero_tic_def Let_def comp_def)

text \<open>
  C40. The jiffies of a node, the earlier ones too, are the sums of those of its cpus, and the node counts these cpus,
  however the array was used before, as long as libnuma puts no cpu in a node above the highest.
\<close>

theorem stat_numa_sums:
  assumes "tics_wf info" "0 \<le> numa_max_node numa"
    and "cs = take (ts_n_inuse (rs_hist (st_cpus info))) (cpu_tics info)"
    and "list_all (\<lambda>c. numa_node_of_cpu numa (ti_id c) \<le> numa_max_node numa) cs"
    and "0 < ts_n_alloc (rs_hist (st_nodes info)) \<longrightarrow> ts_tics (rs_hist (st_nodes info)) \<noteq> None"
    and "int k \<le> numa_max_node numa" "x \<in> set jif_fields"
  shows "\<exists>info' ns. stat_make_numa_hist True numa info = Some (numa_max_node numa + 1, info')
    \<and> ts_tics (rs_hist (st_nodes info')) = Some ns \<and> k < ts_n_inuse (rs_hist (st_nodes info'))
    \<and> ti_id (ns ! k) = int k \<and> ti_count (ns ! k) = int (length (node_cpus (numa_node_of_cpu numa) k cs))
    \<and> x (ti_new (ns ! k)) = (\<Sum>c\<leftarrow>node_cpus (numa_node_of_cpu numa) k cs. x (ti_new c))
    \<and> x (ti_old (ns ! k)) = (\<Sum>c\<leftarrow>node_cpus (numa_node_of_cpu numa) k cs. x (ti_old c))"
proof -
  let ?t = "nat (numa_max_node numa + 1)"
  obtain info' ns where m: "stat_make_numa_hist True numa info = Some (numa_max_node numa + 1, info')"
      "ts_n_inuse (rs_hist (st_nodes info')) = ?t" "ts_tics (rs_hist (st_nodes info')) = Some ns"
      "take ?t ns = map (numa_node (numa_node_of_cpu numa) cs) [0 ..< ?t]"
    using numa_made [OF assms(1,2) assms(4) [unfolded assms(3)] assms(5)] assms(3) by metis
  have k: "k < ?t" using assms(6) by simp
  have "ns ! k = take ?t ns ! k" using k by simp
  then have "ns ! k = numa_node (numa_node_of_cpu numa) cs k" using m(4) k by simp
  then show ?thesis using m k numa_node_fields [OF assms(7)] by simp
qed

subsection \<open>Reap\<close>

definition one_ready :: "item list \<Rightarrow> ext_support \<Rightarrow> bool" where
  "one_ready its es \<longleftrightarrow> configured stat_rows its es
     \<and> (es_extents es = [] \<or> (\<exists>s. es_extents es = [[s]] \<and> shaped stat_rows its s))"

definition sets_ready :: "item list \<Rightarrow> stat_info \<Rightarrow> bool" where
  "sets_ready its info \<longleftrightarrow>
     one_ready its (ext_of (st_reap_items info) (st_summary_extents info))
     \<and> fetch_ready stat_rows its (ext_of (st_reap_items info) (rs_extents (st_cpus info))) (rs_fetch (st_cpus info))
     \<and> fetch_ready stat_rows its (ext_of (st_reap_items info) (rs_extents (st_nodes info))) (rs_fetch (st_nodes info))"

definition anchor_ok :: "fetch_support \<Rightarrow> bool" where
  "anchor_ok fs \<longleftrightarrow> fs_anchor fs = None \<or> 0 < fs_n_alloc fs"

text \<open>The context between calls, the first included.\<close>

definition stat_ready :: "stat_info \<Rightarrow> bool" where
  "stat_ready info \<longleftrightarrow> stat_ok info
     \<and> (0 < ts_n_alloc (rs_hist (st_nodes info)) \<longrightarrow> ts_tics (rs_hist (st_nodes info)) \<noteq> None)
     \<and> (it_num (st_reap_items info) = 0 \<and> st_summary_extents info = [] \<and> rs_extents (st_cpus info) = []
          \<and> rs_extents (st_nodes info) = [] \<and> anchor_ok (rs_fetch (st_cpus info)) \<and> anchor_ok (rs_fetch (st_nodes info))
        \<or> (\<exists>its. sets_ready its info))"

lemma fresh_stat_ready: "stat_ready fresh_stat"
  using fresh_stat_ok by (simp add: stat_ready_def fresh_stat_def no_reap_def no_items_def anchor_ok_def no_fetch_def)

lemma ext_of_sel [simp]:
  "es_num (ext_of it x) = it_num it" "es_items (ext_of it x) = it_enums it" "es_extents (ext_of it x) = x"
  "ext_of (items_of es) y = es\<lparr>es_extents := y\<rparr>" "configured rows its (es\<lparr>es_extents := y\<rparr>) = configured rows its es"
  by (simp_all add: ext_of_def items_of_def configured_def)

lemma single_fills:
  assumes "one_ready its es" "list_all (\<lambda>i. i < length stat_rows) its"
  obtains s where "stat_update_single_stack True info es = Some (Some s, es\<lparr>es_extents := [[s]]\<rparr>)"
    "filled stat_rows its (st_sys_hist info, st_cpu_hist info) s"
proof -
  have c: "configured stat_rows its es" using assms(1) by (simp add: one_ready_def)
  obtain es1 s1 where e: "(if es_extents es = [] then stat_stacks_alloc True 1 es else Some es) = Some es1"
      "es1 = es\<lparr>es_extents := [[s1]]\<rparr>" "shaped stat_rows its s1"
  proof (cases "es_extents es = []")
    case True
    have "shaped stat_rows its (itemize_stack (es_num es) (the (es_items es)))"
      using c itemize_shaped [of stat_rows its] by (simp add: configured_def)
    then show thesis using that True by (simp add: stat_stacks_alloc_def stacks_alloc_def)
  next
    case False
    then obtain s where s: "es_extents es = [[s]]" "shaped stat_rows its s" using assms(1) by (auto simp: one_ready_def)
    have "es = es\<lparr>es_extents := [[s]]\<rparr>" using s(1) by simp
    then show thesis using that [of es s] s False by simp
  qed
  obtain s where s: "assign_results stat_rows (st_sys_hist info, st_cpu_hist info) s1 = Some s"
      "filled stat_rows its (st_sys_hist info, st_cpu_hist info) s"
    using assign_filled [OF e(3) assms(2)] by blast
  show thesis
    by (rule that [OF _ s(2)]) (use e(1,2) s(1) in \<open>simp add: stat_update_single_stack_def stat_assign_results_def\<close>)
qed

lemma set_fills:
  assumes "fetch_ready stat_rows its (ext_of it (rs_extents this)) (rs_fetch this)" "all_ok e"
    and "list_all (\<lambda>i. i < length stat_rows) its" "ts_tics (rs_hist this) = Some tics"
  obtains x fs ss where
    "stat_stacks_fetch e it S this = Some (int (length (take (ts_n_inuse (rs_hist this)) tics)), this\<lparr>rs_extents := x, rs_fetch := fs\<rparr>)"
    "fs_result fs = Some ss" "list_all2 (\<lambda>t. filled stat_rows its (S, t)) (take (ts_n_inuse (rs_hist this)) tics) ss"
    "fetch_ready stat_rows its (ext_of it x) fs"
proof -
  let ?srcs = "map (Pair S) (take (ts_n_inuse (rs_hist this)) tics)"
  obtain es' fs ss where f: "stacks_fetch STACKS_INCR stat_rows e ?srcs (ext_of it (rs_extents this)) (rs_fetch this) = Fetched (length ?srcs) es' fs"
      "fs_result fs = Some ss" "list_all2 (filled stat_rows its) ?srcs ss" "fetch_ready stat_rows its es' fs"
    using stacks_fetch_filled [OF assms(1-3) STACKS_INCR_pos] by blast
  have "configured stat_rows its es'" "configured stat_rows its (ext_of it (rs_extents this))"
    using f(4) assms(1) by (simp_all add: fetch_ready_def)
  then have "es' = ext_of it (es_extents es')"
    by (cases es') (simp add: configured_def ext_of_def)
  then have r: "fetch_ready stat_rows its (ext_of it (es_extents es')) fs" using f(4) by simp
  show thesis
    by (rule that [OF _ f(2) _ r]) (use f(1,3) assms(4) in \<open>simp_all add: stat_stacks_fetch_def Let_def list_all2_map1\<close>)
qed


text \<open>The configuration of the three sets, with the items asked for.\<close>

lemma reconfig_sets:
  assumes "stat_ready info" "\<not> stat_items_check_failed n items" "n \<le> int (length (snd items))"
  obtains rc it smry cx nx where
    "stat_stacks_reconfig_maybe True items n (ext_of (st_reap_items info) (st_summary_extents info)) = Some (rc, ext_of it smry)"
    "0 \<le> rc" "cx = (if rc = 1 then [] else rs_extents (st_cpus info))" "nx = (if rc = 1 then [] else rs_extents (st_nodes info))"
    "one_ready (take (nat n) (snd items)) (ext_of it smry)"
    "fetch_ready stat_rows (take (nat n) (snd items)) (ext_of it cx) (rs_fetch (st_cpus info))"
    "fetch_ready stat_rows (take (nat n) (snd items)) (ext_of it nx) (rs_fetch (st_nodes info))"
proof -
  let ?its = "take (nat n) (snd items)" and ?es = "ext_of (st_reap_items info) (st_summary_extents info)"
  have chk: "\<not> items_check_failed (length stat_rows) n items"
    using assms(2) by (simp add: stat_items_check_failed_def length_stat_rows)
  have anch: "anchor_ok (rs_fetch (st_cpus info))" "anchor_ok (rs_fetch (st_nodes info))"
    using assms(1) by (auto simp: stat_ready_def sets_ready_def anchor_ok_def dest: fetch_ready_alloc)
  have old: "es_num ?es = 0 \<or> (\<exists>old. configured stat_rows old ?es)"
    using assms(1) by (auto simp: stat_ready_def sets_ready_def one_ready_def)
  then obtain old where "es_num ?es = 0 \<or> configured stat_rows old ?es" by blast
  from reconfig_configured [OF chk assms(3) this] obtain rc es' where
    r: "reconfig_maybe (length stat_rows) True items n ?es = Some (rc, es')" "0 \<le> rc" "configured stat_rows ?its es'"
      "rc = 0 \<longrightarrow> es' = ?es" "rc \<noteq> 0 \<longrightarrow> es_extents es' = []"
    by blast
  have es': "es' = ext_of (items_of es') (es_extents es')" by (cases es') (simp add: ext_of_def items_of_def)
  have eq: "stat_stacks_reconfig_maybe True items n ?es = Some (rc, ext_of (items_of es') (es_extents es'))"
    using r(1) by (simp add: stat_stacks_reconfig_maybe_def length_stat_rows)
  show thesis
  proof (cases "rc = 0")
    case True
    then have e: "es' = ?es" using r(4) by simp
    have "it_num (st_reap_items info) \<noteq> 0" using r(3) e by (simp add: configured_def)
    then obtain its where s: "sets_ready its info" using assms(1) by (auto simp: stat_ready_def)
    then have "configured stat_rows its ?es" by (simp add: sets_ready_def one_ready_def)
    then have "its = ?its" using r(3) e by (auto simp: configured_def)
    then have s': "sets_ready ?its info" using s by simp
    have it: "items_of es' = st_reap_items info" "es_extents es' = st_summary_extents info"
      by (simp_all add: e items_of_def ext_of_def)
    show thesis
      by (rule that [OF eq r(2) refl refl]) (use s' True it in \<open>simp_all add: sets_ready_def\<close>)
  next
    case False
    have "rc = 1" using r(1,2) False by (auto simp: reconfig_maybe_def Let_def split: if_splits option.splits)
    show thesis
      by (rule that [OF eq r(2) refl refl])
        (use r(3,5) False \<open>rc = 1\<close> anch in \<open>simp_all add: one_ready_def fetch_ready_def anchor_ok_def\<close>)
  qed
qed

lemma fetch_result: "fetch_ready rows its es (fs\<lparr>fs_result := r\<rparr>) = fetch_ready rows its es fs"
  by (simp add: fetch_ready_def anchored_def)

definition reap_ok :: "stat_reap_env \<Rightarrow> bool" where
  "reap_ok e \<longleftrightarrow> sp_realloc_ok e \<and> sp_summary_ok e \<and> sp_malloc_ok e \<and> sp_numa_ok e \<and> all_ok (sp_nodes e) \<and> all_ok (sp_cpus e)"

text \<open>
  C22. From the text of the kernel to the stacks of the caller: one for the summary, and one for each cpu,
  with the items asked for, whatever was reaped before.
\<close>

theorem stat_reap_fills:
  assumes "stat_ready info" "reap_ok e" "stat_reads (stat_text j cs d irqs tail) (sp_read e)"
    and "list_all (\<lambda>c. fst c < 2 ^ 31) cs" "NUL \<notin> set tail"
    and "\<not> stat_items_check_failed n items" "n \<le> int (length (snd items))"
  shows "\<exists>r smry info' w'.
    procps_stat_reap e numa STAT_REAP_CPUS_ONLY (Some items) n (Some info, w) = Some (Some r, Some info', w')
    \<and> st_sys_hist info' = \<lparr>sy_new = d, sy_old = sy_new (st_sys_hist info)\<rparr>
    \<and> sr_summary r = Some smry \<and> filled stat_rows (take (nat n) (snd items))
        (st_sys_hist info', (summary_after j (st_cpu_hist info))\<lparr>ti_count := int (length cs)\<rparr>) smry
    \<and> list_all2 (\<lambda>t. filled stat_rows (take (nat n) (snd items)) (st_sys_hist info', t))
        (map (\<lambda>k. cpu_after (cs ! k) (slot (sp_read e) (start_tics info) k)) [0 ..< length cs]) (sr_cpus r)
    \<and> stat_ready info'"
proof -
  let ?its = "take (nat n) (snd items)"
  obtain rc it smry cx nx where r:
    "stat_stacks_reconfig_maybe True items n (ext_of (st_reap_items info) (st_summary_extents info)) = Some (rc, ext_of it smry)"
    "0 \<le> rc" "cx = (if rc = 1 then [] else rs_extents (st_cpus info))" "nx = (if rc = 1 then [] else rs_extents (st_nodes info))"
    "one_ready ?its (ext_of it smry)"
    "fetch_ready stat_rows ?its (ext_of it cx) (rs_fetch (st_cpus info))"
    "fetch_ready stat_rows ?its (ext_of it nx) (rs_fetch (st_nodes info))"
    by (rule reconfig_sets [OF assms(1,6,7)])
  have valid: "list_all (\<lambda>i. i < length stat_rows) ?its"
    using items_check_valid [of stat_rows n items] assms(6,7)
    by (simp add: stat_items_check_failed_def length_stat_rows valid_items_def)
  obtain i2 where i2: "i2 = info\<lparr>st_reap_items := it, st_summary_extents := smry,
      st_cpus := (st_cpus info)\<lparr>rs_extents := cx\<rparr>, st_nodes := (st_nodes info)\<lparr>rs_extents := nx\<rparr>\<rparr>" by blast
  have ok2: "stat_ok i2" using assms(1) by (simp add: i2 stat_ready_def stat_ok_def tics_wf_def)
  have st2: "start_tics i2 = start_tics info" by (simp add: i2 start_tics_def cpu_tics_def)
  obtain siz n' tics w' where rd: "stat_read_failed (sp_read e) i2 w = Some (None,
       (started i2)\<lparr>st_fp := True, st_buf_size := siz,
         st_cpu_hist := (summary_after j (st_cpu_hist i2))\<lparr>ti_count := int (length cs)\<rparr>,
         st_cpus := (st_cpus (started i2))\<lparr>rs_total := int (length cs),
           rs_hist := \<lparr>ts_n_alloc = n', ts_n_inuse = length cs, ts_tics = Some tics\<rparr>\<rparr>,
         st_sys_hist := \<lparr>sy_new = d, sy_old = sy_new (st_sys_hist i2)\<rparr>\<rparr>, w')"
    "length tics = n'" "length cs < n'"
    "\<forall>k<length cs. tics ! k = cpu_after (cs ! k) (slot (sp_read e) (start_tics i2) k)"
    by (rule read_stat_text [OF ok2 assms(3-5), of w])
  obtain i3 where i3: "i3 = (started i2)\<lparr>st_fp := True, st_buf_size := siz,
         st_cpu_hist := (summary_after j (st_cpu_hist i2))\<lparr>ti_count := int (length cs)\<rparr>,
         st_cpus := (st_cpus (started i2))\<lparr>rs_total := int (length cs),
           rs_hist := \<lparr>ts_n_alloc = n', ts_n_inuse = length cs, ts_tics = Some tics\<rparr>\<rparr>,
         st_sys_hist := \<lparr>sy_new = d, sy_old = sy_new (st_sys_hist i2)\<rparr>\<rparr>" by blast
  have f3: "st_reap_items i3 = it" "st_summary_extents i3 = smry" "rs_extents (st_cpus i3) = cx" "st_nodes i3 = (st_nodes info)\<lparr>rs_extents := nx\<rparr>"
    "rs_fetch (st_cpus i3) = rs_fetch (st_cpus info)" "rs_hist (st_cpus i3) = \<lparr>ts_n_alloc = n', ts_n_inuse = length cs, ts_tics = Some tics\<rparr>"
    "st_sys_hist i3 = \<lparr>sy_new = d, sy_old = sy_new (st_sys_hist info)\<rparr>"
    "st_cpu_hist i3 = (summary_after j (st_cpu_hist info))\<lparr>ti_count := int (length cs)\<rparr>" "st_buf i3 = st_buf info"
    by (simp_all add: i3 i2)
  obtain s where s: "stat_update_single_stack True i3 (ext_of it smry) = Some (Some s, (ext_of it smry)\<lparr>es_extents := [[s]]\<rparr>)"
      "filled stat_rows ?its (st_sys_hist i3, st_cpu_hist i3) s"
    by (rule single_fills [OF r(5) valid, of i3])
  have fr: "fetch_ready stat_rows ?its (ext_of it (rs_extents (st_cpus i3))) (rs_fetch (st_cpus i3))" using r(6) f3 by simp
  have al: "all_ok (sp_cpus e)" using assms(2) by (simp add: reap_ok_def)
  have ts: "ts_tics (rs_hist (st_cpus i3)) = Some tics" using f3 by simp
  obtain x fs ss where f:
    "stat_stacks_fetch (sp_cpus e) it (st_sys_hist i3) (st_cpus i3) =
       Some (int (length (take (ts_n_inuse (rs_hist (st_cpus i3))) tics)), (st_cpus i3)\<lparr>rs_extents := x, rs_fetch := fs\<rparr>)"
    "fs_result fs = Some ss"
    "list_all2 (\<lambda>t. filled stat_rows ?its (st_sys_hist i3, t)) (take (ts_n_inuse (rs_hist (st_cpus i3))) tics) ss"
    "fetch_ready stat_rows ?its (ext_of it x) fs"
    by (rule set_fills [OF fr al valid ts])
  obtain i6 where i6: "i6 = i3\<lparr>st_summary_extents := [[s]],
      st_nodes := (st_nodes i3)\<lparr>rs_fetch := (rs_fetch (st_nodes i3))\<lparr>fs_result := Some []\<rparr>\<rparr>,
      st_cpus := (st_cpus i3)\<lparr>rs_extents := x, rs_fetch := fs\<rparr>\<rparr>" by blast
  have run: "procps_stat_reap e numa STAT_REAP_CPUS_ONLY (Some items) n (Some info, w)
      = Some (Some \<lparr>sr_summary = Some s, sr_cpus = ss, sr_numa = []\<rparr>, Some i6, w')"
  proof -
    let ?i1 = "info\<lparr>st_reap_items := it, st_summary_extents := smry\<rparr>"
    have i2': "(if rc = 1 then ?i1\<lparr>st_cpus := (st_cpus ?i1)\<lparr>rs_extents := []\<rparr>, st_nodes := (st_nodes ?i1)\<lparr>rs_extents := []\<rparr>\<rparr>
        else ?i1) = i2"
      by (simp add: i2 r(3,4))
    have i: "items_of (ext_of it smry) = it" "\<not> rc < 0" "st_reap_items i3 = it" "st_summary_extents i3 = smry"
      using r(2) f3 by (simp_all add: items_of_def ext_of_def)
    let ?i4 = "i3\<lparr>st_summary_extents := [[s]]\<rparr>"
    let ?i5 = "?i4\<lparr>st_nodes := (st_nodes ?i4)\<lparr>rs_fetch := (rs_fetch (st_nodes ?i4))\<lparr>fs_result := Some []\<rparr>\<rparr>\<rparr>"
    have fs: "fetch_sets e numa STAT_REAP_CPUS_ONLY ?i5 = Some (True, i6)"
      using f(1) i(3) by (simp add: fetch_sets_def fetch_set_def i6)
    have ok: "sp_realloc_ok e" "sp_summary_ok e" "sp_malloc_ok e" using assms(2) by (simp_all add: reap_ok_def)
    show ?thesis
      by (simp only: procps_stat_reap_def prod.case option.case r(1) Let_def ok ext_of_sel i i2' rd(1) [folded i3] s(1)
          reap_type.distinct if_False simp_thms fs bool.case)
        (use fs in \<open>simp add: i6 f(2) f3\<close>)
  qed
  have tk: "take (length cs) tics = map (\<lambda>k. cpu_after (cs ! k) (slot (sp_read e) (start_tics info) k)) [0 ..< length cs]"
    using rd(2-4) st2 by (intro nth_equalityI) simp_all
  have "sets_ready ?its i6"
    using r(5,7) f(4) filled_shaped [OF s(2)] by (simp add: sets_ready_def i6 f3 one_ready_def fetch_result configured_def)
  then have "stat_ready i6"
    using assms(1) rd(2,3) by (auto simp: stat_ready_def i6 f3 stat_ok_def tics_wf_def)
  then show ?thesis
    using run s(2) f(3) f3 tk
    by (intro exI [of _ "\<lparr>sr_summary = Some s, sr_cpus = ss, sr_numa = []\<rparr>"] exI [of _ s] exI [of _ i6] exI [of _ w'])
      (simp add: i6)
qed


subsection \<open>References\<close>

definition stat_refs :: "stat_info option \<times> int \<Rightarrow> int" where
  "stat_refs s = (case fst s of None \<Rightarrow> 0 | Some info \<Rightarrow> st_refcount info)"

definition stat_held :: "stat_info option \<times> int \<Rightarrow> bool" where
  "stat_held s \<longleftrightarrow> (\<forall>info. fst s = Some info \<longrightarrow> 0 < st_refcount info)"

interpretation stat_counts: refcounted procps_stat_ref procps_stat_unref stat_refs stat_held
  by unfold_locales
    (auto simp: procps_stat_ref_def procps_stat_unref_def stat_refs_def stat_held_def Let_def EINVAL_def
      split: option.splits prod.splits)

text \<open>The structure lives exactly as long as references are left.\<close>

lemma stat_lives:
  assumes "0 < st_refcount info"
  shows "fst (ref_run procps_stat_ref procps_stat_unref bs (Some info, w)) \<noteq> None \<longleftrightarrow> refs_left bs (st_refcount info) \<noteq> 0"
proof -
  have h: "stat_held (Some info, w)" using assms by (simp add: stat_held_def)
  show ?thesis
    using stat_counts.run_count [OF h, of bs] stat_counts.run_inv [OF h, of bs]
    by (auto simp: stat_refs_def stat_held_def split: option.splits)
qed

subsection \<open>A small system\<close>

text \<open>Three cpus, the second of them taken offline.\<close>

definition jifs :: "ulong \<Rightarrow> stat_jifs" where
  "jifs u = zero_jifs\<lparr>js_user := u, js_idle := 100 * u\<rparr>"

definition sample_counters :: stat_data where
  "sample_counters = zero_stat\<lparr>sd_intr := 9000, sd_ctxt := 4000, sd_btime := 1700000000\<rparr>"

definition stat_env_of :: "string \<Rightarrow> stat_env" where
  "stat_env_of t =
     \<lparr>se_calloc_ok = True, se_fopen = None, se_text = t, se_feof = True, se_grow_buf = \<lambda>_. True, se_grow_tics = \<lambda>_. True,
      se_raw = \<lambda>_. zero_tic\<rparr>"

lemma stat_env_of_reads: "stat_reads t (stat_env_of t)"
  by (simp add: stat_reads_def stat_env_of_def)

definition sample_stat :: stat_info where
  "sample_stat = fresh_stat\<lparr>st_cpus := no_reap\<lparr>rs_hist :=
     \<lparr>ts_n_alloc = 64, ts_n_inuse = 3,
      ts_tics = Some (map (\<lambda>(n, u). cpu_after (n, jifs u) zero_tic) [(0, 10), (1, 20), (2, 30)] @ replicate 61 zero_tic)\<rparr>\<rparr>\<rparr>"

definition two_cpus :: string where
  "two_cpus = stat_text (jifs 100) [(0, jifs 15), (2, jifs 35)] sample_counters [7] ''''"

lemma sample_stat_wf: "tics_wf sample_stat"
  by (simp add: tics_wf_def sample_stat_def)

lemma sample_stat_ok: "stat_ok sample_stat"
  using sample_stat_wf by (simp add: stat_ok_def) (simp add: sample_stat_def fresh_stat_def)

theorem stat_kernel_text_witness:
  "\<exists>info' w'. stat_read_failed (stat_env_of two_cpus) sample_stat 0 = Some (None, info', w')
    \<and> st_cpu_hist info' = (summary_after (jifs 100) (st_cpu_hist sample_stat))\<lparr>ti_count := int (length [(0 :: nat, jifs 15), (2, jifs 35)])\<rparr>
    \<and> st_sys_hist info' = \<lparr>sy_new = sample_counters, sy_old = sy_new (st_sys_hist sample_stat)\<rparr>
    \<and> ts_n_inuse (rs_hist (st_cpus info')) = 2 \<and> tics_wf info'
    \<and> cpu_tics info' ! 0 = cpu_after (0, jifs 15) (slot (stat_env_of two_cpus) (start_tics sample_stat) 0)
    \<and> cpu_tics info' ! 1 = cpu_after (2, jifs 35) (slot (stat_env_of two_cpus) (start_tics sample_stat) 1)"
proof -
  have r: "stat_reads (stat_text (jifs 100) [(0, jifs 15), (2, jifs 35)] sample_counters [7] '''') (stat_env_of two_cpus)"
    using stat_env_of_reads [of two_cpus] by (simp add: two_cpus_def)
  have "\<exists>info' w'. stat_read_failed (stat_env_of two_cpus) sample_stat 0 = Some (None, info', w')
    \<and> st_cpu_hist info' = (summary_after (jifs 100) (st_cpu_hist sample_stat))\<lparr>ti_count := int (length [(0 :: nat, jifs 15), (2, jifs 35)])\<rparr>
    \<and> st_sys_hist info' = \<lparr>sy_new = sample_counters, sy_old = sy_new (st_sys_hist sample_stat)\<rparr>
    \<and> ts_n_inuse (rs_hist (st_cpus info')) = length [(0 :: nat, jifs 15), (2, jifs 35)] \<and> tics_wf info'
    \<and> (\<forall>k<length [(0 :: nat, jifs 15), (2, jifs 35)]. cpu_tics info' ! k =
         cpu_after ([(0, jifs 15), (2, jifs 35)] ! k) (slot (stat_env_of two_cpus) (start_tics sample_stat) k))"
    by (rule stat_kernel_text [OF sample_stat_ok r]) simp_all
  then show ?thesis by (simp add: All_less_Suc numeral_2_eq_2 conj_ac)
qed

lemma sample_slot:
  "slot (stat_env_of two_cpus) (start_tics sample_stat) 1 = cpu_after (1, jifs 20) zero_tic"
  by (simp add: slot_def start_tics_def cpu_tics_def sample_stat_def)

lemma jifs_user [simp]: "js_user (jifs u) = u" "js_idle (jifs u) = 100 * u" "js_nice (jifs u) = 0" "js_system (jifs u) = 0"
  "js_iowait (jifs u) = 0" "js_irq (jifs u) = 0" "js_sirq (jifs u) = 0" "js_stolen (jifs u) = 0" "js_guest (jifs u) = 0"
  "js_gnice (jifs u) = 0"
  by (simp_all add: jifs_def zero_jifs_def)

theorem cpu_gets_history_of_another_witness:
  "\<exists>info' w'. stat_read_failed (stat_env_of two_cpus) sample_stat 0 = Some (None, info', w')
    \<and> ti_id (cpu_tics info' ! 1) = int 2
    \<and> ti_old (cpu_tics info' ! 1) = ti_new (slot (stat_env_of two_cpus) (start_tics sample_stat) 1)"
proof (rule cpu_gets_history_of_another [OF sample_stat_ok])
  show "stat_reads (stat_text (jifs 100) [(0, jifs 15), (2, jifs 35)] sample_counters [7] '''') (stat_env_of two_cpus)"
    using stat_env_of_reads [of two_cpus] by (simp add: two_cpus_def)
  show "[(0, jifs 15), (2, jifs 35)] ! 1 = (2, jifs 35)" by simp
  show "ti_id (slot (stat_env_of two_cpus) (start_tics sample_stat) 1) \<noteq> int 2"
    unfolding sample_slot by (simp add: cpu_after_def)
  show "\<not> sums_fell (derive_sums (put_jifs (jifs 35) (ti_new (slot (stat_env_of two_cpus) (start_tics sample_stat) 1))))
      (ti_new (slot (stat_env_of two_cpus) (start_tics sample_stat) 1))"
    unfolding sample_slot
    by (simp add: cpu_after_def put_jifs_def derive_sums_def Let_def sums_fell_def)
qed simp_all

theorem stat_sums_never_fall_witness:
  "\<exists>info' w'. stat_read_failed (stat_env_of two_cpus) sample_stat 0 = Some (None, info', w')
    \<and> TICsetH js_xtot (st_sys_hist info', st_cpu_hist info') Zero = Sl_int 10100
    \<and> js_xtot (ti_old (st_cpu_hist info')) \<le> js_xtot (ti_new (st_cpu_hist info'))"
proof -
  have rd: "stat_reads (stat_text (jifs 100) [(0, jifs 15), (2, jifs 35)] sample_counters [7] '''') (stat_env_of two_cpus)"
    using stat_env_of_reads [of two_cpus] by (simp add: two_cpus_def)
  obtain info' w' where r: "stat_read_failed (stat_env_of two_cpus) sample_stat 0 = Some (None, info', w')"
      "st_cpu_hist info' = (summary_after (jifs 100) (st_cpu_hist sample_stat))\<lparr>ti_count := 2\<rparr>"
    by (rule read_stat_text [OF sample_stat_ok rd, of 0]) simp_all
  have v: "js_xtot (ti_new (st_cpu_hist info')) = 10100" "js_xtot (ti_old (st_cpu_hist info')) = 0"
    by (simp_all add: r(2) summary_after_def stat_derive_unique_def Let_def sums_fell_def derive_sums_def put_jifs_def
        sample_stat_def fresh_stat_def zero_tic_def zero_jifs_def)
  have "is_sum js_xtot" by (simp add: is_sum_def)
  then show ?thesis
    using stat_sums_never_fall [OF r(1) sample_stat_ok disjI1 [OF refl], where x = js_xtot] r(1) v by auto
qed

definition two_nodes :: numa_state where
  "two_nodes = \<lparr>numa_initialized = True, numa_max_node = 1, numa_node_of_cpu = \<lambda>c. c mod 2, libnuma_open = True\<rparr>"

lemma sample_cs: "take (ts_n_inuse (rs_hist (st_cpus sample_stat))) (cpu_tics sample_stat)
    = map (\<lambda>(n, u). cpu_after (n, jifs u) zero_tic) [(0, 10), (1, 20), (2, 30)]"
  by (simp add: sample_stat_def cpu_tics_def)

theorem stat_numa_sums_witness:
  "\<exists>info' ns. stat_make_numa_hist True two_nodes sample_stat = Some (2, info') \<and> ts_tics (rs_hist (st_nodes info')) = Some ns
    \<and> ti_count (ns ! 0) = 2 \<and> js_user (ti_new (ns ! 0)) = 40"
proof -
  let ?cs = "map (\<lambda>(n, u). cpu_after (n, jifs u) zero_tic) [(0, 10), (1, 20), (2, 30)]"
  have c: "list_all (\<lambda>c. numa_node_of_cpu two_nodes (ti_id c) \<le> numa_max_node two_nodes) ?cs"
    by (simp add: two_nodes_def cpu_after_def)
  have m: "node_cpus (numa_node_of_cpu two_nodes) 0 ?cs = map (\<lambda>(n, u). cpu_after (n, jifs u) zero_tic) [(0, 10), (2, 30)]"
    by (simp add: node_cpus_def two_nodes_def cpu_after_def)
  have k: "int 0 \<le> numa_max_node two_nodes" "0 \<le> numa_max_node two_nodes" by (simp_all add: two_nodes_def)
  have x: "js_user \<in> set jif_fields" by (simp add: jif_fields_def)
  have n: "0 < ts_n_alloc (rs_hist (st_nodes sample_stat)) \<longrightarrow> ts_tics (rs_hist (st_nodes sample_stat)) \<noteq> None"
    by (simp add: sample_stat_def fresh_stat_def no_reap_def)
  have t: "numa_max_node two_nodes + 1 = 2" by (simp add: two_nodes_def)
  have u: "(\<Sum>c\<leftarrow>map (\<lambda>(n, u). cpu_after (n, jifs u) zero_tic) [(0, 10), (2, 30)]. js_user (ti_new c)) = 40"
    by (simp add: cpu_after_def put_jifs_def)
  from stat_numa_sums [OF sample_stat_wf k(2) sample_cs [symmetric] c n k(1) x] obtain info' ns where
    "stat_make_numa_hist True two_nodes sample_stat = Some (2, info')" "ts_tics (rs_hist (st_nodes info')) = Some ns"
    "ti_count (ns ! 0) = int (length (map (\<lambda>(n, u). cpu_after (n, jifs u) zero_tic) [(0 :: nat, 10), (2, 30)]))"
    "js_user (ti_new (ns ! 0)) = (\<Sum>c\<leftarrow>map (\<lambda>(n, u). cpu_after (n, jifs u) zero_tic) [(0, 10), (2, 30)]. js_user (ti_new c))"
    unfolding m t by blast
  then show ?thesis unfolding u by auto
qed

definition sample_stat_reap :: stat_reap_env where
  "sample_stat_reap =
     (let f = \<lparr>fe_anchor_ok = True, fe_first_ok = True, fe_grow_ok = \<lambda>_. True, fe_more_ok = \<lambda>_. True, fe_save_ok = True\<rparr>
      in \<lparr>sp_realloc_ok = True, sp_read = stat_env_of two_cpus, sp_summary_ok = True, sp_malloc_ok = True, sp_numa_ok = True,
          sp_nodes = f, sp_cpus = f\<rparr>)"

theorem stat_reap_fills_witness:
  "\<exists>r smry info' w'.
    procps_stat_reap sample_stat_reap two_nodes STAT_REAP_CPUS_ONLY (Some (4096, [2, 5, 34])) 3 (Some fresh_stat, 0)
      = Some (Some r, Some info', w')
    \<and> sr_summary r = Some smry \<and> length (sr_cpus r) = 2 \<and> stat_ready info'"
proof -
  let ?cs = "[(0, jifs 15), (2, jifs 35)]"
  have ok: "reap_ok sample_stat_reap" by (simp add: reap_ok_def sample_stat_reap_def all_ok_def Let_def)
  have rd: "stat_reads (stat_text (jifs 100) ?cs sample_counters [7] '''') (sp_read sample_stat_reap)"
    using stat_env_of_reads [of two_cpus] by (simp add: two_cpus_def sample_stat_reap_def Let_def)
  have chk: "\<not> stat_items_check_failed 3 (4096, [2, 5, 34])"
    by (simp add: stat_items_check_failed_def items_check_failed_def STAT_logical_end_def stat_table_def)
  obtain r smry info' w' where
    "procps_stat_reap sample_stat_reap two_nodes STAT_REAP_CPUS_ONLY (Some (4096, [2, 5, 34])) 3 (Some fresh_stat, 0)
      = Some (Some r, Some info', w')" "sr_summary r = Some smry" "stat_ready info'"
    "list_all2 (\<lambda>t. filled stat_rows (take (nat 3) (snd (4096 :: nat, [2, 5, 34]))) (st_sys_hist info', t))
        (map (\<lambda>k. cpu_after (?cs ! k) (slot (sp_read sample_stat_reap) (start_tics fresh_stat) k)) [0 ..< length ?cs]) (sr_cpus r)"
    using stat_reap_fills [OF fresh_stat_ready ok rd _ _ chk, of two_nodes 0] by auto
  then show ?thesis using list_all2_lengthD by fastforce
qed

end
