(* ===== verification/Slabinfo.thy ===== *)
theory Slabinfo
  imports Stacks Scanf Floats
begin

text \<open>
  \<^verbatim>\<open>procps/linux/slabinfo.c\<close>: the kernel's slab caches, from \<^verbatim>\<open>/proc/slabinfo\<close>,
  their totals, and the interface \<open>new\<close>, \<open>ref\<close>, \<open>unref\<close>, \<open>get\<close>, \<open>reap\<close>, \<open>select\<close>,
  \<open>sort\<close>. \<open>ENFORCE_LOGICAL\<close> is not defined.

  The nodes are an array that is cleared and filled anew by each read. The name in a result is a
  pointer into it; the model has the string found there when the call returns.
\<close>

subsection \<open>Data\<close>

type_synonym uint_t = "32 word"

definition SLABINFO_LINE_LEN :: nat where
  "SLABINFO_LINE_LEN = 2048"

definition SLABINFO_NAME_LEN :: nat where
  "SLABINFO_NAME_LEN = 128"

definition SLABINFO_STACKS_INCR :: nat where
  "SLABINFO_STACKS_INCR = 128"

definition INT_MAX32 :: uint_t where
  "INT_MAX32 = 2147483647"

record slabs_summ =
  ss_nr_objs :: uint_t
  ss_nr_active_objs :: uint_t
  ss_nr_pages :: uint_t
  ss_nr_slabs :: uint_t
  ss_nr_active_slabs :: uint_t
  ss_nr_caches :: uint_t
  ss_nr_active_caches :: uint_t
  ss_avg_obj_size :: uint_t
  ss_min_obj_size :: uint_t
  ss_max_obj_size :: uint_t
  ss_active_size :: ulong
  ss_total_size :: ulong

record slabs_node =
  sn_name :: string
  sn_cache_size :: ulong
  sn_nr_objs :: uint_t
  sn_nr_active_objs :: uint_t
  sn_obj_size :: uint_t
  sn_objs_per_slab :: uint_t
  sn_pages_per_slab :: uint_t
  sn_nr_slabs :: uint_t
  sn_nr_active_slabs :: uint_t
  sn_use :: uint_t

record slabs_hist =
  sl_new :: slabs_summ
  sl_old :: slabs_summ

definition zero_summ :: slabs_summ where
  "zero_summ =
     \<lparr>ss_nr_objs = 0, ss_nr_active_objs = 0, ss_nr_pages = 0, ss_nr_slabs = 0, ss_nr_active_slabs = 0, ss_nr_caches = 0,
      ss_nr_active_caches = 0, ss_avg_obj_size = 0, ss_min_obj_size = 0, ss_max_obj_size = 0, ss_active_size = 0,
      ss_total_size = 0\<rparr>"

definition zero_slab :: slabs_node where
  "zero_slab =
     \<lparr>sn_name = [], sn_cache_size = 0, sn_nr_objs = 0, sn_nr_active_objs = 0, sn_obj_size = 0, sn_objs_per_slab = 0,
      sn_pages_per_slab = 0, sn_nr_slabs = 0, sn_nr_active_slabs = 0, sn_use = 0\<rparr>"

text \<open>The length of \<open>si_nodes\<close> is \<open>nodes_alloc\<close>.\<close>

record slabinfo_info =
  si_refcount :: int
  si_fp :: bool
  si_nodes_used :: nat
  si_nodes :: "slabs_node list"
  si_slabs :: slabs_hist
  si_select_ext :: ext_support
  si_fetch_ext :: ext_support
  si_fetch :: fetch_support
  si_nul_node :: slabs_node
  si_get_this :: result_cell
  si_sav_secs :: int

subsection \<open>Setting results\<close>

definition NOD_set :: "('a \<Rightarrow> rval) \<Rightarrow> (slabs_node \<Rightarrow> 'a) \<Rightarrow> slabs_hist \<times> slabs_node \<Rightarrow> rval \<Rightarrow> rval" where
  "NOD_set con x = (\<lambda>(S, N) v. con (x N))"

definition SLAB_REG_set :: "('a \<Rightarrow> rval) \<Rightarrow> (slabs_summ \<Rightarrow> 'a) \<Rightarrow> slabs_hist \<times> slabs_node \<Rightarrow> rval \<Rightarrow> rval" where
  "SLAB_REG_set con x = (\<lambda>(S, N) v. con (x (sl_new S)))"

text \<open>The difference is one of \<open>long\<close>s, or of \<open>unsigned long\<close>s; both are converted to \<open>int\<close>.\<close>

definition HST_set_uint :: "(slabs_summ \<Rightarrow> uint_t) \<Rightarrow> slabs_hist \<times> slabs_node \<Rightarrow> rval \<Rightarrow> rval" where
  "HST_set_uint x = (\<lambda>(S, N) v. S_int (cast_int (uint (x (sl_new S)) - uint (x (sl_old S)))))"

definition HST_set_ulong :: "(slabs_summ \<Rightarrow> ulong) \<Rightarrow> slabs_hist \<times> slabs_node \<Rightarrow> rval \<Rightarrow> rval" where
  "HST_set_ulong x = (\<lambda>(S, N) v. S_int (cast_int (uint (x (sl_new S) - x (sl_old S)))))"

definition slab_sets :: "(string \<times> (slabs_hist \<times> slabs_node \<Rightarrow> rval \<Rightarrow> rval)) list" where
  "slab_sets =
    [(''SLABINFO_noop'', set_noop), (''SLABINFO_extra'', \<lambda>(S, N) v. Ul_int 0),
     (''SLAB_NAME'', NOD_set Str sn_name), (''SLAB_NUM_OBJS'', NOD_set U_int sn_nr_objs),
     (''SLAB_ACTIVE_OBJS'', NOD_set U_int sn_nr_active_objs), (''SLAB_OBJ_SIZE'', NOD_set U_int sn_obj_size),
     (''SLAB_OBJ_PER_SLAB'', NOD_set U_int sn_objs_per_slab), (''SLAB_NUMS_SLABS'', NOD_set U_int sn_nr_slabs),
     (''SLAB_ACTIVE_SLABS'', NOD_set U_int sn_nr_active_slabs),
     (''SLAB_PAGES_PER_SLAB'', NOD_set U_int sn_pages_per_slab), (''SLAB_PERCENT_USED'', NOD_set U_int sn_use),
     (''SLAB_SIZE_TOTAL'', NOD_set Ul_int sn_cache_size),
     (''SLABS_CACHES_TOTAL'', SLAB_REG_set U_int ss_nr_caches),
     (''SLABS_CACHES_ACTIVE'', SLAB_REG_set U_int ss_nr_active_caches),
     (''SLABS_NUM_OBJS'', SLAB_REG_set U_int ss_nr_objs),
     (''SLABS_ACTIVE_OBJS'', SLAB_REG_set U_int ss_nr_active_objs),
     (''SLABS_OBJ_SIZE_AVG'', SLAB_REG_set U_int ss_avg_obj_size),
     (''SLABS_OBJ_SIZE_MIN'', SLAB_REG_set U_int ss_min_obj_size),
     (''SLABS_OBJ_SIZE_MAX'', SLAB_REG_set U_int ss_max_obj_size),
     (''SLABS_NUMS_SLABS'', SLAB_REG_set U_int ss_nr_slabs),
     (''SLABS_ACTIVE_SLABS'', SLAB_REG_set U_int ss_nr_active_slabs),
     (''SLABS_PAGES_TOTAL'', SLAB_REG_set U_int ss_nr_pages),
     (''SLABS_SIZE_ACTIVE'', SLAB_REG_set Ul_int ss_active_size),
     (''SLABS_SIZE_TOTAL'', SLAB_REG_set Ul_int ss_total_size),
     (''SLABS_DELTA_CACHES_TOTAL'', HST_set_uint ss_nr_caches),
     (''SLABS_DELTA_CACHES_ACTIVE'', HST_set_uint ss_nr_active_caches),
     (''SLABS_DELTA_NUM_OBJS'', HST_set_uint ss_nr_objs),
     (''SLABS_DELTA_ACTIVE_OBJS'', HST_set_uint ss_nr_active_objs),
     (''SLABS_DELTA_OBJ_SIZE_AVG'', HST_set_uint ss_avg_obj_size),
     (''SLABS_DELTA_OBJ_SIZE_MIN'', HST_set_uint ss_min_obj_size),
     (''SLABS_DELTA_OBJ_SIZE_MAX'', HST_set_uint ss_max_obj_size),
     (''SLABS_DELTA_NUMS_SLABS'', HST_set_uint ss_nr_slabs),
     (''SLABS_DELTA_ACTIVE_SLABS'', HST_set_uint ss_nr_active_slabs),
     (''SLABS_DELTA_PAGES_TOTAL'', HST_set_uint ss_nr_pages),
     (''SLABS_DELTA_SIZE_ACTIVE'', HST_set_ulong ss_active_size),
     (''SLABS_DELTA_SIZE_TOTAL'', HST_set_ulong ss_total_size)]"

definition slab_table :: "(string \<times> sort_kind \<times> string) list" where
  "slab_table =
    [(''SLABINFO_noop'', Q_noop, ''''), (''SLABINFO_extra'', Q_ul_int, ''''), (''SLAB_NAME'', Q_str, ''str''),
     (''SLAB_NUM_OBJS'', Q_u_int, ''u_int''), (''SLAB_ACTIVE_OBJS'', Q_u_int, ''u_int''),
     (''SLAB_OBJ_SIZE'', Q_u_int, ''u_int''), (''SLAB_OBJ_PER_SLAB'', Q_u_int, ''u_int''),
     (''SLAB_NUMS_SLABS'', Q_u_int, ''u_int''), (''SLAB_ACTIVE_SLABS'', Q_u_int, ''u_int''),
     (''SLAB_PAGES_PER_SLAB'', Q_u_int, ''u_int''), (''SLAB_PERCENT_USED'', Q_u_int, ''u_int''),
     (''SLAB_SIZE_TOTAL'', Q_ul_int, ''ul_int''), (''SLABS_CACHES_TOTAL'', Q_noop, ''u_int''),
     (''SLABS_CACHES_ACTIVE'', Q_noop, ''u_int''), (''SLABS_NUM_OBJS'', Q_noop, ''u_int''),
     (''SLABS_ACTIVE_OBJS'', Q_noop, ''u_int''), (''SLABS_OBJ_SIZE_AVG'', Q_noop, ''u_int''),
     (''SLABS_OBJ_SIZE_MIN'', Q_noop, ''u_int''), (''SLABS_OBJ_SIZE_MAX'', Q_noop, ''u_int''),
     (''SLABS_NUMS_SLABS'', Q_noop, ''u_int''), (''SLABS_ACTIVE_SLABS'', Q_noop, ''u_int''),
     (''SLABS_PAGES_TOTAL'', Q_noop, ''u_int''), (''SLABS_SIZE_ACTIVE'', Q_noop, ''ul_int''),
     (''SLABS_SIZE_TOTAL'', Q_noop, ''ul_int''), (''SLABS_DELTA_CACHES_TOTAL'', Q_noop, ''s_int''),
     (''SLABS_DELTA_CACHES_ACTIVE'', Q_noop, ''s_int''), (''SLABS_DELTA_NUM_OBJS'', Q_noop, ''s_int''),
     (''SLABS_DELTA_ACTIVE_OBJS'', Q_noop, ''s_int''), (''SLABS_DELTA_OBJ_SIZE_AVG'', Q_noop, ''s_int''),
     (''SLABS_DELTA_OBJ_SIZE_MIN'', Q_noop, ''s_int''), (''SLABS_DELTA_OBJ_SIZE_MAX'', Q_noop, ''s_int''),
     (''SLABS_DELTA_NUMS_SLABS'', Q_noop, ''s_int''), (''SLABS_DELTA_ACTIVE_SLABS'', Q_noop, ''s_int''),
     (''SLABS_DELTA_PAGES_TOTAL'', Q_noop, ''s_int''), (''SLABS_DELTA_SIZE_ACTIVE'', Q_noop, ''s_int''),
     (''SLABS_DELTA_SIZE_TOTAL'', Q_noop, ''s_int'')]"

text \<open>The enumerators of \<open>enum slabinfo_item\<close>, with the type the header documents for each.\<close>

definition slabinfo_item :: "(string \<times> string) list" where
  "slabinfo_item =
    [(''SLABINFO_noop'', ''''), (''SLABINFO_extra'', ''''), (''SLAB_NAME'', ''str''),
     (''SLAB_NUM_OBJS'', ''u_int''), (''SLAB_ACTIVE_OBJS'', ''u_int''), (''SLAB_OBJ_SIZE'', ''u_int''),
     (''SLAB_OBJ_PER_SLAB'', ''u_int''), (''SLAB_NUMS_SLABS'', ''u_int''), (''SLAB_ACTIVE_SLABS'', ''u_int''),
     (''SLAB_PAGES_PER_SLAB'', ''u_int''), (''SLAB_PERCENT_USED'', ''u_int''),
     (''SLAB_SIZE_TOTAL'', ''ul_int''), (''SLABS_CACHES_TOTAL'', ''u_int''),
     (''SLABS_CACHES_ACTIVE'', ''u_int''), (''SLABS_NUM_OBJS'', ''u_int''), (''SLABS_ACTIVE_OBJS'', ''u_int''),
     (''SLABS_OBJ_SIZE_AVG'', ''u_int''), (''SLABS_OBJ_SIZE_MIN'', ''u_int''),
     (''SLABS_OBJ_SIZE_MAX'', ''u_int''), (''SLABS_NUMS_SLABS'', ''u_int''),
     (''SLABS_ACTIVE_SLABS'', ''u_int''), (''SLABS_PAGES_TOTAL'', ''u_int''),
     (''SLABS_SIZE_ACTIVE'', ''ul_int''), (''SLABS_SIZE_TOTAL'', ''ul_int''),
     (''SLABS_DELTA_CACHES_TOTAL'', ''s_int''), (''SLABS_DELTA_CACHES_ACTIVE'', ''s_int''),
     (''SLABS_DELTA_NUM_OBJS'', ''s_int''), (''SLABS_DELTA_ACTIVE_OBJS'', ''s_int''),
     (''SLABS_DELTA_OBJ_SIZE_AVG'', ''s_int''), (''SLABS_DELTA_OBJ_SIZE_MIN'', ''s_int''),
     (''SLABS_DELTA_OBJ_SIZE_MAX'', ''s_int''), (''SLABS_DELTA_NUMS_SLABS'', ''s_int''),
     (''SLABS_DELTA_ACTIVE_SLABS'', ''s_int''), (''SLABS_DELTA_PAGES_TOTAL'', ''s_int''),
     (''SLABS_DELTA_SIZE_ACTIVE'', ''s_int''), (''SLABS_DELTA_SIZE_TOTAL'', ''s_int'')]"

definition slab_rows :: "(slabs_hist \<times> slabs_node) row list" where
  "slab_rows = map2 (\<lambda>(nm, q, ty) (nm', f). (nm, f, ty)) slab_table slab_sets"

definition SLABINFO_logical_end :: nat where
  "SLABINFO_logical_end = length slab_table"

subsection \<open>Reading\<close>

record slab_env =
  le_fopen :: "int option"          \<comment> \<open>\<open>errno\<close> if \<open>fopen\<close> fails\<close>
  le_fseek :: "int option"
  le_text :: string
  le_errno :: int                   \<comment> \<open>\<open>errno\<close> when nothing could be read\<close>
  le_page_size :: int
  le_grow_ok :: "nat \<Rightarrow> bool"       \<comment> \<open>growing the array of this length\<close>
  le_raw :: "nat \<Rightarrow> slabs_node"     \<comment> \<open>what its new memory holds\<close>

definition alloc_slabnodes :: "slab_env \<Rightarrow> slabinfo_info \<Rightarrow> bool \<times> slabinfo_info" where
  "alloc_slabnodes e info =
     (let n = length (si_nodes info); new_count = n * 5 div 4 + 30
      in if si_nodes_used info < n then (True, info)
         else if \<not> le_grow_ok e n then (False, info)
         else (True, info\<lparr>si_nodes := si_nodes info @ map (le_raw e) [n ..< new_count]\<rparr>))"

text \<open>The place of the node, and the array with it in use.\<close>

definition get_slabnode :: "slab_env \<Rightarrow> slabinfo_info \<Rightarrow> nat option \<times> slabinfo_info" where
  "get_slabnode e info =
     (case (if si_nodes_used info = length (si_nodes info) then alloc_slabnodes e info else (True, info)) of
        (False, info1) \<Rightarrow> (None, info1)
      | (True, info1) \<Rightarrow> (Some (si_nodes_used info1), info1\<lparr>si_nodes_used := si_nodes_used info1 + 1\<rparr>))"

definition slab_fmt :: string where
  "slab_fmt = ''%128s%u %u %u %u %u : tunables %*u %*u %*u : slabdata %u %u %*u''"

definition slab_setters :: "(sval \<Rightarrow> slabs_node \<Rightarrow> slabs_node) list" where
  "slab_setters =
     [\<lambda>v n. n\<lparr>sn_name := sstr_of v\<rparr>, \<lambda>v n. n\<lparr>sn_nr_active_objs := suint_of v\<rparr>, \<lambda>v n. n\<lparr>sn_nr_objs := suint_of v\<rparr>,
      \<lambda>v n. n\<lparr>sn_obj_size := suint_of v\<rparr>, \<lambda>v n. n\<lparr>sn_objs_per_slab := suint_of v\<rparr>,
      \<lambda>v n. n\<lparr>sn_pages_per_slab := suint_of v\<rparr>, \<lambda>v n. n\<lparr>sn_nr_active_slabs := suint_of v\<rparr>,
      \<lambda>v n. n\<lparr>sn_nr_slabs := suint_of v\<rparr>]"

text \<open>The percentage, computed in single precision and truncated.\<close>

definition slab_use :: "uint_t \<Rightarrow> uint_t \<Rightarrow> uint_t" where
  "slab_use active objs =
     word_of_int \<lfloor>float_mult 100 (float_div (float_of (of_nat (unat active))) (float_of (of_nat (unat objs))))\<rfloor>"

definition slab_derive :: "int \<Rightarrow> slabs_node \<Rightarrow> slabs_node" where
  "slab_derive page_size n =
     (let n1 = (if sn_name n = [] then n\<lparr>sn_name := ''unknown''\<rparr> else n)
      in n1\<lparr>sn_cache_size := ucast (sn_nr_slabs n) * ucast (sn_pages_per_slab n) * word_of_int page_size,
            sn_use := (if sn_nr_objs n \<noteq> 0 then slab_use (sn_nr_active_objs n) (sn_nr_objs n) else 0)\<rparr>)"

definition add_slab :: "slabs_node \<Rightarrow> slabs_summ \<Rightarrow> slabs_summ" where
  "add_slab n s =
     s\<lparr>ss_min_obj_size := (if sn_obj_size n < ss_min_obj_size s then sn_obj_size n else ss_min_obj_size s),
       ss_max_obj_size := (if ss_max_obj_size s < sn_obj_size n then sn_obj_size n else ss_max_obj_size s),
       ss_nr_active_caches := (if sn_nr_objs n \<noteq> 0 then ss_nr_active_caches s + 1 else ss_nr_active_caches s),
       ss_nr_objs := ss_nr_objs s + sn_nr_objs n,
       ss_nr_active_objs := ss_nr_active_objs s + sn_nr_active_objs n,
       ss_total_size := ss_total_size s + ucast (sn_nr_objs n) * ucast (sn_obj_size n),
       ss_active_size := ss_active_size s + ucast (sn_nr_active_objs n) * ucast (sn_obj_size n),
       ss_nr_pages := ss_nr_pages s + sn_nr_slabs n * sn_pages_per_slab n,
       ss_nr_slabs := ss_nr_slabs s + sn_nr_slabs n,
       ss_nr_active_slabs := ss_nr_active_slabs s + sn_nr_active_slabs n,
       ss_nr_caches := ss_nr_caches s + 1\<rparr>"

definition set_node :: "nat \<Rightarrow> slabs_node \<Rightarrow> slabinfo_info \<Rightarrow> slabinfo_info" where
  "set_node k n info = info\<lparr>si_nodes := (si_nodes info)[k := n]\<rparr>"

definition set_summ :: "(slabs_summ \<Rightarrow> slabs_summ) \<Rightarrow> slabinfo_info \<Rightarrow> slabinfo_info" where
  "set_summ f info = info\<lparr>si_slabs := (si_slabs info)\<lparr>sl_new := f (sl_new (si_slabs info))\<rparr>\<rparr>"

text \<open>\<open>None\<close>, or \<open>errno\<close>.\<close>

fun slab_lines :: "slab_env \<Rightarrow> string list \<Rightarrow> slabinfo_info \<Rightarrow> int option \<times> slabinfo_info" where
  "slab_lines e [] info = (None, info)"
| "slab_lines e (l # ls) info =
     (if is_prefix ''#'' l then slab_lines e ls info
      else case get_slabnode e info of
             (None, info1) \<Rightarrow> (Some ENOMEM, info1)
           | (Some k, info1) \<Rightarrow>
               let vs = sscanf slab_fmt (cstr l); n = assign slab_setters vs (si_nodes info1 ! k)
               in if length vs < 8 then (Some ERANGE, set_node k n info1)
                  else
                    let n1 = slab_derive (le_page_size e) n
                    in slab_lines e ls (set_summ (add_slab n1) (set_node k n1 info1)))"

definition slab_average :: "slabs_summ \<Rightarrow> slabs_summ" where
  "slab_average s = (if ss_nr_objs s \<noteq> 0 then s\<lparr>ss_avg_obj_size := ucast (ss_total_size s div ucast (ss_nr_objs s))\<rparr> else s)"

definition parse_slabinfo20 :: "slab_env \<Rightarrow> string list \<Rightarrow> slabinfo_info \<Rightarrow> int option \<times> slabinfo_info" where
  "parse_slabinfo20 e ls info =
     (case slab_lines e ls (set_summ (\<lambda>s. s\<lparr>ss_min_obj_size := INT_MAX32, ss_max_obj_size := 0\<rparr>) info) of
        (Some err, info1) \<Rightarrow> (Some err, info1)
      | (None, info1) \<Rightarrow> (None, set_summ slab_average info1))"

definition slab_version_fmt :: string where
  "slab_version_fmt = ''slabinfo - version: %d.%d''"

definition slab_version_ok :: "string \<Rightarrow> bool" where
  "slab_version_ok l = (let vs = sscanf slab_version_fmt (cstr l) in length vs = 2 \<and> sint_of (vs ! 0) = 2)"

text \<open>With the number of open streams.\<close>

definition slabinfo_read_failed :: "slab_env \<Rightarrow> slabinfo_info \<Rightarrow> int \<Rightarrow> int option \<times> slabinfo_info \<times> int" where
  "slabinfo_read_failed e info w =
     (case alloc_slabnodes e (info\<lparr>si_slabs := \<lparr>sl_new = zero_summ, sl_old = sl_new (si_slabs info)\<rparr>\<rparr>) of
        (False, info1) \<Rightarrow> (Some ENOMEM, info1, w)
      | (True, info1) \<Rightarrow>
          let info2 = info1\<lparr>si_nodes := replicate (length (si_nodes info1)) zero_slab, si_nodes_used := 0\<rparr>
          in if \<not> si_fp info2 \<and> le_fopen e \<noteq> None then (le_fopen e, info2, w)
             else
               let w1 = (if si_fp info2 then w else w + 1); info3 = info2\<lparr>si_fp := True\<rparr>
               in case le_fseek e of
                    Some err \<Rightarrow> (Some err, info3, w1)
                  | None \<Rightarrow>
                      (case fgets_lines SLABINFO_LINE_LEN (le_text e) of
                         [] \<Rightarrow> (Some (le_errno e), info3, w1)
                       | l # ls \<Rightarrow>
                           if \<not> slab_version_ok l then (Some ERANGE, info3, w1)
                           else (case parse_slabinfo20 e ls info3 of (r, info4) \<Rightarrow> (r, info4, w1))))"

subsection \<open>The shared functions\<close>

definition slabinfo_assign_results :: "stack \<Rightarrow> slabs_hist \<Rightarrow> slabs_node \<Rightarrow> stack option" where
  "slabinfo_assign_results s S N = assign_results slab_rows (S, N) s"

definition slabinfo_itemize_stack :: "nat \<Rightarrow> item list \<Rightarrow> stack" where
  "slabinfo_itemize_stack = itemize_stack"

definition slabinfo_items_check_failed :: "int \<Rightarrow> nat \<times> item list \<Rightarrow> bool" where
  "slabinfo_items_check_failed = items_check_failed SLABINFO_logical_end"

definition slabinfo_extents_free_all :: "ext_support \<Rightarrow> ext_support" where
  "slabinfo_extents_free_all = extents_free_all"

definition slabinfo_stacks_alloc :: "bool \<Rightarrow> nat \<Rightarrow> ext_support \<Rightarrow> ext_support option" where
  "slabinfo_stacks_alloc = stacks_alloc"

definition slabinfo_stacks_fetch :: "fetch_env \<Rightarrow> slabinfo_info \<Rightarrow> fetch_outcome" where
  "slabinfo_stacks_fetch e info =
     stacks_fetch SLABINFO_STACKS_INCR slab_rows e (map (Pair (si_slabs info)) (take (si_nodes_used info) (si_nodes info)))
       (si_fetch_ext info) (si_fetch info)"

definition slabinfo_stacks_reconfig_maybe ::
  "bool \<Rightarrow> nat \<times> item list \<Rightarrow> int \<Rightarrow> ext_support \<Rightarrow> (int \<times> ext_support) option" where
  "slabinfo_stacks_reconfig_maybe = reconfig_maybe SLABINFO_logical_end"

subsection \<open>The interface\<close>

definition fresh_slabinfo :: slabinfo_info where
  "fresh_slabinfo =
     \<lparr>si_refcount = 1, si_fp = False, si_nodes_used = 0, si_nodes = [], si_slabs = \<lparr>sl_new = zero_summ, sl_old = zero_summ\<rparr>,
      si_select_ext = no_ext, si_fetch_ext = no_ext, si_fetch = no_fetch, si_nul_node = zero_slab,
      si_get_this = \<lparr>rc_item = 0, rc_val = Zero\<rparr>, si_sav_secs = 0\<rparr>"

definition procps_slabinfo_ref :: "slabinfo_info option \<times> int \<Rightarrow> int \<times> slabinfo_info option \<times> int" where
  "procps_slabinfo_ref = (\<lambda>(p, w).
     case p of
       None \<Rightarrow> (- EINVAL, None, w)
     | Some info \<Rightarrow> (si_refcount info + 1, Some (info\<lparr>si_refcount := si_refcount info + 1\<rparr>), w))"

definition procps_slabinfo_unref :: "slabinfo_info option \<times> int \<Rightarrow> int \<times> slabinfo_info option \<times> int" where
  "procps_slabinfo_unref = (\<lambda>(p, w).
     case p of
       None \<Rightarrow> (- EINVAL, None, w)
     | Some info \<Rightarrow>
         let info1 = info\<lparr>si_refcount := si_refcount info - 1\<rparr>
         in if si_refcount info1 < 1 then (0, None, if si_fp info1 then w - 1 else w)
            else (si_refcount info1, Some info1, w))"

definition procps_slabinfo_new ::
  "bool \<Rightarrow> slab_env \<Rightarrow> slabinfo_info option option \<Rightarrow> int \<Rightarrow> int \<times> slabinfo_info option option \<times> int" where
  "procps_slabinfo_new calloc_ok e slot w =
     (if slot \<noteq> Some None then (- EINVAL, slot, w)
      else if \<not> calloc_ok then (- ENOMEM, slot, w)
      else case slabinfo_read_failed e fresh_slabinfo w of
             (Some err, p, w1) \<Rightarrow> (case procps_slabinfo_unref (Some p, w1) of (_, _, w2) \<Rightarrow> (- err, slot, w2))
           | (None, p, w1) \<Rightarrow> (0, Some (Some p), w1))"

definition procps_slabinfo_get ::
  "slab_env \<Rightarrow> int \<Rightarrow> item \<Rightarrow> slabinfo_info option \<times> int \<Rightarrow> result_cell option \<times> slabinfo_info option \<times> int" where
  "procps_slabinfo_get e cur_secs it = (\<lambda>(p, w).
     case p of
       None \<Rightarrow> (None, None, w)
     | Some info \<Rightarrow>
         if SLABINFO_logical_end \<le> it then (None, Some info, w)
         else case (if 1 \<le> cur_secs - si_sav_secs info
                    then (case slabinfo_read_failed e info w of
                            (None, i, w') \<Rightarrow> (None, i\<lparr>si_sav_secs := cur_secs\<rparr>, w')
                          | (Some err, i, w') \<Rightarrow> (Some err, i, w'))
                    else (None, info, w)) of
                (Some err, i, w') \<Rightarrow> (None, Some i, w')
              | (None, i, w') \<Rightarrow>
                  let r = \<lparr>rc_item = it, rc_val = setsfunc slab_rows it (si_slabs i, si_nul_node i) (Ul_int 0)\<rparr>
                  in (Some r, Some (i\<lparr>si_get_this := r\<rparr>), w'))"

record slab_reap_env =
  lp_realloc_ok :: bool
  lp_fetch :: fetch_env
  lp_slab :: slab_env

definition procps_slabinfo_reap ::
  "slab_reap_env \<Rightarrow> (nat \<times> item list) option \<Rightarrow> int \<Rightarrow> slabinfo_info option \<times> int
   \<Rightarrow> ((nat \<times> stack list) option \<times> slabinfo_info option \<times> int) option" where
  "procps_slabinfo_reap e items numitems = (\<lambda>(p, w).
     case (p, items) of
       (None, _) \<Rightarrow> Some (None, None, w)
     | (Some info, None) \<Rightarrow> Some (None, Some info, w)
     | (Some info, Some its) \<Rightarrow>
         (case slabinfo_stacks_reconfig_maybe (lp_realloc_ok e) its numitems (si_fetch_ext info) of
            None \<Rightarrow> None
          | Some (rc, es) \<Rightarrow>
              let info1 = info\<lparr>si_fetch_ext := es\<rparr>
              in if rc < 0 then Some (None, Some info1, w)
                 else case slabinfo_read_failed (lp_slab e) info1 w of
                        (Some err, info2, w1) \<Rightarrow> Some (None, Some info2, w1)
                      | (None, info2, w1) \<Rightarrow>
                          (case slabinfo_stacks_fetch (lp_fetch e) info2 of
                             FetchUndef \<Rightarrow> None
                           | FetchFailed es1 fs \<Rightarrow> Some (None, Some (info2\<lparr>si_fetch_ext := es1, si_fetch := fs\<rparr>), w1)
                           | Fetched n es1 fs \<Rightarrow>
                               Some (Some (n, the (fs_result fs)), Some (info2\<lparr>si_fetch_ext := es1, si_fetch := fs\<rparr>), w1))))"

definition procps_slabinfo_select ::
  "bool \<Rightarrow> bool \<Rightarrow> slab_env \<Rightarrow> (nat \<times> item list) option \<Rightarrow> int \<Rightarrow> slabinfo_info option \<times> int
   \<Rightarrow> (stack option \<times> slabinfo_info option \<times> int) option" where
  "procps_slabinfo_select realloc_ok alloc_ok e items numitems = (\<lambda>(p, w).
     case (p, items) of
       (None, _) \<Rightarrow> Some (None, None, w)
     | (Some info, None) \<Rightarrow> Some (None, Some info, w)
     | (Some info, Some its) \<Rightarrow>
         (case slabinfo_stacks_reconfig_maybe realloc_ok its numitems (si_select_ext info) of
            None \<Rightarrow> None
          | Some (rc, es) \<Rightarrow>
              let info1 = info\<lparr>si_select_ext := es\<rparr>
              in if rc < 0 then Some (None, Some info1, w)
                 else case (if es_extents es = [] then slabinfo_stacks_alloc alloc_ok 1 es else Some es) of
                        None \<Rightarrow> Some (None, Some info1, w)
                      | Some es2 \<Rightarrow>
                          (case slabinfo_read_failed e (info1\<lparr>si_select_ext := es2\<rparr>) w of
                             (Some err, info2, w1) \<Rightarrow> Some (None, Some info2, w1)
                           | (None, info2, w1) \<Rightarrow>
                               (case slabinfo_assign_results (hd (es_extents es2) ! 0) (si_slabs info2) (si_nul_node info2) of
                                  None \<Rightarrow> None
                                | Some s \<Rightarrow>
                                    Some (Some s,
                                      Some (info2\<lparr>si_select_ext :=
                                        es2\<lparr>es_extents := (hd (es_extents es2))[0 := s] # tl (es_extents es2)\<rparr>\<rparr>),
                                      w1)))))"

text \<open>Names are compared by the C library's \<open>strcoll\<close>, a parameter.\<close>

definition slabinfo_sortfunc :: "(string \<Rightarrow> string \<Rightarrow> int) \<Rightarrow> item \<Rightarrow> int \<Rightarrow> rval \<Rightarrow> rval \<Rightarrow> int" where
  "slabinfo_sortfunc strcoll it = compare_kind strcoll (fst (snd (slab_table ! it)))"

definition procps_slabinfo_sort ::
  "(string \<Rightarrow> string \<Rightarrow> int) \<Rightarrow> slabinfo_info option \<Rightarrow> stack list option \<Rightarrow> item \<Rightarrow> int \<Rightarrow> stack list option option" where
  "procps_slabinfo_sort strcoll info stacks sortitem order =
     (case (info, stacks) of
        (Some _, Some ss) \<Rightarrow> sort_stacks SLABINFO_logical_end (slabinfo_sortfunc strcoll) ss sortitem order
      | _ \<Rightarrow> Some None)"

end
