(* ===== verification/SlabSpec.thy ===== *)
theory SlabSpec
  imports Slabinfo
begin

text \<open>
  What \<^verbatim>\<open>slabinfo.c\<close> promises: the table agrees with the header, the rows the kernel prints
  become the nodes in their order, the totals are sums over them, a percentage is at most 100, a
  \<open>reap\<close> returns a filled stack for each cache, and the stream is closed with the last reference.
\<close>

subsection \<open>The item table\<close>

lemmas slab_table_simps = slab_rows_def slab_table_def slab_sets_def

lemma length_slab_rows: "length slab_rows = SLABINFO_logical_end"
  by (simp add: slab_table_simps SLABINFO_logical_end_def)

lemma slab_rows_typed:
  "list_all (\<lambda>(nm, f, ty). ty \<noteq> [] \<longrightarrow> (\<forall>src v. rtype (f src v) = ty)) slab_rows"
  by (simp add: slab_table_simps NOD_set_def SLAB_REG_set_def HST_set_uint_def HST_set_ulong_def split_def)

interpretation slab_items: item_table slab_rows
proof unfold_locales
  show "rtype (f src v) = ty" if "(nm, f, ty) \<in> set slab_rows" "ty \<noteq> []" for nm f ty src v
    using slab_rows_typed that by (cases src) (fastforce simp: list_all_iff)
  show "\<exists>nm ty rest. slab_rows = (nm, set_noop, ty) # rest"
    by (simp add: slab_table_simps)
qed

theorem slab_table_matches_header:
  "map (\<lambda>(nm, q, ty). (nm, ty)) slab_table = slabinfo_item \<and> map fst slab_rows = map fst slabinfo_item"
  by (simp add: slab_table_simps slabinfo_item_def)

subsection \<open>The rows of the file\<close>

text \<open>The blanks before each number (one at least), the node, the tunables, the shared ones, and what follows.\<close>

type_synonym slab_row = "(nat \<Rightarrow> nat) \<times> slabs_node \<times> uint_t \<times> uint_t \<times> uint_t \<times> uint_t \<times> string"

definition col :: "(nat \<Rightarrow> nat) \<Rightarrow> nat \<Rightarrow> uint_t \<Rightarrow> string" where
  "col p i w = CHR '' '' # replicate (p i) (CHR '' '') @ show_nat (unat w)"

definition slab_line :: "slab_row \<Rightarrow> string" where
  "slab_line = (\<lambda>(p, n, t1, t2, t3, sh, tail).
     sn_name n @ col p 0 (sn_nr_active_objs n) @ col p 1 (sn_nr_objs n) @ col p 2 (sn_obj_size n)
     @ col p 3 (sn_objs_per_slab n) @ col p 4 (sn_pages_per_slab n) @ '' : tunables'' @ col p 5 t1 @ col p 6 t2 @ col p 7 t3
     @ '' : slabdata'' @ col p 8 (sn_nr_active_slabs n) @ col p 9 (sn_nr_slabs n) @ col p 10 sh @ tail)"

definition slab_row_ok :: "slab_row \<Rightarrow> bool" where
  "slab_row_ok r = (case r of (p, n, t1, t2, t3, sh, tail) \<Rightarrow>
     sn_name n \<noteq> [] \<and> hd (sn_name n) \<noteq> CHR ''#'' \<and> length (sn_name n) \<le> SLABINFO_NAME_LEN
     \<and> list_all (\<lambda>c. \<not> isspace c \<and> c \<noteq> NUL) (sn_name n) \<and> ends_number tail \<and> newline \<notin> set tail \<and> NUL \<notin> set tail
     \<and> length (slab_line r) + 1 < SLABINFO_LINE_LEN)"

definition row_slab :: "slab_row \<Rightarrow> slabs_node" where
  "row_slab = (\<lambda>(p, n, t1, t2, t3, sh, tail). n)"

lemma parse_slab_fmt:
  "parse_format slab_fmt =
     [Conv (CStrW 128), Conv CUInt, Blank, Conv CUInt, Blank, Conv CUInt, Blank, Conv CUInt, Blank, Conv CUInt, Blank,
      Lit CHR '':'', Blank] @ map Lit ''tunables'' @ [Blank, Skip CUInt, Blank, Skip CUInt, Blank, Skip CUInt, Blank,
      Lit CHR '':'', Blank] @ map Lit ''slabdata'' @ [Blank, Conv CUInt, Blank, Conv CUInt, Blank, Skip CUInt]"
  by (simp add: slab_fmt_def parse_format.simps isspace_def isdigit_def digits_val_def)

lemma unat_ulong [simp]: "unat (ucast (w :: uint_t) :: ulong) = unat w"
  using unat32_lt_64 [of w] by (simp add: unsigned_ucast_eq take_bit_nat_eq_self)

lemma ucast_up_down [simp]: "ucast (ucast (w :: uint_t) :: ulong) = w"
  by transfer simp

lemma scan_uint_col:
  assumes "ends_number r"
  shows "run_scanf (Conv CUInt # ds) (col p i w @ r) = SUInt w # run_scanf ds r"
proof -
  have b: "run_scanf (Conv CUInt # ds) (replicate k (CHR '' '') @ s) = run_scanf (Conv CUInt # ds) s" for k s
  proof (induction k)
    case (Suc k)
    then show ?case using scan_uint_space [of "CHR '' ''" ds "replicate k (CHR '' '') @ s"] by simp
  qed simp
  have "run_scanf (Conv CUInt # ds) (col p i w @ r) = run_scanf (Conv CUInt # ds) (show_nat (unat w) @ r)"
    using b [of "Suc (p i)"] by (simp add: col_def del: run_scanf.simps)
  also have "\<dots> = SUInt w # run_scanf ds r"
    using assms by (rule scan_uint)
  finally show ?thesis .
qed

lemma blank_col:
  "dropWhile isspace (col p i w @ r) = show_nat (unat w) @ r"
  using dropWhile_space_show_nat by (induction "p i") (simp_all add: col_def dropWhile_append)


lemma blank_cons_col: "dropWhile isspace (col p i w @ r) = show_nat (unat w) @ r"
  by (rule blank_col)

lemma blank_scan_col [scanf_simps]:
  assumes "ends_number r"
  shows "run_scanf (Blank # Conv CUInt # ds) (col p i w @ r) = SUInt w # run_scanf ds r"
    "run_scanf (Blank # Skip CUInt # ds) (col p i w @ r) = run_scanf ds r"
  using assms by (simp_all add: blank_col scan_conv_def scan_number_show_nat strtoul_uint)

lemma ends_col [simp]: "ends_number (col p i w @ r)"
  by (simp add: col_def)

lemma scan_lits: "run_scanf (map Lit ks @ ds) (ks @ s) = run_scanf ds s"
  by (induction ks) simp_all

lemma scan_colon: "run_scanf (Blank # Lit CHR '':'' # Blank # ds) (CHR '' '' # CHR '':'' # CHR '' '' # r) = run_scanf ds (dropWhile isspace r)"
  by (simp add: isspace_def)

lemma not_space_letters [simp]: "\<not> isspace CHR ''t''" "\<not> isspace CHR ''s''" "\<not> isspace CHR '':''"
  by (simp_all add: isspace_def)

lemma scan_slab_row:
  assumes "slab_row_ok (p, n, t1, t2, t3, sh, tail)"
  shows "sscanf slab_fmt (slab_line (p, n, t1, t2, t3, sh, tail) @ [newline]) =
     [SStr (sn_name n), SUInt (sn_nr_active_objs n), SUInt (sn_nr_objs n), SUInt (sn_obj_size n), SUInt (sn_objs_per_slab n),
      SUInt (sn_pages_per_slab n), SUInt (sn_nr_active_slabs n), SUInt (sn_nr_slabs n)]"
proof -
  have ok: "sn_name n \<noteq> []" "length (sn_name n) \<le> 128" "list_all (\<lambda>c. \<not> isspace c) (sn_name n)" "ends_number tail"
    using assms by (auto simp: slab_row_ok_def SLABINFO_NAME_LEN_def list_all_iff)
  have tl: "ends_number (tail @ [newline])" using ok(4) by (cases tail) (simp_all add: isdigit_def)
  let ?d = "col p 8 (sn_nr_active_slabs n) @ col p 9 (sn_nr_slabs n) @ col p 10 sh @ tail @ [newline]"
  let ?t = "col p 5 t1 @ col p 6 t2 @ col p 7 t3 @ '' : '' @ ''slabdata'' @ ?d"
  let ?c = "col p 0 (sn_nr_active_objs n) @ col p 1 (sn_nr_objs n) @ col p 2 (sn_obj_size n)
     @ col p 3 (sn_objs_per_slab n) @ col p 4 (sn_pages_per_slab n) @ '' : '' @ ''tunables'' @ ?t"
  have line: "slab_line (p, n, t1, t2, t3, sh, tail) @ [newline] = sn_name n @ ?c" by (simp add: slab_line_def)
  let ?D = "[Blank, Conv CUInt, Blank, Conv CUInt, Blank, Skip CUInt]"
  let ?T = "[Blank, Skip CUInt, Blank, Skip CUInt, Blank, Skip CUInt, Blank, Lit CHR '':'', Blank] @ map Lit ''slabdata'' @ ?D"
  let ?C = "[Conv CUInt, Blank, Conv CUInt, Blank, Conv CUInt, Blank, Conv CUInt, Blank, Conv CUInt, Blank,
      Lit CHR '':'', Blank] @ map Lit ''tunables'' @ ?T"
  have d: "run_scanf ?D ?d = [SUInt (sn_nr_active_slabs n), SUInt (sn_nr_slabs n)]"
    using tl by (simp add: scanf_simps run_scanf.simps(1) del: run_scanf.simps(2-5))
  have t: "run_scanf ?T ?t = run_scanf ?D ?d"
    using scan_lits [of "''slabdata''" ?D ?d]
    by (simp add: scanf_simps scan_colon del: run_scanf.simps(2,4,5) list.map)
  have c: "run_scanf ?C ?c = [SUInt (sn_nr_active_objs n), SUInt (sn_nr_objs n), SUInt (sn_obj_size n),
      SUInt (sn_objs_per_slab n), SUInt (sn_pages_per_slab n)] @ run_scanf ?T ?t"
    using scan_lits [of "''tunables''" ?T ?t]
    by (simp add: scanf_simps scan_uint_col scan_colon del: run_scanf.simps(2,4,5) list.map)
  have f: "parse_format slab_fmt = Conv (CStrW 128) # ?C" by (simp add: parse_slab_fmt)
  obtain x where x: "?c = CHR '' '' # x" by (simp add: col_def)
  have "sscanf slab_fmt (sn_name n @ ?c) = SStr (sn_name n) # run_scanf ?C ?c"
    using scan_word [OF ok(1,2,3) isspace_blank, of ?C x] by (simp only: sscanf_def f x)
  then show ?thesis unfolding line c t d by simp
qed


text \<open>The node a row makes, whatever the memory held before.\<close>

definition slab_of :: "int \<Rightarrow> slab_row \<Rightarrow> slabs_node" where
  "slab_of page_size r = slab_derive page_size (row_slab r)"

lemma slab_overwritten:
  "slab_derive ps (n0\<lparr>sn_name := sn_name n, sn_nr_active_objs := sn_nr_active_objs n, sn_nr_objs := sn_nr_objs n,
     sn_obj_size := sn_obj_size n, sn_objs_per_slab := sn_objs_per_slab n, sn_pages_per_slab := sn_pages_per_slab n,
     sn_nr_active_slabs := sn_nr_active_slabs n, sn_nr_slabs := sn_nr_slabs n\<rparr>) = slab_derive ps n"
  by (simp add: slab_derive_def Let_def)

lemma slab_no_NUL: "slab_row_ok r \<Longrightarrow> NUL \<notin> set (slab_line r @ [newline])" "slab_row_ok r \<Longrightarrow> newline \<notin> set (slab_line r)"
  "slab_row_ok r \<Longrightarrow> \<not> is_prefix ''#'' (slab_line r @ s)"
proof -
  assume a: "slab_row_ok r"
  obtain p n t1 t2 t3 sh tail where r: "r = (p, n, t1, t2, t3, sh, tail)" by (cases r)
  have ok: "list_all (\<lambda>c. \<not> isspace c \<and> c \<noteq> NUL) (sn_name n)" "newline \<notin> set tail" "NUL \<notin> set tail"
      "sn_name n \<noteq> []" "hd (sn_name n) \<noteq> CHR ''#''"
    using a by (simp_all add: slab_row_ok_def r)
  have nn: "NUL \<notin> set (col q i w)" "newline \<notin> set (col q i w)" for q i w
    using show_nat_digits [of NUL] show_nat_digits [of newline] by (auto simp: col_def isdigit_def)
  have "isspace newline" by (simp add: isspace_def)
  then have "newline \<notin> set (sn_name n)" "NUL \<notin> set (sn_name n)" using ok(1) by (auto simp: list_all_iff)
  then show "NUL \<notin> set (slab_line r @ [newline])" "newline \<notin> set (slab_line r)"
    using ok nn by (simp_all add: r slab_line_def)
  show "\<not> is_prefix ''#'' (slab_line r @ s)"
    using ok(4,5) by (cases "sn_name n") (auto simp: r slab_line_def)
qed

definition can_grow :: "slab_env \<Rightarrow> bool" where
  "can_grow e \<longleftrightarrow> le_grow_ok e = (\<lambda>_. True)"

definition slab_wf :: "slabinfo_info \<Rightarrow> bool" where
  "slab_wf info \<longleftrightarrow> si_nodes_used info \<le> length (si_nodes info)"

lemma get_slabnode_ok:
  assumes "can_grow e" "slab_wf info"
  obtains ns where "get_slabnode e info = (Some (si_nodes_used info), info\<lparr>si_nodes := ns, si_nodes_used := si_nodes_used info + 1\<rparr>)"
    "take (si_nodes_used info) ns = take (si_nodes_used info) (si_nodes info)" "si_nodes_used info < length ns"
proof (cases "si_nodes_used info = length (si_nodes info)")
  case True
  let ?n = "length (si_nodes info)"
  let ?ns = "si_nodes info @ map (le_raw e) [?n ..< ?n * 5 div 4 + 30]"
  have "get_slabnode e info = (Some (si_nodes_used info), info\<lparr>si_nodes := ?ns, si_nodes_used := si_nodes_used info + 1\<rparr>)"
    using True assms(1) by (simp add: get_slabnode_def alloc_slabnodes_def can_grow_def Let_def)
  then show thesis by (rule that) (use True in simp_all)
next
  case False
  then have lt: "si_nodes_used info < length (si_nodes info)" using assms(2) by (simp add: slab_wf_def)
  have "info\<lparr>si_nodes := si_nodes info, si_nodes_used := si_nodes_used info + 1\<rparr> = info\<lparr>si_nodes_used := si_nodes_used info + 1\<rparr>"
    by simp
  then show thesis using that [of "si_nodes info"] False lt by (simp add: get_slabnode_def)
qed

lemma slab_rows_read:
  assumes "can_grow e"
  shows "list_all slab_row_ok rows \<Longrightarrow> slab_wf info \<Longrightarrow>
    \<exists>ns. slab_lines e (map (\<lambda>r. slab_line r @ [newline]) rows) info =
        (None, info\<lparr>si_nodes_used := si_nodes_used info + length rows, si_nodes := ns, si_slabs := (si_slabs info)
          \<lparr>sl_new := fold add_slab (map (slab_of (le_page_size e)) rows) (sl_new (si_slabs info))\<rparr>\<rparr>)
      \<and> take (si_nodes_used info) ns = take (si_nodes_used info) (si_nodes info)
      \<and> si_nodes_used info + length rows \<le> length ns
      \<and> take (length rows) (drop (si_nodes_used info) ns) = map (slab_of (le_page_size e)) rows"
proof (induction rows arbitrary: info)
  case Nil
  then show ?case by (intro exI [of _ "si_nodes info"]) (simp add: slab_wf_def)
next
  case (Cons r rows)
  let ?u = "si_nodes_used info"
  obtain ns where g: "get_slabnode e info = (Some ?u, info\<lparr>si_nodes := ns, si_nodes_used := ?u + 1\<rparr>)"
      "take ?u ns = take ?u (si_nodes info)" "?u < length ns"
    by (rule get_slabnode_ok [OF assms Cons.prems(2)])
  obtain p n t1 t2 t3 sh tail where r: "r = (p, n, t1, t2, t3, sh, tail)" by (cases r)
  have ok: "slab_row_ok r" using Cons.prems(1) by simp
  have sc: "sscanf slab_fmt (cstr (slab_line r @ [newline])) =
     [SStr (sn_name n), SUInt (sn_nr_active_objs n), SUInt (sn_nr_objs n), SUInt (sn_obj_size n), SUInt (sn_objs_per_slab n),
      SUInt (sn_pages_per_slab n), SUInt (sn_nr_active_slabs n), SUInt (sn_nr_slabs n)]"
    using scan_slab_row ok cstr_id [OF slab_no_NUL(1) [OF ok]] by (simp add: r)
  let ?n = "slab_of (le_page_size e) r"
  let ?i = "info\<lparr>si_nodes_used := ?u + 1, si_nodes := ns[?u := ?n],
      si_slabs := (si_slabs info)\<lparr>sl_new := add_slab ?n (sl_new (si_slabs info))\<rparr>\<rparr>"
  have nd: "slab_derive (le_page_size e) (assign slab_setters
      [SStr (sn_name n), SUInt (sn_nr_active_objs n), SUInt (sn_nr_objs n), SUInt (sn_obj_size n), SUInt (sn_objs_per_slab n),
      SUInt (sn_pages_per_slab n), SUInt (sn_nr_active_slabs n), SUInt (sn_nr_slabs n)] n0) = ?n" for n0
    by (simp add: slab_setters_def slab_overwritten slab_of_def row_slab_def r)
  have step: "slab_lines e (map (\<lambda>r. slab_line r @ [newline]) (r # rows)) info
      = slab_lines e (map (\<lambda>r. slab_line r @ [newline]) rows) ?i"
    using slab_no_NUL(3) [OF ok, of "[newline]"] by (simp add: g(1) sc Let_def nd set_node_def set_summ_def)
  have wf: "slab_wf ?i" using g(3) by (simp add: slab_wf_def)
  have rok: "list_all slab_row_ok rows" using Cons.prems(1) by simp
  from Cons.IH [OF rok wf] obtain ns' where
    ih: "slab_lines e (map (\<lambda>r. slab_line r @ [newline]) rows) ?i =
        (None, ?i\<lparr>si_nodes_used := ?u + 1 + length rows, si_nodes := ns', si_slabs := (si_slabs ?i)
          \<lparr>sl_new := fold add_slab (map (slab_of (le_page_size e)) rows) (sl_new (si_slabs ?i))\<rparr>\<rparr>)"
      "take (?u + 1) ns' = take (?u + 1) (ns[?u := ?n])" "?u + 1 + length rows \<le> length ns'"
      "take (length rows) (drop (?u + 1) ns') = map (slab_of (le_page_size e)) rows"
    by (auto simp del: map_map fold.simps)
  have at: "ns' ! ?u = ?n"
  proof -
    have "ns' ! ?u = take (?u + 1) ns' ! ?u" using ih(3) by simp
    also have "\<dots> = ?n" using ih(2) g(3) by simp
    finally show ?thesis .
  qed
  have front: "take ?u ns' = take ?u (si_nodes info)"
  proof -
    have "take ?u ns' = take ?u (take (?u + 1) ns')" by simp
    also have "\<dots> = take ?u (si_nodes info)" using ih(2) g(2) by simp
    finally show ?thesis .
  qed
  have "drop ?u ns' = ns' ! ?u # drop (?u + 1) ns'" using ih(3) by (simp add: Cons_nth_drop_Suc)
  then have "take (length (r # rows)) (drop ?u ns') = map (slab_of (le_page_size e)) (r # rows)" using ih(4) at by simp
  then show ?case using step ih(1,3) front by (intro exI [of _ ns']) simp
qed


subsection \<open>The totals\<close>

definition slab_start :: slabs_summ where
  "slab_start = zero_summ\<lparr>ss_min_obj_size := INT_MAX32\<rparr>"

text \<open>The specification: sums, extremes and counts over all caches.\<close>

definition slab_total :: "slabs_node list \<Rightarrow> slabs_summ" where
  "slab_total ns =
     \<lparr>ss_nr_objs = (\<Sum>n\<leftarrow>ns. sn_nr_objs n), ss_nr_active_objs = (\<Sum>n\<leftarrow>ns. sn_nr_active_objs n),
      ss_nr_pages = (\<Sum>n\<leftarrow>ns. sn_nr_slabs n * sn_pages_per_slab n), ss_nr_slabs = (\<Sum>n\<leftarrow>ns. sn_nr_slabs n),
      ss_nr_active_slabs = (\<Sum>n\<leftarrow>ns. sn_nr_active_slabs n), ss_nr_caches = of_nat (length ns),
      ss_nr_active_caches = of_nat (length (filter (\<lambda>n. sn_nr_objs n \<noteq> 0) ns)), ss_avg_obj_size = 0,
      ss_min_obj_size = fold min (map sn_obj_size ns) INT_MAX32, ss_max_obj_size = fold max (map sn_obj_size ns) 0,
      ss_active_size = (\<Sum>n\<leftarrow>ns. ucast (sn_nr_active_objs n) * ucast (sn_obj_size n)),
      ss_total_size = (\<Sum>n\<leftarrow>ns. ucast (sn_nr_objs n) * ucast (sn_obj_size n))\<rparr>"

lemma add_slab_total: "add_slab n (slab_total ns) = slab_total (ns @ [n])"
  by (auto simp: add_slab_def slab_total_def min_def max_def not_less)

lemma fold_add_slab: "fold add_slab ns slab_start = slab_total ns"
proof (induction ns rule: rev_induct)
  case Nil
  then show ?case by (simp add: slab_start_def slab_total_def zero_summ_def)
next
  case (snoc n ns)
  then show ?case by (simp add: add_slab_total)
qed

text \<open>A sum of words that fits is the sum of the numbers.\<close>

lemma unat_sum_list:
  fixes ws :: "'w::len word list"
  assumes "(\<Sum>w\<leftarrow>ws. unat w) < 2 ^ LENGTH('w)"
  shows "unat (sum_list ws) = (\<Sum>w\<leftarrow>ws. unat w)"
  using assms
proof (induction ws)
  case (Cons w ws)
  then show ?case by (subst sum_list.Cons, subst unat_add_lem [THEN iffD1]) simp_all
qed simp

lemma fold_min_le: "fold min xs (m :: 'a::linorder) \<le> m" "x \<in> set xs \<Longrightarrow> fold min xs m \<le> x"
proof (induction xs arbitrary: m)
  case (Cons a xs)
  { case 1 show ?case using Cons.IH(1) [of "min a m"] by simp }
  { case 2 then show ?case using Cons.IH(1) [of "min a m"] Cons.IH(2) [of "min a m"] by auto }
qed simp_all

lemma fold_max_ge: "(m :: 'a::linorder) \<le> fold max xs m" "x \<in> set xs \<Longrightarrow> x \<le> fold max xs m"
proof (induction xs arbitrary: m)
  case (Cons a xs)
  { case 1 show ?case using Cons.IH(1) [of "max a m"] by simp }
  { case 2 then show ?case using Cons.IH(1) [of "max a m"] Cons.IH(2) [of "max a m"] by auto }
qed simp_all

lemma weighted_sum_bounds:
  fixes f g :: "'a \<Rightarrow> nat"
  assumes "list_all (\<lambda>n. l \<le> g n \<and> g n \<le> u) ns"
  shows "l * (\<Sum>n\<leftarrow>ns. f n) \<le> (\<Sum>n\<leftarrow>ns. f n * g n)" "(\<Sum>n\<leftarrow>ns. f n * g n) \<le> u * (\<Sum>n\<leftarrow>ns. f n)"
  using assms by (induction ns) (auto simp: algebra_simps add_mono mult_mono)


subsection \<open>Reading the file\<close>

text \<open>
  The line of the version, with the extended statistics of a kernel built for them or without; the line
  of the names of the columns, of which only the first is fixed, since kernels differ in the others.
\<close>

definition version_line :: "bool \<Rightarrow> string" where
  "version_line stats = ''slabinfo - version: 2.1'' @ (if stats then '' (statistics)'' else [])"

definition comment_line :: "string \<Rightarrow> string" where
  "comment_line columns = ''# name'' @ columns"

definition columns_ok :: "string \<Rightarrow> bool" where
  "columns_ok columns \<longleftrightarrow> newline \<notin> set columns \<and> length columns < 2000"

lemma comment_skipped [simp]: "is_prefix ''#'' (comment_line columns @ s)"
  by (simp add: comment_line_def)

definition slab_text :: "bool \<Rightarrow> string \<Rightarrow> slab_row list \<Rightarrow> string" where
  "slab_text stats columns rows =
     concat (map (\<lambda>b. b @ [newline]) ([version_line stats, comment_line columns] @ map slab_line rows))"

definition slab_reads :: "slab_row list \<Rightarrow> slab_env \<Rightarrow> bool" where
  "slab_reads rows e \<longleftrightarrow>
     can_grow e \<and> le_fopen e = None \<and> le_fseek e = None \<and> list_all slab_row_ok rows
     \<and> (\<exists>stats columns. columns_ok columns \<and> le_text e = slab_text stats columns rows)"

lemma slab_text_lines:
  assumes "list_all slab_row_ok rows" "columns_ok columns"
  shows "fgets_lines SLABINFO_LINE_LEN (slab_text stats columns rows) =
     (version_line stats @ [newline]) # (comment_line columns @ [newline])
     # map (\<lambda>r. slab_line r @ [newline]) rows"
proof -
  have "list_all (\<lambda>b. newline \<notin> set b \<and> length b + 1 < SLABINFO_LINE_LEN)
      ([version_line stats, comment_line columns] @ map slab_line rows)"
    using assms slab_no_NUL(2)
    by (auto simp: list_all_iff slab_row_ok_def columns_ok_def SLABINFO_LINE_LEN_def version_line_def comment_line_def)
  from fgets_lines_whole [OF this] show ?thesis by (simp add: slab_text_def comp_def)
qed

lemma slab_version: "slab_version_ok (version_line stats @ [newline])"
proof -
  have p: "parse_format slab_version_fmt = map Lit ''slabinfo'' @ [Blank] @ map Lit ''-'' @ [Blank] @ map Lit ''version:''
      @ [Blank, Conv CInt, Lit CHR ''.'', Conv CInt]"
    by (simp add: slab_version_fmt_def parse_format.simps isspace_def isdigit_def)
  have n: "run_scanf (Conv CInt # ds) (''2.1'' @ r) = SInt 2 # run_scanf ds (''.1'' @ r)"
    "ends_number r \<Longrightarrow> run_scanf (Conv CInt # ds) (''1'' @ r) = SInt 1 # run_scanf ds r" for ds r
    using scan_int [of 2 "''.1'' @ r" ds] scan_int [of 1 r ds]
    by (simp_all add: show_int_def show_nat.simps isdigit_def)
  have c: "cstr (version_line stats @ [newline]) = version_line stats @ [newline]"
    by (rule cstr_id) (simp add: version_line_def)
  have e: "ends_number ((if stats then '' (statistics)'' else []) @ [newline])"
    by (simp add: ends_number_def isdigit_def)
  show ?thesis
    using n(1) [of _ "(if stats then '' (statistics)'' else []) @ [newline]"] n(2) [OF e]
    by (simp add: slab_version_ok_def sscanf_def p c version_line_def isspace_def run_scanf.simps(1-3) del: run_scanf.simps(4,5))
qed

lemma slab_read_text:
  assumes "slab_wf info" "slab_reads rows e"
  obtains ns w' where "slabinfo_read_failed e info w =
      (None, info\<lparr>si_fp := True, si_nodes_used := length rows, si_nodes := ns,
         si_slabs := \<lparr>sl_new = slab_average (slab_total (map (slab_of (le_page_size e)) rows)), sl_old = sl_new (si_slabs info)\<rparr>\<rparr>, w')"
    "take (length rows) ns = map (slab_of (le_page_size e)) rows" "length rows \<le> length ns"
proof -
  obtain ns0 where a: "alloc_slabnodes e (info\<lparr>si_slabs := \<lparr>sl_new = zero_summ, sl_old = sl_new (si_slabs info)\<rparr>\<rparr>)
      = (True, info\<lparr>si_slabs := \<lparr>sl_new = zero_summ, sl_old = sl_new (si_slabs info)\<rparr>, si_nodes := ns0\<rparr>)"
  proof (cases "si_nodes_used info < length (si_nodes info)")
    case True
    then show thesis using that [of "si_nodes info"] by (simp add: alloc_slabnodes_def)
  next
    case False
    then show thesis using that assms(2) by (simp add: alloc_slabnodes_def slab_reads_def can_grow_def Let_def)
  qed
  let ?i = "info\<lparr>si_fp := True, si_nodes_used := 0, si_nodes := replicate (length ns0) zero_slab,
      si_slabs := \<lparr>sl_new = slab_start, sl_old = sl_new (si_slabs info)\<rparr>\<rparr>"
  have rows: "list_all slab_row_ok rows" and g: "can_grow e" using assms(2) by (simp_all add: slab_reads_def)
  have wf: "slab_wf ?i" by (simp add: slab_wf_def)
  from slab_rows_read [OF g rows wf] obtain ns where
    r: "slab_lines e (map (\<lambda>r. slab_line r @ [newline]) rows) ?i =
        (None, ?i\<lparr>si_nodes_used := length rows, si_nodes := ns, si_slabs := (si_slabs ?i)
          \<lparr>sl_new := fold add_slab (map (slab_of (le_page_size e)) rows) slab_start\<rparr>\<rparr>)"
      "length rows \<le> length ns" "take (length rows) ns = map (slab_of (le_page_size e)) rows"
    by (auto simp del: fold.simps)
  have start: "zero_summ\<lparr>ss_min_obj_size := INT_MAX32, ss_max_obj_size := 0\<rparr> = slab_start"
    by (simp add: slab_start_def zero_summ_def)
  have ord: "info\<lparr>si_nodes := x, si_nodes_used := 0, si_fp := True, si_slabs := y\<rparr>
      = info\<lparr>si_fp := True, si_nodes_used := 0, si_nodes := x, si_slabs := y\<rparr>" for x y
    by (cases info) simp
  have p: "parse_slabinfo20 e ((comment_line columns @ [newline]) # map (\<lambda>r. slab_line r @ [newline]) rows)
        (info\<lparr>si_slabs := \<lparr>sl_new = zero_summ, sl_old = sl_new (si_slabs info)\<rparr>,
          si_nodes := replicate (length ns0) zero_slab, si_nodes_used := 0, si_fp := True\<rparr>)
      = (None, info\<lparr>si_fp := True, si_nodes_used := length rows, si_nodes := ns,
         si_slabs := \<lparr>sl_new = slab_average (slab_total (map (slab_of (le_page_size e)) rows)), sl_old = sl_new (si_slabs info)\<rparr>\<rparr>)"
    for columns
    using r(1) by (simp add: parse_slabinfo20_def set_summ_def start fold_add_slab ord)
  obtain stats columns where t: "columns_ok columns" "le_text e = slab_text stats columns rows"
    using assms(2) by (auto simp: slab_reads_def)
  show thesis
    by (rule that [where ns = ns and w' = "if si_fp info then w else w + 1"])
      (use assms(2) r(2,3) p in \<open>simp_all add: slabinfo_read_failed_def a Let_def slab_reads_def t(2) slab_text_lines [OF rows t(1)] slab_version\<close>)
qed

text \<open>
  C20. The rows the kernel prints become the nodes, in order, and the totals are sums over them, whatever
  was read before, with the statistics of a debugging kernel or without; the totals of before are kept for
  the differences.
\<close>

theorem slab_kernel_text:
  assumes "slab_wf info" "slab_reads rows e"
  shows "\<exists>info' w'. slabinfo_read_failed e info w = (None, info', w') \<and> slab_wf info'
    \<and> take (si_nodes_used info') (si_nodes info') = map (slab_of (le_page_size e)) rows
    \<and> sl_new (si_slabs info') = slab_average (slab_total (map (slab_of (le_page_size e)) rows))
    \<and> sl_old (si_slabs info') = sl_new (si_slabs info)"
  by (rule slab_read_text [OF assms, of w]) (simp add: slab_wf_def)


text \<open>A percentage is at most 100 when no more objects are active than there are.\<close>

theorem slab_use_bounded:
  assumes "active \<le> objs" "objs \<noteq> 0"
  shows "slab_use active objs \<le> 100"
proof (cases "unat active = 0")
  case True
  then show ?thesis by (simp add: slab_use_def float_div_def float_mult_def)
next
  case False
  have lt: "unat objs < 2 ^ 32" using unsigned_less [of objs, where 'a = nat] by simp
  have le: "unat active \<le> unat objs" using assms(1) by (simp add: word_le_nat_alt)
  let ?q = "float_of (of_nat (unat active)) / float_of (of_nat (unat objs))"
  have q: "in_range ?q" "?q \<le> 1" using float_quotient [OF _ le lt] False by simp_all
  have r1: "in_range 1" "in_range 100" by (simp_all add: in_range_def)
  have one: "float_of 1 = 1" "float_of 100 = 100" using float_of_small [of 1] float_of_small [of 100] by simp_all
  have d: "float_of ?q \<le> 1" using float_of_mono [OF q(1) r1(1) q(2)] one by simp
  have "?q / 2 \<le> float_of ?q" "1 / 2 ^ 57 \<le> ?q" using float_of_near(1) [OF q(1)] q(1) by (simp_all add: in_range_def)
  moreover have "c \<le> 100 * y \<and> 0 \<le> y" if "0 < c" "c \<le> x" "x / 2 \<le> y" for c x y :: rat using that by linarith
  moreover have "0 < (1 :: rat) / 2 ^ 57" by simp
  ultimately have lo: "1 / 2 ^ 57 \<le> 100 * float_of ?q" "0 \<le> float_of ?q" by blast+
  then have r: "in_range (100 * float_of ?q)" using d lo by (simp add: in_range_def)
  have "float_of (100 * float_of ?q) \<le> 100" using float_of_mono [OF r r1(2)] one d by simp
  moreover have "0 \<le> float_of (100 * float_of ?q)" using float_of_near(1) [OF r] lo(2) by linarith
  ultimately have f: "0 \<le> \<lfloor>float_of (100 * float_of ?q)\<rfloor>" "\<lfloor>float_of (100 * float_of ?q)\<rfloor> \<le> 100"
    by (simp_all add: floor_le_iff)
  have "word_of_int \<lfloor>float_of (100 * float_of ?q)\<rfloor> \<le> (100 :: uint_t)"
    using f by (simp add: word_le_def uint_word_of_int_eq take_bit_int_eq_self)
  then show ?thesis by (simp add: slab_use_def float_div_def float_mult_def)
qed

text \<open> But it is not the exact percentage cut off: 53 of 100 objects are 52 percent.\<close>

theorem slab_use_one_less: "slab_use 53 100 = 52"
proof -
  have f: "float_of 53 = 53" "float_of 100 = 100" using float_of_small [of 53] float_of_small [of 100] by simp_all
  have fl: "\<lfloor>222298112 / 25 :: rat\<rfloor> = 8891924" "\<lfloor>55574525 / 4 :: rat\<rfloor> = 13893631" "\<lfloor>13893631 / 262144 :: rat\<rfloor> = 52"
    by (rule floor_unique; simp)+
  have d: "float_of (53 / 100) = 8891924 / 2 ^ 24"
    by (simp add: float_of_def float_ulp_def ulp_from_numeral round_even_def Let_def fl)
  have m: "float_of (55574525 / 1048576) = 13893631 / 2 ^ 18"
    by (simp add: float_of_def float_ulp_def ulp_from_numeral round_even_def Let_def fl)
  show ?thesis by (simp only: slab_use_def float_div_def float_mult_def) (simp add: f d m fl)
qed

text \<open>
  As long as the number of objects fits, the average size is between the smallest and the largest,
  and the percentage of every cache at most 100.
\<close>

theorem slab_average_bounded:
  assumes "slab_wf info" "slab_reads rows e" "ns = map (slab_of (le_page_size e)) rows"
    and "(\<Sum>n\<leftarrow>ns. unat (sn_nr_objs n)) < 2 ^ 32" "(\<Sum>n\<leftarrow>ns. unat (sn_nr_objs n)) \<noteq> 0"
  shows "\<exists>info' w'. slabinfo_read_failed e info w = (None, info', w')
    \<and> ss_min_obj_size (sl_new (si_slabs info')) \<le> ss_avg_obj_size (sl_new (si_slabs info'))
    \<and> ss_avg_obj_size (sl_new (si_slabs info')) \<le> ss_max_obj_size (sl_new (si_slabs info'))"
proof -
  let ?s = "slab_total ns"
  let ?o = "\<Sum>n\<leftarrow>ns. unat (sn_nr_objs n)" and ?p = "\<Sum>n\<leftarrow>ns. unat (sn_nr_objs n) * unat (sn_obj_size n)"
  let ?l = "unat (ss_min_obj_size ?s)" and ?u = "unat (ss_max_obj_size ?s)"
  have ob: "unat (ss_nr_objs ?s) = ?o"
    using unat_sum_list [of "map sn_nr_objs ns"] assms(4) by (simp add: slab_total_def comp_def)
  have sz: "list_all (\<lambda>n. ?l \<le> unat (sn_obj_size n) \<and> unat (sn_obj_size n) \<le> ?u) ns"
    using fold_min_le(2) [of _ "map sn_obj_size ns" INT_MAX32] fold_max_ge(2) [of _ "map sn_obj_size ns" 0]
    by (simp add: list_all_iff slab_total_def word_le_nat_alt)
  note w = weighted_sum_bounds [OF sz, of "\<lambda>n. unat (sn_nr_objs n)"]
  have u32: "?u < 2 ^ 32" using unsigned_less [of "ss_max_obj_size ?s", where 'a = nat] by simp
  have "?p \<le> ?u * ?o" by (rule w(2))
  also have "\<dots> < 2 ^ 32 * 2 ^ 32" using u32 assms(4) by (intro mult_strict_mono) simp_all
  finally have p64: "?p < 2 ^ 64" by simp
  have prod: "unat (ucast (sn_nr_objs n) * ucast (sn_obj_size n) :: ulong) = unat (sn_nr_objs n) * unat (sn_obj_size n)" for n
  proof -
    have "unat (sn_nr_objs n) < 2 ^ 32" "unat (sn_obj_size n) < 2 ^ 32"
      using unsigned_less [of "sn_nr_objs n", where 'a = nat] unsigned_less [of "sn_obj_size n", where 'a = nat] by simp_all
    then have "unat (sn_nr_objs n) * unat (sn_obj_size n) < 2 ^ 32 * 2 ^ 32" by (intro mult_strict_mono) simp_all
    then show ?thesis by (simp add: unat_word_ariths)
  qed
  have tot: "unat (ss_total_size ?s) = ?p"
    using unat_sum_list [of "map (\<lambda>n. ucast (sn_nr_objs n) * ucast (sn_obj_size n) :: ulong) ns"] p64
    by (simp add: slab_total_def comp_def prod)
  have dv: "l \<le> p div k" if "l * k \<le> p" "k \<noteq> 0" for l p k :: nat
    using div_le_mono [OF that(1), of k] that(2) by simp
  have dv': "p div k \<le> u" if "p \<le> u * k" "k \<noteq> 0" for u p k :: nat
    using div_le_mono [OF that(1), of k] that(2) by simp
  have q: "?l \<le> ?p div ?o" "?p div ?o \<le> ?u" by (rule dv [OF w(1) assms(5)], rule dv' [OF w(2) assms(5)])
  have "unat (ss_total_size ?s div ucast (ss_nr_objs ?s)) = ?p div ?o"
    by (simp add: unat_div tot ob [symmetric])
  then have "unat (ucast (ss_total_size ?s div ucast (ss_nr_objs ?s)) :: uint_t) = ?p div ?o"
    using q(2) u32 by (simp only: unsigned_ucast_eq) (simp add: take_bit_nat_eq_self)
  moreover have "ss_nr_objs ?s \<noteq> 0" using assms(5) ob by (metis unsigned_0)
  ultimately have av: "unat (ss_avg_obj_size (slab_average ?s)) = ?p div ?o" by (simp only: slab_average_def) simp
  have mm: "ss_min_obj_size (slab_average ?s) = ss_min_obj_size ?s" "ss_max_obj_size (slab_average ?s) = ss_max_obj_size ?s"
    by (simp_all add: slab_average_def)
  obtain info' w' where "slabinfo_read_failed e info w = (None, info', w')" "sl_new (si_slabs info') = slab_average ?s"
    by (rule slab_read_text [OF assms(1,2), of w]) (simp add: assms(3) [symmetric])
  moreover have "ss_min_obj_size ?s \<le> ss_avg_obj_size (slab_average ?s)" "ss_avg_obj_size (slab_average ?s) \<le> ss_max_obj_size ?s"
    using q unfolding word_le_nat_alt av by simp_all
  ultimately show ?thesis using mm by metis
qed


subsection \<open>Reap\<close>

definition slab_ready :: "slabinfo_info \<Rightarrow> bool" where
  "slab_ready info \<longleftrightarrow> slab_wf info \<and> reap_ready slab_rows (si_fetch_ext info) (si_fetch info)"

lemma fresh_slab_ready: "slab_ready fresh_slabinfo"
  by (simp add: slab_ready_def fresh_slabinfo_def slab_wf_def reap_ready_start)

text \<open>
  From the rows of the kernel to the stacks of the caller: one for each cache, in order, with the
  items asked for, whatever was reaped before, and everything is ready for the next call.
\<close>

theorem slab_reap_fills:
  assumes "slab_ready info" "slab_reads rows (lp_slab e)" "lp_realloc_ok e" "all_ok (lp_fetch e)"
    and "\<not> slabinfo_items_check_failed n items" "n \<le> int (length (snd items))"
  shows "\<exists>ss info' w'.
    procps_slabinfo_reap e (Some items) n (Some info, w) = Some (Some (length rows, ss), Some info', w')
    \<and> list_all2 (\<lambda>r. filled slab_rows (take (nat n) (snd items)) (si_slabs info', slab_of (le_page_size (lp_slab e)) r)) rows ss
    \<and> slab_ready info'"
proof -
  let ?its = "take (nat n) (snd items)" and ?of = "slab_of (le_page_size (lp_slab e))"
  have wf: "slab_wf info" and rr: "reap_ready slab_rows (si_fetch_ext info) (si_fetch info)"
    using assms(1) by (simp_all add: slab_ready_def)
  have chk: "\<not> items_check_failed (length slab_rows) n items"
    using assms(5) by (simp add: slabinfo_items_check_failed_def length_slab_rows)
  obtain rc es' where r: "reconfig_maybe (length slab_rows) True items n (si_fetch_ext info) = Some (rc, es')" "0 \<le> rc"
      "fetch_ready slab_rows ?its es' (si_fetch info)"
    by (rule reap_reconfig [OF rr chk assms(6)])
  have wf': "slab_wf (info\<lparr>si_fetch_ext := es'\<rparr>)" using wf by (simp add: slab_wf_def)
  obtain ns w' where rd: "slabinfo_read_failed (lp_slab e) (info\<lparr>si_fetch_ext := es'\<rparr>) w =
      (None, (info\<lparr>si_fetch_ext := es'\<rparr>)\<lparr>si_fp := True, si_nodes_used := length rows, si_nodes := ns,
         si_slabs := \<lparr>sl_new = slab_average (slab_total (map ?of rows)), sl_old = sl_new (si_slabs (info\<lparr>si_fetch_ext := es'\<rparr>))\<rparr>\<rparr>, w')"
    "take (length rows) ns = map ?of rows" "length rows \<le> length ns"
    by (rule slab_read_text [OF wf' assms(2), of w])
  obtain S where S: "S = \<lparr>sl_new = slab_average (slab_total (map ?of rows)), sl_old = sl_new (si_slabs info)\<rparr>" by blast
  let ?srcs = "map (Pair S) (map ?of rows)"
  have valid: "list_all (\<lambda>i. i < length slab_rows) ?its"
    using items_check_valid [OF chk assms(6)] by (simp add: valid_items_def)
  have pos: "0 < SLABINFO_STACKS_INCR" by (simp add: SLABINFO_STACKS_INCR_def)
  obtain es2 fs2 ss where f:
      "stacks_fetch SLABINFO_STACKS_INCR slab_rows (lp_fetch e) ?srcs es' (si_fetch info) = Fetched (length ?srcs) es2 fs2"
      "fs_result fs2 = Some ss" "list_all2 (filled slab_rows ?its) ?srcs ss" "fetch_ready slab_rows ?its es2 fs2"
    using stacks_fetch_filled [OF r(3) assms(4) valid pos] by blast
  let ?i = "info\<lparr>si_fp := True, si_nodes_used := length rows, si_nodes := ns, si_slabs := S, si_fetch_ext := es2, si_fetch := fs2\<rparr>"
  have "procps_slabinfo_reap e (Some items) n (Some info, w) = Some (Some (length rows, ss), Some ?i, w')"
    using assms(3) r(1,2) rd f(1,2)
    by (simp add: procps_slabinfo_reap_def slabinfo_stacks_reconfig_maybe_def length_slab_rows Let_def
        slabinfo_stacks_fetch_def S comp_def)
  moreover have "slab_ready ?i" using rd(3) f(4) by (auto simp: slab_ready_def slab_wf_def reap_ready_def)
  moreover have "list_all2 (\<lambda>r. filled slab_rows ?its (si_slabs ?i, ?of r)) rows ss"
    using f(3) by (simp add: list_all2_map1)
  ultimately show ?thesis by blast
qed

subsection \<open>Every call\<close>

text \<open>The stream is open while the structure lives, the array holds the nodes in use, whatever fails.\<close>

definition slab_inv :: "int \<Rightarrow> slabinfo_info option \<times> int \<Rightarrow> bool" where
  "slab_inv w0 s = (case s of
     (None, w) \<Rightarrow> w = w0
   | (Some info, w) \<Rightarrow> 0 < si_refcount info \<and> slab_wf info \<and> w = (if si_fp info then w0 + 1 else w0))"

lemma alloc_keeps:
  "slab_wf info \<Longrightarrow> alloc_slabnodes e info = (ok, info') \<Longrightarrow>
     slab_wf info' \<and> si_fp info' = si_fp info \<and> si_refcount info' = si_refcount info
     \<and> si_nodes_used info' = si_nodes_used info \<and> (ok \<longrightarrow> si_nodes_used info < length (si_nodes info'))"
  by (auto simp: alloc_slabnodes_def Let_def slab_wf_def split: if_splits)

lemma slab_lines_keeps:
  "slab_wf info \<Longrightarrow> slab_wf (snd (slab_lines e ls info)) \<and> si_fp (snd (slab_lines e ls info)) = si_fp info
     \<and> si_refcount (snd (slab_lines e ls info)) = si_refcount info"
proof (induction e ls info rule: slab_lines.induct)
  case (2 e l ls info)
  show ?case
  proof (cases "is_prefix ''#'' l")
    case True
    then show ?thesis using 2 by simp
  next
    case False
    obtain r info1 where g: "get_slabnode e info = (r, info1)" by fastforce
    then have k: "slab_wf info1" "si_fp info1 = si_fp info" "si_refcount info1 = si_refcount info"
      using alloc_keeps [OF 2(3), of e] 2(3)
      by (auto simp: get_slabnode_def slab_wf_def split: if_splits prod.splits bool.splits)
    show ?thesis
    proof (cases r)
      case None
      then show ?thesis using False g k by simp
    next
      case (Some j)
      let ?vs = "sscanf slab_fmt (cstr l)"
      let ?n = "assign slab_setters ?vs (si_nodes info1 ! j)"
      let ?n1 = "slab_derive (le_page_size e) ?n"
      have w: "slab_wf (set_summ (add_slab ?n1) (set_node j ?n1 info1))" "slab_wf (set_node j ?n info1)"
        using k(1) by (simp_all add: slab_wf_def set_summ_def set_node_def)
      show ?thesis
        using 2(2) [OF False g [symmetric, unfolded Some] refl refl refl] False g Some k w
        by (simp add: Let_def set_summ_def set_node_def)
    qed
  qed
qed simp

lemma slab_read_inv:
  assumes "slab_inv w0 (Some info, w)" "slabinfo_read_failed e info w = (r, info', w')"
  shows "slab_inv w0 (Some info', w')"
proof -
  obtain ok i1 where a: "alloc_slabnodes e (info\<lparr>si_slabs := \<lparr>sl_new = zero_summ, sl_old = sl_new (si_slabs info)\<rparr>\<rparr>) = (ok, i1)"
    by fastforce
  have wf0: "slab_wf (info\<lparr>si_slabs := \<lparr>sl_new = zero_summ, sl_old = sl_new (si_slabs info)\<rparr>\<rparr>)"
    using assms(1) by (simp add: slab_inv_def slab_wf_def)
  note k = alloc_keeps [OF wf0 a]
  let ?i2 = "i1\<lparr>si_nodes := replicate (length (si_nodes i1)) zero_slab, si_nodes_used := 0\<rparr>"
  have wf2: "slab_wf (?i2\<lparr>si_fp := True\<rparr>)" by (simp add: slab_wf_def)
  have p: "slab_wf i' \<and> si_fp i' \<and> si_refcount i' = si_refcount info"
    if "parse_slabinfo20 e ls (?i2\<lparr>si_fp := True\<rparr>) = (q, i')" for ls q i'
  proof -
    let ?i3 = "set_summ (\<lambda>s. s\<lparr>ss_min_obj_size := INT_MAX32, ss_max_obj_size := 0\<rparr>) (?i2\<lparr>si_fp := True\<rparr>)"
    have "slab_wf ?i3" "si_fp ?i3" "si_refcount ?i3 = si_refcount info"
      using wf2 k by (simp_all add: set_summ_def slab_wf_def)
    then show ?thesis
      using slab_lines_keeps [of ?i3 e ls] that
      by (auto simp: parse_slabinfo20_def set_summ_def slab_wf_def split: prod.splits option.splits)
  qed
  show ?thesis
    using assms a k wf2 p
    by (auto simp: slabinfo_read_failed_def Let_def slab_inv_def slab_wf_def
        split: if_splits bool.splits option.splits list.splits prod.splits)
qed


lemma slab_inv_fields [simp]:
  "slab_inv w0 (Some (info\<lparr>si_fetch_ext := a\<rparr>), w) = slab_inv w0 (Some info, w)"
  "slab_inv w0 (Some (info\<lparr>si_select_ext := a\<rparr>), w) = slab_inv w0 (Some info, w)"
  "slab_inv w0 (Some (info\<lparr>si_fetch := b\<rparr>), w) = slab_inv w0 (Some info, w)"
  "slab_inv w0 (Some (info\<lparr>si_get_this := c\<rparr>), w) = slab_inv w0 (Some info, w)"
  "slab_inv w0 (Some (info\<lparr>si_sav_secs := d\<rparr>), w) = slab_inv w0 (Some info, w)"
  by (simp_all add: slab_inv_def slab_wf_def)

inductive slab_step :: "slabinfo_info option \<times> int \<Rightarrow> slabinfo_info option \<times> int \<Rightarrow> bool" where
  ref: "procps_slabinfo_ref s = (r, s') \<Longrightarrow> slab_step s s'"
| unref: "procps_slabinfo_unref s = (r, s') \<Longrightarrow> slab_step s s'"
| get: "procps_slabinfo_get e secs it s = (c, s') \<Longrightarrow> slab_step s s'"
| reap: "procps_slabinfo_reap pe items n s = Some (rs, s') \<Longrightarrow> slab_step s s'"
| select: "procps_slabinfo_select ok1 ok2 e items n s = Some (rr, s') \<Longrightarrow> slab_step s s'"

lemma slab_get_inv:
  assumes "procps_slabinfo_get e secs it (Some info, w) = (c, s')" "slab_inv w0 (Some info, w)"
  shows "slab_inv w0 s'"
proof -
  obtain q i w' where q: "slabinfo_read_failed e info w = (q, i, w')" by (metis prod_cases3)
  have i: "slab_inv w0 (Some i, w')" by (rule slab_read_inv [OF assms(2) q])
  show ?thesis
    using assms i by (cases q) (auto simp: procps_slabinfo_get_def q Let_def split: if_splits)
qed

lemma slab_reap_inv:
  assumes "procps_slabinfo_reap pe (Some its) n (Some info, w) = Some (rs, s')" "slab_inv w0 (Some info, w)"
  shows "slab_inv w0 s'"
proof -
  obtain rc es where r: "slabinfo_stacks_reconfig_maybe (lp_realloc_ok pe) its n (si_fetch_ext info) = Some (rc, es)"
    using assms(1) by (auto simp: procps_slabinfo_reap_def split: option.splits)
  obtain q info2 w1 where q: "slabinfo_read_failed (lp_slab pe) (info\<lparr>si_fetch_ext := es\<rparr>) w = (q, info2, w1)"
    by (metis prod_cases3)
  have "slab_inv w0 (Some info2, w1)" using slab_read_inv [OF _ q] assms(2) by simp
  then show ?thesis
    using assms r q by (cases q) (auto simp: procps_slabinfo_reap_def Let_def split: if_splits fetch_outcome.splits)
qed

lemma slab_select_inv:
  assumes "procps_slabinfo_select ok1 ok2 e (Some its) n (Some info, w) = Some (rs, s')" "slab_inv w0 (Some info, w)"
  shows "slab_inv w0 s'"
proof -
  obtain rc es where r: "slabinfo_stacks_reconfig_maybe ok1 its n (si_select_ext info) = Some (rc, es)"
    using assms(1) by (auto simp: procps_slabinfo_select_def split: option.splits)
  show ?thesis
  proof (cases "rc < 0 \<or> (if es_extents es = [] then slabinfo_stacks_alloc ok2 1 es else Some es) = None")
    case True
    then show ?thesis using assms r by (auto simp: procps_slabinfo_select_def Let_def split: if_splits)
  next
    case False
    then obtain es2 where es2: "(if es_extents es = [] then slabinfo_stacks_alloc ok2 1 es else Some es) = Some es2" by auto
    obtain q info2 w1 where q: "slabinfo_read_failed e (info\<lparr>si_select_ext := es2\<rparr>) w = (q, info2, w1)"
      by (metis prod_cases3)
    have "slab_inv w0 (Some info2, w1)" using slab_read_inv [OF _ q] assms(2) by simp
    then show ?thesis
      using assms r False es2 q by (cases q) (auto simp: procps_slabinfo_select_def Let_def split: option.splits)
  qed
qed

lemma slab_step_inv: "slab_step s s' \<Longrightarrow> slab_inv w0 s \<Longrightarrow> slab_inv w0 s'"
proof (induction rule: slab_step.induct)
  case (ref s r s')
  then show ?case by (cases s) (auto simp: procps_slabinfo_ref_def slab_inv_def slab_wf_def split: option.splits)
next
  case (unref s r s')
  then show ?case
    by (cases s) (auto simp: procps_slabinfo_unref_def slab_inv_def slab_wf_def Let_def split: option.splits if_splits)
next
  case (get e secs it s c s')
  then show ?case
    by (cases s; cases "fst s") (auto simp: procps_slabinfo_get_def intro: slab_get_inv)
next
  case (reap pe items n s rs s')
  then show ?case
    by (cases s; cases "fst s"; cases items) (auto simp: procps_slabinfo_reap_def [of pe None] intro: slab_reap_inv,
        auto simp: procps_slabinfo_reap_def)
next
  case (select ok1 ok2 e items n s rr s')
  then show ?case
    by (cases s; cases "fst s"; cases items) (auto simp: procps_slabinfo_select_def [of ok1 ok2 e None] intro: slab_select_inv,
        auto simp: procps_slabinfo_select_def)
qed

lemma new_slab_inv:
  assumes "procps_slabinfo_new ok e (Some None) w = (0, Some (Some info), w1)"
  shows "slab_inv w (Some info, w1)"
proof -
  have "slab_inv w (Some fresh_slabinfo, w)" by (simp add: slab_inv_def fresh_slabinfo_def slab_wf_def)
  then show ?thesis
    using assms slab_read_inv [of w fresh_slabinfo w e]
    by (auto simp: procps_slabinfo_new_def split: if_splits prod.splits option.splits)
qed

text \<open>
  Whatever is called and whatever fails, the array holds the nodes in use and the stream is closed
  when the structure is gone.
\<close>

theorem slabinfo_invariant:
  assumes "procps_slabinfo_new ok e (Some None) w = (0, Some (Some info), w1)"
    and "slab_step\<^sup>*\<^sup>* (Some info, w1) (p, w2)"
  shows "case p of None \<Rightarrow> w2 = w
    | Some info' \<Rightarrow> si_nodes_used info' \<le> length (si_nodes info') \<and> 0 < si_refcount info' \<and> w \<le> w2 \<and> w2 \<le> w + 1"
proof -
  from assms(2) new_slab_inv [OF assms(1)] have "slab_inv w (p, w2)"
    by (induction rule: rtranclp_induct) (auto intro: slab_step_inv)
  then show ?thesis by (auto simp: slab_inv_def slab_wf_def split: option.splits)
qed

definition slab_refs :: "slabinfo_info option \<times> int \<Rightarrow> int" where
  "slab_refs s = (case fst s of None \<Rightarrow> 0 | Some info \<Rightarrow> si_refcount info)"

definition slab_held :: "slabinfo_info option \<times> int \<Rightarrow> bool" where
  "slab_held s \<longleftrightarrow> (\<forall>info. fst s = Some info \<longrightarrow> 0 < si_refcount info)"

interpretation slab_counts: refcounted procps_slabinfo_ref procps_slabinfo_unref slab_refs slab_held
  by unfold_locales
    (auto simp: procps_slabinfo_ref_def procps_slabinfo_unref_def slab_refs_def slab_held_def Let_def EINVAL_def
      split: option.splits prod.splits)

lemma slab_run_inv: "slab_inv w s \<Longrightarrow> slab_inv w (ref_run procps_slabinfo_ref procps_slabinfo_unref bs s)"
proof (induction bs arbitrary: s)
  case (Cons b bs)
  have "slab_step s (snd (if b then procps_slabinfo_ref s else procps_slabinfo_unref s))"
    using slab_step.ref [OF surjective_pairing] slab_step.unref [OF surjective_pairing] by simp
  then show ?case using Cons slab_step_inv by fastforce
qed simp

text \<open> C21. After as many releases as there were references the structure is gone and the stream closed.\<close>

theorem slabinfo_released:
  assumes "procps_slabinfo_new ok e (Some None) w = (0, Some (Some info), w1)" "refs_left bs (si_refcount info) = 0"
  shows "ref_run procps_slabinfo_ref procps_slabinfo_unref bs (Some info, w1) = (None, w)"
proof -
  let ?s = "ref_run procps_slabinfo_ref procps_slabinfo_unref bs (Some info, w1)"
  have i: "slab_inv w (Some info, w1)" by (rule new_slab_inv [OF assms(1)])
  then have h: "slab_held (Some info, w1)" by (simp add: slab_held_def slab_inv_def)
  have "slab_refs ?s = 0" using slab_counts.run_count [OF h, of bs] assms(2) by (simp add: slab_refs_def)
  then have "fst ?s = None"
    using slab_counts.run_inv [OF h, of bs] by (auto simp: slab_refs_def slab_held_def split: option.splits)
  then show ?thesis using slab_run_inv [OF i, of bs] by (cases ?s) (auto simp: slab_inv_def)
qed


subsection \<open>A small system\<close>

definition dentries :: slabs_node where
  "dentries = zero_slab\<lparr>sn_name := ''dentry'', sn_nr_active_objs := 3, sn_nr_objs := 4, sn_obj_size := 9, sn_objs_per_slab := 2,
     sn_pages_per_slab := 1, sn_nr_active_slabs := 2, sn_nr_slabs := 2\<rparr>"

definition slab_sample :: "slab_row list" where
  "slab_sample = [(\<lambda>_. 3, dentries, 0, 0, 0, 0, []),
     (\<lambda>_. 0, dentries\<lparr>sn_name := ''pool'', sn_nr_objs := 6, sn_obj_size := 5\<rparr>, 0, 0, 0, 0, [])]"

definition slab_columns :: string where
  "slab_columns =
     ''            <active_objs> <num_objs> <objsize> <objperslab> <pagesperslab>''
     @ '' : tunables <limit> <batchcount> <sharedfactor>''
     @ '' : slabdata <active_slabs> <num_slabs> <sharedavail>''"

definition slab_sample_env :: slab_env where
  "slab_sample_env = \<lparr>le_fopen = None, le_fseek = None, le_text = slab_text False slab_columns slab_sample, le_errno = 0, le_page_size = 4096,
     le_grow_ok = \<lambda>_. True, le_raw = \<lambda>_. zero_slab\<rparr>"

lemma col_length: "n < 10 \<Longrightarrow> length (col p i (of_nat n)) = p i + 2"
proof -
  assume n: "n < 10"
  have "unat (of_nat n :: uint_t) = n" using n by (simp add: unsigned_of_nat take_bit_nat_eq_self)
  moreover have "length (show_nat n) = 1" using n by (simp add: show_nat.simps)
  ultimately show ?thesis by (simp add: col_def)
qed

lemma slab_sample_ok: "list_all slab_row_ok slab_sample"
proof -
  note c = col_length [of 0] col_length [of 1] col_length [of 2] col_length [of 3] col_length [of 4] col_length [of 5]
    col_length [of 6] col_length [of 9]
  show ?thesis
    using c by (simp add: slab_sample_def slab_row_ok_def slab_line_def dentries_def zero_slab_def SLABINFO_NAME_LEN_def
        SLABINFO_LINE_LEN_def isspace_def)
qed

lemma slab_sample_reads: "slab_reads slab_sample slab_sample_env"
proof -
  have "columns_ok slab_columns" by (simp add: columns_ok_def slab_columns_def)
  then show ?thesis using slab_sample_ok by (auto simp: slab_reads_def slab_sample_env_def can_grow_def)
qed

lemma fresh_slab_wf: "slab_wf fresh_slabinfo"
  by (simp add: slab_wf_def fresh_slabinfo_def)

theorem slab_kernel_text_witness:
  "\<exists>info' w'. slabinfo_read_failed slab_sample_env fresh_slabinfo 0 = (None, info', w') \<and> slab_wf info'
    \<and> take (si_nodes_used info') (si_nodes info') = map (slab_of (le_page_size slab_sample_env)) slab_sample
    \<and> sl_new (si_slabs info') = slab_average (slab_total (map (slab_of (le_page_size slab_sample_env)) slab_sample))
    \<and> sl_old (si_slabs info') = sl_new (si_slabs fresh_slabinfo)"
  by (rule slab_kernel_text [OF fresh_slab_wf slab_sample_reads])

lemma slab_sample_objs:
  "sn_nr_objs (slab_of ps r) = sn_nr_objs (row_slab r)" "sn_obj_size (slab_of ps r) = sn_obj_size (row_slab r)"
  by (simp_all add: slab_of_def slab_derive_def Let_def)

theorem slab_average_bounded_witness:
  "\<exists>info' w'. slabinfo_read_failed slab_sample_env fresh_slabinfo 0 = (None, info', w')
    \<and> ss_min_obj_size (sl_new (si_slabs info')) \<le> ss_avg_obj_size (sl_new (si_slabs info'))
    \<and> ss_avg_obj_size (sl_new (si_slabs info')) \<le> ss_max_obj_size (sl_new (si_slabs info'))"
  by (rule slab_average_bounded [OF fresh_slab_wf slab_sample_reads refl])
    (simp_all add: slab_sample_objs slab_sample_def row_slab_def dentries_def comp_def)

theorem slab_use_bounded_witness: "slab_use 53 100 \<le> 100"
  by (rule slab_use_bounded) (simp_all add: word_le_nat_alt)

definition slab_sample_reap :: slab_reap_env where
  "slab_sample_reap = \<lparr>lp_realloc_ok = True,
     lp_fetch = \<lparr>fe_anchor_ok = True, fe_first_ok = True, fe_grow_ok = \<lambda>_. True, fe_more_ok = \<lambda>_. True, fe_save_ok = True\<rparr>,
     lp_slab = slab_sample_env\<rparr>"

theorem slab_reap_fills_witness:
  "\<exists>ss info' w'. procps_slabinfo_reap slab_sample_reap (Some (4096, [2, 10, 30])) 3 (Some fresh_slabinfo, 0)
      = Some (Some (2, ss), Some info', w') \<and> length ss = 2 \<and> slab_ready info'"
proof -
  have e: "slab_reads slab_sample (lp_slab slab_sample_reap)" "lp_realloc_ok slab_sample_reap" "all_ok (lp_fetch slab_sample_reap)"
    using slab_sample_reads by (simp_all add: slab_sample_reap_def all_ok_def)
  have chk: "\<not> slabinfo_items_check_failed 3 (4096, [2, 10, 30])"
    by (simp add: slabinfo_items_check_failed_def items_check_failed_def SLABINFO_logical_end_def slab_table_def)
  have l: "length slab_sample = 2" by (simp add: slab_sample_def)
  obtain ss info' w' where
    "procps_slabinfo_reap slab_sample_reap (Some (4096, [2, 10, 30])) 3 (Some fresh_slabinfo, 0) = Some (Some (length slab_sample, ss), Some info', w')"
    "list_all2 (\<lambda>r. filled slab_rows (take (nat 3) (snd (4096 :: nat, [2, 10, 30])))
       (si_slabs info', slab_of (le_page_size (lp_slab slab_sample_reap)) r)) slab_sample ss" "slab_ready info'"
    using slab_reap_fills [OF fresh_slab_ready e chk, of 0] by auto
  then show ?thesis using l list_all2_lengthD by fastforce
qed

lemma sample_new_slab:
  obtains info w1 where "procps_slabinfo_new True slab_sample_env (Some None) 0 = (0, Some (Some info), w1)" "si_refcount info = 1"
proof -
  obtain ns w' where "slabinfo_read_failed slab_sample_env fresh_slabinfo 0 =
      (None, fresh_slabinfo\<lparr>si_fp := True, si_nodes_used := length slab_sample, si_nodes := ns,
         si_slabs := \<lparr>sl_new = slab_average (slab_total (map (slab_of (le_page_size slab_sample_env)) slab_sample)),
           sl_old = sl_new (si_slabs fresh_slabinfo)\<rparr>\<rparr>, w')"
    by (rule slab_read_text [OF fresh_slab_wf slab_sample_reads, of 0])
  then show thesis using that by (simp add: procps_slabinfo_new_def) (simp add: fresh_slabinfo_def)
qed

theorem slabinfo_invariant_witness:
  "\<exists>info w1 w2. procps_slabinfo_new True slab_sample_env (Some None) 0 = (0, Some (Some info), w1)
    \<and> slab_step\<^sup>*\<^sup>* (Some info, w1) (None, w2) \<and> w2 = 0"
proof -
  obtain info w1 where n: "procps_slabinfo_new True slab_sample_env (Some None) 0 = (0, Some (Some info), w1)" "si_refcount info = 1"
    by (rule sample_new_slab)
  obtain w2 where "procps_slabinfo_unref (Some info, w1) = (0, None, w2)"
    using n(2) by (simp add: procps_slabinfo_unref_def Let_def)
  then have s: "slab_step\<^sup>*\<^sup>* (Some info, w1) (None, w2)" by (auto intro: slab_step.unref)
  then show ?thesis using slabinfo_invariant [OF n(1) s] n(1) by auto
qed

theorem slabinfo_released_witness:
  "\<exists>info w1. procps_slabinfo_new True slab_sample_env (Some None) 0 = (0, Some (Some info), w1)
    \<and> ref_run procps_slabinfo_ref procps_slabinfo_unref [True, False, False] (Some info, w1) = (None, 0)"
proof -
  obtain info w1 where n: "procps_slabinfo_new True slab_sample_env (Some None) 0 = (0, Some (Some info), w1)" "si_refcount info = 1"
    by (rule sample_new_slab)
  have "refs_left [True, False, False] (si_refcount info) = 0" by (simp add: n(2))
  then show ?thesis using slabinfo_released [OF n(1)] n(1) by blast
qed

end
