(* ===== verification/Devname.thy ===== *)
theory Devname
  imports Scanf
begin

unbundle bit_operations_syntax

text \<open>
  Terminal names, \<^verbatim>\<open>procps/linux/devname.c\<close>: from a device number to the name of the
  terminal, by the table of \<^verbatim>\<open>/proc/tty/drivers\<close>, the links of the process, and a list of
  known major numbers, each confirmed by the number of the device found under the name.

  Parameters are the text one \<open>read\<close> of the table gives, \<open>calloc\<close>, and the file system: the device
  number \<open>stat\<close> finds under a path and the target of a link. The static buffer of \<open>dev_to_tty\<close> holds
  the last name written to it; names are C strings.
\<close>

type_synonym uint = "32 word"

definition TTY_NAME_SIZE :: nat where
  "TTY_NAME_SIZE = 128"

definition MAJOR_OF :: "uint \<Rightarrow> uint" where
  "MAJOR_OF d = drop_bit 8 d AND 0xFFF"

definition MINOR_OF :: "uint \<Rightarrow> uint" where
  "MINOR_OF d = (d AND 0xFF) OR drop_bit 12 (d AND 0xFFF00000)"

record tty_map_node =
  tn_devfs_type :: bool
  tn_major_number :: "16 word"
  tn_minor_first :: uint
  tn_minor_last :: uint
  tn_name :: string

text \<open>The list: not loaded (a null pointer), nothing found (-1), the nodes.\<close>

datatype tty_map = Unloaded | NoDrivers | Drivers "tty_map_node list"

record dev_env =
  de_drivers :: "string option"            \<comment> \<open>\<open>None\<close>: \<open>open\<close> or \<open>read\<close> fails\<close>
  de_calloc :: "nat \<Rightarrow> bool"
  de_stat :: "string \<Rightarrow> 64 word option"    \<comment> \<open>\<open>st_rdev\<close>\<close>
  de_readlink :: "string \<Rightarrow> string option"

subsection \<open>The table of drivers\<close>

definition scan_minors :: "string \<Rightarrow> tty_map_node \<Rightarrow> tty_map_node option" where
  "scan_minors p n =
     (case sscanf ''%u-%u'' p of
        [a] \<Rightarrow> Some (n\<lparr>tn_minor_first := suint_of a, tn_minor_last := suint_of a\<rparr>)
      | [a, b] \<Rightarrow> Some (n\<lparr>tn_minor_first := suint_of a, tn_minor_last := suint_of b\<rparr>)
      | _ \<Rightarrow> None)"

definition driver_node :: "string \<Rightarrow> string \<Rightarrow> tty_map_node" where
  "driver_node nm p =
     (let devfs = 3 \<le> length nm \<and> drop (length nm - 2) nm = ''%d'';
          len = (if devfs then length nm - 2 else length nm);
          len' = (if 16 \<le> len then 15 else len)
      in \<lparr>tn_devfs_type = devfs, tn_major_number = word_of_int (atoi p), tn_minor_first = 0, tn_minor_last = 0,
           tn_name = take len' nm\<rparr>)"

text \<open>
  The rest of the text is searched for the next \<open>/dev/\<close> column; \<open>k\<close> counts the allocations. The
  result is the list, the last driver first.
\<close>

function driver_lines :: "(nat \<Rightarrow> bool) \<Rightarrow> nat \<Rightarrow> string \<Rightarrow> tty_map_node list \<Rightarrow> tty_map_node list" where
  "driver_lines ok k p tmap =
     (case strstr p '' /dev/'' of
        None \<Rightarrow> tmap
      | Some q \<Rightarrow>
          let p1 = drop 6 q
          in case strchr p1 (CHR '' '') of
               None \<Rightarrow> driver_lines ok k p1 tmap
             | Some e \<Rightarrow>
                 if \<not> ok k then tmap
                 else
                   let p2 = dropWhile (\<lambda>c. c = CHR '' '') e;
                       p3 = dropWhile (\<lambda>c. c = CHR '' '') (dropWhile isdigit p2)
                   in case scan_minors p3 (driver_node (take (length p1 - length e) p1) p2) of
                        None \<Rightarrow> driver_lines ok (k + 1) p3 tmap
                      | Some n \<Rightarrow> driver_lines ok (k + 1) p3 (n # tmap))"
  by pat_completeness auto

lemma driver_lines_shrink:
  assumes "strstr p '' /dev/'' = Some q"
  shows "length (drop 6 q) < length p"
proof -
  obtain r where "q = '' /dev/'' @ r" "length q \<le> length p"
    using strstr_SomeD [OF assms] strstr_length [OF assms] by (auto simp: is_prefix_iff)
  then show ?thesis by simp
qed

lemma driver_lines_shrink_blanks:
  assumes "strstr p '' /dev/'' = Some q" "strchr (drop 6 q) c = Some e"
  shows "length (dropWhile P (dropWhile Q (dropWhile R e))) < length p"
proof -
  have "length (dropWhile P (dropWhile Q (dropWhile R e))) \<le> length e"
    by (meson length_dropWhile_le le_trans)
  also have "\<dots> < length p"
    using driver_lines_shrink [OF assms(1)] strchr_length [OF assms(2)] by simp
  finally show ?thesis .
qed

termination driver_lines
  by (relation "measure (\<lambda>(ok, k, p, m). length p)") (auto simp: driver_lines_shrink driver_lines_shrink_blanks simp del: length_drop)

declare driver_lines.simps [simp del]

definition load_drivers :: "dev_env \<Rightarrow> tty_map" where
  "load_drivers e =
     (case de_drivers e of
        None \<Rightarrow> NoDrivers
      | Some bytes \<Rightarrow>
          (case driver_lines (de_calloc e) 0 (cstr (take 9999 bytes)) [] of [] \<Rightarrow> NoDrivers | n # ns \<Rightarrow> Drivers (n # ns)))"

text \<open>Is there a device under the path, and does it have these numbers?\<close>

definition confirmed :: "dev_env \<Rightarrow> uint \<Rightarrow> uint \<Rightarrow> string \<Rightarrow> bool" where
  "confirmed e maj mnr path =
     (case de_stat e path of None \<Rightarrow> False | Some d \<Rightarrow> mnr = MINOR_OF (ucast d) \<and> maj = MAJOR_OF (ucast d))"

definition dec :: "uint \<Rightarrow> string" where
  "dec u = show_int (sint u)"

definition driver_name :: "dev_env \<Rightarrow> tty_map \<Rightarrow> uint \<Rightarrow> uint \<Rightarrow> string option \<times> tty_map" where
  "driver_name e tmap0 maj mnr =
     (let tmap = (if tmap0 = Unloaded then load_drivers e else tmap0)
      in case tmap of
           Drivers ns \<Rightarrow>
             (case find (\<lambda>n. ucast (tn_major_number n) = maj \<and> tn_minor_first n \<le> mnr \<and> mnr \<le> tn_minor_last n) ns of
                None \<Rightarrow> (None, tmap)
              | Some n \<Rightarrow>
                  let p1 = ''/dev/'' @ tn_name n @ dec mnr; p2 = ''/dev/'' @ tn_name n @ ''/'' @ dec mnr;
                      p3 = ''/dev/'' @ tn_name n;
                      found = (\<lambda>p. if confirmed e maj mnr p then Some p else None)
                  in if de_stat e p1 \<noteq> None then (found p1, tmap)
                     else if de_stat e p2 \<noteq> None then (found p2, tmap)
                     else if tn_devfs_type n then (None, tmap)
                     else (found p3, tmap))
         | _ \<Rightarrow> (None, tmap))"

subsection \<open>Known major numbers\<close>

definition low_density_names :: "string list" where
  "low_density_names =
     [''LU0'', ''LU1'', ''LU2'', ''LU3'', ''FB0'', ''SA0'', ''SA1'', ''SA2'', ''SC0'', ''SC1'', ''SC2'', ''SC3'',
      ''FW0'', ''FW1'', ''FW2'', ''FW3'', ''AM0'', ''AM1'', ''AM2'', ''AM3'', ''AM4'', ''AM5'', ''AM6'', ''AM7'',
      ''AM8'', ''AM9'', ''AM10'', ''AM11'', ''AM12'', ''AM13'', ''AM14'', ''AM15'', ''DB0'', ''DB1'', ''DB2'',
      ''DB3'', ''DB4'', ''DB5'', ''DB6'', ''DB7'', ''SG0'', ''SMX0'', ''SMX1'', ''SMX2'', ''MM0'', ''MM1'', ''CPM0'',
      ''CPM1'', ''CPM2'', ''CPM3'', ''IOC0'', ''IOC1'', ''IOC2'', ''IOC3'', ''IOC4'', ''IOC5'', ''IOC6'', ''IOC7'',
      ''IOC8'', ''IOC9'', ''IOC10'', ''IOC11'', ''IOC12'', ''IOC13'', ''IOC14'', ''IOC15'', ''IOC16'', ''IOC17'',
      ''IOC18'', ''IOC19'', ''IOC20'', ''IOC21'', ''IOC22'', ''IOC23'', ''IOC24'', ''IOC25'', ''IOC26'', ''IOC27'',
      ''IOC28'', ''IOC29'', ''IOC30'', ''IOC31'', ''VR0'', ''VR1'', ''IOC84'', ''IOC85'', ''IOC86'', ''IOC87'',
      ''IOC88'', ''IOC89'', ''IOC90'', ''IOC91'', ''IOC92'', ''IOC93'', ''IOC94'', ''IOC95'', ''IOC96'', ''IOC97'',
      ''IOC98'', ''IOC99'', ''IOC100'', ''IOC101'', ''IOC102'', ''IOC103'', ''IOC104'', ''IOC105'', ''IOC106'',
      ''IOC107'', ''IOC108'', ''IOC109'', ''IOC110'', ''IOC111'', ''IOC112'', ''IOC113'', ''IOC114'', ''IOC115'',
      ''SIOC0'', ''SIOC1'', ''SIOC2'', ''SIOC3'', ''SIOC4'', ''SIOC5'', ''SIOC6'', ''SIOC7'', ''SIOC8'', ''SIOC9'',
      ''SIOC10'', ''SIOC11'', ''SIOC12'', ''SIOC13'', ''SIOC14'', ''SIOC15'', ''SIOC16'', ''SIOC17'', ''SIOC18'',
      ''SIOC19'', ''SIOC20'', ''SIOC21'', ''SIOC22'', ''SIOC23'', ''SIOC24'', ''SIOC25'', ''SIOC26'', ''SIOC27'',
      ''SIOC28'', ''SIOC29'', ''SIOC30'', ''SIOC31'', ''PSC0'', ''PSC1'', ''PSC2'', ''PSC3'', ''PSC4'', ''PSC5'',
      ''AT0'', ''AT1'', ''AT2'', ''AT3'', ''AT4'', ''AT5'', ''AT6'', ''AT7'', ''AT8'', ''AT9'', ''AT10'', ''AT11'',
      ''AT12'', ''AT13'', ''AT14'', ''AT15'', ''NX0'', ''NX1'', ''NX2'', ''NX3'', ''NX4'', ''NX5'', ''NX6'', ''NX7'',
      ''NX8'', ''NX9'', ''NX10'', ''NX11'', ''NX12'', ''NX13'', ''NX14'', ''NX15'', ''J0'', ''UL0'', ''UL1'',
      ''UL2'', ''UL3'', ''xvc0'', ''PZ0'', ''PZ1'', ''PZ2'', ''PZ3'', ''TX0'', ''TX1'', ''TX2'', ''TX3'', ''TX4'',
      ''TX5'', ''TX6'', ''TX7'', ''SC0'', ''SC1'', ''SC2'', ''SC3'', ''MAX0'', ''MAX1'', ''MAX2'', ''MAX3'']"

text \<open>The majors whose name is a fixed text and the minor.\<close>

definition guess_table :: "(uint \<times> string) list" where
  "guess_table =
     [(11, ''/dev/ttyB''), (17, ''/dev/ttyH''), (19, ''/dev/ttyC''), (22, ''/dev/ttyD''),
      (23, ''/dev/ttyD''), (24, ''/dev/ttyE''), (32, ''/dev/ttyX''), (43, ''/dev/ttyI''),
      (46, ''/dev/ttyR''), (48, ''/dev/ttyL''), (57, ''/dev/ttyP''), (71, ''/dev/ttyF''),
      (75, ''/dev/ttyW''), (78, ''/dev/ttyM''), (105, ''/dev/ttyV''), (112, ''/dev/ttyM''),
      (148, ''/dev/ttyT''), (154, ''/dev/ttySR''), (164, ''/dev/ttyCH''), (166, ''/dev/ttyACM''),
      (172, ''/dev/ttyMX''), (174, ''/dev/ttySI''), (188, ''/dev/ttyUSB''), (208, ''/dev/ttyU''),
      (216, ''/dev/ttyUB''), (224, ''/dev/ttyY''), (227, ''/dev/3270/tty''), (229, ''/dev/iseries/vtty''),
      (256, ''/dev/ttyEQ'')]"

definition guess_path :: "uint \<Rightarrow> uint \<Rightarrow> string option" where
  "guess_path maj mnr =
     (if maj = 3 then
        if 255 < mnr then None
        else Some (''/dev/tty'' @ [''pqrstuvwxyzabcde'' ! unat (drop_bit 4 mnr), ''0123456789abcdef'' ! unat (mnr AND 0xF)])
      else if maj = 4 then
        if mnr < 64 then Some (''/dev/tty'' @ dec mnr) else Some (''/dev/ttyS'' @ dec (mnr - 64))
      else if 136 \<le> maj \<and> maj \<le> 143 then Some (''/dev/pts/'' @ dec (mnr + (maj - 136) * 256))
      else if maj = 156 then Some (''/dev/ttySR'' @ dec (mnr + 256))
      else if maj = 204 then
        if length low_density_names \<le> unat mnr then None
        else Some (''/dev/tty'' @ low_density_names ! unat mnr)
      else map_option (\<lambda>s. s @ dec mnr) (map_of guess_table maj))"

definition guess_name :: "dev_env \<Rightarrow> uint \<Rightarrow> uint \<Rightarrow> string option" where
  "guess_name e maj mnr =
     (case guess_path maj mnr of
        None \<Rightarrow> None
      | Some p \<Rightarrow> if confirmed e maj mnr p then Some p else None)"

subsection \<open>The links of the process\<close>

definition link_name :: "dev_env \<Rightarrow> uint \<Rightarrow> uint \<Rightarrow> int \<Rightarrow> string \<Rightarrow> string option" where
  "link_name e maj mnr pid nm =
     (let path = ''/proc/'' @ show_int pid @ ''/'' @ nm
      in if 32 \<le> length path then None
         else case de_readlink e path of
                None \<Rightarrow> None
              | Some t \<Rightarrow>
                  let count = min (length t) (TTY_NAME_SIZE - 1)
                  in if count = 0 \<or> TTY_NAME_SIZE - 1 \<le> count then None
                     else let buf = cstr (take count t) in if confirmed e maj mnr buf then Some buf else None)"

subsection \<open>From the number to the name\<close>

definition ABBREV_DEV :: uint where "ABBREV_DEV = 1"
definition ABBREV_TTY :: uint where "ABBREV_TTY = 2"
definition ABBREV_PTS :: uint where "ABBREV_PTS = 4"

definition skip_prefix :: "uint \<Rightarrow> uint \<Rightarrow> string \<Rightarrow> string \<Rightarrow> string" where
  "skip_prefix flags f pre s = (if flags AND f \<noteq> 0 \<and> is_prefix pre s \<and> length pre < length s then drop (length pre) s else s)"

definition tty_char :: "char \<Rightarrow> char" where
  "tty_char c = (if byte c \<le> 32 \<or> 126 < byte c then CHR ''?'' else c)"

fun copy_tty :: "nat \<Rightarrow> string \<Rightarrow> string" where
  "copy_tty n [] = []"
| "copy_tty n (c # s) = (if n = 0 \<or> c = NUL then [] else tty_char c # copy_tty (n - 1) s)"

text \<open>The names tried, in order; the table stays loaded.\<close>

definition tty_path :: "dev_env \<Rightarrow> tty_map \<Rightarrow> uint \<Rightarrow> int \<Rightarrow> string option \<times> tty_map" where
  "tty_path e tmap dev pid =
     (let maj = MAJOR_OF dev; mnr = MINOR_OF dev
      in if dev = 0 then (None, tmap)
         else case driver_name e tmap maj mnr of
                (Some p, tmap1) \<Rightarrow> (Some p, tmap1)
              | (None, tmap1) \<Rightarrow>
                  (case link_name e maj mnr pid ''fd/2'' of
                     Some p \<Rightarrow> (Some p, tmap1)
                   | None \<Rightarrow>
                       (case guess_name e maj mnr of
                          Some p \<Rightarrow> (Some p, tmap1)
                        | None \<Rightarrow> (link_name e maj mnr pid ''fd/255'', tmap1))))"

text \<open>The string written to \<open>ret\<close>, the value returned, and the table.\<close>

definition dev_to_tty :: "dev_env \<Rightarrow> tty_map \<Rightarrow> uint \<Rightarrow> 64 word \<Rightarrow> int \<Rightarrow> uint \<Rightarrow> string \<times> uint \<times> tty_map" where
  "dev_to_tty e tmap chop dev_t_dev pid flags =
     (case tty_path e tmap (ucast dev_t_dev) pid of
        (None, tmap1) \<Rightarrow> (if 1 \<le> chop then ''?'' else [], 1, tmap1)
      | (Some buf, tmap1) \<Rightarrow>
          let tmp = skip_prefix flags ABBREV_PTS ''pts/''
                      (skip_prefix flags ABBREV_TTY ''tty'' (skip_prefix flags ABBREV_DEV ''/dev/'' buf));
              tmp1 = (if unat chop + (length buf - length tmp) < TTY_NAME_SIZE then take (unat chop) tmp else tmp);
              r = copy_tty (unat chop) tmp1
          in (r, of_nat (length r), tmap1))"

subsection \<open>The numbers of a device\<close>

text \<open>The kernel's encoding of a device number in 32 bits.\<close>

definition new_encode_dev :: "uint \<Rightarrow> uint \<Rightarrow> uint" where
  "new_encode_dev maj mnr = (mnr AND 0xFF) OR push_bit 8 maj OR push_bit 12 (mnr AND NOT 0xFF)"

lemma dev_masks:
  "(0xFF :: uint) = mask 8" "(0xFFF :: uint) = mask 12" "(0xFFF00000 :: uint) = push_bit 20 (mask 12)"
  by (simp_all add: mask_eq_exp_minus_1)

lemmas dev_bits = bit_and_iff bit_or_iff bit_drop_bit_eq bit_push_bit_iff bit_take_bit_iff bit_mask_iff bit_not_iff

lemma dev_encode_take:
  "MAJOR_OF (new_encode_dev (take_bit 12 maj) (take_bit 20 mnr)) = take_bit 12 maj"
  "MINOR_OF (new_encode_dev (take_bit 12 maj) (take_bit 20 mnr)) = take_bit 20 mnr"
proof -
  show "MAJOR_OF (new_encode_dev (take_bit 12 maj) (take_bit 20 mnr)) = take_bit 12 maj"
    unfolding MAJOR_OF_def new_encode_dev_def dev_masks
  proof (rule bit_word_eqI)
    fix k
    show "bit (drop_bit 8 (take_bit 20 mnr AND mask 8 OR push_bit 8 (take_bit 12 maj) OR
        push_bit 12 (take_bit 20 mnr AND NOT (mask 8))) AND mask 12) k = bit (take_bit 12 maj) k"
      by (cases "k < 12") (auto simp: dev_bits)
  qed
  show "MINOR_OF (new_encode_dev (take_bit 12 maj) (take_bit 20 mnr)) = take_bit 20 mnr"
    unfolding MINOR_OF_def new_encode_dev_def dev_masks
  proof (rule bit_word_eqI)
    fix k
    show "bit ((take_bit 20 mnr AND mask 8 OR push_bit 8 (take_bit 12 maj) OR
        push_bit 12 (take_bit 20 mnr AND NOT (mask 8))) AND mask 8 OR
        drop_bit 12 ((take_bit 20 mnr AND mask 8 OR push_bit 8 (take_bit 12 maj) OR
        push_bit 12 (take_bit 20 mnr AND NOT (mask 8))) AND push_bit 20 (mask 12))) k = bit (take_bit 20 mnr) k"
      by (cases "k < 8") (auto simp: dev_bits)
  qed
qed

lemma take_bit_small: "unat (w :: uint) < 2 ^ n \<Longrightarrow> take_bit n w = w"
  by (metis take_bit_nat_eq_self unsigned_take_bit_eq unsigned_word_eqI)

lemma dev_encode:
  assumes "unat maj < 2 ^ 12" "unat mnr < 2 ^ 20"
  shows "MAJOR_OF (new_encode_dev maj mnr) = maj" "MINOR_OF (new_encode_dev maj mnr) = mnr"
  using dev_encode_take [of maj mnr] take_bit_small [OF assms(1)] take_bit_small [OF assms(2)] by simp_all

lemma dev_decode: "new_encode_dev (MAJOR_OF d) (MINOR_OF d) = d"
  unfolding MAJOR_OF_def MINOR_OF_def new_encode_dev_def dev_masks
proof (rule bit_word_eqI)
  fix k
  assume "k < LENGTH(32)"
  then have k: "k < 32" by simp
  consider (low) "k < 8" | (mid) "\<not> k < 8" "k < 20" "k - 8 < 12" "\<not> 8 \<le> k - 12"
    | (high) "20 \<le> k" "12 + (k - 12) = k" "8 \<le> k - 12" "k - 12 < 20" "k - 20 < 12" "\<not> k - 8 < 12"
    using k by fastforce
  then show "bit (((d AND mask 8) OR drop_bit 12 (d AND push_bit 20 (mask 12))) AND mask 8 OR push_bit 8 (drop_bit 8 d AND mask 12) OR
      push_bit 12 (((d AND mask 8) OR drop_bit 12 (d AND push_bit 20 (mask 12))) AND NOT (mask 8))) k = bit d k"
    by cases (auto simp: dev_bits k)
qed

lemma same_numbers: "MAJOR_OF a = MAJOR_OF b \<Longrightarrow> MINOR_OF a = MINOR_OF b \<Longrightarrow> a = b"
  by (metis dev_decode)


subsection \<open>The name written\<close>

lemma length_copy_tty: "length (copy_tty n s) \<le> n"
  by (induction n s rule: copy_tty.induct) (auto simp: Suc_le_eq)

lemma copy_tty_take: "copy_tty n (take n s) = copy_tty n s"
proof (induction s arbitrary: n)
  case (Cons c s)
  then show ?case by (cases n) auto
qed simp

lemma tty_char_printable: "32 < byte (tty_char c) \<and> byte (tty_char c) < 127"
  by (simp add: tty_char_def not_le)

lemma copy_tty_printable: "list_all (\<lambda>c. 32 < byte c \<and> byte c < 127) (copy_tty n s)"
  using tty_char_printable by (induction n s rule: copy_tty.induct) auto

lemma copy_tty_id:
  "list_all (\<lambda>c. 32 < byte c \<and> byte c < 127) s \<Longrightarrow> length s \<le> n \<Longrightarrow> copy_tty n s = s"
proof (induction s arbitrary: n)
  case (Cons c s)
  then have "c \<noteq> NUL" using byte_eq_0_iff [of c] by auto
  then show ?case using Cons by (auto simp: tty_char_def)
qed simp

definition abbreviated :: "uint \<Rightarrow> string \<Rightarrow> string" where
  "abbreviated flags p =
     skip_prefix flags ABBREV_PTS ''pts/'' (skip_prefix flags ABBREV_TTY ''tty'' (skip_prefix flags ABBREV_DEV ''/dev/'' p))"

lemma dev_to_tty_cases:
  "dev_to_tty e tmap chop d pid flags =
     (case tty_path e tmap (ucast d) pid of
        (None, m) \<Rightarrow> (if 1 \<le> chop then ''?'' else [], 1, m)
      | (Some p, m) \<Rightarrow> (copy_tty (unat chop) (abbreviated flags p), of_nat (length (copy_tty (unat chop) (abbreviated flags p))), m))"
  by (auto simp: dev_to_tty_def Let_def abbreviated_def copy_tty_take split: prod.split option.split)

lemma driver_name_confirmed: "driver_name e tmap maj mnr = (Some p, m) \<Longrightarrow> confirmed e maj mnr p"
  by (auto simp: driver_name_def Let_def split: if_splits tty_map.splits option.splits)

lemma tty_path_confirmed:
  "tty_path e tmap dev pid = (Some p, m) \<Longrightarrow> confirmed e (MAJOR_OF dev) (MINOR_OF dev) p"
  by (auto simp: tty_path_def link_name_def guess_name_def Let_def dest: driver_name_confirmed
        split: if_splits prod.splits option.splits)

lemma confirmed_number:
  assumes "confirmed e (MAJOR_OF dev) (MINOR_OF dev) p"
  obtains dd where "de_stat e p = Some dd" "ucast dd = dev"
  using assms same_numbers by (auto simp: confirmed_def split: option.splits)

text \<open>
  Whatever the table, the links and the devices, the string written has at most \<open>chop\<close>
  characters, all of them printable, and the value returned is their number; only for \<open>chop = 0\<close>
  and no terminal it is one too large.
\<close>

theorem tty_name_fits:
  "case dev_to_tty e tmap chop d pid flags of (r, n, m) \<Rightarrow>
     length r \<le> unat chop \<and> list_all (\<lambda>c. 32 < byte c \<and> byte c < 127) r
     \<and> (n = of_nat (length r) \<or> chop = 0 \<and> r = [] \<and> n = 1)"
proof (cases "tty_path e tmap (ucast d) pid")
  case (Pair path m)
  show ?thesis
  proof (cases path)
    case None
    have "1 \<le> unat chop" if "1 \<le> chop" using that by (simp add: word_le_nat_alt)
    moreover have "chop = 0" if "\<not> 1 \<le> chop"
    proof -
      have "unat chop = 0" using that by (simp add: word_le_nat_alt not_less_eq_eq)
      then show ?thesis by (simp add: unsigned_eq_0_iff)
    qed
    ultimately show ?thesis by (simp add: dev_to_tty_cases Pair None)
  next
    case (Some p)
    then show ?thesis by (simp add: dev_to_tty_cases Pair length_copy_tty copy_tty_printable)
  qed
qed

text \<open>
  A name is only given for a path under which the file system has a device with all the 32 bits
  of the number asked for; otherwise the answer is a question mark.
\<close>

theorem tty_name_confirmed:
  "case dev_to_tty e tmap chop d pid flags of (r, n, m) \<Rightarrow>
     (fst (tty_path e tmap (ucast d) pid) = None \<and> r = (if 1 \<le> chop then ''?'' else []))
     \<or> (\<exists>p dd. de_stat e p = Some dd \<and> ucast dd = (ucast d :: uint) \<and> r = copy_tty (unat chop) (abbreviated flags p))"
proof (cases "tty_path e tmap (ucast d) pid")
  case (Pair path m)
  show ?thesis
  proof (cases path)
    case None
    then show ?thesis by (simp add: dev_to_tty_cases Pair)
  next
    case (Some p)
    then obtain dd where "de_stat e p = Some dd" "ucast dd = (ucast d :: uint)"
      using tty_path_confirmed Pair confirmed_number by metis
    then show ?thesis by (auto simp: dev_to_tty_cases Pair Some)
  qed
qed

subsection \<open>The table the kernel prints\<close>

text \<open>
  A row: the name of the driver, that of its devices, the numbers, the type, and the blanks that
  pad the columns.
\<close>

record drv_row =
  dr_name :: string
  dr_dev :: string
  dr_major :: nat
  dr_first :: uint
  dr_last :: uint
  dr_type :: string
  dr_pad :: "nat \<Rightarrow> nat"

abbreviation blanks :: "nat \<Rightarrow> string" where
  "blanks n \<equiv> replicate n (CHR '' '')"

definition drv_minors :: "drv_row \<Rightarrow> string" where
  "drv_minors r =
     show_nat (unat (dr_first r)) @ (if dr_first r = dr_last r then [] else CHR ''-'' # show_nat (unat (dr_last r)))"

definition drv_rest :: "drv_row \<Rightarrow> string" where
  "drv_rest r = drv_minors r @ '' '' @ dr_type r @ [newline]"

definition drv_line :: "drv_row \<Rightarrow> string" where
  "drv_line r =
     dr_name r @ blanks (dr_pad r 0) @ '' /dev/'' @ dr_dev r @ '' '' @ blanks (dr_pad r 1) @ show_nat (dr_major r)
     @ '' '' @ blanks (dr_pad r 2) @ drv_rest r"

definition drv_row_ok :: "drv_row \<Rightarrow> bool" where
  "drv_row_ok r \<longleftrightarrow>
     CHR '' '' \<notin> set (dr_name r) \<and> CHR '' '' \<notin> set (dr_dev r) \<and> dr_major r < 4096
     \<and> CHR '' '' \<notin> set (dr_type r) \<and> is_prefix ''/'' (dr_type r) = False \<and> NUL \<notin> set (drv_line r)"

definition drv_node :: "drv_row \<Rightarrow> tty_map_node" where
  "drv_node r = (driver_node (dr_dev r) (show_nat (dr_major r)))\<lparr>tn_minor_first := dr_first r, tn_minor_last := dr_last r\<rparr>"

lemma strstr_dev_word: "CHR '' '' \<notin> set w \<Longrightarrow> strstr (w @ s) '' /dev/'' = strstr s '' /dev/''"
  by (induction w) auto

lemma strstr_dev_blank: "is_prefix ''/'' s = False \<Longrightarrow> strstr (CHR '' '' # s) '' /dev/'' = strstr s '' /dev/''"
  by (cases s) auto

lemma strstr_dev_here: "strstr ('' /dev/'' @ s) '' /dev/'' = Some ('' /dev/'' @ s)"
  by simp

lemma strstr_dev_blanks: "strstr (blanks k @ '' /dev/'' @ s) '' /dev/'' = Some ('' /dev/'' @ s)"
proof (induction k)
  case (Suc k)
  have "is_prefix ''/'' (blanks k @ '' /dev/'' @ s) = False" by (cases k) simp_all
  then show ?case using Suc strstr_dev_blank by simp
qed simp


lemma blank_notin_show_nat: "CHR '' '' \<notin> set (show_nat n)"
  using show_nat_digits [of "CHR '' ''" n] by (auto simp: isdigit_def)

lemma strstr_dev_rest: "drv_row_ok r \<Longrightarrow> strstr (drv_rest r @ s) '' /dev/'' = strstr s '' /dev/''"
proof -
  assume ok: "drv_row_ok r"
  have "CHR '' '' \<notin> set (drv_minors r)" by (simp add: drv_minors_def blank_notin_show_nat)
  then have "strstr (drv_rest r @ s) '' /dev/'' = strstr (CHR '' '' # (dr_type r @ [newline]) @ s) '' /dev/''"
    by (simp add: drv_rest_def strstr_dev_word)
  also have "\<dots> = strstr ((dr_type r @ [newline]) @ s) '' /dev/''"
    using ok by (intro strstr_dev_blank) (cases "dr_type r"; simp add: drv_row_ok_def)
  also have "\<dots> = strstr s '' /dev/''"
    using ok by (intro strstr_dev_word) (simp add: drv_row_ok_def)
  finally show ?thesis .
qed

lemma parse_minors_format: "parse_format ''%u-%u'' = [Conv CUInt, Lit (CHR ''-''), Conv CUInt]"
  by (simp add: parse_format.simps isspace_def)

lemma scan_minors_row:
  "scan_minors (drv_minors r @ CHR '' '' # s) n = Some (n\<lparr>tn_minor_first := dr_first r, tn_minor_last := dr_last r\<rparr>)"
proof (cases "dr_first r = dr_last r")
  case True
  then show ?thesis
    by (simp add: scan_minors_def sscanf_def parse_minors_format drv_minors_def scan_uint
        del: run_scanf.simps(2,4,5))
next
  case False
  have "ends_number (CHR ''-'' # t)" for t by (simp add: isdigit_def)
  then show ?thesis using False
    by (simp add: scan_minors_def sscanf_def parse_minors_format drv_minors_def scan_uint
        del: run_scanf.simps(2,4,5))
qed

lemma blanks_before_number: "dropWhile (\<lambda>c. c = CHR '' '') (blanks k @ show_nat n @ s) = show_nat n @ s"
proof -
  have "hd (show_nat n) \<noteq> CHR '' ''" using blank_notin_show_nat [of n] show_nat_nonempty [of n] hd_in_set by metis
  then obtain d ds where "show_nat n = d # ds" "d \<noteq> CHR '' ''"
    using show_nat_nonempty [of n] by (cases "show_nat n") auto
  then show ?thesis by (induction k) auto
qed

lemma digits_before_blank: "dropWhile isdigit (show_nat n @ CHR '' '' # s) = CHR '' '' # s"
  using takeWhile_isdigit_append [of "show_nat n" "CHR '' '' # s"] show_nat_digits by simp

lemma driver_node_major:
  assumes "m < 4096" "ends_number s"
  shows "driver_node nm (show_nat m @ s) = driver_node nm (show_nat m)"
proof -
  have "show_nat m = show_int (int m)" by (simp add: show_int_def)
  then have "atoi (show_nat m @ s) = int m" "atoi (show_nat m) = int m"
    using assms atoi_show_int [of "int m" s] atoi_show_int [of "int m" "[]"] by auto
  then show ?thesis by (simp add: driver_node_def)
qed

lemma drv_minors_number: "\<exists>t. drv_minors r @ s = show_nat (unat (dr_first r)) @ t"
  by (simp add: drv_minors_def)

lemma driver_lines_step:
  assumes "strstr p '' /dev/'' = Some ('' /dev/'' @ nm @ e)" "strchr (nm @ e) (CHR '' '') = Some e" "ok k"
    "dropWhile (\<lambda>c. c = CHR '' '') e = p2" "dropWhile (\<lambda>c. c = CHR '' '') (dropWhile isdigit p2) = p3"
    "scan_minors p3 (driver_node nm p2) = Some n"
  shows "driver_lines ok k p acc = driver_lines ok (k + 1) p3 (n # acc)"
proof -
  have "drop 6 ('' /dev/'' @ nm @ e) = nm @ e" by simp
  then show ?thesis
    by (subst driver_lines.simps) (simp only: assms Let_def option.case not_True_eq_False if_False, simp add: assms)
qed

lemma driver_lines_row:
  assumes "drv_row_ok r" "\<And>j. ok j" "\<And>s. strstr (pre @ s) '' /dev/'' = strstr s '' /dev/''"
  shows "driver_lines ok k (pre @ drv_line r @ s) acc = driver_lines ok (k + 1) (drv_rest r @ s) (drv_node r # acc)"
proof -
  let ?b = "show_nat (dr_major r) @ CHR '' '' # blanks (dr_pad r 2) @ drv_rest r @ s"
  let ?e = "CHR '' '' # blanks (dr_pad r 1) @ ?b"
  have at: "strstr (pre @ drv_line r @ s) '' /dev/'' = Some ('' /dev/'' @ dr_dev r @ ?e)"
    using assms strstr_dev_word [of "dr_name r" "blanks (dr_pad r 0) @ '' /dev/'' @ dr_dev r @ ?e"]
      strstr_dev_blanks [of "dr_pad r 0" "dr_dev r @ ?e"]
    by (simp add: drv_line_def drv_row_ok_def)
  have cut: "strchr (dr_dev r @ ?e) (CHR '' '') = Some ?e"
    using assms by (intro strchr_append) (simp add: drv_row_ok_def)
  have p2: "dropWhile (\<lambda>c. c = CHR '' '') ?e = ?b"
    using blanks_before_number [of "Suc (dr_pad r 1)" "dr_major r"] by simp
  have p3: "dropWhile (\<lambda>c. c = CHR '' '') (dropWhile isdigit ?b) = drv_rest r @ s"
    using blanks_before_number [of "Suc (dr_pad r 2)" "unat (dr_first r)"]
      drv_minors_number [of r "CHR '' '' # dr_type r @ newline # s"]
    by (auto simp: digits_before_blank drv_rest_def)
  have sc: "scan_minors (drv_rest r @ s) n = Some (n\<lparr>tn_minor_first := dr_first r, tn_minor_last := dr_last r\<rparr>)" for n
    using scan_minors_row [of r "dr_type r @ newline # s"] by (simp add: drv_rest_def)
  have nd: "driver_node (dr_dev r) ?b = driver_node (dr_dev r) (show_nat (dr_major r))"
    using assms by (intro driver_node_major) (simp_all add: drv_row_ok_def)
  show ?thesis
    using driver_lines_step [of _ "dr_dev r" ?e ok k, OF at cut assms(2) p2 p3 sc] by (simp add: nd drv_node_def)
qed

lemma driver_lines_rows:
  assumes "list_all drv_row_ok rows" "\<And>j. ok j" "\<And>s. strstr (pre @ s) '' /dev/'' = strstr s '' /dev/''"
  shows "driver_lines ok k (pre @ concat (map drv_line rows)) acc = rev (map drv_node rows) @ acc"
  using assms(1,3)
proof (induction rows arbitrary: pre k acc)
  case Nil
  then show ?case using Nil(2) [of "[]"] by (subst driver_lines.simps) simp
next
  case (Cons r rows)
  then have ok: "drv_row_ok r" "list_all drv_row_ok rows" by simp_all
  have "driver_lines ok k (pre @ concat (map drv_line (r # rows))) acc
          = driver_lines ok (k + 1) (drv_rest r @ concat (map drv_line rows)) (drv_node r # acc)"
    using driver_lines_row [of r ok pre k "concat (map drv_line rows)" acc] ok assms(2) Cons(3) by simp
  also have "\<dots> = rev (map drv_node rows) @ drv_node r # acc"
    using Cons(1) [OF ok(2)] strstr_dev_rest [OF ok(1)] by blast
  finally show ?case by simp
qed


definition drv_env_ok :: "dev_env \<Rightarrow> drv_row list \<Rightarrow> bool" where
  "drv_env_ok e rows \<longleftrightarrow>
     list_all drv_row_ok rows \<and> rows \<noteq> [] \<and> (\<forall>j. de_calloc e j) \<and> de_drivers e = Some (concat (map drv_line rows))
     \<and> length (concat (map drv_line rows)) \<le> 9999"

lemma load_drivers_rows:
  assumes "drv_env_ok e rows"
  shows "load_drivers e = Drivers (rev (map drv_node rows))"
proof -
  have "NUL \<notin> set (concat (map drv_line rows))"
    using assms by (auto simp: drv_env_ok_def list_all_iff drv_row_ok_def)
  moreover have "driver_lines (de_calloc e) 0 (concat (map drv_line rows)) [] = rev (map drv_node rows)"
    using driver_lines_rows [of rows "de_calloc e" "[]" 0 "[]"] assms by (simp add: drv_env_ok_def)
  moreover have "rev (map drv_node rows) \<noteq> []" using assms by (simp add: drv_env_ok_def)
  ultimately show ?thesis
    using assms by (cases "rev (map drv_node rows)") (simp_all add: load_drivers_def drv_env_ok_def)
qed

lemma find_append_first: "find P xs = None \<Longrightarrow> P y \<Longrightarrow> find P (xs @ y # ys) = Some y"
  by (induction xs) (auto split: if_splits)

lemma ucast_uint_64: "(ucast (ucast (w :: uint) :: 64 word) :: uint) = w"
  by transfer simp

lemma dec_small: "unat w < 2 ^ 20 \<Longrightarrow> dec w = show_nat (unat w)"
proof -
  assume w: "unat w < 2 ^ 20"
  then have "int (unat w) < int (2 ^ 20)" by (simp only: of_nat_less_iff)
  then have "uint w < 2 ^ 31" by simp
  then have "sint w = int (unat w)"
    using signed_take_bit_int_eq_self [of 31 "uint w"] order_trans [OF _ uint_ge_0 [of w], of "- (2 ^ 31)"]
    by (simp add: sint_uint)
  then show ?thesis by (simp add: dec_def show_int_def)
qed

text \<open>The driver of a number, the last one in the file that has it.\<close>

definition covers :: "drv_row \<Rightarrow> uint \<Rightarrow> uint \<Rightarrow> bool" where
  "covers r maj mnr \<longleftrightarrow> ucast (word_of_nat (dr_major r) :: 16 word) = maj \<and> dr_first r \<le> mnr \<and> mnr \<le> dr_last r"

lemma tn_major_drv_node: "drv_row_ok r \<Longrightarrow> tn_major_number (drv_node r) = word_of_nat (dr_major r)"
proof -
  assume "drv_row_ok r"
  then have m: "dr_major r < 4096" by (simp add: drv_row_ok_def)
  have "show_nat (dr_major r) = show_int (int (dr_major r))" by (simp add: show_int_def)
  then have "atoi (show_nat (dr_major r)) = int (dr_major r)"
    using m atoi_show_int [of "int (dr_major r)" "[]"] by auto
  then show ?thesis by (simp add: drv_node_def driver_node_def Let_def)
qed

text \<open>
  C36. From the table the kernel prints to the name: a terminal whose driver has it, whose device is
  in a directory named after the driver and has the right number, gets the directory and its minor
  number as its name (\<^verbatim>\<open>pts/7\<close>), whatever the links say and whichever drivers come before.
\<close>

theorem tty_named_by_driver:
  assumes rows: "drv_env_ok e (before @ r # after)"
    and row: "covers r maj mnr" "list_all (\<lambda>r'. \<not> covers r' maj mnr) after"
    and name: "length (dr_dev r) < 16" "list_all (\<lambda>c. 32 < byte c \<and> byte c < 127) (dr_dev r)"
      "drop (length (dr_dev r) - 2) (dr_dev r) \<noteq> ''%d''"
    and number: "unat maj < 2 ^ 12" "unat mnr < 2 ^ 20" "new_encode_dev maj mnr \<noteq> 0"
    and files: "de_stat e (''/dev/'' @ dr_dev r @ dec mnr) = None"
      "de_stat e (''/dev/'' @ dr_dev r @ ''/'' @ dec mnr) = Some (ucast (new_encode_dev maj mnr))"
    and chop: "30 \<le> unat chop"
  shows "fst (dev_to_tty e Unloaded chop (ucast (new_encode_dev maj mnr)) pid ABBREV_DEV) = dr_dev r @ ''/'' @ dec mnr"
proof -
  let ?p = "''/dev/'' @ dr_dev r @ ''/'' @ dec mnr"
  have mm: "MAJOR_OF (new_encode_dev maj mnr) = maj" "MINOR_OF (new_encode_dev maj mnr) = mnr"
    using dev_encode number by simp_all
  note down = ucast_uint_64 [of "new_encode_dev maj mnr"]
  have oks: "list_all drv_row_ok (before @ r # after)" using rows by (simp add: drv_env_ok_def)
  let ?P = "\<lambda>n. ucast (tn_major_number n) = maj \<and> tn_minor_first n \<le> mnr \<and> mnr \<le> tn_minor_last n"
  have P: "?P (drv_node r') = covers r' maj mnr" if "drv_row_ok r'" for r'
    using tn_major_drv_node [OF that] by (simp add: covers_def) (simp add: drv_node_def)
  have "\<not> ?P n" if "n \<in> set (rev (map drv_node after))" for n
    using that oks row(2) P by (auto simp: list_all_iff)
  then have "find ?P (rev (map drv_node after)) = None" by (simp add: find_None_iff)
  moreover have "?P (drv_node r)" using P oks row(1) by simp
  ultimately have f: "find ?P (rev (map drv_node (before @ r # after))) = Some (drv_node r)"
    using find_append_first by simp
  have nm: "tn_name (drv_node r) = dr_dev r"
    using name by (simp add: drv_node_def driver_node_def Let_def)
  have "confirmed e maj mnr ?p" using files(2) mm down by (simp add: confirmed_def)
  then have "fst (driver_name e Unloaded maj mnr) = Some ?p"
    using f nm files by (simp add: driver_name_def load_drivers_rows [OF rows] Let_def)
  then have path: "fst (tty_path e Unloaded (new_encode_dev maj mnr) pid) = Some ?p"
    using number(3) mm by (auto simp: tty_path_def Let_def split: prod.split option.split)
  have dec: "dec mnr = show_nat (unat mnr)" "length (dec mnr) \<le> 10"
    using dec_small [OF number(2)] length_show_nat_32 [of mnr] by simp_all
  have ab: "abbreviated ABBREV_DEV ?p = dr_dev r @ ''/'' @ dec mnr"
    by (simp add: abbreviated_def skip_prefix_def ABBREV_DEV_def ABBREV_TTY_def ABBREV_PTS_def)
  have "list_all (\<lambda>c. 32 < byte c \<and> byte c < 127) (dec mnr)"
    using show_nat_digits [of _ "unat mnr"] by (fastforce simp: dec list_all_iff isdigit_def)
  then have "copy_tty (unat chop) (dr_dev r @ ''/'' @ dec mnr) = dr_dev r @ ''/'' @ dec mnr"
    using name chop dec(2) by (intro copy_tty_id) auto
  then show ?thesis
    using path ab by (auto simp: dev_to_tty_cases down split: prod.split option.split)
qed


definition dev_rows :: "drv_row list" where
  "dev_rows =
     [\<lparr>dr_name = ''serial'', dr_dev = ''ttyS'', dr_major = 4, dr_first = 64, dr_last = 111, dr_type = ''serial'', dr_pad = \<lambda>_. 6\<rparr>,
      \<lparr>dr_name = ''pty_slave'', dr_dev = ''pts'', dr_major = 136, dr_first = 0, dr_last = 1048575, dr_type = ''pty:slave'',
        dr_pad = \<lambda>_. 5\<rparr>,
      \<lparr>dr_name = ''unknown'', dr_dev = ''tty'', dr_major = 4, dr_first = 1, dr_last = 63, dr_type = ''console'', dr_pad = \<lambda>_. 6\<rparr>]"

definition dev_host :: dev_env where
  "dev_host = \<lparr>de_drivers = Some (concat (map drv_line dev_rows)), de_calloc = \<lambda>_. True,
     de_stat = (\<lambda>p. if p = ''/dev/pts/7'' then Some 0x8807 else None), de_readlink = \<lambda>_. None\<rparr>"

lemma dev_numbers:
  "show_nat 0 = ''0''" "show_nat (Suc 0) = ''1''" "show_nat 4 = ''4''" "show_nat 7 = ''7''" "show_nat 63 = ''63''"
  "show_nat 64 = ''64''" "show_nat 111 = ''111''" "show_nat 136 = ''136''" "show_nat 1048575 = ''1048575''"
  by (simp_all add: show_nat.simps)

lemma dev_host_ok: "drv_env_ok dev_host ([dev_rows ! 0] @ dev_rows ! 1 # [dev_rows ! 2])"
  by (simp add: drv_env_ok_def dev_host_def dev_rows_def drv_row_ok_def drv_line_def drv_rest_def drv_minors_def dev_numbers
      nth_Cons_numeral)

theorem tty_named_by_driver_witness:
  "fst (dev_to_tty dev_host Unloaded 30 0x8807 4711 ABBREV_DEV) = ''pts/7''"
proof -
  have enc: "new_encode_dev 136 7 = 0x8807" by (simp add: new_encode_dev_def)
  have d: "dec 7 = ''7''" using dec_small [of 7] by (simp add: dev_numbers)
  show ?thesis
    using tty_named_by_driver [OF dev_host_ok, of 136 7 30 4711]
    by (simp add: enc d covers_def dev_rows_def dev_host_def)
qed

end
