(* ===== verification/Vmstat.thy ===== *)
theory Vmstat
  imports Select
begin

text \<open>
  The virtual memory statistics, \<^verbatim>\<open>procps/linux/proc_vmstat.c\<close>: 151 counters of
  \<^verbatim>\<open>/proc/vmstat\<close>, found in the text by the names of the fields they are kept in, each with an item
  for its value and one for its difference to the last read.

  The fields of \<open>struct vmstat_data\<close> are unsigned longs; a value of the structure is the function
  from their names. The functions that all files of this kind have are those of \<open>Select\<close>.
\<close>

subsection \<open>The counters\<close>

type_synonym vmstat_data = "string \<Rightarrow> ulong"

definition vmstat_fields_n :: "string list" where
  "vmstat_fields_n =
    [''allocstall_dma'', ''allocstall_dma32'', ''allocstall_high'', ''allocstall_movable'',
     ''allocstall_normal'', ''balloon_deflate'', ''balloon_inflate'', ''balloon_migrate'',
     ''compact_daemon_free_scanned'', ''compact_daemon_migrate_scanned'', ''compact_daemon_wake'',
     ''compact_fail'', ''compact_free_scanned'', ''compact_isolated'', ''compact_migrate_scanned'',
     ''compact_stall'', ''compact_success'', ''drop_pagecache'', ''drop_slab'', ''htlb_buddy_alloc_fail'',
     ''htlb_buddy_alloc_success'', ''kswapd_high_wmark_hit_quickly'', ''kswapd_inodesteal'',
     ''kswapd_low_wmark_hit_quickly'', ''nr_active_anon'', ''nr_active_file'', ''nr_anon_pages'',
     ''nr_anon_transparent_hugepages'', ''nr_bounce'', ''nr_dirtied'', ''nr_dirty'',
     ''nr_dirty_background_threshold'', ''nr_dirty_threshold'', ''nr_file_hugepages'', ''nr_file_pages'',
     ''nr_file_pmdmapped'', ''nr_foll_pin_acquired'', ''nr_foll_pin_released'', ''nr_free_cma'',
     ''nr_free_pages'', ''nr_inactive_anon'', ''nr_inactive_file'', ''nr_isolated_anon'', ''nr_isolated_file'',
     ''nr_kernel_misc_reclaimable'', ''nr_kernel_stack'', ''nr_mapped'', ''nr_mlock'', ''nr_page_table_pages'',
     ''nr_shadow_call_stack'', ''nr_shmem'', ''nr_shmem_hugepages'', ''nr_shmem_pmdmapped'',
     ''nr_slab_reclaimable'', ''nr_slab_unreclaimable'', ''nr_unevictable'', ''nr_unstable'',
     ''nr_vmscan_immediate_reclaim'', ''nr_vmscan_write'', ''nr_writeback'', ''nr_writeback_temp'',
     ''nr_written'', ''nr_zone_active_anon'', ''nr_zone_active_file'', ''nr_zone_inactive_anon'',
     ''nr_zone_inactive_file'', ''nr_zone_unevictable'', ''nr_zone_write_pending'', ''nr_zspages'',
     ''numa_foreign'', ''numa_hint_faults'', ''numa_hint_faults_local'', ''numa_hit'',
     ''numa_huge_pte_updates'', ''numa_interleave'', ''numa_local'', ''numa_miss'', ''numa_other'',
     ''numa_pages_migrated'', ''numa_pte_updates'']"

definition vmstat_fields_z :: "string list" where
  "vmstat_fields_z =
    [''oom_kill'', ''pageoutrun'', ''pgactivate'', ''pgalloc_dma'', ''pgalloc_dma32'', ''pgalloc_high'',
     ''pgalloc_movable'', ''pgalloc_normal'', ''pgdeactivate'', ''pgfault'', ''pgfree'', ''pginodesteal'',
     ''pglazyfree'', ''pglazyfreed'', ''pgmajfault'', ''pgmigrate_fail'', ''pgmigrate_success'', ''pgpgin'',
     ''pgpgout'', ''pgrefill'', ''pgrotated'', ''pgscan_anon'', ''pgscan_direct'', ''pgscan_direct_throttle'',
     ''pgscan_file'', ''pgscan_kswapd'', ''pgskip_dma'', ''pgskip_dma32'', ''pgskip_high'', ''pgskip_movable'',
     ''pgskip_normal'', ''pgsteal_anon'', ''pgsteal_direct'', ''pgsteal_file'', ''pgsteal_kswapd'', ''pswpin'',
     ''pswpout'', ''slabs_scanned'', ''swap_ra'', ''swap_ra_hit'', ''thp_collapse_alloc'',
     ''thp_collapse_alloc_failed'', ''thp_deferred_split_page'', ''thp_fault_alloc'', ''thp_fault_fallback'',
     ''thp_fault_fallback_charge'', ''thp_file_alloc'', ''thp_file_fallback'', ''thp_file_fallback_charge'',
     ''thp_file_mapped'', ''thp_split_page'', ''thp_split_page_failed'', ''thp_split_pmd'', ''thp_split_pud'',
     ''thp_swpout'', ''thp_swpout_fallback'', ''thp_zero_page_alloc'', ''thp_zero_page_alloc_failed'',
     ''unevictable_pgs_cleared'', ''unevictable_pgs_culled'', ''unevictable_pgs_mlocked'',
     ''unevictable_pgs_munlocked'', ''unevictable_pgs_rescued'', ''unevictable_pgs_scanned'',
     ''unevictable_pgs_stranded'', ''workingset_activate'', ''workingset_nodereclaim'', ''workingset_nodes'',
     ''workingset_refault'', ''workingset_restore'', ''zone_reclaim_failed'']"

definition vmstat_fields :: "string list" where
  "vmstat_fields = vmstat_fields_n @ vmstat_fields_z"

definition no_counts :: vmstat_data where
  "no_counts = (\<lambda>_. 0)"

subsection \<open>Setting results\<close>

type_synonym vmstat_hist = "vmstat_data file_hist"

definition VM_REG_set :: "string \<Rightarrow> vmstat_hist \<Rightarrow> rval \<Rightarrow> rval" where
  "VM_REG_set x H v = Ul_int (fh_new H x)"

definition VM_HST_set :: "string \<Rightarrow> vmstat_hist \<Rightarrow> rval \<Rightarrow> rval" where
  "VM_HST_set x H v = Sl_int (sint (fh_new H x - fh_old H x))"

definition set_vmstat_extra :: "vmstat_hist \<Rightarrow> rval \<Rightarrow> rval" where
  "set_vmstat_extra H v = Ul_int 0"

text \<open>The uses of \<open>VM_REG_set\<close>, and of \<open>VM_HST_set\<close>: the item and the field.\<close>

definition vmstat_reg :: "(string \<times> string) list" where
  "vmstat_reg =
    [(''ALLOCSTALL_DMA'', ''allocstall_dma''), (''ALLOCSTALL_DMA32'', ''allocstall_dma32''),
     (''ALLOCSTALL_HIGH'', ''allocstall_high''), (''ALLOCSTALL_MOVABLE'', ''allocstall_movable''),
     (''ALLOCSTALL_NORMAL'', ''allocstall_normal''), (''BALLOON_DEFLATE'', ''balloon_deflate''),
     (''BALLOON_INFLATE'', ''balloon_inflate''), (''BALLOON_MIGRATE'', ''balloon_migrate''),
     (''COMPACT_DAEMON_FREE_SCANNED'', ''compact_daemon_free_scanned''),
     (''COMPACT_DAEMON_MIGRATE_SCANNED'', ''compact_daemon_migrate_scanned''),
     (''COMPACT_DAEMON_WAKE'', ''compact_daemon_wake''), (''COMPACT_FAIL'', ''compact_fail''),
     (''COMPACT_FREE_SCANNED'', ''compact_free_scanned''), (''COMPACT_ISOLATED'', ''compact_isolated''),
     (''COMPACT_MIGRATE_SCANNED'', ''compact_migrate_scanned''), (''COMPACT_STALL'', ''compact_stall''),
     (''COMPACT_SUCCESS'', ''compact_success''), (''DROP_PAGECACHE'', ''drop_pagecache''),
     (''DROP_SLAB'', ''drop_slab''), (''HTLB_BUDDY_ALLOC_FAIL'', ''htlb_buddy_alloc_fail''),
     (''HTLB_BUDDY_ALLOC_SUCCESS'', ''htlb_buddy_alloc_success''),
     (''KSWAPD_HIGH_WMARK_HIT_QUICKLY'', ''kswapd_high_wmark_hit_quickly''),
     (''KSWAPD_INODESTEAL'', ''kswapd_inodesteal''),
     (''KSWAPD_LOW_WMARK_HIT_QUICKLY'', ''kswapd_low_wmark_hit_quickly''),
     (''NR_ACTIVE_ANON'', ''nr_active_anon''), (''NR_ACTIVE_FILE'', ''nr_active_file''),
     (''NR_ANON_PAGES'', ''nr_anon_pages''),
     (''NR_ANON_TRANSPARENT_HUGEPAGES'', ''nr_anon_transparent_hugepages''), (''NR_BOUNCE'', ''nr_bounce''),
     (''NR_DIRTIED'', ''nr_dirtied''), (''NR_DIRTY'', ''nr_dirty''),
     (''NR_DIRTY_BACKGROUND_THRESHOLD'', ''nr_dirty_background_threshold''),
     (''NR_DIRTY_THRESHOLD'', ''nr_dirty_threshold''), (''NR_FILE_HUGEPAGES'', ''nr_file_hugepages''),
     (''NR_FILE_PAGES'', ''nr_file_pages''), (''NR_FILE_PMDMAPPED'', ''nr_file_pmdmapped''),
     (''NR_FOLL_PIN_ACQUIRED'', ''nr_foll_pin_acquired''), (''NR_FOLL_PIN_RELEASED'', ''nr_foll_pin_released''),
     (''NR_FREE_CMA'', ''nr_free_cma''), (''NR_FREE_PAGES'', ''nr_free_pages''),
     (''NR_INACTIVE_ANON'', ''nr_inactive_anon''), (''NR_INACTIVE_FILE'', ''nr_inactive_file''),
     (''NR_ISOLATED_ANON'', ''nr_isolated_anon''), (''NR_ISOLATED_FILE'', ''nr_isolated_file''),
     (''NR_KERNEL_MISC_RECLAIMABLE'', ''nr_kernel_misc_reclaimable''),
     (''NR_KERNEL_STACK'', ''nr_kernel_stack''), (''NR_MAPPED'', ''nr_mapped''), (''NR_MLOCK'', ''nr_mlock''),
     (''NR_PAGE_TABLE_PAGES'', ''nr_page_table_pages''), (''NR_SHADOW_CALL_STACK'', ''nr_shadow_call_stack''),
     (''NR_SHMEM'', ''nr_shmem''), (''NR_SHMEM_HUGEPAGES'', ''nr_shmem_hugepages''),
     (''NR_SHMEM_PMDMAPPED'', ''nr_shmem_pmdmapped''), (''NR_SLAB_RECLAIMABLE'', ''nr_slab_reclaimable''),
     (''NR_SLAB_UNRECLAIMABLE'', ''nr_slab_unreclaimable''), (''NR_UNEVICTABLE'', ''nr_unevictable''),
     (''NR_UNSTABLE'', ''nr_unstable''), (''NR_VMSCAN_IMMEDIATE_RECLAIM'', ''nr_vmscan_immediate_reclaim''),
     (''NR_VMSCAN_WRITE'', ''nr_vmscan_write''), (''NR_WRITEBACK'', ''nr_writeback''),
     (''NR_WRITEBACK_TEMP'', ''nr_writeback_temp''), (''NR_WRITTEN'', ''nr_written''),
     (''NR_ZONE_ACTIVE_ANON'', ''nr_zone_active_anon''), (''NR_ZONE_ACTIVE_FILE'', ''nr_zone_active_file''),
     (''NR_ZONE_INACTIVE_ANON'', ''nr_zone_inactive_anon''),
     (''NR_ZONE_INACTIVE_FILE'', ''nr_zone_inactive_file''), (''NR_ZONE_UNEVICTABLE'', ''nr_zone_unevictable''),
     (''NR_ZONE_WRITE_PENDING'', ''nr_zone_write_pending''), (''NR_ZSPAGES'', ''nr_zspages''),
     (''NUMA_FOREIGN'', ''numa_foreign''), (''NUMA_HINT_FAULTS'', ''numa_hint_faults''),
     (''NUMA_HINT_FAULTS_LOCAL'', ''numa_hint_faults_local''), (''NUMA_HIT'', ''numa_hit''),
     (''NUMA_HUGE_PTE_UPDATES'', ''numa_huge_pte_updates''), (''NUMA_INTERLEAVE'', ''numa_interleave''),
     (''NUMA_LOCAL'', ''numa_local''), (''NUMA_MISS'', ''numa_miss''), (''NUMA_OTHER'', ''numa_other''),
     (''NUMA_PAGES_MIGRATED'', ''numa_pages_migrated''), (''NUMA_PTE_UPDATES'', ''numa_pte_updates''),
     (''OOM_KILL'', ''oom_kill''), (''PAGEOUTRUN'', ''pageoutrun''), (''PGACTIVATE'', ''pgactivate''),
     (''PGALLOC_DMA'', ''pgalloc_dma''), (''PGALLOC_DMA32'', ''pgalloc_dma32''),
     (''PGALLOC_HIGH'', ''pgalloc_high''), (''PGALLOC_MOVABLE'', ''pgalloc_movable''),
     (''PGALLOC_NORMAL'', ''pgalloc_normal''), (''PGDEACTIVATE'', ''pgdeactivate''), (''PGFAULT'', ''pgfault''),
     (''PGFREE'', ''pgfree''), (''PGINODESTEAL'', ''pginodesteal''), (''PGLAZYFREE'', ''pglazyfree''),
     (''PGLAZYFREED'', ''pglazyfreed''), (''PGMAJFAULT'', ''pgmajfault''),
     (''PGMIGRATE_FAIL'', ''pgmigrate_fail''), (''PGMIGRATE_SUCCESS'', ''pgmigrate_success''),
     (''PGPGIN'', ''pgpgin''), (''PGPGOUT'', ''pgpgout''), (''PGREFILL'', ''pgrefill''),
     (''PGROTATED'', ''pgrotated''), (''PGSCAN_ANON'', ''pgscan_anon''), (''PGSCAN_DIRECT'', ''pgscan_direct''),
     (''PGSCAN_DIRECT_THROTTLE'', ''pgscan_direct_throttle''), (''PGSCAN_FILE'', ''pgscan_file''),
     (''PGSCAN_KSWAPD'', ''pgscan_kswapd''), (''PGSKIP_DMA'', ''pgskip_dma''),
     (''PGSKIP_DMA32'', ''pgskip_dma32''), (''PGSKIP_HIGH'', ''pgskip_high''),
     (''PGSKIP_MOVABLE'', ''pgskip_movable''), (''PGSKIP_NORMAL'', ''pgskip_normal''),
     (''PGSTEAL_ANON'', ''pgsteal_anon''), (''PGSTEAL_DIRECT'', ''pgsteal_direct''),
     (''PGSTEAL_FILE'', ''pgsteal_file''), (''PGSTEAL_KSWAPD'', ''pgsteal_kswapd''), (''PSWPIN'', ''pswpin''),
     (''PSWPOUT'', ''pswpout''), (''SLABS_SCANNED'', ''slabs_scanned''), (''SWAP_RA'', ''swap_ra''),
     (''SWAP_RA_HIT'', ''swap_ra_hit''), (''THP_COLLAPSE_ALLOC'', ''thp_collapse_alloc''),
     (''THP_COLLAPSE_ALLOC_FAILED'', ''thp_collapse_alloc_failed''),
     (''THP_DEFERRED_SPLIT_PAGE'', ''thp_deferred_split_page''), (''THP_FAULT_ALLOC'', ''thp_fault_alloc''),
     (''THP_FAULT_FALLBACK'', ''thp_fault_fallback''),
     (''THP_FAULT_FALLBACK_CHARGE'', ''thp_fault_fallback_charge''), (''THP_FILE_ALLOC'', ''thp_file_alloc''),
     (''THP_FILE_FALLBACK'', ''thp_file_fallback''),
     (''THP_FILE_FALLBACK_CHARGE'', ''thp_file_fallback_charge''), (''THP_FILE_MAPPED'', ''thp_file_mapped''),
     (''THP_SPLIT_PAGE'', ''thp_split_page''), (''THP_SPLIT_PAGE_FAILED'', ''thp_split_page_failed''),
     (''THP_SPLIT_PMD'', ''thp_split_pmd''), (''THP_SPLIT_PUD'', ''thp_split_pud''),
     (''THP_SWPOUT'', ''thp_swpout''), (''THP_SWPOUT_FALLBACK'', ''thp_swpout_fallback''),
     (''THP_ZERO_PAGE_ALLOC'', ''thp_zero_page_alloc''),
     (''THP_ZERO_PAGE_ALLOC_FAILED'', ''thp_zero_page_alloc_failed''),
     (''UNEVICTABLE_PGS_CLEARED'', ''unevictable_pgs_cleared''),
     (''UNEVICTABLE_PGS_CULLED'', ''unevictable_pgs_culled''),
     (''UNEVICTABLE_PGS_MLOCKED'', ''unevictable_pgs_mlocked''),
     (''UNEVICTABLE_PGS_MUNLOCKED'', ''unevictable_pgs_munlocked''),
     (''UNEVICTABLE_PGS_RESCUED'', ''unevictable_pgs_rescued''),
     (''UNEVICTABLE_PGS_SCANNED'', ''unevictable_pgs_scanned''),
     (''UNEVICTABLE_PGS_STRANDED'', ''unevictable_pgs_stranded''),
     (''WORKINGSET_ACTIVATE'', ''workingset_activate''),
     (''WORKINGSET_NODERECLAIM'', ''workingset_nodereclaim''), (''WORKINGSET_NODES'', ''workingset_nodes''),
     (''WORKINGSET_REFAULT'', ''workingset_refault''), (''WORKINGSET_RESTORE'', ''workingset_restore''),
     (''ZONE_RECLAIM_FAILED'', ''zone_reclaim_failed'')]"

definition vmstat_delta :: "(string \<times> string) list" where
  "vmstat_delta =
    [(''DELTA_ALLOCSTALL_DMA'', ''allocstall_dma''), (''DELTA_ALLOCSTALL_DMA32'', ''allocstall_dma32''),
     (''DELTA_ALLOCSTALL_HIGH'', ''allocstall_high''), (''DELTA_ALLOCSTALL_MOVABLE'', ''allocstall_movable''),
     (''DELTA_ALLOCSTALL_NORMAL'', ''allocstall_normal''), (''DELTA_BALLOON_DEFLATE'', ''balloon_deflate''),
     (''DELTA_BALLOON_INFLATE'', ''balloon_inflate''), (''DELTA_BALLOON_MIGRATE'', ''balloon_migrate''),
     (''DELTA_COMPACT_DAEMON_FREE_SCANNED'', ''compact_daemon_free_scanned''),
     (''DELTA_COMPACT_DAEMON_MIGRATE_SCANNED'', ''compact_daemon_migrate_scanned''),
     (''DELTA_COMPACT_DAEMON_WAKE'', ''compact_daemon_wake''), (''DELTA_COMPACT_FAIL'', ''compact_fail''),
     (''DELTA_COMPACT_FREE_SCANNED'', ''compact_free_scanned''),
     (''DELTA_COMPACT_ISOLATED'', ''compact_isolated''),
     (''DELTA_COMPACT_MIGRATE_SCANNED'', ''compact_migrate_scanned''),
     (''DELTA_COMPACT_STALL'', ''compact_stall''), (''DELTA_COMPACT_SUCCESS'', ''compact_success''),
     (''DELTA_DROP_PAGECACHE'', ''drop_pagecache''), (''DELTA_DROP_SLAB'', ''drop_slab''),
     (''DELTA_HTLB_BUDDY_ALLOC_FAIL'', ''htlb_buddy_alloc_fail''),
     (''DELTA_HTLB_BUDDY_ALLOC_SUCCESS'', ''htlb_buddy_alloc_success''),
     (''DELTA_KSWAPD_HIGH_WMARK_HIT_QUICKLY'', ''kswapd_high_wmark_hit_quickly''),
     (''DELTA_KSWAPD_INODESTEAL'', ''kswapd_inodesteal''),
     (''DELTA_KSWAPD_LOW_WMARK_HIT_QUICKLY'', ''kswapd_low_wmark_hit_quickly''),
     (''DELTA_NR_ACTIVE_ANON'', ''nr_active_anon''), (''DELTA_NR_ACTIVE_FILE'', ''nr_active_file''),
     (''DELTA_NR_ANON_PAGES'', ''nr_anon_pages''),
     (''DELTA_NR_ANON_TRANSPARENT_HUGEPAGES'', ''nr_anon_transparent_hugepages''),
     (''DELTA_NR_BOUNCE'', ''nr_bounce''), (''DELTA_NR_DIRTIED'', ''nr_dirtied''),
     (''DELTA_NR_DIRTY'', ''nr_dirty''),
     (''DELTA_NR_DIRTY_BACKGROUND_THRESHOLD'', ''nr_dirty_background_threshold''),
     (''DELTA_NR_DIRTY_THRESHOLD'', ''nr_dirty_threshold''),
     (''DELTA_NR_FILE_HUGEPAGES'', ''nr_file_hugepages''), (''DELTA_NR_FILE_PAGES'', ''nr_file_pages''),
     (''DELTA_NR_FILE_PMDMAPPED'', ''nr_file_pmdmapped''),
     (''DELTA_NR_FOLL_PIN_ACQUIRED'', ''nr_foll_pin_acquired''),
     (''DELTA_NR_FOLL_PIN_RELEASED'', ''nr_foll_pin_released''), (''DELTA_NR_FREE_CMA'', ''nr_free_cma''),
     (''DELTA_NR_FREE_PAGES'', ''nr_free_pages''), (''DELTA_NR_INACTIVE_ANON'', ''nr_inactive_anon''),
     (''DELTA_NR_INACTIVE_FILE'', ''nr_inactive_file''), (''DELTA_NR_ISOLATED_ANON'', ''nr_isolated_anon''),
     (''DELTA_NR_ISOLATED_FILE'', ''nr_isolated_file''),
     (''DELTA_NR_KERNEL_MISC_RECLAIMABLE'', ''nr_kernel_misc_reclaimable''),
     (''DELTA_NR_KERNEL_STACK'', ''nr_kernel_stack''), (''DELTA_NR_MAPPED'', ''nr_mapped''),
     (''DELTA_NR_MLOCK'', ''nr_mlock''), (''DELTA_NR_PAGE_TABLE_PAGES'', ''nr_page_table_pages''),
     (''DELTA_NR_SHADOW_CALL_STACK'', ''nr_shadow_call_stack''), (''DELTA_NR_SHMEM'', ''nr_shmem''),
     (''DELTA_NR_SHMEM_HUGEPAGES'', ''nr_shmem_hugepages''),
     (''DELTA_NR_SHMEM_PMDMAPPED'', ''nr_shmem_pmdmapped''),
     (''DELTA_NR_SLAB_RECLAIMABLE'', ''nr_slab_reclaimable''),
     (''DELTA_NR_SLAB_UNRECLAIMABLE'', ''nr_slab_unreclaimable''),
     (''DELTA_NR_UNEVICTABLE'', ''nr_unevictable''), (''DELTA_NR_UNSTABLE'', ''nr_unstable''),
     (''DELTA_NR_VMSCAN_IMMEDIATE_RECLAIM'', ''nr_vmscan_immediate_reclaim''),
     (''DELTA_NR_VMSCAN_WRITE'', ''nr_vmscan_write''), (''DELTA_NR_WRITEBACK'', ''nr_writeback''),
     (''DELTA_NR_WRITEBACK_TEMP'', ''nr_writeback_temp''), (''DELTA_NR_WRITTEN'', ''nr_written''),
     (''DELTA_NR_ZONE_ACTIVE_ANON'', ''nr_zone_active_anon''),
     (''DELTA_NR_ZONE_ACTIVE_FILE'', ''nr_zone_active_file''),
     (''DELTA_NR_ZONE_INACTIVE_ANON'', ''nr_zone_inactive_anon''),
     (''DELTA_NR_ZONE_INACTIVE_FILE'', ''nr_zone_inactive_file''),
     (''DELTA_NR_ZONE_UNEVICTABLE'', ''nr_zone_unevictable''),
     (''DELTA_NR_ZONE_WRITE_PENDING'', ''nr_zone_write_pending''), (''DELTA_NR_ZSPAGES'', ''nr_zspages''),
     (''DELTA_NUMA_FOREIGN'', ''numa_foreign''), (''DELTA_NUMA_HINT_FAULTS'', ''numa_hint_faults''),
     (''DELTA_NUMA_HINT_FAULTS_LOCAL'', ''numa_hint_faults_local''), (''DELTA_NUMA_HIT'', ''numa_hit''),
     (''DELTA_NUMA_HUGE_PTE_UPDATES'', ''numa_huge_pte_updates''),
     (''DELTA_NUMA_INTERLEAVE'', ''numa_interleave''), (''DELTA_NUMA_LOCAL'', ''numa_local''),
     (''DELTA_NUMA_MISS'', ''numa_miss''), (''DELTA_NUMA_OTHER'', ''numa_other''),
     (''DELTA_NUMA_PAGES_MIGRATED'', ''numa_pages_migrated''),
     (''DELTA_NUMA_PTE_UPDATES'', ''numa_pte_updates''), (''DELTA_OOM_KILL'', ''oom_kill''),
     (''DELTA_PAGEOUTRUN'', ''pageoutrun''), (''DELTA_PGACTIVATE'', ''pgactivate''),
     (''DELTA_PGALLOC_DMA'', ''pgalloc_dma''), (''DELTA_PGALLOC_DMA32'', ''pgalloc_dma32''),
     (''DELTA_PGALLOC_HIGH'', ''pgalloc_high''), (''DELTA_PGALLOC_MOVABLE'', ''pgalloc_movable''),
     (''DELTA_PGALLOC_NORMAL'', ''pgalloc_normal''), (''DELTA_PGDEACTIVATE'', ''pgdeactivate''),
     (''DELTA_PGFAULT'', ''pgfault''), (''DELTA_PGFREE'', ''pgfree''),
     (''DELTA_PGINODESTEAL'', ''pginodesteal''), (''DELTA_PGLAZYFREE'', ''pglazyfree''),
     (''DELTA_PGLAZYFREED'', ''pglazyfreed''), (''DELTA_PGMAJFAULT'', ''pgmajfault''),
     (''DELTA_PGMIGRATE_FAIL'', ''pgmigrate_fail''), (''DELTA_PGMIGRATE_SUCCESS'', ''pgmigrate_success''),
     (''DELTA_PGPGIN'', ''pgpgin''), (''DELTA_PGPGOUT'', ''pgpgout''), (''DELTA_PGREFILL'', ''pgrefill''),
     (''DELTA_PGROTATED'', ''pgrotated''), (''DELTA_PGSCAN_ANON'', ''pgscan_anon''),
     (''DELTA_PGSCAN_DIRECT'', ''pgscan_direct''),
     (''DELTA_PGSCAN_DIRECT_THROTTLE'', ''pgscan_direct_throttle''), (''DELTA_PGSCAN_FILE'', ''pgscan_file''),
     (''DELTA_PGSCAN_KSWAPD'', ''pgscan_kswapd''), (''DELTA_PGSKIP_DMA'', ''pgskip_dma''),
     (''DELTA_PGSKIP_DMA32'', ''pgskip_dma32''), (''DELTA_PGSKIP_HIGH'', ''pgskip_high''),
     (''DELTA_PGSKIP_MOVABLE'', ''pgskip_movable''), (''DELTA_PGSKIP_NORMAL'', ''pgskip_normal''),
     (''DELTA_PGSTEAL_ANON'', ''pgsteal_anon''), (''DELTA_PGSTEAL_DIRECT'', ''pgsteal_direct''),
     (''DELTA_PGSTEAL_FILE'', ''pgsteal_file''), (''DELTA_PGSTEAL_KSWAPD'', ''pgsteal_kswapd''),
     (''DELTA_PSWPIN'', ''pswpin''), (''DELTA_PSWPOUT'', ''pswpout''),
     (''DELTA_SLABS_SCANNED'', ''slabs_scanned''), (''DELTA_SWAP_RA'', ''swap_ra''),
     (''DELTA_SWAP_RA_HIT'', ''swap_ra_hit''), (''DELTA_THP_COLLAPSE_ALLOC'', ''thp_collapse_alloc''),
     (''DELTA_THP_COLLAPSE_ALLOC_FAILED'', ''thp_collapse_alloc_failed''),
     (''DELTA_THP_DEFERRED_SPLIT_PAGE'', ''thp_deferred_split_page''),
     (''DELTA_THP_FAULT_ALLOC'', ''thp_fault_alloc''), (''DELTA_THP_FAULT_FALLBACK'', ''thp_fault_fallback''),
     (''DELTA_THP_FAULT_FALLBACK_CHARGE'', ''thp_fault_fallback_charge''),
     (''DELTA_THP_FILE_ALLOC'', ''thp_file_alloc''), (''DELTA_THP_FILE_FALLBACK'', ''thp_file_fallback''),
     (''DELTA_THP_FILE_FALLBACK_CHARGE'', ''thp_file_fallback_charge''),
     (''DELTA_THP_FILE_MAPPED'', ''thp_file_mapped''), (''DELTA_THP_SPLIT_PAGE'', ''thp_split_page''),
     (''DELTA_THP_SPLIT_PAGE_FAILED'', ''thp_split_page_failed''), (''DELTA_THP_SPLIT_PMD'', ''thp_split_pmd''),
     (''DELTA_THP_SPLIT_PUD'', ''thp_split_pud''), (''DELTA_THP_SWPOUT'', ''thp_swpout''),
     (''DELTA_THP_SWPOUT_FALLBACK'', ''thp_swpout_fallback''),
     (''DELTA_THP_ZERO_PAGE_ALLOC'', ''thp_zero_page_alloc''),
     (''DELTA_THP_ZERO_PAGE_ALLOC_FAILED'', ''thp_zero_page_alloc_failed''),
     (''DELTA_UNEVICTABLE_PGS_CLEARED'', ''unevictable_pgs_cleared''),
     (''DELTA_UNEVICTABLE_PGS_CULLED'', ''unevictable_pgs_culled''),
     (''DELTA_UNEVICTABLE_PGS_MLOCKED'', ''unevictable_pgs_mlocked''),
     (''DELTA_UNEVICTABLE_PGS_MUNLOCKED'', ''unevictable_pgs_munlocked''),
     (''DELTA_UNEVICTABLE_PGS_RESCUED'', ''unevictable_pgs_rescued''),
     (''DELTA_UNEVICTABLE_PGS_SCANNED'', ''unevictable_pgs_scanned''),
     (''DELTA_UNEVICTABLE_PGS_STRANDED'', ''unevictable_pgs_stranded''),
     (''DELTA_WORKINGSET_ACTIVATE'', ''workingset_activate''),
     (''DELTA_WORKINGSET_NODERECLAIM'', ''workingset_nodereclaim''),
     (''DELTA_WORKINGSET_NODES'', ''workingset_nodes''), (''DELTA_WORKINGSET_REFAULT'', ''workingset_refault''),
     (''DELTA_WORKINGSET_RESTORE'', ''workingset_restore''),
     (''DELTA_ZONE_RECLAIM_FAILED'', ''zone_reclaim_failed'')]"

definition vmstat_sets :: "(string \<times> (vmstat_hist \<Rightarrow> rval \<Rightarrow> rval)) list" where
  "vmstat_sets =
     (''noop'', set_noop) # (''extra'', set_vmstat_extra) #
     map (\<lambda>(nm, x). (nm, VM_REG_set x)) vmstat_reg @ map (\<lambda>(nm, x). (nm, VM_HST_set x)) vmstat_delta"

text \<open>The rows of \<open>Item_table\<close>, and the enumerators with the type the header documents.\<close>

definition vmstat_reg_table :: "(string \<times> string) list" where
  "vmstat_reg_table =
    [(''noop'', ''''), (''extra'', ''''), (''ALLOCSTALL_DMA'', ''ul_int''), (''ALLOCSTALL_DMA32'', ''ul_int''),
     (''ALLOCSTALL_HIGH'', ''ul_int''), (''ALLOCSTALL_MOVABLE'', ''ul_int''),
     (''ALLOCSTALL_NORMAL'', ''ul_int''), (''BALLOON_DEFLATE'', ''ul_int''), (''BALLOON_INFLATE'', ''ul_int''),
     (''BALLOON_MIGRATE'', ''ul_int''), (''COMPACT_DAEMON_FREE_SCANNED'', ''ul_int''),
     (''COMPACT_DAEMON_MIGRATE_SCANNED'', ''ul_int''), (''COMPACT_DAEMON_WAKE'', ''ul_int''),
     (''COMPACT_FAIL'', ''ul_int''), (''COMPACT_FREE_SCANNED'', ''ul_int''), (''COMPACT_ISOLATED'', ''ul_int''),
     (''COMPACT_MIGRATE_SCANNED'', ''ul_int''), (''COMPACT_STALL'', ''ul_int''),
     (''COMPACT_SUCCESS'', ''ul_int''), (''DROP_PAGECACHE'', ''ul_int''), (''DROP_SLAB'', ''ul_int''),
     (''HTLB_BUDDY_ALLOC_FAIL'', ''ul_int''), (''HTLB_BUDDY_ALLOC_SUCCESS'', ''ul_int''),
     (''KSWAPD_HIGH_WMARK_HIT_QUICKLY'', ''ul_int''), (''KSWAPD_INODESTEAL'', ''ul_int''),
     (''KSWAPD_LOW_WMARK_HIT_QUICKLY'', ''ul_int''), (''NR_ACTIVE_ANON'', ''ul_int''),
     (''NR_ACTIVE_FILE'', ''ul_int''), (''NR_ANON_PAGES'', ''ul_int''),
     (''NR_ANON_TRANSPARENT_HUGEPAGES'', ''ul_int''), (''NR_BOUNCE'', ''ul_int''), (''NR_DIRTIED'', ''ul_int''),
     (''NR_DIRTY'', ''ul_int''), (''NR_DIRTY_BACKGROUND_THRESHOLD'', ''ul_int''),
     (''NR_DIRTY_THRESHOLD'', ''ul_int''), (''NR_FILE_HUGEPAGES'', ''ul_int''), (''NR_FILE_PAGES'', ''ul_int''),
     (''NR_FILE_PMDMAPPED'', ''ul_int''), (''NR_FOLL_PIN_ACQUIRED'', ''ul_int''),
     (''NR_FOLL_PIN_RELEASED'', ''ul_int''), (''NR_FREE_CMA'', ''ul_int''), (''NR_FREE_PAGES'', ''ul_int''),
     (''NR_INACTIVE_ANON'', ''ul_int''), (''NR_INACTIVE_FILE'', ''ul_int''), (''NR_ISOLATED_ANON'', ''ul_int''),
     (''NR_ISOLATED_FILE'', ''ul_int''), (''NR_KERNEL_MISC_RECLAIMABLE'', ''ul_int''),
     (''NR_KERNEL_STACK'', ''ul_int''), (''NR_MAPPED'', ''ul_int''), (''NR_MLOCK'', ''ul_int''),
     (''NR_PAGE_TABLE_PAGES'', ''ul_int''), (''NR_SHADOW_CALL_STACK'', ''ul_int''), (''NR_SHMEM'', ''ul_int''),
     (''NR_SHMEM_HUGEPAGES'', ''ul_int''), (''NR_SHMEM_PMDMAPPED'', ''ul_int''),
     (''NR_SLAB_RECLAIMABLE'', ''ul_int''), (''NR_SLAB_UNRECLAIMABLE'', ''ul_int''),
     (''NR_UNEVICTABLE'', ''ul_int''), (''NR_UNSTABLE'', ''ul_int''),
     (''NR_VMSCAN_IMMEDIATE_RECLAIM'', ''ul_int''), (''NR_VMSCAN_WRITE'', ''ul_int''),
     (''NR_WRITEBACK'', ''ul_int''), (''NR_WRITEBACK_TEMP'', ''ul_int''), (''NR_WRITTEN'', ''ul_int''),
     (''NR_ZONE_ACTIVE_ANON'', ''ul_int''), (''NR_ZONE_ACTIVE_FILE'', ''ul_int''),
     (''NR_ZONE_INACTIVE_ANON'', ''ul_int''), (''NR_ZONE_INACTIVE_FILE'', ''ul_int''),
     (''NR_ZONE_UNEVICTABLE'', ''ul_int''), (''NR_ZONE_WRITE_PENDING'', ''ul_int''),
     (''NR_ZSPAGES'', ''ul_int''), (''NUMA_FOREIGN'', ''ul_int''), (''NUMA_HINT_FAULTS'', ''ul_int''),
     (''NUMA_HINT_FAULTS_LOCAL'', ''ul_int''), (''NUMA_HIT'', ''ul_int''),
     (''NUMA_HUGE_PTE_UPDATES'', ''ul_int''), (''NUMA_INTERLEAVE'', ''ul_int''), (''NUMA_LOCAL'', ''ul_int''),
     (''NUMA_MISS'', ''ul_int''), (''NUMA_OTHER'', ''ul_int''), (''NUMA_PAGES_MIGRATED'', ''ul_int''),
     (''NUMA_PTE_UPDATES'', ''ul_int''), (''OOM_KILL'', ''ul_int''), (''PAGEOUTRUN'', ''ul_int''),
     (''PGACTIVATE'', ''ul_int''), (''PGALLOC_DMA'', ''ul_int''), (''PGALLOC_DMA32'', ''ul_int''),
     (''PGALLOC_HIGH'', ''ul_int''), (''PGALLOC_MOVABLE'', ''ul_int''), (''PGALLOC_NORMAL'', ''ul_int''),
     (''PGDEACTIVATE'', ''ul_int''), (''PGFAULT'', ''ul_int''), (''PGFREE'', ''ul_int''),
     (''PGINODESTEAL'', ''ul_int''), (''PGLAZYFREE'', ''ul_int''), (''PGLAZYFREED'', ''ul_int''),
     (''PGMAJFAULT'', ''ul_int''), (''PGMIGRATE_FAIL'', ''ul_int''), (''PGMIGRATE_SUCCESS'', ''ul_int''),
     (''PGPGIN'', ''ul_int''), (''PGPGOUT'', ''ul_int''), (''PGREFILL'', ''ul_int''),
     (''PGROTATED'', ''ul_int''), (''PGSCAN_ANON'', ''ul_int''), (''PGSCAN_DIRECT'', ''ul_int''),
     (''PGSCAN_DIRECT_THROTTLE'', ''ul_int''), (''PGSCAN_FILE'', ''ul_int''), (''PGSCAN_KSWAPD'', ''ul_int''),
     (''PGSKIP_DMA'', ''ul_int''), (''PGSKIP_DMA32'', ''ul_int''), (''PGSKIP_HIGH'', ''ul_int''),
     (''PGSKIP_MOVABLE'', ''ul_int''), (''PGSKIP_NORMAL'', ''ul_int''), (''PGSTEAL_ANON'', ''ul_int''),
     (''PGSTEAL_DIRECT'', ''ul_int''), (''PGSTEAL_FILE'', ''ul_int''), (''PGSTEAL_KSWAPD'', ''ul_int''),
     (''PSWPIN'', ''ul_int''), (''PSWPOUT'', ''ul_int''), (''SLABS_SCANNED'', ''ul_int''),
     (''SWAP_RA'', ''ul_int''), (''SWAP_RA_HIT'', ''ul_int''), (''THP_COLLAPSE_ALLOC'', ''ul_int''),
     (''THP_COLLAPSE_ALLOC_FAILED'', ''ul_int''), (''THP_DEFERRED_SPLIT_PAGE'', ''ul_int''),
     (''THP_FAULT_ALLOC'', ''ul_int''), (''THP_FAULT_FALLBACK'', ''ul_int''),
     (''THP_FAULT_FALLBACK_CHARGE'', ''ul_int''), (''THP_FILE_ALLOC'', ''ul_int''),
     (''THP_FILE_FALLBACK'', ''ul_int''), (''THP_FILE_FALLBACK_CHARGE'', ''ul_int''),
     (''THP_FILE_MAPPED'', ''ul_int''), (''THP_SPLIT_PAGE'', ''ul_int''),
     (''THP_SPLIT_PAGE_FAILED'', ''ul_int''), (''THP_SPLIT_PMD'', ''ul_int''), (''THP_SPLIT_PUD'', ''ul_int''),
     (''THP_SWPOUT'', ''ul_int''), (''THP_SWPOUT_FALLBACK'', ''ul_int''), (''THP_ZERO_PAGE_ALLOC'', ''ul_int''),
     (''THP_ZERO_PAGE_ALLOC_FAILED'', ''ul_int''), (''UNEVICTABLE_PGS_CLEARED'', ''ul_int''),
     (''UNEVICTABLE_PGS_CULLED'', ''ul_int''), (''UNEVICTABLE_PGS_MLOCKED'', ''ul_int''),
     (''UNEVICTABLE_PGS_MUNLOCKED'', ''ul_int''), (''UNEVICTABLE_PGS_RESCUED'', ''ul_int''),
     (''UNEVICTABLE_PGS_SCANNED'', ''ul_int''), (''UNEVICTABLE_PGS_STRANDED'', ''ul_int''),
     (''WORKINGSET_ACTIVATE'', ''ul_int''), (''WORKINGSET_NODERECLAIM'', ''ul_int''),
     (''WORKINGSET_NODES'', ''ul_int''), (''WORKINGSET_REFAULT'', ''ul_int''),
     (''WORKINGSET_RESTORE'', ''ul_int''), (''ZONE_RECLAIM_FAILED'', ''ul_int'')]"

definition vmstat_delta_table :: "(string \<times> string) list" where
  "vmstat_delta_table =
    [(''DELTA_ALLOCSTALL_DMA'', ''sl_int''), (''DELTA_ALLOCSTALL_DMA32'', ''sl_int''),
     (''DELTA_ALLOCSTALL_HIGH'', ''sl_int''), (''DELTA_ALLOCSTALL_MOVABLE'', ''sl_int''),
     (''DELTA_ALLOCSTALL_NORMAL'', ''sl_int''), (''DELTA_BALLOON_DEFLATE'', ''sl_int''),
     (''DELTA_BALLOON_INFLATE'', ''sl_int''), (''DELTA_BALLOON_MIGRATE'', ''sl_int''),
     (''DELTA_COMPACT_DAEMON_FREE_SCANNED'', ''sl_int''),
     (''DELTA_COMPACT_DAEMON_MIGRATE_SCANNED'', ''sl_int''), (''DELTA_COMPACT_DAEMON_WAKE'', ''sl_int''),
     (''DELTA_COMPACT_FAIL'', ''sl_int''), (''DELTA_COMPACT_FREE_SCANNED'', ''sl_int''),
     (''DELTA_COMPACT_ISOLATED'', ''sl_int''), (''DELTA_COMPACT_MIGRATE_SCANNED'', ''sl_int''),
     (''DELTA_COMPACT_STALL'', ''sl_int''), (''DELTA_COMPACT_SUCCESS'', ''sl_int''),
     (''DELTA_DROP_PAGECACHE'', ''sl_int''), (''DELTA_DROP_SLAB'', ''sl_int''),
     (''DELTA_HTLB_BUDDY_ALLOC_FAIL'', ''sl_int''), (''DELTA_HTLB_BUDDY_ALLOC_SUCCESS'', ''sl_int''),
     (''DELTA_KSWAPD_HIGH_WMARK_HIT_QUICKLY'', ''sl_int''), (''DELTA_KSWAPD_INODESTEAL'', ''sl_int''),
     (''DELTA_KSWAPD_LOW_WMARK_HIT_QUICKLY'', ''sl_int''), (''DELTA_NR_ACTIVE_ANON'', ''sl_int''),
     (''DELTA_NR_ACTIVE_FILE'', ''sl_int''), (''DELTA_NR_ANON_PAGES'', ''sl_int''),
     (''DELTA_NR_ANON_TRANSPARENT_HUGEPAGES'', ''sl_int''), (''DELTA_NR_BOUNCE'', ''sl_int''),
     (''DELTA_NR_DIRTIED'', ''sl_int''), (''DELTA_NR_DIRTY'', ''sl_int''),
     (''DELTA_NR_DIRTY_BACKGROUND_THRESHOLD'', ''sl_int''), (''DELTA_NR_DIRTY_THRESHOLD'', ''sl_int''),
     (''DELTA_NR_FILE_HUGEPAGES'', ''sl_int''), (''DELTA_NR_FILE_PAGES'', ''sl_int''),
     (''DELTA_NR_FILE_PMDMAPPED'', ''sl_int''), (''DELTA_NR_FOLL_PIN_ACQUIRED'', ''sl_int''),
     (''DELTA_NR_FOLL_PIN_RELEASED'', ''sl_int''), (''DELTA_NR_FREE_CMA'', ''sl_int''),
     (''DELTA_NR_FREE_PAGES'', ''sl_int''), (''DELTA_NR_INACTIVE_ANON'', ''sl_int''),
     (''DELTA_NR_INACTIVE_FILE'', ''sl_int''), (''DELTA_NR_ISOLATED_ANON'', ''sl_int''),
     (''DELTA_NR_ISOLATED_FILE'', ''sl_int''), (''DELTA_NR_KERNEL_MISC_RECLAIMABLE'', ''sl_int''),
     (''DELTA_NR_KERNEL_STACK'', ''sl_int''), (''DELTA_NR_MAPPED'', ''sl_int''),
     (''DELTA_NR_MLOCK'', ''sl_int''), (''DELTA_NR_PAGE_TABLE_PAGES'', ''sl_int''),
     (''DELTA_NR_SHADOW_CALL_STACK'', ''sl_int''), (''DELTA_NR_SHMEM'', ''sl_int''),
     (''DELTA_NR_SHMEM_HUGEPAGES'', ''sl_int''), (''DELTA_NR_SHMEM_PMDMAPPED'', ''sl_int''),
     (''DELTA_NR_SLAB_RECLAIMABLE'', ''sl_int''), (''DELTA_NR_SLAB_UNRECLAIMABLE'', ''sl_int''),
     (''DELTA_NR_UNEVICTABLE'', ''sl_int''), (''DELTA_NR_UNSTABLE'', ''sl_int''),
     (''DELTA_NR_VMSCAN_IMMEDIATE_RECLAIM'', ''sl_int''), (''DELTA_NR_VMSCAN_WRITE'', ''sl_int''),
     (''DELTA_NR_WRITEBACK'', ''sl_int''), (''DELTA_NR_WRITEBACK_TEMP'', ''sl_int''),
     (''DELTA_NR_WRITTEN'', ''sl_int''), (''DELTA_NR_ZONE_ACTIVE_ANON'', ''sl_int''),
     (''DELTA_NR_ZONE_ACTIVE_FILE'', ''sl_int''), (''DELTA_NR_ZONE_INACTIVE_ANON'', ''sl_int''),
     (''DELTA_NR_ZONE_INACTIVE_FILE'', ''sl_int''), (''DELTA_NR_ZONE_UNEVICTABLE'', ''sl_int''),
     (''DELTA_NR_ZONE_WRITE_PENDING'', ''sl_int''), (''DELTA_NR_ZSPAGES'', ''sl_int''),
     (''DELTA_NUMA_FOREIGN'', ''sl_int''), (''DELTA_NUMA_HINT_FAULTS'', ''sl_int''),
     (''DELTA_NUMA_HINT_FAULTS_LOCAL'', ''sl_int''), (''DELTA_NUMA_HIT'', ''sl_int''),
     (''DELTA_NUMA_HUGE_PTE_UPDATES'', ''sl_int''), (''DELTA_NUMA_INTERLEAVE'', ''sl_int''),
     (''DELTA_NUMA_LOCAL'', ''sl_int''), (''DELTA_NUMA_MISS'', ''sl_int''), (''DELTA_NUMA_OTHER'', ''sl_int''),
     (''DELTA_NUMA_PAGES_MIGRATED'', ''sl_int''), (''DELTA_NUMA_PTE_UPDATES'', ''sl_int''),
     (''DELTA_OOM_KILL'', ''sl_int''), (''DELTA_PAGEOUTRUN'', ''sl_int''), (''DELTA_PGACTIVATE'', ''sl_int''),
     (''DELTA_PGALLOC_DMA'', ''sl_int''), (''DELTA_PGALLOC_DMA32'', ''sl_int''),
     (''DELTA_PGALLOC_HIGH'', ''sl_int''), (''DELTA_PGALLOC_MOVABLE'', ''sl_int''),
     (''DELTA_PGALLOC_NORMAL'', ''sl_int''), (''DELTA_PGDEACTIVATE'', ''sl_int''),
     (''DELTA_PGFAULT'', ''sl_int''), (''DELTA_PGFREE'', ''sl_int''), (''DELTA_PGINODESTEAL'', ''sl_int''),
     (''DELTA_PGLAZYFREE'', ''sl_int''), (''DELTA_PGLAZYFREED'', ''sl_int''),
     (''DELTA_PGMAJFAULT'', ''sl_int''), (''DELTA_PGMIGRATE_FAIL'', ''sl_int''),
     (''DELTA_PGMIGRATE_SUCCESS'', ''sl_int''), (''DELTA_PGPGIN'', ''sl_int''), (''DELTA_PGPGOUT'', ''sl_int''),
     (''DELTA_PGREFILL'', ''sl_int''), (''DELTA_PGROTATED'', ''sl_int''), (''DELTA_PGSCAN_ANON'', ''sl_int''),
     (''DELTA_PGSCAN_DIRECT'', ''sl_int''), (''DELTA_PGSCAN_DIRECT_THROTTLE'', ''sl_int''),
     (''DELTA_PGSCAN_FILE'', ''sl_int''), (''DELTA_PGSCAN_KSWAPD'', ''sl_int''),
     (''DELTA_PGSKIP_DMA'', ''sl_int''), (''DELTA_PGSKIP_DMA32'', ''sl_int''),
     (''DELTA_PGSKIP_HIGH'', ''sl_int''), (''DELTA_PGSKIP_MOVABLE'', ''sl_int''),
     (''DELTA_PGSKIP_NORMAL'', ''sl_int''), (''DELTA_PGSTEAL_ANON'', ''sl_int''),
     (''DELTA_PGSTEAL_DIRECT'', ''sl_int''), (''DELTA_PGSTEAL_FILE'', ''sl_int''),
     (''DELTA_PGSTEAL_KSWAPD'', ''sl_int''), (''DELTA_PSWPIN'', ''sl_int''), (''DELTA_PSWPOUT'', ''sl_int''),
     (''DELTA_SLABS_SCANNED'', ''sl_int''), (''DELTA_SWAP_RA'', ''sl_int''),
     (''DELTA_SWAP_RA_HIT'', ''sl_int''), (''DELTA_THP_COLLAPSE_ALLOC'', ''sl_int''),
     (''DELTA_THP_COLLAPSE_ALLOC_FAILED'', ''sl_int''), (''DELTA_THP_DEFERRED_SPLIT_PAGE'', ''sl_int''),
     (''DELTA_THP_FAULT_ALLOC'', ''sl_int''), (''DELTA_THP_FAULT_FALLBACK'', ''sl_int''),
     (''DELTA_THP_FAULT_FALLBACK_CHARGE'', ''sl_int''), (''DELTA_THP_FILE_ALLOC'', ''sl_int''),
     (''DELTA_THP_FILE_FALLBACK'', ''sl_int''), (''DELTA_THP_FILE_FALLBACK_CHARGE'', ''sl_int''),
     (''DELTA_THP_FILE_MAPPED'', ''sl_int''), (''DELTA_THP_SPLIT_PAGE'', ''sl_int''),
     (''DELTA_THP_SPLIT_PAGE_FAILED'', ''sl_int''), (''DELTA_THP_SPLIT_PMD'', ''sl_int''),
     (''DELTA_THP_SPLIT_PUD'', ''sl_int''), (''DELTA_THP_SWPOUT'', ''sl_int''),
     (''DELTA_THP_SWPOUT_FALLBACK'', ''sl_int''), (''DELTA_THP_ZERO_PAGE_ALLOC'', ''sl_int''),
     (''DELTA_THP_ZERO_PAGE_ALLOC_FAILED'', ''sl_int''), (''DELTA_UNEVICTABLE_PGS_CLEARED'', ''sl_int''),
     (''DELTA_UNEVICTABLE_PGS_CULLED'', ''sl_int''), (''DELTA_UNEVICTABLE_PGS_MLOCKED'', ''sl_int''),
     (''DELTA_UNEVICTABLE_PGS_MUNLOCKED'', ''sl_int''), (''DELTA_UNEVICTABLE_PGS_RESCUED'', ''sl_int''),
     (''DELTA_UNEVICTABLE_PGS_SCANNED'', ''sl_int''), (''DELTA_UNEVICTABLE_PGS_STRANDED'', ''sl_int''),
     (''DELTA_WORKINGSET_ACTIVATE'', ''sl_int''), (''DELTA_WORKINGSET_NODERECLAIM'', ''sl_int''),
     (''DELTA_WORKINGSET_NODES'', ''sl_int''), (''DELTA_WORKINGSET_REFAULT'', ''sl_int''),
     (''DELTA_WORKINGSET_RESTORE'', ''sl_int''), (''DELTA_ZONE_RECLAIM_FAILED'', ''sl_int'')]"

definition vmstat_table :: "(string \<times> string) list" where
  "vmstat_table = vmstat_reg_table @ vmstat_delta_table"

definition vmstat_item_enum :: "(string \<times> string) list" where
  "vmstat_item_enum =
    [(''noop'', ''''), (''extra'', ''''), (''ALLOCSTALL_DMA'', ''ul_int''), (''ALLOCSTALL_DMA32'', ''ul_int''),
     (''ALLOCSTALL_HIGH'', ''ul_int''), (''ALLOCSTALL_MOVABLE'', ''ul_int''),
     (''ALLOCSTALL_NORMAL'', ''ul_int''), (''BALLOON_DEFLATE'', ''ul_int''), (''BALLOON_INFLATE'', ''ul_int''),
     (''BALLOON_MIGRATE'', ''ul_int''), (''COMPACT_DAEMON_FREE_SCANNED'', ''ul_int''),
     (''COMPACT_DAEMON_MIGRATE_SCANNED'', ''ul_int''), (''COMPACT_DAEMON_WAKE'', ''ul_int''),
     (''COMPACT_FAIL'', ''ul_int''), (''COMPACT_FREE_SCANNED'', ''ul_int''), (''COMPACT_ISOLATED'', ''ul_int''),
     (''COMPACT_MIGRATE_SCANNED'', ''ul_int''), (''COMPACT_STALL'', ''ul_int''),
     (''COMPACT_SUCCESS'', ''ul_int''), (''DROP_PAGECACHE'', ''ul_int''), (''DROP_SLAB'', ''ul_int''),
     (''HTLB_BUDDY_ALLOC_FAIL'', ''ul_int''), (''HTLB_BUDDY_ALLOC_SUCCESS'', ''ul_int''),
     (''KSWAPD_HIGH_WMARK_HIT_QUICKLY'', ''ul_int''), (''KSWAPD_INODESTEAL'', ''ul_int''),
     (''KSWAPD_LOW_WMARK_HIT_QUICKLY'', ''ul_int''), (''NR_ACTIVE_ANON'', ''ul_int''),
     (''NR_ACTIVE_FILE'', ''ul_int''), (''NR_ANON_PAGES'', ''ul_int''),
     (''NR_ANON_TRANSPARENT_HUGEPAGES'', ''ul_int''), (''NR_BOUNCE'', ''ul_int''), (''NR_DIRTIED'', ''ul_int''),
     (''NR_DIRTY'', ''ul_int''), (''NR_DIRTY_BACKGROUND_THRESHOLD'', ''ul_int''),
     (''NR_DIRTY_THRESHOLD'', ''ul_int''), (''NR_FILE_HUGEPAGES'', ''ul_int''), (''NR_FILE_PAGES'', ''ul_int''),
     (''NR_FILE_PMDMAPPED'', ''ul_int''), (''NR_FOLL_PIN_ACQUIRED'', ''ul_int''),
     (''NR_FOLL_PIN_RELEASED'', ''ul_int''), (''NR_FREE_CMA'', ''ul_int''), (''NR_FREE_PAGES'', ''ul_int''),
     (''NR_INACTIVE_ANON'', ''ul_int''), (''NR_INACTIVE_FILE'', ''ul_int''), (''NR_ISOLATED_ANON'', ''ul_int''),
     (''NR_ISOLATED_FILE'', ''ul_int''), (''NR_KERNEL_MISC_RECLAIMABLE'', ''ul_int''),
     (''NR_KERNEL_STACK'', ''ul_int''), (''NR_MAPPED'', ''ul_int''), (''NR_MLOCK'', ''ul_int''),
     (''NR_PAGE_TABLE_PAGES'', ''ul_int''), (''NR_SHADOW_CALL_STACK'', ''ul_int''), (''NR_SHMEM'', ''ul_int''),
     (''NR_SHMEM_HUGEPAGES'', ''ul_int''), (''NR_SHMEM_PMDMAPPED'', ''ul_int''),
     (''NR_SLAB_RECLAIMABLE'', ''ul_int''), (''NR_SLAB_UNRECLAIMABLE'', ''ul_int''),
     (''NR_UNEVICTABLE'', ''ul_int''), (''NR_UNSTABLE'', ''ul_int''),
     (''NR_VMSCAN_IMMEDIATE_RECLAIM'', ''ul_int''), (''NR_VMSCAN_WRITE'', ''ul_int''),
     (''NR_WRITEBACK'', ''ul_int''), (''NR_WRITEBACK_TEMP'', ''ul_int''), (''NR_WRITTEN'', ''ul_int''),
     (''NR_ZONE_ACTIVE_ANON'', ''ul_int''), (''NR_ZONE_ACTIVE_FILE'', ''ul_int''),
     (''NR_ZONE_INACTIVE_ANON'', ''ul_int''), (''NR_ZONE_INACTIVE_FILE'', ''ul_int''),
     (''NR_ZONE_UNEVICTABLE'', ''ul_int''), (''NR_ZONE_WRITE_PENDING'', ''ul_int''),
     (''NR_ZSPAGES'', ''ul_int''), (''NUMA_FOREIGN'', ''ul_int''), (''NUMA_HINT_FAULTS'', ''ul_int''),
     (''NUMA_HINT_FAULTS_LOCAL'', ''ul_int''), (''NUMA_HIT'', ''ul_int''),
     (''NUMA_HUGE_PTE_UPDATES'', ''ul_int''), (''NUMA_INTERLEAVE'', ''ul_int''), (''NUMA_LOCAL'', ''ul_int''),
     (''NUMA_MISS'', ''ul_int''), (''NUMA_OTHER'', ''ul_int''), (''NUMA_PAGES_MIGRATED'', ''ul_int''),
     (''NUMA_PTE_UPDATES'', ''ul_int''), (''OOM_KILL'', ''ul_int''), (''PAGEOUTRUN'', ''ul_int''),
     (''PGACTIVATE'', ''ul_int''), (''PGALLOC_DMA'', ''ul_int''), (''PGALLOC_DMA32'', ''ul_int''),
     (''PGALLOC_HIGH'', ''ul_int''), (''PGALLOC_MOVABLE'', ''ul_int''), (''PGALLOC_NORMAL'', ''ul_int''),
     (''PGDEACTIVATE'', ''ul_int''), (''PGFAULT'', ''ul_int''), (''PGFREE'', ''ul_int''),
     (''PGINODESTEAL'', ''ul_int''), (''PGLAZYFREE'', ''ul_int''), (''PGLAZYFREED'', ''ul_int''),
     (''PGMAJFAULT'', ''ul_int''), (''PGMIGRATE_FAIL'', ''ul_int''), (''PGMIGRATE_SUCCESS'', ''ul_int''),
     (''PGPGIN'', ''ul_int''), (''PGPGOUT'', ''ul_int''), (''PGREFILL'', ''ul_int''),
     (''PGROTATED'', ''ul_int''), (''PGSCAN_ANON'', ''ul_int''), (''PGSCAN_DIRECT'', ''ul_int''),
     (''PGSCAN_DIRECT_THROTTLE'', ''ul_int''), (''PGSCAN_FILE'', ''ul_int''), (''PGSCAN_KSWAPD'', ''ul_int''),
     (''PGSKIP_DMA'', ''ul_int''), (''PGSKIP_DMA32'', ''ul_int''), (''PGSKIP_HIGH'', ''ul_int''),
     (''PGSKIP_MOVABLE'', ''ul_int''), (''PGSKIP_NORMAL'', ''ul_int''), (''PGSTEAL_ANON'', ''ul_int''),
     (''PGSTEAL_DIRECT'', ''ul_int''), (''PGSTEAL_FILE'', ''ul_int''), (''PGSTEAL_KSWAPD'', ''ul_int''),
     (''PSWPIN'', ''ul_int''), (''PSWPOUT'', ''ul_int''), (''SLABS_SCANNED'', ''ul_int''),
     (''SWAP_RA'', ''ul_int''), (''SWAP_RA_HIT'', ''ul_int''), (''THP_COLLAPSE_ALLOC'', ''ul_int''),
     (''THP_COLLAPSE_ALLOC_FAILED'', ''ul_int''), (''THP_DEFERRED_SPLIT_PAGE'', ''ul_int''),
     (''THP_FAULT_ALLOC'', ''ul_int''), (''THP_FAULT_FALLBACK'', ''ul_int''),
     (''THP_FAULT_FALLBACK_CHARGE'', ''ul_int''), (''THP_FILE_ALLOC'', ''ul_int''),
     (''THP_FILE_FALLBACK'', ''ul_int''), (''THP_FILE_FALLBACK_CHARGE'', ''ul_int''),
     (''THP_FILE_MAPPED'', ''ul_int''), (''THP_SPLIT_PAGE'', ''ul_int''),
     (''THP_SPLIT_PAGE_FAILED'', ''ul_int''), (''THP_SPLIT_PMD'', ''ul_int''), (''THP_SPLIT_PUD'', ''ul_int''),
     (''THP_SWPOUT'', ''ul_int''), (''THP_SWPOUT_FALLBACK'', ''ul_int''), (''THP_ZERO_PAGE_ALLOC'', ''ul_int''),
     (''THP_ZERO_PAGE_ALLOC_FAILED'', ''ul_int''), (''UNEVICTABLE_PGS_CLEARED'', ''ul_int''),
     (''UNEVICTABLE_PGS_CULLED'', ''ul_int''), (''UNEVICTABLE_PGS_MLOCKED'', ''ul_int''),
     (''UNEVICTABLE_PGS_MUNLOCKED'', ''ul_int''), (''UNEVICTABLE_PGS_RESCUED'', ''ul_int''),
     (''UNEVICTABLE_PGS_SCANNED'', ''ul_int''), (''UNEVICTABLE_PGS_STRANDED'', ''ul_int''),
     (''WORKINGSET_ACTIVATE'', ''ul_int''), (''WORKINGSET_NODERECLAIM'', ''ul_int''),
     (''WORKINGSET_NODES'', ''ul_int''), (''WORKINGSET_REFAULT'', ''ul_int''),
     (''WORKINGSET_RESTORE'', ''ul_int''), (''ZONE_RECLAIM_FAILED'', ''ul_int''),
     (''DELTA_ALLOCSTALL_DMA'', ''sl_int''), (''DELTA_ALLOCSTALL_DMA32'', ''sl_int''),
     (''DELTA_ALLOCSTALL_HIGH'', ''sl_int''), (''DELTA_ALLOCSTALL_MOVABLE'', ''sl_int''),
     (''DELTA_ALLOCSTALL_NORMAL'', ''sl_int''), (''DELTA_BALLOON_DEFLATE'', ''sl_int''),
     (''DELTA_BALLOON_INFLATE'', ''sl_int''), (''DELTA_BALLOON_MIGRATE'', ''sl_int''),
     (''DELTA_COMPACT_DAEMON_FREE_SCANNED'', ''sl_int''),
     (''DELTA_COMPACT_DAEMON_MIGRATE_SCANNED'', ''sl_int''), (''DELTA_COMPACT_DAEMON_WAKE'', ''sl_int''),
     (''DELTA_COMPACT_FAIL'', ''sl_int''), (''DELTA_COMPACT_FREE_SCANNED'', ''sl_int''),
     (''DELTA_COMPACT_ISOLATED'', ''sl_int''), (''DELTA_COMPACT_MIGRATE_SCANNED'', ''sl_int''),
     (''DELTA_COMPACT_STALL'', ''sl_int''), (''DELTA_COMPACT_SUCCESS'', ''sl_int''),
     (''DELTA_DROP_PAGECACHE'', ''sl_int''), (''DELTA_DROP_SLAB'', ''sl_int''),
     (''DELTA_HTLB_BUDDY_ALLOC_FAIL'', ''sl_int''), (''DELTA_HTLB_BUDDY_ALLOC_SUCCESS'', ''sl_int''),
     (''DELTA_KSWAPD_HIGH_WMARK_HIT_QUICKLY'', ''sl_int''), (''DELTA_KSWAPD_INODESTEAL'', ''sl_int''),
     (''DELTA_KSWAPD_LOW_WMARK_HIT_QUICKLY'', ''sl_int''), (''DELTA_NR_ACTIVE_ANON'', ''sl_int''),
     (''DELTA_NR_ACTIVE_FILE'', ''sl_int''), (''DELTA_NR_ANON_PAGES'', ''sl_int''),
     (''DELTA_NR_ANON_TRANSPARENT_HUGEPAGES'', ''sl_int''), (''DELTA_NR_BOUNCE'', ''sl_int''),
     (''DELTA_NR_DIRTIED'', ''sl_int''), (''DELTA_NR_DIRTY'', ''sl_int''),
     (''DELTA_NR_DIRTY_BACKGROUND_THRESHOLD'', ''sl_int''), (''DELTA_NR_DIRTY_THRESHOLD'', ''sl_int''),
     (''DELTA_NR_FILE_HUGEPAGES'', ''sl_int''), (''DELTA_NR_FILE_PAGES'', ''sl_int''),
     (''DELTA_NR_FILE_PMDMAPPED'', ''sl_int''), (''DELTA_NR_FOLL_PIN_ACQUIRED'', ''sl_int''),
     (''DELTA_NR_FOLL_PIN_RELEASED'', ''sl_int''), (''DELTA_NR_FREE_CMA'', ''sl_int''),
     (''DELTA_NR_FREE_PAGES'', ''sl_int''), (''DELTA_NR_INACTIVE_ANON'', ''sl_int''),
     (''DELTA_NR_INACTIVE_FILE'', ''sl_int''), (''DELTA_NR_ISOLATED_ANON'', ''sl_int''),
     (''DELTA_NR_ISOLATED_FILE'', ''sl_int''), (''DELTA_NR_KERNEL_MISC_RECLAIMABLE'', ''sl_int''),
     (''DELTA_NR_KERNEL_STACK'', ''sl_int''), (''DELTA_NR_MAPPED'', ''sl_int''),
     (''DELTA_NR_MLOCK'', ''sl_int''), (''DELTA_NR_PAGE_TABLE_PAGES'', ''sl_int''),
     (''DELTA_NR_SHADOW_CALL_STACK'', ''sl_int''), (''DELTA_NR_SHMEM'', ''sl_int''),
     (''DELTA_NR_SHMEM_HUGEPAGES'', ''sl_int''), (''DELTA_NR_SHMEM_PMDMAPPED'', ''sl_int''),
     (''DELTA_NR_SLAB_RECLAIMABLE'', ''sl_int''), (''DELTA_NR_SLAB_UNRECLAIMABLE'', ''sl_int''),
     (''DELTA_NR_UNEVICTABLE'', ''sl_int''), (''DELTA_NR_UNSTABLE'', ''sl_int''),
     (''DELTA_NR_VMSCAN_IMMEDIATE_RECLAIM'', ''sl_int''), (''DELTA_NR_VMSCAN_WRITE'', ''sl_int''),
     (''DELTA_NR_WRITEBACK'', ''sl_int''), (''DELTA_NR_WRITEBACK_TEMP'', ''sl_int''),
     (''DELTA_NR_WRITTEN'', ''sl_int''), (''DELTA_NR_ZONE_ACTIVE_ANON'', ''sl_int''),
     (''DELTA_NR_ZONE_ACTIVE_FILE'', ''sl_int''), (''DELTA_NR_ZONE_INACTIVE_ANON'', ''sl_int''),
     (''DELTA_NR_ZONE_INACTIVE_FILE'', ''sl_int''), (''DELTA_NR_ZONE_UNEVICTABLE'', ''sl_int''),
     (''DELTA_NR_ZONE_WRITE_PENDING'', ''sl_int''), (''DELTA_NR_ZSPAGES'', ''sl_int''),
     (''DELTA_NUMA_FOREIGN'', ''sl_int''), (''DELTA_NUMA_HINT_FAULTS'', ''sl_int''),
     (''DELTA_NUMA_HINT_FAULTS_LOCAL'', ''sl_int''), (''DELTA_NUMA_HIT'', ''sl_int''),
     (''DELTA_NUMA_HUGE_PTE_UPDATES'', ''sl_int''), (''DELTA_NUMA_INTERLEAVE'', ''sl_int''),
     (''DELTA_NUMA_LOCAL'', ''sl_int''), (''DELTA_NUMA_MISS'', ''sl_int''), (''DELTA_NUMA_OTHER'', ''sl_int''),
     (''DELTA_NUMA_PAGES_MIGRATED'', ''sl_int''), (''DELTA_NUMA_PTE_UPDATES'', ''sl_int''),
     (''DELTA_OOM_KILL'', ''sl_int''), (''DELTA_PAGEOUTRUN'', ''sl_int''), (''DELTA_PGACTIVATE'', ''sl_int''),
     (''DELTA_PGALLOC_DMA'', ''sl_int''), (''DELTA_PGALLOC_DMA32'', ''sl_int''),
     (''DELTA_PGALLOC_HIGH'', ''sl_int''), (''DELTA_PGALLOC_MOVABLE'', ''sl_int''),
     (''DELTA_PGALLOC_NORMAL'', ''sl_int''), (''DELTA_PGDEACTIVATE'', ''sl_int''),
     (''DELTA_PGFAULT'', ''sl_int''), (''DELTA_PGFREE'', ''sl_int''), (''DELTA_PGINODESTEAL'', ''sl_int''),
     (''DELTA_PGLAZYFREE'', ''sl_int''), (''DELTA_PGLAZYFREED'', ''sl_int''),
     (''DELTA_PGMAJFAULT'', ''sl_int''), (''DELTA_PGMIGRATE_FAIL'', ''sl_int''),
     (''DELTA_PGMIGRATE_SUCCESS'', ''sl_int''), (''DELTA_PGPGIN'', ''sl_int''), (''DELTA_PGPGOUT'', ''sl_int''),
     (''DELTA_PGREFILL'', ''sl_int''), (''DELTA_PGROTATED'', ''sl_int''), (''DELTA_PGSCAN_ANON'', ''sl_int''),
     (''DELTA_PGSCAN_DIRECT'', ''sl_int''), (''DELTA_PGSCAN_DIRECT_THROTTLE'', ''sl_int''),
     (''DELTA_PGSCAN_FILE'', ''sl_int''), (''DELTA_PGSCAN_KSWAPD'', ''sl_int''),
     (''DELTA_PGSKIP_DMA'', ''sl_int''), (''DELTA_PGSKIP_DMA32'', ''sl_int''),
     (''DELTA_PGSKIP_HIGH'', ''sl_int''), (''DELTA_PGSKIP_MOVABLE'', ''sl_int''),
     (''DELTA_PGSKIP_NORMAL'', ''sl_int''), (''DELTA_PGSTEAL_ANON'', ''sl_int''),
     (''DELTA_PGSTEAL_DIRECT'', ''sl_int''), (''DELTA_PGSTEAL_FILE'', ''sl_int''),
     (''DELTA_PGSTEAL_KSWAPD'', ''sl_int''), (''DELTA_PSWPIN'', ''sl_int''), (''DELTA_PSWPOUT'', ''sl_int''),
     (''DELTA_SLABS_SCANNED'', ''sl_int''), (''DELTA_SWAP_RA'', ''sl_int''),
     (''DELTA_SWAP_RA_HIT'', ''sl_int''), (''DELTA_THP_COLLAPSE_ALLOC'', ''sl_int''),
     (''DELTA_THP_COLLAPSE_ALLOC_FAILED'', ''sl_int''), (''DELTA_THP_DEFERRED_SPLIT_PAGE'', ''sl_int''),
     (''DELTA_THP_FAULT_ALLOC'', ''sl_int''), (''DELTA_THP_FAULT_FALLBACK'', ''sl_int''),
     (''DELTA_THP_FAULT_FALLBACK_CHARGE'', ''sl_int''), (''DELTA_THP_FILE_ALLOC'', ''sl_int''),
     (''DELTA_THP_FILE_FALLBACK'', ''sl_int''), (''DELTA_THP_FILE_FALLBACK_CHARGE'', ''sl_int''),
     (''DELTA_THP_FILE_MAPPED'', ''sl_int''), (''DELTA_THP_SPLIT_PAGE'', ''sl_int''),
     (''DELTA_THP_SPLIT_PAGE_FAILED'', ''sl_int''), (''DELTA_THP_SPLIT_PMD'', ''sl_int''),
     (''DELTA_THP_SPLIT_PUD'', ''sl_int''), (''DELTA_THP_SWPOUT'', ''sl_int''),
     (''DELTA_THP_SWPOUT_FALLBACK'', ''sl_int''), (''DELTA_THP_ZERO_PAGE_ALLOC'', ''sl_int''),
     (''DELTA_THP_ZERO_PAGE_ALLOC_FAILED'', ''sl_int''), (''DELTA_UNEVICTABLE_PGS_CLEARED'', ''sl_int''),
     (''DELTA_UNEVICTABLE_PGS_CULLED'', ''sl_int''), (''DELTA_UNEVICTABLE_PGS_MLOCKED'', ''sl_int''),
     (''DELTA_UNEVICTABLE_PGS_MUNLOCKED'', ''sl_int''), (''DELTA_UNEVICTABLE_PGS_RESCUED'', ''sl_int''),
     (''DELTA_UNEVICTABLE_PGS_SCANNED'', ''sl_int''), (''DELTA_UNEVICTABLE_PGS_STRANDED'', ''sl_int''),
     (''DELTA_WORKINGSET_ACTIVATE'', ''sl_int''), (''DELTA_WORKINGSET_NODERECLAIM'', ''sl_int''),
     (''DELTA_WORKINGSET_NODES'', ''sl_int''), (''DELTA_WORKINGSET_REFAULT'', ''sl_int''),
     (''DELTA_WORKINGSET_RESTORE'', ''sl_int''), (''DELTA_ZONE_RECLAIM_FAILED'', ''sl_int'')]"

text \<open>
  The rows with their setters: those are declared in the order of the table, so the setter a row
  names is the one at its place.
\<close>

definition vmstat_rows :: "vmstat_hist row list" where
  "vmstat_rows = map2 (\<lambda>(nm, ty) (nm', f). (nm, f, ty)) vmstat_table vmstat_sets"

definition VMSTAT_logical_end :: nat where
  "VMSTAT_logical_end = length vmstat_table"

subsection \<open>Reading\<close>

text \<open>The keys entered by \<open>vmstat_make_hash_failed\<close>; each points to the field of its name.\<close>

definition vmstat_hash :: "string list" where
  "vmstat_hash =
    [''allocstall_dma'', ''allocstall_dma32'', ''allocstall_high'', ''allocstall_movable'',
     ''allocstall_normal'', ''balloon_deflate'', ''balloon_inflate'', ''balloon_migrate'',
     ''compact_daemon_free_scanned'', ''compact_daemon_migrate_scanned'', ''compact_daemon_wake'',
     ''compact_fail'', ''compact_free_scanned'', ''compact_isolated'', ''compact_migrate_scanned'',
     ''compact_stall'', ''compact_success'', ''drop_pagecache'', ''drop_slab'', ''htlb_buddy_alloc_fail'',
     ''htlb_buddy_alloc_success'', ''kswapd_high_wmark_hit_quickly'', ''kswapd_inodesteal'',
     ''kswapd_low_wmark_hit_quickly'', ''nr_active_anon'', ''nr_active_file'', ''nr_anon_pages'',
     ''nr_anon_transparent_hugepages'', ''nr_bounce'', ''nr_dirtied'', ''nr_dirty'',
     ''nr_dirty_background_threshold'', ''nr_dirty_threshold'', ''nr_file_hugepages'', ''nr_file_pages'',
     ''nr_file_pmdmapped'', ''nr_foll_pin_acquired'', ''nr_foll_pin_released'', ''nr_free_cma'',
     ''nr_free_pages'', ''nr_inactive_anon'', ''nr_inactive_file'', ''nr_isolated_anon'', ''nr_isolated_file'',
     ''nr_kernel_misc_reclaimable'', ''nr_kernel_stack'', ''nr_mapped'', ''nr_mlock'', ''nr_page_table_pages'',
     ''nr_shadow_call_stack'', ''nr_shmem'', ''nr_shmem_hugepages'', ''nr_shmem_pmdmapped'',
     ''nr_slab_reclaimable'', ''nr_slab_unreclaimable'', ''nr_unevictable'', ''nr_unstable'',
     ''nr_vmscan_immediate_reclaim'', ''nr_vmscan_write'', ''nr_writeback'', ''nr_writeback_temp'',
     ''nr_written'', ''nr_zone_active_anon'', ''nr_zone_active_file'', ''nr_zone_inactive_anon'',
     ''nr_zone_inactive_file'', ''nr_zone_unevictable'', ''nr_zone_write_pending'', ''nr_zspages'',
     ''numa_foreign'', ''numa_hint_faults'', ''numa_hint_faults_local'', ''numa_hit'',
     ''numa_huge_pte_updates'', ''numa_interleave'', ''numa_local'', ''numa_miss'', ''numa_other'',
     ''numa_pages_migrated'', ''numa_pte_updates'', ''oom_kill'', ''pageoutrun'', ''pgactivate'',
     ''pgalloc_dma'', ''pgalloc_dma32'', ''pgalloc_high'', ''pgalloc_movable'', ''pgalloc_normal'',
     ''pgdeactivate'', ''pgfault'', ''pgfree'', ''pginodesteal'', ''pglazyfree'', ''pglazyfreed'',
     ''pgmajfault'', ''pgmigrate_fail'', ''pgmigrate_success'', ''pgpgin'', ''pgpgout'', ''pgrefill'',
     ''pgrotated'', ''pgscan_anon'', ''pgscan_direct'', ''pgscan_direct_throttle'', ''pgscan_file'',
     ''pgscan_kswapd'', ''pgskip_dma'', ''pgskip_dma32'', ''pgskip_high'', ''pgskip_movable'',
     ''pgskip_normal'', ''pgsteal_anon'', ''pgsteal_direct'', ''pgsteal_file'', ''pgsteal_kswapd'', ''pswpin'',
     ''pswpout'', ''slabs_scanned'', ''swap_ra'', ''swap_ra_hit'', ''thp_collapse_alloc'',
     ''thp_collapse_alloc_failed'', ''thp_deferred_split_page'', ''thp_fault_alloc'', ''thp_fault_fallback'',
     ''thp_fault_fallback_charge'', ''thp_file_alloc'', ''thp_file_fallback'', ''thp_file_fallback_charge'',
     ''thp_file_mapped'', ''thp_split_page'', ''thp_split_page_failed'', ''thp_split_pmd'', ''thp_split_pud'',
     ''thp_swpout'', ''thp_swpout_fallback'', ''thp_zero_page_alloc'', ''thp_zero_page_alloc_failed'',
     ''unevictable_pgs_cleared'', ''unevictable_pgs_culled'', ''unevictable_pgs_mlocked'',
     ''unevictable_pgs_munlocked'', ''unevictable_pgs_rescued'', ''unevictable_pgs_scanned'',
     ''unevictable_pgs_stranded'', ''workingset_activate'', ''workingset_nodereclaim'', ''workingset_nodes'',
     ''workingset_refault'', ''workingset_restore'', ''zone_reclaim_failed'']"

definition VMSTAT_BUFF :: nat where
  "VMSTAT_BUFF = 8192"

text \<open>From \<open>head\<close> on: the key up to the next blank, the number after it, the rest of the line.\<close>

function count_lines :: "string \<Rightarrow> vmstat_data \<Rightarrow> vmstat_data" where
  "count_lines head d =
     (case strchr head (CHR '' '') of
        None \<Rightarrow> d
      | Some tail \<Rightarrow>
          let key = take (length head - length tail) head;
              d' = (if key \<in> set vmstat_hash then d(key := fst (strtoul (tl tail))) else d)
          in case strchr (tl tail) newline of
               None \<Rightarrow> d'
             | Some nl \<Rightarrow> count_lines (tl nl) d')"
  by pat_completeness auto
termination
proof (relation "measure (\<lambda>(head, d). length head)", goal_cases)
  case (2 head d tail key d' nl)
  from strchr_length [OF 2(1)] strchr_length [OF 2(4)] strchr_SomeD [OF 2(1)] strchr_SomeD [OF 2(4)]
  show ?case by (cases tail; cases nl) auto
qed simp

declare count_lines.simps [simp del]

type_synonym vmstat_info = "vmstat_data file_info"

definition vmstat_kind :: "vmstat_data file_kind" where
  "vmstat_kind =
     \<lparr>fk_bufsiz = VMSTAT_BUFF, fk_zero = no_counts, fk_parse = (\<lambda>buf. count_lines (cstr buf) no_counts), fk_rows = vmstat_rows\<rparr>"

definition vmstat_read_failed :: "read_env \<Rightarrow> vmstat_info \<Rightarrow> world \<Rightarrow> int option \<times> vmstat_info \<times> world" where
  "vmstat_read_failed = file_read_failed vmstat_kind"

subsection \<open>The shared functions\<close>

definition vmstat_assign_results :: "stack \<Rightarrow> vmstat_hist \<Rightarrow> stack option" where
  "vmstat_assign_results s hist = assign_results vmstat_rows hist s"

definition vmstat_itemize_stack :: "nat \<Rightarrow> item list \<Rightarrow> stack" where
  "vmstat_itemize_stack = itemize_stack"

definition vmstat_items_check_failed :: "int \<Rightarrow> nat \<times> item list \<Rightarrow> bool" where
  "vmstat_items_check_failed = items_check_failed VMSTAT_logical_end"

definition vmstat_extents_free_all :: "ext_support \<Rightarrow> ext_support" where
  "vmstat_extents_free_all = extents_free_all"

definition vmstat_stacks_alloc :: "bool \<Rightarrow> nat \<Rightarrow> ext_support \<Rightarrow> ext_support option" where
  "vmstat_stacks_alloc = stacks_alloc"

subsection \<open>The interface\<close>

definition procps_vmstat_new ::
  "new_env \<Rightarrow> vmstat_info option option \<Rightarrow> world \<Rightarrow> int \<times> vmstat_info option option \<times> world" where
  "procps_vmstat_new = file_new vmstat_kind"

definition procps_vmstat_ref :: "vmstat_info option \<times> world \<Rightarrow> int \<times> vmstat_info option \<times> world" where
  "procps_vmstat_ref = file_ref"

definition procps_vmstat_unref :: "vmstat_info option \<times> world \<Rightarrow> int \<times> vmstat_info option \<times> world" where
  "procps_vmstat_unref = file_unref"

definition procps_vmstat_get ::
  "read_env \<Rightarrow> int \<Rightarrow> item \<Rightarrow> vmstat_info option \<times> world \<Rightarrow> result_cell option \<times> vmstat_info option \<times> world" where
  "procps_vmstat_get = file_get vmstat_kind"

definition procps_vmstat_select ::
  "select_env \<Rightarrow> (nat \<times> item list) option \<Rightarrow> int \<Rightarrow> vmstat_info option \<times> world
   \<Rightarrow> (stack option \<times> vmstat_info option \<times> world) option" where
  "procps_vmstat_select = file_select vmstat_kind"

end
