(* ===== verification/VmstatCmd.thy ===== *)
theory VmstatCmd
  imports "HOL-Library.Signed_Division" Stat Meminfo Diskstats Slabinfo Vmstat Floats SysInfo
begin

unbundle bit_operations_syntax

text \<open>
  The command \<^verbatim>\<open>procps/linux/vmstat.c\<close>, on top of the library: its options, and its six reports
  over \<open>procps_stat\<close>, \<open>procps_vmstat\<close>, \<open>procps_meminfo\<close>, \<open>procps_diskstats\<close> and \<open>procps_slabinfo\<close>.

  The static variables of the options are the record \<open>vm_opts\<close>. What \<open>getopt_long\<close> makes of the arguments is
  a parameter: the options with their arguments, and the operands. A report takes what it finds at each
  step: one environment for what it does first, and a list with one for every round of its loop. When that
  list ends before the loop does, the program was interrupted there. A report gives how it ended, the lines
  it wrote to the standard output, and the open files. Messages are untranslated. The calls
  among the arguments of one \<open>printf\<close>, in an order C leaves open, are in the order of the text.
\<close>

definition UNIT_B :: ulong where "UNIT_B = 1"
definition UNIT_k :: ulong where "UNIT_k = 1000"
definition UNIT_K :: ulong where "UNIT_K = 1024"
definition UNIT_m :: ulong where "UNIT_m = 1000000"
definition UNIT_M :: ulong where "UNIT_M = 1048576"

definition VMSTAT_mode :: "32 word" where "VMSTAT_mode = 0"
definition DISKSTAT :: "32 word" where "DISKSTAT = 1"
definition VMSUMSTAT :: "32 word" where "VMSUMSTAT = 2"
definition SLABSTAT :: "32 word" where "SLABSTAT = 4"
definition PARTITIONSTAT :: "32 word" where "PARTITIONSTAT = 8"
definition DISKSUMSTAT :: "32 word" where "DISKSUMSTAT = 16"

record vm_opts =
  vo_unit :: ulong
  vo_sz_unit :: string
  vo_mode :: "32 word"
  vo_active :: bool
  vo_wide :: bool
  vo_skip :: bool
  vo_stamp :: bool
  vo_sleep :: "32 word"
  vo_infinite :: bool
  vo_updates :: ulong
  vo_height :: "32 word"
  vo_headers :: bool
  vo_partition :: "string option"

definition default_opts :: vm_opts where
  "default_opts =
     \<lparr>vo_unit = UNIT_K, vo_sz_unit = ''K'', vo_mode = VMSTAT_mode, vo_active = False, vo_wide = False, vo_skip = False,
      vo_stamp = False, vo_sleep = 1, vo_infinite = False, vo_updates = 1, vo_height = 0, vo_headers = True,
      vo_partition = None\<rparr>"

subsection \<open>Options\<close>

text \<open>What the options ask for: a report, or one of the exits.\<close>

datatype vm_action =
    Go vm_opts
  | Show_version
  | Usage bool        \<comment> \<open>on the standard output\<close>
  | Show_forks
  | Refused

definition unit_of :: "char \<Rightarrow> ulong option" where
  "unit_of c =
     (if c = CHR ''b'' \<or> c = CHR ''B'' then Some UNIT_B
      else if c = CHR ''k'' then Some UNIT_k
      else if c = CHR ''K'' then Some UNIT_K
      else if c = CHR ''m'' then Some UNIT_m
      else if c = CHR ''M'' then Some UNIT_M
      else None)"

definition strip_dev :: "string \<Rightarrow> string" where
  "strip_dev s = (if strncmp_eq s ''/dev/'' 5 then drop 5 s else s)"

fun vm_options :: "(char \<times> string) list \<Rightarrow> vm_opts \<Rightarrow> vm_action" where
  "vm_options [] opt = Go opt"
| "vm_options ((c, arg) # os) opt =
     (if c = CHR ''V'' then Show_version
      else if c = CHR ''h'' then Usage True
      else if c = CHR ''d'' then vm_options os (opt\<lparr>vo_mode := vo_mode opt OR DISKSTAT\<rparr>)
      else if c = CHR ''a'' then vm_options os (opt\<lparr>vo_active := True\<rparr>)
      else if c = CHR ''f'' then Show_forks
      else if c = CHR ''m'' then vm_options os (opt\<lparr>vo_mode := vo_mode opt OR SLABSTAT\<rparr>)
      else if c = CHR ''D'' then vm_options os (opt\<lparr>vo_mode := vo_mode opt OR DISKSUMSTAT\<rparr>)
      else if c = CHR ''n'' then vm_options os (opt\<lparr>vo_headers := False\<rparr>)
      else if c = CHR ''p'' then
        vm_options os (opt\<lparr>vo_mode := vo_mode opt OR PARTITIONSTAT, vo_partition := Some (strip_dev arg)\<rparr>)
      else if c = CHR ''S'' then
        (case arg of
           [] \<Rightarrow> Refused
         | u # us \<Rightarrow> (case unit_of u of None \<Rightarrow> Refused | Some n \<Rightarrow> vm_options os (opt\<lparr>vo_unit := n, vo_sz_unit := [u]\<rparr>)))
      else if c = CHR ''s'' then vm_options os (opt\<lparr>vo_mode := vo_mode opt OR VMSUMSTAT\<rparr>)
      else if c = CHR ''w'' then vm_options os (opt\<lparr>vo_wide := True\<rparr>)
      else if c = CHR ''t'' then vm_options os (opt\<lparr>vo_stamp := True\<rparr>)
      else if c = CHR ''y'' then vm_options os (opt\<lparr>vo_skip := True\<rparr>)
      else Usage False)"

text \<open>The operands: the delay and the count.\<close>

definition vm_delay :: "string list \<Rightarrow> vm_opts \<Rightarrow> vm_action" where
  "vm_delay args opt =
     (case args of
        [] \<Rightarrow> Go opt
      | a # _ \<Rightarrow>
          (case strtol_or_err (Some a) of
             Inl _ \<Rightarrow> Refused
           | Inr n \<Rightarrow>
               if n < 1 \<or> 2 ^ 32 - 1 < n then Refused
               else Go (opt\<lparr>vo_sleep := word_of_int n, vo_infinite := True\<rparr>)))"

definition vm_count :: "string list \<Rightarrow> vm_opts \<Rightarrow> vm_action" where
  "vm_count args opt =
     (case drop 1 args of
        [] \<Rightarrow> Go (opt\<lparr>vo_updates := 1\<rparr>)
      | b # rest \<Rightarrow>
          (case strtol_or_err (Some b) of
             Inl _ \<Rightarrow> Refused
           | Inr n \<Rightarrow> if rest \<noteq> [] then Usage False else Go (opt\<lparr>vo_updates := word_of_int n, vo_infinite := False\<rparr>)))"

text \<open>The rows of the terminal, 24 when it is none.\<close>

definition winhi :: "int option \<Rightarrow> int" where
  "winhi rows = (case rows of None \<Rightarrow> 24 | Some r \<Rightarrow> if 0 < r then r else 24)"

definition vm_height :: "int option \<Rightarrow> vm_opts \<Rightarrow> vm_opts" where
  "vm_height rows opt =
     (if vo_headers opt then opt\<lparr>vo_height := (if 0 < winhi rows - 3 then word_of_int (winhi rows - 3) else 22)\<rparr> else opt)"

definition vm_setup :: "(char \<times> string) list \<Rightarrow> string list \<Rightarrow> int option \<Rightarrow> vm_action" where
  "vm_setup os args rows =
     (case vm_options os default_opts of
        Go opt \<Rightarrow>
          (case vm_delay args opt of
             Go opt1 \<Rightarrow> (case vm_count args opt1 of Go opt2 \<Rightarrow> Go (vm_height rows opt2) | x \<Rightarrow> x)
           | x \<Rightarrow> x)
      | x \<Rightarrow> x)"

definition usage :: "string \<Rightarrow> string list" where
  "usage prog =
     [[], ''Usage:'', '' '' @ prog @ '' [options] [delay [count]]'', [], ''Options:'',
      '' -a, --active           active/inactive memory'',
      '' -f, --forks            number of forks since boot'',
      '' -m, --slabs            slabinfo'',
      '' -n, --one-header       do not redisplay header'',
      '' -s, --stats            event counter statistics'',
      '' -d, --disk             disk statistics'',
      '' -D, --disk-sum         summarize disk statistics'',
      '' -p, --partition <dev>  partition specific statistics'',
      '' -S, --unit <char>      define display unit'',
      '' -w, --wide             wide output'',
      '' -t, --timestamp        show timestamp'',
      '' -y, --no-first         skips first line of output'', [],
      '' -h, --help     display this help and exit'',
      '' -V, --version  output version information and exit'', [],
      ''For more details see vmstat(8).'']"

subsection \<open>Printing\<close>

text \<open>The conversions \<open>%<n>s\<close> and \<open>%-<n>s\<close>; columns with a space between them, no more than there are formats.\<close>

definition padl :: "nat \<Rightarrow> string \<Rightarrow> string" where
  "padl n s = replicate (n - length s) CHR '' '' @ s"

definition padr :: "nat \<Rightarrow> string \<Rightarrow> string" where
  "padr n s = s @ replicate (n - length s) CHR '' ''"

fun spaced :: "string list \<Rightarrow> string" where
  "spaced [] = []"
| "spaced [s] = s"
| "spaced (s # ss) = s @ CHR '' '' # spaced ss"

definition columns :: "nat list \<Rightarrow> string list \<Rightarrow> string" where
  "columns ws ss = spaced (map2 padl ws ss)"

definition show_u :: "'a::len word \<Rightarrow> string" where
  "show_u w = show_nat (unat w)"

definition vm_widths :: "bool \<Rightarrow> nat list" where
  "vm_widths wide =
     (if wide then [4, 4, 12, 12, 12, 12, 4, 4, 5, 5, 4, 4, 3, 3, 3, 3, 3, 3]
      else [2, 2, 6, 6, 6, 6, 4, 4, 5, 5, 4, 4, 2, 2, 2, 2, 2])"

definition timestamp_header :: string where
  "timestamp_header = '' -----timestamp-----''"

text \<open>The name of the time zone cut to the width of its column; none when \<open>strftime\<close> gives nothing.\<close>

definition zone_column :: "string option \<Rightarrow> string" where
  "zone_column zone =
     '' '' @ padl (length timestamp_header - 1)
       (case zone of None \<Rightarrow> [] | Some z \<Rightarrow> take (length timestamp_header - 1) z)"

definition stamp_column :: "vm_opts \<Rightarrow> string option \<Rightarrow> string" where
  "stamp_column opt stamp = (if vo_stamp opt then '' '' @ (case stamp of None \<Rightarrow> [] | Some t \<Rightarrow> t) else [])"

definition new_header :: "vm_opts \<Rightarrow> string option \<Rightarrow> string list" where
  "new_header opt zone =
     [(if vo_wide opt
       then ''--procs-- -----------------------memory---------------------- ---swap-- -----io---- -system-- ----------cpu----------''
       else ''procs -----------memory---------- ---swap-- -----io---- -system-- ------cpu-----'')
        @ (if vo_stamp opt then timestamp_header else []),
      columns (vm_widths (vo_wide opt))
        [''r'', ''b'', ''swpd'', ''free'', if vo_active opt then ''inact'' else ''buff'',
         if vo_active opt then ''active'' else ''cache'', ''si'', ''so'', ''bi'', ''bo'', ''in'', ''cs'', ''us'', ''sy'',
         ''id'', ''wa'', ''st'', ''gu'']
        @ (if vo_stamp opt then zone_column zone else [])]"

text \<open>A number of KiB in the unit of display, by way of \<open>float\<close>.\<close>

definition unitConvert :: "vm_opts \<Rightarrow> ulong \<Rightarrow> ulong" where
  "unitConvert opt siz =
     word_of_int \<lfloor>sgl (sgl (sgl (of_nat (unat siz)) / sgl (of_nat (unat (vo_unit opt))))
                       * (if vo_mode opt = SLABSTAT then 1 else 1024))\<rfloor>"

subsection \<open>Reading\<close>

definition enum_of :: "(string \<times> string) list \<Rightarrow> string \<Rightarrow> item" where
  "enum_of tbl nm = length (takeWhile (\<lambda>(n, _). n \<noteq> nm) tbl)"

definition First_stat_items :: "item list" where
  "First_stat_items = map (enum_of stat_item)
     [''SYS_PROC_RUNNING'', ''SYS_PROC_BLOCKED'', ''SYS_INTERRUPTS'', ''SYS_CTX_SWITCHES'', ''TIC_USER'', ''TIC_NICE'',
      ''TIC_SYSTEM'', ''TIC_IRQ'', ''TIC_SOFTIRQ'', ''TIC_IDLE'', ''TIC_IOWAIT'', ''TIC_STOLEN'', ''TIC_GUEST'', ''TIC_GUEST_NICE'']"

definition Loop_stat_items :: "item list" where
  "Loop_stat_items = map (enum_of stat_item)
     [''SYS_PROC_RUNNING'', ''SYS_PROC_BLOCKED'', ''SYS_DELTA_INTERRUPTS'', ''SYS_DELTA_CTX_SWITCHES'', ''TIC_DELTA_USER'',
      ''TIC_DELTA_NICE'', ''TIC_DELTA_SYSTEM'', ''TIC_DELTA_IRQ'', ''TIC_DELTA_SOFTIRQ'', ''TIC_DELTA_IDLE'',
      ''TIC_DELTA_IOWAIT'', ''TIC_DELTA_STOLEN'', ''TIC_DELTA_GUEST'', ''TIC_DELTA_GUEST_NICE'']"

definition Mem_items :: "item list" where
  "Mem_items = map (enum_of meminfo_item)
     [''SWAP_USED'', ''MEM_FREE'', ''MEM_ACTIVE'', ''MEM_INACTIVE'', ''MEM_BUFFERS'', ''MEM_CACHED_ALL'']"

definition Disk_items :: "item list" where
  "Disk_items = map (enum_of diskstats_item)
     [''TYPE'', ''NAME'', ''READS'', ''READS_MERGED'', ''READ_SECTORS'', ''READ_TIME'', ''WRITES'', ''WRITES_MERGED'',
      ''WRITE_SECTORS'', ''WRITE_TIME'', ''IO_INPROGRESS'', ''IO_TIME'', ''WEIGHTED_TIME'']"

definition Part_items :: "item list" where
  "Part_items = map (enum_of diskstats_item) [''READS'', ''READ_SECTORS'', ''WRITES'', ''WRITE_SECTORS'']"

definition Sum_stat_items :: "item list" where
  "Sum_stat_items = map (enum_of stat_item)
     [''TIC_USER'', ''TIC_NICE'', ''TIC_SYSTEM'', ''TIC_IDLE'', ''TIC_IOWAIT'', ''TIC_IRQ'', ''TIC_SOFTIRQ'', ''TIC_STOLEN'',
      ''TIC_GUEST'', ''TIC_GUEST_NICE'', ''SYS_CTX_SWITCHES'', ''SYS_INTERRUPTS'', ''SYS_TIME_OF_BOOT'', ''SYS_PROC_CREATED'']"

definition Sum_mem_items :: "item list" where
  "Sum_mem_items = map (enum_of meminfo_item)
     [''MEM_TOTAL'', ''MEM_USED'', ''MEM_ACTIVE'', ''MEM_INACTIVE'', ''MEM_FREE'', ''MEM_BUFFERS'', ''MEM_CACHED_ALL'',
      ''SWAP_TOTAL'', ''SWAP_USED'', ''SWAP_FREE'']"

definition slab_node_items :: "item list" where
  "slab_node_items = map (enum_of slabinfo_item)
     [''SLAB_ACTIVE_OBJS'', ''SLAB_NUM_OBJS'', ''SLAB_OBJ_SIZE'', ''SLAB_OBJ_PER_SLAB'', ''SLAB_NAME'']"

text \<open>A static array of items, as the pointer the library gets.\<close>

definition static_items :: "item list \<Rightarrow> (nat \<times> item list) option" where
  "static_items its = Some (0x10000, its)"

text \<open>The values of a stack by place; a signed member read as an unsigned one is its two's complement.\<close>

definition val_ul :: "nat \<Rightarrow> stack \<Rightarrow> ulong" where "val_ul k s = rd_ul_int (cell_val k s)"
definition val_sl :: "nat \<Rightarrow> stack \<Rightarrow> int" where "val_sl k s = rd_sl_int (cell_val k s)"
definition val_int :: "nat \<Rightarrow> stack \<Rightarrow> int" where "val_int k s = rd_s_int (cell_val k s)"

definition val_ull :: "nat \<Rightarrow> stack \<Rightarrow> ulong" where
  "val_ull k s = (case cell_val k s of Ull_int w \<Rightarrow> w | Sl_int i \<Rightarrow> word_of_int i | _ \<Rightarrow> 0)"

text \<open>A counter of \<open>/proc/vmstat\<close>, 0 when it cannot be had; several, each with what the call finds.\<close>

definition vm_get :: "read_env \<times> int \<Rightarrow> string \<Rightarrow> vmstat_info option \<times> world \<Rightarrow> ulong \<times> vmstat_info option \<times> world" where
  "vm_get e nm pw =
     (case procps_vmstat_get (fst e) (snd e) (enum_of vmstat_item_enum nm) pw of
        (r, pw1) \<Rightarrow> (case r of None \<Rightarrow> 0 | Some c \<Rightarrow> rd_ul_int (rc_val c), pw1))"

fun vm_gets :: "(read_env \<times> int) list \<Rightarrow> string list \<Rightarrow> vmstat_info option \<times> world \<Rightarrow> ulong list \<times> vmstat_info option \<times> world" where
  "vm_gets (e # es) (nm # nms) pw =
     (case vm_get e nm pw of (v, pw1) \<Rightarrow> (case vm_gets es nms pw1 of (vs, pw2) \<Rightarrow> (v # vs, pw2)))"
| "vm_gets _ _ pw = ([], pw)"

text \<open>How a report ended: with a status, or not.\<close>

datatype ending = Exited int | Interrupted

subsection \<open>The report of virtual memory\<close>

record vm_state =
  vt_vm :: "vmstat_info option"
  vt_stat :: "stat_info option"
  vt_mem :: "meminfo_info option"
  vt_world :: world            \<comment> \<open>of the first and the last\<close>
  vt_files :: int              \<comment> \<open>the streams of the second\<close>

text \<open>What making the three structures finds, and reading them.\<close>

record vm_new_envs =
  vn_vm :: new_env
  vn_stat :: "bool \<times> bool \<times> (int option \<times> (int \<Rightarrow> int) option) option \<times> stat_env"
  vn_mem :: new_env

type_synonym stat_select_env = "bool \<times> bool \<times> stat_env"

record vm_start =
  vs_new :: vm_new_envs
  vs_zone :: "string option"
  vs_gets :: "(read_env \<times> int) list"       \<comment> \<open>the four before the first line\<close>
  vs_mem :: select_env
  vs_stamp :: "string option"
  vs_stat :: stat_select_env
  vs_row_gets :: "(read_env \<times> int) list"   \<comment> \<open>the four of the first line\<close>

record vm_round =
  vr_zone :: "string option"
  vr_stat :: stat_select_env
  vr_gets :: "(read_env \<times> int) list"
  vr_stamp :: "string option"

record machine =
  mc_clk_tck :: int
  mc_pagesize :: int
  mc_numa :: numa_state

text \<open>The three structures made: false when one cannot be.\<close>

definition vm_make_stat ::
  "bool \<times> bool \<times> (int option \<times> (int \<Rightarrow> int) option) option \<times> stat_env \<Rightarrow> numa_state \<Rightarrow> int
   \<Rightarrow> (bool \<times> stat_info option \<times> int) option" where
  "vm_make_stat = (\<lambda>(calloc_ok, buf_ok, lib, e) numa files.
     map_option (\<lambda>(rc, slot, numa1, files1). (0 \<le> rc, case slot of None \<Rightarrow> None | Some p \<Rightarrow> p, files1))
       (procps_stat_new calloc_ok buf_ok lib e (Some None) (numa, files)))"

definition vm_make_file ::
  "(new_env \<Rightarrow> 'd file_info option option \<Rightarrow> world \<Rightarrow> int \<times> 'd file_info option option \<times> world) \<Rightarrow> new_env \<Rightarrow> world
   \<Rightarrow> bool \<times> 'd file_info option \<times> world" where
  "vm_make_file new e w = (case new e (Some None) w of (rc, slot, w1) \<Rightarrow> (0 \<le> rc, case slot of None \<Rightarrow> None | Some p \<Rightarrow> p, w1))"

definition vm_make :: "vm_new_envs \<Rightarrow> numa_state \<Rightarrow> world \<Rightarrow> int \<Rightarrow> (bool \<times> vm_state) option" where
  "vm_make e numa w files =
     (let s0 = \<lparr>vt_vm = None, vt_stat = None, vt_mem = None, vt_world = w, vt_files = files\<rparr>
      in case vm_make_file procps_vmstat_new (vn_vm e) w of
           (False, vm, w1) \<Rightarrow> Some (False, s0\<lparr>vt_world := w1\<rparr>)
         | (True, vm, w1) \<Rightarrow>
             (case vm_make_stat (vn_stat e) numa files of
                None \<Rightarrow> None
              | Some (False, st, files1) \<Rightarrow> Some (False, s0\<lparr>vt_vm := vm, vt_world := w1, vt_files := files1\<rparr>)
              | Some (True, st, files1) \<Rightarrow>
                  (case vm_make_file procps_meminfo_new (vn_mem e) w1 of
                     (ok, mem, w2) \<Rightarrow>
                       Some (ok, \<lparr>vt_vm = vm, vt_stat = st, vt_mem = mem, vt_world = w2, vt_files = files1\<rparr>))))"

definition vm_read_counters :: "string list \<Rightarrow> (read_env \<times> int) list \<Rightarrow> vm_state \<Rightarrow> ulong list \<times> vm_state" where
  "vm_read_counters nms es s =
     (case vm_gets es nms (vt_vm s, vt_world s) of
        (vs, vm, w) \<Rightarrow> (vs, s\<lparr>vt_vm := vm, vt_world := w\<rparr>))"

definition counters :: "string list" where
  "counters = [''PGPGIN'', ''PGPGOUT'', ''PSWPIN'', ''PSWPOUT'']"

definition vm_select_stat :: "stat_select_env \<Rightarrow> item list \<Rightarrow> vm_state \<Rightarrow> (stack option \<times> vm_state) option" where
  "vm_select_stat = (\<lambda>(realloc_ok, alloc_ok, e) its s.
     map_option (\<lambda>(r, st, files). (r, s\<lparr>vt_stat := st, vt_files := files\<rparr>))
       (procps_stat_select realloc_ok alloc_ok e (static_items its) (int (length its)) (vt_stat s, vt_files s)))"

definition vm_select_mem :: "select_env \<Rightarrow> item list \<Rightarrow> vm_state \<Rightarrow> (stack option \<times> vm_state) option" where
  "vm_select_mem e its s =
     map_option (\<lambda>(r, mem, w). (r, s\<lparr>vt_mem := mem, vt_world := w\<rparr>))
       (procps_meminfo_select e (static_items its) (int (length its)) (vt_mem s, vt_world s))"

definition vm_release :: "vm_state \<Rightarrow> vm_state" where
  "vm_release s =
     (case procps_stat_unref (vt_stat s, vt_files s) of
        (_, st, files) \<Rightarrow>
          (case procps_vmstat_unref (vt_vm s, vt_world s) of
             (_, vm, w) \<Rightarrow>
               (case procps_meminfo_unref (vt_mem s, w) of
                  (_, mem, w1) \<Rightarrow> \<lparr>vt_vm = vm, vt_stat = st, vt_mem = mem, vt_world = w1, vt_files = files\<rparr>)))"

text \<open>
  How the time of the cpus is shared out: user, system, idle, waiting, stolen and guest time, and what
  they are divided by. Guest time is part of user time.
\<close>

record cpu_time =
  cu_use :: int
  cu_sys :: int
  cu_idl :: int
  cu_iow :: int
  cu_sto :: int
  cu_gue :: int

definition cpu_total :: "cpu_time \<Rightarrow> int" where
  "cpu_total c = cu_use c + cu_sys c + cu_idl c + cu_iow c + cu_sto c"

definition cpu_shares :: "cpu_time \<Rightarrow> int \<times> cpu_time" where
  "cpu_shares c =
     (let c1 = (if cpu_total c = 0 then c\<lparr>cu_idl := 1\<rparr> else c); d = (if cpu_total c = 0 then 1 else cpu_total c)
      in (d, c1\<lparr>cu_use := (if cu_gue c \<le> cu_use c then cu_use c - cu_gue c else 0)\<rparr>))"

text \<open>Half the divisor, by an unsigned division.\<close>

definition half :: "int \<Rightarrow> int" where
  "half d = sint ((word_of_int d :: ulong) div 2)"

definition percent :: "int \<Rightarrow> int \<Rightarrow> 32 word" where
  "percent d x = word_of_int ((100 * x + half d) sdiv d)"

definition cpu_percents :: "int \<times> cpu_time \<Rightarrow> 32 word list" where
  "cpu_percents = (\<lambda>(d, c). map (percent d) [cu_use c, cu_sys c, cu_idl c, cu_iow c, cu_sto c, cu_gue c])"

text \<open>The time since boot, and that since the last read; a small debt is paid back when idle time ran backwards.\<close>

definition cpu_since_boot :: "stack \<Rightarrow> cpu_time" where
  "cpu_since_boot s =
     \<lparr>cu_use = sint (val_ull 4 s + val_ull 5 s), cu_sys = sint (val_ull 6 s + val_ull 7 s + val_ull 8 s),
      cu_idl = sint (val_ull 9 s), cu_iow = sint (val_ull 10 s), cu_sto = sint (val_ull 11 s),
      cu_gue = sint (val_ull 12 s + val_ull 13 s)\<rparr>"

definition cpu_since_last :: "stack \<Rightarrow> cpu_time" where
  "cpu_since_last s =
     \<lparr>cu_use = val_sl 4 s + val_sl 5 s, cu_sys = val_sl 6 s + val_sl 7 s + val_sl 8 s,
      cu_idl = val_sl 9 s, cu_iow = val_sl 10 s, cu_sto = val_sl 11 s, cu_gue = sint (val_ull 12 s + val_ull 13 s)\<rparr>"

definition pay_debt :: "int \<Rightarrow> cpu_time \<Rightarrow> int \<times> cpu_time" where
  "pay_debt debt c =
     (let idl = (if debt = 0 then cu_idl c else cast_int (cu_idl c) + debt)
      in if cast_int idl < 0 then (cast_int idl, c\<lparr>cu_idl := 0\<rparr>) else (0, c\<lparr>cu_idl := idl\<rparr>))"

text \<open>A line: its columns, the first two as they are, the next four converted.\<close>

record vm_row =
  vw_procs :: "ulong list"
  vw_mem :: "ulong list"
  vw_rest :: "32 word list"

datatype vm_line = Header "string option" | Row vm_row "string option"

definition print_vm_line :: "vm_opts \<Rightarrow> vm_line \<Rightarrow> string list" where
  "print_vm_line opt l =
     (case l of
        Header zone \<Rightarrow> new_header opt zone
      | Row r stamp \<Rightarrow>
          [columns (vm_widths (vo_wide opt)) (map show_u (vw_procs r) @ map show_u (vw_mem r) @ map show_u (vw_rest r))
             @ stamp_column opt stamp])"

definition mem_columns :: "vm_opts \<Rightarrow> stack \<Rightarrow> ulong list" where
  "mem_columns opt m =
     map (unitConvert opt)
       [val_ul 0 m, val_ul 1 m, if vo_active opt then val_ul 3 m else val_ul 4 m, if vo_active opt then val_ul 2 m else val_ul 5 m]"

definition kb_per_page :: "machine \<Rightarrow> ulong" where
  "kb_per_page mc = word_of_int (mc_pagesize mc) div 1024"

text \<open>The averages since boot, from the counters \<open>[pgpgin, pgpgout, pswpin, pswpout]\<close>.\<close>

definition first_row :: "vm_opts \<Rightarrow> machine \<Rightarrow> stack \<Rightarrow> stack \<Rightarrow> ulong list \<Rightarrow> vm_row" where
  "first_row opt mc s m vs =
     (let (d, c) = cpu_shares (cpu_since_boot s); hz = word_of_int (procps_hertz_get (mc_clk_tck mc));
          rate = (\<lambda>n. ucast ((n * hz + word_of_int (half d)) div word_of_int d :: ulong) :: 32 word);
          kib = (\<lambda>n. unitConvert opt (n * kb_per_page mc))
      in \<lparr>vw_procs = [val_ul 0 s, val_ul 1 s], vw_mem = mem_columns opt m,
          vw_rest = [rate (kib (vs ! 2)), rate (kib (vs ! 3)), rate (vs ! 0), rate (vs ! 1), rate (val_ul 2 s), rate (val_ul 3 s)]
                    @ cpu_percents (d, c)\<rparr>)"

text \<open>The changes per second since the counters \<open>old\<close>, and the debt left.\<close>

definition loop_row ::
  "vm_opts \<Rightarrow> machine \<Rightarrow> stack \<Rightarrow> stack \<Rightarrow> ulong list \<Rightarrow> ulong list \<Rightarrow> int \<Rightarrow> vm_row \<times> int" where
  "loop_row opt mc s m old vs debt =
     (let (debt1, c0) = pay_debt debt (cpu_since_last s); secs = vo_sleep opt; sleep_half = secs div 2;
          per_sec = (\<lambda>n. ucast ((n + ucast sleep_half) div ucast secs :: ulong) :: 32 word);
          kib = (\<lambda>k. unitConvert opt ((vs ! k - old ! k) * kb_per_page mc));
          delta = (\<lambda>k. (word_of_int (val_int k s) + sleep_half) div secs :: 32 word)
      in (\<lparr>vw_procs = [val_ul 0 s, val_ul 1 s], vw_mem = mem_columns opt m,
           vw_rest = [per_sec (kib 2), per_sec (kib 3), per_sec (vs ! 0 - old ! 0), per_sec (vs ! 1 - old ! 1), delta 2, delta 3]
                     @ cpu_percents (cpu_shares c0)\<rparr>, debt1))"

text \<open>
  The loop, with the stack of memory that was selected before it, the counters of the last round and
  the debt: how it ended, the lines, and the structures.
\<close>

definition more_rounds :: "vm_opts \<Rightarrow> 32 word \<Rightarrow> bool" where
  "more_rounds opt i \<longleftrightarrow> vo_infinite opt \<or> (ucast i :: ulong) < vo_updates opt"

definition new_page :: "vm_opts \<Rightarrow> 32 word \<Rightarrow> string option \<Rightarrow> vm_line list" where
  "new_page opt i zone = (if vo_headers opt \<and> i mod vo_height opt = 0 then [Header zone] else [])"

fun vm_rounds ::
  "vm_opts \<Rightarrow> machine \<Rightarrow> stack \<Rightarrow> vm_round list \<Rightarrow> 32 word \<Rightarrow> ulong list \<Rightarrow> int \<Rightarrow> vm_state
   \<Rightarrow> (ending \<times> vm_line list \<times> vm_state) option" where
  "vm_rounds opt mc m [] i old debt s =
     Some (if more_rounds opt i then (Interrupted, [], s) else (Exited 0, [], vm_release s))"
| "vm_rounds opt mc m (e # es) i old debt s =
     (if \<not> more_rounds opt i then Some (Exited 0, [], vm_release s)
      else
        let page = new_page opt i (vr_zone e)
        in case vm_select_stat (vr_stat e) Loop_stat_items s of
             None \<Rightarrow> None
           | Some (None, s1) \<Rightarrow> Some (Exited 1, page, s1)
           | Some (Some st, s1) \<Rightarrow>
               (case vm_read_counters counters (vr_gets e) s1 of
                  (vs, s2) \<Rightarrow>
                    (case loop_row opt mc st m old vs debt of
                       (r, debt1) \<Rightarrow>
                         map_option (\<lambda>(en, ls, s3). (en, page @ Row r (vr_stamp e) # ls, s3))
                           (vm_rounds opt mc m es (i + 1) vs debt1 s2))))"

text \<open>The first line, unless it is skipped, and the loop.\<close>

definition new_format ::
  "vm_opts \<Rightarrow> machine \<Rightarrow> vm_start \<Rightarrow> vm_round list \<Rightarrow> world \<Rightarrow> int \<Rightarrow> (ending \<times> vm_line list \<times> vm_state) option" where
  "new_format opt mc st es w files =
     (case vm_make (vs_new st) (mc_numa mc) w files of
        None \<Rightarrow> None
      | Some (False, s) \<Rightarrow> Some (Exited 1, [], s)
      | Some (True, s) \<Rightarrow>
          (case vm_read_counters counters (vs_gets st) s of
             (vs, s1) \<Rightarrow>
               (let top = [Header (vs_zone st)]
                in case vm_select_mem (vs_mem st) Mem_items s1 of
                  None \<Rightarrow> None
                | Some (None, s2) \<Rightarrow> Some (Exited 1, top, s2)
                | Some (Some m, s2) \<Rightarrow>
                    if vo_skip opt then
                      map_option (\<lambda>(en, ls, s3). (en, top @ ls, s3))
                        (vm_rounds (opt\<lparr>vo_updates := vo_updates opt + 1\<rparr>) mc m es 1 vs 0 s2)
                    else
                      (case vm_select_stat (vs_stat st) First_stat_items s2 of
                         None \<Rightarrow> None
                       | Some (None, s3) \<Rightarrow> Some (Exited 1, top, s3)
                       | Some (Some t, s3) \<Rightarrow>
                           (case vm_read_counters [''PSWPIN'', ''PSWPOUT'', ''PGPGIN'', ''PGPGOUT''] (vs_row_gets st) s3 of
                              (now, s4) \<Rightarrow>
                                map_option (\<lambda>(en, ls, s5). (en, top @ Row (first_row opt mc t m [now ! 2, now ! 3, now ! 0, now ! 1]) (vs_stamp st) # ls, s5))
                                  (vm_rounds opt mc m es 1 vs 0 s4))))))"

subsection \<open>The reports of disks\<close>

definition vm_make_disk :: "bool \<times> disk_env \<Rightarrow> int \<Rightarrow> bool \<times> diskstats_info option \<times> int" where
  "vm_make_disk = (\<lambda>(calloc_ok, e) files.
     case procps_diskstats_new calloc_ok e (Some None) files of
       (rc, slot, files1) \<Rightarrow> (0 \<le> rc, case slot of None \<Rightarrow> None | Some p \<Rightarrow> p, files1))"

text \<open>Is there another round after round \<open>i\<close>, which an \<open>int\<close> counts here?\<close>

definition again :: "vm_opts \<Rightarrow> nat \<Rightarrow> bool" where
  "again opt i \<longleftrightarrow> vo_infinite opt \<or> (of_nat i :: ulong) < vo_updates opt"

text \<open>A round for each environment; the first line of a page is numbered 0.\<close>

fun run_rounds ::
  "(nat \<Rightarrow> bool) \<Rightarrow> ('e \<Rightarrow> 's \<Rightarrow> (bool \<times> string list \<times> 's) option) \<Rightarrow> ('s \<Rightarrow> 's) \<Rightarrow> 'e list \<Rightarrow> nat \<Rightarrow> 's
   \<Rightarrow> (ending \<times> string list \<times> 's) option" where
  "run_rounds goes step quit [] i s = Some (if goes i then (Interrupted, [], s) else (Exited 0, [], quit s))"
| "run_rounds goes step quit (e # es) i s =
     (if \<not> goes i then Some (Exited 0, [], quit s)
      else case step e s of
             None \<Rightarrow> None
           | Some (False, ls, s1) \<Rightarrow> Some (Exited 1, ls, s1)
           | Some (True, ls, s1) \<Rightarrow>
               map_option (\<lambda>(en, ls1, s2). (en, ls @ ls1, s2)) (run_rounds goes step quit es (i + 1) s1))"

definition release_disk :: "diskstats_info option \<times> int \<Rightarrow> diskstats_info option \<times> int" where
  "release_disk s = (case procps_diskstats_unref s of (_, p, files) \<Rightarrow> (p, files))"

definition diskpartition_header :: "string \<Rightarrow> string" where
  "diskpartition_header name =
     padr 10 name @ '' '' @ padl 10 ''reads'' @ ''  '' @ padl 16 ''read sectors'' @ ''  '' @ padl 10 ''writes'' @ ''  ''
       @ padl 16 ''requested writes''"

definition partition_line :: "stack \<Rightarrow> string" where
  "partition_line s =
     padl 21 (show_u (val_ul 0 s)) @ ''  '' @ padl 16 (show_u (val_ul 1 s)) @ ''  '' @ padl 10 (show_u (val_ul 2 s)) @ ''  ''
       @ padl 16 (show_u (val_ul 3 s))"

definition partition_round ::
  "string \<Rightarrow> bool \<times> bool \<times> disk_env \<Rightarrow> diskstats_info option \<times> int \<Rightarrow> (bool \<times> string list \<times> diskstats_info option \<times> int) option" where
  "partition_round name = (\<lambda>(realloc_ok, alloc_ok, e) s.
     map_option (\<lambda>(r, p, files). case r of None \<Rightarrow> (False, [], p, files) | Some t \<Rightarrow> (True, [partition_line t], p, files))
       (procps_diskstats_select realloc_ok alloc_ok e name (static_items Part_items) (int (length Part_items)) s))"

definition diskpartition_format ::
  "vm_opts \<Rightarrow> string \<Rightarrow> bool \<times> disk_env \<Rightarrow> disk_env \<Rightarrow> (bool \<times> bool \<times> disk_env) list \<Rightarrow> int
   \<Rightarrow> (ending \<times> string list \<times> diskstats_info option \<times> int) option" where
  "diskpartition_format opt name new e es files =
     (case vm_make_disk new files of
        (False, p, files1) \<Rightarrow> Some (Exited 1, [], p, files1)
      | (True, p, files1) \<Rightarrow>
          (case procps_diskstats_get e name (enum_of diskstats_item ''TYPE'') (p, files1) of
             (None, p1, files2) \<Rightarrow> Some (Exited 1, [], p1, files2)
           | (Some r, p1, files2) \<Rightarrow>
               map_option (\<lambda>(en, ls, s). (en, diskpartition_header name # ls, s))
                 (run_rounds (again opt) (partition_round name) release_disk es 0 (p1, files2))))"

definition disk_widths :: "bool \<Rightarrow> nat list" where
  "disk_widths wide = (if wide then [9, 9, 11, 11, 9, 9, 11, 11, 7, 7] else [6, 6, 7, 7, 6, 6, 7, 7, 6, 6])"

definition diskheader :: "vm_opts \<Rightarrow> string option \<Rightarrow> string list" where
  "diskheader opt zone =
     [(if vo_wide opt
       then ''disk- -------------------reads------------------- -------------------writes------------------ ------IO-------''
       else ''disk- ------------reads------------ ------------writes----------- -----IO------'')
        @ (if vo_stamp opt then timestamp_header else []),
      columns (5 # disk_widths (vo_wide opt))
        ['' '', ''total'', ''merged'', ''sectors'', ''ms'', ''total'', ''merged'', ''sectors'', ''ms'', ''cur'', ''sec'']
        @ (if vo_stamp opt then zone_column zone else [])]"

definition is_disk :: "stack \<Rightarrow> bool" where
  "is_disk s \<longleftrightarrow> val_int 0 s = DISKSTATS_TYPE_DISK"

definition vm_disk_line :: "vm_opts \<Rightarrow> string option \<Rightarrow> stack \<Rightarrow> string" where
  "vm_disk_line opt stamp s =
     padr 5 (rd_str (cell_val 1 s)) @ '' ''
       @ columns (disk_widths (vo_wide opt))
           (map (\<lambda>k. show_u (val_ul k s)) [2, 3, 4, 5, 6, 7, 8, 9] @ [show_int (val_int 10 s sdiv 1000), show_u (val_ul 11 s div 1000)])
       @ stamp_column opt stamp"

text \<open>The disks of a reap, with the header at every page of the table: a partition in its place leaves it out.\<close>

fun disk_lines_from :: "vm_opts \<Rightarrow> string option \<Rightarrow> string option \<Rightarrow> nat \<Rightarrow> stack list \<Rightarrow> string list" where
  "disk_lines_from opt zone stamp j [] = []"
| "disk_lines_from opt zone stamp j (s # ss) =
     (if is_disk s
      then (if vo_headers opt \<and> of_nat j mod vo_height opt = 0 then diskheader opt zone else []) @ [vm_disk_line opt stamp s]
      else [])
     @ disk_lines_from opt zone stamp (j + 1) ss"

record disk_round =
  dr_reap :: reap_env
  dr_zone :: "string option"
  dr_stamp :: "string option"

definition disk_table_round ::
  "vm_opts \<Rightarrow> disk_round \<Rightarrow> diskstats_info option \<times> int \<Rightarrow> (bool \<times> string list \<times> diskstats_info option \<times> int) option" where
  "disk_table_round opt e s =
     map_option (\<lambda>(r, p, files).
         case r of None \<Rightarrow> (False, [], p, files)
         | Some (n, ss) \<Rightarrow> (True, disk_lines_from opt (dr_zone e) (dr_stamp e) 0 (take n ss), p, files))
       (procps_diskstats_reap (dr_reap e) (static_items Disk_items) (int (length Disk_items)) s)"

definition diskformat ::
  "vm_opts \<Rightarrow> bool \<times> disk_env \<Rightarrow> string option \<Rightarrow> disk_round list \<Rightarrow> int
   \<Rightarrow> (ending \<times> string list \<times> diskstats_info option \<times> int) option" where
  "diskformat opt new zone es files =
     (case vm_make_disk new files of
        (False, p, files1) \<Rightarrow> Some (Exited 1, [], p, files1)
      | (True, p, files1) \<Rightarrow>
          map_option (\<lambda>(en, ls, s). (en, (if vo_headers opt then [] else diskheader opt zone) @ ls, s))
            (run_rounds (again opt) (disk_table_round opt) release_disk es 0 (p, files1)))"

text \<open>Sums over the disks: the eleven numbers, after the counts of disks and partitions.\<close>

definition vm_disk_numbers :: "stack \<Rightarrow> ulong list" where
  "vm_disk_numbers s =
     map (\<lambda>k. val_ul k s) [2, 3, 4, 5, 6, 7, 8, 9]
     @ [word_of_int (val_int 10 s sdiv 1000), val_ul 11 s div 1000, val_ul 12 s div 1000]"

fun disk_sums :: "stack list \<Rightarrow> nat \<times> nat \<times> ulong list \<Rightarrow> nat \<times> nat \<times> ulong list" where
  "disk_sums [] t = t"
| "disk_sums (s # ss) (disks, parts, acc) =
     disk_sums ss (if is_disk s then (disks + 1, parts, map2 (+) acc (vm_disk_numbers s)) else (disks, parts + 1, acc))"

definition labelled :: "string \<times> string \<Rightarrow> string" where
  "labelled = (\<lambda>(n, label). padl 13 n @ '' '' @ label)"

definition disksum_lines :: "nat \<times> nat \<times> ulong list \<Rightarrow> string list" where
  "disksum_lines = (\<lambda>(disks, parts, acc).
     map labelled
       ((show_nat disks, ''disks'') # (show_nat parts, ''partitions'')
        # zip (map show_u acc)
            [''total reads'', ''merged reads'', ''read sectors'', ''milli reading'', ''writes'', ''merged writes'',
             ''written sectors'', ''milli writing'', ''inprogress IO'', ''milli spent IO'', ''milli weighted IO'']))"

definition disksum_format ::
  "bool \<times> disk_env \<Rightarrow> reap_env \<Rightarrow> int \<Rightarrow> (ending \<times> string list \<times> diskstats_info option \<times> int) option" where
  "disksum_format new e files =
     (case vm_make_disk new files of
        (False, p, files1) \<Rightarrow> Some (Exited 1, [], p, files1)
      | (True, p, files1) \<Rightarrow>
          map_option (\<lambda>(r, s).
              case r of None \<Rightarrow> (Exited 1, [], s)
              | Some (n, ss) \<Rightarrow> (Exited 0, disksum_lines (disk_sums (take n ss) (0, 0, replicate 11 0)), release_disk s))
            (procps_diskstats_reap e (static_items Disk_items) (int (length Disk_items)) (p, files1)))"

subsection \<open>The report of slabs\<close>

definition slabheader :: string where
  "slabheader = padr 24 ''Cache'' @ '' '' @ columns [6, 6, 6, 6] [''Num'', ''Total'', ''Size'', ''Pages'']"

definition vm_slab_line :: "stack \<Rightarrow> string" where
  "vm_slab_line s =
     padr 24 (take 24 (rd_str (cell_val 4 s))) @ '' ''
       @ columns [6, 6, 6, 6] (map (\<lambda>k. show_u (rd_u_int (cell_val k s))) [0, 1, 2, 3])"

definition slab_lines_from :: "vm_opts \<Rightarrow> stack list \<Rightarrow> string list" where
  "slab_lines_from opt ss =
     concat (map (\<lambda>(j, s). (if vo_headers opt \<and> of_nat j mod vo_height opt = 0 then [slabheader] else []) @ [vm_slab_line s])
       (zip [0 ..< length ss] ss))"

text \<open>The caches are sorted by name, as \<open>strcoll\<close> compares them.\<close>

definition slab_round ::
  "(string \<Rightarrow> string \<Rightarrow> int) \<Rightarrow> vm_opts \<Rightarrow> slab_reap_env \<Rightarrow> slabinfo_info option \<times> int
   \<Rightarrow> (bool \<times> string list \<times> slabinfo_info option \<times> int) option" where
  "slab_round strcoll opt e s =
     (case procps_slabinfo_reap e (static_items slab_node_items) (int (length slab_node_items)) s of
        None \<Rightarrow> None
      | Some (None, s1) \<Rightarrow> Some (False, [], s1)
      | Some (Some (n, ss), s1) \<Rightarrow>
          (case procps_slabinfo_sort strcoll (fst s1) (Some (take n ss)) (enum_of slabinfo_item ''SLAB_NAME'') 1 of
             None \<Rightarrow> None
           | Some None \<Rightarrow> Some (False, [], s1)
           | Some (Some srt) \<Rightarrow> Some (True, slab_lines_from opt srt, s1)))"

definition slabformat ::
  "(string \<Rightarrow> string \<Rightarrow> int) \<Rightarrow> vm_opts \<Rightarrow> bool \<times> slab_env \<Rightarrow> slab_reap_env list \<Rightarrow> int
   \<Rightarrow> (ending \<times> string list \<times> slabinfo_info option \<times> int) option" where
  "slabformat strcoll opt new es files =
     (case procps_slabinfo_new (fst new) (snd new) (Some None) files of
        (rc, slot, files1) \<Rightarrow>
          let p = (case slot of None \<Rightarrow> None | Some p \<Rightarrow> p)
          in if rc < 0 then Some (Exited 1, [], p, files1)
             else map_option (\<lambda>(en, ls, s). (en, (if vo_headers opt then [] else [slabheader]) @ ls, s))
                    (run_rounds (again opt) (slab_round strcoll opt)
                       (\<lambda>s. case procps_slabinfo_unref s of (_, p, files) \<Rightarrow> (p, files)) es 0 (p, files1)))"

subsection \<open>Totals and forks\<close>

record sum_envs =
  se_stat :: "bool \<times> bool \<times> (int option \<times> (int \<Rightarrow> int) option) option \<times> stat_env"
  se_stat_select :: stat_select_env
  se_vm :: new_env
  se_mem :: new_env
  se_mem_select :: select_env
  se_gets :: "(read_env \<times> int) list"

text \<open>The lines from the two stacks and the counters \<open>[pgpgin, pgpgout, pswpin, pswpout]\<close>.\<close>

definition sum_lines :: "vm_opts \<Rightarrow> stack \<Rightarrow> stack \<Rightarrow> ulong list \<Rightarrow> string list" where
  "sum_lines opt st m vs =
     map labelled
       (map (\<lambda>(k, label). (show_u (unitConvert opt (val_ul k m)), vo_sz_unit opt @ '' '' @ label))
          [(0, ''total memory''), (1, ''used memory''), (2, ''active memory''), (3, ''inactive memory''),
           (4, ''free memory''), (5, ''buffer memory''), (6, ''swap cache''), (7, ''total swap''), (8, ''used swap''),
           (9, ''free swap'')]
        @ map (\<lambda>(k, label). (show_int (sint (val_ull k st)), label))
            [(0, ''non-nice user cpu ticks''), (1, ''nice user cpu ticks''), (2, ''system cpu ticks''),
             (3, ''idle cpu ticks''), (4, ''IO-wait cpu ticks''), (5, ''IRQ cpu ticks''), (6, ''softirq cpu ticks''),
             (7, ''stolen cpu ticks''), (8, ''non-nice guest cpu ticks''), (9, ''nice guest cpu ticks'')]
        @ zip (map show_u vs) [''K paged in'', ''K paged out'', ''pages swapped in'', ''pages swapped out'']
        @ map (\<lambda>(k, label). (show_u (val_ul k st), label))
            [(11, ''interrupts''), (10, ''CPU context switches''), (12, ''boot time''), (13, ''forks'')])"

text \<open>The five steps that may fail, in the order of the code: what they leave, and the two stacks.\<close>

definition sum_read ::
  "sum_envs \<Rightarrow> numa_state \<Rightarrow> world \<Rightarrow> int \<Rightarrow> ((stack \<times> stack) option \<times> vm_state) option" where
  "sum_read e numa w files =
     (case vm_make_stat (se_stat e) numa files of
        None \<Rightarrow> None
      | Some (made, st, files1) \<Rightarrow>
          let s0 = \<lparr>vt_vm = None, vt_stat = st, vt_mem = None, vt_world = w, vt_files = files1\<rparr>
          in if \<not> made then Some (None, s0)
             else
               case vm_select_stat (se_stat_select e) Sum_stat_items s0 of
                 None \<Rightarrow> None
               | Some (None, s1) \<Rightarrow> Some (None, s1)
               | Some (Some t, s1) \<Rightarrow>
                   (case vm_make_file procps_vmstat_new (se_vm e) w of
                      (False, vm, w1) \<Rightarrow> Some (None, s1\<lparr>vt_vm := vm, vt_world := w1\<rparr>)
                    | (True, vm, w1) \<Rightarrow>
                        (case vm_make_file procps_meminfo_new (se_mem e) w1 of
                           (False, mem, w2) \<Rightarrow> Some (None, s1\<lparr>vt_vm := vm, vt_mem := mem, vt_world := w2\<rparr>)
                         | (True, mem, w2) \<Rightarrow>
                             map_option (\<lambda>(r, s2). (map_option (\<lambda>m. (t, m)) r, s2))
                               (vm_select_mem (se_mem_select e) Sum_mem_items
                                  (s1\<lparr>vt_vm := vm, vt_mem := mem, vt_world := w2\<rparr>)))))"

definition sum_format ::
  "vm_opts \<Rightarrow> machine \<Rightarrow> sum_envs \<Rightarrow> world \<Rightarrow> int \<Rightarrow> (ending \<times> string list \<times> vm_state) option" where
  "sum_format opt mc e w files =
     map_option (\<lambda>(r, s).
         case r of
           None \<Rightarrow> (Exited 1, [], s)
         | Some (t, m) \<Rightarrow>
             (case vm_read_counters counters (se_gets e) s of
                (vs, s1) \<Rightarrow> (Exited 0, sum_lines opt t m vs, vm_release s1)))
       (sum_read e (mc_numa mc) w files)"

record fork_envs =
  fk_new :: "bool \<times> bool \<times> (int option \<times> (int \<Rightarrow> int) option) option \<times> stat_env"
  fk_get :: stat_env
  fk_secs :: int

definition fork_format ::
  "machine \<Rightarrow> fork_envs \<Rightarrow> int \<Rightarrow> (ending \<times> string list \<times> int) option" where
  "fork_format mc e files =
     (case vm_make_stat (fk_new e) (mc_numa mc) files of
        None \<Rightarrow> None
      | Some (False, st, files1) \<Rightarrow> Some (Exited 1, [], files1)
      | Some (True, st, files1) \<Rightarrow>
          map_option (\<lambda>(r, st1, files2).
              (Exited 0,
               [labelled (show_u (case r of None \<Rightarrow> 0 | Some c \<Rightarrow> rd_ul_int (rc_val c)), ''forks'')],
               snd (snd (procps_stat_unref (st1, files2)))))
            (procps_stat_get (fk_get e) (fk_secs e) (enum_of stat_item ''SYS_PROC_CREATED'') (st, files1)))"

subsection \<open>The command\<close>

text \<open>What each report finds; the arguments with the terminal, and the collation of the locale.\<close>

record vm_finds =
  vf_start :: vm_start
  vf_rounds :: "vm_round list"
  vf_sum :: sum_envs
  vf_fork :: fork_envs
  vf_disk_new :: "bool \<times> disk_env"
  vf_disk_zone :: "string option"
  vf_disk :: "disk_round list"
  vf_part_get :: disk_env
  vf_part :: "(bool \<times> bool \<times> disk_env) list"
  vf_slab_new :: "bool \<times> slab_env"
  vf_slab :: "slab_reap_env list"
  vf_strcoll :: "string \<Rightarrow> string \<Rightarrow> int"

text \<open>The result: how it ended, the standard output, the usage when it goes to the standard error, and the open files.\<close>

definition on_stdout :: "(ending \<times> string list \<times> 's) option \<Rightarrow> ('s \<Rightarrow> 'f) \<Rightarrow> (ending \<times> string list \<times> string list \<times> 'f) option" where
  "on_stdout r f = map_option (\<lambda>(en, ls, s). (en, ls, [], f s)) r"

definition run_mode ::
  "string \<Rightarrow> vm_opts \<Rightarrow> machine \<Rightarrow> vm_finds \<Rightarrow> world \<Rightarrow> int \<Rightarrow> (ending \<times> string list \<times> string list \<times> world \<times> int) option" where
  "run_mode prog opt mc e w files =
     (if vo_mode opt = VMSTAT_mode then
        on_stdout (map_option (\<lambda>(en, ls, s). (en, concat (map (print_vm_line opt) ls), s))
                     (new_format opt mc (vf_start e) (vf_rounds e) w files))
          (\<lambda>s. (vt_world s, vt_files s))
      else if vo_mode opt = VMSUMSTAT then
        on_stdout (sum_format opt mc (vf_sum e) w files) (\<lambda>s. (vt_world s, vt_files s))
      else if vo_mode opt = DISKSTAT then
        on_stdout (diskformat opt (vf_disk_new e) (vf_disk_zone e) (vf_disk e) files) (\<lambda>s. (w, snd s))
      else if vo_mode opt = PARTITIONSTAT then
        on_stdout (diskpartition_format opt (case vo_partition opt of None \<Rightarrow> [] | Some d \<Rightarrow> d) (vf_disk_new e) (vf_part_get e) (vf_part e) files)
          (\<lambda>s. (w, snd s))
      else if vo_mode opt = SLABSTAT then
        on_stdout (slabformat (vf_strcoll e) opt (vf_slab_new e) (vf_slab e) files) (\<lambda>s. (w, snd s))
      else if vo_mode opt = DISKSUMSTAT then
        (case vf_disk e of
           [] \<Rightarrow> Some (Interrupted, [], [], w, files)
         | r # _ \<Rightarrow> on_stdout (disksum_format (vf_disk_new e) (dr_reap r) files) (\<lambda>s. (w, snd s)))
      else Some (Exited 1, [], usage prog, w, files))"

definition vmstat_command ::
  "string \<Rightarrow> (char \<times> string) list \<Rightarrow> string list \<Rightarrow> int option \<Rightarrow> machine \<Rightarrow> vm_finds \<Rightarrow> world \<Rightarrow> int
   \<Rightarrow> (ending \<times> string list \<times> string list \<times> world \<times> int) option" where
  "vmstat_command prog os args rows mc e w files =
     (case vm_setup os args rows of
        Go opt \<Rightarrow> run_mode prog opt mc e w files
      | Show_version \<Rightarrow> Some (Exited 0, [prog @ '' from procps-ng UNKNOWN''], [], w, files)
      | Usage out \<Rightarrow> Some (if out then (Exited 0, usage prog, [], w, files) else (Exited 1, [], usage prog, w, files))
      | Show_forks \<Rightarrow> on_stdout (fork_format mc (vf_fork e) files) (\<lambda>f. (w, f))
      | Refused \<Rightarrow> Some (Exited 1, [], [], w, files))"

end
