(* ===== verification/VmstatSpec.thy ===== *)
theory VmstatSpec
  imports Vmstat Scanf
begin

text \<open>
  What \<^verbatim>\<open>proc_vmstat.c\<close> promises: the tables agree with the header and with each other, every
  number of the file arrives in the item of its name, a difference is the exact one as long as it fits
  a \<open>long\<close>, a \<open>select\<close> returns a filled stack, and the accounting of references, blocks and descriptors.
\<close>

subsection \<open>The tables\<close>

lemmas vmstat_lists =
  vmstat_reg_def vmstat_delta_def vmstat_reg_table_def vmstat_delta_table_def vmstat_table_def vmstat_item_enum_def
  vmstat_fields_n_def vmstat_fields_z_def vmstat_fields_def vmstat_hash_def

lemma vmstat_lengths:
  "length vmstat_reg = 151" "length vmstat_delta = 151" "length vmstat_table = 304"
  by (simp_all add: vmstat_lists)

lemma length_vmstat_sets: "length vmstat_sets = 304"
  by (simp add: vmstat_sets_def vmstat_lengths)

lemma length_vmstat_rows: "length vmstat_rows = VMSTAT_logical_end" "length vmstat_rows = 304"
  by (simp_all add: vmstat_rows_def VMSTAT_logical_end_def vmstat_lengths length_vmstat_sets)

lemma setsfunc_vmstat: "i < 304 \<Longrightarrow> setsfunc vmstat_rows i = snd (vmstat_sets ! i)"
  by (simp add: setsfunc_def vmstat_rows_def vmstat_lengths length_vmstat_sets split_def)

text \<open>The item of the \<open>k\<close>-th counter, and of its difference.\<close>

definition counter_item :: "nat \<Rightarrow> item" where
  "counter_item k = k + 2"

definition delta_item :: "nat \<Rightarrow> item" where
  "delta_item k = k + 153"

lemma vmstat_setters:
  assumes "k < 151"
  shows "setsfunc vmstat_rows (counter_item k) = VM_REG_set (snd (vmstat_reg ! k))"
    "setsfunc vmstat_rows (delta_item k) = VM_HST_set (snd (vmstat_delta ! k))"
proof -
  have "vmstat_sets ! (k + 2) = (fst (vmstat_reg ! k), VM_REG_set (snd (vmstat_reg ! k)))"
    using assms by (simp add: vmstat_sets_def nth_append vmstat_lengths split_def)
  then show "setsfunc vmstat_rows (counter_item k) = VM_REG_set (snd (vmstat_reg ! k))"
    using assms by (simp add: counter_item_def setsfunc_vmstat)
  have "vmstat_sets ! (k + 153) = (fst (vmstat_delta ! k), VM_HST_set (snd (vmstat_delta ! k)))"
    using assms by (simp add: vmstat_sets_def nth_append vmstat_lengths split_def)
  then show "setsfunc vmstat_rows (delta_item k) = VM_HST_set (snd (vmstat_delta ! k))"
    using assms by (simp add: delta_item_def setsfunc_vmstat)
qed

lemma vmstat_counters:
  "map snd vmstat_reg = vmstat_fields" "map snd vmstat_delta = vmstat_fields" "vmstat_hash = vmstat_fields"
  by (simp_all add: vmstat_lists)

lemma set_vmstat_hash: "k < 151 \<Longrightarrow> snd (vmstat_reg ! k) \<in> set vmstat_hash"
  using vmstat_counters vmstat_lengths by (metis length_map nth_map nth_mem)

lemma same_counter: "k < 151 \<Longrightarrow> snd (vmstat_delta ! k) = snd (vmstat_reg ! k)"
  using vmstat_counters vmstat_lengths by (metis nth_map)

lemma vmstat_rows_typed:
  "list_all (\<lambda>(nm, f, ty). ty \<noteq> [] \<longrightarrow> (\<forall>src v. rtype (f src v) = ty)) vmstat_rows"
  by (simp add: vmstat_rows_def vmstat_sets_def vmstat_lists VM_REG_set_def VM_HST_set_def)

interpretation vmstat_items: item_table vmstat_rows
proof unfold_locales
  show "rtype (f src v) = ty" if "(nm, f, ty) \<in> set vmstat_rows" "ty \<noteq> []" for nm f ty src v
    using vmstat_rows_typed that by (auto simp: list_all_iff)
  show "\<exists>nm ty rest. vmstat_rows = (nm, set_noop, ty) # rest"
    by (simp add: vmstat_rows_def vmstat_sets_def vmstat_table_def vmstat_reg_table_def)
qed

lemma tolower_names:
  "tolower CHR ''A'' = CHR ''a''" "tolower CHR ''B'' = CHR ''b''" "tolower CHR ''C'' = CHR ''c''"
  "tolower CHR ''D'' = CHR ''d''" "tolower CHR ''E'' = CHR ''e''" "tolower CHR ''F'' = CHR ''f''"
  "tolower CHR ''G'' = CHR ''g''" "tolower CHR ''H'' = CHR ''h''" "tolower CHR ''I'' = CHR ''i''"
  "tolower CHR ''J'' = CHR ''j''" "tolower CHR ''K'' = CHR ''k''" "tolower CHR ''L'' = CHR ''l''"
  "tolower CHR ''M'' = CHR ''m''" "tolower CHR ''N'' = CHR ''n''" "tolower CHR ''O'' = CHR ''o''"
  "tolower CHR ''P'' = CHR ''p''" "tolower CHR ''Q'' = CHR ''q''" "tolower CHR ''R'' = CHR ''r''"
  "tolower CHR ''S'' = CHR ''s''" "tolower CHR ''T'' = CHR ''t''" "tolower CHR ''U'' = CHR ''u''"
  "tolower CHR ''V'' = CHR ''v''" "tolower CHR ''W'' = CHR ''w''" "tolower CHR ''X'' = CHR ''x''"
  "tolower CHR ''Y'' = CHR ''y''" "tolower CHR ''Z'' = CHR ''z''" "tolower CHR ''0'' = CHR ''0''"
  "tolower CHR ''1'' = CHR ''1''" "tolower CHR ''2'' = CHR ''2''" "tolower CHR ''3'' = CHR ''3''"
  "tolower CHR ''4'' = CHR ''4''" "tolower CHR ''5'' = CHR ''5''" "tolower CHR ''6'' = CHR ''6''"
  "tolower CHR ''7'' = CHR ''7''" "tolower CHR ''8'' = CHR ''8''" "tolower CHR ''9'' = CHR ''9''"
  "tolower CHR ''_'' = CHR ''_''"
  by code_simp+

lemma vmstat_fields_distinct: "distinct vmstat_fields"
  by (simp add: vmstat_lists)

lemma vmstat_reg_names: "map (\<lambda>(nm, x). map tolower nm) vmstat_reg = vmstat_fields"
  by (simp add: vmstat_lists tolower_names)

lemma vmstat_delta_names: "map (\<lambda>(nm, x). map tolower nm) vmstat_delta = map ((@) ''delta_'') vmstat_fields"
  by (simp add: vmstat_lists tolower_names)

lemma vmstat_table_item: "vmstat_table = vmstat_item_enum"
  by (simp add: vmstat_lists)

text \<open>
  The table has the enumerators of the header in their order, with the documented types; the
  items of a counter and of its difference are named after the field they read, and the keys looked
  for in the file are exactly the fields.
\<close>

theorem vmstat_tables_agree:
  "vmstat_table = vmstat_item_enum
   \<and> map (\<lambda>(nm, x). map tolower nm) vmstat_reg = vmstat_fields
   \<and> map (\<lambda>(nm, x). map tolower nm) vmstat_delta = map ((@) ''delta_'') vmstat_fields
   \<and> vmstat_hash = vmstat_fields \<and> distinct vmstat_fields"
  using vmstat_fields_distinct vmstat_reg_names vmstat_delta_names vmstat_counters vmstat_table_item by blast


subsection \<open>The lines of the file\<close>

text \<open>A line as the kernel prints it: the name and the number.\<close>

definition count_line :: "string \<times> nat \<Rightarrow> string" where
  "count_line = (\<lambda>(key, n). key @ '' '' @ show_nat n @ [newline])"

definition count_line_ok :: "string \<times> nat \<Rightarrow> bool" where
  "count_line_ok = (\<lambda>(key, n). CHR '' '' \<notin> set key \<and> NUL \<notin> set key \<and> n < 2 ^ 64)"

definition count_effect :: "string \<times> nat \<Rightarrow> vmstat_data \<Rightarrow> vmstat_data" where
  "count_effect = (\<lambda>(key, n) d. if key \<in> set vmstat_hash then d(key := of_nat n) else d)"

lemma count_lines_line:
  assumes "count_line_ok l"
  shows "count_lines (count_line l @ rest) d = count_lines rest (count_effect l d)"
proof -
  obtain key n where l: "l = (key, n)" by (cases l)
  with assms have ok: "CHR '' '' \<notin> set key" "n < 2 ^ 64" by (simp_all add: count_line_ok_def)
  have "count_line l @ rest = key @ CHR '' '' # (show_nat n @ newline # rest)" by (simp add: count_line_def l)
  moreover have "strchr (show_nat n @ newline # rest) newline = Some (newline # rest)"
    using newline_notin_show_nat by (intro strchr_append) auto
  moreover have "fst (strtoul (show_nat n @ newline # rest)) = of_nat n"
    using ok(2) strtoul_show_nat [of n "newline # rest"] by (simp add: isdigit_def)
  moreover have "strchr (key @ CHR '' '' # (show_nat n @ newline # rest)) (CHR '' '') = Some (CHR '' '' # (show_nat n @ newline # rest))"
    using ok(1) by (rule strchr_append)
  ultimately show ?thesis
    by (subst count_lines.simps) (simp add: count_effect_def l cong: if_cong)
qed

lemma count_lines_kernel:
  "list_all count_line_ok ls \<Longrightarrow> count_lines (concat (map count_line ls)) d = fold count_effect ls d"
proof (induction ls arbitrary: d)
  case Nil
  then show ?case by (simp add: count_lines.simps)
next
  case (Cons l ls)
  then show ?case by (simp add: count_lines_line)
qed

lemma count_text_cstr:
  assumes "list_all count_line_ok ls"
  shows "cstr (concat (map count_line ls)) = concat (map count_line ls)"
proof -
  have "NUL \<notin> set (count_line l)" if "count_line_ok l" for l
    using that by (cases l) (auto simp: count_line_def count_line_ok_def)
  then show ?thesis using assms by (intro cstr_id) (fastforce simp: list_all_iff)
qed

text \<open>The counters such a text has: the last number of each name, 0 where there is none.\<close>

definition counts_of :: "(string \<times> nat) list \<Rightarrow> vmstat_data" where
  "counts_of ls key = (case map_of (rev ls) key of
     Some n \<Rightarrow> (if key \<in> set vmstat_hash then of_nat n else 0) | None \<Rightarrow> 0)"

lemma fold_count_effect:
  "fold count_effect ls d key =
     (case map_of (rev ls) key of Some n \<Rightarrow> (if key \<in> set vmstat_hash then of_nat n else d key) | None \<Rightarrow> d key)"
proof (induction ls rule: rev_induct)
  case (snoc l ls)
  then show ?case by (cases l) (auto simp: count_effect_def split: option.split)
qed simp

lemma fold_counts: "fold count_effect ls no_counts = counts_of ls"
  by (auto simp: fun_eq_iff fold_count_effect counts_of_def no_counts_def split: option.split)

definition vm_text :: "(string \<times> nat) list \<Rightarrow> read_env \<Rightarrow> bool" where
  "vm_text ls e \<longleftrightarrow> list_all count_line_ok ls \<and> ls \<noteq> [] \<and> length (concat (map count_line ls)) < VMSTAT_BUFF
     \<and> reads_text (concat (map count_line ls)) e"

lemma vmstat_kind_simps [simp]:
  "fk_rows vmstat_kind = vmstat_rows" "fk_bufsiz vmstat_kind = VMSTAT_BUFF" "fk_zero vmstat_kind = no_counts"
  "fk_parse vmstat_kind = (\<lambda>buf. count_lines (cstr buf) no_counts)"
  by (simp_all add: vmstat_kind_def)

lemma vm_text_reads:
  assumes "vm_text ls e"
  shows "file_reads vmstat_kind (concat (map count_line ls)) e"
    and "count_lines (cstr (concat (map count_line ls))) no_counts = counts_of ls"
proof -
  have "concat (map count_line ls) \<noteq> []" using assms by (cases ls) (auto simp: vm_text_def count_line_def)
  then show "file_reads vmstat_kind (concat (map count_line ls)) e"
    using assms by (auto simp: vm_text_def reads_text_def file_reads_def VMSTAT_BUFF_def)
  show "count_lines (cstr (concat (map count_line ls))) no_counts = counts_of ls"
    using assms by (simp add: vm_text_def count_text_cstr count_lines_kernel fold_counts)
qed

text \<open>
  From the text the kernel prints every number goes to the counter of its name, in whatever order the
  names come and whatever others are between, and the numbers of the last read become the old ones.
\<close>

theorem vmstat_kernel_text:
  assumes "vm_text ls e"
  shows "\<exists>w'. vmstat_read_failed e info w =
    (None, info\<lparr>fi_fd_open := True, fi_hist := \<lparr>fh_new = counts_of ls, fh_old = fh_new (fi_hist info)\<rparr>\<rparr>, w')"
  using file_readsD [OF vm_text_reads(1) [OF assms], of info w] vm_text_reads(2) [OF assms]
  by (simp add: vmstat_read_failed_def hist_after_def)


subsection \<open>From the file to the caller\<close>

text \<open>
  C11. A second after the last read (or at the first call) \<open>get\<close> reads the file again and returns the
  number after the name of the counter, under its item.
\<close>

theorem vmstat_get_reads:
  assumes "vm_text ls e" "1 \<le> secs - fi_sav_secs info" "k < 151"
  shows "\<exists>r info' w'. procps_vmstat_get e secs (counter_item k) (Some info, w) = (Some r, Some info', w')
    \<and> rc_item r = counter_item k \<and> rc_val r = Ul_int (counts_of ls (snd (vmstat_reg ! k))) \<and> fi_sav_secs info' = secs"
proof -
  obtain w' where "file_read_failed vmstat_kind e info w =
      (None, info\<lparr>fi_fd_open := True, fi_hist := \<lparr>fh_new = counts_of ls, fh_old = fh_new (fi_hist info)\<rparr>\<rparr>, w')"
    using vm_text_reads [OF assms(1)] file_readsD [of vmstat_kind "concat (map count_line ls)" e info w]
    by (auto simp: hist_after_def)
  moreover have "\<not> 304 \<le> counter_item k" using assms(3) by (simp add: counter_item_def)
  ultimately show ?thesis
    using assms(2) vmstat_setters(1) [OF assms(3)]
    by (simp add: procps_vmstat_get_def file_get_def length_vmstat_rows(2) Let_def VM_REG_set_def)
qed

text \<open>
  The difference of a counter between two reads is returned exactly when it fits a \<open>long\<close>, whatever
  wrapped.
\<close>

theorem vmstat_delta_exact_iff:
  assumes "k < 151"
    and D_def: "D = int n1 - int n0"
    and "H = \<lparr>fh_new = counts_of ls1, fh_old = counts_of ls0\<rparr>"
    and "map_of (rev ls1) (snd (vmstat_reg ! k)) = Some n1" "map_of (rev ls0) (snd (vmstat_reg ! k)) = Some n0"
    and "n1 < 2 ^ 64" "n0 < 2 ^ 64"
  shows "setsfunc vmstat_rows (delta_item k) H v = Sl_int D \<longleftrightarrow> - (2 ^ 63) \<le> D \<and> D < 2 ^ 63"
proof -
  have "setsfunc vmstat_rows (delta_item k) H v = Sl_int (sint (word_of_nat n1 - word_of_nat n0 :: ulong))"
    using assms set_vmstat_hash [of k] by (simp add: vmstat_setters same_counter VM_HST_set_def counts_of_def)
  moreover have "sint (word_of_nat n1 - word_of_nat n0 :: ulong) = signed_take_bit 63 D"
  proof -
    have "(word_of_nat n1 - word_of_nat n0 :: ulong) = word_of_int D" by (simp add: D_def)
    then show ?thesis by (subst \<open>word_of_nat n1 - word_of_nat n0 = word_of_int D\<close>) (simp add: sint_sbintrunc')
  qed
  moreover have "signed_take_bit 63 D = D \<longleftrightarrow> - (2 ^ 63) \<le> D \<and> D < 2 ^ 63"
    using signed_take_bit_int_eq_self_iff [of 63 D] by simp
  ultimately show ?thesis by simp
qed

definition vm_stacks_ok :: "ext_support \<Rightarrow> bool" where
  "vm_stacks_ok = one_stack vmstat_rows"

text \<open>
  C12. With memory at hand \<open>select\<close> returns a stack with the items asked for, in order: the counters of
  the text just read and their differences to those of the read before.
\<close>

theorem vmstat_select_fills:
  assumes "vm_stacks_ok (fi_stacks info)"
    and "\<not> vmstat_items_check_failed n items" "n \<le> int (length (snd items))"
    and "se_realloc_ok e" "se_alloc_ok e" "vm_text ls (se_read e)"
  shows "\<exists>s info' w'. procps_vmstat_select e (Some items) n (Some info, w) = Some (Some s, Some info', w')
    \<and> fi_hist info' = \<lparr>fh_new = counts_of ls, fh_old = fh_new (fi_hist info)\<rparr>
    \<and> filled vmstat_rows (take (nat n) (snd items)) (fi_hist info') s \<and> vm_stacks_ok (fi_stacks info')"
  using file_select_fills [of vmstat_kind info n items e "concat (map count_line ls)" w] vm_text_reads [OF assms(6)] assms
  by (simp add: vm_stacks_ok_def vmstat_items_check_failed_def procps_vmstat_select_def length_vmstat_rows [symmetric]
      hist_after_def)

subsection \<open>References and resources\<close>

interpretation vmstat_refs: refcounted procps_vmstat_ref procps_vmstat_unref file_refs file_held
  unfolding procps_vmstat_ref_def procps_vmstat_unref_def by (rule file_count.refcounted_axioms)

text \<open>The structure lives exactly as long as references are left, and never comes back.\<close>

theorem vmstat_released:
  assumes "procps_vmstat_new e (Some None) w = (0, Some (Some info), w')"
  shows "fst (ref_run procps_vmstat_ref procps_vmstat_unref bs (Some info, w')) = None \<longleftrightarrow> refs_left bs 1 = 0"
  using assms unfolding procps_vmstat_ref_def procps_vmstat_unref_def procps_vmstat_new_def by (rule file_released)

text \<open>The calls a program may make, with memory for the items of a \<open>select\<close> at hand.\<close>

inductive vmstat_step :: "vmstat_info option \<times> world \<Rightarrow> vmstat_info option \<times> world \<Rightarrow> bool" where
  ref: "procps_vmstat_ref s = (r, s') \<Longrightarrow> vmstat_step s s'"
| unref: "procps_vmstat_unref s = (r, s') \<Longrightarrow> vmstat_step s s'"
| get: "procps_vmstat_get e secs it s = (r, s') \<Longrightarrow> vmstat_step s s'"
| select: "procps_vmstat_select e items n s = Some (r, s') \<Longrightarrow> se_realloc_ok e \<Longrightarrow> vmstat_step s s'"

lemma vmstat_step_file: "vmstat_step s s' \<Longrightarrow> file_step vmstat_kind s s'"
  by (induction rule: vmstat_step.induct)
    (simp_all only: procps_vmstat_ref_def procps_vmstat_unref_def procps_vmstat_get_def procps_vmstat_select_def,
      auto intro: file_step.intros)

text \<open>
  Whatever is called after \<open>new\<close>, the heap is balanced once the structure is gone, and the
  descriptor of the file stays open for good.
\<close>

theorem vmstat_descriptor_leaks:
  assumes "procps_vmstat_new e (Some None) w = (0, Some (Some info), w1)"
    and "vmstat_step\<^sup>*\<^sup>* (Some info, w1) (None, w2)"
  shows "w_blocks w2 = w_blocks w \<and> w_fds w2 = w_fds w + 1"
proof (rule file_descriptor_leaks)
  show "file_new vmstat_kind e (Some None) w = (0, Some (Some info), w1)"
    using assms(1) by (simp only: procps_vmstat_new_def)
  show "(file_step vmstat_kind)\<^sup>*\<^sup>* (Some info, w1) (None, w2)"
    using assms(2) vmstat_step_file by (metis mono_rtranclp)
qed


subsection \<open>A small system\<close>

definition vm_sample :: "(string \<times> nat) list" where
  "vm_sample = [(''nr_free_pages'', 1500), (''nr_made_up'', 3), (''pgfault'', 42), (''oom_kill'', 7)]"

definition vm_read :: read_env where
  "vm_read = \<lparr>re_open = None, re_lseek = None, re_reads = [RdData (concat (map count_line vm_sample))]\<rparr>"

definition vm_new :: new_env where
  "vm_new = \<lparr>ne_calloc_ok = True, ne_hcreate = None, ne_enter = None, ne_read = vm_read\<rparr>"

definition vm_select :: select_env where
  "vm_select = \<lparr>se_realloc_ok = True, se_alloc_ok = True, se_read = vm_read\<rparr>"

definition vm_info :: vmstat_info where
  "vm_info = fresh_file vmstat_kind"

definition vm_world :: world where
  "vm_world = \<lparr>w_fds = 0, w_blocks = 0\<rparr>"

lemma vm_sample_text: "vm_text vm_sample vm_read"
  by (simp add: vm_text_def vm_sample_def vm_read_def reads_text_def count_line_ok_def count_line_def VMSTAT_BUFF_def
      show_nat.simps)

lemma pgfault_counter: "snd (vmstat_reg ! 89) = ''pgfault''"
  by (simp add: vmstat_reg_def)

lemma vm_sample_counts: "counts_of vm_sample ''pgfault'' = 42"
  by (simp add: counts_of_def vm_sample_def vmstat_hash_def)

theorem vmstat_kernel_text_witness:
  "\<exists>w'. vmstat_read_failed vm_read vm_info vm_world =
    (None, vm_info\<lparr>fi_fd_open := True, fi_hist := \<lparr>fh_new = counts_of vm_sample, fh_old = fh_new (fi_hist vm_info)\<rparr>\<rparr>, w')"
  by (rule vmstat_kernel_text [OF vm_sample_text])

theorem vmstat_get_reads_witness:
  "\<exists>r info' w'. procps_vmstat_get vm_read 1000 91 (Some vm_info, vm_world) = (Some r, Some info', w')
    \<and> rc_item r = 91 \<and> rc_val r = Ul_int 42 \<and> fi_sav_secs info' = 1000"
  using vmstat_get_reads [OF vm_sample_text, of 1000 vm_info 89 vm_world]
  by (simp add: vm_info_def fresh_file_def pgfault_counter vm_sample_counts counter_item_def)

theorem vmstat_delta_exact_iff_witness:
  "setsfunc vmstat_rows 242 \<lparr>fh_new = counts_of vm_sample, fh_old = counts_of [(''pgfault'', 44)]\<rparr> Zero = Sl_int (- 2)"
  using vmstat_delta_exact_iff [of 89 "- 2" 42 44 "\<lparr>fh_new = counts_of vm_sample, fh_old = counts_of [(''pgfault'', 44)]\<rparr>"
      vm_sample "[(''pgfault'', 44)]" Zero]
  by (simp add: pgfault_counter vm_sample_def delta_item_def)

theorem vmstat_select_fills_witness:
  "\<exists>s info' w'. procps_vmstat_select vm_select (Some (4096, [91, 242])) 2 (Some vm_info, vm_world) = Some (Some s, Some info', w')
    \<and> fi_hist info' = \<lparr>fh_new = counts_of vm_sample, fh_old = fh_new (fi_hist vm_info)\<rparr>
    \<and> filled vmstat_rows (take (nat 2) (snd (4096 :: nat, [91, 242]))) (fi_hist info') s \<and> vm_stacks_ok (fi_stacks info')"
proof (rule vmstat_select_fills)
  show "vm_stacks_ok (fi_stacks vm_info)"
    by (simp add: vm_stacks_ok_def one_stack_def vm_info_def fresh_file_def no_ext_def)
  show "\<not> vmstat_items_check_failed 2 (4096, [91, 242])"
    by (simp add: vmstat_items_check_failed_def items_check_failed_def VMSTAT_logical_end_def vmstat_lengths)
  show "vm_text vm_sample (se_read vm_select)" by (simp add: vm_select_def vm_sample_text)
qed (simp_all add: vm_select_def)

lemma vm_new_runs:
  obtains info w1 where "procps_vmstat_new vm_new (Some None) vm_world = (0, Some (Some info), w1)"
proof -
  obtain info w1 where "file_read_failed vmstat_kind vm_read (fresh_file vmstat_kind)
      (vm_world\<lparr>w_blocks := w_blocks vm_world + 2\<rparr>) = (None, info, w1)"
    using file_readsD [OF vm_text_reads(1) [OF vm_sample_text]] by blast
  then show thesis using that by (simp add: procps_vmstat_new_def file_new_def vm_new_def)
qed

theorem vmstat_descriptor_leaks_witness:
  "\<exists>info w1 w2. procps_vmstat_new vm_new (Some None) vm_world = (0, Some (Some info), w1)
    \<and> vmstat_step\<^sup>*\<^sup>* (Some info, w1) (None, w2) \<and> w_blocks w2 = 0 \<and> w_fds w2 = 1"
proof -
  obtain info w1 where n: "procps_vmstat_new vm_new (Some None) vm_world = (0, Some (Some info), w1)"
    by (rule vm_new_runs)
  obtain w2 where "procps_vmstat_unref (Some info, w1) = (0, None, w2)"
    using new_info [OF n [unfolded procps_vmstat_new_def]] by (simp add: procps_vmstat_unref_def file_unref_def Let_def)
  then have s: "vmstat_step\<^sup>*\<^sup>* (Some info, w1) (None, w2)" by (auto intro: vmstat_step.unref)
  have "w_blocks w2 = 0 \<and> w_fds w2 = 1"
    using vmstat_descriptor_leaks [OF n s] by (simp add: vm_world_def)
  then show ?thesis using n s by blast
qed

theorem vmstat_released_witness:
  "\<exists>info w1. procps_vmstat_new vm_new (Some None) vm_world = (0, Some (Some info), w1)
    \<and> fst (ref_run procps_vmstat_ref procps_vmstat_unref [True, False, False, True] (Some info, w1)) = None"
proof -
  obtain info w1 where n: "procps_vmstat_new vm_new (Some None) vm_world = (0, Some (Some info), w1)"
    by (rule vm_new_runs)
  then show ?thesis using vmstat_released [OF n, of "[True, False, False, True]"] by auto
qed

end
