(* ===== verification/VmstatCmdSpec.thy ===== *)
theory VmstatCmdSpec
  imports VmstatCmd StatSpec MeminfoSpec VmstatSpec
begin

text \<open>
  The \<^verbatim>\<open>vmstat\<close> command: its percentages are shares of the whole, its unit of display is exact below
  16 GiB and not above, and its report of virtual memory has as many lines as were asked for.
\<close>

subsection \<open>Percentages\<close>

lemma half_exact: "0 \<le> d \<Longrightarrow> d < 2 ^ 63 \<Longrightarrow> half d = d div 2"
proof -
  assume a: "0 \<le> d" "d < 2 ^ 63"
  have u: "uint ((word_of_int d :: ulong) div 2) = d div 2"
    using a by (simp add: uint_div uint_word_of_int)
  have "sint ((word_of_int d :: ulong) div 2) = signed_take_bit 63 (d div 2)"
    using u by (simp add: sint_uint)
  also have "\<dots> = d div 2" using a by (intro signed_take_bit_int_eq_self) simp_all
  finally show ?thesis by (simp add: half_def)
qed

lemma sdiv_pos: "0 \<le> a \<Longrightarrow> 0 < b \<Longrightarrow> a sdiv b = a div (b :: int)"
  by (cases "a = 0") (simp_all add: signed_divide_int_def)

text \<open>A share rounded to the nearest percent, between the two bounds that add up.\<close>

lemma percent_share:
  assumes "0 \<le> x" "x \<le> d" "0 < d" "d < 2 ^ 56"
  shows "unat (percent d x) \<le> 100" "100 * x - d + 1 + d div 2 \<le> d * int (unat (percent d x))"
    "d * int (unat (percent d x)) \<le> 100 * x + d div 2"
proof -
  have h: "half d = d div 2" using assms by (intro half_exact) simp_all
  let ?q = "(100 * x + d div 2) div d"
  have q: "0 \<le> ?q" "?q \<le> 100"
  proof -
    show "0 \<le> ?q" using assms by (simp add: pos_imp_zdiv_nonneg_iff)
    have "?q \<le> (100 * d + d div 2) div d" using assms by (intro zdiv_mono1) simp_all
    also have "\<dots> = 100" using assms by (simp add: div_pos_pos_trivial)
    finally show "?q \<le> 100" .
  qed
  have p: "percent d x = word_of_int ?q" using assms h by (simp add: percent_def sdiv_pos)
  then have u: "int (unat (percent d x)) = ?q"
    using q by (simp add: unat_eq_nat_uint uint_word_of_int)
  show "unat (percent d x) \<le> 100" using u q by linarith
  have m: "d * ?q + (100 * x + d div 2) mod d = 100 * x + d div 2" by (rule mult_div_mod_eq)
  have "0 \<le> (100 * x + d div 2) mod d" "(100 * x + d div 2) mod d < d" using assms by simp_all
  then show "100 * x - d + 1 + d div 2 \<le> d * int (unat (percent d x))" "d * int (unat (percent d x)) \<le> 100 * x + d div 2"
    using m unfolding u by linarith+
qed

definition cpu_ok :: "cpu_time \<Rightarrow> bool" where
  "cpu_ok c \<longleftrightarrow> 0 \<le> cu_gue c \<and> cu_gue c \<le> cu_use c \<and> 0 \<le> cu_sys c \<and> 0 \<le> cu_idl c \<and> 0 \<le> cu_iow c \<and> 0 \<le> cu_sto c
     \<and> cpu_total c < 2 ^ 56"

text \<open>Guest time in user time is moved out of it, so what is divided by the divisor adds up to it.\<close>

lemma cpu_shares_whole:
  assumes "cpu_ok c"
  obtains d u y i w t g where "cpu_shares c = (d, \<lparr>cu_use = u, cu_sys = y, cu_idl = i, cu_iow = w, cu_sto = t, cu_gue = g\<rparr>)"
    "0 < d" "d < 2 ^ 56" "0 \<le> u" "0 \<le> y" "0 \<le> i" "0 \<le> w" "0 \<le> t" "0 \<le> g" "u + y + i + w + t + g = d"
proof (cases c)
  case (fields u y i w t g)
  show ?thesis
  proof (cases "cpu_total c = 0")
    case True
    then show ?thesis using assms fields by (intro that [of 1 "u - g" y 1 w t g]) (auto simp: cpu_shares_def cpu_ok_def cpu_total_def)
  next
    case False
    then show ?thesis
      using assms fields by (intro that [of "cpu_total c" "u - g" y i w t g]) (auto simp: cpu_shares_def cpu_ok_def cpu_total_def)
  qed
qed

lemma sum_within:
  assumes "0 < (d :: int)" "d * s \<le> 100 * d + 6 * (d div 2)" "100 * d - 6 * d + 6 + 6 * (d div 2) \<le> d * s"
  shows "98 \<le> s" "s \<le> 103"
proof -
  have "d * s \<le> d * 103" using assms(2) by linarith
  then show "s \<le> 103" using assms(1) mult_le_cancel_left_pos by blast
  have "d * 97 < d * s" using assms(1,3) by linarith
  then have "97 < s" using assms(1) mult_less_cancel_left_pos by blast
  then show "98 \<le> s" by simp
qed

text \<open>
  C15. The six percentages of a line are shares of the whole time: each at most 100, and together 100 but for
  the rounding of each.
\<close>

theorem vmstat_percentages:
  assumes "cpu_ok c"
  shows "list_all (\<lambda>p. unat p \<le> 100) (cpu_percents (cpu_shares c))
    \<and> 98 \<le> sum_list (map unat (cpu_percents (cpu_shares c))) \<and> sum_list (map unat (cpu_percents (cpu_shares c))) \<le> 103"
proof -
  obtain d u y i w t g where c: "cpu_shares c = (d, \<lparr>cu_use = u, cu_sys = y, cu_idl = i, cu_iow = w, cu_sto = t, cu_gue = g\<rparr>)"
    "0 < d" "d < 2 ^ 56" "0 \<le> u" "0 \<le> y" "0 \<le> i" "0 \<le> w" "0 \<le> t" "0 \<le> g" "u + y + i + w + t + g = d"
    by (rule cpu_shares_whole [OF assms])
  let ?p = "\<lambda>x. int (unat (percent d x))"
  have le: "u \<le> d" "y \<le> d" "i \<le> d" "w \<le> d" "t \<le> d" "g \<le> d" using c by linarith+
  note s = percent_share [OF _ _ c(2,3)]
  have "d * (?p u + ?p y + ?p i + ?p w + ?p t + ?p g) \<le> 100 * d + 6 * (d div 2)"
    using s(3) [OF c(4) le(1)] s(3) [OF c(5) le(2)] s(3) [OF c(6) le(3)] s(3) [OF c(7) le(4)] s(3) [OF c(8) le(5)]
      s(3) [OF c(9) le(6)] c(10) unfolding distrib_left by linarith
  moreover have "100 * d - 6 * d + 6 + 6 * (d div 2) \<le> d * (?p u + ?p y + ?p i + ?p w + ?p t + ?p g)"
    using s(2) [OF c(4) le(1)] s(2) [OF c(5) le(2)] s(2) [OF c(6) le(3)] s(2) [OF c(7) le(4)] s(2) [OF c(8) le(5)]
      s(2) [OF c(9) le(6)] c(10) unfolding distrib_left by linarith
  ultimately have "98 \<le> ?p u + ?p y + ?p i + ?p w + ?p t + ?p g" "?p u + ?p y + ?p i + ?p w + ?p t + ?p g \<le> 103"
    using sum_within [OF c(2)] by blast+
  then have "98 \<le> unat (percent d u) + unat (percent d y) + unat (percent d i) + unat (percent d w) + unat (percent d t) + unat (percent d g)"
    "unat (percent d u) + unat (percent d y) + unat (percent d i) + unat (percent d w) + unat (percent d t) + unat (percent d g) \<le> 103"
    by linarith+
  moreover have "list_all (\<lambda>p. unat p \<le> 100) (cpu_percents (cpu_shares c))"
    using s(1) [OF c(4) le(1)] s(1) [OF c(5) le(2)] s(1) [OF c(6) le(3)] s(1) [OF c(7) le(4)] s(1) [OF c(8) le(5)]
      s(1) [OF c(9) le(6)] by (simp add: cpu_percents_def c(1))
  ultimately show ?thesis by (simp add: cpu_percents_def c(1))
qed

theorem vmstat_percentages_witness:
  "98 \<le> sum_list (map unat (cpu_percents (cpu_shares \<lparr>cu_use = 5, cu_sys = 5, cu_idl = 5, cu_iow = 5, cu_sto = 5, cu_gue = 1\<rparr>)))"
  by (rule vmstat_percentages [THEN conjunct2, THEN conjunct1]) (simp add: cpu_ok_def cpu_total_def)

subsection \<open>The unit of display\<close>

lemma ulp_bits_spec:
  assumes "0 < u" "q < 2 * 2 ^ (bits - 1) * u" "2 ^ (bits - 1) * u \<le> 2 ^ k * q"
  shows "\<exists>j\<le>k. ulp_bits bits k q u = u / 2 ^ j \<and> 2 ^ (bits - 1) * ulp_bits bits k q u \<le> q
    \<and> q < 2 * 2 ^ (bits - 1) * ulp_bits bits k q u"
  using assms
proof (induction k arbitrary: u)
  case (Suc k)
  show ?case
  proof (cases "q < 2 ^ (bits - 1) * u")
    case True
    have "\<exists>j\<le>k. ulp_bits bits k q (u / 2) = u / 2 / 2 ^ j \<and> 2 ^ (bits - 1) * ulp_bits bits k q (u / 2) \<le> q
        \<and> q < 2 * 2 ^ (bits - 1) * ulp_bits bits k q (u / 2)"
      by (rule Suc.IH) (use Suc.prems True in \<open>simp_all add: mult.commute\<close>)
    then obtain j where "j \<le> k" "ulp_bits bits k q (u / 2) = u / 2 ^ Suc j"
      "2 ^ (bits - 1) * ulp_bits bits k q (u / 2) \<le> q \<and> q < 2 * 2 ^ (bits - 1) * ulp_bits bits k q (u / 2)"
      by auto
    then show ?thesis using True by (intro exI [of _ "Suc j"]) simp
  next
    case False
    then show ?thesis using Suc.prems by (intro exI [of _ 0]) simp
  qed
qed auto

lemma sgl_ulp:
  assumes "2 ^ 109 \<le> 2 ^ 300 * q" "q < 2 ^ 110"
  obtains j where "ulp_bits 24 300 q (2 ^ 86) = 2 ^ 86 / 2 ^ j" "2 ^ 23 * (2 ^ 86 / 2 ^ j) \<le> q" "q < 2 ^ 24 * (2 ^ 86 / 2 ^ j)"
proof -
  have "\<exists>j\<le>300. ulp_bits 24 300 q (2 ^ 86) = 2 ^ 86 / 2 ^ j \<and> 2 ^ (24 - 1) * ulp_bits 24 300 q (2 ^ 86) \<le> q
      \<and> q < 2 * 2 ^ (24 - 1) * ulp_bits 24 300 q (2 ^ 86)"
    by (rule ulp_bits_spec) (use assms in simp_all)
  then show thesis using that by (elim exE conjE) simp
qed

text \<open>Twenty-four bits over a power of two are a \<open>float\<close>.\<close>

lemma sgl_exact:
  assumes "n < 2 ^ 24" "e \<le> 100"
  shows "sgl (of_nat n / 2 ^ e) = of_nat n / 2 ^ e"
proof (cases "n = 0")
  case False
  let ?q = "of_nat n / 2 ^ e :: rat" and ?u = "ulp_bits 24 300 (of_nat n / 2 ^ e) (2 ^ 86)"
  have n: "1 \<le> (of_nat n :: rat)" "(of_nat n :: rat) < 2 ^ 24"
    using False of_nat_less_iff [where 'a = rat, of n "2 ^ 24"] assms(1) by simp_all
  have e: "(1 :: rat) \<le> 2 ^ e" "(2 :: rat) ^ e \<le> 2 ^ 100" using power_increasing [OF assms(2), of "2 :: rat"] by simp_all
  have q: "?q < 2 ^ 24" "1 / 2 ^ 100 \<le> ?q"
  proof -
    have "?q \<le> of_nat n" using e(1) by (simp add: divide_le_eq mult_le_cancel_left1)
    then show "?q < 2 ^ 24" using n(2) by linarith
    have "1 / 2 ^ 100 \<le> (1 :: rat) / 2 ^ e" by (rule divide_left_mono) (use e in simp_all)
    also have "\<dots> \<le> ?q" using n(1) by (intro divide_right_mono) simp_all
    finally show "1 / 2 ^ 100 \<le> ?q" .
  qed
  have "2 ^ 109 \<le> 2 ^ 300 * (1 / 2 ^ 100 :: rat)" by simp
  also have "\<dots> \<le> 2 ^ 300 * ?q" using q(2) by (rule mult_left_mono) simp
  finally have q0: "2 ^ 109 \<le> 2 ^ 300 * ?q" .
  have q1: "?q < 2 ^ 110" by (rule less_trans [OF q(1)]) simp
  obtain j where j: "?u = 2 ^ 86 / 2 ^ j" "2 ^ 23 * (2 ^ 86 / 2 ^ j) \<le> ?q" by (rule sgl_ulp [OF q0 q1])
  have "86 + e \<le> j"
  proof (rule ccontr)
    assume "\<not> 86 + e \<le> j"
    then have "(2 :: rat) ^ Suc j \<le> 2 ^ (86 + e)" by (intro power_increasing) simp_all
    then have "2 / 2 ^ e \<le> (2 ^ 86 / 2 ^ j :: rat)" by (simp add: field_simps power_add)
    then have "2 ^ 23 * (2 / 2 ^ e) \<le> 2 ^ 23 * (2 ^ 86 / 2 ^ j :: rat)" by (rule mult_left_mono) simp
    then have "2 ^ 23 * (2 / 2 ^ e) \<le> ?q" using j(2) by (rule order_trans)
    then have "2 ^ 24 / 2 ^ e \<le> ?q" by simp
    then show False using n(2) by (simp add: divide_le_cancel)
  qed
  then obtain k where jk: "j = 86 + e + k" using le_iff_add by blast
  have u: "?u = 1 / (2 :: rat) ^ (e + k)" by (simp only: j(1) jk) (simp add: power_add)
  have dq: "?q / ?u = of_int (int n * 2 ^ k)" by (simp only: u) (simp add: power_add)
  have "?q \<noteq> 0" "\<bar>?q\<bar> = ?q" "\<not> ?q < 0" using n(1) by (simp_all add: not_less)
  then have "sgl ?q = of_int (round_even (?q / ?u)) * ?u" by (simp add: sgl_def rounded_def Let_def)
  also have "\<dots> = of_int (int n * 2 ^ k) * ?u" by (simp only: dq round_even_of_int)
  also have "\<dots> = ?q" by (simp only: u) (simp add: power_add)
  finally show ?thesis .
qed (simp add: sgl_def rounded_def)

lemma sgl_nat: "n < 2 ^ 24 \<Longrightarrow> sgl (of_nat n) = of_nat n"
  using sgl_exact [of n 0] by simp

text \<open>
  In the default unit a number of KiB below \<open>2\<^sup>2\<^sup>4\<close>, that is less than 16 GiB, is printed as it is.
\<close>

theorem unit_exact_below_16GiB:
  assumes "vo_unit opt = UNIT_K" "vo_mode opt \<noteq> SLABSTAT" "unat siz < 2 ^ 24"
  shows "unitConvert opt siz = siz"
proof -
  have k: "sgl (of_nat (unat UNIT_K)) = 1024" using sgl_nat [of 1024] by (simp add: UNIT_K_def)
  have d: "sgl (of_nat (unat siz) / 1024) = of_nat (unat siz) / 1024" using sgl_exact [OF assms(3), of 10] by simp
  have m: "of_nat (unat siz) / 1024 * 1024 = (of_nat (unat siz) :: rat)" by simp
  show ?thesis
    by (simp only: unitConvert_def assms(1) k sgl_nat [OF assms(3)] d m assms(2) if_False floor_of_nat) simp
qed

theorem unit_exact_below_16GiB_witness: "unitConvert default_opts 16777215 = 16777215"
  by (rule unit_exact_below_16GiB) (simp_all add: default_opts_def VMSTAT_mode_def SLABSTAT_def)

text \<open>One more KiB is lost.\<close>

lemma sgl_at:
  assumes "u = 2 ^ 86 / 2 ^ i" "i \<le> 300" "2 ^ 23 * u \<le> q" "q < 2 ^ 24 * u"
  shows "sgl q = of_int (round_even (q / u)) * u"
proof -
  have u: "0 < u" "u \<le> 2 ^ 86" by (simp_all add: assms(1) divide_le_eq)
  have p: "(2 :: rat) ^ i \<le> 2 ^ 300" by (rule power_increasing) (use assms(2) in simp_all)
  have "0 < 2 ^ 23 * u" using u(1) by simp
  then have q: "0 < q" using assms(3) by (rule less_le_trans)
  have "2 ^ 24 * u \<le> 2 ^ 24 * 2 ^ 86" using u(2) by (rule mult_left_mono) simp
  then have "q < 2 ^ 24 * 2 ^ 86" by (rule less_le_trans [OF assms(4)])
  then have q1: "q < 2 ^ 110" by simp
  have "2 ^ 109 = 2 ^ i * (2 ^ 23 * u)" by (simp add: assms(1))
  also have "\<dots> \<le> 2 ^ 300 * q" using assms(3) p u(1) by (intro mult_mono) simp_all
  finally have q0: "2 ^ 109 \<le> 2 ^ 300 * q" .
  obtain j where j: "ulp_bits 24 300 q (2 ^ 86) = 2 ^ 86 / 2 ^ j" "2 ^ 23 * (2 ^ 86 / 2 ^ j) \<le> q" "q < 2 ^ 24 * (2 ^ 86 / 2 ^ j)"
    by (rule sgl_ulp [OF q0 q1])
  have "\<not> Suc i \<le> j"
  proof
    assume "Suc i \<le> j"
    then have "(2 :: rat) ^ Suc i \<le> 2 ^ j" by (intro power_increasing) simp_all
    then have "2 * (2 ^ 86 / 2 ^ j) \<le> u" by (simp add: assms(1) field_simps)
    then have "2 ^ 23 * (2 * (2 ^ 86 / 2 ^ j)) \<le> 2 ^ 23 * u" by (rule mult_left_mono) simp
    then show False using j(3) assms(3) by simp
  qed
  moreover have "\<not> Suc j \<le> i"
  proof
    assume "Suc j \<le> i"
    then have "(2 :: rat) ^ Suc j \<le> 2 ^ i" by (intro power_increasing) simp_all
    then have "2 * u \<le> 2 ^ 86 / 2 ^ j" by (simp add: assms(1) field_simps)
    then have "2 ^ 23 * (2 * u) \<le> 2 ^ 23 * (2 ^ 86 / 2 ^ j)" by (rule mult_left_mono) simp
    then show False using j(2) assms(4) by simp
  qed
  ultimately have "j = i" by simp
  then show ?thesis using j(1) q by (simp add: sgl_def rounded_def Let_def assms(1))
qed

lemma sgl_above: "sgl 16777217 = 16777216" "sgl 16777216 = 16777216"
proof -
  have "\<lfloor>16777217 / 2 :: rat\<rfloor> = 8388608" by (rule floor_unique) simp_all
  then have "round_even (16777217 / 2) = 8388608" by (simp add: round_even_def Let_def)
  then show "sgl 16777217 = 16777216" "sgl 16777216 = 16777216"
    using sgl_at [of 2 85 16777217] sgl_at [of 2 85 16777216] round_even_of_int [of 8388608] by simp_all
qed

lemma unit_loses_a_kib: "unitConvert default_opts 16777217 = 16777216"
  using sgl_nat [of 1024] sgl_nat [of 16384]
  by (simp add: unitConvert_def default_opts_def UNIT_K_def VMSTAT_mode_def SLABSTAT_def sgl_above)

subsection \<open>The report of virtual memory\<close>

text \<open>With the files readable the three structures are made, and a select finds its items.\<close>

lemma file_new_reads:
  assumes "ne_calloc_ok e" "ne_hcreate e = None" "ne_enter e = None" "file_reads K buf (ne_read e)"
  obtains info w1 where "file_new K e (Some None) w = (0, Some (Some info), w1)" "fi_stacks info = no_ext"
proof -
  obtain w1 where "file_read_failed K (ne_read e) (fresh_file K) (w\<lparr>w_blocks := w_blocks w + 2\<rparr>)
      = (None, (fresh_file K)\<lparr>fi_fd_open := True, fi_hist := hist_after K buf (fresh_file K)\<rparr>, w1)"
    using file_readsD [OF assms(4)] by blast
  then have n: "file_new K e (Some None) w
      = (0, Some (Some ((fresh_file K)\<lparr>fi_fd_open := True, fi_hist := hist_after K buf (fresh_file K)\<rparr>)), w1)"
    using assms(1-3) by (simp add: file_new_def)
  show thesis by (rule that [OF n]) (simp add: fresh_file_def)
qed

definition new_reads :: "'d file_kind \<Rightarrow> string \<Rightarrow> new_env \<Rightarrow> bool" where
  "new_reads K buf e \<longleftrightarrow> ne_calloc_ok e \<and> ne_hcreate e = None \<and> ne_enter e = None \<and> file_reads K buf (ne_read e)"

lemma vm_make_file_reads:
  assumes "new_reads K buf e"
  obtains info w1 where "vm_make_file (file_new K) e w = (True, Some info, w1)" "fi_stacks info = no_ext"
  using assms by (auto simp: new_reads_def vm_make_file_def intro: file_new_reads [of e K buf w])

lemma stat_first_read:
  assumes "stat_reads (stat_text j cs d irqs tail) e" "list_all (\<lambda>c. fst c < 2 ^ 31) cs" "NUL \<notin> set tail"
  obtains info w1 where "stat_read_failed e fresh_stat w = (Some (None, info, w1))"
    "stat_ok info" "st_select_items info = no_items" "st_select_extents info = []"
    "st_sys_hist info = \<lparr>sy_new = d, sy_old = zero_stat\<rparr>"
    "st_cpu_hist info = (summary_after j zero_tic)\<lparr>ti_count := int (length cs)\<rparr>"
proof -
  obtain siz n tics w' where r: "stat_read_failed e fresh_stat w = Some (None,
       (started fresh_stat)\<lparr>st_fp := True, st_buf_size := siz,
         st_cpu_hist := (summary_after j (st_cpu_hist fresh_stat))\<lparr>ti_count := int (length cs)\<rparr>,
         st_cpus := (st_cpus (started fresh_stat))\<lparr>rs_total := int (length cs),
           rs_hist := \<lparr>ts_n_alloc = n, ts_n_inuse = length cs, ts_tics = Some tics\<rparr>\<rparr>,
         st_sys_hist := \<lparr>sy_new = d, sy_old = sy_new (st_sys_hist fresh_stat)\<rparr>\<rparr>, w')"
    "length tics = n" "length cs < n"
    by (rule read_stat_text [OF fresh_stat_ok assms])
  show thesis
    by (rule that [OF r(1)]) (use r(2,3) in \<open>auto simp: stat_ok_def tics_wf_def started_def fresh_stat_def no_reap_def\<close>)
qed

lemma stat_select_reads:
  assumes "stat_ok info" "st_select_items info = no_items" "st_select_extents info = []"
    and "stat_reads (stat_text j cs d irqs tail) e" "list_all (\<lambda>c. fst c < 2 ^ 31) cs" "NUL \<notin> set tail"
    and "\<not> stat_items_check_failed n items" "n \<le> int (length (snd items))"
  shows "\<exists>s info' w'. procps_stat_select True True e (Some items) n (Some info, w) = Some (Some s, Some info', w')
    \<and> filled stat_rows (take (nat n) (snd items))
        (\<lparr>sy_new = d, sy_old = sy_new (st_sys_hist info)\<rparr>, (summary_after j (st_cpu_hist info))\<lparr>ti_count := int (length cs)\<rparr>) s"
proof -
  let ?its = "take (nat n) (snd items)" and ?es = "ext_of (st_select_items info) (st_select_extents info)"
  have chk: "\<not> items_check_failed (length stat_rows) n items"
    using assms(7) by (simp add: stat_items_check_failed_def length_stat_rows)
  have "one_stack stat_rows ?es" using assms(2,3) by (simp add: one_stack_def ext_of_def no_items_def)
  from reconfig_one [OF this chk assms(8)] obtain rc es where
    r: "reconfig_maybe (length stat_rows) True items n ?es = Some (rc, es)" "0 \<le> rc" "configured stat_rows ?its es"
      "es_extents es = [] \<or> (\<exists>s. es_extents es = [[s]] \<and> shaped stat_rows ?its s)"
    by blast
  have es: "ext_of (items_of es) (es_extents es) = es" by (cases es) (simp add: ext_of_def items_of_def)
  obtain i1 where i1: "i1 = info\<lparr>st_select_items := items_of es, st_select_extents := es_extents es\<rparr>" by blast
  have ok1: "stat_ok i1" using assms(1) by (simp add: i1 stat_ok_def tics_wf_def)
  obtain siz m tics w' where rd: "stat_read_failed e i1 w = Some (None,
       (started i1)\<lparr>st_fp := True, st_buf_size := siz,
         st_cpu_hist := (summary_after j (st_cpu_hist i1))\<lparr>ti_count := int (length cs)\<rparr>,
         st_cpus := (st_cpus (started i1))\<lparr>rs_total := int (length cs),
           rs_hist := \<lparr>ts_n_alloc = m, ts_n_inuse = length cs, ts_tics = Some tics\<rparr>\<rparr>,
         st_sys_hist := \<lparr>sy_new = d, sy_old = sy_new (st_sys_hist i1)\<rparr>\<rparr>, w')"
    by (rule read_stat_text [OF ok1 assms(4-6), of w])
  obtain i2 where i2: "stat_read_failed e i1 w = Some (None, i2, w')" "st_select_items i2 = items_of es"
      "st_select_extents i2 = es_extents es" "st_sys_hist i2 = \<lparr>sy_new = d, sy_old = sy_new (st_sys_hist info)\<rparr>"
      "st_cpu_hist i2 = (summary_after j (st_cpu_hist info))\<lparr>ti_count := int (length cs)\<rparr>"
    using rd by (auto simp: i1 started_def)
  have "one_ready ?its es" using r(3,4) by (simp add: one_ready_def)
  moreover have "list_all (\<lambda>i. i < length stat_rows) ?its"
    using items_check_valid [OF chk assms(8)] by (simp add: valid_items_def)
  ultimately obtain s where s: "stat_update_single_stack True i2 es = Some (Some s, es\<lparr>es_extents := [[s]]\<rparr>)"
      "filled stat_rows ?its (st_sys_hist i2, st_cpu_hist i2) s"
    by (rule single_fills)
  have "procps_stat_select True True e (Some items) n (Some info, w)
      = Some (Some s, Some (i2\<lparr>st_select_extents := [[s]]\<rparr>), w')"
    using r(1,2) s(1) i2(1)
    by (simp add: procps_stat_select_def stat_stacks_reconfig_maybe_def length_stat_rows i1 [symmetric] i2(2,3) es Let_def)
  then show ?thesis using s(2) i2(4,5) by auto
qed

text \<open>What the selected values are: the counts and jiffies of \<open>/proc/stat\<close>, and the KiB of \<open>/proc/meminfo\<close>.\<close>

definition boot_time :: "stat_jifs \<Rightarrow> cpu_time" where
  "boot_time j =
     \<lparr>cu_use = sint (js_user j + js_nice j), cu_sys = sint (js_system j + js_irq j + js_sirq j), cu_idl = sint (js_idle j),
      cu_iow = sint (js_iowait j), cu_sto = sint (js_stolen j), cu_gue = sint (js_guest j + js_gnice j)\<rparr>"

lemma First_stat_items_numbers: "First_stat_items = [39, 37, 36, 35, 5, 6, 7, 10, 11, 8, 9, 12, 13, 14]"
  by code_simp

lemma Mem_items_numbers: "Mem_items = [127, 22, 2, 34, 8, 10]"
  by code_simp

lemma filled_cell:
  assumes "filled rows its src s" "k < length its" "\<forall>v. setsfunc rows (its ! k) src v = c"
  shows "cell_val k s = c"
  using filled_nth(2) [OF assms(1,2)] assms(3) by (auto simp: cell_val_def)

lemma stat_select_setters:
  "setsfunc stat_rows 39 = SYS_set sd_procs_running" "setsfunc stat_rows 37 = SYS_set sd_procs_blocked"
  "setsfunc stat_rows 36 = SYS_set sd_intr" "setsfunc stat_rows 35 = SYS_set sd_ctxt"
  "setsfunc stat_rows 5 = TIC_set js_user" "setsfunc stat_rows 6 = TIC_set js_nice" "setsfunc stat_rows 7 = TIC_set js_system"
  "setsfunc stat_rows 10 = TIC_set js_irq" "setsfunc stat_rows 11 = TIC_set js_sirq" "setsfunc stat_rows 8 = TIC_set js_idle"
  "setsfunc stat_rows 9 = TIC_set js_iowait" "setsfunc stat_rows 12 = TIC_set js_stolen" "setsfunc stat_rows 13 = TIC_set js_guest"
  "setsfunc stat_rows 14 = TIC_set js_gnice"
  by (simp_all add: setsfunc_def stat_rows_def stat_sets_def stat_table_def)

lemma first_values:
  assumes "filled stat_rows First_stat_items (H, T) t"
  shows "cpu_since_boot t = boot_time (ti_new T)"
    "[val_ul 0 t, val_ul 1 t] = [sd_procs_running (sy_new H), sd_procs_blocked (sy_new H)]"
proof -
  note c = filled_cell [OF assms [unfolded First_stat_items_numbers]]
  have v: "cell_val 0 t = Ul_int (sd_procs_running (sy_new H))" "cell_val 1 t = Ul_int (sd_procs_blocked (sy_new H))"
    "cell_val 4 t = Ull_int (js_user (ti_new T))" "cell_val 5 t = Ull_int (js_nice (ti_new T))"
    "cell_val 6 t = Ull_int (js_system (ti_new T))" "cell_val 7 t = Ull_int (js_irq (ti_new T))"
    "cell_val 8 t = Ull_int (js_sirq (ti_new T))" "cell_val 9 t = Ull_int (js_idle (ti_new T))"
    "cell_val 10 t = Ull_int (js_iowait (ti_new T))" "cell_val 11 t = Ull_int (js_stolen (ti_new T))"
    "cell_val 12 t = Ull_int (js_guest (ti_new T))" "cell_val 13 t = Ull_int (js_gnice (ti_new T))"
    by (rule c; simp add: stat_select_setters SYS_set_def TIC_set_def)+
  show "cpu_since_boot t = boot_time (ti_new T)"
    by (simp add: cpu_since_boot_def boot_time_def val_ull_def v)
  show "[val_ul 0 t, val_ul 1 t] = [sd_procs_running (sy_new H), sd_procs_blocked (sy_new H)]"
    using v(1,2) by (simp add: val_ul_def rd_ul_int_def)
qed

definition memory_shown :: "vm_opts \<Rightarrow> meminfo_data \<Rightarrow> ulong list" where
  "memory_shown opt d =
     [md_derived_swap_used d, md_MemFree d, if vo_active opt then md_Inactive d else md_Buffers d,
      if vo_active opt then md_Active d else md_derived_mem_cached d]"

lemma mem_setters:
  "setsfunc meminfo_rows 127 = MEM_set md_derived_swap_used" "setsfunc meminfo_rows 22 = MEM_set md_MemFree"
  "setsfunc meminfo_rows 2 = MEM_set md_Active" "setsfunc meminfo_rows 34 = MEM_set md_Inactive"
  "setsfunc meminfo_rows 8 = MEM_set md_Buffers" "setsfunc meminfo_rows 10 = MEM_set md_derived_mem_cached"
  by (simp_all add: setsfunc_def meminfo_rows_def meminfo_setters meminfo_tables)

lemma memory_values:
  assumes "filled meminfo_rows Mem_items h m"
  shows "mem_columns opt m = map (unitConvert opt) (memory_shown opt (fh_new h))"
proof -
  note c = filled_cell [OF assms [unfolded Mem_items_numbers]]
  have v: "cell_val 0 m = Ul_int (md_derived_swap_used (fh_new h))" "cell_val 1 m = Ul_int (md_MemFree (fh_new h))"
    "cell_val 2 m = Ul_int (md_Active (fh_new h))" "cell_val 3 m = Ul_int (md_Inactive (fh_new h))"
    "cell_val 4 m = Ul_int (md_Buffers (fh_new h))" "cell_val 5 m = Ul_int (md_derived_mem_cached (fh_new h))"
    by (rule c; simp add: mem_setters MEM_set_def)+
  show ?thesis by (simp add: mem_columns_def memory_shown_def val_ul_def rd_ul_int_def v v [simplified])
qed

text \<open>Everything the first line needs can be read, \<open>/proc/stat\<close> as the kernel prints it.\<close>

definition start_reads ::
  "stat_jifs \<Rightarrow> (nat \<times> stat_jifs) list \<Rightarrow> stat_data \<Rightarrow> ulong list \<Rightarrow> string \<Rightarrow> string \<Rightarrow> vm_start \<Rightarrow> bool" where
  "start_reads j cs d irqs tail mem st \<longleftrightarrow>
     (\<exists>buf. new_reads vmstat_kind buf (vn_vm (vs_new st))) \<and> (\<exists>buf. new_reads meminfo_kind buf (vn_mem (vs_new st)))
     \<and> (\<exists>lib e. vn_stat (vs_new st) = (True, True, lib, e) \<and> stat_reads (stat_text j cs d irqs tail) e)
     \<and> (\<exists>e. vs_stat st = (True, True, e) \<and> stat_reads (stat_text j cs d irqs tail) e)
     \<and> se_realloc_ok (vs_mem st) \<and> se_alloc_ok (vs_mem st) \<and> read_succeeds mem (se_read (vs_mem st))
     \<and> list_all (\<lambda>c. fst c < 2 ^ 31) cs \<and> NUL \<notin> set tail"

lemma vm_make_reads:
  assumes "start_reads j cs d irqs tail mem st"
  obtains s vm info m where "vm_make (vs_new st) numa w files = Some (True, s)" "vt_vm s = Some vm" "vt_stat s = Some info"
    "vt_mem s = Some m" "fi_stacks m = no_ext" "stat_ok info" "st_select_items info = no_items" "st_select_extents info = []"
proof -
  obtain b1 b2 lib e where a: "new_reads vmstat_kind b1 (vn_vm (vs_new st))" "new_reads meminfo_kind b2 (vn_mem (vs_new st))"
    "vn_stat (vs_new st) = (True, True, lib, e)" "stat_reads (stat_text j cs d irqs tail) e"
    "list_all (\<lambda>c. fst c < 2 ^ 31) cs" "NUL \<notin> set tail"
    using assms by (auto simp: start_reads_def)
  obtain vm w1 where vm: "vm_make_file procps_vmstat_new (vn_vm (vs_new st)) w = (True, Some vm, w1)"
    using vm_make_file_reads [OF a(1), of w] by (metis procps_vmstat_new_def)
  obtain info files1 where st: "stat_read_failed e fresh_stat files = Some (None, info, files1)" "stat_ok info"
    "st_select_items info = no_items" "st_select_extents info = []"
    by (rule stat_first_read [OF a(4-6), of files])
  have st': "vm_make_stat (vn_stat (vs_new st)) numa files = Some (True, Some info, files1)"
    by (simp add: a(3) vm_make_stat_def procps_stat_new_def st(1) Let_def)
  obtain m w2 where m: "vm_make_file procps_meminfo_new (vn_mem (vs_new st)) w1 = (True, Some m, w2)" "fi_stacks m = no_ext"
    using vm_make_file_reads [OF a(2), of w1] by (metis procps_meminfo_new_def)
  show thesis
    by (rule that [of "\<lparr>vt_vm = Some vm, vt_stat = Some info, vt_mem = Some m, vt_world = w2, vt_files = files1\<rparr>" vm info m])
      (simp_all add: vm_make_def vm st' m st(2-4))
qed

lemma vm_read_counters_keeps:
  "vt_stat (snd (vm_read_counters nms es s)) = vt_stat s" "vt_mem (snd (vm_read_counters nms es s)) = vt_mem s"
  by (simp_all add: vm_read_counters_def split: prod.split)

lemma vm_select_stat_reads:
  assumes "vt_stat s = Some info" "stat_ok info" "st_select_items info = no_items" "st_select_extents info = []"
    and "stat_reads (stat_text j cs d irqs tail) e" "list_all (\<lambda>c. fst c < 2 ^ 31) cs" "NUL \<notin> set tail"
  obtains t s1 H T where "vm_select_stat (True, True, e) First_stat_items s = Some (Some t, s1)"
    "filled stat_rows First_stat_items (H, T) t" "sy_new H = d" "ti_new T = ti_new (summary_after j (st_cpu_hist info))"
proof -
  have k: "\<not> stat_items_check_failed 14 (0x10000 :: nat, First_stat_items)"
    by (simp add: First_stat_items_numbers stat_items_check_failed_def items_check_failed_def STAT_logical_end_def stat_table_def)
  have l: "length First_stat_items = 14" by (simp add: First_stat_items_numbers)
  obtain t info' w' where r: "procps_stat_select True True e (Some (0x10000, First_stat_items)) 14 (Some info, vt_files s)
        = Some (Some t, Some info', w')"
    "filled stat_rows (take (nat 14) (snd (0x10000 :: nat, First_stat_items)))
        (\<lparr>sy_new = d, sy_old = sy_new (st_sys_hist info)\<rparr>, (summary_after j (st_cpu_hist info))\<lparr>ti_count := int (length cs)\<rparr>) t"
    using stat_select_reads [OF assms(2-7) k, of "vt_files s"] l by auto
  have f: "filled stat_rows First_stat_items
        (\<lparr>sy_new = d, sy_old = sy_new (st_sys_hist info)\<rparr>, (summary_after j (st_cpu_hist info))\<lparr>ti_count := int (length cs)\<rparr>) t"
    using r(2) l by simp
  show thesis
    by (rule that [OF _ f]) (simp_all add: vm_select_stat_def static_items_def assms(1) l r(1))
qed

lemma vm_select_mem_reads:
  assumes "vt_mem s = Some i" "fi_stacks i = no_ext" "se_realloc_ok e" "se_alloc_ok e" "read_succeeds mem (se_read e)"
  obtains m s1 h where "vm_select_mem e Mem_items s = Some (Some m, s1)" "vt_stat s1 = vt_stat s"
    "filled meminfo_rows Mem_items h m" "fh_new h = mem_derive (mem_lines (cstr mem) no_data)"
proof -
  have k: "\<not> items_check_failed (length (fk_rows meminfo_kind)) 6 (0x10000 :: nat, Mem_items)"
    by (simp add: Mem_items_numbers items_check_failed_def meminfo_kind_def meminfo_rows_def meminfo_setters meminfo_tables)
  have l: "length Mem_items = 6" by (simp add: Mem_items_numbers)
  have o: "one_stack (fk_rows meminfo_kind) (fi_stacks i)" by (simp add: assms(2) one_stack_def no_ext_def)
  have rd: "file_reads meminfo_kind mem (se_read e)" using assms(5) by (simp add: read_succeeds_def)
  obtain m i' w' where r: "file_select meminfo_kind e (Some (0x10000, Mem_items)) 6 (Some i, vt_world s) = Some (Some m, Some i', w')"
    "fi_hist i' = hist_after meminfo_kind mem i" "filled (fk_rows meminfo_kind) Mem_items (fi_hist i') m"
    using file_select_fills [OF o k _ assms(3,4) rd, of "vt_world s"] l by auto
  show thesis
  proof (rule that [of m "s\<lparr>vt_mem := Some i', vt_world := w'\<rparr>" "fi_hist i'"])
    show "vm_select_mem e Mem_items s = Some (Some m, s\<lparr>vt_mem := Some i', vt_world := w'\<rparr>)"
      by (simp add: vm_select_mem_def static_items_def assms(1) l procps_meminfo_select_def r(1))
    show "filled meminfo_rows Mem_items (fi_hist i') m" using r(3) by (simp add: meminfo_kind_def)
    show "fh_new (fi_hist i') = mem_derive (mem_lines (cstr mem) no_data)"
      by (simp add: r(2) hist_after_meminfo fresh_hist_def)
  qed simp
qed

lemma summary_jifs: "boot_time (ti_new (summary_after j t)) = boot_time j"
  by (simp add: boot_time_def summary_after_def stat_derive_unique_def derive_sums_def put_jifs_def Let_def)

lemma report_runs:
  assumes "start_reads j cs d irqs tail mem st" "\<not> vo_infinite opt" "vo_updates opt = 1" "\<not> vo_skip opt"
  obtains r s where "new_format opt mc st es w files = Some (Exited 0, [Header (vs_zone st), Row r (vs_stamp st)], s)"
    "vw_procs r = [sd_procs_running d, sd_procs_blocked d]"
    "vw_mem r = map (unitConvert opt) (memory_shown opt (mem_derive (mem_lines (cstr mem) no_data)))"
    "drop 6 (vw_rest r) = cpu_percents (cpu_shares (boot_time j))"
proof -
  obtain s vm info i where s: "vm_make (vs_new st) (mc_numa mc) w files = Some (True, s)" "vt_stat s = Some info"
    "vt_mem s = Some i" "fi_stacks i = no_ext" "stat_ok info" "st_select_items info = no_items" "st_select_extents info = []"
    by (rule vm_make_reads [OF assms(1), of "mc_numa mc" w files])
  obtain vs s1 where c: "vm_read_counters counters (vs_gets st) s = (vs, s1)" by (cases "vm_read_counters counters (vs_gets st) s")
  have s1: "vt_stat s1 = Some info" "vt_mem s1 = Some i"
    using vm_read_counters_keeps [of counters "vs_gets st" s] c s(2,3) by simp_all
  obtain e where e: "vs_stat st = (True, True, e)" "stat_reads (stat_text j cs d irqs tail) e"
    and me: "se_realloc_ok (vs_mem st)" "se_alloc_ok (vs_mem st)" "read_succeeds mem (se_read (vs_mem st))"
    and ok: "list_all (\<lambda>c. fst c < 2 ^ 31) cs" "NUL \<notin> set tail"
    using assms(1) by (auto simp: start_reads_def)
  obtain m s2 h where m: "vm_select_mem (vs_mem st) Mem_items s1 = Some (Some m, s2)" "vt_stat s2 = vt_stat s1"
    "filled meminfo_rows Mem_items h m" "fh_new h = mem_derive (mem_lines (cstr mem) no_data)"
    by (rule vm_select_mem_reads [OF s1(2) s(4) me])
  have s2: "vt_stat s2 = Some info" using m(2) s1(1) by simp
  obtain t s3 H T where t: "vm_select_stat (True, True, e) First_stat_items s2 = Some (Some t, s3)"
    "filled stat_rows First_stat_items (H, T) t" "sy_new H = d" "ti_new T = ti_new (summary_after j (st_cpu_hist info))"
    by (rule vm_select_stat_reads [OF s2 s(5-7) e(2) ok])
  obtain now s4 where n: "vm_read_counters [''PSWPIN'', ''PSWPOUT'', ''PGPGIN'', ''PGPGOUT''] (vs_row_gets st) s3 = (now, s4)"
    by (cases "vm_read_counters [''PSWPIN'', ''PSWPOUT'', ''PGPGIN'', ''PGPGOUT''] (vs_row_gets st) s3")
  obtain r where r: "r = first_row opt mc t m [now ! 2, now ! 3, now ! 0, now ! 1]" by blast
  have stop: "\<not> more_rounds opt 1" using assms(2,3) by (simp add: more_rounds_def)
  have rounds: "vm_rounds opt mc m es 1 vs 0 s4 = Some (Exited 0, [], vm_release s4)"
    by (cases es) (simp_all add: stop)
  show thesis
  proof (rule that [of r "vm_release s4"])
    show "new_format opt mc st es w files = Some (Exited 0, [Header (vs_zone st), Row r (vs_stamp st)], vm_release s4)"
      by (simp add: new_format_def s(1) c m(1) assms(4) e(1) t(1) n rounds r [symmetric, simplified] Let_def)
    show "vw_procs r = [sd_procs_running d, sd_procs_blocked d]"
      using first_values(2) [OF t(2)] t(3) by (simp add: r first_row_def Let_def split: prod.split)
    show "vw_mem r = map (unitConvert opt) (memory_shown opt (mem_derive (mem_lines (cstr mem) no_data)))"
      using memory_values [OF m(3), of opt] m(4) by (simp add: r first_row_def Let_def split: prod.split)
    show "drop 6 (vw_rest r) = cpu_percents (cpu_shares (boot_time j))"
      using first_values(1) [OF t(2)] t(4) by (simp add: r first_row_def Let_def summary_jifs split: prod.split)
  qed
qed

text \<open>
  C13. \<^verbatim>\<open>vmstat\<close> without operands, from the files to the line: it ends well after one header and one row, whose
  first columns are the processes of \<open>/proc/stat\<close>, the next the numbers of \<open>/proc/meminfo\<close> in the unit of
  display, and the last the shares of the jiffies since boot.
\<close>

theorem vmstat_first_report:
  assumes "start_reads j cs d irqs tail mem st" "\<not> vo_infinite opt" "vo_updates opt = 1" "\<not> vo_skip opt"
  shows "\<exists>r s. new_format opt mc st es w files = Some (Exited 0, [Header (vs_zone st), Row r (vs_stamp st)], s)
    \<and> vw_procs r = [sd_procs_running d, sd_procs_blocked d]
    \<and> vw_mem r = map (unitConvert opt) (memory_shown opt (mem_derive (mem_lines (cstr mem) no_data)))
    \<and> drop 6 (vw_rest r) = cpu_percents (cpu_shares (boot_time j))"
  by (rule report_runs [OF assms, of mc es w files]) blast

text \<open>The lines of the report after any number of rounds.\<close>

fun rows_of :: "vm_line list \<Rightarrow> vm_row list" where
  "rows_of [] = []"
| "rows_of (Header z # ls) = rows_of ls"
| "rows_of (Row r t # ls) = r # rows_of ls"

lemma rows_of_append [simp]: "rows_of (xs @ ys) = rows_of xs @ rows_of ys"
  by (induction xs rule: rows_of.induct) simp_all

lemma rows_of_page [simp]: "rows_of (new_page opt i z) = []"
  by (simp add: new_page_def)

lemma loop_row_mem: "vw_mem (fst (loop_row opt mc s m old vs debt)) = mem_columns opt m"
  by (simp add: loop_row_def Let_def split: prod.split)

lemma first_row_mem: "vw_mem (first_row opt mc s m vs) = mem_columns opt m"
  by (simp add: first_row_def Let_def split: prod.split)

lemma unat_lt_32: "unat (i :: 32 word) < 2 ^ 32"
  using unsigned_less [of i] by simp

lemma more_rounds_iff: "more_rounds opt i \<longleftrightarrow> vo_infinite opt \<or> unat i < unat (vo_updates opt)"
proof -
  have "unat i < 2 ^ 64" by (rule less_trans [OF unat_lt_32]) simp
  then have "unat (ucast i :: ulong) = unat i" by (simp add: unsigned_ucast_eq take_bit_nat_eq_self)
  then show ?thesis by (simp add: more_rounds_def word_less_nat_alt)
qed

text \<open>
  The counter of the rounds has 32 bits and the number asked for 64: with \<open>2\<^sup>3\<^sup>2\<close> or more, which is what a
  negative number becomes, the loop never ends by itself.
\<close>

lemma vm_rounds_endless:
  assumes "2 ^ 32 \<le> unat (vo_updates opt)"
  shows "vm_rounds opt mc m es i old debt s \<noteq> Some (Exited 0, ls, s')"
proof (induction es arbitrary: i old debt s ls)
  case Nil
  have "more_rounds opt i" using order.strict_trans2 [OF unat_lt_32 assms] by (simp add: more_rounds_iff)
  then show ?case by simp
next
  case (Cons e es)
  have "more_rounds opt i" using order.strict_trans2 [OF unat_lt_32 assms] by (simp add: more_rounds_iff)
  then show ?case using Cons.IH by (auto simp: Let_def split: option.splits prod.splits)
qed

lemma vm_rounds_rows:
  assumes "vm_rounds opt mc m es i old debt s = Some (Exited 0, ls, s')"
  shows "list_all (\<lambda>r. vw_mem r = mem_columns opt m) (rows_of ls)"
    and "\<not> vo_infinite opt \<Longrightarrow> unat i \<le> unat (vo_updates opt) \<Longrightarrow> unat i + length (rows_of ls) = unat (vo_updates opt)"
proof -
  have "list_all (\<lambda>r. vw_mem r = mem_columns opt m) (rows_of ls)
      \<and> (\<not> vo_infinite opt \<longrightarrow> unat i \<le> unat (vo_updates opt) \<longrightarrow> unat i + length (rows_of ls) = unat (vo_updates opt))"
    using assms
  proof (induction es arbitrary: i old debt s ls)
    case Nil
    then show ?case by (auto simp: more_rounds_iff split: if_splits)
  next
    case (Cons e es)
    show ?case
    proof (cases "more_rounds opt i")
      case False
      then show ?thesis using Cons.prems by (auto simp: more_rounds_iff)
    next
      case True
      obtain st s1 where st: "vm_select_stat (vr_stat e) Loop_stat_items s = Some (Some st, s1)"
        using Cons.prems True by (auto simp: Let_def split: option.splits)
      obtain vs s2 where vs: "vm_read_counters counters (vr_gets e) s1 = (vs, s2)"
        by (cases "vm_read_counters counters (vr_gets e) s1")
      obtain r debt1 where r: "loop_row opt mc st m old vs debt = (r, debt1)"
        by (cases "loop_row opt mc st m old vs debt")
      obtain ls1 where l: "vm_rounds opt mc m es (i + 1) vs debt1 s2 = Some (Exited 0, ls1, s')"
        "ls = new_page opt i (vr_zone e) @ Row r (vr_stamp e) # ls1"
        using Cons.prems True st vs r by (auto simp: Let_def)
      have m: "vw_mem r = mem_columns opt m" using loop_row_mem [of opt mc st m old vs debt] r by simp
      have n: "unat (i + 1) = unat i + 1" if "\<not> vo_infinite opt" "unat i < unat (vo_updates opt)"
      proof -
        have "unat (vo_updates opt) < 2 ^ 32" using vm_rounds_endless [of opt mc m es "i + 1" vs debt1 s2 ls1 s'] l(1) by linarith
        then have "unat i + 1 < 2 ^ 32" using that(2) by linarith
        then show ?thesis by (simp add: unat_word_ariths)
      qed
      show ?thesis using Cons.IH [OF l(1)] l(2) m n True by (auto simp: more_rounds_iff)
    qed
  qed
  then show "list_all (\<lambda>r. vw_mem r = mem_columns opt m) (rows_of ls)"
    and "\<not> vo_infinite opt \<Longrightarrow> unat i \<le> unat (vo_updates opt) \<Longrightarrow> unat i + length (rows_of ls) = unat (vo_updates opt)"
    by auto
qed

text \<open>
  C14. A report that ends by itself has as many rows as were asked for, and all of them show the same
  memory: it is selected once, before the loop.
\<close>

theorem vmstat_report_rows:
  assumes "new_format opt mc st es w files = Some (Exited 0, ls, s)"
    and "\<not> vo_infinite opt" "vo_updates opt \<noteq> 0" "vo_updates opt + 1 \<noteq> 0"
  shows "length (rows_of ls) = unat (vo_updates opt) \<and> (\<exists>mem. list_all (\<lambda>r. vw_mem r = mem) (rows_of ls))"
proof -
  obtain s0 where s0: "vm_make (vs_new st) (mc_numa mc) w files = Some (True, s0)"
    using assms(1) by (auto simp: new_format_def split: option.splits prod.splits bool.splits)
  obtain vs s1 where c: "vm_read_counters counters (vs_gets st) s0 = (vs, s1)" by (cases "vm_read_counters counters (vs_gets st) s0")
  obtain m s2 where m: "vm_select_mem (vs_mem st) Mem_items s1 = Some (Some m, s2)"
    using assms(1) by (auto simp: new_format_def s0 c Let_def split: option.splits)
  show ?thesis
  proof (cases "vo_skip opt")
    case True
    then obtain ls1 where l: "vm_rounds (opt\<lparr>vo_updates := vo_updates opt + 1\<rparr>) mc m es 1 vs 0 s2 = Some (Exited 0, ls1, s)"
      "ls = Header (vs_zone st) # ls1"
      using assms(1) by (auto simp: new_format_def s0 c m Let_def)
    have "unat (vo_updates opt + 1) = unat (vo_updates opt) + 1" using unatSuc [of "vo_updates opt"] assms(4) by (simp add: add.commute)
    then show ?thesis
      using vm_rounds_rows [OF l(1)] assms(2) by (auto simp: l(2) mem_columns_def)
  next
    case False
    then obtain t s3 where t: "vm_select_stat (vs_stat st) First_stat_items s2 = Some (Some t, s3)"
      using assms(1) by (auto simp: new_format_def s0 c m Let_def split: option.splits)
    obtain now s4 where n: "vm_read_counters [''PSWPIN'', ''PSWPOUT'', ''PGPGIN'', ''PGPGOUT''] (vs_row_gets st) s3 = (now, s4)"
      by (cases "vm_read_counters [''PSWPIN'', ''PSWPOUT'', ''PGPGIN'', ''PGPGOUT''] (vs_row_gets st) s3")
    obtain ls1 r where l: "vm_rounds opt mc m es 1 vs 0 s4 = Some (Exited 0, ls1, s)"
      "ls = Header (vs_zone st) # Row r (vs_stamp st) # ls1" "vw_mem r = mem_columns opt m"
      using assms(1) False by (auto simp: new_format_def s0 c m t n Let_def first_row_mem)
    have "1 \<le> unat (vo_updates opt)" using assms(3) unat_eq_0 [of "vo_updates opt"] by linarith
    then show ?thesis
      using vm_rounds_rows [OF l(1)] assms(2) l(3) by (auto simp: l(2))
  qed
qed

subsection \<open>A small system\<close>

definition small_stat :: stat_env where
  "small_stat = stat_env_of (stat_text (jifs 100) [(0, jifs 15), (2, jifs 35)] sample_counters [7] '''')"

definition small_start :: vm_start where
  "small_start =
     \<lparr>vs_new = \<lparr>vn_vm = vm_new, vn_stat = (True, True, None, small_stat), vn_mem = sample_new\<rparr>, vs_zone = None, vs_gets = [],
      vs_mem = sample_select, vs_stamp = None, vs_stat = (True, True, small_stat), vs_row_gets = []\<rparr>"

definition small_machine :: machine where
  "small_machine = \<lparr>mc_clk_tck = 100, mc_pagesize = 4096, mc_numa = two_nodes\<rparr>"

lemma small_start_reads:
  "start_reads (jifs 100) [(0, jifs 15), (2, jifs 35)] sample_counters [7] '''' sample_text small_start"
proof -
  have "new_reads vmstat_kind (concat (map count_line vm_sample)) vm_new"
    using vm_text_reads(1) [OF vm_sample_text] by (simp add: new_reads_def vm_new_def)
  moreover have "new_reads meminfo_kind sample_text sample_new"
    using sample_succeeds by (simp add: new_reads_def sample_new_def read_succeeds_def)
  ultimately show ?thesis
    by (auto simp: start_reads_def small_start_def small_stat_def stat_env_of_reads sample_select_def sample_succeeds)
qed

theorem vmstat_first_report_witness:
  "\<exists>r s. new_format default_opts small_machine small_start [] world0 0 = Some (Exited 0, [Header None, Row r None], s)
    \<and> vw_procs r = [0, 0]"
  using vmstat_first_report [OF small_start_reads, of default_opts small_machine "[]" world0 0]
  by (simp add: default_opts_def small_start_def sample_counters_def zero_stat_def) blast

theorem vmstat_report_rows_witness:
  "\<exists>ls s. new_format default_opts small_machine small_start [] world0 0 = Some (Exited 0, ls, s) \<and> length (rows_of ls) = 1"
proof -
  have d: "\<not> vo_infinite default_opts" "vo_updates default_opts = 1" "\<not> vo_skip default_opts"
    by (simp_all add: default_opts_def)
  obtain r s where r: "new_format default_opts small_machine small_start [] world0 0
      = Some (Exited 0, [Header (vs_zone small_start), Row r (vs_stamp small_start)], s)"
    by (rule report_runs [OF small_start_reads d, of small_machine "[]" world0 0])
  then show ?thesis using vmstat_report_rows [OF r d(1)] d(2) by auto
qed

subsection \<open>Totals of the disks\<close>

lemma length_disk_numbers: "length (vm_disk_numbers s) = 11"
  by (simp add: vm_disk_numbers_def)

text \<open>Partitions are counted, and add nothing.\<close>

lemma disk_sums_over_disks:
  "disk_sums ss (disks, parts, acc) =
     (disks + length (filter is_disk ss), parts + length (filter (\<lambda>s. \<not> is_disk s) ss),
      foldl (map2 (+)) acc (map vm_disk_numbers (filter is_disk ss)))"
  by (induction ss arbitrary: disks parts acc) simp_all

end
