(* ===== verification/PidsItems.thy ===== *)
theory PidsItems
  imports Readproc Devname SysInfo Stacks Floats
begin

unbundle bit_operations_syntax

text \<open>
  The items of \<^verbatim>\<open>procps/linux/pids.c\<close>: how each sets its result from a \<open>proc_t\<close>, and the
  controlling table, with what an item needs of the process table scan, how its storage is freed and
  how it is compared.

  The macros that make the set functions (\<open>REG_set\<close>, \<open>CVT_set\<close>, \<open>DUP_set\<close>, \<open>STR_set\<close>, \<open>VEC_set\<close>) are
  the constructors of \<open>pids_set\<close> (the last two are \<open>OWN\<close> and \<open>OWNV\<close>); \<open>DUPF\<close> is for the set functions that duplicate a string they make and
  \<open>CALC\<close> for those that compute a number with the context. A set function takes ownership of a
  string by clearing the field of the \<open>proc_t\<close>, so \<open>run_set\<close> gives the structure back. \<open>double\<close> and
  \<open>float\<close> arithmetic is that of \<open>dbl\<close> and \<open>sgl\<close>.
\<close>

text \<open>
  What the set functions use: the fields of the context, the allocations, and the other modules. The
  table of terminal drivers is the one found: loading it again from the same file gives the same.
\<close>

record pids_ctx =
  pc_shift :: nat
  pc_hertz :: ulong
  pc_boot :: rat
  pc_strdup :: "string \<Rightarrow> bool"
  pc_alloc :: "nat \<Rightarrow> bool"
  pc_node :: "int \<Rightarrow> int"
  pc_dev :: dev_env
  pc_tmap :: tty_map
  pc_wchan :: "string \<Rightarrow> string option"

datatype pids_set =
    Noop
  | Extra
  | REG "proc_t \<Rightarrow> rval"
  | CVT "proc_t \<Rightarrow> ulong"
  | DUP "proc_t \<Rightarrow> string"
  | DUPF "pids_ctx \<Rightarrow> proc_t \<Rightarrow> string option"
  | OWN string "proc_t \<Rightarrow> string option" "proc_t \<Rightarrow> proc_t"
  | OWNV string "proc_t \<Rightarrow> string list option" "proc_t \<Rightarrow> proc_t"
  | CALC "pids_ctx \<Rightarrow> rval \<Rightarrow> proc_t \<Rightarrow> rval"

text \<open>A duplicated string, a null pointer when there is no memory, and whether \<open>seterr\<close> is set.\<close>

definition dup_result :: "pids_ctx \<Rightarrow> string \<Rightarrow> rval \<times> bool" where
  "dup_result c s = (if pc_strdup c s then (Str s, False) else (Zero, True))"

definition duplicate_hint :: "string \<Rightarrow> string" where
  "duplicate_hint nm = ''[ duplicate '' @ nm @ '' ]''"

datatype free_func = FreeStr | FreeStrv

text \<open>
  Freeing the storage of a result: the strings given back. A free function reads the pointer of its
  own member; \<open>None\<close> when the member last written is another, so that it would free a number.
\<close>

definition run_free :: "free_func \<Rightarrow> rval \<Rightarrow> string list option" where
  "run_free f v =
     (case (f, v) of
        (_, Zero) \<Rightarrow> Some []
      | (FreeStr, Str s) \<Rightarrow> Some [s]
      | (FreeStrv, Strv ss) \<Rightarrow> Some ss
      | _ \<Rightarrow> None)"

text \<open>
  The result, the structure, and \<open>seterr\<close>. The set functions of strings free the old string first.
  \<open>None\<close>: what is freed is a number, or a local buffer is overrun.
\<close>

definition run_set :: "pids_ctx \<Rightarrow> pids_set \<Rightarrow> rval \<times> proc_t \<Rightarrow> (rval \<times> proc_t \<times> bool) option" where
  "run_set c s = (\<lambda>(v, P).
     case s of
       Noop \<Rightarrow> Some (v, P, False)
     | Extra \<Rightarrow> Some (Ull_int 0, P, False)
     | REG f \<Rightarrow> Some (f P, P, False)
     | CVT f \<Rightarrow> Some (Ul_int (push_bit (pc_shift c) (f P)), P, False)
     | DUP f \<Rightarrow>
         (case run_free FreeStr v of
            None \<Rightarrow> None
          | Some _ \<Rightarrow> (case dup_result c (f P) of (r, e) \<Rightarrow> Some (r, P, e)))
     | DUPF f \<Rightarrow>
         (case run_free FreeStr v of
            None \<Rightarrow> None
          | Some _ \<Rightarrow>
              (case f c P of None \<Rightarrow> None | Some t \<Rightarrow> (case dup_result c t of (r, e) \<Rightarrow> Some (r, P, e))))
     | OWN nm get clear \<Rightarrow>
         (case run_free FreeStr v of
            None \<Rightarrow> None
          | Some _ \<Rightarrow>
              (case get P of
                 Some t \<Rightarrow> Some (Str t, clear P, False)
               | None \<Rightarrow> (case dup_result c (duplicate_hint nm) of (r, e) \<Rightarrow> Some (r, P, e))))
     | OWNV nm get clear \<Rightarrow>
         (case run_free FreeStrv v of
            None \<Rightarrow> None
          | Some _ \<Rightarrow>
              (case get P of
                 Some t \<Rightarrow> Some (Strv t, clear P, False)
               | None \<Rightarrow> (case vectorize_this_str (pc_alloc c) (duplicate_hint nm) of
                            Some t \<Rightarrow> Some (Strv t, P, False)
                          | None \<Rightarrow> Some (Zero, P, True))))
     | CALC g \<Rightarrow> Some (g c v P, P, False))"

subsection \<open>The set functions that compute\<close>

text \<open>A \<open>char *\<close> that is copied without its text.\<close>

definition str_ptr :: "(proc_t \<Rightarrow> string option) \<Rightarrow> proc_t \<Rightarrow> rval" where
  "str_ptr f P = (case f P of None \<Rightarrow> Zero | Some s \<Rightarrow> Str s)"

definition dbl_of :: "ulong \<Rightarrow> rat" where
  "dbl_of w = dbl (of_nat (unat w))"

definition sgl_of :: "ulong \<Rightarrow> rat" where
  "sgl_of w = sgl (of_nat (unat w))"

definition time_all :: "pids_ctx \<Rightarrow> rval \<Rightarrow> proc_t \<Rightarrow> rval" where
  "time_all c v P = Real (dbl (dbl (dbl_of (p_utime P) + dbl_of (p_stime P)) / dbl_of (pc_hertz c)))"

definition time_all_c :: "pids_ctx \<Rightarrow> rval \<Rightarrow> proc_t \<Rightarrow> rval" where
  "time_all_c c v P =
     Real (dbl (dbl (dbl (dbl (dbl_of (p_utime P) + dbl_of (p_stime P)) + dbl_of (p_cutime P)) + dbl_of (p_cstime P))
                / dbl_of (pc_hertz c)))"

definition start_secs :: "pids_ctx \<Rightarrow> proc_t \<Rightarrow> rat" where
  "start_secs c P = dbl (dbl_of (p_start_time P) / dbl_of (pc_hertz c))"

definition time_elapsed :: "pids_ctx \<Rightarrow> rval \<Rightarrow> proc_t \<Rightarrow> rval" where
  "time_elapsed c v P = (let t = start_secs c P in Real (if t < pc_boot c then dbl (pc_boot c - t) else 0))"

definition time_start :: "pids_ctx \<Rightarrow> rval \<Rightarrow> proc_t \<Rightarrow> rval" where
  "time_start c v P = Real (start_secs c P)"

text \<open>The two percentages: with no boot time, or a process not older than it, nothing is written.\<close>

definition percent_of :: "pids_ctx \<Rightarrow> rval \<Rightarrow> ulong \<Rightarrow> proc_t \<Rightarrow> rval" where
  "percent_of c v tics P =
     (if 0 < pc_boot c then
        let t = dbl (pc_boot c - start_secs c P)
        in if 0 < t then Real (dbl (sgl (sgl (sgl_of tics * 100) / sgl_of (pc_hertz c)) / t)) else v
      else v)"

definition utilization :: "pids_ctx \<Rightarrow> rval \<Rightarrow> proc_t \<Rightarrow> rval" where
  "utilization c v P = percent_of c v (p_utime P + p_stime P) P"

definition utilization_c :: "pids_ctx \<Rightarrow> rval \<Rightarrow> proc_t \<Rightarrow> rval" where
  "utilization_c c v P = percent_of c v (p_utime P + p_stime P + p_cutime P + p_cstime P) P"

text \<open>
  The buffer has 64 bytes, all of which \<open>dev_to_tty\<close> may fill before it adds a NUL.
\<close>

definition TTY_BUF :: nat where
  "TTY_BUF = 64"

definition tty_text :: "uint \<Rightarrow> pids_ctx \<Rightarrow> proc_t \<Rightarrow> string option" where
  "tty_text flags c P =
     (let t = fst (dev_to_tty (pc_dev c) (pc_tmap c) (of_nat TTY_BUF) (word_of_int (p_tty P)) (p_tid P) flags)
      in if TTY_BUF \<le> length t then None else Some t)"

definition wchan_text :: "pids_ctx \<Rightarrow> proc_t \<Rightarrow> string option" where
  "wchan_text c P = Some (lookup_wchan (pc_wchan c) (p_tid P))"

definition pids_sets :: "(string \<times> pids_set) list" where
  "pids_sets =
    [(''noop'', Noop), (''extra'', Extra), (''ADDR_CODE_END'', REG (\<lambda>P. Ul_int (p_end_code P))),
     (''ADDR_CODE_START'', REG (\<lambda>P. Ul_int (p_start_code P))),
     (''ADDR_CURR_EIP'', REG (\<lambda>P. Ul_int (p_kstk_eip P))),
     (''ADDR_CURR_ESP'', REG (\<lambda>P. Ul_int (p_kstk_esp P))),
     (''ADDR_STACK_START'', REG (\<lambda>P. Ul_int (p_start_stack P))),
     (''AUTOGRP_ID'', REG (\<lambda>P. S_int (p_autogrp_id P))),
     (''AUTOGRP_NICE'', REG (\<lambda>P. S_int (p_autogrp_nice P))),
     (''CGNAME'', OWN ''CGNAME'' p_cgname (p_cgname_update (\<lambda>_. None))),
     (''CGROUP'', OWN ''CGROUP'' p_cgroup (p_cgroup_update (\<lambda>_. None))),
     (''CGROUP_V'', OWNV ''CGROUP_V'' p_cgroup_v (p_cgroup_v_update (\<lambda>_. None))),
     (''CMD'', OWN ''CMD'' p_cmd (p_cmd_update (\<lambda>_. None))),
     (''CMDLINE'', OWN ''CMDLINE'' p_cmdline (p_cmdline_update (\<lambda>_. None))),
     (''CMDLINE_V'', OWNV ''CMDLINE_V'' p_cmdline_v (p_cmdline_v_update (\<lambda>_. None))),
     (''ENVIRON'', OWN ''ENVIRON'' p_environ (p_environ_update (\<lambda>_. None))),
     (''ENVIRON_V'', OWNV ''ENVIRON_V'' p_environ_v (p_environ_v_update (\<lambda>_. None))),
     (''EXE'', OWN ''EXE'' p_exe (p_exe_update (\<lambda>_. None))),
     (''EXIT_SIGNAL'', REG (\<lambda>P. S_int (p_exit_signal P))),
     (''FLAGS'', REG (\<lambda>P. Ul_int (p_flags P))), (''FLT_MAJ'', REG (\<lambda>P. Ul_int (p_maj_flt P))),
     (''FLT_MAJ_C'', REG (\<lambda>P. Ul_int (p_maj_flt P + p_cmaj_flt P))),
     (''FLT_MAJ_DELTA'', REG (\<lambda>P. S_int (p_maj_delta P))),
     (''FLT_MIN'', REG (\<lambda>P. Ul_int (p_min_flt P))),
     (''FLT_MIN_C'', REG (\<lambda>P. Ul_int (p_min_flt P + p_cmin_flt P))),
     (''FLT_MIN_DELTA'', REG (\<lambda>P. S_int (p_min_delta P))),
     (''ID_EGID'', REG (\<lambda>P. U_int (p_egid P))), (''ID_EGROUP'', REG (str_ptr p_egroup)),
     (''ID_EUID'', REG (\<lambda>P. U_int (p_euid P))), (''ID_EUSER'', REG (str_ptr p_euser)),
     (''ID_FGID'', REG (\<lambda>P. U_int (p_fgid P))), (''ID_FGROUP'', REG (str_ptr p_fgroup)),
     (''ID_FUID'', REG (\<lambda>P. U_int (p_fuid P))), (''ID_FUSER'', REG (str_ptr p_fuser)),
     (''ID_LOGIN'', REG (\<lambda>P. S_int (p_luid P))), (''ID_PGRP'', REG (\<lambda>P. S_int (p_pgrp P))),
     (''ID_PID'', REG (\<lambda>P. S_int (p_tid P))), (''ID_PPID'', REG (\<lambda>P. S_int (p_ppid P))),
     (''ID_RGID'', REG (\<lambda>P. U_int (p_rgid P))), (''ID_RGROUP'', REG (str_ptr p_rgroup)),
     (''ID_RUID'', REG (\<lambda>P. U_int (p_ruid P))), (''ID_RUSER'', REG (str_ptr p_ruser)),
     (''ID_SESSION'', REG (\<lambda>P. S_int (p_session P))), (''ID_SGID'', REG (\<lambda>P. U_int (p_sgid P))),
     (''ID_SGROUP'', REG (str_ptr p_sgroup)), (''ID_SUID'', REG (\<lambda>P. U_int (p_suid P))),
     (''ID_SUSER'', REG (str_ptr p_suser)), (''ID_TGID'', REG (\<lambda>P. S_int (p_tgid P))),
     (''ID_TID'', REG (\<lambda>P. S_int (p_tid P))), (''ID_TPGID'', REG (\<lambda>P. S_int (p_tpgid P))),
     (''IO_READ_BYTES'', REG (\<lambda>P. Ul_int (p_read_bytes P))),
     (''IO_READ_CHARS'', REG (\<lambda>P. Ul_int (p_rchar P))),
     (''IO_READ_OPS'', REG (\<lambda>P. Ul_int (p_syscr P))),
     (''IO_WRITE_BYTES'', REG (\<lambda>P. Ul_int (p_write_bytes P))),
     (''IO_WRITE_CBYTES'', REG (\<lambda>P. Ul_int (p_cancelled_write_bytes P))),
     (''IO_WRITE_CHARS'', REG (\<lambda>P. Ul_int (p_wchar P))),
     (''IO_WRITE_OPS'', REG (\<lambda>P. Ul_int (p_syscw P))), (''LXCNAME'', REG (str_ptr p_lxcname)),
     (''MEM_CODE'', CVT p_trs), (''MEM_CODE_PGS'', REG (\<lambda>P. Ul_int (p_trs P))),
     (''MEM_DATA'', CVT p_drs), (''MEM_DATA_PGS'', REG (\<lambda>P. Ul_int (p_drs P))),
     (''MEM_RES'', CVT p_resident), (''MEM_RES_PGS'', REG (\<lambda>P. Ul_int (p_resident P))),
     (''MEM_SHR'', CVT p_share), (''MEM_SHR_PGS'', REG (\<lambda>P. Ul_int (p_share P))),
     (''MEM_VIRT'', CVT p_size), (''MEM_VIRT_PGS'', REG (\<lambda>P. Ul_int (p_size P))),
     (''NICE'', REG (\<lambda>P. S_int (p_nice P))), (''NLWP'', REG (\<lambda>P. S_int (p_nlwp P))),
     (''NS_IPC'', REG (\<lambda>P. Ul_int (p_ns P ! 0))), (''NS_MNT'', REG (\<lambda>P. Ul_int (p_ns P ! 1))),
     (''NS_NET'', REG (\<lambda>P. Ul_int (p_ns P ! 2))), (''NS_PID'', REG (\<lambda>P. Ul_int (p_ns P ! 3))),
     (''NS_USER'', REG (\<lambda>P. Ul_int (p_ns P ! 4))), (''NS_UTS'', REG (\<lambda>P. Ul_int (p_ns P ! 5))),
     (''OOM_ADJ'', REG (\<lambda>P. S_int (p_oom_adj P))),
     (''OOM_SCORE'', REG (\<lambda>P. S_int (p_oom_score P))),
     (''PRIORITY'', REG (\<lambda>P. S_int (p_priority P))),
     (''PRIORITY_RT'', REG (\<lambda>P. S_int (p_rtprio P))),
     (''PROCESSOR'', REG (\<lambda>P. S_int (p_processor P))),
     (''PROCESSOR_NODE'', CALC (\<lambda>c v P. S_int (pc_node c (p_processor P)))),
     (''RSS'', REG (\<lambda>P. Ul_int (p_rss P))), (''RSS_RLIM'', REG (\<lambda>P. Ul_int (p_rss_rlim P))),
     (''SCHED_CLASS'', REG (\<lambda>P. S_int (p_sched P))),
     (''SD_MACH'', OWN ''SD_MACH'' p_sd_mach (p_sd_mach_update (\<lambda>_. None))),
     (''SD_OUID'', OWN ''SD_OUID'' p_sd_ouid (p_sd_ouid_update (\<lambda>_. None))),
     (''SD_SEAT'', OWN ''SD_SEAT'' p_sd_seat (p_sd_seat_update (\<lambda>_. None))),
     (''SD_SESS'', OWN ''SD_SESS'' p_sd_sess (p_sd_sess_update (\<lambda>_. None))),
     (''SD_SLICE'', OWN ''SD_SLICE'' p_sd_slice (p_sd_slice_update (\<lambda>_. None))),
     (''SD_UNIT'', OWN ''SD_UNIT'' p_sd_unit (p_sd_unit_update (\<lambda>_. None))),
     (''SD_UUNIT'', OWN ''SD_UUNIT'' p_sd_uunit (p_sd_uunit_update (\<lambda>_. None))),
     (''SIGBLOCKED'', DUP p_blocked), (''SIGCATCH'', DUP p_sigcatch), (''SIGIGNORE'', DUP p_sigignore),
     (''SIGNALS'', DUP p_signal), (''SIGPENDING'', DUP p_sigpnd),
     (''SMAP_ANONYMOUS'', REG (\<lambda>P. Ul_int (p_smap_Anonymous P))),
     (''SMAP_HUGE_ANON'', REG (\<lambda>P. Ul_int (p_smap_AnonHugePages P))),
     (''SMAP_HUGE_FILE'', REG (\<lambda>P. Ul_int (p_smap_FilePmdMapped P))),
     (''SMAP_HUGE_SHMEM'', REG (\<lambda>P. Ul_int (p_smap_ShmemPmdMapped P))),
     (''SMAP_HUGE_TLBPRV'', REG (\<lambda>P. Ul_int (p_smap_Private_Hugetlb P))),
     (''SMAP_HUGE_TLBSHR'', REG (\<lambda>P. Ul_int (p_smap_Shared_Hugetlb P))),
     (''SMAP_LAZY_FREE'', REG (\<lambda>P. Ul_int (p_smap_LazyFree P))),
     (''SMAP_LOCKED'', REG (\<lambda>P. Ul_int (p_smap_Locked P))),
     (''SMAP_PRV_CLEAN'', REG (\<lambda>P. Ul_int (p_smap_Private_Clean P))),
     (''SMAP_PRV_DIRTY'', REG (\<lambda>P. Ul_int (p_smap_Private_Dirty P))),
     (''SMAP_PRV_TOTAL'', REG (\<lambda>P. Ul_int (p_smap_Private_Clean P + p_smap_Private_Dirty P))),
     (''SMAP_PSS'', REG (\<lambda>P. Ul_int (p_smap_Pss P))),
     (''SMAP_PSS_ANON'', REG (\<lambda>P. Ul_int (p_smap_Pss_Anon P))),
     (''SMAP_PSS_FILE'', REG (\<lambda>P. Ul_int (p_smap_Pss_File P))),
     (''SMAP_PSS_SHMEM'', REG (\<lambda>P. Ul_int (p_smap_Pss_Shmem P))),
     (''SMAP_REFERENCED'', REG (\<lambda>P. Ul_int (p_smap_Referenced P))),
     (''SMAP_RSS'', REG (\<lambda>P. Ul_int (p_smap_Rss P))),
     (''SMAP_SHR_CLEAN'', REG (\<lambda>P. Ul_int (p_smap_Shared_Clean P))),
     (''SMAP_SHR_DIRTY'', REG (\<lambda>P. Ul_int (p_smap_Shared_Dirty P))),
     (''SMAP_SWAP'', REG (\<lambda>P. Ul_int (p_smap_Swap P))),
     (''SMAP_SWAP_PSS'', REG (\<lambda>P. Ul_int (p_smap_SwapPss P))),
     (''STATE'', REG (\<lambda>P. S_ch (p_state P))),
     (''SUPGIDS'', OWN ''SUPGIDS'' p_supgid (p_supgid_update (\<lambda>_. None))),
     (''SUPGROUPS'', OWN ''SUPGROUPS'' p_supgrp (p_supgrp_update (\<lambda>_. None))),
     (''TICS_ALL'', REG (\<lambda>P. Ull_int (p_utime P + p_stime P))),
     (''TICS_ALL_C'', REG (\<lambda>P. Ull_int (p_utime P + p_stime P + p_cutime P + p_cstime P))),
     (''TICS_ALL_DELTA'', REG (\<lambda>P. U_int (word_of_int (p_pcpu P)))),
     (''TICS_BEGAN'', REG (\<lambda>P. Ull_int (p_start_time P))),
     (''TICS_BLKIO'', REG (\<lambda>P. Ull_int (p_blkio_tics P))),
     (''TICS_GUEST'', REG (\<lambda>P. Ull_int (p_gtime P))),
     (''TICS_GUEST_C'', REG (\<lambda>P. Ull_int (p_gtime P + p_cgtime P))),
     (''TICS_SYSTEM'', REG (\<lambda>P. Ull_int (p_stime P))),
     (''TICS_SYSTEM_C'', REG (\<lambda>P. Ull_int (p_stime P + p_cstime P))),
     (''TICS_USER'', REG (\<lambda>P. Ull_int (p_utime P))),
     (''TICS_USER_C'', REG (\<lambda>P. Ull_int (p_utime P + p_cutime P))), (''TIME_ALL'', CALC time_all),
     (''TIME_ALL_C'', CALC time_all_c), (''TIME_ELAPSED'', CALC time_elapsed),
     (''TIME_START'', CALC time_start), (''TTY'', REG (\<lambda>P. S_int (p_tty P))),
     (''TTY_NAME'', DUPF (tty_text ABBREV_DEV)),
     (''TTY_NUMBER'', DUPF (tty_text (ABBREV_DEV OR ABBREV_TTY OR ABBREV_PTS))),
     (''UTILIZATION'', CALC utilization), (''UTILIZATION_C'', CALC utilization_c),
     (''VM_DATA'', REG (\<lambda>P. Ul_int (p_vm_data P))), (''VM_EXE'', REG (\<lambda>P. Ul_int (p_vm_exe P))),
     (''VM_LIB'', REG (\<lambda>P. Ul_int (p_vm_lib P))), (''VM_RSS'', REG (\<lambda>P. Ul_int (p_vm_rss P))),
     (''VM_RSS_ANON'', REG (\<lambda>P. Ul_int (p_vm_rss_anon P))),
     (''VM_RSS_FILE'', REG (\<lambda>P. Ul_int (p_vm_rss_file P))),
     (''VM_RSS_LOCKED'', REG (\<lambda>P. Ul_int (p_vm_lock P))),
     (''VM_RSS_SHARED'', REG (\<lambda>P. Ul_int (p_vm_rss_shared P))),
     (''VM_SIZE'', REG (\<lambda>P. Ul_int (p_vm_size P))),
     (''VM_STACK'', REG (\<lambda>P. Ul_int (p_vm_stack P))),
     (''VM_SWAP'', REG (\<lambda>P. Ul_int (p_vm_swap P))),
     (''VM_USED'', REG (\<lambda>P. Ul_int (p_vm_swap P + p_vm_rss P))),
     (''VSIZE_PGS'', REG (\<lambda>P. Ul_int (p_vsize P))), (''WCHAN_NAME'', DUPF wchan_text)]"


subsection \<open>The controlling table\<close>

definition f_either :: "32 word" where "f_either = 0x10000000"
definition f_exe :: "32 word" where "f_exe = PROC_FILL_EXE"
definition f_grp :: "32 word" where "f_grp = PROC_FILLGRP"
definition f_io :: "32 word" where "f_io = PROC_FILLIO"
definition f_login :: "32 word" where "f_login = PROC_FILL_LUID"
definition f_lxc :: "32 word" where "f_lxc = PROC_FILL_LXC"
definition f_ns :: "32 word" where "f_ns = PROC_FILLNS"
definition f_oom :: "32 word" where "f_oom = PROC_FILLOOM"
definition f_smaps :: "32 word" where "f_smaps = PROC_FILLSMAPS"
definition f_stat :: "32 word" where "f_stat = PROC_FILLSTAT"
definition f_statm :: "32 word" where "f_statm = PROC_FILLMEM"
definition f_status :: "32 word" where "f_status = PROC_FILLSTATUS"
definition f_systemd :: "32 word" where "f_systemd = PROC_FILLSYSTEMD"
definition f_usr :: "32 word" where "f_usr = PROC_FILLUSR"
definition v_arg :: "32 word" where "v_arg = PROC_FILLARG"
definition v_cgroup :: "32 word" where "v_cgroup = PROC_FILLCGROUP"
definition v_env :: "32 word" where "v_env = PROC_FILLENV"
definition x_cgroup :: "32 word" where "x_cgroup = PROC_EDITCGRPCVT"
definition x_cmdline :: "32 word" where "x_cmdline = PROC_EDITCMDLCVT"
definition x_environ :: "32 word" where "x_environ = PROC_EDITENVRCVT"
definition x_ogroup :: "32 word" where "x_ogroup = PROC_FILL_OGROUPS"
definition x_ouser :: "32 word" where "x_ouser = PROC_FILL_OUSERS"
definition x_supgrp :: "32 word" where "x_supgrp = PROC_FILL_SUPGRP"
definition z_autogrp :: "32 word" where "z_autogrp = PROC_FILLAUTOGRP"

text \<open>The comparisons of the statistics files, and two for strings.\<close>

datatype pids_sort = QS sort_kind | Q_strv | Q_strvers

text \<open>A row: the item's name, the flags, the free function, the sort function, history, the type.\<close>

type_synonym table_row = "string \<times> 32 word \<times> free_func option \<times> pids_sort \<times> nat \<times> string"

definition pids_table_a :: "table_row list" where
  "pids_table_a =
    [(''noop'', 0, None, QS Q_noop, 0, []), (''extra'', 0, None, QS Q_ull_int, 0, []),
     (''ADDR_CODE_END'', f_stat, None, QS Q_ul_int, 0, ''ul_int''),
     (''ADDR_CODE_START'', f_stat, None, QS Q_ul_int, 0, ''ul_int''),
     (''ADDR_CURR_EIP'', f_stat, None, QS Q_ul_int, 0, ''ul_int''),
     (''ADDR_CURR_ESP'', f_stat, None, QS Q_ul_int, 0, ''ul_int''),
     (''ADDR_STACK_START'', f_stat, None, QS Q_ul_int, 0, ''ul_int''),
     (''AUTOGRP_ID'', z_autogrp, None, QS Q_s_int, 0, ''s_int''),
     (''AUTOGRP_NICE'', z_autogrp, None, QS Q_s_int, 0, ''s_int''),
     (''CGNAME'', x_cgroup, Some FreeStr, QS Q_str, 0, ''str''),
     (''CGROUP'', x_cgroup, Some FreeStr, QS Q_str, 0, ''str''),
     (''CGROUP_V'', v_cgroup, Some FreeStrv, Q_strv, 0, ''strv''),
     (''CMD'', f_either, Some FreeStr, QS Q_str, 0, ''str''),
     (''CMDLINE'', x_cmdline, Some FreeStr, QS Q_str, 0, ''str''),
     (''CMDLINE_V'', v_arg, Some FreeStrv, Q_strv, 0, ''strv''),
     (''ENVIRON'', x_environ, Some FreeStr, QS Q_str, 0, ''str''),
     (''ENVIRON_V'', v_env, Some FreeStrv, Q_strv, 0, ''strv''),
     (''EXE'', f_exe, Some FreeStr, QS Q_str, 0, ''str''),
     (''EXIT_SIGNAL'', f_stat, None, QS Q_s_int, 0, ''s_int''),
     (''FLAGS'', f_stat, None, QS Q_ul_int, 0, ''ul_int''),
     (''FLT_MAJ'', f_stat, None, QS Q_ul_int, 0, ''ul_int''),
     (''FLT_MAJ_C'', f_stat, None, QS Q_ul_int, 0, ''ul_int''),
     (''FLT_MAJ_DELTA'', f_stat, None, QS Q_s_int, 1, ''s_int''),
     (''FLT_MIN'', f_stat, None, QS Q_ul_int, 0, ''ul_int''),
     (''FLT_MIN_C'', f_stat, None, QS Q_ul_int, 0, ''ul_int''),
     (''FLT_MIN_DELTA'', f_stat, None, QS Q_s_int, 1, ''s_int''),
     (''ID_EGID'', 0, None, QS Q_u_int, 0, ''u_int''), (''ID_EGROUP'', f_grp, None, QS Q_str, 0, ''str''),
     (''ID_EUID'', 0, None, QS Q_u_int, 0, ''u_int''), (''ID_EUSER'', f_usr, None, QS Q_str, 0, ''str''),
     (''ID_FGID'', f_status, None, QS Q_u_int, 0, ''u_int''),
     (''ID_FGROUP'', x_ogroup, None, QS Q_str, 0, ''str''),
     (''ID_FUID'', f_status, None, QS Q_u_int, 0, ''u_int''), (''ID_FUSER'', x_ouser, None, QS Q_str, 0, ''str''),
     (''ID_LOGIN'', f_login, None, QS Q_s_int, 0, ''s_int''),
     (''ID_PGRP'', f_stat, None, QS Q_s_int, 0, ''s_int''), (''ID_PID'', 0, None, QS Q_s_int, 0, ''s_int''),
     (''ID_PPID'', f_either, None, QS Q_s_int, 0, ''s_int''),
     (''ID_RGID'', f_status, None, QS Q_u_int, 0, ''u_int''),
     (''ID_RGROUP'', x_ogroup, None, QS Q_str, 0, ''str''),
     (''ID_RUID'', f_status, None, QS Q_u_int, 0, ''u_int''), (''ID_RUSER'', x_ouser, None, QS Q_str, 0, ''str''),
     (''ID_SESSION'', f_stat, None, QS Q_s_int, 0, ''s_int''),
     (''ID_SGID'', f_status, None, QS Q_u_int, 0, ''u_int''),
     (''ID_SGROUP'', x_ogroup, None, QS Q_str, 0, ''str''),
     (''ID_SUID'', f_status, None, QS Q_u_int, 0, ''u_int''), (''ID_SUSER'', x_ouser, None, QS Q_str, 0, ''str''),
     (''ID_TGID'', 0, None, QS Q_s_int, 0, ''s_int''), (''ID_TID'', 0, None, QS Q_s_int, 0, ''s_int''),
     (''ID_TPGID'', f_stat, None, QS Q_s_int, 0, ''s_int''),
     (''IO_READ_BYTES'', f_io, None, QS Q_ul_int, 0, ''ul_int''),
     (''IO_READ_CHARS'', f_io, None, QS Q_ul_int, 0, ''ul_int''),
     (''IO_READ_OPS'', f_io, None, QS Q_ul_int, 0, ''ul_int''),
     (''IO_WRITE_BYTES'', f_io, None, QS Q_ul_int, 0, ''ul_int''),
     (''IO_WRITE_CBYTES'', f_io, None, QS Q_ul_int, 0, ''ul_int''),
     (''IO_WRITE_CHARS'', f_io, None, QS Q_ul_int, 0, ''ul_int''),
     (''IO_WRITE_OPS'', f_io, None, QS Q_ul_int, 0, ''ul_int''), (''LXCNAME'', f_lxc, None, QS Q_str, 0, ''str''),
     (''MEM_CODE'', f_statm, None, QS Q_ul_int, 0, ''ul_int''),
     (''MEM_CODE_PGS'', f_statm, None, QS Q_ul_int, 0, ''ul_int''),
     (''MEM_DATA'', f_statm, None, QS Q_ul_int, 0, ''ul_int''),
     (''MEM_DATA_PGS'', f_statm, None, QS Q_ul_int, 0, ''ul_int''),
     (''MEM_RES'', f_statm, None, QS Q_ul_int, 0, ''ul_int''),
     (''MEM_RES_PGS'', f_statm, None, QS Q_ul_int, 0, ''ul_int''),
     (''MEM_SHR'', f_statm, None, QS Q_ul_int, 0, ''ul_int''),
     (''MEM_SHR_PGS'', f_statm, None, QS Q_ul_int, 0, ''ul_int''),
     (''MEM_VIRT'', f_statm, None, QS Q_ul_int, 0, ''ul_int''),
     (''MEM_VIRT_PGS'', f_statm, None, QS Q_ul_int, 0, ''ul_int''),
     (''NICE'', f_stat, None, QS Q_s_int, 0, ''s_int''), (''NLWP'', f_either, None, QS Q_s_int, 0, ''s_int''),
     (''NS_IPC'', f_ns, None, QS Q_ul_int, 0, ''ul_int''), (''NS_MNT'', f_ns, None, QS Q_ul_int, 0, ''ul_int''),
     (''NS_NET'', f_ns, None, QS Q_ul_int, 0, ''ul_int''), (''NS_PID'', f_ns, None, QS Q_ul_int, 0, ''ul_int''),
     (''NS_USER'', f_ns, None, QS Q_ul_int, 0, ''ul_int''), (''NS_UTS'', f_ns, None, QS Q_ul_int, 0, ''ul_int''),
     (''OOM_ADJ'', f_oom, None, QS Q_s_int, 0, ''s_int''), (''OOM_SCORE'', f_oom, None, QS Q_s_int, 0, ''s_int''),
     (''PRIORITY'', f_stat, None, QS Q_s_int, 0, ''s_int''),
     (''PRIORITY_RT'', f_stat, None, QS Q_s_int, 0, ''s_int''),
     (''PROCESSOR'', f_stat, None, QS Q_s_int, 0, ''s_int''),
     (''PROCESSOR_NODE'', f_stat, None, QS Q_s_int, 0, ''s_int'')]"

definition pids_table_z :: "table_row list" where
  "pids_table_z =
    [(''RSS'', f_stat, None, QS Q_ul_int, 0, ''ul_int''),
     (''RSS_RLIM'', f_stat, None, QS Q_ul_int, 0, ''ul_int''),
     (''SCHED_CLASS'', f_stat, None, QS Q_s_int, 0, ''s_int''),
     (''SD_MACH'', f_systemd, Some FreeStr, QS Q_str, 0, ''str''),
     (''SD_OUID'', f_systemd, Some FreeStr, QS Q_str, 0, ''str''),
     (''SD_SEAT'', f_systemd, Some FreeStr, QS Q_str, 0, ''str''),
     (''SD_SESS'', f_systemd, Some FreeStr, QS Q_str, 0, ''str''),
     (''SD_SLICE'', f_systemd, Some FreeStr, QS Q_str, 0, ''str''),
     (''SD_UNIT'', f_systemd, Some FreeStr, QS Q_str, 0, ''str''),
     (''SD_UUNIT'', f_systemd, Some FreeStr, QS Q_str, 0, ''str''),
     (''SIGBLOCKED'', f_status, Some FreeStr, QS Q_str, 0, ''str''),
     (''SIGCATCH'', f_status, Some FreeStr, QS Q_str, 0, ''str''),
     (''SIGIGNORE'', f_status, Some FreeStr, QS Q_str, 0, ''str''),
     (''SIGNALS'', f_status, Some FreeStr, QS Q_str, 0, ''str''),
     (''SIGPENDING'', f_status, Some FreeStr, QS Q_str, 0, ''str''),
     (''SMAP_ANONYMOUS'', f_smaps, None, QS Q_ul_int, 0, ''ul_int''),
     (''SMAP_HUGE_ANON'', f_smaps, None, QS Q_ul_int, 0, ''ul_int''),
     (''SMAP_HUGE_FILE'', f_smaps, None, QS Q_ul_int, 0, ''ul_int''),
     (''SMAP_HUGE_SHMEM'', f_smaps, None, QS Q_ul_int, 0, ''ul_int''),
     (''SMAP_HUGE_TLBPRV'', f_smaps, None, QS Q_ul_int, 0, ''ul_int''),
     (''SMAP_HUGE_TLBSHR'', f_smaps, None, QS Q_ul_int, 0, ''ul_int''),
     (''SMAP_LAZY_FREE'', f_smaps, None, QS Q_ul_int, 0, ''ul_int''),
     (''SMAP_LOCKED'', f_smaps, None, QS Q_ul_int, 0, ''ul_int''),
     (''SMAP_PRV_CLEAN'', f_smaps, None, QS Q_ul_int, 0, ''ul_int''),
     (''SMAP_PRV_DIRTY'', f_smaps, None, QS Q_ul_int, 0, ''ul_int''),
     (''SMAP_PRV_TOTAL'', f_smaps, None, QS Q_ul_int, 0, ''ul_int''),
     (''SMAP_PSS'', f_smaps, None, QS Q_ul_int, 0, ''ul_int''),
     (''SMAP_PSS_ANON'', f_smaps, None, QS Q_ul_int, 0, ''ul_int''),
     (''SMAP_PSS_FILE'', f_smaps, None, QS Q_ul_int, 0, ''ul_int''),
     (''SMAP_PSS_SHMEM'', f_smaps, None, QS Q_ul_int, 0, ''ul_int''),
     (''SMAP_REFERENCED'', f_smaps, None, QS Q_ul_int, 0, ''ul_int''),
     (''SMAP_RSS'', f_smaps, None, QS Q_ul_int, 0, ''ul_int''),
     (''SMAP_SHR_CLEAN'', f_smaps, None, QS Q_ul_int, 0, ''ul_int''),
     (''SMAP_SHR_DIRTY'', f_smaps, None, QS Q_ul_int, 0, ''ul_int''),
     (''SMAP_SWAP'', f_smaps, None, QS Q_ul_int, 0, ''ul_int''),
     (''SMAP_SWAP_PSS'', f_smaps, None, QS Q_ul_int, 0, ''ul_int''),
     (''STATE'', f_either, None, QS Q_s_ch, 0, ''s_ch''),
     (''SUPGIDS'', f_status, Some FreeStr, QS Q_str, 0, ''str''),
     (''SUPGROUPS'', x_supgrp, Some FreeStr, QS Q_str, 0, ''str''),
     (''TICS_ALL'', f_stat, None, QS Q_ull_int, 0, ''ull_int''),
     (''TICS_ALL_C'', f_stat, None, QS Q_ull_int, 0, ''ull_int''),
     (''TICS_ALL_DELTA'', f_stat, None, QS Q_u_int, 1, ''u_int''),
     (''TICS_BEGAN'', f_stat, None, QS Q_ull_int, 0, ''ull_int''),
     (''TICS_BLKIO'', f_stat, None, QS Q_ull_int, 0, ''ull_int''),
     (''TICS_GUEST'', f_stat, None, QS Q_ull_int, 0, ''ull_int''),
     (''TICS_GUEST_C'', f_stat, None, QS Q_ull_int, 0, ''ull_int''),
     (''TICS_SYSTEM'', f_stat, None, QS Q_ull_int, 0, ''ull_int''),
     (''TICS_SYSTEM_C'', f_stat, None, QS Q_ull_int, 0, ''ull_int''),
     (''TICS_USER'', f_stat, None, QS Q_ull_int, 0, ''ull_int''),
     (''TICS_USER_C'', f_stat, None, QS Q_ull_int, 0, ''ull_int''),
     (''TIME_ALL'', f_stat, None, QS Q_real, 0, ''real''), (''TIME_ALL_C'', f_stat, None, QS Q_real, 0, ''real''),
     (''TIME_ELAPSED'', f_stat, None, QS Q_real, 0, ''real''),
     (''TIME_START'', f_stat, None, QS Q_real, 0, ''real''), (''TTY'', f_stat, None, QS Q_s_int, 0, ''s_int''),
     (''TTY_NAME'', f_stat, Some FreeStr, Q_strvers, 0, ''str''),
     (''TTY_NUMBER'', f_stat, Some FreeStr, Q_strvers, 0, ''str''),
     (''UTILIZATION'', f_stat, None, QS Q_real, 0, ''real''),
     (''UTILIZATION_C'', f_stat, None, QS Q_real, 0, ''real''),
     (''VM_DATA'', f_status, None, QS Q_ul_int, 0, ''ul_int''),
     (''VM_EXE'', f_status, None, QS Q_ul_int, 0, ''ul_int''),
     (''VM_LIB'', f_status, None, QS Q_ul_int, 0, ''ul_int''),
     (''VM_RSS'', f_status, None, QS Q_ul_int, 0, ''ul_int''),
     (''VM_RSS_ANON'', f_status, None, QS Q_ul_int, 0, ''ul_int''),
     (''VM_RSS_FILE'', f_status, None, QS Q_ul_int, 0, ''ul_int''),
     (''VM_RSS_LOCKED'', f_status, None, QS Q_ul_int, 0, ''ul_int''),
     (''VM_RSS_SHARED'', f_status, None, QS Q_ul_int, 0, ''ul_int''),
     (''VM_SIZE'', f_status, None, QS Q_ul_int, 0, ''ul_int''),
     (''VM_STACK'', f_status, None, QS Q_ul_int, 0, ''ul_int''),
     (''VM_SWAP'', f_status, None, QS Q_ul_int, 0, ''ul_int''),
     (''VM_USED'', f_status, None, QS Q_ul_int, 0, ''ul_int''),
     (''VSIZE_PGS'', f_stat, None, QS Q_ul_int, 0, ''ul_int''),
     (''WCHAN_NAME'', 0, Some FreeStr, QS Q_str, 0, ''str'')]"

definition pids_table :: "table_row list" where
  "pids_table = pids_table_a @ pids_table_z"

definition item_set :: "item \<Rightarrow> pids_set" where
  "item_set i = snd (pids_sets ! i)"

definition item_oldflags :: "item \<Rightarrow> 32 word" where
  "item_oldflags i = fst (snd (pids_table ! i))"

definition item_freefunc :: "item \<Rightarrow> free_func option" where
  "item_freefunc i = fst (snd (snd (pids_table ! i)))"

definition item_sortfunc :: "item \<Rightarrow> pids_sort" where
  "item_sortfunc i = fst (snd (snd (snd (pids_table ! i))))"

definition item_needhist :: "item \<Rightarrow> bool" where
  "item_needhist i \<longleftrightarrow> fst (snd (snd (snd (snd (pids_table ! i))))) \<noteq> 0"

definition item_type :: "item \<Rightarrow> string" where
  "item_type i = snd (snd (snd (snd (snd (pids_table ! i)))))"

definition PIDS_logical_end :: nat where
  "PIDS_logical_end = 155"

subsection \<open>Results\<close>

text \<open>
  Filling a stack: the stack, what the set functions leave of the structure, and \<open>seterr\<close>.
  \<open>None\<close> when the loop runs past the end of the stack, or a set function frees a number or overruns its buffer.
\<close>

fun pids_assign_results :: "pids_ctx \<Rightarrow> stack \<Rightarrow> proc_t \<Rightarrow> (stack \<times> proc_t \<times> bool) option" where
  "pids_assign_results c [] P = None"
| "pids_assign_results c (r # rs) P =
     (if PIDS_logical_end \<le> rc_item r then Some (r # rs, P, False)
      else case run_set c (item_set (rc_item r)) (rc_val r, P) of
             None \<Rightarrow> None
           | Some (v, P1, e1) \<Rightarrow>
               (case pids_assign_results c rs P1 of
                  None \<Rightarrow> None
                | Some (rs', P2, e2) \<Rightarrow> Some (r\<lparr>rc_val := v\<rparr> # rs', P2, e1 \<or> e2)))"

fun pids_cleanup_stack :: "stack \<Rightarrow> stack option" where
  "pids_cleanup_stack [] = None"
| "pids_cleanup_stack (r # rs) =
     (if PIDS_logical_end \<le> rc_item r then Some (r # rs)
      else case (case item_freefunc (rc_item r) of None \<Rightarrow> Some [] | Some f \<Rightarrow> run_free f (rc_val r)) of
             None \<Rightarrow> None
           | Some _ \<Rightarrow> map_option ((#) (r\<lparr>rc_val := Zero\<rparr>)) (pids_cleanup_stack rs))"

end
