(* ===== verification/PidsHist.thy ===== *)
theory PidsHist
  imports ProcT Stacks
begin

text \<open>
  The history support of \<^verbatim>\<open>procps/linux/pids.c\<close>: two frames of records, one for each process
  tallied, each found through a table of 4096 hash chains, and the change between the frames that
  the \<open>_DELTA\<close> items show.

  The arrays of records and of chain heads are lists; \<open>junk\<close> is what the memory added by \<open>realloc\<close>
  holds. An array of records is \<open>None\<close> when a failed \<open>realloc\<close> has left a null pointer. The two hash
  tables, reached through \<open>PHash_sav\<close> and \<open>PHash_new\<close>, change places with the arrays.
\<close>

definition HHASH_SIZE :: nat where "HHASH_SIZE = 4096"
definition NEWOLD_INIT :: nat where "NEWOLD_INIT = 1024"
definition NEWOLD_GROW :: nat where "NEWOLD_GROW = 128"

record hst =
  hs_tics :: ulong
  hs_maj :: ulong
  hs_min :: ulong
  hs_pid :: int
  hs_lnk :: int

definition zero_hst :: hst where
  "zero_hst = \<lparr>hs_tics = 0, hs_maj = 0, hs_min = 0, hs_pid = 0, hs_lnk = 0\<rparr>"

record history_info =
  hi_num_tasks :: nat
  hi_siz :: nat
  hi_sav :: "hst list option"
  hi_new :: "hst list option"
  hi_hash_sav :: "int list"
  hi_hash_new :: "int list"

text \<open>The hash of a pid, by the low bits of its two's complement.\<close>

definition hash_pid :: "int \<Rightarrow> nat" where
  "hash_pid pid = nat (pid mod int HHASH_SIZE)"

definition hash_nul :: "int list" where
  "hash_nul = replicate HHASH_SIZE (- 1)"

text \<open>The structure as \<open>new\<close> leaves it.\<close>

definition pids_config_history :: history_info where
  "pids_config_history =
     \<lparr>hi_num_tasks = 0, hi_siz = NEWOLD_INIT, hi_sav = Some (replicate NEWOLD_INIT zero_hst),
      hi_new = Some (replicate NEWOLD_INIT zero_hst), hi_hash_sav = hash_nul, hi_hash_new = hash_nul\<rparr>"

text \<open>Following a chain; \<open>None\<close> when it leaves the array or never ends.\<close>

partial_function (option) histget_loop :: "hst list \<Rightarrow> int \<Rightarrow> int \<Rightarrow> hst option option" where
  "histget_loop arr pid V =
     (if V \<le> - 1 then Some None
      else if length arr \<le> nat V then None
      else if hs_pid (arr ! nat V) = pid then Some (Some (arr ! nat V))
      else histget_loop arr pid (hs_lnk (arr ! nat V)))"

definition pids_histget :: "history_info \<Rightarrow> int \<Rightarrow> hst option option" where
  "pids_histget hi pid =
     (case hi_sav hi of
        None \<Rightarrow> if hi_hash_sav hi ! hash_pid pid \<le> - 1 then Some None else None
      | Some arr \<Rightarrow> histget_loop arr pid (hi_hash_sav hi ! hash_pid pid))"

text \<open>Entering the record in the given slot at the head of its chain.\<close>

definition pids_histput :: "nat \<Rightarrow> hst list \<Rightarrow> int list \<Rightarrow> hst list \<times> int list" where
  "pids_histput slot arr heads =
     (let V = hash_pid (hs_pid (arr ! slot))
      in (arr[slot := (arr ! slot)\<lparr>hs_lnk := heads ! V\<rparr>], heads[V := int slot]))"

definition c_int_of :: "ulong \<Rightarrow> int" where
  "c_int_of w = sint (ucast w :: 32 word)"

text \<open>Growing both arrays when the next slot would be the last.\<close>

definition hist_grow :: "hst \<Rightarrow> bool \<times> bool \<Rightarrow> history_info \<Rightarrow> history_info" where
  "hist_grow junk ok hi =
     (if hi_siz hi \<le> hi_num_tasks hi + 1 then
        let grow = (\<lambda>ok a. if ok then Some (case a of None \<Rightarrow> replicate (hi_siz hi + NEWOLD_GROW) junk
                                                    | Some arr \<Rightarrow> arr @ replicate NEWOLD_GROW junk)
                           else None)
        in hi\<lparr>hi_siz := hi_siz hi + NEWOLD_GROW, hi_sav := grow (fst ok) (hi_sav hi), hi_new := grow (snd ok) (hi_new hi)\<rparr>
      else hi)"

text \<open>
  Tallying a process: the value returned, the structure with its deltas, and the history. \<open>ok\<close> says
  whether the old and the new array can grow. \<open>None\<close>: a null array is written, or a chain is broken.
\<close>

definition pids_make_hist ::
  "hst \<Rightarrow> bool \<times> bool \<Rightarrow> history_info \<Rightarrow> proc_t \<Rightarrow> (bool \<times> proc_t \<times> history_info) option" where
  "pids_make_hist junk ok hi p =
     (let slot = hi_num_tasks hi; hi1 = hist_grow junk ok hi
      in if hi_siz hi \<le> slot + 1 \<and> (hi_sav hi1 = None \<or> hi_new hi1 = None) then Some (False, p, hi1)
         else case hi_new hi1 of
                None \<Rightarrow> None
              | Some arr \<Rightarrow>
                  if length arr \<le> slot then None
                  else
                    let tics = p_utime p + p_stime p;
                        r = (arr ! slot)\<lparr>hs_pid := p_tid p, hs_maj := p_maj_flt p, hs_min := p_min_flt p, hs_tics := tics\<rparr>;
                        (arr', heads') = pids_histput slot (arr[slot := r]) (hi_hash_new hi1);
                        hi2 = hi1\<lparr>hi_new := Some arr', hi_hash_new := heads'\<rparr>
                    in case pids_histget hi2 (p_tid p) of
                         None \<Rightarrow> None
                       | Some None \<Rightarrow>
                           Some (True, p\<lparr>p_pcpu := c_int_of tics\<rparr>, hi2\<lparr>hi_num_tasks := slot + 1\<rparr>)
                       | Some (Some h) \<Rightarrow>
                           Some (True, p\<lparr>p_maj_delta := c_int_of (p_maj_flt p - hs_maj h),
                                         p_min_delta := c_int_of (p_min_flt p - hs_min h),
                                         p_pcpu := c_int_of (tics - hs_tics h)\<rparr>,
                                 hi2\<lparr>hi_num_tasks := slot + 1\<rparr>))"

definition pids_toggle_history :: "history_info \<Rightarrow> history_info" where
  "pids_toggle_history hi =
     hi\<lparr>hi_sav := hi_new hi, hi_new := hi_sav hi, hi_hash_sav := hi_hash_new hi, hi_hash_new := hash_nul,
        hi_num_tasks := 0\<rparr>"

subsection \<open>What a frame of records is\<close>

text \<open>
  The head of a chain over the records, the newest first: the slot of the newest record in the
  bucket. A frame of \<open>n\<close> records is linked when the heads and the links are these.
\<close>

fun chain_top :: "nat \<Rightarrow> hst list \<Rightarrow> int" where
  "chain_top b [] = - 1"
| "chain_top b (h # hs) = (if hash_pid (hs_pid h) = b then int (length hs) else chain_top b hs)"

definition newest :: "nat \<Rightarrow> hst list \<Rightarrow> hst list" where
  "newest n arr = rev (take n arr)"

definition linked :: "nat \<Rightarrow> hst list \<Rightarrow> int list \<Rightarrow> bool" where
  "linked n arr heads \<longleftrightarrow>
     n \<le> length arr \<and> length heads = HHASH_SIZE
     \<and> (\<forall>b<HHASH_SIZE. heads ! b = chain_top b (newest n arr))
     \<and> (\<forall>i<n. hs_lnk (arr ! i) = chain_top (hash_pid (hs_pid (arr ! i))) (newest i arr))"

definition hist_ok :: "history_info \<Rightarrow> bool" where
  "hist_ok hi \<longleftrightarrow>
     (\<exists>old new m. hi_sav hi = Some old \<and> hi_new hi = Some new \<and> length old = hi_siz hi \<and> length new = hi_siz hi
        \<and> hi_num_tasks hi < hi_siz hi \<and> linked m old (hi_hash_sav hi) \<and> linked (hi_num_tasks hi) new (hi_hash_new hi))"

lemma hash_pid_less [simp]: "hash_pid pid < HHASH_SIZE"
proof -
  have "pid mod int HHASH_SIZE < int HHASH_SIZE" by (rule pos_mod_bound) (simp add: HHASH_SIZE_def)
  then show ?thesis by (simp add: hash_pid_def HHASH_SIZE_def)
qed

lemma newest_Suc: "i < length arr \<Longrightarrow> newest (Suc i) arr = arr ! i # newest i arr"
  by (simp add: newest_def take_Suc_conv_app_nth)

lemma newest_length [simp]: "i \<le> length arr \<Longrightarrow> length (newest i arr) = i"
  by (simp add: newest_def)

lemma chain_top_bounds: "- 1 \<le> chain_top b hs \<and> chain_top b hs < int (length hs)"
  by (induction hs) auto

text \<open>Following a chain finds the newest record of the pid.\<close>

lemma histget_chain:
  assumes "linked n arr heads" "i \<le> n"
  shows "histget_loop arr pid (chain_top (hash_pid pid) (newest i arr)) = Some (find (\<lambda>h. hs_pid h = pid) (newest i arr))"
  using assms(2)
proof (induction i)
  case 0
  show ?case by (simp add: newest_def histget_loop.simps)
next
  case (Suc i)
  have i: "i < length arr" "i < n" using Suc.prems assms(1) by (auto simp: linked_def)
  have len: "length (newest i arr) = i" using i by simp
  show ?case
  proof (cases "hash_pid (hs_pid (arr ! i)) = hash_pid pid")
    case True
    have lnk: "hs_lnk (arr ! i) = chain_top (hash_pid pid) (newest i arr)"
      using assms(1) i True by (simp add: linked_def)
    show ?thesis
    proof (cases "hs_pid (arr ! i) = pid")
      case True
      then show ?thesis using i len by (subst histget_loop.simps) (simp add: newest_Suc)
    next
      case False
      then show ?thesis
        using i len lnk Suc \<open>hash_pid (hs_pid (arr ! i)) = hash_pid pid\<close>
        by (subst histget_loop.simps) (simp add: newest_Suc)
    qed
  next
    case False
    then have "hs_pid (arr ! i) \<noteq> pid" by auto
    then show ?thesis using False i Suc by (simp add: newest_Suc)
  qed
qed

lemma histget_newest:
  assumes "hi_sav hi = Some old" "linked m old (hi_hash_sav hi)"
  shows "pids_histget hi pid = Some (find (\<lambda>h. hs_pid h = pid) (newest m old))"
proof -
  have "hi_hash_sav hi ! hash_pid pid = chain_top (hash_pid pid) (newest m old)"
    using assms(2) by (simp add: linked_def)
  then show ?thesis using assms(1) histget_chain [OF assms(2) order_refl] by (simp add: pids_histget_def)
qed

lemma linked_empty: "linked 0 arr hash_nul"
  by (simp add: linked_def hash_nul_def newest_def HHASH_SIZE_def)

lemma linked_grown: "linked n arr heads \<Longrightarrow> linked n (arr @ xs) heads"
  by (auto simp: linked_def newest_def nth_append)

lemma newest_update: "i \<le> k \<Longrightarrow> newest i (arr[k := r]) = newest i arr"
  by (simp add: newest_def)

text \<open>Entering a record keeps the frame linked.\<close>

lemma linked_put:
  assumes "linked n arr heads" "n < length arr" "hs_pid r = pid"
    and "(arr', heads') = pids_histput n (arr[n := r]) heads"
  shows "linked (Suc n) arr' heads'" "newest (Suc n) arr' = r\<lparr>hs_lnk := heads ! hash_pid pid\<rparr> # newest n arr"
    "length arr' = length arr"
proof -
  let ?r = "r\<lparr>hs_lnk := heads ! hash_pid pid\<rparr>"
  have arr': "arr' = arr[n := ?r]" and heads': "heads' = heads[hash_pid pid := int n]"
    using assms(2,3,4) by (auto simp: pids_histput_def Let_def)
  show nw: "newest (Suc n) arr' = ?r # newest n arr" and "length arr' = length arr"
    using assms(2) by (simp_all add: arr' newest_Suc newest_update)
  have top: "heads ! hash_pid pid = chain_top (hash_pid pid) (newest n arr)"
    using assms(1) by (simp add: linked_def)
  have 1: "heads' ! b = chain_top b (newest (Suc n) arr')" if "b < HHASH_SIZE" for b
    using assms(1,2,3) that by (auto simp: nw heads' linked_def nth_list_update)
  have 2: "hs_lnk (arr' ! i) = chain_top (hash_pid (hs_pid (arr' ! i))) (newest i arr')" if "i < Suc n" for i
  proof (cases "i = n")
    case True
    then show ?thesis using assms(2,3) top by (simp add: arr' newest_update)
  next
    case False
    then have "i < n" using that by simp
    then show ?thesis using assms(1) by (simp add: arr' linked_def newest_update)
  qed
  show "linked (Suc n) arr' heads'" using assms(1,2) 1 2 by (simp add: linked_def arr' heads')
qed

subsection \<open>The history as two maps\<close>

text \<open>
  What the history stands for: for every pid the tics and faults of the last frame, and those of the
  frame being made. The deltas of a process are taken against the last frame; one that was not there
  counts all its tics.
\<close>

type_synonym hist_frame = "int \<Rightarrow> (ulong \<times> ulong \<times> ulong) option"

definition hst_counts :: "hst \<Rightarrow> ulong \<times> ulong \<times> ulong" where
  "hst_counts h = (hs_tics h, hs_maj h, hs_min h)"

definition proc_counts :: "proc_t \<Rightarrow> ulong \<times> ulong \<times> ulong" where
  "proc_counts p = (p_utime p + p_stime p, p_maj_flt p, p_min_flt p)"

definition old_frame :: "history_info \<Rightarrow> hist_frame" where
  "old_frame hi pid = (case pids_histget hi pid of Some (Some h) \<Rightarrow> Some (hst_counts h) | _ \<Rightarrow> None)"

definition new_frame :: "history_info \<Rightarrow> hist_frame" where
  "new_frame hi pid =
     map_option hst_counts (find (\<lambda>h. hs_pid h = pid) (newest (hi_num_tasks hi) (the (hi_new hi))))"

definition tallied :: "hist_frame \<Rightarrow> proc_t \<Rightarrow> proc_t" where
  "tallied old p =
     (case old (p_tid p) of
        None \<Rightarrow> p\<lparr>p_pcpu := c_int_of (p_utime p + p_stime p)\<rparr>
      | Some (tics, maj, mn) \<Rightarrow>
          p\<lparr>p_maj_delta := c_int_of (p_maj_flt p - maj), p_min_delta := c_int_of (p_min_flt p - mn),
            p_pcpu := c_int_of (p_utime p + p_stime p - tics)\<rparr>)"

lemma old_frame_linked:
  assumes "hi_sav hi = Some old" "linked m old (hi_hash_sav hi)"
  shows "pids_histget hi pid = Some (find (\<lambda>h. hs_pid h = pid) (newest m old))"
    "old_frame hi pid = map_option hst_counts (find (\<lambda>h. hs_pid h = pid) (newest m old))"
  using histget_newest [OF assms, of pid] by (simp_all add: old_frame_def split: option.splits)

lemma newest_append: "n \<le> length arr \<Longrightarrow> newest n (arr @ xs) = newest n arr"
  by (simp add: newest_def)

text \<open>Growing changes neither frame, and leaves room for the record.\<close>

lemma hist_grow_ok:
  assumes "hist_ok hi"
  obtains old new m where "hi_sav (hist_grow junk (True, True) hi) = Some old"
    "hi_new (hist_grow junk (True, True) hi) = Some new"
    "length old = hi_siz (hist_grow junk (True, True) hi)" "length new = hi_siz (hist_grow junk (True, True) hi)"
    "hi_num_tasks hi + 1 < hi_siz (hist_grow junk (True, True) hi)"
    "linked m old (hi_hash_sav hi)" "linked (hi_num_tasks hi) new (hi_hash_new hi)"
    "old_frame hi = (\<lambda>pid. map_option hst_counts (find (\<lambda>h. hs_pid h = pid) (newest m old)))"
    "new_frame hi = (\<lambda>pid. map_option hst_counts (find (\<lambda>h. hs_pid h = pid) (newest (hi_num_tasks hi) new)))"
proof -
  obtain old new m where h: "hi_sav hi = Some old" "hi_new hi = Some new" "length old = hi_siz hi" "length new = hi_siz hi"
      "hi_num_tasks hi < hi_siz hi" "linked m old (hi_hash_sav hi)" "linked (hi_num_tasks hi) new (hi_hash_new hi)"
    using assms by (auto simp: hist_ok_def)
  have m: "m \<le> length old" using h(6) by (simp add: linked_def)
  let ?g = "\<lambda>a. if hi_siz hi \<le> hi_num_tasks hi + 1 then a @ replicate NEWOLD_GROW junk else a"
  show thesis
  proof (rule that [of "?g old" "?g new" m])
    show "old_frame hi = (\<lambda>pid. map_option hst_counts (find (\<lambda>h. hs_pid h = pid) (newest m (?g old))))"
      using old_frame_linked(2) [OF h(1,6)] m by (auto simp: newest_append)
    show "new_frame hi = (\<lambda>pid. map_option hst_counts (find (\<lambda>h. hs_pid h = pid) (newest (hi_num_tasks hi) (?g new))))"
      using h(2,4,5) by (auto simp: new_frame_def newest_append)
  qed (use h in \<open>auto simp: hist_grow_def linked_grown NEWOLD_GROW_def\<close>)
qed

lemma hist_grow_hash [simp]:
  "hi_hash_sav (hist_grow junk ok hi) = hi_hash_sav hi" "hi_hash_new (hist_grow junk ok hi) = hi_hash_new hi"
  "hi_num_tasks (hist_grow junk ok hi) = hi_num_tasks hi"
  by (simp_all add: hist_grow_def Let_def)

text \<open>
  Tallying a process gives it the deltas against the last frame and enters it in the new one, and
  toggling makes the new frame the last: the hash chains and growing arrays implement two maps.
\<close>

lemma hist_refines:
  assumes "hist_ok hi"
  shows "\<exists>hi'. pids_make_hist junk (True, True) hi p = Some (True, tallied (old_frame hi) p, hi') \<and> hist_ok hi'
      \<and> old_frame hi' = old_frame hi \<and> new_frame hi' = (new_frame hi)(p_tid p \<mapsto> proc_counts p)"
    and "hist_ok (pids_toggle_history hi) \<and> old_frame (pids_toggle_history hi) = new_frame hi
      \<and> new_frame (pids_toggle_history hi) = Map.empty"
proof -
  let ?n = "hi_num_tasks hi" let ?h1 = "hist_grow junk (True, True) hi"
  obtain old new m where g: "hi_sav ?h1 = Some old" "hi_new ?h1 = Some new" "length old = hi_siz ?h1" "length new = hi_siz ?h1"
      "?n + 1 < hi_siz ?h1" "linked m old (hi_hash_sav hi)" "linked ?n new (hi_hash_new hi)"
      "old_frame hi = (\<lambda>pid. map_option hst_counts (find (\<lambda>h. hs_pid h = pid) (newest m old)))"
      "new_frame hi = (\<lambda>pid. map_option hst_counts (find (\<lambda>h. hs_pid h = pid) (newest ?n new)))"
    by (rule hist_grow_ok [OF assms, of junk])
  let ?r = "(new ! ?n)\<lparr>hs_pid := p_tid p, hs_maj := p_maj_flt p, hs_min := p_min_flt p, hs_tics := p_utime p + p_stime p\<rparr>"
  obtain arr' heads' where put: "(arr', heads') = pids_histput ?n (new[?n := ?r]) (hi_hash_new hi)"
    by (metis surj_pair)
  have l: "linked (Suc ?n) arr' heads'" "newest (Suc ?n) arr' = ?r\<lparr>hs_lnk := hi_hash_new hi ! hash_pid (p_tid p)\<rparr> # newest ?n new"
      "length arr' = length new"
    using linked_put [OF g(7) _ _ put, of "p_tid p"] g(4,5) by simp_all
  let ?h2 = "?h1\<lparr>hi_new := Some arr', hi_hash_new := heads'\<rparr>"
  have get: "pids_histget ?h2 (p_tid p) = Some (find (\<lambda>h. hs_pid h = p_tid p) (newest m old))"
    by (rule old_frame_linked(1)) (use g(1,6) in simp_all)
  let ?h3 = "?h2\<lparr>hi_num_tasks := ?n + 1\<rparr>"
  have "pids_make_hist junk (True, True) hi p = Some (True, tallied (old_frame hi) p, ?h3)"
    using g(1-5) put [symmetric] get
    by (auto simp: pids_make_hist_def Let_def g(8) tallied_def hst_counts_def split: option.splits prod.splits)
  moreover have "hist_ok ?h3"
    unfolding hist_ok_def using g(1,3-6) l(1,3) by (intro exI [of _ old] exI [of _ arr'] exI [of _ m]) simp
  moreover have "old_frame ?h3 = old_frame hi"
    unfolding g(8) by (rule ext, rule old_frame_linked(2)) (use g(1,6) in simp_all)
  moreover have "new_frame ?h3 = (new_frame hi)(p_tid p \<mapsto> proc_counts p)"
    unfolding g(9) by (rule ext) (simp add: new_frame_def l(2) hst_counts_def proc_counts_def)
  ultimately show "\<exists>hi'. pids_make_hist junk (True, True) hi p = Some (True, tallied (old_frame hi) p, hi') \<and> hist_ok hi'
      \<and> old_frame hi' = old_frame hi \<and> new_frame hi' = (new_frame hi)(p_tid p \<mapsto> proc_counts p)" by blast
  obtain old' new' m' where h: "hi_sav hi = Some old'" "hi_new hi = Some new'" "length old' = hi_siz hi" "length new' = hi_siz hi"
      "?n < hi_siz hi" "linked m' old' (hi_hash_sav hi)" "linked ?n new' (hi_hash_new hi)"
    using assms by (auto simp: hist_ok_def)
  let ?t = "pids_toggle_history hi"
  have "hist_ok ?t"
    unfolding hist_ok_def using h linked_empty
    by (intro exI [of _ new'] exI [of _ old'] exI [of _ ?n]) (simp add: pids_toggle_history_def)
  moreover have "old_frame ?t = new_frame hi"
    by (rule ext, subst old_frame_linked(2) [of ?t new' ?n]) (use h in \<open>simp_all add: pids_toggle_history_def new_frame_def\<close>)
  moreover have "new_frame ?t = Map.empty"
    by (rule ext) (simp add: new_frame_def pids_toggle_history_def newest_def)
  ultimately show "hist_ok ?t \<and> old_frame ?t = new_frame hi \<and> new_frame ?t = Map.empty" by blast
qed

lemma config_ok: "hist_ok pids_config_history" "old_frame pids_config_history = Map.empty" "new_frame pids_config_history = Map.empty"
proof -
  have l: "linked 0 (replicate NEWOLD_INIT zero_hst) hash_nul" by (rule linked_empty)
  show "hist_ok pids_config_history"
    unfolding hist_ok_def using l
    by (intro exI [of _ "replicate NEWOLD_INIT zero_hst"] exI [of _ 0]) (simp add: pids_config_history_def NEWOLD_INIT_def)
  show "old_frame pids_config_history = Map.empty"
    by (rule ext, subst old_frame_linked(2) [of _ "replicate NEWOLD_INIT zero_hst" 0])
      (simp_all add: pids_config_history_def l newest_def)
  show "new_frame pids_config_history = Map.empty"
    by (rule ext) (simp add: new_frame_def pids_config_history_def newest_def)
qed

end
