(* ===== verification/Pids.thy ===== *)
theory Pids
  imports PidsItems PidsHist Uptime ProcScan
begin

text \<open>
  The library interface to the process table of \<^verbatim>\<open>procps/linux/pids.c\<close>: its context
  \<open>pids_info\<close> and the operations \<open>new\<close>, \<open>ref\<close>, \<open>unref\<close>, \<open>get\<close>, \<open>reap\<close>, \<open>reset\<close>, \<open>select\<close>, \<open>sort\<close>
  and \<open>fatal_proc_unmounted\<close>, over the scan of \<open>Readproc\<close>.

  Stacks are shared: the extents own them, the \<open>anchor\<close> and the array given to the caller point to
  them, and so does \<open>get_ext\<close>. So they live in a store, \<open>pi_heap\<close>, by address; \<open>None\<close> there is
  memory that was freed or never allocated. An extent is the list of the addresses of its stacks.
  \<open>pids_env\<close> is what a call finds: the system, the allocator, the clock. \<open>pids_lib\<close> is the state that
  outlives a call outside of the context: the statics of \<open>readproc.c\<close>, \<open>numa.c\<close> and of
  \<open>fatal_proc_unmounted\<close>, with the number of directory streams that are open.

  \<open>None\<close> as the result of an operation means that it follows a null or freed pointer, leaves an array, or
  frees what is no string. Of \<open>errno\<close> only "equal to \<open>ENOMEM\<close>" is kept, as in \<open>Readproc\<close>.
\<close>

definition FILL_ID_MAX :: int where "FILL_ID_MAX = 255"
definition STACKS_INIT :: nat where "STACKS_INIT = 1024"
definition STACKS_GROW :: nat where "STACKS_GROW = 128"
definition PIDS_FETCH_TASKS_ONLY :: int where "PIDS_FETCH_TASKS_ONLY = 0"
definition PIDS_FETCH_THREADS_TOO :: int where "PIDS_FETCH_THREADS_TOO = 1"
definition PIDS_SELECT_PID :: "32 word" where "PIDS_SELECT_PID = 0x10000"
definition PIDS_SELECT_PID_THREADS :: "32 word" where "PIDS_SELECT_PID_THREADS = 0x10001"
definition PIDS_SELECT_UID :: "32 word" where "PIDS_SELECT_UID = 0x20000"
definition PIDS_SELECT_UID_THREADS :: "32 word" where "PIDS_SELECT_UID_THREADS = 0x20001"

record pids_counts =
  ct_total :: int
  ct_running :: int
  ct_sleeping :: int
  ct_stopped :: int
  ct_zombied :: int
  ct_other :: int

definition zero_pids_counts :: pids_counts where
  "zero_pids_counts = \<lparr>ct_total = 0, ct_running = 0, ct_sleeping = 0, ct_stopped = 0, ct_zombied = 0, ct_other = 0\<rparr>"

datatype reader = ReadProc | ReadEither

type_synonym stack_store = "nat \<Rightarrow> stack option"

record pids_info =
  pi_refcount :: int
  pi_maxitems :: nat
  pi_curitems :: nat
  pi_items :: "item list option"
  pi_heap :: stack_store
  pi_next :: nat                            \<comment> \<open>the first address not yet used\<close>
  pi_extents :: "nat list list"
  pi_otherexts :: "nat list"
  pi_anchor :: "nat option list option"
  pi_n_alloc :: nat
  pi_n_inuse :: nat
  pi_n_saved :: nat
  pi_result :: "nat list option"            \<comment> \<open>\<open>fetch.results.stacks\<close>, up to its null\<close>
  pi_counts :: pids_counts
  pi_history_yes :: bool
  pi_hist :: history_info
  pi_reader :: "reader option"
  pi_shift :: nat
  pi_oldflags :: "32 word"
  pi_fetch_PT :: "proctab option"
  pi_hertz :: ulong
  pi_boot :: rat
  pi_get_PT :: "proctab option"
  pi_get_ext :: "nat option"                \<comment> \<open>the stack of that extent\<close>
  pi_get_type :: int
  pi_get_proc :: proc_t
  pi_fetch_proc :: proc_t

record pids_lib =
  pl_rp :: rp_state
  pl_either :: either_state
  pl_open :: open_state
  pl_numa :: numa_state
  pl_self :: proc_t
  pl_dirs :: int

record pids_env =
  pv_rp :: rp_env
  pv_open :: open_env
  pv_uptime :: "int + string"               \<comment> \<open>\<open>/proc/uptime\<close>\<close>
  pv_junk_secs :: rat                       \<comment> \<open>what \<open>up_secs\<close> holds before it is set\<close>
  pv_junk_hst :: hst
  pv_dev :: dev_env
  pv_tmap :: tty_map
  pv_wchan :: "string \<Rightarrow> string option"
  pv_stack_ok :: bool                       \<comment> \<open>the extent of one stack\<close>
  pv_hist_ok :: "nat \<Rightarrow> bool \<times> bool"        \<comment> \<open>growing the history at this slot\<close>
  pv_fetch :: fetch_env

definition pids_ctx_of :: "pids_env \<Rightarrow> pids_info \<Rightarrow> pids_lib \<Rightarrow> pids_ctx" where
  "pids_ctx_of e info lib =
     \<lparr>pc_shift = pi_shift info, pc_hertz = pi_hertz info, pc_boot = pi_boot info,
      pc_strdup = le_mem (rp_lib (pv_rp e)), pc_alloc = rp_alloc (pv_rp e),
      pc_node = numa_node_of_cpu (pl_numa lib), pc_dev = pv_dev e, pc_tmap = pv_tmap e, pc_wchan = pv_wchan e\<rparr>"

subsection \<open>Stacks in the store\<close>

text \<open>Assigning to the stack at an address: the value returned, the context, and the structure.\<close>

definition pids_assign_at ::
  "pids_env \<Rightarrow> pids_lib \<Rightarrow> pids_info \<Rightarrow> nat \<Rightarrow> proc_t \<Rightarrow> (bool \<times> pids_info \<times> proc_t) option" where
  "pids_assign_at e lib info a P =
     (case pi_heap info a of
        None \<Rightarrow> None
      | Some s \<Rightarrow>
          (case pids_assign_results (pids_ctx_of e info lib) s P of
             None \<Rightarrow> None
           | Some (s', P', err) \<Rightarrow> Some (\<not> err, info\<lparr>pi_heap := (pi_heap info)(a \<mapsto> s')\<rparr>, P')))"

fun pids_cleanup_at :: "nat list \<Rightarrow> stack_store \<Rightarrow> stack_store option" where
  "pids_cleanup_at [] h = Some h"
| "pids_cleanup_at (a # as) h =
     (case h a of
        None \<Rightarrow> None
      | Some s \<Rightarrow> (case pids_cleanup_stack s of None \<Rightarrow> None | Some s' \<Rightarrow> pids_cleanup_at as (h(a \<mapsto> s'))))"

definition pids_cleanup_stacks_all :: "pids_info \<Rightarrow> pids_info option" where
  "pids_cleanup_stacks_all info =
     map_option (\<lambda>h. info\<lparr>pi_heap := h\<rparr>) (pids_cleanup_at (concat (pi_extents info)) (pi_heap info))"

text \<open>Taking an extent out of the list: the list without it, or a null pointer.\<close>

definition pids_extent_cut :: "nat list list \<Rightarrow> nat list \<Rightarrow> nat list list option option" where
  "pids_extent_cut exts ext =
     (if exts = [] then None else if ext \<in> set exts then Some (Some (remove1 ext exts)) else Some None)"

text \<open>Setting the items of the first cells; the others keep theirs.\<close>

definition pids_itemize_stack :: "item list \<Rightarrow> stack \<Rightarrow> stack" where
  "pids_itemize_stack its s = map2 (\<lambda>i r. r\<lparr>rc_item := i\<rparr>) its s @ drop (length its) s"

definition cur_items :: "pids_info \<Rightarrow> item list" where
  "cur_items info = take (pi_curitems info) (the (pi_items info))"

definition pids_itemize_stacks_all :: "pids_info \<Rightarrow> pids_info" where
  "pids_itemize_stacks_all info =
     info\<lparr>pi_heap := (\<lambda>a. if a \<in> set (concat (pi_extents info))
                        then map_option (pids_itemize_stack (cur_items info)) (pi_heap info a) else pi_heap info a)\<rparr>"

definition pids_items_check_failed :: "nat \<times> item list \<Rightarrow> int \<Rightarrow> bool" where
  "pids_items_check_failed items numitems \<longleftrightarrow>
     numitems < 1 \<or> fst items < 0x8000 \<or> list_ex (\<lambda>i. PIDS_logical_end \<le> i) (take (nat numitems) (snd items))"

text \<open>The flags and the need for history of the items before the \<open>logical_end\<close>.\<close>

definition pids_libflags_set :: "pids_info \<Rightarrow> pids_info" where
  "pids_libflags_set info =
     (let its = takeWhile (\<lambda>i. i < PIDS_logical_end) (cur_items info);
          flags = fold (\<lambda>i f. f OR item_oldflags i) its 0;
          hist = fold (\<lambda>i h. h \<or> item_needhist i) its False
      in info\<lparr>pi_oldflags :=
                (if has flags f_either \<and> \<not> has flags (f_stat OR f_status) then flags OR f_stat else flags),
              pi_history_yes := hist\<rparr>)"

text \<open>
  An extent of \<open>n\<close> stacks: their addresses and the context; the inner \<open>None\<close> without memory. The
  cells after the items in use are zeroed, so of the item 0.
\<close>

definition pids_new_stack :: "pids_info \<Rightarrow> stack" where
  "pids_new_stack info =
     map (\<lambda>i. \<lparr>rc_item = i, rc_val = Zero\<rparr>) (cur_items info)
     @ replicate (pi_maxitems info - pi_curitems info) \<lparr>rc_item = 0, rc_val = Zero\<rparr>"

definition pids_stacks_alloc :: "bool \<Rightarrow> nat \<Rightarrow> pids_info \<Rightarrow> (nat list \<times> pids_info) option option" where
  "pids_stacks_alloc ok n info =
     (if \<not> ok then Some None
      else if pi_items info = None \<and> 0 < pi_curitems info \<and> 0 < n then None
      else
        let a = pi_next info; as = [a ..< a + n]
        in Some (Some (as, info\<lparr>pi_extents := as # pi_extents info, pi_next := a + n,
             pi_heap := (\<lambda>k. if a \<le> k \<and> k < a + n then Some (pids_new_stack info) else pi_heap info k)\<rparr>)))"

subsection \<open>The process table\<close>

definition pids_oldproc_close :: "proctab option \<Rightarrow> pids_lib \<Rightarrow> pids_lib" where
  "pids_oldproc_close this lib = lib\<lparr>pl_dirs := pl_dirs lib - int (closeproc this)\<rparr>"

definition pids_oldproc_open ::
  "pids_env \<Rightarrow> proctab option \<Rightarrow> 32 word \<Rightarrow> int list \<Rightarrow> uid_t list \<times> nat \<Rightarrow> pids_lib \<Rightarrow> bool \<times> proctab option \<times> pids_lib" where
  "pids_oldproc_open e this flags pids uids lib =
     (case this of
        Some PT \<Rightarrow> (True, this, lib)
      | None \<Rightarrow>
          (case openproc (pv_open e) flags pids (fst uids, if has flags PROC_UID then snd uids else 0) (pl_open lib) of
             (PT, os) \<Rightarrow> (PT \<noteq> None, PT, lib\<lparr>pl_open := os, pl_dirs := pl_dirs lib + (os_dirs os - os_dirs (pl_open lib))\<rparr>)))"

text \<open>The reader in use: whether it returns the structure, the table, the structure and the statics.\<close>

definition read_something ::
  "pids_env \<Rightarrow> reader \<Rightarrow> proctab \<Rightarrow> proc_t \<Rightarrow> pids_lib \<Rightarrow> (bool \<times> proctab \<times> proc_t \<times> pids_lib) option" where
  "read_something e k PT p lib =
     map_option (\<lambda>(ok, PT1, p1, st1, ei1).
         (ok, PT1, p1, lib\<lparr>pl_rp := st1, pl_either := ei1,
            pl_dirs := pl_dirs lib + (pt_dirs PT1 - pt_dirs PT)\<rparr>))
       (case k of
          ReadProc \<Rightarrow>
            map_option (\<lambda>(ok, PT1, p1, st1). (ok, PT1, p1, st1, pl_either lib)) (readproc (pv_rp e) PT p (pl_rp lib))
        | ReadEither \<Rightarrow>
            readeither (pv_rp e) (the (os_task_dir_missing (pl_open lib))) PT p (pl_rp lib) (pl_either lib))"

definition reader_for :: "bool \<Rightarrow> reader" where
  "reader_for threads = (if threads then ReadEither else ReadProc)"

text \<open>Clearing \<open>errno\<close> and reading the time since boot, which is kept whether that fails or not.\<close>

definition pids_set_boot :: "pids_env \<Rightarrow> pids_info \<times> pids_lib \<Rightarrow> pids_info \<times> pids_lib" where
  "pids_set_boot e = (\<lambda>(info, lib).
     case procps_uptime (pv_uptime e) of
       (rc, vs) \<Rightarrow>
         (info\<lparr>pi_boot := (if rc \<le> 0 then (if vs = [] then pv_junk_secs e else hd vs) else 0)\<rparr>,
          lib\<lparr>pl_rp := (pl_rp lib)\<lparr>rs_nomem := (pv_uptime e = Inl ENOMEM)\<rparr>\<rparr>))"

definition count_state :: "char \<Rightarrow> pids_counts \<Rightarrow> pids_counts" where
  "count_state c ct =
     (let ct1 = (if c = CHR ''R'' then ct\<lparr>ct_running := ct_running ct + 1\<rparr>
                 else if c = CHR ''D'' \<or> c = CHR ''S'' then ct\<lparr>ct_sleeping := ct_sleeping ct + 1\<rparr>
                 else if c = CHR ''t'' \<or> c = CHR ''T'' then ct\<lparr>ct_stopped := ct_stopped ct + 1\<rparr>
                 else if c = CHR ''Z'' then ct\<lparr>ct_zombied := ct_zombied ct + 1\<rparr>
                 else ct\<lparr>ct_other := ct_other ct + 1\<rparr>)
      in ct1\<lparr>ct_total := ct_total ct1 + 1\<rparr>)"

definition pids_proc_tally :: "pids_env \<Rightarrow> pids_info \<Rightarrow> proc_t \<Rightarrow> (bool \<times> proc_t \<times> pids_info) option" where
  "pids_proc_tally e info p =
     (let info1 = info\<lparr>pi_counts := count_state (p_state p) (pi_counts info)\<rparr>
      in if pi_history_yes info then
           map_option (\<lambda>(ok, p', hi). (ok, p', info1\<lparr>pi_hist := hi\<rparr>))
             (pids_make_hist (pv_junk_hst e) (pv_hist_ok e (hi_num_tasks (pi_hist info))) (pi_hist info) p)
         else Some (True, p, info1))"

subsection \<open>pids\_stacks\_fetch\<close>

text \<open>An array of pointers made longer (or shorter) by \<open>realloc\<close>; what it adds is not initialised.\<close>

definition resize :: "nat \<Rightarrow> nat option list \<Rightarrow> nat option list" where
  "resize n a = take n (a @ replicate (n - length a) None)"

definition pids_fetch_init :: "pids_env \<Rightarrow> pids_info \<Rightarrow> (bool \<times> pids_info) option" where
  "pids_fetch_init e info =
     (if pi_anchor info \<noteq> None then Some (True, info)
      else if \<not> fe_anchor_ok (pv_fetch e) then Some (False, info)
      else
        let info1 = info\<lparr>pi_anchor := Some (replicate STACKS_INIT None)\<rparr>
        in case pids_stacks_alloc (fe_first_ok (pv_fetch e)) STACKS_INIT info1 of
             None \<Rightarrow> None
           | Some None \<Rightarrow> Some (False, info1)
           | Some (Some (as, info2)) \<Rightarrow> Some (True, info2\<lparr>pi_anchor := Some (map Some as), pi_n_alloc := STACKS_INIT\<rparr>))"

definition pids_fetch_grow :: "pids_env \<Rightarrow> pids_info \<Rightarrow> (bool \<times> pids_info) option" where
  "pids_fetch_grow e info =
     (let i = pi_n_inuse info
      in if i < pi_n_alloc info then Some (True, info)
         else
           let n = pi_n_alloc info + STACKS_GROW; info1 = info\<lparr>pi_n_alloc := n\<rparr>
           in if \<not> fe_grow_ok (pv_fetch e) i then Some (False, info1\<lparr>pi_anchor := None\<rparr>)
              else
                let a = resize n (case pi_anchor info of None \<Rightarrow> [] | Some a \<Rightarrow> a); info2 = info1\<lparr>pi_anchor := Some a\<rparr>
                in case pids_stacks_alloc (fe_more_ok (pv_fetch e) i) STACKS_GROW info2 of
                     None \<Rightarrow> None
                   | Some None \<Rightarrow> Some (False, info2)
                   | Some (Some (as, info3)) \<Rightarrow>
                       if n < i + STACKS_GROW then None
                       else Some (True, info3\<lparr>pi_anchor := Some (take i a @ map Some as @ drop (i + STACKS_GROW) a)\<rparr>))"

text \<open>One turn of the loop, for the structure that was read.\<close>

definition pids_fetch_one :: "pids_env \<Rightarrow> pids_lib \<Rightarrow> proc_t \<Rightarrow> pids_info \<Rightarrow> (bool \<times> pids_info) option" where
  "pids_fetch_one e lib p info =
     (case pids_fetch_grow e info of
        Some (True, info1) \<Rightarrow>
          (case pids_proc_tally e info1 p of
             Some (True, p1, info2) \<Rightarrow>
               (let i = pi_n_inuse info2; info3 = info2\<lparr>pi_n_inuse := i + 1\<rparr>
                in case pi_anchor info3 of
                     None \<Rightarrow> None
                   | Some a \<Rightarrow>
                       if length a \<le> i then None
                       else case a ! i of
                              None \<Rightarrow> None
                            | Some s \<Rightarrow>
                                map_option (\<lambda>(ok, info4, p2). (ok, info4\<lparr>pi_fetch_proc := p2\<rparr>))
                                  (pids_assign_at e lib info3 s p1))
           | Some (False, p1, info2) \<Rightarrow> Some (False, info2\<lparr>pi_fetch_proc := p1\<rparr>)
           | None \<Rightarrow> None)
      | Some (False, info1) \<Rightarrow> Some (False, info1\<lparr>pi_fetch_proc := p\<rparr>)
      | None \<Rightarrow> None)"

text \<open>What \<open>readeither\<close> uses up with every task it returns.\<close>

definition either_left :: "proctab \<Rightarrow> either_state \<Rightarrow> nat \<times> nat" where
  "either_left PT ei =
     (if ei_new ei \<and> pt_taskdir_user PT \<noteq> p_tgid (ei_skel ei) then 1 else 0,
      if ei_new ei then length (the (pt_taskdir PT)) else 0)"

lemma next_tid_name_shorter: "next_tid_name ds = (Some d, ds') \<Longrightarrow> length ds' < length ds"
  by (induction ds) (auto split: if_splits)

lemma either_task_return:
  assumes "either_task e PT x st ei = Some (EitherReturn PT' x' st' ei')" "ei_new ei"
  shows "scan_left PT' = scan_left PT \<and> (either_left PT' ei', either_left PT ei) \<in> less_than <*lex*> less_than"
proof -
  obtain path x1 where t: "simple_nexttid e PT (ei_skel ei) x = Some (Some (path, x1), PT')" and ei': "ei' = ei\<lparr>ei_new := True\<rparr>"
    using assms(1) by (auto simp: either_task_def split: option.splits prod.splits bool.splits)
  show ?thesis
  proof (cases "pt_taskdir_user PT = p_tgid (ei_skel ei)")
    case True
    then obtain ds ds' d where "pt_taskdir PT = Some ds" "next_tid_name ds = (Some d, ds')" "PT' = PT\<lparr>pt_taskdir := Some ds'\<rparr>"
      using t by (auto simp: simple_nexttid_def Let_def split: option.splits prod.splits if_splits)
    then show ?thesis using True assms(2) next_tid_name_shorter [of ds d ds'] by (simp add: either_left_def ei' scan_left_def)
  next
    case False
    then have "pt_taskdir_user PT' = p_tgid (ei_skel ei)"
      using t by (auto simp: simple_nexttid_def Let_def split: option.splits prod.splits if_splits)
    then show ?thesis using False assms(2) simple_nexttid_left [OF t] by (simp add: either_left_def ei')
  qed
qed

lemma either_loop_left:
  "either_loop e m PT x st ei = Some (True, PT', x', st', ei') \<Longrightarrow> scan_left PT' < scan_left PT"
proof (induction e m PT x st ei rule: either_loop.induct)
  case (1 e m PT x st ei)
  let ?ei0 = "ei\<lparr>ei_new := False\<rparr>"
  have nm: "\<not> rs_nomem st" using 1(3) by (subst (asm) either_loop.simps) (auto simp: Let_def)
  obtain PT1 sk st1 where f: "find_next e PT (ei_skel ei) st = Some (True, PT1, sk, st1)"
    using 1(3) nm by (subst (asm) either_loop.simps) (auto simp: Let_def split: option.splits prod.splits bool.splits)
  let ?ei1 = "?ei0\<lparr>ei_skel := sk, ei_leader := p_tid sk\<rparr>"
  have l: "scan_left PT1 < scan_left PT" by (rule find_next_left [OF f])
  show ?case
  proof (cases m)
    case True
    obtain ok x2 st2 where r: "simple_readproc e PT1 x st1 = Some (ok, x2, st2)"
      using 1(3) nm f True by (subst (asm) either_loop.simps) (auto simp: Let_def split: option.splits prod.splits)
    show ?thesis
    proof (cases ok)
      case True
      then have "PT' = PT1" using 1(3) nm f r \<open>m\<close> by (subst (asm) either_loop.simps) (simp add: Let_def)
      then show ?thesis using l by simp
    next
      case False
      then have "either_loop e m PT1 x2 st2 ?ei1 = Some (True, PT', x', st', ei')"
        using 1(3) nm f r \<open>m\<close> by (subst (asm) either_loop.simps) (simp add: Let_def)
      then show ?thesis using 1(1) [OF refl nm f] f r \<open>m\<close> False l nm by fastforce
    qed
  next
    case False
    obtain t where t: "either_task e PT1 x st1 ?ei1 = Some t"
      using 1(3) nm f False by (subst (asm) either_loop.simps) (auto simp: Let_def split: option.splits)
    show ?thesis
    proof (cases t)
      case (EitherReturn PT2 x2 st2 ei2)
      then have "PT' = PT2" using 1(3) nm f t False by (subst (asm) either_loop.simps) (simp add: Let_def)
      moreover have "scan_left PT2 = scan_left PT1"
        using t EitherReturn by (auto simp: either_task_def split: prod.splits option.splits bool.splits dest!: simple_nexttid_left)
      ultimately show ?thesis using l by simp
    next
      case (EitherNextProc PT2 x2 st2 ei2)
      then have "either_loop e m PT2 x2 st2 ei2 = Some (True, PT', x', st', ei')"
        using 1(3) nm f t False by (subst (asm) either_loop.simps) (simp add: Let_def)
      then have "scan_left PT' < scan_left PT2" using 1(2) [OF refl nm f] f t EitherNextProc False by fastforce
      then show ?thesis using l either_task_left [OF t [unfolded EitherNextProc]] by simp
    qed
  qed
qed

definition fetch_left :: "reader \<Rightarrow> proctab \<Rightarrow> pids_lib \<Rightarrow> nat \<times> nat \<times> nat" where
  "fetch_left k PT lib = (scan_left PT, if k = ReadEither then either_left PT (pl_either lib) else (0, 0))"

lemma read_something_left:
  assumes "read_something e k PT p lib = Some (True, PT', p', lib')"
  shows "(fetch_left k PT' lib', fetch_left k PT lib) \<in> less_than <*lex*> less_than <*lex*> less_than"
proof (cases k)
  case ReadProc
  then have "scan_left PT' < scan_left PT"
    using assms by (auto simp: read_something_def dest: readproc_left)
  then show ?thesis by (simp add: fetch_left_def)
next
  case ReadEither
  let ?e = "pv_rp e" let ?m = "the (os_task_dir_missing (pl_open lib))" let ?ei = "pl_either lib"
  let ?x = "snd (free_acquired p)"
  have r: "readeither ?e ?m PT p (pl_rp lib) ?ei = Some (True, PT', p', pl_rp lib', pl_either lib')"
    using assms ReadEither by (auto simp: read_something_def)
  show ?thesis
  proof (cases "ei_new ?ei")
    case False
    then have "either_loop ?e ?m PT ?x (pl_rp lib) ?ei = Some (True, PT', p', pl_rp lib', pl_either lib')"
      using r by (simp add: readeither_def)
    from either_loop_left [OF this] show ?thesis by (simp add: fetch_left_def)
  next
    case True
    then obtain t where t: "either_task ?e PT ?x (pl_rp lib) ?ei = Some t"
      using r by (auto simp: readeither_def split: option.splits)
    show ?thesis
    proof (cases t)
      case (EitherReturn PT1 x1 st1 ei1)
      then have "PT' = PT1" "pl_either lib' = ei1" using r t True by (simp_all add: readeither_def)
      then show ?thesis using either_task_return [OF t [unfolded EitherReturn] True] ReadEither by (simp add: fetch_left_def)
    next
      case (EitherNextProc PT1 x1 st1 ei1)
      then have "either_loop ?e ?m PT1 x1 st1 ei1 = Some (True, PT', p', pl_rp lib', pl_either lib')"
        using r t True by (simp add: readeither_def)
      from either_loop_left [OF this] either_task_left [OF t [unfolded EitherNextProc]] show ?thesis
        by (simp add: fetch_left_def)
    qed
  qed
qed

text \<open>The loop: whether it came to its end, the table, the context and the statics.\<close>

function pids_fetch_loop ::
  "pids_env \<Rightarrow> reader \<Rightarrow> proctab \<Rightarrow> pids_info \<Rightarrow> pids_lib \<Rightarrow> (bool \<times> proctab \<times> pids_info \<times> pids_lib) option" where
  "pids_fetch_loop e k PT info lib =
     (case read_something e k PT (pi_fetch_proc info) lib of
        None \<Rightarrow> None
      | Some (False, PT1, p, lib1) \<Rightarrow> Some (True, PT1, info\<lparr>pi_fetch_proc := p\<rparr>, lib1)
      | Some (True, PT1, p, lib1) \<Rightarrow>
          (case pids_fetch_one e lib1 p info of
             None \<Rightarrow> None
           | Some (False, info1) \<Rightarrow> Some (False, PT1, info1, lib1)
           | Some (True, info1) \<Rightarrow> pids_fetch_loop e k PT1 info1 lib1))"
  by pat_completeness auto
termination
  by (relation "inv_image (less_than <*lex*> less_than <*lex*> less_than) (\<lambda>(e, k, PT, info, lib). fetch_left k PT lib)")
    (auto dest: read_something_left)

declare pids_fetch_loop.simps [simp del]

text \<open>
  The number of stacks or -1. When the array for the caller was lost in a failed \<open>realloc\<close> and is
  taken to be long enough, it is written through a null pointer.
\<close>

definition pids_stacks_fetch :: "pids_env \<Rightarrow> pids_info \<Rightarrow> pids_lib \<Rightarrow> (int \<times> pids_info \<times> pids_lib) option" where
  "pids_stacks_fetch e info lib =
     (case pids_fetch_init e info of
        None \<Rightarrow> None
      | Some (False, info1) \<Rightarrow> Some (- 1, info1, lib)
      | Some (True, info1) \<Rightarrow>
          (case (pi_fetch_PT info1, pi_reader info1) of
             (Some PT, Some k) \<Rightarrow>
               let info2 = info1\<lparr>pi_hist := pids_toggle_history (pi_hist info1), pi_counts := zero_pids_counts, pi_n_inuse := 0\<rparr>
               in (case pids_fetch_loop e k PT info2 lib of
                     None \<Rightarrow> None
                   | Some (ok, PT1, info3, lib1) \<Rightarrow>
                       let info4 = info3\<lparr>pi_fetch_PT := Some PT1\<rparr>; n = pi_n_inuse info4
                       in if \<not> ok \<or> rs_nomem (pl_rp lib1) then Some (- 1, info4, lib1)
                          else if pi_n_saved info4 < n + 1 \<and> \<not> fe_save_ok (pv_fetch e) then
                            Some (- 1, info4\<lparr>pi_n_saved := n + 1, pi_result := None\<rparr>, lib1)
                          else if n + 1 \<le> pi_n_saved info4 \<and> pi_result info4 = None then None
                          else Some (int n, info4\<lparr>pi_n_saved := max (pi_n_saved info4) (n + 1),
                                       pi_result := Some (map the (take n (the (pi_anchor info4))))\<rparr>, lib1))
           | _ \<Rightarrow> None))"

subsection \<open>new, ref, unref\<close>

function page_shift :: "int \<Rightarrow> nat" where
  "page_shift pgsz = (if 1024 < pgsz then Suc (page_shift (pgsz div 2)) else 0)"
  by pat_completeness auto
termination
  by (relation "measure nat") auto

declare page_shift.simps [simp del]

definition no_pids :: pids_info where
  "no_pids =
     \<lparr>pi_refcount = 0, pi_maxitems = 0, pi_curitems = 0, pi_items = None, pi_heap = (\<lambda>_. None), pi_next = 0,
      pi_extents = [], pi_otherexts = [], pi_anchor = None, pi_n_alloc = 0, pi_n_inuse = 0, pi_n_saved = 0,
      pi_result = None, pi_counts = zero_pids_counts, pi_history_yes = False, pi_hist = pids_config_history,
      pi_reader = None, pi_shift = 0, pi_oldflags = 0, pi_fetch_PT = None, pi_hertz = 0, pi_boot = 0,
      pi_get_PT = None, pi_get_ext = None, pi_get_type = 0, pi_get_proc = zero_proc, pi_fetch_proc = zero_proc\<rparr>"

record pids_new_env =
  pn_calloc_ok :: bool
  pn_items_ok :: bool
  pn_hist_ok :: bool
  pn_pagesize :: int
  pn_clk_tck :: int
  pn_numa :: "(int option \<times> (int \<Rightarrow> int) option) option"

text \<open>
  The value returned and the caller's pointer. \<open>slot\<close> is \<open>None\<close> when the address passed is null, and
  \<open>items\<close> when the items are.
\<close>

definition procps_pids_new ::
  "pids_new_env \<Rightarrow> pids_info option option \<Rightarrow> (nat \<times> item list) option \<Rightarrow> int \<Rightarrow> pids_lib
   \<Rightarrow> int \<times> pids_info option option \<times> pids_lib" where
  "procps_pids_new n slot items numitems lib =
     (case slot of
        Some None \<Rightarrow>
          if \<not> pn_calloc_ok n then (- ENOMEM, slot, lib)
          else
            let given = (items \<noteq> None \<and> numitems \<noteq> 0); its = snd (the items); k = nat numitems
            in if given \<and> pids_items_check_failed (the items) numitems then (- EINVAL, slot, lib)
               else if given \<and> \<not> pn_items_ok n \<or> \<not> pn_hist_ok n then (- ENOMEM, slot, lib)
               else
                 let p = (if given
                          then pids_libflags_set (no_pids\<lparr>pi_maxitems := k + 1, pi_curitems := k + 1,
                                 pi_items := Some (take k its @ [PIDS_logical_end])\<rparr>)
                          else no_pids)
                 in (0, Some (Some (p\<lparr>pi_shift := page_shift (pn_pagesize n),
                                     pi_hertz := word_of_int (procps_hertz_get (pn_clk_tck n)), pi_refcount := 1\<rparr>)),
                     lib\<lparr>pl_numa := numa_init (pn_numa n) (pl_numa lib)\<rparr>)
      | _ \<Rightarrow> (- EINVAL, slot, lib))"

definition procps_pids_ref :: "pids_info option \<Rightarrow> int \<times> pids_info option" where
  "procps_pids_ref info =
     (case info of
        None \<Rightarrow> (- EINVAL, None)
      | Some i \<Rightarrow> let i' = i\<lparr>pi_refcount := pi_refcount i + 1\<rparr> in (pi_refcount i', Some i'))"

text \<open>The last reference frees the strings in the stacks, and closes the table of \<open>get\<close>.\<close>

definition procps_pids_unref :: "pids_info option \<Rightarrow> pids_lib \<Rightarrow> (int \<times> pids_info option \<times> pids_lib) option" where
  "procps_pids_unref info lib =
     (case info of
        None \<Rightarrow> Some (- EINVAL, None, lib)
      | Some i \<Rightarrow>
          let i1 = i\<lparr>pi_refcount := pi_refcount i - 1\<rparr>
          in if 1 \<le> pi_refcount i1 then Some (pi_refcount i1, Some i1, lib)
             else case pids_cleanup_stacks_all i1 of
                    None \<Rightarrow> None
                  | Some i2 \<Rightarrow>
                      (case pids_cleanup_at (pi_otherexts i2) (pi_heap i2) of
                         None \<Rightarrow> None
                       | Some _ \<Rightarrow>
                           Some (0, None, if pi_get_ext i2 = None then lib else pids_oldproc_close (pi_get_PT i2) lib)))"

subsection \<open>get, reap, select\<close>

text \<open>A stack of its own, taken out of the extents, with the values of the process.\<close>

definition own_stack ::
  "pids_env \<Rightarrow> pids_info \<Rightarrow> pids_lib \<Rightarrow> (nat option \<times> pids_info \<times> pids_lib) option" where
  "own_stack e i lib =
     (case pids_stacks_alloc (pv_stack_ok e) 1 i of
        None \<Rightarrow> None
      | Some None \<Rightarrow> Some (None, i, lib)
      | Some (Some (as, i1)) \<Rightarrow>
          (case pids_extent_cut (pi_extents i1) as of
             None \<Rightarrow> None
           | Some None \<Rightarrow> Some (None, i1, lib)
           | Some (Some exts) \<Rightarrow>
               let i2 = i1\<lparr>pi_extents := exts, pi_otherexts := hd as # pi_otherexts i1\<rparr>
               in map_option (\<lambda>(ok, i3, self). (if ok then Some (hd as) else None, i3, lib\<lparr>pl_self := self\<rparr>))
                    (pids_assign_at e lib i2 (hd as) (pl_self lib))))"

text \<open>The calling process: \<open>Inl\<close> of the status when it exits, or the stack returned.\<close>

definition fatal_proc_unmounted ::
  "pids_env \<Rightarrow> pids_info option \<Rightarrow> bool \<Rightarrow> pids_lib \<Rightarrow> (int + nat option \<times> pids_info option \<times> pids_lib) option" where
  "fatal_proc_unmounted e info return_self lib =
     (case look_up_our_self (pv_rp e) (pl_self lib) of
        Inl status \<Rightarrow> Some (Inl status)
      | Inr (Done (rc, self)) \<Rightarrow>
          (let lib1 = lib\<lparr>pl_self := self\<rparr>
           in case info of
                Some i \<Rightarrow>
                  if rc = 0 \<or> \<not> return_self \<or> pi_curitems i = 0 then Some (Inr (None, info, lib1))
                  else map_option (\<lambda>(s, i1, lib2). Inr (s, Some i1, lib2)) (own_stack e i lib1)
              | None \<Rightarrow> Some (Inr (None, info, lib1)))
      | _ \<Rightarrow> None)"

text \<open>From the label \<open>fresh_start\<close> to the end of its block.\<close>

definition get_fresh_start :: "pids_env \<Rightarrow> int \<Rightarrow> pids_info \<Rightarrow> pids_lib \<Rightarrow> bool \<times> pids_info \<times> pids_lib" where
  "get_fresh_start e which i lib =
     (case pids_oldproc_open e (pi_get_PT i) (pi_oldflags i) [] ([], 0) lib of
        (ok, PT, lib1) \<Rightarrow>
          if ok then (True, i\<lparr>pi_get_PT := PT, pi_get_type := which, pi_reader := Some (reader_for (which \<noteq> 0))\<rparr>, lib1)
          else (False, i\<lparr>pi_get_PT := PT\<rparr>, lib1))"

text \<open>The stack of \<open>get\<close> with its table, unless it has them; the table opened again when the kind changed.\<close>

definition get_stack :: "pids_env \<Rightarrow> int \<Rightarrow> pids_info \<Rightarrow> pids_lib \<Rightarrow> (bool \<times> pids_info \<times> pids_lib) option" where
  "get_stack e which i lib =
     (if pi_get_ext i \<noteq> None then Some (True, i, lib)
      else case pids_stacks_alloc (pv_stack_ok e) 1 i of
             None \<Rightarrow> None
           | Some None \<Rightarrow> Some (False, i, lib)
           | Some (Some (as, i1)) \<Rightarrow> Some (get_fresh_start e which (i1\<lparr>pi_get_ext := Some (hd as)\<rparr>) lib))"

definition get_restart :: "pids_env \<Rightarrow> int \<Rightarrow> pids_info \<Rightarrow> pids_lib \<Rightarrow> bool \<times> pids_info \<times> pids_lib" where
  "get_restart e which i lib =
     (if pi_get_type i = which then (True, i, lib)
      else get_fresh_start e which (i\<lparr>pi_get_PT := None\<rparr>) (pids_oldproc_close (pi_get_PT i) lib))"

text \<open>The next process, in the stack.\<close>

definition get_next :: "pids_env \<Rightarrow> pids_info \<Rightarrow> pids_lib \<Rightarrow> (nat option \<times> pids_info option \<times> pids_lib) option" where
  "get_next e i lib =
     (case pids_set_boot e (i, lib) of
        (i1, lib1) \<Rightarrow>
          (case (pi_get_PT i1, pi_reader i1, pi_get_ext i1) of
             (Some PT, Some k, Some a) \<Rightarrow>
               (case read_something e k PT (pi_get_proc i1) lib1 of
                  None \<Rightarrow> None
                | Some (False, PT1, p, lib2) \<Rightarrow> Some (None, Some (i1\<lparr>pi_get_PT := Some PT1, pi_get_proc := p\<rparr>), lib2)
                | Some (True, PT1, p, lib2) \<Rightarrow>
                    map_option (\<lambda>(ok, i2, p').
                        (if ok then Some a else None, Some (i2\<lparr>pi_get_PT := Some PT1, pi_get_proc := p'\<rparr>), lib2))
                      (pids_assign_at e lib2 i1 a p))
           | _ \<Rightarrow> None))"

text \<open>The address of the stack returned, or a null pointer.\<close>

definition procps_pids_get ::
  "pids_env \<Rightarrow> int \<Rightarrow> pids_info option \<Rightarrow> pids_lib \<Rightarrow> (nat option \<times> pids_info option \<times> pids_lib) option" where
  "procps_pids_get e which info lib =
     (case info of
        None \<Rightarrow> Some (None, None, lib)
      | Some i \<Rightarrow>
          if which \<noteq> PIDS_FETCH_TASKS_ONLY \<and> which \<noteq> PIDS_FETCH_THREADS_TOO \<or> pi_curitems i = 0 then Some (None, info, lib)
          else
            case get_stack e which i lib of
              None \<Rightarrow> None
            | Some (False, i1, lib1) \<Rightarrow> Some (None, Some i1, lib1)
            | Some (True, i1, lib1) \<Rightarrow>
                (case get_restart e which i1 lib1 of
                   (False, i2, lib2) \<Rightarrow> Some (None, Some i2, lib2)
                 | (True, i2, lib2) \<Rightarrow> get_next e i2 lib2))"

text \<open>
  What \<open>reap\<close> and \<open>select\<close> do once their arguments are checked: whether the results are returned,
  which they are from the given number of stacks on.
\<close>

definition pids_harvest ::
  "pids_env \<Rightarrow> 32 word \<Rightarrow> int list \<Rightarrow> uid_t list \<times> nat \<Rightarrow> bool \<Rightarrow> int \<Rightarrow> pids_info \<Rightarrow> pids_lib
   \<Rightarrow> (bool \<times> pids_info option \<times> pids_lib) option" where
  "pids_harvest e flags pids uids threads least i lib =
     (case pids_oldproc_open e (pi_fetch_PT i) flags pids uids lib of
        (ok, PT, lib1) \<Rightarrow>
          let i1 = i\<lparr>pi_fetch_PT := PT\<rparr>
          in if \<not> ok then Some (False, Some i1, lib1)
             else case pids_set_boot e (i1\<lparr>pi_reader := Some (reader_for threads)\<rparr>, lib1) of
                    (i2, lib2) \<Rightarrow>
                      map_option (\<lambda>(rc, i3, lib3).
                          (least \<le> rc, Some (i3\<lparr>pi_fetch_PT := None\<rparr>), pids_oldproc_close (pi_fetch_PT i3) lib3))
                        (pids_stacks_fetch e i2 lib2))"

definition procps_pids_reap ::
  "pids_env \<Rightarrow> int \<Rightarrow> pids_info option \<Rightarrow> pids_lib \<Rightarrow> (bool \<times> pids_info option \<times> pids_lib) option" where
  "procps_pids_reap e which info lib =
     (case info of
        None \<Rightarrow> Some (False, None, lib)
      | Some i \<Rightarrow>
          if which \<noteq> PIDS_FETCH_TASKS_ONLY \<and> which \<noteq> PIDS_FETCH_THREADS_TOO \<or> pi_curitems i = 0
          then Some (False, info, lib)
          else pids_harvest e (pi_oldflags i) [] ([], 0) (which \<noteq> 0) 1 i lib)"

definition procps_pids_select ::
  "pids_env \<Rightarrow> 32 word list option \<Rightarrow> int \<Rightarrow> 32 word \<Rightarrow> pids_info option \<Rightarrow> pids_lib
   \<Rightarrow> (bool \<times> pids_info option \<times> pids_lib) option" where
  "procps_pids_select e these numthese which info lib =
     (case (info, these) of
        (Some i, Some xs) \<Rightarrow>
          if numthese < 1 \<or> FILL_ID_MAX < numthese
             \<or> which \<notin> {PIDS_SELECT_PID, PIDS_SELECT_UID, PIDS_SELECT_PID_THREADS, PIDS_SELECT_UID_THREADS}
             \<or> pi_curitems i = 0 then Some (False, info, lib)
          else
            let ids = take (nat numthese) xs
            in pids_harvest e (pi_oldflags i OR which) (map sint ids @ [0]) (ids, nat numthese) (has which 1) 0 i lib
      | _ \<Rightarrow> Some (False, info, lib))"

subsection \<open>reset\<close>

text \<open>When more items are wanted than the stacks have room for, the extents are freed, and what points into them.\<close>

definition reset_room :: "nat \<Rightarrow> pids_info \<Rightarrow> pids_lib \<Rightarrow> pids_info \<times> pids_lib" where
  "reset_room n i lib =
     (if pi_maxitems i < n + 1 then
        (i\<lparr>pi_extents := [], pi_get_ext := None, pi_anchor := None, pi_maxitems := n + 1,
           pi_heap := (\<lambda>a. if a \<in> set (concat (pi_extents i)) then None else pi_heap i a),
           pi_get_PT := (if pi_get_ext i = None then pi_get_PT i else None)\<rparr>,
         if pi_get_ext i = None then lib else pids_oldproc_close (pi_get_PT i) lib)
      else (i, lib))"

definition reset_items :: "item list \<Rightarrow> pids_info \<Rightarrow> pids_info" where
  "reset_items new i =
     (let n = length new; left = (case pi_items i of None \<Rightarrow> [] | Some xs \<Rightarrow> drop (n + 1) xs)
      in pids_libflags_set (pids_itemize_stacks_all
           (i\<lparr>pi_items := Some (new @ [PIDS_logical_end] @ left), pi_curitems := n + 1\<rparr>)))"

text \<open>The value returned and the context.\<close>

definition procps_pids_reset ::
  "bool \<Rightarrow> (nat \<times> item list) option \<Rightarrow> int \<Rightarrow> pids_info option \<Rightarrow> pids_lib \<Rightarrow> (int \<times> pids_info option \<times> pids_lib) option" where
  "procps_pids_reset realloc_ok newitems newnumitems info lib =
     (case (info, newitems) of
        (Some i, Some items) \<Rightarrow>
          if pids_items_check_failed items newnumitems then Some (- EINVAL, info, lib)
          else (case pids_cleanup_stacks_all i of
                  None \<Rightarrow> None
                | Some i1 \<Rightarrow>
                    let n = nat newnumitems; new = take n (snd items)
                    in if pi_curitems i1 = n + 1 \<and> pi_items i1 = None then None
                       else if pi_curitems i1 = n + 1 \<and> take n (the (pi_items i1)) = new then Some (0, Some i1, lib)
                       else (case reset_room n i1 lib of
                               (i2, lib2) \<Rightarrow>
                                 if pi_maxitems i1 < n + 1 \<and> \<not> realloc_ok then Some (- ENOMEM, Some (i2\<lparr>pi_items := None\<rparr>), lib2)
                                 else if n + 1 \<le> pi_maxitems i1 \<and> pi_items i2 = None then None
                                 else Some (0, Some (reset_items new i2), lib2)))
      | _ \<Rightarrow> Some (- EINVAL, info, lib))"

subsection \<open>sort\<close>

fun pids_offset :: "nat \<Rightarrow> item \<Rightarrow> nat \<Rightarrow> stack \<Rightarrow> nat option option" where
  "pids_offset cur it off [] = None"
| "pids_offset cur it off (r # rs) =
     (if rc_item r = it then Some (Some off)
      else if cur \<le> off + 1 then Some None
      else if PIDS_logical_end \<le> rc_item r then Some None
      else pids_offset cur it (off + 1) rs)"

text \<open>What the C library's comparisons of strings are.\<close>

record string_order =
  so_strcoll :: "string \<Rightarrow> string \<Rightarrow> int"
  so_strverscmp :: "string \<Rightarrow> string \<Rightarrow> int"

definition rd_strv :: "rval \<Rightarrow> string list option" where
  "rd_strv v = (case v of Strv ss \<Rightarrow> Some ss | _ \<Rightarrow> None)"

definition pids_compare :: "string_order \<Rightarrow> pids_sort \<Rightarrow> int \<Rightarrow> rval \<Rightarrow> rval \<Rightarrow> int" where
  "pids_compare so q order a b =
     (case q of
        QS k \<Rightarrow> compare_kind (so_strcoll so) k order a b
      | Q_strv \<Rightarrow>
          (case (rd_strv a, rd_strv b) of
             (Some x, Some y) \<Rightarrow> cast_int (order * so_strcoll so (hd x) (hd y))
           | _ \<Rightarrow> 0)
      | Q_strvers \<Rightarrow> cast_int (order * so_strverscmp so (rd_str a) (rd_str b)))"

text \<open>A comparison of strings reads those of both; of a vector, the first, where there are vectors.\<close>

definition comparable :: "pids_sort \<Rightarrow> rval \<Rightarrow> bool" where
  "comparable q v =
     (case q of
        QS k \<Rightarrow> k = Q_str \<longrightarrow> v \<noteq> Zero
      | Q_strv \<Rightarrow> rd_strv v \<noteq> Some []
      | Q_strvers \<Rightarrow> v \<noteq> Zero)"

definition procps_pids_sort ::
  "string_order \<Rightarrow> pids_info option \<Rightarrow> nat list option \<Rightarrow> item \<Rightarrow> int \<Rightarrow> nat list option option" where
  "procps_pids_sort so info stacks sortitem order =
     (case (info, stacks) of
        (Some i, Some as) \<Rightarrow>
          if PIDS_logical_end \<le> sortitem \<or> order \<noteq> 1 \<and> order \<noteq> - 1 then Some None
          else if length as < 2 then Some (Some as)
          else (case pi_heap i (hd as) of
                  None \<Rightarrow> None
                | Some s \<Rightarrow>
                    (case pids_offset (pi_curitems i) sortitem 0 s of
                       None \<Rightarrow> None
                     | Some None \<Rightarrow> Some None
                     | Some (Some off) \<Rightarrow>
                         let val = (\<lambda>a. cell_val off (the (pi_heap i a))); q = item_sortfunc sortitem
                         in if list_all (\<lambda>a. pi_heap i a \<noteq> None \<and> off < length (the (pi_heap i a)) \<and> comparable q (val a)) as
                            then Some (Some (qsort (\<lambda>a b. pids_compare so q order (val a) (val b)) as))
                            else None))
      | _ \<Rightarrow> Some None)"

end
