(* ===== verification/PidsItemsSpec.thy ===== *)
theory PidsItemsSpec
  imports PidsItems
begin

text \<open>
  What holds of the items of \<open>PidsItems\<close>: the table agrees with the enumerators of the header and
  with the set functions, a result is always of its item's type, so that a free function only frees
  strings, and filling a stack gives each item its value of the process.
\<close>

subsection \<open>The header\<close>

text \<open>The enumerators of \<^verbatim>\<open>proc/pids.h\<close> and the types their comments give.\<close>

definition pids_item_enum :: "(string \<times> string) list" where
  "pids_item_enum =
    [(''noop'', []), (''extra'', []), (''ADDR_CODE_END'', ''ul_int''), (''ADDR_CODE_START'', ''ul_int''),
     (''ADDR_CURR_EIP'', ''ul_int''), (''ADDR_CURR_ESP'', ''ul_int''), (''ADDR_STACK_START'', ''ul_int''),
     (''AUTOGRP_ID'', ''s_int''), (''AUTOGRP_NICE'', ''s_int''), (''CGNAME'', ''str''), (''CGROUP'', ''str''),
     (''CGROUP_V'', ''strv''), (''CMD'', ''str''), (''CMDLINE'', ''str''), (''CMDLINE_V'', ''strv''),
     (''ENVIRON'', ''str''), (''ENVIRON_V'', ''strv''), (''EXE'', ''str''), (''EXIT_SIGNAL'', ''s_int''),
     (''FLAGS'', ''ul_int''), (''FLT_MAJ'', ''ul_int''), (''FLT_MAJ_C'', ''ul_int''),
     (''FLT_MAJ_DELTA'', ''s_int''), (''FLT_MIN'', ''ul_int''), (''FLT_MIN_C'', ''ul_int''),
     (''FLT_MIN_DELTA'', ''s_int''), (''ID_EGID'', ''u_int''), (''ID_EGROUP'', ''str''),
     (''ID_EUID'', ''u_int''), (''ID_EUSER'', ''str''), (''ID_FGID'', ''u_int''), (''ID_FGROUP'', ''str''),
     (''ID_FUID'', ''u_int''), (''ID_FUSER'', ''str''), (''ID_LOGIN'', ''s_int''), (''ID_PGRP'', ''s_int''),
     (''ID_PID'', ''s_int''), (''ID_PPID'', ''s_int''), (''ID_RGID'', ''u_int''), (''ID_RGROUP'', ''str''),
     (''ID_RUID'', ''u_int''), (''ID_RUSER'', ''str''), (''ID_SESSION'', ''s_int''), (''ID_SGID'', ''u_int''),
     (''ID_SGROUP'', ''str''), (''ID_SUID'', ''u_int''), (''ID_SUSER'', ''str''), (''ID_TGID'', ''s_int''),
     (''ID_TID'', ''s_int''), (''ID_TPGID'', ''s_int''), (''IO_READ_BYTES'', ''ul_int''),
     (''IO_READ_CHARS'', ''ul_int''), (''IO_READ_OPS'', ''ul_int''), (''IO_WRITE_BYTES'', ''ul_int''),
     (''IO_WRITE_CBYTES'', ''ul_int''), (''IO_WRITE_CHARS'', ''ul_int''), (''IO_WRITE_OPS'', ''ul_int''),
     (''LXCNAME'', ''str''), (''MEM_CODE'', ''ul_int''), (''MEM_CODE_PGS'', ''ul_int''),
     (''MEM_DATA'', ''ul_int''), (''MEM_DATA_PGS'', ''ul_int''), (''MEM_RES'', ''ul_int''),
     (''MEM_RES_PGS'', ''ul_int''), (''MEM_SHR'', ''ul_int''), (''MEM_SHR_PGS'', ''ul_int''),
     (''MEM_VIRT'', ''ul_int''), (''MEM_VIRT_PGS'', ''ul_int''), (''NICE'', ''s_int''), (''NLWP'', ''s_int''),
     (''NS_IPC'', ''ul_int''), (''NS_MNT'', ''ul_int''), (''NS_NET'', ''ul_int''), (''NS_PID'', ''ul_int''),
     (''NS_USER'', ''ul_int''), (''NS_UTS'', ''ul_int''), (''OOM_ADJ'', ''s_int''), (''OOM_SCORE'', ''s_int''),
     (''PRIORITY'', ''s_int''), (''PRIORITY_RT'', ''s_int''), (''PROCESSOR'', ''s_int''),
     (''PROCESSOR_NODE'', ''s_int''), (''RSS'', ''ul_int''), (''RSS_RLIM'', ''ul_int''),
     (''SCHED_CLASS'', ''s_int''), (''SD_MACH'', ''str''), (''SD_OUID'', ''str''), (''SD_SEAT'', ''str''),
     (''SD_SESS'', ''str''), (''SD_SLICE'', ''str''), (''SD_UNIT'', ''str''), (''SD_UUNIT'', ''str''),
     (''SIGBLOCKED'', ''str''), (''SIGCATCH'', ''str''), (''SIGIGNORE'', ''str''), (''SIGNALS'', ''str''),
     (''SIGPENDING'', ''str''), (''SMAP_ANONYMOUS'', ''ul_int''), (''SMAP_HUGE_ANON'', ''ul_int''),
     (''SMAP_HUGE_FILE'', ''ul_int''), (''SMAP_HUGE_SHMEM'', ''ul_int''), (''SMAP_HUGE_TLBPRV'', ''ul_int''),
     (''SMAP_HUGE_TLBSHR'', ''ul_int''), (''SMAP_LAZY_FREE'', ''ul_int''), (''SMAP_LOCKED'', ''ul_int''),
     (''SMAP_PRV_CLEAN'', ''ul_int''), (''SMAP_PRV_DIRTY'', ''ul_int''), (''SMAP_PRV_TOTAL'', ''ul_int''),
     (''SMAP_PSS'', ''ul_int''), (''SMAP_PSS_ANON'', ''ul_int''), (''SMAP_PSS_FILE'', ''ul_int''),
     (''SMAP_PSS_SHMEM'', ''ul_int''), (''SMAP_REFERENCED'', ''ul_int''), (''SMAP_RSS'', ''ul_int''),
     (''SMAP_SHR_CLEAN'', ''ul_int''), (''SMAP_SHR_DIRTY'', ''ul_int''), (''SMAP_SWAP'', ''ul_int''),
     (''SMAP_SWAP_PSS'', ''ul_int''), (''STATE'', ''s_ch''), (''SUPGIDS'', ''str''), (''SUPGROUPS'', ''str''),
     (''TICS_ALL'', ''ull_int''), (''TICS_ALL_C'', ''ull_int''), (''TICS_ALL_DELTA'', ''u_int''),
     (''TICS_BEGAN'', ''ull_int''), (''TICS_BLKIO'', ''ull_int''), (''TICS_GUEST'', ''ull_int''),
     (''TICS_GUEST_C'', ''ull_int''), (''TICS_SYSTEM'', ''ull_int''), (''TICS_SYSTEM_C'', ''ull_int''),
     (''TICS_USER'', ''ull_int''), (''TICS_USER_C'', ''ull_int''), (''TIME_ALL'', ''real''),
     (''TIME_ALL_C'', ''real''), (''TIME_ELAPSED'', ''real''), (''TIME_START'', ''real''), (''TTY'', ''s_int''),
     (''TTY_NAME'', ''str''), (''TTY_NUMBER'', ''str''), (''UTILIZATION'', ''real''),
     (''UTILIZATION_C'', ''real''), (''VM_DATA'', ''ul_int''), (''VM_EXE'', ''ul_int''),
     (''VM_LIB'', ''ul_int''), (''VM_RSS'', ''ul_int''), (''VM_RSS_ANON'', ''ul_int''),
     (''VM_RSS_FILE'', ''ul_int''), (''VM_RSS_LOCKED'', ''ul_int''), (''VM_RSS_SHARED'', ''ul_int''),
     (''VM_SIZE'', ''ul_int''), (''VM_STACK'', ''ul_int''), (''VM_SWAP'', ''ul_int''),
     (''VM_USED'', ''ul_int''), (''VSIZE_PGS'', ''ul_int''), (''WCHAN_NAME'', ''str'')]"


text \<open>
  What a set function writes: a value of the type, a null pointer or, when it writes nothing, the old
  value. The strings are those a free function of the row frees.
\<close>

definition set_writes :: "string \<Rightarrow> pids_set \<Rightarrow> bool" where
  "set_writes ty s \<longleftrightarrow>
     (\<forall>c v P v' P' e. run_set c s (v, P) = Some (v', P', e) \<longrightarrow>
        v' = v \<or> v' = Zero \<or> (if ty = [] then v' = Ull_int 0 else rtype v' = ty))"

lemma set_writes_simps:
  "set_writes ty Noop" "set_writes [] Extra"
  "(\<And>P. rtype (f P) = ty) \<Longrightarrow> ty \<noteq> [] \<Longrightarrow> set_writes ty (REG f)"
  "set_writes ''ul_int'' (CVT g)" "set_writes ''str'' (DUP d)" "set_writes ''str'' (DUPF df)"
  "set_writes ''str'' (OWN nm gt cl)" "set_writes ''strv'' (OWNV nm gv cl)"
  "set_writes ''str'' (REG (str_ptr p))"
  by (auto simp: set_writes_def run_set_def dup_result_def str_ptr_def split: option.splits if_splits)

lemma set_writes_calc:
  "(\<And>c v P. g c v P = v \<or> rtype (g c v P) = ty) \<Longrightarrow> ty \<noteq> [] \<Longrightarrow> set_writes ty (CALC g)"
  by (auto simp: set_writes_def run_set_def)

lemma set_writes_real:
  "set_writes ''real'' (CALC time_all)" "set_writes ''real'' (CALC time_all_c)" "set_writes ''real'' (CALC time_elapsed)"
  "set_writes ''real'' (CALC time_start)" "set_writes ''real'' (CALC utilization)" "set_writes ''real'' (CALC utilization_c)"
  "set_writes ''s_int'' (CALC (\<lambda>c v P. S_int (k c P)))"
  by (rule set_writes_calc; simp add: time_all_def time_all_c_def time_elapsed_def time_start_def utilization_def
      utilization_c_def percent_of_def Let_def)+

text \<open>A row fits a set function: what it owns is freed, by the function for its kind.\<close>

definition owned_by :: "pids_set \<Rightarrow> free_func option" where
  "owned_by s =
     (case s of
        DUP _ \<Rightarrow> Some FreeStr | DUPF _ \<Rightarrow> Some FreeStr | OWN _ _ _ \<Rightarrow> Some FreeStr | OWNV _ _ _ \<Rightarrow> Some FreeStrv
      | _ \<Rightarrow> None)"

definition sort_type :: "pids_sort \<Rightarrow> string" where
  "sort_type q =
     (case q of
        QS k \<Rightarrow> (case k of Q_noop \<Rightarrow> [] | Q_s_ch \<Rightarrow> ''s_ch'' | Q_s_int \<Rightarrow> ''s_int'' | Q_u_int \<Rightarrow> ''u_int''
                | Q_ul_int \<Rightarrow> ''ul_int'' | Q_ull_int \<Rightarrow> ''ull_int'' | Q_sl_int \<Rightarrow> ''sl_int'' | Q_real \<Rightarrow> ''real'' | Q_str \<Rightarrow> ''str'')
      | Q_strv \<Rightarrow> ''strv'' | Q_strvers \<Rightarrow> ''str'')"

fun row_fits :: "string \<times> pids_set \<Rightarrow> table_row \<Rightarrow> bool" where
  "row_fits (nm, s) (nm', fl, fr, q, h, ty) \<longleftrightarrow>
     nm = nm' \<and> set_writes ty s \<and> fr = owned_by s \<and> (sort_type q = ty \<or> ty = [])
     \<and> (fr = Some FreeStr \<longrightarrow> ty = ''str'') \<and> (fr = Some FreeStrv \<longrightarrow> ty = ''strv'')"

lemma pids_rows_fit: "list_all2 row_fits pids_sets pids_table"
  unfolding pids_sets_def pids_table_def pids_table_a_def pids_table_z_def append.simps
  by (simp add: set_writes_simps set_writes_real owned_by_def sort_type_def)

lemma pids_lengths: "length pids_sets = PIDS_logical_end" "length pids_table = PIDS_logical_end"
  by (simp_all add: pids_sets_def pids_table_def pids_table_a_def pids_table_z_def PIDS_logical_end_def)

text \<open>
  C5. Every item of the table has the name and the type the header gives it, at the same place; its set
  function writes that type; the strings it owns, and no others, are freed, by the function for them;
  and it is compared as that type.
\<close>

theorem pids_table_agrees:
  "map (\<lambda>(nm, fl, fr, q, h, ty). (nm, ty)) pids_table = pids_item_enum \<and> list_all2 row_fits pids_sets pids_table"
  by (intro conjI pids_rows_fit)
    (simp add: pids_table_def pids_table_a_def pids_table_z_def pids_item_enum_def)

lemma item_row: "i < PIDS_logical_end \<Longrightarrow> row_fits (pids_sets ! i) (pids_table ! i)"
  using pids_rows_fit pids_lengths by (simp add: list_all2_conv_all_nth)

lemma item_fits:
  assumes "i < PIDS_logical_end"
  shows "set_writes (item_type i) (item_set i)" "item_freefunc i = owned_by (item_set i)"
    "item_freefunc i = Some FreeStr \<Longrightarrow> item_type i = ''str''"
    "item_freefunc i = Some FreeStrv \<Longrightarrow> item_type i = ''strv''"
    "sort_type (item_sortfunc i) = item_type i \<or> item_type i = []"
  using item_row [OF assms]
  by (cases "pids_sets ! i"; cases "pids_table ! i"; simp add: item_type_def item_set_def item_freefunc_def item_sortfunc_def)+

subsection \<open>Results have the type of their item\<close>

definition typed_val :: "item \<Rightarrow> rval \<Rightarrow> bool" where
  "typed_val i v \<longleftrightarrow> v = Zero \<or> (if item_type i = [] then v = Ull_int 0 else rtype v = item_type i)"

lemma run_set_typed:
  "i < PIDS_logical_end \<Longrightarrow> typed_val i v \<Longrightarrow> run_set c (item_set i) (v, P) = Some (v', P', e) \<Longrightarrow> typed_val i v'"
  using item_fits(1) [of i] unfolding set_writes_def typed_val_def by metis

lemma free_typed:
  assumes "i < PIDS_logical_end" "typed_val i v"
  shows "(case item_freefunc i of None \<Rightarrow> Some [] | Some f \<Rightarrow> run_free f v) \<noteq> None"
proof (cases "item_freefunc i")
  case (Some f)
  then have "v = Zero \<or> rtype v = (case f of FreeStr \<Rightarrow> ''str'' | FreeStrv \<Rightarrow> ''strv'')"
    using assms item_fits(3,4) [OF assms(1)] by (cases f) (auto simp: typed_val_def)
  then show ?thesis using Some by (cases v; cases f) (auto simp: run_free_def)
qed simp

text \<open>
  A stack for the given items: its first cells are theirs, each with a value of its type, and from the
  \<open>logical_end\<close> on everything is zero.
\<close>

fun typed_stack :: "item list \<Rightarrow> stack \<Rightarrow> bool" where
  "typed_stack its [] = False"
| "typed_stack [] (r # rs) = (rc_item r = PIDS_logical_end \<and> list_all (\<lambda>r. rc_val r = Zero) (r # rs))"
| "typed_stack (i # its) (r # rs) = (rc_item r = i \<and> typed_val i (rc_val r) \<and> typed_stack its rs)"

definition valid_pids :: "item list \<Rightarrow> bool" where
  "valid_pids its \<longleftrightarrow> list_all (\<lambda>i. i < PIDS_logical_end) its"

lemma valid_pids_Cons [simp]: "valid_pids (i # its) = (i < PIDS_logical_end \<and> valid_pids its)"
  by (simp add: valid_pids_def)

lemma typed_assign:
  "valid_pids its \<Longrightarrow> typed_stack its s \<Longrightarrow> pids_assign_results c s P = Some (s', P', e) \<Longrightarrow>
     typed_stack its s' \<and> length s' = length s"
proof (induction its s arbitrary: s' P P' e rule: typed_stack.induct)
  case (3 i its r rs)
  then obtain v P1 e1 rs' P2 e2 where r: "run_set c (item_set i) (rc_val r, P) = Some (v, P1, e1)"
      "pids_assign_results c rs P1 = Some (rs', P2, e2)" "s' = r\<lparr>rc_val := v\<rparr> # rs'"
    by (auto split: option.splits prod.splits)
  from 3(1) [OF _ _ r(2)] 3(2,3) run_set_typed [OF _ _ r(1)] r(3) show ?case by simp
qed (auto split: if_splits)

lemma typed_cleanup:
  "valid_pids its \<Longrightarrow> typed_stack its s \<Longrightarrow>
     \<exists>s'. pids_cleanup_stack s = Some s' \<and> typed_stack its s' \<and> length s' = length s \<and> list_all (\<lambda>r. rc_val r = Zero) s'"
proof (induction its s rule: typed_stack.induct)
  case (3 i its r rs)
  then obtain rs' where rs': "pids_cleanup_stack rs = Some rs'" "typed_stack its rs'" "length rs' = length rs"
      "list_all (\<lambda>r. rc_val r = Zero) rs'" by auto
  obtain f where "(case item_freefunc i of None \<Rightarrow> Some [] | Some f \<Rightarrow> run_free f (rc_val r)) = Some f"
    using free_typed [of i "rc_val r"] 3(2,3) by auto
  then show ?case using rs' 3(2,3) by (intro exI [of _ "r\<lparr>rc_val := Zero\<rparr> # rs'"]) (auto simp: typed_val_def)
qed auto

subsection \<open>Filling a stack succeeds\<close>

text \<open>The names of the terminal fit their buffers, and there is memory.\<close>

definition tty_fits :: "dev_env \<Rightarrow> tty_map \<Rightarrow> proc_t \<Rightarrow> bool" where
  "tty_fits d m P \<longleftrightarrow>
     (\<forall>flags. flags = ABBREV_DEV \<or> flags = ABBREV_DEV OR ABBREV_TTY OR ABBREV_PTS \<longrightarrow>
        length (fst (dev_to_tty d m (of_nat TTY_BUF) (word_of_int (p_tty P)) (p_tid P) flags)) < TTY_BUF)"

definition ctx_memory :: "pids_ctx \<Rightarrow> bool" where
  "ctx_memory c \<longleftrightarrow> pc_strdup c = (\<lambda>_. True) \<and> pc_alloc c = (\<lambda>_. True)"

text \<open>The old value is one that the set function may free.\<close>

definition replaceable :: "pids_set \<Rightarrow> rval \<Rightarrow> bool" where
  "replaceable s v \<longleftrightarrow> (case owned_by s of None \<Rightarrow> True | Some f \<Rightarrow> run_free f v \<noteq> None)"

lemma replaceable_owned [simp]:
  "replaceable (DUP d) v \<longleftrightarrow> run_free FreeStr v \<noteq> None" "replaceable (DUPF df) v \<longleftrightarrow> run_free FreeStr v \<noteq> None"
  "replaceable (OWN nm gt cl) v \<longleftrightarrow> run_free FreeStr v \<noteq> None"
  "replaceable (OWNV nm gv cl) v \<longleftrightarrow> run_free FreeStrv v \<noteq> None"
  by (simp_all add: replaceable_def owned_by_def)

lemma typed_replaceable: "i < PIDS_logical_end \<Longrightarrow> typed_val i v \<Longrightarrow> replaceable (item_set i) v"
  using free_typed [of i v] item_fits(2) [of i] by (auto simp: replaceable_def split: option.splits)

definition set_runs :: "pids_set \<Rightarrow> bool" where
  "set_runs s \<longleftrightarrow>
     (\<forall>c v P. tty_fits (pc_dev c) (pc_tmap c) P \<and> replaceable s v \<longrightarrow>
        (case run_set c s (v, P) of
           None \<Rightarrow> False
         | Some (v', P', e) \<Rightarrow> (ctx_memory c \<longrightarrow> \<not> e) \<and> p_tty P' = p_tty P \<and> p_tid P' = p_tid P))"

lemma set_runs_simps:
  "set_runs Noop" "set_runs Extra" "set_runs (REG f)" "set_runs (CVT g)" "set_runs (DUP d)" "set_runs (CALC h)"
  "(\<And>P. p_tty (cl P) = p_tty P \<and> p_tid (cl P) = p_tid P) \<Longrightarrow> set_runs (OWN nm gt cl)"
  "(\<And>P. p_tty (cl P) = p_tty P \<and> p_tid (cl P) = p_tid P) \<Longrightarrow> set_runs (OWNV nm gv cl)"
  "set_runs (DUPF wchan_text)" "set_runs (DUPF (tty_text ABBREV_DEV))"
  "set_runs (DUPF (tty_text (ABBREV_DEV OR ABBREV_TTY OR ABBREV_PTS)))"
  by (auto simp: set_runs_def run_set_def dup_result_def ctx_memory_def vectorize_this_str_def wchan_text_def
      tty_text_def tty_fits_def Let_def not_le split: option.splits)

lemma item_set_all: "list_all Q (map snd pids_sets) \<Longrightarrow> i < PIDS_logical_end \<Longrightarrow> Q (item_set i)"
  using pids_lengths by (simp add: list_all_length item_set_def)

lemma pids_sets_run: "list_all set_runs (map snd pids_sets)"
  unfolding pids_sets_def by (simp add: set_runs_simps)

lemma item_set_runs:
  assumes "i < PIDS_logical_end" "typed_val i v" "tty_fits (pc_dev c) (pc_tmap c) P"
  shows "\<exists>v' P' e. run_set c (item_set i) (v, P) = Some (v', P', e) \<and> (ctx_memory c \<longrightarrow> \<not> e)
    \<and> p_tty P' = p_tty P \<and> p_tid P' = p_tid P"
proof -
  have "set_runs (item_set i)" by (rule item_set_all [OF pids_sets_run assms(1)])
  then have "case run_set c (item_set i) (v, P) of None \<Rightarrow> False
      | Some (v', P', e) \<Rightarrow> (ctx_memory c \<longrightarrow> \<not> e) \<and> p_tty P' = p_tty P \<and> p_tid P' = p_tid P"
    using typed_replaceable [OF assms(1,2)] assms(3) unfolding set_runs_def by blast
  then show ?thesis by (auto split: option.splits)
qed

text \<open>With memory or not, filling frees only strings and leaves no buffer.\<close>

lemma assign_defined:
  "valid_pids its \<Longrightarrow> typed_stack its s \<Longrightarrow> tty_fits (pc_dev c) (pc_tmap c) P \<Longrightarrow>
     \<exists>s' P' e. pids_assign_results c s P = Some (s', P', e) \<and> (ctx_memory c \<longrightarrow> \<not> e)"
proof (induction its s arbitrary: P rule: typed_stack.induct)
  case (3 i its r rs)
  then obtain v P2 e2 where r: "run_set c (item_set i) (rc_val r, P) = Some (v, P2, e2)" "ctx_memory c \<longrightarrow> \<not> e2"
      "p_tty P2 = p_tty P" "p_tid P2 = p_tid P"
    using item_set_runs [of i "rc_val r" c P] by auto
  then have "tty_fits (pc_dev c) (pc_tmap c) P2" using 3(4) by (simp add: tty_fits_def)
  then obtain s' P' e where "pids_assign_results c rs P2 = Some (s', P', e)" "ctx_memory c \<longrightarrow> \<not> e"
    using 3(1) [of P2] 3(2,3) by auto
  then show ?case using 3(2,3) r(1,2) by auto
qed (auto simp: PIDS_logical_end_def)

subsection \<open>Each item gets its value of the process\<close>

text \<open>The process without the strings that set functions take; two processes a set function cannot tell apart.\<close>

definition stripped :: "proc_t \<Rightarrow> proc_t" where
  "stripped P =
     P\<lparr>p_cgname := None, p_cgroup := None, p_cgroup_v := None, p_cmd := None, p_cmdline := None, p_cmdline_v := None,
       p_environ := None, p_environ_v := None, p_exe := None, p_sd_mach := None, p_sd_ouid := None,
       p_sd_seat := None, p_sd_sess := None, p_sd_slice := None, p_sd_unit := None, p_sd_uunit := None, p_supgid := None,
       p_supgrp := None\<rparr>"

definition same_taken :: "pids_set \<Rightarrow> proc_t \<Rightarrow> proc_t \<Rightarrow> bool" where
  "same_taken s P Q \<longleftrightarrow>
     (case s of OWN nm gt cl \<Rightarrow> gt P = gt Q | OWNV nm gt cl \<Rightarrow> gt P = gt Q | _ \<Rightarrow> True)"

definition reads_stripped :: "pids_set \<Rightarrow> bool" where
  "reads_stripped s \<longleftrightarrow>
     (\<forall>c v P. case s of
        REG f \<Rightarrow> f P = f (stripped P) | CVT f \<Rightarrow> f P = f (stripped P) | DUP f \<Rightarrow> f P = f (stripped P)
      | DUPF f \<Rightarrow> f c P = f c (stripped P) | CALC f \<Rightarrow> f c v P = f c v (stripped P)
      | OWN nm gt cl \<Rightarrow> stripped (cl P) = stripped P | OWNV nm gt cl \<Rightarrow> stripped (cl P) = stripped P | _ \<Rightarrow> True)"

definition takes :: "pids_set \<Rightarrow> bool" where
  "takes s \<longleftrightarrow> (case s of OWN _ _ _ \<Rightarrow> True | OWNV _ _ _ \<Rightarrow> True | _ \<Rightarrow> False)"

definition taken :: "pids_set \<Rightarrow> proc_t \<Rightarrow> proc_t" where
  "taken s P = (case s of OWN nm gt cl \<Rightarrow> cl P | OWNV nm gt cl \<Rightarrow> cl P | _ \<Rightarrow> P)"

definition apart :: "pids_set \<Rightarrow> pids_set \<Rightarrow> bool" where
  "apart s t \<longleftrightarrow> (\<forall>P. same_taken s (taken t P) P \<and> same_taken t (taken s P) P)"

lemma pids_sets_stripped: "list_all reads_stripped (map snd pids_sets)"
  unfolding pids_sets_def
  by (simp add: reads_stripped_def stripped_def str_ptr_def time_all_def time_all_c_def time_elapsed_def time_start_def
      start_secs_def utilization_def utilization_c_def percent_of_def tty_text_def wchan_text_def)


lemma takers_apart: "sorted_wrt apart (filter takes (map snd pids_sets))"
  by (simp add: pids_sets_def takes_def apart_def same_taken_def taken_def)

lemma sorted_wrt_filter_all: "sorted_wrt R (filter Q xs) \<Longrightarrow> sorted_wrt (\<lambda>a b. Q a \<and> Q b \<longrightarrow> R a b) xs"
  by (induction xs) (auto split: if_splits)

lemma item_sets_apart:
  assumes "i < PIDS_logical_end" "j < PIDS_logical_end" "i \<noteq> j"
  shows "same_taken (item_set i) (taken (item_set j) P) P"
proof (cases "takes (item_set i) \<and> takes (item_set j)")
  case True
  have s: "sorted_wrt (\<lambda>a b. takes a \<and> takes b \<longrightarrow> apart a b) (map snd pids_sets)"
    by (rule sorted_wrt_filter_all [OF takers_apart])
  consider "i < j" | "j < i" using assms(3) by linarith
  then show ?thesis
  proof cases
    case 1
    then show ?thesis
      using sorted_wrt_nth_less [OF s 1] assms(1,2) True pids_lengths by (simp add: item_set_def apart_def)
  next
    case 2
    then show ?thesis
      using sorted_wrt_nth_less [OF s 2] assms(1,2) True pids_lengths by (simp add: item_set_def apart_def)
  qed
next
  case False
  then show ?thesis by (cases "item_set i"; cases "item_set j") (auto simp: takes_def same_taken_def taken_def)
qed

lemma run_set_taken:
  assumes "i < PIDS_logical_end" "run_set c (item_set i) (v, P) = Some (v', P', e)"
  shows "(P' = P \<or> P' = taken (item_set i) P) \<and> stripped P' = stripped P"
  using assms(2) item_set_all [OF pids_sets_stripped assms(1)]
  by (auto simp: run_set_def taken_def dup_result_def reads_stripped_def split: pids_set.splits option.splits prod.splits if_splits)

text \<open>Two processes with the same rest and the same string of the item give it the same value.\<close>

definition alike :: "item \<Rightarrow> proc_t \<Rightarrow> proc_t \<Rightarrow> bool" where
  "alike i P Q \<longleftrightarrow> stripped P = stripped Q \<and> same_taken (item_set i) P Q"

lemma same_taken_trans: "same_taken s P Q \<Longrightarrow> same_taken s Q R \<Longrightarrow> same_taken s P R"
  by (cases s) (auto simp: same_taken_def)

lemma stripped_cong:
  assumes "\<And>P. f P = f (stripped P)" "stripped P = stripped Q"
  shows "f P = f Q"
  using assms(1) [of P] assms(1) [of Q] assms(2) by simp

lemma run_set_alike:
  assumes "i < PIDS_logical_end" "alike i P Q"
  shows "map_option fst (run_set c (item_set i) (v, P)) = map_option fst (run_set c (item_set i) (v, Q))"
proof -
  have r: "reads_stripped (item_set i)" by (rule item_set_all [OF pids_sets_stripped assms(1)])
  have s: "stripped P = stripped Q" "same_taken (item_set i) P Q" using assms(2) by (simp_all add: alike_def)
  show ?thesis
  proof (cases "item_set i")
    case (REG f)
    then have "f P = f Q" by (intro stripped_cong [OF _ s(1)]) (use r in \<open>simp add: reads_stripped_def\<close>)
    then show ?thesis using REG by (simp add: run_set_def)
  next
    case (CVT f)
    then have "f P = f Q" by (intro stripped_cong [OF _ s(1)]) (use r in \<open>simp add: reads_stripped_def\<close>)
    then show ?thesis using CVT by (simp add: run_set_def)
  next
    case (DUP f)
    then have "f P = f Q" by (intro stripped_cong [OF _ s(1)]) (use r in \<open>simp add: reads_stripped_def\<close>)
    then show ?thesis using DUP by (simp add: run_set_def split: prod.split option.split)
  next
    case (DUPF f)
    then have "f c P = f c Q" by (intro stripped_cong [where f = "f c", OF _ s(1)]) (use r in \<open>simp add: reads_stripped_def\<close>)
    then show ?thesis using DUPF by (simp add: run_set_def split: prod.split option.split)
  next
    case (CALC f)
    then have "f c v P = f c v Q"
      by (intro stripped_cong [where f = "f c v", OF _ s(1)]) (use r in \<open>simp add: reads_stripped_def\<close>)
    then show ?thesis using CALC by (simp add: run_set_def)
  next
    case (OWN nm gt cl)
    then have "gt P = gt Q" using s(2) by (simp add: same_taken_def)
    then show ?thesis using OWN by (simp add: run_set_def split: prod.split option.split)
  next
    case (OWNV nm gt cl)
    then have "gt P = gt Q" using s(2) by (simp add: same_taken_def)
    then show ?thesis using OWNV by (simp add: run_set_def split: prod.split option.split)
  qed (simp_all add: run_set_def)
qed

lemma run_set_keeps_alike:
  assumes "i < PIDS_logical_end" "j < PIDS_logical_end" "i \<noteq> j" "run_set c (item_set i) (v, P) = Some (v', P', e)" "alike j P Q"
  shows "alike j P' Q"
proof -
  have t: "P' = P \<or> P' = taken (item_set i) P" "stripped P' = stripped P" using run_set_taken [OF assms(1,4)] by simp_all
  have "same_taken (item_set j) P' P"
    using t(1) item_sets_apart [OF assms(2,1)] assms(3) by (auto simp: same_taken_def split: pids_set.splits)
  then show ?thesis using t(2) assms(5) same_taken_trans by (auto simp: alike_def)
qed

text \<open>The value of an item, which replaces an old one \<open>v0\<close> of its type, and a stack filled from a process.\<close>

definition item_value :: "pids_ctx \<Rightarrow> proc_t \<Rightarrow> item \<Rightarrow> rval \<Rightarrow> rval" where
  "item_value c P i v0 = (case run_set c (item_set i) (v0, P) of Some (v, _, _) \<Rightarrow> v | None \<Rightarrow> Zero)"

fun pids_filled :: "pids_ctx \<Rightarrow> proc_t \<Rightarrow> item list \<Rightarrow> stack \<Rightarrow> bool" where
  "pids_filled c P its [] = False"
| "pids_filled c P [] (r # rs) = (rc_item r = PIDS_logical_end)"
| "pids_filled c P (i # its) (r # rs) = (rc_item r = i \<and> (\<exists>v0. typed_val i v0 \<and> rc_val r = item_value c P i v0) \<and> pids_filled c P its rs)"

lemma assign_fills:
  assumes "tty_fits (pc_dev c) (pc_tmap c) P" "ctx_memory c"
  shows "valid_pids its \<Longrightarrow> distinct its \<Longrightarrow> typed_stack its s \<Longrightarrow> p_tty P1 = p_tty P \<and> p_tid P1 = p_tid P \<Longrightarrow>
    list_all (\<lambda>i. alike i P1 P) its \<Longrightarrow>
    \<exists>s' P'. pids_assign_results c s P1 = Some (s', P', False) \<and> pids_filled c P its s'"
proof (induction its s arbitrary: P1 rule: typed_stack.induct)
  case (3 i its r rs)
  have i: "i < PIDS_logical_end" "i \<notin> set its" "rc_item r = i" "alike i P1 P" using 3(2-6) by auto
  have "tty_fits (pc_dev c) (pc_tmap c) P1" using assms(1) 3(5) by (simp add: tty_fits_def)
  then obtain v P2 where r: "run_set c (item_set i) (rc_val r, P1) = Some (v, P2, False)" "p_tty P2 = p_tty P1" "p_tid P2 = p_tid P1"
    using item_set_runs [OF i(1), of "rc_val r" c P1] assms(2) 3(4) by auto
  have v: "v = item_value c P i (rc_val r)"
    using run_set_alike [OF i(1,4), of c "rc_val r"] r(1) by (auto simp: item_value_def split: option.splits)
  have "list_all (\<lambda>j. alike j P2 P) its"
    using 3(2,6) run_set_keeps_alike [OF i(1) _ _ r(1)] i(2) by (auto simp: list_all_iff valid_pids_def)
  then obtain rs' P' where rs': "pids_assign_results c rs P2 = Some (rs', P', False)" "pids_filled c P its rs'"
    using 3(1) [of P2] 3(2-5) r(2,3) by auto
  have "typed_val i (rc_val r)" using 3(4) by simp
  then show ?case using rs' r(1) i(1,3) v by auto
qed (auto simp: PIDS_logical_end_def)

lemma assign_runs:
  assumes "tty_fits (pc_dev c) (pc_tmap c) P" "ctx_memory c" "valid_pids its" "typed_stack its s"
  obtains s' P' where "pids_assign_results c s P = Some (s', P', False)" "distinct its \<longrightarrow> pids_filled c P its s'"
proof (cases "distinct its")
  case True
  have "list_all (\<lambda>i. alike i P P) its"
    by (simp add: list_all_iff alike_def same_taken_def split: pids_set.split)
  then show thesis using assign_fills [OF assms(1-3) True assms(4), of P] that by blast
next
  case False
  then show thesis using assign_defined [OF assms(3,4,1)] assms(2) that by auto
qed

text \<open>What the caller reads at the place of an item.\<close>

lemma filled_value:
  "pids_filled c P its s \<Longrightarrow> k < length its \<Longrightarrow> rc_item (s ! k) = its ! k \<and> (\<exists>v0. typed_val (its ! k) v0 \<and> rc_val (s ! k) = item_value c P (its ! k) v0)"
proof (induction c P its s arbitrary: k rule: pids_filled.induct)
  case (3 c P i its r rs)
  then show ?case by (cases k) auto
qed auto

end
