(* ===== verification/PidsSpec.thy ===== *)
theory PidsSpec
  imports Pids PidsItemsSpec
begin

text \<open>
  What the library interface to the process table promises: the history implements two maps from
  pids to counts, and from a well-formed context a harvest returns one filled stack for every process
  the scan returns and leaves the context well formed. Sequences of calls are in \<open>PidsReach\<close>.
\<close>

subsection \<open>A frame of processes\<close>

fun tally_all :: "hst \<Rightarrow> (nat \<Rightarrow> bool \<times> bool) \<Rightarrow> history_info \<Rightarrow> proc_t list \<Rightarrow> (proc_t list \<times> history_info) option" where
  "tally_all junk ok hi [] = Some ([], hi)"
| "tally_all junk ok hi (p # ps) =
     (case pids_make_hist junk (ok (hi_num_tasks hi)) hi p of
        Some (True, p', hi') \<Rightarrow> map_option (\<lambda>(ps', hi''). (p' # ps', hi'')) (tally_all junk ok hi' ps)
      | _ \<Rightarrow> None)"

definition frame_of :: "proc_t list \<Rightarrow> hist_frame \<Rightarrow> hist_frame" where
  "frame_of ps = fold (\<lambda>p f. f(p_tid p \<mapsto> proc_counts p)) ps"

lemma tally_all_refines:
  assumes "ok = (\<lambda>_. (True, True))"
  shows "hist_ok hi \<Longrightarrow> \<exists>hi'. tally_all junk ok hi ps = Some (map (tallied (old_frame hi)) ps, hi') \<and> hist_ok hi'
    \<and> new_frame hi' = frame_of ps (new_frame hi)"
proof (induction ps arbitrary: hi)
  case (Cons p ps)
  obtain hi1 where h: "pids_make_hist junk (True, True) hi p = Some (True, tallied (old_frame hi) p, hi1)" "hist_ok hi1"
      "old_frame hi1 = old_frame hi" "new_frame hi1 = (new_frame hi)(p_tid p \<mapsto> proc_counts p)"
    using hist_refines(1) [OF Cons.prems] by blast
  from Cons.IH [OF h(2)] h assms show ?case by (auto simp: frame_of_def simp del: fun_upd_apply)
qed (simp add: frame_of_def)

text \<open>
  C2. Tallying the processes of a frame, however many there are, gives each the change of its tics and
  faults since the frame before, and makes this one the map the next frame is compared with: the
  alternating arrays with their hash chains implement a map from pids to counts.
\<close>

theorem pids_frame_refines:
  assumes "hist_ok hi"
  shows "\<exists>hi'. tally_all junk (\<lambda>_. (True, True)) (pids_toggle_history hi) ps = Some (map (tallied (new_frame hi)) ps, hi')
    \<and> hist_ok hi' \<and> new_frame hi' = frame_of ps Map.empty"
  using tally_all_refines [OF refl, of "pids_toggle_history hi" junk ps] hist_refines(2) [OF assms] by auto

text \<open>Two frames: a process that went on, one that is new.\<close>

definition tic_proc :: "int \<Rightarrow> ulong \<Rightarrow> proc_t" where
  "tic_proc pid t = zero_proc\<lparr>p_tid := pid, p_utime := t\<rparr>"

lemma pids_frame_refines_witness:
  "\<exists>hi hi' ps. tally_all zero_hst (\<lambda>_. (True, True)) (pids_toggle_history pids_config_history) [tic_proc 5 10, tic_proc 4101 7] = Some (ps, hi)
    \<and> tally_all zero_hst (\<lambda>_. (True, True)) (pids_toggle_history hi) [tic_proc 4101 9, tic_proc 5 25, tic_proc 6 3] =
        Some ([(tic_proc 4101 9)\<lparr>p_pcpu := 2\<rparr>, (tic_proc 5 25)\<lparr>p_pcpu := 15\<rparr>, (tic_proc 6 3)\<lparr>p_pcpu := 3\<rparr>], hi')"
proof -
  obtain hi where 1: "tally_all zero_hst (\<lambda>_. (True, True)) (pids_toggle_history pids_config_history) [tic_proc 5 10, tic_proc 4101 7]
        = Some (map (tallied (new_frame pids_config_history)) [tic_proc 5 10, tic_proc 4101 7], hi)" "hist_ok hi"
      "new_frame hi = frame_of [tic_proc 5 10, tic_proc 4101 7] Map.empty"
    using pids_frame_refines [OF config_ok(1)] by blast
  obtain hi' where 2: "tally_all zero_hst (\<lambda>_. (True, True)) (pids_toggle_history hi) [tic_proc 4101 9, tic_proc 5 25, tic_proc 6 3]
        = Some (map (tallied (new_frame hi)) [tic_proc 4101 9, tic_proc 5 25, tic_proc 6 3], hi')"
    using pids_frame_refines [OF 1(2)] by blast
  have c: "c_int_of 2 = 2" "c_int_of 15 = 15" "c_int_of 3 = 3" "c_int_of 0 = 0" by (code_simp)+
  have z: "p_stime zero_proc = 0" "p_maj_flt zero_proc = 0" "p_min_flt zero_proc = 0" "p_maj_delta zero_proc = 0" "p_min_delta zero_proc = 0"
    by (simp_all add: zero_proc_def)
  have "map (tallied (new_frame hi)) [tic_proc 4101 9, tic_proc 5 25, tic_proc 6 3] =
      [(tic_proc 4101 9)\<lparr>p_pcpu := 2\<rparr>, (tic_proc 5 25)\<lparr>p_pcpu := 15\<rparr>, (tic_proc 6 3)\<lparr>p_pcpu := 3\<rparr>]"
    by (simp add: 1(3) frame_of_def tallied_def proc_counts_def tic_proc_def c z zero_proc_def)
  then show ?thesis using 1(1) 2 by auto
qed

subsection \<open>The well-formed context\<close>

definition configured_pids :: "item list \<Rightarrow> pids_info \<Rightarrow> bool" where
  "configured_pids its info \<longleftrightarrow>
     valid_pids its \<and> its \<noteq> [] \<and> pi_items info \<noteq> None
     \<and> take (length its + 1) (the (pi_items info)) = its @ [PIDS_logical_end]
     \<and> pi_curitems info = length its + 1 \<and> length its + 1 \<le> pi_maxitems info"

lemma configured_cur: "configured_pids its info \<Longrightarrow> cur_items info = its @ [PIDS_logical_end]"
  by (simp add: configured_pids_def cur_items_def)

text \<open>The stacks of the extents are there, at different addresses, each typed for the items.\<close>

definition owned :: "pids_info \<Rightarrow> nat set" where
  "owned info = set (concat (pi_extents info))"

definition stacks_wf :: "item list \<Rightarrow> pids_info \<Rightarrow> bool" where
  "stacks_wf its info \<longleftrightarrow>
     (\<forall>a\<in>owned info. a < pi_next info \<and> (\<exists>s. pi_heap info a = Some s \<and> typed_stack its s \<and> length s = pi_maxitems info))
     \<and> distinct (concat (pi_extents info))"

definition others_wf :: "pids_info \<Rightarrow> bool" where
  "others_wf info \<longleftrightarrow>
     distinct (pi_otherexts info)
     \<and> (\<forall>a\<in>set (pi_otherexts info). a < pi_next info \<and> a \<notin> owned info
          \<and> (\<exists>its s. valid_pids its \<and> pi_heap info a = Some s \<and> typed_stack its s))"

text \<open>The pointers into the extents: of the array, and of \<open>get\<close>, which has a stack of its own.\<close>

definition pointers_wf :: "pids_info \<Rightarrow> bool" where
  "pointers_wf info \<longleftrightarrow>
     (pi_anchor info = None \<or>
       (\<exists>as. pi_anchor info = Some (map Some as) \<and> length as = pi_n_alloc info \<and> distinct as
          \<and> set as \<subseteq> owned info \<and> pi_get_ext info \<notin> Some ` set as))
     \<and> (\<forall>a. pi_get_ext info = Some a \<longrightarrow> a \<in> owned info)
     \<and> (pi_get_PT info \<noteq> None \<longrightarrow> pi_get_ext info \<noteq> None \<and> pi_reader info \<noteq> None)"

definition rest_wf :: "pids_info \<Rightarrow> bool" where
  "rest_wf info \<longleftrightarrow>
     hist_ok (pi_hist info) \<and> (0 < pi_n_saved info \<longrightarrow> pi_result info \<noteq> None) \<and> pids_libflags_set info = info"

definition pids_wf :: "item list \<Rightarrow> pids_info \<Rightarrow> bool" where
  "pids_wf its info \<longleftrightarrow>
     configured_pids its info \<and> stacks_wf its info \<and> others_wf info \<and> pointers_wf info \<and> rest_wf info"

lemmas pids_wf_defs =
  pids_wf_def configured_pids_def stacks_wf_def others_wf_def pointers_wf_def rest_wf_def owned_def

lemma libflags_fields:
  "pids_libflags_set info = info\<lparr>pi_oldflags := pi_oldflags (pids_libflags_set info), pi_history_yes := pi_history_yes (pids_libflags_set info)\<rparr>"
  by (simp add: pids_libflags_set_def Let_def)

definition flags_match :: "item list \<Rightarrow> 32 word \<Rightarrow> bool \<Rightarrow> bool" where
  "flags_match its flags hist \<longleftrightarrow>
     (let f = fold (\<lambda>i f. f OR item_oldflags i) its 0
      in flags = (if has f f_either \<and> \<not> has f (f_stat OR f_status) then f OR f_stat else f)
         \<and> hist = fold (\<lambda>i h. h \<or> item_needhist i) its False)"

lemma libflags_iff:
  assumes "configured_pids its info"
  shows "pids_libflags_set info = info \<longleftrightarrow> flags_match its (pi_oldflags info) (pi_history_yes info)"
proof -
  have t: "takeWhile (\<lambda>i. i < PIDS_logical_end) (its @ [PIDS_logical_end]) = its"
    using assms by (subst takeWhile_append2) (auto simp: configured_pids_def valid_pids_def list_all_iff)
  have c: "cur_items info = its @ [PIDS_logical_end]" by (rule configured_cur [OF assms])
  have eq: "(info\<lparr>pi_oldflags := f, pi_history_yes := h\<rparr> = info) = (pi_oldflags info = f \<and> pi_history_yes info = h)" for f h
    by (cases info) auto
  show ?thesis unfolding pids_libflags_set_def Let_def c t flags_match_def eq by (rule refl)
qed

text \<open>The same, with the flags in terms of the items: what the fields not named here hold does not matter.\<close>

definition pids_wf' :: "item list \<Rightarrow> pids_info \<Rightarrow> bool" where
  "pids_wf' its info \<longleftrightarrow>
     configured_pids its info \<and> stacks_wf its info \<and> others_wf info \<and> pointers_wf info
     \<and> hist_ok (pi_hist info) \<and> (0 < pi_n_saved info \<longrightarrow> pi_result info \<noteq> None)
     \<and> flags_match its (pi_oldflags info) (pi_history_yes info)"

lemma pids_wf_eq: "pids_wf its info = pids_wf' its info"
  using libflags_iff [of its info] by (auto simp: pids_wf_def pids_wf'_def rest_wf_def)

lemmas wf_simps =
  pids_wf_eq pids_wf'_def configured_pids_def stacks_wf_def others_wf_def pointers_wf_def owned_def

text \<open>Changes that keep the context well formed.\<close>

lemma wf_counts [simp]: "pids_wf its (info\<lparr>pi_counts := x\<rparr>) = pids_wf its info"
  and wf_inuse [simp]: "pids_wf its (info\<lparr>pi_n_inuse := k\<rparr>) = pids_wf its info"
  and wf_fetch_proc [simp]: "pids_wf its (info\<lparr>pi_fetch_proc := p\<rparr>) = pids_wf its info"
  and wf_get_proc [simp]: "pids_wf its (info\<lparr>pi_get_proc := p\<rparr>) = pids_wf its info"
  and wf_fetch_PT [simp]: "pids_wf its (info\<lparr>pi_fetch_PT := t\<rparr>) = pids_wf its info"
  and wf_boot [simp]: "pids_wf its (info\<lparr>pi_boot := b\<rparr>) = pids_wf its info"
  and wf_refcount [simp]: "pids_wf its (info\<lparr>pi_refcount := r\<rparr>) = pids_wf its info"
  by (simp_all add: wf_simps)

lemma wf_hist: "pids_wf its info \<Longrightarrow> hist_ok hi \<Longrightarrow> pids_wf its (info\<lparr>pi_hist := hi\<rparr>)"
  and wf_reader: "pids_wf its info \<Longrightarrow> pids_wf its (info\<lparr>pi_reader := Some k\<rparr>)"
  and wf_result: "pids_wf its info \<Longrightarrow> pids_wf its (info\<lparr>pi_n_saved := n, pi_result := Some as\<rparr>)"
  by (simp_all add: wf_simps)

text \<open>A stack replaced by another for the same items.\<close>

lemma wf_store:
  assumes "pids_wf its info" "a \<in> owned info" "typed_stack its s" "length s = pi_maxitems info"
  shows "pids_wf its (info\<lparr>pi_heap := (pi_heap info)(a \<mapsto> s)\<rparr>)"
proof -
  have "stacks_wf its (info\<lparr>pi_heap := (pi_heap info)(a \<mapsto> s)\<rparr>)"
    using assms by (auto simp: pids_wf_def stacks_wf_def owned_def)
  moreover have "others_wf (info\<lparr>pi_heap := (pi_heap info)(a \<mapsto> s)\<rparr>)"
    using assms(1,2) unfolding pids_wf_def others_wf_def owned_def by fastforce
  ultimately show ?thesis
    using assms(1) by (simp add: pids_wf_eq pids_wf'_def configured_pids_def pointers_wf_def owned_def)
qed

lemma typed_new_stack:
  assumes "configured_pids its info"
  shows "typed_stack its (pids_new_stack info)" "length (pids_new_stack info) = pi_maxitems info"
proof -
  have "typed_stack xs (map (\<lambda>i. \<lparr>rc_item = i, rc_val = Zero\<rparr>) (xs @ [PIDS_logical_end]) @ replicate k \<lparr>rc_item = 0, rc_val = Zero\<rparr>)" for xs k
    by (induction xs) (auto simp: typed_val_def list_all_iff)
  then show "typed_stack its (pids_new_stack info)"
    using configured_cur [OF assms] by (simp add: pids_new_stack_def)
  show "length (pids_new_stack info) = pi_maxitems info"
    using configured_cur [OF assms] assms by (simp add: pids_new_stack_def configured_pids_def)
qed

text \<open>An extent more.\<close>

definition with_extent :: "nat \<Rightarrow> pids_info \<Rightarrow> pids_info" where
  "with_extent n info =
     info\<lparr>pi_extents := [pi_next info ..< pi_next info + n] # pi_extents info, pi_next := pi_next info + n,
          pi_heap := (\<lambda>k. if pi_next info \<le> k \<and> k < pi_next info + n then Some (pids_new_stack info) else pi_heap info k)\<rparr>"

lemma wf_extent:
  assumes "pids_wf its info"
  shows "pids_stacks_alloc True n info = Some (Some ([pi_next info ..< pi_next info + n], with_extent n info))"
    "pids_wf its (with_extent n info)" "owned (with_extent n info) = {pi_next info ..< pi_next info + n} \<union> owned info"
    "\<And>a. a < pi_next info \<Longrightarrow> pi_heap (with_extent n info) a = pi_heap info a"
proof -
  let ?i = "with_extent n info"
  have c: "configured_pids its info" using assms by (simp add: pids_wf_def)
  show "pids_stacks_alloc True n info = Some (Some ([pi_next info ..< pi_next info + n], ?i))"
    using c by (simp add: pids_stacks_alloc_def with_extent_def configured_pids_def Let_def)
  show ow: "owned ?i = {pi_next info ..< pi_next info + n} \<union> owned info"
    by (simp add: owned_def with_extent_def)
  show h: "pi_heap ?i a = pi_heap info a" if "a < pi_next info" for a using that by (simp add: with_extent_def)
  have old: "a < pi_next info" if "a \<in> owned info" for a using assms that by (simp add: pids_wf_def stacks_wf_def)
  have "stacks_wf its ?i"
    unfolding stacks_wf_def ow
  proof (intro conjI ballI)
    fix a assume a: "a \<in> {pi_next info ..< pi_next info + n} \<union> owned info"
    show "a < pi_next ?i" using a by (auto simp: with_extent_def dest: old)
    show "\<exists>s. pi_heap ?i a = Some s \<and> typed_stack its s \<and> length s = pi_maxitems ?i"
    proof (cases "a \<in> owned info")
      case True
      then show ?thesis using assms h [OF old [OF True]] by (simp add: pids_wf_def stacks_wf_def with_extent_def)
    next
      case False
      then show ?thesis using a typed_new_stack [OF c] by (simp add: with_extent_def)
    qed
  next
    have "distinct (concat (pi_extents info))" using assms by (simp add: pids_wf_def stacks_wf_def)
    moreover have "{pi_next info ..< pi_next info + n} \<inter> owned info = {}" using old by fastforce
    ultimately show "distinct (concat (pi_extents ?i))" by (simp add: with_extent_def owned_def)
  qed
  moreover have "others_wf ?i"
    unfolding others_wf_def ow
  proof (intro conjI ballI)
    show "distinct (pi_otherexts ?i)" using assms by (simp add: with_extent_def pids_wf_def others_wf_def)
  next
    fix a assume "a \<in> set (pi_otherexts ?i)"
    then have a: "a \<in> set (pi_otherexts info)" by (simp add: with_extent_def)
    then have o1: "a < pi_next info" "a \<notin> owned info" "\<exists>its s. valid_pids its \<and> pi_heap info a = Some s \<and> typed_stack its s"
      using assms by (auto simp: pids_wf_def others_wf_def)
    then show "a < pi_next ?i" "a \<notin> {pi_next info ..< pi_next info + n} \<union> owned info"
      "\<exists>its s. valid_pids its \<and> pi_heap ?i a = Some s \<and> typed_stack its s"
      by (auto simp: with_extent_def h)
  qed
  moreover have "pointers_wf ?i"
  proof -
    have "pointers_wf info" using assms by (simp add: pids_wf_def)
    then show ?thesis unfolding pointers_wf_def ow by (auto simp: with_extent_def)
  qed
  ultimately show "pids_wf its ?i"
    using assms by (simp add: pids_wf_eq pids_wf'_def configured_pids_def with_extent_def)
qed

text \<open>A stack filled.\<close>

definition memory_ok :: "pids_env \<Rightarrow> bool" where
  "memory_ok e \<longleftrightarrow>
     le_mem (rp_lib (pv_rp e)) = (\<lambda>_. True) \<and> rp_alloc (pv_rp e) = (\<lambda>_. True) \<and> pv_stack_ok e \<and> pv_hist_ok e = (\<lambda>_. (True, True))
     \<and> all_ok (pv_fetch e)"

text \<open>Memory for the stacks, the arrays of pointers to them and the history.\<close>

definition room_ok :: "pids_env \<Rightarrow> bool" where
  "room_ok e \<longleftrightarrow> pv_hist_ok e = (\<lambda>_. (True, True)) \<and> all_ok (pv_fetch e)"

lemma memory_room: "memory_ok e \<Longrightarrow> room_ok e"
  by (simp add: memory_ok_def room_ok_def)

definition tty_ok :: "pids_env \<Rightarrow> proc_t \<Rightarrow> bool" where
  "tty_ok e p = tty_fits (pv_dev e) (pv_tmap e) p"

lemma assign_at_fills:
  assumes "pids_wf its info" "a \<in> owned info" "memory_ok e" "tty_ok e p"
  obtains s p' where "pids_assign_at e lib info a p = Some (True, info\<lparr>pi_heap := (pi_heap info)(a \<mapsto> s)\<rparr>, p')"
    "distinct its \<longrightarrow> pids_filled (pids_ctx_of e info lib) p its s" "pids_wf its (info\<lparr>pi_heap := (pi_heap info)(a \<mapsto> s)\<rparr>)"
proof -
  let ?c = "pids_ctx_of e info lib"
  have v: "valid_pids its" using assms(1) by (simp add: pids_wf_def configured_pids_def)
  obtain s0 where s0: "pi_heap info a = Some s0" "typed_stack its s0" "length s0 = pi_maxitems info"
    using assms(1,2) by (auto simp: pids_wf_def stacks_wf_def)
  have f: "tty_fits (pc_dev ?c) (pc_tmap ?c) p" using assms(4) by (simp add: tty_ok_def pids_ctx_of_def)
  have m: "ctx_memory ?c" using assms(3) by (simp add: memory_ok_def ctx_memory_def pids_ctx_of_def)
  obtain s p' where s: "pids_assign_results ?c s0 p = Some (s, p', False)" "distinct its \<longrightarrow> pids_filled ?c p its s"
    by (rule assign_runs [OF f m v s0(2)])
  have "pids_wf its (info\<lparr>pi_heap := (pi_heap info)(a \<mapsto> s)\<rparr>)"
    using wf_store [OF assms(1,2)] typed_assign [OF v s0(2) s(1)] s0(3) by simp
  then show thesis using that [OF _ s(2)] s0(1) s(1) by (simp add: pids_assign_at_def)
qed

subsection \<open>A harvest\<close>

text \<open>What a fetch leaves alone.\<close>

definition fixed ::
  "pids_info \<Rightarrow> (nat \<times> ulong \<times> rat \<times> bool \<times> 32 word) \<times> (nat \<times> nat list option \<times> reader option)
     \<times> (proctab option \<times> nat option \<times> int \<times> proc_t) \<times> int \<times> nat list \<times> nat \<times> item list option \<times> nat \<times> proctab option" where
  "fixed info =
     ((pi_shift info, pi_hertz info, pi_boot info, pi_history_yes info, pi_oldflags info),
      (pi_n_saved info, pi_result info, pi_reader info),
      (pi_get_PT info, pi_get_ext info, pi_get_type info, pi_get_proc info),
      pi_refcount info, pi_otherexts info, pi_maxitems info, pi_items info, pi_curitems info, pi_fetch_PT info)"

lemma fixed_ctx: "fixed info = fixed info' \<Longrightarrow> pids_ctx_of e info lib = pids_ctx_of e info' lib"
  by (simp add: fixed_def pids_ctx_of_def)

lemma fixed_simps [simp]:
  "fixed (info\<lparr>pi_heap := h\<rparr>) = fixed info" "fixed (info\<lparr>pi_counts := c\<rparr>) = fixed info"
  "fixed (info\<lparr>pi_hist := hi\<rparr>) = fixed info" "fixed (info\<lparr>pi_n_inuse := n\<rparr>) = fixed info"
  "fixed (info\<lparr>pi_fetch_proc := p\<rparr>) = fixed info" "fixed (info\<lparr>pi_anchor := x\<rparr>) = fixed info"
  "fixed (info\<lparr>pi_n_alloc := m\<rparr>) = fixed info" "fixed (with_extent k info) = fixed info"
  by (simp_all add: fixed_def with_extent_def)

lemma wf_anchor:
  assumes "pids_wf its info" "distinct as" "set as \<subseteq> owned info" "pi_get_ext info \<notin> Some ` set as"
  shows "pids_wf its (info\<lparr>pi_anchor := Some (map Some as), pi_n_alloc := length as\<rparr>)"
proof -
  have "pointers_wf (info\<lparr>pi_anchor := Some (map Some as), pi_n_alloc := length as\<rparr>)"
    using assms by (auto simp: pids_wf_def pointers_wf_def owned_def)
  then show ?thesis
    using assms(1) by (simp add: pids_wf_eq pids_wf'_def configured_pids_def stacks_wf_def others_wf_def owned_def)
qed

lemma alloc_anchor:
  "pids_stacks_alloc ok n (info\<lparr>pi_n_alloc := m, pi_anchor := x\<rparr>) =
     map_option (map_option (\<lambda>(as, i). (as, i\<lparr>pi_anchor := x, pi_n_alloc := m\<rparr>))) (pids_stacks_alloc ok n info)"
  "pids_stacks_alloc ok n (info\<lparr>pi_anchor := x\<rparr>) =
     map_option (map_option (\<lambda>(as, i). (as, i\<lparr>pi_anchor := x\<rparr>))) (pids_stacks_alloc ok n info)"
  by (simp_all add: pids_stacks_alloc_def Let_def pids_new_stack_def cur_items_def cong: if_cong)

lemma owned_old: "pids_wf its info \<Longrightarrow> a \<in> owned info \<Longrightarrow> a < pi_next info"
  by (simp add: pids_wf_def stacks_wf_def)

text \<open>The array of pointers of a well-formed context.\<close>

definition anchored_at :: "nat list \<Rightarrow> pids_info \<Rightarrow> bool" where
  "anchored_at as info \<longleftrightarrow>
     pi_anchor info = Some (map Some as) \<and> length as = pi_n_alloc info \<and> distinct as \<and> set as \<subseteq> owned info
     \<and> pi_get_ext info \<notin> Some ` set as"

lemma wf_anchored:
  assumes "pids_wf its info" "pi_anchor info = Some x"
  obtains as where "anchored_at as info"
  using assms by (auto simp: pids_wf_def pointers_wf_def anchored_at_def)

lemma anchored_at_update [simp]:
  "anchored_at as (info\<lparr>pi_heap := h\<rparr>) = anchored_at as info" "anchored_at as (info\<lparr>pi_counts := c\<rparr>) = anchored_at as info"
  "anchored_at as (info\<lparr>pi_hist := hi\<rparr>) = anchored_at as info" "anchored_at as (info\<lparr>pi_n_inuse := n\<rparr>) = anchored_at as info"
  "anchored_at as (info\<lparr>pi_fetch_proc := p\<rparr>) = anchored_at as info"
  by (simp_all add: anchored_at_def owned_def)

lemma wf_more:
  assumes "pids_wf its info" "distinct as" "set as \<subseteq> owned info" "pi_get_ext info \<notin> Some ` set as"
    and "new = [pi_next info ..< pi_next info + n]"
  shows "pids_wf its ((with_extent n info)\<lparr>pi_anchor := Some (map Some (as @ new)), pi_n_alloc := length as + n\<rparr>)"
    "anchored_at (as @ new) ((with_extent n info)\<lparr>pi_anchor := Some (map Some (as @ new)), pi_n_alloc := length as + n\<rparr>)"
proof -
  note w = wf_extent [OF assms(1), of n]
  have g: "pi_get_ext (with_extent n info) = pi_get_ext info" by (simp add: with_extent_def)
  have "\<And>a. pi_get_ext info = Some a \<Longrightarrow> a < pi_next info"
    using owned_old [OF assms(1)] assms(1) by (auto simp: pids_wf_def pointers_wf_def)
  then have ge: "pi_get_ext (with_extent n info) \<notin> Some ` set (as @ new)"
    using assms(4) by (auto simp: g assms(5))
  have d: "distinct (as @ new)" using assms(2,3) owned_old [OF assms(1)] by (fastforce simp: assms(5))
  have s: "set (as @ new) \<subseteq> owned (with_extent n info)" using assms(3) by (auto simp: w(3) assms(5))
  have l: "length (as @ new) = length as + n" by (simp add: assms(5))
  show "pids_wf its ((with_extent n info)\<lparr>pi_anchor := Some (map Some (as @ new)), pi_n_alloc := length as + n\<rparr>)"
    using wf_anchor [OF w(2) d s ge] l by simp
  show "anchored_at (as @ new) ((with_extent n info)\<lparr>pi_anchor := Some (map Some (as @ new)), pi_n_alloc := length as + n\<rparr>)"
    unfolding anchored_at_def using d s ge l by (simp add: owned_def)
qed

lemma fetch_init_ready:
  assumes "pids_wf its info" "room_ok e"
  obtains info' as where "pids_fetch_init e info = Some (True, info')" "pids_wf its info'" "anchored_at as info'"
    "fixed info' = fixed info" "pi_hist info' = pi_hist info"
proof (cases "pi_anchor info")
  case None
  have ok: "fe_anchor_ok (pv_fetch e)" "fe_first_ok (pv_fetch e)" using assms(2) by (simp_all add: room_ok_def all_ok_def)
  let ?new = "[pi_next info ..< pi_next info + STACKS_INIT]"
  let ?i = "(with_extent STACKS_INIT info)\<lparr>pi_anchor := Some (map Some ?new), pi_n_alloc := STACKS_INIT\<rparr>"
  have "pids_fetch_init e info = Some (True, ?i)"
    using None ok wf_extent(1) [OF assms(1), of STACKS_INIT] by (simp add: pids_fetch_init_def Let_def alloc_anchor)
  moreover have "pids_wf its ?i" "anchored_at ?new ?i" using wf_more [OF assms(1), of "[]" _ STACKS_INIT] by simp_all
  ultimately show thesis by (rule that) (simp_all add: with_extent_def fixed_def)
next
  case (Some x)
  then obtain as where "anchored_at as info" using wf_anchored [OF assms(1)] by blast
  then show thesis using that [of info as] Some assms(1) by (simp add: pids_fetch_init_def)
qed

lemma fetch_grow_ready:
  assumes "pids_wf its info" "anchored_at as info" "pi_n_inuse info \<le> length as" "room_ok e"
  obtains info' xs where "pids_fetch_grow e info = Some (True, info')" "pids_wf its info'" "anchored_at (as @ xs) info'"
    "pi_n_inuse info < length (as @ xs)" "\<forall>a\<in>owned info. pi_heap info' a = pi_heap info a"
    "fixed info' = fixed info" "pi_hist info' = pi_hist info" "pi_counts info' = pi_counts info" "pi_n_inuse info' = pi_n_inuse info"
proof (cases "pi_n_inuse info < length as")
  case True
  then show thesis using that [of info "[]"] assms(1,2) by (simp add: pids_fetch_grow_def anchored_at_def)
next
  case False
  then have i: "pi_n_inuse info = length as" "pi_n_alloc info = length as" using assms(2,3) by (simp_all add: anchored_at_def)
  have ok: "fe_grow_ok (pv_fetch e) = (\<lambda>_. True)" "fe_more_ok (pv_fetch e) = (\<lambda>_. True)"
    using assms(4) by (simp_all add: room_ok_def all_ok_def)
  let ?new = "[pi_next info ..< pi_next info + STACKS_GROW]"
  let ?i = "(with_extent STACKS_GROW info)\<lparr>pi_anchor := Some (map Some (as @ ?new)), pi_n_alloc := length as + STACKS_GROW\<rparr>"
  have a: "pi_anchor info = Some (map Some as)" using assms(2) by (simp add: anchored_at_def)
  have r: "resize (length as + STACKS_GROW) (map Some as) = map Some as @ replicate STACKS_GROW None"
    by (simp add: resize_def)
  let ?x = "Some (map Some as @ replicate STACKS_GROW None)"
  have al: "pids_stacks_alloc True STACKS_GROW (info\<lparr>pi_n_alloc := length as + STACKS_GROW, pi_anchor := ?x\<rparr>) =
      Some (Some (?new, (with_extent STACKS_GROW info)\<lparr>pi_anchor := ?x, pi_n_alloc := length as + STACKS_GROW\<rparr>))"
    using wf_extent(1) [OF assms(1), of STACKS_GROW] alloc_anchor(1) [where ok = True and n = STACKS_GROW and info = info and x = ?x and m = "length as + STACKS_GROW"]
    by simp
  have "pids_fetch_grow e info = Some (True, ?i)"
    using i a ok by (simp add: pids_fetch_grow_def Let_def r al)
  moreover have "pids_wf its ?i" "anchored_at (as @ ?new) ?i"
    using wf_more [OF assms(1), of as _ STACKS_GROW] assms(2) by (simp_all add: anchored_at_def)
  moreover have "pi_heap ?i a = pi_heap info a" if "a \<in> owned info" for a
    using wf_extent(4) [OF assms(1) owned_old [OF assms(1) that]] by simp
  ultimately show thesis
    using i by (intro that [of ?i ?new]) (simp_all add: STACKS_GROW_def with_extent_def fixed_def)
qed

text \<open>The process as its items show it.\<close>

definition shown :: "pids_info \<Rightarrow> proc_t \<Rightarrow> proc_t" where
  "shown info p = (if pi_history_yes info then tallied (old_frame (pi_hist info)) p else p)"

lemma tallied_fields [simp]: "p_state (tallied f p) = p_state p" "p_tid (tallied f p) = p_tid p" "p_tty (tallied f p) = p_tty p"
  by (simp_all add: tallied_def split: option.splits)

lemma tty_ok_tallied [simp]: "tty_ok e (tallied f p) = tty_ok e p"
  by (simp add: tty_ok_def tty_fits_def)

lemma proc_tally_ok:
  assumes "hist_ok (pi_hist info)" "room_ok e"
  obtains hi where
    "pids_proc_tally e info p = Some (True, shown info p, info\<lparr>pi_counts := count_state (p_state p) (pi_counts info), pi_hist := hi\<rparr>)"
    "hist_ok hi" "old_frame hi = old_frame (pi_hist info)"
    "new_frame hi = (if pi_history_yes info then frame_of [p] (new_frame (pi_hist info)) else new_frame (pi_hist info))"
proof (cases "pi_history_yes info")
  case True
  obtain hi where h: "pids_make_hist (pv_junk_hst e) (True, True) (pi_hist info) p = Some (True, tallied (old_frame (pi_hist info)) p, hi)"
      "hist_ok hi" "old_frame hi = old_frame (pi_hist info)"
      "new_frame hi = (new_frame (pi_hist info))(p_tid p \<mapsto> proc_counts p)"
    using hist_refines(1) [OF assms(1)] by blast
  show thesis
    by (rule that [of hi])
      (use True h assms(2) in \<open>simp_all add: pids_proc_tally_def room_ok_def shown_def frame_of_def Let_def\<close>)
next
  case False
  show thesis
    by (rule that [of "pi_hist info"]) (use False assms(1) in \<open>simp_all add: pids_proc_tally_def shown_def Let_def\<close>)
qed

lemma fetch_one_fills:
  assumes "pids_wf its info" "anchored_at as info" "pi_n_inuse info \<le> length as" "memory_ok e" "tty_ok e p"
  obtains info' xs s where "pids_fetch_one e lib p info = Some (True, info')" "pids_wf its info'" "anchored_at (as @ xs) info'"
    "pi_n_inuse info' = pi_n_inuse info + 1" "pi_n_inuse info' \<le> length (as @ xs)"
    "pi_heap info' ((as @ xs) ! pi_n_inuse info) = Some s" "distinct its \<longrightarrow> pids_filled (pids_ctx_of e info lib) (shown info p) its s"
    "\<forall>a\<in>set (take (pi_n_inuse info) as). pi_heap info' a = pi_heap info a"
    "fixed info' = fixed info" "pi_counts info' = count_state (p_state p) (pi_counts info)"
    "old_frame (pi_hist info') = old_frame (pi_hist info)"
    "new_frame (pi_hist info') = (if pi_history_yes info then frame_of [p] (new_frame (pi_hist info)) else new_frame (pi_hist info))"
proof -
  let ?n = "pi_n_inuse info"
  obtain i1 xs where g: "pids_fetch_grow e info = Some (True, i1)" "pids_wf its i1" "anchored_at (as @ xs) i1"
      "?n < length (as @ xs)" "\<forall>a\<in>owned info. pi_heap i1 a = pi_heap info a"
      "fixed i1 = fixed info" "pi_hist i1 = pi_hist info" "pi_counts i1 = pi_counts info" "pi_n_inuse i1 = ?n"
    by (rule fetch_grow_ready [OF assms(1,2,3) memory_room [OF assms(4)]])
  have hy: "pi_history_yes i1 = pi_history_yes info" using g(6) by (simp add: fixed_def)
  have ho: "hist_ok (pi_hist i1)" using g(2) by (simp add: pids_wf_def rest_wf_def)
  obtain hi where t: "pids_proc_tally e i1 p = Some (True, shown i1 p, i1\<lparr>pi_counts := count_state (p_state p) (pi_counts i1), pi_hist := hi\<rparr>)"
      "hist_ok hi" "old_frame hi = old_frame (pi_hist i1)"
      "new_frame hi = (if pi_history_yes i1 then frame_of [p] (new_frame (pi_hist i1)) else new_frame (pi_hist i1))"
    by (rule proc_tally_ok [OF ho memory_room [OF assms(4)]])
  let ?i3 = "i1\<lparr>pi_counts := count_state (p_state p) (pi_counts i1), pi_hist := hi, pi_n_inuse := ?n + 1\<rparr>"
  let ?a = "(as @ xs) ! ?n"
  have w3: "pids_wf its ?i3"
    using wf_hist [of its "i1\<lparr>pi_counts := count_state (p_state p) (pi_counts i1)\<rparr>" hi] g(2) t(2) by simp
  have a3: "anchored_at (as @ xs) ?i3" using g(3) by simp
  have own: "?a \<in> owned ?i3"
    using a3 nth_mem [OF g(4)] by (auto simp: anchored_at_def)
  have tt: "tty_ok e (shown i1 p)" using assms(5) by (simp add: shown_def)
  obtain s p' where asg: "pids_assign_at e lib ?i3 ?a (shown i1 p) = Some (True, ?i3\<lparr>pi_heap := (pi_heap ?i3)(?a \<mapsto> s)\<rparr>, p')"
      "distinct its \<longrightarrow> pids_filled (pids_ctx_of e ?i3 lib) (shown i1 p) its s" "pids_wf its (?i3\<lparr>pi_heap := (pi_heap ?i3)(?a \<mapsto> s)\<rparr>)"
    by (rule assign_at_fills [OF w3 own assms(4) tt])
  let ?i4 = "?i3\<lparr>pi_heap := (pi_heap ?i3)(?a \<mapsto> s), pi_fetch_proc := p'\<rparr>"
  have anc: "pi_anchor i1 = Some (map Some (as @ xs))" using g(3) by (simp add: anchored_at_def)
  have at: "map Some (as @ xs) ! ?n = Some ?a" by (rule nth_map [OF g(4)])
  have "pids_fetch_one e lib p info = Some (True, ?i4)"
    using g(4,9) asg(1) anc at by (simp add: pids_fetch_one_def g(1) t(1) Let_def del: map_append)
  moreover have "pids_wf its ?i4" using asg(3) by simp
  moreover have "anchored_at (as @ xs) ?i4" using a3 by simp
  moreover have "distinct its \<longrightarrow> pids_filled (pids_ctx_of e info lib) (shown info p) its s"
  proof -
    have "shown i1 p = shown info p" using g(7) hy by (simp add: shown_def)
    moreover have "pids_ctx_of e ?i3 lib = pids_ctx_of e info lib" by (rule fixed_ctx) (simp add: g(6))
    ultimately show ?thesis using asg(2) by metis
  qed
  moreover have "pi_heap ?i4 b = pi_heap info b" if "b \<in> set (take ?n as)" for b
  proof -
    obtain k where k: "k < ?n" "k < length as" "b = as ! k" using \<open>b \<in> set (take ?n as)\<close> by (auto simp: in_set_conv_nth)
    have d: "distinct (as @ xs)" using a3 by (simp add: anchored_at_def)
    have "b = (as @ xs) ! k" using k by (simp add: nth_append)
    then have "b \<noteq> ?a" using nth_eq_iff_index_eq [OF d, of k ?n] k g(4) by auto
    moreover have "b \<in> owned info" using assms(2) k nth_mem [OF k(2)] by (auto simp: anchored_at_def)
    ultimately show ?thesis using g(5) by simp
  qed
  ultimately show thesis
    using g(4,6,7,8) t(3,4) hy by (intro that [of ?i4 xs s]) simp_all
qed

subsection \<open>The processes of a scan\<close>

text \<open>
  The structure passed to a reader is cleared first, so its content does not matter: the processes a
  scan returns can be listed without the stacks they are stored in.
\<close>

lemma read_any: "read_something e k PT p lib = read_something e k PT q lib"
  by (simp add: read_something_def readproc_def readeither_def free_acquired_def split: reader.split)

lemma read_numa: "read_something e k PT p lib = Some (b, PT', p', lib') \<Longrightarrow> pids_ctx_of e info lib' = pids_ctx_of e info lib"
  by (auto simp: read_something_def pids_ctx_of_def)

function pids_scan :: "pids_env \<Rightarrow> reader \<Rightarrow> proctab \<Rightarrow> pids_lib \<Rightarrow> (proc_t list \<times> proctab \<times> pids_lib) option" where
  "pids_scan e k PT lib =
     (case read_something e k PT zero_proc lib of
        None \<Rightarrow> None
      | Some (False, PT1, p, lib1) \<Rightarrow> Some ([], PT1, lib1)
      | Some (True, PT1, p, lib1) \<Rightarrow> map_option (\<lambda>(ps, r). (p # ps, r)) (pids_scan e k PT1 lib1))"
  by pat_completeness auto
termination
  by (relation "inv_image (less_than <*lex*> less_than <*lex*> less_than) (\<lambda>(e, k, PT, lib). fetch_left k PT lib)")
    (auto dest: read_something_left)

declare pids_scan.simps [simp del]

definition scanned_counts :: "proc_t list \<Rightarrow> pids_counts \<Rightarrow> pids_counts" where
  "scanned_counts ps = fold (\<lambda>p. count_state (p_state p)) ps"

lemma shown_cong:
  "fixed info' = fixed info \<Longrightarrow> old_frame (pi_hist info') = old_frame (pi_hist info) \<Longrightarrow> shown info' p = shown info p"
  by (simp add: shown_def fixed_def)

lemma fetch_loop_fills:
  shows "memory_ok e \<Longrightarrow> pids_scan e k PT lib = Some (ps, PT', lib') \<Longrightarrow> pids_wf its info \<Longrightarrow> anchored_at as info \<Longrightarrow>
    pi_n_inuse info \<le> length as \<Longrightarrow> list_all (tty_ok e) ps \<Longrightarrow>
    \<exists>info' xs. pids_fetch_loop e k PT info lib = Some (True, PT', info', lib') \<and> pids_wf its info' \<and> anchored_at (as @ xs) info'
      \<and> pi_n_inuse info' = pi_n_inuse info + length ps \<and> pi_n_inuse info' \<le> length (as @ xs)
      \<and> (\<forall>a\<in>set (take (pi_n_inuse info) as). pi_heap info' a = pi_heap info a)
      \<and> list_all2 (\<lambda>p a. \<exists>s. pi_heap info' a = Some s \<and> (distinct its \<longrightarrow> pids_filled (pids_ctx_of e info lib) (shown info p) its s))
          ps (take (length ps) (drop (pi_n_inuse info) (as @ xs)))
      \<and> fixed info' = fixed info \<and> pi_counts info' = scanned_counts ps (pi_counts info)
      \<and> new_frame (pi_hist info') =
          (if pi_history_yes info then frame_of ps (new_frame (pi_hist info)) else new_frame (pi_hist info))"
proof (induction e k PT lib arbitrary: ps info as rule: pids_scan.induct)
  case (1 e k PT lib)
  note mem = 1(2)
  obtain b PT1 p lib1 where r0: "read_something e k PT zero_proc lib = Some (b, PT1, p, lib1)"
    using 1(3) by (subst (asm) pids_scan.simps) (auto split: option.splits prod.splits)
  have r: "read_something e k PT (pi_fetch_proc info) lib = Some (b, PT1, p, lib1)"
    using r0 read_any [of e k PT "pi_fetch_proc info" lib zero_proc] by simp
  show ?case
  proof (cases b)
    case False
    then have ps: "ps = []" "PT' = PT1" "lib' = lib1" using 1(3) r0 by (simp_all add: pids_scan.simps)
    have "pids_fetch_loop e k PT info lib = Some (True, PT', info\<lparr>pi_fetch_proc := p\<rparr>, lib')"
      using r False ps by (subst pids_fetch_loop.simps) simp
    then show ?thesis using 1(4-6) ps
      by (intro exI [of _ "info\<lparr>pi_fetch_proc := p\<rparr>"] exI [of _ "[]"]) (simp add: scanned_counts_def frame_of_def)
  next
    case True
    then obtain ps1 where ps: "ps = p # ps1" and sc: "pids_scan e k PT1 lib1 = Some (ps1, PT', lib')"
      using 1(3) r0 by (subst (asm) pids_scan.simps) auto
    let ?n = "pi_n_inuse info" let ?c = "pids_ctx_of e info lib"
    have tp: "tty_ok e p" "list_all (tty_ok e) ps1" using 1(7) ps by simp_all
    obtain i1 xs s where o1: "pids_fetch_one e lib1 p info = Some (True, i1)" "pids_wf its i1" "anchored_at (as @ xs) i1"
        "pi_n_inuse i1 = ?n + 1" "pi_n_inuse i1 \<le> length (as @ xs)"
        "pi_heap i1 ((as @ xs) ! ?n) = Some s" "distinct its \<longrightarrow> pids_filled (pids_ctx_of e info lib1) (shown info p) its s"
        "\<forall>a\<in>set (take ?n as). pi_heap i1 a = pi_heap info a"
        "fixed i1 = fixed info" "pi_counts i1 = count_state (p_state p) (pi_counts info)"
        "old_frame (pi_hist i1) = old_frame (pi_hist info)"
        "new_frame (pi_hist i1) = (if pi_history_yes info then frame_of [p] (new_frame (pi_hist info)) else new_frame (pi_hist info))"
      by (rule fetch_one_fills [OF 1(4) 1(5,6) mem tp(1), of lib1])
    have b: "b = True" using True by simp
    from 1(1) [OF r0 refl b refl refl mem sc o1(2,3) o1(5) tp(2)]
    obtain i2 ys where o2: "pids_fetch_loop e k PT1 i1 lib1 = Some (True, PT', i2, lib')" "pids_wf its i2"
        "anchored_at ((as @ xs) @ ys) i2" "pi_n_inuse i2 = pi_n_inuse i1 + length ps1" "pi_n_inuse i2 \<le> length ((as @ xs) @ ys)"
        "\<forall>a\<in>set (take (pi_n_inuse i1) (as @ xs)). pi_heap i2 a = pi_heap i1 a"
        "list_all2 (\<lambda>p a. \<exists>s. pi_heap i2 a = Some s \<and> (distinct its \<longrightarrow> pids_filled (pids_ctx_of e i1 lib1) (shown i1 p) its s))
            ps1 (take (length ps1) (drop (pi_n_inuse i1) ((as @ xs) @ ys)))"
        "fixed i2 = fixed i1" "pi_counts i2 = scanned_counts ps1 (pi_counts i1)"
        "new_frame (pi_hist i2) =
            (if pi_history_yes i1 then frame_of ps1 (new_frame (pi_hist i1)) else new_frame (pi_hist i1))"
      by blast
    have hy: "pi_history_yes i1 = pi_history_yes info" using o1(9) by (simp add: fixed_def)
    have c1: "pids_ctx_of e info lib1 = ?c" by (rule read_numa [OF r0])
    have c2: "pids_ctx_of e i1 lib1 = ?c" using fixed_ctx [OF o1(9)] c1 by metis
    have sh: "shown i1 q = shown info q" for q by (rule shown_cong [OF o1(9,11)])
    let ?zs = "as @ xs @ ys"
    have nl: "?n < length (as @ xs)" using o1(4,5) by simp
    have nth: "?zs ! ?n = (as @ xs) ! ?n" using nth_append_left [OF nl, of ys] by (simp only: append_assoc)
    have mem1: "(as @ xs) ! ?n \<in> set (take (pi_n_inuse i1) (as @ xs))"
    proof -
      have "take (Suc ?n) (as @ xs) = take ?n (as @ xs) @ [(as @ xs) ! ?n]" by (rule take_Suc_conv_app_nth [OF nl])
      then show ?thesis using o1(4) by (simp del: append_take_drop_id take_append)
    qed
    have "pids_fetch_loop e k PT info lib = Some (True, PT', i2, lib')"
      using r True o1(1) o2(1) by (subst pids_fetch_loop.simps) simp
    moreover have "\<forall>a\<in>set (take ?n as). pi_heap i2 a = pi_heap info a"
    proof
      fix a assume a: "a \<in> set (take ?n as)"
      have "take ?n as = take ?n (take (pi_n_inuse i1) (as @ xs))" using 1(6) o1(4) by (simp add: min_def)
      then have "a \<in> set (take (pi_n_inuse i1) (as @ xs))" using a in_set_takeD by metis
      then show "pi_heap i2 a = pi_heap info a" using o2(6) o1(8) a by simp
    qed
    moreover have "list_all2 (\<lambda>p a. \<exists>s. pi_heap i2 a = Some s \<and> (distinct its \<longrightarrow> pids_filled ?c (shown info p) its s))
          ps (take (length ps) (drop ?n ?zs))"
    proof -
      have "drop ?n ?zs = ?zs ! ?n # drop (Suc ?n) ?zs" using nl by (intro Cons_nth_drop_Suc [symmetric]) simp
      moreover have "pi_heap i2 (?zs ! ?n) = Some s" using o2(6) mem1 o1(6) nth by simp
      moreover have "distinct its \<longrightarrow> pids_filled ?c (shown info p) its s" using o1(7) c1 by simp
      moreover have "list_all2 (\<lambda>p a. \<exists>s. pi_heap i2 a = Some s \<and> (distinct its \<longrightarrow> pids_filled ?c (shown info p) its s))
          ps1 (take (length ps1) (drop (Suc ?n) ?zs))"
        using o2(7) o1(4) c2 sh by simp
      ultimately show ?thesis by (simp add: ps)
    qed
    moreover have "new_frame (pi_hist i2) =
        (if pi_history_yes info then frame_of ps (new_frame (pi_hist info)) else new_frame (pi_hist info))"
      using o2(10) o1(12) hy by (simp add: ps frame_of_def)
    moreover have "pi_counts i2 = scanned_counts ps (pi_counts info)" using o2(9) o1(10) by (simp add: ps scanned_counts_def)
    ultimately show ?thesis
      using o2(2-5,8) o1(4,9) by (intro exI [of _ i2] exI [of _ "xs @ ys"]) (simp add: ps)
  qed
qed

subsection \<open>What a harvest returns\<close>

definition shown_now :: "pids_info \<Rightarrow> proc_t \<Rightarrow> proc_t" where
  "shown_now info p = (if pi_history_yes info then tallied (new_frame (pi_hist info)) p else p)"

text \<open>
  The results of a harvest of the processes \<open>ps\<close>: a stack for each, in order, at different addresses,
  with the value of each item for it (the deltas those since the harvest before); the counts by state;
  and the frame the next harvest will be compared with.
\<close>

definition harvested :: "pids_ctx \<Rightarrow> item list \<Rightarrow> pids_info \<Rightarrow> proc_t list \<Rightarrow> pids_info \<Rightarrow> bool" where
  "harvested c its info ps info' \<longleftrightarrow>
     (\<exists>as. pi_result info' = Some as \<and> distinct as
        \<and> list_all2 (\<lambda>p a. \<exists>s. pi_heap info' a = Some s \<and> (distinct its \<longrightarrow> pids_filled c (shown_now info p) its s)) ps as)
     \<and> pi_counts info' = scanned_counts ps zero_pids_counts
     \<and> (pi_history_yes info \<longrightarrow> new_frame (pi_hist info') = frame_of ps Map.empty)"

lemma fetch_harvests:
  assumes "pids_wf its info" "memory_ok e" "pi_fetch_PT info = Some PT" "pi_reader info = Some k"
    and "pids_scan e k PT lib = Some (ps, PT', lib')" "\<not> rs_nomem (pl_rp lib')" "list_all (tty_ok e) ps"
  obtains info' where "pids_stacks_fetch e info lib = Some (int (length ps), info', lib')"
    "pids_wf its info'" "pi_fetch_PT info' = Some PT'" "harvested (pids_ctx_of e info lib) its info ps info'"
    "pi_refcount info' = pi_refcount info"
proof -
  obtain i1 as where i: "pids_fetch_init e info = Some (True, i1)" "pids_wf its i1" "anchored_at as i1"
      "fixed i1 = fixed info" "pi_hist i1 = pi_hist info"
    by (rule fetch_init_ready [OF assms(1) memory_room [OF assms(2)]])
  let ?hi = "pids_toggle_history (pi_hist i1)"
  let ?i2 = "i1\<lparr>pi_hist := ?hi, pi_counts := zero_pids_counts, pi_n_inuse := 0\<rparr>"
  have h: "hist_ok ?hi" "old_frame ?hi = new_frame (pi_hist info)" "new_frame ?hi = Map.empty"
    using hist_refines(2) [of "pi_hist i1"] i(2,5) by (simp_all add: pids_wf_def rest_wf_def)
  have w2: "pids_wf its ?i2" using wf_hist [OF i(2) h(1)] by simp
  have a2: "anchored_at as ?i2" "pi_n_inuse ?i2 \<le> length as" using i(3) by simp_all
  obtain i3 xs where l: "pids_fetch_loop e k PT ?i2 lib = Some (True, PT', i3, lib')" "pids_wf its i3" "anchored_at (as @ xs) i3"
      "pi_n_inuse i3 = length ps" "pi_n_inuse i3 \<le> length (as @ xs)"
      "list_all2 (\<lambda>p a. \<exists>s. pi_heap i3 a = Some s \<and> (distinct its \<longrightarrow> pids_filled (pids_ctx_of e ?i2 lib) (shown ?i2 p) its s))
          ps (take (length ps) (as @ xs))"
      "fixed i3 = fixed info" "pi_counts i3 = scanned_counts ps zero_pids_counts"
      "new_frame (pi_hist i3) = (if pi_history_yes info then frame_of ps Map.empty else Map.empty)"
    using fetch_loop_fills [OF assms(2,5) w2 a2 assms(7)] i(4) h(3) by (auto simp: fixed_def)
  let ?as = "take (length ps) (as @ xs)"
  let ?i5 = "i3\<lparr>pi_fetch_PT := Some PT', pi_n_saved := max (pi_n_saved i3) (length ps + 1), pi_result := Some ?as\<rparr>"
  have fx: "pi_history_yes i1 = pi_history_yes info" "pi_fetch_PT i1 = Some PT" "pi_reader i1 = Some k"
      "pi_refcount i3 = pi_refcount info"
    using i(4) l(7) assms(3,4) by (simp_all add: fixed_def)
  have ctx: "pids_ctx_of e ?i2 lib = pids_ctx_of e info lib" by (rule fixed_ctx) (simp add: i(4))
  have sh: "shown ?i2 p = shown_now info p" for p using fx(1) h(2) by (simp add: shown_def shown_now_def)
  have "distinct (as @ xs)" using l(3) by (simp only: anchored_at_def)
  then have anc: "pi_anchor i3 = Some (map Some (as @ xs))" "distinct ?as"
    using l(3) distinct_take by (simp add: anchored_at_def, blast)
  have res: "length ps + 1 \<le> pi_n_saved i3 \<longrightarrow> pi_result i3 \<noteq> None" using l(2) by (auto simp: pids_wf_def rest_wf_def)
  have sv: "fe_save_ok (pv_fetch e)" using assms(2) by (simp add: memory_ok_def all_ok_def)
  have mp: "map the (take (length ps) (map Some (as @ xs))) = ?as" by (simp add: take_map comp_def del: map_append)
  have "pids_stacks_fetch e info lib = Some (int (length ps), ?i5, lib')"
    using i(1) fx(2,3) l(1,4) assms(6) res sv anc(1) mp
    by (simp add: pids_stacks_fetch_def Let_def del: map_append take_append)
  moreover have "pids_wf its ?i5"
    using wf_result [of its "i3\<lparr>pi_fetch_PT := Some PT'\<rparr>"] l(2) by simp
  moreover have "harvested (pids_ctx_of e info lib) its info ps ?i5"
    unfolding harvested_def
    using l(6) [unfolded ctx sh] l(8,9) anc(2) by (intro conjI exI [of _ ?as]) simp_all
  ultimately show thesis using fx(4) by (intro that [of ?i5]) simp_all
qed

text \<open>The context of the set functions in a harvest: the one of the call, with the time since boot.\<close>

definition call_ctx :: "pids_env \<Rightarrow> pids_info \<Rightarrow> pids_lib \<Rightarrow> pids_ctx" where
  "call_ctx e info lib = pids_ctx_of e (fst (pids_set_boot e (info, lib))) lib"

text \<open>The processes a harvest scans: those of the table it opens.\<close>

definition scanned ::
  "pids_env \<Rightarrow> 32 word \<Rightarrow> int list \<Rightarrow> uid_t list \<times> nat \<Rightarrow> bool \<Rightarrow> pids_lib \<Rightarrow> (proc_t list \<times> proctab \<times> pids_lib) option" where
  "scanned e flags pids uids threads lib =
     (case pids_oldproc_open e None flags pids uids lib of
        (True, Some PT, lib1) \<Rightarrow> pids_scan e (reader_for threads) PT (snd (pids_set_boot e (no_pids, lib1)))
      | _ \<Rightarrow> None)"

lemma set_boot_lib: "snd (pids_set_boot e (info, lib)) = snd (pids_set_boot e (no_pids, lib))"
  by (simp add: pids_set_boot_def split: prod.split)

lemma set_boot_fields:
  "fst (pids_set_boot e (info, lib)) = info\<lparr>pi_boot := pi_boot (fst (pids_set_boot e (info, lib)))\<rparr>"
  "pi_boot (fst (pids_set_boot e (info, lib))) = pi_boot (fst (pids_set_boot e (no_pids, lib')))"
  by (simp_all add: pids_set_boot_def split: prod.split)

lemma harvest_fills:
  assumes "pids_wf its info" "pi_fetch_PT info = None" "memory_ok e"
    and "scanned e flags pids uids threads lib = Some (ps, PT', lib')" "\<not> rs_nomem (pl_rp lib')" "list_all (tty_ok e) ps"
  shows "\<exists>info'. pids_harvest e flags pids uids threads least info lib =
      Some (least \<le> int (length ps), Some info', pids_oldproc_close (Some PT') lib')
    \<and> pids_wf its info' \<and> pi_fetch_PT info' = None \<and> harvested (call_ctx e info lib) its info ps info'
    \<and> pi_refcount info' = pi_refcount info"
proof -
  obtain PT lib1 where o: "pids_oldproc_open e None flags pids uids lib = (True, Some PT, lib1)"
      "pids_scan e (reader_for threads) PT (snd (pids_set_boot e (no_pids, lib1))) = Some (ps, PT', lib')"
    using assms(4) by (auto simp: scanned_def split: prod.splits bool.splits option.splits)
  let ?i1 = "info\<lparr>pi_fetch_PT := Some PT, pi_reader := Some (reader_for threads)\<rparr>"
  obtain i2 lib2 where b: "pids_set_boot e (?i1, lib1) = (i2, lib2)" by fastforce
  have l2: "pids_scan e (reader_for threads) PT lib2 = Some (ps, PT', lib')"
    using o(2) set_boot_lib [of e ?i1 lib1] b by simp
  have i2: "i2 = ?i1\<lparr>pi_boot := pi_boot (fst (pids_set_boot e (no_pids, lib)))\<rparr>"
    using set_boot_fields(1) [of e ?i1 lib1] set_boot_fields(2) [of e ?i1 lib1 lib] b by simp
  have w2: "pids_wf its i2" using wf_reader [of its "info\<lparr>pi_fetch_PT := Some PT\<rparr>" "reader_for threads"] assms(1) by (simp add: i2)
  obtain i3 where f: "pids_stacks_fetch e i2 lib2 = Some (int (length ps), i3, lib')" "pids_wf its i3" "pi_fetch_PT i3 = Some PT'"
      "harvested (pids_ctx_of e i2 lib2) its i2 ps i3" "pi_refcount i3 = pi_refcount i2"
    by (rule fetch_harvests [OF w2 assms(3) _ _ l2 assms(5,6)]) (simp_all add: i2)
  have numa: "pl_numa lib2 = pl_numa lib"
    using o(1) b by (auto simp: pids_oldproc_open_def pids_set_boot_def split: option.splits prod.splits)
  have sn: "shown_now i2 p = shown_now info p" "pi_history_yes i2 = pi_history_yes info" for p
    by (simp_all add: i2 shown_now_def)
  have hv: "harvested c its i2 ps i3 = harvested c its info ps (i3\<lparr>pi_fetch_PT := None\<rparr>)" for c
    by (simp add: harvested_def sn)
  have "pids_ctx_of e i2 lib2 = call_ctx e info lib"
    using numa set_boot_fields(1) [of e info lib] set_boot_fields(2) [of e info lib lib]
    unfolding call_ctx_def by (simp add: i2 pids_ctx_of_def)
  then have "harvested (call_ctx e info lib) its info ps (i3\<lparr>pi_fetch_PT := None\<rparr>)"
    using f(4) hv by metis
  moreover have "pids_harvest e flags pids uids threads least info lib =
      Some (least \<le> int (length ps), Some (i3\<lparr>pi_fetch_PT := None\<rparr>), pids_oldproc_close (Some PT') lib')"
    using o(1) assms(2) b f(1,3) by (simp add: pids_harvest_def Let_def)
  ultimately show ?thesis using f(2,5) by (intro exI [of _ "i3\<lparr>pi_fetch_PT := None\<rparr>"]) (simp add: i2)
qed

text \<open>
  C1. \<open>reap\<close> returns a stack for every process of the table (or process and task), in the order of the scan,
  each with the value of every item for its process, and the number of processes in every state; it
  returns nothing only when there is no process. Memory must not run out, the names of terminals must
  fit their buffer, and no item may be asked for twice (its string would be taken by the first).
\<close>

theorem pids_reap_fills:
  assumes "pids_wf its info" "pi_fetch_PT info = None" "memory_ok e" "which = PIDS_FETCH_TASKS_ONLY \<or> which = PIDS_FETCH_THREADS_TOO"
    and "scanned e (pi_oldflags info) [] ([], 0) (which = PIDS_FETCH_THREADS_TOO) lib = Some (ps, PT', lib')"
    and "\<not> rs_nomem (pl_rp lib')" "list_all (tty_ok e) ps"
  shows "\<exists>info'. procps_pids_reap e which (Some info) lib =
      Some (ps \<noteq> [], Some info', pids_oldproc_close (Some PT') lib')
    \<and> harvested (call_ctx e info lib) its info ps info' \<and> pids_wf its info' \<and> pi_fetch_PT info' = None"
proof -
  have "pi_curitems info \<noteq> 0" using assms(1) by (simp add: pids_wf_def configured_pids_def)
  moreover have "(which \<noteq> 0) = (which = PIDS_FETCH_THREADS_TOO)"
    using assms(4) by (auto simp: PIDS_FETCH_TASKS_ONLY_def PIDS_FETCH_THREADS_TOO_def)
  moreover have "(1 \<le> int (length ps)) = (ps \<noteq> [])" by (cases ps) simp_all
  ultimately show ?thesis
    using harvest_fills [OF assms(1,2,3,5,6,7), of 1] assms(4) by (auto simp: procps_pids_reap_def)
qed

subsection \<open>The first context\<close>

lemma libflags_idem: "pids_libflags_set (pids_libflags_set info) = pids_libflags_set info"
  by (simp add: pids_libflags_set_def Let_def cur_items_def)

text \<open>Setting the flags makes a context well formed that is so otherwise.\<close>

definition pids_shape :: "item list \<Rightarrow> pids_info \<Rightarrow> bool" where
  "pids_shape its info \<longleftrightarrow>
     configured_pids its info \<and> stacks_wf its info \<and> others_wf info \<and> pointers_wf info
     \<and> hist_ok (pi_hist info) \<and> (0 < pi_n_saved info \<longrightarrow> pi_result info \<noteq> None)"

lemma wf_libflags:
  assumes "pids_shape its info"
  shows "pids_wf its (pids_libflags_set info)"
proof -
  have "pids_shape its (info\<lparr>pi_oldflags := f, pi_history_yes := h\<rparr>)" for f h
    using assms by (simp add: pids_shape_def configured_pids_def stacks_wf_def others_wf_def pointers_wf_def owned_def)
  then have "pids_shape its (pids_libflags_set info)" by (subst libflags_fields)
  then show ?thesis by (simp add: pids_shape_def pids_wf_def rest_wf_def libflags_idem)
qed

lemma wf_shift [simp]: "pids_wf its (info\<lparr>pi_shift := s\<rparr>) = pids_wf its info"
  and wf_hertz [simp]: "pids_wf its (info\<lparr>pi_hertz := h\<rparr>) = pids_wf its info"
  by (simp_all add: wf_simps)

lemma check_valid:
  assumes "\<not> pids_items_check_failed items n" "n \<le> int (length (snd items))"
  shows "valid_pids (take (nat n) (snd items))" "take (nat n) (snd items) \<noteq> []" "length (take (nat n) (snd items)) = nat n"
  using assms by (auto simp: pids_items_check_failed_def valid_pids_def list_all_iff list_ex_iff not_le)

lemma new_wf:
  assumes "procps_pids_new e (Some None) (Some items) n lib = (0, Some (Some info), lib')" "n \<noteq> 0" "n \<le> int (length (snd items))"
  shows "pids_wf (take (nat n) (snd items)) info \<and> pi_fetch_PT info = None \<and> pi_refcount info = 1"
proof -
  let ?its = "take (nat n) (snd items)"
  let ?q = "no_pids\<lparr>pi_maxitems := nat n + 1, pi_curitems := nat n + 1, pi_items := Some (?its @ [PIDS_logical_end])\<rparr>"
  have c: "\<not> pids_items_check_failed items n"
      "info = (pids_libflags_set ?q)\<lparr>pi_shift := page_shift (pn_pagesize e), pi_hertz := word_of_int (procps_hertz_get (pn_clk_tck e)), pi_refcount := 1\<rparr>"
    using assms(1,2) by (auto simp: procps_pids_new_def Let_def ENOMEM_def EINVAL_def split: if_splits)
  note v = check_valid [OF c(1) assms(3)]
  have "pids_shape ?its ?q"
    using v config_ok(1) by (simp add: pids_shape_def configured_pids_def stacks_wf_def others_wf_def pointers_wf_def owned_def no_pids_def)
  then have "pids_wf ?its info" using wf_libflags by (simp add: c(2))
  then show ?thesis by (subst c(2), simp add: c(2), subst libflags_fields, simp add: no_pids_def)
qed

subsection \<open>An example\<close>

text \<open>Two processes, of which the owner and the pid are asked for.\<close>

definition sample_pids :: pids_env where
  "sample_pids =
     \<lparr>pv_rp = sample_rp no_files [''/proc/10'', ''/proc/12''] [], pv_open = sample_open [''self'', ''10'', ''11'', ''12''],
      pv_uptime = Inl 2, pv_junk_secs = 0, pv_junk_hst = zero_hst,
      pv_dev = \<lparr>de_drivers = None, de_calloc = (\<lambda>_. True), de_stat = (\<lambda>_. None), de_readlink = (\<lambda>_. None)\<rparr>,
      pv_tmap = NoDrivers, pv_wchan = (\<lambda>_. None), pv_stack_ok = True, pv_hist_ok = (\<lambda>_. (True, True)),
      pv_fetch = \<lparr>fe_anchor_ok = True, fe_first_ok = True, fe_grow_ok = (\<lambda>_. True), fe_more_ok = (\<lambda>_. True), fe_save_ok = True\<rparr>\<rparr>"

definition sample_statics :: pids_lib where
  "sample_statics =
     \<lparr>pl_rp = fresh_state, pl_either = idle_either, pl_open = closed,
      pl_numa = \<lparr>numa_initialized = False, numa_max_node = - 1, numa_node_of_cpu = null_node_of_cpu, libnuma_open = False\<rparr>,
      pl_self = zero_proc, pl_dirs = 0\<rparr>"

definition sample_new_env :: pids_new_env where
  "sample_new_env = \<lparr>pn_calloc_ok = True, pn_items_ok = True, pn_hist_ok = True, pn_pagesize = 4096, pn_clk_tck = 100, pn_numa = None\<rparr>"

text \<open>\<open>PIDS_ID_EUID\<close> and \<open>PIDS_ID_PID\<close>.\<close>

definition sample_items :: "nat \<times> item list" where
  "sample_items = (0x10000, [28, 36])"

lemma sample_context:
  obtains info lib where "procps_pids_new sample_new_env (Some None) (Some sample_items) 2 sample_statics = (0, Some (Some info), lib)"
    "pids_wf [28, 36] info" "pi_fetch_PT info = None" "pl_rp lib = fresh_state" "pl_open lib = closed" "pi_oldflags info = 0"
    "pi_history_yes info = False" "pl_either lib = idle_either"
proof -
  have chk: "\<not> pids_items_check_failed sample_items 2"
    by (simp add: pids_items_check_failed_def sample_items_def PIDS_logical_end_def)
  obtain info lib where n: "procps_pids_new sample_new_env (Some None) (Some sample_items) 2 sample_statics = (0, Some (Some info), lib)"
      "pl_rp lib = fresh_state" "pl_open lib = closed" "pl_either lib = idle_either"
    using chk by (simp add: procps_pids_new_def sample_new_env_def sample_statics_def Let_def)
  have w: "pids_wf [28, 36] info \<and> pi_fetch_PT info = None \<and> pi_refcount info = 1"
    using new_wf [OF n(1)] by (simp add: sample_items_def)
  have fl: "item_oldflags 28 = 0" "item_oldflags 36 = 0" "\<not> item_needhist 28" "\<not> item_needhist 36" by code_simp+
  have "flags_match [28, 36] (pi_oldflags info) (pi_history_yes info)" using w by (simp add: pids_wf_eq pids_wf'_def)
  then have "pi_oldflags info = 0" "\<not> pi_history_yes info" by (simp_all add: flags_match_def fl has_def Let_def)
  then show thesis using that n w by simp
qed

lemma sample_memory: "memory_ok sample_pids"
  by (simp add: memory_ok_def sample_pids_def sample_rp_def all_ok_def sample_lib_def)

lemma sample_tty: "tty_ok sample_pids p"
proof -
  have "fst (dev_to_tty (pv_dev sample_pids) NoDrivers (of_nat TTY_BUF) d i flags) = ''?''" for d i flags
  proof (cases "tty_path (pv_dev sample_pids) NoDrivers (ucast d) i")
    case (Pair q m)
    have "\<not> confirmed (pv_dev sample_pids) a b c" for a b c by (simp add: confirmed_def sample_pids_def)
    then have "q = None" using tty_path_confirmed Pair by (cases q) blast+
    then show ?thesis using Pair by (simp add: dev_to_tty_def TTY_BUF_def)
  qed
  moreover have "pv_tmap sample_pids = NoDrivers" by (simp add: sample_pids_def)
  ultimately show ?thesis by (simp add: tty_ok_def tty_fits_def TTY_BUF_def)
qed

text \<open>The scan of the example.\<close>

lemma more_dirs: "proc_dir 11 = ''/proc/11''" "proc_dir 12 = ''/proc/12''"
  by code_simp+

lemma sample_scan:
  assumes "pl_rp lib = fresh_state"
  shows "\<exists>p q PT lib'. pids_scan sample_pids ReadProc (sample_table [''self'', ''10'', ''11'', ''12''] 0 [] []) lib = Some ([p, q], PT, lib')
    \<and> \<not> rs_nomem (pl_rp lib') \<and> p_tid p = 10 \<and> p_tid q = 12 \<and> p_euid p = 1000 \<and> p_euid q = 1000"
  using assms
  by (simp add: pids_scan.simps read_something_def sample_table_dir readproc_def readproc_loop.simps free_acquired_def
      find_next_def simple_nextpid_def Let_def simple_readproc_owners_eq owner_ok_def sample_names more_dirs fresh_state_def
      sample_pids_def sample_rp_def)

lemma sample_scanned:
  assumes "pl_rp lib = fresh_state" "pl_open lib = closed"
  shows "\<exists>p q PT lib'. scanned sample_pids 0 [] ([], 0) False lib = Some ([p, q], PT, lib')
    \<and> \<not> rs_nomem (pl_rp lib') \<and> p_tid p = 10 \<and> p_tid q = 12 \<and> p_euid p = 1000 \<and> p_euid q = 1000"
proof -
  obtain lib1 where o: "pids_oldproc_open sample_pids None 0 [] ([], 0) lib =
      (True, Some (sample_table [''self'', ''10'', ''11'', ''12''] 0 [] []), lib1)" "pl_rp lib1 = fresh_state"
    using assms by (simp add: pids_oldproc_open_def sample_pids_def openproc_def sample_open_def closed_def Let_def has_def sample_table_dir)
  have "pl_rp (snd (pids_set_boot sample_pids (no_pids, lib1))) = fresh_state"
    using o(2) by (simp add: pids_set_boot_def sample_pids_def procps_uptime_def ENOMEM_def fresh_state_def)
  from sample_scan [OF this] show ?thesis by (simp add: scanned_def o(1) reader_for_def)
qed

text \<open>Owners and pids of two processes, in the order of the directory.\<close>

theorem pids_reap_fills_witness:
  "\<exists>info lib info' lib' a b s t.
     procps_pids_new sample_new_env (Some None) (Some sample_items) 2 sample_statics = (0, Some (Some info), lib)
     \<and> procps_pids_reap sample_pids PIDS_FETCH_TASKS_ONLY (Some info) lib = Some (True, Some info', lib')
     \<and> pi_result info' = Some [a, b] \<and> pi_heap info' a = Some s \<and> pi_heap info' b = Some t
     \<and> map rc_val (take 2 s) = [U_int 1000, S_int 10] \<and> map rc_val (take 2 t) = [U_int 1000, S_int 12]
     \<and> ct_total (pi_counts info') = 2"
proof -
  obtain info lib where n: "procps_pids_new sample_new_env (Some None) (Some sample_items) 2 sample_statics = (0, Some (Some info), lib)"
      "pids_wf [28, 36] info" "pi_fetch_PT info = None" "pl_rp lib = fresh_state" "pl_open lib = closed" "pi_oldflags info = 0"
      "pi_history_yes info = False" "pl_either lib = idle_either"
    by (rule sample_context)
  obtain p q PT lib1 where sc: "scanned sample_pids 0 [] ([], 0) False lib = Some ([p, q], PT, lib1)"
      "\<not> rs_nomem (pl_rp lib1)" "p_tid p = 10" "p_tid q = 12" "p_euid p = 1000" "p_euid q = 1000"
    using sample_scanned [OF n(4,5)] by blast
  have no: "(PIDS_FETCH_TASKS_ONLY = PIDS_FETCH_THREADS_TOO) = False"
    by (simp add: PIDS_FETCH_TASKS_ONLY_def PIDS_FETCH_THREADS_TOO_def)
  obtain info' where r: "procps_pids_reap sample_pids PIDS_FETCH_TASKS_ONLY (Some info) lib =
        Some (True, Some info', pids_oldproc_close (Some PT) lib1)"
      "harvested (call_ctx sample_pids info lib) [28, 36] info [p, q] info'"
    using pids_reap_fills [OF n(2,3) sample_memory disjI1 [OF refl], of lib "[p, q]" PT lib1] sc(1,2) n(6) no sample_tty
    by auto
  obtain as where as: "pi_result info' = Some as"
      "list_all2 (\<lambda>p a. \<exists>s. pi_heap info' a = Some s \<and> pids_filled (call_ctx sample_pids info lib) (shown_now info p) [28, 36] s) [p, q] as"
      "pi_counts info' = scanned_counts [p, q] zero_pids_counts"
    using r(2) by (auto simp: harvested_def)
  obtain a b s t where ab: "as = [a, b]" "pi_heap info' a = Some s" "pi_heap info' b = Some t"
      "pids_filled (call_ctx sample_pids info lib) p [28, 36] s" "pids_filled (call_ctx sample_pids info lib) q [28, 36] t"
    using as(2) n(7) by (auto simp: list_all2_Cons1 shown_now_def)
  have sets: "item_set 28 = REG (\<lambda>P. U_int (p_euid P))" "item_set 36 = REG (\<lambda>P. S_int (p_tid P))"
    by (simp_all add: item_set_def pids_sets_def)
  have vals: "map rc_val (take 2 u) = [U_int (p_euid x), S_int (p_tid x)]" if "pids_filled c x [28, 36] u" for c x u
  proof (cases u)
    case (Cons r rs)
    then show ?thesis using that by (cases rs) (auto simp: item_value_def sets run_set_def)
  qed (use that in simp)
  have "ct_total (scanned_counts [p, q] zero_pids_counts) = 2"
    by (simp add: scanned_counts_def count_state_def zero_pids_counts_def Let_def)
  then show ?thesis using n(1) r(1) as(1,3) ab vals sc(3-6) by fastforce
qed

end
