(* ===== verification/PidsReach.thy ===== *)
theory PidsReach
  imports PidsSpec
begin

text \<open>
  Sequences of calls on one context of \<^verbatim>\<open>procps/linux/pids.c\<close>, as a step relation: a state is the
  caller's pointer with the statics, an action one call with what it finds. Whatever is called and
  whatever fails, every directory stream that was opened is closed again or held by the table of \<open>get\<close>;
  and as long as memory does not run out the context stays well formed, so that the strings in its
  stacks can be freed at any time.
\<close>

type_synonym pids_state = "pids_info option \<times> pids_lib"

datatype pids_call =
    Ref
  | Unref
  | Get pids_env int
  | Reap pids_env int
  | Choose pids_env "32 word list option" int "32 word"
  | Reset bool "(nat \<times> item list) option" int
  | Fatal pids_env bool

inductive pids_step :: "pids_state \<Rightarrow> pids_call \<Rightarrow> pids_state \<Rightarrow> bool" where
  step_ref: "procps_pids_ref (Some i) = (rc, c) \<Longrightarrow> pids_step (Some i, lib) Ref (c, lib)"
| step_unref: "procps_pids_unref (Some i) lib = Some (rc, c, lib') \<Longrightarrow> pids_step (Some i, lib) Unref (c, lib')"
| step_get: "procps_pids_get e which (Some i) lib = Some (s, c, lib') \<Longrightarrow> pids_step (Some i, lib) (Get e which) (c, lib')"
| step_reap: "procps_pids_reap e which (Some i) lib = Some (ok, c, lib') \<Longrightarrow> pids_step (Some i, lib) (Reap e which) (c, lib')"
| step_select: "procps_pids_select e these n which (Some i) lib = Some (ok, c, lib') \<Longrightarrow>
    pids_step (Some i, lib) (Choose e these n which) (c, lib')"
| step_reset: "procps_pids_reset ok items n (Some i) lib = Some (rc, c, lib') \<Longrightarrow>
    pids_step (Some i, lib) (Reset ok items n) (c, lib')"
| step_fatal: "fatal_proc_unmounted e (Some i) self lib = Some (Inr (s, c, lib')) \<Longrightarrow>
    pids_step (Some i, lib) (Fatal e self) (c, lib')"

inductive_cases pids_stepE: "pids_step c a c'"

text \<open>The states that calls allowed by \<open>Q\<close> lead to.\<close>

inductive pids_reach :: "(pids_call \<Rightarrow> bool) \<Rightarrow> pids_state \<Rightarrow> pids_state \<Rightarrow> bool" for Q c0 where
  reach_start: "pids_reach Q c0 c0"
| reach_step: "pids_reach Q c0 c \<Longrightarrow> Q a \<Longrightarrow> pids_step c a c' \<Longrightarrow> pids_reach Q c0 c'"

lemma reach_invariant:
  assumes "pids_reach Q c0 c" "I c0" "\<And>c a c'. I c \<Longrightarrow> Q a \<Longrightarrow> pids_step c a c' \<Longrightarrow> I c'"
  shows "I c"
  using assms(1) by (induction rule: pids_reach.induct) (auto intro: assms(2,3))

subsection \<open>Directory streams\<close>

text \<open>Of the directories of tasks opened with a table, one is open when the table has one.\<close>

definition dirs_tracked :: "proctab option \<Rightarrow> bool" where
  "dirs_tracked t \<longleftrightarrow> (case t of None \<Rightarrow> True | Some PT \<Rightarrow> pt_dirs PT = (if pt_taskdir PT = None then 0 else 1))"

lemma dirs_tracked_None [simp]: "dirs_tracked None"
  by (simp add: dirs_tracked_def)

text \<open>A reading keeps the finder, and that.\<close>

definition dirs_kept :: "proctab \<Rightarrow> proctab \<Rightarrow> bool" where
  "dirs_kept PT PT' \<longleftrightarrow> pt_finder PT' = pt_finder PT \<and> (dirs_tracked (Some PT) \<longrightarrow> dirs_tracked (Some PT'))"

lemma dirs_kept_refl [simp]: "dirs_kept PT PT"
  by (simp add: dirs_kept_def)

lemma dirs_kept_trans: "dirs_kept PT PT1 \<Longrightarrow> dirs_kept PT1 PT2 \<Longrightarrow> dirs_kept PT PT2"
  by (simp add: dirs_kept_def)

lemma find_next_dirs: "find_next e PT p st = Some (b, PT', p', st') \<Longrightarrow> dirs_kept PT PT'"
  by (auto simp: find_next_def simple_nextpid_def listed_nextpid_def dirs_kept_def dirs_tracked_def Let_def
      split: finder.splits prod.splits option.splits list.splits if_splits)

lemma nexttid_dirs: "simple_nexttid e PT p t = Some (r, PT') \<Longrightarrow> dirs_kept PT PT'"
  by (auto simp: simple_nexttid_def dirs_kept_def dirs_tracked_def Let_def split: option.splits prod.splits if_splits)

definition step_table :: "either_step \<Rightarrow> proctab" where
  "step_table s = (case s of EitherReturn PT _ _ _ \<Rightarrow> PT | EitherNextProc PT _ _ _ \<Rightarrow> PT)"

lemma either_task_dirs: "either_task e PT x st ei = Some s \<Longrightarrow> dirs_kept PT (step_table s)"
  by (auto simp: either_task_def step_table_def split: prod.splits option.splits bool.splits if_splits dest!: nexttid_dirs)

lemma readproc_loop_dirs: "readproc_loop e PT p st = Some (b, PT', p', st') \<Longrightarrow> dirs_kept PT PT'"
proof (induction e PT p st rule: readproc_loop.induct)
  case (1 e PT p st)
  show ?case
  proof (cases "rs_nomem st")
    case True
    then show ?thesis using 1(2) by (subst (asm) readproc_loop.simps) simp
  next
    case False
    obtain ok PT1 p1 st1 where n: "find_next e PT p st = Some (ok, PT1, p1, st1)"
      using 1(2) False by (subst (asm) readproc_loop.simps) (auto split: option.splits)
    note d = find_next_dirs [OF n]
    show ?thesis
    proof (cases "ok \<and> (\<exists>p2 st2. simple_readproc e PT1 p1 st1 = Some (False, p2, st2))")
      case True
      then obtain p2 st2 where r: ok "simple_readproc e PT1 p1 st1 = Some (False, p2, st2)" by blast
      then have "readproc_loop e PT1 p2 st2 = Some (b, PT', p', st')"
        using 1(2) n False by (subst (asm) readproc_loop.simps) simp
      then have "dirs_kept PT1 PT'" using 1(1) [OF False n] r by fastforce
      then show ?thesis by (rule dirs_kept_trans [OF d])
    next
      case stop: False
      then show ?thesis using 1(2) n d False
        by (subst (asm) readproc_loop.simps) (auto split: option.splits bool.splits)
    qed
  qed
qed

lemma either_loop_dirs: "either_loop e m PT x st ei = Some (b, PT', x', st', ei') \<Longrightarrow> dirs_kept PT PT'"
proof (induction e m PT x st ei rule: either_loop.induct)
  case (1 e m PT x st ei)
  let ?ei0 = "ei\<lparr>ei_new := False\<rparr>"
  show ?case
  proof (cases "rs_nomem st")
    case True
    then show ?thesis using 1(3) by (subst (asm) either_loop.simps) (simp add: Let_def)
  next
    case nm: False
    obtain ok PT1 sk st1 where f: "find_next e PT (ei_skel ei) st = Some (ok, PT1, sk, st1)"
      using 1(3) nm by (subst (asm) either_loop.simps) (auto simp: Let_def split: option.splits)
    let ?ei1 = "?ei0\<lparr>ei_skel := sk, ei_leader := p_tid sk\<rparr>"
    note d = find_next_dirs [OF f]
    consider "\<not> ok" | "ok" "m" | "ok" "\<not> m" by blast
    then show ?thesis
    proof cases
      case 1
      then show ?thesis using "1.prems" nm f d by (subst (asm) either_loop.simps) (simp add: Let_def)
    next
      case 2
      obtain ok2 x2 st2 where r: "simple_readproc e PT1 x st1 = Some (ok2, x2, st2)"
        using 1(3) nm f 2 by (subst (asm) either_loop.simps) (auto simp: Let_def split: option.splits)
      have "PT' = PT1 \<or> either_loop e m PT1 x2 st2 ?ei1 = Some (b, PT', x', st', ei') \<and> \<not> ok2"
        using 1(3) nm f r 2 by (subst (asm) either_loop.simps) (auto simp: Let_def split: bool.splits)
      then show ?thesis using 1(1) [OF refl nm f] f r 2 d dirs_kept_trans [OF d] by fastforce
    next
      case 3
      obtain t where t: "either_task e PT1 x st1 ?ei1 = Some t"
        using 1(3) nm f 3 by (subst (asm) either_loop.simps) (auto simp: Let_def split: option.splits)
      note d2 = dirs_kept_trans [OF d either_task_dirs [OF t]]
      show ?thesis
      proof (cases t)
        case (EitherReturn PT2 x2 st2 ei2)
        then have "PT' = PT2" using 1(3) nm f t 3 by (subst (asm) either_loop.simps) (simp add: Let_def)
        then show ?thesis using d2 EitherReturn by (simp add: step_table_def)
      next
        case (EitherNextProc PT2 x2 st2 ei2)
        then have "either_loop e m PT2 x2 st2 ei2 = Some (b, PT', x', st', ei')"
          using 1(3) nm f t 3 by (subst (asm) either_loop.simps) (simp add: Let_def)
        then have "dirs_kept PT2 PT'" using 1(2) [OF refl nm f] f t EitherNextProc 3 by fastforce
        then show ?thesis using d2 EitherNextProc by (auto simp: step_table_def intro: dirs_kept_trans)
      qed
    qed
  qed
qed

lemma readeither_dirs: "readeither e m PT x st ei = Some (b, PT', x', st', ei') \<Longrightarrow> dirs_kept PT PT'"
  by (auto simp: readeither_def Let_def step_table_def split: if_splits option.splits either_step.splits
      dest!: either_loop_dirs dest: either_task_dirs intro: dirs_kept_trans)

text \<open>
  The streams opened since there were \<open>D\<close> are those of the table of \<open>get\<close>, which only a context
  with a stack for \<open>get\<close> has.
\<close>

definition streams_held :: "int \<Rightarrow> pids_state \<Rightarrow> bool" where
  "streams_held D = (\<lambda>(c, lib).
     case c of
       None \<Rightarrow> pl_dirs lib = D
     | Some i \<Rightarrow> pl_dirs lib = D + int (closeproc (pi_get_PT i)) \<and> pi_fetch_PT i = None \<and> dirs_tracked (pi_get_PT i)
                 \<and> (pi_get_PT i \<noteq> None \<longrightarrow> pi_get_ext i \<noteq> None))"

lemma closeproc_None [simp]: "closeproc None = 0"
  by (simp add: closeproc_def)

text \<open>Opening a table, whether it succeeds or not, leaves open what its closing will close.\<close>

lemma openproc_dirs:
  "openproc oe flags pids uids os0 = (PT, os1) \<Longrightarrow>
     os_dirs os1 = os_dirs os0 + int (closeproc PT) \<and> dirs_tracked PT"
  by (auto simp: openproc_def closeproc_def dirs_tracked_def Let_def split: if_splits)

text \<open>What the parts of a call do to the streams and to the two tables.\<close>

lemma close_dirs [simp]: "pl_dirs (pids_oldproc_close PT lib) = pl_dirs lib - int (closeproc PT)"
  by (simp add: pids_oldproc_close_def)

lemma open_dirs:
  "pids_oldproc_open e this flags pids uids lib = (ok, PT, lib') \<Longrightarrow>
     pl_dirs lib' - int (closeproc PT) = pl_dirs lib - int (closeproc this) \<and> ok = (PT \<noteq> None)
     \<and> (dirs_tracked this \<longrightarrow> dirs_tracked PT)"
  by (auto simp: pids_oldproc_open_def split: option.splits prod.splits dest!: openproc_dirs)

lemma closeproc_tracked:
  "dirs_tracked (Some PT) \<Longrightarrow> int (closeproc (Some PT)) = (if pt_finder PT = SimpleNextpid then 1 else 0) + pt_dirs PT"
  by (auto simp: closeproc_def dirs_tracked_def)

lemma read_dirs:
  assumes "read_something e k PT p lib = Some (ok, PT', p', lib')" "dirs_tracked (Some PT)"
  shows "pl_dirs lib' - int (closeproc (Some PT')) = pl_dirs lib - int (closeproc (Some PT)) \<and> dirs_tracked (Some PT')"
proof -
  have k: "dirs_kept PT PT'"
    using assms(1) by (cases k) (auto simp: read_something_def readproc_def dest: readproc_loop_dirs readeither_dirs)
  have "pl_dirs lib' = pl_dirs lib + (pt_dirs PT' - pt_dirs PT)" using assms(1) by (auto simp: read_something_def)
  then show ?thesis using k assms(2) closeproc_tracked [of PT] closeproc_tracked [of PT'] by (simp add: dirs_kept_def)
qed

lemma boot_dirs:
  "pids_set_boot e (i, lib) = (i', lib') \<Longrightarrow> pl_dirs lib' = pl_dirs lib \<and> (\<exists>b. i' = i\<lparr>pi_boot := b\<rparr>)"
  by (auto simp: pids_set_boot_def split: prod.splits)

definition tables :: "pids_info \<Rightarrow> proctab option \<times> nat option \<times> int \<times> proctab option" where
  "tables i = (pi_get_PT i, pi_get_ext i, pi_get_type i, pi_fetch_PT i)"

lemma tables_update [simp]:
  "tables (i\<lparr>pi_heap := h\<rparr>) = tables i" "tables (i\<lparr>pi_hist := hi\<rparr>) = tables i" "tables (i\<lparr>pi_counts := ct\<rparr>) = tables i"
  "tables (i\<lparr>pi_n_inuse := n\<rparr>) = tables i" "tables (i\<lparr>pi_n_alloc := n\<rparr>) = tables i" "tables (i\<lparr>pi_anchor := a\<rparr>) = tables i"
  "tables (i\<lparr>pi_fetch_proc := p\<rparr>) = tables i" "tables (i\<lparr>pi_boot := b\<rparr>) = tables i" "tables (i\<lparr>pi_extents := x\<rparr>) = tables i"
  "tables (i\<lparr>pi_otherexts := y\<rparr>) = tables i" "tables (i\<lparr>pi_reader := r\<rparr>) = tables i" "tables (i\<lparr>pi_get_proc := p\<rparr>) = tables i"
  "tables (i\<lparr>pi_result := z\<rparr>) = tables i" "tables (i\<lparr>pi_n_saved := n\<rparr>) = tables i"
  by (simp_all add: tables_def)

lemma alloc_tables:
  "pids_stacks_alloc ok n i = Some (Some (as, i')) \<Longrightarrow> tables i' = tables i"
  by (auto simp: pids_stacks_alloc_def Let_def tables_def split: if_splits)

lemma assign_tables:
  "pids_assign_at e lib i a p = Some (ok, i', p') \<Longrightarrow> tables i' = tables i"
  by (auto simp: pids_assign_at_def split: option.splits)

lemma init_tables: "pids_fetch_init e i = Some (ok, i') \<Longrightarrow> tables i' = tables i"
  by (auto simp: pids_fetch_init_def Let_def split: if_splits option.splits dest!: alloc_tables)

lemma grow_tables: "pids_fetch_grow e i = Some (ok, i') \<Longrightarrow> tables i' = tables i"
  by (auto simp: pids_fetch_grow_def Let_def split: if_splits option.splits dest!: alloc_tables)

lemma tally_tables: "pids_proc_tally e i p = Some (ok, p', i') \<Longrightarrow> tables i' = tables i"
  by (auto simp: pids_proc_tally_def Let_def split: if_splits)

lemma one_tables: "pids_fetch_one e lib p i = Some (ok, i') \<Longrightarrow> tables i' = tables i"
  by (auto simp: pids_fetch_one_def Let_def split: option.splits prod.splits bool.splits if_splits
      dest!: grow_tables tally_tables assign_tables)

lemma loop_tables:
  "pids_fetch_loop e k PT i lib = Some (ok, PT', i', lib') \<Longrightarrow> dirs_tracked (Some PT) \<Longrightarrow>
     tables i' = tables i \<and> pl_dirs lib' - int (closeproc (Some PT')) = pl_dirs lib - int (closeproc (Some PT))"
proof (induction e k PT i lib rule: pids_fetch_loop.induct)
  case (1 e k PT i lib)
  obtain b PT1 p lib1 where r: "read_something e k PT (pi_fetch_proc i) lib = Some (b, PT1, p, lib1)"
    using 1(2) by (subst (asm) pids_fetch_loop.simps) (auto split: option.splits prod.splits)
  note d = read_dirs [OF r 1(3)]
  show ?case
  proof (cases b)
    case False
    then show ?thesis using 1(2) r d by (subst (asm) pids_fetch_loop.simps) auto
  next
    case True
    obtain ok1 i1 where o1: "pids_fetch_one e lib1 p i = Some (ok1, i1)"
      using 1(2) r True by (subst (asm) pids_fetch_loop.simps) (auto split: option.splits)
    note t = one_tables [OF o1]
    show ?thesis
    proof (cases ok1)
      case False
      then show ?thesis using 1(2) r d o1 True t by (subst (asm) pids_fetch_loop.simps) auto
    next
      case ok: True
      then have "pids_fetch_loop e k PT1 i1 lib1 = Some (ok, PT', i', lib')"
        using 1(2) r o1 True by (subst (asm) pids_fetch_loop.simps) simp
      from 1(1) [OF r refl _ refl refl o1 refl] this True ok d t show ?thesis by auto
    qed
  qed
qed

lemma fetch_tables:
  assumes "pids_stacks_fetch e i lib = Some (rc, i', lib')" "dirs_tracked (pi_fetch_PT i)"
  shows "pi_get_PT i' = pi_get_PT i \<and> pi_get_ext i' = pi_get_ext i
    \<and> pl_dirs lib' - int (closeproc (pi_fetch_PT i')) = pl_dirs lib - int (closeproc (pi_fetch_PT i))"
proof -
  obtain ok i1 where a: "pids_fetch_init e i = Some (ok, i1)"
    using assms(1) by (auto simp: pids_stacks_fetch_def split: option.splits)
  note t1 = init_tables [OF a]
  show ?thesis
  proof (cases ok)
    case False
    then show ?thesis using assms(1) a t1 by (auto simp: pids_stacks_fetch_def tables_def)
  next
    case True
    let ?i2 = "i1\<lparr>pi_hist := pids_toggle_history (pi_hist i1), pi_counts := zero_pids_counts, pi_n_inuse := 0\<rparr>"
    obtain PT k ok2 PT1 i3 lib1 where b: "pi_fetch_PT i1 = Some PT" "pids_fetch_loop e k PT ?i2 lib = Some (ok2, PT1, i3, lib1)"
        "pi_get_PT i' = pi_get_PT i3" "pi_get_ext i' = pi_get_ext i3" "pi_fetch_PT i' = Some PT1" "lib' = lib1"
      using assms(1) a True
      by (auto simp: pids_stacks_fetch_def Let_def split: option.splits prod.splits if_splits)
    have "dirs_tracked (Some PT)" using t1 b(1) assms(2) by (simp add: tables_def)
    then show ?thesis using b t1 loop_tables [OF b(2)] by (auto simp: tables_def)
  qed
qed

lemma harvest_streams:
  assumes "pids_harvest e flags pids uids threads least i lib = Some (b, c, lib')" "streams_held D (Some i, lib)"
  shows "streams_held D (c, lib')"
proof -
  have h: "pl_dirs lib = D + int (closeproc (pi_get_PT i))" "pi_fetch_PT i = None" "pi_get_PT i \<noteq> None \<longrightarrow> pi_get_ext i \<noteq> None"
      "dirs_tracked (pi_get_PT i)"
    using assms(2) by (simp_all add: streams_held_def)
  obtain ok PT lib1 where o1: "pids_oldproc_open e None flags pids uids lib = (ok, PT, lib1)" using prod_cases3 by blast
  note d = open_dirs [OF o1]
  show ?thesis
  proof (cases ok)
    case False
    then show ?thesis using assms(1) h o1 d by (auto simp: pids_harvest_def Let_def streams_held_def)
  next
    case True
    obtain i2 lib2 where b: "pids_set_boot e (i\<lparr>pi_fetch_PT := PT, pi_reader := Some (reader_for threads)\<rparr>, lib1) = (i2, lib2)"
      by fastforce
    obtain rc i3 lib3 where f: "pids_stacks_fetch e i2 lib2 = Some (rc, i3, lib3)" "c = Some (i3\<lparr>pi_fetch_PT := None\<rparr>)"
        "lib' = pids_oldproc_close (pi_fetch_PT i3) lib3"
      using assms(1) h(2) o1 b True by (auto simp: pids_harvest_def Let_def)
    have "dirs_tracked PT" using d by (simp add: dirs_tracked_def)
    then have "dirs_tracked (pi_fetch_PT i2)" using boot_dirs [OF b] by auto
    from fetch_tables [OF f(1) this] show ?thesis using h d boot_dirs [OF b] f(2,3) by (auto simp: streams_held_def)
  qed
qed

lemma fresh_start_streams:
  assumes "get_fresh_start e which i lib = (ok, i', lib')"
  shows "pl_dirs lib' - int (closeproc (pi_get_PT i')) = pl_dirs lib - int (closeproc (pi_get_PT i))
    \<and> pi_get_ext i' = pi_get_ext i \<and> pi_fetch_PT i' = pi_fetch_PT i
    \<and> (dirs_tracked (pi_get_PT i) \<longrightarrow> dirs_tracked (pi_get_PT i'))"
  using assms by (auto simp: get_fresh_start_def split: prod.splits if_splits dest!: open_dirs)

text \<open>\<open>get\<close>, part by part.\<close>

lemma get_stack_streams:
  assumes "get_stack e which i lib = Some (ok, i', lib')" "streams_held D (Some i, lib)"
  shows "streams_held D (Some i', lib') \<and> (ok \<longrightarrow> pi_get_ext i' \<noteq> None)"
proof (cases "pi_get_ext i")
  case (Some a)
  then show ?thesis using assms by (simp add: get_stack_def)
next
  case None
  have h: "pl_dirs lib = D + int (closeproc (pi_get_PT i))" "pi_fetch_PT i = None" "pi_get_PT i = None"
    using assms(2) None by (auto simp: streams_held_def)
  obtain al where al: "pids_stacks_alloc (pv_stack_ok e) 1 i = Some al"
    using assms(1) None by (auto simp: get_stack_def split: option.splits)
  show ?thesis
  proof (cases al)
    case n: None
    then show ?thesis using assms al None by (simp add: get_stack_def)
  next
    case (Some x)
    obtain as i1 where x: "x = (as, i1)" by fastforce
    have t: "tables i1 = tables i" using alloc_tables al Some x by blast
    have f: "get_fresh_start e which (i1\<lparr>pi_get_ext := Some (hd as)\<rparr>) lib = (ok, i', lib')"
      using assms(1) None al Some x by (simp add: get_stack_def)
    show ?thesis using fresh_start_streams [OF f] t h by (simp add: streams_held_def tables_def)
  qed
qed

lemma get_restart_streams:
  assumes "get_restart e which i lib = (ok, i', lib')" "streams_held D (Some i, lib)" "pi_get_ext i \<noteq> None"
  shows "streams_held D (Some i', lib') \<and> pi_get_ext i' \<noteq> None"
proof (cases "pi_get_type i = which")
  case False
  then have f: "get_fresh_start e which (i\<lparr>pi_get_PT := None\<rparr>) (pids_oldproc_close (pi_get_PT i) lib) = (ok, i', lib')"
    using assms(1) by (simp add: get_restart_def)
  show ?thesis using fresh_start_streams [OF f] assms(2,3) by (simp add: streams_held_def)
qed (use assms in \<open>simp add: get_restart_def\<close>)

lemma get_next_streams:
  assumes "get_next e i lib = Some (s, c, lib')" "streams_held D (Some i, lib)"
  shows "streams_held D (c, lib')"
proof -
  obtain i1 lib1 where b: "pids_set_boot e (i, lib) = (i1, lib1)" by fastforce
  obtain PT k a ok PT1 p lib2 where r: "pi_get_PT i1 = Some PT" "pi_get_ext i1 = Some a"
      "read_something e k PT (pi_get_proc i1) lib1 = Some (ok, PT1, p, lib2)"
    and o1: "if ok then \<exists>ok' i2 p'. pids_assign_at e lib2 i1 a p = Some (ok', i2, p') \<and> lib' = lib2
          \<and> c = Some (i2\<lparr>pi_get_PT := Some PT1, pi_get_proc := p'\<rparr>)
        else lib' = lib2 \<and> c = Some (i1\<lparr>pi_get_PT := Some PT1, pi_get_proc := p\<rparr>)"
    using assms(1) b by (auto simp: get_next_def split: option.splits prod.splits bool.splits)
  have "streams_held D (Some i1, lib1)" using boot_dirs [OF b] assms(2) by (auto simp: streams_held_def)
  then show ?thesis
    using read_dirs [OF r(3)] r(1,2) o1 by (auto simp: streams_held_def tables_def split: if_splits dest!: assign_tables)
qed

text \<open>The result of \<open>get\<close> by its parts.\<close>

lemma get_cases:
  assumes "procps_pids_get e which (Some i) lib = Some (s, c, lib')"
  obtains "c = Some i" "lib' = lib"
  | ok i1 where "get_stack e which i lib = Some (ok, i1, lib')" "c = Some i1"
  | i1 lib1 ok i2 where "get_stack e which i lib = Some (True, i1, lib1)" "get_restart e which i1 lib1 = (ok, i2, lib')" "c = Some i2"
  | i1 lib1 i2 lib2 where "get_stack e which i lib = Some (True, i1, lib1)" "get_restart e which i1 lib1 = (True, i2, lib2)"
      "get_next e i2 lib2 = Some (s, c, lib')"
proof (cases "which \<noteq> PIDS_FETCH_TASKS_ONLY \<and> which \<noteq> PIDS_FETCH_THREADS_TOO \<or> pi_curitems i = 0")
  case True
  then show thesis using assms that(1) by (simp add: procps_pids_get_def split: if_splits)
next
  case False
  then have p: "(case get_stack e which i lib of
              None \<Rightarrow> None
            | Some (False, i1, lib1) \<Rightarrow> Some (None, Some i1, lib1)
            | Some (True, i1, lib1) \<Rightarrow>
                (case get_restart e which i1 lib1 of
                   (False, i2, lib2) \<Rightarrow> Some (None, Some i2, lib2)
                 | (True, i2, lib2) \<Rightarrow> get_next e i2 lib2)) = Some (s, c, lib')"
    using assms by (simp only: procps_pids_get_def option.case if_not_P [OF False] if_False)
  then obtain ok i1 lib1 where g: "get_stack e which i lib = Some (ok, i1, lib1)" by (auto split: option.splits)
  show thesis
  proof (cases ok)
    case False
    then show thesis using p g that(2) by simp
  next
    case True
    obtain ok2 i2 lib2 where r: "get_restart e which i1 lib1 = (ok2, i2, lib2)" using prod_cases3 by blast
    show thesis using p g r True that(3) [of i1 lib1 ok2 i2] that(4) [of i1 lib1 i2 lib2] by (cases ok2) simp_all
  qed
qed

lemma get_streams:
  assumes "procps_pids_get e which (Some i) lib = Some (s, c, lib')" "streams_held D (Some i, lib)"
  shows "streams_held D (c, lib')"
  using assms(1)
proof (rule get_cases)
  fix ok i1 assume "get_stack e which i lib = Some (ok, i1, lib')" "c = Some i1"
  then show ?thesis using get_stack_streams [OF _ assms(2)] by blast
next
  fix i1 lib1 ok i2 assume g: "get_stack e which i lib = Some (True, i1, lib1)" "get_restart e which i1 lib1 = (ok, i2, lib')" "c = Some i2"
  then show ?thesis using get_restart_streams [OF g(2)] get_stack_streams [OF g(1) assms(2)] by blast
next
  fix i1 lib1 i2 lib2
  assume g: "get_stack e which i lib = Some (True, i1, lib1)" "get_restart e which i1 lib1 = (True, i2, lib2)"
      "get_next e i2 lib2 = Some (s, c, lib')"
  then show ?thesis using get_next_streams [OF g(3)] get_restart_streams [OF g(2)] get_stack_streams [OF g(1) assms(2)] by blast
qed (use assms(2) in simp)

lemma cleanup_tables: "pids_cleanup_stacks_all i = Some i' \<Longrightarrow> tables i' = tables i \<and> pi_refcount i' = pi_refcount i"
  by (auto simp: pids_cleanup_stacks_all_def)

lemma unref_streams:
  assumes "procps_pids_unref (Some i) lib = Some (rc, c, lib')" "streams_held D (Some i, lib)"
  shows "streams_held D (c, lib')"
proof (cases "2 \<le> pi_refcount i")
  case True
  then show ?thesis using assms by (auto simp: procps_pids_unref_def streams_held_def Let_def)
next
  case False
  then obtain i2 where i2: "pids_cleanup_stacks_all (i\<lparr>pi_refcount := pi_refcount i - 1\<rparr>) = Some i2" "c = None"
      "lib' = (if pi_get_ext i2 = None then lib else pids_oldproc_close (pi_get_PT i2) lib)"
    using assms(1) by (auto simp: procps_pids_unref_def Let_def split: option.splits if_splits)
  have "pi_get_PT i2 = pi_get_PT i" "pi_get_ext i2 = pi_get_ext i"
    using cleanup_tables [OF i2(1)] by (simp_all add: tables_def)
  then show ?thesis using i2(2,3) assms(2) by (auto simp: streams_held_def)
qed

lemma libflags_tables: "tables (pids_libflags_set i) = tables i"
  by (subst libflags_fields) (simp add: tables_def)

lemma itemize_tables: "tables (pids_itemize_stacks_all i) = tables i"
  by (simp add: pids_itemize_stacks_all_def)

lemma reset_items_tables: "tables (reset_items new i) = tables i"
  by (simp add: reset_items_def Let_def libflags_tables itemize_tables) (simp add: tables_def)

lemma reset_streams:
  assumes "procps_pids_reset ok items n (Some i) lib = Some (rc, c, lib')" "streams_held D (Some i, lib)"
  shows "streams_held D (c, lib')"
proof (cases "items = None \<or> pids_items_check_failed (the items) n")
  case True
  then show ?thesis using assms by (auto simp: procps_pids_reset_def split: option.splits)
next
  case False
  then obtain its where its: "items = Some its" "\<not> pids_items_check_failed its n" by auto
  obtain i1 where i1: "pids_cleanup_stacks_all i = Some i1"
    using assms(1) its by (auto simp: procps_pids_reset_def split: option.splits)
  have t: "pi_get_PT i1 = pi_get_PT i" "pi_get_ext i1 = pi_get_ext i" "pi_fetch_PT i1 = pi_fetch_PT i"
    using cleanup_tables [OF i1] by (simp_all add: tables_def)
  have s1: "streams_held D (Some i1, lib)" using assms(2) t by (simp add: streams_held_def)
  let ?same = "pi_curitems i1 = nat n + 1 \<and> take (nat n) (the (pi_items i1)) = take (nat n) (snd its)"
  show ?thesis
  proof (cases ?same)
    case True
    then show ?thesis using assms(1) its i1 s1 by (auto simp: procps_pids_reset_def Let_def split: if_splits)
  next
    case False
    obtain i2 lib2 where r: "reset_room (nat n) i1 lib = (i2, lib2)" by fastforce
    then have s2: "streams_held D (Some i2, lib2)"
      using s1 by (auto simp: reset_room_def streams_held_def split: if_splits)
    have "lib' = lib2 \<and> (c = Some (i2\<lparr>pi_items := None\<rparr>) \<or> c = Some (reset_items (take (nat n) (snd its)) i2))"
      using assms(1) its i1 r False by (auto simp: procps_pids_reset_def Let_def split: if_splits)
    then show ?thesis using s2 reset_items_tables [of "take (nat n) (snd its)" i2]
      by (auto simp: streams_held_def tables_def)
  qed
qed

text \<open>\<open>fatal_proc_unmounted\<close> changes the context only to make the stack it returns.\<close>

lemma fatal_cases:
  assumes "fatal_proc_unmounted e (Some i) self lib = Some (Inr (s, c, lib'))"
  obtains me where "c = Some i" "lib' = lib\<lparr>pl_self := me\<rparr>"
  | me i1 where "c = Some i1" "own_stack e i (lib\<lparr>pl_self := me\<rparr>) = Some (s, i1, lib')" "pi_curitems i \<noteq> 0"
proof -
  obtain rc me where me: "look_up_our_self (pv_rp e) (pl_self lib) = Inr (Done (rc, me))"
    using assms by (auto simp: fatal_proc_unmounted_def split: sum.splits outcome.splits)
  show thesis
  proof (cases "rc = 0 \<or> \<not> self \<or> pi_curitems i = 0")
    case True
    then show thesis using assms me that(1) by (auto simp: fatal_proc_unmounted_def Let_def)
  next
    case False
    then show thesis using assms me that(2) by (auto simp: fatal_proc_unmounted_def Let_def)
  qed
qed

lemma own_stack_tables:
  "own_stack e i lib = Some (s, i1, lib') \<Longrightarrow> tables i1 = tables i \<and> pl_dirs lib' = pl_dirs lib"
  by (auto simp: own_stack_def Let_def split: option.splits prod.splits dest!: alloc_tables assign_tables)

lemma fatal_streams:
  assumes "fatal_proc_unmounted e (Some i) self lib = Some (Inr (s, c, lib'))" "streams_held D (Some i, lib)"
  shows "streams_held D (c, lib')"
  using fatal_cases [OF assms(1)]
proof cases
  case (2 me i1)
  then show ?thesis using own_stack_tables [OF 2(2)] assms(2) by (auto simp: streams_held_def tables_def)
qed (use assms(2) in \<open>simp add: streams_held_def\<close>)

lemma reap_streams:
  assumes "procps_pids_reap e which (Some i) lib = Some (ok, c, lib')" "streams_held D (Some i, lib)"
  shows "streams_held D (c, lib')"
  using assms harvest_streams by (auto simp: procps_pids_reap_def split: if_splits)

lemma select_streams:
  assumes "procps_pids_select e these n which (Some i) lib = Some (ok, c, lib')" "streams_held D (Some i, lib)"
  shows "streams_held D (c, lib')"
  using assms harvest_streams by (auto simp: procps_pids_select_def Let_def split: if_splits option.splits)

lemma step_streams:
  assumes "pids_step c a c'" "streams_held D c"
  shows "streams_held D c'"
  using assms(1)
proof cases
  case (step_ref i rc c lib)
  then show ?thesis using assms(2) by (auto simp: procps_pids_ref_def streams_held_def Let_def)
next
  case step_unref
  then show ?thesis using assms(2) unref_streams by simp
next
  case step_get
  then show ?thesis using assms(2) get_streams by simp
next
  case step_reap
  then show ?thesis using assms(2) reap_streams by simp
next
  case step_select
  then show ?thesis using assms(2) select_streams by simp
next
  case step_reset
  then show ?thesis using assms(2) reset_streams by simp
next
  case step_fatal
  then show ?thesis using assms(2) fatal_streams by simp
qed

lemma new_tables:
  assumes "procps_pids_new n (Some None) items k lib0 = (0, Some (Some i), lib)"
  shows "pl_dirs lib = pl_dirs lib0 \<and> tables i = tables no_pids"
proof -
  have u: "tables (p\<lparr>pi_shift := x, pi_hertz := y, pi_refcount := z\<rparr>) = tables p"
    "tables (p\<lparr>pi_maxitems := a, pi_curitems := b, pi_items := d\<rparr>) = tables p" for p x y z a b d
    by (simp_all add: tables_def)
  let ?given = "items \<noteq> None \<and> k \<noteq> 0"
  have ok: "pn_calloc_ok n" "\<not> (?given \<and> pids_items_check_failed (the items) k)" "\<not> (?given \<and> \<not> pn_items_ok n \<or> \<not> pn_hist_ok n)"
    using assms by (auto simp: procps_pids_new_def Let_def ENOMEM_def EINVAL_def split: if_splits)
  have "procps_pids_new n (Some None) items k lib0 =
     (let p = (if ?given then pids_libflags_set (no_pids\<lparr>pi_maxitems := nat k + 1, pi_curitems := nat k + 1,
                                pi_items := Some (take (nat k) (snd (the items)) @ [PIDS_logical_end])\<rparr>)
               else no_pids)
      in (0, Some (Some (p\<lparr>pi_shift := page_shift (pn_pagesize n),
                          pi_hertz := word_of_int (procps_hertz_get (pn_clk_tck n)), pi_refcount := 1\<rparr>)),
          lib0\<lparr>pl_numa := numa_init (pn_numa n) (pl_numa lib0)\<rparr>))"
    unfolding procps_pids_new_def using ok by (simp only: option.case Let_def if_False if_True simp_thms)
  then show ?thesis using assms by (auto simp: Let_def u libflags_tables)
qed

text \<open>
  C4. Whatever is called on a new context, in whatever order and whatever fails, the directory streams
  open are those of the table that \<open>get\<close> reads; none is left when the context is freed.
\<close>

theorem pids_streams_balanced:
  assumes "procps_pids_new n (Some None) items k lib0 = (0, Some (Some i), lib)"
    and "pids_reach (\<lambda>_. True) (Some i, lib) (c, lib')"
  shows "pl_dirs lib' = pl_dirs lib0 + (case c of None \<Rightarrow> 0 | Some i' \<Rightarrow> int (closeproc (pi_get_PT i')))"
proof -
  have "pl_dirs lib = pl_dirs lib0 \<and> tables i = tables no_pids" by (rule new_tables [OF assms(1)])
  then have "streams_held (pl_dirs lib0) (Some i, lib)" by (simp add: streams_held_def tables_def no_pids_def)
  then have "streams_held (pl_dirs lib0) (c, lib')"
    by (rule reach_invariant [OF assms(2)]) (rule step_streams)
  then show ?thesis by (auto simp: streams_held_def split: option.splits)
qed

subsection \<open>The context stays well formed\<close>

lemma cleanup_at_ok:
  "(\<forall>a\<in>set as. valid_pids (its a) \<and> (\<exists>s. h a = Some s \<and> typed_stack (its a) s)) \<Longrightarrow>
   \<exists>h'. pids_cleanup_at as h = Some h' \<and> (\<forall>a. a \<notin> set as \<longrightarrow> h' a = h a)
     \<and> (\<forall>a\<in>set as. \<exists>s. h' a = Some s \<and> typed_stack (its a) s \<and> length s = length (the (h a)) \<and> list_all (\<lambda>r. rc_val r = Zero) s)"
proof (induction as arbitrary: h)
  case (Cons a as)
  obtain s where s: "h a = Some s" "typed_stack (its a) s" "valid_pids (its a)" using Cons.prems by auto
  obtain s' where s': "pids_cleanup_stack s = Some s'" "typed_stack (its a) s'" "length s' = length s" "list_all (\<lambda>r. rc_val r = Zero) s'"
    using typed_cleanup [OF s(3,2)] by blast
  have "\<forall>b\<in>set as. valid_pids (its b) \<and> (\<exists>s. (h(a \<mapsto> s')) b = Some s \<and> typed_stack (its b) s)"
    using Cons.prems s'(2) by auto
  from Cons.IH [OF this] obtain h' where h': "pids_cleanup_at as (h(a \<mapsto> s')) = Some h'"
      "\<And>b. b \<notin> set as \<Longrightarrow> h' b = (h(a \<mapsto> s')) b"
      "\<And>b. b \<in> set as \<Longrightarrow> \<exists>s. h' b = Some s \<and> typed_stack (its b) s \<and> length s = length (the ((h(a \<mapsto> s')) b))
          \<and> list_all (\<lambda>r. rc_val r = Zero) s"
    by blast
  have "\<exists>s. h' b = Some s \<and> typed_stack (its b) s \<and> length s = length (the (h b)) \<and> list_all (\<lambda>r. rc_val r = Zero) s"
    if b: "b \<in> set (a # as)" for b
  proof (cases "b \<in> set as")
    case True
    have "length (the ((h(a \<mapsto> s')) b)) = length (the (h b))" using s(1) s'(3) by simp
    then show ?thesis using h'(3) [OF True] by simp
  next
    case False
    then show ?thesis using b h'(2) [OF False] s(1) s' by auto
  qed
  moreover have "pids_cleanup_at (a # as) h = Some h'" using s(1) s'(1) h'(1) by simp
  moreover have "\<forall>b. b \<notin> set (a # as) \<longrightarrow> h' b = h b" using h'(2) by simp
  ultimately show ?case by blast
qed simp

text \<open>Freeing the strings of all extents succeeds and leaves cleared stacks.\<close>

lemma cleanup_wf:
  assumes "pids_wf its i"
  obtains h where "pids_cleanup_stacks_all i = Some (i\<lparr>pi_heap := h\<rparr>)" "pids_wf its (i\<lparr>pi_heap := h\<rparr>)"
    "\<forall>a. a \<notin> owned i \<longrightarrow> h a = pi_heap i a"
    "\<forall>a\<in>owned i. \<exists>s. h a = Some s \<and> length s = pi_maxitems i \<and> list_all (\<lambda>r. rc_val r = Zero) s"
proof -
  have v: "valid_pids its" using assms by (simp add: pids_wf_def configured_pids_def)
  have st: "\<forall>a\<in>owned i. a < pi_next i \<and> (\<exists>s. pi_heap i a = Some s \<and> typed_stack its s \<and> length s = pi_maxitems i)"
    using assms by (simp add: pids_wf_def stacks_wf_def)
  then have "\<forall>a\<in>set (concat (pi_extents i)). valid_pids its \<and> (\<exists>s. pi_heap i a = Some s \<and> typed_stack its s)"
    using v by (auto simp: owned_def)
  from cleanup_at_ok [where its = "\<lambda>_. its", OF this]
  obtain h where h: "pids_cleanup_at (concat (pi_extents i)) (pi_heap i) = Some h"
      "\<forall>a. a \<notin> owned i \<longrightarrow> h a = pi_heap i a"
      "\<forall>a\<in>owned i. \<exists>s. h a = Some s \<and> typed_stack its s \<and> length s = length (the (pi_heap i a)) \<and> list_all (\<lambda>r. rc_val r = Zero) s"
    unfolding owned_def by blast
  have h3: "\<forall>a\<in>owned i. \<exists>s. h a = Some s \<and> typed_stack its s \<and> length s = pi_maxitems i \<and> list_all (\<lambda>r. rc_val r = Zero) s"
  proof
    fix a assume a: "a \<in> owned i"
    then have "length (the (pi_heap i a)) = pi_maxitems i" using st by force
    then show "\<exists>s. h a = Some s \<and> typed_stack its s \<and> length s = pi_maxitems i \<and> list_all (\<lambda>r. rc_val r = Zero) s"
      using h(3) a by auto
  qed
  have "stacks_wf its (i\<lparr>pi_heap := h\<rparr>)"
    unfolding stacks_wf_def using st h3 assms by (fastforce simp: owned_def pids_wf_def stacks_wf_def)
  moreover have "others_wf (i\<lparr>pi_heap := h\<rparr>)"
    using assms h(2) unfolding pids_wf_def others_wf_def owned_def by simp
  ultimately have "pids_wf its (i\<lparr>pi_heap := h\<rparr>)"
    using assms by (simp add: pids_wf_eq pids_wf'_def configured_pids_def pointers_wf_def owned_def)
  then show thesis using that [of h] h h3 by (simp add: pids_cleanup_stacks_all_def) blast
qed

text \<open>So does freeing those handed out for the calling process.\<close>

lemma others_cleanup:
  assumes "others_wf i"
  shows "pids_cleanup_at (pi_otherexts i) (pi_heap i) \<noteq> None"
proof -
  obtain its where "\<forall>a\<in>set (pi_otherexts i). valid_pids (its a) \<and> (\<exists>s. pi_heap i a = Some s \<and> typed_stack (its a) s)"
    using assms unfolding others_wf_def by metis
  from cleanup_at_ok [OF this] show ?thesis by auto
qed

lemma unref_defined:
  assumes "pids_wf its i"
  shows "procps_pids_unref (Some i) lib \<noteq> None"
proof -
  let ?j = "i\<lparr>pi_refcount := pi_refcount i - 1\<rparr>"
  have j: "pids_wf its ?j" using assms by simp
  obtain h where h: "pids_cleanup_stacks_all ?j = Some (?j\<lparr>pi_heap := h\<rparr>)" "pids_wf its (?j\<lparr>pi_heap := h\<rparr>)"
    by (rule cleanup_wf [OF j])
  have "others_wf (?j\<lparr>pi_heap := h\<rparr>)" using h(2) by (simp add: pids_wf_def)
  from others_cleanup [OF this] show ?thesis
    using h(1) by (auto simp: procps_pids_unref_def Let_def split: option.splits)
qed

text \<open>A stack of the extents filled, whatever comes of it; a fetch, in parts.\<close>

lemma assign_at_wf:
  assumes "pids_wf its i" "a \<in> owned i" "pids_assign_at e lib i a p = Some (ok, i', p')"
  obtains s where "i' = i\<lparr>pi_heap := (pi_heap i)(a \<mapsto> s)\<rparr>" "pids_wf its (i\<lparr>pi_heap := (pi_heap i)(a \<mapsto> s)\<rparr>)"
proof -
  have v: "valid_pids its" using assms(1) by (simp add: pids_wf_def configured_pids_def)
  obtain s0 where s0: "pi_heap i a = Some s0" "typed_stack its s0" "length s0 = pi_maxitems i"
    using assms(1,2) by (auto simp: pids_wf_def stacks_wf_def)
  obtain s err where s: "pids_assign_results (pids_ctx_of e i lib) s0 p = Some (s, p', err)" "i' = i\<lparr>pi_heap := (pi_heap i)(a \<mapsto> s)\<rparr>"
    using assms(3) s0(1) by (auto simp: pids_assign_at_def split: option.splits prod.splits)
  have "pids_wf its (i\<lparr>pi_heap := (pi_heap i)(a \<mapsto> s)\<rparr>)"
    using wf_store [OF assms(1,2)] typed_assign [OF v s0(2) s(1)] s0(3) by simp
  then show thesis using that s(2) by blast
qed

lemma fetch_one_wf:
  assumes "pids_wf its i" "anchored_at as i" "pi_n_inuse i \<le> length as" "room_ok e" "pids_fetch_one e lib p i = Some (ok, i')"
  obtains as' where "pids_wf its i'" "anchored_at as' i'" "pi_n_inuse i' \<le> length as'" "fixed i' = fixed i"
proof -
  let ?n = "pi_n_inuse i"
  obtain i1 xs where g: "pids_fetch_grow e i = Some (True, i1)" "pids_wf its i1" "anchored_at (as @ xs) i1"
      "?n < length (as @ xs)" "fixed i1 = fixed i" "pi_n_inuse i1 = ?n"
    by (rule fetch_grow_ready [OF assms(1-4)])
  have ho: "hist_ok (pi_hist i1)" using g(2) by (simp add: pids_wf_def rest_wf_def)
  obtain hi where t: "pids_proc_tally e i1 p = Some (True, shown i1 p, i1\<lparr>pi_counts := count_state (p_state p) (pi_counts i1), pi_hist := hi\<rparr>)"
      "hist_ok hi"
    by (rule proc_tally_ok [OF ho assms(4)])
  let ?i3 = "i1\<lparr>pi_counts := count_state (p_state p) (pi_counts i1), pi_hist := hi, pi_n_inuse := ?n + 1\<rparr>"
  let ?a = "(as @ xs) ! ?n"
  have w3: "pids_wf its ?i3"
    using wf_hist [of its "i1\<lparr>pi_counts := count_state (p_state p) (pi_counts i1)\<rparr>" hi] g(2) t(2) by simp
  have a3: "anchored_at (as @ xs) ?i3" using g(3) by simp
  have own: "?a \<in> owned ?i3" using a3 nth_mem [OF g(4)] by (auto simp: anchored_at_def)
  have anc: "pi_anchor i1 = Some (map Some (as @ xs))" using g(3) by (simp add: anchored_at_def)
  have at: "map Some (as @ xs) ! ?n = Some ?a" by (rule nth_map [OF g(4)])
  have f: "pids_fetch_one e lib p i =
      map_option (\<lambda>(ok, i4, p2). (ok, i4\<lparr>pi_fetch_proc := p2\<rparr>)) (pids_assign_at e lib ?i3 ?a (shown i1 p))"
    using g(4,6) anc at by (simp add: pids_fetch_one_def g(1) t(1) Let_def del: map_append)
  obtain i4 p2 where asg: "pids_assign_at e lib ?i3 ?a (shown i1 p) = Some (ok, i4, p2)" "i' = i4\<lparr>pi_fetch_proc := p2\<rparr>"
    using assms(5) unfolding f by auto
  obtain s where s: "i4 = ?i3\<lparr>pi_heap := (pi_heap ?i3)(?a \<mapsto> s)\<rparr>" "pids_wf its (?i3\<lparr>pi_heap := (pi_heap ?i3)(?a \<mapsto> s)\<rparr>)"
    by (rule assign_at_wf [OF w3 own asg(1)])
  have e: "i' = ?i3\<lparr>pi_heap := (pi_heap ?i3)(?a \<mapsto> s), pi_fetch_proc := p2\<rparr>" using asg(2) s(1) by simp
  show thesis
    by (rule that [of "as @ xs"]) (use s(2) a3 g(4,5) in \<open>simp_all add: e\<close>)
qed

lemma fetch_loop_wf:
  "pids_fetch_loop e k PT i lib = Some (ok, PT', i', lib') \<Longrightarrow> pids_wf its i \<Longrightarrow> anchored_at as i \<Longrightarrow>
     pi_n_inuse i \<le> length as \<Longrightarrow> room_ok e \<Longrightarrow> pids_wf its i' \<and> fixed i' = fixed i"
proof (induction e k PT i lib arbitrary: as rule: pids_fetch_loop.induct)
  case (1 e k PT i lib)
  note room = 1(6)
  obtain b PT1 p lib1 where r: "read_something e k PT (pi_fetch_proc i) lib = Some (b, PT1, p, lib1)"
    using 1(2) by (subst (asm) pids_fetch_loop.simps) (auto split: option.splits prod.splits)
  show ?case
  proof (cases b)
    case False
    then have "i' = i\<lparr>pi_fetch_proc := p\<rparr>" using 1(2) r by (subst (asm) pids_fetch_loop.simps) auto
    then show ?thesis using 1(3) by simp
  next
    case True
    obtain ok1 i1 where o1: "pids_fetch_one e lib1 p i = Some (ok1, i1)"
      using 1(2) r True by (subst (asm) pids_fetch_loop.simps) (auto split: option.splits)
    obtain as1 where w: "pids_wf its i1" "anchored_at as1 i1" "pi_n_inuse i1 \<le> length as1" "fixed i1 = fixed i"
      by (rule fetch_one_wf [OF 1(3-5) room o1])
    show ?thesis
    proof (cases ok1)
      case False
      then show ?thesis using 1(2) r o1 True w by (subst (asm) pids_fetch_loop.simps) auto
    next
      case ok: True
      then have "pids_fetch_loop e k PT1 i1 lib1 = Some (ok, PT', i', lib')"
        using 1(2) r o1 True by (subst (asm) pids_fetch_loop.simps) simp
      from 1(1) [OF r refl _ refl refl o1 refl _ this w(1-3) room] True ok w(4) show ?thesis by simp
    qed
  qed
qed

lemma fetch_wf:
  assumes "pids_stacks_fetch e i lib = Some (rc, i', lib')" "pids_wf its i" "room_ok e"
  shows "pids_wf its i'"
proof -
  obtain i1 as where a: "pids_fetch_init e i = Some (True, i1)" "pids_wf its i1" "anchored_at as i1" "fixed i1 = fixed i"
    by (rule fetch_init_ready [OF assms(2,3)])
  let ?i2 = "i1\<lparr>pi_hist := pids_toggle_history (pi_hist i1), pi_counts := zero_pids_counts, pi_n_inuse := 0\<rparr>"
  have "hist_ok (pids_toggle_history (pi_hist i1))"
    using hist_refines(2) [of "pi_hist i1"] a(2) by (simp add: pids_wf_def rest_wf_def)
  from wf_hist [OF a(2) this] have w2: "pids_wf its ?i2" by simp
  have a2: "anchored_at as ?i2" "pi_n_inuse ?i2 \<le> length as" using a(3) by simp_all
  obtain PT k ok PT1 i3 lib1 where l: "pi_fetch_PT i1 = Some PT" "pi_reader i1 = Some k"
      "pids_fetch_loop e k PT ?i2 lib = Some (ok, PT1, i3, lib1)"
    using assms(1) a(1) by (auto simp: pids_stacks_fetch_def Let_def split: option.splits)
  have w3: "pids_wf its i3" using fetch_loop_wf [OF l(3) w2 a2 assms(3)] by simp
  have sv: "fe_save_ok (pv_fetch e)" using assms(3) by (simp add: room_ok_def all_ok_def)
  have "i' = i3\<lparr>pi_fetch_PT := Some PT1\<rparr> \<or>
      (\<exists>m r. i' = i3\<lparr>pi_fetch_PT := Some PT1, pi_n_saved := m, pi_result := Some r\<rparr>)"
    using assms(1) a(1) l sv by (auto simp: pids_stacks_fetch_def Let_def split: if_splits)
  then show ?thesis
  proof
    assume "\<exists>m r. i' = i3\<lparr>pi_fetch_PT := Some PT1, pi_n_saved := m, pi_result := Some r\<rparr>"
    then obtain m r where "i' = i3\<lparr>pi_fetch_PT := Some PT1, pi_n_saved := m, pi_result := Some r\<rparr>" by blast
    then show ?thesis using wf_result [of its "i3\<lparr>pi_fetch_PT := Some PT1\<rparr>"] w3 by simp
  qed (use w3 in simp)
qed

lemma harvest_wf:
  assumes "pids_harvest e flags pids uids threads least i lib = Some (b, c, lib')" "pids_wf its i" "room_ok e"
  obtains i' where "c = Some i'" "pids_wf its i'"
proof -
  obtain ok PT lib1 where o1: "pids_oldproc_open e (pi_fetch_PT i) flags pids uids lib = (ok, PT, lib1)" using prod_cases3 by blast
  show thesis
  proof (cases ok)
    case False
    then have "c = Some (i\<lparr>pi_fetch_PT := PT\<rparr>)" using assms(1) o1 by (simp add: pids_harvest_def Let_def)
    then show thesis using that assms(2) by simp
  next
    case True
    obtain i2 lib2 where b: "pids_set_boot e (i\<lparr>pi_fetch_PT := PT, pi_reader := Some (reader_for threads)\<rparr>, lib1) = (i2, lib2)"
      by fastforce
    obtain rc i3 lib3 where f: "pids_stacks_fetch e i2 lib2 = Some (rc, i3, lib3)" "c = Some (i3\<lparr>pi_fetch_PT := None\<rparr>)"
      using assms(1) o1 b True by (auto simp: pids_harvest_def Let_def)
    have "pids_wf its (i\<lparr>pi_fetch_PT := PT, pi_reader := Some (reader_for threads)\<rparr>)"
      using wf_reader [of its "i\<lparr>pi_fetch_PT := PT\<rparr>"] assms(2) by simp
    then have "pids_wf its i2" using boot_dirs [OF b] by auto
    from fetch_wf [OF f(1) this assms(3)] show thesis using that f(2) by simp
  qed
qed

text \<open>\<open>get\<close>: a stack of the extents that the array does not use, and a table with a reader.\<close>

lemma wf_get_ext:
  assumes "pids_wf its i"
  shows "pids_wf its ((with_extent 1 i)\<lparr>pi_get_ext := Some (pi_next i)\<rparr>)"
proof -
  note w = wf_extent [OF assms, of 1]
  let ?j = "with_extent 1 i"
  have p: "pointers_wf ?j" using w(2) by (simp add: pids_wf_def)
  have an: "pi_anchor ?j = pi_anchor i" "pi_get_ext ?j = pi_get_ext i" "pi_n_alloc ?j = pi_n_alloc i" by (simp_all add: with_extent_def)
  have "pi_next i \<notin> set as" if "pi_anchor i = Some (map Some as)" for as
  proof
    assume a: "pi_next i \<in> set as"
    have "set as \<subseteq> owned i"
      using assms that unfolding pids_wf_def pointers_wf_def by (auto dest!: map_injective)
    then show False using a owned_old [OF assms] by blast
  qed
  then have "pointers_wf (?j\<lparr>pi_get_ext := Some (pi_next i)\<rparr>)"
    using p w(3) an unfolding pointers_wf_def owned_def by auto
  then show ?thesis
    using w(2) by (simp add: pids_wf_eq pids_wf'_def configured_pids_def stacks_wf_def others_wf_def owned_def)
qed

lemma wf_get_PT:
  assumes "pids_wf its i" "PT \<noteq> None \<longrightarrow> pi_get_ext i \<noteq> None"
  shows "PT = None \<or> pi_reader i \<noteq> None \<Longrightarrow> pids_wf its (i\<lparr>pi_get_PT := PT\<rparr>)"
    "pids_wf its (i\<lparr>pi_get_PT := PT, pi_get_type := w, pi_reader := Some k\<rparr>)"
  using assms by (auto simp: wf_simps)

lemma fresh_start_wf:
  assumes "get_fresh_start e which i lib = (ok, i', lib')" "pids_wf its i" "pi_get_ext i \<noteq> None"
  shows "pids_wf its i'"
proof -
  obtain b PT lib1 where b: "pids_oldproc_open e (pi_get_PT i) (pi_oldflags i) [] ([], 0) lib = (b, PT, lib1)"
    using prod_cases3 by blast
  note d = open_dirs [OF b]
  show ?thesis
  proof (cases b)
    case True
    then have "i' = i\<lparr>pi_get_PT := PT, pi_get_type := which, pi_reader := Some (reader_for (which \<noteq> 0))\<rparr>"
      using assms(1) b by (simp add: get_fresh_start_def)
    then show ?thesis using wf_get_PT(2) [OF assms(2)] assms(3) by simp
  next
    case False
    then have "i' = i\<lparr>pi_get_PT := None\<rparr>" using assms(1) b d by (simp add: get_fresh_start_def)
    then show ?thesis using wf_get_PT(1) [OF assms(2), of None] by simp
  qed
qed

lemma get_stack_wf:
  assumes "get_stack e which i lib = Some (ok, i', lib')" "pids_wf its i"
  shows "pids_wf its i'"
proof (cases "pi_get_ext i = None \<and> pv_stack_ok e")
  case True
  then have g: "get_fresh_start e which ((with_extent 1 i)\<lparr>pi_get_ext := Some (pi_next i)\<rparr>) lib = (ok, i', lib')"
    using assms(1) wf_extent(1) [OF assms(2), of 1] by (simp add: get_stack_def)
  show ?thesis by (rule fresh_start_wf [OF g wf_get_ext [OF assms(2)]]) simp
next
  case False
  then show ?thesis using assms by (auto simp: get_stack_def pids_stacks_alloc_def split: if_splits)
qed

lemma get_restart_wf:
  assumes "get_restart e which i lib = (ok, i', lib')" "pids_wf its i" "pi_get_ext i \<noteq> None"
  shows "pids_wf its i'"
proof (cases "pi_get_type i = which")
  case False
  then have f: "get_fresh_start e which (i\<lparr>pi_get_PT := None\<rparr>) (pids_oldproc_close (pi_get_PT i) lib) = (ok, i', lib')"
    using assms(1) by (simp add: get_restart_def)
  show ?thesis by (rule fresh_start_wf [OF f]) (use assms(2,3) wf_get_PT(1) [OF assms(2), of None] in simp_all)
qed (use assms in \<open>simp add: get_restart_def\<close>)

lemma get_next_wf:
  assumes "get_next e i lib = Some (s, c, lib')" "pids_wf its i"
  obtains i' where "c = Some i'" "pids_wf its i'"
proof -
  obtain i1 lib1 where b: "pids_set_boot e (i, lib) = (i1, lib1)" by fastforce
  have w1: "pids_wf its i1" using boot_dirs [OF b] assms(2) by auto
  obtain PT k a ok PT1 p lib2 where r: "pi_get_PT i1 = Some PT" "pi_reader i1 = Some k" "pi_get_ext i1 = Some a"
      "read_something e k PT (pi_get_proc i1) lib1 = Some (ok, PT1, p, lib2)"
    and o1: "if ok then \<exists>ok' i2 p'. pids_assign_at e lib2 i1 a p = Some (ok', i2, p')
          \<and> c = Some (i2\<lparr>pi_get_PT := Some PT1, pi_get_proc := p'\<rparr>)
        else c = Some (i1\<lparr>pi_get_PT := Some PT1, pi_get_proc := p\<rparr>)"
    using assms(1) b by (auto simp: get_next_def split: option.splits prod.splits bool.splits)
  have own: "a \<in> owned i1" using w1 r(3) by (simp add: pids_wf_def pointers_wf_def)
  show thesis
  proof (cases ok)
    case False
    then show thesis using that wf_get_PT(1) [OF w1, of "Some PT1"] o1 r(2,3) by simp
  next
    case True
    then obtain ok' i2 p' where asg: "pids_assign_at e lib2 i1 a p = Some (ok', i2, p')"
        "c = Some (i2\<lparr>pi_get_PT := Some PT1, pi_get_proc := p'\<rparr>)"
      using o1 by auto
    obtain t where "i2 = i1\<lparr>pi_heap := (pi_heap i1)(a \<mapsto> t)\<rparr>" "pids_wf its (i1\<lparr>pi_heap := (pi_heap i1)(a \<mapsto> t)\<rparr>)"
      by (rule assign_at_wf [OF w1 own asg(1)])
    then have "pids_wf its i2" "pi_get_ext i2 \<noteq> None" "pi_reader i2 \<noteq> None" using r(2,3) by simp_all
    then show thesis using that wf_get_PT(1) [of its i2 "Some PT1"] asg(2) by simp
  qed
qed

lemma get_wf:
  assumes "procps_pids_get e which (Some i) lib = Some (s, c, lib')" "pids_wf its i"
  obtains i' where "c = Some i'" "pids_wf its i'"
  using assms(1)
proof (rule get_cases)
  assume "c = Some i"
  then show thesis using that assms(2) by blast
next
  fix ok i1 assume "get_stack e which i lib = Some (ok, i1, lib')" "c = Some i1"
  then show thesis using that get_stack_wf [OF _ assms(2)] by blast
next
  fix i1 lib1 ok i2
  assume g: "get_stack e which i lib = Some (True, i1, lib1)" "get_restart e which i1 lib1 = (ok, i2, lib')" "c = Some i2"
  have "pi_get_ext i1 \<noteq> None"
    using g(1) by (auto simp: get_stack_def get_fresh_start_def split: if_splits option.splits prod.splits)
  then show thesis using that get_restart_wf [OF g(2)] get_stack_wf [OF g(1) assms(2)] g(3) by blast
next
  fix i1 lib1 i2 lib2
  assume g: "get_stack e which i lib = Some (True, i1, lib1)" "get_restart e which i1 lib1 = (True, i2, lib2)"
      "get_next e i2 lib2 = Some (s, c, lib')"
  have "pi_get_ext i1 \<noteq> None"
    using g(1) by (auto simp: get_stack_def get_fresh_start_def split: if_splits option.splits prod.splits)
  then have "pids_wf its i2" using get_restart_wf [OF g(2)] get_stack_wf [OF g(1) assms(2)] by blast
  from get_next_wf [OF g(3) this] show thesis using that by blast
qed

text \<open>The stack of the calling process, which the extents do not own.\<close>

lemma own_stack_wf:
  assumes "own_stack e i lib = Some (s, i', lib')" "pids_wf its i"
  shows "pids_wf its i'"
proof (cases "pv_stack_ok e")
  case False
  then show ?thesis using assms by (auto simp: own_stack_def pids_stacks_alloc_def split: if_splits)
next
  case True
  let ?a = "pi_next i"
  let ?i2 = "(with_extent 1 i)\<lparr>pi_extents := pi_extents i, pi_otherexts := ?a # pi_otherexts i\<rparr>"
  have c: "configured_pids its i" using assms(2) by (simp add: pids_wf_def)
  then have v: "valid_pids its" by (simp add: configured_pids_def)
  have cut: "pids_extent_cut (pi_extents (with_extent 1 i)) [?a] = Some (Some (pi_extents i))"
    by (simp add: pids_extent_cut_def with_extent_def)
  have ot: "pi_otherexts (with_extent 1 i) = pi_otherexts i" by (simp add: with_extent_def)
  obtain ok self where as: "pids_assign_at e lib ?i2 ?a (pl_self lib) = Some (ok, i', self)"
    using assms(1) True wf_extent(1) [OF assms(2), of 1] cut ot
    by (auto simp: own_stack_def Let_def)
  have h0: "pi_heap ?i2 ?a = Some (pids_new_stack i)" by (simp add: with_extent_def)
  obtain t err where a1: "pids_assign_results (pids_ctx_of e ?i2 lib) (pids_new_stack i) (pl_self lib) = Some (t, self, err)"
      "i' = ?i2\<lparr>pi_heap := (pi_heap ?i2)(?a \<mapsto> t)\<rparr>"
    using as h0 by (auto simp: pids_assign_at_def split: option.splits prod.splits)
  have t: "i' = ?i2\<lparr>pi_heap := (pi_heap ?i2)(?a \<mapsto> t)\<rparr>" "typed_stack its t"
    using a1(2) typed_assign [OF v typed_new_stack(1) [OF c] a1(1)] by simp_all
  have new: "?a \<notin> owned i" using owned_old [OF assms(2)] by blast
  have old: "a < pi_next i \<Longrightarrow> pi_heap i' a = pi_heap i a" for a by (simp add: t(1) with_extent_def)
  have f: "owned i' = owned i" "pi_next i' = Suc (pi_next i)" "pi_heap i' ?a = Some t" "pi_otherexts i' = ?a # pi_otherexts i"
    "pi_extents i' = pi_extents i" "pi_maxitems i' = pi_maxitems i"
    by (simp_all add: t(1) owned_def with_extent_def)
  have "stacks_wf its i'"
    unfolding stacks_wf_def f using assms(2) owned_old [OF assms(2)] by (auto simp: pids_wf_def stacks_wf_def old intro: less_SucI)
  moreover have "others_wf i'"
  proof -
    have ow: "distinct (pi_otherexts i)" "\<forall>a\<in>set (pi_otherexts i). a < pi_next i \<and> a \<notin> owned i
          \<and> (\<exists>its s. valid_pids its \<and> pi_heap i a = Some s \<and> typed_stack its s)"
      using assms(2) by (simp_all add: pids_wf_def others_wf_def)
    then show ?thesis unfolding others_wf_def f using new f(3) t(2) v old by auto
  qed
  moreover have "pointers_wf i'"
    using assms(2) f(1) unfolding pids_wf_def pointers_wf_def by (simp add: t(1) with_extent_def)
  ultimately show ?thesis
    using assms(2) by (simp add: pids_wf_eq pids_wf'_def configured_pids_def t(1) with_extent_def)
qed

subsection \<open>Other items\<close>

text \<open>
  What \<open>reset\<close> relies on once the strings are freed; a context made without items has it from the
  start.
\<close>

definition cleared :: "pids_info \<Rightarrow> bool" where
  "cleared i \<longleftrightarrow>
     (\<forall>a\<in>owned i. a < pi_next i \<and> (\<exists>s. pi_heap i a = Some s \<and> length s = pi_maxitems i \<and> list_all (\<lambda>r. rc_val r = Zero) s))
     \<and> distinct (concat (pi_extents i)) \<and> others_wf i \<and> pointers_wf i
     \<and> hist_ok (pi_hist i) \<and> (0 < pi_n_saved i \<longrightarrow> pi_result i \<noteq> None)"

definition pids_idle :: "pids_info \<Rightarrow> bool" where
  "pids_idle i \<longleftrightarrow> pi_curitems i = 0 \<and> pi_maxitems i = 0 \<and> pi_extents i = [] \<and> cleared i"

lemma itemize_typed:
  "length xs < length s \<Longrightarrow> list_all (\<lambda>r. rc_val r = Zero) s \<Longrightarrow>
     typed_stack xs (pids_itemize_stack (xs @ [PIDS_logical_end]) s) \<and> length (pids_itemize_stack (xs @ [PIDS_logical_end]) s) = length s"
proof (induction xs arbitrary: s)
  case Nil
  then show ?case by (cases s) (auto simp: pids_itemize_stack_def)
next
  case (Cons x xs)
  obtain r rs where s: "s = r # rs" using Cons.prems by (cases s) auto
  then have "pids_itemize_stack ((x # xs) @ [PIDS_logical_end]) s = r\<lparr>rc_item := x\<rparr> # pids_itemize_stack (xs @ [PIDS_logical_end]) rs"
    by (simp add: pids_itemize_stack_def)
  then show ?case using Cons.IH [of rs] Cons.prems s by (simp add: typed_val_def)
qed

lemma cleared_room:
  assumes "cleared i"
  shows "cleared (fst (reset_room n i lib))" "n + 1 \<le> pi_maxitems (fst (reset_room n i lib))"
proof -
  show "n + 1 \<le> pi_maxitems (fst (reset_room n i lib))" by (simp add: reset_room_def)
  show "cleared (fst (reset_room n i lib))"
  proof (cases "pi_maxitems i < n + 1")
    case True
    let ?j = "fst (reset_room n i lib)"
    have j: "pi_extents ?j = []" "pi_anchor ?j = None" "pi_get_ext ?j = None" "owned ?j = {}"
      "pi_otherexts ?j = pi_otherexts i" "pi_next ?j = pi_next i" "pi_hist ?j = pi_hist i" "pi_n_saved ?j = pi_n_saved i"
      "pi_result ?j = pi_result i" "pi_get_PT ?j = (if pi_get_ext i = None then pi_get_PT i else None)"
      using True by (simp_all add: reset_room_def owned_def)
    have h: "pi_heap ?j a = pi_heap i a" if "a \<notin> owned i" for a using True that by (simp add: reset_room_def owned_def)
    have "others_wf ?j" using assms unfolding cleared_def others_wf_def j by (auto simp: h)
    moreover have "pointers_wf ?j" using assms unfolding cleared_def pointers_wf_def by (auto simp: j)
    ultimately show ?thesis using assms by (simp add: cleared_def j)
  qed (use assms in \<open>simp add: reset_room_def\<close>)
qed

lemma reset_items_wf:
  assumes "cleared i" "valid_pids new" "new \<noteq> []" "length new + 1 \<le> pi_maxitems i"
  shows "pids_wf new (reset_items new i)"
proof -
  let ?left = "case pi_items i of None \<Rightarrow> [] | Some xs \<Rightarrow> drop (length new + 1) xs"
  let ?i3 = "i\<lparr>pi_items := Some (new @ [PIDS_logical_end] @ ?left), pi_curitems := length new + 1\<rparr>"
  obtain i4 where i4: "i4 = pids_itemize_stacks_all ?i3" by blast
  have ci: "cur_items ?i3 = new @ [PIDS_logical_end]" by (simp add: cur_items_def)
  have o4: "owned i4 = owned i" by (simp add: i4 pids_itemize_stacks_all_def owned_def)
  have h4: "pi_heap i4 a = (if a \<in> owned i then map_option (pids_itemize_stack (new @ [PIDS_logical_end])) (pi_heap i a) else pi_heap i a)" for a
    using ci by (simp add: i4 pids_itemize_stacks_all_def owned_def)
  have f4: "pi_next i4 = pi_next i" "pi_extents i4 = pi_extents i" "pi_maxitems i4 = pi_maxitems i" "pi_otherexts i4 = pi_otherexts i"
    "pi_hist i4 = pi_hist i" "pi_n_saved i4 = pi_n_saved i" "pi_result i4 = pi_result i"
    by (simp_all add: i4 pids_itemize_stacks_all_def)
  have cl: "\<forall>a\<in>owned i. a < pi_next i \<and> (\<exists>s. pi_heap i a = Some s \<and> length s = pi_maxitems i \<and> list_all (\<lambda>r. rc_val r = Zero) s)"
    "distinct (concat (pi_extents i))"
    using assms(1) by (simp_all add: cleared_def)
  have "stacks_wf new i4"
    unfolding stacks_wf_def o4 f4
  proof (intro conjI ballI cl(2))
    fix a assume a: "a \<in> owned i"
    then obtain s where s: "pi_heap i a = Some s" "length s = pi_maxitems i" "list_all (\<lambda>r. rc_val r = Zero) s" using cl(1) by blast
    show "a < pi_next i" using cl(1) a by blast
    show "\<exists>s. pi_heap i4 a = Some s \<and> typed_stack new s \<and> length s = pi_maxitems i"
    proof (intro exI conjI)
      show "pi_heap i4 a = Some (pids_itemize_stack (new @ [PIDS_logical_end]) s)"
        using h4 [of a] a s(1) by (simp only: if_True option.map)
    qed (use itemize_typed [of new s] s assms(4) in simp_all)
  qed
  moreover have "others_wf i4"
    using assms(1) unfolding cleared_def others_wf_def o4 f4 by (simp add: h4)
  moreover have "pointers_wf i4"
  proof -
    have "pi_anchor i4 = pi_anchor i" "pi_n_alloc i4 = pi_n_alloc i" "pi_get_ext i4 = pi_get_ext i" "pi_get_PT i4 = pi_get_PT i"
      "pi_reader i4 = pi_reader i"
      by (simp_all add: i4 pids_itemize_stacks_all_def)
    then show ?thesis using assms(1) unfolding cleared_def pointers_wf_def o4 by simp
  qed
  moreover have "configured_pids new i4"
    using assms(2-4) by (simp add: i4 configured_pids_def pids_itemize_stacks_all_def)
  ultimately have "pids_shape new i4" using assms(1) by (simp add: pids_shape_def f4 cleared_def)
  then show ?thesis using wf_libflags by (simp add: reset_items_def Let_def i4)
qed

lemma cleanup_cleared:
  assumes "pids_wf its i"
  obtains j where "pids_cleanup_stacks_all i = Some j" "pids_wf its j" "cleared j"
proof -
  obtain h where h: "pids_cleanup_stacks_all i = Some (i\<lparr>pi_heap := h\<rparr>)" "pids_wf its (i\<lparr>pi_heap := h\<rparr>)"
      "\<forall>a\<in>owned i. \<exists>s. h a = Some s \<and> length s = pi_maxitems i \<and> list_all (\<lambda>r. rc_val r = Zero) s"
    by (rule cleanup_wf [OF assms])
  have "\<forall>a\<in>owned i. a < pi_next i" using owned_old [OF assms] by blast
  then have "cleared (i\<lparr>pi_heap := h\<rparr>)"
    using h(2,3) unfolding cleared_def pids_wf_eq pids_wf'_def stacks_wf_def by (simp add: owned_def)
  then show thesis using that h(1,2) by blast
qed

lemma idle_cleanup: "pids_idle i \<Longrightarrow> pids_cleanup_stacks_all i = Some i"
  by (simp add: pids_idle_def pids_cleanup_stacks_all_def)

text \<open>A context between two calls.\<close>

definition context_ok :: "pids_info \<Rightarrow> bool" where
  "context_ok i \<longleftrightarrow> pids_idle i \<or> (\<exists>its. pids_wf its i)"

lemma reset_ok:
  assumes "context_ok i" "n \<le> int (length (snd its))"
  obtains rc i' lib' where "procps_pids_reset True (Some its) n (Some i) lib = Some (rc, Some i', lib')" "context_ok i'"
    "pids_items_check_failed its n \<or> pids_wf (take (nat n) (snd its)) i'"
proof (cases "pids_items_check_failed its n")
  case True
  then show thesis using that assms(1) by (simp add: procps_pids_reset_def)
next
  case False
  let ?new = "take (nat n) (snd its)"
  note v = check_valid [OF False assms(2)]
  obtain j where j: "pids_cleanup_stacks_all i = Some j" "cleared j" "pids_idle j \<or> (\<exists>its. pids_wf its j)"
    using assms(1) idle_cleanup cleanup_cleared unfolding context_ok_def by (metis pids_idle_def)
  have it: "pi_items j \<noteq> None" if "pi_maxitems j \<noteq> 0 \<or> pi_curitems j = nat n + 1"
    using j(3) that by (auto simp: pids_idle_def pids_wf_def configured_pids_def)
  obtain j2 lib2 where r: "reset_room (nat n) j lib = (j2, lib2)" by fastforce
  have j2: "cleared j2" "nat n + 1 \<le> pi_maxitems j2" using cleared_room [OF j(2), of "nat n" lib] r by simp_all
  have w: "pids_wf ?new (reset_items ?new j2)"
    by (rule reset_items_wf [OF j2(1) v(1,2)]) (use j2(2) v(3) in simp)
  have same: "pi_items j2 = pi_items j" using r by (auto simp: reset_room_def split: if_splits)
  have res: "procps_pids_reset True (Some its) n (Some i) lib =
      (if pi_curitems j = nat n + 1 \<and> take (nat n) (the (pi_items j)) = ?new then Some (0, Some j, lib)
       else Some (0, Some (reset_items ?new j2), lib2))"
    using False j(1) r it same by (auto simp: procps_pids_reset_def Let_def)
  show thesis
  proof (cases "pi_curitems j = nat n + 1 \<and> take (nat n) (the (pi_items j)) = ?new")
    case True
    then obtain xs where xs: "pids_wf xs j" using j(3) by (auto simp: pids_idle_def)
    then have "length xs = nat n" "take (nat n + 1) (the (pi_items j)) = xs @ [PIDS_logical_end]"
      using True by (simp_all add: pids_wf_def configured_pids_def)
    then have "take (nat n) (take (nat n + 1) (the (pi_items j))) = xs" by simp
    then have "xs = ?new" using True by (simp add: min_def)
    then show thesis using that [of 0 j lib] res True xs by (auto simp: context_ok_def)
  next
    case d: False
    show thesis by (rule that) (use res d w in \<open>auto simp: context_ok_def\<close>)
  qed
qed

subsection \<open>Every context that calls lead to\<close>

text \<open>
  A call as the library allows it: the caller's array of items has the length given, and there is
  memory for stacks, pointers, items and the history. Strings may fail to be copied, files may be
  anything, terminal names may be missing.
\<close>

fun call_ok :: "pids_call \<Rightarrow> bool" where
  "call_ok (Reap e which) = room_ok e"
| "call_ok (Choose e these n which) = room_ok e"
| "call_ok (Reset ok items n) = (ok \<and> (case items of None \<Rightarrow> True | Some its \<Rightarrow> n \<le> int (length (snd its))))"
| "call_ok _ = True"

definition state_ok :: "pids_state \<Rightarrow> bool" where
  "state_ok s = (case fst s of None \<Rightarrow> True | Some i \<Rightarrow> context_ok i)"

lemma idle_refcount [simp]: "pids_idle (i\<lparr>pi_refcount := r\<rparr>) = pids_idle i"
  by (simp add: pids_idle_def cleared_def owned_def others_wf_def pointers_wf_def)

lemma context_refcount [simp]: "context_ok (i\<lparr>pi_refcount := r\<rparr>) = context_ok i"
  by (simp add: context_ok_def)

lemma idle_select:
  assumes "pids_idle i"
  shows "procps_pids_get e which (Some i) lib = Some (None, Some i, lib)"
    "procps_pids_reap e which (Some i) lib = Some (False, Some i, lib)"
    "procps_pids_select e these n sel (Some i) lib = Some (False, Some i, lib)"
  using assms
  by (simp_all add: pids_idle_def procps_pids_get_def procps_pids_reap_def procps_pids_select_def split: option.split)

lemma harvests_ok:
  assumes "procps_pids_reap e which (Some i) lib = Some (b, c, lib') \<or>
      procps_pids_select e these n sel (Some i) lib = Some (b, c, lib')" "pids_wf its i" "room_ok e"
  shows "\<exists>i'. c = Some i' \<and> pids_wf its i'"
proof -
  have "c = Some i \<or> (\<exists>flags pids uids threads least. pids_harvest e flags pids uids threads least i lib = Some (b, c, lib'))"
    using assms(1) by (auto simp: procps_pids_reap_def procps_pids_select_def Let_def split: if_splits option.splits)
  then show ?thesis
  proof
    assume "\<exists>flags pids uids threads least. pids_harvest e flags pids uids threads least i lib = Some (b, c, lib')"
    then obtain flags pids uids threads least where "pids_harvest e flags pids uids threads least i lib = Some (b, c, lib')" by blast
    from harvest_wf [OF this assms(2,3)] show ?thesis by blast
  qed (use assms(2) in blast)
qed

lemma step_ok:
  assumes "pids_step s a s'" "state_ok s" "call_ok a"
  shows "state_ok s'"
  using assms(1)
proof cases
  case (step_ref i rc c lib)
  then show ?thesis using assms(2) by (auto simp: procps_pids_ref_def state_ok_def Let_def)
next
  case (step_unref i lib rc c lib')
  then show ?thesis using assms(2)
    by (auto simp: procps_pids_unref_def state_ok_def Let_def split: if_splits option.splits)
next
  case (step_get e which i lib r c lib')
  have "context_ok i" using assms(2) step_get(1) by (simp add: state_ok_def)
  then have "\<exists>i'. c = Some i' \<and> context_ok i'"
    unfolding context_ok_def using step_get(4) idle_select(1) get_wf by (metis option.inject prod.inject)
  then show ?thesis using step_get(3) by (auto simp: state_ok_def)
next
  case (step_reap e which i lib b c lib')
  have "context_ok i" "room_ok e" using assms(2,3) step_reap(1,2) by (simp_all add: state_ok_def)
  then have "\<exists>i'. c = Some i' \<and> context_ok i'"
    unfolding context_ok_def using step_reap(4) idle_select(2) harvests_ok by (metis option.inject prod.inject)
  then show ?thesis using step_reap(3) by (auto simp: state_ok_def)
next
  case (step_select e these n which i lib b c lib')
  have "context_ok i" "room_ok e" using assms(2,3) step_select(1,2) by (simp_all add: state_ok_def)
  then have "\<exists>i'. c = Some i' \<and> context_ok i'"
    unfolding context_ok_def using step_select(4) idle_select(3) harvests_ok by (metis option.inject prod.inject)
  then show ?thesis using step_select(3) by (auto simp: state_ok_def)
next
  case (step_reset ok items n i lib rc c lib')
  have i: "context_ok i" "ok" using assms(2,3) step_reset(1,2) by (simp_all add: state_ok_def)
  show ?thesis
  proof (cases items)
    case None
    then show ?thesis using step_reset i(1) by (auto simp: procps_pids_reset_def state_ok_def)
  next
    case (Some its)
    then have "n \<le> int (length (snd its))" using assms(3) step_reset(2) by simp
    then obtain rc' i' lib1 where "procps_pids_reset True (Some its) n (Some i) lib = Some (rc', Some i', lib1)" "context_ok i'"
      by (rule reset_ok [OF i(1)])
    then show ?thesis using step_reset(3,4) i(2) Some by (auto simp: state_ok_def)
  qed
next
  case (step_fatal e i self lib r c lib')
  have i: "context_ok i" using assms(2) step_fatal(1) by (simp add: state_ok_def)
  show ?thesis using fatal_cases [OF step_fatal(4)]
  proof cases
    case (1 me)
    then show ?thesis using i step_fatal(3) by (simp add: state_ok_def)
  next
    case (2 me i1)
    then obtain its where "pids_wf its i" using i by (auto simp: context_ok_def pids_idle_def)
    then show ?thesis using own_stack_wf [OF 2(2)] 2(1) step_fatal(3) by (auto simp: state_ok_def context_ok_def)
  qed
qed

lemma new_ok:
  assumes "procps_pids_new n (Some None) items k lib0 = (0, Some (Some i), lib)"
    and "items = None \<or> k \<le> int (length (snd (the items)))"
  shows "context_ok i"
proof (cases "items \<noteq> None \<and> k \<noteq> 0")
  case True
  then obtain its where "items = Some its" "k \<le> int (length (snd its))" using assms(2) by auto
  then show ?thesis using new_wf [of n its k lib0 i lib] assms(1) True unfolding context_ok_def by blast
next
  case False
  then have "i = no_pids\<lparr>pi_shift := page_shift (pn_pagesize n), pi_hertz := word_of_int (procps_hertz_get (pn_clk_tck n)), pi_refcount := 1\<rparr>"
    using assms(1) by (auto simp: procps_pids_new_def Let_def ENOMEM_def split: if_splits)
  then have "pids_idle i"
    using config_ok(1) by (simp add: pids_idle_def cleared_def owned_def others_wf_def pointers_wf_def no_pids_def)
  then show ?thesis by (simp add: context_ok_def)
qed

lemma idle_unref:
  assumes "pids_idle i"
  shows "procps_pids_unref (Some i) lib \<noteq> None"
proof -
  let ?j = "i\<lparr>pi_refcount := pi_refcount i - 1\<rparr>"
  have "pids_idle ?j" using assms by simp
  then have "pids_cleanup_stacks_all ?j = Some ?j" "others_wf ?j"
    by (rule idle_cleanup, simp add: pids_idle_def cleared_def)
  then show ?thesis
    using others_cleanup [of ?j] by (auto simp: procps_pids_unref_def Let_def split: option.splits)
qed

lemma context_fills:
  assumes "context_ok i" "a \<in> owned i" "tty_ok e p"
  shows "pids_assign_at e lib i a p \<noteq> None"
proof -
  obtain xs where "pids_wf xs i" using assms(1,2) by (auto simp: context_ok_def pids_idle_def owned_def)
  then obtain s where s: "valid_pids xs" "pi_heap i a = Some s" "typed_stack xs s"
    using assms(2) by (auto simp: pids_wf_def configured_pids_def stacks_wf_def)
  have "tty_fits (pc_dev (pids_ctx_of e i lib)) (pc_tmap (pids_ctx_of e i lib)) p"
    using assms(3) by (simp add: tty_ok_def pids_ctx_of_def)
  then show ?thesis using assign_defined [OF s(1,3)] s(2) by (fastforce simp: pids_assign_at_def)
qed

text \<open>
  C3. However a context was used, its stacks can be filled again, released and given other items: what is
  passed to \<open>free\<close> in doing so is a string or a null pointer and never a number, no stack is followed that is
  gone, and after a reset that was accepted the context is well formed. The stacks are filled with a
  process whose terminal has a name that fits the buffers of its set functions.
\<close>

theorem pids_context_safe:
  assumes "procps_pids_new n (Some None) items k lib0 = (0, Some (Some i0), lib1)"
    and "items = None \<or> k \<le> int (length (snd (the items)))"
    and "pids_reach call_ok (Some i0, lib1) (Some i, lib)" "m \<le> int (length (snd its))"
  shows "(\<forall>e a p. a \<in> owned i \<and> tty_ok e p \<longrightarrow> pids_assign_at e lib i a p \<noteq> None) \<and>
      procps_pids_unref (Some i) lib \<noteq> None \<and>
      (\<exists>rc i' lib'. procps_pids_reset True (Some its) m (Some i) lib = Some (rc, Some i', lib')
         \<and> (pids_items_check_failed its m \<or> pids_wf (take (nat m) (snd its)) i'))"
proof -
  have "state_ok (Some i, lib)"
    by (rule reach_invariant [OF assms(3)]) (use new_ok [OF assms(1,2)] step_ok in \<open>simp_all add: state_ok_def\<close>)
  then have i: "context_ok i" by (simp add: state_ok_def)
  obtain rc i' lib' where "procps_pids_reset True (Some its) m (Some i) lib = Some (rc, Some i', lib')"
      "pids_items_check_failed its m \<or> pids_wf (take (nat m) (snd its)) i'"
    by (rule reset_ok [OF i assms(4)])
  moreover have "procps_pids_unref (Some i) lib \<noteq> None"
    using i idle_unref unref_defined unfolding context_ok_def by blast
  moreover have "pids_assign_at e lib i a p \<noteq> None" if "a \<in> owned i" "tty_ok e p" for e a p
    using i that by (rule context_fills)
  ultimately show ?thesis by blast
qed

subsection \<open>A get without a table\<close>

text \<open>
  C31. When the table cannot be opened on the first \<open>get\<close> of a context, for the kind of scan the context
  has noted as its last (tasks only, in a new context), \<open>get\<close> returns a null pointer but keeps its stack; the
  next \<open>get\<close> of that kind takes the stack for a sign that the table is there, and reads a null pointer.
\<close>

theorem pids_get_null_table:
  assumes "pids_wf its i" "pi_get_ext i = None" "pi_get_type i = which" "which = PIDS_FETCH_TASKS_ONLY \<or> which = PIDS_FETCH_THREADS_TOO"
    and "pv_stack_ok e" "pids_oldproc_open e None (pi_oldflags i) [] ([], 0) lib = (False, None, lib1)"
  shows "\<exists>i'. procps_pids_get e which (Some i) lib = Some (None, Some i', lib1) \<and> procps_pids_get e' which (Some i') lib' = None"
proof -
  let ?j = "(with_extent 1 i)\<lparr>pi_get_ext := Some (pi_next i)\<rparr>"
  let ?k = "?j\<lparr>pi_get_PT := None\<rparr>"
  have n: "pi_curitems i \<noteq> 0" "pi_get_PT i = None"
    using assms(1,2) by (auto simp: pids_wf_def configured_pids_def pointers_wf_def)
  have f: "pi_get_PT ?j = None" "pi_oldflags ?j = pi_oldflags i" using n(2) by (simp_all add: with_extent_def)
  have "get_fresh_start e which ?j lib = (False, ?k, lib1)" using assms(6) unfolding get_fresh_start_def f by simp
  then have "get_stack e which i lib = Some (False, ?k, lib1)"
    using assms(2,5) wf_extent(1) [OF assms(1), of 1] by (simp add: get_stack_def)
  then have 1: "procps_pids_get e which (Some i) lib = Some (None, Some ?k, lib1)"
    using assms(4) n(1) by (auto simp: procps_pids_get_def)
  have k: "pi_curitems ?k \<noteq> 0" "pi_get_type ?k = which" using n(1) assms(3) by (simp_all add: with_extent_def)
  have "get_next e' ?k lib' = None"
    by (simp add: get_next_def pids_set_boot_def split: prod.split)
  then have "procps_pids_get e' which (Some ?k) lib' = None"
    using assms(4) k by (auto simp: procps_pids_get_def get_stack_def get_restart_def)
  then show ?thesis using 1 by blast
qed

subsection \<open>An example\<close>

text \<open>A context is made, used by \<open>reap\<close> and released: all directories are closed.\<close>

lemma sample_reaped:
  obtains info lib info' lib' where
    "procps_pids_new sample_new_env (Some None) (Some sample_items) 2 sample_statics = (0, Some (Some info), lib)"
    "procps_pids_reap sample_pids PIDS_FETCH_TASKS_ONLY (Some info) lib = Some (True, Some info', lib')"
    "pids_wf [28, 36] info'" "pi_refcount info' = 1"
proof -
  obtain info lib where n: "procps_pids_new sample_new_env (Some None) (Some sample_items) 2 sample_statics = (0, Some (Some info), lib)"
      "pids_wf [28, 36] info" "pi_fetch_PT info = None" "pl_rp lib = fresh_state" "pl_open lib = closed" "pi_oldflags info = 0"
    by (rule sample_context)
  have "pi_refcount info = 1" using new_wf [OF n(1)] by (simp add: sample_items_def)
  moreover obtain p q PT lib1 where sc: "scanned sample_pids 0 [] ([], 0) False lib = Some ([p, q], PT, lib1)" "\<not> rs_nomem (pl_rp lib1)"
    using sample_scanned [OF n(4,5)] by blast
  moreover have "pi_curitems info \<noteq> 0" using n(2) by (simp add: pids_wf_def configured_pids_def)
  ultimately show thesis
    using harvest_fills [OF n(2,3) sample_memory sc(1,2), of 1] n(1,6) that sample_tty
    by (auto simp: procps_pids_reap_def PIDS_FETCH_TASKS_ONLY_def)
qed

lemma pids_streams_balanced_witness:
  "\<exists>i lib lib'. procps_pids_new sample_new_env (Some None) (Some sample_items) 2 sample_statics = (0, Some (Some i), lib)
     \<and> (\<exists>c. pids_step (Some i, lib) (Reap sample_pids PIDS_FETCH_TASKS_ONLY) c \<and> pids_step c Unref (None, lib'))
     \<and> pl_dirs lib' = pl_dirs sample_statics"
proof -
  obtain i lib i1 lib1 where r: "procps_pids_new sample_new_env (Some None) (Some sample_items) 2 sample_statics = (0, Some (Some i), lib)"
      "procps_pids_reap sample_pids PIDS_FETCH_TASKS_ONLY (Some i) lib = Some (True, Some i1, lib1)" "pids_wf [28, 36] i1"
      "pi_refcount i1 = 1"
    by (rule sample_reaped)
  have s1: "pids_step (Some i, lib) (Reap sample_pids PIDS_FETCH_TASKS_ONLY) (Some i1, lib1)" by (rule step_reap [OF r(2)])
  obtain lib2 where "procps_pids_unref (Some i1) lib1 = Some (0, None, lib2)"
    using unref_defined [OF r(3), of lib1] r(4) by (auto simp: procps_pids_unref_def Let_def split: option.splits)
  then have s2: "pids_step (Some i1, lib1) Unref (None, lib2)" by (rule step_unref)
  have "pids_reach (\<lambda>_. True) (Some i, lib) (None, lib2)"
    using s1 s2 reach_start reach_step [where Q = "\<lambda>_. True"] by blast
  from pids_streams_balanced [OF r(1) this] show ?thesis using r(1) s1 s2 by auto
qed

lemma pids_context_safe_witness:
  "\<exists>i lib i1 lib1. procps_pids_new sample_new_env (Some None) (Some sample_items) 2 sample_statics = (0, Some (Some i), lib)
     \<and> pids_step (Some i, lib) (Reap sample_pids PIDS_FETCH_TASKS_ONLY) (Some i1, lib1)
     \<and> procps_pids_unref (Some i1) lib1 \<noteq> None
     \<and> (\<exists>rc i' lib'. procps_pids_reset True (Some sample_items) 1 (Some i1) lib1 = Some (rc, Some i', lib') \<and> pids_wf [28] i')"
proof -
  obtain i lib i1 lib1 where r: "procps_pids_new sample_new_env (Some None) (Some sample_items) 2 sample_statics = (0, Some (Some i), lib)"
      "procps_pids_reap sample_pids PIDS_FETCH_TASKS_ONLY (Some i) lib = Some (True, Some i1, lib1)"
    by (rule sample_reaped)
  have s1: "pids_step (Some i, lib) (Reap sample_pids PIDS_FETCH_TASKS_ONLY) (Some i1, lib1)" by (rule step_reap [OF r(2)])
  have "room_ok sample_pids" using sample_memory by (rule memory_room)
  then have s2: "pids_reach call_ok (Some i, lib) (Some i1, lib1)"
    using s1 by (intro reach_step [OF reach_start, of call_ok "Reap sample_pids PIDS_FETCH_TASKS_ONLY"]) simp_all
  have it: "\<not> pids_items_check_failed sample_items 1" "take (nat 1) (snd sample_items) = [28]" "int (length (snd sample_items)) = 2"
    by (simp_all add: pids_items_check_failed_def sample_items_def PIDS_logical_end_def)
  have "procps_pids_unref (Some i1) lib1 \<noteq> None \<and>
      (\<exists>rc i' lib'. procps_pids_reset True (Some sample_items) 1 (Some i1) lib1 = Some (rc, Some i', lib') \<and> pids_wf [28] i')"
    using pids_context_safe [OF r(1) _ s2, of 1 sample_items] it by simp
  then show ?thesis using r(1) s1 by blast
qed

text \<open>A context whose first \<open>get\<close> finds no memory for the table.\<close>

definition no_table :: pids_env where
  "no_table = sample_pids\<lparr>pv_open := (sample_open [])\<lparr>oe_calloc := False\<rparr>\<rparr>"

lemma pids_get_null_table_witness:
  "\<exists>i lib i1 lib1. procps_pids_new sample_new_env (Some None) (Some sample_items) 2 sample_statics = (0, Some (Some i), lib)
     \<and> procps_pids_get no_table PIDS_FETCH_TASKS_ONLY (Some i) lib = Some (None, Some i1, lib1)
     \<and> procps_pids_get sample_pids PIDS_FETCH_TASKS_ONLY (Some i1) lib1 = None"
proof -
  obtain i lib where n: "procps_pids_new sample_new_env (Some None) (Some sample_items) 2 sample_statics = (0, Some (Some i), lib)"
      "pids_wf [28, 36] i"
    by (rule sample_context)
  have t: "pi_get_ext i = None" "pi_get_type i = PIDS_FETCH_TASKS_ONLY"
    using new_tables [OF n(1)] by (simp_all add: tables_def no_pids_def PIDS_FETCH_TASKS_ONLY_def)
  have e: "pv_stack_ok no_table" by (simp add: no_table_def sample_pids_def)
  obtain lib1 where o1: "pids_oldproc_open no_table None (pi_oldflags i) [] ([], 0) lib = (False, None, lib1)"
    by (simp add: pids_oldproc_open_def no_table_def openproc_def)
  show ?thesis
    using pids_get_null_table [OF n(2) t disjI1 [OF refl] e o1, of sample_pids lib1] n(1) by blast
qed

end
