(* ===== verification/Fileutils.thy ===== *)
theory Fileutils
  imports Prelude
begin

text \<open>
  \<^verbatim>\<open>procps/linux/fileutils.c\<close>: closing the standard streams at exit, so that output which could
  not be written turns into a failure of the program. What \<open>__fpending\<close>, \<open>ferror\<close> and \<open>fclose\<close> say
  of a stream is a parameter.
\<close>

definition EBADF :: int where "EBADF = 9"
definition EPIPE :: int where "EPIPE = 32"

record closing =
  cg_pending :: bool
  cg_error :: bool
  cg_fclose :: "int option"     \<comment> \<open>\<open>errno\<close> if \<open>fclose\<close> fails\<close>

text \<open>Whether it failed, and \<open>errno\<close>.\<close>

definition close_stream :: "closing \<Rightarrow> int \<Rightarrow> bool \<times> int" where
  "close_stream g errno =
     (let errno1 = (case cg_fclose g of None \<Rightarrow> errno | Some err \<Rightarrow> err); fclose_fail = (cg_fclose g \<noteq> None)
      in if cg_error g \<or> fclose_fail \<and> (cg_pending g \<or> errno1 \<noteq> EBADF)
         then (True, if \<not> fclose_fail \<and> errno1 \<noteq> EPIPE then 0 else errno1)
         else (False, errno1))"

text \<open>Whether the program fails at exit, and whether it says so: with the \<open>errno\<close> of the message.\<close>

definition close_stdout :: "closing \<Rightarrow> closing \<Rightarrow> int \<Rightarrow> bool \<times> int option" where
  "close_stdout out err errno =
     (case close_stream out errno of
        (failed, errno1) \<Rightarrow>
          if failed \<and> errno1 \<noteq> EPIPE then (True, Some errno1)
          else (fst (close_stream err errno1), None))"

text \<open>
  A standard output whose every character was written is never blamed, and one with an error is always, but
  for a reader that went away.
\<close>

lemma close_stdout_quiet:
  "\<not> cg_error out \<Longrightarrow> cg_fclose out = None \<Longrightarrow> snd (close_stdout out err errno) = None"
  by (simp add: close_stdout_def close_stream_def)

lemma close_stdout_reports:
  assumes "cg_error out" "case cg_fclose out of None \<Rightarrow> errno \<noteq> EPIPE | Some e \<Rightarrow> e \<noteq> EPIPE"
  shows "fst (close_stdout out err errno)" "snd (close_stdout out err errno) = Some (case cg_fclose out of None \<Rightarrow> 0 | Some e \<Rightarrow> e)"
  using assms by (auto simp: close_stdout_def close_stream_def EPIPE_def Let_def split: option.splits)

end
