(* ===== verification/TopForest.thy ===== *)
theory TopForest
  imports Pids PidsItemsSpec
begin

text \<open>
  Two parts of the command \<^verbatim>\<open>procps/linux/top.c\<close> that are algorithms on what the library returns: the table of its
  fields, and the forest view, which orders the processes as a tree of parents and children and hides
  the children of the parents the user has collapsed.

  The stacks are in the store of \<open>Pids\<close>, by address, and the arrays of pointers are lists of addresses. They are
  the stacks of a reap for \<open>top\<close>, which have a result for every row of \<open>Fieldstab\<close>.
\<close>

subsection \<open>The fields\<close>

definition pflag :: "string list" where
  "pflag =
    [''EU_PID'', ''EU_PPD'', ''EU_UED'', ''EU_UEN'', ''EU_URD'', ''EU_URN'', ''EU_USD'', ''EU_USN'', ''EU_GID'',
     ''EU_GRP'', ''EU_PGD'', ''EU_TTY'', ''EU_TPG'', ''EU_SID'', ''EU_PRI'', ''EU_NCE'', ''EU_THD'', ''EU_CPN'',
     ''EU_CPU'', ''EU_TME'', ''EU_TM2'', ''EU_MEM'', ''EU_VRT'', ''EU_SWP'', ''EU_RES'', ''EU_COD'', ''EU_DAT'',
     ''EU_SHR'', ''EU_FL1'', ''EU_FL2'', ''EU_DRT'', ''EU_STA'', ''EU_CMD'', ''EU_WCH'', ''EU_FLG'', ''EU_CGR'',
     ''EU_SGD'', ''EU_SGN'', ''EU_TGD'', ''EU_OOA'', ''EU_OOM'', ''EU_ENV'', ''EU_FV1'', ''EU_FV2'', ''EU_USE'',
     ''EU_NS1'', ''EU_NS2'', ''EU_NS3'', ''EU_NS4'', ''EU_NS5'', ''EU_NS6'', ''EU_LXC'', ''EU_RZA'', ''EU_RZF'',
     ''EU_RZL'', ''EU_RZS'', ''EU_CGN'', ''EU_NMA'', ''EU_LID'', ''EU_EXE'', ''EU_RSS'', ''EU_PSS'', ''EU_PZA'',
     ''EU_PZF'', ''EU_PZS'', ''EU_USS'', ''EU_IRB'', ''EU_IRO'', ''EU_IWB'', ''EU_IWO'', ''EU_AGI'', ''EU_AGN'',
     ''EU_TM3'', ''EU_TM4'', ''EU_CUU'', ''EU_CUC'']"

definition EU_PID :: nat where "EU_PID = 0"
definition EU_PPD :: nat where "EU_PPD = 1"
definition EU_UED :: nat where "EU_UED = 2"
definition EU_URD :: nat where "EU_URD = 4"
definition EU_USD :: nat where "EU_USD = 6"
definition EU_CPU :: nat where "EU_CPU = 18"
definition EU_CMD :: nat where "EU_CMD = 32"
definition EU_TGD :: nat where "EU_TGD = 38"
definition EU_MAXPFLGS :: nat where "EU_MAXPFLGS = 76"
definition eu_CMDLINE :: nat where "eu_CMDLINE = 76"
definition eu_TICS_ALL_C :: nat where "eu_TICS_ALL_C = 77"
definition eu_ID_FUID :: nat where "eu_ID_FUID = 78"
definition eu_TREE_HID :: nat where "eu_TREE_HID = 79"
definition eu_TREE_LVL :: nat where "eu_TREE_LVL = 80"
definition eu_TREE_ADD :: nat where "eu_TREE_ADD = 81"

datatype fld_align = A_left | A_right | A_none

definition SK_Kb :: int where "SK_Kb = 0"

text \<open>Width, scale, alignment and item of a field.\<close>

definition Fieldstab :: "(int \<times> int \<times> fld_align \<times> string) list" where
  "Fieldstab =
    [(0, - 1, A_right, ''ID_PID''), (0, - 1, A_right, ''ID_PPID''), (5, - 1, A_right, ''ID_EUID''),
     (8, - 1, A_left, ''ID_EUSER''), (5, - 1, A_right, ''ID_RUID''), (8, - 1, A_left, ''ID_RUSER''),
     (5, - 1, A_right, ''ID_SUID''), (8, - 1, A_left, ''ID_SUSER''), (5, - 1, A_right, ''ID_EGID''),
     (8, - 1, A_left, ''ID_EGROUP''), (0, - 1, A_right, ''ID_PGRP''), (8, - 1, A_left, ''TTY_NAME''),
     (0, - 1, A_right, ''ID_TPGID''), (0, - 1, A_right, ''ID_SESSION''), (3, - 1, A_right, ''PRIORITY''),
     (3, - 1, A_right, ''NICE''), (3, - 1, A_right, ''NLWP''), (0, - 1, A_right, ''PROCESSOR''),
     (5, - 1, A_right, ''TICS_ALL_DELTA''), (6, - 1, A_right, ''TICS_ALL''), (9, - 1, A_right, ''TICS_ALL''),
     (5, - 1, A_right, ''MEM_RES''), (7, SK_Kb, A_right, ''MEM_VIRT''), (6, SK_Kb, A_right, ''VM_SWAP''),
     (6, SK_Kb, A_right, ''MEM_RES''), (6, SK_Kb, A_right, ''MEM_CODE''), (7, SK_Kb, A_right, ''MEM_DATA''),
     (6, SK_Kb, A_right, ''MEM_SHR''), (4, - 1, A_right, ''FLT_MAJ''), (4, - 1, A_right, ''FLT_MIN''),
     (4, - 1, A_right, ''noop''), (1, - 1, A_right, ''STATE''), (- 1, - 1, A_left, ''CMD''),
     (10, - 1, A_left, ''WCHAN_NAME''), (8, - 1, A_left, ''FLAGS''), (- 1, - 1, A_left, ''CGROUP''),
     (- 1, - 1, A_left, ''SUPGIDS''), (- 1, - 1, A_left, ''SUPGROUPS''), (0, - 1, A_right, ''ID_TGID''),
     (5, - 1, A_right, ''OOM_ADJ''), (4, - 1, A_right, ''OOM_SCORE''), (- 1, - 1, A_left, ''ENVIRON''),
     (3, - 1, A_right, ''FLT_MAJ_DELTA''), (3, - 1, A_right, ''FLT_MIN_DELTA''), (6, SK_Kb, A_right, ''VM_USED''),
     (10, - 1, A_right, ''NS_IPC''), (10, - 1, A_right, ''NS_MNT''), (10, - 1, A_right, ''NS_NET''),
     (10, - 1, A_right, ''NS_PID''), (10, - 1, A_right, ''NS_USER''), (10, - 1, A_right, ''NS_UTS''),
     (8, - 1, A_left, ''LXCNAME''), (6, SK_Kb, A_right, ''VM_RSS_ANON''), (6, SK_Kb, A_right, ''VM_RSS_FILE''),
     (6, SK_Kb, A_right, ''VM_RSS_LOCKED''), (6, SK_Kb, A_right, ''VM_RSS_SHARED''), (- 1, - 1, A_left, ''CGNAME''),
     (0, - 1, A_right, ''PROCESSOR_NODE''), (5, - 1, A_right, ''ID_LOGIN''), (- 1, - 1, A_left, ''EXE''),
     (6, SK_Kb, A_right, ''SMAP_RSS''), (6, SK_Kb, A_right, ''SMAP_PSS''), (6, SK_Kb, A_right, ''SMAP_PSS_ANON''),
     (6, SK_Kb, A_right, ''SMAP_PSS_FILE''), (6, SK_Kb, A_right, ''SMAP_PSS_SHMEM''),
     (6, SK_Kb, A_right, ''SMAP_PRV_TOTAL''), (6, - 1, A_right, ''IO_READ_BYTES''),
     (5, - 1, A_right, ''IO_READ_OPS''), (6, - 1, A_right, ''IO_WRITE_BYTES''), (5, - 1, A_right, ''IO_WRITE_OPS''),
     (5, - 1, A_right, ''AUTOGRP_ID''), (4, - 1, A_right, ''AUTOGRP_NICE''), (7, - 1, A_right, ''TICS_BEGAN''),
     (7, - 1, A_right, ''TIME_ELAPSED''), (6, - 1, A_right, ''UTILIZATION''), (6, - 1, A_right, ''UTILIZATION_C''),
     (- 1, - 1, A_none, ''CMDLINE''), (- 1, - 1, A_none, ''TICS_ALL_C''), (- 1, - 1, A_none, ''ID_FUID''),
     (- 1, - 1, A_none, ''extra''), (- 1, - 1, A_none, ''extra''), (- 1, - 1, A_none, ''extra'')]"

subsection \<open>Stacks\<close>

definition stk :: "stack_store \<Rightarrow> nat \<Rightarrow> stack" where
  "stk h a = (case h a of None \<Rightarrow> [] | Some s \<Rightarrow> s)"

definition s_int_at :: "nat \<Rightarrow> nat \<Rightarrow> stack_store \<Rightarrow> int" where
  "s_int_at E a h = rd_s_int (cell_val E (stk h a))"

definition u_int_at :: "nat \<Rightarrow> nat \<Rightarrow> stack_store \<Rightarrow> 32 word" where
  "u_int_at E a h = rd_u_int (cell_val E (stk h a))"

definition put_at :: "nat \<Rightarrow> rval \<Rightarrow> nat \<Rightarrow> stack_store \<Rightarrow> stack_store" where
  "put_at E v a h = (case h a of None \<Rightarrow> h | Some s \<Rightarrow> h(a \<mapsto> s[E := (s ! E)\<lparr>rc_val := v\<rparr>]))"

subsection \<open>Building the tree\<close>

text \<open>\<open>Tree_ppt\<close>, \<open>Tree_idx\<close> and the stacks.\<close>

record forest =
  fo_tree :: "nat list"
  fo_idx :: nat
  fo_heap :: stack_store

text \<open>\<open>b\<close> is a thread of \<open>a\<close>, or a process whose parent is \<open>a\<close>.\<close>

definition is_child :: "stack_store \<Rightarrow> nat \<Rightarrow> nat \<Rightarrow> bool" where
  "is_child h a b \<longleftrightarrow>
     s_int_at EU_PID a h = s_int_at EU_TGD b h
     \<or> s_int_at EU_PID a h = s_int_at EU_PPD b h \<and> s_int_at EU_PID b h = s_int_at EU_TGD b h"

definition cap_level :: "int \<Rightarrow> int" where
  "cap_level level = (if 100 < level then 101 else level)"

definition add_entry :: "nat \<Rightarrow> int \<Rightarrow> forest \<Rightarrow> forest" where
  "add_entry a level f =
     \<lparr>fo_tree = (fo_tree f)[fo_idx f := a], fo_idx = fo_idx f + 1,
      fo_heap = put_at eu_TREE_LVL (S_int level) a (fo_heap f)\<rparr>"

text \<open>The recursion and its loop; \<open>self\<close> is a place of the array.\<close>

function forest_adds :: "nat list \<Rightarrow> nat \<Rightarrow> int \<Rightarrow> forest \<Rightarrow> forest"
  and forest_children :: "nat list \<Rightarrow> nat \<Rightarrow> int \<Rightarrow> nat \<Rightarrow> forest \<Rightarrow> forest" where
  "forest_adds seed self level f =
     (if fo_idx f < length seed \<and> self < length seed
      then forest_children seed self (cap_level level) (self + 1) (add_entry (seed ! self) (cap_level level) f)
      else f)"
| "forest_children seed self level i f =
     (if i < length seed
      then forest_children seed self level (i + 1)
             (if is_child (fo_heap f) (seed ! self) (seed ! i) then forest_adds seed i (level + 1) f else f)
      else f)"
  by pat_completeness auto
termination
  by (relation "measure (\<lambda>x. case x of Inl (seed, self, _, _) \<Rightarrow> 2 * (length seed - self) + 1
        | Inr (seed, _, _, i, _) \<Rightarrow> 2 * (length seed - i) + 2)") auto

declare forest_adds.simps [simp del] forest_children.simps [simp del]

text \<open>Everyone who is not in the tree yet starts a tree.\<close>

definition forest_root :: "nat list \<Rightarrow> nat \<Rightarrow> forest \<Rightarrow> forest" where
  "forest_root seed i f = (if s_int_at eu_TREE_LVL (seed ! i) (fo_heap f) = 0 then forest_adds seed i 0 f else f)"

definition forest_fill :: "nat list \<Rightarrow> forest \<Rightarrow> forest" where
  "forest_fill seed f = fold (forest_root seed) [0 ..< length seed] f"

subsection \<open>Collapsed parents\<close>

text \<open>The entries after the parent that are deeper than it: whether there are any, and the stacks.\<close>

fun hide_run :: "nat list \<Rightarrow> int \<Rightarrow> nat \<Rightarrow> stack_store \<Rightarrow> bool \<times> stack_store" where
  "hide_run [] level parent h = (False, h)"
| "hide_run (a # as) level parent h =
     (if level < s_int_at eu_TREE_LVL a h
      then
        let h1 = put_at eu_TREE_HID (S_ch (CHR ''z'')) a h;
            h2 = put_at eu_TREE_ADD (U_int (u_int_at eu_TREE_ADD parent h1 + u_int_at EU_CPU a h1)) parent h1
        in (True, snd (hide_run as level parent h2))
      else (False, h))"

text \<open>One process of \<open>Hide_pid\<close>; the pid that is found nowhere is not looked for again.\<close>

definition hide_pid :: "nat list \<Rightarrow> int \<Rightarrow> stack_store \<Rightarrow> int \<times> stack_store" where
  "hide_pid tree pid h =
     (if pid \<le> 0 then (pid, h)
      else case dropWhile (\<lambda>a. s_int_at EU_PID a h \<noteq> pid) tree of
             [] \<Rightarrow> (- pid, h)
           | parent # as \<Rightarrow>
               (case hide_run as (s_int_at eu_TREE_LVL parent h) parent h of
                  (children, h1) \<Rightarrow> (pid, if children then put_at eu_TREE_HID (S_ch (CHR ''x'')) parent h1 else h1)))"

fun hide_pids :: "nat list \<Rightarrow> int list \<Rightarrow> stack_store \<Rightarrow> int list \<times> stack_store" where
  "hide_pids tree [] h = ([], h)"
| "hide_pids tree (pid # pids) h =
     (case hide_pid tree pid h of
        (pid1, h1) \<Rightarrow> (case hide_pids tree pids h1 of (pids1, h2) \<Rightarrow> (pid1 # pids1, h2)))"

text \<open>The key that collapses or expands a process: its entry changes its sign, or one is added.\<close>

definition hide_toggle :: "int \<Rightarrow> int list \<Rightarrow> int list" where
  "hide_toggle pid hide =
     (let i = length (takeWhile (\<lambda>x. x \<noteq> pid \<and> x \<noteq> - pid) hide)
      in if i = length hide then hide @ [pid]
         else let hide1 = hide[i := - (hide ! i)] in if list_ex (\<lambda>x. 0 < x) hide1 then hide1 else [])"

subsection \<open>A frame\<close>

text \<open>What is kept: \<open>Tree_ppt\<close>, \<open>Tree_idx\<close> and \<open>Hide_pid\<close> up to \<open>Hide_tot\<close>.\<close>

record top_tree =
  tt_tree :: "nat list"
  tt_idx :: nat
  tt_hide :: "int list"

text \<open>
  The array of the window, the context with its stacks, and the statics. \<open>raw\<close> is what the memory that
  \<open>realloc\<close> adds holds. The outer \<open>None\<close> is that of the sort; \<open>Some None\<close> means that \<open>top\<close> ends with an error.
\<close>

definition forest_grow :: "(nat \<Rightarrow> nat) \<Rightarrow> nat \<Rightarrow> nat list \<Rightarrow> nat list" where
  "forest_grow raw n tree = (if length tree < n then tree @ map raw [length tree ..< n] else tree)"

definition forest_build :: "(nat \<Rightarrow> nat) \<Rightarrow> nat list \<Rightarrow> pids_info \<Rightarrow> top_tree \<Rightarrow> pids_info \<times> top_tree" where
  "forest_build raw seed info t =
     (let f = forest_fill seed
                \<lparr>fo_tree = forest_grow raw (length seed) (tt_tree t), fo_idx = tt_idx t, fo_heap = pi_heap info\<rparr>
      in case hide_pids (take (length seed) (fo_tree f)) (tt_hide t) (fo_heap f) of
           (hide, h) \<Rightarrow> (info\<lparr>pi_heap := h\<rparr>, \<lparr>tt_tree = fo_tree f, tt_idx = fo_idx f, tt_hide = hide\<rparr>))"

definition forest_begin ::
  "string_order \<Rightarrow> (nat \<Rightarrow> nat) \<Rightarrow> nat list \<Rightarrow> pids_info \<Rightarrow> top_tree \<Rightarrow> (nat list \<times> pids_info \<times> top_tree) option option" where
  "forest_begin so raw ppt info t =
     (if tt_idx t \<noteq> 0 then Some (Some (take (length ppt) (tt_tree t), info, t))
      else
        case procps_pids_sort so (Some info) (Some ppt) (length (takeWhile (\<lambda>(n, _). n \<noteq> ''TICS_BEGAN'') pids_item_enum)) 1 of
          None \<Rightarrow> None
        | Some None \<Rightarrow> Some None
        | Some (Some seed) \<Rightarrow>
            (case forest_build raw seed info t of
               (info1, t1) \<Rightarrow> Some (Some (take (length ppt) (tt_tree t1), info1, t1))))"

subsection \<open>Focus\<close>

record focus =
  fw_pid :: int
  fw_beg :: nat
  fw_end :: nat
  fw_begtask :: nat
  fw_begnext :: int

text \<open>The entry with the pid and the deeper ones after it; the window is not scrolled above them.\<close>

definition forest_config :: "nat list \<Rightarrow> stack_store \<Rightarrow> focus \<Rightarrow> focus" where
  "forest_config ppt h q =
     (let i = length (takeWhile (\<lambda>a. fw_pid q \<noteq> s_int_at EU_PID a h) ppt)
      in if i = length ppt then q\<lparr>fw_pid := 0, fw_begtask := 0\<rparr>
         else
           let level = s_int_at eu_TREE_LVL (ppt ! i) h;
               below = length (takeWhile (\<lambda>a. level < s_int_at eu_TREE_LVL a h) (drop (i + 1) ppt));
               q1 = q\<lparr>fw_beg := i, fw_end := i + below + 1\<rparr>
           in if fw_begtask q1 < i then q1\<lparr>fw_begtask := i, fw_begnext := 0\<rparr> else q1)"

text \<open>The artwork before the name of a process: \<open>forest\<close> is whether the view is on, \<open>current\<close> whether the window is.\<close>

definition forest_display :: "bool \<Rightarrow> bool \<Rightarrow> bool \<Rightarrow> int \<Rightarrow> nat \<Rightarrow> stack_store \<Rightarrow> string" where
  "forest_display forest cmdlin current focus_pid a h =
     (let which = rd_str (cell_val (if cmdlin then eu_CMDLINE else EU_CMD) (stk h a));
          level = s_int_at eu_TREE_LVL a h; pad = (\<lambda>n s. pad_left (nat n) (CHR '' '') s);
          buf = take (1024 * 64 * 2 - 1)
      in if \<not> forest \<or> level = 0 then which
         else if current \<and> rd_s_ch (cell_val eu_TREE_HID (stk h a)) = 120
           then buf (''+'' @ pad (4 * level - 1) [CHR 0x60, CHR ''-'', CHR '' ''] @ which)
         else if 100 < level then buf (pad 400 '' +  '' @ which)
         else if focus_pid \<noteq> 0 then buf (''|'' @ pad (4 * level - 1) [CHR 0x60, CHR ''-'', CHR '' ''] @ which)
         else buf (pad (4 * level) [CHR '' '', CHR 0x60, CHR ''-'', CHR '' ''] @ which))"

subsection \<open>The user selection of a window\<close>

record user_selection =
  us_typ :: int           \<comment> \<open>0, or the character \<open>u\<close> or \<open>U\<close>\<close>
  us_uid :: int
  us_flg :: bool

definition wins_usrselect :: "user_selection \<Rightarrow> nat \<Rightarrow> stack_store \<Rightarrow> bool" where
  "wins_usrselect q a h =
     (let uid = (word_of_int (us_uid q) :: 32 word); is = (\<lambda>E. u_int_at E a h = uid)
      in if us_typ q = 0 then True
         else if us_typ q = 85 \<and> (is EU_URD \<or> is EU_USD \<or> is eu_ID_FUID) then us_flg q
         else if (us_typ q = 85 \<or> us_typ q = 117) \<and> is EU_UED then us_flg q
         else \<not> us_flg q)"

subsection \<open>The table agrees with the flags and with the library\<close>

text \<open>The types of the results as \<open>top\<close> reads them, from the comments of the table.\<close>

definition Fieldstab_types :: "string list" where
  "Fieldstab_types =
    [''s_int'', ''s_int'', ''u_int'', ''str'', ''u_int'', ''str'', ''u_int'', ''str'', ''u_int'', ''str'', ''s_int'',
     ''str'', ''s_int'', ''s_int'', ''s_int'', ''s_int'', ''s_int'', ''s_int'', ''u_int'', ''ull_int'', ''ull_int'',
     ''ul_int'', ''ul_int'', ''ul_int'', ''ul_int'', ''ul_int'', ''ul_int'', ''ul_int'', ''ul_int'', ''ul_int'',
     ''ul_int'', ''s_ch'', ''str'', ''str'', ''ul_int'', ''str'', ''str'', ''str'', ''s_int'', ''s_int'', ''s_int'',
     ''str'', ''s_int'', ''s_int'', ''ul_int'', ''ul_int'', ''ul_int'', ''ul_int'', ''ul_int'', ''ul_int'',
     ''ul_int'', ''str'', ''ul_int'', ''ul_int'', ''ul_int'', ''ul_int'', ''str'', ''s_int'', ''s_int'', ''str'',
     ''ul_int'', ''ul_int'', ''ul_int'', ''ul_int'', ''ul_int'', ''ul_int'', ''ul_int'', ''ul_int'', ''ul_int'',
     ''ul_int'', ''s_int'', ''s_int'', ''ull_int'', ''real'', ''real'', ''real'', ''str'', ''ull_int'', ''u_int'',
     ''s_ch'', ''s_int'', ''s_int'']"

lemma Fieldstab_in_sync: "length Fieldstab = length pflag + 6" "length Fieldstab_types = length Fieldstab" "length pflag = EU_MAXPFLGS"
  by (simp_all add: Fieldstab_def pflag_def Fieldstab_types_def EU_MAXPFLGS_def)

lemma pflag_places:
  "map (\<lambda>E. pflag ! E) [EU_PID, EU_PPD, EU_UED, EU_URD, EU_USD, EU_CPU, EU_CMD, EU_TGD] =
     [''EU_PID'', ''EU_PPD'', ''EU_UED'', ''EU_URD'', ''EU_USD'', ''EU_CPU'', ''EU_CMD'', ''EU_TGD'']"
  by code_simp

end
