(* ===== verification/TopForestSpec.thy ===== *)
theory TopForestSpec
  imports TopForest
begin

text \<open>
  The forest view of \<^verbatim>\<open>top\<close>: the recursion of \<open>forest_adds\<close> writes the processes in the order of a
  recursive definition, every process once, and each after its parent with a level one deeper.
\<close>

subsection \<open>The order, by a recursive definition\<close>

definition kids :: "nat list \<Rightarrow> stack_store \<Rightarrow> nat \<Rightarrow> nat \<Rightarrow> nat list" where
  "kids seed h self i = filter (\<lambda>j. is_child h (seed ! self) (seed ! j)) [i ..< length seed]"

function pre_order :: "nat list \<Rightarrow> stack_store \<Rightarrow> nat \<Rightarrow> int \<Rightarrow> (nat \<times> int) list" where
  "pre_order seed h self level =
     (self, cap_level level) # concat (map (\<lambda>j. pre_order seed h j (cap_level level + 1)) (kids seed h self (self + 1)))"
  by pat_completeness auto
termination
  by (relation "measure (\<lambda>(seed, h, self, level). length seed - self)") (auto simp: kids_def)

declare pre_order.simps [simp del]

definition has_parent :: "nat list \<Rightarrow> stack_store \<Rightarrow> nat \<Rightarrow> bool" where
  "has_parent seed h i \<longleftrightarrow> list_ex (\<lambda>p. is_child h (seed ! p) (seed ! i)) [0 ..< i]"

definition roots :: "nat list \<Rightarrow> stack_store \<Rightarrow> nat \<Rightarrow> nat list" where
  "roots seed h k = filter (\<lambda>i. \<not> has_parent seed h i) [0 ..< k]"

definition forest_order :: "nat list \<Rightarrow> stack_store \<Rightarrow> nat \<Rightarrow> (nat \<times> int) list" where
  "forest_order seed h k = concat (map (\<lambda>r. pre_order seed h r 0) (roots seed h k))"

subsection \<open>Writing entries\<close>

definition add_all :: "nat list \<Rightarrow> (nat \<times> int) list \<Rightarrow> forest \<Rightarrow> forest" where
  "add_all seed es f = fold (\<lambda>(i, l). add_entry (seed ! i) l) es f"

lemma add_all_simps [simp]:
  "add_all seed [] f = f" "add_all seed ((i, l) # es) f = add_all seed es (add_entry (seed ! i) l f)"
  "add_all seed (xs @ ys) f = add_all seed ys (add_all seed xs f)"
  by (simp_all add: add_all_def)

lemma add_all_idx [simp]: "fo_idx (add_all seed es f) = fo_idx f + length es"
  by (induction es arbitrary: f) (auto simp: add_entry_def)

text \<open>A level is written where nothing else is read.\<close>

lemma put_at_other: "E \<noteq> E' \<Longrightarrow> s_int_at E' b (put_at E v a h) = s_int_at E' b h"
  by (auto simp: s_int_at_def put_at_def stk_def cell_val_def split: option.split)

lemma is_child_level [simp]: "is_child (put_at eu_TREE_LVL v a h) x y = is_child h x y"
  by (simp add: is_child_def put_at_other eu_TREE_LVL_def EU_PID_def EU_TGD_def EU_PPD_def)

lemma add_entry_sel:
  "fo_idx (add_entry a l f) = fo_idx f + 1" "is_child (fo_heap (add_entry a l f)) x y = is_child (fo_heap f) x y"
  by (simp_all add: add_entry_def)

lemma is_child_add_all [simp]: "is_child (fo_heap (add_all seed es f)) x y = is_child (fo_heap f) x y"
proof (induction es arbitrary: f)
  case (Cons e es)
  obtain i l where e: "e = (i, l)" by (cases e)
  show ?case by (simp only: e add_all_simps Cons.IH add_entry_sel)
qed simp

subsection \<open>The recursion writes the order\<close>

lemma kids_rec: "kids seed h self i =
   (if i < length seed then (if is_child h (seed ! self) (seed ! i) then i # kids seed h self (i + 1) else kids seed h self (i + 1)) else [])"
  by (cases "i < length seed") (simp_all add: kids_def upt_conv_Cons)

lemma kids_cong: "is_child h = is_child h' \<Longrightarrow> kids seed h = kids seed h'"
  by (simp add: kids_def fun_eq_iff)

lemma pre_order_cong: "is_child h = is_child h' \<Longrightarrow> pre_order seed h self level = pre_order seed h' self level"
proof (induction seed h self level rule: pre_order.induct)
  case (1 seed h self level)
  have "map (\<lambda>j. pre_order seed h j (cap_level level + 1)) (kids seed h self (self + 1))
      = map (\<lambda>j. pre_order seed h' j (cap_level level + 1)) (kids seed h self (self + 1))"
    using 1 by (intro map_cong) simp_all
  then show ?case by (subst (1 2) pre_order.simps) (simp only: kids_cong [OF 1(2)])
qed

lemma same_children:
  "is_child (fo_heap (add_entry a l f)) = is_child (fo_heap f)" "is_child (fo_heap (add_all seed es f)) = is_child (fo_heap f)"
  by (simp_all add: fun_eq_iff add_entry_sel(2))

lemma forest_adds_order:
  "self < length seed \<Longrightarrow> fo_idx f + length (pre_order seed (fo_heap f) self level) \<le> length seed
     \<Longrightarrow> forest_adds seed self level f = add_all seed (pre_order seed (fo_heap f) self level) f"
  "fo_idx f + length (concat (map (\<lambda>j. pre_order seed (fo_heap f) j (level + 1)) (kids seed (fo_heap f) self i))) \<le> length seed
     \<Longrightarrow> forest_children seed self level i f
       = add_all seed (concat (map (\<lambda>j. pre_order seed (fo_heap f) j (level + 1)) (kids seed (fo_heap f) self i))) f"
proof (induction seed self level f and seed self level i f rule: forest_adds_forest_children.induct)
  case (1 seed self level f)
  let ?f = "add_entry (seed ! self) (cap_level level) f"
  have k: "kids seed (fo_heap ?f) = kids seed (fo_heap f)" by (rule kids_cong [OF same_children(1)])
  have p: "pre_order seed (fo_heap ?f) j l = pre_order seed (fo_heap f) j l" for j l by (rule pre_order_cong [OF same_children(1)])
  have len: "fo_idx f + Suc (length (concat (map (\<lambda>j. pre_order seed (fo_heap f) j (cap_level level + 1))
      (kids seed (fo_heap f) self (self + 1))))) \<le> length seed"
    using 1(3) by (subst (asm) pre_order.simps) simp
  have lt: "fo_idx f < length seed \<and> self < length seed" using len 1(2) by simp
  have "forest_adds seed self level f = forest_children seed self (cap_level level) (self + 1) ?f"
    using lt by (subst forest_adds.simps) simp
  also have "\<dots> = add_all seed (concat (map (\<lambda>j. pre_order seed (fo_heap ?f) j (cap_level level + 1))
      (kids seed (fo_heap ?f) self (self + 1)))) ?f"
    by (rule 1(1) [OF lt]) (use len in \<open>simp add: k p add_entry_sel(1)\<close>)
  also have "\<dots> = add_all seed (pre_order seed (fo_heap f) self level) f"
    by (subst (2) pre_order.simps) (simp add: k p)
  finally show ?case .
next
  case (2 seed self level i f)
  show ?case
  proof (cases "i < length seed")
    case False
    then show ?thesis by (simp add: forest_children.simps [of seed self level i] kids_rec [of seed _ self i])
  next
    case True
    show ?thesis
    proof (cases "is_child (fo_heap f) (seed ! self) (seed ! i)")
      case c: True
      let ?es = "pre_order seed (fo_heap f) i (level + 1)" and ?rest = "kids seed (fo_heap f) self (i + 1)"
      have kr: "kids seed (fo_heap f) self i = i # ?rest" using True c by (subst kids_rec) simp
      have len: "fo_idx f + (length ?es + length (concat (map (\<lambda>j. pre_order seed (fo_heap f) j (level + 1)) ?rest))) \<le> length seed"
        using 2(3) by (simp add: kr)
      have a: "forest_adds seed i (level + 1) f = add_all seed ?es f"
        by (rule 2(1) [OF True c True]) (use len in simp)
      have k: "kids seed (fo_heap (add_all seed ?es f)) = kids seed (fo_heap f)" by (rule kids_cong [OF same_children(2)])
      have p: "pre_order seed (fo_heap (add_all seed ?es f)) j l = pre_order seed (fo_heap f) j l" for j l
        by (rule pre_order_cong [OF same_children(2)])
      have "forest_children seed self level i f = forest_children seed self level (i + 1) (add_all seed ?es f)"
        using True c a by (subst forest_children.simps) simp
      also have "\<dots> = add_all seed (concat (map (\<lambda>j. pre_order seed (fo_heap (add_all seed ?es f)) j (level + 1))
          (kids seed (fo_heap (add_all seed ?es f)) self (i + 1)))) (add_all seed ?es f)"
        using 2(2) [OF True] c a len by (simp add: k p)
      also have "\<dots> = add_all seed (concat (map (\<lambda>j. pre_order seed (fo_heap f) j (level + 1)) (kids seed (fo_heap f) self i))) f"
        by (simp add: k p kr)
      finally show ?thesis .
    next
      case c: False
      have kr: "kids seed (fo_heap f) self i = kids seed (fo_heap f) self (i + 1)" using True c by (subst kids_rec) simp
      have "forest_children seed self level i f = forest_children seed self level (i + 1) f"
        using True c by (subst forest_children.simps) simp
      then show ?thesis using 2(2) [OF True] 2(3) c by (simp add: kr)
    qed
  qed
qed

subsection \<open>Every process once\<close>

definition own_pids :: "nat list \<Rightarrow> stack_store \<Rightarrow> bool" where
  "own_pids seed h \<longleftrightarrow> distinct (map (\<lambda>a. s_int_at EU_PID a h) seed)"

lemma same_pid: "own_pids seed h \<Longrightarrow> a < length seed \<Longrightarrow> b < length seed
    \<Longrightarrow> s_int_at EU_PID (seed ! a) h = s_int_at EU_PID (seed ! b) h \<Longrightarrow> a = b"
  using nth_eq_iff_index_eq [of "map (\<lambda>a. s_int_at EU_PID a h) seed" a b] by (simp add: own_pids_def)

lemma one_parent:
  assumes "own_pids seed h" "a < length seed" "b < length seed" "c < length seed" "a \<noteq> c" "b \<noteq> c"
    and "is_child h (seed ! a) (seed ! c)" "is_child h (seed ! b) (seed ! c)"
  shows "a = b"
proof -
  have "s_int_at EU_PID (seed ! a) h \<noteq> s_int_at EU_PID (seed ! c) h" "s_int_at EU_PID (seed ! b) h \<noteq> s_int_at EU_PID (seed ! c) h"
    using same_pid [OF assms(1)] assms(2-6) by blast+
  then have "s_int_at EU_PID (seed ! a) h = s_int_at EU_PID (seed ! b) h" using assms(7,8) by (auto simp: is_child_def)
  then show ?thesis using same_pid [OF assms(1-3)] by simp
qed

text \<open>How often a process is written.\<close>

definition written :: "nat \<Rightarrow> (nat \<times> int) list \<Rightarrow> nat" where
  "written k es = count_list (map fst es) k"

lemma written_simps [simp]: "written k [] = 0" "written k ((i, l) # es) = (if i = k then 1 else 0) + written k es"
    "written k (xs @ ys) = written k xs + written k ys"
  by (simp_all add: written_def)

lemma written_concat: "written k (concat (map f xs)) = sum_list (map (\<lambda>x. written k (f x)) xs)"
  by (induction xs) simp_all

lemma written_0: "written k es = 0 \<longleftrightarrow> k \<notin> fst ` set es"
  by (simp add: written_def count_list_0_iff)

lemma sum_list_one: "distinct xs \<Longrightarrow> sum_list (map (\<lambda>c. if c = k then 1 else 0) xs) = (if k \<in> set xs then 1 else (0 :: nat))"
  by (induction xs) auto

lemma kids_bounds: "j \<in> set (kids seed h self i) \<longleftrightarrow> i \<le> j \<and> j < length seed \<and> is_child h (seed ! self) (seed ! j)"
  by (auto simp: kids_def)

lemma pre_order_bounds:
  "e \<in> set (pre_order seed h self level) \<Longrightarrow> self < length seed \<Longrightarrow> self \<le> fst e \<and> fst e < length seed"
proof (induction seed h self level rule: pre_order.induct)
  case (1 seed h self level)
  from 1(2) consider "e = (self, cap_level level)"
    | j where "j \<in> set (kids seed h self (self + 1))" "e \<in> set (pre_order seed h j (cap_level level + 1))"
    by (subst (asm) pre_order.simps) auto
  then show ?case
  proof cases
    case 2
    then show ?thesis using 1(1) [OF 2] kids_bounds [of j] by auto
  qed (use 1 in simp)
qed

lemma written_below: "k < self \<Longrightarrow> self < length seed \<Longrightarrow> written k (pre_order seed h self level) = 0"
  using pre_order_bounds by (fastforce simp: written_0)

lemma written_pre: "written k (pre_order seed h self level) =
    (if self = k then 1 else 0) + sum_list (map (\<lambda>j. written k (pre_order seed h j (cap_level level + 1))) (kids seed h self (self + 1)))"
  by (subst pre_order.simps) (simp add: written_concat)

lemma written_self: "self < length seed \<Longrightarrow> written self (pre_order seed h self level) = 1"
proof -
  assume a: "self < length seed"
  have "map (\<lambda>j. written self (pre_order seed h j (cap_level level + 1))) (kids seed h self (self + 1))
      = map (\<lambda>j. 0) (kids seed h self (self + 1))"
    by (rule map_cong [OF refl]) (auto simp: kids_bounds intro: written_below)
  then show ?thesis by (simp add: written_pre [of self seed h self level] del: map_eq_conv)
qed

text \<open>A process is written as often as its parent, and without a parent only as a root.\<close>

lemma written_parent:
  assumes "own_pids seed h" "p < k" "k < length seed" "is_child h (seed ! p) (seed ! k)"
  shows "self < length seed \<Longrightarrow> self \<noteq> k \<Longrightarrow> written k (pre_order seed h self level) = written p (pre_order seed h self level)"
  using assms
proof (induction seed h self level rule: pre_order.induct)
  case (1 seed h self level)
  let ?kids = "kids seed h self (self + 1)" and ?pre = "\<lambda>j. pre_order seed h j (cap_level level + 1)"
  have lt: "j < length seed" "self < j" if "j \<in> set ?kids" for j using that by (simp_all add: kids_bounds)
  have IH: "written k (?pre j) = written p (?pre j)" if "j \<in> set ?kids" "j \<noteq> k" for j
    using 1(1) [OF that(1) lt(1) [OF that(1)] that(2) 1(4-7)] .
  have k: "written k (pre_order seed h self level) = sum_list (map (\<lambda>j. written k (?pre j)) ?kids)"
    using 1(3) by (simp add: written_pre [of k seed h self level] del: map_eq_conv)
  show ?case
  proof (cases "p = self")
    case True
    have "map (\<lambda>j. written k (?pre j)) ?kids = map (\<lambda>j. if j = k then 1 else 0) ?kids"
    proof (rule map_cong [OF refl])
      fix j assume j: "j \<in> set ?kids"
      have "written self (?pre j) = 0" by (rule written_below) (use lt [OF j] in simp_all)
      then show "written k (?pre j) = (if j = k then 1 else 0)"
        using IH [OF j] True written_self [OF lt(1) [OF j]] by auto
    qed
    moreover have "k \<in> set ?kids" using True 1(5-7) by (simp add: kids_bounds)
    moreover have "distinct ?kids" by (simp add: kids_def)
    ultimately have "written k (pre_order seed h self level) = 1" by (simp add: k sum_list_one del: map_eq_conv)
    then show ?thesis using True written_self [OF 1(2)] by simp
  next
    case False
    have ne: "j \<noteq> k" if "j \<in> set ?kids" for j
      using one_parent [OF 1(4), of self p k] that 1(2,3,5-7) False by (auto simp: kids_bounds)
    have "map (\<lambda>j. written k (?pre j)) ?kids = map (\<lambda>j. written p (?pre j)) ?kids"
      by (intro map_cong refl IH ne)
    then show ?thesis using False by (simp add: k written_pre [of p seed h self level] del: map_eq_conv)
  qed
qed

lemma written_no_parent:
  assumes "\<not> has_parent seed h k"
  shows "self < length seed \<Longrightarrow> self \<noteq> k \<Longrightarrow> written k (pre_order seed h self level) = 0"
  using assms
proof (induction seed h self level rule: pre_order.induct)
  case (1 seed h self level)
  have "map (\<lambda>j. written k (pre_order seed h j (cap_level level + 1))) (kids seed h self (self + 1))
      = map (\<lambda>j. 0) (kids seed h self (self + 1))"
  proof (rule map_cong [OF refl])
    fix j assume j: "j \<in> set (kids seed h self (self + 1))"
    then have "j \<noteq> k" using 1(4) by (auto simp: kids_bounds has_parent_def list_ex_iff)
    then show "written k (pre_order seed h j (cap_level level + 1)) = 0"
      using 1(1) [OF j] j 1(4) by (simp add: kids_bounds)
  qed
  then show ?case using 1(3) by (simp add: written_pre [of k seed h self level] del: map_eq_conv)
qed

lemma roots_set: "i \<in> set (roots seed h k) \<longleftrightarrow> i < k \<and> \<not> has_parent seed h i"
  by (auto simp: roots_def)

lemma written_order:
  assumes "own_pids seed h" "k \<le> length seed" "m < length seed"
  shows "\<not> has_parent seed h m \<Longrightarrow> written m (forest_order seed h k) = (if m < k then 1 else 0)"
    and "p < m \<Longrightarrow> is_child h (seed ! p) (seed ! m) \<Longrightarrow> written m (forest_order seed h k) = written p (forest_order seed h k)"
proof -
  have b: "r < length seed" if "r \<in> set (roots seed h k)" for r using that assms(2) by (auto simp: roots_set)
  show "written m (forest_order seed h k) = (if m < k then 1 else 0)" if np: "\<not> has_parent seed h m"
  proof -
    have "map (\<lambda>r. written m (pre_order seed h r 0)) (roots seed h k) = map (\<lambda>r. if r = m then 1 else 0) (roots seed h k)"
      by (rule map_cong [OF refl]) (use b written_self written_no_parent [OF np] in auto)
    moreover have "distinct (roots seed h k)" by (simp add: roots_def)
    ultimately show ?thesis using np by (simp add: forest_order_def written_concat sum_list_one roots_set del: map_eq_conv)
  qed
  show "written m (forest_order seed h k) = written p (forest_order seed h k)" if c: "p < m" "is_child h (seed ! p) (seed ! m)"
  proof -
    have "map (\<lambda>r. written m (pre_order seed h r 0)) (roots seed h k) = map (\<lambda>r. written p (pre_order seed h r 0)) (roots seed h k)"
    proof (rule map_cong [OF refl])
      fix r assume r: "r \<in> set (roots seed h k)"
      have "r \<noteq> m" using r c by (auto simp: roots_set has_parent_def list_ex_iff)
      then show "written m (pre_order seed h r 0) = written p (pre_order seed h r 0)"
        using written_parent [OF assms(1) c(1) assms(3) c(2) b [OF r]] by simp
    qed
    then show ?thesis by (simp add: forest_order_def written_concat del: map_eq_conv)
  qed
qed

lemma written_once:
  assumes "own_pids seed h" "k \<le> length seed" "m < k"
  shows "written m (forest_order seed h k) = 1"
  using assms(3)
proof (induction m rule: less_induct)
  case (less m)
  have m: "m < length seed" using less.prems assms(2) by simp
  show ?case
  proof (cases "has_parent seed h m")
    case True
    then obtain p where p: "p < m" "is_child h (seed ! p) (seed ! m)" by (auto simp: has_parent_def list_ex_iff)
    then show ?thesis using written_order(2) [OF assms(1,2) m p] less by simp
  next
    case False
    then show ?thesis using written_order(1) [OF assms(1,2) m] less.prems by simp
  qed
qed

lemma order_bounds: "e \<in> set (forest_order seed h k) \<Longrightarrow> k \<le> length seed \<Longrightarrow> fst e < length seed"
  using pre_order_bounds by (fastforce simp: forest_order_def roots_set)

text \<open>The order of the whole array has every place once.\<close>

lemma order_places:
  assumes "own_pids seed h"
  shows "mset (map fst (forest_order seed h (length seed))) = mset [0 ..< length seed]"
proof (rule multiset_eqI)
  fix m
  let ?es = "forest_order seed h (length seed)"
  have c: "count (mset (map fst ?es)) m = written m ?es" unfolding written_def by (rule count_mset)
  show "count (mset (map fst ?es)) m = count (mset [0 ..< length seed]) m"
  proof (cases "m < length seed")
    case True
    then show ?thesis using written_once [OF assms, of "length seed" m] c by (simp add: count_mset_set)
  next
    case False
    then have "written m ?es = 0" using order_bounds [of _ seed h "length seed"] by (auto simp: written_0)
    then show ?thesis using c False by (simp add: count_mset_set)
  qed
qed

lemma length_order: "own_pids seed h \<Longrightarrow> length (forest_order seed h (length seed)) = length seed"
  using arg_cong [OF order_places, of seed h size] by simp

subsection \<open>The levels\<close>

definition stacks_there :: "nat list \<Rightarrow> stack_store \<Rightarrow> bool" where
  "stacks_there seed h \<longleftrightarrow> list_all (\<lambda>a. case h a of None \<Rightarrow> False | Some s \<Rightarrow> eu_TREE_ADD < length s) seed"

lemma stacks_there_nth: "stacks_there seed h \<Longrightarrow> i < length seed \<Longrightarrow> \<exists>s. h (seed ! i) = Some s \<and> eu_TREE_ADD < length s"
  by (auto simp: stacks_there_def list_all_length split: option.splits)

lemma put_at_there: "stacks_there seed h \<Longrightarrow> stacks_there seed (put_at E v a h)"
  by (auto simp: stacks_there_def put_at_def list_all_iff split: option.splits)

lemma add_entry_heap: "fo_heap (add_entry a l f) = put_at eu_TREE_LVL (S_int l) a (fo_heap f)"
  by (simp add: add_entry_def)

lemma stacks_there_add: "stacks_there seed (fo_heap f) \<Longrightarrow> stacks_there seed (fo_heap (add_all seed es f))"
proof (induction es arbitrary: f)
  case (Cons e es)
  obtain i l where e: "e = (i, l)" by (cases e)
  show ?case using Cons.IH [of "add_entry (seed ! i) l f"] put_at_there [OF Cons.prems] by (simp add: e add_entry_heap)
qed simp

abbreviation level_at :: "nat \<Rightarrow> stack_store \<Rightarrow> int" where
  "level_at \<equiv> s_int_at eu_TREE_LVL"

lemma level_put:
  assumes "h a = Some s" "eu_TREE_LVL < length s"
  shows "level_at b (put_at eu_TREE_LVL (S_int l) a h) = (if b = a then l else level_at b h)"
  using assms by (simp add: s_int_at_def put_at_def stk_def cell_val_def rd_s_int_def)

lemma level_add_entry:
  assumes "stacks_there seed (fo_heap f)" "i < length seed"
  shows "level_at b (fo_heap (add_entry (seed ! i) l f)) = (if b = seed ! i then l else level_at b (fo_heap f))"
proof -
  obtain s where "fo_heap f (seed ! i) = Some s" "eu_TREE_ADD < length s" using stacks_there_nth [OF assms] by blast
  then show ?thesis using level_put [of "fo_heap f" "seed ! i" s b l] by (simp add: add_entry_heap eu_TREE_ADD_def eu_TREE_LVL_def)
qed

lemma level_add_all:
  assumes "stacks_there seed (fo_heap f)" "distinct seed" "list_all (\<lambda>e. fst e < length seed) es" "k < length seed"
  shows "if written k es = 0 then level_at (seed ! k) (fo_heap (add_all seed es f)) = level_at (seed ! k) (fo_heap f)
    else (k, level_at (seed ! k) (fo_heap (add_all seed es f))) \<in> set es"
  using assms
proof (induction es arbitrary: f)
  case (Cons e es)
  obtain i l where e: "e = (i, l)" by (cases e)
  let ?f = "add_entry (seed ! i) l f"
  have i: "i < length seed" using Cons.prems e by simp
  have there: "stacks_there seed (fo_heap ?f)" using put_at_there Cons.prems(1) by (simp add: add_entry_heap)
  have eq: "seed ! k = seed ! i \<longleftrightarrow> k = i" using nth_eq_iff_index_eq [of seed k i] Cons.prems i by blast
  have lv: "level_at (seed ! k) (fo_heap ?f) = (if k = i then l else level_at (seed ! k) (fo_heap f))"
    using level_add_entry [OF Cons.prems(1) i] eq by simp
  have rest: "list_all (\<lambda>e. fst e < length seed) es" using Cons.prems by simp
  show ?case
    using Cons.IH [OF there Cons.prems(2) rest Cons.prems(4)] lv e by (auto split: if_splits)
qed simp

lemma cap_level_pos: "0 < l \<Longrightarrow> 0 < cap_level l"
  by (simp add: cap_level_def)

lemma pre_order_deeper: "(j, l) \<in> set (pre_order seed h self level) \<Longrightarrow> 0 \<le> level \<Longrightarrow> self < length seed \<Longrightarrow> 0 \<le> l \<and> (j \<noteq> self \<or> 0 < level \<longrightarrow> 0 < l)"
proof (induction seed h self level rule: pre_order.induct)
  case (1 seed h self level)
  from 1(2) consider "j = self" "l = cap_level level"
    | i where "i \<in> set (kids seed h self (self + 1))" "(j, l) \<in> set (pre_order seed h i (cap_level level + 1))"
    by (subst (asm) pre_order.simps) auto
  then show ?case
  proof cases
    case 1
    then show ?thesis using \<open>0 \<le> level\<close> by (auto simp: cap_level_def)
  next
    case 2
    then show ?thesis using 1(1) [OF 2] 1(3) kids_bounds [of i] by (auto simp: cap_level_def)
  qed
qed

subsection \<open>Filling the tree\<close>

lemma tree_add_all:
  assumes "fo_idx f + length es \<le> length (fo_tree f)"
  shows "length (fo_tree (add_all seed es f)) = length (fo_tree f)
    \<and> take (fo_idx f + length es) (fo_tree (add_all seed es f)) = take (fo_idx f) (fo_tree f) @ map (\<lambda>e. seed ! fst e) es"
  using assms
proof (induction es arbitrary: f)
  case (Cons e es)
  obtain i l where e: "e = (i, l)" by (cases e)
  let ?f = "add_entry (seed ! i) l f"
  have f: "fo_idx ?f = fo_idx f + 1" "fo_tree ?f = (fo_tree f)[fo_idx f := seed ! i]" by (simp_all add: add_entry_def)
  have "take (fo_idx f + 1) (fo_tree ?f) = take (fo_idx f) (fo_tree f) @ [seed ! i]"
    using Cons.prems by (simp add: f take_Suc_conv_app_nth)
  then show ?case using Cons.IH [of ?f] Cons.prems by (simp add: e f)
qed simp

lemma order_Suc: "forest_order seed h (Suc k) = forest_order seed h k @ (if has_parent seed h k then [] else pre_order seed h k 0)"
  by (simp add: forest_order_def roots_def)

lemma order_mono: "k \<le> n \<Longrightarrow> length (forest_order seed h k) \<le> length (forest_order seed h n)"
  by (induction rule: dec_induct) (simp_all add: order_Suc)

lemma order_level:
  assumes "(k, l) \<in> set (forest_order seed h n)" "n \<le> length seed"
  shows "0 \<le> l" "has_parent seed h k \<Longrightarrow> 0 < l"
proof -
  obtain r where r: "r \<in> set (roots seed h n)" "(k, l) \<in> set (pre_order seed h r 0)"
    using assms(1) by (auto simp: forest_order_def)
  then have "r < length seed" "\<not> has_parent seed h r" using assms(2) by (auto simp: roots_set)
  then show "0 \<le> l" "has_parent seed h k \<Longrightarrow> 0 < l" using pre_order_deeper [OF r(2)] by auto
qed

lemma fill_prefix:
  assumes "stacks_there seed (fo_heap f)" "distinct seed" "own_pids seed (fo_heap f)" "fo_idx f = 0"
    and "list_all (\<lambda>a. level_at a (fo_heap f) = 0) seed" "k \<le> length seed"
  shows "fold (forest_root seed) [0 ..< k] f = add_all seed (forest_order seed (fo_heap f) k) f"
  using assms(6)
proof (induction k)
  case 0
  then show ?case by (simp add: forest_order_def roots_def)
next
  case (Suc k)
  let ?h = "fo_heap f" and ?es = "forest_order seed (fo_heap f) k"
  let ?f = "add_all seed ?es f"
  have k: "k < length seed" using Suc.prems by simp
  have prev: "fold (forest_root seed) [0 ..< k] f = ?f" using Suc by simp
  have step: "fold (forest_root seed) [0 ..< Suc k] f = forest_root seed k ?f"
    using prev by (simp del: upt_Suc add: upt_Suc_append)
  have b: "list_all (\<lambda>e. fst e < length seed) ?es" using order_bounds k by (fastforce simp: list_all_iff)
  have lv: "if written k ?es = 0 then level_at (seed ! k) (fo_heap ?f) = level_at (seed ! k) ?h
      else (k, level_at (seed ! k) (fo_heap ?f)) \<in> set ?es"
    by (rule level_add_all [OF assms(1,2) b k])
  show ?case
  proof (cases "has_parent seed ?h k")
    case True
    then obtain p where p: "p < k" "is_child ?h (seed ! p) (seed ! k)" by (auto simp: has_parent_def list_ex_iff)
    have "written k ?es = 1"
      using written_order(2) [OF assms(3) _ k p, of k] written_once [OF assms(3) _ p(1)] k by simp
    then have "0 < level_at (seed ! k) (fo_heap ?f)" using lv order_level(2) [OF _ _ True] k by auto
    then show ?thesis using True unfolding step by (simp add: forest_root_def order_Suc)
  next
    case False
    have "written k ?es = 0" using written_order(1) [OF assms(3) _ k False, of k] k by simp
    then have z: "level_at (seed ! k) (fo_heap ?f) = 0" using lv assms(5) k by (simp add: list_all_length)
    have o: "forest_order seed ?h (Suc k) = ?es @ pre_order seed ?h k 0" using False by (simp add: order_Suc)
    have "length (forest_order seed ?h (Suc k)) \<le> length seed"
      using order_mono [of "Suc k" "length seed" seed ?h] length_order [OF assms(3)] k by simp
    then have len: "fo_idx ?f + length (pre_order seed (fo_heap ?f) k 0) \<le> length seed"
      using assms(4) pre_order_cong [OF same_children(2) [of seed ?es f], of seed k 0] o by simp
    have "forest_adds seed k 0 ?f = add_all seed (pre_order seed (fo_heap ?f) k 0) ?f"
      by (rule forest_adds_order(1) [OF k len])
    also have "pre_order seed (fo_heap ?f) k 0 = pre_order seed ?h k 0"
      by (rule pre_order_cong [OF same_children(2)])
    finally show ?thesis unfolding step by (simp add: forest_root_def z o)
  qed
qed

lemma forest_fill_order:
  assumes "stacks_there seed h" "distinct seed" "own_pids seed h" "list_all (\<lambda>a. level_at a h = 0) seed" "length seed \<le> length tree"
  defines "f \<equiv> forest_fill seed \<lparr>fo_tree = tree, fo_idx = 0, fo_heap = h\<rparr>"
  shows "take (length seed) (fo_tree f) = map (\<lambda>e. seed ! fst e) (forest_order seed h (length seed))"
    and "list_all (\<lambda>(i, l). level_at (seed ! i) (fo_heap f) = l) (forest_order seed h (length seed))"
    and "stacks_there seed (fo_heap f)"
proof -
  let ?f = "\<lparr>fo_tree = tree, fo_idx = 0, fo_heap = h\<rparr>" and ?es = "forest_order seed h (length seed)"
  have f: "f = add_all seed ?es ?f"
    using fill_prefix [of seed ?f "length seed"] assms(1-4) by (simp add: f_def forest_fill_def)
  have len: "length ?es = length seed" by (rule length_order [OF assms(3)])
  show "take (length seed) (fo_tree f) = map (\<lambda>e. seed ! fst e) ?es"
    using tree_add_all [of ?f ?es seed] assms(5) len by (simp add: f)
  show "stacks_there seed (fo_heap f)" unfolding f by (rule stacks_there_add) (use assms(1) in simp)
  have d: "distinct (map fst ?es)" using order_places [OF assms(3)] by (metis distinct_upt mset_eq_imp_distinct_iff)
  have b: "list_all (\<lambda>e. fst e < length seed) ?es" using order_bounds by (fastforce simp: list_all_iff)
  show "list_all (\<lambda>(i, l). level_at (seed ! i) (fo_heap f) = l) ?es"
    unfolding list_all_iff
  proof clarify
    fix i l assume e: "(i, l) \<in> set ?es"
    then have i: "i < length seed" using b by (auto simp: list_all_iff)
    have "written i ?es \<noteq> 0" unfolding written_0 using e by force
    then have "(i, level_at (seed ! i) (fo_heap f)) \<in> set ?es"
      using level_add_all [of seed ?f ?es i] assms(1,2) b i by (simp add: f)
    then show "level_at (seed ! i) (fo_heap f) = l" using e d by (metis eq_key_imp_eq_value)
  qed
qed

subsection \<open>A frame\<close>

lemma level_put_other [simp]:
  "level_at b (put_at eu_TREE_HID v a h) = level_at b h" "level_at b (put_at eu_TREE_ADD v a h) = level_at b h"
  by (simp_all add: put_at_other eu_TREE_HID_def eu_TREE_ADD_def eu_TREE_LVL_def)

lemma hide_run_level [simp]: "level_at b (snd (hide_run as l p h)) = level_at b h"
  by (induction as l p h rule: hide_run.induct) (simp_all add: Let_def)

lemma hide_pid_level [simp]: "level_at b (snd (hide_pid tree pid h)) = level_at b h"
proof (cases "dropWhile (\<lambda>a. s_int_at EU_PID a h \<noteq> pid) tree")
  case (Cons parent as)
  obtain c h1 where r: "hide_run as (level_at parent h) parent h = (c, h1)" by (cases "hide_run as (level_at parent h) parent h")
  then have "level_at b h1 = level_at b h" by (metis hide_run_level snd_conv)
  then show ?thesis by (simp add: hide_pid_def Cons r)
next
  case Nil
  then show ?thesis by (simp only: hide_pid_def Nil list.case if_split snd_conv) simp
qed

lemma hide_pids_level [simp]: "level_at b (snd (hide_pids tree pids h)) = level_at b h"
proof (induction tree pids h rule: hide_pids.induct)
  case (2 tree pid pids h)
  obtain pid1 h1 where r: "hide_pid tree pid h = (pid1, h1)" by (cases "hide_pid tree pid h")
  then have "level_at b h1 = level_at b h" by (metis hide_pid_level snd_conv)
  then show ?case using 2 [OF r [symmetric]] r by (cases "hide_pids tree pids h1") simp
qed simp

lemma forest_grow_length: "n \<le> length (forest_grow raw n tree)"
  by (simp add: forest_grow_def)

abbreviation began_item :: item where
  "began_item \<equiv> length (takeWhile (\<lambda>(n, _). n \<noteq> ''TICS_BEGAN'') pids_item_enum)"

lemma sort_perm: "procps_pids_sort so (Some info) (Some ppt) it ord = Some (Some seed) \<Longrightarrow> mset seed = mset ppt"
  by (auto simp: procps_pids_sort_def Let_def qsort_perm split: if_splits option.splits)

text \<open>What a window gets from a reap: its stacks, one for each process, with the levels the library clears.\<close>

definition fresh_frame :: "nat list \<Rightarrow> stack_store \<Rightarrow> bool" where
  "fresh_frame ppt h \<longleftrightarrow> stacks_there ppt h \<and> distinct ppt \<and> own_pids ppt h \<and> list_all (\<lambda>a. level_at a h = 0) ppt"

lemma fresh_frame_perm: "mset xs = mset ys \<Longrightarrow> fresh_frame ys h \<Longrightarrow> fresh_frame xs h"
proof -
  assume m: "mset xs = mset ys" and f: "fresh_frame ys h"
  have s: "set xs = set ys" using m by (rule mset_eq_setD)
  have "mset (map (\<lambda>a. s_int_at EU_PID a h) xs) = mset (map (\<lambda>a. s_int_at EU_PID a h) ys)" using m by simp
  then have "own_pids xs h" using f mset_eq_imp_distinct_iff unfolding own_pids_def fresh_frame_def by blast
  moreover have "distinct xs" using m f mset_eq_imp_distinct_iff unfolding fresh_frame_def by blast
  ultimately show ?thesis using f s by (simp add: fresh_frame_def stacks_there_def list_all_iff)
qed

lemma fresh_frame_parts:
  assumes "fresh_frame seed h"
  shows "stacks_there seed h" "distinct seed" "own_pids seed h" "list_all (\<lambda>a. level_at a h = 0) seed"
  using assms by (simp_all add: fresh_frame_def)

lemma forest_fill_fresh:
  assumes "fresh_frame seed h" "length seed \<le> length tree"
  defines "f \<equiv> forest_fill seed \<lparr>fo_tree = tree, fo_idx = 0, fo_heap = h\<rparr>"
  shows "take (length seed) (fo_tree f) = map (\<lambda>e. seed ! fst e) (forest_order seed h (length seed))"
    and "list_all (\<lambda>(i, l). level_at (seed ! i) (fo_heap f) = l) (forest_order seed h (length seed))"
    and "stacks_there seed (fo_heap f)"
  unfolding f_def using forest_fill_order [OF fresh_frame_parts [OF assms(1)] assms(2)] by blast+

lemma forest_begin_frame:
  assumes "tt_idx t = 0" "procps_pids_sort so (Some info) (Some ppt) began_item 1 = Some (Some seed)"
  obtains f hide h' where "f = forest_fill seed \<lparr>fo_tree = forest_grow raw (length seed) (tt_tree t), fo_idx = 0, fo_heap = pi_heap info\<rparr>"
    "hide_pids (take (length seed) (fo_tree f)) (tt_hide t) (fo_heap f) = (hide, h')"
    "forest_begin so raw ppt info t = Some (Some (take (length seed) (fo_tree f), info\<lparr>pi_heap := h'\<rparr>,
      \<lparr>tt_tree = fo_tree f, tt_idx = fo_idx f, tt_hide = hide\<rparr>))"
proof -
  obtain tree where tree: "tree = forest_grow raw (length seed) (tt_tree t)" by blast
  obtain f where f: "f = forest_fill seed \<lparr>fo_tree = tree, fo_idx = 0, fo_heap = pi_heap info\<rparr>" by blast
  obtain hide h' where hh: "hide_pids (take (length seed) (fo_tree f)) (tt_hide t) (fo_heap f) = (hide, h')"
    by (cases "hide_pids (take (length seed) (fo_tree f)) (tt_hide t) (fo_heap f)")
  have n: "length seed = length ppt" using sort_perm [OF assms(2)] by (metis size_mset)
  have "forest_begin so raw ppt info t = Some (Some (take (length seed) (fo_tree f), info\<lparr>pi_heap := h'\<rparr>,
      \<lparr>tt_tree = fo_tree f, tt_idx = fo_idx f, tt_hide = hide\<rparr>))"
    using assms by (simp add: forest_begin_def forest_build_def tree [symmetric] f [symmetric] hh n [symmetric] Let_def)
  then show thesis using that f hh unfolding tree by blast
qed

lemma order_mset:
  assumes "own_pids seed h"
  shows "mset (map (\<lambda>e. seed ! fst e) (forest_order seed h (length seed))) = mset seed"
proof -
  let ?es = "forest_order seed h (length seed)"
  have "mset (map (\<lambda>e. seed ! fst e) ?es) = image_mset ((!) seed) (mset (map fst ?es))" by (simp add: multiset.map_comp comp_def)
  also have "\<dots> = mset (map ((!) seed) [0 ..< length seed])" unfolding order_places [OF assms] by simp
  finally show ?thesis by (simp only: map_nth)
qed

text \<open>
  C16. The forest view of a frame shows every process once, in the order of the recursive definition over
  the processes sorted by their start: a process, then the trees of its children one level deeper.
\<close>

theorem forest_view_order:
  assumes "tt_idx t = 0" "procps_pids_sort so (Some info) (Some ppt) began_item 1 = Some (Some seed)"
    and "fresh_frame ppt (pi_heap info)"
  shows "\<exists>ppt' info' t'. forest_begin so raw ppt info t = Some (Some (ppt', info', t'))
    \<and> ppt' = map (\<lambda>e. seed ! fst e) (forest_order seed (pi_heap info) (length seed))
    \<and> mset ppt' = mset ppt
    \<and> list_all (\<lambda>(i, l). level_at (seed ! i) (pi_heap info') = l) (forest_order seed (pi_heap info) (length seed))"
proof -
  let ?h = "pi_heap info" and ?es = "forest_order seed (pi_heap info) (length seed)"
  obtain f hide h' where f: "f = forest_fill seed \<lparr>fo_tree = forest_grow raw (length seed) (tt_tree t), fo_idx = 0, fo_heap = ?h\<rparr>"
    and hh: "hide_pids (take (length seed) (fo_tree f)) (tt_hide t) (fo_heap f) = (hide, h')"
    and b: "forest_begin so raw ppt info t = Some (Some (take (length seed) (fo_tree f), info\<lparr>pi_heap := h'\<rparr>,
      \<lparr>tt_tree = fo_tree f, tt_idx = fo_idx f, tt_hide = hide\<rparr>))"
    using forest_begin_frame [OF assms(1,2)] by blast
  have ff: "fresh_frame seed ?h" by (rule fresh_frame_perm [OF sort_perm [OF assms(2)] assms(3)])
  note o = forest_fill_fresh [OF ff forest_grow_length [of "length seed" raw "tt_tree t"], folded f]
  have lv: "level_at a h' = level_at a (fo_heap f)" for a
    using hide_pids_level [of a "take (length seed) (fo_tree f)" "tt_hide t" "fo_heap f"] hh by simp
  have "own_pids seed ?h" using ff by (simp add: fresh_frame_def)
  then have p: "mset (map (\<lambda>e. seed ! fst e) ?es) = mset ppt" using order_mset sort_perm [OF assms(2)] by metis
  show ?thesis
    using b o(1,2) p lv by (intro exI [of _ "take (length seed) (fo_tree f)"] exI [of _ "info\<lparr>pi_heap := h'\<rparr>"] exI) simp
qed

subsection \<open>Collapsing\<close>

text \<open>The descendants of a place: what its tree has besides it.\<close>

definition parent_of :: "nat list \<Rightarrow> stack_store \<Rightarrow> (nat \<times> nat) set" where
  "parent_of seed h = {(a, b). a < b \<and> b < length seed \<and> is_child h (seed ! a) (seed ! b)}"

lemma kids_parent: "j \<in> set (kids seed h self (self + 1)) \<longleftrightarrow> (self, j) \<in> parent_of seed h"
  by (auto simp: kids_bounds parent_of_def)

lemma trancl_first: "(\<Union>j\<in>{j. (a, j) \<in> R}. {i. (j, i) \<in> R\<^sup>*}) = {i. (a, i) \<in> R\<^sup>+}"
  by (auto intro: rtrancl_into_trancl2 dest: tranclD)

lemma rtrancl_first: "insert a (\<Union>j\<in>{j. (a, j) \<in> R}. {i. (j, i) \<in> R\<^sup>*}) = {i. (a, i) \<in> R\<^sup>*}"
  unfolding trancl_first by (auto simp: rtrancl_eq_or_trancl)

lemma set_kids: "set (kids seed h self (self + 1)) = {j. (self, j) \<in> parent_of seed h}"
  using kids_parent by blast

lemma pre_order_descendants:
  "fst ` set (pre_order seed h self level) = {j. (self, j) \<in> (parent_of seed h)\<^sup>*}"
proof (induction seed h self level rule: pre_order.induct)
  case (1 seed h self level)
  let ?R = "parent_of seed h"
  have "fst ` set (pre_order seed h self level)
      = insert self (\<Union>j\<in>set (kids seed h self (self + 1)). fst ` set (pre_order seed h j (cap_level level + 1)))"
    by (subst pre_order.simps) (auto simp: image_UN)
  also have "\<dots> = insert self (\<Union>j\<in>set (kids seed h self (self + 1)). {i. (j, i) \<in> ?R\<^sup>*})"
    using 1 by simp
  also have "\<dots> = {j. (self, j) \<in> ?R\<^sup>*}"
    by (simp only: set_kids rtrancl_first)
  finally show ?case .
qed

definition below :: "nat list \<Rightarrow> stack_store \<Rightarrow> nat \<Rightarrow> int \<Rightarrow> (nat \<times> int) list" where
  "below seed h self level = concat (map (\<lambda>j. pre_order seed h j (cap_level level + 1)) (kids seed h self (self + 1)))"

lemma pre_order_below: "pre_order seed h self level = (self, cap_level level) # below seed h self level"
  by (subst pre_order.simps) (simp add: below_def)

lemma below_descendants: "fst ` set (below seed h self level) = {j. (self, j) \<in> (parent_of seed h)\<^sup>+}"
proof -
  have "fst ` set (below seed h self level)
      = (\<Union>j\<in>set (kids seed h self (self + 1)). {i. (j, i) \<in> (parent_of seed h)\<^sup>*})"
    by (simp add: below_def image_UN pre_order_descendants)
  also have "\<dots> = {j. (self, j) \<in> (parent_of seed h)\<^sup>+}"
    by (simp only: set_kids trancl_first)
  finally show ?thesis .
qed

lemma cap_mono: "l \<le> m \<Longrightarrow> cap_level l \<le> cap_level m"
  by (simp add: cap_level_def)

lemma cap_cap [simp]: "cap_level (cap_level l) = cap_level l"
  by (simp add: cap_level_def)

lemma pre_order_min: "(j, l) \<in> set (pre_order seed h self level) \<Longrightarrow> cap_level level \<le> l \<and> cap_level l = l"
proof (induction seed h self level rule: pre_order.induct)
  case (1 seed h self level)
  from 1(2) consider "j = self" "l = cap_level level"
    | i where "i \<in> set (kids seed h self (self + 1))" "(j, l) \<in> set (pre_order seed h i (cap_level level + 1))"
    by (subst (asm) pre_order.simps) auto
  then show ?case
  proof cases
    case 2
    have "cap_level level \<le> cap_level (cap_level level + 1)" using cap_mono [of "cap_level level" "cap_level level + 1"] by simp
    then show ?thesis using 1(1) [OF 2] by linarith
  qed simp
qed

text \<open>In the order the descendants follow their ancestor, and what comes next is no deeper than it.\<close>

definition shallow :: "int \<Rightarrow> (nat \<times> int) list \<Rightarrow> bool" where
  "shallow l es \<longleftrightarrow> es = [] \<or> snd (hd es) \<le> l"

lemma shallow_append: "shallow l xs \<Longrightarrow> shallow l ys \<Longrightarrow> shallow l (xs @ ys)"
  by (cases xs) (simp_all add: shallow_def)

lemma shallow_trees: "cap_level m \<le> l \<Longrightarrow> shallow l (concat (map (\<lambda>j. pre_order seed h j m) ks))"
  by (cases ks) (simp_all add: shallow_def pre_order_below)

lemma pre_order_split:
  "(p, l) \<in> set (pre_order seed h self level)
     \<Longrightarrow> \<exists>xs ys. pre_order seed h self level = xs @ ((p, l) # below seed h p l) @ ys \<and> shallow l ys"
proof (induction seed h self level rule: pre_order.induct)
  case (1 seed h self level)
  let ?kids = "kids seed h self (self + 1)" and ?l = "cap_level level + 1"
  show ?case
  proof (cases "p = self \<and> l = cap_level level")
    case True
    then have "below seed h self level = below seed h p l" by (simp add: below_def)
    then show ?thesis using True by (intro exI [of _ "[]"]) (simp add: pre_order_below shallow_def)
  next
    case False
    then obtain i where i: "i \<in> set ?kids" "(p, l) \<in> set (pre_order seed h i ?l)"
      using 1(2) by (subst (asm) pre_order.simps) auto
    obtain k1 k2 where k: "?kids = k1 @ i # k2" using split_list [OF i(1)] by blast
    obtain xs ys where s: "pre_order seed h i ?l = xs @ ((p, l) # below seed h p l) @ ys" "shallow l ys"
      using 1(1) [OF i] by blast
    have le: "cap_level ?l \<le> l" using pre_order_min [OF i(2)] by simp
    have e: "pre_order seed h self level = ((self, cap_level level) # concat (map (\<lambda>j. pre_order seed h j ?l) k1) @ xs)
        @ ((p, l) # below seed h p l) @ (ys @ concat (map (\<lambda>j. pre_order seed h j ?l) k2))"
      by (simp only: pre_order_below [of seed h self level] below_def [of seed h self level] k s(1) map_append list.map
        concat_append concat.simps append.simps append_assoc)
    have "shallow l (ys @ concat (map (\<lambda>j. pre_order seed h j ?l) k2))"
      by (rule shallow_append [OF s(2) shallow_trees [OF le]])
    then show ?thesis using e by blast
  qed
qed

lemma order_split:
  assumes "(p, l) \<in> set (forest_order seed h n)" "n \<le> length seed"
  shows "\<exists>xs ys. forest_order seed h n = xs @ ((p, l) # below seed h p l) @ ys \<and> shallow l ys"
proof -
  obtain r where r: "r \<in> set (roots seed h n)" "(p, l) \<in> set (pre_order seed h r 0)"
    using assms(1) by (auto simp: forest_order_def)
  obtain k1 k2 where k: "roots seed h n = k1 @ r # k2" using split_list [OF r(1)] by blast
  obtain xs ys where s: "pre_order seed h r 0 = xs @ ((p, l) # below seed h p l) @ ys" "shallow l ys"
    using pre_order_split [OF r(2)] by blast
  have "shallow l (ys @ concat (map (\<lambda>j. pre_order seed h j 0) k2))"
    by (rule shallow_append [OF s(2) shallow_trees]) (use order_level(1) [OF assms] in \<open>simp add: cap_level_def\<close>)
  moreover have "forest_order seed h n = (concat (map (\<lambda>j. pre_order seed h j 0) k1) @ xs)
      @ ((p, l) # below seed h p l) @ (ys @ concat (map (\<lambda>j. pre_order seed h j 0) k2))"
    by (simp add: forest_order_def k s(1))
  ultimately show ?thesis by blast
qed

lemma below_deeper:
  assumes "(j, m) \<in> set (below seed h p l)" "l \<le> 100"
  shows "l < m"
proof -
  obtain i where "(j, m) \<in> set (pre_order seed h i (cap_level l + 1))"
    using assms(1) unfolding below_def by auto
  from pre_order_min [OF this] show ?thesis using assms(2) by (simp add: cap_level_def split: if_splits)
qed

text \<open>The mark of a stack: 120 is \<open>x\<close>, collapsed, and 122 is \<open>z\<close>, unseen.\<close>

definition hid_at :: "nat \<Rightarrow> stack_store \<Rightarrow> int" where
  "hid_at a h = rd_s_ch (cell_val eu_TREE_HID (stk h a))"

lemma hid_put_other [simp]:
  "hid_at b (put_at eu_TREE_ADD v a h) = hid_at b h" "hid_at b (put_at eu_TREE_LVL v a h) = hid_at b h"
  by (auto simp: hid_at_def put_at_def stk_def cell_val_def eu_TREE_HID_def eu_TREE_ADD_def eu_TREE_LVL_def split: option.split)

lemma pid_put_other [simp]:
  "s_int_at EU_PID b (put_at eu_TREE_LVL v a h) = s_int_at EU_PID b h"
  "s_int_at EU_PID b (put_at eu_TREE_HID v a h) = s_int_at EU_PID b h"
  "s_int_at EU_PID b (put_at eu_TREE_ADD v a h) = s_int_at EU_PID b h"
  by (simp_all add: put_at_other EU_PID_def eu_TREE_LVL_def eu_TREE_HID_def eu_TREE_ADD_def)

lemma hid_put:
  assumes "stacks_there as h" "a \<in> set as"
  shows "hid_at b (put_at eu_TREE_HID (S_ch c) a h) = (if b = a then rd_s_ch (S_ch c) else hid_at b h)"
proof -
  obtain s where "h a = Some s" "eu_TREE_ADD < length s"
    using assms by (auto simp: stacks_there_def list_all_iff split: option.splits)
  then show ?thesis by (simp add: hid_at_def put_at_def stk_def cell_val_def eu_TREE_HID_def eu_TREE_ADD_def)
qed

lemma rd_marks [simp]: "rd_s_ch (S_ch (CHR ''z'')) = 122" "rd_s_ch (S_ch (CHR ''x'')) = 120"
  by code_simp+

lemma hide_run_marks:
  assumes "list_all (\<lambda>a. l < level_at a h) as" "bs = [] \<or> level_at (hd bs) h \<le> l" "stacks_there all h" "set as \<subseteq> set all"
  shows "fst (hide_run (as @ bs) l parent h) = (as \<noteq> [])"
    and "stacks_there all (snd (hide_run (as @ bs) l parent h))"
    and "hid_at b (snd (hide_run (as @ bs) l parent h)) = (if b \<in> set as then 122 else hid_at b h)"
  using assms
proof (induction as arbitrary: h)
  case Nil
  have r: "bs = [] \<or> level_at (hd bs) h \<le> l \<Longrightarrow> hide_run bs l parent h = (False, h)" for h by (cases bs) auto
  { case 1 then show ?case using r [OF 1(2)] by simp }
  { case 2 then show ?case using r [OF 2(2)] by simp }
  { case 3 then show ?case using r [OF 3(2)] by simp }
next
  case (Cons a as)
  obtain m where m: "m = (\<lambda>h. put_at eu_TREE_HID (S_ch (CHR ''z'')) a h)" by blast
  obtain h2 where h2: "h2 = (\<lambda>h. put_at eu_TREE_ADD (U_int (u_int_at eu_TREE_ADD parent (m h) + u_int_at EU_CPU a (m h))) parent (m h))"
    by blast
  have step: "hide_run ((a # as) @ bs) l parent h = (True, snd (hide_run (as @ bs) l parent (h2 h)))" if "l < level_at a h" for h
    using that by (simp add: Let_def h2 m)
  have lv: "level_at x (h2 h) = level_at x h" for x h by (simp add: h2 m)
  have there: "stacks_there all (h2 h)" if "stacks_there all h" for h unfolding h2 m by (intro put_at_there that)
  have mark: "hid_at b (h2 h) = (if b = a then 122 else hid_at b h)" if "stacks_there all h" "set (a # as) \<subseteq> set all" for h
    using hid_put [of all h a b] that by (simp add: h2 m)
  { case 1
    then have "l < level_at a h" by simp
    from step [OF this] show ?case by (simp only: fst_conv) simp }
  { case 2
    then have "l < level_at a h" by simp
    then show ?case using Cons.IH(2) [of "h2 h"] 2 there by (simp only: step lv snd_conv) (simp add: lv) }
  { case 3
    then have "l < level_at a h" by simp
    then show ?case using Cons.IH(3) [of "h2 h"] 3 there mark by (simp only: step lv snd_conv) (simp add: lv) }
qed

lemma hid_heap_add_all: "hid_at b (fo_heap (add_all seed es f)) = hid_at b (fo_heap f)"
  and pid_heap_add_all: "s_int_at EU_PID b (fo_heap (add_all seed es f)) = s_int_at EU_PID b (fo_heap f)"
proof (induction es arbitrary: f)
  case (Cons e es)
  obtain i l where e: "e = (i, l)" by (cases e)
  { case 1 then show ?case using Cons.IH(1) by (simp add: e add_entry_heap) }
  { case 2 then show ?case using Cons.IH(2) by (simp add: e add_entry_heap) }
qed simp_all

lemma forest_fill_add_all:
  assumes "fresh_frame seed h"
  shows "forest_fill seed \<lparr>fo_tree = tree, fo_idx = 0, fo_heap = h\<rparr>
    = add_all seed (forest_order seed h (length seed)) \<lparr>fo_tree = tree, fo_idx = 0, fo_heap = h\<rparr>"
  using fill_prefix [of seed "\<lparr>fo_tree = tree, fo_idx = 0, fo_heap = h\<rparr>" "length seed"] fresh_frame_parts [OF assms]
  by (simp add: forest_fill_def)

lemma below_empty: "below seed h p l = [] \<longleftrightarrow> kids seed h p (p + 1) = []"
proof -
  have "pre_order seed h j m \<noteq> []" for j m by (subst pre_order.simps) simp
  then show ?thesis by (simp add: below_def)
qed

text \<open>The parent is found where it stands in the order, and its descendants follow.\<close>

lemma parent_found:
  assumes "own_pids seed h" "(p, l) \<in> set (forest_order seed h (length seed))"
    and "forest_order seed h (length seed) = xs @ ((p, l) # es) @ ys" "s_int_at EU_PID (seed ! p) h = pid"
    and "\<And>a. s_int_at EU_PID a h' = s_int_at EU_PID a h"
  shows "dropWhile (\<lambda>a. s_int_at EU_PID a h' \<noteq> pid) (map (\<lambda>e. seed ! fst e) (forest_order seed h (length seed)))
    = seed ! p # map (\<lambda>e. seed ! fst e) (es @ ys)"
proof -
  let ?os = "forest_order seed h (length seed)" and ?g = "\<lambda>e. seed ! fst e"
  have d: "distinct (map fst ?os)" using order_places [OF assms(1)] by (metis distinct_upt mset_eq_imp_distinct_iff)
  have lt: "fst e < length seed" if "e \<in> set ?os" for e using order_bounds [OF that] by simp
  have "s_int_at EU_PID (?g e) h' \<noteq> pid" if "e \<in> set xs" for e
  proof
    assume "s_int_at EU_PID (?g e) h' = pid"
    then have "s_int_at EU_PID (seed ! fst e) h = s_int_at EU_PID (seed ! p) h" using assms(4,5) by simp
    then have "fst e = p" using same_pid [OF assms(1)] lt [of e] lt [OF assms(2)] that assms(3) by simp
    then show False using d that unfolding assms(3) by auto
  qed
  then have "\<forall>a\<in>set (map ?g xs). s_int_at EU_PID a h' \<noteq> pid" by simp
  then have "dropWhile (\<lambda>a. s_int_at EU_PID a h' \<noteq> pid) (map ?g xs @ (?g (p, l) # map ?g (es @ ys)))
      = dropWhile (\<lambda>a. s_int_at EU_PID a h' \<noteq> pid) (?g (p, l) # map ?g (es @ ys))"
    by (subst dropWhile_append2) auto
  also have "\<dots> = seed ! p # map ?g (es @ ys)" using assms(4,5) by simp
  finally show ?thesis unfolding assms(3) by simp
qed

text \<open>The heap of a tree that is built: the levels and pids are those of the order.\<close>

definition built :: "nat list \<Rightarrow> stack_store \<Rightarrow> stack_store \<Rightarrow> bool" where
  "built seed h h' \<longleftrightarrow> stacks_there seed h' \<and> (\<forall>a. s_int_at EU_PID a h' = s_int_at EU_PID a h)
     \<and> list_all (\<lambda>(i, l). level_at (seed ! i) h' = l) (forest_order seed h (length seed))"

lemma built_put: "built seed h h' \<Longrightarrow> built seed h (put_at eu_TREE_HID v a h')"
  by (simp add: built_def put_at_there)

lemma pid_run [simp]: "s_int_at EU_PID b (snd (hide_run as l p h)) = s_int_at EU_PID b h"
  by (induction as l p h rule: hide_run.induct)
    (simp_all add: Let_def)

text \<open>What one collapsed process makes of the mark of another.\<close>

definition collapse_mark :: "nat list \<Rightarrow> stack_store \<Rightarrow> nat \<Rightarrow> nat \<Rightarrow> int \<Rightarrow> int" where
  "collapse_mark seed h i p m =
     (if (p, i) \<in> (parent_of seed h)\<^sup>+ then 122 else if i = p \<and> kids seed h p (p + 1) \<noteq> [] then 120 else m)"

lemma hide_pid_marks:
  assumes "own_pids seed h" "distinct seed" "built seed h h'" "(p, l) \<in> set (forest_order seed h (length seed))" "l \<le> 100"
    and "0 < s_int_at EU_PID (seed ! p) h"
  obtains h1 where "hide_pid (map (\<lambda>e. seed ! fst e) (forest_order seed h (length seed))) (s_int_at EU_PID (seed ! p) h) h'
      = (s_int_at EU_PID (seed ! p) h, h1)" "built seed h h1"
    "\<And>i. i < length seed \<Longrightarrow> hid_at (seed ! i) h1 = collapse_mark seed h i p (hid_at (seed ! i) h')"
proof -
  let ?os = "forest_order seed h (length seed)" and ?g = "\<lambda>e. seed ! fst e" and ?bs = "below seed h p l" and ?pid = "s_int_at EU_PID (seed ! p) h"
  have there: "stacks_there seed h'" and pid: "\<And>a. s_int_at EU_PID a h' = s_int_at EU_PID a h"
    and levels: "list_all (\<lambda>(i, l). level_at (seed ! i) h' = l) ?os" using assms(3) by (simp_all add: built_def)
  have lt: "fst e < length seed" if "e \<in> set ?os" for e using order_bounds [OF that] by simp
  have pl: "p < length seed" using lt [OF assms(4)] by simp
  have lv: "level_at (seed ! j) h' = m" if "(j, m) \<in> set ?os" for j m using levels that by (auto simp: list_all_iff)
  obtain xs ys where s: "?os = xs @ ((p, l) # ?bs) @ ys" "shallow l ys" using order_split [OF assms(4)] by blast
  obtain as where as: "as = map ?g ?bs" by blast
  obtain h1 where h1: "h1 = snd (hide_run (as @ map ?g ys) l (seed ! p) h')" by blast
  have m1: "list_all (\<lambda>a. l < level_at a h') as"
    unfolding as list_all_iff
  proof clarsimp
    fix j m assume e: "(j, m) \<in> set ?bs"
    then show "l < level_at (seed ! j) h'" using lv [of j m] below_deeper [OF e assms(5)] s(1) by simp
  qed
  have m2: "map ?g ys = [] \<or> level_at (hd (map ?g ys)) h' \<le> l"
    using s lv [of "fst (hd ys)" "snd (hd ys)"] by (cases ys) (simp_all add: shallow_def)
  have m4: "set as \<subseteq> set seed" unfolding as using lt s(1) by (auto intro!: nth_mem)
  note run = hide_run_marks [OF m1 m2 there m4, where parent = "seed ! p"]
  have found: "dropWhile (\<lambda>a. s_int_at EU_PID a h' \<noteq> ?pid) (map ?g ?os) = seed ! p # (as @ map ?g ys)"
    using parent_found [OF assms(1,4) s(1) refl pid] by (simp add: as)
  have b1: "built seed h h1" using assms(3) run(2) by (simp add: built_def h1)
  have base: "hid_at (seed ! i) h1 = (if seed ! i \<in> set as then 122 else hid_at (seed ! i) h')" for i using run(3) h1 by simp
  have desc: "seed ! i \<in> set as \<longleftrightarrow> (p, i) \<in> (parent_of seed h)\<^sup>+" if "i < length seed" for i
  proof -
    have "seed ! i \<in> set as \<longleftrightarrow> i \<in> fst ` set ?bs"
      unfolding as using nth_eq_iff_index_eq [OF assms(2) that] lt s(1) by force
    then show ?thesis using below_descendants [of seed h p l] by blast
  qed
  have up: "a < b" if "(a, b) \<in> (parent_of seed h)\<^sup>+" for a b
    using that by (induction rule: trancl_induct) (auto simp: parent_of_def)
  then have nn: "(p, p) \<notin> (parent_of seed h)\<^sup>+" by blast
  have e: "as \<noteq> [] \<longleftrightarrow> kids seed h p (p + 1) \<noteq> []" using below_empty [of seed h p l] by (simp add: as)
  have same: "seed ! i = seed ! p \<longleftrightarrow> i = p" if "i < length seed" for i using nth_eq_iff_index_eq [OF assms(2) that pl] .
  have put: "hid_at a (put_at eu_TREE_HID (S_ch (CHR ''x'')) (seed ! p) h1) = (if a = seed ! p then 120 else hid_at a h1)" for a
    using hid_put [of seed h1 "seed ! p" a "CHR ''x''"] b1 pl by (simp add: built_def)
  obtain h2 where h2: "h2 = (if as \<noteq> [] then put_at eu_TREE_HID (S_ch (CHR ''x'')) (seed ! p) h1 else h1)"
    by (rule that [OF refl])
  have "hide_run (as @ map ?g ys) l (seed ! p) h' = (as \<noteq> [], h1)"
    by (rule prod_eqI) (simp_all only: run(1) h1 fst_conv snd_conv)
  then have r: "hide_pid (map ?g ?os) ?pid h' = (?pid, h2)"
    using assms(6) lv [OF assms(4)] by (simp add: hide_pid_def found h2)
  have b2: "built seed h h2" using b1 built_put by (simp add: h2)
  have "hid_at (seed ! i) h2 = collapse_mark seed h i p (hid_at (seed ! i) h')" if "i < length seed" for i
  proof -
    have "hid_at (seed ! i) h2 = (if as \<noteq> [] \<and> i = p then 120 else hid_at (seed ! i) h1)"
      using put [of "seed ! i"] same [OF that] unfolding h2 by argo
    then show ?thesis
      using base [of i] desc [OF that] e nn unfolding collapse_mark_def by metis
  qed
  then show thesis by (rule that [OF r b2])
qed

lemma hide_pids_marks:
  assumes "own_pids seed h" "distinct seed" "built seed h h'"
    and "list_all (\<lambda>(p, l). (p, l) \<in> set (forest_order seed h (length seed)) \<and> l \<le> 100 \<and> 0 < s_int_at EU_PID (seed ! p) h) ps"
  shows "\<exists>h1. hide_pids (map (\<lambda>e. seed ! fst e) (forest_order seed h (length seed))) (map (\<lambda>e. s_int_at EU_PID (seed ! fst e) h) ps) h'
      = (map (\<lambda>e. s_int_at EU_PID (seed ! fst e) h) ps, h1)
    \<and> (\<forall>i<length seed. hid_at (seed ! i) h1 = fold (\<lambda>e. collapse_mark seed h i (fst e)) ps (hid_at (seed ! i) h'))"
  using assms(3,4)
proof (induction ps arbitrary: h')
  case (Cons e ps)
  obtain p l where e: "e = (p, l)" by (cases e)
  have pl: "(p, l) \<in> set (forest_order seed h (length seed))" "l \<le> 100" "0 < s_int_at EU_PID (seed ! p) h" using Cons.prems(2) e by simp_all
  obtain h1 where h1: "hide_pid (map (\<lambda>e. seed ! fst e) (forest_order seed h (length seed))) (s_int_at EU_PID (seed ! p) h) h'
      = (s_int_at EU_PID (seed ! p) h, h1)" "built seed h h1"
    "\<And>i. i < length seed \<Longrightarrow> hid_at (seed ! i) h1 = collapse_mark seed h i p (hid_at (seed ! i) h')"
    by (rule hide_pid_marks [OF assms(1,2) Cons.prems(1) pl]) blast
  have rest: "list_all (\<lambda>(p, l). (p, l) \<in> set (forest_order seed h (length seed)) \<and> l \<le> 100 \<and> 0 < s_int_at EU_PID (seed ! p) h) ps"
    using Cons.prems(2) by simp
  show ?case using Cons.IH [OF h1(2) rest] h1(1,3) e by auto
qed simp

lemma filled_built:
  assumes "fresh_frame seed h" "length seed \<le> length tree" "f = forest_fill seed \<lparr>fo_tree = tree, fo_idx = 0, fo_heap = h\<rparr>"
  shows "built seed h (fo_heap f)" "hid_at a (fo_heap f) = hid_at a h"
  using forest_fill_fresh(2,3) [OF assms(1,2), folded assms(3)]
  by (simp_all add: built_def assms(3) forest_fill_add_all [OF assms(1)] pid_heap_add_all hid_heap_add_all)

text \<open>
  C17. Collapsed parents hide their descendants and nothing else: the pids of \<open>Hide_pid\<close> give their descendants the
  mark \<open>z\<close> and themselves, when they have any, the mark \<open>x\<close>, each in its turn. The deepest level, which
  the levels below it share, is left out.
\<close>

theorem collapsed_parents_hide_descendants:
  assumes "tt_idx t = 0" "procps_pids_sort so (Some info) (Some ppt) began_item 1 = Some (Some seed)"
    and "fresh_frame ppt (pi_heap info)" "tt_hide t = map (\<lambda>e. s_int_at EU_PID (seed ! fst e) (pi_heap info)) ps"
    and "list_all (\<lambda>(p, l). (p, l) \<in> set (forest_order seed (pi_heap info) (length seed)) \<and> l \<le> 100
      \<and> 0 < s_int_at EU_PID (seed ! p) (pi_heap info)) ps" "i < length seed"
  shows "\<exists>ppt' info' t'. forest_begin so raw ppt info t = Some (Some (ppt', info', t')) \<and> tt_hide t' = tt_hide t
    \<and> hid_at (seed ! i) (pi_heap info') =
        fold (\<lambda>e. collapse_mark seed (pi_heap info) i (fst e)) ps (hid_at (seed ! i) (pi_heap info))"
proof -
  obtain f hide h' where f: "f = forest_fill seed \<lparr>fo_tree = forest_grow raw (length seed) (tt_tree t), fo_idx = 0, fo_heap = pi_heap info\<rparr>"
    and hh: "hide_pids (take (length seed) (fo_tree f)) (tt_hide t) (fo_heap f) = (hide, h')"
    and b: "forest_begin so raw ppt info t = Some (Some (take (length seed) (fo_tree f), info\<lparr>pi_heap := h'\<rparr>,
      \<lparr>tt_tree = fo_tree f, tt_idx = fo_idx f, tt_hide = hide\<rparr>))"
    using forest_begin_frame [OF assms(1,2)] by blast
  have ff: "fresh_frame seed (pi_heap info)" by (rule fresh_frame_perm [OF sort_perm [OF assms(2)] assms(3)])
  note len = forest_grow_length [of "length seed" raw "tt_tree t"]
  note o = forest_fill_fresh(1) [OF ff len, folded f] and bu = filled_built [OF ff len f]
  obtain h1 where h1: "hide_pids (take (length seed) (fo_tree f)) (tt_hide t) (fo_heap f) = (tt_hide t, h1)"
    "\<forall>i<length seed. hid_at (seed ! i) h1 =
      fold (\<lambda>e. collapse_mark seed (pi_heap info) i (fst e)) ps (hid_at (seed ! i) (fo_heap f))"
    using hide_pids_marks [OF fresh_frame_parts(3) [OF ff] fresh_frame_parts(2) [OF ff] bu(1) assms(5)] unfolding o assms(4) by blast
  have "hide = tt_hide t" "h' = h1" using hh h1(1) by simp_all
  then show ?thesis using b h1(2) bu(2) assms(6)
    by (intro exI [of _ "take (length seed) (fo_tree f)"] exI [of _ "info\<lparr>pi_heap := h'\<rparr>"]
        exI [of _ "\<lparr>tt_tree = fo_tree f, tt_idx = fo_idx f, tt_hide = tt_hide t\<rparr>"]) simp
qed

subsection \<open>An example\<close>

text \<open>Process 1 with its children 5 and 7; 9 is a child of 5, and 6 one of its threads.\<close>

definition sample_top :: "int \<Rightarrow> int \<Rightarrow> int \<Rightarrow> ulong \<Rightarrow> stack" where
  "sample_top pid ppid tgid began =
     [\<lparr>rc_item = 36, rc_val = S_int pid\<rparr>, \<lparr>rc_item = 37, rc_val = S_int ppid\<rparr>] @ replicate 36 \<lparr>rc_item = 0, rc_val = Zero\<rparr>
     @ \<lparr>rc_item = 47, rc_val = S_int tgid\<rparr> # replicate 33 \<lparr>rc_item = 0, rc_val = Zero\<rparr>
     @ \<lparr>rc_item = 124, rc_val = Ull_int began\<rparr> # replicate 6 \<lparr>rc_item = 0, rc_val = Zero\<rparr>
     @ replicate 3 \<lparr>rc_item = 1, rc_val = Zero\<rparr>"

definition sample_heap :: stack_store where
  "sample_heap = Map.empty(0 \<mapsto> sample_top 1 0 1 10, 1 \<mapsto> sample_top 7 1 7 50, 2 \<mapsto> sample_top 5 1 5 30,
     3 \<mapsto> sample_top 9 5 9 80, 4 \<mapsto> sample_top 6 5 5 31)"

definition sample_forest :: pids_info where
  "sample_forest = no_pids\<lparr>pi_curitems := 83, pi_heap := sample_heap\<rparr>"

lemma began_item_124: "began_item = 124"
  by (simp add: pids_item_enum_def)

lemma sample_top_sel [simp]:
  "cell_val EU_PID (sample_top p pp tg b) = S_int p" "cell_val EU_PPD (sample_top p pp tg b) = S_int pp"
  "cell_val EU_TGD (sample_top p pp tg b) = S_int tg" "cell_val eu_TREE_LVL (sample_top p pp tg b) = Zero"
  "cell_val eu_TREE_HID (sample_top p pp tg b) = Zero" "cell_val 72 (sample_top p pp tg b) = Ull_int b"
  "pids_offset 83 124 0 (sample_top p pp tg b) = Some (Some 72)" "length (sample_top p pp tg b) = 82"
  by (simp_all add: cell_val_def sample_top_def EU_PID_def EU_PPD_def EU_TGD_def eu_TREE_LVL_def eu_TREE_HID_def
      nth_append nth_Cons' eval_nat_numeral replicate.simps PIDS_logical_end_def)

lemma sample_heap_at [simp]:
  "sample_heap 0 = Some (sample_top 1 0 1 10)" "sample_heap (Suc 0) = Some (sample_top 7 1 7 50)" "sample_heap 2 = Some (sample_top 5 1 5 30)"
  "sample_heap 3 = Some (sample_top 9 5 9 80)" "sample_heap 4 = Some (sample_top 6 5 5 31)" "pi_heap sample_forest = sample_heap"
  "pi_curitems sample_forest = 83"
  by (simp_all add: sample_heap_def sample_forest_def)

lemma sample_sorted: "procps_pids_sort so (Some sample_forest) (Some [4, 3, 2, 1, 0]) began_item 1 = Some (Some [0, 2, 4, 1, 3])"
proof -
  have q: "item_sortfunc 124 = QS Q_ull_int"
    by (simp add: item_sortfunc_def pids_table_def pids_table_a_def pids_table_z_def)
  show ?thesis
    unfolding began_item_124
    by (simp add: procps_pids_sort_def q comparable_def pids_compare_def compare_kind_def compare_regs_def rd_ull_int_def qsort_def
        PIDS_logical_end_def)
qed

lemma sample_fresh: "fresh_frame [4, 3, 2, 1, 0] (pi_heap sample_forest)"
  by (simp add: fresh_frame_def stacks_there_def own_pids_def s_int_at_def stk_def rd_s_int_def eu_TREE_ADD_def)

abbreviation sample_seed :: "nat list" where
  "sample_seed \<equiv> [0, 2, 4, 1, 3]"

lemma sample_child:
  assumes "a < b" "b < 5"
  shows "is_child sample_heap (sample_seed ! a) (sample_seed ! b) \<longleftrightarrow> (a, b) \<in> {(0, 1), (0, 3), (1, 2), (1, 4)}"
proof -
  have "(a, b) \<in> {(0, 1), (0, 2), (0, 3), (0, 4), (1, 2), (1, 3), (1, 4), (2, 3), (2, 4), (3, 4)}" 
    using assms by simp presburger
  then show ?thesis
    unfolding insert_iff empty_iff prod.inject
    by (elim disjE conjE) (simp_all add: is_child_def s_int_at_def stk_def rd_s_int_def)
qed

lemma sample_kids: "kids sample_seed sample_heap a (a + 1) = filter (\<lambda>b. (a, b) \<in> {(0, 1), (0, 3), (1, 2), (1, 4)}) [a + 1 ..< 5]" if "a < 5"
proof -
  have l: "length sample_seed = 5" by simp
  show ?thesis
    unfolding kids_def l
  proof (rule filter_cong [OF refl])
    fix b assume "b \<in> set [a + 1 ..< 5]"
    then have "b < 5" "a < b" by simp_all
    then show "is_child sample_heap (sample_seed ! a) (sample_seed ! b) \<longleftrightarrow> (a, b) \<in> {(0, 1), (0, 3), (1, 2), (1, 4)}"
      by (intro sample_child)
  qed
qed

lemma sample_pre_order:
  "pre_order sample_seed sample_heap 4 l = [(4, cap_level l)]" "pre_order sample_seed sample_heap 3 l = [(3, cap_level l)]"
  "pre_order sample_seed sample_heap 2 l = [(2, cap_level l)]"
  "pre_order sample_seed sample_heap 1 1 = [(1, 1), (2, 2), (4, 2)]"
  "pre_order sample_seed sample_heap 0 0 = [(0, 0), (1, 1), (2, 2), (4, 2), (3, 1)]"
proof -
  show 4: "pre_order sample_seed sample_heap 4 l = [(4, cap_level l)]" for l
    by (subst pre_order.simps) (subst sample_kids, simp, simp add: upt_rec)
  show 3: "pre_order sample_seed sample_heap 3 l = [(3, cap_level l)]" for l
    by (subst pre_order.simps) (subst sample_kids, simp, simp add: upt_rec)
  show 2: "pre_order sample_seed sample_heap 2 l = [(2, cap_level l)]" for l
    by (subst pre_order.simps) (subst sample_kids, simp, simp add: upt_rec)
  have k: "kids sample_seed sample_heap 1 (1 + 1) = [2, 4]" "kids sample_seed sample_heap 0 (0 + 1) = [1, 3]"
    by (subst sample_kids, simp, simp add: upt_rec)+
  show 1: "pre_order sample_seed sample_heap 1 1 = [(1, 1), (2, 2), (4, 2)]"
    by (subst pre_order.simps) (simp only: k list.map 2 4, simp add: cap_level_def)
  show "pre_order sample_seed sample_heap 0 0 = [(0, 0), (1, 1), (2, 2), (4, 2), (3, 1)]"
  proof -
    have c: "cap_level 0 = 0" "cap_level 1 = 1" "0 + 1 = (1 :: int)" by (simp_all add: cap_level_def)
    show ?thesis by (subst pre_order.simps) (simp only: k list.map c 1 3, simp)
  qed
qed

lemma sample_roots: "roots sample_seed sample_heap 5 = [0]"
proof -
  have "has_parent sample_seed sample_heap i \<longleftrightarrow> i \<noteq> 0" if "i < 5" for i
  proof -
    have "i = 0 \<or> i = 1 \<or> i = 2 \<or> i = 3 \<or> i = 4" using that by linarith
    then show ?thesis
      by (elim disjE) (simp_all add: has_parent_def is_child_def s_int_at_def stk_def rd_s_int_def upt_rec)
  qed
  then have "roots sample_seed sample_heap 5 = filter (\<lambda>i. i = 0) [0 ..< 5]" unfolding roots_def by (intro filter_cong) simp_all
  then show ?thesis by (simp add: upt_rec)
qed

lemma sample_order:
  "forest_order sample_seed sample_heap 5 = [(0, 0), (1, 1), (2, 2), (4, 2), (3, 1)]"
  unfolding forest_order_def sample_roots by (simp only: list.map sample_pre_order concat.simps append_Nil2)

definition no_order :: string_order where
  "no_order = \<lparr>so_strcoll = \<lambda>_ _. 0, so_strverscmp = \<lambda>_ _. 0\<rparr>"

lemma forest_view_order_witness:
  "\<exists>info' t'. forest_begin no_order (\<lambda>_. 0) [4, 3, 2, 1, 0] sample_forest \<lparr>tt_tree = [], tt_idx = 0, tt_hide = [5, 3]\<rparr> =
      Some (Some ([0, 2, 4, 3, 1], info', t'))
    \<and> map (\<lambda>a. level_at a (pi_heap info')) [0, 2, 4, 3, 1] = [0, 1, 2, 2, 1]"
  using forest_view_order [of "\<lparr>tt_tree = [], tt_idx = 0, tt_hide = [5, 3]\<rparr>" no_order sample_forest "[4, 3, 2, 1, 0]" sample_seed "\<lambda>_. 0"]
    sample_sorted sample_fresh sample_order by (simp add: numeral_eq_Suc)

lemma sample_below: "(parent_of sample_seed sample_heap)\<^sup>+ `` {1} = {2, 4}" "(parent_of sample_seed sample_heap)\<^sup>+ `` {0} = {1, 2, 3, 4}"
proof -
  have c: "cap_level 0 = 0" "cap_level 1 = 1" by (simp_all add: cap_level_def)
  have b: "below sample_seed sample_heap 1 1 = [(2, 2), (4, 2)]" "below sample_seed sample_heap 0 0 = [(1, 1), (2, 2), (4, 2), (3, 1)]"
    using sample_pre_order(4,5) pre_order_below [of sample_seed sample_heap 1 1] pre_order_below [of sample_seed sample_heap 0 0]
    by (metis list.inject)+
  show "(parent_of sample_seed sample_heap)\<^sup>+ `` {1} = {2, 4}"
    unfolding Image_singleton below_descendants [of sample_seed sample_heap 1 1, symmetric] b by simp
  show "(parent_of sample_seed sample_heap)\<^sup>+ `` {0} = {1, 2, 3, 4}"
    unfolding Image_singleton below_descendants [of sample_seed sample_heap 0 0, symmetric] b by auto
qed

lemma sample_marks:
  "fold (\<lambda>e. collapse_mark sample_seed sample_heap 2 (fst e)) [(1, 1 :: int)] 0 = 122"
  "fold (\<lambda>e. collapse_mark sample_seed sample_heap 1 (fst e)) [(0, 0 :: int), (3, 1), (1, 1)] 0 = 120"
  "fold (\<lambda>e. collapse_mark sample_seed sample_heap 1 (fst e)) [(1, 1 :: int), (3, 1), (0, 0)] 0 = 122"
proof -
  have k: "kids sample_seed sample_heap 1 (1 + 1) = [2, 4]" by (subst sample_kids, simp, simp add: upt_rec)
  have n: "(1, 1) \<notin> (parent_of sample_seed sample_heap)\<^sup>+" "(1, 2) \<in> (parent_of sample_seed sample_heap)\<^sup>+"
    "(0, 1) \<in> (parent_of sample_seed sample_heap)\<^sup>+"
    by (simp_all only: Image_singleton_iff [symmetric] sample_below) simp_all
  have up: "(3, 1) \<notin> (parent_of sample_seed sample_heap)\<^sup>+"
  proof
    assume "(3, 1) \<in> (parent_of sample_seed sample_heap)\<^sup>+"
    then have "3 < (1 :: nat)" by (induction rule: trancl_induct) (auto simp: parent_of_def)
    then show False by simp
  qed
  show "fold (\<lambda>e. collapse_mark sample_seed sample_heap 2 (fst e)) [(1, 1 :: int)] 0 = 122" using n by (simp add: collapse_mark_def)
  show "fold (\<lambda>e. collapse_mark sample_seed sample_heap 1 (fst e)) [(0, 0 :: int), (3, 1), (1, 1)] 0 = 120"
    using n k by (simp add: collapse_mark_def)
  show "fold (\<lambda>e. collapse_mark sample_seed sample_heap 1 (fst e)) [(1, 1 :: int), (3, 1), (0, 0)] 0 = 122"
    using n by (simp add: collapse_mark_def)
qed

lemma sample_sel:
  "hid_at 4 sample_heap = 0" "hid_at 2 sample_heap = 0" "s_int_at EU_PID 0 sample_heap = 1" "s_int_at EU_PID 1 sample_heap = 7"
  "s_int_at EU_PID 2 sample_heap = 5"
  by (simp_all add: hid_at_def s_int_at_def stk_def rd_s_int_def rd_s_ch_def)

lemma collapsed_parents_hide_descendants_witness:
  "\<exists>ppt' info' t'. forest_begin no_order (\<lambda>_. 0) [4, 3, 2, 1, 0] sample_forest \<lparr>tt_tree = [], tt_idx = 0, tt_hide = [5]\<rparr> =
      Some (Some (ppt', info', t')) \<and> tt_hide t' = [5] \<and> hid_at 4 (pi_heap info') = 122"
proof -
  have l: "length sample_seed = 5" "sample_seed ! 1 = 2" "sample_seed ! 2 = 4" by simp_all
  show ?thesis
    using collapsed_parents_hide_descendants [of "\<lparr>tt_tree = [], tt_idx = 0, tt_hide = [5]\<rparr>" no_order sample_forest "[4, 3, 2, 1, 0]"
        sample_seed "[(1, 1)]" 2 "\<lambda>_. 0", unfolded l sample_heap_at(6) sample_order] sample_sorted sample_fresh sample_marks(1)
    by (simp only: list.map fst_conv sample_sel list.pred_inject l top_tree.select_convs) (simp add: sample_sel)
qed

text \<open>
  Of nested parents the one that comes later in \<open>Hide_pid\<close> has the last word: collapsing 1 and 7, expanding 1,
  collapsing 5 and collapsing 1 again leaves 5, a child of 1, shown as collapsed and not hidden.
\<close>

lemma toggled_order: "fold hide_toggle [1, 7, 1, 5, 1] [] = [1, 7, 5]"
  by (simp add: hide_toggle_def Let_def)

lemma inner_parent_shown:
  "(0, 1) \<in> (parent_of sample_seed sample_heap)\<^sup>+ \<and> sample_seed ! 1 = 2
    \<and> (case forest_build (\<lambda>_. 0) sample_seed sample_forest \<lparr>tt_tree = [], tt_idx = 0, tt_hide = fold hide_toggle [1, 7, 1, 5, 1] []\<rparr> of
         (info', t') \<Rightarrow> hid_at 2 (pi_heap info') = 120)"
proof -
  have ff: "fresh_frame sample_seed sample_heap"
    by (rule fresh_frame_perm [OF _ sample_fresh [unfolded sample_heap_at]]) simp
  note len = forest_grow_length [of "length sample_seed" "\<lambda>_. 0" "[]"]
  obtain f where f: "f = forest_fill sample_seed \<lparr>fo_tree = forest_grow (\<lambda>_. 0) (length sample_seed) [], fo_idx = 0, fo_heap = sample_heap\<rparr>"
    by (rule that [OF refl])
  note o = forest_fill_fresh(1) [OF ff len, folded f] and bu = filled_built [OF ff len f]
  have l: "length sample_seed = 5" "sample_seed ! 0 = 0" "sample_seed ! 1 = 2" "sample_seed ! 3 = 1" by simp_all
  have ps: "list_all (\<lambda>(p, l). (p, l) \<in> set (forest_order sample_seed sample_heap (length sample_seed)) \<and> l \<le> 100
      \<and> 0 < s_int_at EU_PID (sample_seed ! p) sample_heap) [(0, 0), (3, 1), (1, 1)]"
    unfolding l sample_order by (simp add: sample_sel [simplified])
  have hs: "map (\<lambda>e. s_int_at EU_PID (sample_seed ! fst e) sample_heap) [(0, 0 :: int), (3, 1), (1, 1)] = [1, 7, 5]"
    by (simp only: list.map fst_conv l sample_sel)
  obtain h1 where h1: "hide_pids (take (length sample_seed) (fo_tree f)) [1, 7, 5] (fo_heap f) = ([1, 7, 5], h1)"
    "\<forall>i<length sample_seed. hid_at (sample_seed ! i) h1 =
      fold (\<lambda>e. collapse_mark sample_seed sample_heap i (fst e)) [(0, 0 :: int), (3, 1), (1, 1)] (hid_at (sample_seed ! i) (fo_heap f))"
    using hide_pids_marks [OF fresh_frame_parts(3) [OF ff] fresh_frame_parts(2) [OF ff] bu(1) ps, folded o, unfolded hs]
    by (elim exE conjE) (rule that)
  have "(1 :: nat) < length sample_seed" by simp
  from h1(2) [rule_format, OF this] have "hid_at 2 h1 = 120"
    unfolding bu(2) l sample_sel sample_marks(2) .
  moreover have "(0, 1) \<in> (parent_of sample_seed sample_heap)\<^sup>+"
    by (simp_all only: Image_singleton_iff [symmetric] sample_below) simp_all
  ultimately show ?thesis
    unfolding toggled_order forest_build_def top_tree.select_convs sample_heap_at(6) f [symmetric] Let_def h1(1) by simp
qed

end
