(* ===== verification/TopFields.thy ===== *)
theory TopFields
  imports TopForest Escape
begin

unbundle bit_operations_syntax

text \<open>
  More of \<^verbatim>\<open>procps/linux/top.c\<close>: strings of multi-byte characters and the cells of the columns, the filters on
  what the columns show, which fields a window shows and asks the library for, and which results it reads and sorts by.

  Of a character of several bytes \<open>wide\<close> says what \<open>wcwidth\<close> gives for the \<open>wchar_t\<close> that \<open>mbtowc\<close> makes of it; \<open>None\<close>
  when \<open>mbtowc\<close> rejects it and leaves the \<open>wchar_t\<close> uninitialised. A walk over a string that reads that, or steps
  over the NUL of the string, is \<open>None\<close>. The headings of the columns, which are translated, are
  the function \<open>heads\<close>, and the widths of the columns at the time the function \<open>widths\<close>.
\<close>

subsection \<open>Characters of several bytes\<close>

definition UTF8_tab :: "int list" where
  "UTF8_tab = replicate 128 1 @ replicate 66 (- 1) @ replicate 30 2 @ replicate 16 3 @ replicate 5 4 @ replicate 11 (- 1)"

definition utf8_clen :: "char \<Rightarrow> int" where
  "utf8_clen c = UTF8_tab ! byte c"

lemma utf8_clen_utf_len: "utf8_clen c = utf_len c"
  by (simp add: utf8_clen_def UTF8_tab_def utf_len_def UTF_tab_def)

lemma utf8_clen_pos: "\<not> utf8_clen c < 0 \<Longrightarrow> 0 < utf8_clen c"
  using utf_len_cases [of c] by (auto simp: utf8_clen_utf_len)

definition utf8_cols :: "(string \<Rightarrow> int option) \<Rightarrow> string \<Rightarrow> int \<Rightarrow> int option" where
  "utf8_cols wide p n = (if 1 < n then map_option (\<lambda>w. if w < 0 then 1 else w) (wide (take (nat n) p)) else Some n)"

function utf8_delta_from :: "(string \<Rightarrow> int option) \<Rightarrow> string \<Rightarrow> int \<Rightarrow> int \<Rightarrow> int option" where
  "utf8_delta_from wide [] bytes cnum = Some (bytes - cnum)"
| "utf8_delta_from wide (c # cs) bytes cnum =
     (let clen = utf8_clen c
      in if clen < 0 then Some 0
         else case utf8_cols wide (c # cs) clen of
                None \<Rightarrow> None
              | Some cols \<Rightarrow>
                  if length (c # cs) < nat clen then None
                  else utf8_delta_from wide (drop (nat clen) (c # cs)) (bytes + clen) (cnum + cols))"
  by pat_completeness auto
termination
  by (relation "measure (\<lambda>(wide, p, bytes, cnum). length p)") (use utf8_clen_pos in \<open>auto intro!: diff_less\<close>)

definition utf8_delta :: "(string \<Rightarrow> int option) \<Rightarrow> string \<Rightarrow> int option" where
  "utf8_delta wide str = utf8_delta_from wide str 0 0"

function utf8_embody_from :: "(string \<Rightarrow> int option) \<Rightarrow> int \<Rightarrow> string \<Rightarrow> int \<Rightarrow> int \<Rightarrow> int option" where
  "utf8_embody_from wide width [] bytes cnum = Some bytes"
| "utf8_embody_from wide width (c # cs) bytes cnum =
     (let clen = utf8_clen c
      in if clen < 0 then Some width
         else
           case utf8_cols wide (c # cs) clen of
             None \<Rightarrow> None
           | Some cols \<Rightarrow>
               if width < cnum + cols then Some bytes
               else if length (c # cs) < nat clen then None
               else utf8_embody_from wide width (drop (nat clen) (c # cs)) (bytes + clen) (cnum + cols))"
  by pat_completeness auto
termination
  by (relation "measure (\<lambda>(wide, width, p, bytes, cnum). length p)") (use utf8_clen_pos in \<open>auto intro!: diff_less\<close>)

definition utf8_embody :: "(string \<Rightarrow> int option) \<Rightarrow> string \<Rightarrow> int \<Rightarrow> int option" where
  "utf8_embody wide str width = (if 0 < width then utf8_embody_from wide width str 0 0 else Some 0)"

function utf8_proper_from :: "int \<Rightarrow> bool \<Rightarrow> string \<Rightarrow> int \<Rightarrow> int \<Rightarrow> int option" where
  "utf8_proper_from col tophysical [] tlen cnum = Some (if tophysical then tlen else cnum)"
| "utf8_proper_from col tophysical (c # cs) tlen cnum =
     (let clen = utf8_clen c
      in if clen < 0 then Some col
         else if col < cnum + 1 \<and> tophysical then Some tlen
         else if col < tlen + clen \<and> \<not> tophysical then Some cnum
         else if length (c # cs) < nat clen then None
         else utf8_proper_from col tophysical (drop (nat clen) (c # cs)) (tlen + clen) (cnum + 1))"
  by pat_completeness auto
termination
  by (relation "measure (\<lambda>(col, tophysical, p, tlen, cnum). length p)") (use utf8_clen_pos in \<open>auto intro!: diff_less\<close>)

definition utf8_proper_col :: "string \<Rightarrow> int \<Rightarrow> bool \<Rightarrow> int option" where
  "utf8_proper_col str col tophysical = utf8_proper_from col tophysical str 0 0"

declare utf8_delta_from.simps(2) [simp del] utf8_embody_from.simps(2) [simp del] utf8_proper_from.simps(2) [simp del]

subsection \<open>Cells\<close>

definition SCREENMAX :: nat where "SCREENMAX = 512"
definition SMLBUFSIZ :: nat where "SMLBUFSIZ = 128"
definition MEDBUFSIZ :: nat where "MEDBUFSIZ = 256"
definition COLPADSTR :: string where "COLPADSTR = '' ''"

text \<open>\<open>printf\<close> of \<open>%*.*s\<close> or \<open>%-*.*s\<close> with the width given twice.\<close>

definition fmt_str :: "bool \<Rightarrow> int \<Rightarrow> string \<Rightarrow> string" where
  "fmt_str justr width s =
     (let shown = (if width < 0 then s else take (nat width) s);
          blanks = replicate (nat \<bar>width\<bar> - length shown) (CHR '' '')
      in if justr \<and> 0 \<le> width then blanks @ shown else shown @ blanks)"

definition justify_pad :: "string \<Rightarrow> int \<Rightarrow> bool \<Rightarrow> string" where
  "justify_pad str width justr = take (SCREENMAX - 1) (fmt_str justr width str @ COLPADSTR)"

definition utf8_justify :: "(string \<Rightarrow> int option) \<Rightarrow> string \<Rightarrow> int \<Rightarrow> bool \<Rightarrow> string option" where
  "utf8_justify wide str width justr =
     (case utf8_embody wide str width of
        None \<Rightarrow> None
      | Some n \<Rightarrow>
          let tmp = take (SCREENMAX - 1) (take (nat n) str)
          in map_option (\<lambda>d. justify_pad tmp (width + d) justr) (utf8_delta wide tmp))"

definition make_chr :: "char \<Rightarrow> int \<Rightarrow> bool \<Rightarrow> string" where
  "make_chr ch width justr = justify_pad (if ch = NUL then [] else [ch]) width justr"

definition COLPLUSCH :: char where "COLPLUSCH = CHR ''+''"

text \<open>\<open>AUTOX_COL\<close>: the column that is to be widened.\<close>

definition autox_col :: "nat \<Rightarrow> nat option" where
  "autox_col col = (if col < EU_MAXPFLGS then Some col else None)"

text \<open>The width that is used in a buffer of that size, and the buffer with the mark of truncation.\<close>

definition plus_width :: "nat \<Rightarrow> int \<Rightarrow> int" where
  "plus_width bufsize width = (if width \<le> 0 \<or> int bufsize \<le> width then int bufsize - 1 else width)"

definition put_plus :: "int \<Rightarrow> string \<Rightarrow> string" where
  "put_plus width buf = (if nat width - 1 \<le> length buf then take (nat width - 1) buf @ [COLPLUSCH] else buf)"

definition make_num :: "bool \<Rightarrow> int \<Rightarrow> int \<Rightarrow> bool \<Rightarrow> nat \<Rightarrow> bool \<Rightarrow> string \<times> nat option" where
  "make_num zero_suppress num width justr col noz =
     (if noz \<and> zero_suppress \<and> num = 0 then (justify_pad [] width justr, None)
      else
        let buf = show_int num
        in if width < int (length buf)
           then (let w = plus_width SMLBUFSIZ width in (justify_pad (put_plus w buf) w justr, autox_col col))
           else (justify_pad buf width justr, None))"

definition make_str :: "string \<Rightarrow> int \<Rightarrow> bool \<Rightarrow> nat \<Rightarrow> string \<times> nat option" where
  "make_str str width justr col =
     (let buf = take (SCREENMAX - 1) str
      in if width < int (length str)
         then (let w = plus_width SCREENMAX width in (justify_pad (put_plus w buf) w justr, autox_col col))
         else (justify_pad buf width justr, None))"

definition make_str_utf8 :: "(string \<Rightarrow> int option) \<Rightarrow> string \<Rightarrow> int \<Rightarrow> bool \<Rightarrow> nat \<Rightarrow> (string \<times> nat option) option" where
  "make_str_utf8 wide str width justr col =
     (case utf8_delta wide str of
        None \<Rightarrow> None
      | Some delta \<Rightarrow>
          if width + delta < int (length str)
          then (case utf8_embody wide str (width - 1) of
                  None \<Rightarrow> None
                | Some n \<Rightarrow>
                    let buf = take (SCREENMAX - 1) (take (nat n) str @ [COLPLUSCH])
                    in map_option (\<lambda>d. (justify_pad buf (width + d) justr, autox_col col)) (utf8_delta wide buf))
          else Some (justify_pad (take (SCREENMAX - 1) str) (width + delta) justr, None))"

subsection \<open>Filters\<close>

record osel_s =
  os_raw :: string
  os_val :: string
  os_ops :: char
  os_inc :: bool
  os_enu :: nat
  os_typ :: char

fun strcmp :: "string \<Rightarrow> string \<Rightarrow> int" where
  "strcmp [] [] = 0"
| "strcmp [] (y # ys) = - int (byte y)"
| "strcmp (x # xs) [] = int (byte x)"
| "strcmp (x # xs) (y # ys) = (if x = y then strcmp xs ys else int (byte x) - int (byte y))"

definition osel_rel :: "char \<Rightarrow> string \<Rightarrow> string \<Rightarrow> int" where
  "osel_rel typ = (if typ = CHR ''o'' then strcasecmp else strcmp)"

definition osel_sel :: "char \<Rightarrow> string \<Rightarrow> string \<Rightarrow> bool" where
  "osel_sel typ str val =
     (if typ = CHR ''o'' then strstr (map tolower str) (map tolower val) \<noteq> None else strstr str val \<noteq> None)"

text \<open>The flags that stand for the alignments are not 0; they are passed where a truth value is expected.\<close>

definition Show_JRSTRS :: "32 word" where "Show_JRSTRS = 0x040000"
definition Show_JRNUMS :: "32 word" where "Show_JRNUMS = 0x020000"

definition align_flag :: "fld_align \<Rightarrow> 32 word" where
  "align_flag a = (case a of A_left \<Rightarrow> Show_JRSTRS | A_right \<Rightarrow> Show_JRNUMS | A_none \<Rightarrow> - 1)"

definition field_align :: "nat \<Rightarrow> fld_align" where
  "field_align E = fst (snd (snd (Fieldstab ! E)))"

datatype osel_error = Osel_dups | Osel_delm bool | Osel_field string | Osel_value bool

text \<open>\<open>push\<close>: the filter is put in front of the others.\<close>

definition osel_add ::
  "(nat \<Rightarrow> string) \<Rightarrow> (nat \<Rightarrow> int) \<Rightarrow> osel_s list \<Rightarrow> char \<Rightarrow> string \<Rightarrow> bool \<Rightarrow> osel_error + osel_s list" where
  "osel_add heads widths q ch glob push =
     (let raw = take (MEDBUFSIZ - 1) glob; inc = (take 1 glob \<noteq> ''!'');
          rest = (if inc then glob else tl glob);
          name = takeWhile (\<lambda>c. c \<notin> set ''<=>'') rest; tail = dropWhile (\<lambda>c. c \<notin> set ''<=>'') rest
      in if glob = [] then Inr q
         else if list_ex (\<lambda>x. os_raw x = raw) q then Inl Osel_dups
         else if tail = [] then Inl (Osel_delm inc)
         else
           let ops = hd tail; pval = tl tail; enu = length (takeWhile (\<lambda>E. heads E \<noteq> name) [0 ..< EU_MAXPFLGS])
           in if enu = EU_MAXPFLGS then Inl (Osel_field name)
              else if pval = [] then Inl (Osel_value inc)
              else
                let osel = \<lparr>os_raw = raw,
                            os_val = (if ops = CHR ''='' then pval else justify_pad pval (widths enu) (align_flag (field_align enu) \<noteq> 0)),
                            os_ops = ops, os_inc = inc, os_enu = enu, os_typ = ch\<rparr>
                in Inr (if push then osel # q else q @ [osel]))"

definition NOHISEL_xxx :: "32 word" where "NOHISEL_xxx = 0x200000"

text \<open>The filters and the flags of the window.\<close>

definition osel_clear :: "osel_s list \<times> 32 word \<Rightarrow> osel_s list \<times> 32 word" where
  "osel_clear q = ([], snd q AND NOT NOHISEL_xxx)"

definition osel_one :: "osel_s \<Rightarrow> nat \<Rightarrow> string \<Rightarrow> bool" where
  "osel_one osel enu str =
     (if os_enu osel \<noteq> enu then True
      else let r = osel_rel (os_typ osel) str (os_val osel)
           in if os_ops osel = CHR ''<'' then \<not> (0 \<le> r \<and> os_inc osel \<or> r < 0 \<and> \<not> os_inc osel)
              else if os_ops osel = CHR ''>'' then \<not> (r \<le> 0 \<and> os_inc osel \<or> 0 < r \<and> \<not> os_inc osel)
              else let p = osel_sel (os_typ osel) str (os_val osel) in \<not> (\<not> p \<and> os_inc osel \<or> p \<and> \<not> os_inc osel))"

fun osel_matched :: "osel_s list \<Rightarrow> nat \<Rightarrow> string \<Rightarrow> bool" where
  "osel_matched [] enu str = True"
| "osel_matched (osel # q) enu str = (if \<not> osel_one osel enu str then False else osel_matched q enu str)"

subsection \<open>The fields a window shows\<close>

definition EU_THD :: nat where "EU_THD = 16"
definition EU_TME :: nat where "EU_TME = 19"
definition EU_TM2 :: nat where "EU_TM2 = 20"
definition EU_STA :: nat where "EU_STA = 31"
definition EU_TM3 :: nat where "EU_TM3 = 72"
definition EU_XON :: nat where "EU_XON = 77"
definition EU_XOF :: nat where "EU_XOF = 78"
definition FLD_OFFSET :: int where "FLD_OFFSET = 37"

definition Show_HICOLS :: "32 word" where "Show_HICOLS = 0x000200"
definition Show_CMDLIN :: "32 word" where "Show_CMDLIN = 0x000080"
definition Show_CTIMES :: "32 word" where "Show_CTIMES = 0x000040"
definition Show_IDLEPS :: "32 word" where "Show_IDLEPS = 0x000020"
definition Show_TASKON :: "32 word" where "Show_TASKON = 0x000010"
definition Show_FOREST :: "32 word" where "Show_FOREST = 0x000002"

text \<open>\<open>pflgsall\<close> and \<open>procflgs\<close> up to \<open>totpflgs\<close> and \<open>maxpflgs\<close>, which are their lengths.\<close>

record top_win =
  tw_fieldscur :: "int list"
  tw_sortindx :: nat
  tw_winflags :: "32 word"
  tw_usrseltyp :: int
  tw_begpflg :: nat
  tw_endpflg :: nat
  tw_pflgsall :: "nat list"
  tw_procflgs :: "nat list"
  tw_varcolsz :: int

definition CHKw :: "top_win \<Rightarrow> 32 word \<Rightarrow> bool" where
  "CHKw w flag \<longleftrightarrow> tw_winflags w AND flag \<noteq> 0"

definition VIZISw :: "bool \<Rightarrow> top_win \<Rightarrow> bool" where
  "VIZISw mode_altscr w \<longleftrightarrow> \<not> mode_altscr \<or> CHKw w Show_TASKON"

definition FLDget :: "top_win \<Rightarrow> nat \<Rightarrow> nat" where
  "FLDget w i = nat (tw_fieldscur w ! i div 2 - FLD_OFFSET)"

definition FLDviz :: "top_win \<Rightarrow> nat \<Rightarrow> bool" where
  "FLDviz w i \<longleftrightarrow> odd (tw_fieldscur w ! i)"

definition win_pflgsall :: "top_win \<Rightarrow> nat list" where
  "win_pflgsall w =
     (let fs = concat (map (\<lambda>i. if FLDviz w i
                  then (let f = FLDget w i in if CHKw w Show_HICOLS \<and> f = tw_sortindx w then [EU_XON, f, EU_XOF] else [f])
                  else []) [0 ..< EU_MAXPFLGS])
      in if fs = [] then [EU_PID] else fs)"

definition VARcol :: "(nat \<Rightarrow> int) \<Rightarrow> nat \<Rightarrow> bool" where
  "VARcol widths f \<longleftrightarrow> widths f = - 1"

definition col_len :: "(nat \<Rightarrow> string) \<Rightarrow> (nat \<Rightarrow> int) \<Rightarrow> nat \<Rightarrow> int" where
  "col_len heads widths f = (if VARcol widths f then int (length (heads f)) else widths f) + int (length COLPADSTR)"

text \<open>The fields that fit, where the header ends then, the number of variable columns and the width of their headings.\<close>

fun fit_columns ::
  "(nat \<Rightarrow> string) \<Rightarrow> (nat \<Rightarrow> int) \<Rightarrow> int \<Rightarrow> nat list \<Rightarrow> int \<Rightarrow> nat list \<times> int \<times> int \<times> int" where
  "fit_columns heads widths cols [] s = ([], s, 0, 0)"
| "fit_columns heads widths cols (f # fs) s =
     (if EU_MAXPFLGS \<le> f
      then (case fit_columns heads widths cols fs s of (shown, s1, n, sz) \<Rightarrow> (f # shown, s1, n, sz))
      else if cols < s + col_len heads widths f then ([], s, 0, 0)
      else
        (case fit_columns heads widths cols fs (s + col_len heads widths f) of
           (shown, s1, n, sz) \<Rightarrow>
             if VARcol widths f then (f # shown, s1, n + 1, sz + int (length (heads f))) else (f # shown, s1, n, sz)))"

text \<open>Back from the last field, as long as the rest fits: \<open>i\<close> fields are left.\<close>

fun fit_from_end :: "(nat \<Rightarrow> string) \<Rightarrow> (nat \<Rightarrow> int) \<Rightarrow> int \<Rightarrow> nat list \<Rightarrow> nat \<Rightarrow> int \<Rightarrow> nat \<Rightarrow> nat" where
  "fit_from_end heads widths cols fs 0 s endpflg = endpflg"
| "fit_from_end heads widths cols fs (Suc i) s endpflg =
     (if EU_MAXPFLGS \<le> fs ! i then fit_from_end heads widths cols fs i s i
      else if cols < s + col_len heads widths (fs ! i) then endpflg
      else fit_from_end heads widths cols fs i (s + col_len heads widths (fs ! i)) i)"

definition calibrate_window :: "bool \<Rightarrow> int \<Rightarrow> (nat \<Rightarrow> string) \<Rightarrow> (nat \<Rightarrow> int) \<Rightarrow> top_win \<Rightarrow> top_win" where
  "calibrate_window mode_altscr cols heads widths w =
     (if \<not> VIZISw mode_altscr w then w
      else
        let all = win_pflgsall w; s0 = (if mode_altscr then 1 else 0)
        in case fit_columns heads widths cols (drop (tw_begpflg w) all) s0 of
             (shown, s, n, sz) \<Rightarrow>
               let shown1 = (if shown \<noteq> [] \<and> last shown = EU_XON then butlast shown else shown);
                   sz1 = sz + cols - s;
                   e = fit_from_end heads widths cols all (length all) s0 0
               in w\<lparr>tw_pflgsall := all, tw_procflgs := shown1,
                    tw_varcolsz := (if n \<noteq> 0 then sz1 div n else sz1),
                    tw_endpflg := (if all ! e = EU_XOF then e + 1 else e)\<rparr>)"

subsection \<open>The items of the fields\<close>

definition field_item :: "nat \<Rightarrow> item" where
  "field_item E = length (takeWhile (\<lambda>(n, _). n \<noteq> snd (snd (snd (Fieldstab ! E)))) pids_item_enum)"

definition PIDS_extra_item :: item where "PIDS_extra_item = 1"

definition ckITEM :: "nat \<Rightarrow> item list \<Rightarrow> item list" where
  "ckITEM E its = its[E := field_item E]"

definition ckCMDS :: "top_win \<Rightarrow> nat list" where
  "ckCMDS w = (if CHKw w Show_CMDLIN then [eu_CMDLINE] else [])"

definition pflag_items :: "top_win \<Rightarrow> nat \<Rightarrow> nat list" where
  "pflag_items w f =
     (if EU_MAXPFLGS \<le> f then []
      else f # (if f = EU_CMD then ckCMDS w
                else if f = EU_CPU then [EU_THD]
                else if f = EU_TME \<or> f = EU_TM2 then (if CHKw w Show_CTIMES then [eu_TICS_ALL_C] else [])
                else []))"

definition win_items :: "bool \<Rightarrow> top_win \<Rightarrow> nat list" where
  "win_items mode_altscr w =
     (if \<not> VIZISw mode_altscr w then []
      else concat (map (pflag_items w) (tw_procflgs w))
        @ (if CHKw w Show_IDLEPS then [] else [EU_CPU])
        @ (if CHKw w Show_FOREST then [EU_PPD, EU_TGD, EU_TM3, eu_TREE_HID, eu_TREE_LVL, eu_TREE_ADD] else [])
        @ (if tw_usrseltyp w \<noteq> 0 then [EU_UED, EU_URD, EU_USD, eu_ID_FUID] else [])
        @ (if tw_sortindx w = EU_CMD then ckCMDS w else [tw_sortindx w]))"

text \<open>The windows from the current one on; the others count in alternate display mode.\<close>

definition build_items :: "bool \<Rightarrow> top_win list \<Rightarrow> item list" where
  "build_items mode_altscr ws =
     fold ckITEM ([EU_PID, EU_STA, EU_CMD] @ concat (map (win_items mode_altscr) (if mode_altscr then ws else take 1 ws)))
       (replicate (length Fieldstab) PIDS_extra_item)"

definition calibrate_fields ::
  "bool \<Rightarrow> int \<Rightarrow> (nat \<Rightarrow> string) \<Rightarrow> (nat \<Rightarrow> int) \<Rightarrow> top_win list \<Rightarrow> top_win list \<times> item list" where
  "calibrate_fields mode_altscr cols heads widths ws =
     (let ws1 = (if mode_altscr then map (calibrate_window mode_altscr cols heads widths) ws
                 else map (calibrate_window mode_altscr cols heads widths) (take 1 ws) @ drop 1 ws)
      in (ws1, build_items mode_altscr ws1))"

subsection \<open>The results a window reads\<close>

definition EU_MEM :: nat where "EU_MEM = 21"
definition EU_CUU :: nat where "EU_CUU = 74"
definition EU_CUC :: nat where "EU_CUC = 75"
definition Show_HIROWS :: "32 word" where "Show_HIROWS = 0x000100"
definition NOPRINT_xxx :: "32 word" where "NOPRINT_xxx = 0x010000"
definition NOHIFND_xxx :: "32 word" where "NOHIFND_xxx = 0x100000"

definition item_named :: "string \<Rightarrow> item" where
  "item_named nm = length (takeWhile (\<lambda>(n, _). n \<noteq> nm) pids_item_enum)"

text \<open>The item \<open>window_show\<close> sorts by, or \<open>forest_begin\<close> for it.\<close>

definition sort_item :: "top_win \<Rightarrow> item" where
  "sort_item w =
     (if CHKw w Show_FOREST then item_named ''TICS_BEGAN''
      else
        let i = field_item (tw_sortindx w)
        in if i = item_named ''CMD'' \<and> CHKw w Show_CMDLIN then item_named ''CMDLINE''
           else if i = item_named ''TICS_ALL'' \<and> CHKw w Show_CTIMES then item_named ''TICS_ALL_C''
           else i)"

text \<open>What \<open>forest_display\<close> reads for the window, which is the current one or not.\<close>

definition forest_display_reads :: "bool \<Rightarrow> top_win \<Rightarrow> nat list" where
  "forest_display_reads current w =
     [if CHKw w Show_CMDLIN then eu_CMDLINE else EU_CMD, eu_TREE_LVL]
     @ (if CHKw w Show_FOREST \<and> current then [eu_TREE_HID] else [])"

text \<open>
  The results \<open>task_show\<close> reads for one flag of the window: by the cases of its switch. In restricted mode the
  shares of the cpu and of the memory are question marks.
\<close>

definition cell_reads :: "bool \<Rightarrow> bool \<Rightarrow> top_win \<Rightarrow> nat \<Rightarrow> nat list" where
  "cell_reads restrict current w f =
     (if f = EU_XOF \<or> f = EU_XON then (if CHKw w (NOPRINT_xxx OR NOHIFND_xxx OR NOHISEL_xxx) then [] else [EU_STA])
      else if f = EU_CPU then
        [EU_CPU, EU_THD]
        @ (if restrict then [] else (if current \<and> CHKw w Show_FOREST then [eu_TREE_ADD] else []) @ [eu_TREE_HID])
      else if f = EU_CUU \<or> f = EU_CUC \<or> f = EU_MEM then (if restrict then [] else [f])
      else if f = EU_TM2 \<or> f = EU_TME then [if CHKw w Show_CTIMES then eu_TICS_ALL_C else f]
      else if f = EU_CMD then forest_display_reads current w
      else if f < EU_MAXPFLGS then [f]
      else [])"

definition task_reads :: "bool \<Rightarrow> bool \<Rightarrow> top_win \<Rightarrow> nat list" where
  "task_reads restrict current w =
     (if current \<and> CHKw w Show_FOREST then [eu_TREE_HID] else [])
     @ concat (map (cell_reads restrict current w) (tw_procflgs w))
     @ (if \<not> CHKw w NOPRINT_xxx \<and> CHKw w Show_HIROWS then [EU_STA] else [])"

text \<open>\<open>wins_usrselect\<close>, by the character of the selection.\<close>

definition usrselect_reads :: "top_win \<Rightarrow> nat list" where
  "usrselect_reads w =
     (if tw_usrseltyp w = 0 then []
      else if tw_usrseltyp w = 85 then [EU_URD, EU_USD, eu_ID_FUID, EU_UED]
      else if tw_usrseltyp w = 117 then [EU_UED] else [])"

text \<open>\<open>forest_begin\<close> with \<open>forest_adds\<close>, and \<open>forest_config\<close>.\<close>

definition forest_reads :: "nat list" where
  "forest_reads = [EU_PID, EU_TGD, EU_PPD, eu_TREE_LVL, eu_TREE_HID, eu_TREE_ADD, EU_CPU]"

text \<open>\<open>window_show\<close>.\<close>

definition window_reads :: "bool \<Rightarrow> bool \<Rightarrow> top_win \<Rightarrow> nat list" where
  "window_reads restrict current w =
     (if CHKw w Show_FOREST then forest_reads else [])
     @ (if CHKw w Show_IDLEPS then [] else [EU_CPU]) @ usrselect_reads w @ task_reads restrict current w"

subsection \<open>The widths of the columns\<close>

definition eu :: "string \<Rightarrow> nat" where
  "eu nm = length (takeWhile (\<lambda>x. x \<noteq> nm) pflag)"

definition set_widths :: "string list \<Rightarrow> int \<Rightarrow> int list \<Rightarrow> int list" where
  "set_widths nms v ws = fold (\<lambda>nm ws. ws[eu nm := v]) nms ws"

datatype zap_error = FAIL_widepid | FAIL_widecpu

definition pid_columns :: "string list" where
  "pid_columns = [''EU_PID'', ''EU_PPD'', ''EU_PGD'', ''EU_SID'', ''EU_TGD'', ''EU_TPG'']"

definition zap_once :: "int \<Rightarrow> int list \<Rightarrow> zap_error + int list" where
  "zap_once digits ws =
     (let ws1 = set_widths pid_columns 5 (set_widths [''EU_NMA''] 2 (set_widths [''EU_CPN''] 1 ws))
      in if 5 < digits then (if 10 < digits then Inl FAIL_widepid else Inr (set_widths pid_columns digits ws1)) else Inr ws1)"

definition zap_wider :: "int \<Rightarrow> int list \<Rightarrow> int list" where
  "zap_wider fixed_widest ws =
     (if fixed_widest < 0 then ws
      else
        set_widths [''EU_NS1'', ''EU_NS2'', ''EU_NS3'', ''EU_NS4'', ''EU_NS5'', ''EU_NS6''] (10 + fixed_widest)
          (set_widths [''EU_WCH''] (10 + fixed_widest)
            (set_widths [''EU_TTY'', ''EU_LXC''] (8 + fixed_widest)
              (set_widths [''EU_UEN'', ''EU_URN'', ''EU_USN'', ''EU_GRP''] (8 + fixed_widest)
                (set_widths [''EU_UED'', ''EU_URD'', ''EU_USD'', ''EU_GID''] (5 + fixed_widest) ws)))))"

text \<open>\<open>once\<close>: it was called before. The digits of a pid are those of \<open>procps_pid_length\<close>.\<close>

definition zap_fieldstab :: "bool \<Rightarrow> int \<Rightarrow> int \<Rightarrow> int \<Rightarrow> int \<Rightarrow> int list \<Rightarrow> zap_error + int list" where
  "zap_fieldstab once pid_length Cpu_cnt Numa_node_tot fixed_widest ws =
     (case (if once then Inr ws else zap_once pid_length ws) of
        Inl e \<Rightarrow> Inl e
      | Inr ws1 \<Rightarrow>
          let cpu = int (length (show_int Cpu_cnt)); numa = int (length (show_int Numa_node_tot));
              ws2 = (if 1 < cpu then set_widths [''EU_CPN''] cpu ws1 else ws1);
              ws3 = (if 2 < numa then set_widths [''EU_NMA''] numa ws2 else ws2)
          in if 1 < cpu \<and> 5 < cpu then Inl FAIL_widecpu else Inr (zap_wider fixed_widest ws3))"

definition zap_scales :: "int \<Rightarrow> int list \<Rightarrow> int list" where
  "zap_scales task_mscale scales =
     set_widths [''EU_VRT'', ''EU_SWP'', ''EU_RES'', ''EU_COD'', ''EU_DAT'', ''EU_SHR'', ''EU_USE'', ''EU_RZA'', ''EU_RZF'',
       ''EU_RZL'', ''EU_RZS'', ''EU_RSS'', ''EU_PSS'', ''EU_PZA'', ''EU_PZF'', ''EU_PZS'', ''EU_USS''] task_mscale scales"

text \<open>Columns whose cells were cut get wider by one; whether there were any.\<close>

definition widths_resize :: "bool list \<Rightarrow> int list \<Rightarrow> int list \<times> bool list \<times> bool" where
  "widths_resize autox ws =
     (map (\<lambda>i. if i < EU_MAXPFLGS \<and> autox ! i then ws ! i + 1 else ws ! i) [0 ..< length ws],
      replicate EU_MAXPFLGS False, list_ex (\<lambda>i. autox ! i) [0 ..< EU_MAXPFLGS])"

end
