(* ===== verification/TopFieldsSpec.thy ===== *)
theory TopFieldsSpec
  imports TopFields "HOL-Library.Sublist"
begin

unbundle bit_operations_syntax

text \<open>
  What the helpers of \<^verbatim>\<open>top.c\<close> for strings, columns and items promise: a string the library has escaped is a
  sequence of whole characters, a cell made of it takes the columns of its field and one blank, the fields
  of a header fit the screen, and every result a window reads has its item. And three cases where they do not: a cut
  in the middle of a character, a filter by order on names, and a sort by cumulative times that are not shown.
\<close>

subsection \<open>Whole characters\<close>

definition utf8_char :: "string \<Rightarrow> bool" where
  "utf8_char x \<longleftrightarrow> x \<noteq> [] \<and> utf8_clen (hd x) = int (length x)"

text \<open>The characters of a string.\<close>

function chars :: "string \<Rightarrow> string list" where
  "chars [] = []"
| "chars (c # cs) = (let n = nat (max 1 (utf8_clen c)) in take n (c # cs) # chars (drop n (c # cs)))"
  by pat_completeness auto
termination
  by (relation "measure length") (auto intro!: diff_less)

declare chars.simps(2) [simp del]

text \<open>A character that \<open>mbtowc\<close> accepts, and the columns it takes.\<close>

definition char_ok :: "(string \<Rightarrow> int option) \<Rightarrow> string \<Rightarrow> bool" where
  "char_ok wide x \<longleftrightarrow> utf8_char x \<and> (1 < length x \<longrightarrow> wide x \<noteq> None)"

definition char_cols :: "(string \<Rightarrow> int option) \<Rightarrow> string \<Rightarrow> int" where
  "char_cols wide x = (if 1 < length x then max 0 (case wide x of None \<Rightarrow> 0 | Some w \<Rightarrow> if w < 0 then 1 else w) else 1)"

definition cols_of :: "(string \<Rightarrow> int option) \<Rightarrow> string list \<Rightarrow> int" where
  "cols_of wide xs = sum_list (map (char_cols wide) xs)"

lemma cols_of_simps [simp]:
  "cols_of wide [] = 0" "cols_of wide (x # xs) = char_cols wide x + cols_of wide xs"
  "cols_of wide (xs @ ys) = cols_of wide xs + cols_of wide ys"
  by (simp_all add: cols_of_def)

lemma char_cols_nonneg: "0 \<le> char_cols wide x"
  by (simp add: char_cols_def)

lemma cols_of_nonneg: "0 \<le> cols_of wide xs"
  by (induction xs) (simp_all add: char_cols_nonneg add_nonneg_nonneg)

lemma utf8_char_split:
  assumes "utf8_char x"
  obtains c cs where "x = c # cs" "utf8_clen c = int (Suc (length cs))"
  using assms by (cases x) (auto simp: utf8_char_def)

lemma char_ok_split:
  assumes "char_ok wide x"
  obtains c cs where "x = c # cs" "utf8_clen c = int (Suc (length cs))"
    "\<And>y. utf8_cols wide (c # cs @ y) (int (Suc (length cs))) = Some (char_cols wide x)"
proof -
  obtain c cs where x: "x = c # cs" "utf8_clen c = int (Suc (length cs))"
    using assms utf8_char_split by (auto simp: char_ok_def)
  have "utf8_cols wide (x @ y) (int (length x)) = Some (char_cols wide x)" for y
    using assms x(1) [THEN arg_cong, of length]
    by (cases "wide x"; cases "length x = 1") (auto simp: utf8_cols_def char_cols_def char_ok_def)
  then show thesis using that [OF x] x(1) by simp
qed

lemma chars_concat: "list_all utf8_char xs \<Longrightarrow> chars (concat xs) = xs"
proof (induction xs)
  case (Cons x xs)
  obtain c cs where x: "x = c # cs" "utf8_clen c = int (Suc (length cs))" using utf8_char_split Cons.prems by auto
  then show ?case using Cons by (simp add: chars.simps(2) Let_def nat_add_distrib)
qed simp

lemma delta_from_whole:
  "list_all (char_ok wide) xs \<Longrightarrow> utf8_delta_from wide (concat xs) b c = Some (b + int (length (concat xs)) - (c + cols_of wide xs))"
proof (induction xs arbitrary: b c)
  case (Cons x xs)
  obtain d ds where x: "x = d # ds" "utf8_clen d = int (Suc (length ds))"
    "utf8_cols wide (d # ds @ concat xs) (int (Suc (length ds))) = Some (char_cols wide x)"
    using char_ok_split [of wide x] Cons.prems by (metis list.pred_inject(2))
  have "utf8_delta_from wide (concat (x # xs)) b c = utf8_delta_from wide (concat xs) (b + int (Suc (length ds))) (c + char_cols wide x)"
    unfolding x(1) concat.simps append.simps
    by (subst utf8_delta_from.simps(2)) (simp add: Let_def x(2) x(3) [simplified x(1)] del: of_nat_Suc)
  then show ?case using Cons.IH Cons.prems by (simp add: x(1))
qed simp

lemma delta_whole: "list_all (char_ok wide) xs \<Longrightarrow> utf8_delta wide (concat xs) = Some (int (length (concat xs)) - cols_of wide xs)"
  by (simp add: utf8_delta_def delta_from_whole)

text \<open>The characters that fit a width.\<close>

fun fitting :: "(string \<Rightarrow> int option) \<Rightarrow> int \<Rightarrow> string list \<Rightarrow> string list" where
  "fitting wide room [] = []"
| "fitting wide room (x # xs) = (if room < char_cols wide x then [] else x # fitting wide (room - char_cols wide x) xs)"

lemma fitting_prefix: "\<exists>ys. xs = fitting wide room xs @ ys"
  by (induction wide room xs rule: fitting.induct) auto

lemma fitting_cols: "0 \<le> room \<Longrightarrow> cols_of wide (fitting wide room xs) \<le> room"
  by (induction wide room xs rule: fitting.induct) auto

lemma embody_from_whole:
  "list_all (char_ok wide) xs \<Longrightarrow> utf8_embody_from wide width (concat xs) b c = Some (b + int (length (concat (fitting wide (width - c) xs))))"
proof (induction xs arbitrary: b c)
  case (Cons x xs)
  obtain d ds where x: "x = d # ds" "utf8_clen d = int (Suc (length ds))"
    "utf8_cols wide (d # ds @ concat xs) (int (Suc (length ds))) = Some (char_cols wide x)"
    using char_ok_split [of wide x] Cons.prems by (metis list.pred_inject(2))
  have "utf8_embody_from wide width (concat (x # xs)) b c =
      (if width < c + char_cols wide x then Some b
       else utf8_embody_from wide width (concat xs) (b + int (Suc (length ds))) (c + char_cols wide x))"
    unfolding x(1) concat.simps append.simps
    by (subst utf8_embody_from.simps(2)) (simp add: Let_def x(2) x(3) [simplified x(1)] del: of_nat_Suc)
  then show ?case using Cons.IH Cons.prems by (auto simp: x(1) algebra_simps)
qed simp

lemma embody_whole:
  "list_all (char_ok wide) xs \<Longrightarrow> 0 \<le> width \<Longrightarrow> utf8_embody wide (concat xs) width = Some (int (length (concat (fitting wide width xs)))) \<or> width = 0"
  by (auto simp: utf8_embody_def embody_from_whole)

subsection \<open>What is escaped is whole\<close>

lemma ascii_whole: "list_all (\<lambda>c. byte c < 128) s \<Longrightarrow> list_all utf8_char (map (\<lambda>c. [c]) s)"
  by (induction s) (simp_all add: utf8_char_def utf8_clen_utf_len utf_len_ascii)

definition whole :: "string \<Rightarrow> bool" where
  "whole s \<longleftrightarrow> (\<exists>xs. s = concat xs \<and> list_all utf8_char xs)"

lemma whole_ascii: "list_all (\<lambda>c. byte c < 128) s \<Longrightarrow> whole s"
  unfolding whole_def by (intro exI [of _ "map (\<lambda>c. [c]) s"]) (simp add: ascii_whole concat_map_singleton)

lemma whole_append: "whole s \<Longrightarrow> whole t \<Longrightarrow> whole (s @ t)"
  unfolding whole_def by (metis concat_append list_all_append)

lemma whole_esc_all: "whole (esc_all s)"
proof (rule whole_ascii)
  have "byte c < 128" if "c \<in> set (esc_all s)" for c using esc_all_printable [OF that] by (simp add: printable_def)
  then show "list_all (\<lambda>c. byte c < 128) (esc_all s)" by (simp add: list_all_iff)
qed

lemma whole_esc_ctl: "len = i + length str \<Longrightarrow> esc_ctl str i len = Some r \<Longrightarrow> whole r"
proof (induction str i len arbitrary: r rule: esc_ctl.induct)
  case (1 str i len)
  show ?case
  proof (cases str)
    case Nil
    then show ?thesis using 1(2,3) whole_ascii [of "[]"] by (simp add: esc_ctl_done)
  next
    case (Cons b bs)
    with 1(2) have lt: "i < len" by simp
    show ?thesis
    proof (cases "utf_len b < 0 \<or> int len < int i + utf_len b")
      case True
      from esc_ctl_bad [OF lt this] Cons 1(3) have "r = esc_all str" by simp
      then show ?thesis using whole_esc_all by simp
    next
      case False
      let ?n = "nat (utf_len b)"
      have pos: "0 < ?n" using False utf_len_cases [of b] by auto
      from False 1(2) have le: "?n \<le> length str" by auto
      have "esc_ctl (b # bs) i len = Some r" using 1(3) Cons by simp
      then obtain r' where r': "esc_ctl (drop ?n str) (i + ?n) len = Some r'"
        and r: "r = (if is_ctl b then CHR ''?'' else b) # take (?n - 1) bs @ r'"
        unfolding esc_ctl_step [OF lt False le [unfolded Cons]] Cons map_option_eq_Some by blast
      have "len = i + ?n + length (drop ?n str)" using 1(2) le by simp
      then have w: "whole r'" using 1(1) [OF lt Cons refl False _ _ r'] le by simp
      have "utf8_char ((if is_ctl b then CHR ''?'' else b) # take (?n - 1) bs)"
      proof (cases "is_ctl b")
        case c: True
        then have "utf_len b = 1" using utf_len_ascii [of b] by (auto simp: is_ctl_def)
        moreover have "utf8_clen (CHR ''?'') = 1" by code_simp
        ultimately show ?thesis using c by (simp add: utf8_char_def)
      next
        case c: False
        then show ?thesis using le pos Cons by (simp add: utf8_char_def utf8_clen_utf_len)
      qed
      then have "whole ((if is_ctl b then CHR ''?'' else b) # take (?n - 1) bs)" unfolding whole_def
        by (intro exI [of _ "[(if is_ctl b then CHR ''?'' else b) # take (?n - 1) bs]"]) simp
      from whole_append [OF this w] show ?thesis by (simp add: r)
    qed
  qed
qed

lemma whole_escape_str:
  assumes "0 < bufsize" "escape_str enc dst src bufsize = Some (str, n)"
  shows "whole str"
proof (cases "bufsize < INT_MAX \<and> int (length src) \<le> INT_MAX")
  case True
  let ?d = "take (nat bufsize - 1) src"
  from True assms escape_str_main [of bufsize src enc dst] have len: "length str = length ?d" and
    utf: "utf_sw enc \<Longrightarrow> esc_ctl ?d 0 (length str) = Some str" and all: "\<not> utf_sw enc \<Longrightarrow> str = esc_all ?d" by auto
  show ?thesis using whole_esc_all [of ?d] all whole_esc_ctl [OF _ utf] len by (cases "utf_sw enc") auto
next
  case False
  then show ?thesis using assms whole_ascii [of "[]"] by (auto simp: escape_str_def split: if_splits)
qed

subsection \<open>A cell takes the columns of its field\<close>

lemma ascii_chars:
  assumes "list_all (\<lambda>c. byte c < 128) s"
  shows "list_all (char_ok wide) (map (\<lambda>c. [c]) s)" "cols_of wide (map (\<lambda>c. [c]) s) = int (length s)"
    "concat (map (\<lambda>c. [c]) s) = s"
proof -
  show "list_all (char_ok wide) (map (\<lambda>c. [c]) s)" using ascii_whole [OF assms] by (simp add: list_all_iff char_ok_def)
  show "cols_of wide (map (\<lambda>c. [c]) s) = int (length s)" by (induction s) (simp_all add: char_cols_def)
  show "concat (map (\<lambda>c. [c]) s) = s" by (induction s) simp_all
qed

lemma blanks_whole:
  "list_all (char_ok wide) (map (\<lambda>c. [c]) (replicate n (CHR '' '')))" "cols_of wide (map (\<lambda>c. [c]) (replicate n (CHR '' ''))) = int n"
  "concat (map (\<lambda>c. [c]) (replicate n (CHR '' ''))) = replicate n (CHR '' '')"
  using ascii_chars [where s = "replicate n (CHR '' '')"] by (simp_all add: list_all_iff)

text \<open>Justifying characters that take at most that many columns.\<close>

lemma justify_whole:
  assumes "list_all (char_ok wide) xs" "cols_of wide xs \<le> width" "int (length (concat xs)) + (width - cols_of wide xs) \<le> 510"
  defines "d \<equiv> int (length (concat xs)) - cols_of wide xs"
  shows "\<exists>ys. justify_pad (concat xs) (width + d) justr = concat ys \<and> list_all (char_ok wide) ys \<and> cols_of wide ys = width + 1
    \<and> sublist (concat xs) (justify_pad (concat xs) (width + d) justr)"
proof -
  let ?s = "concat xs" and ?w = "width + d"
  have w: "int (length ?s) \<le> ?w" "0 \<le> ?w" using assms(2) by (simp_all add: d_def)
  have top: "?w + 1 \<le> 511" using assms(3) by (simp add: d_def)
  obtain bl where bl: "bl = map (\<lambda>c. [c]) (replicate (nat ?w - length ?s) (CHR '' ''))" by (rule that [OF refl])
  have b: "list_all (char_ok wide) bl" "cols_of wide bl = int (nat ?w - length ?s)" "concat bl = replicate (nat ?w - length ?s) (CHR '' '')"
    unfolding bl by (rule blanks_whole)+
  have pad: "[COLPADSTR] = map (\<lambda>c. [c]) (replicate 1 (CHR '' ''))" by (simp add: COLPADSTR_def)
  obtain ys where ys: "ys = (if justr then bl @ xs else xs @ bl) @ [COLPADSTR]" by (rule that [OF refl])
  have f: "fmt_str justr ?w ?s = concat (if justr then bl @ xs else xs @ bl)"
    using w by (simp add: fmt_str_def b(3) Let_def nat_le_iff)
  have len: "length (fmt_str justr ?w ?s @ COLPADSTR) \<le> 511"
    using w top by (simp add: fmt_str_def Let_def COLPADSTR_def nat_le_iff)
  have j: "justify_pad ?s ?w justr = concat ys"
    using len by (simp add: justify_pad_def SCREENMAX_def f ys)
  have "list_all (char_ok wide) ys" unfolding ys pad using b(1) assms(1) blanks_whole(1) [of wide 1] by simp
  moreover have "cols_of wide ys = width + 1"
    unfolding ys pad using b(2) w blanks_whole(2) [of wide 1] by (simp add: d_def)
  moreover have "sublist ?s (concat ys)" unfolding ys by (auto simp: sublist_def)
  ultimately show ?thesis using j by auto
qed

text \<open>
  Every beginning of the string that fits the column fits the buffer with the blanks that fill the column:
  511 bytes with the blank that follows. So it is for one-byte characters in columns up to 510, however
  long the string, and whenever the bytes of the string and the column are at most 510 together.
\<close>

definition cell_room :: "(string \<Rightarrow> int option) \<Rightarrow> int \<Rightarrow> string \<Rightarrow> bool" where
  "cell_room wide width str \<longleftrightarrow>
     list_all (\<lambda>k. let xs = take k (chars str)
                   in cols_of wide xs \<le> width \<longrightarrow> int (length (concat xs)) + (width - cols_of wide xs) \<le> 510)
       [0 ..< Suc (length (chars str))]"

lemma cell_room_prefix:
  assumes "cell_room wide width (concat xs)" "list_all utf8_char xs" "xs = ys @ zs" "cols_of wide ys \<le> width"
  shows "int (length (concat ys)) + (width - cols_of wide ys) \<le> 510"
proof -
  have "length ys \<in> set [0 ..< Suc (length xs)]" "take (length ys) xs = ys" using assms(3) by simp_all
  then show ?thesis using assms(1,4) unfolding cell_room_def chars_concat [OF assms(2)] list_all_iff Let_def by metis
qed

lemma ascii_room: "list_all (\<lambda>c. byte c < 128) str \<Longrightarrow> width \<le> 510 \<Longrightarrow> cell_room wide width str"
proof -
  assume a: "list_all (\<lambda>c. byte c < 128) str" "width \<le> 510"
  have c: "chars str = map (\<lambda>c. [c]) str" using chars_concat [OF ascii_whole [OF a(1)]] ascii_chars(3) [OF a(1)] by simp
  have "list_all (\<lambda>c. byte c < 128) (take k str)" for k using a(1) by (auto simp: list_all_iff dest: in_set_takeD)
  from ascii_chars(2,3) [OF this] show ?thesis using a(2) by (simp add: cell_room_def c take_map list_all_iff del: upt_Suc)
qed

lemma short_room:
  assumes "whole str" "int (length str) + width \<le> 510"
  shows "cell_room wide width str"
proof -
  obtain xs where xs: "str = concat xs" "list_all utf8_char xs" using assms(1) by (auto simp: whole_def)
  have "length (concat (take k xs)) \<le> length (concat xs)" for k
    by (metis append_take_drop_id concat_append le_add1 length_append)
  then have "int (length (concat (take k xs))) + width \<le> 510" for k using assms(2) xs(1) by (smt (verit) of_nat_mono)
  then have "int (length (concat (take k xs))) + (width - cols_of wide (take k xs)) \<le> 510" for k
    using cols_of_nonneg [of wide "take k xs"] by (smt (verit))
  then show ?thesis unfolding cell_room_def xs(1) chars_concat [OF xs(2)] by (simp add: list_all_iff Let_def del: upt_Suc)
qed



text \<open>
  Where they do not fit a cut may fall inside a character: of 190 characters with three bytes each in a column of 180, the
  buffer keeps 170 and one byte of the next, and the walk over it steps over its NUL.
\<close>

lemma make_str_utf8_overread:
  "make_str_utf8 (\<lambda>_. Some 1) (concat (replicate 190 [CHR 0xE0, CHR 0xB8, CHR 0x81])) 180 False 32 = None"
  by code_simp

text \<open>A filter by order on a name is compared with a cell that is justified the other way: it lets all names pass.\<close>

lemma name_order_ignored:
  "case osel_add (\<lambda>E. pflag ! E) (\<lambda>E. fst (Fieldstab ! E)) [] (CHR ''O'') ''EU_UEN>m'' True of
     Inl _ \<Rightarrow> False | Inr q \<Rightarrow> osel_matched q 3 (fst (make_str ''alice'' 8 False 3)) \<and> \<not> 0 < strcmp ''alice'' ''m''"
  by code_simp


subsection \<open>The header fits the screen\<close>

lemma fit_columns_fits:
  assumes "s \<le> cols" "fit_columns heads widths cols fs s = (shown, s1, n, sz)"
  shows "s1 \<le> cols \<and> s1 = s + sum_list (map (col_len heads widths) (filter (\<lambda>f. f < EU_MAXPFLGS) shown)) \<and> (\<exists>rest. fs = shown @ rest)"
  using assms
proof (induction heads widths cols fs s arbitrary: shown s1 n sz rule: fit_columns.induct)
  case (2 heads widths cols f fs s)
  show ?case
  proof (cases "EU_MAXPFLGS \<le> f")
    case True
    obtain a b c d where r: "fit_columns heads widths cols fs s = (a, b, c, d)" by (metis prod_cases4)
    have "shown = f # a" "s1 = b" using 2(4) True r by simp_all
    then show ?thesis using 2(1) [OF True 2(3) r] True by auto
  next
    case False
    show ?thesis
    proof (cases "cols < s + col_len heads widths f")
      case True
      then show ?thesis using 2(3,4) False by auto
    next
      case le: False
      obtain a b c d where r: "fit_columns heads widths cols fs (s + col_len heads widths f) = (a, b, c, d)" by (metis prod_cases4)
      have "shown = f # a \<and> s1 = b" using 2(4) False le r by (auto split: if_splits)
      moreover have "s + col_len heads widths f \<le> cols" using le by simp
      ultimately show ?thesis using 2(2) [OF False le _ r] False by auto
    qed
  qed
qed auto

lemma butlast_mark:
  "EU_MAXPFLGS \<le> last fs \<Longrightarrow> filter (\<lambda>f. f < EU_MAXPFLGS) (butlast fs) = filter (\<lambda>f. f < EU_MAXPFLGS) fs"
  by (cases fs rule: rev_cases) auto

text \<open>The fields of a calibrated window are those from its first one on, as many as fit with their blanks.\<close>

lemma header_fits:
  fixes heads :: "nat \<Rightarrow> string" and widths :: "nat \<Rightarrow> int"
  assumes "VIZISw mode w" "1 \<le> cols"
  defines "w1 \<equiv> calibrate_window mode cols heads widths w"
  shows "(if mode then 1 else 0) + sum_list (map (col_len heads widths) (filter (\<lambda>f. f < EU_MAXPFLGS) (tw_procflgs w1))) \<le> cols"
    and "\<exists>rest. drop (tw_begpflg w) (win_pflgsall w) = tw_procflgs w1 @ rest"
proof -
  let ?s0 = "if mode then 1 else 0 :: int"
  obtain shown s n sz where r: "fit_columns heads widths cols (drop (tw_begpflg w) (win_pflgsall w)) ?s0 = (shown, s, n, sz)"
    by (metis prod_cases4)
  have s0: "?s0 \<le> cols" using assms(2) by simp
  note f = fit_columns_fits [OF s0 r]
  obtain p where p: "p = (if shown \<noteq> [] \<and> last shown = EU_XON then butlast shown else shown)" by (rule that [OF refl])
  have w1: "tw_procflgs w1 = p" using assms(1) by (simp add: w1_def calibrate_window_def r Let_def p)
  have e: "filter (\<lambda>f. f < EU_MAXPFLGS) p = filter (\<lambda>f. f < EU_MAXPFLGS) shown"
    using butlast_mark [of shown] by (auto simp: p EU_XON_def EU_MAXPFLGS_def)
  from f have "s = ?s0 + sum_list (map (col_len heads widths) (filter (\<lambda>f. f < EU_MAXPFLGS) shown))" "s \<le> cols" by blast+
  then show "?s0 + sum_list (map (col_len heads widths) (filter (\<lambda>f. f < EU_MAXPFLGS) (tw_procflgs w1))) \<le> cols"
    unfolding w1 e by argo
  have "\<exists>t. shown = p @ t" unfolding p by (cases shown rule: rev_cases) auto
  then show "\<exists>rest. drop (tw_begpflg w) (win_pflgsall w) = tw_procflgs w1 @ rest" using f unfolding w1 by (metis append.assoc)
qed

subsection \<open>Every result that is read has its item\<close>

lemma fold_ckITEM:
  "length (fold ckITEM es its) = length its \<and>
   (E < length its \<longrightarrow> fold ckITEM es its ! E = (if E \<in> set es then field_item E else its ! E))"
proof (induction es arbitrary: its)
  case (Cons e es)
  then show ?case using Cons [of "ckITEM e its"] by (auto simp: ckITEM_def)
qed simp

lemma length_Fieldstab: "length Fieldstab = 82"
  by (simp add: Fieldstab_def)

lemma build_items_nth:
  assumes "E < 82"
  shows "build_items mode ws ! E =
     (if E \<in> {EU_PID, EU_STA, EU_CMD} \<union> \<Union> (set ` win_items mode ` set (if mode then ws else take 1 ws)) then field_item E else PIDS_extra_item)"
proof -
  obtain es where es: "es = [EU_PID, EU_STA, EU_CMD] @ concat (map (win_items mode) (if mode then ws else take 1 ws))"
    by (rule that [OF refl])
  have "set es = {EU_PID, EU_STA, EU_CMD} \<union> \<Union> (set ` win_items mode ` set (if mode then ws else take 1 ws))" by (auto simp: es)
  moreover have "build_items mode ws ! E = (if E \<in> set es then field_item E else PIDS_extra_item)"
    unfolding build_items_def es [symmetric]
    using fold_ckITEM [of es "replicate (length Fieldstab) PIDS_extra_item" E] assms by (simp add: length_Fieldstab)
  ultimately show ?thesis by simp
qed

text \<open>An item is found in a stack for its items exactly when it is one of them.\<close>

lemma offset_found:
  "map rc_item s = its @ PIDS_logical_end # rest \<Longrightarrow> list_all (\<lambda>i. i < PIDS_logical_end) its \<Longrightarrow> it < PIDS_logical_end \<Longrightarrow>
   cur = off + Suc (length its) \<Longrightarrow>
   (if it \<in> set its then \<exists>k. pids_offset cur it off s = Some (Some k) else pids_offset cur it off s = Some None)"
proof (induction its arbitrary: s off)
  case Nil
  then obtain r rs where "s = r # rs" "rc_item r = PIDS_logical_end" by (cases s) auto
  then show ?case using Nil by simp
next
  case (Cons i its)
  obtain r rs where s: "s = r # rs" "rc_item r = i" "map rc_item rs = its @ PIDS_logical_end # rest"
    using Cons.prems(1) by (cases s) auto
  show ?case using Cons.IH [OF s(3), of "off + 1"] Cons.prems(2-4) s(1,2) by auto
qed

text \<open>The items go by their names: two fields have one item only when they have one name.\<close>

definition field_name :: "nat \<Rightarrow> string" where
  "field_name E = snd (snd (snd (Fieldstab ! E)))"

lemma field_item_named: "field_item E = item_named (field_name E)"
  by (simp add: field_item_def item_named_def field_name_def)

lemma position_named:
  "x \<in> set (map fst xs) \<Longrightarrow>
     length (takeWhile (\<lambda>(n, _). n \<noteq> x) xs) < length xs \<and> fst (xs ! length (takeWhile (\<lambda>(n, _). n \<noteq> x) xs)) = x"
  by (induction xs) (auto split: prod.splits)

lemma named_at:
  "nm \<in> set (map fst pids_item_enum) \<Longrightarrow>
     item_named nm < length pids_item_enum \<and> fst (pids_item_enum ! item_named nm) = nm"
  unfolding item_named_def by (rule position_named)

abbreviation fields_known :: "(int \<times> int \<times> fld_align \<times> string) list \<Rightarrow> bool" where
  "fields_known \<equiv> list_all (\<lambda>t. snd (snd (snd t)) \<in> set (map fst pids_item_enum))"

lemma first_fields_known: "fields_known (take 41 Fieldstab)"
  by (simp add: Fieldstab_def pids_item_enum_def)

lemma last_fields_known: "fields_known (drop 41 Fieldstab)"
  by (simp add: Fieldstab_def pids_item_enum_def)

lemma field_name_known: "E < 82 \<Longrightarrow> field_name E \<in> set (map fst pids_item_enum)"
proof -
  have "fields_known (take 41 Fieldstab @ drop 41 Fieldstab)"
    unfolding list_all_append using first_fields_known last_fields_known by blast
  then show "E < 82 \<Longrightarrow> field_name E \<in> set (map fst pids_item_enum)"
    unfolding append_take_drop_id list_all_length length_Fieldstab field_name_def by blast
qed

lemma field_item_inj:
  assumes "E < 82" "F < 82" "field_item E = field_item F"
  shows "field_name E = field_name F"
proof -
  have "field_name E = fst (pids_item_enum ! field_item E)" "field_name F = fst (pids_item_enum ! field_item F)"
    using named_at [OF field_name_known [OF assms(1)]] named_at [OF field_name_known [OF assms(2)]]
    unfolding field_item_named by metis+
  then show ?thesis unfolding assms(3) by metis
qed

lemma length_items: "length pids_item_enum = PIDS_logical_end"
  by (simp add: pids_item_enum_def PIDS_logical_end_def)

lemma field_items_valid: "E < 82 \<Longrightarrow> field_item E < PIDS_logical_end"
  using named_at [OF field_name_known] unfolding field_item_named length_items by blast

lemma extra_slots: "field_item eu_TREE_HID = PIDS_extra_item" "field_item eu_TREE_LVL = PIDS_extra_item"
  "field_item eu_TREE_ADD = PIDS_extra_item"
  by (simp_all add: field_item_def Fieldstab_def pids_item_enum_def eu_TREE_HID_def eu_TREE_LVL_def eu_TREE_ADD_def PIDS_extra_item_def)

lemma build_items_length: "length (build_items mode ws) = 82"
  unfolding build_items_def using conjunct1 [OF fold_ckITEM] by (simp only: length_replicate length_Fieldstab)

lemma build_items_valid: "list_all (\<lambda>i. i < PIDS_logical_end) (build_items mode ws)"
proof -
  have "build_items mode ws ! E < PIDS_logical_end" if "E < 82" for E
    using build_items_nth [OF that, of mode ws] field_items_valid [OF that]
    by (simp add: PIDS_extra_item_def PIDS_logical_end_def)
  then show ?thesis by (simp add: list_all_length build_items_length)
qed

text \<open>The cumulative times have a field of their own, the command line too; what is sorted by is another field's item.\<close>

lemma special_names:
  "list_all (\<lambda>E. (field_name E = ''TICS_ALL_C'') = (E = eu_TICS_ALL_C) \<and> (field_name E = ''CMD'') = (E = EU_CMD)) [0 ..< 82]"
  by code_simp

lemma field_names:
  "field_name eu_TICS_ALL_C = ''TICS_ALL_C''" "field_name eu_CMDLINE = ''CMDLINE''" "field_name EU_CMD = ''CMD''"
  "field_name EU_TM3 = ''TICS_BEGAN''" "field_name eu_TREE_HID = ''extra''"
  by (simp_all add: field_name_def Fieldstab_def eu_TICS_ALL_C_def eu_CMDLINE_def EU_CMD_def EU_TM3_def eu_TREE_HID_def)

lemma named_items:
  "item_named ''TICS_ALL_C'' = field_item eu_TICS_ALL_C" "item_named ''CMDLINE'' = field_item eu_CMDLINE"
  "item_named ''CMD'' = field_item EU_CMD" "item_named ''TICS_BEGAN'' = field_item EU_TM3"
  by (simp_all only: field_item_named field_names)

lemma field_item_special:
  assumes "E < 82"
  shows "field_item E = item_named ''TICS_ALL_C'' \<Longrightarrow> E = eu_TICS_ALL_C" "field_item E = item_named ''CMD'' \<Longrightarrow> E = EU_CMD"
proof -
  have n: "(field_name E = ''TICS_ALL_C'') = (E = eu_TICS_ALL_C)" "(field_name E = ''CMD'') = (E = EU_CMD)"
    using special_names assms unfolding list_all_iff by auto
  show "field_item E = item_named ''TICS_ALL_C'' \<Longrightarrow> E = eu_TICS_ALL_C"
    using field_item_inj [OF assms, of eu_TICS_ALL_C] n(1) field_names(1) by (simp add: named_items eu_TICS_ALL_C_def)
  show "field_item E = item_named ''CMD'' \<Longrightarrow> E = EU_CMD"
    using field_item_inj [OF assms, of EU_CMD] n(2) field_names(3) by (simp add: named_items EU_CMD_def)
qed

text \<open>The windows whose headers are built, and whether one of them shows cumulative times.\<close>

definition built_windows :: "bool \<Rightarrow> top_win list \<Rightarrow> top_win list" where
  "built_windows mode ws = filter (VIZISw mode) (if mode then ws else take 1 ws)"

definition shows_ctimes :: "top_win \<Rightarrow> bool" where
  "shows_ctimes w \<longleftrightarrow> CHKw w Show_CTIMES \<and> (EU_TME \<in> set (tw_procflgs w) \<or> EU_TM2 \<in> set (tw_procflgs w))"

lemmas eu_numbers =
  EU_MAXPFLGS_def EU_PID_def EU_STA_def EU_CMD_def EU_CPU_def EU_THD_def EU_TME_def EU_TM2_def EU_TM3_def EU_PPD_def
  EU_TGD_def EU_UED_def EU_URD_def EU_USD_def EU_XON_def EU_XOF_def EU_MEM_def EU_CUU_def EU_CUC_def eu_CMDLINE_def
  eu_TICS_ALL_C_def eu_ID_FUID_def eu_TREE_HID_def eu_TREE_LVL_def eu_TREE_ADD_def

lemma pflag_ctimes: "eu_TICS_ALL_C \<in> set (pflag_items w f) \<longleftrightarrow> (f = EU_TME \<or> f = EU_TM2) \<and> CHKw w Show_CTIMES"
  by (simp add: pflag_items_def ckCMDS_def eu_numbers)

lemma ctimes_asked:
  assumes "tw_sortindx w < EU_MAXPFLGS"
  shows "eu_TICS_ALL_C \<in> set (win_items mode w) \<longleftrightarrow> VIZISw mode w \<and> shows_ctimes w"
proof -
  have "eu_TICS_ALL_C \<in> set (win_items mode w) \<longleftrightarrow> VIZISw mode w \<and> (\<exists>f\<in>set (tw_procflgs w). eu_TICS_ALL_C \<in> set (pflag_items w f))"
    using assms by (simp add: win_items_def ckCMDS_def eu_numbers)
  then show ?thesis by (auto simp: pflag_ctimes shows_ctimes_def)
qed

lemma build_items_asked:
  "E < 82 \<Longrightarrow> w \<in> set (built_windows mode ws) \<Longrightarrow> E \<in> {EU_PID, EU_STA, EU_CMD} \<union> set (win_items mode w) \<Longrightarrow>
     build_items mode ws ! E = field_item E"
  using build_items_nth [of E mode ws] by (auto simp: built_windows_def split: if_splits)

lemma extra_not_ctimes: "PIDS_extra_item \<noteq> item_named ''TICS_ALL_C''"
  using field_item_special(1) [of eu_TREE_HID] extra_slots(1) by (auto simp: eu_TREE_HID_def eu_TICS_ALL_C_def)

lemma ctimes_item:
  assumes "list_all (\<lambda>w. tw_sortindx w < EU_MAXPFLGS) (built_windows mode ws)"
  shows "item_named ''TICS_ALL_C'' \<in> set (build_items mode ws) \<longleftrightarrow> list_ex shows_ctimes (built_windows mode ws)"
proof -
  let ?v = "if mode then ws else take 1 ws"
  have "item_named ''TICS_ALL_C'' \<in> set (build_items mode ws) \<longleftrightarrow> (\<exists>E<82. build_items mode ws ! E = item_named ''TICS_ALL_C'')"
    by (auto simp: in_set_conv_nth build_items_length)
  also have "\<dots> \<longleftrightarrow> (\<exists>w\<in>set ?v. eu_TICS_ALL_C \<in> set (win_items mode w))"
  proof
    assume "\<exists>E<82. build_items mode ws ! E = item_named ''TICS_ALL_C''"
    then obtain E where E: "E < 82" "build_items mode ws ! E = item_named ''TICS_ALL_C''" by blast
    then have f: "E \<in> {EU_PID, EU_STA, EU_CMD} \<union> \<Union> (set ` win_items mode ` set ?v)" "field_item E = item_named ''TICS_ALL_C''"
      using build_items_nth [OF E(1), of mode ws] extra_not_ctimes by (auto split: if_splits)
    then have "E = eu_TICS_ALL_C" using field_item_special(1) E(1) by blast
    then show "\<exists>w\<in>set ?v. eu_TICS_ALL_C \<in> set (win_items mode w)" using f(1) by (auto simp: eu_numbers)
  next
    assume "\<exists>w\<in>set ?v. eu_TICS_ALL_C \<in> set (win_items mode w)"
    then have "build_items mode ws ! eu_TICS_ALL_C = field_item eu_TICS_ALL_C"
      using build_items_nth [of eu_TICS_ALL_C mode ws] by (auto simp: eu_TICS_ALL_C_def)
    then show "\<exists>E<82. build_items mode ws ! E = item_named ''TICS_ALL_C''"
      using named_items(1) by (intro exI [of _ eu_TICS_ALL_C]) (simp add: eu_TICS_ALL_C_def)
  qed
  also have "\<dots> \<longleftrightarrow> list_ex shows_ctimes (built_windows mode ws)"
  proof -
    have "eu_TICS_ALL_C \<in> set (win_items mode w) \<longleftrightarrow> VIZISw mode w \<and> shows_ctimes w" if "w \<in> set ?v" for w
    proof (cases "VIZISw mode w")
      case True
      then have "tw_sortindx w < EU_MAXPFLGS" using assms that by (auto simp: built_windows_def list_all_iff)
      then show ?thesis by (rule ctimes_asked)
    qed (simp add: win_items_def)
    then show ?thesis by (auto simp: built_windows_def list_ex_iff)
  qed
  finally show ?thesis .
qed

lemma sort_item_field:
  assumes "VIZISw mode w" "tw_sortindx w < EU_MAXPFLGS" "sort_item w \<noteq> item_named ''TICS_ALL_C''"
  shows "\<exists>E<82. sort_item w = field_item E \<and> E \<in> set (win_items mode w) \<union> {EU_CMD}"
proof -
  have s: "tw_sortindx w < 82" using assms(2) by (simp add: EU_MAXPFLGS_def)
  consider "CHKw w Show_FOREST" | "\<not> CHKw w Show_FOREST" "tw_sortindx w = EU_CMD" "CHKw w Show_CMDLIN"
    | "\<not> CHKw w Show_FOREST" "sort_item w = field_item (tw_sortindx w)"
  proof (cases "CHKw w Show_FOREST \<or> field_item (tw_sortindx w) = item_named ''CMD'' \<and> CHKw w Show_CMDLIN")
    case True
    then show ?thesis using that(1,2) field_item_special(2) [OF s] by blast
  next
    case False
    then have "sort_item w = field_item (tw_sortindx w)" using assms(3) by (simp add: sort_item_def Let_def split: if_splits) blast
    then show ?thesis using that(1,3) by blast
  qed
  then show ?thesis
  proof cases
    case 1
    then show ?thesis using assms(1) named_items(4)
      by (intro exI [of _ EU_TM3]) (simp add: sort_item_def win_items_def EU_TM3_def)
  next
    case 2
    then show ?thesis using assms(1) named_items(2,3)
      by (intro exI [of _ eu_CMDLINE]) (simp add: sort_item_def win_items_def ckCMDS_def eu_CMDLINE_def)
  next
    case 3
    then show ?thesis using assms(1) s
      by (intro exI [of _ "tw_sortindx w"]) (simp add: win_items_def)
  qed
qed

lemma sort_item_asked:
  assumes "w \<in> set (built_windows mode ws)" "tw_sortindx w < EU_MAXPFLGS" "sort_item w \<noteq> item_named ''TICS_ALL_C''"
  shows "sort_item w \<in> set (build_items mode ws)"
proof -
  have v: "VIZISw mode w" using assms(1) by (simp add: built_windows_def)
  obtain E where E: "E < 82" "sort_item w = field_item E" "E \<in> set (win_items mode w) \<union> {EU_CMD}"
    using sort_item_field [OF v assms(2,3)] by blast
  then have "build_items mode ws ! E = sort_item w" using build_items_asked [OF E(1) assms(1)] by auto
  then show ?thesis using E(1) nth_mem [of E "build_items mode ws"] by (simp add: build_items_length)
qed

lemma sort_item_valid: "tw_sortindx w < EU_MAXPFLGS \<Longrightarrow> sort_item w < PIDS_logical_end"
  using field_items_valid
  by (simp add: sort_item_def Let_def named_items EU_MAXPFLGS_def eu_TICS_ALL_C_def eu_CMDLINE_def EU_TM3_def)

text \<open>The reads of one cell, each asked for when the field is shown.\<close>

lemma cell_asked:
  assumes "w \<in> set (built_windows mode ws)" "f \<in> set (tw_procflgs w)" "E \<in> set (cell_reads restrict current w f)"
  shows "build_items mode ws ! E = field_item E"
proof -
  have v: "VIZISw mode w" using assms(1) by (simp add: built_windows_def)
  have own: "set (pflag_items w f) \<subseteq> set (win_items mode w)" using assms(2) v by (auto simp: win_items_def)
  have tree: "build_items mode ws ! T = field_item T" if "T \<in> {eu_TREE_HID, eu_TREE_LVL, eu_TREE_ADD}" for T
    using build_items_nth [of T mode ws] that extra_slots by (auto simp: eu_numbers)
  have asked: "build_items mode ws ! T = field_item T" if "T < 82" "T \<in> {EU_PID, EU_STA, EU_CMD} \<union> set (pflag_items w f)" for T
    using build_items_asked [OF that(1) assms(1)] that(2) own by blast
  consider "E \<in> {eu_TREE_HID, eu_TREE_LVL, eu_TREE_ADD}"
    | "E < 82" "E \<in> {EU_PID, EU_STA, EU_CMD} \<union> set (pflag_items w f)"
    using assms(3)
    by (auto simp: cell_reads_def forest_display_reads_def pflag_items_def ckCMDS_def eu_numbers split: if_splits)
  then show ?thesis using tree asked by cases blast+
qed

text \<open>
  C19. Every result a window reads was asked for from the library: by the cells of its rows, the user selection, the
  selection of busy processes and the forest view; only the cpu time the forest view adds up may be an empty slot,
  when no shown field or selection asks for it. And the stacks can be sorted the way the window sorts them, except
  by cumulative times when no window of the screen shows that column: then the sort fails, and \<open>top\<close> gives up.
\<close>

theorem items_of_windows:
  assumes "w \<in> set (built_windows mode ws)" "list_all (\<lambda>w. tw_sortindx w < EU_MAXPFLGS) (built_windows mode ws)"
    and "pi_curitems i = Suc (length (build_items mode ws))" "2 \<le> length as" "pi_heap i (hd as) = Some s"
    and "map rc_item s = build_items mode ws @ PIDS_logical_end # rest" "order = 1 \<or> order = - 1"
  shows "list_all (\<lambda>E. build_items mode ws ! E = field_item E
              \<or> E = EU_CPU \<and> CHKw w Show_FOREST \<and> build_items mode ws ! E = PIDS_extra_item) (window_reads restrict current w)
    \<and> (procps_pids_sort so (Some i) (Some as) (sort_item w) order = Some None \<longleftrightarrow>
         sort_item w = item_named ''TICS_ALL_C'' \<and> \<not> list_ex shows_ctimes (built_windows mode ws))"
proof -
  have v: "VIZISw mode w" "tw_sortindx w < EU_MAXPFLGS" using assms(1,2) by (simp_all add: built_windows_def list_all_iff)
  have asked: "build_items mode ws ! E = field_item E" if "E < 82" "E \<in> {EU_PID, EU_STA, EU_CMD} \<union> set (win_items mode w)" for E
    using build_items_asked [OF that(1) assms(1)] that(2) by blast
  have cpu: "build_items mode ws ! EU_CPU = field_item EU_CPU \<or> build_items mode ws ! EU_CPU = PIDS_extra_item"
    using build_items_nth [of EU_CPU mode ws] by (simp add: eu_numbers)
  have tree: "build_items mode ws ! E = field_item E" if "E \<in> {eu_TREE_HID, eu_TREE_LVL, eu_TREE_ADD}" for E
    using build_items_nth [of E mode ws] that extra_slots by (auto simp: eu_numbers)
  have "build_items mode ws ! E = field_item E \<or> E = EU_CPU \<and> CHKw w Show_FOREST \<and> build_items mode ws ! E = PIDS_extra_item"
    if E: "E \<in> set (window_reads restrict current w)" for E
  proof -
    from E consider "CHKw w Show_FOREST" "E \<in> set forest_reads" | "\<not> CHKw w Show_IDLEPS" "E = EU_CPU" | "E \<in> set (usrselect_reads w)"
      | "E = eu_TREE_HID" | f where "f \<in> set (tw_procflgs w)" "E \<in> set (cell_reads restrict current w f)" | "E = EU_STA"
      by (auto simp: window_reads_def task_reads_def split: if_splits)
    then show ?thesis
    proof cases
      case 1
      then consider "E = EU_CPU" | "E \<in> {eu_TREE_HID, eu_TREE_LVL, eu_TREE_ADD}" | "E = EU_PID" | "E \<in> {EU_TGD, EU_PPD}"
        by (auto simp: forest_reads_def)
      then show ?thesis
      proof cases
        case 4
        then show ?thesis using asked [of E] \<open>CHKw w Show_FOREST\<close> v(1) by (auto simp: win_items_def eu_numbers)
      qed (use cpu tree asked [of EU_PID] \<open>CHKw w Show_FOREST\<close> in \<open>auto simp: eu_numbers\<close>)
    next
      case 2
      then show ?thesis using asked [of EU_CPU] v(1) by (simp add: win_items_def eu_numbers)
    next
      case 3
      then show ?thesis using asked [of E] v(1) by (auto simp: usrselect_reads_def win_items_def eu_numbers split: if_splits)
    next
      case (5 f)
      then show ?thesis using cell_asked [OF assms(1)] by blast
    qed (use tree asked [of EU_STA] in \<open>auto simp: eu_numbers\<close>)
  qed
  then have 1: "list_all (\<lambda>E. build_items mode ws ! E = field_item E
      \<or> E = EU_CPU \<and> CHKw w Show_FOREST \<and> build_items mode ws ! E = PIDS_extra_item) (window_reads restrict current w)"
    by (simp add: list_all_iff)
  have sort: "sort_item w \<notin> set (build_items mode ws) \<longleftrightarrow>
      sort_item w = item_named ''TICS_ALL_C'' \<and> \<not> list_ex shows_ctimes (built_windows mode ws)"
  proof (cases "sort_item w = item_named ''TICS_ALL_C''")
    case True
    then show ?thesis using ctimes_item [OF assms(2)] by simp
  next
    case False
    then show ?thesis using sort_item_asked [OF assms(1) v(2)] by simp
  qed
  note valid = sort_item_valid [OF v(2)]
  have "procps_pids_sort so (Some i) (Some as) (sort_item w) order = Some None \<longleftrightarrow>
      pids_offset (Suc (length (build_items mode ws))) (sort_item w) 0 s = Some None"
    using assms(3-5,7) valid by (auto simp: procps_pids_sort_def Let_def split: option.splits)
  also have "\<dots> \<longleftrightarrow> sort_item w \<notin> set (build_items mode ws)"
    using offset_found [OF assms(6) build_items_valid valid, of "Suc (length (build_items mode ws))" 0]
    by (cases "sort_item w \<in> set (build_items mode ws)") auto
  finally show ?thesis using 1 sort by simp
qed

text \<open>
  A window in forest view with a user selection, and one that sorts by the cumulative times of a column out of view.
\<close>

definition sample_columns :: "32 word \<Rightarrow> nat \<Rightarrow> nat list \<Rightarrow> top_win" where
  "sample_columns flags sortindx shown =
     \<lparr>tw_fieldscur = map (\<lambda>E. 2 * (int E + 37) + (if E \<in> set shown then 1 else 0)) [0 ..< 76], tw_sortindx = sortindx,
      tw_winflags = flags, tw_usrseltyp = 85, tw_begpflg = 0, tw_endpflg = 0, tw_pflgsall = shown, tw_procflgs = shown,
      tw_varcolsz = 0\<rparr>"

definition sample_stacks :: "item list \<Rightarrow> pids_info" where
  "sample_stacks its =
     (let s = map (\<lambda>it. \<lparr>rc_item = it, rc_val = Zero\<rparr>) (its @ [PIDS_logical_end])
      in no_pids\<lparr>pi_curitems := length s, pi_heap := [1 \<mapsto> s, 2 \<mapsto> s]\<rparr>)"

lemma items_of_windows_witness:
  "list_all (\<lambda>E. build_items False [sample_columns 0xB2 18 [0, 20, 32]] ! E = field_item E
      \<or> E = EU_CPU \<and> build_items False [sample_columns 0xB2 18 [0, 20, 32]] ! E = PIDS_extra_item)
     (window_reads False True (sample_columns 0xB2 18 [0, 20, 32]))
   \<and> procps_pids_sort \<lparr>so_strcoll = strcmp, so_strverscmp = strcmp\<rparr>
       (Some (sample_stacks (build_items False [sample_columns 0x70 19 [0, 18, 32]]))) (Some [1, 2])
       (sort_item (sample_columns 0x70 19 [0, 18, 32])) (- 1) = Some None"
proof -
  let ?u = "sample_columns 0xB2 18 [0, 20, 32]" and ?w = "sample_columns 0x70 19 [0, 18, 32]"
  have built: "built_windows False [w] = [w]" for w by (simp add: built_windows_def VIZISw_def)
  have u: "?u \<in> set (built_windows False [?u])" "list_all (\<lambda>w. tw_sortindx w < EU_MAXPFLGS) (built_windows False [?u])"
    and w: "?w \<in> set (built_windows False [?w])" "list_all (\<lambda>w. tw_sortindx w < EU_MAXPFLGS) (built_windows False [?w])"
    by (simp_all add: built) (simp_all add: sample_columns_def EU_MAXPFLGS_def)
  have st: "pi_curitems (sample_stacks its) = Suc (length its)" "(2::nat) \<le> length [1, 2 :: nat]"
    "pi_heap (sample_stacks its) (hd [1, 2]) = Some (map (\<lambda>it. \<lparr>rc_item = it, rc_val = Zero\<rparr>) (its @ [PIDS_logical_end]))"
    "map rc_item (map (\<lambda>it. \<lparr>rc_item = it, rc_val = Zero\<rparr>) (its @ [PIDS_logical_end])) = its @ PIDS_logical_end # []" for its
    by (simp_all add: sample_stacks_def Let_def o_def)
  have "field_item 19 = item_named ''TICS_ALL'' \<and> field_item 19 \<noteq> item_named ''CMD''"
    by (simp add: field_item_def item_named_def Fieldstab_def pids_item_enum_def)
  then have "sort_item ?w = item_named ''TICS_ALL_C''"
    by (simp add: sort_item_def sample_columns_def CHKw_def Show_FOREST_def Show_CTIMES_def Let_def)
  moreover have "\<not> list_ex shows_ctimes (built_windows False [?w])"
    by (simp add: built shows_ctimes_def) (simp add: sample_columns_def EU_TME_def EU_TM2_def)
  ultimately have "procps_pids_sort \<lparr>so_strcoll = strcmp, so_strverscmp = strcmp\<rparr>
      (Some (sample_stacks (build_items False [?w]))) (Some [1, 2]) (sort_item ?w) (- 1) = Some None"
    using items_of_windows [OF w st disjI2 [OF refl], of False True] by simp
  moreover have "CHKw ?u Show_FOREST" by (simp add: CHKw_def sample_columns_def Show_FOREST_def)
  ultimately show ?thesis using items_of_windows [OF u st disjI2 [OF refl], of False True] by simp
qed

end
