(* ===== verification/Spec2Isabelle.thy ===== *)
theory Spec2Isabelle
  imports Escape PwCache Jattach WinAttach Signals Uptime ProcScan MeminfoSpec DiskSpec StatSpec SlabSpec Devname VmstatCmdSpec PidsReach Fileutils TopForestSpec TopFieldsSpec
begin

text \<open>
  A verification development for the C sources of the yc-data-script agent, under
  \<^verbatim>\<open>src/internal/capture\<close>: the procps library and commands (\<^verbatim>\<open>procps/linux\<close>), with which the agent takes
  the state of the system, and the attach client (\<^verbatim>\<open>ycattach/posix\<close>, \<^verbatim>\<open>ycattach/windows\<close>), with which it asks a
  Java virtual machine for dumps.

  \<^bold>\<open>The program.\<close> \<^verbatim>\<open>readproc.c\<close> reads the directories of \<^verbatim>\<open>/proc\<close> and fills a \<open>proc_t\<close> for each process, with names from
  \<^verbatim>\<open>pwcache.c\<close>, \<^verbatim>\<open>escape.c\<close>, \<^verbatim>\<open>namespace.c\<close>, \<^verbatim>\<open>devname.c\<close> and \<^verbatim>\<open>wchan.c\<close>. \<^verbatim>\<open>pids.c\<close> turns these structures into stacks of results
  for the items a caller asks for, and keeps the counts of the last frame by pid. \<^verbatim>\<open>meminfo.c\<close>, \<^verbatim>\<open>proc_vmstat.c\<close>,
  \<^verbatim>\<open>stat.c\<close>, \<^verbatim>\<open>diskstats.c\<close> and \<^verbatim>\<open>slabinfo.c\<close> do the same for one file of \<^verbatim>\<open>/proc\<close> each. The commands \<^verbatim>\<open>vmstat.c\<close> and \<^verbatim>\<open>top.c\<close>
  print what these interfaces return. The attach client looks up its target (\<^verbatim>\<open>psutil.c\<close>), takes on its credentials and
  namespaces (\<^verbatim>\<open>jattach.c\<close>) and speaks the protocol of HotSpot or of OpenJ9.

  \<^bold>\<open>How it is modelled.\<close> C strings, integers and words are those of \<open>Prelude\<close>: a signed integer is an \<open>int\<close> with the
  conversion to its width written out, an unsigned one is a word. State is a record per structure with its static
  variables, and every function returns it updated. A failed call is a value (an error code, \<open>None\<close>, a sum); \<open>None\<close>
  around a whole result means that the code leaves the memory it may touch. What the system answers (files,
  allocator, clock, sockets, name services) is a record of functions or a list of answers that an operation takes, so the
  theorems hold for whatever is answered. Addresses occur where the code depends on aliasing: the stacks of \<^verbatim>\<open>pids.c\<close>
  are in a map from addresses, and the arrays of pointers to them are lists of addresses.

  \<^bold>\<open>Shared theories.\<close>
  \<^item> \<open>Prelude\<close>: strings, numbers, \<open>strtol\<close> and its like, printing; the round trips of decimal numbers.
  \<^item> \<open>Scanf\<close>: \<open>sscanf\<close>. \<open>Floats\<close>: single precision rounding, with the exactness below \<open>2^24\<close>.
  \<^item> \<open>Transport\<close>: sockets and framing of the two attach protocols, with the framing's round trip.
  \<^item> \<open>Stacks\<close>: results, item tables, extents, the array a reap fills, sorting and reading, which each statistics file has
    a copy of. Its locales \<open>item_table\<close> (what a table of set functions promises of a stack) and \<open>refcounted\<close> (what
    \<open>ref\<close> and \<open>unref\<close> promise) are interpreted on the tables and structures of every such file.
  \<^item> \<open>Select\<close>: what \<^verbatim>\<open>meminfo.c\<close> and \<^verbatim>\<open>proc_vmstat.c\<close> share, for any file of numbers.

  \<^bold>\<open>Processes.\<close>
  \<^item> \<open>ProcT\<close> has \<open>proc_t\<close>; \<open>StatusParse\<close>, \<open>StatParse\<close> and \<open>ProcFiles\<close> the parsers of \<^verbatim>\<open>readproc.c\<close>. From the text the kernel
    prints each takes every number (\<open>status2proc_kernel_text\<close>, \<open>stat2proc_kernel_line\<close>); the hash of \<open>status2proc\<close> is
    perfect, and the fixed buffers hold.
  \<^item> \<open>Readproc\<close> and \<open>ProcScan\<close>: \<open>openproc\<close>, the finders and readers, \<open>readproc\<close>, \<open>readeither\<close>. A scan returns exactly the
    processes there are, in order and once each.
  \<^item> \<open>PwCache\<close> (locale \<open>name_cache\<close>, interpreted on both caches), \<open>Escape\<close>, \<open>Namespace\<close>, \<open>Devname\<close>, \<open>SysInfo\<close>, \<open>Uptime\<close>,
    \<open>Signals\<close>, \<open>Fileutils\<close>: the files of these names.
  \<^item> \<open>PidsItems\<close> (the table of items and set functions), \<open>PidsHist\<close> (the hashed history), \<open>Pids\<close> (the context and its
    operations), with \<open>PidsItemsSpec\<close>, \<open>PidsSpec\<close> and \<open>PidsReach\<close>: the table agrees with the header and with what each item
    owns, the history refines a map from pids to counts, a reap fills a stack per process, and whatever is
    called, strings are freed once and directory streams are closed. \<open>PidsReach\<close> has the calls as a step relation.

  \<^bold>\<open>Statistics.\<close> \<open>Meminfo\<close>, \<open>Vmstat\<close>, \<open>Stat\<close>, \<open>Diskstats\<close> and \<open>Slabinfo\<close>, each with its properties in the theory \<open>...Spec\<close> (\<open>DiskSpec\<close>,
  \<open>SlabSpec\<close>): from the kernel's text to the caller's stack, differences between reads, reference counting. The step
  relations there give the invariants of structures under any sequence of calls.

  \<^bold>\<open>Commands.\<close> \<open>VmstatCmd\<close> is the whole of \<^verbatim>\<open>vmstat.c\<close> over the interfaces above, and \<open>VmstatCmdSpec\<close> shows the first line from the
  files, the number of rows, the percentages and where sizes lose precision. \<open>TopForest\<close> is the table of fields, the
  forest view and the user selection of \<^verbatim>\<open>top.c\<close>; \<open>TopForestSpec\<close> shows that the recursion writes every process once in the
  order of a recursive definition, and which processes collapsed parents hide. \<open>TopFields\<close> has its strings of
  multi-byte characters, cells, filters, column widths, the fields a window shows and the items it asks \<^verbatim>\<open>pids.c\<close> for;
  \<open>TopFieldsSpec\<close> shows that what \<^verbatim>\<open>escape.c\<close> lets through makes cells of the right width, that a header fits the
  screen, and that every result a window reads was asked for.

  \<^bold>\<open>Attach client.\<close> \<open>PsUtil\<close>, \<open>HotSpot\<close>, \<open>OpenJ9\<close>, \<open>Jattach\<close> and \<open>WinAttach\<close> are the files of these names: what is acquired is
  released on every path, waiting ends, credentials are those of the target or nothing is done.

  \<^bold>\<open>Bounds.\<close> Loops over data are structural or have a measure. Loops that wait for the world take the list of
  answers they get, one for each turn, and end with it (\<open>vm_rounds\<close>) or return \<open>None\<close>. In \<open>Floats\<close> 100 steps of the unit
  in the last place cover the numbers from \<open>2^(-57)\<close> to \<open>2^44\<close>. A forest is built by recursion on the places that
  are left. Doubles are rationals, so the rounding of a \<open>double\<close> is not seen; that of a \<open>float\<close> is, where it
  reaches a result.

  \<^bold>\<open>Not modelled.\<close> The rest of \<^verbatim>\<open>top.c\<close> with \<^verbatim>\<open>top_nls.c\<close>: the screen, the keyboard, colours, the summary, scaled numbers, the
  configuration file and the messages, most of it input and output over terminfo. The agent itself, which is written in Go. Debugging
  functions (\<open>xtra_...\<close>, \<open>ITEMTABLE_DEBUG\<close>), alternatives that are not built (systemd, Cygwin, the commented-out options of
  \<^verbatim>\<open>top.h\<close>), the branches for macOS and FreeBSD, the texts of error messages and their translation.
\<close>

end
